(* ===== verification/Prelude.thy ===== *)
theory Prelude
  imports
    Main
    "HOL-Library.Word"
    "HOL-Library.AList"
    "HOL-Library.List_Lexorder"
    "HOL-Library.Char_ord"
begin

text \<open>
  Shared vocabulary of the development: the machine integers of the Rust sources with their
  saturating and checked operations, the result type of a fallible function, hash maps as
  association lists, and the collections of facts the component theories feed to the simplifier.

  Integers keep their width: \<open>u32\<close> and \<open>u64\<close> are words, \<open>usize\<close> (list lengths and indices) is
  \<^typ>\<open>nat\<close>. A \<open>Bytes32\<close> is a 256-bit word, read big-endian, so that its order is the byte order
  the databases sort by.
\<close>

type_synonym u8 = "8 word"
type_synonym u16 = "16 word"
type_synonym u32 = "32 word"
type_synonym u64 = "64 word"
type_synonym u128 = "128 word"
type_synonym bytes32 = "256 word"

text \<open>A hash map: an association list, whose order stands for the unspecified iteration order.\<close>

type_synonym ('k, 'v) hash_map = "('k \<times> 'v) list"

named_theorems word_nat \<open>facts that move comparisons and arithmetic of words to nat\<close>
named_theorems store_simps \<open>lookup after an update of a store\<close>
named_theorems result_simps \<open>sequencing of fallible steps\<close>

section \<open>Machine arithmetic\<close>

definition saturating_add :: "'a::len word \<Rightarrow> 'a word \<Rightarrow> 'a word" where
  "saturating_add a b = (if unat a + unat b < 2 ^ LENGTH('a) then a + b else - 1)"

definition saturating_sub :: "'a::len word \<Rightarrow> 'a word \<Rightarrow> 'a word" where
  "saturating_sub a b = (if b \<le> a then a - b else 0)"

definition checked_add :: "'a::len word \<Rightarrow> 'a word \<Rightarrow> 'a word option" where
  "checked_add a b = (if unat a + unat b < 2 ^ LENGTH('a) then Some (a + b) else None)"

definition checked_sub :: "'a::len word \<Rightarrow> 'a word \<Rightarrow> 'a word option" where
  "checked_sub a b = (if b \<le> a then Some (a - b) else None)"

definition checked_mul :: "'a::len word \<Rightarrow> 'a word \<Rightarrow> 'a word option" where
  "checked_mul a b = (if unat a * unat b < 2 ^ LENGTH('a) then Some (a * b) else None)"

declare word_less_nat_alt [word_nat] word_le_nat_alt [word_nat]

lemma unat_plus_no_overflow:
  "unat (a + b) = unat a + unat b" if "unat a + unat b < 2 ^ LENGTH('a)" for a b :: "'a::len word"
  using that by (simp add: unat_word_ariths)

lemma unat_times_no_overflow:
  "unat (a * b) = unat a * unat b" if "unat a * unat b < 2 ^ LENGTH('a)" for a b :: "'a::len word"
  using that by (simp add: unat_word_ariths)

lemma unat_minus_no_underflow:
  "unat (a - b) = unat a - unat b" if "b \<le> a" for a b :: "'a::len word"
  using that by (rule unat_sub)

lemma unat_minus_one [simp]: "unat (- 1 :: 'a::len word) = 2 ^ LENGTH('a) - 1"
  by (simp add: unsigned_minus_1_eq_mask mask_eq_exp_minus_1)

lemma unat_saturating_sub [simp, word_nat]:
  "unat (saturating_sub a b) = unat a - unat b"
  by (simp add: saturating_sub_def unat_sub word_le_nat_alt)

lemma unat_saturating_add [simp, word_nat]:
  "unat (saturating_add a b) = min (unat a + unat b) (2 ^ LENGTH('a) - 1)"
  for a b :: "'a::len word"
  by (auto simp: saturating_add_def unat_plus_no_overflow)

lemma saturating_sub_self [simp]: "saturating_sub a a = 0"
  by (simp add: saturating_sub_def)

lemma saturating_sub_le: "saturating_sub a b \<le> a"
  by (simp add: word_nat)

lemma checked_add_Some:
  "checked_add a b = Some c \<longleftrightarrow> unat c = unat a + unat b" for a b c :: "'a::len word"
proof
  assume "checked_add a b = Some c"
  then show "unat c = unat a + unat b"
    by (auto simp: checked_add_def unat_plus_no_overflow split: if_splits)
next
  assume c: "unat c = unat a + unat b"
  then have "unat a + unat b < 2 ^ LENGTH('a)" by (metis unsigned_less)
  with c show "checked_add a b = Some c"
    by (simp add: checked_add_def unat_plus_no_overflow word_unat_eq_iff)
qed

lemma checked_sub_Some:
  "checked_sub a b = Some c \<longleftrightarrow> unat a = unat b + unat c" for a b c :: "'a::len word"
  by (auto simp: checked_sub_def word_le_nat_alt unat_sub word_unat_eq_iff split: if_splits)

lemma checked_mul_Some:
  "checked_mul a b = Some c \<longleftrightarrow> unat c = unat a * unat b" for a b c :: "'a::len word"
proof
  assume "checked_mul a b = Some c"
  then show "unat c = unat a * unat b"
    by (auto simp: checked_mul_def unat_times_no_overflow split: if_splits)
next
  assume c: "unat c = unat a * unat b"
  then have "unat a * unat b < 2 ^ LENGTH('a)" by (metis unsigned_less)
  with c show "checked_mul a b = Some c"
    by (simp add: checked_mul_def unat_times_no_overflow word_unat_eq_iff)
qed

lemma unat_ucast_up:
  fixes w :: "'a::len word"
  assumes "LENGTH('a) \<le> LENGTH('b::len)"
  shows "unat (ucast w :: 'b word) = unat w"
proof -
  have "unat w < 2 ^ LENGTH('a)" by (rule unsigned_less)
  also have "(2::nat) ^ LENGTH('a) \<le> 2 ^ LENGTH('b)" using assms by simp
  finally show ?thesis by (simp add: unsigned_ucast_eq take_bit_nat_eq_self)
qed

section \<open>Results\<close>

text \<open>\<open>Result<T, E>\<close> is \<open>'e + 'a\<close>; \<open>try r k\<close> is \<open>let x = r?; k(x)\<close>.\<close>

fun try_result :: "'e + 'a \<Rightarrow> ('a \<Rightarrow> 'e + 'b) \<Rightarrow> 'e + 'b" where
  "try_result (Inl e) k = Inl e"
| "try_result (Inr x) k = k x"

fun ok_or :: "'a option \<Rightarrow> 'e \<Rightarrow> 'e + 'a" where
  "ok_or None e = Inl e"
| "ok_or (Some x) e = Inr x"

fun map_err :: "('e \<Rightarrow> 'f) \<Rightarrow> 'e + 'a \<Rightarrow> 'f + 'a" where
  "map_err f (Inl e) = Inl (f e)"
| "map_err f (Inr x) = Inr x"

fun unwrap_or :: "'a option \<Rightarrow> 'a \<Rightarrow> 'a" where
  "unwrap_or None d = d"
| "unwrap_or (Some x) d = x"

fun option_list :: "'a option \<Rightarrow> 'a list" where
  "option_list None = []"
| "option_list (Some x) = [x]"

lemma try_result_Inr [result_simps]:
  "try_result r k = Inr y \<longleftrightarrow> (\<exists>x. r = Inr x \<and> k x = Inr y)"
  by (cases r) auto

lemma try_result_Inl [result_simps]:
  "try_result r k = Inl e \<longleftrightarrow> r = Inl e \<or> (\<exists>x. r = Inr x \<and> k x = Inl e)"
  by (cases r) auto

lemma try_result_cong [fundef_cong]:
  "r = r' \<Longrightarrow> (\<And>x. r' = Inr x \<Longrightarrow> k x = k' x) \<Longrightarrow> try_result r k = try_result r' k'"
  by (cases r') auto

lemma ok_or_Inr [result_simps]: "ok_or v e = Inr x \<longleftrightarrow> v = Some x"
  by (cases v) auto

lemma ok_or_Inl [result_simps]: "ok_or v e = Inl e' \<longleftrightarrow> v = None \<and> e' = e"
  by (cases v) auto

lemma map_err_Inr [result_simps]: "map_err f r = Inr x \<longleftrightarrow> r = Inr x"
  by (cases r) auto

lemma set_option_list [simp]: "set (option_list v) = set_option v"
  by (cases v) auto

text \<open>Code that can panic has an outcome.\<close>

datatype 'a outcome = Returned 'a | Panicked

lemma map_outcome_Returned [result_simps]:
  "map_outcome f r = Returned y \<longleftrightarrow> (\<exists>x. r = Returned x \<and> f x = y)"
  by (cases r) auto

text \<open>
  The code after a \<open>?\<close> where a panic is possible too, and what panics on \<open>None\<close>: \<open>unwrap\<close> and an index
  out of range.
\<close>

fun attempt :: "('e + 'a) outcome \<Rightarrow> ('a \<Rightarrow> ('e + 'b) outcome) \<Rightarrow> ('e + 'b) outcome" where
  "attempt Panicked k = Panicked"
| "attempt (Returned (Inl e)) k = Returned (Inl e)"
| "attempt (Returned (Inr x)) k = k x"

lemma attempt_Inr [result_simps]:
  "attempt r k = Returned (Inr y) \<longleftrightarrow> (\<exists>x. r = Returned (Inr x) \<and> k x = Returned (Inr y))"
  by (cases "(r, k)" rule: attempt.cases) auto

lemma attempt_cong [fundef_cong]:
  "r = r' \<Longrightarrow> (\<And>x. r' = Returned (Inr x) \<Longrightarrow> k x = k' x) \<Longrightarrow> attempt r k = attempt r' k'"
  by (cases "(r', k')" rule: attempt.cases) auto

definition unwrap :: "'a option \<Rightarrow> ('e + 'a) outcome" where
  "unwrap v = (case v of None \<Rightarrow> Panicked | Some x \<Rightarrow> Returned (Inr x))"

lemma unwrap_simps [simp]: "unwrap None = Panicked" "unwrap (Some x) = Returned (Inr x)"
  by (simp_all add: unwrap_def)

lemma unwrap_Inr [result_simps]: "unwrap v = Returned (Inr x) \<longleftrightarrow> v = Some x"
  by (cases v) auto

definition nth_checked :: "'a list \<Rightarrow> nat \<Rightarrow> 'a option" where
  "nth_checked xs i = (if i < length xs then Some (xs ! i) else None)"

lemma nth_checked_Some: "nth_checked xs i = Some x \<longleftrightarrow> i < length xs \<and> xs ! i = x"
  by (auto simp: nth_checked_def)

text \<open>The code after a \<open>?\<close> where a panic and an endless loop (\<open>None\<close>) are possible too.\<close>

definition then_try ::
  "('e + 'a) outcome option \<Rightarrow> ('a \<Rightarrow> ('e + 'b) outcome option) \<Rightarrow> ('e + 'b) outcome option"
where
  "then_try r k =
     (case r of
        None \<Rightarrow> None
      | Some Panicked \<Rightarrow> Some Panicked
      | Some (Returned (Inl e)) \<Rightarrow> Some (Returned (Inl e))
      | Some (Returned (Inr x)) \<Rightarrow> k x)"

lemma then_try_simps [simp]:
  "then_try None k = None" "then_try (Some Panicked) k = Some Panicked"
  "then_try (Some (Returned (Inl e))) k = Some (Returned (Inl e))"
  "then_try (Some (Returned (Inr x))) k = k x"
  by (simp_all add: then_try_def)

lemma then_try_Inr [result_simps]:
  "then_try r k = Some (Returned (Inr y)) \<longleftrightarrow>
     (\<exists>x. r = Some (Returned (Inr x)) \<and> k x = Some (Returned (Inr y)))"
  by (auto simp: then_try_def split: option.splits outcome.splits sum.splits)

definition given :: "'e + 'a \<Rightarrow> ('e + 'a) outcome option" where
  "given r = Some (Returned r)"

lemma given_Inr [result_simps]: "given r = Some (Returned (Inr x)) \<longleftrightarrow> r = Inr x"
  by (simp add: given_def)

lemma given_simps [simp]: "given (Inl e) = Some (Returned (Inl e))" "given (Inr x) = Some (Returned (Inr x))"
  by (simp_all add: given_def)

section \<open>The last element\<close>

definition last_opt :: "'a list \<Rightarrow> 'a option" where
  "last_opt xs = (if xs = [] then None else Some (last xs))"

lemma last_opt_Nil [simp]: "last_opt [] = None"
  by (simp add: last_opt_def)

lemma last_opt_snoc [simp]: "last_opt (xs @ [x]) = Some x"
  by (simp add: last_opt_def)

lemma last_opt_single [simp]: "last_opt [x] = Some x"
  by (simp add: last_opt_def)

lemma last_opt_append:
  "last_opt (xs @ ys) = (case last_opt ys of None \<Rightarrow> last_opt xs | Some y \<Rightarrow> Some y)"
  by (simp add: last_opt_def)

lemma last_opt_None [simp]: "last_opt xs = None \<longleftrightarrow> xs = []"
  by (simp add: last_opt_def)

lemma last_opt_option_list [simp]: "last_opt (option_list v) = v"
  by (cases v) auto

lemma last_opt_Some_in: "last_opt xs = Some x \<Longrightarrow> x \<in> set xs"
  by (auto simp: last_opt_def split: if_splits)

lemma find_SomeD: "find p xs = Some x \<Longrightarrow> x \<in> set xs \<and> p x"
  by (induction xs) (auto split: if_splits)

section \<open>Hash maps\<close>

text \<open>
  \<open>get\<close>, \<open>insert\<close>, \<open>remove\<close> and \<open>keys\<close> of \<open>std::collections::HashMap\<close>. A map's keys are distinct,
  which every operation keeps.
\<close>

definition hm_ok :: "('k, 'v) hash_map \<Rightarrow> bool" where
  "hm_ok m \<longleftrightarrow> distinct (map fst m)"

abbreviation hm_get :: "('k, 'v) hash_map \<Rightarrow> 'k \<Rightarrow> 'v option" where
  "hm_get \<equiv> map_of"

abbreviation hm_insert :: "'k \<Rightarrow> 'v \<Rightarrow> ('k, 'v) hash_map \<Rightarrow> ('k, 'v) hash_map" where
  "hm_insert \<equiv> AList.update"

abbreviation hm_remove :: "'k \<Rightarrow> ('k, 'v) hash_map \<Rightarrow> ('k, 'v) hash_map" where
  "hm_remove \<equiv> AList.delete"

abbreviation hm_keys :: "('k, 'v) hash_map \<Rightarrow> 'k list" where
  "hm_keys m \<equiv> map fst m"

lemma hm_ok_Nil [simp]: "hm_ok []"
  by (simp add: hm_ok_def)

lemma hm_ok_insert [simp]: "hm_ok m \<Longrightarrow> hm_ok (hm_insert k v m)"
  by (simp add: hm_ok_def distinct_update)

lemma hm_ok_remove [simp]: "hm_ok m \<Longrightarrow> hm_ok (hm_remove k m)"
  by (simp add: hm_ok_def distinct_delete)

lemma hm_get_insert [simp, store_simps]:
  "hm_get (hm_insert k v m) k' = (if k' = k then Some v else hm_get m k')"
  by (simp add: update_conv)

lemma hm_get_remove [simp, store_simps]:
  "hm_get (hm_remove k m) k' = (if k' = k then None else hm_get m k')"
  by (simp add: delete_conv')

lemma hm_keys_iff: "k \<in> set (hm_keys m) \<longleftrightarrow> hm_get m k \<noteq> None"
  by (simp add: map_of_eq_None_iff)

lemma hm_get_in_set: "hm_ok m \<Longrightarrow> hm_get m k = Some v \<longleftrightarrow> (k, v) \<in> set m"
  by (simp add: hm_ok_def)

section \<open>Record stores\<close>

text \<open>
  The interface the listener's stores share (the traits \<open>SingletonStore\<close>, \<open>HandleSlotStore\<close>,
  \<open>RegistrationStore\<close> and \<open>PendingUpdateStore\<close>): records looked up by a key that the record itself
  carries. \<open>sweep\<close> is the loop \<open>for key in all_keys { let Some(rec) = get(key) else continue; ... }\<close>
  whose body either writes the record back or removes its key.
\<close>

fun sweep ::
  "('s \<Rightarrow> 'k \<Rightarrow> 'r option) \<Rightarrow> ('r \<Rightarrow> 's \<Rightarrow> 's) \<Rightarrow> ('k \<Rightarrow> 's \<Rightarrow> 's) \<Rightarrow> ('r \<Rightarrow> 'r option)
    \<Rightarrow> 'k list \<Rightarrow> 's \<Rightarrow> 's"
where
  "sweep get upsert remove f [] s = s"
| "sweep get upsert remove f (k # ks) s =
     (case get s k of
        None \<Rightarrow> sweep get upsert remove f ks s
      | Some rec \<Rightarrow>
          (case f rec of
             None \<Rightarrow> sweep get upsert remove f ks (remove k s)
           | Some rec' \<Rightarrow> sweep get upsert remove f ks (upsert rec' s)))"

locale record_store =
  fixes get :: "'s \<Rightarrow> 'k \<Rightarrow> 'r option"
    and upsert :: "'r \<Rightarrow> 's \<Rightarrow> 's"
    and remove :: "'k \<Rightarrow> 's \<Rightarrow> 's"
    and all_keys :: "'s \<Rightarrow> 'k list"
    and key_of :: "'r \<Rightarrow> 'k"
    and invar :: "'s \<Rightarrow> bool"
  assumes get_upsert:
      "invar s \<Longrightarrow> get (upsert r s) k = (if k = key_of r then Some r else get s k)"
    and get_remove: "invar s \<Longrightarrow> get (remove k s) k' = (if k' = k then None else get s k')"
    and keys_get: "invar s \<Longrightarrow> set (all_keys s) = {k. get s k \<noteq> None}"
    and keys_distinct: "invar s \<Longrightarrow> distinct (all_keys s)"
    and key_of_get: "invar s \<Longrightarrow> get s k = Some r \<Longrightarrow> key_of r = k"
    and invar_upsert: "invar s \<Longrightarrow> invar (upsert r s)"
    and invar_remove: "invar s \<Longrightarrow> invar (remove k s)"
begin

lemma sweep_keys:
  assumes "invar s" and "distinct ks"
    and "\<And>r r'. f r = Some r' \<Longrightarrow> key_of r' = key_of r"
  shows "invar (sweep get upsert remove f ks s) \<and>
    get (sweep get upsert remove f ks s) k =
      (if k \<in> set ks then Option.bind (get s k) f else get s k)"
  using assms(1,2)
proof (induction ks arbitrary: s)
  case Nil
  then show ?case by simp
next
  case (Cons a ks)
  show ?case
  proof (cases "get s a")
    case None
    with Cons show ?thesis by auto
  next
    case (Some r)
    with Cons.prems have key: "key_of r = a" by (simp add: key_of_get)
    show ?thesis
    proof (cases "f r")
      case None
      with Some Cons.prems Cons.IH [of "remove a s"] show ?thesis
        by (auto simp: get_remove invar_remove)
    next
      case f: (Some r')
      with assms(3) key have "key_of r' = a" by simp
      with f Some Cons.prems Cons.IH [of "upsert r' s"] show ?thesis
        by (auto simp: get_upsert invar_upsert)
    qed
  qed
qed

lemma sweep_all:
  assumes "invar s" and "\<And>r r'. f r = Some r' \<Longrightarrow> key_of r' = key_of r"
  shows "get (sweep get upsert remove f (all_keys s) s) k = Option.bind (get s k) f"
proof -
  have "get (sweep get upsert remove f (all_keys s) s) k =
      (if k \<in> set (all_keys s) then Option.bind (get s k) f else get s k)"
    using sweep_keys [OF assms(1) keys_distinct [OF assms(1)]] assms(2) by blast
  then show ?thesis by (simp add: keys_get [OF assms(1)])
qed

lemma invar_sweep:
  assumes "invar s" and "\<And>r r'. f r = Some r' \<Longrightarrow> key_of r' = key_of r"
  shows "invar (sweep get upsert remove f (all_keys s) s)"
  using sweep_keys [OF assms(1) keys_distinct [OF assms(1)]] assms(2) by blast

end

text \<open>A hash map whose records carry their key is such a store.\<close>

definition keyed :: "('r \<Rightarrow> 'k) \<Rightarrow> ('k, 'r) hash_map \<Rightarrow> bool" where
  "keyed key_of m \<longleftrightarrow> hm_ok m \<and> (\<forall>(k, r) \<in> set m. key_of r = k)"

lemma keyed_Nil [simp]: "keyed key_of []"
  by (simp add: keyed_def)

lemma keyed_hm_ok: "keyed key_of m \<Longrightarrow> hm_ok m"
  by (simp add: keyed_def)

lemma keyed_get: "keyed key_of m \<Longrightarrow> hm_get m k = Some r \<Longrightarrow> key_of r = k"
  by (auto simp: keyed_def dest: map_of_SomeD)

lemma keyedI:
  assumes "hm_ok m" and "\<And>k r. hm_get m k = Some r \<Longrightarrow> key_of r = k"
  shows "keyed key_of m"
  using assms by (auto simp: keyed_def hm_get_in_set [OF assms(1), symmetric])

lemma keyed_insert [simp]:
  assumes "keyed key_of m"
  shows "keyed key_of (hm_insert (key_of r) r m)"
proof (rule keyedI)
  show "hm_ok (hm_insert (key_of r) r m)" using assms by (simp add: keyed_hm_ok)
next
  fix k r'
  assume "hm_get (hm_insert (key_of r) r m) k = Some r'"
  then show "key_of r' = k"
    using keyed_get [OF assms] by (simp add: hm_get_insert split: if_splits)
qed

lemma keyed_remove [simp]:
  assumes "keyed key_of m"
  shows "keyed key_of (hm_remove k m)"
proof (rule keyedI)
  show "hm_ok (hm_remove k m)" using assms by (simp add: keyed_hm_ok)
next
  fix k' r'
  assume "hm_get (hm_remove k m) k' = Some r'"
  then show "key_of r' = k'"
    using keyed_get [OF assms] by (simp add: hm_get_remove split: if_splits)
qed

lemma record_store_hash_map:
  "record_store hm_get (\<lambda>r. hm_insert (key_of r) r) hm_remove hm_keys key_of (keyed key_of)"
proof
  fix m and k r
  assume m: "keyed key_of m"
  show "set (hm_keys m) = {k. hm_get m k \<noteq> None}"
    by (rule set_eqI) (simp only: hm_keys_iff mem_Collect_eq)
  show "distinct (hm_keys m)"
    using keyed_hm_ok [OF m] by (simp add: hm_ok_def)
  show "hm_get m k = Some r \<Longrightarrow> key_of r = k"
    by (rule keyed_get [OF m])
qed simp_all

text \<open>So is a structure that keeps such a map in one of its fields (\<open>m\<close> reads it).\<close>

lemma record_store_field:
  assumes get: "\<And>s k. get s k = hm_get (m s) k"
    and upsert: "\<And>r s. m (upsert r s) = hm_insert (key_of r) r (m s)"
    and remove: "\<And>k s. m (remove k s) = hm_remove k (m s)"
    and keys: "\<And>s. all_keys s = hm_keys (m s)"
    and keyed: "\<And>s. invar s \<Longrightarrow> keyed key_of (m s)"
    and invar_upsert: "\<And>r s. invar s \<Longrightarrow> invar (upsert r s)"
    and invar_remove: "\<And>k s. invar s \<Longrightarrow> invar (remove k s)"
  shows "record_store get upsert remove all_keys key_of invar"
proof
  fix s and k k' r
  assume s: "invar s"
  show "get (upsert r s) k = (if k = key_of r then Some r else get s k)"
    by (simp add: get upsert)
  show "get (remove k s) k' = (if k' = k then None else get s k')"
    by (simp add: get remove)
  show "set (all_keys s) = {k. get s k \<noteq> None}"
    unfolding keys get by (rule set_eqI) (simp only: hm_keys_iff mem_Collect_eq)
  show "distinct (all_keys s)"
    using keyed_hm_ok [OF keyed [OF s]] by (simp add: keys hm_ok_def)
  show "get s k = Some r \<Longrightarrow> key_of r = k"
    unfolding get by (rule keyed_get [OF keyed [OF s]])
  show "invar (upsert r s)" by (rule invar_upsert [OF s])
  show "invar (remove k s)" by (rule invar_remove [OF s])
qed

end
