(* ===== verification/History.thy ===== *)
theory History
  imports Prelude
begin

text \<open>
  The bounded history every listener store keeps: the current state of a record and the states it
  replaced, pruned to the last 32 blocks and one older predecessor, from which a reorganization
  restores what was current before its first orphaned height. The four stores repeat the same three
  functions on their own state types; the loops are translated here once, over the function that
  reads a state's height, and the stores instantiate them.

  The locale \<open>versioned_record\<close> is the contract a store's record meets. Its abstract specification is
  the unbounded log of states (\<open>spec_log\<close>): a replacement appends, a reorganization from height \<open>f\<close>
  drops every state confirmed at \<open>f\<close> or later, and the current state is the last one.
\<close>

section \<open>Pruning\<close>

text \<open>\<open>for state in history.drain(..)\<close>: the newest older state and the recent ones, in order.\<close>

fun prune_scan :: "('s \<Rightarrow> u32) \<Rightarrow> u32 \<Rightarrow> 's list \<Rightarrow> 's option \<Rightarrow> 's list \<Rightarrow> 's option \<times> 's list" where
  "prune_scan h cutoff [] older keep_recent = (older, keep_recent)"
| "prune_scan h cutoff (state # states) older keep_recent =
     (if cutoff \<le> h state then prune_scan h cutoff states older (keep_recent @ [state])
      else prune_scan h cutoff states (Some state) keep_recent)"

definition prune_by :: "('s \<Rightarrow> u32) \<Rightarrow> 's list \<Rightarrow> u32 \<Rightarrow> 's list" where
  "prune_by h history peak =
     (if history = [] then []
      else
        (let cutoff = saturating_sub peak 32;
             (older, keep_recent) = prune_scan h cutoff history None []
         in option_list older @ keep_recent))"

lemma prune_scan_eq:
  "prune_scan h c xs older recent =
     ((case last_opt (filter (\<lambda>s. h s < c) xs) of None \<Rightarrow> older | Some s \<Rightarrow> Some s),
      recent @ filter (\<lambda>s. c \<le> h s) xs)"
proof (induction xs arbitrary: older recent)
  case Nil
  then show ?case by simp
next
  case (Cons x xs)
  then show ?case
    by (cases "c \<le> h x") (auto simp: last_opt_def not_le split: option.splits)
qed

lemma prune_by_eq:
  "prune_by h xs peak =
     option_list (last_opt (filter (\<lambda>s. h s < saturating_sub peak 32) xs)) @
     filter (\<lambda>s. saturating_sub peak 32 \<le> h s) xs"
  by (auto simp: prune_by_def prune_scan_eq Let_def split: option.splits)

lemma set_prune_by: "set (prune_by h xs peak) \<subseteq> set xs"
  by (auto simp: prune_by_eq dest!: last_opt_Some_in split: option.splits)

lemma prune_by_recent:
  "filter (\<lambda>s. saturating_sub peak 32 \<le> h s) (prune_by h xs peak) =
     filter (\<lambda>s. saturating_sub peak 32 \<le> h s) xs"
proof -
  have "filter (\<lambda>s. saturating_sub peak 32 \<le> h s)
      (option_list (last_opt (filter (\<lambda>s. h s < saturating_sub peak 32) xs))) = []"
    by (cases "last_opt (filter (\<lambda>s. h s < saturating_sub peak 32) xs)")
      (auto dest!: last_opt_Some_in)
  then show ?thesis by (simp add: prune_by_eq)
qed

lemma prune_by_older:
  "length (filter (\<lambda>s. h s < saturating_sub peak 32) (prune_by h xs peak)) \<le> 1"
proof -
  have "length (filter P (option_list v)) \<le> 1" for P and v :: "'a option"
    by (cases v) auto
  moreover have "filter (\<lambda>s. h s < c) (filter (\<lambda>s. c \<le> h s) xs) = []" for c
    by (auto simp: filter_empty_conv)
  ultimately show ?thesis by (simp add: prune_by_eq)
qed

section \<open>Rolling back\<close>

text \<open>The second loop of a rollback: the last state below \<open>from_height\<close> and all states below it.\<close>

fun rollback_scan :: "('s \<Rightarrow> u32) \<Rightarrow> u32 \<Rightarrow> 's list \<Rightarrow> 's option \<Rightarrow> 's list \<Rightarrow> 's option \<times> 's list" where
  "rollback_scan h from_height [] restored kept = (restored, kept)"
| "rollback_scan h from_height (state # states) restored kept =
     (if h state < from_height
      then rollback_scan h from_height states (Some state) (kept @ [state])
      else rollback_scan h from_height states restored kept)"

definition rollback_by :: "('s \<Rightarrow> u32) \<Rightarrow> u32 \<Rightarrow> 's option \<Rightarrow> 's list \<Rightarrow> 's option \<times> 's list" where
  "rollback_by h from_height current history =
     (let current' = (case current of
                        None \<Rightarrow> None
                      | Some cur \<Rightarrow> if from_height \<le> h cur then None else Some cur);
          (restored, kept) = rollback_scan h from_height history None []
      in (if current' = None then restored else current', kept))"

definition below :: "('s \<Rightarrow> u32) \<Rightarrow> u32 \<Rightarrow> 's list \<Rightarrow> 's list" where
  "below h f xs = filter (\<lambda>s. h s < f) xs"

lemma below_Nil [simp]: "below h f [] = []"
  by (simp add: below_def)

lemma below_append [simp]: "below h f (xs @ ys) = below h f xs @ below h f ys"
  by (simp add: below_def)

lemma below_single: "below h f [s] = (if h s < f then [s] else [])"
  by (simp add: below_def)

lemma set_below [simp]: "set (below h f xs) = {s \<in> set xs. h s < f}"
  by (simp add: below_def)

lemma below_below: "below h f (below h g xs) = below h (min f g) xs"
  by (auto simp: below_def intro: filter_cong)

lemma rollback_scan_eq:
  "rollback_scan h f xs restored kept =
     ((case last_opt (below h f xs) of None \<Rightarrow> restored | Some s \<Rightarrow> Some s), kept @ below h f xs)"
proof (induction xs arbitrary: restored kept)
  case Nil
  then show ?case by simp
next
  case (Cons x xs)
  then show ?case
    by (cases "h x < f") (auto simp: last_opt_def below_def split: option.splits)
qed

lemma rollback_by_eq:
  "rollback_by h f cur hist =
     (last_opt (below h f (hist @ option_list cur)), below h f hist)"
  by (auto simp: rollback_by_def rollback_scan_eq below_single last_opt_append not_le
      split: option.splits)

lemma rollback_by_below:
  assumes "rollback_by h f cur hist = (cur', hist')"
  shows "\<forall>s \<in> set_option cur' \<union> set hist'. h s < f"
  using assms by (auto simp: rollback_by_eq dest!: last_opt_Some_in simp del: below_append)

section \<open>The abstract specification\<close>

datatype 's reorg_event = Replace 's | Reorg u32

fun spec_log :: "('s \<Rightarrow> u32) \<Rightarrow> 's list \<Rightarrow> 's reorg_event list \<Rightarrow> 's list" where
  "spec_log h log [] = log"
| "spec_log h log (Replace s # es) = spec_log h (log @ [s]) es"
| "spec_log h log (Reorg f # es) = spec_log h (below h f log) es"

text \<open>
  The discipline the listener's driver keeps: replacements arrive in height order, and a
  reorganization reaches at most 32 blocks below the highest height seen (\<open>hw\<close>).
\<close>

fun in_window :: "('s \<Rightarrow> u32) \<Rightarrow> u32 \<Rightarrow> 's list \<Rightarrow> 's reorg_event list \<Rightarrow> bool" where
  "in_window h hw log [] = True"
| "in_window h hw log (Replace s # es) =
     (list_all (\<lambda>t. h t \<le> h s) log \<and> in_window h (max hw (h s)) (log @ [s]) es)"
| "in_window h hw log (Reorg f # es) =
     (saturating_sub hw 32 \<le> f \<and> in_window h hw (below h f log) es)"

text \<open>The implementation replays the same events on a record.\<close>

fun replay ::
  "('r \<Rightarrow> 's \<Rightarrow> u32 \<Rightarrow> 'r) \<Rightarrow> ('r \<Rightarrow> u32 \<Rightarrow> 'r) \<Rightarrow> ('s \<Rightarrow> u32) \<Rightarrow> 'r \<Rightarrow> 's reorg_event list \<Rightarrow> 'r"
where
  "replay push rollback h r [] = r"
| "replay push rollback h r (Replace s # es) = replay push rollback h (push r s (h s)) es"
| "replay push rollback h r (Reorg f # es) = replay push rollback h (rollback r f) es"

lemma last_opt_filter_dup:
  "last_opt (filter P (ys @ option_list (last_opt ys))) = last_opt (filter P ys)"
  by (cases ys rule: rev_cases) (auto simp: last_opt_def)

lemma below_prune:
  assumes "sorted (map h xs)" and "saturating_sub p 32 \<le> f"
  shows "last_opt (below h f (prune_by h xs p)) = last_opt (below h f xs)"
proof -
  let ?c = "saturating_sub p 32"
  let ?old = "filter (\<lambda>s. h s < ?c) xs" and ?new = "filter (\<lambda>s. ?c \<le> h s) xs"
  have split: "xs = ?old @ ?new"
    using assms(1)
  proof (induction xs)
    case (Cons x xs)
    show ?case
    proof (cases "?c \<le> h x")
      case True
      with Cons.prems have "filter (\<lambda>s. h s < ?c) xs = []" and "filter (\<lambda>s. ?c \<le> h s) xs = xs"
        by (auto simp: filter_empty_conv filter_id_conv not_less intro: order_trans)
      with True show ?thesis by (simp add: not_less)
    next
      case False
      with Cons show ?thesis by (simp add: not_le)
    qed
  qed simp
  have old: "below h f ?old = ?old"
    using assms(2) unfolding below_def by (intro filter_True) (auto intro: order_less_le_trans)
  have "below h f (option_list (last_opt ?old)) = option_list (last_opt ?old)"
    using assms(2)
    by (cases "last_opt ?old")
      (auto simp: below_def intro: order_less_le_trans dest!: last_opt_Some_in)
  then have "last_opt (below h f (prune_by h xs p)) =
      last_opt (option_list (last_opt ?old) @ below h f ?new)"
    by (simp add: prune_by_eq)
  also have "\<dots> = last_opt (?old @ below h f ?new)"
    by (simp only: last_opt_append last_opt_option_list)
  also have "\<dots> = last_opt (below h f (?old @ ?new))"
    by (simp only: below_append old)
  finally show ?thesis using split by simp
qed

lemma sorted_map_filter: "sorted (map h xs) \<Longrightarrow> sorted (map h (filter P xs))"
  by (induction xs) auto

lemma sorted_map_snoc:
  "sorted (map h (xs @ [x])) \<longleftrightarrow> sorted (map h xs) \<and> (\<forall>y \<in> set xs. h y \<le> h x)"
  by (auto simp: sorted_append)

lemma sorted_prune:
  assumes "sorted (map h xs)"
  shows "sorted (map h (prune_by h xs p))"
proof -
  let ?c = "saturating_sub p 32"
  have step: "sorted (map h (option_list v @ filter (\<lambda>s. ?c \<le> h s) xs))"
    if "\<forall>s \<in> set_option v. h s < ?c" for v
  proof (cases v)
    case None
    then show ?thesis using sorted_map_filter [OF assms] by simp
  next
    case (Some s)
    with that have "\<forall>x \<in> set (filter (\<lambda>s. ?c \<le> h s) xs). h s \<le> h x"
      by auto
    with Some show ?thesis using sorted_map_filter [OF assms] by simp
  qed
  have "\<forall>s \<in> set_option (last_opt (filter (\<lambda>s. h s < ?c) xs)). h s < ?c"
    by (auto dest!: last_opt_Some_in)
  then show ?thesis unfolding prune_by_eq by (rule step)
qed

text \<open>
  A settled history: the states are in height order and all below \<open>p\<close>, the first height not yet applied.
\<close>

definition settled :: "('s \<Rightarrow> u32) \<Rightarrow> nat \<Rightarrow> 's list \<Rightarrow> bool" where
  "settled h p xs \<longleftrightarrow> sorted (map h xs) \<and> (\<forall>s \<in> set xs. unat (h s) < p)"

lemma settled_Nil [simp]: "settled h p []"
  by (simp add: settled_def)

lemma settled_mono: "settled h p xs \<Longrightarrow> p \<le> q \<Longrightarrow> settled h q xs"
  by (auto simp: settled_def)

lemma settled_le:
  "settled h p xs \<Longrightarrow> p \<le> Suc (unat q) \<Longrightarrow> \<forall>s \<in> set xs. h s \<le> q"
  by (auto simp: settled_def word_le_nat_alt)

section \<open>The contract of a versioned record\<close>

locale versioned_record =
  fixes height :: "'s \<Rightarrow> u32"
    and cur :: "'r \<Rightarrow> 's option"
    and hist :: "'r \<Rightarrow> 's list"
    and push :: "'r \<Rightarrow> 's \<Rightarrow> u32 \<Rightarrow> 'r"
    and rollback :: "'r \<Rightarrow> u32 \<Rightarrow> 'r"
  assumes cur_push: "cur (push r s p) = Some s"
    and hist_push: "hist (push r s p) = prune_by height (hist r @ option_list (cur r)) p"
    and rollback_eq: "(cur (rollback r f), hist (rollback r f)) = rollback_by height f (cur r) (hist r)"
begin

definition timeline :: "'r \<Rightarrow> 's list" where
  "timeline r = hist r @ option_list (cur r)"

text \<open>
  The simulation relation: the record's current state is the log's last, and record and log agree
  on what a reorganization inside the window restores.
\<close>

definition simulates :: "u32 \<Rightarrow> 's list \<Rightarrow> 'r \<Rightarrow> bool" where
  "simulates hw log r \<longleftrightarrow>
     cur r = last_opt log \<and> set (timeline r) \<subseteq> set log \<and> sorted (map height (timeline r)) \<and>
     (\<forall>f. saturating_sub hw 32 \<le> f \<longrightarrow>
        last_opt (below height f log) = last_opt (below height f (timeline r)))"

lemma cur_rollback: "cur (rollback r f) = last_opt (below height f (timeline r))"
  using rollback_eq [of r f] by (simp add: rollback_by_eq timeline_def)

lemma hist_rollback: "hist (rollback r f) = below height f (hist r)"
  using rollback_eq [of r f] by (simp add: rollback_by_eq)

lemma simulates_init: "cur r = None \<Longrightarrow> hist r = [] \<Longrightarrow> simulates hw [] r"
  by (simp add: simulates_def timeline_def)

lemma simulates_push:
  assumes sim: "simulates hw log r" and ord: "list_all (\<lambda>t. height t \<le> height s) log"
  shows "simulates (max hw (height s)) (log @ [s]) (push r s (height s))"
proof -
  let ?t = "timeline (push r s (height s))"
  have t: "?t = prune_by height (timeline r) (height s) @ [s]"
    by (simp add: timeline_def cur_push hist_push)
  have le: "\<forall>x \<in> set (timeline r). height x \<le> height s"
    using sim ord by (auto simp: simulates_def list_all_iff)
  have pruned: "set (prune_by height (timeline r) (height s)) \<subseteq> set (timeline r)"
    by (rule set_prune_by)
  have "last_opt (below height f (log @ [s])) = last_opt (below height f ?t)"
    if f: "saturating_sub (max hw (height s)) 32 \<le> f" for f
  proof -
    have "saturating_sub hw 32 \<le> f" and "saturating_sub (height s) 32 \<le> f"
      using f by (auto simp: word_nat max_def split: if_splits)
    with sim show ?thesis
      by (auto simp: t simulates_def below_single last_opt_append below_prune)
  qed
  moreover have "sorted (map height ?t)"
    using sim le pruned unfolding t sorted_map_snoc simulates_def by (auto intro: sorted_prune)
  ultimately show ?thesis
    using sim pruned by (auto simp: simulates_def cur_push t)
qed

lemma timeline_rollback:
  "timeline (rollback r f) = below height f (hist r) @
     option_list (last_opt (below height f (timeline r)))"
  by (simp add: timeline_def [of "rollback r f"] cur_rollback hist_rollback)

lemma below_timeline_rollback:
  "last_opt (below height g (timeline (rollback r f))) =
     last_opt (below height (min g f) (timeline r))"
proof (cases "\<exists>c. cur r = Some c \<and> height c < f")
  case True
  then have "timeline (rollback r f) = below height f (timeline r)"
    by (auto simp: timeline_rollback timeline_def [of r] below_single)
  then show ?thesis by (simp add: below_below)
next
  case False
  then have "below height f (timeline r) = below height f (hist r)"
    by (cases "cur r") (auto simp: timeline_def [of r] below_single)
  then show ?thesis
    using last_opt_filter_dup [of "\<lambda>s. height s < g" "below height f (hist r)"]
    by (simp add: timeline_rollback flip: below_def below_below)
qed

lemma sorted_timeline_rollback:
  assumes "sorted (map height (timeline r))"
  shows "sorted (map height (timeline (rollback r f)))"
proof -
  let ?ys = "below height f (hist r)"
  have hist: "sorted (map height (below height f (timeline r)))"
    using assms by (simp add: below_def sorted_map_filter)
  have "sorted (map height (below height f xs @ option_list (last_opt (below height f xs))))"
    if "sorted (map height (below height f xs))" for xs
    using that by (cases "below height f xs" rule: rev_cases) (auto simp: sorted_append)
  moreover have "timeline (rollback r f) = below height f (timeline r) \<or>
      timeline (rollback r f) = ?ys @ option_list (last_opt ?ys) \<and> below height f (timeline r) = ?ys"
    by (cases "cur r") (auto simp: timeline_rollback timeline_def [of r] below_single)
  ultimately show ?thesis using hist by metis
qed

lemma simulates_rollback:
  assumes sim: "simulates hw log r" and f: "saturating_sub hw 32 \<le> f"
  shows "simulates hw (below height f log) (rollback r f)"
proof -
  have "last_opt (below height g (below height f log)) =
      last_opt (below height g (timeline (rollback r f)))"
    if "saturating_sub hw 32 \<le> g" for g
    using sim f that unfolding simulates_def below_below below_timeline_rollback
    by (auto simp: min_def)
  moreover have "set (timeline (rollback r f)) \<subseteq> set (below height f log)"
    using sim
    by (auto simp: simulates_def timeline_rollback timeline_def [of r] dest!: last_opt_Some_in
        simp del: below_append)
  ultimately show ?thesis
    using sim f by (simp add: simulates_def cur_rollback sorted_timeline_rollback)
qed

lemma simulates_replay:
  assumes "simulates hw log r" and "in_window height hw log es"
  shows "\<exists>hw'. simulates hw' (spec_log height log es) (replay push rollback height r es)"
  using assms
proof (induction es arbitrary: hw log r)
  case Nil
  then show ?case by auto
next
  case (Cons e es)
  show ?case
  proof (cases e)
    case (Replace s)
    with Cons.prems show ?thesis
      using Cons.IH [OF simulates_push] by auto
  next
    case (Reorg f)
    with Cons.prems show ?thesis
      using Cons.IH [OF simulates_rollback] by auto
  qed
qed

text \<open>Refinement: inside the window the bounded record returns what the unbounded log returns.\<close>

lemma replay_refines:
  assumes "cur r = None" and "hist r = []" and "in_window height 0 [] es"
  shows "cur (replay push rollback height r es) = last_opt (spec_log height [] es)"
  using simulates_replay [OF simulates_init [OF assms(1,2)] assms(3)]
  by (auto simp: simulates_def)

text \<open>A rollback undoes any number of replacements made at the orphaned height.\<close>

lemma push_undone:
  assumes "sorted (map height (timeline r))" and "\<forall>t \<in> set (timeline r). height t \<le> p"
    and "height s = p"
  shows "sorted (map height (timeline (push r s p))) \<and>
    (\<forall>t \<in> set (timeline (push r s p)). height t \<le> p) \<and>
    last_opt (below height p (timeline (push r s p))) = last_opt (below height p (timeline r))"
proof -
  have t: "timeline (push r s p) = prune_by height (timeline r) p @ [s]"
    by (simp add: timeline_def cur_push hist_push)
  have le: "\<forall>t \<in> set (prune_by height (timeline r) p). height t \<le> p"
    using assms(2) set_prune_by [of height "timeline r" p] by auto
  then have "sorted (map height (timeline (push r s p)))"
    unfolding t sorted_map_snoc assms(3) using sorted_prune [OF assms(1)] le by blast
  moreover have "\<forall>t \<in> set (timeline (push r s p)). height t \<le> p"
    unfolding t using le assms(3) by auto
  moreover have "below height p (timeline (push r s p)) = below height p (prune_by height (timeline r) p)"
    unfolding t below_append below_single assms(3) by simp
  moreover have "last_opt (below height p (prune_by height (timeline r) p)) =
      last_opt (below height p (timeline r))"
    by (rule below_prune [OF assms(1)]) (rule saturating_sub_le)
  ultimately show ?thesis by (intro conjI) (simp_all only:)
qed

lemma pushes_undone:
  assumes "sorted (map height (timeline r))" and "\<forall>t \<in> set (timeline r). height t \<le> p"
    and "\<forall>s \<in> set ss. height s = p"
  shows "cur (rollback (foldl (\<lambda>r s. push r s p) r ss) p) = last_opt (below height p (timeline r))"
  using assms
proof (induction ss arbitrary: r)
  case Nil
  then show ?case by (simp add: cur_rollback)
next
  case (Cons s ss)
  then show ?case using push_undone [of r p s] by simp
qed

lemma settled_push:
  assumes "settled height p (timeline r)" and "p \<le> Suc (unat q)" and "height s = q"
  shows "settled height (Suc (unat q)) (timeline (push r s q))"
  using push_undone [of r q s] settled_le [OF assms(1,2)] assms
  by (auto simp: settled_def word_le_nat_alt le_imp_less_Suc)

lemma settled_rollback:
  assumes "settled height p (timeline r)"
  shows "settled height (min p (unat f)) (timeline (rollback r f))"
proof -
  have "set (timeline (rollback r f)) \<subseteq> set (below height f (timeline r))"
    by (auto simp: timeline_rollback timeline_def [of r] dest!: last_opt_Some_in
        simp del: below_append)
  then show ?thesis
    using assms sorted_timeline_rollback [of r f]
    by (auto simp: settled_def word_less_nat_alt)
qed

lemma rollback_current: "hist (rollback r f) \<noteq> [] \<Longrightarrow> cur (rollback r f) \<noteq> None"
  by (simp add: cur_rollback hist_rollback timeline_def)

lemma rollback_restores_below:
  "\<forall>s \<in> set (timeline (rollback r f)). height s < f"
  by (auto simp: timeline_rollback dest!: last_opt_Some_in)

end

end
