(* ===== verification/Chain.thy ===== *)
theory Chain
  imports Prelude
begin

text \<open>
  The data the listener receives from the Chia libraries (\<open>chia_protocol\<close>, \<open>chia_wallet_sdk\<close>), with
  the fields the repository reads, and the record \<open>sdk\<close> of the library functions it calls. None of
  that code is in the repository: \<open>sdk\<close> is a parameter of every definition that uses it. A
  \<open>NodePtr\<close> of the CLVM allocator is the type variable \<open>'n\<close>.
\<close>

record coin =
  parent_coin_info :: bytes32
  puzzle_hash :: bytes32
  amount :: u64

record coin_spend =
  spend_coin :: coin
  puzzle_reveal :: "u8 list"
  spend_solution :: "u8 list"

datatype driver_error = DriverCustom string | DriverFromClvm string | DriverOther string

text \<open>The conditions a puzzle outputs: the discovery code only looks at \<open>CreateCoin\<close>.\<close>

datatype condition = CreateCoin (created_puzzle_hash: bytes32) (created_amount: u64) | OtherCondition

text \<open>A parsed singleton layer: its launcher id and the tree hash of its inner puzzle.\<close>

record singleton_layer =
  layer_launcher_id :: bytes32
  layer_inner_hash :: bytes32

record 'n nft_info =
  ni_metadata :: 'n
  ni_metadata_treehash :: bytes32
  ni_metadata_updater :: bytes32
  ni_current_owner :: "bytes32 option"
  ni_royalty_puzzle_hash :: bytes32
  ni_royalty_basis_points :: u16
  ni_p2_puzzle_hash :: bytes32
  ni_inner_puzzle_hash :: bytes32

section \<open>Registry slots and action logs\<close>

record handle_slot_value =
  hv_counter :: u64
  hv_handle_hash :: bytes32
  hv_left_value :: bytes32
  hv_right_value :: bytes32
  hv_expiration :: u64
  hv_owner_launcher_id :: bytes32
  hv_resolved_launcher_id :: bytes32

record update_slot_value =
  uv_handle_hash :: bytes32
  uv_new_owner_launcher_id :: bytes32
  uv_new_resolved_launcher_id :: bytes32
  uv_min_height :: u32
  uv_update_initiator_coin_id :: bytes32

record register_log =
  rl_spent_left_slot :: handle_slot_value
  rl_spent_right_slot :: handle_slot_value
  rl_created_left_slot :: handle_slot_value
  rl_created_handle_slot :: handle_slot_value
  rl_created_right_slot :: handle_slot_value
  rl_handle :: string
  rl_secret :: bytes32
  rl_total_price :: u64
  rl_owner_full_puzzle_hash :: bytes32
  rl_resolved_full_puzzle_hash :: "bytes32 option"
  rl_owner_inner_puzzle_hash :: bytes32
  rl_resolved_inner_puzzle_hash :: bytes32

record expire_log =
  xl_spent_slot :: handle_slot_value
  xl_created_slot :: handle_slot_value
  xl_handle :: string
  xl_secret :: bytes32
  xl_total_price :: u64
  xl_owner_full_puzzle_hash :: bytes32
  xl_resolved_full_puzzle_hash :: "bytes32 option"
  xl_owner_inner_puzzle_hash :: bytes32
  xl_resolved_inner_puzzle_hash :: bytes32

record execute_log =
  el_spent_handle_slot :: handle_slot_value
  el_spent_update_slot :: update_slot_value
  el_created_slot :: handle_slot_value
  el_owner_full_puzzle_hash :: bytes32
  el_resolved_full_puzzle_hash :: "bytes32 option"
  el_owner_inner_puzzle_hash :: bytes32
  el_resolved_inner_puzzle_hash :: bytes32

record initiate_log =
  il_spent_slot :: handle_slot_value
  il_created_handle_slot :: handle_slot_value
  il_created_update_slot :: update_slot_value

datatype action_log =
    Register register_log
  | Expire expire_log
  | ExecuteUpdate execute_log
  | InitiateUpdate initiate_log
  | Extend handle_slot_value handle_slot_value
  | Oracle handle_slot_value handle_slot_value
  | Refund "handle_slot_value option" "handle_slot_value option"
  | DelegatedState

section \<open>The library functions\<close>

record 'n sdk =
  sdk_coin_id :: "coin \<Rightarrow> bytes32"
  sdk_node_from_bytes :: "u8 list \<Rightarrow> string + 'n"
  sdk_node_to_bytes :: "'n \<Rightarrow> string + u8 list"
  sdk_parse_singleton :: "'n \<Rightarrow> driver_error + singleton_layer option"
  sdk_nft_parse_child :: "coin \<Rightarrow> 'n \<Rightarrow> 'n \<Rightarrow> driver_error + (coin \<times> 'n nft_info) option"
  sdk_nft_info_parse :: "'n \<Rightarrow> driver_error + 'n nft_info option"
  sdk_run_puzzle :: "'n \<Rightarrow> 'n \<Rightarrow> driver_error + 'n"
  sdk_conditions_from_clvm :: "'n \<Rightarrow> string + condition list"
  sdk_singleton_curry_hash :: "bytes32 \<Rightarrow> bytes32 \<Rightarrow> bytes32"
  sdk_driver_error_text :: "driver_error \<Rightarrow> string"
  sdk_str_tree_hash :: "string \<Rightarrow> bytes32"
  sdk_slot_tree_hash :: "handle_slot_value \<Rightarrow> bytes32"
  sdk_created_handle_slots :: "action_log \<Rightarrow> handle_slot_value list"
  sdk_factor_price :: "u64 \<Rightarrow> string \<Rightarrow> u64 \<Rightarrow> u64"
  sdk_factor_pricing_hash :: "u64 \<Rightarrow> u64 \<Rightarrow> bytes32"
  sdk_start_premium :: "u64 \<Rightarrow> u64"
  sdk_end_value :: "u64 \<Rightarrow> u64"
  sdk_premium_bits :: "u64 list"
  sdk_premium_precision :: u64
  sdk_hex_encode :: "u8 list \<Rightarrow> string"
  sdk_hex_decode :: "string \<Rightarrow> u8 list option"

text \<open>
  What the code relies on of the \<open>hex\<close> crate: lower-case digits, two for each byte, and that
  decoding undoes encoding.
\<close>

definition hex_digits :: string where
  "hex_digits = ''0123456789abcdef''"

definition hex_codec_ok :: "('n, 'z) sdk_scheme \<Rightarrow> bool" where
  "hex_codec_ok sdk \<longleftrightarrow>
     (\<forall>bs. set (sdk_hex_encode sdk bs) \<subseteq> set hex_digits \<and>
       length (sdk_hex_encode sdk bs) = 2 * length bs \<and>
       sdk_hex_decode sdk (sdk_hex_encode sdk bs) = Some bs)"

section \<open>Byte strings\<close>

text \<open>\<open>Bytes32::to_bytes\<close> and \<open>Bytes32::new\<close>: the 32 bytes, most significant first.\<close>

fun nat_to_be :: "nat \<Rightarrow> nat \<Rightarrow> u8 list" where
  "nat_to_be 0 n = []"
| "nat_to_be (Suc k) n = nat_to_be k (n div 256) @ [word_of_nat (n mod 256)]"

definition be_to_nat :: "u8 list \<Rightarrow> nat" where
  "be_to_nat bs = foldl (\<lambda>acc b. acc * 256 + unat b) 0 bs"

definition to_bytes :: "bytes32 \<Rightarrow> u8 list" where
  "to_bytes b = nat_to_be 32 (unat b)"

definition bytes32_new :: "u8 list \<Rightarrow> bytes32" where
  "bytes32_new bs = word_of_nat (be_to_nat bs)"

lemma length_nat_to_be [simp]: "length (nat_to_be k n) = k"
  by (induction k n rule: nat_to_be.induct) auto

lemma length_to_bytes [simp]: "length (to_bytes b) = 32"
  by (simp add: to_bytes_def)

lemma be_to_nat_snoc: "be_to_nat (bs @ [b]) = be_to_nat bs * 256 + unat b"
  by (simp add: be_to_nat_def)

lemma be_to_nat_to_be: "be_to_nat (nat_to_be k n) = n mod 256 ^ k"
proof (induction k n rule: nat_to_be.induct)
  case (1 n)
  then show ?case by (simp add: be_to_nat_def)
next
  case (2 k n)
  have "unat (word_of_nat (n mod 256) :: u8) = n mod 256"
    by (simp add: unat_of_nat)
  then have "be_to_nat (nat_to_be (Suc k) n) = (n div 256) mod 256 ^ k * 256 + n mod 256"
    using 2 by (simp add: be_to_nat_snoc)
  also have "\<dots> = n mod (256 * 256 ^ k)"
    by (simp add: mod_mult2_eq)
  finally show ?case by simp
qed

lemma bytes32_roundtrip [simp]: "bytes32_new (to_bytes b) = b"
proof -
  have "unat b < 256 ^ 32"
    using unsigned_less [of b] by simp
  then show ?thesis
    by (simp add: bytes32_new_def to_bytes_def be_to_nat_to_be del: power_numeral)
qed

end
