(* ===== verification/ListenerTypes.thy ===== *)
theory ListenerTypes
  imports Chain
begin

text \<open>
  \<open>src/cli/xchandles/listener/types.rs\<close>: the JSON shapes the listener answers with, the queries it
  accepts, the Handle grammar, and launcher ids as hexadecimal strings.
\<close>

section \<open>Response and query shapes\<close>

record singleton_nft_details =
  nd_metadata_treehash :: string
  nd_metadata_updater_puzzle_hash :: string
  nd_current_owner :: "string option"
  nd_royalty_puzzle_hash :: string
  nd_royalty_basis_points :: u16
  nd_p2_puzzle_hash :: string
  nd_metadata :: "string option"

record singleton_response =
  sp_launcher_id :: string
  sp_parent_coin_id :: string
  sp_amount :: u64
  sp_inner_puzzle_hash :: string
  sp_confirmation_height :: u32
  sp_melted :: bool
  sp_melt_height :: "u32 option"
  sp_nft :: "singleton_nft_details option"
  sp_indexed_peak_height :: u32

record singleton_query =
  sq_include_metadata :: bool

record handle_query =
  hq_include_metadata :: bool
  hq_launcher_id :: "string option"
  hq_bypass_expiration_safety_check :: bool

record slot_neighbors_json =
  nj_left_value :: string
  nj_right_value :: string

record handle_slot_json =
  hj_counter :: u64
  hj_handle_hash :: string
  hj_neighbors :: slot_neighbors_json
  hj_expiration :: u64
  hj_owner_launcher_id :: string
  hj_resolved_launcher_id :: string

record pending_transfer_response =
  pt_new_owner_launcher_id :: string
  pt_new_resolved_launcher_id :: string
  pt_update_confirmation_height :: u32
  pt_minimum_execution_height :: u32
  pt_initiator_coin_id :: string
  pt_executor_coin_id :: string

record handle_proof_response =
  hp_registry_launcher_id :: string
  hp_handle :: string
  hp_slot :: handle_slot_json
  hp_slot_parent_id :: string
  hp_slot_parent_parent_id :: string
  hp_slot_parent_inner_puzzle_hash :: string
  hp_slot_confirmation_height :: u32
  hp_resolved_singleton :: singleton_response
  hp_indexed_peak_height :: u32
  hp_pending_transfer :: "pending_transfer_response option"

record api_error_body =
  ab_code :: string
  ab_message :: string
  ab_request_id :: string
  ab_details :: "(string \<times> nat) list option"

record registration_query =
  rq_launcher_id :: "string option"

record recent_registrations_query =
  nq_launcher_id :: "string option"
  nq_limit :: "u32 option"

record registration_response =
  rp_handle :: string
  rp_registration_secret :: string
  rp_action_kind :: string
  rp_protocol_fee :: u64
  rp_confirmation_height :: u32
  rp_indexed_peak_height :: u32

record recent_registration_item =
  ri_handle :: string
  ri_action_kind :: string
  ri_confirmation_height :: u32

record recent_registrations_response =
  np_items :: "recent_registration_item list"
  np_total_registered :: u64
  np_indexed_peak_height :: u32

record pending_transfer_query =
  tq_launcher_id :: "string option"

record expiring_query =
  eq_view :: "string option"
  eq_cursor :: "string option"
  eq_limit :: "u32 option"
  eq_launcher_id :: "string option"

datatype expiring_view = Active | Soon

definition parse_view :: "string option \<Rightarrow> expiring_view option" where
  "parse_view raw =
     (if raw = Some ''active'' then Some Active
      else if raw = Some ''soon'' then Some Soon
      else None)"

record expiring_active_item =
  ea_handle :: string
  ea_expiration :: u64
  ea_projected_pricing_timestamp :: u64
  ea_current_premium :: u64
  ea_total_registration_fee :: u64
  ea_base_registration_fee :: u64
  ea_reaches_base_at :: u64

record expiring_soon_item =
  es_handle :: string
  es_expiration :: u64
  es_base_registration_fee :: u64

record expiring_active_response =
  er_items :: "expiring_active_item list"
  er_next_cursor :: "string option"
  er_indexed_peak_height :: u32
  er_confirmed_timestamp :: u64

record expiring_soon_response =
  eo_items :: "expiring_soon_item list"
  eo_next_cursor :: "string option"
  eo_indexed_peak_height :: u32
  eo_confirmed_timestamp :: u64

section \<open>The Handle grammar\<close>

definition is_ascii_lowercase :: "char \<Rightarrow> bool" where
  "is_ascii_lowercase c \<longleftrightarrow> CHR ''a'' \<le> c \<and> c \<le> CHR ''z''"

definition is_ascii_digit :: "char \<Rightarrow> bool" where
  "is_ascii_digit c \<longleftrightarrow> CHR ''0'' \<le> c \<and> c \<le> CHR ''9''"

definition is_canonical_handle :: "string \<Rightarrow> bool" where
  "is_canonical_handle handle \<longleftrightarrow>
     (let len = length handle in 3 \<le> len \<and> len \<le> 63) \<and>
     list_all (\<lambda>b. is_ascii_lowercase b \<or> is_ascii_digit b) handle"

lemma canonical_not_empty: "is_canonical_handle h \<Longrightarrow> h \<noteq> []"
  by (auto simp: is_canonical_handle_def)

section \<open>Launcher ids as hexadecimal strings\<close>

definition hex32 :: "('n, 'z) sdk_scheme \<Rightarrow> bytes32 \<Rightarrow> string" where
  "hex32 sdk b = sdk_hex_encode sdk (to_bytes b)"

definition strip_prefix :: "string \<Rightarrow> string \<Rightarrow> string option" where
  "strip_prefix p s = (if take (length p) s = p then Some (drop (length p) s) else None)"

definition parse_launcher_id :: "('n, 'z) sdk_scheme \<Rightarrow> string \<Rightarrow> bytes32 option" where
  "parse_launcher_id sdk raw =
     (let raw' = unwrap_or (strip_prefix ''0x'' raw) raw
      in if length raw' \<noteq> 64 then None
         else case sdk_hex_decode sdk raw' of
                None \<Rightarrow> None
              | Some bytes \<Rightarrow> if length bytes \<noteq> 32 then None else Some (bytes32_new bytes))"

lemma strip_prefix_append [simp]: "strip_prefix p (p @ s) = Some s"
  by (simp add: strip_prefix_def)

lemma strip_prefix_Some: "strip_prefix p s = Some r \<longleftrightarrow> s = p @ r"
  by (auto simp: strip_prefix_def) (metis append_take_drop_id)

lemma hex_no_prefix:
  assumes "hex_codec_ok sdk"
  shows "strip_prefix ''0x'' (sdk_hex_encode sdk bs) = None"
proof -
  have "CHR ''x'' \<notin> set (sdk_hex_encode sdk bs)"
    using assms by (auto simp: hex_codec_ok_def hex_digits_def)
  then show ?thesis
    by (cases "strip_prefix ''0x'' (sdk_hex_encode sdk bs)") (auto simp: strip_prefix_Some)
qed

lemma hex_laws:
  assumes "hex_codec_ok sdk"
  shows "length (sdk_hex_encode sdk bs) = 2 * length bs"
    and "sdk_hex_decode sdk (sdk_hex_encode sdk bs) = Some bs"
  using assms by (auto simp: hex_codec_ok_def)

lemma hex32_inject:
  assumes "hex_codec_ok sdk"
  shows "hex32 sdk a = hex32 sdk b \<longleftrightarrow> a = b"
proof
  assume "hex32 sdk a = hex32 sdk b"
  then have "Some (to_bytes a) = Some (to_bytes b)"
    unfolding hex32_def by (metis hex_laws(2) [OF assms])
  then have "bytes32_new (to_bytes a) = bytes32_new (to_bytes b)" by simp
  then show "a = b" by simp
qed simp

end
