(* ===== verification/Fixture.thy ===== *)
theory Fixture
  imports ListenerTypes
begin

text \<open>
  A concrete instance of the library parameter \<open>sdk\<close>, for the witnesses only: a coin's id, the hashes
  and the parsers are small computable functions with the properties the hypotheses ask for (hashes
  that tell their arguments apart, a hexadecimal codec that round-trips). No theorem about the code
  depends on it. A program is one byte list; node \<open>n\<close> is the program \<open>[n]\<close>.
\<close>

definition hex_digit :: "nat \<Rightarrow> char" where
  "hex_digit n = hex_digits ! n"

definition hex_value :: "char \<Rightarrow> nat" where
  "hex_value c = (if c \<le> CHR ''9'' then of_char c - 48 else of_char c - 87)"

fun hex_encode :: "u8 list \<Rightarrow> string" where
  "hex_encode [] = []"
| "hex_encode (b # bs) = hex_digit (unat b div 16) # hex_digit (unat b mod 16) # hex_encode bs"

fun hex_decode :: "string \<Rightarrow> u8 list option" where
  "hex_decode [] = Some []"
| "hex_decode [c] = None"
| "hex_decode (c # d # cs) =
     (if c \<in> set hex_digits \<and> d \<in> set hex_digits
      then map_option (Cons (word_of_nat (16 * hex_value c + hex_value d))) (hex_decode cs)
      else None)"

text \<open>The 16 precision bits of the ENS exponential premium and the constants at scale 1000.\<close>

definition fixture_bits :: "u64 list" where
  "fixture_bits =
     [999989423469314432, 999978847050491904, 999957694548431104, 999915390886613504,
      999830788931929088, 999661606496243712, 999323327502650752, 998647112890970240,
      997296056085470080, 994599423483633152, 989228013193975424, 978572062087700096,
      957603280698573696, 917004043204671232, 840896415253714560, 707106781186547584]"

definition fixture_sdk :: "nat sdk" where
  "fixture_sdk =
     \<lparr>sdk_coin_id = (\<lambda>c. parent_coin_info c * 1000 + puzzle_hash c * 10 + ucast (amount c)),
      sdk_node_from_bytes = (\<lambda>bs. case bs of [] \<Rightarrow> Inl ''empty'' | b # _ \<Rightarrow> Inr (unat b)),
      sdk_node_to_bytes = (\<lambda>n. Inr [word_of_nat n]),
      sdk_parse_singleton = (\<lambda>n. Inr (if n = 0 then None
         else Some \<lparr>layer_launcher_id = word_of_nat n, layer_inner_hash = word_of_nat (n + 100)\<rparr>)),
      sdk_nft_parse_child = (\<lambda>c p s. Inr None),
      sdk_nft_info_parse = (\<lambda>n. Inr None),
      sdk_run_puzzle = (\<lambda>p s. Inr s),
      sdk_conditions_from_clvm = (\<lambda>n. Inr (if n = 0 then [] else [CreateCoin (word_of_nat n) 1])),
      sdk_singleton_curry_hash = (\<lambda>l i. l * 1000 + i),
      sdk_driver_error_text = (\<lambda>e. ''driver error''),
      sdk_str_tree_hash = (\<lambda>s. foldl (\<lambda>acc c. acc * 256 + of_nat (of_char c)) 0 s),
      sdk_slot_tree_hash = (\<lambda>v. hv_handle_hash v),
      sdk_created_handle_slots = (\<lambda>log. case log of
         Register l \<Rightarrow> [rl_created_left_slot l, rl_created_handle_slot l, rl_created_right_slot l]
       | Expire l \<Rightarrow> [xl_created_slot l]
       | ExecuteUpdate l \<Rightarrow> [el_created_slot l]
       | InitiateUpdate l \<Rightarrow> [il_created_handle_slot l]
       | Extend s c \<Rightarrow> [c]
       | Oracle s c \<Rightarrow> [c]
       | Refund s c \<Rightarrow> (case c of None \<Rightarrow> [] | Some v \<Rightarrow> [v])
       | DelegatedState \<Rightarrow> []),
      sdk_factor_price = (\<lambda>price h n. price * n),
      sdk_factor_pricing_hash = (\<lambda>price period. ucast price),
      sdk_start_premium = (\<lambda>scale. 100000000 * scale),
      sdk_end_value = (\<lambda>scale. 372),
      sdk_premium_bits = fixture_bits,
      sdk_premium_precision = 1000000000000000000,
      sdk_hex_encode = hex_encode,
      sdk_hex_decode = hex_decode\<rparr>"

lemma fixture_sdk_simps [simp]:
  "sdk_factor_pricing_hash fixture_sdk = (\<lambda>price period. ucast price)"
  "sdk_start_premium fixture_sdk = (\<lambda>scale. 100000000 * scale)"
  "sdk_end_value fixture_sdk = (\<lambda>scale. 372)"
  "sdk_premium_bits fixture_sdk = fixture_bits"
  "sdk_premium_precision fixture_sdk = 1000000000000000000"
  "sdk_hex_encode fixture_sdk = hex_encode"
  "sdk_hex_decode fixture_sdk = hex_decode"
  by (simp_all add: fixture_sdk_def)

lemma hex_digit_value:
  "n < 16 \<Longrightarrow> hex_digit n \<in> set hex_digits \<and> hex_value (hex_digit n) = n"
proof -
  have "\<forall>n \<in> {0..<16}. hex_digit n \<in> set hex_digits \<and> hex_value (hex_digit n) = n"
    by code_simp
  then show "n < 16 \<Longrightarrow> hex_digit n \<in> set hex_digits \<and> hex_value (hex_digit n) = n"
    by simp
qed

lemma hex_encode_laws:
  "set (hex_encode bs) \<subseteq> set hex_digits \<and> length (hex_encode bs) = 2 * length bs \<and>
   hex_decode (hex_encode bs) = Some bs"
proof (induction bs)
  case (Cons b bs)
  have b: "unat b < 256" using unsigned_less [of b] by simp
  then have "unat b div 16 < 16" and "unat b mod 16 < 16" by auto
  moreover have "word_of_nat (16 * (unat b div 16) + unat b mod 16) = b"
    by (simp add: word_unat_eq_iff unat_of_nat b)
  ultimately show ?case using Cons by (simp add: hex_digit_value)
qed simp

lemma fixture_hex_codec_ok: "hex_codec_ok fixture_sdk"
  using hex_encode_laws by (simp add: hex_codec_ok_def)

end
