(* ===== verification/Discovery.thy ===== *)
theory Discovery
  imports ListenerTypes Fixture
begin

text \<open>
  \<open>src/cli/xchandles/listener/discovery.rs\<close>: finding a newly referenced singleton among a block's
  spends, and following the spend of a known one. Parsing and running puzzles is the wallet SDK's and
  a parameter; what a spend is accepted for, which child is taken and what counts as melted is here.
\<close>

record parsed_nft_state =
  ps_metadata_treehash :: bytes32
  ps_metadata_updater_puzzle_hash :: bytes32
  ps_current_owner :: "bytes32 option"
  ps_royalty_puzzle_hash :: bytes32
  ps_royalty_basis_points :: u16
  ps_p2_puzzle_hash :: bytes32
  ps_metadata_clvm :: "u8 list option"

record discovered_singleton =
  ds_coin :: coin
  ds_inner_puzzle_hash :: bytes32
  ds_melted :: bool
  ds_nft :: "parsed_nft_state option"

datatype discovery_result = Incomplete | Found discovered_singleton | Mismatch

datatype follow_spend_result =
    Next discovered_singleton
  | Melted (last_coin: coin) (melted_inner_puzzle_hash: bytes32) (melted_nft: "parsed_nft_state option")

definition from_nft_info ::
  "('n, 'z) sdk_scheme \<Rightarrow> 'n nft_info \<Rightarrow> driver_error + parsed_nft_state"
where
  "from_nft_info sdk info =
     try_result (map_err DriverCustom (sdk_node_to_bytes sdk (ni_metadata info)))
       (\<lambda>metadata_clvm. Inr
          \<lparr>ps_metadata_treehash = ni_metadata_treehash info,
           ps_metadata_updater_puzzle_hash = ni_metadata_updater info,
           ps_current_owner = ni_current_owner info,
           ps_royalty_puzzle_hash = ni_royalty_puzzle_hash info,
           ps_royalty_basis_points = ni_royalty_basis_points info,
           ps_p2_puzzle_hash = ni_p2_puzzle_hash info,
           ps_metadata_clvm = Some metadata_clvm\<rparr>)"

definition to_public ::
  "('n, 'z) sdk_scheme \<Rightarrow> parsed_nft_state \<Rightarrow> bool \<Rightarrow> singleton_nft_details"
where
  "to_public sdk s include_metadata =
     \<lparr>nd_metadata_treehash = hex32 sdk (ps_metadata_treehash s),
      nd_metadata_updater_puzzle_hash = hex32 sdk (ps_metadata_updater_puzzle_hash s),
      nd_current_owner = map_option (hex32 sdk) (ps_current_owner s),
      nd_royalty_puzzle_hash = hex32 sdk (ps_royalty_puzzle_hash s),
      nd_royalty_basis_points = ps_royalty_basis_points s,
      nd_p2_puzzle_hash = hex32 sdk (ps_p2_puzzle_hash s),
      nd_metadata = (if include_metadata
                     then map_option (sdk_hex_encode sdk) (ps_metadata_clvm s) else None)\<rparr>"

definition node_from_program :: "('n, 'z) sdk_scheme \<Rightarrow> u8 list \<Rightarrow> driver_error + 'n" where
  "node_from_program sdk program = map_err DriverCustom (sdk_node_from_bytes sdk program)"

text \<open>The conditions of a spend: \<open>run_puzzle\<close>, then \<open>Vec::<Condition>::from_clvm\<close>.\<close>

definition spend_conditions :: "('n, 'z) sdk_scheme \<Rightarrow> 'n \<Rightarrow> 'n \<Rightarrow> driver_error + condition list" where
  "spend_conditions sdk puzzle_ptr solution_ptr =
     try_result (sdk_run_puzzle sdk puzzle_ptr solution_ptr)
       (\<lambda>output. map_err DriverFromClvm (sdk_conditions_from_clvm sdk output))"

fun odd_children :: "condition list \<Rightarrow> (bytes32 \<times> u64) list" where
  "odd_children [] = []"
| "odd_children (CreateCoin ph amt # cs) =
     (if amt mod 2 = 1 then (ph, amt) # odd_children cs else odd_children cs)"
| "odd_children (OtherCondition # cs) = odd_children cs"

text \<open>\<open>NftInfo::parse\<close> of a spent puzzle, for the terminal state of a melted NFT.\<close>

definition parse_spent_nft ::
  "('n, 'z) sdk_scheme \<Rightarrow> 'n \<Rightarrow> driver_error + parsed_nft_state option"
where
  "parse_spent_nft sdk puzzle =
     try_result (sdk_nft_info_parse sdk puzzle)
       (\<lambda>parsed. case parsed of
          Some info \<Rightarrow> try_result (from_nft_info sdk info) (\<lambda>nft. Inr (Some nft))
        | None \<Rightarrow> Inr None)"

text \<open>The part of \<open>try_match_spend\<close> after the launcher id has matched: the child the spend created.\<close>

definition matched_child ::
  "('n, 'z) sdk_scheme \<Rightarrow> coin_spend \<Rightarrow> bytes32 \<Rightarrow> bytes32 \<Rightarrow> singleton_layer \<Rightarrow> 'n \<Rightarrow> 'n
    \<Rightarrow> driver_error + discovered_singleton"
where
  "matched_child sdk spend launcher_id expected_inner singleton puzzle solution =
     try_result (sdk_nft_parse_child sdk (spend_coin spend) puzzle solution) (\<lambda>child_nft.
       case child_nft of
         Some (child_coin, info) \<Rightarrow>
           try_result (from_nft_info sdk info) (\<lambda>nft.
             Inr \<lparr>ds_coin = child_coin, ds_inner_puzzle_hash = ni_inner_puzzle_hash info,
                  ds_melted = False, ds_nft = Some nft\<rparr>)
       | None \<Rightarrow>
           try_result (spend_conditions sdk puzzle solution) (\<lambda>conditions.
             case odd_children conditions of
               (child_ph, child_amount) # _ \<Rightarrow>
                 (let child_coin = \<lparr>parent_coin_info = sdk_coin_id sdk (spend_coin spend),
                                    puzzle_hash = child_ph, amount = child_amount\<rparr>;
                      full = sdk_singleton_curry_hash sdk launcher_id expected_inner;
                      parent_inner = layer_inner_hash singleton;
                      parent_full = sdk_singleton_curry_hash sdk launcher_id parent_inner;
                      inner = (if full = child_ph then expected_inner
                               else if parent_full = child_ph then parent_inner
                               else expected_inner)
                  in Inr \<lparr>ds_coin = child_coin, ds_inner_puzzle_hash = inner,
                          ds_melted = False, ds_nft = None\<rparr>)
             | [] \<Rightarrow>
                 try_result (parse_spent_nft sdk puzzle) (\<lambda>nft.
                   Inr \<lparr>ds_coin = spend_coin spend,
                        ds_inner_puzzle_hash = layer_inner_hash singleton,
                        ds_melted = True, ds_nft = nft\<rparr>)))"

definition try_match_spend ::
  "('n, 'z) sdk_scheme \<Rightarrow> coin_spend \<Rightarrow> bytes32 \<Rightarrow> bytes32 \<Rightarrow> bytes32
    \<Rightarrow> driver_error + discovered_singleton option"
where
  "try_match_spend sdk spend launcher_id expected_full expected_inner =
     (if puzzle_hash (spend_coin spend) \<noteq> expected_full then Inr None
      else
        try_result (node_from_program sdk (puzzle_reveal spend)) (\<lambda>puzzle.
        try_result (sdk_parse_singleton sdk puzzle) (\<lambda>parsed.
          case parsed of
            None \<Rightarrow> Inr None
          | Some singleton \<Rightarrow>
              if layer_launcher_id singleton \<noteq> launcher_id then Inr None
              else
                try_result (node_from_program sdk (spend_solution spend)) (\<lambda>solution.
                try_result (matched_child sdk spend launcher_id expected_inner singleton puzzle solution)
                  (\<lambda>m. Inr (Some m))))))"

fun match_spends ::
  "('n, 'z) sdk_scheme \<Rightarrow> coin_spend list \<Rightarrow> bytes32 \<Rightarrow> bytes32 \<Rightarrow> bytes32
    \<Rightarrow> driver_error + discovered_singleton list"
where
  "match_spends sdk [] launcher_id expected_full expected_inner = Inr []"
| "match_spends sdk (spend # spends) launcher_id expected_full expected_inner =
     try_result (try_match_spend sdk spend launcher_id expected_full expected_inner) (\<lambda>m.
     try_result (match_spends sdk spends launcher_id expected_full expected_inner) (\<lambda>ms.
       Inr (option_list m @ ms)))"

definition discover_singleton_in_block ::
  "('n, 'z) sdk_scheme \<Rightarrow> coin_spend list \<Rightarrow> bytes32 \<Rightarrow> bytes32 \<Rightarrow> bytes32
    \<Rightarrow> driver_error + discovery_result"
where
  "discover_singleton_in_block sdk spends launcher_id expected_full expected_inner =
     try_result (match_spends sdk spends launcher_id expected_full expected_inner) (\<lambda>matches.
       Inr (case matches of
              [] \<Rightarrow> Incomplete
            | [m] \<Rightarrow> Found m
            | _ \<Rightarrow> Mismatch))"

definition follow_singleton_spend ::
  "('n, 'z) sdk_scheme \<Rightarrow> coin_spend \<Rightarrow> bytes32 \<Rightarrow> driver_error + follow_spend_result"
where
  "follow_singleton_spend sdk spend launcher_id =
     try_result (node_from_program sdk (puzzle_reveal spend)) (\<lambda>puzzle.
     try_result (sdk_parse_singleton sdk puzzle) (\<lambda>parsed.
       case parsed of
         None \<Rightarrow> Inl (DriverCustom ''current singleton spend is not a singleton'')
       | Some singleton \<Rightarrow>
           if layer_launcher_id singleton \<noteq> launcher_id
           then Inl (DriverCustom ''singleton spend launcher ID mismatch'')
           else
             try_result (node_from_program sdk (spend_solution spend)) (\<lambda>solution.
             try_result (sdk_nft_parse_child sdk (spend_coin spend) puzzle solution) (\<lambda>child_nft.
               case child_nft of
                 Some (child_coin, info) \<Rightarrow>
                   try_result (from_nft_info sdk info) (\<lambda>nft.
                     Inr (Next \<lparr>ds_coin = child_coin,
                                ds_inner_puzzle_hash = ni_inner_puzzle_hash info,
                                ds_melted = False, ds_nft = Some nft\<rparr>))
               | None \<Rightarrow>
                   try_result (spend_conditions sdk puzzle solution) (\<lambda>conditions.
                     case odd_children conditions of
                       (child_ph, child_amount) # _ \<Rightarrow>
                         Inr (Next
                           \<lparr>ds_coin = \<lparr>parent_coin_info = sdk_coin_id sdk (spend_coin spend),
                                       puzzle_hash = child_ph, amount = child_amount\<rparr>,
                            ds_inner_puzzle_hash = layer_inner_hash singleton,
                            ds_melted = False, ds_nft = None\<rparr>)
                     | [] \<Rightarrow>
                         try_result (parse_spent_nft sdk puzzle) (\<lambda>nft.
                           Inr (Melted (spend_coin spend) (layer_inner_hash singleton) nft)))))))"

section \<open>Facts about discovery\<close>

text \<open>A spend matches only with the expected puzzle hash and the expected launcher.\<close>

definition spend_of :: "('n, 'z) sdk_scheme \<Rightarrow> bytes32 \<Rightarrow> bytes32 \<Rightarrow> coin_spend \<Rightarrow> bool" where
  "spend_of sdk launcher_id expected_full spend \<longleftrightarrow>
     puzzle_hash (spend_coin spend) = expected_full \<and>
     (\<exists>puzzle singleton. node_from_program sdk (puzzle_reveal spend) = Inr puzzle \<and>
        sdk_parse_singleton sdk puzzle = Inr (Some singleton) \<and>
        layer_launcher_id singleton = launcher_id)"

lemma try_match_spend_Some:
  "try_match_spend sdk spend l full inner = Inr (Some m) \<Longrightarrow> spend_of sdk l full spend"
  by (auto simp: try_match_spend_def spend_of_def result_simps split: if_splits option.splits)

lemma try_match_spend_None:
  "try_match_spend sdk spend l full inner = Inr None \<Longrightarrow> \<not> spend_of sdk l full spend"
  by (auto simp: try_match_spend_def spend_of_def result_simps Let_def
      split: if_splits option.splits)

lemma odd_children_odd: "(ph, amt) \<in> set (odd_children cs) \<Longrightarrow> amt mod 2 = 1"
  by (induction cs rule: odd_children.induct) (auto split: if_splits)

lemma odd_children_Cons: "odd_children cs = (ph, amt) # rest \<Longrightarrow> amt mod 2 = 1"
  by (rule odd_children_odd [of ph amt cs]) simp

text \<open>
  A live match is a child of the matched spend unless the NFT driver supplied the coin; a melted match
  is the spent coin itself.
\<close>

lemma matched_child_coin:
  assumes "matched_child sdk spend l inner singleton puzzle solution = Inr m"
    and "ds_nft m = None \<or> ds_melted m"
  shows "if ds_melted m then ds_coin m = spend_coin spend
    else parent_coin_info (ds_coin m) = sdk_coin_id sdk (spend_coin spend) \<and> amount (ds_coin m) mod 2 = 1"
proof -
  obtain child where child: "sdk_nft_parse_child sdk (spend_coin spend) puzzle solution = Inr child"
    using assms(1) by (auto simp: matched_child_def result_simps)
  show ?thesis
  proof (cases child)
    case (Some c)
    with child assms show ?thesis
      by (cases c) (auto simp: matched_child_def result_simps)
  next
    case None
    with child assms(1) obtain cs where cs: "spend_conditions sdk puzzle solution = Inr cs"
      by (auto simp: matched_child_def result_simps)
    show ?thesis
    proof (cases "odd_children cs")
      case Nil
      with None child cs assms show ?thesis
        by (auto simp: matched_child_def result_simps)
    next
      case (Cons c rest)
      with None child cs assms show ?thesis
        by (cases c) (auto simp: matched_child_def Let_def dest: odd_children_Cons)
    qed
  qed
qed

lemma match_spends_length:
  "match_spends sdk spends l full inner = Inr ms \<Longrightarrow>
     length ms = length (filter (spend_of sdk l full) spends)"
proof (induction spends arbitrary: ms)
  case (Cons spend spends)
  from Cons.prems obtain m ms' where m: "try_match_spend sdk spend l full inner = Inr m"
    and ms': "match_spends sdk spends l full inner = Inr ms'" and "ms = option_list m @ ms'"
    by (auto simp: result_simps)
  with Cons.IH [OF ms'] show ?case
    by (cases m) (auto dest: try_match_spend_Some try_match_spend_None)
qed simp

lemma match_spends_in:
  "match_spends sdk spends l full inner = Inr ms \<Longrightarrow> m \<in> set ms \<Longrightarrow>
     \<exists>spend \<in> set spends. try_match_spend sdk spend l full inner = Inr (Some m)"
  by (induction spends arbitrary: ms) (force simp: result_simps)+

text \<open>
  Discovery looks only at the block's own spends: it answers \<open>Incomplete\<close>, \<open>Found\<close> or \<open>Mismatch\<close>
  exactly when no, one or several of them have the expected full puzzle hash and parse as the
  expected launcher's singleton; and what it finds comes from such a spend.
\<close>

theorem discovery_counts_matches:
  assumes "discover_singleton_in_block sdk spends launcher_id full inner = Inr r"
  shows "(r = Incomplete \<longleftrightarrow> length (filter (spend_of sdk launcher_id full) spends) = 0) \<and>
    ((\<exists>m. r = Found m) \<longleftrightarrow> length (filter (spend_of sdk launcher_id full) spends) = 1) \<and>
    (r = Mismatch \<longleftrightarrow> 2 \<le> length (filter (spend_of sdk launcher_id full) spends)) \<and>
    (\<forall>m. r = Found m \<longrightarrow> (\<exists>spend \<in> set spends. spend_of sdk launcher_id full spend \<and>
       try_match_spend sdk spend launcher_id full inner = Inr (Some m)))"
proof -
  from assms obtain ms where ms: "match_spends sdk spends launcher_id full inner = Inr ms"
    and r: "r = (case ms of [] \<Rightarrow> Incomplete | [m] \<Rightarrow> Found m | _ \<Rightarrow> Mismatch)"
    by (auto simp: discover_singleton_in_block_def result_simps)
  have "\<exists>spend \<in> set spends. spend_of sdk launcher_id full spend \<and>
      try_match_spend sdk spend launcher_id full inner = Inr (Some m)" if "ms = [m]" for m
    using match_spends_in [OF ms, of m] that by (auto dest: try_match_spend_Some)
  with match_spends_length [OF ms] show ?thesis
    by (auto simp: r split: list.splits)
qed

lemma discovery_counts_matches_witness:
  "length (filter (spend_of fixture_sdk 7 2)
     [\<lparr>spend_coin = \<lparr>parent_coin_info = 1, puzzle_hash = 2, amount = 1\<rparr>,
       puzzle_reveal = [7], spend_solution = [5]\<rparr>]) = 1"
proof -
  let ?spend = "\<lparr>spend_coin = \<lparr>parent_coin_info = 1, puzzle_hash = 2, amount = 1\<rparr>,
      puzzle_reveal = [7], spend_solution = [5]\<rparr>"
  have "discover_singleton_in_block fixture_sdk [?spend] 7 2 107 =
      Inr (Found \<lparr>ds_coin = \<lparr>parent_coin_info = 1021, puzzle_hash = 5, amount = 1\<rparr>,
        ds_inner_puzzle_hash = 107, ds_melted = False, ds_nft = None\<rparr>)"
    by (simp add: discover_singleton_in_block_def try_match_spend_def node_from_program_def
        matched_child_def spend_conditions_def fixture_sdk_def)
  from discovery_counts_matches [OF this] show ?thesis by blast
qed

end
