(* ===== verification/SingletonStore.thy ===== *)
theory SingletonStore
  imports History Discovery Fixture
begin

text \<open>
  \<open>src/cli/xchandles/listener/store.rs\<close>: the followed singletons, their current state, bounded
  history and reference count, and the in-memory store that holds them. \<open>MemorySingletonStore\<close> is the
  hash map of its records; the lock around it is not modelled (each operation takes it once).
\<close>

datatype follow_record_status = FollowIncomplete | FollowMismatch | FollowActive

record stored_singleton_state =
  ss_launcher_id :: bytes32
  ss_parent_coin_id :: bytes32
  ss_amount :: u64
  ss_inner_puzzle_hash :: bytes32
  ss_confirmation_height :: u32
  ss_melted :: bool
  ss_melt_height :: "u32 option"
  ss_nft :: "parsed_nft_state option"
  ss_coin_id :: bytes32

definition from_coin ::
  "('n, 'z) sdk_scheme \<Rightarrow> bytes32 \<Rightarrow> coin \<Rightarrow> bytes32 \<Rightarrow> u32 \<Rightarrow> bool \<Rightarrow> u32 option
    \<Rightarrow> parsed_nft_state option \<Rightarrow> stored_singleton_state"
where
  "from_coin sdk launcher_id c inner_puzzle_hash confirmation_height melted melt_height nft =
     \<lparr>ss_launcher_id = launcher_id,
      ss_parent_coin_id = parent_coin_info c,
      ss_amount = amount c,
      ss_inner_puzzle_hash = inner_puzzle_hash,
      ss_confirmation_height = confirmation_height,
      ss_melted = melted,
      ss_melt_height = melt_height,
      ss_nft = nft,
      ss_coin_id = sdk_coin_id sdk c\<rparr>"

record followed_singleton =
  fs_launcher_id :: bytes32
  fs_expected_full_puzzle_hash :: bytes32
  fs_expected_inner_puzzle_hash :: bytes32
  fs_discovery_height :: u32
  fs_status :: follow_record_status
  fs_current :: "stored_singleton_state option"
  fs_history :: "stored_singleton_state list"
  fs_reference_count :: u32
  fs_dereference_height :: "u32 option"

section \<open>The store\<close>

type_synonym singleton_store = "(bytes32, followed_singleton) hash_map"

definition singleton_get :: "singleton_store \<Rightarrow> bytes32 \<Rightarrow> followed_singleton option" where
  "singleton_get = (\<lambda>inner launcher_id. hm_get inner launcher_id)"

definition singleton_upsert :: "followed_singleton \<Rightarrow> singleton_store \<Rightarrow> singleton_store" where
  "singleton_upsert = (\<lambda>rec inner. hm_insert (fs_launcher_id rec) rec inner)"

definition singleton_remove :: "bytes32 \<Rightarrow> singleton_store \<Rightarrow> singleton_store" where
  "singleton_remove = (\<lambda>launcher_id inner. hm_remove launcher_id inner)"

definition all_launcher_ids :: "singleton_store \<Rightarrow> bytes32 list" where
  "all_launcher_ids = (\<lambda>inner. hm_keys inner)"

text \<open>The bodies of \<open>bump_reference\<close> and \<open>drop_reference\<close> on the record they borrow mutably.\<close>

definition bumped :: "followed_singleton \<Rightarrow> followed_singleton" where
  "bumped rec = rec\<lparr>fs_reference_count := saturating_add (fs_reference_count rec) 1,
                    fs_dereference_height := None\<rparr>"

definition dropped :: "u32 \<Rightarrow> followed_singleton \<Rightarrow> followed_singleton" where
  "dropped at_height rec =
     (let count = saturating_sub (fs_reference_count rec) 1
      in rec\<lparr>fs_reference_count := count,
             fs_dereference_height :=
               (if count = 0 then Some at_height else fs_dereference_height rec)\<rparr>)"

definition bump_reference :: "bytes32 \<Rightarrow> singleton_store \<Rightarrow> singleton_store" where
  "bump_reference launcher_id inner =
     (case singleton_get inner launcher_id of
        None \<Rightarrow> inner
      | Some rec \<Rightarrow> hm_insert launcher_id (bumped rec) inner)"

definition drop_reference :: "bytes32 \<Rightarrow> u32 \<Rightarrow> singleton_store \<Rightarrow> singleton_store" where
  "drop_reference launcher_id at_height inner =
     (case singleton_get inner launcher_id of
        None \<Rightarrow> inner
      | Some rec \<Rightarrow> hm_insert launcher_id (dropped at_height rec) inner)"

section \<open>History\<close>

definition prune_history :: "stored_singleton_state list \<Rightarrow> u32 \<Rightarrow> stored_singleton_state list" where
  "prune_history history peak = prune_by ss_confirmation_height history peak"

definition push_replacement ::
  "followed_singleton \<Rightarrow> stored_singleton_state \<Rightarrow> u32 \<Rightarrow> followed_singleton"
where
  "push_replacement rec new_state peak =
     (let history = (case fs_current rec of
                       None \<Rightarrow> fs_history rec
                     | Some prev \<Rightarrow> fs_history rec @ [prev])
      in rec\<lparr>fs_current := Some new_state, fs_history := prune_history history peak\<rparr>)"

definition rollback_to_before :: "followed_singleton \<Rightarrow> u32 \<Rightarrow> followed_singleton" where
  "rollback_to_before rec from_height =
     (let (current, history) =
        rollback_by ss_confirmation_height from_height (fs_current rec) (fs_history rec)
      in rec\<lparr>fs_current := current, fs_history := history\<rparr>)"

section \<open>The contracts\<close>

definition singletons_ok :: "singleton_store \<Rightarrow> bool" where
  "singletons_ok = keyed fs_launcher_id"

interpretation singletons: record_store
  singleton_get singleton_upsert singleton_remove all_launcher_ids fs_launcher_id singletons_ok
  unfolding singleton_get_def singleton_upsert_def singleton_remove_def all_launcher_ids_def
    singletons_ok_def
  by (rule record_store_hash_map)

interpretation singleton_states: versioned_record
  ss_confirmation_height fs_current fs_history push_replacement rollback_to_before
  by unfold_locales
    (auto simp: push_replacement_def prune_history_def rollback_to_before_def Let_def
      split: option.splits prod.splits)

lemma push_replacement_fixed [simp]:
  "fs_launcher_id (push_replacement r s p) = fs_launcher_id r"
  "fs_status (push_replacement r s p) = fs_status r"
  "fs_reference_count (push_replacement r s p) = fs_reference_count r"
  "fs_discovery_height (push_replacement r s p) = fs_discovery_height r"
  "fs_dereference_height (push_replacement r s p) = fs_dereference_height r"
  by (simp_all add: push_replacement_def Let_def)

lemma rollback_to_before_fixed [simp]:
  "fs_launcher_id (rollback_to_before r f) = fs_launcher_id r"
  "fs_status (rollback_to_before r f) = fs_status r"
  "fs_reference_count (rollback_to_before r f) = fs_reference_count r"
  "fs_discovery_height (rollback_to_before r f) = fs_discovery_height r"
  "fs_dereference_height (rollback_to_before r f) = fs_dereference_height r"
  by (simp_all add: rollback_to_before_def split: prod.splits)

lemma bumped_fixed [simp]:
  "fs_launcher_id (bumped r) = fs_launcher_id r"
  "fs_dereference_height (bumped r) = None"
  "fs_current (bumped r) = fs_current r" "fs_history (bumped r) = fs_history r"
  "fs_status (bumped r) = fs_status r" "fs_discovery_height (bumped r) = fs_discovery_height r"
  by (simp_all add: bumped_def)

lemma dropped_fixed [simp]:
  "fs_launcher_id (dropped h r) = fs_launcher_id r"
  "fs_current (dropped h r) = fs_current r" "fs_history (dropped h r) = fs_history r"
  "fs_status (dropped h r) = fs_status r" "fs_discovery_height (dropped h r) = fs_discovery_height r"
  by (simp_all add: dropped_def Let_def)

text \<open>The in-place updates are a read and an upsert, the way the database store performs them.\<close>

lemma bump_reference_upsert:
  assumes "singletons_ok s"
  shows "bump_reference l s =
    (case singleton_get s l of None \<Rightarrow> s | Some r \<Rightarrow> singleton_upsert (bumped r) s)"
  using singletons.key_of_get [OF assms]
  by (auto simp: bump_reference_def singleton_upsert_def split: option.splits)

lemma drop_reference_upsert:
  assumes "singletons_ok s"
  shows "drop_reference l h s =
    (case singleton_get s l of None \<Rightarrow> s | Some r \<Rightarrow> singleton_upsert (dropped h r) s)"
  using singletons.key_of_get [OF assms]
  by (auto simp: drop_reference_def singleton_upsert_def split: option.splits)

lemma singletons_ok_reference [simp]:
  assumes "singletons_ok s"
  shows "singletons_ok (bump_reference l s)" and "singletons_ok (drop_reference l h s)"
  using assms
  by (auto simp: bump_reference_upsert drop_reference_upsert singletons.invar_upsert
      split: option.splits)

lemma get_bump_reference:
  "singleton_get (bump_reference l s) k =
     (if k = l then map_option bumped (singleton_get s k) else singleton_get s k)"
  by (simp add: bump_reference_def singleton_get_def split: option.splits)

lemma get_drop_reference:
  "singleton_get (drop_reference l h s) k =
     (if k = l then map_option (dropped h) (singleton_get s k) else singleton_get s k)"
  by (simp add: drop_reference_def singleton_get_def split: option.splits)

section \<open>Properties\<close>

text \<open>
  C4. The bounded history of a followed singleton is enough: as long as replacements arrive in height
  order and a reorganization reaches at most 32 blocks below the highest replacement, the current
  state after any sequence of replacements and reorganizations is that of the unbounded log, whose
  reorganizations drop every state confirmed at the orphaned height or later.
\<close>

theorem singleton_history_refines_log:
  assumes "fs_current r = None" and "fs_history r = []"
    and "in_window ss_confirmation_height 0 [] es"
  shows "fs_current (replay push_replacement rollback_to_before ss_confirmation_height r es) =
    last_opt (spec_log ss_confirmation_height [] es)"
  using assms by (rule singleton_states.replay_refines)

definition example_state :: "u32 \<Rightarrow> stored_singleton_state" where
  "example_state h =
     from_coin fixture_sdk 7 \<lparr>parent_coin_info = 1, puzzle_hash = 2, amount = 1\<rparr> 3 h False None None"

definition example_singleton :: followed_singleton where
  "example_singleton =
     \<lparr>fs_launcher_id = 7, fs_expected_full_puzzle_hash = 8, fs_expected_inner_puzzle_hash = 9,
      fs_discovery_height = 90, fs_status = FollowActive, fs_current = None, fs_history = [],
      fs_reference_count = 1, fs_dereference_height = None\<rparr>"

lemma singleton_history_refines_log_witness:
  "fs_current (replay push_replacement rollback_to_before ss_confirmation_height example_singleton
     [Replace (example_state 90), Replace (example_state 100), Replace (example_state 101),
      Reorg 101]) = Some (example_state 100)"
  by (subst singleton_history_refines_log)
    (simp_all add: example_singleton_def example_state_def from_coin_def below_def saturating_sub_def last_opt_def)

text \<open>
  Pruning keeps every state of the last 32 blocks and at most one older one, the newest, and
  invents nothing; so a record's history stays bounded by the blocks of the window.
\<close>

theorem prune_history_keeps_window:
  "filter (\<lambda>s. saturating_sub peak 32 \<le> ss_confirmation_height s) (prune_history history peak) =
     filter (\<lambda>s. saturating_sub peak 32 \<le> ss_confirmation_height s) history \<and>
   option_list (last_opt (filter (\<lambda>s. ss_confirmation_height s < saturating_sub peak 32) history)) =
     filter (\<lambda>s. ss_confirmation_height s < saturating_sub peak 32) (prune_history history peak)"
proof -
  let ?old = "\<lambda>s. ss_confirmation_height s < saturating_sub peak 32"
  have "filter ?old (option_list (last_opt (filter ?old history))) =
      option_list (last_opt (filter ?old history))"
    by (cases "last_opt (filter ?old history)") (auto dest!: last_opt_Some_in)
  moreover have "filter ?old (filter (\<lambda>s. saturating_sub peak 32 \<le> ss_confirmation_height s) history) = []"
    by (auto simp: filter_empty_conv)
  ultimately show ?thesis
    using prune_by_recent [of peak ss_confirmation_height history]
    by (simp only: prune_history_def prune_by_eq filter_append append_Nil2 simp_thms)
qed

text \<open>
  A reorganization from \<open>from_height\<close> leaves no state confirmed at or above it in the record, and a
  record whose current state is older is not changed but for that.
\<close>

theorem rollback_to_before_sound:
  "(\<forall>s. s \<in> set_option (fs_current (rollback_to_before r f)) \<union> set (fs_history (rollback_to_before r f))
      \<longrightarrow> ss_confirmation_height s < f \<and> s \<in> set (fs_history r) \<union> set_option (fs_current r)) \<and>
   (\<forall>s. fs_current r = Some s \<and> ss_confirmation_height s < f \<longrightarrow>
      fs_current (rollback_to_before r f) = Some s)"
proof -
  have "ss_confirmation_height s < f \<and> s \<in> set (fs_history r) \<union> set_option (fs_current r)"
    if "s \<in> set_option (fs_current (rollback_to_before r f)) \<union> set (fs_history (rollback_to_before r f))" for s
    using that singleton_states.cur_rollback [of r f] singleton_states.hist_rollback [of r f]
    by (auto simp: singleton_states.timeline_def simp del: below_append dest!: last_opt_Some_in)
  moreover have "fs_current (rollback_to_before r f) = Some s"
    if "fs_current r = Some s" and "ss_confirmation_height s < f" for s
    using that by (simp add: singleton_states.cur_rollback singleton_states.timeline_def below_single)
  ultimately show ?thesis by blast
qed

lemma rollback_to_before_sound_witness:
  "\<exists>r. r = example_singleton\<lparr>fs_current := Some (example_state 101), fs_history := [example_state 95]\<rparr> \<and>
     ss_confirmation_height (the (fs_current (rollback_to_before r 101))) < 101"
proof -
  define r where
    "r = example_singleton\<lparr>fs_current := Some (example_state 101), fs_history := [example_state 95]\<rparr>"
  have "fs_current (rollback_to_before r 101) = Some (example_state 95)"
    by (simp add: r_def rollback_to_before_def rollback_by_def example_state_def from_coin_def)
  then show ?thesis using rollback_to_before_sound [of r 101] by (auto simp: r_def)
qed

end
