(* ===== verification/RegistrationStore.thy ===== *)
theory RegistrationStore
  imports History Chain
begin

text \<open>
  \<open>src/cli/xchandles/listener/registration_store.rs\<close>: the latest registration fact of every handle,
  the feed of recent registration events and the count of registrations, with their rollback. The
  feed is oldest-first and holds at most 50 events.
\<close>

datatype registration_action_kind = KindRegister | KindExpire

record stored_registration =
  sr_registry_launcher_id :: bytes32
  sr_handle :: string
  sr_handle_hash :: bytes32
  sr_registration_secret :: bytes32
  sr_action_kind :: registration_action_kind
  sr_protocol_fee :: u64
  sr_confirmation_height :: u32

record registration_record =
  rr_registry_launcher_id :: bytes32
  rr_handle_hash :: bytes32
  rr_current :: "stored_registration option"
  rr_history :: "stored_registration list"

record stored_registration_event =
  ev_handle :: string
  ev_action_kind :: registration_action_kind
  ev_confirmation_height :: u32

record registry_registration_stats =
  st_total_registered :: u64
  st_events :: "stored_registration_event list"

definition stats_default :: registry_registration_stats where
  "stats_default = \<lparr>st_total_registered = 0, st_events = []\<rparr>"

section \<open>The store\<close>

type_synonym handle_key = "bytes32 \<times> bytes32"

record registration_store =
  rs_records :: "(handle_key, registration_record) hash_map"
  rs_stats :: "(bytes32, registry_registration_stats) hash_map"

definition registration_key :: "registration_record \<Rightarrow> handle_key" where
  "registration_key rec = (rr_registry_launcher_id rec, rr_handle_hash rec)"

definition registration_get :: "registration_store \<Rightarrow> handle_key \<Rightarrow> registration_record option" where
  "registration_get s k = hm_get (rs_records s) k"

definition registration_upsert :: "registration_record \<Rightarrow> registration_store \<Rightarrow> registration_store" where
  "registration_upsert rec s = s\<lparr>rs_records := hm_insert (registration_key rec) rec (rs_records s)\<rparr>"

definition registration_remove :: "handle_key \<Rightarrow> registration_store \<Rightarrow> registration_store" where
  "registration_remove k s = s\<lparr>rs_records := hm_remove k (rs_records s)\<rparr>"

definition all_registration_keys :: "registration_store \<Rightarrow> handle_key list" where
  "all_registration_keys s = hm_keys (rs_records s)"

definition get_stats :: "registration_store \<Rightarrow> bytes32 \<Rightarrow> registry_registration_stats" where
  "get_stats s registry = unwrap_or (hm_get (rs_stats s) registry) stats_default"

definition set_stats ::
  "bytes32 \<Rightarrow> registry_registration_stats \<Rightarrow> registration_store \<Rightarrow> registration_store"
where
  "set_stats registry stats s = s\<lparr>rs_stats := hm_insert registry stats (rs_stats s)\<rparr>"

definition all_stats_registry_ids :: "registration_store \<Rightarrow> bytes32 list" where
  "all_stats_registry_ids s = hm_keys (rs_stats s)"

section \<open>History, events and counts\<close>

definition prune_registration_history :: "stored_registration list \<Rightarrow> u32 \<Rightarrow> stored_registration list" where
  "prune_registration_history history peak = prune_by sr_confirmation_height history peak"

definition push_registration_replacement ::
  "registration_record \<Rightarrow> stored_registration \<Rightarrow> u32 \<Rightarrow> registration_record"
where
  "push_registration_replacement rec new_state peak =
     (let history = (case rr_current rec of
                       None \<Rightarrow> rr_history rec
                     | Some prev \<Rightarrow> rr_history rec @ [prev])
      in rec\<lparr>rr_current := Some new_state, rr_history := prune_registration_history history peak\<rparr>)"

definition rollback_registration_to_before :: "registration_record \<Rightarrow> u32 \<Rightarrow> registration_record" where
  "rollback_registration_to_before rec from_height =
     (let (current, history) =
        rollback_by sr_confirmation_height from_height (rr_current rec) (rr_history rec)
      in rec\<lparr>rr_current := current, rr_history := history\<rparr>)"

definition RECENT_REGISTRATION_EVENTS_MAX :: nat where
  "RECENT_REGISTRATION_EVENTS_MAX = 50"

definition push_registration_event ::
  "registry_registration_stats \<Rightarrow> stored_registration_event \<Rightarrow> registry_registration_stats"
where
  "push_registration_event stats ev =
     (let events = st_events stats @ [ev];
          events' = (if RECENT_REGISTRATION_EVENTS_MAX < length events then drop 1 events else events)
      in stats\<lparr>st_events := events'\<rparr>)"

text \<open>
  \<open>while let Some(ev) = events.last()\<close>: the events are popped from the end. The loop runs over the
  reversed list.
\<close>

fun pop_events :: "u32 \<Rightarrow> stored_registration_event list \<Rightarrow> u64 \<Rightarrow> stored_registration_event list \<times> u64" where
  "pop_events from_height [] cnt = ([], cnt)"
| "pop_events from_height (ev # evs) cnt =
     (if ev_confirmation_height ev < from_height then (ev # evs, cnt)
      else pop_events from_height evs
             (if ev_action_kind ev = KindRegister then saturating_sub cnt 1 else cnt))"

definition rollback_stats_to_before ::
  "registry_registration_stats \<Rightarrow> u32 \<Rightarrow> registry_registration_stats"
where
  "rollback_stats_to_before stats from_height =
     (let (evs, cnt) = pop_events from_height (rev (st_events stats)) (st_total_registered stats)
      in \<lparr>st_total_registered = cnt, st_events = rev evs\<rparr>)"

section \<open>The contracts\<close>

definition registrations_ok :: "registration_store \<Rightarrow> bool" where
  "registrations_ok s \<longleftrightarrow> keyed registration_key (rs_records s) \<and> hm_ok (rs_stats s)"

interpretation registrations: record_store
  registration_get registration_upsert registration_remove all_registration_keys registration_key
  registrations_ok
  by (rule record_store_field [where m = rs_records])
    (simp_all add: registration_get_def registration_upsert_def registration_remove_def
      all_registration_keys_def registrations_ok_def)

interpretation registration_states: versioned_record
  sr_confirmation_height rr_current rr_history push_registration_replacement
  rollback_registration_to_before
  by unfold_locales
    (auto simp: push_registration_replacement_def prune_registration_history_def
      rollback_registration_to_before_def Let_def split: option.splits prod.splits)

lemma rollback_registration_fixed [simp]:
  "registration_key (rollback_registration_to_before r f) = registration_key r"
  by (simp add: rollback_registration_to_before_def registration_key_def split: prod.splits)

lemma push_registration_fixed [simp]:
  "registration_key (push_registration_replacement r s p) = registration_key r"
  by (simp add: push_registration_replacement_def registration_key_def Let_def)

lemma get_stats_set_stats [simp, store_simps]:
  "get_stats (set_stats r stats s) r' = (if r' = r then stats else get_stats s r')"
  by (simp add: get_stats_def set_stats_def)

lemma get_stats_records [simp, store_simps]:
  "get_stats (registration_upsert rec s) r = get_stats s r"
  "get_stats (registration_remove k s) r = get_stats s r"
  by (simp_all add: get_stats_def registration_upsert_def registration_remove_def)

lemma registration_get_set_stats [simp, store_simps]:
  "registration_get (set_stats r stats s) k = registration_get s k"
  by (simp add: registration_get_def set_stats_def)

lemma registrations_ok_set_stats [simp]:
  "registrations_ok s \<Longrightarrow> registrations_ok (set_stats r stats s)"
  by (simp add: registrations_ok_def set_stats_def)

section \<open>The event feed\<close>

definition registers :: "stored_registration_event list \<Rightarrow> nat" where
  "registers evs = length (filter (\<lambda>ev. ev_action_kind ev = KindRegister) evs)"

lemma registers_append [simp]: "registers (xs @ ys) = registers xs + registers ys"
  by (simp add: registers_def)

lemma registers_rev [simp]: "registers (rev xs) = registers xs"
  by (simp add: registers_def flip: rev_filter)

lemma pop_events_eq:
  "fst (pop_events f evs cnt) = dropWhile (\<lambda>ev. f \<le> ev_confirmation_height ev) evs \<and>
   unat (snd (pop_events f evs cnt)) =
     unat cnt - registers (takeWhile (\<lambda>ev. f \<le> ev_confirmation_height ev) evs)"
proof (induction f evs cnt rule: pop_events.induct)
  case (1 f cnt)
  then show ?case by (simp add: registers_def)
next
  case (2 f ev evs cnt)
  then show ?case
    by (cases "f \<le> ev_confirmation_height ev") (auto simp: registers_def)
qed

text \<open>The two statements with which the indexer records an event (\<open>index.rs\<close>, lines 207 to 218).\<close>

definition record_event ::
  "registry_registration_stats \<Rightarrow> stored_registration_event \<Rightarrow> registry_registration_stats"
where
  "record_event stats ev =
     (let stats' = push_registration_event stats ev
      in if ev_action_kind ev = KindRegister
         then stats'\<lparr>st_total_registered := saturating_add (st_total_registered stats') 1\<rparr>
         else stats')"

lemma record_event_events:
  "st_events (record_event stats ev) =
     (if 50 \<le> length (st_events stats) then drop 1 (st_events stats @ [ev])
      else st_events stats @ [ev])"
  by (auto simp: record_event_def push_registration_event_def Let_def
      RECENT_REGISTRATION_EVENTS_MAX_def)

lemma unat_u64_max: "unat (w :: u64) \<le> 2 ^ 64 - 1"
proof -
  have "unat w < 2 ^ LENGTH(64)" by (rule unsigned_less)
  then show ?thesis by simp
qed

lemma record_event_total:
  "unat (st_total_registered (record_event stats ev)) =
     min (unat (st_total_registered stats) + registers [ev]) (2 ^ 64 - 1)"
proof -
  have "unat (st_total_registered stats) \<le> 2 ^ 64 - 1" by (rule unat_u64_max)
  then show ?thesis
    by (simp add: record_event_def push_registration_event_def Let_def registers_def)
qed

lemma drop_window:
  "(if 50 \<le> length (drop (length xs - 50) xs) then drop 1 (drop (length xs - 50) xs @ [x])
    else drop (length xs - 50) xs @ [x]) = drop (Suc (length xs) - 50) (xs @ [x])"
proof (cases "50 \<le> length xs")
  case True
  then have "Suc (length xs) - 50 = Suc (length xs - 50)" by simp
  with True show ?thesis by simp
qed simp

lemma record_events:
  assumes "length (st_events stats) \<le> 50"
  shows "st_events (foldl record_event stats evs) =
      drop (length (st_events stats) + length evs - 50) (st_events stats @ evs) \<and>
    unat (st_total_registered (foldl record_event stats evs)) =
      min (unat (st_total_registered stats) + registers evs) (2 ^ 64 - 1)"
proof (induction evs rule: rev_induct)
  case Nil
  have "unat (st_total_registered stats) \<le> 2 ^ 64 - 1" by (rule unat_u64_max)
  with assms show ?case by (simp add: registers_def)
next
  case (snoc ev evs)
  let ?s = "foldl record_event stats evs"
  have "st_events ?s =
      drop (length (st_events stats @ evs) - 50) (st_events stats @ evs)"
    using snoc by simp
  then have "st_events (record_event ?s ev) =
      drop (Suc (length (st_events stats @ evs)) - 50) ((st_events stats @ evs) @ [ev])"
    by (simp only: record_event_events drop_window)
  with snoc show ?case by (simp add: record_event_total)
qed

lemma rollback_stats_split:
  assumes "\<forall>ev \<in> set old. ev_confirmation_height ev < f"
    and "\<forall>ev \<in> set new. f \<le> ev_confirmation_height ev"
    and "st_events stats = old @ new"
  shows "st_events (rollback_stats_to_before stats f) = old \<and>
    unat (st_total_registered (rollback_stats_to_before stats f)) =
      unat (st_total_registered stats) - registers new"
proof -
  let ?p = "\<lambda>ev. f \<le> ev_confirmation_height ev"
  have "dropWhile ?p (rev old) = rev old" and "takeWhile ?p (rev old) = []"
    using assms(1) by (auto simp: dropWhile_eq_self_iff takeWhile_eq_Nil_iff hd_rev not_le
        dest: last_in_set)
  moreover have "dropWhile ?p (rev new @ rev old) = dropWhile ?p (rev old)"
    by (rule dropWhile_append2) (use assms(2) in simp)
  moreover have "takeWhile ?p (rev new @ rev old) = rev new @ takeWhile ?p (rev old)"
    by (rule takeWhile_append2) (use assms(2) in simp)
  ultimately show ?thesis
    using pop_events_eq [of f "rev (st_events stats)" "st_total_registered stats"] assms(3)
    by (auto simp: rollback_stats_to_before_def split: prod.splits)
qed

text \<open>On a feed in height order, what a rollback leaves is what was confirmed below \<open>f\<close>.\<close>

lemma rev_dropWhile_rev:
  "sorted (map h xs) \<Longrightarrow> rev (dropWhile (\<lambda>x. f \<le> h x) (rev xs)) = filter (\<lambda>x. h x < f) xs"
proof (induction xs rule: rev_induct)
  case (snoc x xs)
  show ?case
  proof (cases "f \<le> h x")
    case True
    with snoc show ?thesis by (simp add: sorted_append not_less)
  next
    case False
    with snoc.prems have "\<forall>y \<in> set (xs @ [x]). h y < f"
      by (auto simp: sorted_append intro: le_less_trans)
    with False show ?thesis by (simp add: filter_id_conv)
  qed
qed simp

lemma rollback_stats_events:
  assumes "sorted (map ev_confirmation_height (st_events st))"
  shows "st_events (rollback_stats_to_before st f) = below ev_confirmation_height f (st_events st)"
  using pop_events_eq [of f "rev (st_events st)" "st_total_registered st"]
    rev_dropWhile_rev [OF assms, of f]
  by (auto simp: rollback_stats_to_before_def below_def split: prod.splits)

lemma rollback_stats_recorded:
  assumes "length (st_events stats) \<le> 50"
    and "\<forall>ev \<in> set (st_events stats). ev_confirmation_height ev < f"
    and "\<forall>ev \<in> set evs. f \<le> ev_confirmation_height ev"
    and "unat (st_total_registered stats) + registers evs < 2 ^ 64"
  shows "st_events (rollback_stats_to_before (foldl record_event stats evs) f) =
      drop (length (st_events stats) + length evs - 50) (st_events stats) \<and>
    unat (st_total_registered (rollback_stats_to_before (foldl record_event stats evs) f)) =
      unat (st_total_registered stats) + registers (take (length evs - 50) evs)"
proof -
  let ?n = "length (st_events stats) + length evs - 50"
  let ?old = "drop ?n (st_events stats)" and ?new = "drop (length evs - 50) evs"
  have n: "?n - length (st_events stats) = length evs - 50" using assms(1) by simp
  have "st_events (foldl record_event stats evs) = ?old @ ?new"
    using record_events [OF assms(1), of evs] n by simp
  moreover have "\<forall>ev \<in> set ?old. ev_confirmation_height ev < f"
    using assms(2) by (meson in_set_dropD)
  moreover have "\<forall>ev \<in> set ?new. f \<le> ev_confirmation_height ev"
    using assms(3) by (meson in_set_dropD)
  moreover have "unat (st_total_registered (foldl record_event stats evs)) =
      unat (st_total_registered stats) + registers evs"
    using record_events [OF assms(1), of evs] assms(4) by simp
  moreover have "registers evs = registers (take (length evs - 50) evs) + registers ?new"
    by (metis append_take_drop_id registers_append)
  ultimately show ?thesis
    using rollback_stats_split [of ?old f ?new "foldl record_event stats evs"] by simp
qed

section \<open>Properties\<close>

text \<open>
  What a reorganization undoes of the registration statistics. Recording the events \<open>evs\<close> of the
  orphaned blocks and rolling back leaves only events from before; the register count is reversed for
  the last 50 recorded events, the ones the feed still holds. So up to 50 orphaned events the count is
  restored exactly, and beyond that the registrations the feed had already forgotten stay counted.
\<close>

theorem stats_rollback_exact:
  assumes "length (st_events stats) \<le> 50"
    and "\<forall>ev \<in> set (st_events stats). ev_confirmation_height ev < f"
    and "\<forall>ev \<in> set evs. f \<le> ev_confirmation_height ev"
    and "unat (st_total_registered stats) + registers evs < 2 ^ 64"
  shows "st_events (rollback_stats_to_before (foldl record_event stats evs) f) =
      drop (length (st_events stats) + length evs - 50) (st_events stats) \<and>
    unat (st_total_registered (rollback_stats_to_before (foldl record_event stats evs) f)) =
      unat (st_total_registered stats) + registers (take (length evs - 50) evs)"
  using assms by (rule rollback_stats_recorded)

definition example_event :: "u32 \<Rightarrow> stored_registration_event" where
  "example_event h = \<lparr>ev_handle = ''alice'', ev_action_kind = KindRegister, ev_confirmation_height = h\<rparr>"

lemma registers_replicate: "registers (replicate n (example_event h)) = n"
  and registers_example: "registers [example_event h] = 1"
  by (simp_all add: registers_def example_event_def)

lemma example_event_height [simp]: "ev_confirmation_height (example_event h) = h"
  by (simp add: example_event_def)

lemma stats_rollback_exact_witness:
  "unat (st_total_registered (rollback_stats_to_before
     (foldl record_event stats_default (replicate 51 (example_event 100))) 100)) = 1"
  using stats_rollback_exact [of stats_default 100 "replicate 51 (example_event 100)"]
  by (simp add: stats_default_def registers_replicate registers_example)

text \<open>
  The recent feed never holds more than 50 events, and holds exactly the last ones recorded, in
  order; the count saturates instead of wrapping around.
\<close>

theorem event_feed_bounded:
  "length (st_events (foldl record_event stats_default evs)) \<le> 50 \<and>
   st_events (foldl record_event stats_default evs) = drop (length evs - 50) evs \<and>
   unat (st_total_registered (foldl record_event stats_default evs)) = min (registers evs) (2 ^ 64 - 1)"
  using record_events [of stats_default evs] by (simp add: stats_default_def)

text \<open>
  The registration history refines the unbounded log of registrations within the reorganization
  window.
\<close>

theorem registration_history_refines_log:
  assumes "rr_current r = None" and "rr_history r = []"
    and "in_window sr_confirmation_height 0 [] es"
  shows "rr_current (replay push_registration_replacement rollback_registration_to_before
      sr_confirmation_height r es) = last_opt (spec_log sr_confirmation_height [] es)"
  using assms by (rule registration_states.replay_refines)

definition example_registration :: "u32 \<Rightarrow> stored_registration" where
  "example_registration h =
     \<lparr>sr_registry_launcher_id = 1, sr_handle = ''alice'', sr_handle_hash = 2,
      sr_registration_secret = 3, sr_action_kind = KindRegister, sr_protocol_fee = 5,
      sr_confirmation_height = h\<rparr>"

lemma registration_history_refines_log_witness:
  "rr_current (replay push_registration_replacement rollback_registration_to_before
     sr_confirmation_height
     \<lparr>rr_registry_launcher_id = 1, rr_handle_hash = 2, rr_current = None, rr_history = []\<rparr>
     [Replace (example_registration 40), Replace (example_registration 60), Reorg 60]) =
   Some (example_registration 40)"
  by (subst registration_history_refines_log)
    (simp_all add: example_registration_def below_def saturating_sub_def last_opt_def)

end
