(* ===== verification/HandleStore.thy ===== *)
theory HandleStore
  imports RegistrationStore "HOL-Library.Product_Lexorder"
begin

text \<open>
  \<open>src/cli/xchandles/listener/handle_store.rs\<close>: the projection of the registry's handle slots, with the
  lineage of their parent coin, the in-memory store, and the listing of named slots by expiration
  that the expiring-handles endpoint pages through.
\<close>

record slot_parent_lineage =
  pl_parent_coin_id :: bytes32
  pl_parent_parent_id :: bytes32
  pl_parent_inner_puzzle_hash :: bytes32

definition lineage_default :: slot_parent_lineage where
  "lineage_default =
     \<lparr>pl_parent_coin_id = 0, pl_parent_parent_id = 0, pl_parent_inner_puzzle_hash = 0\<rparr>"

record stored_handle_slot =
  sh_registry_launcher_id :: bytes32
  sh_handle_hash :: bytes32
  sh_counter :: u64
  sh_neighbors_left :: bytes32
  sh_neighbors_right :: bytes32
  sh_expiration :: u64
  sh_owner_launcher_id :: bytes32
  sh_resolved_launcher_id :: bytes32
  sh_parent_coin_id :: bytes32
  sh_parent_parent_id :: bytes32
  sh_parent_inner_puzzle_hash :: bytes32
  sh_confirmation_height :: u32

record handle_slot_record =
  hr_registry_launcher_id :: bytes32
  hr_handle_hash :: bytes32
  hr_current :: "stored_handle_slot option"
  hr_history :: "stored_handle_slot list"

section \<open>The store\<close>

type_synonym handle_store = "(handle_key, handle_slot_record) hash_map"

definition handle_slot_key :: "handle_slot_record \<Rightarrow> handle_key" where
  "handle_slot_key rec = (hr_registry_launcher_id rec, hr_handle_hash rec)"

definition handle_get :: "handle_store \<Rightarrow> handle_key \<Rightarrow> handle_slot_record option" where
  "handle_get inner k = hm_get inner k"

definition handle_upsert :: "handle_slot_record \<Rightarrow> handle_store \<Rightarrow> handle_store" where
  "handle_upsert rec inner = hm_insert (handle_slot_key rec) rec inner"

definition handle_remove :: "handle_key \<Rightarrow> handle_store \<Rightarrow> handle_store" where
  "handle_remove k inner = hm_remove k inner"

definition all_handle_keys :: "handle_store \<Rightarrow> handle_key list" where
  "all_handle_keys inner = hm_keys inner"

section \<open>The listing by expiration\<close>

text \<open>The candidates: current slots of the registry inside the window, in the map's order.\<close>

fun window_candidates ::
  "bytes32 \<Rightarrow> u64 \<Rightarrow> u64 \<Rightarrow> handle_slot_record list \<Rightarrow> stored_handle_slot list"
where
  "window_candidates registry min_expiration max_expiration [] = []"
| "window_candidates registry min_expiration max_expiration (rec # recs) =
     (let rest = window_candidates registry min_expiration max_expiration recs
      in if hr_registry_launcher_id rec \<noteq> registry then rest
         else case hr_current rec of
                None \<Rightarrow> rest
              | Some slot \<Rightarrow>
                  if sh_expiration slot < min_expiration \<or> max_expiration < sh_expiration slot
                  then rest else slot # rest)"

text \<open>The cursor is the \<open>(expiration, handle)\<close> of the last row of the previous page.\<close>

type_synonym cursor = "u64 \<times> string"

definition after_cursor :: "cursor option \<Rightarrow> u64 \<Rightarrow> string \<Rightarrow> bool" where
  "after_cursor after expiration handle \<longleftrightarrow>
     (case after of
        None \<Rightarrow> True
      | Some (exp, h) \<Rightarrow> exp < expiration \<or> expiration = exp \<and> h < handle)"

text \<open>The loop that names the candidates.\<close>

fun named_candidates ::
  "registration_store \<Rightarrow> bytes32 \<Rightarrow> cursor option \<Rightarrow> stored_handle_slot list
    \<Rightarrow> (string \<times> stored_handle_slot) list"
where
  "named_candidates regs registry after [] = []"
| "named_candidates regs registry after (slot # slots) =
     (let rest = named_candidates regs registry after slots
      in case registration_get regs (registry, sh_handle_hash slot) of
           None \<Rightarrow> rest
         | Some reg_rec \<Rightarrow>
             (case rr_current reg_rec of
                None \<Rightarrow> rest
              | Some reg_cur \<Rightarrow>
                  if sr_handle reg_cur = [] then rest
                  else if \<not> after_cursor after (sh_expiration slot) (sr_handle reg_cur) then rest
                  else (sr_handle reg_cur, slot) # rest))"

definition row_key :: "string \<times> stored_handle_slot \<Rightarrow> u64 \<times> string" where
  "row_key row = (sh_expiration (snd row), fst row)"

text \<open>
  \<open>sort_by\<close> is stable and compares by expiration, then by handle: the lexicographic order of the keys.
\<close>

definition sort_rows :: "(string \<times> stored_handle_slot) list \<Rightarrow> (string \<times> stored_handle_slot) list" where
  "sort_rows rows = sort_key row_key rows"

definition list_named_in_expiration_window ::
  "handle_store \<Rightarrow> bytes32 \<Rightarrow> u64 \<Rightarrow> u64 \<Rightarrow> cursor option \<Rightarrow> nat \<Rightarrow> registration_store
    \<Rightarrow> (string \<times> stored_handle_slot) list"
where
  "list_named_in_expiration_window inner registry min_expiration max_expiration after limit regs =
     (if limit = 0 then []
      else
        (let candidates = window_candidates registry min_expiration max_expiration (map snd inner);
             out = named_candidates regs registry after candidates
         in take limit (sort_rows out)))"

section \<open>History\<close>

definition prune_handle_history :: "stored_handle_slot list \<Rightarrow> u32 \<Rightarrow> stored_handle_slot list" where
  "prune_handle_history history peak = prune_by sh_confirmation_height history peak"

definition push_handle_replacement ::
  "handle_slot_record \<Rightarrow> stored_handle_slot \<Rightarrow> u32 \<Rightarrow> handle_slot_record"
where
  "push_handle_replacement rec new_state peak =
     (let history = (case hr_current rec of
                       None \<Rightarrow> hr_history rec
                     | Some prev \<Rightarrow> hr_history rec @ [prev])
      in rec\<lparr>hr_current := Some new_state, hr_history := prune_handle_history history peak\<rparr>)"

definition rollback_handle_to_before :: "handle_slot_record \<Rightarrow> u32 \<Rightarrow> handle_slot_record" where
  "rollback_handle_to_before rec from_height =
     (let (current, history) =
        rollback_by sh_confirmation_height from_height (hr_current rec) (hr_history rec)
      in rec\<lparr>hr_current := current, hr_history := history\<rparr>)"

section \<open>The contracts\<close>

definition handles_ok :: "handle_store \<Rightarrow> bool" where
  "handles_ok s \<longleftrightarrow> keyed handle_slot_key s"

interpretation handle_slots: record_store
  handle_get handle_upsert handle_remove all_handle_keys handle_slot_key handles_ok
  by (rule record_store_field [where m = "\<lambda>s. s"])
    (simp_all add: handle_get_def handle_upsert_def handle_remove_def all_handle_keys_def
      handles_ok_def)

interpretation handle_states: versioned_record
  sh_confirmation_height hr_current hr_history push_handle_replacement rollback_handle_to_before
  by unfold_locales
    (auto simp: push_handle_replacement_def prune_handle_history_def
      rollback_handle_to_before_def Let_def split: option.splits prod.splits)

lemma handle_slot_key_fixed [simp]:
  "handle_slot_key (push_handle_replacement r s p) = handle_slot_key r"
  "handle_slot_key (rollback_handle_to_before r f) = handle_slot_key r"
  by (simp_all add: push_handle_replacement_def rollback_handle_to_before_def handle_slot_key_def
      Let_def split: prod.splits)

section \<open>What the listing returns\<close>

text \<open>A named row: a current slot of the registry inside the window whose registration names it.\<close>

definition named_row ::
  "handle_store \<Rightarrow> registration_store \<Rightarrow> bytes32 \<Rightarrow> u64 \<Rightarrow> u64 \<Rightarrow> string \<times> stored_handle_slot \<Rightarrow> bool"
where
  "named_row inner regs registry lo hi row \<longleftrightarrow>
     (\<exists>handle_hash rec reg_rec reg_cur.
        handle_get inner (registry, handle_hash) = Some rec \<and> hr_current rec = Some (snd row) \<and>
        lo \<le> sh_expiration (snd row) \<and> sh_expiration (snd row) \<le> hi \<and>
        registration_get regs (registry, sh_handle_hash (snd row)) = Some reg_rec \<and>
        rr_current reg_rec = Some reg_cur \<and> sr_handle reg_cur = fst row \<and> fst row \<noteq> [])"

lemma after_cursor_less: "after_cursor (Some c) e h \<longleftrightarrow> c < (e, h)"
  by (auto simp: after_cursor_def less_prod_def split: prod.splits)

lemma set_window_candidates:
  "set (window_candidates registry lo hi recs) =
     {slot. \<exists>rec \<in> set recs. hr_registry_launcher_id rec = registry \<and> hr_current rec = Some slot \<and>
        lo \<le> sh_expiration slot \<and> sh_expiration slot \<le> hi}"
  by (induction recs) (auto simp: Let_def not_less split: option.splits)

lemma named_candidates_after:
  "named_candidates regs registry after slots =
     filter (\<lambda>row. after_cursor after (sh_expiration (snd row)) (fst row))
       (named_candidates regs registry None slots)"
  by (induction slots) (auto simp: Let_def after_cursor_def [of None] split: option.splits)

lemma set_named_candidates:
  "set (named_candidates regs registry None slots) =
     {row. snd row \<in> set slots \<and> (\<exists>reg_rec reg_cur.
        registration_get regs (registry, sh_handle_hash (snd row)) = Some reg_rec \<and>
        rr_current reg_rec = Some reg_cur \<and> sr_handle reg_cur = fst row \<and> fst row \<noteq> [])}"
proof (induction slots)
  case (Cons slot slots)
  then show ?case
    by (auto simp: Let_def after_cursor_def split: option.splits)
qed simp

lemma set_map_snd_keyed:
  assumes "handles_ok inner"
  shows "rec \<in> set (map snd inner) \<and> hr_registry_launcher_id rec = registry \<longleftrightarrow>
    (\<exists>h. handle_get inner (registry, h) = Some rec)"
proof
  assume "rec \<in> set (map snd inner) \<and> hr_registry_launcher_id rec = registry"
  then obtain k where "(k, rec) \<in> set inner" and reg: "hr_registry_launcher_id rec = registry"
    by auto
  moreover have "handle_slot_key rec = k"
    using \<open>(k, rec) \<in> set inner\<close> assms by (auto simp: handles_ok_def keyed_def)
  moreover have "handle_get inner k = Some rec"
    using \<open>(k, rec) \<in> set inner\<close> assms
    by (simp add: handle_get_def handles_ok_def keyed_def hm_get_in_set)
  ultimately show "\<exists>h. handle_get inner (registry, h) = Some rec"
    by (auto simp: handle_slot_key_def)
next
  assume "\<exists>h. handle_get inner (registry, h) = Some rec"
  then obtain h where h: "handle_get inner (registry, h) = Some rec" by blast
  then have "handle_slot_key rec = (registry, h)"
    using handle_slots.key_of_get [OF assms] by blast
  moreover have "((registry, h), rec) \<in> set inner"
    using h by (auto simp: handle_get_def dest: map_of_SomeD)
  ultimately show "rec \<in> set (map snd inner) \<and> hr_registry_launcher_id rec = registry"
    by (force simp: handle_slot_key_def)
qed

text \<open>All rows of the window, sorted: every page is a part of it.\<close>

definition all_rows ::
  "handle_store \<Rightarrow> bytes32 \<Rightarrow> u64 \<Rightarrow> u64 \<Rightarrow> registration_store \<Rightarrow> (string \<times> stored_handle_slot) list"
where
  "all_rows inner registry lo hi regs =
     sort_rows (named_candidates regs registry None
       (window_candidates registry lo hi (map snd inner)))"

lemma listing_all_rows:
  "list_named_in_expiration_window inner registry lo hi after limit regs =
     take limit (filter (\<lambda>row. after_cursor after (sh_expiration (snd row)) (fst row))
       (all_rows inner registry lo hi regs))"
  unfolding list_named_in_expiration_window_def all_rows_def sort_rows_def Let_def
    named_candidates_after [of regs registry after]
  by (simp add: filter_sort)

lemma sorted_all_rows: "sorted (map row_key (all_rows inner registry lo hi regs))"
  by (simp add: all_rows_def sort_rows_def)

lemma set_all_rows:
  assumes "handles_ok inner"
  shows "set (all_rows inner registry lo hi regs) = {row. named_row inner regs registry lo hi row}"
proof -
  have "row \<in> set (all_rows inner registry lo hi regs) \<longleftrightarrow>
      (\<exists>rec. (rec \<in> set (map snd inner) \<and> hr_registry_launcher_id rec = registry) \<and>
        hr_current rec = Some (snd row) \<and> lo \<le> sh_expiration (snd row) \<and> sh_expiration (snd row) \<le> hi) \<and>
      (\<exists>reg_rec reg_cur. registration_get regs (registry, sh_handle_hash (snd row)) = Some reg_rec \<and>
        rr_current reg_rec = Some reg_cur \<and> sr_handle reg_cur = fst row \<and> fst row \<noteq> [])" for row
    unfolding all_rows_def sort_rows_def set_sort set_named_candidates set_window_candidates
    by blast
  then show ?thesis
    unfolding set_map_snd_keyed [OF assms] named_row_def by blast
qed

lemma sorted_map_filter_key: "sorted (map (f :: 'a \<Rightarrow> 'b::linorder) xs) \<Longrightarrow> sorted (map f (filter P xs))"
  by (induction xs) auto

text \<open>Resuming after the \<open>k\<close>-th of strictly ordered rows leaves exactly the rows behind it.\<close>

lemma filter_after_nth:
  fixes f :: "'a \<Rightarrow> 'b::linorder"
  assumes "sorted (map f xs)" and "distinct (map f xs)" and "k < length xs"
  shows "filter (\<lambda>x. f (xs ! k) < f x) xs = drop (Suc k) xs"
  using assms
proof (induction xs arbitrary: k)
  case (Cons x xs)
  show ?case
  proof (cases k)
    case 0
    with Cons.prems have "\<forall>y \<in> set xs. f x < f y"
      by (auto simp: order_less_le)
    with 0 show ?thesis by (simp add: filter_id_conv)
  next
    case (Suc j)
    with Cons.prems have "xs ! j \<in> set xs" by simp
    with Cons.prems have "\<not> f (xs ! j) < f x" by (auto simp: not_less)
    with Suc Cons show ?thesis by simp
  qed
qed simp

text \<open>Every current slot carries the ids of the record that holds it: the indexer builds no other.\<close>

definition slots_own_keys :: "handle_store \<Rightarrow> bool" where
  "slots_own_keys inner \<longleftrightarrow>
     list_all (\<lambda>(k, rec). case hr_current rec of None \<Rightarrow> True
       | Some slot \<Rightarrow> (sh_registry_launcher_id slot, sh_handle_hash slot) = k) inner"

abbreviation slot_key :: "stored_handle_slot \<Rightarrow> handle_key" where
  "slot_key slot \<equiv> (sh_registry_launcher_id slot, sh_handle_hash slot)"

lemma window_candidates_keys:
  "slots_own_keys inner \<Longrightarrow>
     slot_key ` set (window_candidates registry lo hi (map snd inner)) \<subseteq> fst ` set inner"
  by (induction inner) (auto simp: slots_own_keys_def Let_def split: option.splits if_splits)

lemma distinct_window_candidates:
  "slots_own_keys inner \<Longrightarrow> distinct (map fst inner) \<Longrightarrow>
     distinct (map slot_key (window_candidates registry lo hi (map snd inner)))"
proof (induction inner)
  case (Cons entry inner)
  have own: "slots_own_keys inner" using Cons.prems(1) by (simp add: slots_own_keys_def)
  have "slot_key slot \<notin> slot_key ` set (window_candidates registry lo hi (map snd inner))"
    if "hr_current (snd entry) = Some slot" for slot
    using Cons.prems that window_candidates_keys [OF own, of registry lo hi]
    by (cases entry) (auto simp: slots_own_keys_def)
  with Cons own show ?case by (auto simp: Let_def split: option.splits)
qed simp

lemma named_candidates_slots: "snd ` set (named_candidates regs registry after slots) \<subseteq> set slots"
  by (induction slots) (auto simp: Let_def split: option.splits)

lemma distinct_named_candidates:
  "distinct slots \<Longrightarrow> distinct (map snd (named_candidates regs registry after slots))"
proof (induction slots)
  case (Cons slot slots)
  have "slot \<notin> snd ` set (named_candidates regs registry after slots)"
    using named_candidates_slots [of regs registry after slots] Cons.prems by auto
  with Cons show ?case by (auto simp: Let_def split: option.splits)
qed simp

lemma distinct_all_rows:
  assumes "handles_ok inner" and "slots_own_keys inner"
  shows "distinct (all_rows inner registry lo hi regs)"
proof -
  have "distinct (map fst inner)" using assms(1) by (simp add: handles_ok_def keyed_def hm_ok_def)
  from distinct_window_candidates [OF assms(2) this]
  have "distinct (window_candidates registry lo hi (map snd inner))" by (rule distinct_map [THEN iffD1, THEN conjunct1])
  from distinct_named_candidates [OF this]
  have "distinct (named_candidates regs registry None (window_candidates registry lo hi (map snd inner)))"
    by (rule distinct_map [THEN iffD1, THEN conjunct1])
  then show ?thesis by (simp add: all_rows_def sort_rows_def)
qed

text \<open>Three named slots of registry 1, for the witnesses.\<close>

definition example_slot :: "bytes32 \<Rightarrow> u64 \<Rightarrow> stored_handle_slot" where
  "example_slot h exp =
     \<lparr>sh_registry_launcher_id = 1, sh_handle_hash = h, sh_counter = 1, sh_neighbors_left = 0,
      sh_neighbors_right = 9, sh_expiration = exp, sh_owner_launcher_id = 5,
      sh_resolved_launcher_id = 6, sh_parent_coin_id = 7, sh_parent_parent_id = 8,
      sh_parent_inner_puzzle_hash = 4, sh_confirmation_height = 90\<rparr>"

definition example_slots :: handle_store where
  "example_slots =
     map (\<lambda>(h, exp). ((1, h),
         \<lparr>hr_registry_launcher_id = 1, hr_handle_hash = h, hr_current = Some (example_slot h exp),
          hr_history = []\<rparr>))
       [(3, 30), (2, 20), (1, 10)]"

definition example_names :: registration_store where
  "example_names =
     \<lparr>rs_records = map (\<lambda>(h, name). ((1, h),
          \<lparr>rr_registry_launcher_id = 1, rr_handle_hash = h,
           rr_current = Some ((example_registration 90)\<lparr>sr_handle := name, sr_handle_hash := h\<rparr>),
           rr_history = []\<rparr>))
        [(1, ''bob''), (2, ''alice''), (3, ''carol'')],
      rs_stats = []\<rparr>"

lemma example_slots_ok: "handles_ok example_slots"
  by (simp add: handles_ok_def keyed_def hm_ok_def example_slots_def handle_slot_key_def)

lemma example_listing:
  "list_named_in_expiration_window example_slots 1 10 30 None 10 example_names =
     [(''bob'', example_slot 1 10), (''alice'', example_slot 2 20), (''carol'', example_slot 3 30)]"
  by code_simp

section \<open>Properties\<close>

text \<open>
  C39. The listing is exact: when every current slot carries its record's ids, then without a cursor and
  with a limit that covers them the rows are the named current slots of the registry whose expiration
  lies in the closed window, each once, sorted by expiration and then by handle; with a limit \<open>n\<close> they
  are the first \<open>n\<close> of these.
\<close>

theorem listing_exact:
  assumes "handles_ok inner" and "slots_own_keys inner" and "length inner \<le> limit"
  shows "set (list_named_in_expiration_window inner registry lo hi None limit regs) =
      {row. named_row inner regs registry lo hi row} \<and>
    distinct (list_named_in_expiration_window inner registry lo hi None limit regs) \<and>
    sorted (map row_key (list_named_in_expiration_window inner registry lo hi None limit regs)) \<and>
    list_named_in_expiration_window inner registry lo hi None n regs =
      take n (list_named_in_expiration_window inner registry lo hi None limit regs)"
proof -
  have named: "length (named_candidates regs registry None slots) \<le> length slots" for slots
    by (induction slots) (auto simp: Let_def split: option.splits)
  have cand: "length (window_candidates registry lo hi recs) \<le> length recs" for recs
    by (induction recs) (auto simp: Let_def split: option.splits)
  have "length (all_rows inner registry lo hi regs) \<le> limit"
    using named cand [of "map snd inner"] assms(3)
    by (simp add: all_rows_def sort_rows_def) (meson order_trans)
  then have "list_named_in_expiration_window inner registry lo hi None limit regs =
      all_rows inner registry lo hi regs"
    by (simp add: listing_all_rows after_cursor_def)
  then show ?thesis
    using set_all_rows [OF assms(1)] sorted_all_rows distinct_all_rows [OF assms(1,2)]
    by (simp add: listing_all_rows after_cursor_def)
qed

lemma listing_exact_witness:
  "list_named_in_expiration_window example_slots 1 10 30 None 2 example_names =
     [(''bob'', example_slot 1 10), (''alice'', example_slot 2 20)]"
proof -
  have "slots_own_keys example_slots"
    by (simp add: slots_own_keys_def example_slots_def example_slot_def)
  moreover have "length example_slots \<le> 10" by (simp add: example_slots_def)
  ultimately show ?thesis
    using listing_exact [OF example_slots_ok, of 10 1 10 30 example_names 2]
    by (simp add: example_listing)
qed

text \<open>
  Paging neither skips nor repeats: when no two rows share expiration and handle, asking again with
  the key of the \<open>k\<close>-th row returned as cursor yields the next \<open>n\<close> rows behind it.
\<close>

theorem listing_resumes:
  assumes "rows = list_named_in_expiration_window inner registry lo hi None limit regs"
    and "distinct (map row_key rows)" and "length rows < limit" and "k < length rows"
  shows "list_named_in_expiration_window inner registry lo hi (Some (row_key (rows ! k))) n regs =
    take n (drop (Suc k) rows)"
proof -
  have rows: "rows = all_rows inner registry lo hi regs"
    using assms(1,3) by (simp add: listing_all_rows after_cursor_def min_def split: if_splits)
  have "list_named_in_expiration_window inner registry lo hi (Some (row_key (rows ! k))) n regs =
      take n (filter (\<lambda>row. row_key (rows ! k) < row_key row) rows)"
    unfolding listing_all_rows after_cursor_less rows row_key_def ..
  then show ?thesis
    using filter_after_nth [OF _ assms(2,4)] sorted_all_rows rows by simp
qed

lemma listing_resumes_witness:
  "list_named_in_expiration_window example_slots 1 10 30 (Some (20, ''alice'')) 5 example_names =
     [(''carol'', example_slot 3 30)]"
  using listing_resumes [OF example_listing [symmetric], of 1 5]
  by (simp add: row_key_def example_slot_def)

text \<open>
  The handle-slot history refines the unbounded log of slots within the reorganization window.
\<close>

theorem handle_history_refines_log:
  assumes "hr_current r = None" and "hr_history r = []"
    and "in_window sh_confirmation_height 0 [] es"
  shows "hr_current (replay push_handle_replacement rollback_handle_to_before
      sh_confirmation_height r es) = last_opt (spec_log sh_confirmation_height [] es)"
  using assms by (rule handle_states.replay_refines)

lemma handle_history_refines_log_witness:
  "hr_current (replay push_handle_replacement rollback_handle_to_before sh_confirmation_height
     \<lparr>hr_registry_launcher_id = 1, hr_handle_hash = 1, hr_current = None, hr_history = []\<rparr>
     [Replace (example_slot 1 10), Replace (example_slot 1 20), Reorg 91]) =
   Some (example_slot 1 20)"
  by (subst handle_history_refines_log)
    (simp_all add: example_slot_def below_def saturating_sub_def last_opt_def)

end
