(* ===== verification/PendingStore.thy ===== *)
theory PendingStore
  imports RegistrationStore
begin

text \<open>
  \<open>src/cli/xchandles/listener/pending_store.rs\<close>: the pending ownership update of every handle, with
  its history, the in-memory store, and the clearing of an update that was executed or invalidated.
\<close>

record stored_pending_update =
  su_registry_launcher_id :: bytes32
  su_handle_hash :: bytes32
  su_new_owner_launcher_id :: bytes32
  su_new_resolved_launcher_id :: bytes32
  su_update_confirmation_height :: u32
  su_minimum_execution_height :: u32
  su_update_initiator_coin_id :: bytes32

record pending_update_record =
  pr_registry_launcher_id :: bytes32
  pr_handle_hash :: bytes32
  pr_current :: "stored_pending_update option"
  pr_history :: "stored_pending_update list"

section \<open>The store\<close>

type_synonym pending_store = "(handle_key, pending_update_record) hash_map"

definition pending_key :: "pending_update_record \<Rightarrow> handle_key" where
  "pending_key rec = (pr_registry_launcher_id rec, pr_handle_hash rec)"

definition pending_get :: "pending_store \<Rightarrow> handle_key \<Rightarrow> pending_update_record option" where
  "pending_get inner k = hm_get inner k"

definition pending_upsert :: "pending_update_record \<Rightarrow> pending_store \<Rightarrow> pending_store" where
  "pending_upsert rec inner = hm_insert (pending_key rec) rec inner"

definition pending_remove :: "handle_key \<Rightarrow> pending_store \<Rightarrow> pending_store" where
  "pending_remove k inner = hm_remove k inner"

definition all_pending_keys :: "pending_store \<Rightarrow> handle_key list" where
  "all_pending_keys inner = hm_keys inner"

section \<open>History\<close>

definition prune_pending_history :: "stored_pending_update list \<Rightarrow> u32 \<Rightarrow> stored_pending_update list" where
  "prune_pending_history history peak = prune_by su_update_confirmation_height history peak"

definition push_pending_replacement ::
  "pending_update_record \<Rightarrow> stored_pending_update \<Rightarrow> u32 \<Rightarrow> pending_update_record"
where
  "push_pending_replacement rec new_state peak =
     (let history = (case pr_current rec of
                       None \<Rightarrow> pr_history rec
                     | Some prev \<Rightarrow> pr_history rec @ [prev])
      in rec\<lparr>pr_current := Some new_state, pr_history := prune_pending_history history peak\<rparr>)"

definition clear_pending_current :: "pending_update_record \<Rightarrow> u32 \<Rightarrow> pending_update_record" where
  "clear_pending_current rec peak =
     (case pr_current rec of
        None \<Rightarrow> rec
      | Some prev \<Rightarrow>
          rec\<lparr>pr_current := None, pr_history := prune_pending_history (pr_history rec @ [prev]) peak\<rparr>)"

definition rollback_pending_to_before :: "pending_update_record \<Rightarrow> u32 \<Rightarrow> pending_update_record" where
  "rollback_pending_to_before rec from_height =
     (let (current, history) =
        rollback_by su_update_confirmation_height from_height (pr_current rec) (pr_history rec)
      in rec\<lparr>pr_current := current, pr_history := history\<rparr>)"

section \<open>The contracts\<close>

definition pendings_ok :: "pending_store \<Rightarrow> bool" where
  "pendings_ok s \<longleftrightarrow> keyed pending_key s"

interpretation pendings: record_store
  pending_get pending_upsert pending_remove all_pending_keys pending_key pendings_ok
  by (rule record_store_field [where m = "\<lambda>s. s"])
    (simp_all add: pending_get_def pending_upsert_def pending_remove_def all_pending_keys_def
      pendings_ok_def)

interpretation pending_states: versioned_record
  su_update_confirmation_height pr_current pr_history push_pending_replacement
  rollback_pending_to_before
  by unfold_locales
    (auto simp: push_pending_replacement_def prune_pending_history_def
      rollback_pending_to_before_def Let_def split: option.splits prod.splits)

lemma pending_key_fixed [simp]:
  "pending_key (push_pending_replacement r s p) = pending_key r"
  "pending_key (clear_pending_current r p) = pending_key r"
  "pending_key (rollback_pending_to_before r f) = pending_key r"
  by (simp_all add: push_pending_replacement_def clear_pending_current_def
      rollback_pending_to_before_def pending_key_def Let_def split: option.splits prod.splits)

lemma clear_pending_fields:
  "pr_current (clear_pending_current r p) = None"
  "pr_current r = Some u \<Longrightarrow>
     pr_history (clear_pending_current r p) = prune_pending_history (pr_history r @ [u]) p"
  by (simp_all add: clear_pending_current_def split: option.splits)

section \<open>Properties\<close>

text \<open>
  Clearing a pending update keeps enough history to undo it: after a rollback inside the
  window the record shows the newest update initiated below the orphaned height, as if it had never
  been cleared. The height of the clearing itself is not recorded, so this holds for every rollback
  above the update's own height, also for one that does not orphan the block which cleared it.
\<close>

theorem cleared_pending_restored:
  assumes "pr_current r = Some u"
    and "sorted (map su_update_confirmation_height (pr_history r @ [u]))"
    and "saturating_sub peak 32 \<le> f"
  shows "pr_current (clear_pending_current r peak) = None \<and>
    pr_current (rollback_pending_to_before (clear_pending_current r peak) f) =
      last_opt (below su_update_confirmation_height f (pr_history r @ [u])) \<and>
    (su_update_confirmation_height u < f \<longrightarrow>
      pr_current (rollback_pending_to_before (clear_pending_current r peak) f) = Some u)"
proof -
  have "pending_states.timeline (clear_pending_current r peak) =
      prune_by su_update_confirmation_height (pr_history r @ [u]) peak"
    using assms(1)
    by (simp add: pending_states.timeline_def clear_pending_fields prune_pending_history_def)
  then have "pr_current (rollback_pending_to_before (clear_pending_current r peak) f) =
      last_opt (below su_update_confirmation_height f (pr_history r @ [u]))"
    unfolding pending_states.cur_rollback
    using below_prune [OF assms(2,3)] by simp
  then show ?thesis by (simp add: clear_pending_fields below_single)
qed

definition example_pending :: pending_update_record where
  "example_pending =
     \<lparr>pr_registry_launcher_id = 1, pr_handle_hash = 2,
      pr_current = Some
        \<lparr>su_registry_launcher_id = 1, su_handle_hash = 2, su_new_owner_launcher_id = 8,
         su_new_resolved_launcher_id = 9, su_update_confirmation_height = 90,
         su_minimum_execution_height = 95, su_update_initiator_coin_id = 4\<rparr>,
      pr_history = []\<rparr>"

text \<open>Cleared at 100, and a reorganization from 105 brings the update back.\<close>

lemma cleared_pending_restored_witness:
  "pr_current (rollback_pending_to_before (clear_pending_current example_pending 100) 105) =
     pr_current example_pending"
  using cleared_pending_restored [of example_pending "the (pr_current example_pending)" 100 105]
  by (simp add: example_pending_def saturating_sub_def below_single)

end
