(* ===== verification/Refs.thy ===== *)
theory Refs
  imports Chain
begin

text \<open>
  \<open>src/cli/xchandles/listener/refs.rs\<close>: which singletons a registry action newly references, with the
  puzzle hashes the action committed to, and which launchers disappear from a slot that is replaced.
\<close>

record singleton_reference =
  rf_launcher_id :: bytes32
  rf_expected_full_puzzle_hash :: bytes32
  rf_expected_inner_puzzle_hash :: bytes32

definition slot_launchers :: "handle_slot_value \<Rightarrow> bytes32 list" where
  "slot_launchers s = [hv_owner_launcher_id s, hv_resolved_launcher_id s]"

definition refs_from_transition ::
  "handle_slot_value list \<Rightarrow> handle_slot_value list \<Rightarrow> bytes32 \<Rightarrow> bytes32 \<Rightarrow> bytes32 \<Rightarrow> bytes32 option
    \<Rightarrow> bytes32 \<Rightarrow> bytes32 \<Rightarrow> singleton_reference list"
where
  "refs_from_transition spent created owner_launcher resolved_launcher owner_full resolved_full
     owner_inner resolved_inner =
     (let previously = concat (map slot_launchers spent);
          newly_owner = (list_ex (\<lambda>c. hv_owner_launcher_id c = owner_launcher) created \<and>
                         owner_launcher \<notin> set previously);
          out = (if newly_owner
                 then [\<lparr>rf_launcher_id = owner_launcher, rf_expected_full_puzzle_hash = owner_full,
                        rf_expected_inner_puzzle_hash = owner_inner\<rparr>]
                 else [])
      in if owner_launcher \<noteq> resolved_launcher
         then
           (let newly_resolved =
                  (list_ex (\<lambda>c. hv_resolved_launcher_id c = resolved_launcher) created \<and>
                   resolved_launcher \<notin> set previously)
            in if newly_resolved
               then (case resolved_full of
                       Some full \<Rightarrow>
                         out @ [\<lparr>rf_launcher_id = resolved_launcher,
                                 rf_expected_full_puzzle_hash = full,
                                 rf_expected_inner_puzzle_hash = resolved_inner\<rparr>]
                     | None \<Rightarrow> out)
               else out)
         else out)"

fun references_from_action_log :: "action_log \<Rightarrow> singleton_reference list" where
  "references_from_action_log (Register reg) =
     refs_from_transition [rl_spent_left_slot reg, rl_spent_right_slot reg]
       [rl_created_left_slot reg, rl_created_handle_slot reg, rl_created_right_slot reg]
       (hv_owner_launcher_id (rl_created_handle_slot reg))
       (hv_resolved_launcher_id (rl_created_handle_slot reg))
       (rl_owner_full_puzzle_hash reg) (rl_resolved_full_puzzle_hash reg)
       (rl_owner_inner_puzzle_hash reg) (rl_resolved_inner_puzzle_hash reg)"
| "references_from_action_log (Expire x) =
     refs_from_transition [xl_spent_slot x] [xl_created_slot x]
       (hv_owner_launcher_id (xl_created_slot x)) (hv_resolved_launcher_id (xl_created_slot x))
       (xl_owner_full_puzzle_hash x) (xl_resolved_full_puzzle_hash x)
       (xl_owner_inner_puzzle_hash x) (xl_resolved_inner_puzzle_hash x)"
| "references_from_action_log (ExecuteUpdate u) =
     refs_from_transition [el_spent_handle_slot u] [el_created_slot u]
       (hv_owner_launcher_id (el_created_slot u)) (hv_resolved_launcher_id (el_created_slot u))
       (el_owner_full_puzzle_hash u) (el_resolved_full_puzzle_hash u)
       (el_owner_inner_puzzle_hash u) (el_resolved_inner_puzzle_hash u)"
| "references_from_action_log _ = []"

definition dereferenced_launchers :: "handle_slot_value \<Rightarrow> handle_slot_value \<Rightarrow> bytes32 list" where
  "dereferenced_launchers spent created =
     (let still = (\<lambda>i. i = hv_owner_launcher_id created \<or> i = hv_resolved_launcher_id created);
          owner = (if \<not> still (hv_owner_launcher_id spent) then [hv_owner_launcher_id spent] else []);
          resolved = (if hv_resolved_launcher_id spent \<noteq> hv_owner_launcher_id spent \<and>
                         \<not> still (hv_resolved_launcher_id spent)
                      then [hv_resolved_launcher_id spent] else [])
      in owner @ resolved)"

section \<open>Properties\<close>

lemma set_slot_launchers:
  "set (slot_launchers s) = {hv_owner_launcher_id s, hv_resolved_launcher_id s}"
  by (simp add: slot_launchers_def)

text \<open>
  A replaced slot dereferences exactly the launchers it named and its replacement does not, each
  once: also when owner and resolved coincide.
\<close>

theorem dereferenced_launchers_exact:
  "distinct (dereferenced_launchers spent created) \<and>
   set (dereferenced_launchers spent created) = set (slot_launchers spent) - set (slot_launchers created)"
  by (auto simp: dereferenced_launchers_def slot_launchers_def Let_def)

text \<open>
  Expiring or transferring a handle references exactly the launchers of the new slot the old one
  did not name, each once: the owner with the owner's puzzle hashes, and a resolved singleton other
  than the owner only when the action committed to its full puzzle hash.
\<close>

theorem transition_references_exact:
  assumes "refs = refs_from_transition [spent] [created] (hv_owner_launcher_id created)
      (hv_resolved_launcher_id created) owner_full resolved_full owner_inner resolved_inner"
  shows "distinct (map rf_launcher_id refs) \<and>
    set (map rf_launcher_id refs) =
      {l \<in> set (slot_launchers created) - set (slot_launchers spent).
         l = hv_owner_launcher_id created \<or> resolved_full \<noteq> None} \<and>
    (\<forall>r \<in> set refs. if rf_launcher_id r = hv_owner_launcher_id created
       then rf_expected_full_puzzle_hash r = owner_full \<and> rf_expected_inner_puzzle_hash r = owner_inner
       else Some (rf_expected_full_puzzle_hash r) = resolved_full \<and>
         rf_expected_inner_puzzle_hash r = resolved_inner)"
proof (cases resolved_full)
  case None
  then show ?thesis
    unfolding assms by (auto simp: refs_from_transition_def slot_launchers_def Let_def)
next
  case (Some full)
  then show ?thesis
    unfolding assms by (auto simp: refs_from_transition_def slot_launchers_def Let_def)
qed

definition example_value :: "bytes32 \<Rightarrow> bytes32 \<Rightarrow> bytes32 \<Rightarrow> handle_slot_value" where
  "example_value h owner resolved =
     \<lparr>hv_counter = 0, hv_handle_hash = h, hv_left_value = 0, hv_right_value = 9,
      hv_expiration = 1000, hv_owner_launcher_id = owner, hv_resolved_launcher_id = resolved\<rparr>"

lemma transition_references_exact_witness:
  "\<exists>refs. refs = refs_from_transition [example_value 1 5 6] [example_value 1 7 8] 7 8 70 (Some 80) 71 81 \<and>
     set (map rf_launcher_id refs) = {7, 8}"
proof -
  define refs where
    "refs = refs_from_transition [example_value 1 5 6] [example_value 1 7 8] 7 8 70 (Some 80) 71 81"
  then have "refs = refs_from_transition [example_value 1 5 6] [example_value 1 7 8]
      (hv_owner_launcher_id (example_value 1 7 8)) (hv_resolved_launcher_id (example_value 1 7 8))
      70 (Some 80) 71 81"
    by (simp add: example_value_def)
  from transition_references_exact [OF this] have "set (map rf_launcher_id refs) = {7, 8}"
    by (auto simp: slot_launchers_def example_value_def)
  then show ?thesis by (auto simp: refs_def)
qed

text \<open>
  A registration compares with both neighbours as well: a launcher either of them names is not newly
  referenced.
\<close>

lemma register_references:
  "set (map rf_launcher_id (references_from_action_log (Register reg))) =
     {l \<in> set (slot_launchers (rl_created_handle_slot reg)) -
         (set (slot_launchers (rl_spent_left_slot reg)) \<union> set (slot_launchers (rl_spent_right_slot reg))).
        l = hv_owner_launcher_id (rl_created_handle_slot reg) \<or> rl_resolved_full_puzzle_hash reg \<noteq> None}"
  by (cases "rl_resolved_full_puzzle_hash reg")
    (auto simp: refs_from_transition_def slot_launchers_def Let_def)

end
