(* ===== verification/Freshness.thy ===== *)
theory Freshness
  imports Prelude
begin

text \<open>
  \<open>src/cli/xchandles/listener/freshness.rs\<close>: the gate in front of every chain-dependent read. The
  system clock is an argument.
\<close>

record freshness_state =
  indexed_peak_height :: u32
  upstream_peak_height :: u32
  last_successful_peak_unix :: u64
  confirmed_timestamp :: u64
  rolling_back :: bool
  resyncing :: bool

definition fresh_at :: "u32 \<Rightarrow> u64 \<Rightarrow> freshness_state" where
  "fresh_at peak now_unix =
     \<lparr>indexed_peak_height = peak, upstream_peak_height = peak,
      last_successful_peak_unix = now_unix, confirmed_timestamp = now_unix,
      rolling_back = False, resyncing = False\<rparr>"

definition with_confirmed_timestamp :: "freshness_state \<Rightarrow> u64 \<Rightarrow> freshness_state" where
  "with_confirmed_timestamp f t = f\<lparr>confirmed_timestamp := t\<rparr>"

definition is_fresh :: "freshness_state \<Rightarrow> u64 \<Rightarrow> bool" where
  "is_fresh f now_unix =
     (if rolling_back f \<or> resyncing f then False
      else if 16 < saturating_sub (upstream_peak_height f) (indexed_peak_height f) then False
      else if 300 < saturating_sub now_unix (last_successful_peak_unix f) then False
      else True)"

text \<open>The gate on unbounded numbers: what being fresh means.\<close>

lemma is_fresh_iff:
  "is_fresh f now \<longleftrightarrow>
     \<not> rolling_back f \<and> \<not> resyncing f \<and>
     unat (upstream_peak_height f) \<le> unat (indexed_peak_height f) + 16 \<and>
     unat now \<le> unat (last_successful_peak_unix f) + 300"
  by (auto simp: is_fresh_def word_nat)

text \<open>
  The freshness gate opens exactly when no rollback or resync is running, the index is at most 16
  blocks behind the upstream peak and the last successful peak is at most 300 seconds old, with no
  wrap-around when a clock or height lags. A state built by \<open>fresh_at\<close> therefore stays fresh for
  exactly 300 seconds.
\<close>

theorem is_fresh_exact:
  "(is_fresh f now \<longleftrightarrow>
      \<not> rolling_back f \<and> \<not> resyncing f \<and>
      unat (upstream_peak_height f) \<le> unat (indexed_peak_height f) + 16 \<and>
      unat now \<le> unat (last_successful_peak_unix f) + 300) \<and>
   (is_fresh (fresh_at peak t) now \<longleftrightarrow> unat now \<le> unat t + 300)"
  by (simp add: is_fresh_iff fresh_at_def)

end
