(* ===== verification/Indexer.thy ===== *)
theory Indexer
  imports SingletonStore HandleStore PendingStore Refs Freshness
begin

text \<open>
  \<open>src/cli/xchandles/listener/index.rs\<close>: the indexer that applies registry transitions to the four
  stores, follows singletons block by block, cleans up, and rolls back. Its methods take and return
  the state; a method that can fail returns the state it leaves behind next to its result, since the
  stores keep what was written before the failing step. The CLVM allocator is scratch memory and not
  modelled.
\<close>

record singleton_indexer =
  ix_store :: singleton_store
  ix_handle_slots :: handle_store
  ix_registrations :: registration_store
  ix_pending_updates :: pending_store
  ix_freshness :: freshness_state

definition note_peak ::
  "u32 \<Rightarrow> u32 \<Rightarrow> u64 \<Rightarrow> u64 \<Rightarrow> singleton_indexer \<Rightarrow> singleton_indexer"
where
  "note_peak indexed upstream now_unix confirmed ix =
     ix\<lparr>ix_freshness :=
       \<lparr>indexed_peak_height = indexed, upstream_peak_height = upstream,
        last_successful_peak_unix = now_unix, confirmed_timestamp = confirmed,
        rolling_back = False, resyncing = False\<rparr>\<rparr>"

definition begin_rollback :: "singleton_indexer \<Rightarrow> singleton_indexer" where
  "begin_rollback ix = ix\<lparr>ix_freshness := (ix_freshness ix)\<lparr>rolling_back := True\<rparr>\<rparr>"

definition begin_resync :: "singleton_indexer \<Rightarrow> singleton_indexer" where
  "begin_resync ix = ix\<lparr>ix_freshness := (ix_freshness ix)\<lparr>resyncing := True\<rparr>\<rparr>"

section \<open>Projections of action logs\<close>

text \<open>The projected states are named, so that the facts about a projection can refer to them.\<close>

definition stored_slot ::
  "bytes32 \<Rightarrow> handle_slot_value \<Rightarrow> slot_parent_lineage \<Rightarrow> u32 \<Rightarrow> stored_handle_slot"
where
  "stored_slot registry value parent height =
     \<lparr>sh_registry_launcher_id = registry, sh_handle_hash = hv_handle_hash value,
      sh_counter = hv_counter value, sh_neighbors_left = hv_left_value value,
      sh_neighbors_right = hv_right_value value, sh_expiration = hv_expiration value,
      sh_owner_launcher_id = hv_owner_launcher_id value,
      sh_resolved_launcher_id = hv_resolved_launcher_id value,
      sh_parent_coin_id = pl_parent_coin_id parent,
      sh_parent_parent_id = pl_parent_parent_id parent,
      sh_parent_inner_puzzle_hash = pl_parent_inner_puzzle_hash parent,
      sh_confirmation_height = height\<rparr>"

definition slot_record_or_new :: "handle_store \<Rightarrow> handle_key \<Rightarrow> handle_slot_record" where
  "slot_record_or_new s k = unwrap_or (handle_get s k)
     \<lparr>hr_registry_launcher_id = fst k, hr_handle_hash = snd k, hr_current = None, hr_history = []\<rparr>"

definition project_handle_slot ::
  "bytes32 \<Rightarrow> handle_slot_value \<Rightarrow> slot_parent_lineage \<Rightarrow> u32 \<Rightarrow> singleton_indexer \<Rightarrow> singleton_indexer"
where
  "project_handle_slot registry value parent height ix =
     (let stored = stored_slot registry value parent height;
          rec = slot_record_or_new (ix_handle_slots ix) (registry, hv_handle_hash value)
      in ix\<lparr>ix_handle_slots :=
           handle_upsert (push_handle_replacement rec stored height) (ix_handle_slots ix)\<rparr>)"

fun project_created ::
  "('n, 'z) sdk_scheme \<Rightarrow> bytes32 \<Rightarrow> u32 \<Rightarrow> (bytes32 \<Rightarrow> slot_parent_lineage option)
    \<Rightarrow> handle_slot_value list \<Rightarrow> singleton_indexer \<Rightarrow> singleton_indexer"
where
  "project_created sdk registry height parent_for [] ix = ix"
| "project_created sdk registry height parent_for (value # created) ix =
     (let value_hash = sdk_slot_tree_hash sdk value;
          parent = unwrap_or (parent_for value_hash) lineage_default
      in project_created sdk registry height parent_for created
           (project_handle_slot registry value parent height ix))"

definition project_handle_slots_from_logs ::
  "('n, 'z) sdk_scheme \<Rightarrow> bytes32 \<Rightarrow> u32 \<Rightarrow> action_log list \<Rightarrow> (bytes32 \<Rightarrow> slot_parent_lineage option)
    \<Rightarrow> singleton_indexer \<Rightarrow> singleton_indexer"
where
  "project_handle_slots_from_logs sdk registry height logs parent_for ix =
     project_created sdk registry height parent_for
       (concat (map (sdk_created_handle_slots sdk) logs)) ix"

text \<open>What a log registers: \<open>(kind, handle, secret, protocol fee, handle hash)\<close>.\<close>

fun registration_fact ::
  "action_log \<Rightarrow> (registration_action_kind \<times> string \<times> bytes32 \<times> u64 \<times> bytes32) option"
where
  "registration_fact (Register e) =
     Some (KindRegister, rl_handle e, rl_secret e, rl_total_price e,
           hv_handle_hash (rl_created_handle_slot e))"
| "registration_fact (Expire e) =
     Some (KindExpire, xl_handle e, xl_secret e, xl_total_price e, hv_handle_hash (xl_created_slot e))"
| "registration_fact _ = None"

definition registration_record_or_new :: "registration_store \<Rightarrow> handle_key \<Rightarrow> registration_record" where
  "registration_record_or_new s k = unwrap_or (registration_get s k)
     \<lparr>rr_registry_launcher_id = fst k, rr_handle_hash = snd k, rr_current = None, rr_history = []\<rparr>"

definition project_registration ::
  "bytes32 \<Rightarrow> u32 \<Rightarrow> action_log \<Rightarrow> singleton_indexer \<Rightarrow> singleton_indexer"
where
  "project_registration registry height log ix =
     (case registration_fact log of
        None \<Rightarrow> ix
      | Some (action_kind, handle, secret, protocol_fee, handle_hash) \<Rightarrow>
          (let stored =
             \<lparr>sr_registry_launcher_id = registry, sr_handle = handle, sr_handle_hash = handle_hash,
              sr_registration_secret = secret, sr_action_kind = action_kind,
              sr_protocol_fee = protocol_fee, sr_confirmation_height = height\<rparr>;
            rec = registration_record_or_new (ix_registrations ix) (registry, handle_hash);
            regs = registration_upsert (push_registration_replacement rec stored height)
              (ix_registrations ix);
            stats = record_event (get_stats regs registry)
              \<lparr>ev_handle = handle, ev_action_kind = action_kind, ev_confirmation_height = height\<rparr>
           in ix\<lparr>ix_registrations := set_stats registry stats regs\<rparr>))"

definition project_registrations_from_logs ::
  "bytes32 \<Rightarrow> u32 \<Rightarrow> action_log list \<Rightarrow> singleton_indexer \<Rightarrow> singleton_indexer"
where
  "project_registrations_from_logs registry height logs ix =
     foldl (\<lambda>ix log. project_registration registry height log ix) ix logs"

definition clear_pending_for_handle ::
  "bytes32 \<Rightarrow> bytes32 \<Rightarrow> u32 \<Rightarrow> singleton_indexer \<Rightarrow> singleton_indexer"
where
  "clear_pending_for_handle registry handle_hash height ix =
     (case pending_get (ix_pending_updates ix) (registry, handle_hash) of
        None \<Rightarrow> ix
      | Some rec \<Rightarrow>
          if pr_current rec = None then ix
          else
            (let rec' = clear_pending_current rec height
             in if pr_current rec' = None \<and> pr_history rec' = []
                then ix\<lparr>ix_pending_updates :=
                       pending_remove (registry, handle_hash) (ix_pending_updates ix)\<rparr>
                else ix\<lparr>ix_pending_updates := pending_upsert rec' (ix_pending_updates ix)\<rparr>))"

definition pending_record_or_new :: "pending_store \<Rightarrow> handle_key \<Rightarrow> pending_update_record" where
  "pending_record_or_new s k = unwrap_or (pending_get s k)
     \<lparr>pr_registry_launcher_id = fst k, pr_handle_hash = snd k, pr_current = None, pr_history = []\<rparr>"

definition stored_pending :: "bytes32 \<Rightarrow> u32 \<Rightarrow> update_slot_value \<Rightarrow> stored_pending_update" where
  "stored_pending registry height value =
     \<lparr>su_registry_launcher_id = registry, su_handle_hash = uv_handle_hash value,
      su_new_owner_launcher_id = uv_new_owner_launcher_id value,
      su_new_resolved_launcher_id = uv_new_resolved_launcher_id value,
      su_update_confirmation_height = height,
      su_minimum_execution_height = uv_min_height value,
      su_update_initiator_coin_id = uv_update_initiator_coin_id value\<rparr>"

definition initiate_pending ::
  "bytes32 \<Rightarrow> u32 \<Rightarrow> update_slot_value \<Rightarrow> singleton_indexer \<Rightarrow> singleton_indexer"
where
  "initiate_pending registry height value ix =
     (let stored = stored_pending registry height value;
          rec = pending_record_or_new (ix_pending_updates ix) (registry, uv_handle_hash value)
      in ix\<lparr>ix_pending_updates :=
           pending_upsert (push_pending_replacement rec stored height) (ix_pending_updates ix)\<rparr>)"

fun project_pending_update ::
  "bytes32 \<Rightarrow> u32 \<Rightarrow> action_log \<Rightarrow> singleton_indexer \<Rightarrow> singleton_indexer"
where
  "project_pending_update registry height (InitiateUpdate e) ix =
     initiate_pending registry height (il_created_update_slot e) ix"
| "project_pending_update registry height (ExecuteUpdate e) ix =
     clear_pending_for_handle registry (uv_handle_hash (el_spent_update_slot e)) height ix"
| "project_pending_update registry height (Extend spent created) ix =
     clear_pending_for_handle registry (hv_handle_hash spent) height ix"
| "project_pending_update registry height (Oracle spent created) ix =
     clear_pending_for_handle registry (hv_handle_hash spent) height ix"
| "project_pending_update registry height (Expire e) ix =
     clear_pending_for_handle registry (hv_handle_hash (xl_spent_slot e)) height ix"
| "project_pending_update registry height (Refund spent created) ix =
     (case spent of
        None \<Rightarrow> ix
      | Some s \<Rightarrow> clear_pending_for_handle registry (hv_handle_hash s) height ix)"
| "project_pending_update registry height (Register e) ix = ix"
| "project_pending_update registry height DelegatedState ix = ix"

definition project_pending_updates_from_logs ::
  "bytes32 \<Rightarrow> u32 \<Rightarrow> action_log list \<Rightarrow> singleton_indexer \<Rightarrow> singleton_indexer"
where
  "project_pending_updates_from_logs registry height logs ix =
     foldl (\<lambda>ix log. project_pending_update registry height log ix) ix logs"

section \<open>Discovery and references\<close>

definition found_state ::
  "('n, 'z) sdk_scheme \<Rightarrow> bytes32 \<Rightarrow> u32 \<Rightarrow> discovered_singleton \<Rightarrow> stored_singleton_state"
where
  "found_state sdk launcher_id height found =
     (let melted = ds_melted found
      in from_coin sdk launcher_id (ds_coin found) (ds_inner_puzzle_hash found) height melted
           (if melted then Some height else None) (ds_nft found))"

fun discovery_outcome ::
  "('n, 'z) sdk_scheme \<Rightarrow> bytes32 \<Rightarrow> u32 \<Rightarrow> discovery_result
    \<Rightarrow> follow_record_status \<times> stored_singleton_state option"
where
  "discovery_outcome sdk launcher_id height Incomplete = (FollowIncomplete, None)"
| "discovery_outcome sdk launcher_id height Mismatch = (FollowMismatch, None)"
| "discovery_outcome sdk launcher_id height (Found found) =
     (FollowActive, Some (found_state sdk launcher_id height found))"

definition is_followed :: "followed_singleton option \<Rightarrow> bool" where
  "is_followed existing \<longleftrightarrow>
     (case existing of
        None \<Rightarrow> False
      | Some rec \<Rightarrow> fs_status rec = FollowActive \<and> fs_current rec \<noteq> None)"

definition discover_reference ::
  "('n, 'z) sdk_scheme \<Rightarrow> u32 \<Rightarrow> coin_spend list \<Rightarrow> singleton_reference \<Rightarrow> singleton_indexer
    \<Rightarrow> singleton_indexer \<times> (string + unit)"
where
  "discover_reference sdk height block_spends reference ix =
     (let existing = singleton_get (ix_store ix) (rf_launcher_id reference)
      in if is_followed existing
         then (ix\<lparr>ix_store := bump_reference (rf_launcher_id reference) (ix_store ix)\<rparr>, Inr ())
         else
           (case discover_singleton_in_block sdk block_spends (rf_launcher_id reference)
                   (rf_expected_full_puzzle_hash reference) (rf_expected_inner_puzzle_hash reference) of
              Inl e \<Rightarrow> (ix, Inl (sdk_driver_error_text sdk e))
            | Inr result \<Rightarrow>
                (let (status, current) = discovery_outcome sdk (rf_launcher_id reference) height result;
                     reference_count = (case existing of
                        None \<Rightarrow> 1 | Some prev \<Rightarrow> max (fs_reference_count prev) 1);
                     history = (case existing of None \<Rightarrow> [] | Some prev \<Rightarrow> fs_history prev)
                 in (ix\<lparr>ix_store := singleton_upsert
                       \<lparr>fs_launcher_id = rf_launcher_id reference,
                        fs_expected_full_puzzle_hash = rf_expected_full_puzzle_hash reference,
                        fs_expected_inner_puzzle_hash = rf_expected_inner_puzzle_hash reference,
                        fs_discovery_height = height, fs_status = status, fs_current = current,
                        fs_history = history, fs_reference_count = reference_count,
                        fs_dereference_height = None\<rparr> (ix_store ix)\<rparr>, Inr ()))))"

fun slot_pairs :: "action_log \<Rightarrow> (handle_slot_value \<times> handle_slot_value) list" where
  "slot_pairs (Extend spent created) = [(spent, created)]"
| "slot_pairs (Oracle spent created) = [(spent, created)]"
| "slot_pairs (Expire e) = [(xl_spent_slot e, xl_created_slot e)]"
| "slot_pairs (ExecuteUpdate e) = [(el_spent_handle_slot e, el_created_slot e)]"
| "slot_pairs (InitiateUpdate e) = [(il_spent_slot e, il_created_handle_slot e)]"
| "slot_pairs (Refund (Some s) (Some c)) = [(s, c)]"
| "slot_pairs (Refund _ _) = []"
| "slot_pairs (Register e) =
     [(rl_spent_left_slot e, rl_created_left_slot e), (rl_spent_right_slot e, rl_created_right_slot e)]"
| "slot_pairs DelegatedState = []"

definition rebump :: "bytes32 \<Rightarrow> singleton_store \<Rightarrow> singleton_store" where
  "rebump launcher store =
     (case singleton_get store launcher of
        None \<Rightarrow> store
      | Some rec \<Rightarrow>
          if fs_reference_count rec = 0 \<or> fs_dereference_height rec \<noteq> None
          then bump_reference launcher store else store)"

definition track_pair ::
  "u32 \<Rightarrow> handle_slot_value \<times> handle_slot_value \<Rightarrow> singleton_store \<Rightarrow> singleton_store"
where
  "track_pair height p store =
     (let (spent, created) = p;
          store' = foldl (\<lambda>s launcher. drop_reference launcher height s) store
                     (dereferenced_launchers spent created)
      in foldl (\<lambda>s launcher. rebump launcher s) store'
           [hv_owner_launcher_id created, hv_resolved_launcher_id created])"

definition track_slot_reference_changes ::
  "u32 \<Rightarrow> action_log \<Rightarrow> singleton_indexer \<Rightarrow> singleton_indexer"
where
  "track_slot_reference_changes height log ix =
     ix\<lparr>ix_store := foldl (\<lambda>s p. track_pair height p s) (ix_store ix) (slot_pairs log)\<rparr>"

fun discover_references ::
  "('n, 'z) sdk_scheme \<Rightarrow> u32 \<Rightarrow> coin_spend list \<Rightarrow> singleton_reference list \<Rightarrow> singleton_indexer
    \<Rightarrow> singleton_indexer \<times> (string + unit)"
where
  "discover_references sdk height block_spends [] ix = (ix, Inr ())"
| "discover_references sdk height block_spends (reference # references) ix =
     (case discover_reference sdk height block_spends reference ix of
        (ix', Inl e) \<Rightarrow> (ix', Inl e)
      | (ix', Inr _) \<Rightarrow> discover_references sdk height block_spends references ix')"

fun on_registry_transition ::
  "('n, 'z) sdk_scheme \<Rightarrow> u32 \<Rightarrow> coin_spend list \<Rightarrow> action_log list \<Rightarrow> singleton_indexer
    \<Rightarrow> singleton_indexer \<times> (string + unit)"
where
  "on_registry_transition sdk height block_spends [] ix = (ix, Inr ())"
| "on_registry_transition sdk height block_spends (log # logs) ix =
     (case discover_references sdk height block_spends (references_from_action_log log) ix of
        (ix', Inl e) \<Rightarrow> (ix', Inl e)
      | (ix', Inr _) \<Rightarrow>
          on_registry_transition sdk height block_spends logs
            (track_slot_reference_changes height log ix'))"

section \<open>Following singletons\<close>

text \<open>The retry of an incomplete discovery: what is written back, if anything.\<close>

fun retried ::
  "('n, 'z) sdk_scheme \<Rightarrow> u32 \<Rightarrow> followed_singleton \<Rightarrow> discovery_result \<Rightarrow> followed_singleton option"
where
  "retried sdk height rec (Found found) =
     Some (rec\<lparr>fs_status := FollowActive,
               fs_current := Some (found_state sdk (fs_launcher_id rec) height found)\<rparr>)"
| "retried sdk height rec Mismatch = Some (rec\<lparr>fs_status := FollowMismatch\<rparr>)"
| "retried sdk height rec Incomplete = None"

text \<open>The state after the followed coin was spent.\<close>

fun next_state ::
  "('n, 'z) sdk_scheme \<Rightarrow> bytes32 \<Rightarrow> u32 \<Rightarrow> follow_spend_result \<Rightarrow> stored_singleton_state"
where
  "next_state sdk launcher_id height (Next next) =
     from_coin sdk launcher_id (ds_coin next) (ds_inner_puzzle_hash next) height False None
       (ds_nft next)"
| "next_state sdk launcher_id height (Melted c inner nft) =
     from_coin sdk launcher_id c inner height True (Some height) nft"

text \<open>
  The loop body of \<open>on_block\<close> for a record it found: \<open>Inr None\<close> leaves it as it is (every \<open>continue\<close>),
  \<open>Inr (Some rec')\<close> writes \<open>rec'\<close> back.
\<close>

definition follow_record ::
  "('n, 'z) sdk_scheme \<Rightarrow> u32 \<Rightarrow> coin_spend list \<Rightarrow> bytes32 \<Rightarrow> followed_singleton
    \<Rightarrow> driver_error + followed_singleton option"
where
  "follow_record sdk height block_spends launcher_id rec =
     (if fs_status rec = FollowIncomplete then
        try_result (discover_singleton_in_block sdk block_spends (fs_launcher_id rec)
                      (fs_expected_full_puzzle_hash rec) (fs_expected_inner_puzzle_hash rec))
          (\<lambda>result. Inr (retried sdk height rec result))
      else if fs_status rec \<noteq> FollowActive then Inr None
      else
        (case fs_current rec of
           None \<Rightarrow> Inr None
         | Some current \<Rightarrow>
             if ss_melted current then Inr None
             else
               (case find (\<lambda>s. sdk_coin_id sdk (spend_coin s) = ss_coin_id current) block_spends of
                  None \<Rightarrow> Inr None
                | Some spend \<Rightarrow>
                    try_result (follow_singleton_spend sdk spend launcher_id) (\<lambda>result.
                      Inr (Some (push_replacement rec
                        (next_state sdk launcher_id height result) height))))))"

fun follow_all ::
  "('n, 'z) sdk_scheme \<Rightarrow> u32 \<Rightarrow> coin_spend list \<Rightarrow> bytes32 list \<Rightarrow> singleton_store
    \<Rightarrow> singleton_store \<times> (string + unit)"
where
  "follow_all sdk height block_spends [] store = (store, Inr ())"
| "follow_all sdk height block_spends (launcher_id # ids) store =
     (case singleton_get store launcher_id of
        None \<Rightarrow> follow_all sdk height block_spends ids store
      | Some rec \<Rightarrow>
          (case follow_record sdk height block_spends launcher_id rec of
             Inl e \<Rightarrow> (store, Inl (sdk_driver_error_text sdk e))
           | Inr None \<Rightarrow> follow_all sdk height block_spends ids store
           | Inr (Some rec') \<Rightarrow>
               follow_all sdk height block_spends ids (singleton_upsert rec' store)))"

definition finalized :: "u32 \<Rightarrow> followed_singleton \<Rightarrow> bool" where
  "finalized peak rec \<longleftrightarrow>
     fs_reference_count rec = 0 \<and>
     (case fs_dereference_height rec of
        None \<Rightarrow> False
      | Some deref_h \<Rightarrow> saturating_add deref_h 32 \<le> peak)"

fun cleanup_all :: "u32 \<Rightarrow> bytes32 list \<Rightarrow> singleton_store \<Rightarrow> singleton_store" where
  "cleanup_all peak [] store = store"
| "cleanup_all peak (launcher_id # ids) store =
     (case singleton_get store launcher_id of
        None \<Rightarrow> cleanup_all peak ids store
      | Some rec \<Rightarrow>
          cleanup_all peak ids
            (if finalized peak rec then singleton_remove launcher_id store else store))"

definition cleanup_finalized :: "u32 \<Rightarrow> singleton_indexer \<Rightarrow> singleton_indexer" where
  "cleanup_finalized peak ix =
     ix\<lparr>ix_store := cleanup_all peak (all_launcher_ids (ix_store ix)) (ix_store ix)\<rparr>"

definition on_block ::
  "('n, 'z) sdk_scheme \<Rightarrow> u32 \<Rightarrow> coin_spend list \<Rightarrow> singleton_indexer
    \<Rightarrow> singleton_indexer \<times> (string + unit)"
where
  "on_block sdk height block_spends ix =
     (case follow_all sdk height block_spends (all_launcher_ids (ix_store ix)) (ix_store ix) of
        (store, Inl e) \<Rightarrow> (ix\<lparr>ix_store := store\<rparr>, Inl e)
      | (store, Inr _) \<Rightarrow> (cleanup_finalized height (ix\<lparr>ix_store := store\<rparr>), Inr ()))"

section \<open>Rolling back\<close>

definition rollback_followed :: "u32 \<Rightarrow> followed_singleton \<Rightarrow> followed_singleton option" where
  "rollback_followed from_height rec =
     (if from_height \<le> fs_discovery_height rec then None
      else
        (let rec1 = rollback_to_before rec from_height
         in Some
           (case fs_dereference_height rec1 of
              None \<Rightarrow> rec1
            | Some deref_h \<Rightarrow>
                if from_height \<le> deref_h
                then rec1\<lparr>fs_dereference_height := None,
                          fs_reference_count :=
                            (if fs_reference_count rec1 = 0 then 1 else fs_reference_count rec1)\<rparr>
                else rec1)))"

definition rollback_slot :: "u32 \<Rightarrow> handle_slot_record \<Rightarrow> handle_slot_record option" where
  "rollback_slot from_height rec =
     (let rec' = rollback_handle_to_before rec from_height
      in if hr_current rec' = None \<and> hr_history rec' = [] then None else Some rec')"

definition rollback_registration :: "u32 \<Rightarrow> registration_record \<Rightarrow> registration_record option" where
  "rollback_registration from_height rec =
     (let rec' = rollback_registration_to_before rec from_height
      in if rr_current rec' = None \<and> rr_history rec' = [] then None else Some rec')"

definition rollback_pending :: "u32 \<Rightarrow> pending_update_record \<Rightarrow> pending_update_record option" where
  "rollback_pending from_height rec =
     (let rec' = rollback_pending_to_before rec from_height
      in if pr_current rec' = None \<and> pr_history rec' = [] then None else Some rec')"

text \<open>The hash set of touched registries, as a list without duplicates.\<close>

definition touched_registries :: "registration_store \<Rightarrow> bytes32 list" where
  "touched_registries regs =
     remdups (all_stats_registry_ids regs @ map fst (all_registration_keys regs))"

definition rollback_registrations :: "u32 \<Rightarrow> registration_store \<Rightarrow> registration_store" where
  "rollback_registrations from_height regs =
     (let touched = touched_registries regs;
          regs1 = sweep registration_get registration_upsert registration_remove
                    (rollback_registration from_height) (all_registration_keys regs) regs
      in foldl (\<lambda>s registry. set_stats registry
                  (rollback_stats_to_before (get_stats s registry) from_height) s) regs1 touched)"

definition rollback :: "u32 \<Rightarrow> singleton_indexer \<Rightarrow> singleton_indexer" where
  "rollback from_height ix0 =
     (let ix = begin_rollback ix0
      in ix\<lparr>ix_store := sweep singleton_get singleton_upsert singleton_remove
              (rollback_followed from_height) (all_launcher_ids (ix_store ix)) (ix_store ix),
            ix_handle_slots := sweep handle_get handle_upsert handle_remove
              (rollback_slot from_height) (all_handle_keys (ix_handle_slots ix)) (ix_handle_slots ix),
            ix_registrations := rollback_registrations from_height (ix_registrations ix),
            ix_pending_updates := sweep pending_get pending_upsert pending_remove
              (rollback_pending from_height) (all_pending_keys (ix_pending_updates ix))
              (ix_pending_updates ix)\<rparr>)"

section \<open>Invariant\<close>

definition indexer_ok :: "singleton_indexer \<Rightarrow> bool" where
  "indexer_ok ix \<longleftrightarrow>
     singletons_ok (ix_store ix) \<and> handles_ok (ix_handle_slots ix) \<and>
     registrations_ok (ix_registrations ix) \<and> pendings_ok (ix_pending_updates ix)"

section \<open>A concrete indexer\<close>

text \<open>For the witnesses: singleton 7 is followed since block 90, and three handles are named.\<close>

definition example_followed :: followed_singleton where
  "example_followed = example_singleton\<lparr>fs_current := Some (example_state 90)\<rparr>"

lemma example_followed_simps [simp]:
  "fs_launcher_id example_followed = 7" "fs_status example_followed = FollowActive"
  "fs_current example_followed = Some (example_state 90)" "fs_reference_count example_followed = 1"
  "fs_dereference_height example_followed = None" "fs_discovery_height example_followed = 90"
  by (simp_all add: example_followed_def example_singleton_def)

definition example_indexer :: singleton_indexer where
  "example_indexer =
     \<lparr>ix_store = [(7, example_followed)],
      ix_handle_slots = example_slots, ix_registrations = example_names,
      ix_pending_updates = [((1, 2), example_pending)], ix_freshness = fresh_at 100 1000\<rparr>"

lemma example_indexer_ok: "indexer_ok example_indexer"
  using example_slots_ok
  by (simp add: indexer_ok_def example_indexer_def singletons_ok_def registrations_ok_def
      pendings_ok_def keyed_def hm_ok_def example_names_def registration_key_def example_pending_def
      pending_key_def)

definition example_spend :: coin_spend where
  "example_spend =
     \<lparr>spend_coin = \<lparr>parent_coin_info = 1, puzzle_hash = 2, amount = 1\<rparr>,
      puzzle_reveal = [7], spend_solution = [5]\<rparr>"

end
