(* ===== verification/IndexerRollback.thy ===== *)
theory IndexerRollback
  imports Indexer
begin

text \<open>
  What \<open>SingletonIndexer::rollback\<close> does to the four stores: each record is rolled back on its own, the
  records that only existed on the orphaned blocks disappear, and nothing of those blocks is left.
  The loops over the stores are instances of \<open>sweep\<close>, so the facts come from the record-store
  contract the stores were shown to meet.
\<close>

lemmas record_key_defs =
  handle_slot_key_def registration_key_def pending_key_def

lemma rollback_followed_key:
  "rollback_followed f r = Some r' \<Longrightarrow> fs_launcher_id r' = fs_launcher_id r"
  by (auto simp: rollback_followed_def Let_def split: if_splits option.splits)

lemma rollback_slot_key: "rollback_slot f r = Some r' \<Longrightarrow> handle_slot_key r' = handle_slot_key r"
  by (auto simp: rollback_slot_def Let_def split: if_splits)

lemma rollback_registration_key:
  "rollback_registration f r = Some r' \<Longrightarrow> registration_key r' = registration_key r"
  by (auto simp: rollback_registration_def Let_def split: if_splits)

lemma rollback_pending_key: "rollback_pending f r = Some r' \<Longrightarrow> pending_key r' = pending_key r"
  by (auto simp: rollback_pending_def Let_def split: if_splits)

section \<open>The statistics\<close>

lemma fold_set_stats_get:
  assumes "distinct rs"
  shows "get_stats (foldl (\<lambda>s r. set_stats r (g (get_stats s r)) s) s rs) r =
      (if r \<in> set rs then g (get_stats s r) else get_stats s r)"
  using assms by (induction rs arbitrary: s) auto

lemma fold_set_stats_records [simp]:
  "registration_get (foldl (\<lambda>s r. set_stats r (g (get_stats s r)) s) s rs) k = registration_get s k"
  by (induction rs arbitrary: s) simp_all

lemma fold_set_stats_ok [simp]:
  "registrations_ok s \<Longrightarrow> registrations_ok (foldl (\<lambda>s r. set_stats r (g (get_stats s r)) s) s rs)"
  by (induction rs arbitrary: s) simp_all

lemma get_stats_sweep [simp]:
  "get_stats (sweep registration_get registration_upsert registration_remove f ks s) r = get_stats s r"
  by (induction ks arbitrary: s) (auto split: option.splits)

lemma rollback_stats_default [simp]: "rollback_stats_to_before stats_default f = stats_default"
  by (simp add: rollback_stats_to_before_def stats_default_def)

lemma touched_covers_stats:
  assumes "r \<notin> set (touched_registries regs)"
  shows "get_stats regs r = stats_default"
proof -
  have "r \<notin> set (hm_keys (rs_stats regs))"
    using assms by (simp add: touched_registries_def all_stats_registry_ids_def)
  then have "hm_get (rs_stats regs) r = None"
    using hm_keys_iff [of r "rs_stats regs"] by metis
  then show ?thesis by (simp add: get_stats_def)
qed

section \<open>Each store after a rollback\<close>

lemma rollback_stores:
  assumes "indexer_ok ix"
  shows "singleton_get (ix_store (rollback f ix)) l =
      Option.bind (singleton_get (ix_store ix) l) (rollback_followed f)"
    and "handle_get (ix_handle_slots (rollback f ix)) k =
      Option.bind (handle_get (ix_handle_slots ix) k) (rollback_slot f)"
    and "registration_get (ix_registrations (rollback f ix)) k =
      Option.bind (registration_get (ix_registrations ix) k) (rollback_registration f)"
    and "pending_get (ix_pending_updates (rollback f ix)) k =
      Option.bind (pending_get (ix_pending_updates ix) k) (rollback_pending f)"
    and "get_stats (ix_registrations (rollback f ix)) r =
      rollback_stats_to_before (get_stats (ix_registrations ix) r) f"
proof -
  show "singleton_get (ix_store (rollback f ix)) l =
      Option.bind (singleton_get (ix_store ix) l) (rollback_followed f)"
    using assms
    by (simp add: rollback_def begin_rollback_def indexer_ok_def singletons.sweep_all
        rollback_followed_key)
  show "handle_get (ix_handle_slots (rollback f ix)) k =
      Option.bind (handle_get (ix_handle_slots ix) k) (rollback_slot f)"
    using assms
    by (simp add: rollback_def begin_rollback_def indexer_ok_def handle_slots.sweep_all
        rollback_slot_key)
  show "registration_get (ix_registrations (rollback f ix)) k =
      Option.bind (registration_get (ix_registrations ix) k) (rollback_registration f)"
    using assms
    by (simp add: rollback_def begin_rollback_def rollback_registrations_def Let_def
        indexer_ok_def registrations.sweep_all rollback_registration_key
        fold_set_stats_records [where g = "\<lambda>st. rollback_stats_to_before st f"])
  show "pending_get (ix_pending_updates (rollback f ix)) k =
      Option.bind (pending_get (ix_pending_updates ix) k) (rollback_pending f)"
    using assms
    by (simp add: rollback_def begin_rollback_def indexer_ok_def pendings.sweep_all
        rollback_pending_key)
  have "distinct (touched_registries (ix_registrations ix))"
    by (simp add: touched_registries_def)
  then show "get_stats (ix_registrations (rollback f ix)) r =
      rollback_stats_to_before (get_stats (ix_registrations ix) r) f"
    using touched_covers_stats [of r "ix_registrations ix"]
    by (simp add: rollback_def begin_rollback_def rollback_registrations_def Let_def
        fold_set_stats_get [where g = "\<lambda>st. rollback_stats_to_before st f"])
qed

lemma rollback_ok:
  assumes "indexer_ok ix"
  shows "indexer_ok (rollback f ix)"
proof -
  have "singletons_ok (ix_store (rollback f ix))"
    using assms by (simp add: rollback_def begin_rollback_def indexer_ok_def
        singletons.invar_sweep rollback_followed_key)
  moreover have "handles_ok (ix_handle_slots (rollback f ix))"
    using assms by (simp add: rollback_def begin_rollback_def indexer_ok_def
        handle_slots.invar_sweep rollback_slot_key)
  moreover have "registrations_ok (ix_registrations (rollback f ix))"
    using assms by (simp add: rollback_def begin_rollback_def indexer_ok_def
        rollback_registrations_def Let_def registrations.invar_sweep rollback_registration_key
        fold_set_stats_ok [where g = "\<lambda>st. rollback_stats_to_before st f"])
  moreover have "pendings_ok (ix_pending_updates (rollback f ix))"
    using assms by (simp add: rollback_def begin_rollback_def indexer_ok_def
        pendings.invar_sweep rollback_pending_key)
  ultimately show ?thesis by (simp add: indexer_ok_def)
qed

section \<open>Nothing of the orphaned blocks is left\<close>

definition all_below :: "('s \<Rightarrow> u32) \<Rightarrow> u32 \<Rightarrow> 's option \<Rightarrow> 's list \<Rightarrow> bool" where
  "all_below h f current history \<longleftrightarrow> list_all (\<lambda>s. h s < f) (history @ option_list current)"

lemma all_below_timeline:
  "all_below ss_confirmation_height f (fs_current (rollback_to_before r f)) (fs_history (rollback_to_before r f))"
  "all_below sh_confirmation_height f (hr_current (rollback_handle_to_before s f)) (hr_history (rollback_handle_to_before s f))"
  "all_below sr_confirmation_height f (rr_current (rollback_registration_to_before t f))
     (rr_history (rollback_registration_to_before t f))"
  "all_below su_update_confirmation_height f (pr_current (rollback_pending_to_before u f))
     (pr_history (rollback_pending_to_before u f))"
  using singleton_states.rollback_restores_below [of r f] handle_states.rollback_restores_below [of s f]
    registration_states.rollback_restores_below [of t f] pending_states.rollback_restores_below [of u f]
  unfolding all_below_def list_all_iff singleton_states.timeline_def handle_states.timeline_def
    registration_states.timeline_def pending_states.timeline_def
  by blast+

lemma rollback_followed_below:
  assumes "rollback_followed f r = Some r'"
  shows "all_below ss_confirmation_height f (fs_current r') (fs_history r') \<and>
    fs_discovery_height r' < f \<and> (\<forall>d. fs_dereference_height r' = Some d \<longrightarrow> d < f)"
  using assms all_below_timeline(1) [of f r]
  by (auto simp: rollback_followed_def Let_def not_le split: if_splits option.splits)

lemma rollback_slot_below:
  "rollback_slot f r = Some r' \<Longrightarrow> all_below sh_confirmation_height f (hr_current r') (hr_history r')"
  using all_below_timeline(2) [of f r] by (auto simp: rollback_slot_def Let_def split: if_splits)

lemma rollback_registration_below:
  "rollback_registration f r = Some r' \<Longrightarrow>
     all_below sr_confirmation_height f (rr_current r') (rr_history r')"
  using all_below_timeline(3) [of f r]
  by (auto simp: rollback_registration_def Let_def split: if_splits)

lemma rollback_pending_below:
  "rollback_pending f r = Some r' \<Longrightarrow>
     all_below su_update_confirmation_height f (pr_current r') (pr_history r')"
  using all_below_timeline(4) [of f r] by (auto simp: rollback_pending_def Let_def split: if_splits)

section \<open>Properties\<close>

text \<open>
  A rollback treats every record on its own, with the record's own rollback, drops what is left
  empty, keeps the stores well-formed, and closes the freshness gate until the next peak is noted.
\<close>

theorem rollback_pointwise:
  assumes "indexer_ok ix"
  shows "indexer_ok (rollback f ix) \<and>
    singleton_get (ix_store (rollback f ix)) l =
      Option.bind (singleton_get (ix_store ix) l) (rollback_followed f) \<and>
    handle_get (ix_handle_slots (rollback f ix)) k =
      Option.bind (handle_get (ix_handle_slots ix) k) (rollback_slot f) \<and>
    registration_get (ix_registrations (rollback f ix)) k =
      Option.bind (registration_get (ix_registrations ix) k) (rollback_registration f) \<and>
    pending_get (ix_pending_updates (rollback f ix)) k =
      Option.bind (pending_get (ix_pending_updates ix) k) (rollback_pending f) \<and>
    get_stats (ix_registrations (rollback f ix)) r =
      rollback_stats_to_before (get_stats (ix_registrations ix) r) f \<and>
    \<not> is_fresh (ix_freshness (rollback f ix)) now \<and>
    \<not> rolling_back (ix_freshness (note_peak indexed upstream now t (rollback f ix)))"
  using rollback_stores [OF assms] rollback_ok [OF assms]
  by (simp add: rollback_def begin_rollback_def is_fresh_def note_peak_def)

lemma rollback_pointwise_witness:
  "singleton_get (ix_store (rollback 80 example_indexer)) 7 = None"
  using rollback_pointwise [OF example_indexer_ok, of 80 7]
  by (simp add: rollback_followed_def example_indexer_def singleton_get_def)

text \<open>
  C12. After a rollback from height \<open>f\<close> no store holds anything confirmed at \<open>f\<close> or above: no state or
  history entry of a singleton, slot, registration or pending update, no singleton discovered there,
  no dereference recorded there, and no event of a feed that was in height order, as the feeds of every
  reachable indexer are; and the freshness flag \<open>rolling_back\<close> is set.
\<close>

theorem rollback_forgets_orphans:
  assumes "indexer_ok ix"
    and "sorted (map ev_confirmation_height (st_events (get_stats (ix_registrations ix) r)))"
  shows "(case singleton_get (ix_store (rollback f ix)) l of None \<Rightarrow> True | Some rec \<Rightarrow>
       all_below ss_confirmation_height f (fs_current rec) (fs_history rec) \<and>
       fs_discovery_height rec < f \<and> \<not> (\<exists>d. fs_dereference_height rec = Some d \<and> f \<le> d)) \<and>
    (case handle_get (ix_handle_slots (rollback f ix)) k of None \<Rightarrow> True | Some rec \<Rightarrow>
       all_below sh_confirmation_height f (hr_current rec) (hr_history rec)) \<and>
    (case registration_get (ix_registrations (rollback f ix)) k of None \<Rightarrow> True | Some rec \<Rightarrow>
       all_below sr_confirmation_height f (rr_current rec) (rr_history rec)) \<and>
    (case pending_get (ix_pending_updates (rollback f ix)) k of None \<Rightarrow> True | Some rec \<Rightarrow>
       all_below su_update_confirmation_height f (pr_current rec) (pr_history rec)) \<and>
    list_all (\<lambda>ev. ev_confirmation_height ev < f)
      (st_events (get_stats (ix_registrations (rollback f ix)) r)) \<and>
    rolling_back (ix_freshness (rollback f ix))"
proof -
  have "list_all (\<lambda>ev. ev_confirmation_height ev < f)
      (st_events (rollback_stats_to_before (get_stats (ix_registrations ix) r) f))"
    by (simp add: rollback_stats_events [OF assms(2)] list_all_iff)
  moreover have "case Option.bind v (rollback_followed f) of None \<Rightarrow> True | Some rec \<Rightarrow>
       all_below ss_confirmation_height f (fs_current rec) (fs_history rec) \<and>
       fs_discovery_height rec < f \<and> \<not> (\<exists>d. fs_dereference_height rec = Some d \<and> f \<le> d)" for v
    by (cases v) (auto dest: rollback_followed_below simp: not_le split: option.splits)
  moreover have "rolling_back (ix_freshness (rollback f ix))"
    by (simp add: rollback_def begin_rollback_def)
  ultimately show ?thesis
    unfolding rollback_stores [OF assms(1)]
    by (auto dest: rollback_slot_below rollback_registration_below rollback_pending_below
        split: option.splits Option.bind_splits)
qed

text \<open>The three named handles of the example indexer with a recorded event, for the witness.\<close>

definition example_recorded :: singleton_indexer where
  "example_recorded = example_indexer\<lparr>ix_registrations :=
     set_stats 1 \<lparr>st_total_registered = 1,
         st_events = [\<lparr>ev_handle = ''bob'', ev_action_kind = KindRegister, ev_confirmation_height = 95\<rparr>]\<rparr>
       example_names\<rparr>"

lemma rollback_forgets_orphans_witness:
  "\<not> (\<exists>rec. handle_get (ix_handle_slots (rollback 90 example_recorded)) (1, 1) = Some rec \<and>
     hr_current rec = Some (example_slot 1 10)) \<and>
   list_all (\<lambda>ev. ev_confirmation_height ev < 90)
     (st_events (get_stats (ix_registrations (rollback 90 example_recorded)) 1)) \<and>
   rolling_back (ix_freshness (rollback 90 example_recorded))"
proof -
  have "indexer_ok example_recorded"
    using example_indexer_ok by (simp add: indexer_ok_def example_recorded_def example_indexer_def)
  moreover have "sorted (map ev_confirmation_height (st_events (get_stats (ix_registrations example_recorded) 1)))"
    by (simp add: example_recorded_def)
  ultimately show ?thesis
    using rollback_forgets_orphans [of example_recorded 1 90 7 "(1, 1)"]
    by (auto simp: all_below_def example_slot_def)
qed

end
