(* ===== verification/IndexerFollow.thy ===== *)
theory IndexerFollow
  imports Indexer
begin

text \<open>
  What \<open>SingletonIndexer::on_block\<close> does: each followed singleton is handled on its own, a followed
  coin's spend continues the lineage, and only finally dereferenced singletons are removed.
\<close>

section \<open>One record\<close>

lemma retried_key: "retried sdk height rec r = Some rec' \<Longrightarrow> fs_launcher_id rec' = fs_launcher_id rec"
  by (cases r) auto

lemma follow_record_key:
  "follow_record sdk height spends l rec = Inr (Some rec') \<Longrightarrow> fs_launcher_id rec' = fs_launcher_id rec"
  by (auto simp: follow_record_def result_simps dest: retried_key split: if_splits option.splits)

text \<open>
  The state that a spend of the followed coin leaves: the child the NFT driver reads out of the spend,
  else the first child with an odd amount among the conditions, else the spent coin itself, melted.
\<close>

definition continued_by ::
  "('n, 'z) sdk_scheme \<Rightarrow> u32 \<Rightarrow> bytes32 \<Rightarrow> coin_spend \<Rightarrow> stored_singleton_state \<Rightarrow> bool"
where
  "continued_by sdk height l spend new \<longleftrightarrow>
     (\<exists>puzzle layer solution child.
        node_from_program sdk (puzzle_reveal spend) = Inr puzzle \<and>
        sdk_parse_singleton sdk puzzle = Inr (Some layer) \<and> layer_launcher_id layer = l \<and>
        node_from_program sdk (spend_solution spend) = Inr solution \<and>
        sdk_nft_parse_child sdk (spend_coin spend) puzzle solution = Inr child \<and>
        (case child of
           Some (child_coin, info) \<Rightarrow>
             (\<exists>nft. from_nft_info sdk info = Inr nft \<and>
                new = from_coin sdk l child_coin (ni_inner_puzzle_hash info) height False None (Some nft))
         | None \<Rightarrow>
             (\<exists>conditions. spend_conditions sdk puzzle solution = Inr conditions \<and>
                (case odd_children conditions of
                   (ph, amt) # _ \<Rightarrow>
                     new = from_coin sdk l
                       \<lparr>parent_coin_info = sdk_coin_id sdk (spend_coin spend), puzzle_hash = ph, amount = amt\<rparr>
                       (layer_inner_hash layer) height False None None
                 | [] \<Rightarrow>
                     (\<exists>nft. parse_spent_nft sdk puzzle = Inr nft \<and>
                        new = from_coin sdk l (spend_coin spend) (layer_inner_hash layer) height True
                          (Some height) nft)))))"

lemma follow_spend_continues:
  assumes "follow_singleton_spend sdk spend l = Inr r"
  shows "continued_by sdk height l spend (next_state sdk l height r)"
proof -
  from assms obtain puzzle solution layer child where
      p: "node_from_program sdk (puzzle_reveal spend) = Inr puzzle"
    and s: "node_from_program sdk (spend_solution spend) = Inr solution"
    and l: "sdk_parse_singleton sdk puzzle = Inr (Some layer)" "layer_launcher_id layer = l"
    and c: "sdk_nft_parse_child sdk (spend_coin spend) puzzle solution = Inr child"
    by (auto simp: follow_singleton_spend_def result_simps split: option.splits if_splits)
  have "case child of
           Some (child_coin, info) \<Rightarrow>
             (\<exists>nft. from_nft_info sdk info = Inr nft \<and> next_state sdk l height r =
                from_coin sdk l child_coin (ni_inner_puzzle_hash info) height False None (Some nft))
         | None \<Rightarrow>
             (\<exists>conditions. spend_conditions sdk puzzle solution = Inr conditions \<and>
                (case odd_children conditions of
                   (ph, amt) # _ \<Rightarrow>
                     next_state sdk l height r = from_coin sdk l
                       \<lparr>parent_coin_info = sdk_coin_id sdk (spend_coin spend), puzzle_hash = ph, amount = amt\<rparr>
                       (layer_inner_hash layer) height False None None
                 | [] \<Rightarrow>
                     (\<exists>nft. parse_spent_nft sdk puzzle = Inr nft \<and> next_state sdk l height r =
                        from_coin sdk l (spend_coin spend) (layer_inner_hash layer) height True
                          (Some height) nft)))"
  proof (cases child)
    case (Some x)
    with assms p s l c show ?thesis
      by (cases x) (auto simp: follow_singleton_spend_def result_simps)
  next
    case None
    with assms p s l c obtain cs where cs: "spend_conditions sdk puzzle solution = Inr cs"
      by (auto simp: follow_singleton_spend_def result_simps)
    with None assms p s l c show ?thesis
      by (cases "odd_children cs") (auto simp: follow_singleton_spend_def result_simps)
  qed
  with p s l c show ?thesis unfolding continued_by_def by blast
qed

section \<open>The loop over all launchers\<close>

definition followed_record ::
  "('n, 'z) sdk_scheme \<Rightarrow> u32 \<Rightarrow> coin_spend list \<Rightarrow> bytes32 \<Rightarrow> followed_singleton \<Rightarrow> followed_singleton"
where
  "followed_record sdk height spends l rec =
     (case follow_record sdk height spends l rec of Inr (Some rec') \<Rightarrow> rec' | _ \<Rightarrow> rec)"

lemma followed_record_key: "fs_launcher_id (followed_record sdk height spends l rec) = fs_launcher_id rec"
  by (auto simp: followed_record_def follow_record_key split: sum.splits option.splits)

lemma follow_all_get:
  assumes "follow_all sdk height spends ids store = (store', Inr u)"
    and "singletons_ok store" and "distinct ids"
  shows "singletons_ok store' \<and>
    singleton_get store' l =
      (if l \<in> set ids then map_option (followed_record sdk height spends l) (singleton_get store l)
       else singleton_get store l)"
  using assms
proof (induction ids arbitrary: store)
  case Nil
  then show ?case by simp
next
  case (Cons i ids)
  show ?case
  proof (cases "singleton_get store i")
    case None
    with Cons show ?thesis by auto
  next
    case (Some rec)
    with Cons.prems have key: "fs_launcher_id rec = i" by (simp add: singletons.key_of_get)
    obtain v where v: "follow_record sdk height spends i rec = Inr v"
      using Cons.prems(1) Some by (auto split: sum.splits)
    show ?thesis
    proof (cases v)
      case None
      with Some v Cons show ?thesis by (auto simp: followed_record_def)
    next
      case rec': (Some rec')
      with v key have k': "fs_launcher_id rec' = i" by (simp add: follow_record_key)
      have "follow_all sdk height spends ids (singleton_upsert rec' store) = (store', Inr u)"
        using Cons.prems(1) Some v rec' by simp
      with Cons.IH [OF this] Cons.prems Some v rec' k' show ?thesis
        by (auto simp: singletons.get_upsert singletons.invar_upsert followed_record_def)
    qed
  qed
qed

lemma cleanup_all_get:
  assumes "singletons_ok store" and "distinct ids"
  shows "singletons_ok (cleanup_all peak ids store) \<and>
    singleton_get (cleanup_all peak ids store) l =
      (if l \<in> set ids
       then Option.bind (singleton_get store l) (\<lambda>rec. if finalized peak rec then None else Some rec)
       else singleton_get store l)"
  using assms
proof (induction ids arbitrary: store)
  case (Cons i ids)
  show ?case
  proof (cases "singleton_get store i")
    case None
    with Cons show ?thesis by auto
  next
    case (Some rec)
    with Cons Cons.IH [of "singleton_remove i store"] show ?thesis
      by (auto simp: singletons.get_remove singletons.invar_remove)
  qed
qed simp

lemma cleanup_get:
  assumes "singletons_ok (ix_store ix)"
  shows "singletons_ok (ix_store (cleanup_finalized peak ix)) \<and>
    singleton_get (ix_store (cleanup_finalized peak ix)) l =
      Option.bind (singleton_get (ix_store ix) l) (\<lambda>rec. if finalized peak rec then None else Some rec)"
  using cleanup_all_get [OF assms singletons.keys_distinct [OF assms], of peak l]
    singletons.keys_get [OF assms]
  by (auto simp: cleanup_finalized_def)

section \<open>Properties\<close>

text \<open>
  A block is applied to every followed singleton on its own: when it succeeds, each record is the
  one its own step leaves, unless that is finally dereferenced, and no other store changes.
\<close>

theorem on_block_pointwise:
  assumes "indexer_ok ix" and "on_block sdk height spends ix = (ix', Inr u)"
  shows "indexer_ok ix' \<and>
    singleton_get (ix_store ix') l =
      Option.bind (map_option (followed_record sdk height spends l) (singleton_get (ix_store ix) l))
        (\<lambda>rec. if finalized height rec then None else Some rec) \<and>
    ix_handle_slots ix' = ix_handle_slots ix \<and> ix_registrations ix' = ix_registrations ix \<and>
    ix_pending_updates ix' = ix_pending_updates ix \<and> ix_freshness ix' = ix_freshness ix"
proof -
  let ?ids = "all_launcher_ids (ix_store ix)"
  have ok: "singletons_ok (ix_store ix)" using assms(1) by (simp add: indexer_ok_def)
  obtain store w where fa: "follow_all sdk height spends ?ids (ix_store ix) = (store, Inr w)"
    and ix': "ix' = cleanup_finalized height (ix\<lparr>ix_store := store\<rparr>)"
    using assms(2) by (auto simp: on_block_def split: prod.splits sum.splits)
  have st: "singletons_ok store"
      "singleton_get store l = map_option (followed_record sdk height spends l) (singleton_get (ix_store ix) l)"
    using follow_all_get [OF fa ok singletons.keys_distinct [OF ok], of l] singletons.keys_get [OF ok]
    by (auto split: if_splits)
  have "singletons_ok (ix_store ix') \<and> singleton_get (ix_store ix') l =
      Option.bind (singleton_get store l) (\<lambda>rec. if finalized height rec then None else Some rec)"
    using cleanup_get [of "ix\<lparr>ix_store := store\<rparr>" height l] st(1) by (simp add: ix')
  then show ?thesis
    using assms(1) st by (simp add: ix' cleanup_finalized_def indexer_ok_def)
qed

text \<open>The block that spends singleton 7's coin makes its child the current state.\<close>

lemma example_follow:
  "follow_record fixture_sdk 101 [example_spend] 7 example_followed =
     Inr (Some (push_replacement example_followed
       (next_state fixture_sdk 7 101 (Next
         \<lparr>ds_coin = \<lparr>parent_coin_info = 1021, puzzle_hash = 5, amount = 1\<rparr>,
          ds_inner_puzzle_hash = 107, ds_melted = False, ds_nft = None\<rparr>)) 101))"
  by (simp add: follow_record_def example_state_def from_coin_def
      fixture_sdk_def example_spend_def follow_singleton_spend_def node_from_program_def
      spend_conditions_def)

lemma on_block_pointwise_witness:
  "indexer_ok (fst (on_block fixture_sdk 101 [example_spend] example_indexer)) \<and>
   singleton_get (ix_store (fst (on_block fixture_sdk 101 [example_spend] example_indexer))) 7 \<noteq> None"
proof -
  let ?r = "on_block fixture_sdk 101 [example_spend] example_indexer"
  have "snd ?r = Inr ()"
    by (simp add: on_block_def example_indexer_def all_launcher_ids_def singleton_get_def
        example_follow split: prod.splits)
  then have r: "?r = (fst ?r, Inr ())" by (metis prod.collapse)
  have "\<not> finalized 101 (followed_record fixture_sdk 101 [example_spend] 7
      example_followed)"
    by (simp add: followed_record_def example_follow finalized_def)
  then show ?thesis
    using on_block_pointwise [OF example_indexer_ok r, of 7]
    by (simp add: example_indexer_def singleton_get_def)
qed

text \<open>What the NFT driver answers as the child of a spent coin is a child of that coin.\<close>

definition nft_children_ok :: "('n, 'z) sdk_scheme \<Rightarrow> bool" where
  "nft_children_ok sdk \<longleftrightarrow>
     (\<forall>c puzzle solution child info. sdk_nft_parse_child sdk c puzzle solution = Inr (Some (child, info)) \<longrightarrow>
        parent_coin_info child = sdk_coin_id sdk c)"

lemma continued_by_child:
  assumes "continued_by sdk height l spend new" and "nft_children_ok sdk"
  shows "ss_launcher_id new = l \<and> ss_confirmation_height new = height \<and>
    (if ss_melted new
     then ss_coin_id new = sdk_coin_id sdk (spend_coin spend) \<and> ss_melt_height new = Some height
     else ss_parent_coin_id new = sdk_coin_id sdk (spend_coin spend) \<and> ss_melt_height new = None)"
proof -
  obtain puzzle layer solution child where
      "sdk_parse_singleton sdk puzzle = Inr (Some layer)"
    and nft: "sdk_nft_parse_child sdk (spend_coin spend) puzzle solution = Inr child"
    and new: "case child of
        Some (child_coin, info) \<Rightarrow> (\<exists>nft. from_nft_info sdk info = Inr nft \<and>
          new = from_coin sdk l child_coin (ni_inner_puzzle_hash info) height False None (Some nft))
      | None \<Rightarrow> (\<exists>conditions. spend_conditions sdk puzzle solution = Inr conditions \<and>
          (case odd_children conditions of
             (ph, amt) # _ \<Rightarrow> new = from_coin sdk l
               \<lparr>parent_coin_info = sdk_coin_id sdk (spend_coin spend), puzzle_hash = ph, amount = amt\<rparr>
               (layer_inner_hash layer) height False None None
           | [] \<Rightarrow> (\<exists>nft. parse_spent_nft sdk puzzle = Inr nft \<and>
               new = from_coin sdk l (spend_coin spend) (layer_inner_hash layer) height True
                 (Some height) nft)))"
    using assms(1) unfolding continued_by_def by blast
  show ?thesis
  proof (cases child)
    case None
    then obtain conditions where "case odd_children conditions of
        (ph, amt) # _ \<Rightarrow> new = from_coin sdk l
          \<lparr>parent_coin_info = sdk_coin_id sdk (spend_coin spend), puzzle_hash = ph, amount = amt\<rparr>
          (layer_inner_hash layer) height False None None
      | [] \<Rightarrow> \<exists>nft. parse_spent_nft sdk puzzle = Inr nft \<and>
          new = from_coin sdk l (spend_coin spend) (layer_inner_hash layer) height True (Some height) nft"
      using new by auto
    then show ?thesis by (cases "odd_children conditions") (auto simp: from_coin_def)
  next
    case (Some c)
    with nft have "parent_coin_info (fst c) = sdk_coin_id sdk (spend_coin spend)"
      using assms(2) unfolding nft_children_ok_def by (metis prod.collapse)
    with Some new show ?thesis by (cases c) (auto simp: from_coin_def)
  qed
qed

lemma prune_keeps_last: "s \<in> set (prune_by h (xs @ [s]) peak)"
  by (simp add: prune_by_eq last_opt_def not_le)

text \<open>
  C3. Following a live singleton continues its lineage: its record changes only when the block
  spends its current coin. Then the old state goes to the history, and the new one, confirmed at the
  block's height, is the child the NFT driver reads out of that spend, or else the first odd-amount
  child of its conditions, or else, when there is none, the spent coin itself, melted at this height. A
  live new coin is a child of the spent one, as the NFT driver answers children of the coin it is given.
\<close>

theorem follow_continues_lineage:
  assumes "follow_record sdk height spends l rec = Inr (Some rec')"
    and "fs_status rec = FollowActive" and "fs_current rec = Some cur"
    and "nft_children_ok sdk"
  shows "\<not> ss_melted cur \<and> (\<exists>spend \<in> set spends. \<exists>new.
      sdk_coin_id sdk (spend_coin spend) = ss_coin_id cur \<and> continued_by sdk height l spend new \<and>
      fs_current rec' = Some new \<and> cur \<in> set (fs_history rec') \<and> rec' = push_replacement rec new height \<and>
      ss_launcher_id new = l \<and> ss_confirmation_height new = height \<and>
      (if ss_melted new then ss_coin_id new = ss_coin_id cur \<and> ss_melt_height new = Some height
       else ss_parent_coin_id new = ss_coin_id cur \<and> ss_melt_height new = None))"
proof -
  let ?own = "\<lambda>s. sdk_coin_id sdk (spend_coin s) = ss_coin_id cur"
  from assms obtain spend r where live: "\<not> ss_melted cur" and find: "find ?own spends = Some spend"
    and r: "follow_singleton_spend sdk spend l = Inr r"
    and rec': "rec' = push_replacement rec (next_state sdk l height r) height"
    by (auto simp: follow_record_def result_simps split: if_splits option.splits)
  have spend: "spend \<in> set spends" "?own spend" using find_SomeD [OF find] by auto
  let ?new = "next_state sdk l height r"
  have cont: "continued_by sdk height l spend ?new" by (rule follow_spend_continues [OF r])
  have "ss_launcher_id ?new = l \<and> ss_confirmation_height ?new = height \<and>
      (if ss_melted ?new then ss_coin_id ?new = ss_coin_id cur \<and> ss_melt_height ?new = Some height
       else ss_parent_coin_id ?new = ss_coin_id cur \<and> ss_melt_height ?new = None)"
    using continued_by_child [OF cont assms(4)] spend(2) by simp
  moreover have "cur \<in> set (fs_history rec')"
    using prune_keeps_last [of cur ss_confirmation_height "fs_history rec" height] assms(3)
    by (simp add: rec' singleton_states.hist_push)
  ultimately show ?thesis
    using live spend cont singleton_states.cur_push rec' by blast
qed

lemma follow_continues_lineage_witness:
  "\<exists>new. fs_current (followed_record fixture_sdk 101 [example_spend] 7 example_followed) = Some new \<and>
     continued_by fixture_sdk 101 7 example_spend new \<and>
     example_state 90 \<in> set (fs_history (followed_record fixture_sdk 101 [example_spend] 7 example_followed))"
proof -
  have "nft_children_ok fixture_sdk" by (simp add: nft_children_ok_def fixture_sdk_def)
  from follow_continues_lineage [OF example_follow example_followed_simps(2,3) this]
  have "\<exists>new. fs_current (followed_record fixture_sdk 101 [example_spend] 7 example_followed) = Some new \<and>
     (\<exists>spend \<in> set [example_spend]. continued_by fixture_sdk 101 7 spend new) \<and>
     example_state 90 \<in> set (fs_history (followed_record fixture_sdk 101 [example_spend] 7 example_followed))"
    unfolding followed_record_def example_follow by (simp only: sum.case option.case) blast
  then show ?thesis by simp
qed

text \<open>
  Cleanup removes exactly the singletons no slot references whose dereference is at least 32
  blocks old (the sum saturates), so a dereference that can still be orphaned is never forgotten.
\<close>

theorem cleanup_exact:
  assumes "singletons_ok (ix_store ix)" and "singleton_get (ix_store ix) l = Some rec"
  shows "singleton_get (ix_store (cleanup_finalized peak ix)) l =
    (if fs_reference_count rec = 0 \<and>
        (\<exists>d. fs_dereference_height rec = Some d \<and> min (unat d + 32) (2 ^ 32 - 1) \<le> unat peak)
     then None else Some rec)"
proof -
  have "finalized peak rec \<longleftrightarrow> fs_reference_count rec = 0 \<and>
      (\<exists>d. fs_dereference_height rec = Some d \<and> min (unat d + 32) (2 ^ 32 - 1) \<le> unat peak)"
    by (auto simp: finalized_def word_le_nat_alt split: option.splits)
  then show ?thesis using cleanup_get [OF assms(1), of peak l] assms(2) by simp
qed

lemma cleanup_exact_witness:
  "singleton_get (ix_store (cleanup_finalized 132
     (example_indexer\<lparr>ix_store := [(7, dropped 100 example_singleton)]\<rparr>))) 7 = None"
proof -
  have "singletons_ok [(7, dropped 100 example_singleton)]"
    by (simp add: singletons_ok_def keyed_def hm_ok_def) (simp add: example_singleton_def)
  then show ?thesis
    using cleanup_exact [of "example_indexer\<lparr>ix_store := [(7, dropped 100 example_singleton)]\<rparr>" 7
        "dropped 100 example_singleton" 132]
    by (simp add: singleton_get_def) (simp add: dropped_def example_singleton_def saturating_sub_def)
qed

text \<open>
  A discovery that a reorganization undoes is not repeated. When a reference was recorded below the
  orphaned height but its singleton was only found at or above it, the rollback removes the found state
  and leaves the record \<open>Active\<close>; no later block then looks for the singleton again.
\<close>

theorem rolled_back_discovery_stuck:
  assumes "fs_status rec = FollowActive" and "fs_history rec = []"
    and "fs_current rec = Some cur" and "f \<le> ss_confirmation_height cur"
    and "fs_discovery_height rec < f"
  shows "\<exists>rec'. rollback_followed f rec = Some rec' \<and> fs_status rec' = FollowActive \<and>
    fs_current rec' = None \<and> (\<forall>sdk height spends l.
      follow_record (sdk :: ('n, 'z) sdk_scheme) height spends l rec' = Inr None)"
proof -
  have "\<exists>rec'. rollback_followed f rec = Some rec' \<and> fs_status rec' = FollowActive \<and> fs_current rec' = None"
    using assms singleton_states.cur_rollback [of rec f]
    by (auto simp: rollback_followed_def Let_def singleton_states.timeline_def below_single
        split: option.splits)
  then show ?thesis by (auto simp: follow_record_def)
qed

lemma rolled_back_discovery_stuck_witness:
  "\<exists>rec'. rollback_followed 95
       (example_singleton\<lparr>fs_current := Some (example_state 100)\<rparr>) = Some rec' \<and>
     follow_record fixture_sdk 96 [] 7 rec' = Inr None"
  using rolled_back_discovery_stuck [where rec = "example_singleton\<lparr>fs_current := Some (example_state 100)\<rparr>"
      and f = 95 and cur = "example_state 100" and 'n = nat and 'z = unit]
  by (auto simp: example_singleton_def example_state_def from_coin_def)

section \<open>A reference that is not counted\<close>

text \<open>
  A registration whose new owner already owns (or is resolved to by) a neighbouring handle counts
  no reference: when the neighbours keep their launchers, processing the log leaves the owner's record,
  its reference count included, as it is. The count is then one short of the slots that name it.
\<close>

theorem register_beside_own_neighbour_uncounted:
  assumes "singleton_get (ix_store ix) owner = Some rec"
    and "fs_reference_count rec \<noteq> 0" and "fs_dereference_height rec = None"
    and "set (slot_launchers (rl_created_handle_slot reg)) = {owner}"
    and "owner \<in> set (slot_launchers (rl_spent_left_slot reg))"
    and "slot_launchers (rl_created_left_slot reg) = slot_launchers (rl_spent_left_slot reg)"
    and "slot_launchers (rl_created_right_slot reg) = slot_launchers (rl_spent_right_slot reg)"
    and "on_registry_transition sdk h spends [Register reg] ix = (ix', r)"
  shows "r = Inr () \<and> singleton_get (ix_store ix') owner = Some rec"
proof -
  have "set (map rf_launcher_id (references_from_action_log (Register reg))) = {}"
    using assms(4,5) unfolding register_references by auto
  then have refs: "references_from_action_log (Register reg) = []" by (metis map_is_Nil_conv set_empty)
  have keep: "singleton_get (track_pair h (spent, created) s) owner = Some rec"
    if s: "singleton_get s owner = Some rec" and same: "slot_launchers created = slot_launchers spent"
    for spent created s
  proof -
    have "dereferenced_launchers spent created = []"
      using same by (simp add: dereferenced_launchers_def slot_launchers_def Let_def)
    moreover have "singleton_get (rebump l s') owner = Some rec"
      if "singleton_get s' owner = Some rec" for l s'
      using that assms(2,3) by (auto simp: rebump_def get_bump_reference split: option.splits)
    ultimately show ?thesis using s by (simp add: track_pair_def Let_def)
  qed
  have "ix' = track_slot_reference_changes h (Register reg) ix" and "r = Inr ()"
    using assms(8) refs by (simp_all del: references_from_action_log.simps)
  then show ?thesis
    using keep [OF keep [OF assms(1,6)] assms(7)]
    by (simp add: track_slot_reference_changes_def)
qed

definition example_register :: register_log where
  "example_register =
     \<lparr>rl_spent_left_slot = example_value 1 7 7, rl_spent_right_slot = example_value 3 0 0,
      rl_created_left_slot = example_value 1 7 7, rl_created_handle_slot = example_value 2 7 7,
      rl_created_right_slot = example_value 3 0 0, rl_handle = ''alice'', rl_secret = 4,
      rl_total_price = 10, rl_owner_full_puzzle_hash = 8, rl_resolved_full_puzzle_hash = None,
      rl_owner_inner_puzzle_hash = 9, rl_resolved_inner_puzzle_hash = 9\<rparr>"

lemma register_beside_own_neighbour_uncounted_witness:
  "map_option fs_reference_count (singleton_get (ix_store
     (fst (on_registry_transition fixture_sdk 100 [] [Register example_register] example_indexer))) 7) = Some 1"
proof -
  let ?r = "on_registry_transition fixture_sdk 100 [] [Register example_register] example_indexer"
  have r: "?r = (fst ?r, snd ?r)" by simp
  let ?rec = example_followed
  have "singleton_get (ix_store (fst ?r)) 7 = Some ?rec"
    using register_beside_own_neighbour_uncounted [OF _ _ _ _ _ _ _ r, of 7 ?rec]
    by (simp add: example_indexer_def singleton_get_def example_register_def
        example_value_def slot_launchers_def del: on_registry_transition.simps)
  then show ?thesis by (simp del: on_registry_transition.simps)
qed

end
