(* ===== verification/IndexerProjection.thy ===== *)
theory IndexerProjection
  imports IndexerRollback IndexerFollow
begin

text \<open>
  What projecting a registry transition's action logs does to the handle-slot, registration and
  pending-update stores, and that a rollback to the transition's height undoes it.
\<close>

section \<open>Handle slots\<close>

lemma slot_record_or_new_key [simp]:
  assumes "handles_ok s"
  shows "handle_slot_key (slot_record_or_new s k) = k"
  using handle_slots.key_of_get [OF assms]
  by (cases "handle_get s k") (auto simp: slot_record_or_new_def handle_slot_key_def)

lemma project_handle_slot_get:
  assumes "handles_ok (ix_handle_slots ix)"
  shows "handles_ok (ix_handle_slots (project_handle_slot registry v parent h ix)) \<and>
    slot_record_or_new (ix_handle_slots (project_handle_slot registry v parent h ix)) k =
      (if k = (registry, hv_handle_hash v)
       then push_handle_replacement (slot_record_or_new (ix_handle_slots ix) k)
              (stored_slot registry v parent h) h
       else slot_record_or_new (ix_handle_slots ix) k) \<and>
    handle_get (ix_handle_slots (project_handle_slot registry v parent h ix)) k =
      (if k = (registry, hv_handle_hash v)
       then Some (push_handle_replacement (slot_record_or_new (ix_handle_slots ix) k)
              (stored_slot registry v parent h) h)
       else handle_get (ix_handle_slots ix) k)"
  using assms
  by (simp add: project_handle_slot_def Let_def handle_slots.invar_upsert handle_slots.get_upsert
      slot_record_or_new_def [of "handle_upsert _ _"])
    (simp add: slot_record_or_new_def)

text \<open>The slots a projection stores for one handle, oldest first.\<close>

definition slots_for ::
  "('n, 'z) sdk_scheme \<Rightarrow> bytes32 \<Rightarrow> u32 \<Rightarrow> (bytes32 \<Rightarrow> slot_parent_lineage option)
    \<Rightarrow> handle_slot_value list \<Rightarrow> handle_key \<Rightarrow> stored_handle_slot list"
where
  "slots_for sdk registry h parent_for created k =
     map (\<lambda>v. stored_slot registry v (unwrap_or (parent_for (sdk_slot_tree_hash sdk v)) lineage_default) h)
       (filter (\<lambda>v. (registry, hv_handle_hash v) = k) created)"

lemma project_created_get:
  assumes "handles_ok (ix_handle_slots ix)"
  shows "handles_ok (ix_handle_slots (project_created sdk registry h parent_for created ix)) \<and>
    slot_record_or_new (ix_handle_slots (project_created sdk registry h parent_for created ix)) k =
      foldl (\<lambda>r s. push_handle_replacement r s h) (slot_record_or_new (ix_handle_slots ix) k)
        (slots_for sdk registry h parent_for created k) \<and>
    (slots_for sdk registry h parent_for created k = [] \<longrightarrow>
      handle_get (ix_handle_slots (project_created sdk registry h parent_for created ix)) k =
        handle_get (ix_handle_slots ix) k) \<and>
    (slots_for sdk registry h parent_for created k \<noteq> [] \<longrightarrow>
      handle_get (ix_handle_slots (project_created sdk registry h parent_for created ix)) k \<noteq> None)"
  using assms
proof (induction created arbitrary: ix)
  case Nil
  then show ?case by (simp add: slots_for_def)
next
  case (Cons v created)
  let ?p = "unwrap_or (parent_for (sdk_slot_tree_hash sdk v)) lineage_default"
  let ?ix = "project_handle_slot registry v ?p h ix"
  note step = project_handle_slot_get [OF Cons.prems, of registry v ?p h k]
  have IH: "handles_ok (ix_handle_slots ?ix) \<Longrightarrow> ?case" if "k \<noteq> (registry, hv_handle_hash v)"
    using Cons.IH [of ?ix] step that by (auto simp: slots_for_def Let_def)
  show ?case
  proof (cases "k = (registry, hv_handle_hash v)")
    case True
    then have "slots_for sdk registry h parent_for (v # created) k =
        stored_slot registry v ?p h # slots_for sdk registry h parent_for created k"
      by (simp add: slots_for_def)
    with Cons.IH [of ?ix] step True show ?thesis
      by (cases "slots_for sdk registry h parent_for created k = []") (simp_all add: Let_def)
  next
    case False
    with IH step show ?thesis by blast
  qed
qed

lemma project_created_frame [simp]:
  "ix_store (project_created sdk registry h pf created ix) = ix_store ix"
  "ix_registrations (project_created sdk registry h pf created ix) = ix_registrations ix"
  "ix_pending_updates (project_created sdk registry h pf created ix) = ix_pending_updates ix"
  "ix_freshness (project_created sdk registry h pf created ix) = ix_freshness ix"
  by (induction created arbitrary: ix) (simp_all add: Let_def project_handle_slot_def)

section \<open>Registrations\<close>

lemma registration_record_or_new_key [simp]:
  assumes "registrations_ok s"
  shows "registration_key (registration_record_or_new s k) = k"
  using registrations.key_of_get [OF assms]
  by (cases "registration_get s k") (auto simp: registration_record_or_new_def registration_key_def)

definition stored_registration_of :: "bytes32 \<Rightarrow> u32 \<Rightarrow> action_log \<Rightarrow> stored_registration option" where
  "stored_registration_of registry h log =
     map_option (\<lambda>(kind, handle, secret, fee, hash).
       \<lparr>sr_registry_launcher_id = registry, sr_handle = handle, sr_handle_hash = hash,
        sr_registration_secret = secret, sr_action_kind = kind, sr_protocol_fee = fee,
        sr_confirmation_height = h\<rparr>) (registration_fact log)"

definition event_of :: "stored_registration \<Rightarrow> stored_registration_event" where
  "event_of s =
     \<lparr>ev_handle = sr_handle s, ev_action_kind = sr_action_kind s,
      ev_confirmation_height = sr_confirmation_height s\<rparr>"

definition registered :: "bytes32 \<Rightarrow> u32 \<Rightarrow> action_log list \<Rightarrow> stored_registration list" where
  "registered registry h logs = concat (map (option_list \<circ> stored_registration_of registry h) logs)"

lemma project_registration_eq:
  "project_registration registry h log ix =
     (case stored_registration_of registry h log of
        None \<Rightarrow> ix
      | Some s \<Rightarrow>
          (let regs = registration_upsert (push_registration_replacement
                 (registration_record_or_new (ix_registrations ix) (registry, sr_handle_hash s)) s h)
               (ix_registrations ix)
           in ix\<lparr>ix_registrations :=
                set_stats registry (record_event (get_stats regs registry) (event_of s)) regs\<rparr>))"
  by (auto simp: project_registration_def stored_registration_of_def event_of_def Let_def
      split: option.splits prod.splits)

text \<open>Projecting one fact, and then a list of them.\<close>

definition store_registration ::
  "bytes32 \<Rightarrow> u32 \<Rightarrow> registration_store \<Rightarrow> stored_registration \<Rightarrow> registration_store"
where
  "store_registration registry h s0 s =
     (let regs = registration_upsert (push_registration_replacement
            (registration_record_or_new s0 (registry, sr_handle_hash s)) s h) s0
      in set_stats registry (record_event (get_stats regs registry) (event_of s)) regs)"

lemma project_registrations_eq:
  "project_registrations_from_logs registry h logs ix =
     ix\<lparr>ix_registrations :=
       foldl (store_registration registry h) (ix_registrations ix) (registered registry h logs)\<rparr>"
proof (induction logs arbitrary: ix)
  case Nil
  then show ?case by (simp add: project_registrations_from_logs_def registered_def)
next
  case (Cons log logs)
  have "project_registrations_from_logs registry h (log # logs) ix =
      project_registrations_from_logs registry h logs (project_registration registry h log ix)"
    by (simp add: project_registrations_from_logs_def)
  also have "\<dots> = ix\<lparr>ix_registrations := foldl (store_registration registry h) (ix_registrations ix)
      (registered registry h (log # logs))\<rparr>"
    unfolding Cons.IH project_registration_eq
    by (cases "stored_registration_of registry h log")
      (simp_all add: registered_def store_registration_def Let_def)
  finally show ?case .
qed

lemma store_registration_get:
  assumes "registrations_ok s0"
  shows "registrations_ok (store_registration registry h s0 s) \<and>
    registration_record_or_new (store_registration registry h s0 s) k =
      (if k = (registry, sr_handle_hash s)
       then push_registration_replacement (registration_record_or_new s0 k) s h
       else registration_record_or_new s0 k) \<and>
    registration_get (store_registration registry h s0 s) k =
      (if k = (registry, sr_handle_hash s)
       then Some (push_registration_replacement (registration_record_or_new s0 k) s h)
       else registration_get s0 k) \<and>
    get_stats (store_registration registry h s0 s) r =
      (if r = registry then record_event (get_stats s0 r) (event_of s) else get_stats s0 r)"
  using assms
  by (simp add: store_registration_def Let_def registrations.invar_upsert registrations.get_upsert
      registration_record_or_new_def [of "set_stats _ _ _"])
    (simp add: registration_record_or_new_def)

lemma store_registrations_get:
  assumes "registrations_ok s0"
  shows "registrations_ok (foldl (store_registration registry h) s0 ss) \<and>
    registration_record_or_new (foldl (store_registration registry h) s0 ss) k =
      foldl (\<lambda>r s. push_registration_replacement r s h) (registration_record_or_new s0 k)
        (filter (\<lambda>s. (registry, sr_handle_hash s) = k) ss) \<and>
    (filter (\<lambda>s. (registry, sr_handle_hash s) = k) ss = [] \<longrightarrow>
      registration_get (foldl (store_registration registry h) s0 ss) k = registration_get s0 k) \<and>
    (filter (\<lambda>s. (registry, sr_handle_hash s) = k) ss \<noteq> [] \<longrightarrow>
      registration_get (foldl (store_registration registry h) s0 ss) k \<noteq> None) \<and>
    get_stats (foldl (store_registration registry h) s0 ss) r =
      (if r = registry then foldl record_event (get_stats s0 r) (map event_of ss) else get_stats s0 r)"
  using assms
proof (induction ss arbitrary: s0)
  case (Cons s ss)
  note step = store_registration_get [OF Cons.prems, of registry h s k r]
  have ok: "registrations_ok (store_registration registry h s0 s)" using step by blast
  show ?case
    using Cons.IH [OF ok] step
    by (cases "filter (\<lambda>s. (registry, sr_handle_hash s) = k) ss = []"; cases "k = (registry, sr_handle_hash s)")
      (simp_all split: if_splits)
qed simp

section \<open>Properties of the projections\<close>

lemma last_opt_Cons:
  "last_opt (x # xs) = (case last_opt xs of None \<Rightarrow> Some x | Some y \<Rightarrow> Some y)"
  by (simp add: last_opt_def)

lemma foldl_push_cur:
  assumes "\<And>r s. cur (push r s) = Some s" and "ss \<noteq> []"
  shows "cur (foldl push r ss) = Some (last ss)"
  using assms(2) by (cases ss rule: rev_cases) (simp_all add: assms(1))

lemma slot_current_or_new:
  "Option.bind (handle_get s k) hr_current = hr_current (slot_record_or_new s k)"
  by (cases "handle_get s k") (simp_all add: slot_record_or_new_def)

lemma registration_current_or_new:
  "Option.bind (registration_get s k) rr_current = rr_current (registration_record_or_new s k)"
  by (cases "registration_get s k") (simp_all add: registration_record_or_new_def)

text \<open>
  After projecting the logs of a block, the current slot of a handle is the last one those logs
  created for it, with the lineage found for its hash (or none), confirmed at the block's height; a
  handle the logs do not touch, and every other store, is unchanged.
\<close>

theorem projection_shows_last_slot:
  assumes "indexer_ok ix"
    and "ss = slots_for sdk registry h parent_for (concat (map (sdk_created_handle_slots sdk) logs)) k"
    and "ix' = project_handle_slots_from_logs sdk registry h logs parent_for ix"
  shows "indexer_ok ix' \<and>
    Option.bind (handle_get (ix_handle_slots ix') k) hr_current =
      (case last_opt ss of None \<Rightarrow> Option.bind (handle_get (ix_handle_slots ix) k) hr_current
       | Some s \<Rightarrow> Some s) \<and>
    ix_store ix' = ix_store ix \<and> ix_registrations ix' = ix_registrations ix \<and>
    ix_pending_updates ix' = ix_pending_updates ix \<and> ix_freshness ix' = ix_freshness ix"
proof -
  have ok: "handles_ok (ix_handle_slots ix)" using assms(1) by (simp add: indexer_ok_def)
  note step = project_created_get [OF ok, of sdk registry h parent_for
      "concat (map (sdk_created_handle_slots sdk) logs)" k]
  have "hr_current (foldl (\<lambda>r s. push_handle_replacement r s h) r ss) =
      (case last_opt ss of None \<Rightarrow> hr_current r | Some s \<Rightarrow> Some s)" for r
    using foldl_push_cur [of hr_current "\<lambda>r s. push_handle_replacement r s h" ss r]
    by (cases "ss = []") (simp_all add: handle_states.cur_push last_opt_def)
  then show ?thesis
    using step assms(1) unfolding slot_current_or_new
    by (simp add: assms(2,3) project_handle_slots_from_logs_def indexer_ok_def)
qed

lemma projection_shows_last_slot_witness:
  "Option.bind (handle_get (ix_handle_slots (project_handle_slots_from_logs fixture_sdk 1 100
     [Register example_register] (\<lambda>_. None) example_indexer)) (1, 2)) hr_current =
   Some (stored_slot 1 (example_value 2 7 7) lineage_default 100)"
proof -
  let ?created = "concat (map (sdk_created_handle_slots fixture_sdk) [Register example_register])"
  have "slots_for fixture_sdk 1 100 (\<lambda>_. None) ?created (1, 2) =
      [stored_slot 1 (example_value 2 7 7) lineage_default 100]"
    by (simp add: slots_for_def fixture_sdk_def example_register_def) (simp add: example_value_def)
  then show ?thesis
    using projection_shows_last_slot [OF example_indexer_ok refl refl, where sdk = fixture_sdk
        and registry = 1 and h = 100 and parent_for = "\<lambda>_. None"
        and logs = "[Register example_register]" and k = "(1, 2)"]
    by (simp only: last_opt_single option.case conj_assoc)
qed

text \<open>
  After projecting the logs of a block, a handle's registration is the last one those logs register
  or re-sell it with, and its registry's statistics have recorded every such event in order; other
  handles and registries keep theirs.
\<close>

theorem projection_registers:
  assumes "indexer_ok ix" and "ss = registered registry h logs"
    and "ix' = project_registrations_from_logs registry h logs ix"
  shows "indexer_ok ix' \<and>
    Option.bind (registration_get (ix_registrations ix') k) rr_current =
      (case last_opt (filter (\<lambda>s. (registry, sr_handle_hash s) = k) ss) of
         None \<Rightarrow> Option.bind (registration_get (ix_registrations ix) k) rr_current
       | Some s \<Rightarrow> Some s) \<and>
    get_stats (ix_registrations ix') r =
      (if r = registry then foldl record_event (get_stats (ix_registrations ix) r) (map event_of ss)
       else get_stats (ix_registrations ix) r)"
proof -
  have ok: "registrations_ok (ix_registrations ix)" using assms(1) by (simp add: indexer_ok_def)
  let ?fs = "filter (\<lambda>s. (registry, sr_handle_hash s) = k) ss"
  note step = store_registrations_get [OF ok, of registry h "registered registry h logs" k r]
  have "rr_current (foldl (\<lambda>r s. push_registration_replacement r s h) rec ?fs) =
      (case last_opt ?fs of None \<Rightarrow> rr_current rec | Some s \<Rightarrow> Some s)" for rec
    using foldl_push_cur [of rr_current "\<lambda>r s. push_registration_replacement r s h" ?fs rec]
    by (cases "?fs = []") (simp_all add: registration_states.cur_push last_opt_def)
  then show ?thesis
    using step assms(1) unfolding registration_current_or_new
    by (simp add: assms(2,3) project_registrations_eq indexer_ok_def)
qed

lemma projection_registers_witness:
  "st_total_registered (get_stats (ix_registrations (project_registrations_from_logs 1 100
     [Register example_register] example_indexer)) 1) = 1"
proof -
  have "get_stats (ix_registrations example_indexer) 1 = stats_default"
    by (simp add: example_indexer_def example_names_def get_stats_def)
  moreover have "map event_of (registered 1 100 [Register example_register]) =
      [\<lparr>ev_handle = ''alice'', ev_action_kind = KindRegister, ev_confirmation_height = 100\<rparr>]"
    by (simp add: registered_def stored_registration_of_def event_of_def example_register_def)
  ultimately show ?thesis
    using projection_registers [OF example_indexer_ok refl refl, where registry = 1 and h = 100
        and logs = "[Register example_register]" and k = "(1, 2)" and r = 1]
    by (simp add: record_event_def push_registration_event_def stats_default_def Let_def
        saturating_add_def)
qed

section \<open>Pending updates\<close>

text \<open>
  What one log does to the pending update of a handle: nothing, set it, or clear it. Every action that
  spends the handle's slot clears it, but an initiation, which replaces it.
\<close>

fun pending_effect :: "bytes32 \<Rightarrow> action_log \<Rightarrow> update_slot_value option option" where
  "pending_effect hh (InitiateUpdate e) =
     (if uv_handle_hash (il_created_update_slot e) = hh then Some (Some (il_created_update_slot e)) else None)"
| "pending_effect hh (ExecuteUpdate e) =
     (if uv_handle_hash (el_spent_update_slot e) = hh then Some None else None)"
| "pending_effect hh (Extend spent created) = (if hv_handle_hash spent = hh then Some None else None)"
| "pending_effect hh (Oracle spent created) = (if hv_handle_hash spent = hh then Some None else None)"
| "pending_effect hh (Expire e) = (if hv_handle_hash (xl_spent_slot e) = hh then Some None else None)"
| "pending_effect hh (Refund (Some s) created) = (if hv_handle_hash s = hh then Some None else None)"
| "pending_effect hh _ = None"

definition pending_shown :: "singleton_indexer \<Rightarrow> handle_key \<Rightarrow> stored_pending_update option" where
  "pending_shown ix k = Option.bind (pending_get (ix_pending_updates ix) k) pr_current"

lemma clear_pending_shown:
  assumes "pendings_ok (ix_pending_updates ix)"
  shows "pendings_ok (ix_pending_updates (clear_pending_for_handle r hh h ix)) \<and>
    pending_shown (clear_pending_for_handle r hh h ix) k = (if k = (r, hh) then None else pending_shown ix k)"
proof (cases "pending_get (ix_pending_updates ix) (r, hh)")
  case None
  with assms show ?thesis by (auto simp: clear_pending_for_handle_def pending_shown_def)
next
  case (Some rec)
  have key: "pending_key rec = (r, hh)" using pendings.key_of_get [OF assms Some] .
  show ?thesis
    using assms Some key
    by (auto simp: clear_pending_for_handle_def pending_shown_def Let_def pendings.get_upsert
        pendings.get_remove pendings.invar_upsert pendings.invar_remove clear_pending_fields)
qed

lemma initiate_pending_shown:
  assumes "pendings_ok (ix_pending_updates ix)"
  shows "pendings_ok (ix_pending_updates (initiate_pending r h v ix)) \<and>
    pending_shown (initiate_pending r h v ix) k =
      (if k = (r, uv_handle_hash v) then Some (stored_pending r h v) else pending_shown ix k)"
proof -
  have "pending_key (pending_record_or_new (ix_pending_updates ix) (r, uv_handle_hash v)) = (r, uv_handle_hash v)"
    using pendings.key_of_get [OF assms, of "(r, uv_handle_hash v)"]
    by (cases "pending_get (ix_pending_updates ix) (r, uv_handle_hash v)")
      (auto simp: pending_record_or_new_def pending_key_def)
  then show ?thesis
    using assms
    by (simp add: initiate_pending_def pending_shown_def Let_def pendings.get_upsert
        pendings.invar_upsert pending_states.cur_push)
qed

lemma project_pending_shown:
  assumes "pendings_ok (ix_pending_updates ix)"
  shows "pendings_ok (ix_pending_updates (project_pending_update r h log ix)) \<and>
    pending_shown (project_pending_update r h log ix) (r, hh) =
      (case pending_effect hh log of None \<Rightarrow> pending_shown ix (r, hh)
       | Some e \<Rightarrow> map_option (stored_pending r h) e)"
proof (cases log)
  case (Refund spent created)
  with assms show ?thesis by (cases spent) (simp_all add: clear_pending_shown)
qed (use assms in \<open>simp_all add: clear_pending_shown initiate_pending_shown\<close>)

text \<open>
  After projecting the logs of a block, the pending update shown for a handle is decided by the
  last log that concerns it: the update it initiates, or none when it spends the handle's slot
  otherwise (execution, extension, oracle, expiry, refund); without such a log it is unchanged.
\<close>

theorem projection_decides_pending:
  assumes "indexer_ok ix"
  shows "pending_shown (project_pending_updates_from_logs r h logs ix) (r, hh) =
    (case last_opt (concat (map (option_list \<circ> pending_effect hh) logs)) of
       None \<Rightarrow> pending_shown ix (r, hh)
     | Some e \<Rightarrow> map_option (stored_pending r h) e)"
proof -
  have "pending_shown (foldl (\<lambda>ix log. project_pending_update r h log ix) ix logs) (r, hh) =
      (case last_opt (concat (map (option_list \<circ> pending_effect hh) logs)) of
         None \<Rightarrow> pending_shown ix (r, hh)
       | Some e \<Rightarrow> map_option (stored_pending r h) e)"
    if "pendings_ok (ix_pending_updates ix)" for ix
    using that
  proof (induction logs arbitrary: ix)
    case (Cons log logs)
    note step = project_pending_shown [OF Cons.prems, of r h log hh]
    then show ?case
      using Cons.IH [of "project_pending_update r h log ix"]
      by (cases "pending_effect hh log") (simp_all add: last_opt_Cons del: last_opt_None split: option.splits)
  qed simp
  then show ?thesis
    using assms by (simp add: project_pending_updates_from_logs_def indexer_ok_def)
qed

lemma projection_decides_pending_witness:
  "pending_shown (project_pending_updates_from_logs 1 100
     [Extend (example_value 2 7 7) (example_value 2 7 7)] example_indexer) (1, 2) = None"
proof -
  have "pending_effect 2 (Extend (example_value 2 7 7) (example_value 2 7 7)) = Some None"
    by (simp add: example_value_def)
  then show ?thesis
    using projection_decides_pending [OF example_indexer_ok, of 1 100
        "[Extend (example_value 2 7 7) (example_value 2 7 7)]" 2]
    by simp
qed

end
