(* ===== verification/IndexerOwned.thy ===== *)
theory IndexerOwned
  imports IndexerProjection
begin

text \<open>
  Whose states a record holds. Every store keeps the states of a record next to it; the indexer
  builds them from the action logs and spends of a block, and files them under the ids they carry. The
  predicates say that a record is kept under its own ids and that every state of it, current or
  replaced, carries them; each operation of the indexer keeps them, and so does a rollback.
\<close>

section \<open>The states a replacement and a rollback leave\<close>

context versioned_record
begin

lemma set_timeline_push: "set (timeline (push r s p)) \<subseteq> insert s (set (timeline r))"
  using set_prune_by [of height "hist r @ option_list (cur r)" p]
  by (auto simp: timeline_def cur_push hist_push)

lemma set_timeline_pushes:
  "set (timeline (foldl (\<lambda>r s. push r s p) r ss)) \<subseteq> set ss \<union> set (timeline r)"
proof (induction ss arbitrary: r)
  case (Cons s ss)
  from Cons.IH [of "push r s p"] set_timeline_push [of r s p] show ?case by auto
qed simp

lemma set_timeline_rollback: "set (timeline (rollback r f)) \<subseteq> set (timeline r)"
  by (auto simp: timeline_rollback timeline_def [of r] dest!: last_opt_Some_in simp del: below_append)

end

section \<open>Ownership\<close>

definition followed_owned :: "bytes32 \<Rightarrow> followed_singleton \<Rightarrow> bool" where
  "followed_owned l rec \<longleftrightarrow> fs_launcher_id rec = l \<and>
     list_all (\<lambda>s. ss_launcher_id s = l) (fs_history rec @ option_list (fs_current rec))"

definition slot_owned :: "handle_key \<Rightarrow> handle_slot_record \<Rightarrow> bool" where
  "slot_owned k rec \<longleftrightarrow> handle_slot_key rec = k \<and>
     list_all (\<lambda>s. (sh_registry_launcher_id s, sh_handle_hash s) = k)
       (hr_history rec @ option_list (hr_current rec))"

definition registration_owned :: "handle_key \<Rightarrow> registration_record \<Rightarrow> bool" where
  "registration_owned k rec \<longleftrightarrow> registration_key rec = k \<and>
     list_all (\<lambda>s. (sr_registry_launcher_id s, sr_handle_hash s) = k)
       (rr_history rec @ option_list (rr_current rec))"

definition pending_owned :: "handle_key \<Rightarrow> pending_update_record \<Rightarrow> bool" where
  "pending_owned k rec \<longleftrightarrow> pending_key rec = k \<and>
     list_all (\<lambda>s. (su_registry_launcher_id s, su_handle_hash s) = k)
       (pr_history rec @ option_list (pr_current rec))"

text \<open>Every record a store holds satisfies \<open>P\<close> of its key.\<close>

definition holds_all :: "('s \<Rightarrow> 'k \<Rightarrow> 'r option) \<Rightarrow> ('k \<Rightarrow> 'r \<Rightarrow> bool) \<Rightarrow> 's \<Rightarrow> bool" where
  "holds_all get P s \<longleftrightarrow> (\<forall>k rec. get s k = Some rec \<longrightarrow> P k rec)"

lemma holds_allD: "holds_all get P s \<Longrightarrow> get s k = Some rec \<Longrightarrow> P k rec"
  by (simp add: holds_all_def)

lemma holds_all_bind:
  assumes "holds_all get P s" and "\<And>k. get s' k = Option.bind (get s k) f"
    and "\<And>k r r'. P k r \<Longrightarrow> f r = Some r' \<Longrightarrow> P k r'"
  shows "holds_all get P s'"
  using assms unfolding holds_all_def by (metis bind_eq_Some_conv)

context record_store
begin

lemma holds_all_upsert:
  "invar s \<Longrightarrow> holds_all get P s \<Longrightarrow> P (key_of r) r \<Longrightarrow> holds_all get P (upsert r s)"
  by (auto simp: holds_all_def get_upsert split: if_splits)

lemma holds_all_remove: "invar s \<Longrightarrow> holds_all get P s \<Longrightarrow> holds_all get P (remove k s)"
  by (auto simp: holds_all_def get_remove split: if_splits)

end

definition indexer_owned :: "singleton_indexer \<Rightarrow> bool" where
  "indexer_owned ix \<longleftrightarrow>
     holds_all singleton_get followed_owned (ix_store ix) \<and>
     holds_all handle_get slot_owned (ix_handle_slots ix) \<and>
     holds_all registration_get registration_owned (ix_registrations ix) \<and>
     holds_all pending_get pending_owned (ix_pending_updates ix)"

text \<open>The predicates over the timelines, the form the record contracts speak of.\<close>

lemma owned_timeline:
  "followed_owned l r \<longleftrightarrow> fs_launcher_id r = l \<and>
     (\<forall>s \<in> set (singleton_states.timeline r). ss_launcher_id s = l)"
  "slot_owned k t \<longleftrightarrow> handle_slot_key t = k \<and>
     (\<forall>s \<in> set (handle_states.timeline t). (sh_registry_launcher_id s, sh_handle_hash s) = k)"
  "registration_owned k u \<longleftrightarrow> registration_key u = k \<and>
     (\<forall>s \<in> set (registration_states.timeline u). (sr_registry_launcher_id s, sr_handle_hash s) = k)"
  "pending_owned k v \<longleftrightarrow> pending_key v = k \<and>
     (\<forall>s \<in> set (pending_states.timeline v). (su_registry_launcher_id s, su_handle_hash s) = k)"
  unfolding followed_owned_def slot_owned_def registration_owned_def pending_owned_def list_all_iff
    singleton_states.timeline_def handle_states.timeline_def registration_states.timeline_def
    pending_states.timeline_def
  by blast+

section \<open>Followed singletons\<close>

lemma found_state_owner [simp]: "ss_launcher_id (found_state sdk l h d) = l"
  by (simp add: found_state_def from_coin_def Let_def)

lemma next_state_owner [simp]: "ss_launcher_id (next_state sdk l h r) = l"
  by (cases r) (simp_all add: from_coin_def)

lemma followed_owned_reference:
  "followed_owned l r \<Longrightarrow> followed_owned l (bumped r)"
  "followed_owned l r \<Longrightarrow> followed_owned l (dropped h r)"
  by (simp_all add: followed_owned_def)

lemma followed_owned_bump:
  "holds_all singleton_get followed_owned s \<Longrightarrow> holds_all singleton_get followed_owned (bump_reference l s)"
  by (auto simp: holds_all_def get_bump_reference followed_owned_reference split: if_splits)

lemma followed_owned_drop:
  "holds_all singleton_get followed_owned s \<Longrightarrow> holds_all singleton_get followed_owned (drop_reference l h s)"
  by (auto simp: holds_all_def get_drop_reference followed_owned_reference split: if_splits)

lemma followed_owned_rebump:
  "holds_all singleton_get followed_owned s \<Longrightarrow> holds_all singleton_get followed_owned (rebump l s)"
  by (auto simp: rebump_def followed_owned_bump split: option.splits)

lemma foldl_keeps: "I s \<Longrightarrow> (\<And>s x. I s \<Longrightarrow> I (f s x)) \<Longrightarrow> I (foldl f s xs)"
  by (induction xs arbitrary: s) auto

lemma followed_owned_track:
  assumes "holds_all singleton_get followed_owned (ix_store ix)"
  shows "holds_all singleton_get followed_owned (ix_store (track_slot_reference_changes h log ix))"
proof -
  let ?I = "holds_all singleton_get followed_owned"
  have "?I (track_pair h q s)" if "?I s" for q s
    unfolding track_pair_def Let_def
    using that by (cases q) (auto intro!: foldl_keeps followed_owned_drop followed_owned_rebump)
  then show ?thesis
    using assms by (simp add: track_slot_reference_changes_def foldl_keeps [where I = ?I])
qed

text \<open>The part of the invariant that concerns the store of followed singletons.\<close>

definition singletons_owned :: "singleton_store \<Rightarrow> bool" where
  "singletons_owned s \<longleftrightarrow> singletons_ok s \<and> holds_all singleton_get followed_owned s"

lemma singletons_owned_upsert:
  "singletons_owned s \<Longrightarrow> followed_owned (fs_launcher_id r) r \<Longrightarrow> singletons_owned (singleton_upsert r s)"
  by (simp add: singletons_owned_def singletons.invar_upsert singletons.holds_all_upsert)

lemma singletons_ok_track:
  "singletons_ok (ix_store ix) \<Longrightarrow> singletons_ok (ix_store (track_slot_reference_changes h log ix))"
proof -
  have rebump: "singletons_ok (rebump l s)" if "singletons_ok s" for l s
    using that by (auto simp: rebump_def split: option.splits)
  have "singletons_ok (track_pair h q s)" if "singletons_ok s" for q s
    unfolding track_pair_def Let_def
    using that
    by (cases q) (simp add: foldl_keeps [where I = singletons_ok] rebump split: prod.splits)
  then show "singletons_ok (ix_store ix) \<Longrightarrow> ?thesis"
    by (simp add: track_slot_reference_changes_def foldl_keeps [where I = singletons_ok])
qed

lemma singletons_owned_track:
  "singletons_owned (ix_store ix) \<Longrightarrow> singletons_owned (ix_store (track_slot_reference_changes h log ix))"
  by (simp add: singletons_owned_def singletons_ok_track followed_owned_track)

lemma discovery_outcome_owner:
  "discovery_outcome sdk l h r = (status, Some s) \<Longrightarrow> ss_launcher_id s = l"
  by (cases r) auto

lemma singletons_owned_discover:
  assumes inv: "singletons_owned (ix_store ix)"
    and d: "discover_reference sdk h spends ref ix = (ix', r)"
  shows "singletons_owned (ix_store ix')"
proof (cases "is_followed (singleton_get (ix_store ix) (rf_launcher_id ref))")
  case True
  with d inv show ?thesis
    by (auto simp: discover_reference_def Let_def singletons_owned_def followed_owned_bump)
next
  case False
  let ?l = "rf_launcher_id ref"
  let ?ex = "singleton_get (ix_store ix) ?l"
  show ?thesis
  proof (cases "discover_singleton_in_block sdk spends ?l (rf_expected_full_puzzle_hash ref)
      (rf_expected_inner_puzzle_hash ref)")
    case (Inl e)
    with False d inv show ?thesis by (auto simp: discover_reference_def Let_def)
  next
    case (Inr res)
    obtain status current where out: "discovery_outcome sdk ?l h res = (status, current)"
      by (cases "discovery_outcome sdk ?l h res")
    have hist: "list_all (\<lambda>s. ss_launcher_id s = ?l) (case ?ex of None \<Rightarrow> [] | Some prev \<Rightarrow> fs_history prev)"
      using inv holds_allD [of singleton_get followed_owned "ix_store ix" ?l]
      by (auto simp: singletons_owned_def followed_owned_def split: option.splits)
    have cur: "list_all (\<lambda>s. ss_launcher_id s = ?l) (option_list current)"
      using discovery_outcome_owner [of sdk ?l h res status] out by (cases current) auto
    let ?rec = "\<lparr>fs_launcher_id = ?l, fs_expected_full_puzzle_hash = rf_expected_full_puzzle_hash ref,
        fs_expected_inner_puzzle_hash = rf_expected_inner_puzzle_hash ref,
        fs_discovery_height = h, fs_status = status, fs_current = current,
        fs_history = (case ?ex of None \<Rightarrow> [] | Some prev \<Rightarrow> fs_history prev),
        fs_reference_count = (case ?ex of None \<Rightarrow> 1 | Some prev \<Rightarrow> max (fs_reference_count prev) 1),
        fs_dereference_height = None\<rparr>"
    have "singletons_owned (singleton_upsert ?rec (ix_store ix))"
      using hist cur by (intro singletons_owned_upsert [OF inv]) (simp add: followed_owned_def)
    moreover have "ix' = ix\<lparr>ix_store := singleton_upsert ?rec (ix_store ix)\<rparr>"
      using False Inr out d by (simp add: discover_reference_def Let_def)
    ultimately show ?thesis by simp
  qed
qed

lemma singletons_owned_transition:
  assumes "singletons_owned (ix_store ix)"
    and "on_registry_transition sdk h spends logs ix = (ix', r)"
  shows "singletons_owned (ix_store ix')"
proof -
  have refs: "singletons_owned (ix_store ix')"
    if "singletons_owned (ix_store ix)" and "discover_references sdk h spends refs ix = (ix', r)" for refs ix ix' r
    using that
  proof (induction refs arbitrary: ix)
    case (Cons ref refs)
    obtain ix1 r1 where d: "discover_reference sdk h spends ref ix = (ix1, r1)"
      by (cases "discover_reference sdk h spends ref ix")
    have "singletons_owned (ix_store ix1)" by (rule singletons_owned_discover [OF Cons.prems(1) d])
    with Cons d show ?case by (cases r1) auto
  qed simp
  show ?thesis
    using assms
  proof (induction logs arbitrary: ix)
    case (Cons log logs)
    obtain ix1 r1 where d: "discover_references sdk h spends (references_from_action_log log) ix = (ix1, r1)"
      by (cases "discover_references sdk h spends (references_from_action_log log) ix")
    have ix1: "singletons_owned (ix_store ix1)" by (rule refs [OF Cons.prems(1) d])
    show ?case
      using Cons.prems(2) d ix1 Cons.IH [OF singletons_owned_track [OF ix1, of h log]]
      by (cases r1) auto
  qed simp
qed

lemma followed_owned_step:
  assumes "followed_owned l rec" and "follow_record sdk h spends l rec = Inr (Some rec')"
  shows "followed_owned l rec'"
proof (cases "fs_status rec = FollowIncomplete")
  case True
  then obtain res where "retried sdk h rec res = Some rec'"
    using assms(2) by (auto simp: follow_record_def result_simps)
  then show ?thesis
    using assms(1) by (cases res) (auto simp: followed_owned_def)
next
  case False
  then obtain r where rec': "rec' = push_replacement rec (next_state sdk l h r) h"
    using assms(2) by (auto simp: follow_record_def result_simps split: if_splits option.splits)
  show ?thesis
    using assms(1) singleton_states.set_timeline_push [of rec "next_state sdk l h r" h]
    unfolding rec' owned_timeline by auto
qed

lemma singletons_owned_follow_all:
  assumes "singletons_owned s" and "follow_all sdk h spends ids s = (s', r)"
  shows "singletons_owned s'"
  using assms
proof (induction ids arbitrary: s)
  case (Cons i ids)
  show ?case
  proof (cases "singleton_get s i")
    case None
    with Cons show ?thesis by auto
  next
    case (Some rec)
    then have rec: "followed_owned i rec"
      using Cons.prems(1) by (auto simp: singletons_owned_def dest: holds_allD)
    show ?thesis
    proof (cases "follow_record sdk h spends i rec")
      case (Inl e)
      with Some Cons show ?thesis by auto
    next
      case (Inr v)
      show ?thesis
      proof (cases v)
        case None
        with Some Inr Cons show ?thesis by auto
      next
        case v: (Some rec')
        have "followed_owned i rec'" using followed_owned_step [OF rec] Inr v by simp
        then have "singletons_owned (singleton_upsert rec' s)"
          using singletons_owned_upsert [OF Cons.prems(1), of rec'] by (simp add: followed_owned_def)
        with Some Inr v Cons show ?thesis by auto
      qed
    qed
  qed
qed simp

lemma singletons_owned_block:
  assumes "singletons_owned (ix_store ix)" and "on_block sdk h spends ix = (ix', r)"
  shows "singletons_owned (ix_store ix')"
proof -
  obtain s r' where fa: "follow_all sdk h spends (all_launcher_ids (ix_store ix)) (ix_store ix) = (s, r')"
    by (cases "follow_all sdk h spends (all_launcher_ids (ix_store ix)) (ix_store ix)")
  have s: "singletons_owned s" by (rule singletons_owned_follow_all [OF assms(1) fa])
  then have "singletons_owned (ix_store (cleanup_finalized h (ix\<lparr>ix_store := s\<rparr>)))"
    using cleanup_get [of "ix\<lparr>ix_store := s\<rparr>" h]
    by (auto simp: singletons_owned_def holds_all_def split: Option.bind_splits if_splits)
  with s show ?thesis
    using assms(2) fa by (auto simp: on_block_def split: sum.splits)
qed

section \<open>Slots, registrations and pending updates\<close>

lemma slots_for_owner:
  "s \<in> set (slots_for sdk reg h pf created k) \<Longrightarrow> (sh_registry_launcher_id s, sh_handle_hash s) = k"
  by (auto simp: slots_for_def stored_slot_def)

lemma slots_owned_project:
  assumes ok: "handles_ok (ix_handle_slots ix)" and own: "holds_all handle_get slot_owned (ix_handle_slots ix)"
  shows "holds_all handle_get slot_owned
    (ix_handle_slots (project_handle_slots_from_logs sdk registry h logs parent_for ix))"
  unfolding holds_all_def
proof (intro allI impI)
  fix k rec
  let ?created = "concat (map (sdk_created_handle_slots sdk) logs)"
  let ?ss = "slots_for sdk registry h parent_for ?created k"
  let ?old = "slot_record_or_new (ix_handle_slots ix) k"
  assume get: "handle_get (ix_handle_slots
      (project_handle_slots_from_logs sdk registry h logs parent_for ix)) k = Some rec"
  note step = project_created_get [OF ok, of sdk registry h parent_for ?created k]
  have old: "slot_owned k ?old"
    using holds_allD [OF own, of k]
    by (cases "handle_get (ix_handle_slots ix) k")
      (auto simp: slot_record_or_new_def slot_owned_def handle_slot_key_def)
  have rec: "rec = foldl (\<lambda>r s. push_handle_replacement r s h) ?old ?ss"
    using step get by (simp add: project_handle_slots_from_logs_def slot_record_or_new_def [of "ix_handle_slots (project_created _ _ _ _ _ _)"])
  have "handle_slot_key rec = k"
    using step get handle_slots.key_of_get unfolding project_handle_slots_from_logs_def by blast
  then show "slot_owned k rec"
    using old handle_states.set_timeline_pushes [of h ?old ?ss] slots_for_owner
    unfolding owned_timeline rec by blast
qed

lemma registered_owner: "s \<in> set (registered reg h logs) \<Longrightarrow> sr_registry_launcher_id s = reg"
  by (auto simp: registered_def stored_registration_of_def)

lemma registrations_owned_project:
  assumes ok: "registrations_ok (ix_registrations ix)"
    and own: "holds_all registration_get registration_owned (ix_registrations ix)"
  shows "holds_all registration_get registration_owned
    (ix_registrations (project_registrations_from_logs registry h logs ix))"
  unfolding holds_all_def
proof (intro allI impI)
  fix k rec
  let ?ss = "registered registry h logs"
  let ?fs = "filter (\<lambda>s. (registry, sr_handle_hash s) = k) ?ss"
  let ?s = "foldl (store_registration registry h) (ix_registrations ix) ?ss"
  let ?old = "registration_record_or_new (ix_registrations ix) k"
  assume "registration_get (ix_registrations (project_registrations_from_logs registry h logs ix)) k = Some rec"
  then have get: "registration_get ?s k = Some rec" by (simp add: project_registrations_eq)
  note step = store_registrations_get [OF ok, of registry h ?ss k]
  have old: "registration_owned k ?old"
    using holds_allD [OF own, of k]
    by (cases "registration_get (ix_registrations ix) k")
      (auto simp: registration_record_or_new_def registration_owned_def registration_key_def)
  have rec: "rec = foldl (\<lambda>r s. push_registration_replacement r s h) ?old ?fs"
    using step get by (simp add: registration_record_or_new_def [of ?s])
  have "registration_key rec = k" using step get registrations.key_of_get by blast
  moreover have "(sr_registry_launcher_id s, sr_handle_hash s) = k" if "s \<in> set ?fs" for s
    using that registered_owner [of s registry h logs] by auto
  ultimately show "registration_owned k rec"
    using old registration_states.set_timeline_pushes [of h ?old ?fs]
    unfolding owned_timeline rec by blast
qed

definition pendings_owned :: "pending_store \<Rightarrow> bool" where
  "pendings_owned s \<longleftrightarrow> pendings_ok s \<and> holds_all pending_get pending_owned s"

lemma pendings_owned_upsert:
  "pendings_owned s \<Longrightarrow> pending_owned (pending_key r) r \<Longrightarrow> pendings_owned (pending_upsert r s)"
  by (simp add: pendings_owned_def pendings.invar_upsert pendings.holds_all_upsert)

lemma pending_owned_clear:
  assumes "pending_owned k r"
  shows "pending_owned k (clear_pending_current r h)"
proof (cases "pr_current r")
  case None
  with assms show ?thesis by (simp add: clear_pending_current_def)
next
  case (Some u)
  have own: "pending_key r = k" and all: "\<forall>s \<in> set (pr_history r @ [u]).
      (su_registry_launcher_id s, su_handle_hash s) = k"
    using assms Some by (simp_all add: pending_owned_def list_all_iff)
  have "\<forall>s \<in> set (prune_pending_history (pr_history r @ [u]) h).
      (su_registry_launcher_id s, su_handle_hash s) = k"
    using all set_prune_by [of su_update_confirmation_height "pr_history r @ [u]" h]
    unfolding prune_pending_history_def by (simp only: subset_iff) metis
  with own Some show ?thesis
    by (simp add: pending_owned_def clear_pending_fields list_all_iff)
qed

lemma pendings_owned_clear:
  assumes "pendings_owned (ix_pending_updates ix)"
  shows "pendings_owned (ix_pending_updates (clear_pending_for_handle registry hh h ix))"
proof (cases "pending_get (ix_pending_updates ix) (registry, hh)")
  case None
  with assms show ?thesis by (simp add: clear_pending_for_handle_def)
next
  case (Some rec)
  then have own: "pending_owned (registry, hh) rec"
    using assms by (auto simp: pendings_owned_def dest: holds_allD)
  then have "pendings_owned (pending_upsert (clear_pending_current rec h) (ix_pending_updates ix))"
    using pendings_owned_upsert [OF assms, of "clear_pending_current rec h"]
      pending_owned_clear [OF own, of h] by (simp add: pending_owned_def)
  with Some assms show ?thesis
    by (auto simp: clear_pending_for_handle_def Let_def pendings_owned_def pendings.invar_remove
        pendings.holds_all_remove)
qed

lemma pendings_owned_initiate:
  assumes "pendings_owned (ix_pending_updates ix)"
  shows "pendings_owned (ix_pending_updates (initiate_pending registry h v ix))"
proof -
  let ?k = "(registry, uv_handle_hash v)"
  let ?old = "pending_record_or_new (ix_pending_updates ix) ?k"
  have "pending_owned ?k ?old"
    using assms holds_allD [of pending_get pending_owned "ix_pending_updates ix" ?k]
    by (cases "pending_get (ix_pending_updates ix) ?k")
      (auto simp: pending_record_or_new_def pending_owned_def pending_key_def pendings_owned_def)
  then have "pending_owned ?k (push_pending_replacement ?old (stored_pending registry h v) h)"
    using pending_states.set_timeline_push [of ?old "stored_pending registry h v" h]
    unfolding owned_timeline by (auto simp: stored_pending_def)
  then show ?thesis
    using pendings_owned_upsert [OF assms] by (simp add: initiate_pending_def Let_def pending_owned_def)
qed

lemma pendings_owned_project:
  assumes "pendings_owned (ix_pending_updates ix)"
  shows "pendings_owned (ix_pending_updates (project_pending_updates_from_logs registry h logs ix))"
proof -
  have "pendings_owned (ix_pending_updates (project_pending_update registry h log ix))"
    if "pendings_owned (ix_pending_updates ix)" for log ix
    using that
    by (cases log) (auto simp: pendings_owned_clear pendings_owned_initiate split: option.splits)
  then show ?thesis
    using assms unfolding project_pending_updates_from_logs_def
    by (rule_tac foldl_keeps [where I = "\<lambda>ix. pendings_owned (ix_pending_updates ix)"]) auto
qed

section \<open>Rolling back\<close>

lemma indexer_owned_rollback:
  assumes "indexer_ok ix" and "indexer_owned ix"
  shows "indexer_owned (rollback f ix)"
proof -
  have f: "followed_owned k r'" if own: "followed_owned k r" and r': "rollback_followed f r = Some r'" for k r r'
  proof -
    have "fs_launcher_id r' = k" and "singleton_states.timeline r' = singleton_states.timeline (rollback_to_before r f)"
      using own r' by (auto simp: rollback_followed_def Let_def owned_timeline singleton_states.timeline_def
          split: if_splits option.splits)
    with own singleton_states.set_timeline_rollback [of r f] show ?thesis
      unfolding owned_timeline by auto
  qed
  have s: "slot_owned k r'" if own: "slot_owned k r" and r': "rollback_slot f r = Some r'" for k r r'
    using own r' handle_states.set_timeline_rollback [of r f]
    unfolding owned_timeline by (auto simp: rollback_slot_def Let_def split: if_splits)
  have r: "registration_owned k r'"
    if own: "registration_owned k r" and r': "rollback_registration f r = Some r'" for k r r'
    using own r' registration_states.set_timeline_rollback [of r f]
    unfolding owned_timeline by (auto simp: rollback_registration_def Let_def split: if_splits)
  have p: "pending_owned k r'" if own: "pending_owned k r" and r': "rollback_pending f r = Some r'" for k r r'
    using own r' pending_states.set_timeline_rollback [of r f]
    unfolding owned_timeline by (auto simp: rollback_pending_def Let_def split: if_splits)
  show ?thesis
    using assms(2) unfolding indexer_owned_def
    by (elim conjE, intro conjI)
      (erule holds_all_bind [where f = "rollback_followed f"] holds_all_bind [where f = "rollback_slot f"]
        holds_all_bind [where f = "rollback_registration f"] holds_all_bind [where f = "rollback_pending f"],
       simp add: rollback_stores [OF assms(1)], erule (1) f s r p)+
qed

end
