(* ===== verification/IndexerReach.thy ===== *)
theory IndexerReach
  imports IndexerOwned
begin

text \<open>
  The indexer as a state machine: the states its driver can bring it into, with the height \<open>p\<close> below
  which everything stored was confirmed. Blocks are applied in height order, any number of steps at
  one height; a rollback from \<open>f\<close> takes the machine back to heights below \<open>f\<close>. A step that fails half-way
  (a driver error) is a step too, with the state it left behind.
\<close>

inductive reachable :: "('n, 'z) sdk_scheme \<Rightarrow> singleton_indexer \<Rightarrow> nat \<Rightarrow> bool"
  for sdk :: "('n, 'z) sdk_scheme"
where
  start: "reachable sdk
     \<lparr>ix_store = [], ix_handle_slots = [], ix_registrations = \<lparr>rs_records = [], rs_stats = []\<rparr>,
      ix_pending_updates = [], ix_freshness = f\<rparr> 0"
| transition: "reachable sdk ix p \<Longrightarrow> p \<le> Suc (unat h) \<Longrightarrow>
     on_registry_transition sdk h spends logs ix = (ix', r) \<Longrightarrow> reachable sdk ix' (Suc (unat h))"
| slots: "reachable sdk ix p \<Longrightarrow> p \<le> Suc (unat h) \<Longrightarrow>
     reachable sdk (project_handle_slots_from_logs sdk registry h logs parent_for ix) (Suc (unat h))"
| registered: "reachable sdk ix p \<Longrightarrow> p \<le> Suc (unat h) \<Longrightarrow>
     reachable sdk (project_registrations_from_logs registry h logs ix) (Suc (unat h))"
| pending: "reachable sdk ix p \<Longrightarrow> p \<le> Suc (unat h) \<Longrightarrow>
     reachable sdk (project_pending_updates_from_logs registry h logs ix) (Suc (unat h))"
| block: "reachable sdk ix p \<Longrightarrow> p \<le> Suc (unat h) \<Longrightarrow>
     on_block sdk h spends ix = (ix', r) \<Longrightarrow> reachable sdk ix' (Suc (unat h))"
| rolled_back: "reachable sdk ix p \<Longrightarrow> reachable sdk (rollback f ix) (min p (unat f))"
| peak: "reachable sdk ix p \<Longrightarrow> reachable sdk (note_peak indexed upstream now t ix) p"
| resync: "reachable sdk ix p \<Longrightarrow> reachable sdk (begin_resync ix) p"

section \<open>The invariant\<close>

definition followed_ok :: "nat \<Rightarrow> followed_singleton \<Rightarrow> bool" where
  "followed_ok p rec \<longleftrightarrow>
     settled ss_confirmation_height p (fs_history rec @ option_list (fs_current rec)) \<and>
     unat (fs_discovery_height rec) < p \<and>
     (fs_reference_count rec = 0 \<longleftrightarrow> fs_dereference_height rec \<noteq> None)"

definition slot_ok :: "nat \<Rightarrow> handle_slot_record \<Rightarrow> bool" where
  "slot_ok p rec \<longleftrightarrow> hr_current rec \<noteq> None \<and>
     settled sh_confirmation_height p (hr_history rec @ option_list (hr_current rec))"

definition registration_ok :: "nat \<Rightarrow> registration_record \<Rightarrow> bool" where
  "registration_ok p rec \<longleftrightarrow> rr_current rec \<noteq> None \<and>
     settled sr_confirmation_height p (rr_history rec @ option_list (rr_current rec))"

definition pending_ok :: "nat \<Rightarrow> pending_update_record \<Rightarrow> bool" where
  "pending_ok p rec \<longleftrightarrow>
     settled su_update_confirmation_height p (pr_history rec @ option_list (pr_current rec))"

definition followed_inv :: "nat \<Rightarrow> singleton_store \<Rightarrow> bool" where
  "followed_inv p s \<longleftrightarrow> singletons_ok s \<and> (\<forall>l rec. singleton_get s l = Some rec \<longrightarrow> followed_ok p rec)"

definition slots_inv :: "nat \<Rightarrow> handle_store \<Rightarrow> bool" where
  "slots_inv p s \<longleftrightarrow> handles_ok s \<and> (\<forall>k rec. handle_get s k = Some rec \<longrightarrow> slot_ok p rec)"

definition registrations_inv :: "nat \<Rightarrow> registration_store \<Rightarrow> bool" where
  "registrations_inv p s \<longleftrightarrow> registrations_ok s \<and>
     (\<forall>k rec. registration_get s k = Some rec \<longrightarrow> registration_ok p rec) \<and>
     (\<forall>r. length (st_events (get_stats s r)) \<le> 50 \<and>
        settled ev_confirmation_height p (st_events (get_stats s r)))"

definition pendings_inv :: "nat \<Rightarrow> pending_store \<Rightarrow> bool" where
  "pendings_inv p s \<longleftrightarrow> pendings_ok s \<and> (\<forall>k rec. pending_get s k = Some rec \<longrightarrow> pending_ok p rec)"

definition indexer_inv :: "nat \<Rightarrow> singleton_indexer \<Rightarrow> bool" where
  "indexer_inv p ix \<longleftrightarrow>
     followed_inv p (ix_store ix) \<and> slots_inv p (ix_handle_slots ix) \<and>
     registrations_inv p (ix_registrations ix) \<and> pendings_inv p (ix_pending_updates ix)"

lemma slots_invD: "slots_inv p s \<Longrightarrow> handle_get s k = Some rec \<Longrightarrow> slot_ok p rec"
  unfolding slots_inv_def by blast

lemma registrations_invD:
  "registrations_inv p s \<Longrightarrow> registration_get s k = Some rec \<Longrightarrow> registration_ok p rec"
  unfolding registrations_inv_def by blast

lemma pendings_invD: "pendings_inv p s \<Longrightarrow> pending_get s k = Some rec \<Longrightarrow> pending_ok p rec"
  unfolding pendings_inv_def by blast

lemma indexer_inv_ok: "indexer_inv p ix \<Longrightarrow> indexer_ok ix"
  by (simp add: indexer_inv_def indexer_ok_def followed_inv_def slots_inv_def
      registrations_inv_def pendings_inv_def)

lemma record_ok_mono:
  "followed_ok p r \<Longrightarrow> p \<le> q \<Longrightarrow> followed_ok q r"
  "slot_ok p s \<Longrightarrow> p \<le> q \<Longrightarrow> slot_ok q s"
  "registration_ok p t \<Longrightarrow> p \<le> q \<Longrightarrow> registration_ok q t"
  "pending_ok p u \<Longrightarrow> p \<le> q \<Longrightarrow> pending_ok q u"
  by (auto simp: followed_ok_def slot_ok_def registration_ok_def pending_ok_def intro: settled_mono)

lemma followed_inv_mono: "followed_inv p s \<Longrightarrow> p \<le> q \<Longrightarrow> followed_inv q s"
  by (auto simp: followed_inv_def intro: record_ok_mono)

lemma slots_inv_mono: "slots_inv p s \<Longrightarrow> p \<le> q \<Longrightarrow> slots_inv q s"
  by (auto simp: slots_inv_def intro: record_ok_mono)

lemma registrations_inv_mono: "registrations_inv p s \<Longrightarrow> p \<le> q \<Longrightarrow> registrations_inv q s"
  unfolding registrations_inv_def by (metis record_ok_mono(3) settled_mono)

lemma pendings_inv_mono: "pendings_inv p s \<Longrightarrow> p \<le> q \<Longrightarrow> pendings_inv q s"
  by (auto simp: pendings_inv_def intro: record_ok_mono)

lemma settled_snoc:
  "settled h p xs \<Longrightarrow> p \<le> Suc (unat q) \<Longrightarrow> h s = q \<Longrightarrow> settled h (Suc (unat q)) (xs @ [s])"
  using settled_le [of h p xs q]
  by (auto simp: settled_def sorted_append word_le_nat_alt le_imp_less_Suc)

lemma settled_append_const:
  assumes "settled h p xs" and "p \<le> Suc (unat q)" and "\<forall>s \<in> set ys. h s = q"
  shows "settled h (Suc (unat q)) (xs @ ys)"
proof -
  have "map h ys = replicate (length ys) q" using assms(3) by (simp add: map_replicate_const list_eq_iff_nth_eq)
  then have "sorted (map h ys)" by simp
  then show ?thesis
    using settled_le [OF assms(1,2)] assms
    by (auto simp: settled_def sorted_append word_le_nat_alt le_imp_less_Suc)
qed

lemma settled_drop: "settled h p xs \<Longrightarrow> settled h p (drop n xs)"
  by (auto simp: settled_def drop_map [symmetric] dest: in_set_dropD intro: sorted_wrt_drop)

lemma settled_appendD: "settled h p (xs @ ys) \<Longrightarrow> settled h p xs"
  by (auto simp: settled_def sorted_append)

section \<open>Followed singletons\<close>

lemma saturating_add_one [simp]: "saturating_add (c :: u32) 1 \<noteq> 0"
proof
  assume "saturating_add c 1 = 0"
  then have "unat (saturating_add c 1) = 0" by simp
  then show False by simp
qed

lemma followed_ok_bumped: "followed_ok p r \<Longrightarrow> followed_ok p (bumped r)"
  by (simp add: followed_ok_def) (simp add: bumped_def)

lemma followed_ok_dropped: "followed_ok p r \<Longrightarrow> followed_ok p (dropped h r)"
proof -
  assume r: "followed_ok p r"
  have "saturating_sub (fs_reference_count r) 1 = 0 \<or> fs_reference_count r \<noteq> 0"
    by (auto simp: saturating_sub_def)
  with r show ?thesis
    by (auto simp: followed_ok_def dropped_def Let_def)
qed

lemma followed_inv_bump: "followed_inv p s \<Longrightarrow> followed_inv p (bump_reference l s)"
  by (auto simp: followed_inv_def get_bump_reference followed_ok_bumped split: if_splits)

lemma followed_inv_drop: "followed_inv p s \<Longrightarrow> followed_inv p (drop_reference l h s)"
  by (auto simp: followed_inv_def get_drop_reference followed_ok_dropped split: if_splits)

lemma followed_inv_rebump: "followed_inv p s \<Longrightarrow> followed_inv p (rebump l s)"
  by (auto simp: rebump_def followed_inv_bump split: option.splits)

lemma followed_inv_upsert:
  "followed_inv p s \<Longrightarrow> followed_ok p r \<Longrightarrow> followed_inv p (singleton_upsert r s)"
  by (auto simp: followed_inv_def singletons.get_upsert singletons.invar_upsert split: if_splits)

lemma foldl_inv: "I s \<Longrightarrow> (\<And>s x. I s \<Longrightarrow> I (f s x)) \<Longrightarrow> I (foldl f s xs)"
  by (induction xs arbitrary: s) auto

lemma followed_inv_track:
  assumes "followed_inv p (ix_store ix)"
  shows "followed_inv p (ix_store (track_slot_reference_changes h log ix))"
proof -
  have "followed_inv p (track_pair h q s)" if "followed_inv p s" for q s
    unfolding track_pair_def Let_def
    using that by (cases q) (auto intro!: foldl_inv followed_inv_drop followed_inv_rebump)
  then show ?thesis
    using assms by (simp add: track_slot_reference_changes_def foldl_inv [where I = "followed_inv p"])
qed

lemma found_state_height [simp]: "ss_confirmation_height (found_state sdk l h d) = h"
  by (simp add: found_state_def from_coin_def Let_def)

lemma next_state_height [simp]: "ss_confirmation_height (next_state sdk l h r) = h"
  by (cases r) (simp_all add: from_coin_def)

lemma discovery_outcome_settled:
  assumes "settled ss_confirmation_height p xs" and "p \<le> Suc (unat h)"
    and "discovery_outcome sdk l h r = (status, current)"
  shows "settled ss_confirmation_height (Suc (unat h)) (xs @ option_list current)"
  using assms settled_snoc [OF assms(1,2) found_state_height]
  by (cases r) (auto intro: settled_mono)

lemma followed_inv_discover:
  assumes inv: "followed_inv p (ix_store ix)" and p: "p \<le> Suc (unat h)"
    and d: "discover_reference sdk h spends ref ix = (ix', r)"
  shows "followed_inv (Suc (unat h)) (ix_store ix')"
proof -
  have inv': "followed_inv (Suc (unat h)) (ix_store ix)" using inv p by (rule followed_inv_mono)
  let ?l = "rf_launcher_id ref"
  let ?ex = "singleton_get (ix_store ix) ?l"
  let ?hist = "case ?ex of None \<Rightarrow> [] | Some prev \<Rightarrow> fs_history prev"
  show ?thesis
  proof (cases "is_followed ?ex")
    case True
    with d inv' show ?thesis
      by (auto simp: discover_reference_def Let_def followed_inv_bump)
  next
    case False
    show ?thesis
    proof (cases "discover_singleton_in_block sdk spends ?l (rf_expected_full_puzzle_hash ref)
        (rf_expected_inner_puzzle_hash ref)")
      case (Inl e)
      with False d inv' show ?thesis by (auto simp: discover_reference_def Let_def)
    next
      case (Inr res)
      obtain status current where out: "discovery_outcome sdk ?l h res = (status, current)"
        by (cases "discovery_outcome sdk ?l h res")
      have "settled ss_confirmation_height p ?hist"
        using inv by (auto simp: followed_inv_def followed_ok_def dest: settled_appendD
            split: option.splits)
      from discovery_outcome_settled [OF this p out]
      have "settled ss_confirmation_height (Suc (unat h)) (?hist @ option_list current)" .
      moreover have "max c (1 :: u32) \<noteq> 0" for c by (auto simp: max_def)
      ultimately have "followed_ok (Suc (unat h))
          \<lparr>fs_launcher_id = ?l, fs_expected_full_puzzle_hash = rf_expected_full_puzzle_hash ref,
           fs_expected_inner_puzzle_hash = rf_expected_inner_puzzle_hash ref,
           fs_discovery_height = h, fs_status = status, fs_current = current, fs_history = ?hist,
           fs_reference_count = (case ?ex of None \<Rightarrow> 1 | Some prev \<Rightarrow> max (fs_reference_count prev) 1),
           fs_dereference_height = None\<rparr>"
        by (simp add: followed_ok_def split: option.splits)
      with inv' False Inr out d show ?thesis
        by (auto simp: discover_reference_def Let_def intro: followed_inv_upsert)
    qed
  qed
qed

lemma followed_inv_discovers:
  assumes "followed_inv (Suc (unat h)) (ix_store ix)"
    and "discover_references sdk h spends refs ix = (ix', r)"
  shows "followed_inv (Suc (unat h)) (ix_store ix')"
  using assms
proof (induction refs arbitrary: ix)
  case (Cons ref refs)
  obtain ix1 r1 where d: "discover_reference sdk h spends ref ix = (ix1, r1)"
    by (cases "discover_reference sdk h spends ref ix")
  have "followed_inv (Suc (unat h)) (ix_store ix1)"
    using followed_inv_discover [OF Cons.prems(1) order_refl d] .
  with Cons d show ?case by (cases r1) auto
qed simp

lemma followed_inv_transition:
  assumes "followed_inv (Suc (unat h)) (ix_store ix)"
    and "on_registry_transition sdk h spends logs ix = (ix', r)"
  shows "followed_inv (Suc (unat h)) (ix_store ix')"
  using assms
proof (induction logs arbitrary: ix)
  case (Cons log logs)
  obtain ix1 r1 where d: "discover_references sdk h spends (references_from_action_log log) ix = (ix1, r1)"
    by (cases "discover_references sdk h spends (references_from_action_log log) ix")
  have ix1: "followed_inv (Suc (unat h)) (ix_store ix1)"
    by (rule followed_inv_discovers [OF Cons.prems(1) d])
  show ?case
    using Cons.prems(2) d ix1 Cons.IH [OF followed_inv_track [OF ix1, of h log]]
    by (cases r1) auto
qed simp

lemma retried_ok:
  assumes "followed_ok p rec" and "p \<le> Suc (unat h)" and "retried sdk h rec res = Some rec'"
  shows "followed_ok (Suc (unat h)) rec'"
proof -
  have hist: "settled ss_confirmation_height p (fs_history rec)"
    using assms(1) by (auto simp: followed_ok_def dest: settled_appendD)
  have full: "followed_ok (Suc (unat h)) rec"
    using assms(1,2) by (rule record_ok_mono)
  show ?thesis
    using assms(3) full settled_snoc [OF hist assms(2) found_state_height]
    by (cases res) (auto simp: followed_ok_def)
qed

lemma follow_record_ok:
  assumes "followed_ok p rec" and "p \<le> Suc (unat h)"
    and "follow_record sdk h spends l rec = Inr (Some rec')"
  shows "followed_ok (Suc (unat h)) rec'"
proof (cases "fs_status rec = FollowIncomplete")
  case True
  then show ?thesis
    using assms by (auto simp: follow_record_def result_simps intro: retried_ok)
next
  case False
  then obtain r where rec': "rec' = push_replacement rec (next_state sdk l h r) h"
    using assms(3) by (auto simp: follow_record_def result_simps split: if_splits option.splits)
  have "settled ss_confirmation_height (Suc (unat h)) (singleton_states.timeline rec')"
    using assms(1,2) unfolding rec'
    by (intro singleton_states.settled_push)
      (auto simp: followed_ok_def singleton_states.timeline_def)
  moreover have "unat (fs_discovery_height rec') < Suc (unat h)"
    using assms(1,2) by (simp add: rec' followed_ok_def)
  ultimately show ?thesis
    using assms(1) by (simp add: followed_ok_def singleton_states.timeline_def rec')
qed

lemma followed_inv_follow_all:
  assumes "followed_inv (Suc (unat h)) s" and "follow_all sdk h spends ids s = (s', r)"
  shows "followed_inv (Suc (unat h)) s'"
  using assms
proof (induction ids arbitrary: s)
  case (Cons i ids)
  show ?case
  proof (cases "singleton_get s i")
    case None
    with Cons show ?thesis by auto
  next
    case (Some rec)
    then have rec: "followed_ok (Suc (unat h)) rec"
      using Cons.prems(1) by (auto simp: followed_inv_def)
    show ?thesis
    proof (cases "follow_record sdk h spends i rec")
      case (Inl e)
      with Some Cons show ?thesis by auto
    next
      case (Inr v)
      show ?thesis
      proof (cases v)
        case None
        with Some Inr Cons show ?thesis by auto
      next
        case v: (Some rec')
        have "followed_inv (Suc (unat h)) (singleton_upsert rec' s)"
          using followed_inv_upsert [OF Cons.prems(1)
              follow_record_ok [OF rec order_refl, of sdk spends i rec']] Inr v by simp
        with Some Inr v Cons show ?thesis by auto
      qed
    qed
  qed
qed simp

lemma followed_inv_cleanup:
  assumes "followed_inv p (ix_store ix)"
  shows "followed_inv p (ix_store (cleanup_finalized h ix))"
proof -
  have ok: "singletons_ok (ix_store ix)" using assms by (simp add: followed_inv_def)
  show ?thesis
    using cleanup_get [OF ok] assms
    by (auto simp: followed_inv_def split: Option.bind_splits if_splits)
qed

lemma followed_inv_block:
  assumes "followed_inv (Suc (unat h)) (ix_store ix)" and "on_block sdk h spends ix = (ix', r)"
  shows "followed_inv (Suc (unat h)) (ix_store ix')"
proof -
  obtain s r' where fa: "follow_all sdk h spends (all_launcher_ids (ix_store ix)) (ix_store ix) = (s, r')"
    by (cases "follow_all sdk h spends (all_launcher_ids (ix_store ix)) (ix_store ix)")
  have "followed_inv (Suc (unat h)) s" by (rule followed_inv_follow_all [OF assms(1) fa])
  then show ?thesis
    using assms(2) fa followed_inv_cleanup [of "Suc (unat h)" "ix\<lparr>ix_store := s\<rparr>" h]
    by (auto simp: on_block_def split: sum.splits)
qed

lemma rollback_followed_ok:
  assumes "followed_ok p rec" and "rollback_followed f rec = Some rec'"
  shows "followed_ok (min p (unat f)) rec'"
proof -
  let ?r = "rollback_to_before rec f"
  have s: "settled ss_confirmation_height (min p (unat f)) (singleton_states.timeline ?r)"
    using assms(1) by (intro singleton_states.settled_rollback)
      (simp add: followed_ok_def singleton_states.timeline_def)
  have d: "unat (fs_discovery_height rec) < min p (unat f)"
    using assms by (auto simp: rollback_followed_def followed_ok_def word_le_nat_alt not_le
        split: if_splits)
  show ?thesis
    using assms s d
    by (auto simp: rollback_followed_def followed_ok_def Let_def singleton_states.timeline_def
        split: if_splits option.splits)
qed

section \<open>Slots, registrations and pending updates\<close>

lemma slot_ok_push:
  assumes "settled sh_confirmation_height p (handle_states.timeline r)" and "p \<le> Suc (unat h)"
    and "\<forall>s \<in> set ss. sh_confirmation_height s = h"
  shows "settled sh_confirmation_height (Suc (unat h))
    (handle_states.timeline (foldl (\<lambda>r s. push_handle_replacement r s h) r ss))"
  using assms
proof (induction ss arbitrary: r p)
  case Nil
  then show ?case by (auto intro: settled_mono)
next
  case (Cons s ss)
  then show ?case
    using handle_states.settled_push [of p r h s] by (auto simp del: One_nat_def)
qed

lemma registration_ok_push:
  assumes "settled sr_confirmation_height p (registration_states.timeline r)" and "p \<le> Suc (unat h)"
    and "\<forall>s \<in> set ss. sr_confirmation_height s = h"
  shows "settled sr_confirmation_height (Suc (unat h))
    (registration_states.timeline (foldl (\<lambda>r s. push_registration_replacement r s h) r ss))"
  using assms
proof (induction ss arbitrary: r p)
  case Nil
  then show ?case by (auto intro: settled_mono)
next
  case (Cons s ss)
  then show ?case
    using registration_states.settled_push [of p r h s] by auto
qed

lemma slots_for_height: "\<forall>s \<in> set (slots_for sdk reg h pf created k). sh_confirmation_height s = h"
  by (auto simp: slots_for_def stored_slot_def)

lemma registered_height: "\<forall>s \<in> set (registered reg h logs). sr_confirmation_height s = h"
  by (auto simp: registered_def stored_registration_of_def)

lemma new_slot_settled:
  "slots_inv p s \<Longrightarrow> settled sh_confirmation_height p (handle_states.timeline (slot_record_or_new s k))"
  using slots_invD [of p s k]
  by (cases "handle_get s k")
    (auto simp: slot_record_or_new_def handle_states.timeline_def slot_ok_def)

lemma new_registration_settled:
  "registrations_inv p s \<Longrightarrow>
     settled sr_confirmation_height p (registration_states.timeline (registration_record_or_new s k))"
  using registrations_invD [of p s k]
  by (cases "registration_get s k")
    (auto simp: registration_record_or_new_def registration_states.timeline_def registration_ok_def)

lemma slots_inv_project:
  assumes inv: "slots_inv p (ix_handle_slots ix)" and p: "p \<le> Suc (unat h)"
  shows "slots_inv (Suc (unat h))
    (ix_handle_slots (project_handle_slots_from_logs sdk registry h logs parent_for ix))"
proof -
  let ?created = "concat (map (sdk_created_handle_slots sdk) logs)"
  let ?ix = "project_created sdk registry h parent_for ?created ix"
  have ok: "handles_ok (ix_handle_slots ix)" using inv by (simp add: slots_inv_def)
  note get = project_created_get [OF ok, of sdk registry h parent_for ?created]
  have "slot_ok (Suc (unat h)) rec" if rec: "handle_get (ix_handle_slots ?ix) k = Some rec" for k rec
  proof (cases "slots_for sdk registry h parent_for ?created k = []")
    case True
    then have "slot_ok p rec" using get [of k] rec slots_invD [OF inv, of k rec] by simp
    then show ?thesis using p by (rule record_ok_mono)
  next
    case False
    let ?ss = "slots_for sdk registry h parent_for ?created k"
    have r: "rec = foldl (\<lambda>r s. push_handle_replacement r s h) (slot_record_or_new (ix_handle_slots ix) k) ?ss"
      using get [of k] rec by (simp add: slot_record_or_new_def)
    have "hr_current rec = Some (last ?ss)"
      unfolding r by (rule foldl_push_cur) (use False in \<open>simp_all add: handle_states.cur_push\<close>)
    moreover have "settled sh_confirmation_height (Suc (unat h)) (handle_states.timeline rec)"
      unfolding r by (rule slot_ok_push [OF new_slot_settled [OF inv] p slots_for_height])
    ultimately show ?thesis by (simp add: slot_ok_def handle_states.timeline_def)
  qed
  with get show ?thesis by (simp add: slots_inv_def project_handle_slots_from_logs_def)
qed

lemma record_events_settled:
  assumes "length (st_events st) \<le> 50" and "settled ev_confirmation_height p (st_events st)"
    and "p \<le> Suc (unat h)" and "\<forall>ev \<in> set evs. ev_confirmation_height ev = h"
  shows "length (st_events (foldl record_event st evs)) \<le> 50 \<and>
    settled ev_confirmation_height (Suc (unat h)) (st_events (foldl record_event st evs))"
proof -
  have "st_events (foldl record_event st evs) =
      drop (length (st_events st) + length evs - 50) (st_events st @ evs)"
    using record_events [OF assms(1)] by blast
  moreover have "length (drop (length (st_events st) + length evs - 50) (st_events st @ evs)) \<le> 50"
    unfolding length_drop length_append by linarith
  moreover have "settled ev_confirmation_height (Suc (unat h))
      (drop (length (st_events st) + length evs - 50) (st_events st @ evs))"
    by (rule settled_drop [OF settled_append_const [OF assms(2-4)]])
  ultimately show ?thesis by (simp only: simp_thms)
qed

lemma registrations_inv_project:
  assumes inv: "registrations_inv p (ix_registrations ix)" and p: "p \<le> Suc (unat h)"
  shows "registrations_inv (Suc (unat h))
    (ix_registrations (project_registrations_from_logs registry h logs ix))"
proof -
  let ?ss = "registered registry h logs"
  let ?s = "foldl (store_registration registry h) (ix_registrations ix) ?ss"
  have ok: "registrations_ok (ix_registrations ix)" using inv by (simp add: registrations_inv_def)
  note get = store_registrations_get [OF ok, of registry h ?ss]
  have "registration_ok (Suc (unat h)) rec" if rec: "registration_get ?s k = Some rec" for k rec
  proof (cases "filter (\<lambda>s. (registry, sr_handle_hash s) = k) ?ss = []")
    case True
    then have "registration_ok p rec"
      using get [of k] rec registrations_invD [OF inv, of k rec] by simp
    then show ?thesis using p by (rule record_ok_mono)
  next
    case False
    let ?fs = "filter (\<lambda>s. (registry, sr_handle_hash s) = k) ?ss"
    have r: "rec = foldl (\<lambda>r s. push_registration_replacement r s h)
        (registration_record_or_new (ix_registrations ix) k) ?fs"
      using get [of k] rec by (simp add: registration_record_or_new_def)
    have "rr_current rec = Some (last ?fs)"
      unfolding r by (rule foldl_push_cur) (use False in \<open>simp_all add: registration_states.cur_push\<close>)
    moreover have "settled sr_confirmation_height (Suc (unat h)) (registration_states.timeline rec)"
      unfolding r
      by (rule registration_ok_push [OF new_registration_settled [OF inv] p])
        (use registered_height in auto)
    ultimately show ?thesis by (simp add: registration_ok_def registration_states.timeline_def)
  qed
  moreover have "length (st_events (get_stats ?s r)) \<le> 50 \<and>
      settled ev_confirmation_height (Suc (unat h)) (st_events (get_stats ?s r))" for r
  proof -
    have old: "length (st_events (get_stats (ix_registrations ix) r)) \<le> 50"
      "settled ev_confirmation_height p (st_events (get_stats (ix_registrations ix) r))"
      using inv by (auto simp: registrations_inv_def)
    have new: "\<forall>ev \<in> set (map event_of ?ss). ev_confirmation_height ev = h"
      using registered_height [of registry h logs] by (auto simp: event_of_def)
    show ?thesis
      using get [of _ r] old settled_mono [OF old(2) p] record_events_settled [OF old p new]
      by (cases "r = registry") simp_all
  qed
  ultimately show ?thesis
    using get by (simp add: registrations_inv_def project_registrations_eq)
qed

lemma pending_ok_push:
  "pending_ok p r \<Longrightarrow> p \<le> Suc (unat h) \<Longrightarrow> su_update_confirmation_height u = h \<Longrightarrow>
     pending_ok (Suc (unat h)) (push_pending_replacement r u h)"
  using pending_states.settled_push [of p r h u]
  by (simp add: pending_ok_def pending_states.timeline_def)

lemma pending_ok_clear:
  assumes "pending_ok p r"
  shows "pending_ok p (clear_pending_current r h)"
proof (cases "pr_current r")
  case None
  with assms show ?thesis by (simp add: clear_pending_current_def)
next
  case (Some u)
  have "set (prune_pending_history (pr_history r @ [u]) h) \<subseteq> set (pr_history r @ [u])"
    unfolding prune_pending_history_def by (rule set_prune_by)
  with assms Some show ?thesis
    by (auto simp: pending_ok_def clear_pending_fields settled_def prune_pending_history_def
        intro: sorted_prune)
qed

lemma pendings_inv_upsert:
  "pendings_inv p s \<Longrightarrow> pending_ok p r \<Longrightarrow> pendings_inv p (pending_upsert r s)"
  by (auto simp: pendings_inv_def pendings.get_upsert pendings.invar_upsert split: if_splits)

lemma pendings_inv_remove: "pendings_inv p s \<Longrightarrow> pendings_inv p (pending_remove k s)"
  by (auto simp: pendings_inv_def pendings.get_remove pendings.invar_remove split: if_splits)

lemma pendings_inv_clear:
  assumes "pendings_inv p (ix_pending_updates ix)"
  shows "pendings_inv p (ix_pending_updates (clear_pending_for_handle registry hh h ix))"
  using assms pendings_invD [OF assms]
  by (auto simp: clear_pending_for_handle_def Let_def intro!: pendings_inv_remove
      pending_ok_clear pendings_inv_upsert split: option.splits)

lemma pendings_inv_initiate:
  assumes "pendings_inv (Suc (unat h)) (ix_pending_updates ix)"
  shows "pendings_inv (Suc (unat h)) (ix_pending_updates (initiate_pending registry h v ix))"
proof -
  have "pending_ok (Suc (unat h)) (pending_record_or_new (ix_pending_updates ix) k)" for k
    using pendings_invD [OF assms, of k]
    by (cases "pending_get (ix_pending_updates ix) k")
      (auto simp: pending_record_or_new_def pending_ok_def)
  then have "pending_ok (Suc (unat h)) (push_pending_replacement
      (pending_record_or_new (ix_pending_updates ix) k) (stored_pending registry h v) h)" for k
    by (rule pending_ok_push) (simp_all add: stored_pending_def)
  then show ?thesis
    using pendings_inv_upsert [OF assms] by (simp add: initiate_pending_def Let_def)
qed

lemma pendings_inv_project:
  assumes "pendings_inv p (ix_pending_updates ix)" and "p \<le> Suc (unat h)"
  shows "pendings_inv (Suc (unat h))
    (ix_pending_updates (project_pending_updates_from_logs registry h logs ix))"
proof -
  have "pendings_inv (Suc (unat h)) (ix_pending_updates (project_pending_update registry h log ix))"
    if "pendings_inv (Suc (unat h)) (ix_pending_updates ix)" for log ix
    using that
    by (cases log) (auto simp: pendings_inv_clear pendings_inv_initiate split: option.splits)
  then show ?thesis
    using pendings_inv_mono [OF assms] unfolding project_pending_updates_from_logs_def
    by (rule_tac foldl_inv [where I = "\<lambda>ix. pendings_inv (Suc (unat h)) (ix_pending_updates ix)"]) auto
qed

section \<open>Every step keeps the invariant\<close>

lemma slots_inv_rollback:
  assumes "slots_inv p (ix_handle_slots ix)" and "indexer_ok ix"
  shows "slots_inv (min p (unat f)) (ix_handle_slots (rollback f ix))"
proof -
  have "slot_ok (min p (unat f)) rec'" if "slot_ok p rec" and "rollback_slot f rec = Some rec'" for rec rec'
    using that handle_states.settled_rollback [of p rec f] handle_states.rollback_current [of rec f]
    by (auto simp: rollback_slot_def slot_ok_def handle_states.timeline_def Let_def split: if_splits)
  then show ?thesis
    using slots_invD [OF assms(1)] rollback_stores(2) [OF assms(2)] rollback_ok [OF assms(2)]
    unfolding slots_inv_def indexer_ok_def by (metis bind_eq_Some_conv)
qed

lemma registrations_inv_rollback:
  assumes "registrations_inv p (ix_registrations ix)" and "indexer_ok ix"
  shows "registrations_inv (min p (unat f)) (ix_registrations (rollback f ix))"
proof -
  have rec: "registration_ok (min p (unat f)) rec'"
    if "registration_ok p rec" and "rollback_registration f rec = Some rec'" for rec rec'
    using that registration_states.settled_rollback [of p rec f]
      registration_states.rollback_current [of rec f]
    by (auto simp: rollback_registration_def registration_ok_def registration_states.timeline_def
        Let_def split: if_splits)
  have stats: "length (st_events (rollback_stats_to_before st f)) \<le> 50 \<and>
      settled ev_confirmation_height (min p (unat f)) (st_events (rollback_stats_to_before st f))"
    if "length (st_events st) \<le> 50" and s: "settled ev_confirmation_height p (st_events st)" for st
  proof -
    have "st_events (rollback_stats_to_before st f) = below ev_confirmation_height f (st_events st)"
      using s by (intro rollback_stats_events) (simp add: settled_def)
    moreover have "length (below ev_confirmation_height f (st_events st)) \<le> 50"
      using that(1) length_filter_le [of _ "st_events st"] unfolding below_def by (rule order_trans [rotated])
    ultimately show ?thesis
      using s by (auto simp: settled_def below_def word_less_nat_alt sorted_map_filter)
  qed
  have "registration_ok (min p (unat f)) rec'"
    if "registration_get (ix_registrations (rollback f ix)) k = Some rec'" for k rec'
    using that rec registrations_invD [OF assms(1)] rollback_stores(3) [OF assms(2)]
    by (metis bind_eq_Some_conv)
  moreover have "length (st_events (get_stats (ix_registrations (rollback f ix)) r)) \<le> 50 \<and>
      settled ev_confirmation_height (min p (unat f))
        (st_events (get_stats (ix_registrations (rollback f ix)) r))" for r
    unfolding rollback_stores(5) [OF assms(2)]
    by (rule stats) (use assms(1) in \<open>simp_all add: registrations_inv_def\<close>)
  moreover have "registrations_ok (ix_registrations (rollback f ix))"
    using rollback_ok [OF assms(2), of f] by (simp add: indexer_ok_def)
  ultimately show ?thesis unfolding registrations_inv_def by blast
qed

lemma pendings_inv_rollback:
  assumes "pendings_inv p (ix_pending_updates ix)" and "indexer_ok ix"
  shows "pendings_inv (min p (unat f)) (ix_pending_updates (rollback f ix))"
proof -
  have "pending_ok (min p (unat f)) rec'" if "pending_ok p rec" and "rollback_pending f rec = Some rec'" for rec rec'
    using that pending_states.settled_rollback [of p rec f]
    by (auto simp: rollback_pending_def pending_ok_def pending_states.timeline_def Let_def split: if_splits)
  then show ?thesis
    using pendings_invD [OF assms(1)] rollback_stores(4) [OF assms(2)] rollback_ok [OF assms(2)]
    unfolding pendings_inv_def indexer_ok_def by (metis bind_eq_Some_conv)
qed

lemma followed_inv_rollback:
  assumes "followed_inv p (ix_store ix)" and "indexer_ok ix"
  shows "followed_inv (min p (unat f)) (ix_store (rollback f ix))"
  using assms(1) rollback_stores(1) [OF assms(2)] rollback_ok [OF assms(2)] rollback_followed_ok
  unfolding followed_inv_def indexer_ok_def by (metis bind_eq_Some_conv)

lemma discover_reference_frame:
  "discover_reference sdk h spends ref ix = (ix', r) \<Longrightarrow>
     \<exists>s. ix' = ix\<lparr>ix_store := s\<rparr>"
  by (cases "is_followed (singleton_get (ix_store ix) (rf_launcher_id ref))")
    (auto simp: discover_reference_def Let_def split: sum.splits prod.splits intro: exI [of _ "ix_store ix"])

lemma discover_references_frame:
  "discover_references sdk h spends refs ix = (ix', r) \<Longrightarrow> \<exists>s. ix' = ix\<lparr>ix_store := s\<rparr>"
proof (induction refs arbitrary: ix)
  case Nil
  then show ?case by (auto intro: exI [of _ "ix_store ix"])
next
  case (Cons ref refs)
  obtain ix1 r1 where d: "discover_reference sdk h spends ref ix = (ix1, r1)"
    by (cases "discover_reference sdk h spends ref ix")
  from discover_reference_frame [OF this] Cons d show ?case by (cases r1) fastforce+
qed

lemma transition_frame:
  "on_registry_transition sdk h spends logs ix = (ix', r) \<Longrightarrow> \<exists>s. ix' = ix\<lparr>ix_store := s\<rparr>"
proof (induction logs arbitrary: ix)
  case Nil
  then show ?case by (auto intro: exI [of _ "ix_store ix"])
next
  case (Cons log logs)
  obtain ix1 r1 where d: "discover_references sdk h spends (references_from_action_log log) ix = (ix1, r1)"
    by (cases "discover_references sdk h spends (references_from_action_log log) ix")
  from discover_references_frame [OF this] Cons d show ?case
    by (cases r1) (fastforce simp: track_slot_reference_changes_def)+
qed

lemma block_frame: "on_block sdk h spends ix = (ix', r) \<Longrightarrow> \<exists>s. ix' = ix\<lparr>ix_store := s\<rparr>"
  by (auto simp: on_block_def cleanup_finalized_def split: prod.splits sum.splits)

lemma projections_frame [simp]:
  "ix_store (project_handle_slots_from_logs sdk r h logs pf ix) = ix_store ix"
  "ix_registrations (project_handle_slots_from_logs sdk r h logs pf ix) = ix_registrations ix"
  "ix_pending_updates (project_handle_slots_from_logs sdk r h logs pf ix) = ix_pending_updates ix"
  "ix_store (project_registrations_from_logs r h logs ix) = ix_store ix"
  "ix_handle_slots (project_registrations_from_logs r h logs ix) = ix_handle_slots ix"
  "ix_pending_updates (project_registrations_from_logs r h logs ix) = ix_pending_updates ix"
  by (simp_all add: project_handle_slots_from_logs_def project_registrations_eq)

lemma pending_frame:
  "\<exists>s. project_pending_updates_from_logs r h logs ix = ix\<lparr>ix_pending_updates := s\<rparr>"
proof -
  have clear: "\<exists>s. clear_pending_for_handle r hh h ix = ix\<lparr>ix_pending_updates := s\<rparr>" for hh ix
    by (auto simp: clear_pending_for_handle_def Let_def split: option.splits
        intro: exI [of _ "ix_pending_updates ix"])
  have step: "\<exists>s. project_pending_update r h log ix = ix\<lparr>ix_pending_updates := s\<rparr>" for log ix
    using clear [of _ ix]
    by (cases log) (auto simp: initiate_pending_def Let_def split: option.splits
        intro: exI [of _ "ix_pending_updates ix"])
  have "\<exists>s. foldl (\<lambda>ix log. project_pending_update r h log ix) ix logs = ix\<lparr>ix_pending_updates := s\<rparr>"
  proof (induction logs arbitrary: ix)
    case Nil
    then show ?case by (auto intro: exI [of _ "ix_pending_updates ix"])
  next
    case (Cons log logs)
    from step [of log ix] obtain s where "project_pending_update r h log ix = ix\<lparr>ix_pending_updates := s\<rparr>" ..
    with Cons [of "ix\<lparr>ix_pending_updates := s\<rparr>"] show ?case by auto
  qed
  then show ?thesis by (simp add: project_pending_updates_from_logs_def)
qed

lemma indexer_inv_mono: "indexer_inv p ix \<Longrightarrow> p \<le> q \<Longrightarrow> indexer_inv q ix"
  unfolding indexer_inv_def
  using followed_inv_mono slots_inv_mono registrations_inv_mono pendings_inv_mono by blast

lemma reachable_inv: "reachable sdk ix p \<Longrightarrow> indexer_inv p ix"
proof (induction rule: reachable.induct)
  case (start f)
  show ?case
    by (simp add: indexer_inv_def followed_inv_def slots_inv_def registrations_inv_def
        pendings_inv_def singletons_ok_def handles_ok_def registrations_ok_def pendings_ok_def
        singleton_get_def handle_get_def registration_get_def pending_get_def get_stats_def
        stats_default_def)
next
  case (transition ix p h spends logs ix' r)
  have inv: "indexer_inv (Suc (unat h)) ix" using transition by (blast intro: indexer_inv_mono)
  obtain s where s: "ix' = ix\<lparr>ix_store := s\<rparr>" using transition_frame [OF transition.hyps(3)] by blast
  have "followed_inv (Suc (unat h)) (ix_store ix')"
    using followed_inv_transition [OF _ transition.hyps(3)] inv by (simp add: indexer_inv_def)
  with inv s show ?case by (simp add: indexer_inv_def)
next
  case (slots ix p h registry logs parent_for)
  have inv: "indexer_inv (Suc (unat h)) ix" using slots by (blast intro: indexer_inv_mono)
  then show ?case using slots_inv_project [of "Suc (unat h)" ix h] by (simp add: indexer_inv_def)
next
  case (registered ix p h registry logs)
  have inv: "indexer_inv (Suc (unat h)) ix" using registered by (blast intro: indexer_inv_mono)
  then show ?case using registrations_inv_project [of "Suc (unat h)" ix h] by (simp add: indexer_inv_def)
next
  case (pending ix p h registry logs)
  have inv: "indexer_inv (Suc (unat h)) ix" using pending by (blast intro: indexer_inv_mono)
  obtain s where s: "project_pending_updates_from_logs registry h logs ix = ix\<lparr>ix_pending_updates := s\<rparr>"
    using pending_frame by blast
  show ?case
    using inv pendings_inv_project [of "Suc (unat h)" ix h registry logs] unfolding s
    by (simp add: indexer_inv_def)
next
  case (block ix p h spends ix' r)
  have inv: "indexer_inv (Suc (unat h)) ix" using block by (blast intro: indexer_inv_mono)
  obtain s where s: "ix' = ix\<lparr>ix_store := s\<rparr>" using block_frame [OF block.hyps(3)] by blast
  have "followed_inv (Suc (unat h)) (ix_store ix')"
    using followed_inv_block [OF _ block.hyps(3)] inv by (simp add: indexer_inv_def)
  with inv s show ?case by (simp add: indexer_inv_def)
next
  case (rolled_back ix p f)
  then have "indexer_ok ix" by (blast intro: indexer_inv_ok)
  then show ?case
    using rolled_back.IH followed_inv_rollback [of p ix f] slots_inv_rollback [of p ix f]
      registrations_inv_rollback [of p ix f] pendings_inv_rollback [of p ix f]
    by (simp add: indexer_inv_def)
next
  case (peak ix p indexed upstream now t)
  then show ?case by (simp add: note_peak_def indexer_inv_def)
next
  case (resync ix p)
  then show ?case by (simp add: begin_resync_def indexer_inv_def)
qed

lemma reachable_ok: "reachable sdk ix p \<Longrightarrow> indexer_ok ix"
  using reachable_inv indexer_inv_ok by blast

lemma reachable_owned: "reachable sdk ix p \<Longrightarrow> indexer_owned ix"
proof (induction rule: reachable.induct)
  case (start f)
  show ?case
    by (simp add: indexer_owned_def holds_all_def singleton_get_def handle_get_def
        registration_get_def pending_get_def)
next
  case (transition ix p h spends logs ix' r)
  have "singletons_owned (ix_store ix)"
    using transition.IH reachable_ok [OF transition.hyps(1)]
    by (simp add: indexer_owned_def indexer_ok_def singletons_owned_def)
  from singletons_owned_transition [OF this transition.hyps(3)] transition.IH
    transition_frame [OF transition.hyps(3)]
  show ?case by (auto simp: indexer_owned_def singletons_owned_def)
next
  case (slots ix p h registry logs parent_for)
  then show ?case
    using slots_owned_project [of ix sdk registry h logs parent_for] reachable_ok [OF slots.hyps(1)]
    by (simp add: indexer_owned_def indexer_ok_def)
next
  case (registered ix p h registry logs)
  then show ?case
    using registrations_owned_project [of ix registry h logs] reachable_ok [OF registered.hyps(1)]
    by (simp add: indexer_owned_def indexer_ok_def)
next
  case (pending ix p h registry logs)
  have "pendings_owned (ix_pending_updates ix)"
    using pending.IH reachable_ok [OF pending.hyps(1)]
    by (simp add: indexer_owned_def indexer_ok_def pendings_owned_def)
  from pendings_owned_project [OF this, of registry h logs] pending.IH
    pending_frame [of registry h logs ix]
  show ?case by (auto simp: indexer_owned_def pendings_owned_def)
next
  case (block ix p h spends ix' r)
  have "singletons_owned (ix_store ix)"
    using block.IH reachable_ok [OF block.hyps(1)]
    by (simp add: indexer_owned_def indexer_ok_def singletons_owned_def)
  from singletons_owned_block [OF this block.hyps(3)] block.IH block_frame [OF block.hyps(3)]
  show ?case by (auto simp: indexer_owned_def singletons_owned_def)
next
  case (rolled_back ix p f)
  then show ?case using indexer_owned_rollback reachable_ok by blast
next
  case (peak ix p indexed upstream now t)
  then show ?case by (simp add: note_peak_def indexer_owned_def)
next
  case (resync ix p)
  then show ?case by (simp add: begin_resync_def indexer_owned_def)
qed

text \<open>What the listing by expiration relies on to name every slot once.\<close>

lemma reachable_slots_own_keys:
  assumes "reachable sdk ix p"
  shows "slots_own_keys (ix_handle_slots ix)"
proof -
  have ok: "handles_ok (ix_handle_slots ix)" using reachable_ok [OF assms] by (simp add: indexer_ok_def)
  have "slot_owned k rec" if "(k, rec) \<in> set (ix_handle_slots ix)" for k rec
    using that ok reachable_owned [OF assms] unfolding indexer_owned_def
    by (auto simp: handles_ok_def keyed_def hm_get_in_set handle_get_def dest!: holds_allD)
  then show ?thesis
    by (fastforce simp: slots_own_keys_def list_all_iff slot_owned_def split: option.splits)
qed

section \<open>Properties\<close>


definition example_start :: singleton_indexer where
  "example_start =
     \<lparr>ix_store = [], ix_handle_slots = [], ix_registrations = \<lparr>rs_records = [], rs_stats = []\<rparr>,
      ix_pending_updates = [], ix_freshness = fresh_at 0 1000\<rparr>"

definition example_after :: singleton_indexer where
  "example_after =
     project_handle_slots_from_logs fixture_sdk 1 100 [Register example_register] (\<lambda>_. None) example_start"

lemma example_after_reachable: "reachable fixture_sdk example_after 101"
proof -
  have "reachable fixture_sdk example_start 0"
    unfolding example_start_def by (rule reachable.start)
  from reachable.slots [OF this, of 100] show ?thesis by (simp add: example_after_def)
qed


end
