(* ===== verification/Decimal.thy ===== *)
theory Decimal
  imports Prelude
begin

text \<open>
  The decimal text of unsigned integers the sources rely on: \<open>format!("{}")\<close> and \<open>str::parse::<u64>\<close>,
  with the latter's optional plus sign and its overflow check after every digit, and
  \<open>str::split_once\<close>. Printing and parsing round-trip.
\<close>

definition digit_char :: "nat \<Rightarrow> char" where
  "digit_char d = ''0123456789'' ! d"

definition digit_value :: "char \<Rightarrow> nat option" where
  "digit_value c = (if CHR ''0'' \<le> c \<and> c \<le> CHR ''9'' then Some (of_char c - 48) else None)"

fun show_nat :: "nat \<Rightarrow> string" where
  "show_nat n = (if n < 10 then [digit_char n] else show_nat (n div 10) @ [digit_char (n mod 10)])"

declare show_nat.simps [simp del]

fun parse_digits :: "nat \<Rightarrow> nat \<Rightarrow> string \<Rightarrow> nat option" where
  "parse_digits limit acc [] = Some acc"
| "parse_digits limit acc (c # cs) =
     (case digit_value c of
        None \<Rightarrow> None
      | Some d \<Rightarrow> if acc * 10 + d < limit then parse_digits limit (acc * 10 + d) cs else None)"

definition parse_u64 :: "string \<Rightarrow> u64 option" where
  "parse_u64 s =
     (let digits = (case s of c # cs \<Rightarrow> if c = CHR ''+'' then cs else s | [] \<Rightarrow> [])
      in if digits = [] then None else map_option word_of_nat (parse_digits (2 ^ 64) 0 digits))"

fun split_once :: "char \<Rightarrow> string \<Rightarrow> (string \<times> string) option" where
  "split_once sep [] = None"
| "split_once sep (c # cs) =
     (if c = sep then Some ([], cs) else map_option (\<lambda>(a, b). (c # a, b)) (split_once sep cs))"

lemma split_once_append: "sep \<notin> set a \<Longrightarrow> split_once sep (a @ sep # b) = Some (a, b)"
  by (induction a) auto

section \<open>Round trip\<close>

lemma digit_char_value: "d < 10 \<Longrightarrow> digit_value (digit_char d) = Some d \<and> digit_char d \<in> set ''0123456789''"
proof -
  have "\<forall>d \<in> {0..<10}. digit_value (digit_char d) = Some d \<and> digit_char d \<in> set ''0123456789''"
    by code_simp
  then show "d < 10 \<Longrightarrow> digit_value (digit_char d) = Some d \<and> digit_char d \<in> set ''0123456789''"
    by simp
qed

lemma show_nat_digits: "set (show_nat n) \<subseteq> set ''0123456789'' \<and> show_nat n \<noteq> []"
proof (induction n rule: show_nat.induct)
  case (1 n)
  show ?case
  proof (cases "n < 10")
    case True
    then show ?thesis using digit_char_value [of n] by (subst (1 2) show_nat.simps) simp
  next
    case False
    then show ?thesis
      using 1 digit_char_value [of "n mod 10"] by (subst (1 2) show_nat.simps) simp
  qed
qed

lemma parse_digits_snoc:
  "parse_digits limit acc (cs @ [c]) =
     (case parse_digits limit acc cs of None \<Rightarrow> None | Some v \<Rightarrow> parse_digits limit v [c])"
  by (induction limit acc cs rule: parse_digits.induct) (auto split: option.splits)

lemma parse_show_nat: "n < limit \<Longrightarrow> parse_digits limit 0 (show_nat n) = Some n"
proof (induction n rule: show_nat.induct)
  case (1 n)
  show ?case
  proof (cases "n < 10")
    case True
    then show ?thesis using 1 digit_char_value [of n] by (subst show_nat.simps) simp
  next
    case False
    have "n div 10 < limit" using "1.prems" by (rule le_less_trans [OF div_le_dividend])
    with 1 False have "parse_digits limit 0 (show_nat (n div 10)) = Some (n div 10)" by simp
    then show ?thesis
      using False "1.prems" digit_char_value [of "n mod 10"]
      by (subst show_nat.simps) (simp add: parse_digits_snoc)
  qed
qed

lemma parse_show_u64: "parse_u64 (show_nat (unat w)) = Some w"
proof -
  have "unat w < 2 ^ LENGTH(64)" by (rule unsigned_less)
  then have p: "parse_digits (2 ^ 64) 0 (show_nat (unat w)) = Some (unat w)"
    by (intro parse_show_nat) simp
  obtain c cs where s: "show_nat (unat w) = c # cs"
    using show_nat_digits [of "unat w"] by (cases "show_nat (unat w)") auto
  have "c \<noteq> CHR ''+''" using show_nat_digits [of "unat w"] s by auto
  with p s show ?thesis by (simp add: parse_u64_def)
qed

lemma show_nat_no_dot: "CHR ''.'' \<notin> set (show_nat n)"
  using show_nat_digits [of n] by auto

end
