(* ===== verification/CliUtils.thy ===== *)
theory CliUtils
  imports Fixture Decimal
begin

text \<open>
  \<open>utils.rs\<close>: the errors of the command line tool, the parsing of amounts and of 32-byte hexadecimal
  strings. Amounts are parsed digit by digit; \<open>amount_parsed_exactly\<close> is their complete meaning.
\<close>

datatype cli_error =
    Io | Csv | Sqlx
  | Driver driver_error
  | ParseInt | Bech32 | Address
  | YesNoPromptRejected | ParseHex | InvalidPublicKey | InvalidAmount | HomeDirectoryNotFound
  | Client
  | Custom string
  | Reqwest | Json | DataDirNotFound | DbColumnParse | DbColumnNotFound
  | CoinNotFound bytes32
  | PuzzleHashRecordsNotFound bytes32
  | CoinNotSpent bytes32
  | ConstantsNotSet
  | SlotNotFound string
  | ClvmEval

section \<open>Hexadecimal strings\<close>

text \<open>\<open>hex.replace("0x", "")\<close>: every occurrence goes, from the left.\<close>

fun remove_0x :: "string \<Rightarrow> string" where
  "remove_0x (a # b # s) =
     (if a = CHR ''0'' \<and> b = CHR ''x'' then remove_0x s else a # remove_0x (b # s))"
| "remove_0x s = s"

definition hex_string_to_bytes32 :: "('n, 'z) sdk_scheme \<Rightarrow> string \<Rightarrow> cli_error + bytes32" where
  "hex_string_to_bytes32 sdk hex =
     (case sdk_hex_decode sdk (remove_0x hex) of
        None \<Rightarrow> Inl ParseHex
      | Some bytes \<Rightarrow> if length bytes \<noteq> 32 then Inl ParseHex else Inr (bytes32_new bytes))"

definition hex_string_to_bytes :: "('n, 'z) sdk_scheme \<Rightarrow> string \<Rightarrow> cli_error + u8 list" where
  "hex_string_to_bytes sdk hex = ok_or (sdk_hex_decode sdk (remove_0x hex)) ParseHex"

lemma remove_0x_id: "CHR ''x'' \<notin> set s \<Longrightarrow> remove_0x s = s"
  by (induction s rule: remove_0x.induct) auto

lemma hex_string_roundtrip:
  assumes "hex_codec_ok sdk"
  shows "hex_string_to_bytes32 sdk (hex32 sdk b) = Inr b"
    and "hex_string_to_bytes32 sdk (''0x'' @ hex32 sdk b) = Inr b"
proof -
  have "CHR ''x'' \<notin> set (hex32 sdk b)"
    using assms by (auto simp: hex_codec_ok_def hex_digits_def hex32_def)
  then have "remove_0x (hex32 sdk b) = hex32 sdk b" by (rule remove_0x_id)
  moreover have "sdk_hex_decode sdk (hex32 sdk b) = Some (to_bytes b)"
    by (simp add: hex32_def hex_laws(2) [OF assms])
  ultimately show "hex_string_to_bytes32 sdk (hex32 sdk b) = Inr b"
    and "hex_string_to_bytes32 sdk (''0x'' @ hex32 sdk b) = Inr b"
    by (simp_all add: hex_string_to_bytes32_def)
qed

section \<open>Networks\<close>

definition get_prefix :: "bool \<Rightarrow> string" where
  "get_prefix testnet11 = (if testnet11 then ''txch'' else ''xch'')"

section \<open>Amounts\<close>

text \<open>\<open>format!("{:0<n}", s)\<close>.\<close>

definition pad_zeros :: "nat \<Rightarrow> string \<Rightarrow> string" where
  "pad_zeros n s = s @ replicate (n - length s) (CHR ''0'')"

text \<open>
  Unchecked \<open>u64\<close> arithmetic panics in builds with overflow checks (the \<open>dev\<close> profile) and wraps in
  the others (\<open>release\<close>).
\<close>

definition plain_u64 :: "bool \<Rightarrow> nat \<Rightarrow> u64 outcome" where
  "plain_u64 overflow_checks n =
     (if overflow_checks \<and> 2 ^ 64 \<le> n then Panicked else Returned (word_of_nat n))"

definition mojos_of :: "bool \<Rightarrow> u64 \<Rightarrow> u64 \<Rightarrow> u64 \<Rightarrow> u64 outcome" where
  "mojos_of overflow_checks whole per_whole fractional =
     (case plain_u64 overflow_checks (unat whole * unat per_whole) of
        Panicked \<Rightarrow> Panicked
      | Returned product \<Rightarrow> plain_u64 overflow_checks (unat product + unat fractional))"

definition amount_digits :: "bool \<Rightarrow> nat" where
  "amount_digits is_cat = (if is_cat then 3 else 12)"

definition parse_amount :: "bool \<Rightarrow> string \<Rightarrow> bool \<Rightarrow> (cli_error + u64) outcome" where
  "parse_amount overflow_checks amount_str is_cat =
     (if CHR ''.'' \<notin> set amount_str then Returned (Inl InvalidAmount)
      else case split_once (CHR ''.'') amount_str of
        None \<Rightarrow> Returned (Inl InvalidAmount)
      | Some (whole_text, fractional_text) \<Rightarrow>
          (case parse_u64 whole_text of
             None \<Rightarrow> Returned (Inl InvalidAmount)
           | Some whole \<Rightarrow>
               (case parse_u64 (pad_zeros (amount_digits is_cat) fractional_text) of
                  None \<Rightarrow> Returned (Inl InvalidAmount)
                | Some fractional \<Rightarrow>
                    let fractional_per_whole = (if is_cat then 1000 else 1000000000000)
                    in if fractional_per_whole < fractional then Returned (Inl InvalidAmount)
                       else map_outcome Inr
                              (mojos_of overflow_checks whole fractional_per_whole fractional))))"

text \<open>The value of a string of decimal digits.\<close>

definition digits_value :: "string \<Rightarrow> nat" where
  "digits_value s = foldl (\<lambda>acc c. acc * 10 + (of_char c - 48)) 0 s"

definition all_digits :: "string \<Rightarrow> bool" where
  "all_digits s \<longleftrightarrow> list_all (\<lambda>c. CHR ''0'' \<le> c \<and> c \<le> CHR ''9'') s"

lemma foldl_digits_le: "(n :: nat) \<le> foldl (\<lambda>acc c. acc * 10 + (of_char c - 48)) n s"
proof (induction s arbitrary: n)
  case (Cons c s)
  have "n \<le> n * 10 + (of_char c - 48)" by simp
  also have "\<dots> \<le> foldl (\<lambda>acc c. acc * 10 + (of_char c - 48)) (n * 10 + (of_char c - 48)) s"
    by (rule Cons)
  finally show ?case by simp
qed simp

lemma parse_digits_value:
  assumes "all_digits s"
  shows "parse_digits limit acc s =
    (let v = foldl (\<lambda>acc c. acc * 10 + (of_char c - 48)) acc s
     in if s = [] \<or> v < limit then Some v else None)"
  using assms
proof (induction limit acc s rule: parse_digits.induct)
  case (2 limit acc c cs)
  let ?n = "acc * 10 + (of_char c - 48)"
  have "?n \<le> foldl (\<lambda>acc c. acc * 10 + (of_char c - 48)) ?n cs" by (rule foldl_digits_le)
  with 2 show ?case by (auto simp: all_digits_def digit_value_def Let_def)
qed simp

lemma parse_u64_digits:
  assumes "all_digits s" and "s \<noteq> []"
  shows "parse_u64 s = (if digits_value s < 2 ^ 64 then Some (word_of_nat (digits_value s)) else None)"
proof -
  obtain c cs where s: "s = c # cs" using assms(2) by (cases s) auto
  have "c \<noteq> CHR ''+''" using assms(1) s by (auto simp: all_digits_def)
  with s have "parse_u64 s = map_option word_of_nat (parse_digits (2 ^ 64) 0 s)"
    by (simp add: parse_u64_def del: parse_digits.simps)
  then show ?thesis
    using assms(2) by (simp add: parse_digits_value [OF assms(1)] digits_value_def Let_def)
qed

lemma digits_value_zeros: "digits_value (s @ replicate n (CHR ''0'')) = digits_value s * 10 ^ n"
  by (induction n) (simp_all add: digits_value_def replicate_append_same [symmetric] flip: append_assoc)

lemma all_digits_pad: "all_digits s \<Longrightarrow> all_digits (pad_zeros n s)"
  by (auto simp: all_digits_def pad_zeros_def list_all_iff)

lemma unat_u64_of_nat: "n < 2 ^ 64 \<Longrightarrow> unat (word_of_nat n :: u64) = n"
  by (simp add: unat_of_nat)

lemma mojos_of_eq:
  "mojos_of checks w p f =
    (if checks \<and> 2 ^ 64 \<le> unat w * unat p + unat f then Panicked
     else Returned (word_of_nat (unat w * unat p + unat f)))"
proof (cases "unat w * unat p < 2 ^ 64")
  case True
  then have "unat (word_of_nat (unat w * unat p) :: u64) = unat w * unat p"
    by (rule unat_u64_of_nat)
  with True show ?thesis by (simp add: mojos_of_def plain_u64_def del: of_nat_mult)
next
  case False
  have "word_of_nat (unat (word_of_nat (unat w * unat p) :: u64) + unat f) =
      (word_of_nat (unat w * unat p + unat f) :: u64)"
    by simp
  with False show ?thesis by (simp add: mojos_of_def plain_u64_def del: of_nat_mult)
qed

lemma zero_amount: "parse_amount True ''0.0'' False = Returned (Inr 0)"
proof -
  have "all_digits ''0''" by (simp add: all_digits_def)
  moreover have "digits_value ''0'' = 0" by (simp add: digits_value_def)
  moreover have "pad_zeros 12 ''0'' \<noteq> []" by (simp add: pad_zeros_def)
  moreover have "digits_value (pad_zeros 12 ''0'') = digits_value ''0'' * 10 ^ (12 - length ''0'')"
    unfolding pad_zeros_def by (rule digits_value_zeros)
  ultimately have "parse_u64 ''0'' = Some 0" and "parse_u64 (pad_zeros 12 ''0'') = Some 0"
    using parse_u64_digits [of "''0''"] parse_u64_digits [OF all_digits_pad, of "''0''" 12] by simp_all
  then show ?thesis by (simp add: parse_amount_def amount_digits_def mojos_of_eq)
qed

text \<open>
  C38. What \<open>parse_amount\<close> makes of \<open>whole.fraction\<close>: the fraction is padded with zeros to the unit's digits
  and must not exceed one whole; the amount is then the sum in mojos, and one that does not fit 64 bits
  panics (or wraps in a build without overflow checks). A fraction longer than the unit's digits is
  not rejected and not cut: its digits are counted as mojos, so \<open>1.1000\<close> of a CAT is 2000 mojos and
  not 1100.
\<close>

theorem amount_parsed_exactly:
  assumes "all_digits fraction"
  shows "parse_amount checks (show_nat (unat (whole :: u64)) @ ''.'' @ fraction) is_cat =
    (let d = amount_digits is_cat;
         v = digits_value fraction * 10 ^ (d - length fraction);
         total = unat whole * 10 ^ d + v
     in if 10 ^ d < v then Returned (Inl InvalidAmount)
        else if checks \<and> 2 ^ 64 \<le> total then Panicked
        else Returned (Inr (word_of_nat total)))"
proof -
  define d where "d = amount_digits is_cat"
  define v where "v = digits_value fraction * 10 ^ (d - length fraction)"
  let ?per = "if is_cat then 1000 else 1000000000000 :: u64"
  have split: "split_once (CHR ''.'') (show_nat (unat whole) @ CHR ''.'' # fraction) =
      Some (show_nat (unat whole), fraction)"
    by (rule split_once_append) (rule show_nat_no_dot)
  have per: "unat ?per = 10 ^ d" and "0 < d" and small: "(10 :: nat) ^ d < 2 ^ 64"
    by (simp_all add: d_def amount_digits_def)
  then have "pad_zeros d fraction \<noteq> []" by (cases fraction) (auto simp: pad_zeros_def)
  then have "parse_u64 (pad_zeros d fraction) = (if v < 2 ^ 64 then Some (word_of_nat v) else None)"
    unfolding v_def using parse_u64_digits [OF all_digits_pad [OF assms]]
    by (simp add: pad_zeros_def digits_value_zeros)
  then have parsed: "parse_amount checks (show_nat (unat whole) @ ''.'' @ fraction) is_cat =
      (if v < 2 ^ 64
       then if ?per < word_of_nat v then Returned (Inl InvalidAmount)
            else map_outcome Inr (mojos_of checks whole ?per (word_of_nat v))
       else Returned (Inl InvalidAmount))"
    by (simp add: parse_amount_def split parse_show_u64 d_def [symmetric] Let_def)
  show ?thesis
  proof (cases "v < 2 ^ 64")
    case True
    then have v: "unat (word_of_nat v :: u64) = v" by (rule unat_u64_of_nat)
    then have "?per < word_of_nat v \<longleftrightarrow> 10 ^ d < v" by (simp only: word_less_nat_alt per)
    then show ?thesis
      unfolding parsed d_def [symmetric] v_def [symmetric] Let_def mojos_of_eq per v using True by simp
  next
    case False
    with small have "10 ^ d < v" by linarith
    with False show ?thesis
      unfolding parsed d_def [symmetric] v_def [symmetric] Let_def by simp
  qed
qed

lemma amount_parsed_exactly_witness:
  "parse_amount True ''1.1000'' True = Returned (Inr 2000)"
proof -
  have "all_digits ''1000''" by (simp add: all_digits_def)
  from amount_parsed_exactly [OF this, of True 1 True] show ?thesis
    by (simp add: show_nat.simps digit_char_def amount_digits_def digits_value_def Let_def)
qed

end
