(* ===== verification/Database.thy ===== *)
theory Database
  imports CliUtils "HOL-Library.List_Lexorder"
begin

text \<open>
  \<open>database.rs\<close>: the SQLite file as tables. A BLOB column holds the bytes it was bound to, an INTEGER
  column the bits of the \<open>i64\<close>; a table with a primary key is a map from the key columns to the others,
  and rows are read in the order they were inserted, the order SQLite's row ids give them. What SQL
  itself says is modelled: the WHERE clauses, the conflict clauses, ORDER BY and LIMIT. A query fails
  with \<open>CliError::Sqlx\<close> when \<open>db_failing\<close> is set (the pool could not run it), and never otherwise.

  Slot values and constants travel through CLVM serialization, which is the library's: \<open>slot_codec\<close>
  and \<open>clvm_codec\<close> are parameters.
\<close>

type_synonym blob = "u8 list"
type_synonym i64 = "64 word"

definition column_to_bytes32 :: "blob \<Rightarrow> cli_error + bytes32" where
  "column_to_bytes32 column_value =
     (if length column_value = 32 then Inr (bytes32_new column_value) else Inl DbColumnParse)"

lemma column_to_bytes32_to_bytes [simp]: "column_to_bytes32 (to_bytes b) = Inr b"
  by (simp add: column_to_bytes32_def)

lemma to_bytes_inject [simp]: "to_bytes a = to_bytes b \<longleftrightarrow> a = b"
  by (metis bytes32_roundtrip)

section \<open>Slots and their rows\<close>

record lineage_proof =
  lp_parent_parent_coin_info :: bytes32
  lp_parent_inner_puzzle_hash :: bytes32
  lp_parent_amount :: u64

record 'v slot =
  slot_coin :: coin
  slot_proof :: lineage_proof
  slot_launcher_id :: bytes32
  slot_nonce :: u64
  slot_value :: 'v
  slot_value_hash :: bytes32

text \<open>
  \<open>Slot::new\<close> and \<open>SlotInfo::from_value\<close> derive the coin and the value hash; \<open>sc_nonce\<close> is the slot
  kind's nonce (\<open>XchandlesSlotNonce::HANDLE\<close> for handle slots).
\<close>

record 'v slot_codec =
  sc_to_bytes :: "'v \<Rightarrow> cli_error + blob"
  sc_from_bytes :: "blob \<Rightarrow> cli_error + 'v"
  sc_tree_hash :: "'v \<Rightarrow> bytes32"
  sc_coin :: "lineage_proof \<Rightarrow> bytes32 \<Rightarrow> u64 \<Rightarrow> bytes32 \<Rightarrow> coin"
  sc_nonce :: u64

definition slot_new :: "'v slot_codec \<Rightarrow> lineage_proof \<Rightarrow> bytes32 \<Rightarrow> u64 \<Rightarrow> 'v \<Rightarrow> 'v slot" where
  "slot_new codec proof launcher_id nonce val =
     \<lparr>slot_coin = sc_coin codec proof launcher_id nonce (sc_tree_hash codec val),
      slot_proof = proof, slot_launcher_id = launcher_id, slot_nonce = nonce, slot_value = val,
      slot_value_hash = sc_tree_hash codec val\<rparr>"

text \<open>What the code relies on of the codec.\<close>

definition slot_codec_ok :: "'v slot_codec \<Rightarrow> bool" where
  "slot_codec_ok codec \<longleftrightarrow>
     (\<forall>val bytes. sc_to_bytes codec val = Inr bytes \<longrightarrow> sc_from_bytes codec bytes = Inr val)"

record slot_row =
  sl_singleton_launcher_id :: blob
  sl_nonce :: i64
  sl_slot_value_hash :: blob
  sl_spent_block_height :: u32
  sl_slot_value :: blob
  sl_parent_parent_coin_info :: blob
  sl_parent_inner_puzzle_hash :: blob
  sl_parent_amount :: i64

record singleton_coin_row =
  sc_launcher_id :: blob
  sc_coin_id :: blob
  sc_parent_coin_id :: blob
  sc_spent_block_height :: u32

record db =
  db_slots :: "slot_row list"
  db_catalog_indexed :: "(blob, blob) hash_map"
  db_xchandles_indexed :: "(blob \<times> blob, blob) hash_map"
  db_singleton_coins :: "singleton_coin_row list"
  db_reward_distributor_configurations :: "(blob, blob) hash_map"
  db_xchandles_configurations :: "(blob, blob) hash_map"
  db_followed_singletons :: "(blob, string) hash_map"
  db_handle_slot_records :: "(blob \<times> blob, string \<times> i64) hash_map"
  db_registration_records :: "(blob \<times> blob, string) hash_map"
  db_registration_registry_stats :: "(blob, string) hash_map"
  db_pending_update_records :: "(blob \<times> blob, string) hash_map"
  db_failing :: bool

text \<open>The tables \<open>CREATE TABLE IF NOT EXISTS\<close> makes in a new file.\<close>

definition db_new :: db where
  "db_new =
     \<lparr>db_slots = [], db_catalog_indexed = [], db_xchandles_indexed = [], db_singleton_coins = [],
      db_reward_distributor_configurations = [], db_xchandles_configurations = [],
      db_followed_singletons = [], db_handle_slot_records = [], db_registration_records = [],
      db_registration_registry_stats = [], db_pending_update_records = [], db_failing = False\<rparr>"

definition db_query :: "db \<Rightarrow> 'a \<Rightarrow> cli_error + 'a" where
  "db_query db answer = (if db_failing db then Inl Sqlx else Inr answer)"

lemma db_query_Inr [result_simps]: "db_query db a = Inr b \<longleftrightarrow> \<not> db_failing db \<and> b = a"
  by (auto simp: db_query_def)

lemma db_query_online [simp]: "\<not> db_failing db \<Longrightarrow> db_query db a = Inr a"
  by (simp add: db_query_def)

text \<open>\<open>rows.map(f).collect::<Result<Vec<_>, _>>()\<close> stops at the first error.\<close>

fun collect_results :: "('a \<Rightarrow> 'e + 'b) \<Rightarrow> 'a list \<Rightarrow> 'e + 'b list" where
  "collect_results f [] = Inr []"
| "collect_results f (x # xs) =
     try_result (f x) (\<lambda>y. try_result (collect_results f xs) (\<lambda>ys. Inr (y # ys)))"

lemma collect_results_all: "(\<And>x. x \<in> set xs \<Longrightarrow> f x = Inr (g x)) \<Longrightarrow> collect_results f xs = Inr (map g xs)"
  by (induction xs) auto

lemma collect_results_append:
  "collect_results f (xs @ ys) =
     try_result (collect_results f xs) (\<lambda>a. try_result (collect_results f ys) (\<lambda>b. Inr (a @ b)))"
proof (induction xs)
  case Nil
  then show ?case by (cases "collect_results f ys") auto
next
  case (Cons x xs)
  then show ?case by (cases "f x"; cases "collect_results f xs"; cases "collect_results f ys") auto
qed

section \<open>The slots table\<close>

definition same_slot_key :: "slot_row \<Rightarrow> slot_row \<Rightarrow> bool" where
  "same_slot_key a b \<longleftrightarrow>
     sl_singleton_launcher_id a = sl_singleton_launcher_id b \<and> sl_nonce a = sl_nonce b \<and>
     sl_slot_value_hash a = sl_slot_value_hash b \<and>
     sl_parent_parent_coin_info a = sl_parent_parent_coin_info b \<and>
     sl_parent_amount a = sl_parent_amount b"

fun insert_slot_row :: "slot_row \<Rightarrow> slot_row list \<Rightarrow> slot_row list" where
  "insert_slot_row row [] = [row]"
| "insert_slot_row row (r # rs) =
     (if same_slot_key r row then r\<lparr>sl_spent_block_height := sl_spent_block_height row\<rparr> # rs
      else r # insert_slot_row row rs)"

definition slot_to_row :: "'v slot \<Rightarrow> blob \<Rightarrow> u32 \<Rightarrow> slot_row" where
  "slot_to_row slot slot_value_bytes spent_block_height =
     \<lparr>sl_singleton_launcher_id = to_bytes (slot_launcher_id slot),
      sl_nonce = slot_nonce slot,
      sl_slot_value_hash = to_bytes (slot_value_hash slot),
      sl_spent_block_height = spent_block_height,
      sl_slot_value = slot_value_bytes,
      sl_parent_parent_coin_info = to_bytes (lp_parent_parent_coin_info (slot_proof slot)),
      sl_parent_inner_puzzle_hash = to_bytes (lp_parent_inner_puzzle_hash (slot_proof slot)),
      sl_parent_amount = lp_parent_amount (slot_proof slot)\<rparr>"

definition save_slot :: "'v slot_codec \<Rightarrow> 'v slot \<Rightarrow> u32 \<Rightarrow> db \<Rightarrow> cli_error + db" where
  "save_slot codec slot spent_block_height db =
     try_result (sc_to_bytes codec (slot_value slot)) (\<lambda>slot_value_bytes.
       db_query db (db\<lparr>db_slots :=
         insert_slot_row (slot_to_row slot slot_value_bytes spent_block_height) (db_slots db)\<rparr>))"

definition row_to_slot :: "'v slot_codec \<Rightarrow> slot_row \<Rightarrow> cli_error + 'v slot" where
  "row_to_slot codec row =
     try_result (column_to_bytes32 (sl_singleton_launcher_id row)) (\<lambda>launcher_id.
     try_result (column_to_bytes32 (sl_parent_parent_coin_info row)) (\<lambda>parent_parent_coin_info.
     try_result (column_to_bytes32 (sl_parent_inner_puzzle_hash row)) (\<lambda>parent_inner_puzzle_hash.
     try_result (sc_from_bytes codec (sl_slot_value row)) (\<lambda>val.
       Inr (slot_new codec
              \<lparr>lp_parent_parent_coin_info = parent_parent_coin_info,
               lp_parent_inner_puzzle_hash = parent_inner_puzzle_hash,
               lp_parent_amount = sl_parent_amount row\<rparr>
              launcher_id (sl_nonce row) val)))))"

definition slot_key_matches :: "bytes32 \<Rightarrow> u64 \<Rightarrow> bytes32 \<Rightarrow> slot_row \<Rightarrow> bool" where
  "slot_key_matches launcher_id nonce value_hash row \<longleftrightarrow>
     sl_singleton_launcher_id row = to_bytes launcher_id \<and> sl_nonce row = nonce \<and>
     sl_slot_value_hash row = to_bytes value_hash"

definition optional_slot :: "'v slot_codec \<Rightarrow> slot_row option \<Rightarrow> cli_error + 'v slot option" where
  "optional_slot codec row =
     (case row of
        None \<Rightarrow> Inr None
      | Some row \<Rightarrow> try_result (row_to_slot codec row) (\<lambda>slot. Inr (Some slot)))"

definition get_slot ::
  "'v slot_codec \<Rightarrow> bytes32 \<Rightarrow> u64 \<Rightarrow> bytes32 \<Rightarrow> u32 \<Rightarrow> db \<Rightarrow> cli_error + 'v slot option"
where
  "get_slot codec launcher_id nonce value_hash spent_block_height db =
     try_result
       (db_query db (find (\<lambda>row. slot_key_matches launcher_id nonce value_hash row \<and>
                                 sl_spent_block_height row = spent_block_height) (db_slots db)))
       (optional_slot codec)"

definition get_slot_value ::
  "'v slot_codec \<Rightarrow> bytes32 \<Rightarrow> u64 \<Rightarrow> bytes32 \<Rightarrow> db \<Rightarrow> cli_error + 'v option"
where
  "get_slot_value codec launcher_id nonce value_hash db =
     try_result (db_query db (find (slot_key_matches launcher_id nonce value_hash) (db_slots db)))
       (\<lambda>row. try_result (optional_slot codec row) (\<lambda>slot. Inr (map_option slot_value slot)))"

definition get_slots :: "'v slot_codec \<Rightarrow> bytes32 \<Rightarrow> u64 \<Rightarrow> u32 \<Rightarrow> db \<Rightarrow> cli_error + 'v slot list" where
  "get_slots codec launcher_id nonce spent_block_height db =
     try_result
       (db_query db (filter (\<lambda>row. sl_singleton_launcher_id row = to_bytes launcher_id \<and>
                                   sl_nonce row = nonce \<and>
                                   sl_spent_block_height row = spent_block_height) (db_slots db)))
       (collect_results (row_to_slot codec))"

definition mark_slot_as_spent :: "bytes32 \<Rightarrow> u64 \<Rightarrow> bytes32 \<Rightarrow> u32 \<Rightarrow> db \<Rightarrow> cli_error + db" where
  "mark_slot_as_spent launcher_id nonce value_hash spent_block_height db =
     db_query db (db\<lparr>db_slots :=
       map (\<lambda>row. if slot_key_matches launcher_id nonce value_hash row \<and> sl_spent_block_height row = 0
                  then row\<lparr>sl_spent_block_height := spent_block_height\<rparr> else row) (db_slots db)\<rparr>)"

definition delete_all_slots_for_singleton :: "bytes32 \<Rightarrow> db \<Rightarrow> cli_error + db" where
  "delete_all_slots_for_singleton launcher_id db =
     db_query db (db\<lparr>db_slots :=
       filter (\<lambda>row. sl_singleton_launcher_id row \<noteq> to_bytes launcher_id) (db_slots db)\<rparr>)"

definition delete_slots_spent_before :: "u32 \<Rightarrow> db \<Rightarrow> cli_error + db" where
  "delete_slots_spent_before threshold db =
     db_query db (db\<lparr>db_slots :=
       filter (\<lambda>row. \<not> (0 < sl_spent_block_height row \<and> sl_spent_block_height row < threshold))
         (db_slots db)\<rparr>)"

section \<open>The indexes from assets and handles to slot values\<close>

definition save_catalog_indexed_slot_value :: "bytes32 \<Rightarrow> bytes32 \<Rightarrow> db \<Rightarrow> cli_error + db" where
  "save_catalog_indexed_slot_value asset_id value_hash db =
     db_query db (db\<lparr>db_catalog_indexed :=
       hm_insert (to_bytes asset_id) (to_bytes value_hash) (db_catalog_indexed db)\<rparr>)"

definition save_xchandles_indexed_slot_value :: "bytes32 \<Rightarrow> bytes32 \<Rightarrow> bytes32 \<Rightarrow> db \<Rightarrow> cli_error + db" where
  "save_xchandles_indexed_slot_value launcher_id handle_hash value_hash db =
     db_query db (db\<lparr>db_xchandles_indexed :=
       hm_insert (to_bytes launcher_id, to_bytes handle_hash) (to_bytes value_hash)
         (db_xchandles_indexed db)\<rparr>)"

definition optional_bytes32 :: "blob option \<Rightarrow> cli_error + bytes32 option" where
  "optional_bytes32 row =
     (case row of
        None \<Rightarrow> Inr None
      | Some column \<Rightarrow> try_result (column_to_bytes32 column) (\<lambda>b. Inr (Some b)))"

definition get_catalog_indexed_slot_value :: "bytes32 \<Rightarrow> db \<Rightarrow> cli_error + bytes32 option" where
  "get_catalog_indexed_slot_value asset_id db =
     try_result (db_query db (hm_get (db_catalog_indexed db) (to_bytes asset_id))) optional_bytes32"

definition get_xchandles_indexed_slot_value :: "bytes32 \<Rightarrow> bytes32 \<Rightarrow> db \<Rightarrow> cli_error + bytes32 option" where
  "get_xchandles_indexed_slot_value launcher_id handle_hash db =
     try_result (db_query db (hm_get (db_xchandles_indexed db) (to_bytes launcher_id, to_bytes handle_hash)))
       optional_bytes32"

definition list_xchandles_indexed_slots :: "bytes32 \<Rightarrow> db \<Rightarrow> cli_error + (bytes32 \<times> bytes32) list" where
  "list_xchandles_indexed_slots launcher_id db =
     try_result (db_query db (filter (\<lambda>((l, _), _). l = to_bytes launcher_id) (db_xchandles_indexed db)))
       (collect_results (\<lambda>((_, handle_hash), value_hash).
          try_result (column_to_bytes32 handle_hash) (\<lambda>h.
          try_result (column_to_bytes32 value_hash) (\<lambda>v. Inr (h, v)))))"

definition delete_all_catalog_indexed_slot_values :: "db \<Rightarrow> cli_error + db" where
  "delete_all_catalog_indexed_slot_values db = db_query db (db\<lparr>db_catalog_indexed := []\<rparr>)"

definition delete_all_xchandles_indexed_slot_values :: "bytes32 \<Rightarrow> db \<Rightarrow> cli_error + db" where
  "delete_all_xchandles_indexed_slot_values launcher_id db =
     db_query db (db\<lparr>db_xchandles_indexed :=
       filter (\<lambda>((l, _), _). l \<noteq> to_bytes launcher_id) (db_xchandles_indexed db)\<rparr>)"

section \<open>Neighbours\<close>

text \<open>
  \<open>ORDER BY key DESC LIMIT 1\<close> over the keys below, \<open>ORDER BY key ASC LIMIT 1\<close> over the keys above.
  BLOBs compare like \<open>memcmp\<close>, which is the lexicographic order of the bytes.
\<close>

definition indexed_before :: "(blob \<times> blob) list \<Rightarrow> blob \<Rightarrow> blob option" where
  "indexed_before index key =
     map_option snd (last_opt (sort_key fst (filter (\<lambda>row. fst row < key) index)))"

definition indexed_after :: "(blob \<times> blob) list \<Rightarrow> blob \<Rightarrow> blob option" where
  "indexed_after index key =
     (case sort_key fst (filter (\<lambda>row. key < fst row) index) of [] \<Rightarrow> None | row # _ \<Rightarrow> Some (snd row))"

definition unspent_rows :: "bytes32 \<Rightarrow> u64 \<Rightarrow> blob option \<Rightarrow> db \<Rightarrow> slot_row list" where
  "unspent_rows launcher_id nonce value_hash db =
     filter (\<lambda>row. sl_singleton_launcher_id row = to_bytes launcher_id \<and> sl_nonce row = nonce \<and>
                  sl_spent_block_height row = 0 \<and> Some (sl_slot_value_hash row) = value_hash) (db_slots db)"

text \<open>What both neighbour queries do with the rows of the two sides.\<close>

definition neighbour_slots ::
  "'v slot_codec \<Rightarrow> slot_row list \<Rightarrow> slot_row list \<Rightarrow> cli_error + 'v slot \<times> 'v slot"
where
  "neighbour_slots codec left_rows right_rows =
     try_result (collect_results (row_to_slot codec) left_rows) (\<lambda>left_slots.
     try_result (collect_results (row_to_slot codec) right_rows) (\<lambda>right_slots.
       if left_slots = [] \<or> right_slots = [] then Inl DbColumnNotFound
       else Inr (hd left_slots, hd right_slots)))"

definition get_catalog_neighbors ::
  "'v slot_codec \<Rightarrow> bytes32 \<Rightarrow> bytes32 \<Rightarrow> db \<Rightarrow> cli_error + 'v slot \<times> 'v slot"
where
  "get_catalog_neighbors codec launcher_id asset_id db =
     try_result
       (db_query db
          (unspent_rows launcher_id 0 (indexed_before (db_catalog_indexed db) (to_bytes asset_id)) db,
           unspent_rows launcher_id 0 (indexed_after (db_catalog_indexed db) (to_bytes asset_id)) db))
       (\<lambda>(left_rows, right_rows). neighbour_slots codec left_rows right_rows)"

definition handle_index :: "bytes32 \<Rightarrow> db \<Rightarrow> (blob \<times> blob) list" where
  "handle_index launcher_id db =
     map (\<lambda>((_, handle_hash), value_hash). (handle_hash, value_hash))
       (filter (\<lambda>((l, _), _). l = to_bytes launcher_id) (db_xchandles_indexed db))"

definition get_xchandles_neighbors ::
  "'v slot_codec \<Rightarrow> bytes32 \<Rightarrow> bytes32 \<Rightarrow> db \<Rightarrow> cli_error + 'v slot \<times> 'v slot"
where
  "get_xchandles_neighbors codec launcher_id handle_hash db =
     try_result
       (db_query db
          (unspent_rows launcher_id (sc_nonce codec)
             (indexed_before (handle_index launcher_id db) (to_bytes handle_hash)) db,
           unspent_rows launcher_id (sc_nonce codec)
             (indexed_after (handle_index launcher_id db) (to_bytes handle_hash)) db))
       (\<lambda>(left_rows, right_rows). neighbour_slots codec left_rows right_rows)"

section \<open>Singleton coins\<close>

record coin_record =
  cr_coin :: coin
  cr_confirmed_block_index :: u32
  cr_spent_block_index :: u32
  cr_spent :: bool

definition delete_all_singleton_coins :: "bytes32 \<Rightarrow> db \<Rightarrow> cli_error + db" where
  "delete_all_singleton_coins launcher_id db =
     db_query db (db\<lparr>db_singleton_coins :=
       filter (\<lambda>row. sc_launcher_id row \<noteq> to_bytes launcher_id) (db_singleton_coins db)\<rparr>)"

definition delete_singleton_coins_spent_before :: "u32 \<Rightarrow> db \<Rightarrow> cli_error + db" where
  "delete_singleton_coins_spent_before threshold db =
     db_query db (db\<lparr>db_singleton_coins :=
       filter (\<lambda>row. \<not> (0 < sc_spent_block_height row \<and> sc_spent_block_height row < threshold))
         (db_singleton_coins db)\<rparr>)"

text \<open>The UPDATE marks the parent spent, the INSERT adds the coin unless its id is already there.\<close>

definition spend_parent_row :: "coin_record \<Rightarrow> singleton_coin_row \<Rightarrow> singleton_coin_row" where
  "spend_parent_row coin_record row =
     (if sc_coin_id row = to_bytes (parent_coin_info (cr_coin coin_record)) \<and> sc_spent_block_height row = 0
      then row\<lparr>sc_spent_block_height := cr_confirmed_block_index coin_record\<rparr> else row)"

definition coin_to_row :: "('n, 'z) sdk_scheme \<Rightarrow> bytes32 \<Rightarrow> coin_record \<Rightarrow> singleton_coin_row" where
  "coin_to_row sdk launcher_id coin_record =
     \<lparr>sc_launcher_id = to_bytes launcher_id,
      sc_coin_id = to_bytes (sdk_coin_id sdk (cr_coin coin_record)),
      sc_parent_coin_id = to_bytes (parent_coin_info (cr_coin coin_record)),
      sc_spent_block_height = cr_spent_block_index coin_record\<rparr>"

definition save_singleton_coin ::
  "('n, 'z) sdk_scheme \<Rightarrow> bytes32 \<Rightarrow> coin_record \<Rightarrow> db \<Rightarrow> cli_error + db"
where
  "save_singleton_coin sdk launcher_id coin_record db =
     (let updated = map (spend_parent_row coin_record) (db_singleton_coins db);
          new_row = coin_to_row sdk launcher_id coin_record
      in db_query db (db\<lparr>db_singleton_coins :=
           (if sc_coin_id new_row \<in> set (map sc_coin_id updated) then updated else updated @ [new_row])\<rparr>))"

definition get_last_unspent_singleton_coin ::
  "bytes32 \<Rightarrow> db \<Rightarrow> cli_error + (bytes32 \<times> bytes32) option"
where
  "get_last_unspent_singleton_coin launcher_id db =
     try_result
       (db_query db (find (\<lambda>row. sc_launcher_id row = to_bytes launcher_id \<and> sc_spent_block_height row = 0)
                       (db_singleton_coins db)))
       (\<lambda>row. case row of
          None \<Rightarrow> Inr None
        | Some row \<Rightarrow>
            try_result (column_to_bytes32 (sc_coin_id row)) (\<lambda>coin_id.
            try_result (column_to_bytes32 (sc_parent_coin_id row)) (\<lambda>parent_coin_id.
              Inr (Some (coin_id, parent_coin_id)))))"

section \<open>Configurations\<close>

record 'c clvm_codec =
  cc_to_bytes :: "'c \<Rightarrow> cli_error + blob"
  cc_from_bytes :: "blob \<Rightarrow> cli_error + 'c"

definition save_reward_distributor_configuration ::
  "'c clvm_codec \<Rightarrow> bytes32 \<Rightarrow> 'c \<Rightarrow> db \<Rightarrow> cli_error + db"
where
  "save_reward_distributor_configuration codec launcher_id constants db =
     try_result (cc_to_bytes codec constants) (\<lambda>constants_bytes.
       db_query db (db\<lparr>db_reward_distributor_configurations :=
         hm_insert (to_bytes launcher_id) constants_bytes (db_reward_distributor_configurations db)\<rparr>))"

text \<open>The launcher id is a field of \<open>XchandlesConstants\<close>, read by \<open>launcher_of\<close>.\<close>

definition save_xchandles_configuration ::
  "'c clvm_codec \<Rightarrow> ('c \<Rightarrow> bytes32) \<Rightarrow> 'c \<Rightarrow> db \<Rightarrow> cli_error + db"
where
  "save_xchandles_configuration codec launcher_of constants db =
     try_result (cc_to_bytes codec constants) (\<lambda>constants_bytes.
       db_query db (db\<lparr>db_xchandles_configurations :=
         hm_insert (to_bytes (launcher_of constants)) constants_bytes (db_xchandles_configurations db)\<rparr>))"

definition optional_constants :: "'c clvm_codec \<Rightarrow> blob option \<Rightarrow> cli_error + 'c option" where
  "optional_constants codec row =
     (case row of
        None \<Rightarrow> Inr None
      | Some bytes \<Rightarrow> try_result (cc_from_bytes codec bytes) (\<lambda>constants. Inr (Some constants)))"

definition get_reward_distributor_configuration ::
  "'c clvm_codec \<Rightarrow> bytes32 \<Rightarrow> db \<Rightarrow> cli_error + 'c option"
where
  "get_reward_distributor_configuration codec launcher_id db =
     try_result (db_query db (hm_get (db_reward_distributor_configurations db) (to_bytes launcher_id)))
       (optional_constants codec)"

definition get_xchandles_configuration :: "'c clvm_codec \<Rightarrow> bytes32 \<Rightarrow> db \<Rightarrow> cli_error + 'c option" where
  "get_xchandles_configuration codec launcher_id db =
     try_result (db_query db (hm_get (db_xchandles_configurations db) (to_bytes launcher_id)))
       (optional_constants codec)"

end
