(* ===== verification/Coinset.thy ===== *)
theory Coinset
  imports Database
begin

text \<open>
  The remote full node (\<open>CoinsetClient\<close>) as the functions the sources call, and the walks over it of
  \<open>utils.rs\<close>. The node is a parameter: one value of \<open>client\<close> is what it answers during the run of one
  operation. The queries by hint, by puzzle hashes and by names have their \<open>include_spent\<close> fixed as
  the sources fix it; by one puzzle hash it is an argument.
\<close>

record block_record =
  br_header_hash :: bytes32
  br_prev_hash :: bytes32
  br_timestamp :: "u64 option"

record blockchain_peak =
  bp_height :: u32
  bp_timestamp :: "u64 option"

record client =
  cl_coin_record_by_name :: "bytes32 \<Rightarrow> cli_error + coin_record option"
  cl_coin_records_by_names :: "bytes32 list \<Rightarrow> cli_error + coin_record list option"
  cl_unspent_records_by_names :: "bytes32 list \<Rightarrow> cli_error + coin_record list option"
  cl_coin_records_by_hint :: "bytes32 \<Rightarrow> cli_error + coin_record list option"
  cl_all_records_by_hint :: "bytes32 \<Rightarrow> cli_error + coin_record list option"
  cl_coin_records_by_puzzle_hash :: "bytes32 \<Rightarrow> bool \<Rightarrow> cli_error + coin_record list option"
  cl_coin_records_by_puzzle_hashes :: "bytes32 list \<Rightarrow> cli_error + coin_record list option"
  cl_puzzle_and_solution :: "bytes32 \<Rightarrow> u32 option \<Rightarrow> cli_error + coin_spend option"
  cl_mempool_items :: "bytes32 \<Rightarrow> cli_error + coin_spend list list option"
  cl_blockchain_state :: "cli_error + blockchain_peak option"
  cl_block_record :: "u32 \<Rightarrow> cli_error + block_record option"
  cl_block_spends :: "bytes32 \<Rightarrow> cli_error + coin_spend list option"

text \<open>\<open>client.f().await?.field.ok_or(e)?\<close>\<close>

definition required :: "cli_error + 'a option \<Rightarrow> cli_error \<Rightarrow> cli_error + 'a" where
  "required answer e = try_result answer (\<lambda>found. ok_or found e)"

lemma required_Inr [result_simps]: "required answer e = Inr x \<longleftrightarrow> answer = Inr (Some x)"
  by (cases answer) (auto simp: required_def result_simps)

section \<open>The last on-chain timestamp\<close>

text \<open>
  The loop goes down one block at a time and stops at the first timestamp or at a block that cannot be
  fetched. \<open>height -= 1\<close> below 0 panics with overflow checks; without them it wraps to the largest
  height, which only a missing record ends, so the loop may not end.
\<close>

partial_function (option) last_timestamp_from ::
  "bool \<Rightarrow> client \<Rightarrow> u32 \<Rightarrow> (cli_error + u64) outcome option"
where
  "last_timestamp_from overflow_checks client height =
     (case required (cl_block_record client height) (Custom ''Could not fetch block record'') of
        Inl e \<Rightarrow> Some (Returned (Inl e))
      | Inr block \<Rightarrow>
          (case br_timestamp block of
             Some t \<Rightarrow> Some (Returned (Inr t))
           | None \<Rightarrow>
               if overflow_checks \<and> height = 0 then Some Panicked
               else last_timestamp_from overflow_checks client (height - 1)))"

definition get_last_onchain_timestamp :: "bool \<Rightarrow> client \<Rightarrow> (cli_error + u64) outcome option" where
  "get_last_onchain_timestamp overflow_checks client =
     (case required (cl_blockchain_state client) (Custom ''Could not fetch blockchain state'') of
        Inl e \<Rightarrow> Some (Returned (Inl e))
      | Inr peak \<Rightarrow>
          (case bp_timestamp peak of
             Some t \<Rightarrow> Some (Returned (Inr t))
           | None \<Rightarrow>
               if overflow_checks \<and> bp_height peak = 0 then Some Panicked
               else last_timestamp_from overflow_checks client (bp_height peak - 1)))"

lemma last_timestamp_found:
  assumes "cl_block_record client (word_of_nat k) = Inr (Some block)" and "br_timestamp block = Some t"
    and "\<And>j. k < j \<Longrightarrow> j \<le> n \<Longrightarrow>
      \<exists>b. cl_block_record client (word_of_nat j) = Inr (Some b) \<and> br_timestamp b = None"
    and "k \<le> n" and "n < 2 ^ 32"
  shows "last_timestamp_from checks client (word_of_nat n) = Some (Returned (Inr t))"
  using assms(3-5)
proof (induction n)
  case 0
  with assms(1,2) show ?case by (subst last_timestamp_from.simps) (simp add: required_def)
next
  case (Suc n)
  show ?case
  proof (cases "k = Suc n")
    case True
    with assms(1,2) show ?thesis by (subst last_timestamp_from.simps) (simp add: required_def)
  next
    case False
    with Suc.prems obtain b where b: "cl_block_record client (word_of_nat (Suc n)) = Inr (Some b)"
        "br_timestamp b = None"
      by (metis le_neq_implies_less order_refl)
    have "unat (word_of_nat (Suc n) :: u32) = Suc n"
      using Suc.prems(3) by (simp add: unat_of_nat del: of_nat_Suc)
    then have nz: "(word_of_nat (Suc n) :: u32) \<noteq> 0" by auto
    have "last_timestamp_from checks client (word_of_nat n) = Some (Returned (Inr t))"
      using False Suc by simp
    then show ?thesis
      using b nz by (subst last_timestamp_from.simps) (simp add: required_def)
  qed
qed

end
