(* ===== verification/XchSync.thy ===== *)
theory XchSync
  imports Coinset
begin

text \<open>
  \<open>xchandles/sync.rs\<close>: walking a registry from its saved tip (or from its launcher) to the unspent tip,
  saving coins and slots on the way and collecting the action logs of every spend. Parsing a spend into
  a registry is the SDK's: \<open>registry_sdk\<close> is a parameter, and \<open>registry\<close> has the fields the sources
  read. An operation on the database returns its result with the database it leaves, also when it fails
  half-way.
\<close>

record 'c registry =
  rg_coin :: coin
  rg_constants :: 'c
  rg_pricing_puzzle_hash :: bytes32
  rg_created_handle_slots :: "handle_slot_value list"
  rg_spent_handle_slots :: "handle_slot_value list"
  rg_created_update_slots :: "update_slot_value list"
  rg_logs :: "action_log list"

record 'c registry_sdk =
  xs_launcher_id :: "'c \<Rightarrow> bytes32"
  xs_from_parent_spend :: "coin_spend \<Rightarrow> 'c \<Rightarrow> driver_error + 'c registry option"
  xs_from_spend :: "coin_spend \<Rightarrow> 'c \<Rightarrow> driver_error + 'c registry option"
  xs_child :: "'c registry \<Rightarrow> 'c registry"
  xs_created_slot :: "'c registry \<Rightarrow> handle_slot_value \<Rightarrow> handle_slot_value slot"
  xs_created_update_slot :: "'c registry \<Rightarrow> update_slot_value \<Rightarrow> update_slot_value slot"
  xs_from_launcher_solution ::
    "coin \<Rightarrow> u8 list \<Rightarrow> driver_error + ('c registry \<times> handle_slot_value slot \<times> handle_slot_value slot) option"
  xs_from_mempool_item :: "coin_spend list \<Rightarrow> 'c \<Rightarrow> driver_error + 'c registry option"
  xs_slot_codec :: "handle_slot_value slot_codec"
  xs_constants_codec :: "'c clvm_codec"

record spent_transition =
  xt_height :: u32
  xt_logs :: "action_log list"

record 'c sync_result =
  xr_registry :: "'c registry"
  xr_spent_transitions :: "spent_transition list"

section \<open>Operations on the database\<close>

type_synonym 'a db_result = "(cli_error + 'a) \<times> db"

definition db_then :: "'a db_result \<Rightarrow> ('a \<Rightarrow> db \<Rightarrow> 'b db_result) \<Rightarrow> 'b db_result" where
  "db_then r k = (case r of (Inl e, db) \<Rightarrow> (Inl e, db) | (Inr x, db) \<Rightarrow> k x db)"

definition db_read :: "cli_error + 'a \<Rightarrow> db \<Rightarrow> 'a db_result" where
  "db_read answer db = (answer, db)"

definition db_write :: "(db \<Rightarrow> cli_error + db) \<Rightarrow> db \<Rightarrow> unit db_result" where
  "db_write f db = (case f db of Inl e \<Rightarrow> (Inl e, db) | Inr db' \<Rightarrow> (Inr (), db'))"

fun db_each :: "('a \<Rightarrow> db \<Rightarrow> unit db_result) \<Rightarrow> 'a list \<Rightarrow> db \<Rightarrow> unit db_result" where
  "db_each f [] db = (Inr (), db)"
| "db_each f (x # xs) db = db_then (f x db) (\<lambda>_. db_each f xs)"

lemma db_then_simps [simp]:
  "db_then (Inl e, db) k = (Inl e, db)" "db_then (Inr x, db) k = k x db"
  by (simp_all add: db_then_def)

section \<open>Starting\<close>

definition resume_from_saved_tip :: "(bytes32 \<times> bytes32) option \<Rightarrow> 'c option \<Rightarrow> (bytes32 \<times> 'c) option" where
  "resume_from_saved_tip last_unspent constants =
     (case (last_unspent, constants) of
        (Some (_, parent_coin_id), Some constants) \<Rightarrow> Some (parent_coin_id, constants)
      | _ \<Rightarrow> None)"

definition xchandles_registry_from_launcher ::
  "'c registry_sdk \<Rightarrow> client \<Rightarrow> bytes32
    \<Rightarrow> cli_error + 'c registry \<times> handle_slot_value slot \<times> handle_slot_value slot"
where
  "xchandles_registry_from_launcher xs client launcher_id =
     try_result (required (cl_coin_record_by_name client launcher_id) (CoinNotFound launcher_id))
       (\<lambda>launcher_record.
     try_result (required (cl_puzzle_and_solution client launcher_id (Some (cr_spent_block_index launcher_record)))
                   (CoinNotSpent launcher_id)) (\<lambda>launcher_spend.
       required
         (map_err Driver (xs_from_launcher_solution xs (cr_coin launcher_record) (spend_solution launcher_spend)))
         (CoinNotFound launcher_id)))"

text \<open>The cold start: both initial slots are saved and indexed, the eve coin is not.\<close>

definition save_and_index_slot :: "'c registry_sdk \<Rightarrow> handle_slot_value slot \<Rightarrow> db \<Rightarrow> unit db_result" where
  "save_and_index_slot xs slot db =
     db_then (db_write (save_slot (xs_slot_codec xs) slot 0) db) (\<lambda>_.
       db_write (save_xchandles_indexed_slot_value (slot_launcher_id slot)
         (hv_handle_hash (slot_value slot)) (slot_value_hash slot)))"

definition cold_start ::
  "'c registry_sdk \<Rightarrow> client \<Rightarrow> bytes32 \<Rightarrow> db \<Rightarrow> ('c registry \<times> bool) db_result"
where
  "cold_start xs client launcher_id db =
     db_then (db_read (xchandles_registry_from_launcher xs client launcher_id) db)
       (\<lambda>(registry, left_slot, right_slot) db.
     db_then (save_and_index_slot xs left_slot db) (\<lambda>_ db.
     db_then (save_and_index_slot xs right_slot db) (\<lambda>_ db. (Inr (registry, True), db))))"

definition resume ::
  "'c registry_sdk \<Rightarrow> client \<Rightarrow> bytes32 \<Rightarrow> 'c \<Rightarrow> cli_error + 'c registry \<times> bool"
where
  "resume xs client parent_coin_id constants =
     try_result (required (cl_coin_record_by_name client parent_coin_id) (CoinNotFound parent_coin_id))
       (\<lambda>parent_record.
     try_result (required (cl_puzzle_and_solution client parent_coin_id (Some (cr_spent_block_index parent_record)))
                   (CoinNotSpent parent_coin_id)) (\<lambda>parent_spend.
     try_result (required (map_err Driver (xs_from_parent_spend xs parent_spend constants))
                   (Custom ''Could not parse latest spent CATalog registry'')) (\<lambda>registry.
       Inr (registry, False))))"

section \<open>Walking to the tip\<close>

text \<open>The slots one spend creates are indexed and saved unspent; those it spends are marked.\<close>

definition save_created_slot ::
  "'c registry_sdk \<Rightarrow> 'c registry \<Rightarrow> handle_slot_value \<Rightarrow> db \<Rightarrow> unit db_result"
where
  "save_created_slot xs registry val db =
     db_then (db_write (save_xchandles_indexed_slot_value (xs_launcher_id xs (rg_constants registry))
                (hv_handle_hash val) (sc_tree_hash (xs_slot_codec xs) val)) db) (\<lambda>_.
       db_write (save_slot (xs_slot_codec xs) (xs_created_slot xs registry val) 0))"

definition mark_spent_slot ::
  "'c registry_sdk \<Rightarrow> bytes32 \<Rightarrow> u32 \<Rightarrow> handle_slot_value \<Rightarrow> db \<Rightarrow> unit db_result"
where
  "mark_spent_slot xs launcher_id height val =
     db_write (mark_slot_as_spent launcher_id (sc_nonce (xs_slot_codec xs))
       (sc_tree_hash (xs_slot_codec xs) val) height)"

text \<open>
  One turn of the loop: \<open>Tip\<close> when the coin is unspent, else the child registry and the transition.
\<close>

datatype 'c sync_turn = Tip | Walked "'c registry" spent_transition

definition sync_turn ::
  "('n, 'z) sdk_scheme \<Rightarrow> 'c registry_sdk \<Rightarrow> client \<Rightarrow> bytes32 \<Rightarrow> 'c registry \<Rightarrow> bool \<Rightarrow> db
    \<Rightarrow> 'c sync_turn db_result"
where
  "sync_turn sdk xs client launcher_id registry skip_save db =
     (let coin_id = sdk_coin_id sdk (rg_coin registry)
      in db_then (db_read (required (cl_coin_record_by_name client coin_id) (CoinNotFound coin_id)) db)
           (\<lambda>coin_record db.
         db_then (if skip_save then (Inr (), db)
                  else db_write (save_singleton_coin sdk (xs_launcher_id xs (rg_constants registry)) coin_record) db)
           (\<lambda>_ db.
         if \<not> cr_spent coin_record then (Inr Tip, db)
         else
           db_then (db_read (required (cl_puzzle_and_solution client coin_id (Some (cr_spent_block_index coin_record)))
                               (CoinNotSpent coin_id)) db) (\<lambda>coin_spend db.
           db_then (db_read (required (map_err Driver (xs_from_spend xs coin_spend (rg_constants registry)))
                               (Custom ''Could not parse new XCHandles registry spend'')) db) (\<lambda>spent db.
           db_then (db_each (save_created_slot xs spent) (rg_created_handle_slots spent) db) (\<lambda>_ db.
           db_then (db_each (mark_spent_slot xs launcher_id (cr_spent_block_index coin_record))
                      (rg_spent_handle_slots spent) db) (\<lambda>_ db.
             (Inr (Walked (xs_child xs spent)
                \<lparr>xt_height = cr_spent_block_index coin_record, xt_logs = rg_logs spent\<rparr>), db))))))))"

text \<open>The loop, with fuel: \<open>None\<close> when it is still walking after that many turns.\<close>

fun sync_walk ::
  "nat \<Rightarrow> ('n, 'z) sdk_scheme \<Rightarrow> 'c registry_sdk \<Rightarrow> client \<Rightarrow> bytes32 \<Rightarrow> 'c registry \<Rightarrow> bool \<Rightarrow> db
    \<Rightarrow> ('c registry \<times> spent_transition list) db_result option"
where
  "sync_walk 0 sdk xs client launcher_id registry skip_save db = None"
| "sync_walk (Suc fuel) sdk xs client launcher_id registry skip_save db =
     (case sync_turn sdk xs client launcher_id registry skip_save db of
        (Inl e, db) \<Rightarrow> Some (Inl e, db)
      | (Inr Tip, db) \<Rightarrow> Some (Inr (registry, []), db)
      | (Inr (Walked child transition), db) \<Rightarrow>
          map_option (\<lambda>(r, db). (try_result r (\<lambda>(tip, ts). Inr (tip, transition # ts)), db))
            (sync_walk fuel sdk xs client launcher_id child False db))"

text \<open>A pending spend in the mempool moves the registry one spend further.\<close>

definition mempool_tip ::
  "('n, 'z) sdk_scheme \<Rightarrow> 'c registry_sdk \<Rightarrow> client \<Rightarrow> 'c registry \<Rightarrow> cli_error + 'c registry"
where
  "mempool_tip sdk xs client registry =
     try_result (cl_mempool_items client (sdk_coin_id sdk (rg_coin registry))) (\<lambda>items.
       case items of
         Some (spend_bundle # _) \<Rightarrow>
           try_result (map_err Driver (xs_from_mempool_item xs spend_bundle (rg_constants registry)))
             (\<lambda>new_registry. Inr (unwrap_or new_registry registry))
       | _ \<Rightarrow> Inr registry)"

definition sync_start ::
  "'c registry_sdk \<Rightarrow> client \<Rightarrow> bytes32 \<Rightarrow> db \<Rightarrow> ('c registry \<times> bool) db_result"
where
  "sync_start xs client launcher_id db =
     db_then (db_read (get_last_unspent_singleton_coin launcher_id db) db) (\<lambda>last_unspent db.
     db_then (db_read (get_xchandles_configuration (xs_constants_codec xs) launcher_id db) db)
       (\<lambda>saved_constants db.
     db_then (case resume_from_saved_tip last_unspent saved_constants of
                Some (parent_coin_id, constants) \<Rightarrow> db_read (resume xs client parent_coin_id constants) db
              | None \<Rightarrow> cold_start xs client launcher_id db) (\<lambda>(registry, skip_save) db.
     db_then (if saved_constants = None
              then db_write (save_xchandles_configuration (xs_constants_codec xs) (xs_launcher_id xs)
                     (rg_constants registry)) db
              else (Inr (), db)) (\<lambda>_ db. (Inr (registry, skip_save), db)))))"

definition sync_xchandles_detailed ::
  "nat \<Rightarrow> ('n, 'z) sdk_scheme \<Rightarrow> 'c registry_sdk \<Rightarrow> client \<Rightarrow> bytes32 \<Rightarrow> db
    \<Rightarrow> 'c sync_result db_result option"
where
  "sync_xchandles_detailed fuel sdk xs client launcher_id db =
     (case sync_start xs client launcher_id db of
        (Inl e, db) \<Rightarrow> Some (Inl e, db)
      | (Inr (registry, skip_save), db) \<Rightarrow>
          map_option (\<lambda>(r, db).
            (try_result r (\<lambda>(tip, transitions).
               try_result (mempool_tip sdk xs client tip) (\<lambda>registry.
                 Inr \<lparr>xr_registry = registry, xr_spent_transitions = transitions\<rparr>)), db))
            (sync_walk fuel sdk xs client launcher_id registry skip_save db))"

definition sync_xchandles ::
  "nat \<Rightarrow> ('n, 'z) sdk_scheme \<Rightarrow> 'c registry_sdk \<Rightarrow> client \<Rightarrow> bytes32 \<Rightarrow> db \<Rightarrow> 'c registry db_result option"
where
  "sync_xchandles fuel sdk xs client launcher_id db =
     map_option (\<lambda>(r, db). (try_result r (\<lambda>synced. Inr (xr_registry synced)), db))
       (sync_xchandles_detailed fuel sdk xs client launcher_id db)"

section \<open>Finding an update slot\<close>

fun find_map :: "('a \<Rightarrow> 'b option) \<Rightarrow> 'a list \<Rightarrow> 'b option" where
  "find_map f [] = None"
| "find_map f (x # xs) = (case f x of None \<Rightarrow> find_map f xs | Some y \<Rightarrow> Some y)"

lemma find_map_Some: "find_map f xs = Some y \<Longrightarrow> \<exists>x \<in> set xs. f x = Some y"
  by (induction xs) (auto split: option.splits)

fun find_update_slot_in ::
  "'c registry_sdk \<Rightarrow> client \<Rightarrow> 'c \<Rightarrow> bytes32 \<Rightarrow> bytes32 \<Rightarrow> coin_record list
    \<Rightarrow> cli_error + update_slot_value slot"
where
  "find_update_slot_in xs client constants update_initiator_coin_id handle_hash [] =
     Inl (SlotNotFound ''Update'')"
| "find_update_slot_in xs client constants update_initiator_coin_id handle_hash (coin_record # records) =
     (let rest = find_update_slot_in xs client constants update_initiator_coin_id handle_hash records;
          parent = parent_coin_info (cr_coin coin_record)
      in try_result (required (cl_puzzle_and_solution client parent (Some (cr_confirmed_block_index coin_record)))
                       (CoinNotSpent parent)) (\<lambda>registry_spent.
         try_result (map_err Driver (xs_from_spend xs registry_spent constants)) (\<lambda>parsed.
           case parsed of
             None \<Rightarrow> rest
           | Some registry \<Rightarrow>
               (case find_map (\<lambda>val.
                  if uv_handle_hash val \<noteq> handle_hash \<or> uv_update_initiator_coin_id val \<noteq> update_initiator_coin_id
                  then None
                  else let slot = xs_created_update_slot xs registry val
                       in if slot_coin slot = cr_coin coin_record then Some slot else None)
                  (rg_created_update_slots registry) of
                  Some slot \<Rightarrow> Inr slot
                | None \<Rightarrow> rest))))"

definition find_xchandles_update_slot ::
  "'c registry_sdk \<Rightarrow> client \<Rightarrow> 'c \<Rightarrow> bytes32 \<Rightarrow> bytes32 \<Rightarrow> cli_error + update_slot_value slot"
where
  "find_xchandles_update_slot xs client constants update_initiator_coin_id handle_hash =
     try_result (required (cl_coin_records_by_hint client update_initiator_coin_id)
                   (Driver (DriverOther ''missing hint'')))
       (find_update_slot_in xs client constants update_initiator_coin_id handle_hash)"

section \<open>What the walk does\<close>

text \<open>What the node shows of a registry: that its coin is the unspent tip, or the spend that follows.\<close>

definition tip_shown ::
  "('n, 'z) sdk_scheme \<Rightarrow> 'c registry_sdk \<Rightarrow> client \<Rightarrow> bytes32 \<Rightarrow> 'c registry \<Rightarrow> bool"
where
  "tip_shown sdk xs client launcher_id registry \<longleftrightarrow>
     (\<exists>coin_record.
        cl_coin_record_by_name client (sdk_coin_id sdk (rg_coin registry)) = Inr (Some coin_record) \<and>
        \<not> cr_spent coin_record \<and> cr_coin coin_record = rg_coin registry \<and>
        cr_confirmed_block_index coin_record \<noteq> 0 \<and> xs_launcher_id xs (rg_constants registry) = launcher_id)"

definition spend_shown ::
  "('n, 'z) sdk_scheme \<Rightarrow> 'c registry_sdk \<Rightarrow> client \<Rightarrow> bytes32 \<Rightarrow> 'c registry \<Rightarrow> 'c registry
    \<Rightarrow> spent_transition \<Rightarrow> bool"
where
  "spend_shown sdk xs client launcher_id registry spent transition \<longleftrightarrow>
     (\<exists>coin_record coin_spend.
        cl_coin_record_by_name client (sdk_coin_id sdk (rg_coin registry)) = Inr (Some coin_record) \<and>
        cr_spent coin_record \<and> cr_coin coin_record = rg_coin registry \<and>
        cr_confirmed_block_index coin_record \<noteq> 0 \<and> xs_launcher_id xs (rg_constants registry) = launcher_id \<and>
        cl_puzzle_and_solution client (sdk_coin_id sdk (rg_coin registry))
          (Some (cr_spent_block_index coin_record)) = Inr (Some coin_spend) \<and>
        xs_from_spend xs coin_spend (rg_constants registry) = Inr (Some spent) \<and>
        transition = \<lparr>xt_height = cr_spent_block_index coin_record, xt_logs = rg_logs spent\<rparr> \<and>
        parent_coin_info (rg_coin (xs_child xs spent)) = sdk_coin_id sdk (rg_coin registry))"

definition slots_written :: "'c registry_sdk \<Rightarrow> 'c registry \<Rightarrow> bool" where
  "slots_written xs spent \<longleftrightarrow>
     (\<forall>val \<in> set (rg_created_handle_slots spent).
        \<exists>bytes. sc_to_bytes (xs_slot_codec xs) (slot_value (xs_created_slot xs spent val)) = Inr bytes)"

text \<open>The spends the node shows from a registry to its unspent tip.\<close>

inductive registry_path ::
  "('n, 'z) sdk_scheme \<Rightarrow> 'c registry_sdk \<Rightarrow> client \<Rightarrow> bytes32 \<Rightarrow> 'c registry \<Rightarrow> spent_transition list
    \<Rightarrow> 'c registry \<Rightarrow> bool"
  for sdk xs client launcher_id
where
  path_tip: "registry_path sdk xs client launcher_id registry [] registry"
  if "tip_shown sdk xs client launcher_id registry"
| path_spend: "registry_path sdk xs client launcher_id registry (transition # transitions) tip"
  if "spend_shown sdk xs client launcher_id registry spent transition" and "slots_written xs spent"
    and "registry_path sdk xs client launcher_id (xs_child xs spent) transitions tip"

definition unspent_coins :: "bytes32 \<Rightarrow> singleton_coin_row list \<Rightarrow> blob set" where
  "unspent_coins launcher_id rows =
     sc_coin_id ` {row \<in> set rows. sc_launcher_id row = to_bytes launcher_id \<and> sc_spent_block_height row = 0}"

lemma db_each_inv:
  assumes "\<And>x db. x \<in> set xs \<Longrightarrow> Q db \<Longrightarrow> \<exists>db'. f x db = (Inr (), db') \<and> Q db'" and "Q db"
  shows "\<exists>db'. db_each f xs db = (Inr (), db') \<and> Q db'"
  using assms
proof (induction xs arbitrary: db)
  case (Cons x xs)
  then obtain db' where "f x db = (Inr (), db')" "Q db'" by (meson list.set_intros(1))
  with Cons show ?case by simp
qed simp

lemma saved_coin:
  assumes "\<not> db_failing db" and "cr_confirmed_block_index coin_record \<noteq> 0"
    and "unspent_coins launcher_id (db_singleton_coins db) \<subseteq>
      {to_bytes (sdk_coin_id sdk (cr_coin coin_record)), to_bytes (parent_coin_info (cr_coin coin_record))}"
  obtains db' where "db_write (save_singleton_coin sdk launcher_id coin_record) db = (Inr (), db')"
    and "\<not> db_failing db'"
    and "unspent_coins launcher_id (db_singleton_coins db') \<subseteq> {to_bytes (sdk_coin_id sdk (cr_coin coin_record))}"
proof -
  define rows where "rows = map (spend_parent_row coin_record) (db_singleton_coins db)"
  have "unspent_coins launcher_id rows \<subseteq> {to_bytes (sdk_coin_id sdk (cr_coin coin_record))}"
    using assms(2,3) by (fastforce simp: unspent_coins_def rows_def spend_parent_row_def split: if_splits)
  then have "unspent_coins launcher_id
      (if sc_coin_id (coin_to_row sdk launcher_id coin_record) \<in> set (map sc_coin_id rows) then rows
       else rows @ [coin_to_row sdk launcher_id coin_record])
      \<subseteq> {to_bytes (sdk_coin_id sdk (cr_coin coin_record))}"
    by (auto simp: unspent_coins_def coin_to_row_def)
  with assms(1) show ?thesis
    by (intro that [of "db\<lparr>db_singleton_coins :=
        (if sc_coin_id (coin_to_row sdk launcher_id coin_record) \<in> set (map sc_coin_id rows) then rows
         else rows @ [coin_to_row sdk launcher_id coin_record])\<rparr>"])
      (simp_all add: db_write_def save_singleton_coin_def Let_def rows_def image_image)
qed

lemma slots_saved:
  assumes "\<not> db_failing db" and "slots_written xs spent"
  shows "\<exists>db'. db_each (save_created_slot xs spent) (rg_created_handle_slots spent) db = (Inr (), db') \<and>
    \<not> db_failing db' \<and> db_singleton_coins db' = db_singleton_coins db"
  by (rule db_each_inv [where Q = "\<lambda>d. \<not> db_failing d \<and> db_singleton_coins d = db_singleton_coins db"])
    (use assms in \<open>fastforce simp: slots_written_def save_created_slot_def db_write_def save_slot_def
       save_xchandles_indexed_slot_value_def\<close>)+

lemma slots_marked:
  assumes "\<not> db_failing db"
  shows "\<exists>db'. db_each (mark_spent_slot xs launcher_id height) vals db = (Inr (), db') \<and>
    \<not> db_failing db' \<and> db_singleton_coins db' = db_singleton_coins db"
  by (rule db_each_inv [where Q = "\<lambda>d. \<not> db_failing d \<and> db_singleton_coins d = db_singleton_coins db"])
    (use assms in \<open>auto simp: mark_spent_slot_def db_write_def mark_slot_as_spent_def\<close>)

definition tip_recorded ::
  "('n, 'z) sdk_scheme \<Rightarrow> bytes32 \<Rightarrow> coin \<Rightarrow> bool \<Rightarrow> db \<Rightarrow> bool"
where
  "tip_recorded sdk launcher_id c exact db \<longleftrightarrow>
     \<not> db_failing db \<and>
     unspent_coins launcher_id (db_singleton_coins db) \<subseteq>
       (if exact then {to_bytes (sdk_coin_id sdk c)}
        else {to_bytes (sdk_coin_id sdk c), to_bytes (parent_coin_info c)})"

lemma turn_saves:
  assumes "cr_coin coin_record = c" and "cr_confirmed_block_index coin_record \<noteq> 0"
    and "tip_recorded sdk launcher_id c skip db"
  shows "\<exists>db'. (if skip then (Inr (), db) else db_write (save_singleton_coin sdk launcher_id coin_record) db) =
      (Inr (), db') \<and> tip_recorded sdk launcher_id c True db'"
proof (cases skip)
  case True
  with assms(3) show ?thesis by simp
next
  case False
  with assms have "\<not> db_failing db" and "unspent_coins launcher_id (db_singleton_coins db) \<subseteq>
      {to_bytes (sdk_coin_id sdk (cr_coin coin_record)), to_bytes (parent_coin_info (cr_coin coin_record))}"
    by (simp_all add: tip_recorded_def)
  then obtain db' where "db_write (save_singleton_coin sdk launcher_id coin_record) db = (Inr (), db')"
    "\<not> db_failing db'"
    "unspent_coins launcher_id (db_singleton_coins db') \<subseteq> {to_bytes (sdk_coin_id sdk (cr_coin coin_record))}"
    by (rule saved_coin [OF _ assms(2)])
  with False assms(1) show ?thesis by (simp add: tip_recorded_def)
qed

lemma turn_tip:
  assumes "tip_shown sdk xs client launcher_id registry"
    and "tip_recorded sdk launcher_id (rg_coin registry) skip db"
  shows "\<exists>db'. sync_turn sdk xs client launcher_id registry skip db = (Inr Tip, db') \<and>
    tip_recorded sdk launcher_id (rg_coin registry) True db'"
proof -
  from assms(1) obtain coin_record where shown:
    "cl_coin_record_by_name client (sdk_coin_id sdk (rg_coin registry)) = Inr (Some coin_record)"
    "\<not> cr_spent coin_record" "cr_coin coin_record = rg_coin registry" "cr_confirmed_block_index coin_record \<noteq> 0"
    "xs_launcher_id xs (rg_constants registry) = launcher_id"
    by (auto simp: tip_shown_def)
  obtain db' where "(if skip then (Inr (), db) else db_write (save_singleton_coin sdk launcher_id coin_record) db) =
      (Inr (), db')" and "tip_recorded sdk launcher_id (rg_coin registry) True db'"
    using turn_saves [OF shown(3,4) assms(2)] by blast
  with shown show ?thesis
    by (cases skip) (simp_all add: sync_turn_def Let_def db_read_def required_def)
qed

text \<open>
  A spend: the coin is saved, then the slots are written and marked; what the writes of the slots lead to
  is left to the caller.
\<close>

lemma turn_spend:
  assumes "spend_shown sdk xs client launcher_id registry spent transition"
    and "tip_recorded sdk launcher_id (rg_coin registry) skip db"
    and "\<And>d. tip_recorded sdk launcher_id (rg_coin registry) True d \<Longrightarrow>
      \<exists>coins. d = db\<lparr>db_singleton_coins := coins\<rparr> \<Longrightarrow>
      \<exists>d1 d2. db_each (save_created_slot xs spent) (rg_created_handle_slots spent) d = (Inr (), d1) \<and>
        db_each (mark_spent_slot xs launcher_id (xt_height transition)) (rg_spent_handle_slots spent) d1 = (Inr (), d2) \<and>
        \<not> db_failing d2 \<and> db_singleton_coins d2 = db_singleton_coins d \<and> Q d2"
  shows "\<exists>db'. sync_turn sdk xs client launcher_id registry skip db = (Inr (Walked (xs_child xs spent) transition), db') \<and>
    tip_recorded sdk launcher_id (rg_coin (xs_child xs spent)) False db' \<and> Q db'"
proof -
  from assms(1) obtain coin_record coin_spend where spend:
    "cl_coin_record_by_name client (sdk_coin_id sdk (rg_coin registry)) = Inr (Some coin_record)"
    "cr_spent coin_record" "cr_coin coin_record = rg_coin registry" "cr_confirmed_block_index coin_record \<noteq> 0"
    "xs_launcher_id xs (rg_constants registry) = launcher_id"
    "cl_puzzle_and_solution client (sdk_coin_id sdk (rg_coin registry))
       (Some (cr_spent_block_index coin_record)) = Inr (Some coin_spend)"
    "xs_from_spend xs coin_spend (rg_constants registry) = Inr (Some spent)"
    "transition = \<lparr>xt_height = cr_spent_block_index coin_record, xt_logs = rg_logs spent\<rparr>"
    "parent_coin_info (rg_coin (xs_child xs spent)) = sdk_coin_id sdk (rg_coin registry)"
    by (auto simp: spend_shown_def)
  obtain d0 where d0: "(if skip then (Inr (), db) else db_write (save_singleton_coin sdk launcher_id coin_record) db) =
      (Inr (), d0)" and tip: "tip_recorded sdk launcher_id (rg_coin registry) True d0"
    using turn_saves [OF spend(3,4) assms(2)] by blast
  have same: "\<exists>coins. d = d\<lparr>db_singleton_coins := coins\<rparr>" for d :: db
    by (rule exI [of _ "db_singleton_coins d"]) simp
  from d0 have "\<exists>coins. d0 = db\<lparr>db_singleton_coins := coins\<rparr>"
    by (cases skip) (auto simp: db_write_def save_singleton_coin_def Let_def db_query_def
        intro: same split: if_splits)
  from assms(3) [OF tip this] obtain d1 d2 where d1: "db_each (save_created_slot xs spent) (rg_created_handle_slots spent) d0 = (Inr (), d1)"
    and d2: "db_each (mark_spent_slot xs launcher_id (xt_height transition)) (rg_spent_handle_slots spent) d1 = (Inr (), d2)"
    "\<not> db_failing d2" "db_singleton_coins d2 = db_singleton_coins d0" "Q d2"
    by blast
  have "tip_recorded sdk launcher_id (rg_coin (xs_child xs spent)) False d2"
    using tip d2 spend(9) by (auto simp: tip_recorded_def)
  moreover have "sync_turn sdk xs client launcher_id registry skip db = (Inr (Walked (xs_child xs spent) transition), d2)"
    using spend d0 d1 d2(1) by (cases skip) (simp_all add: sync_turn_def Let_def db_read_def required_def)
  ultimately show ?thesis using d2(4) by blast
qed

lemma turn_spend_recorded:
  assumes "spend_shown sdk xs client launcher_id registry spent transition" and "slots_written xs spent"
    and "tip_recorded sdk launcher_id (rg_coin registry) skip db"
  shows "\<exists>db'. sync_turn sdk xs client launcher_id registry skip db = (Inr (Walked (xs_child xs spent) transition), db') \<and>
    tip_recorded sdk launcher_id (rg_coin (xs_child xs spent)) False db'"
proof -
  have writes: "\<exists>d1 d2. db_each (save_created_slot xs spent) (rg_created_handle_slots spent) d = (Inr (), d1) \<and>
        db_each (mark_spent_slot xs launcher_id (xt_height transition)) (rg_spent_handle_slots spent) d1 = (Inr (), d2) \<and>
        \<not> db_failing d2 \<and> db_singleton_coins d2 = db_singleton_coins d \<and> True"
    if "tip_recorded sdk launcher_id (rg_coin registry) True d" for d
  proof -
    from that have "\<not> db_failing d" by (simp add: tip_recorded_def)
    then obtain d1 where "db_each (save_created_slot xs spent) (rg_created_handle_slots spent) d = (Inr (), d1)"
      "\<not> db_failing d1" "db_singleton_coins d1 = db_singleton_coins d"
      using slots_saved [OF _ assms(2)] by blast
    with slots_marked [of d1 xs launcher_id "xt_height transition" "rg_spent_handle_slots spent"] show ?thesis
      by fastforce
  qed
  then show ?thesis using turn_spend [OF assms(1,3), where Q = "\<lambda>_. True"] by blast
qed

text \<open>
  C17. The walk ends at the registry's unspent tip: when the node shows the spends from the registry to
  it, then with more turns than spends the walk succeeds, whatever the database held of slots, and
  returns the tip with the action logs of every spend, once each and in order; of the registry's coins
  no other than the tip is left unspent in the database.
\<close>

theorem sync_walk_reaches_tip:
  assumes "registry_path sdk xs client launcher_id registry transitions tip"
    and "tip_recorded sdk launcher_id (rg_coin registry) skip db" and "length transitions < fuel"
  shows "\<exists>db'. sync_walk fuel sdk xs client launcher_id registry skip db = Some (Inr (tip, transitions), db') \<and>
    tip_recorded sdk launcher_id (rg_coin tip) True db'"
  using assms
proof (induction registry transitions tip arbitrary: db fuel skip rule: registry_path.induct)
  case (path_tip registry)
  then obtain n where "fuel = Suc n" by (cases fuel) auto
  with turn_tip [OF path_tip(1,2)] show ?case by fastforce
next
  case (path_spend registry spent transition transitions tip)
  then obtain n where fuel: "fuel = Suc n" and n: "length transitions < n" by (cases fuel) auto
  obtain db' where turn: "sync_turn sdk xs client launcher_id registry skip db =
      (Inr (Walked (xs_child xs spent) transition), db')"
    and "tip_recorded sdk launcher_id (rg_coin (xs_child xs spent)) False db'"
    using turn_spend_recorded [OF path_spend(1,2,5)] by blast
  from path_spend(4) [OF this(2) n] show ?case by (auto simp: fuel turn)
qed

text \<open>A registry with one spend: its coin 1021 was spent at height 20 and created the tip 1021031.\<close>

definition example_registry :: "coin \<Rightarrow> unit registry" where
  "example_registry c = \<lparr>rg_coin = c, rg_constants = (), rg_pricing_puzzle_hash = 7,
     rg_created_handle_slots = [], rg_spent_handle_slots = [], rg_created_update_slots = [],
     rg_logs = [DelegatedState]\<rparr>"

definition example_spent_coin :: coin where
  "example_spent_coin = \<lparr>parent_coin_info = 1, puzzle_hash = 2, amount = 1\<rparr>"

definition example_tip_coin :: coin where
  "example_tip_coin = \<lparr>parent_coin_info = 1021, puzzle_hash = 3, amount = 1\<rparr>"

definition example_registry_sdk :: "unit registry_sdk" where
  "example_registry_sdk =
     \<lparr>xs_launcher_id = (\<lambda>_. 1),
      xs_from_parent_spend = (\<lambda>_ _. Inr (Some (example_registry example_spent_coin))),
      xs_from_spend = (\<lambda>_ _. Inr (Some (example_registry example_spent_coin))),
      xs_child = (\<lambda>_. example_registry example_tip_coin),
      xs_created_slot = (\<lambda>_ v. \<lparr>slot_coin = example_tip_coin,
        slot_proof = \<lparr>lp_parent_parent_coin_info = 1, lp_parent_inner_puzzle_hash = 2, lp_parent_amount = 1\<rparr>,
        slot_launcher_id = 1, slot_nonce = 1, slot_value = v, slot_value_hash = hv_handle_hash v\<rparr>),
      xs_created_update_slot = (\<lambda>_ v. \<lparr>slot_coin = example_tip_coin,
        slot_proof = \<lparr>lp_parent_parent_coin_info = 1, lp_parent_inner_puzzle_hash = 2, lp_parent_amount = 1\<rparr>,
        slot_launcher_id = 1, slot_nonce = 2, slot_value = v, slot_value_hash = uv_handle_hash v\<rparr>),
      xs_from_launcher_solution = (\<lambda>_ _. Inr None),
      xs_from_mempool_item = (\<lambda>_ _. Inr None),
      xs_slot_codec = \<lparr>sc_to_bytes = (\<lambda>_. Inr []), sc_from_bytes = (\<lambda>_. Inl DbColumnParse),
        sc_tree_hash = hv_handle_hash, sc_coin = (\<lambda>_ _ _ _. example_tip_coin), sc_nonce = 1\<rparr>,
      xs_constants_codec = \<lparr>cc_to_bytes = (\<lambda>_. Inr [1]), cc_from_bytes = (\<lambda>_. Inr ())\<rparr>\<rparr>"

definition example_client :: client where
  "example_client =
     \<lparr>cl_coin_record_by_name = (\<lambda>i. Inr (
        if i = 1021 then Some \<lparr>cr_coin = example_spent_coin, cr_confirmed_block_index = 10,
          cr_spent_block_index = 20, cr_spent = True\<rparr>
        else if i = 1021031 then Some \<lparr>cr_coin = example_tip_coin, cr_confirmed_block_index = 20,
          cr_spent_block_index = 0, cr_spent = False\<rparr> else None)),
      cl_coin_records_by_names = (\<lambda>_. Inr None), cl_unspent_records_by_names = (\<lambda>_. Inr None),
      cl_coin_records_by_hint = (\<lambda>_. Inr None), cl_all_records_by_hint = (\<lambda>_. Inr None),
      cl_coin_records_by_puzzle_hash = (\<lambda>_ _. Inr None), cl_coin_records_by_puzzle_hashes = (\<lambda>_. Inr None),
      cl_puzzle_and_solution = (\<lambda>i h. Inr (if i = 1021 \<and> h = Some 20
        then Some \<lparr>spend_coin = example_spent_coin, puzzle_reveal = [], spend_solution = []\<rparr> else None)),
      cl_mempool_items = (\<lambda>_. Inr None),
      cl_blockchain_state = Inr None, cl_block_record = (\<lambda>_. Inr None), cl_block_spends = (\<lambda>_. Inr None)\<rparr>"

lemma example_coin_ids [simp]:
  "sdk_coin_id fixture_sdk example_spent_coin = 1021" "sdk_coin_id fixture_sdk example_tip_coin = 1021031"
  by (simp_all add: fixture_sdk_def example_spent_coin_def example_tip_coin_def)

lemma example_registry_simps [simp]:
  "rg_coin (example_registry c) = c" "rg_created_handle_slots (example_registry c) = []"
  "rg_logs (example_registry c) = [DelegatedState]"
  by (simp_all add: example_registry_def)

lemma example_path:
  "registry_path fixture_sdk example_registry_sdk example_client 1 (example_registry example_spent_coin)
     [\<lparr>xt_height = 20, xt_logs = [DelegatedState]\<rparr>] (example_registry example_tip_coin)"
proof -
  have child: "xs_child example_registry_sdk r = example_registry example_tip_coin" for r
    by (simp add: example_registry_sdk_def)
  have "tip_shown fixture_sdk example_registry_sdk example_client 1
      (xs_child example_registry_sdk (example_registry example_spent_coin))"
    unfolding child tip_shown_def by (simp add: example_client_def example_registry_sdk_def)
  then have "registry_path fixture_sdk example_registry_sdk example_client 1
      (xs_child example_registry_sdk (example_registry example_spent_coin)) [] (example_registry example_tip_coin)"
    unfolding child by (rule path_tip)
  moreover have "spend_shown fixture_sdk example_registry_sdk example_client 1 (example_registry example_spent_coin)
      (example_registry example_spent_coin) \<lparr>xt_height = 20, xt_logs = [DelegatedState]\<rparr>"
    unfolding spend_shown_def child
    by (simp add: example_client_def) (simp add: example_registry_sdk_def example_tip_coin_def)
  ultimately show ?thesis by (intro path_spend) (simp_all add: slots_written_def)
qed

lemma sync_walk_reaches_tip_witness:
  "\<exists>db'. sync_walk 2 fixture_sdk example_registry_sdk example_client 1 (example_registry example_spent_coin)
       True db_new =
     Some (Inr (example_registry example_tip_coin, [\<lparr>xt_height = 20, xt_logs = [DelegatedState]\<rparr>]), db')"
proof -
  have "tip_recorded fixture_sdk 1 (rg_coin (example_registry example_spent_coin)) True db_new"
    by (simp add: tip_recorded_def db_new_def unspent_coins_def)
  from sync_walk_reaches_tip [OF example_path this, of 2] show ?thesis by auto
qed

text \<open>
  A reorganization that orphans the spend of the saved tip's parent stops the synchronization: the
  database still names the orphaned tip, the walk resumes from its parent, and as long as the parent is
  unspent on the chain every attempt fails with \<open>CoinNotSpent\<close> and changes nothing.
\<close>

theorem orphaned_tip_blocks_sync:
  assumes "get_last_unspent_singleton_coin launcher_id db = Inr (Some (tip_id, parent_id))"
    and "get_xchandles_configuration (xs_constants_codec xs) launcher_id db = Inr (Some constants)"
    and "cl_coin_record_by_name client parent_id = Inr (Some parent_record)"
    and "cl_puzzle_and_solution client parent_id (Some (cr_spent_block_index parent_record)) = Inr None"
  shows "sync_xchandles_detailed fuel sdk xs client launcher_id db = Some (Inl (CoinNotSpent parent_id), db)"
  using assms
  by (simp add: sync_xchandles_detailed_def sync_start_def db_read_def resume_from_saved_tip_def resume_def
      required_def)

definition example_orphan_db :: db where
  "example_orphan_db = db_new\<lparr>
     db_singleton_coins := [\<lparr>sc_launcher_id = to_bytes 1, sc_coin_id = to_bytes 77,
       sc_parent_coin_id = to_bytes 1021031, sc_spent_block_height = 0\<rparr>],
     db_xchandles_configurations := [(to_bytes 1, [1])]\<rparr>"

lemma orphaned_tip_blocks_sync_witness:
  "sync_xchandles_detailed 9 fixture_sdk example_registry_sdk example_client 1 example_orphan_db =
     Some (Inl (CoinNotSpent 1021031), example_orphan_db)"
  by (rule orphaned_tip_blocks_sync)
    (simp_all add: get_last_unspent_singleton_coin_def get_xchandles_configuration_def example_orphan_db_def
      db_new_def db_query_def optional_constants_def example_registry_sdk_def example_client_def)

end
