(* ===== verification/ApiError.thy ===== *)
theory ApiError
  imports ListenerTypes
begin

text \<open>
  \<open>src/cli/xchandles/listener/error.rs\<close>: the errors of the HTTP API, with their status, code and
  message. A fresh request id (\<open>Uuid::new_v4\<close>) is an argument of the constructors; the JSON value of
  \<open>details\<close> is the list of its numeric members.
\<close>

datatype status_code = OK | NO_CONTENT | BAD_REQUEST | NOT_FOUND | GONE | SERVICE_UNAVAILABLE

type_synonym details = "(string \<times> nat) list"

record api_error =
  ae_status :: status_code
  ae_code :: string
  ae_message :: string
  ae_details :: "details option"
  ae_request_id :: string

definition api_error_new :: "string \<Rightarrow> status_code \<Rightarrow> string \<Rightarrow> string \<Rightarrow> api_error" where
  "api_error_new uuid status code message =
     \<lparr>ae_status = status, ae_code = code, ae_message = message, ae_details = None,
      ae_request_id = uuid\<rparr>"

definition with_details :: "api_error \<Rightarrow> details \<Rightarrow> api_error" where
  "with_details e d = e\<lparr>ae_details := Some d\<rparr>"

definition with_request_id :: "api_error \<Rightarrow> string \<Rightarrow> api_error" where
  "with_request_id e rid = e\<lparr>ae_request_id := rid\<rparr>"

definition invalid_launcher_id :: "string \<Rightarrow> api_error" where
  "invalid_launcher_id uuid = api_error_new uuid BAD_REQUEST ''invalid_launcher_id''
     ''Launcher ID must be 32-byte lowercase hex without a required 0x prefix''"

definition singleton_not_followed :: "string \<Rightarrow> api_error" where
  "singleton_not_followed uuid = api_error_new uuid NOT_FOUND ''singleton_not_followed''
     ''Launcher is not followed by any live handle slot''"

definition singleton_incomplete :: "string \<Rightarrow> api_error" where
  "singleton_incomplete uuid = api_error_new uuid SERVICE_UNAVAILABLE ''singleton_incomplete''
     ''Referenced singleton has not been reconstructed yet''"

definition singleton_mismatch :: "string \<Rightarrow> api_error" where
  "singleton_mismatch uuid = api_error_new uuid SERVICE_UNAVAILABLE ''singleton_mismatch''
     ''Block-local singleton discovery found an integrity mismatch''"

definition index_stale :: "string \<Rightarrow> u32 \<Rightarrow> u32 \<Rightarrow> api_error" where
  "index_stale uuid indexed_peak upstream_peak =
     with_details
       (api_error_new uuid SERVICE_UNAVAILABLE ''index_stale''
         ''Listener index is stale, rolling back, or resyncing'')
       [(''indexed_peak_height'', unat indexed_peak), (''upstream_peak_height'', unat upstream_peak)]"

definition invalid_handle :: "string \<Rightarrow> api_error" where
  "invalid_handle uuid = api_error_new uuid BAD_REQUEST ''invalid_handle''
     ''Handle must be 3-63 lowercase ASCII letters and digits with no normalization''"

definition handle_not_found :: "string \<Rightarrow> api_error" where
  "handle_not_found uuid = api_error_new uuid NOT_FOUND ''handle_not_found''
     ''No live handle slot is indexed for this handle''"

definition registry_not_followed :: "string \<Rightarrow> api_error" where
  "registry_not_followed uuid = api_error_new uuid NOT_FOUND ''registry_not_followed''
     (''Registry launcher is not in the listener'' @ [CHR 0x27] @ ''s configured follow set'')"

definition resolution_incomplete :: "string \<Rightarrow> api_error" where
  "resolution_incomplete uuid = api_error_new uuid SERVICE_UNAVAILABLE ''resolution_incomplete''
     ''Resolved Singleton has not been reconstructed yet''"

definition resolution_mismatch :: "string \<Rightarrow> api_error" where
  "resolution_mismatch uuid = api_error_new uuid SERVICE_UNAVAILABLE ''resolution_mismatch''
     ''Resolved Singleton discovery found an integrity mismatch''"

definition handle_expired :: "string \<Rightarrow> u64 \<Rightarrow> api_error" where
  "handle_expired uuid expiration =
     with_details
       (api_error_new uuid GONE ''handle_expired'' ''Handle registration has expired'')
       [(''expiration'', unat expiration)]"

definition invalid_view :: "string \<Rightarrow> api_error" where
  "invalid_view uuid = api_error_new uuid BAD_REQUEST ''invalid_view''
     ''Expiring view must be exactly active or soon''"

definition error_into_response :: "api_error \<Rightarrow> status_code \<times> api_error_body" where
  "error_into_response e =
     (ae_status e,
      \<lparr>ab_code = ae_code e, ab_message = ae_message e, ab_request_id = ae_request_id e,
       ab_details = ae_details e\<rparr>)"

lemmas api_error_defs = api_error_new_def with_details_def invalid_launcher_id_def
  singleton_not_followed_def singleton_incomplete_def singleton_mismatch_def index_stale_def
  invalid_handle_def handle_not_found_def registry_not_followed_def resolution_incomplete_def
  resolution_mismatch_def handle_expired_def invalid_view_def

end
