(* ===== verification/PriceSchedule.thy ===== *)
theory PriceSchedule
  imports Fixture
begin

text \<open>
  \<open>src/cli/xchandles/listener/price_schedule.rs\<close> and the mainnet schedule of
  \<open>src/cli/xchandles/mainnet_launch.rs\<close>: the generations of the Price Singleton, the base price in
  force at a time, and the unrolls that remain to be executed.
\<close>

definition LAUNCH_BASE_PRICE :: u64 where
  "LAUNCH_BASE_PRICE = 1"

definition REGISTRATION_PERIOD :: u64 where
  "REGISTRATION_PERIOD = 31557600"

definition BASE_PRICE_AT_FACTOR_ONE :: u64 where
  "BASE_PRICE_AT_FACTOR_ONE = 5000"

definition TESTNET11_PRICE_SCHEDULE :: "(u64 \<times> u64) list" where
  "TESTNET11_PRICE_SCHEDULE =
     [(1786885200, 9), (1786892400, 8), (1786924800, 7), (1786935600, 6), (1786953600, 5),
      (1786971600, 4), (1786978800, 3), (1787011200, 2), (1787022000, 1)]"

definition PRICE_SCHEDULE :: "(u64 \<times> u64 \<times> u64) list" where
  "PRICE_SCHEDULE =
     [(1787216400, 1000, 5000000), (1787302800, 750, 3750000), (1787389200, 500, 2500000),
      (1787475600, 250, 1250000), (1787562000, 100, 500000), (1787648400, 75, 375000),
      (1787734800, 50, 250000), (1787821200, 33, 165000), (1787907600, 25, 125000),
      (1787994000, 15, 75000), (1788080400, 10, 50000), (1788166800, 5, 25000),
      (1788253200, 3, 15000), (1788339600, 2, 10000), (1788426000, 1, 5000)]"

record schedule_generation =
  activation_timestamp :: u64
  base_price :: u64

record price_query =
  pq_launcher_id :: "string option"

record price_response =
  pp_indexed_peak_height :: u32
  pp_confirmed_timestamp :: u64
  pp_current_base_price :: u64
  pp_unrolls :: "schedule_generation list"

record schedule_response =
  sc_generations :: "schedule_generation list"

definition testnet11_generations :: "schedule_generation list" where
  "testnet11_generations =
     map (\<lambda>(activation, price). \<lparr>activation_timestamp = activation, base_price = price\<rparr>)
       TESTNET11_PRICE_SCHEDULE"

definition mainnet_generations :: "schedule_generation list" where
  "mainnet_generations =
     map (\<lambda>(activation, factor, price). \<lparr>activation_timestamp = activation, base_price = price\<rparr>)
       PRICE_SCHEDULE"

definition generations_for_network :: "bool \<Rightarrow> schedule_generation list" where
  "generations_for_network testnet11 =
     (if testnet11 then testnet11_generations else mainnet_generations)"

text \<open>The loop of \<open>effective_base_at\<close>, with the price found so far.\<close>

fun effective_base_loop :: "u64 \<Rightarrow> schedule_generation list \<Rightarrow> u64 \<Rightarrow> u64" where
  "effective_base_loop price [] at_time = price"
| "effective_base_loop price (row # rows) at_time =
     effective_base_loop (if activation_timestamp row \<le> at_time then base_price row else price)
       rows at_time"

definition effective_base_at :: "schedule_generation list \<Rightarrow> u64 \<Rightarrow> u64" where
  "effective_base_at schedule at_time = effective_base_loop LAUNCH_BASE_PRICE schedule at_time"

text \<open>\<open>Iterator::position\<close> and \<open>Iterator::rposition\<close> of the standard library.\<close>

fun position :: "('a \<Rightarrow> bool) \<Rightarrow> 'a list \<Rightarrow> nat option" where
  "position p [] = None"
| "position p (x # xs) = (if p x then Some 0 else map_option Suc (position p xs))"

fun rposition :: "('a \<Rightarrow> bool) \<Rightarrow> 'a list \<Rightarrow> nat option" where
  "rposition p [] = None"
| "rposition p (x # xs) =
     (case rposition p xs of
        Some i \<Rightarrow> Some (Suc i)
      | None \<Rightarrow> if p x then Some 0 else None)"

definition remaining_unroll_start :: "schedule_generation list \<Rightarrow> u64 \<Rightarrow> u64 \<Rightarrow> nat" where
  "remaining_unroll_start schedule committed_base confirmed =
     (let last_due = rposition (\<lambda>row. activation_timestamp row \<le> confirmed) schedule;
          last_due_price = unwrap_or (map_option (\<lambda>i. base_price (schedule ! i)) last_due)
                             LAUNCH_BASE_PRICE
      in if committed_base = last_due_price then unwrap_or (map_option (\<lambda>i. i + 1) last_due) 0
         else if committed_base = LAUNCH_BASE_PRICE then 0
         else unwrap_or
                (map_option (\<lambda>i. i + 1)
                  (position (\<lambda>row. base_price row = committed_base) schedule)) 0)"

text \<open>The candidates in order of first appearance, then the first whose curried hash matches.\<close>

fun price_candidates :: "u64 list \<Rightarrow> schedule_generation list \<Rightarrow> u64 list" where
  "price_candidates candidates [] = candidates"
| "price_candidates candidates (row # rows) =
     price_candidates
       (if List.member candidates (base_price row) then candidates
        else candidates @ [base_price row]) rows"

definition committed_base_from_pricing_puzzle ::
  "('n, 'z) sdk_scheme \<Rightarrow> bytes32 \<Rightarrow> u64 \<Rightarrow> schedule_generation list \<Rightarrow> u64 option"
where
  "committed_base_from_pricing_puzzle sdk pricing_puzzle_hash period schedule =
     find (\<lambda>price. sdk_factor_pricing_hash sdk price period = pricing_puzzle_hash)
       (price_candidates [LAUNCH_BASE_PRICE] schedule)"

section \<open>The price in force\<close>

definition due :: "u64 \<Rightarrow> schedule_generation \<Rightarrow> bool" where
  "due t row \<longleftrightarrow> activation_timestamp row \<le> t"

lemma effective_base_loop_eq:
  "effective_base_loop price rows t =
     (case last_opt (filter (due t) rows) of None \<Rightarrow> price | Some row \<Rightarrow> base_price row)"
  by (induction rows arbitrary: price) (auto simp: due_def last_opt_def split: option.splits)

lemma effective_base_at_eq:
  "effective_base_at schedule t =
     (case last_opt (filter (due t) schedule) of
        None \<Rightarrow> LAUNCH_BASE_PRICE | Some row \<Rightarrow> base_price row)"
  by (simp add: effective_base_at_def effective_base_loop_eq)

lemma rposition_None: "rposition p xs = None \<longleftrightarrow> filter p xs = []"
  by (induction xs) (auto split: option.splits)

lemma rposition_Some:
  "rposition p xs = Some i \<Longrightarrow>
     i < length xs \<and> p (xs ! i) \<and> filter p (drop (Suc i) xs) = [] \<and> last_opt (filter p xs) = Some (xs ! i)"
proof (induction xs arbitrary: i)
  case (Cons x xs)
  show ?case
  proof (cases "rposition p xs")
    case None
    with Cons.prems show ?thesis by (auto simp: rposition_None split: if_splits)
  next
    case (Some j)
    with Cons.IH [OF Some] Cons.prems show ?thesis by (auto simp: last_opt_def split: if_splits)
  qed
qed simp

lemma position_bound: "position p xs = Some i \<Longrightarrow> i < length xs"
  by (induction xs arbitrary: i) (auto split: if_splits)

lemma remaining_unroll_start_bound: "remaining_unroll_start schedule committed t \<le> length schedule"
proof -
  let ?q = "rposition (\<lambda>row. activation_timestamp row \<le> t) schedule"
  let ?p = "position (\<lambda>row. base_price row = committed) schedule"
  have "unwrap_or (map_option (\<lambda>i. i + 1) ?q) 0 \<le> length schedule"
    by (cases ?q) (auto dest: rposition_Some)
  moreover have "unwrap_or (map_option (\<lambda>i. i + 1) ?p) 0 \<le> length schedule"
    by (cases ?p) (auto dest: position_bound)
  ultimately show ?thesis by (simp add: remaining_unroll_start_def Let_def)
qed

lemma drop_due_sorted:
  assumes "sorted (map activation_timestamp xs)" and "i < length xs" and "due t (xs ! i)"
    and "filter (due t) (drop (Suc i) xs) = []"
  shows "drop (Suc i) xs = filter (\<lambda>row. t < activation_timestamp row) xs"
proof -
  have "\<forall>row \<in> set (take (Suc i) xs). activation_timestamp row \<le> t"
  proof
    fix row
    assume "row \<in> set (take (Suc i) xs)"
    then obtain j where "j \<le> i" and "row = xs ! j"
      by (auto simp: in_set_conv_nth less_Suc_eq_le)
    with assms(1,2) have "activation_timestamp row \<le> activation_timestamp (xs ! i)"
      by (auto dest: sorted_nth_mono [where i = j and j = i])
    with assms(3) show "activation_timestamp row \<le> t" by (simp add: due_def)
  qed
  then have "filter (\<lambda>row. t < activation_timestamp row) (take (Suc i) xs) = []"
    by (auto simp: filter_empty_conv not_less)
  moreover have "filter (\<lambda>row. t < activation_timestamp row) (drop (Suc i) xs) = drop (Suc i) xs"
    using assms(4) by (auto simp: filter_id_conv filter_empty_conv due_def not_le)
  ultimately show ?thesis
    by (metis append_Nil append_take_drop_id filter_append)
qed

lemma set_price_candidates:
  "set (price_candidates cs rows) = set cs \<union> base_price ` set rows"
  by (induction rows arbitrary: cs) auto

text \<open>
  \<open>effective_base_at\<close> is the base price of the last generation already due, or the launch price 1
  when none is. When the schedule is in activation order and the committed price is the one in force,
  the unrolls that \<open>GET /price\<close> lists are exactly the generations still in the future, and the slice
  \<open>schedule[start..]\<close> is never out of range.
\<close>

theorem remaining_unrolls_are_future:
  assumes "sorted (map activation_timestamp schedule)"
    and "committed = effective_base_at schedule t"
  shows "remaining_unroll_start schedule committed t \<le> length schedule \<and>
    drop (remaining_unroll_start schedule committed t) schedule =
      filter (\<lambda>row. t < activation_timestamp row) schedule"
proof (cases "rposition (\<lambda>row. activation_timestamp row \<le> t) schedule")
  case None
  then have "\<forall>row \<in> set schedule. t < activation_timestamp row"
    by (auto simp: rposition_None filter_empty_conv not_le)
  moreover from None have "filter (due t) schedule = []"
    by (simp add: rposition_None due_def [abs_def])
  ultimately show ?thesis
    using None assms(2)
    by (simp add: remaining_unroll_start_def effective_base_at_eq filter_True)
next
  case (Some i)
  then have i: "rposition (due t) schedule = Some i" by (simp add: due_def [abs_def])
  from rposition_Some [OF this]
  have "i < length schedule" "due t (schedule ! i)" "filter (due t) (drop (Suc i) schedule) = []"
    "last_opt (filter (due t) schedule) = Some (schedule ! i)"
    by auto
  moreover from this have "remaining_unroll_start schedule committed t = Suc i"
    using Some assms(2) by (simp add: remaining_unroll_start_def effective_base_at_eq)
  ultimately show ?thesis
    using drop_due_sorted [OF assms(1)] by simp
qed

lemma testnet11_sorted: "sorted (map activation_timestamp testnet11_generations)"
  by (simp add: testnet11_generations_def TESTNET11_PRICE_SCHEDULE_def)

theorem remaining_unrolls_are_future_witness:
  "remaining_unroll_start testnet11_generations (effective_base_at testnet11_generations 1786935600)
      1786935600 \<le> length testnet11_generations \<and>
   drop
     (remaining_unroll_start testnet11_generations
       (effective_base_at testnet11_generations 1786935600) 1786935600) testnet11_generations =
   filter (\<lambda>row. 1786935600 < activation_timestamp row) testnet11_generations"
  by (rule remaining_unrolls_are_future [OF testnet11_sorted refl])

lemma ucast_u64_inj: "inj (ucast :: u64 \<Rightarrow> bytes32)"
  proof (rule injI)
  fix a b :: u64
  assume "(ucast a :: bytes32) = ucast b"
  then have "unat (ucast a :: bytes32) = unat (ucast b :: bytes32)" by simp
  then show "a = b" by (simp add: unat_ucast_up word_unat_eq_iff)
qed

text \<open>
  Reading the committed base price back from a registry's pricing puzzle hash: whatever is found is
  the launch price or a price of the schedule and has that hash; and when the hash tells the
  candidate prices apart, the price that was committed is the one found.
\<close>

theorem committed_base_sound_complete:
  assumes "inj_on (\<lambda>price. sdk_factor_pricing_hash sdk price period)
      (insert LAUNCH_BASE_PRICE (base_price ` set schedule))"
  shows "committed_base_from_pricing_puzzle sdk hash period schedule = Some price \<longleftrightarrow>
    price \<in> insert LAUNCH_BASE_PRICE (base_price ` set schedule) \<and>
    sdk_factor_pricing_hash sdk price period = hash"
proof
  let ?cs = "price_candidates [LAUNCH_BASE_PRICE] schedule"
  have cs: "set ?cs = insert LAUNCH_BASE_PRICE (base_price ` set schedule)"
    by (simp add: set_price_candidates)
  show "price \<in> insert LAUNCH_BASE_PRICE (base_price ` set schedule) \<and>
      sdk_factor_pricing_hash sdk price period = hash"
    if "committed_base_from_pricing_puzzle sdk hash period schedule = Some price"
  proof -
    from that have "price \<in> set ?cs" and "sdk_factor_pricing_hash sdk price period = hash"
      unfolding committed_base_from_pricing_puzzle_def by (auto dest: find_SomeD)
    then show ?thesis by (simp add: cs)
  qed
  show "committed_base_from_pricing_puzzle sdk hash period schedule = Some price"
    if p: "price \<in> insert LAUNCH_BASE_PRICE (base_price ` set schedule) \<and>
      sdk_factor_pricing_hash sdk price period = hash"
  proof -
    from p have "price \<in> set ?cs" unfolding cs by blast
    with p have "find (\<lambda>price. sdk_factor_pricing_hash sdk price period = hash) ?cs \<noteq> None"
      unfolding find_None_iff by blast
    then obtain q where q: "find (\<lambda>price. sdk_factor_pricing_hash sdk price period = hash) ?cs = Some q"
      by auto
    then have "q \<in> set ?cs" and "sdk_factor_pricing_hash sdk q period = hash"
      using find_SomeD [OF q] by blast+
    then have "q = price" using p by (intro inj_onD [OF assms]) (simp_all only: cs)
    with q show ?thesis by (simp add: committed_base_from_pricing_puzzle_def)
  qed
qed

theorem committed_base_sound_complete_witness:
  "committed_base_from_pricing_puzzle fixture_sdk 7 31557600 testnet11_generations = Some 7 \<longleftrightarrow>
    7 \<in> insert LAUNCH_BASE_PRICE (base_price ` set testnet11_generations) \<and>
    sdk_factor_pricing_hash fixture_sdk 7 31557600 = 7"
  by (rule committed_base_sound_complete) (simp only: fixture_sdk_simps inj_on_subset [OF ucast_u64_inj subset_UNIV])

end
