(* ===== verification/AuctionPricing.thy ===== *)
theory AuctionPricing
  imports Fixture
begin

unbundle bit_operations_syntax

text \<open>
  \<open>src/cli/xchandles/listener/auction_pricing.rs\<close> on 64-bit integers with its 128-bit intermediate
  products, and the puzzle it mirrors, \<open>rue-puzzles/default_puzzles/exponential_premium.rue\<close>, on the
  unbounded integers of CLVM. The premium constants come from the wallet SDK and are parameters.
\<close>

definition DIRECTORY_REGISTRATION_PERIODS :: u64 where
  "DIRECTORY_REGISTRATION_PERIODS = 1"

definition AUCTION_DURATION_SECONDS :: u64 where
  "AUCTION_DURATION_SECONDS = 28 * 86400"

definition PRICING_PROJECTION_OFFSET_SECONDS :: u64 where
  "PRICING_PROJECTION_OFFSET_SECONDS = 420"

definition SOON_WINDOW_SECONDS :: u64 where
  "SOON_WINDOW_SECONDS = 30 * 86400"

definition HALVING_PERIOD :: u64 where
  "HALVING_PERIOD = 86400"

definition SCALE_FACTOR :: u64 where
  "SCALE_FACTOR = 1000"

definition reaches_base_at :: "u64 \<Rightarrow> u64" where
  "reaches_base_at expiration = saturating_add expiration AUCTION_DURATION_SECONDS"

definition projected_pricing_timestamp :: "u64 \<Rightarrow> u64" where
  "projected_pricing_timestamp confirmed = saturating_add confirmed PRICING_PROJECTION_OFFSET_SECONDS"

definition base_registration_fee :: "('n, 'z) sdk_scheme \<Rightarrow> u64 \<Rightarrow> string \<Rightarrow> u64" where
  "base_registration_fee sdk price handle =
     sdk_factor_price sdk price handle DIRECTORY_REGISTRATION_PERIODS"

text \<open>\<open>for bit in PREMIUM_BITS_LIST\<close>: the product is taken in 128 bits and cast back to 64.\<close>

fun premium_loop :: "u64 \<Rightarrow> u64 \<Rightarrow> u64 \<Rightarrow> u64 \<Rightarrow> u64 list \<Rightarrow> u64" where
  "premium_loop precision fraction_part acc premium [] = premium"
| "premium_loop precision fraction_part acc premium (factor # bits) =
     premium_loop precision fraction_part (push_bit 1 acc)
       (if fraction_part AND acc \<noteq> 0
        then ucast (((ucast premium :: u128) * ucast factor) div ucast precision)
        else premium) bits"

definition premium_after_elapsed :: "('n, 'z) sdk_scheme \<Rightarrow> u64 \<Rightarrow> u64" where
  "premium_after_elapsed sdk elapsed =
     (let start_premium = sdk_start_premium sdk SCALE_FACTOR;
          end_value = sdk_end_value sdk SCALE_FACTOR;
          whole_periods = elapsed div HALVING_PERIOD;
          fraction_part = (65536 * (elapsed mod HALVING_PERIOD)) div HALVING_PERIOD;
          premium = start_premium div push_bit (unat whole_periods) 1
      in saturating_sub
           (premium_loop (sdk_premium_precision sdk) fraction_part 1 premium (sdk_premium_bits sdk))
           end_value)"

definition auction_premium :: "('n, 'z) sdk_scheme \<Rightarrow> u64 \<Rightarrow> u64 \<Rightarrow> u64" where
  "auction_premium sdk expiration buy_time =
     (if buy_time < expiration then 0
      else
        (let elapsed = buy_time - expiration
         in if AUCTION_DURATION_SECONDS \<le> elapsed then 0 else premium_after_elapsed sdk elapsed))"

definition total_registration_fee :: "('n, 'z) sdk_scheme \<Rightarrow> u64 \<Rightarrow> string \<Rightarrow> u64 \<Rightarrow> u64 \<Rightarrow> u64" where
  "total_registration_fee sdk price handle expiration buy_time =
     saturating_add (base_registration_fee sdk price handle)
       (auction_premium sdk expiration buy_time)"

section \<open>The puzzle\<close>

fun add_fractional_part :: "int \<Rightarrow> int list \<Rightarrow> int \<Rightarrow> int \<Rightarrow> int \<Rightarrow> int" where
  "add_fractional_part PRECISION [] acc fraction_part premium = premium"
| "add_fractional_part PRECISION (factor # bits) acc fraction_part premium =
     add_fractional_part PRECISION bits (push_bit 1 acc) fraction_part
       (if fraction_part AND acc \<noteq> 0 then premium * factor div PRECISION else premium)"

definition correct_premium :: "int \<Rightarrow> int \<Rightarrow> int" where
  "correct_premium premium END_VALUE =
     (if END_VALUE < premium then premium - END_VALUE else 0)"

text \<open>\<open>main\<close> of the puzzle, the premium it adds to the base program's price.\<close>

definition puzzle_premium :: "int \<Rightarrow> int \<Rightarrow> int \<Rightarrow> int \<Rightarrow> int list \<Rightarrow> int \<Rightarrow> int \<Rightarrow> int" where
  "puzzle_premium HALVING START_PREMIUM END_VALUE PRECISION BITS_LIST Buy_Time Current_Expiration =
     correct_premium
       (add_fractional_part PRECISION BITS_LIST 1
         (65536 * ((Buy_Time - Current_Expiration) mod HALVING) div HALVING)
         (START_PREMIUM div push_bit (nat ((Buy_Time - Current_Expiration) div HALVING)) 1))
       END_VALUE"

section \<open>The listener's premium is the puzzle's\<close>

text \<open>What the SDK's constants satisfy: at most 63 precision bits, each at most one whole.\<close>

definition premium_constants_ok :: "('n, 'z) sdk_scheme \<Rightarrow> bool" where
  "premium_constants_ok sdk \<longleftrightarrow>
     0 < sdk_premium_precision sdk \<and> length (sdk_premium_bits sdk) \<le> 63 \<and>
     list_all (\<lambda>b. b \<le> sdk_premium_precision sdk) (sdk_premium_bits sdk)"

lemma unat_scaled_product:
  fixes p b d :: u64
  assumes "0 < d" and "b \<le> d"
  shows "unat (ucast (((ucast p :: u128) * ucast b) div ucast d) :: u64) =
      unat p * unat b div unat d"
    and "unat p * unat b div unat d \<le> unat p"
proof -
  have d: "0 < unat d" using assms(1) by (simp add: word_less_nat_alt)
  have pb: "unat p < 2 ^ 64" "unat b < 2 ^ 64"
    using unsigned_less [of p] unsigned_less [of b] by auto
  have "unat p * unat b \<le> (2 ^ 64 - 1) * (2 ^ 64 - 1)"
    using pb by (intro mult_le_mono) auto
  also have "\<dots> < 2 ^ 128" by simp
  finally have "unat ((ucast p :: u128) * ucast b) = unat p * unat b"
    by (simp add: unat_times_no_overflow unat_ucast_up)
  then have q: "unat (((ucast p :: u128) * ucast b) div ucast d) = unat p * unat b div unat d"
    by (simp add: unat_div unat_ucast_up)
  have "unat p * unat b div unat d \<le> unat p * unat d div unat d"
    using assms(2) by (intro div_le_mono mult_le_mono2) (simp add: word_le_nat_alt)
  also have "\<dots> = unat p" using d by simp
  finally show le: "unat p * unat b div unat d \<le> unat p" .
  with pb have "unat p * unat b div unat d < 2 ^ 64" by simp
  with q show "unat (ucast (((ucast p :: u128) * ucast b) div ucast d) :: u64) =
      unat p * unat b div unat d"
    by (simp add: unsigned_ucast_eq take_bit_nat_eq_self)
qed

lemma premium_loop_le:
  assumes "0 < d" and "list_all (\<lambda>b. b \<le> d) bits"
  shows "premium_loop d fraction acc p bits \<le> p"
  using assms(2)
proof (induction bits arbitrary: acc p)
  case (Cons b bits)
  then have "b \<le> d" by simp
  note unat_scaled_product [OF assms(1) this, of p]
  then have "(if fraction AND acc \<noteq> 0
      then ucast (((ucast p :: u128) * ucast b) div ucast d) else p) \<le> p"
    by (simp add: word_le_nat_alt)
  moreover have "list_all (\<lambda>b. b \<le> d) bits" using Cons.prems by simp
  ultimately show ?case
    unfolding premium_loop.simps by (rule order_trans [OF Cons.IH, rotated])
qed simp

lemma uint_and_word: "uint (a AND b) = uint a AND uint b"
  by (simp add: unsigned_and_eq)

lemma push_bit_acc:
  fixes i :: nat
  assumes "i < 63"
  shows "push_bit 1 (2 ^ i :: u64) = 2 ^ Suc i"
  using assms by (simp add: push_bit_eq_mult)

lemma uint_power2:
  assumes "i < 64"
  shows "uint (2 ^ i :: u64) = 2 ^ i"
proof -
  have "(2 :: int) ^ i < 2 ^ 64" using assms by (intro power_strict_increasing) auto
  then have "take_bit 64 (2 ^ i :: int) = 2 ^ i" by (simp only: take_bit_int_eq_self_iff) simp
  then have "uint (word_of_int (2 ^ i) :: u64) = 2 ^ i"
    by (simp only: uint_word_of_int_eq len_num1 len_bit0 len_bit1) simp
  then show ?thesis by (simp only: word_of_int_2p)
qed

lemma premium_loop_int:
  assumes "0 < d" and "list_all (\<lambda>b. b \<le> d) bits" and "i + length bits \<le> 63"
  shows "uint (premium_loop d fraction (2 ^ i) p bits) =
    add_fractional_part (uint d) (map uint bits) (2 ^ i) (uint fraction) (uint p)"
  using assms(2,3)
proof (induction bits arbitrary: i p)
  case (Cons b bits)
  then have b: "b \<le> d" and i: "i < 63" "Suc i + length bits \<le> 63" by auto
  have "uint (fraction AND 2 ^ i) = uint fraction AND 2 ^ i"
    using i(1) by (simp only: uint_and_word uint_power2)
  then have hit: "fraction AND 2 ^ i = 0 \<longleftrightarrow> uint fraction AND 2 ^ i = 0"
    by (metis uint_0_iff)
  have scaled: "uint (ucast (((ucast p :: u128) * ucast b) div ucast d) :: u64) =
      uint p * uint b div uint d"
    using arg_cong [where f = int, OF unat_scaled_product(1) [OF assms(1) b, of p]]
    by (simp only: of_nat_unat of_nat_mult zdiv_int)
  have step: "uint (if fraction AND 2 ^ i \<noteq> 0
        then ucast (((ucast p :: u128) * ucast b) div ucast d) else p) =
      (if uint fraction AND 2 ^ i \<noteq> 0 then uint p * uint b div uint d else uint p)"
    by (simp only: hit scaled if_distrib [of uint])
  have shift: "push_bit 1 (2 ^ i :: int) = 2 ^ Suc i" by (simp add: push_bit_eq_mult)
  have bits: "list_all (\<lambda>b. b \<le> d) bits" using Cons.prems by simp
  show ?case
    unfolding premium_loop.simps list.map add_fractional_part.simps push_bit_acc [OF i(1)] shift
    by (simp only: Cons.IH [OF bits i(2)] step)
qed simp

text \<open>The product the fraction of a day is read from does not wrap.\<close>

lemma unat_fraction_product: "unat (65536 * (e mod HALVING_PERIOD)) = 65536 * (unat e mod 86400)" for e :: u64
proof -
  have m: "unat (e mod HALVING_PERIOD) = unat e mod 86400" by (simp add: HALVING_PERIOD_def unat_mod)
  have "65536 * (unat e mod 86400) \<le> 65536 * (86400 :: nat)" by (intro mult_le_mono) auto
  also have "\<dots> < 2 ^ 64" by simp
  finally have "unat (65536 :: u64) * (unat e mod 86400) < 2 ^ 64" by simp
  then show ?thesis by (simp add: unat_times_no_overflow m)
qed

text \<open>The whole and fractional part of an elapsed time inside the auction.\<close>

lemma elapsed_parts:
  fixes e :: u64
  assumes "e < AUCTION_DURATION_SECONDS"
  shows "unat (e div HALVING_PERIOD) = unat e div 86400" and "unat e div 86400 < 28"
    and "uint ((65536 * (e mod HALVING_PERIOD)) div HALVING_PERIOD) =
      65536 * (uint e mod 86400) div 86400"
proof -
  show "unat (e div HALVING_PERIOD) = unat e div 86400"
    by (simp add: HALVING_PERIOD_def unat_div)
  have "unat e < 28 * 86400"
    using assms by (simp add: AUCTION_DURATION_SECONDS_def word_less_nat_alt)
  then show "unat e div 86400 < 28" by (simp add: less_mult_imp_div_less)
  have "unat ((65536 * (e mod HALVING_PERIOD)) div HALVING_PERIOD) =
      65536 * (unat e mod 86400) div 86400"
    by (simp add: unat_div unat_fraction_product) (simp add: HALVING_PERIOD_def)
  from arg_cong [where f = int, OF this]
  show "uint ((65536 * (e mod HALVING_PERIOD)) div HALVING_PERIOD) =
      65536 * (uint e mod 86400) div 86400"
    by (simp only: of_nat_unat of_nat_mult zdiv_int zmod_int of_nat_numeral)
qed

lemma uint_start_periods:
  fixes s :: u64
  assumes "k < 28"
  shows "uint (s div push_bit k 1) = uint s div push_bit k 1"
proof -
  have "push_bit k (1 :: u64) = 2 ^ k" and "push_bit k (1 :: int) = 2 ^ k"
    by (simp_all add: push_bit_eq_mult)
  then show ?thesis using assms by (simp only: uint_div uint_power2)
qed

lemma uint_saturating_sub:
  "uint (saturating_sub a b) = correct_premium (uint a) (uint b)"
  by (auto simp: saturating_sub_def correct_premium_def word_le_def uint_sub_lem [THEN iffD1])

lemma premium_after_elapsed_puzzle:
  assumes "premium_constants_ok sdk" and e: "elapsed < AUCTION_DURATION_SECONDS"
    and "uint elapsed = buy - exp"
  shows "uint (premium_after_elapsed sdk elapsed) =
    puzzle_premium 86400 (uint (sdk_start_premium sdk SCALE_FACTOR))
      (uint (sdk_end_value sdk SCALE_FACTOR)) (uint (sdk_premium_precision sdk))
      (map uint (sdk_premium_bits sdk)) buy exp"
proof -
  let ?d = "sdk_premium_precision sdk" and ?bits = "sdk_premium_bits sdk"
  let ?k = "unat (elapsed div HALVING_PERIOD)"
  have ok: "0 < ?d" "list_all (\<lambda>b. b \<le> ?d) ?bits" "0 + length ?bits \<le> 63"
    using assms(1) by (auto simp: premium_constants_ok_def)
  note parts = elapsed_parts [OF e]
  have k: "?k < 28" using parts by simp
  have "int (unat elapsed div 86400) = uint elapsed div 86400"
    by (simp add: zdiv_int)
  then have nat_k: "nat (uint elapsed div 86400) = ?k" using parts(1) by simp
  note loop = premium_loop_int [OF ok, of "(65536 * (elapsed mod HALVING_PERIOD)) div HALVING_PERIOD"
      "sdk_start_premium sdk SCALE_FACTOR div push_bit ?k 1", simplified power_0]
  show ?thesis
    unfolding premium_after_elapsed_def puzzle_premium_def Let_def uint_saturating_sub
    by (simp only: loop parts(3) uint_start_periods [OF k] nat_k flip: assms(3))
qed

lemma add_fractional_part_le:
  assumes "0 < d" and "list_all (\<lambda>b. 0 \<le> b \<and> b \<le> d) bits" and "0 \<le> p"
  shows "0 \<le> add_fractional_part d bits acc fraction p \<and> add_fractional_part d bits acc fraction p \<le> p"
  using assms(2,3)
proof (induction bits arbitrary: acc p)
  case (Cons b bits)
  then have "p * b \<le> p * d" by (intro mult_left_mono) auto
  then have "p * b div d \<le> p * d div d" using assms(1) by (rule zdiv_mono1)
  moreover have "p * d div d = p" using assms(1) by simp
  moreover have "0 \<le> p * b div d"
    using assms(1) Cons.prems by (simp add: pos_imp_zdiv_nonneg_iff)
  ultimately have "0 \<le> (if fraction AND acc \<noteq> 0 then p * b div d else p) \<and>
      (if fraction AND acc \<noteq> 0 then p * b div d else p) \<le> p"
    using Cons.prems by simp
  moreover have "list_all (\<lambda>b. 0 \<le> b \<and> b \<le> d) bits" using Cons.prems by simp
  ultimately show ?case
    unfolding add_fractional_part.simps
    using Cons.IH [of "if fraction AND acc \<noteq> 0 then p * b div d else p" "push_bit 1 acc"]
    by (meson order_trans)
qed simp

lemma puzzle_premium_over:
  assumes "0 < d" and "list_all (\<lambda>b. 0 \<le> b \<and> b \<le> d) bits" and "0 \<le> start"
    and "start div 2 ^ 28 \<le> end_value" and "28 * 86400 \<le> buy - expiration"
  shows "puzzle_premium 86400 start end_value d bits buy expiration = 0"
proof -
  let ?k = "nat ((buy - expiration) div 86400)"
  have "28 * 86400 div 86400 \<le> (buy - expiration) div 86400"
    using assms(5) by (rule zdiv_mono1) simp
  then have "28 \<le> ?k" by simp
  then have "(2 :: int) ^ 28 \<le> 2 ^ ?k" by (intro power_increasing) auto
  then have "start div 2 ^ ?k \<le> start div 2 ^ 28"
    using assms(3) by (intro zdiv_mono2) auto
  moreover have shift: "push_bit ?k (1 :: int) = 2 ^ ?k" by (simp add: push_bit_eq_mult)
  moreover have "0 \<le> start div 2 ^ ?k"
    using assms(3) by (simp add: pos_imp_zdiv_nonneg_iff)
  ultimately have "add_fractional_part d bits 1 f (start div push_bit ?k 1) \<le> end_value" for f
    using add_fractional_part_le [OF assms(1,2), of "start div 2 ^ ?k" 1 f] assms(4)
    unfolding shift by linarith
  then show ?thesis
    unfolding puzzle_premium_def correct_premium_def by (intro if_not_P leD)
qed

text \<open>
  C33. For every purchase at or after the expiration, the listener's auction premium, computed with
  64-bit integers, 128-bit products and an early cut at day 28, is the premium the on-chain pricing
  puzzle computes on unbounded integers: nothing overflows or is truncated on the way.
\<close>

theorem auction_premium_mirrors_puzzle:
  assumes "premium_constants_ok sdk"
    and "sdk_start_premium sdk SCALE_FACTOR div 2 ^ 28 \<le> sdk_end_value sdk SCALE_FACTOR"
    and "expiration \<le> buy_time"
  shows "uint (auction_premium sdk expiration buy_time) =
    puzzle_premium 86400 (uint (sdk_start_premium sdk SCALE_FACTOR))
      (uint (sdk_end_value sdk SCALE_FACTOR)) (uint (sdk_premium_precision sdk))
      (map uint (sdk_premium_bits sdk)) (uint buy_time) (uint expiration)"
proof -
  have e: "uint (buy_time - expiration) = uint buy_time - uint expiration"
    using assms(3) by (simp add: word_le_def uint_sub_lem [THEN iffD1])
  show ?thesis
  proof (cases "AUCTION_DURATION_SECONDS \<le> buy_time - expiration")
    case False
    with assms(3) have "auction_premium sdk expiration buy_time =
        premium_after_elapsed sdk (buy_time - expiration)"
      by (auto simp: auction_premium_def Let_def)
    then show ?thesis
      using premium_after_elapsed_puzzle [OF assms(1) not_le_imp_less [OF False] e] by simp
  next
    case True
    then have "uint AUCTION_DURATION_SECONDS \<le> uint (buy_time - expiration)"
      by (simp only: word_le_def)
    then have over: "28 * 86400 \<le> uint buy_time - uint expiration"
      by (simp add: e AUCTION_DURATION_SECONDS_def)
    have cap: "uint (sdk_start_premium sdk SCALE_FACTOR) div 2 ^ 28
        \<le> uint (sdk_end_value sdk SCALE_FACTOR)"
      using assms(2) by (simp only: word_le_def uint_div uint_power2)
    have "0 < uint (sdk_premium_precision sdk)"
      "list_all (\<lambda>b. 0 \<le> b \<and> b \<le> uint (sdk_premium_precision sdk)) (map uint (sdk_premium_bits sdk))"
      using assms(1)
      by (auto simp: premium_constants_ok_def list_all_iff word_le_def word_less_def)
    from puzzle_premium_over [OF this uint_ge_0 cap over] True show ?thesis
      by (simp add: auction_premium_def Let_def)
  qed
qed

lemma fixture_premium_constants_ok: "premium_constants_ok fixture_sdk"
  by (simp add: premium_constants_ok_def fixture_bits_def)

theorem auction_premium_mirrors_puzzle_witness:
  "uint (auction_premium fixture_sdk 0 3600) =
    puzzle_premium 86400 (uint (sdk_start_premium fixture_sdk SCALE_FACTOR))
      (uint (sdk_end_value fixture_sdk SCALE_FACTOR)) (uint (sdk_premium_precision fixture_sdk))
      (map uint (sdk_premium_bits fixture_sdk)) (uint (3600 :: u64)) (uint (0 :: u64))"
  by (rule auction_premium_mirrors_puzzle [OF fixture_premium_constants_ok])
    (simp_all add: SCALE_FACTOR_def)

text \<open>One step of the loop is exact.\<close>

lemma premium_step_exact:
  assumes "premium_constants_ok sdk" and "b \<in> set (sdk_premium_bits sdk)"
  shows "unat (premium_loop (sdk_premium_precision sdk) fraction acc p [b]) =
    (if fraction AND acc \<noteq> 0 then unat p * unat b div unat (sdk_premium_precision sdk) else unat p)"
  using assms by (auto simp: premium_constants_ok_def list_all_iff unat_scaled_product(1))

text \<open>
  C34. The premium is zero before the expiration and from day 28 on, and never exceeds the start
  premium less the end value in between; the total fee is the base fee and the premium together, cut at the
  largest 64-bit number, and so at most the base fee plus that. No product on the way wraps, and none is cut by the cast back to
  64 bits: for every factor of the list and every premium so far a step of the loop is the exact product over the
  precision, and the product the fraction of a day is read from is exact too.
\<close>

theorem auction_premium_bounds:
  assumes "premium_constants_ok sdk"
  shows "(buy_time < expiration \<longrightarrow> auction_premium sdk expiration buy_time = 0) \<and>
    (unat expiration + 28 * 86400 \<le> unat buy_time \<longrightarrow> auction_premium sdk expiration buy_time = 0) \<and>
    unat (auction_premium sdk expiration buy_time)
      \<le> unat (sdk_start_premium sdk SCALE_FACTOR) - unat (sdk_end_value sdk SCALE_FACTOR) \<and>
    unat (total_registration_fee sdk price handle expiration buy_time) =
      min (2 ^ 64 - 1) (unat (base_registration_fee sdk price handle) + unat (auction_premium sdk expiration buy_time)) \<and>
    unat (total_registration_fee sdk price handle expiration buy_time)
      \<le> unat (base_registration_fee sdk price handle) +
        (unat (sdk_start_premium sdk SCALE_FACTOR) - unat (sdk_end_value sdk SCALE_FACTOR)) \<and>
    (\<forall>b \<in> set (sdk_premium_bits sdk). \<forall>fraction acc p.
       unat (premium_loop (sdk_premium_precision sdk) fraction acc p [b]) =
         (if fraction AND acc \<noteq> 0 then unat p * unat b div unat (sdk_premium_precision sdk) else unat p)) \<and>
    unat (65536 * ((buy_time - expiration) mod HALVING_PERIOD)) = 65536 * (unat (buy_time - expiration) mod 86400)"
proof -
  let ?start = "sdk_start_premium sdk SCALE_FACTOR" and ?final = "sdk_end_value sdk SCALE_FACTOR"
  have late: "AUCTION_DURATION_SECONDS \<le> buy_time - expiration"
    if "unat expiration + 28 * 86400 \<le> unat buy_time"
  proof -
    from that have "expiration \<le> buy_time" by (simp add: word_le_nat_alt)
    then have "unat (buy_time - expiration) = unat buy_time - unat expiration" by (rule unat_sub)
    with that show ?thesis by (simp add: AUCTION_DURATION_SECONDS_def word_le_nat_alt)
  qed
  have "unat (premium_after_elapsed sdk e) \<le> unat ?start - unat ?final" for e
  proof -
    let ?p = "?start div push_bit (unat (e div HALVING_PERIOD)) 1"
    have "premium_loop (sdk_premium_precision sdk) f 1 ?p (sdk_premium_bits sdk) \<le> ?p" for f
      using assms by (intro premium_loop_le) (auto simp: premium_constants_ok_def)
    moreover have "unat ?p \<le> unat ?start" by (simp add: unat_div div_le_dividend)
    ultimately show ?thesis
      by (simp add: premium_after_elapsed_def Let_def word_le_nat_alt)
        (meson diff_le_mono order_trans)
  qed
  then have bound: "unat (auction_premium sdk expiration buy_time) \<le> unat ?start - unat ?final"
    by (simp add: auction_premium_def Let_def)
  moreover from bound have "unat (total_registration_fee sdk price handle expiration buy_time)
      \<le> unat (base_registration_fee sdk price handle) + (unat ?start - unat ?final)"
    by (simp add: total_registration_fee_def)
  moreover have "unat (total_registration_fee sdk price handle expiration buy_time) =
      min (2 ^ 64 - 1) (unat (base_registration_fee sdk price handle) + unat (auction_premium sdk expiration buy_time))"
    by (simp add: total_registration_fee_def saturating_add_def unat_plus_no_overflow)
  moreover have "buy_time < expiration \<longrightarrow> auction_premium sdk expiration buy_time = 0"
    and "unat expiration + 28 * 86400 \<le> unat buy_time \<longrightarrow> auction_premium sdk expiration buy_time = 0"
    using late by (simp_all add: auction_premium_def)
  moreover note unat_fraction_product
  ultimately show ?thesis using premium_step_exact [OF assms] by blast
qed

theorem auction_premium_bounds_witness:
  "auction_premium fixture_sdk 100000 86400 = 0 \<and>
    unat (auction_premium fixture_sdk 100000 186400)
      \<le> unat (sdk_start_premium fixture_sdk SCALE_FACTOR) - unat (sdk_end_value fixture_sdk SCALE_FACTOR) \<and>
    unat (premium_loop (sdk_premium_precision fixture_sdk) 1 1 100000000000 [hd (sdk_premium_bits fixture_sdk)]) =
      100000000000 * unat (hd (sdk_premium_bits fixture_sdk)) div unat (sdk_premium_precision fixture_sdk)"
proof -
  have "hd (sdk_premium_bits fixture_sdk) \<in> set (sdk_premium_bits fixture_sdk)" by (simp add: fixture_bits_def)
  moreover have "unat (100000000000 :: u64) = 100000000000" by simp
  moreover have "(1 :: u64) AND 1 \<noteq> 0" by simp
  ultimately show ?thesis
    using auction_premium_bounds [OF fixture_premium_constants_ok, of 86400 100000]
      auction_premium_bounds [OF fixture_premium_constants_ok, of 186400 100000]
    by (auto simp del: fixture_sdk_simps premium_loop.simps)
qed

text \<open>The values the repository's own tests fix: hour 0 and hour 1 of the auction.\<close>

lemma auction_premium_day0: "auction_premium fixture_sdk 0 0 = 99999999628"
  by (simp add: auction_premium_def premium_after_elapsed_def Let_def AUCTION_DURATION_SECONDS_def
      HALVING_PERIOD_def SCALE_FACTOR_def fixture_bits_def saturating_sub_def)

lemma auction_premium_hour1: "auction_premium fixture_sdk 0 3600 = 97153878776"
  by (simp add: auction_premium_def premium_after_elapsed_def Let_def AUCTION_DURATION_SECONDS_def
      HALVING_PERIOD_def SCALE_FACTOR_def fixture_bits_def saturating_sub_def)

end
