(* ===== verification/ListenerApi.thy ===== *)
theory ListenerApi
  imports Indexer ApiError PriceSchedule AuctionPricing Decimal
begin

text \<open>
  \<open>src/cli/xchandles/listener/api.rs\<close>: the HTTP API over the stores. A request is answered from one
  snapshot of the stores and one reading of the clock; the request id of an error and the clock are in
  \<open>request_env\<close>. The router, the CORS layer and the JSON text of a response are axum's and serde's.

  \<open>rows[limit - 1]\<close> panics for \<open>limit = 0\<close>; the listing of expiring handles therefore has the outcome
  \<open>Panicked\<close>, and every other path is \<open>Returned\<close> with a result.
\<close>

record registry_pricing =
  rg_base_price :: u64
  rg_registration_period :: u64

definition registry_pricing_default :: registry_pricing where
  "registry_pricing_default =
     \<lparr>rg_base_price = BASE_PRICE_AT_FACTOR_ONE, rg_registration_period = REGISTRATION_PERIOD\<rparr>"

record listener_api_state =
  ap_store :: singleton_store
  ap_handle_slots :: handle_store
  ap_registrations :: registration_store
  ap_pending_updates :: pending_store
  ap_freshness :: freshness_state
  ap_registry_pricing :: "(bytes32, registry_pricing) hash_map"
  ap_price_schedule :: "schedule_generation list"
  ap_committed_base_price :: "(bytes32, u64) hash_map"
  ap_registry_launcher_ids :: "bytes32 list"
  ap_now_unix_override :: "u64 option"

definition listener_api_new ::
  "singleton_store \<Rightarrow> handle_store \<Rightarrow> registration_store \<Rightarrow> pending_store \<Rightarrow> freshness_state
    \<Rightarrow> bytes32 list \<Rightarrow> listener_api_state"
where
  "listener_api_new store slots regs pend freshness ids =
     \<lparr>ap_store = store, ap_handle_slots = slots, ap_registrations = regs, ap_pending_updates = pend,
      ap_freshness = freshness,
      ap_registry_pricing = foldl (\<lambda>m i. hm_insert i registry_pricing_default m) [] ids,
      ap_price_schedule = [],
      ap_committed_base_price = foldl (\<lambda>m i. hm_insert i (rg_base_price registry_pricing_default) m) [] ids,
      ap_registry_launcher_ids = ids, ap_now_unix_override = None\<rparr>"

record request_env =
  env_clock :: u64
  env_uuid :: string

definition now_unix :: "listener_api_state \<Rightarrow> request_env \<Rightarrow> u64" where
  "now_unix st env = unwrap_or (ap_now_unix_override st) (env_clock env)"

definition require_fresh :: "listener_api_state \<Rightarrow> request_env \<Rightarrow> api_error + (u32 \<times> u64)" where
  "require_fresh st env =
     (let f = ap_freshness st
      in if \<not> is_fresh f (now_unix st env)
         then Inl (index_stale (env_uuid env) (indexed_peak_height f) (upstream_peak_height f))
         else Inr (indexed_peak_height f, confirmed_timestamp f))"

section \<open>Cursors and windows\<close>

definition encode_cursor :: "u64 \<Rightarrow> string \<Rightarrow> string" where
  "encode_cursor expiration handle = ''v1.'' @ show_nat (unat expiration) @ ''.'' @ handle"

definition decode_cursor :: "string \<Rightarrow> (u64 \<times> string) option" where
  "decode_cursor cursor =
     Option.bind (strip_prefix ''v1.'' cursor) (\<lambda>rest.
     Option.bind (split_once (CHR ''.'') rest) (\<lambda>(expiration_raw, handle).
     Option.bind (parse_u64 expiration_raw) (\<lambda>expiration.
       if is_canonical_handle handle then Some (expiration, handle) else None)))"

definition active_expiration_window :: "u64 \<Rightarrow> u64 \<Rightarrow> u64 \<times> u64" where
  "active_expiration_window now projected =
     (let min_expiration = (case checked_sub projected AUCTION_DURATION_SECONDS of
                              None \<Rightarrow> 0
                            | Some left_exclusive \<Rightarrow> saturating_add left_exclusive 1)
      in (min_expiration, min now projected))"

definition soon_expiration_window :: "u64 \<Rightarrow> u64 \<times> u64" where
  "soon_expiration_window now = (saturating_add now 1, saturating_add now SOON_WINDOW_SECONDS)"

section \<open>Responses\<close>

definition state_to_response ::
  "('n, 'z) sdk_scheme \<Rightarrow> stored_singleton_state \<Rightarrow> u32 \<Rightarrow> bool \<Rightarrow> singleton_response"
where
  "state_to_response sdk state peak include_metadata =
     \<lparr>sp_launcher_id = hex32 sdk (ss_launcher_id state),
      sp_parent_coin_id = hex32 sdk (ss_parent_coin_id state),
      sp_amount = ss_amount state,
      sp_inner_puzzle_hash = hex32 sdk (ss_inner_puzzle_hash state),
      sp_confirmation_height = ss_confirmation_height state,
      sp_melted = ss_melted state,
      sp_melt_height = ss_melt_height state,
      sp_nft = map_option (\<lambda>n. to_public sdk n include_metadata) (ss_nft state),
      sp_indexed_peak_height = peak\<rparr>"

definition slot_to_json :: "('n, 'z) sdk_scheme \<Rightarrow> stored_handle_slot \<Rightarrow> handle_slot_json" where
  "slot_to_json sdk slot =
     \<lparr>hj_counter = sh_counter slot, hj_handle_hash = hex32 sdk (sh_handle_hash slot),
      hj_neighbors = \<lparr>nj_left_value = hex32 sdk (sh_neighbors_left slot),
                      nj_right_value = hex32 sdk (sh_neighbors_right slot)\<rparr>,
      hj_expiration = sh_expiration slot,
      hj_owner_launcher_id = hex32 sdk (sh_owner_launcher_id slot),
      hj_resolved_launcher_id = hex32 sdk (sh_resolved_launcher_id slot)\<rparr>"

fun action_kind_str :: "registration_action_kind \<Rightarrow> string" where
  "action_kind_str KindRegister = ''register''"
| "action_kind_str KindExpire = ''expire''"

definition registration_to_response ::
  "('n, 'z) sdk_scheme \<Rightarrow> stored_registration \<Rightarrow> u32 \<Rightarrow> registration_response"
where
  "registration_to_response sdk reg peak =
     \<lparr>rp_handle = sr_handle reg, rp_registration_secret = hex32 sdk (sr_registration_secret reg),
      rp_action_kind = action_kind_str (sr_action_kind reg), rp_protocol_fee = sr_protocol_fee reg,
      rp_confirmation_height = sr_confirmation_height reg, rp_indexed_peak_height = peak\<rparr>"

section \<open>Lookups\<close>

text \<open>The three answers of a followed singleton's status, with the errors of the caller.\<close>

definition current_response ::
  "('n, 'z) sdk_scheme \<Rightarrow> api_error \<Rightarrow> api_error \<Rightarrow> followed_singleton \<Rightarrow> u32 \<Rightarrow> bool
    \<Rightarrow> api_error + singleton_response"
where
  "current_response sdk incomplete mismatch rec peak include_metadata =
     (case fs_status rec of
        FollowIncomplete \<Rightarrow> Inl incomplete
      | FollowMismatch \<Rightarrow> Inl mismatch
      | FollowActive \<Rightarrow>
          try_result (ok_or (fs_current rec) incomplete)
            (\<lambda>current. Inr (state_to_response sdk current peak include_metadata)))"

definition lookup_singleton ::
  "('n, 'z) sdk_scheme \<Rightarrow> request_env \<Rightarrow> listener_api_state \<Rightarrow> bytes32 \<Rightarrow> bool
    \<Rightarrow> api_error + singleton_response"
where
  "lookup_singleton sdk env st launcher_id include_metadata =
     try_result (require_fresh st env) (\<lambda>(peak, _).
     try_result (ok_or (singleton_get (ap_store st) launcher_id)
                   (singleton_not_followed (env_uuid env))) (\<lambda>rec.
       if finalized peak rec then Inl (singleton_not_followed (env_uuid env))
       else current_response sdk (singleton_incomplete (env_uuid env))
              (singleton_mismatch (env_uuid env)) rec peak include_metadata))"

definition select_registry ::
  "('n, 'z) sdk_scheme \<Rightarrow> request_env \<Rightarrow> listener_api_state \<Rightarrow> string option \<Rightarrow> api_error + bytes32"
where
  "select_registry sdk env st param =
     (case param of
        None \<Rightarrow> (case ap_registry_launcher_ids st of
                   [] \<Rightarrow> Inl (registry_not_followed (env_uuid env))
                 | i # _ \<Rightarrow> Inr i)
      | Some raw \<Rightarrow>
          try_result (ok_or (parse_launcher_id sdk raw) (invalid_launcher_id (env_uuid env))) (\<lambda>i.
            if i \<in> set (ap_registry_launcher_ids st) then Inr i
            else Inl (registry_not_followed (env_uuid env))))"

definition lookup_resolved_for_proof ::
  "('n, 'z) sdk_scheme \<Rightarrow> request_env \<Rightarrow> listener_api_state \<Rightarrow> bytes32 \<Rightarrow> u32 \<Rightarrow> bool
    \<Rightarrow> api_error + singleton_response"
where
  "lookup_resolved_for_proof sdk env st launcher_id peak include_metadata =
     try_result (ok_or (singleton_get (ap_store st) launcher_id)
                   (resolution_incomplete (env_uuid env))) (\<lambda>rec.
       current_response sdk (resolution_incomplete (env_uuid env))
         (resolution_mismatch (env_uuid env)) rec peak include_metadata)"

definition performable_pending_transfer ::
  "('n, 'z) sdk_scheme \<Rightarrow> request_env \<Rightarrow> listener_api_state \<Rightarrow> bytes32 \<Rightarrow> bytes32 \<Rightarrow> stored_handle_slot
    \<Rightarrow> pending_transfer_response option"
where
  "performable_pending_transfer sdk env st registry handle_hash slot =
     (if sh_expiration slot \<le> now_unix st env then None
      else
        Option.bind (Option.bind (pending_get (ap_pending_updates st) (registry, handle_hash)) pr_current)
          (\<lambda>pending.
        Option.bind (singleton_get (ap_store st) (sh_owner_launcher_id slot)) (\<lambda>owner_rec.
          if fs_status owner_rec \<noteq> FollowActive then None
          else
            Option.bind (fs_current owner_rec) (\<lambda>owner.
              if ss_melted owner then None
              else if ss_parent_coin_id owner \<noteq> su_update_initiator_coin_id pending then None
              else Some
                \<lparr>pt_new_owner_launcher_id = hex32 sdk (su_new_owner_launcher_id pending),
                 pt_new_resolved_launcher_id = hex32 sdk (su_new_resolved_launcher_id pending),
                 pt_update_confirmation_height = su_update_confirmation_height pending,
                 pt_minimum_execution_height = su_minimum_execution_height pending,
                 pt_initiator_coin_id = hex32 sdk (su_update_initiator_coin_id pending),
                 pt_executor_coin_id = hex32 sdk (ss_coin_id owner)\<rparr>))))"

definition lookup_handle_proof ::
  "('n, 'z) sdk_scheme \<Rightarrow> request_env \<Rightarrow> listener_api_state \<Rightarrow> string \<Rightarrow> handle_query
    \<Rightarrow> api_error + handle_proof_response"
where
  "lookup_handle_proof sdk env st handle query =
     (if \<not> is_canonical_handle handle then Inl (invalid_handle (env_uuid env))
      else
        try_result (select_registry sdk env st (hq_launcher_id query)) (\<lambda>registry.
        try_result (require_fresh st env) (\<lambda>(peak, _).
          let handle_hash = sdk_str_tree_hash sdk handle
          in try_result (ok_or (handle_get (ap_handle_slots st) (registry, handle_hash))
                           (handle_not_found (env_uuid env))) (\<lambda>rec.
             try_result (ok_or (hr_current rec) (handle_not_found (env_uuid env))) (\<lambda>slot.
               if sh_expiration slot \<le> now_unix st env \<and> \<not> hq_bypass_expiration_safety_check query
               then Inl (handle_expired (env_uuid env) (sh_expiration slot))
               else
                 try_result (lookup_resolved_for_proof sdk env st (sh_resolved_launcher_id slot)
                               peak (hq_include_metadata query)) (\<lambda>resolved.
                   Inr \<lparr>hp_registry_launcher_id = hex32 sdk registry, hp_handle = handle,
                        hp_slot = slot_to_json sdk slot,
                        hp_slot_parent_id = hex32 sdk (sh_parent_coin_id slot),
                        hp_slot_parent_parent_id = hex32 sdk (sh_parent_parent_id slot),
                        hp_slot_parent_inner_puzzle_hash = hex32 sdk (sh_parent_inner_puzzle_hash slot),
                        hp_slot_confirmation_height = sh_confirmation_height slot,
                        hp_resolved_singleton = resolved, hp_indexed_peak_height = peak,
                        hp_pending_transfer =
                          performable_pending_transfer sdk env st registry handle_hash slot\<rparr>))))))"

definition lookup_registration ::
  "('n, 'z) sdk_scheme \<Rightarrow> request_env \<Rightarrow> listener_api_state \<Rightarrow> string \<Rightarrow> registration_query
    \<Rightarrow> api_error + registration_response"
where
  "lookup_registration sdk env st handle query =
     (if \<not> is_canonical_handle handle then Inl (invalid_handle (env_uuid env))
      else
        try_result (select_registry sdk env st (rq_launcher_id query)) (\<lambda>registry.
        try_result (require_fresh st env) (\<lambda>(peak, _).
        try_result (ok_or (registration_get (ap_registrations st) (registry, sdk_str_tree_hash sdk handle))
                      (handle_not_found (env_uuid env))) (\<lambda>rec.
        try_result (ok_or (rr_current rec) (handle_not_found (env_uuid env))) (\<lambda>reg.
          Inr (registration_to_response sdk reg peak))))))"

definition lookup_registrations_recent ::
  "('n, 'z) sdk_scheme \<Rightarrow> request_env \<Rightarrow> listener_api_state \<Rightarrow> recent_registrations_query
    \<Rightarrow> api_error + recent_registrations_response"
where
  "lookup_registrations_recent sdk env st query =
     try_result (select_registry sdk env st (nq_launcher_id query)) (\<lambda>registry.
     try_result (require_fresh st env) (\<lambda>(peak, _).
       let limit = unat (min (unwrap_or (nq_limit query) 50) 50);
           stats = get_stats (ap_registrations st) registry
       in Inr \<lparr>np_items = map (\<lambda>ev. \<lparr>ri_handle = ev_handle ev,
                   ri_action_kind = action_kind_str (ev_action_kind ev),
                   ri_confirmation_height = ev_confirmation_height ev\<rparr>)
                 (take limit (rev (st_events stats))),
               np_total_registered = st_total_registered stats, np_indexed_peak_height = peak\<rparr>))"

definition lookup_pending_transfer ::
  "('n, 'z) sdk_scheme \<Rightarrow> request_env \<Rightarrow> listener_api_state \<Rightarrow> string \<Rightarrow> pending_transfer_query
    \<Rightarrow> api_error + pending_transfer_response option"
where
  "lookup_pending_transfer sdk env st handle query =
     (if \<not> is_canonical_handle handle then Inl (invalid_handle (env_uuid env))
      else
        try_result (select_registry sdk env st (tq_launcher_id query)) (\<lambda>registry.
        try_result (require_fresh st env) (\<lambda>_.
          let handle_hash = sdk_str_tree_hash sdk handle
          in try_result (ok_or (handle_get (ap_handle_slots st) (registry, handle_hash))
                           (handle_not_found (env_uuid env))) (\<lambda>rec.
             try_result (ok_or (hr_current rec) (handle_not_found (env_uuid env))) (\<lambda>slot.
               Inr (performable_pending_transfer sdk env st registry handle_hash slot))))))"

section \<open>Expiring handles\<close>

text \<open>
  \<open>rows.len() > limit\<close>, then \<open>&rows[limit - 1]\<close>: for \<open>limit = 0\<close> the index underflows, which panics or
  indexes out of bounds.
\<close>

definition next_cursor_of :: "('a \<Rightarrow> u64 \<times> string) \<Rightarrow> 'a list \<Rightarrow> nat \<Rightarrow> string option outcome" where
  "next_cursor_of key rows limit =
     (if limit < length rows then
        (if limit = 0 then Panicked
         else Returned (Some (let last = rows ! (limit - 1)
                              in encode_cursor (fst (key last)) (snd (key last)))))
      else Returned None)"

definition page_limit :: "expiring_query \<Rightarrow> nat" where
  "page_limit query = unat (min (unwrap_or (eq_limit query) 50) 50)"

definition query_cursor :: "expiring_query \<Rightarrow> cursor option" where
  "query_cursor query = Option.bind (eq_cursor query) decode_cursor"

definition active_item ::
  "('n, 'z) sdk_scheme \<Rightarrow> u64 \<Rightarrow> u64 \<Rightarrow> string \<times> stored_handle_slot \<Rightarrow> expiring_active_item"
where
  "active_item sdk price projected row =
     (let (handle, slot) = row;
          premium = auction_premium sdk (sh_expiration slot) projected;
          base = base_registration_fee sdk price handle
      in \<lparr>ea_handle = handle, ea_expiration = sh_expiration slot,
          ea_projected_pricing_timestamp = projected, ea_current_premium = premium,
          ea_total_registration_fee = saturating_add base premium,
          ea_base_registration_fee = base,
          ea_reaches_base_at = reaches_base_at (sh_expiration slot)\<rparr>)"

definition lookup_expiring_active ::
  "('n, 'z) sdk_scheme \<Rightarrow> request_env \<Rightarrow> listener_api_state \<Rightarrow> expiring_query
    \<Rightarrow> (api_error + expiring_active_response) outcome"
where
  "lookup_expiring_active sdk env st query =
     (case select_registry sdk env st (eq_launcher_id query) of
        Inl e \<Rightarrow> Returned (Inl e)
      | Inr registry \<Rightarrow>
     (case require_fresh st env of
        Inl e \<Rightarrow> Returned (Inl e)
      | Inr (peak, confirmed) \<Rightarrow>
          (let now = now_unix st env;
               projected = projected_pricing_timestamp confirmed;
               pricing = unwrap_or (hm_get (ap_registry_pricing st) registry) registry_pricing_default;
               limit = page_limit query;
               (lo, hi) = active_expiration_window now projected;
               named = list_named_in_expiration_window (ap_handle_slots st) registry lo hi
                         (query_cursor query) (limit + 1) (ap_registrations st);
               rows = filter (\<lambda>item. ea_current_premium item \<noteq> 0)
                        (map (active_item sdk (rg_base_price pricing) projected) named)
           in case next_cursor_of (\<lambda>r. (ea_expiration r, ea_handle r)) rows limit of
                Panicked \<Rightarrow> Panicked
              | Returned next_cursor \<Rightarrow>
                  Returned (Inr \<lparr>er_items = take limit rows, er_next_cursor = next_cursor,
                                 er_indexed_peak_height = peak, er_confirmed_timestamp = confirmed\<rparr>))))"

definition soon_item ::
  "('n, 'z) sdk_scheme \<Rightarrow> u64 \<Rightarrow> string \<times> stored_handle_slot \<Rightarrow> expiring_soon_item"
where
  "soon_item sdk price row =
     \<lparr>es_handle = fst row, es_expiration = sh_expiration (snd row),
      es_base_registration_fee = base_registration_fee sdk price (fst row)\<rparr>"

definition lookup_expiring_soon ::
  "('n, 'z) sdk_scheme \<Rightarrow> request_env \<Rightarrow> listener_api_state \<Rightarrow> expiring_query
    \<Rightarrow> (api_error + expiring_soon_response) outcome"
where
  "lookup_expiring_soon sdk env st query =
     (case select_registry sdk env st (eq_launcher_id query) of
        Inl e \<Rightarrow> Returned (Inl e)
      | Inr registry \<Rightarrow>
     (case require_fresh st env of
        Inl e \<Rightarrow> Returned (Inl e)
      | Inr (peak, confirmed) \<Rightarrow>
          (let now = now_unix st env;
               pricing = unwrap_or (hm_get (ap_registry_pricing st) registry) registry_pricing_default;
               limit = page_limit query;
               (lo, hi) = soon_expiration_window now;
               named = list_named_in_expiration_window (ap_handle_slots st) registry lo hi
                         (query_cursor query) (limit + 1) (ap_registrations st);
               rows = map (soon_item sdk (rg_base_price pricing)) named
           in case next_cursor_of (\<lambda>r. (es_expiration r, es_handle r)) rows limit of
                Panicked \<Rightarrow> Panicked
              | Returned next_cursor \<Rightarrow>
                  Returned (Inr \<lparr>eo_items = take limit rows, eo_next_cursor = next_cursor,
                                 eo_indexed_peak_height = peak, eo_confirmed_timestamp = confirmed\<rparr>))))"

section \<open>Price and schedule\<close>

definition lookup_price ::
  "('n, 'z) sdk_scheme \<Rightarrow> request_env \<Rightarrow> listener_api_state \<Rightarrow> price_query \<Rightarrow> api_error + price_response"
where
  "lookup_price sdk env st query =
     try_result (select_registry sdk env st (pq_launcher_id query)) (\<lambda>registry.
     try_result (require_fresh st env) (\<lambda>(peak, confirmed).
       let committed = hm_get (ap_committed_base_price st) registry;
           pricing = hm_get (ap_registry_pricing st) registry;
           current = unwrap_or (case committed of Some c \<Rightarrow> Some c
                                | None \<Rightarrow> map_option rg_base_price pricing) 1;
           start = remaining_unroll_start (ap_price_schedule st) current confirmed
       in Inr \<lparr>pp_indexed_peak_height = peak, pp_confirmed_timestamp = confirmed,
               pp_current_base_price = current, pp_unrolls = drop start (ap_price_schedule st)\<rparr>))"

definition lookup_schedule ::
  "('n, 'z) sdk_scheme \<Rightarrow> request_env \<Rightarrow> listener_api_state \<Rightarrow> price_query \<Rightarrow> api_error + schedule_response"
where
  "lookup_schedule sdk env st query =
     try_result (select_registry sdk env st (pq_launcher_id query)) (\<lambda>_.
       Inr \<lparr>sc_generations = ap_price_schedule st\<rparr>)"

section \<open>Handlers\<close>

text \<open>
  A \<open>GET\<close> handler answers with the JSON body of its lookup, a \<open>HEAD\<close> handler runs the same lookup and
  answers with the status alone.
\<close>

definition get_singleton ::
  "('n, 'z) sdk_scheme \<Rightarrow> request_env \<Rightarrow> listener_api_state \<Rightarrow> string \<Rightarrow> singleton_query
    \<Rightarrow> api_error + singleton_response"
where
  "get_singleton sdk env st launcher_id_raw query =
     try_result (ok_or (parse_launcher_id sdk launcher_id_raw) (invalid_launcher_id (env_uuid env)))
       (\<lambda>launcher_id. lookup_singleton sdk env st launcher_id (sq_include_metadata query))"

definition head_singleton ::
  "('n, 'z) sdk_scheme \<Rightarrow> request_env \<Rightarrow> listener_api_state \<Rightarrow> string \<Rightarrow> singleton_query
    \<Rightarrow> api_error + status_code"
where
  "head_singleton sdk env st launcher_id_raw query =
     try_result (ok_or (parse_launcher_id sdk launcher_id_raw) (invalid_launcher_id (env_uuid env)))
       (\<lambda>launcher_id. try_result (lookup_singleton sdk env st launcher_id (sq_include_metadata query))
         (\<lambda>_. Inr OK))"

definition get_handle ::
  "('n, 'z) sdk_scheme \<Rightarrow> request_env \<Rightarrow> listener_api_state \<Rightarrow> string \<Rightarrow> handle_query
    \<Rightarrow> api_error + handle_proof_response"
where
  "get_handle sdk env st handle query =
     try_result (lookup_handle_proof sdk env st handle query) (\<lambda>body. Inr body)"

definition head_handle ::
  "('n, 'z) sdk_scheme \<Rightarrow> request_env \<Rightarrow> listener_api_state \<Rightarrow> string \<Rightarrow> handle_query
    \<Rightarrow> api_error + status_code"
where
  "head_handle sdk env st handle query =
     try_result (lookup_handle_proof sdk env st handle query) (\<lambda>_. Inr OK)"

definition get_registration ::
  "('n, 'z) sdk_scheme \<Rightarrow> request_env \<Rightarrow> listener_api_state \<Rightarrow> string \<Rightarrow> registration_query
    \<Rightarrow> api_error + registration_response"
where
  "get_registration sdk env st handle query =
     try_result (lookup_registration sdk env st handle query) (\<lambda>body. Inr body)"

definition head_registration ::
  "('n, 'z) sdk_scheme \<Rightarrow> request_env \<Rightarrow> listener_api_state \<Rightarrow> string \<Rightarrow> registration_query
    \<Rightarrow> api_error + status_code"
where
  "head_registration sdk env st handle query =
     try_result (lookup_registration sdk env st handle query) (\<lambda>_. Inr OK)"

definition get_registrations_recent ::
  "('n, 'z) sdk_scheme \<Rightarrow> request_env \<Rightarrow> listener_api_state \<Rightarrow> recent_registrations_query
    \<Rightarrow> api_error + recent_registrations_response"
where
  "get_registrations_recent sdk env st query =
     try_result (lookup_registrations_recent sdk env st query) (\<lambda>body. Inr body)"

definition head_registrations_recent ::
  "('n, 'z) sdk_scheme \<Rightarrow> request_env \<Rightarrow> listener_api_state \<Rightarrow> recent_registrations_query
    \<Rightarrow> api_error + status_code"
where
  "head_registrations_recent sdk env st query =
     try_result (lookup_registrations_recent sdk env st query) (\<lambda>_. Inr OK)"

definition get_pending_transfer ::
  "('n, 'z) sdk_scheme \<Rightarrow> request_env \<Rightarrow> listener_api_state \<Rightarrow> string \<Rightarrow> pending_transfer_query
    \<Rightarrow> api_error + status_code \<times> pending_transfer_response option"
where
  "get_pending_transfer sdk env st handle query =
     try_result (lookup_pending_transfer sdk env st handle query) (\<lambda>found.
       case found of
         Some body \<Rightarrow> Inr (OK, Some body)
       | None \<Rightarrow> Inr (NO_CONTENT, None))"

definition head_pending_transfer ::
  "('n, 'z) sdk_scheme \<Rightarrow> request_env \<Rightarrow> listener_api_state \<Rightarrow> string \<Rightarrow> pending_transfer_query
    \<Rightarrow> api_error + status_code"
where
  "head_pending_transfer sdk env st handle query =
     try_result (lookup_pending_transfer sdk env st handle query) (\<lambda>found.
       case found of Some _ \<Rightarrow> Inr OK | None \<Rightarrow> Inr NO_CONTENT)"

datatype expiring_body = ActiveBody expiring_active_response | SoonBody expiring_soon_response

definition get_expiring ::
  "('n, 'z) sdk_scheme \<Rightarrow> request_env \<Rightarrow> listener_api_state \<Rightarrow> expiring_query
    \<Rightarrow> (api_error + expiring_body) outcome"
where
  "get_expiring sdk env st query =
     (case parse_view (eq_view query) of
        Some Active \<Rightarrow>
          map_outcome (\<lambda>r. try_result r (\<lambda>body. Inr (ActiveBody body))) (lookup_expiring_active sdk env st query)
      | Some Soon \<Rightarrow>
          map_outcome (\<lambda>r. try_result r (\<lambda>body. Inr (SoonBody body))) (lookup_expiring_soon sdk env st query)
      | None \<Rightarrow> Returned (Inl (invalid_view (env_uuid env))))"

definition head_expiring ::
  "('n, 'z) sdk_scheme \<Rightarrow> request_env \<Rightarrow> listener_api_state \<Rightarrow> expiring_query
    \<Rightarrow> (api_error + status_code) outcome"
where
  "head_expiring sdk env st query =
     (case parse_view (eq_view query) of
        Some Active \<Rightarrow>
          map_outcome (\<lambda>r. try_result r (\<lambda>_. Inr OK)) (lookup_expiring_active sdk env st query)
      | Some Soon \<Rightarrow>
          map_outcome (\<lambda>r. try_result r (\<lambda>_. Inr OK)) (lookup_expiring_soon sdk env st query)
      | None \<Rightarrow> Returned (Inl (invalid_view (env_uuid env))))"

definition get_price ::
  "('n, 'z) sdk_scheme \<Rightarrow> request_env \<Rightarrow> listener_api_state \<Rightarrow> price_query \<Rightarrow> api_error + price_response"
where
  "get_price sdk env st query = try_result (lookup_price sdk env st query) (\<lambda>body. Inr body)"

definition head_price ::
  "('n, 'z) sdk_scheme \<Rightarrow> request_env \<Rightarrow> listener_api_state \<Rightarrow> price_query \<Rightarrow> api_error + status_code"
where
  "head_price sdk env st query = try_result (lookup_price sdk env st query) (\<lambda>_. Inr OK)"

definition get_schedule ::
  "('n, 'z) sdk_scheme \<Rightarrow> request_env \<Rightarrow> listener_api_state \<Rightarrow> price_query \<Rightarrow> api_error + schedule_response"
where
  "get_schedule sdk env st query = try_result (lookup_schedule sdk env st query) (\<lambda>body. Inr body)"

definition head_schedule ::
  "('n, 'z) sdk_scheme \<Rightarrow> request_env \<Rightarrow> listener_api_state \<Rightarrow> price_query \<Rightarrow> api_error + status_code"
where
  "head_schedule sdk env st query = try_result (lookup_schedule sdk env st query) (\<lambda>_. Inr OK)"

end
