(* ===== verification/Listen.thy ===== *)
theory Listen
  imports XchSync IndexerFollow IndexerProjection ListenerApi
begin

text \<open>
  \<open>xchandles/listen.rs\<close>: the process around the indexer. It synchronizes the registries, replays their
  transitions into the indexer, catches up with the followed NFTs, and then handles one peak of the
  chain after the other: it detects reorganizations in a window of recent peaks, follows the new blocks
  and publishes prices and freshness.

  The state of a connection is one record; the indexer's stores are the ones of \<open>Indexer\<close> (the stores
  over the database refine them, see \<open>DbStores\<close>). A run returns its result with the state it leaves,
  also when it fails half-way; \<open>None\<close> is a run that does not return: still walking when its fuel is
  spent, or panicked. The websocket, the HTTP server and the printed messages are not modelled.
\<close>

record 'c listener =
  ls_indexer :: singleton_indexer
  ls_db :: db
  ls_registry_pricing :: "(bytes32, registry_pricing) hash_map"
  ls_committed_base_price :: "(bytes32, u64) hash_map"
  ls_registries :: "'c registry list"
  ls_last_followed_height :: u32
  ls_recent_peaks :: "(u32 \<times> bytes32) list"

type_synonym ('c, 'a) run = "((cli_error + 'a) \<times> 'c listener) option"

definition run_then :: "('c, 'a) run \<Rightarrow> ('a \<Rightarrow> 'c listener \<Rightarrow> ('c, 'b) run) \<Rightarrow> ('c, 'b) run" where
  "run_then r k =
     (case r of
        None \<Rightarrow> None
      | Some (Inl e, st) \<Rightarrow> Some (Inl e, st)
      | Some (Inr x, st) \<Rightarrow> k x st)"

definition run_read :: "cli_error + 'a \<Rightarrow> 'c listener \<Rightarrow> ('c, 'a) run" where
  "run_read answer st = Some (answer, st)"

definition run_db :: "(db \<Rightarrow> 'a db_result option) \<Rightarrow> 'c listener \<Rightarrow> ('c, 'a) run" where
  "run_db f st = map_option (\<lambda>(r, db). (r, st\<lparr>ls_db := db\<rparr>)) (f (ls_db st))"

fun run_each :: "('a \<Rightarrow> 'c listener \<Rightarrow> ('c, unit) run) \<Rightarrow> 'a list \<Rightarrow> 'c listener \<Rightarrow> ('c, unit) run" where
  "run_each f [] st = Some (Inr (), st)"
| "run_each f (x # xs) st = run_then (f x st) (\<lambda>_. run_each f xs)"

definition on_indexer :: "(singleton_indexer \<Rightarrow> singleton_indexer) \<Rightarrow> 'c listener \<Rightarrow> 'c listener" where
  "on_indexer f st = st\<lparr>ls_indexer := f (ls_indexer st)\<rparr>"

lemma run_then_simps [simp]:
  "run_then None k = None" "run_then (Some (Inl e, st)) k = Some (Inl e, st)"
  "run_then (Some (Inr x, st)) k = k x st"
  by (simp_all add: run_then_def)

lemma run_read_simps [simp]: "run_read answer st = Some (answer, st)"
  by (simp add: run_read_def)

lemma on_indexer_simps [simp]:
  "ls_indexer (on_indexer f st) = f (ls_indexer st)" "ls_db (on_indexer f st) = ls_db st"
  "ls_registries (on_indexer f st) = ls_registries st"
  "ls_recent_peaks (on_indexer f st) = ls_recent_peaks st"
  "ls_last_followed_height (on_indexer f st) = ls_last_followed_height st"
  by (simp_all add: on_indexer_def)

section \<open>Prices\<close>

definition schedule_base_price_at :: "u64 \<Rightarrow> bool \<Rightarrow> u64" where
  "schedule_base_price_at now testnet11 = effective_base_at (generations_for_network testnet11) now"

definition pricing_at :: "u64 \<Rightarrow> bool \<Rightarrow> registry_pricing" where
  "pricing_at now testnet11 =
     \<lparr>rg_base_price = schedule_base_price_at now testnet11, rg_registration_period = REGISTRATION_PERIOD\<rparr>"

definition registry_period_or_default :: "'c registry \<Rightarrow> u64" where
  "registry_period_or_default registry = REGISTRATION_PERIOD"

text \<open>\<open>launcher_ids.iter().enumerate()\<close> with \<open>registries.get(i)\<close>: a missing registry commits the effective price.\<close>

definition committed_for ::
  "('n, 'z) sdk_scheme \<Rightarrow> 'c registry list \<Rightarrow> schedule_generation list \<Rightarrow> u64 \<Rightarrow> nat \<Rightarrow> u64"
where
  "committed_for sdk registries schedule effective i =
     unwrap_or
       (if i < length registries
        then committed_base_from_pricing_puzzle sdk (rg_pricing_puzzle_hash (registries ! i))
               (registry_period_or_default (registries ! i)) schedule
        else None) effective"

definition set_schedule_pricing ::
  "('n, 'z) sdk_scheme \<Rightarrow> bytes32 list \<Rightarrow> schedule_generation list \<Rightarrow> u64 \<Rightarrow> bool \<Rightarrow> 'c listener \<Rightarrow> 'c listener"
where
  "set_schedule_pricing sdk launcher_ids schedule now testnet11 st =
     (let pricing = pricing_at now testnet11
      in st\<lparr>ls_registry_pricing := foldl (\<lambda>m i. hm_insert i pricing m) (ls_registry_pricing st) launcher_ids,
            ls_committed_base_price :=
              foldl (\<lambda>m (i, l). hm_insert l
                  (committed_for sdk (ls_registries st) schedule (rg_base_price pricing) i) m)
                (ls_committed_base_price st) (zip [0..<length launcher_ids] launcher_ids)\<rparr>)"

section \<open>The neighbours endpoint\<close>

record neighbors_response =
  nr_left_handle_hash :: string
  nr_right_handle_hash :: string
  nr_left_left_handle_hash :: string
  nr_left_expiration :: u64
  nr_left_counter :: u64
  nr_left_owner_launcher_id :: string
  nr_left_resolved_launcher_id :: string
  nr_left_parent_id :: string
  nr_left_parent_parent_id :: string
  nr_left_parent_inner_puzzle_hash :: string
  nr_right_right_handle_hash :: string
  nr_right_expiration :: u64
  nr_right_counter :: u64
  nr_right_owner_launcher_id :: string
  nr_right_resolved_launcher_id :: string
  nr_right_parent_id :: string
  nr_right_parent_parent_id :: string
  nr_right_parent_inner_puzzle_hash :: string

definition neighbors_json ::
  "('n, 'z) sdk_scheme \<Rightarrow> handle_slot_value slot \<Rightarrow> handle_slot_value slot \<Rightarrow> neighbors_response"
where
  "neighbors_json sdk left right =
     (let l = slot_value left; r = slot_value right
      in \<lparr>nr_left_handle_hash = hex32 sdk (hv_handle_hash l),
          nr_right_handle_hash = hex32 sdk (hv_handle_hash r),
          nr_left_left_handle_hash = hex32 sdk (hv_left_value l),
          nr_left_expiration = hv_expiration l,
          nr_left_counter = hv_counter l,
          nr_left_owner_launcher_id = hex32 sdk (hv_owner_launcher_id l),
          nr_left_resolved_launcher_id = hex32 sdk (hv_resolved_launcher_id l),
          nr_left_parent_id = hex32 sdk (parent_coin_info (slot_coin left)),
          nr_left_parent_parent_id = hex32 sdk (lp_parent_parent_coin_info (slot_proof left)),
          nr_left_parent_inner_puzzle_hash = hex32 sdk (lp_parent_inner_puzzle_hash (slot_proof left)),
          nr_right_right_handle_hash = hex32 sdk (hv_right_value r),
          nr_right_expiration = hv_expiration r,
          nr_right_counter = hv_counter r,
          nr_right_owner_launcher_id = hex32 sdk (hv_owner_launcher_id r),
          nr_right_resolved_launcher_id = hex32 sdk (hv_resolved_launcher_id r),
          nr_right_parent_id = hex32 sdk (parent_coin_info (slot_coin right)),
          nr_right_parent_parent_id = hex32 sdk (lp_parent_parent_coin_info (slot_proof right)),
          nr_right_parent_inner_puzzle_hash = hex32 sdk (lp_parent_inner_puzzle_hash (slot_proof right))\<rparr>)"

definition get_neighbors ::
  "('n, 'z) sdk_scheme \<Rightarrow> handle_slot_value slot_codec \<Rightarrow> db \<Rightarrow> string \<Rightarrow> string \<Rightarrow> cli_error + neighbors_response"
where
  "get_neighbors sdk codec db launcher_id_param handle_hash_param =
     try_result (hex_string_to_bytes32 sdk handle_hash_param) (\<lambda>handle_hash.
     try_result (hex_string_to_bytes32 sdk launcher_id_param) (\<lambda>launcher_id.
     try_result (get_xchandles_neighbors codec launcher_id handle_hash db) (\<lambda>(left, right).
       Inr (neighbors_json sdk left right))))"

section \<open>What a transition brings\<close>

definition block_spends_at_height :: "client \<Rightarrow> u32 \<Rightarrow> cli_error + coin_spend list" where
  "block_spends_at_height client height =
     try_result (cl_block_record client height) (\<lambda>rec.
       case rec of
         None \<Rightarrow> Inr []
       | Some r \<Rightarrow>
           try_result (cl_block_spends client (br_header_hash r)) (\<lambda>spends. Inr (unwrap_or spends [])))"

definition lineage_of_slot :: "'v slot \<Rightarrow> slot_parent_lineage" where
  "lineage_of_slot slot =
     \<lparr>pl_parent_coin_id = parent_coin_info (slot_coin slot),
      pl_parent_parent_id = lp_parent_parent_coin_info (slot_proof slot),
      pl_parent_inner_puzzle_hash = lp_parent_inner_puzzle_hash (slot_proof slot)\<rparr>"

text \<open>A slot that is not there, or cannot be read, leaves no entry.\<close>

definition parent_lineage_by_created_slot_hash ::
  "('n, 'z) sdk_scheme \<Rightarrow> handle_slot_value slot_codec \<Rightarrow> db \<Rightarrow> bytes32 \<Rightarrow> action_log list
    \<Rightarrow> (bytes32, slot_parent_lineage) hash_map"
where
  "parent_lineage_by_created_slot_hash sdk codec db launcher_id logs =
     foldl (\<lambda>m val.
         let value_hash = sdk_slot_tree_hash sdk val
         in case get_slot codec launcher_id (sc_nonce codec) value_hash 0 db of
              Inr (Some slot) \<Rightarrow> hm_insert value_hash (lineage_of_slot slot) m
            | _ \<Rightarrow> m)
       [] (concat (map (sdk_created_handle_slots sdk) logs))"

record indexed_transition =
  it_height :: u32
  it_logs :: "action_log list"
  it_block_spends :: "coin_spend list"
  it_parent_by_value_hash :: "(bytes32, slot_parent_lineage) hash_map"

record 'c sync_batch =
  sb_registry :: "'c registry"
  sb_transitions :: "indexed_transition list"

text \<open>\<open>if let Err(e) = ... { eprintln!(...) }\<close>: the error is printed and what was done so far stays.\<close>

definition apply_registry_transition ::
  "('n, 'z) sdk_scheme \<Rightarrow> bytes32 \<Rightarrow> u32 \<Rightarrow> action_log list \<Rightarrow> coin_spend list
    \<Rightarrow> (bytes32, slot_parent_lineage) hash_map \<Rightarrow> singleton_indexer \<Rightarrow> singleton_indexer"
where
  "apply_registry_transition sdk launcher_id height logs block_spends parents ix =
     (let ix = fst (on_registry_transition sdk height block_spends logs ix);
          ix = project_handle_slots_from_logs sdk launcher_id height logs (hm_get parents) ix;
          ix = project_registrations_from_logs launcher_id height logs ix;
          ix = project_pending_updates_from_logs launcher_id height logs ix
      in fst (on_block sdk height block_spends ix))"

definition index_registry_transition ::
  "('n, 'z) sdk_scheme \<Rightarrow> handle_slot_value slot_codec \<Rightarrow> bytes32 \<Rightarrow> u32 \<Rightarrow> action_log list
    \<Rightarrow> coin_spend list \<Rightarrow> 'c listener \<Rightarrow> 'c listener"
where
  "index_registry_transition sdk codec launcher_id height logs block_spends st =
     on_indexer (apply_registry_transition sdk launcher_id height logs block_spends
       (parent_lineage_by_created_slot_hash sdk codec (ls_db st) launcher_id logs)) st"

section \<open>Following blocks\<close>

definition block_at_height :: "client \<Rightarrow> u32 \<Rightarrow> cli_error + (bytes32 \<times> coin_spend list) option" where
  "block_at_height client height =
     try_result (cl_block_record client height) (\<lambda>rec.
       case rec of
         None \<Rightarrow> Inr None
       | Some r \<Rightarrow>
           try_result (cl_block_spends client (br_header_hash r)) (\<lambda>spends.
             Inr (Some (br_header_hash r, unwrap_or spends []))))"

definition height_range :: "u32 \<Rightarrow> u32 \<Rightarrow> u32 list" where
  "height_range start tip = map word_of_nat [unat start..<Suc (unat tip)]"

fun follow_heights ::
  "('n, 'z) sdk_scheme \<Rightarrow> (u32 \<Rightarrow> cli_error + (bytes32 \<times> coin_spend list) option) \<Rightarrow> u32 list
    \<Rightarrow> singleton_indexer \<Rightarrow> singleton_indexer \<times> (cli_error + (u32 \<times> bytes32) list)"
where
  "follow_heights sdk source [] ix = (ix, Inr [])"
| "follow_heights sdk source (height # heights) ix =
     (case source height of
        Inl e \<Rightarrow> (ix, Inl e)
      | Inr None \<Rightarrow> follow_heights sdk source heights ix
      | Inr (Some (header_hash, spends)) \<Rightarrow>
          (case follow_heights sdk source heights (fst (on_block sdk height spends ix)) of
             (ix', Inl e) \<Rightarrow> (ix', Inl e)
           | (ix', Inr followed) \<Rightarrow> (ix', Inr ((height, header_hash) # followed))))"

definition follow_blocks_after ::
  "('n, 'z) sdk_scheme \<Rightarrow> (u32 \<Rightarrow> cli_error + (bytes32 \<times> coin_spend list) option) \<Rightarrow> u32 \<Rightarrow> u32
    \<Rightarrow> singleton_indexer \<Rightarrow> singleton_indexer \<times> (cli_error + (u32 \<times> bytes32) list)"
where
  "follow_blocks_after sdk source after_height tip ix =
     (let start = saturating_add after_height 1
      in if tip < start then (ix, Inr []) else follow_heights sdk source (height_range start tip) ix)"

section \<open>Registry spends\<close>

text \<open>\<open>CoinsetRegistryChainSource::sync_registry\<close>: synchronize, then fetch what each transition needs.\<close>

fun transitions_with_blocks ::
  "('n, 'z) sdk_scheme \<Rightarrow> handle_slot_value slot_codec \<Rightarrow> client \<Rightarrow> bytes32 \<Rightarrow> db \<Rightarrow> spent_transition list
    \<Rightarrow> cli_error + indexed_transition list"
where
  "transitions_with_blocks sdk codec client launcher_id db [] = Inr []"
| "transitions_with_blocks sdk codec client launcher_id db (transition # transitions) =
     try_result (block_spends_at_height client (xt_height transition)) (\<lambda>block_spends.
     try_result (transitions_with_blocks sdk codec client launcher_id db transitions) (\<lambda>rest.
       Inr (\<lparr>it_height = xt_height transition, it_logs = xt_logs transition, it_block_spends = block_spends,
             it_parent_by_value_hash =
               parent_lineage_by_created_slot_hash sdk codec db launcher_id (xt_logs transition)\<rparr> # rest)))"

definition sync_registry ::
  "nat \<Rightarrow> ('n, 'z) sdk_scheme \<Rightarrow> 'c registry_sdk \<Rightarrow> client \<Rightarrow> bytes32 \<Rightarrow> 'c listener \<Rightarrow> ('c, 'c sync_batch) run"
where
  "sync_registry fuel sdk xs client launcher_id st =
     run_then (run_db (sync_xchandles_detailed fuel sdk xs client launcher_id) st) (\<lambda>synced st.
     run_then (run_read (transitions_with_blocks sdk (xs_slot_codec xs) client launcher_id (ls_db st)
                 (xr_spent_transitions synced)) st) (\<lambda>transitions st.
       Some (Inr \<lparr>sb_registry = xr_registry synced, sb_transitions = transitions\<rparr>, st)))"

text \<open>\<open>process_spent_registry_records\<close>: first the answer is checked against the registries, then each spent registry is synchronized.\<close>

fun records_by_coin_id ::
  "('n, 'z) sdk_scheme \<Rightarrow> (bytes32, coin_record) hash_map \<Rightarrow> coin_record list
    \<Rightarrow> cli_error + (bytes32, coin_record) hash_map"
where
  "records_by_coin_id sdk m [] = Inr m"
| "records_by_coin_id sdk m (rec # records) =
     (let coin_id = sdk_coin_id sdk (cr_coin rec)
      in if hm_get m coin_id \<noteq> None
         then Inl (Custom (''duplicate coin record for registry coin '' @ hex32 sdk coin_id))
         else records_by_coin_id sdk (hm_insert coin_id rec m) records)"

fun check_registry_coins ::
  "('n, 'z) sdk_scheme \<Rightarrow> (bytes32, coin_record) hash_map \<Rightarrow> 'c registry list \<Rightarrow> cli_error + unit"
where
  "check_registry_coins sdk m [] = Inr ()"
| "check_registry_coins sdk m (registry # registries) =
     (let coin_id = sdk_coin_id sdk (rg_coin registry)
      in if hm_get m coin_id = None
         then Inl (Custom (''missing coin record for registry coin '' @ hex32 sdk coin_id))
         else check_registry_coins sdk m registries)"

definition checked_records ::
  "('n, 'z) sdk_scheme \<Rightarrow> 'c registry list \<Rightarrow> coin_record list \<Rightarrow> cli_error + (bytes32, coin_record) hash_map"
where
  "checked_records sdk registries coin_records =
     try_result (records_by_coin_id sdk [] coin_records) (\<lambda>m.
     try_result (check_registry_coins sdk m registries) (\<lambda>_.
       if length m \<noteq> length registries
       then Inl (Custom ''coin record response contained an unexpected registry coin'')
       else Inr m))"

text \<open>\<open>source\<close> is \<open>dyn RegistryChainSource\<close>; \<open>remove(...).expect(...)\<close> panics on a second removal.\<close>

definition apply_batch ::
  "('n, 'z) sdk_scheme \<Rightarrow> bytes32 \<Rightarrow> indexed_transition list \<Rightarrow> singleton_indexer \<Rightarrow> singleton_indexer"
where
  "apply_batch sdk launcher_id transitions ix =
     foldl (\<lambda>ix t. apply_registry_transition sdk launcher_id (it_height t) (it_logs t) (it_block_spends t)
             (it_parent_by_value_hash t) ix) ix transitions"

fun process_registries ::
  "('n, 'z) sdk_scheme \<Rightarrow> 'c registry_sdk \<Rightarrow> (bytes32 \<Rightarrow> 'c listener \<Rightarrow> ('c, 'c sync_batch) run)
    \<Rightarrow> (bytes32, coin_record) hash_map \<Rightarrow> nat list \<Rightarrow> 'c listener \<Rightarrow> ('c, unit) run"
where
  "process_registries sdk xs source m [] st = Some (Inr (), st)"
| "process_registries sdk xs source m (i # is) st =
     (let registry = ls_registries st ! i;
          coin_id = sdk_coin_id sdk (rg_coin registry);
          launcher_id = xs_launcher_id xs (rg_constants registry)
      in case hm_get m coin_id of
           None \<Rightarrow> None
         | Some coin_record \<Rightarrow>
             if \<not> cr_spent coin_record
             then process_registries sdk xs source (hm_remove coin_id m) is st
             else run_then (source launcher_id st) (\<lambda>synced st.
               let st = on_indexer (apply_batch sdk launcher_id (sb_transitions synced)) st;
                   st = st\<lparr>ls_registries := (ls_registries st)[i := sb_registry synced]\<rparr>
               in process_registries sdk xs source (hm_remove coin_id m) is st))"

definition process_spent_registry_records ::
  "('n, 'z) sdk_scheme \<Rightarrow> 'c registry_sdk \<Rightarrow> (bytes32 \<Rightarrow> 'c listener \<Rightarrow> ('c, 'c sync_batch) run)
    \<Rightarrow> coin_record list \<Rightarrow> 'c listener \<Rightarrow> ('c, unit) run"
where
  "process_spent_registry_records sdk xs source coin_records st =
     run_then (run_read (checked_records sdk (ls_registries st) coin_records) st) (\<lambda>m st.
       process_registries sdk xs source m [0..<length (ls_registries st)] st)"

section \<open>Catching up with the followed NFTs\<close>

definition COINSET_NAMES_BATCH :: nat where
  "COINSET_NAMES_BATCH = 500"

text \<open>\<open>coin_ids.chunks(COINSET_NAMES_BATCH)\<close>\<close>

fun batches :: "'a list \<Rightarrow> 'a list list" where
  "batches [] = []"
| "batches (x # xs) =
     take COINSET_NAMES_BATCH (x # xs) # batches (drop (COINSET_NAMES_BATCH - 1) xs)"

fun live_coin_ids :: "singleton_store \<Rightarrow> bytes32 list \<Rightarrow> bytes32 list" where
  "live_coin_ids store [] = []"
| "live_coin_ids store (launcher_id # ids) =
     (let rest = live_coin_ids store ids
      in case singleton_get store launcher_id of
           None \<Rightarrow> rest
         | Some rec \<Rightarrow>
             if fs_status rec \<noteq> FollowActive then rest
             else case fs_current rec of
                    None \<Rightarrow> rest
                  | Some current \<Rightarrow> if ss_melted current then rest else ss_coin_id current # rest)"

fun spent_records :: "client \<Rightarrow> bytes32 list list \<Rightarrow> cli_error + coin_record list" where
  "spent_records client [] = Inr []"
| "spent_records client (batch # rest) =
     try_result (cl_coin_records_by_names client batch) (\<lambda>records.
     try_result (spent_records client rest) (\<lambda>spent.
       Inr (filter cr_spent (unwrap_or records []) @ spent)))"

fun follow_spent ::
  "('n, 'z) sdk_scheme \<Rightarrow> client \<Rightarrow> coin_record list \<Rightarrow> singleton_indexer
    \<Rightarrow> singleton_indexer \<times> (cli_error + unit)"
where
  "follow_spent sdk client [] ix = (ix, Inr ())"
| "follow_spent sdk client (coin_record # records) ix =
     (let coin_id = sdk_coin_id sdk (cr_coin coin_record)
      in case required (cl_puzzle_and_solution client coin_id (Some (cr_spent_block_index coin_record)))
                (CoinNotSpent coin_id) of
           Inl e \<Rightarrow> (ix, Inl e)
         | Inr spend \<Rightarrow>
             follow_spent sdk client records
               (fst (on_block sdk (cr_spent_block_index coin_record) [spend] ix)))"

fun catch_up_followed_nfts ::
  "nat \<Rightarrow> ('n, 'z) sdk_scheme \<Rightarrow> client \<Rightarrow> singleton_indexer
    \<Rightarrow> (singleton_indexer \<times> (cli_error + unit)) option"
where
  "catch_up_followed_nfts 0 sdk client ix = None"
| "catch_up_followed_nfts (Suc fuel) sdk client ix =
     (case spent_records client (batches (live_coin_ids (ix_store ix) (all_launcher_ids (ix_store ix)))) of
        Inl e \<Rightarrow> Some (ix, Inl e)
      | Inr spent \<Rightarrow>
          if spent = [] then Some (ix, Inr ())
          else (case follow_spent sdk client spent ix of
                  (ix', Inl e) \<Rightarrow> Some (ix', Inl e)
                | (ix', Inr _) \<Rightarrow> catch_up_followed_nfts fuel sdk client ix'))"

section \<open>Reorganizations\<close>

fun first_mismatch :: "(u32 \<Rightarrow> bytes32 option) \<Rightarrow> (u32 \<times> bytes32) list \<Rightarrow> u32 option" where
  "first_mismatch hash_at [] = None"
| "first_mismatch hash_at ((height, hash) # stored) =
     (case hash_at height of
        None \<Rightarrow> None
      | Some on_chain \<Rightarrow> if on_chain = hash then first_mismatch hash_at stored else Some height)"

definition reorg_rollback_from ::
  "(u32 \<times> bytes32) list \<Rightarrow> u32 \<Rightarrow> bytes32 \<Rightarrow> (u32 \<Rightarrow> bytes32 option) \<Rightarrow> u32 option"
where
  "reorg_rollback_from stored new_height new_prev_hash hash_at =
     (case last_opt stored of
        None \<Rightarrow> None
      | Some (last_height, last_hash) \<Rightarrow>
          if new_height < last_height then Some (saturating_add new_height 1)
          else if new_height = saturating_add last_height 1 \<and> new_prev_hash = last_hash then None
          else first_mismatch hash_at stored)"

text \<open>The hashes asked for before the scan, and only when the new peak does not simply extend the last.\<close>

definition needs_hash_at :: "(u32 \<times> bytes32) list \<Rightarrow> u32 \<Rightarrow> bytes32 \<Rightarrow> bool" where
  "needs_hash_at recent_peaks tip prev_hash \<longleftrightarrow>
     (case last_opt recent_peaks of
        None \<Rightarrow> False
      | Some (last_height, last_hash) \<Rightarrow> tip \<noteq> saturating_add last_height 1 \<or> prev_hash \<noteq> last_hash)"

fun hash_cache ::
  "client \<Rightarrow> (u32, bytes32) hash_map \<Rightarrow> (u32 \<times> bytes32) list \<Rightarrow> cli_error + (u32, bytes32) hash_map"
where
  "hash_cache client cache [] = Inr cache"
| "hash_cache client cache ((h, _) # peaks) =
     (if hm_get cache h \<noteq> None then hash_cache client cache peaks
      else try_result (cl_block_record client h) (\<lambda>rec.
        hash_cache client
          (case rec of None \<Rightarrow> cache | Some br \<Rightarrow> hm_insert h (br_header_hash br) cache) peaks))"

fun resync_registries ::
  "nat \<Rightarrow> ('n, 'z) sdk_scheme \<Rightarrow> 'c registry_sdk \<Rightarrow> client \<Rightarrow> (nat \<times> bytes32) list \<Rightarrow> 'c listener
    \<Rightarrow> ('c, unit) run"
where
  "resync_registries fuel sdk xs client [] st = Some (Inr (), st)"
| "resync_registries fuel sdk xs client ((i, launcher_id) # ids) st =
     run_then (run_db (sync_xchandles fuel sdk xs client launcher_id) st) (\<lambda>registry st.
       resync_registries fuel sdk xs client ids (st\<lparr>ls_registries := (ls_registries st)[i := registry]\<rparr>))"

definition roll_back_listener :: "u32 \<Rightarrow> 'c listener \<Rightarrow> 'c listener" where
  "roll_back_listener from_height st =
     (let st = on_indexer (rollback from_height) st;
          peaks = filter (\<lambda>(h, _). h < from_height) (ls_recent_peaks st)
      in st\<lparr>ls_recent_peaks := peaks,
            ls_last_followed_height :=
              unwrap_or (map_option fst (last_opt peaks)) (saturating_sub from_height 1)\<rparr>)"

definition handle_reorg ::
  "nat \<Rightarrow> ('n, 'z) sdk_scheme \<Rightarrow> 'c registry_sdk \<Rightarrow> client \<Rightarrow> bytes32 list \<Rightarrow> u32 \<Rightarrow> block_record
    \<Rightarrow> 'c listener \<Rightarrow> ('c, unit) run"
where
  "handle_reorg fuel sdk xs client launcher_ids tip rec st =
     run_then (run_read (if needs_hash_at (ls_recent_peaks st) tip (br_prev_hash rec)
                         then hash_cache client [] (ls_recent_peaks st) else Inr []) st) (\<lambda>cache st.
       case reorg_rollback_from (ls_recent_peaks st) tip (br_prev_hash rec) (hm_get cache) of
         None \<Rightarrow> Some (Inr (), st)
       | Some from_height \<Rightarrow>
           resync_registries fuel sdk xs client (zip [0..<length launcher_ids] launcher_ids)
             (roll_back_listener from_height st))"

section \<open>A new peak\<close>

text \<open>\<open>while height > 0 && confirmed_timestamp == 0\<close>, one block further down each time.\<close>

fun timestamp_before :: "client \<Rightarrow> nat \<Rightarrow> cli_error + u64" where
  "timestamp_before client 0 = Inr 0"
| "timestamp_before client (Suc height) =
     try_result (cl_block_record client (word_of_nat (Suc height))) (\<lambda>rec.
       case Option.bind rec br_timestamp of
         Some ts \<Rightarrow> Inr ts
       | None \<Rightarrow> timestamp_before client height)"

definition peak_timestamp :: "client \<Rightarrow> u32 \<Rightarrow> block_record \<Rightarrow> u64 \<Rightarrow> cli_error + u64" where
  "peak_timestamp client tip rec confirmed =
     (case br_timestamp rec of
        Some ts \<Rightarrow> Inr ts
      | None \<Rightarrow>
          if confirmed = 0 then timestamp_before client (unat (saturating_sub tip 1)) else Inr confirmed)"

text \<open>\<open>retain(|(h, _)| *h < height)\<close> and \<open>push_back\<close>; \<open>while len() > 32 { pop_front() }\<close>.\<close>

definition push_peak :: "u32 \<Rightarrow> bytes32 \<Rightarrow> (u32 \<times> bytes32) list \<Rightarrow> (u32 \<times> bytes32) list" where
  "push_peak height header_hash peaks = filter (\<lambda>(h, _). h < height) peaks @ [(height, header_hash)]"

definition trim_peaks :: "(u32 \<times> bytes32) list \<Rightarrow> (u32 \<times> bytes32) list" where
  "trim_peaks peaks = drop (length peaks - 32) peaks"

definition record_followed :: "(u32 \<times> bytes32) list \<Rightarrow> 'c listener \<Rightarrow> 'c listener" where
  "record_followed followed st =
     st\<lparr>ls_recent_peaks :=
          trim_peaks (foldl (\<lambda>peaks (h, hash). push_peak h hash peaks) (ls_recent_peaks st) followed),
        ls_last_followed_height :=
          unwrap_or (map_option fst (last_opt followed)) (ls_last_followed_height st)\<rparr>"

definition follow_to_tip :: "('n, 'z) sdk_scheme \<Rightarrow> client \<Rightarrow> u32 \<Rightarrow> 'c listener \<Rightarrow> 'c listener" where
  "follow_to_tip sdk client tip st =
     (case follow_blocks_after sdk (block_at_height client) (ls_last_followed_height st) tip (ls_indexer st) of
        (ix, Inr followed) \<Rightarrow> record_followed followed (st\<lparr>ls_indexer := ix\<rparr>)
      | (ix, Inl _) \<Rightarrow> st\<lparr>ls_indexer := ix\<rparr>)"

definition remember_tip :: "u32 \<Rightarrow> block_record option \<Rightarrow> 'c listener \<Rightarrow> 'c listener" where
  "remember_tip tip tip_rec st =
     (case tip_rec of
        None \<Rightarrow> st
      | Some rec \<Rightarrow>
          if map_option fst (last_opt (ls_recent_peaks st)) \<noteq> Some tip
          then st\<lparr>ls_recent_peaks := trim_peaks (push_peak tip (br_header_hash rec) (ls_recent_peaks st))\<rparr>
          else st)"

definition clear_cache :: "u32 \<Rightarrow> db \<Rightarrow> unit db_result" where
  "clear_cache tip db =
     (let cutoff = saturating_sub tip 128
      in db_then (db_write (delete_slots_spent_before cutoff) db) (\<lambda>_.
           db_write (delete_singleton_coins_spent_before cutoff)))"

text \<open>The block of the tip: its timestamp, and the reorganization it may reveal.\<close>

definition handle_tip ::
  "nat \<Rightarrow> ('n, 'z) sdk_scheme \<Rightarrow> 'c registry_sdk \<Rightarrow> client \<Rightarrow> bytes32 list \<Rightarrow> u32 option \<Rightarrow> u64
    \<Rightarrow> 'c listener \<Rightarrow> ('c, block_record option \<times> u64) run"
where
  "handle_tip fuel sdk xs client launcher_ids tip_height confirmed st =
     (case tip_height of
        None \<Rightarrow> Some (Inr (None, confirmed), st)
      | Some tip \<Rightarrow>
          run_then (run_read (cl_block_record client tip) st) (\<lambda>rec st.
            case rec of
              None \<Rightarrow> Some (Inr (None, confirmed), st)
            | Some rec \<Rightarrow>
                run_then (run_read (peak_timestamp client tip rec confirmed) st) (\<lambda>ts st.
                run_then (handle_reorg fuel sdk xs client launcher_ids tip rec st) (\<lambda>_ st.
                  Some (Inr (Some rec, ts), st)))))"

definition process_spends ::
  "nat \<Rightarrow> ('n, 'z) sdk_scheme \<Rightarrow> 'c registry_sdk \<Rightarrow> client \<Rightarrow> 'c listener \<Rightarrow> ('c, unit) run"
where
  "process_spends fuel sdk xs client st =
     run_then (run_read (required (cl_coin_records_by_names client
                  (map (\<lambda>r. sdk_coin_id sdk (rg_coin r)) (ls_registries st)))
                 (Custom ''Weird - coin records not found after peak update.'')) st) (\<lambda>coin_records st.
       process_spent_registry_records sdk xs (sync_registry fuel sdk xs client) coin_records st)"

text \<open>\<open>clock\<close> is the time of the message, \<open>clear_due\<close> whether the last clearing is more than half an hour ago.\<close>

definition handle_peak ::
  "nat \<Rightarrow> ('n, 'z) sdk_scheme \<Rightarrow> 'c registry_sdk \<Rightarrow> client \<Rightarrow> bytes32 list \<Rightarrow> schedule_generation list \<Rightarrow> bool
    \<Rightarrow> u64 \<Rightarrow> bool \<Rightarrow> 'c listener \<Rightarrow> ('c, unit) run"
where
  "handle_peak fuel sdk xs client launcher_ids schedule testnet11 clock clear_due st =
     run_then (run_read (cl_blockchain_state client) st) (\<lambda>blockchain_state st.
       let upstream_peak = unwrap_or (map_option bp_height blockchain_state) 0;
           tip_height = map_option bp_height blockchain_state;
           confirmed = unwrap_or (Option.bind blockchain_state bp_timestamp) 0
       in run_then (handle_tip fuel sdk xs client launcher_ids tip_height confirmed st) (\<lambda>(tip_rec, ts) st.
          run_then (process_spends fuel sdk xs client st) (\<lambda>_ st.
            case tip_height of
              None \<Rightarrow> Some (Inr (), st)
            | Some tip \<Rightarrow>
                let st = remember_tip tip tip_rec (follow_to_tip sdk client tip st);
                    st = set_schedule_pricing sdk launcher_ids schedule ts testnet11 st;
                    st = on_indexer (note_peak tip (max upstream_peak tip) clock ts) st
                in if clear_due then run_db (\<lambda>db. Some (clear_cache tip db)) st else Some (Inr (), st))))"

section \<open>Connecting\<close>

fun initial_sync ::
  "nat \<Rightarrow> ('n, 'z) sdk_scheme \<Rightarrow> 'c registry_sdk \<Rightarrow> client \<Rightarrow> bytes32 list \<Rightarrow> 'c listener
    \<Rightarrow> ('c, (bytes32 \<times> spent_transition list) list) run"
where
  "initial_sync fuel sdk xs client [] st = Some (Inr [], st)"
| "initial_sync fuel sdk xs client (launcher_id # ids) st =
     run_then (run_db (sync_xchandles_detailed fuel sdk xs client launcher_id) st) (\<lambda>synced st.
     run_then (initial_sync fuel sdk xs client ids
                 (st\<lparr>ls_registries := ls_registries st @ [xr_registry synced]\<rparr>)) (\<lambda>rest st.
       Some (Inr ((launcher_id, xr_spent_transitions synced) # rest), st)))"

definition replay_transition ::
  "('n, 'z) sdk_scheme \<Rightarrow> handle_slot_value slot_codec \<Rightarrow> client \<Rightarrow> bytes32 \<Rightarrow> spent_transition \<Rightarrow> 'c listener
    \<Rightarrow> ('c, unit) run"
where
  "replay_transition sdk codec client launcher_id transition st =
     run_then (run_read (block_spends_at_height client (xt_height transition)) st) (\<lambda>block_spends st.
       Some (Inr (), index_registry_transition sdk codec launcher_id (xt_height transition)
                       (xt_logs transition) block_spends st))"

definition replay_all ::
  "('n, 'z) sdk_scheme \<Rightarrow> handle_slot_value slot_codec \<Rightarrow> client \<Rightarrow> (bytes32 \<times> spent_transition list) list
    \<Rightarrow> 'c listener \<Rightarrow> ('c, unit) run"
where
  "replay_all sdk codec client =
     run_each (\<lambda>(launcher_id, transitions). run_each (replay_transition sdk codec client launcher_id) transitions)"

text \<open>
  Indexed slots without a projection (a database older than the index): read first, then projected at
  height 0. A launcher's rows that cannot be listed and slots that cannot be read are skipped, and so
  are the slots at the two ends of the list, which name no NFT.
\<close>

fun persisted_of ::
  "handle_slot_value slot_codec \<Rightarrow> db \<Rightarrow> bytes32 \<Rightarrow> (bytes32 \<times> bytes32) list
    \<Rightarrow> (bytes32 \<times> bytes32 \<times> handle_slot_value \<times> slot_parent_lineage) list"
where
  "persisted_of codec db launcher_id [] = []"
| "persisted_of codec db launcher_id ((handle_hash, value_hash) # rows) =
     (let rest = persisted_of codec db launcher_id rows
      in case get_slot codec launcher_id (sc_nonce codec) value_hash 0 db of
           Inr (Some slot) \<Rightarrow>
             if hv_owner_launcher_id (slot_value slot) = 0 \<and> hv_resolved_launcher_id (slot_value slot) = 0
             then rest
             else (launcher_id, handle_hash, slot_value slot, lineage_of_slot slot) # rest
         | _ \<Rightarrow> rest)"

definition persisted_slots ::
  "handle_slot_value slot_codec \<Rightarrow> db \<Rightarrow> bytes32 list
    \<Rightarrow> (bytes32 \<times> bytes32 \<times> handle_slot_value \<times> slot_parent_lineage) list"
where
  "persisted_slots codec db launcher_ids =
     concat (map (\<lambda>l. case list_xchandles_indexed_slots l db of
                        Inl _ \<Rightarrow> [] | Inr rows \<Rightarrow> persisted_of codec db l rows) launcher_ids)"

definition project_persisted ::
  "(bytes32 \<times> bytes32 \<times> handle_slot_value \<times> slot_parent_lineage) list \<Rightarrow> singleton_indexer \<Rightarrow> singleton_indexer"
where
  "project_persisted slots ix0 =
     foldl (\<lambda>ix (launcher_id, handle_hash, val, parent).
       if Option.bind (handle_get (ix_handle_slots ix) (launcher_id, handle_hash)) hr_current \<noteq> None then ix
       else project_handle_slot launcher_id val parent 0 ix) ix0 slots"

definition start_following :: "client \<Rightarrow> 'c listener \<Rightarrow> ('c, unit) run" where
  "start_following client st =
     run_then (run_read (required (cl_blockchain_state client)
                 (Custom ''no blockchain state after NFT catch-up'')) st) (\<lambda>peak st.
     run_then (run_read (cl_block_record client (bp_height peak)) st) (\<lambda>rec st.
       Some (Inr (), st\<lparr>ls_last_followed_height := bp_height peak,
                        ls_recent_peaks := (case rec of None \<Rightarrow> [] | Some r \<Rightarrow> [(bp_height peak, br_header_hash r)])\<rparr>)))"

text \<open>\<open>connect_websocket\<close> up to the websocket.\<close>

definition connect ::
  "nat \<Rightarrow> bool \<Rightarrow> ('n, 'z) sdk_scheme \<Rightarrow> 'c registry_sdk \<Rightarrow> client \<Rightarrow> bytes32 list \<Rightarrow> schedule_generation list
    \<Rightarrow> bool \<Rightarrow> 'c listener \<Rightarrow> ('c, unit) run"
where
  "connect fuel overflow_checks sdk xs client launcher_ids schedule testnet11 st0 =
     run_then (initial_sync fuel sdk xs client launcher_ids (st0\<lparr>ls_registries := []\<rparr>)) (\<lambda>spent_by_launcher st.
     run_then (case get_last_onchain_timestamp overflow_checks client of
                 Some (Returned ts) \<Rightarrow> run_read ts st | _ \<Rightarrow> None) (\<lambda>onchain_ts st.
     run_then (replay_all sdk (xs_slot_codec xs) client spent_by_launcher
                 (set_schedule_pricing sdk launcher_ids schedule onchain_ts testnet11 st)) (\<lambda>_ st.
       let st = on_indexer (project_persisted (persisted_slots (xs_slot_codec xs) (ls_db st) launcher_ids)) st
       in case catch_up_followed_nfts fuel sdk client (ls_indexer st) of
            None \<Rightarrow> None
          | Some (ix, Inl e) \<Rightarrow> Some (Inl e, st\<lparr>ls_indexer := ix\<rparr>)
          | Some (ix, Inr _) \<Rightarrow> start_following client (st\<lparr>ls_indexer := ix\<rparr>))))"

text \<open>\<open>xchandles_listen\<close>: the prices before the first connection, and the index marked as resyncing.\<close>

definition listen_start ::
  "singleton_indexer \<Rightarrow> db \<Rightarrow> bytes32 list \<Rightarrow> u64 \<Rightarrow> bool \<Rightarrow> 'c listener"
where
  "listen_start ix db launcher_ids now testnet11 =
     (let pricing = pricing_at now testnet11
      in \<lparr>ls_indexer = begin_resync ix, ls_db = db,
          ls_registry_pricing = foldl (\<lambda>m i. hm_insert i pricing m) [] launcher_ids,
          ls_committed_base_price = foldl (\<lambda>m i. hm_insert i (rg_base_price pricing) m) [] launcher_ids,
          ls_registries = [], ls_last_followed_height = 0, ls_recent_peaks = []\<rparr>)"

end
