(* ===== verification/IndexerUndo.thy ===== *)
theory IndexerUndo
  imports IndexerReach Listen
begin

text \<open>
  A rollback to the height of a block undoes the block. The driver applies a registry's transition in
  five steps (\<open>apply_registry_transition\<close>) and follows the whole block once more; each step touches one
  store, so the facts are proved store by store: what is pushed at a height does not show below it, and
  that is where the rollback looks.
\<close>

section \<open>Slots, registrations and statistics\<close>

lemma settled_below: "settled h p xs \<Longrightarrow> p \<le> unat q \<Longrightarrow> below h q xs = xs"
  by (auto simp: settled_def below_def word_less_nat_alt intro: filter_True order_less_le_trans)

lemma bind_rollback_slot:
  "Option.bind (rollback_slot f rec) hr_current = hr_current (rollback_handle_to_before rec f)"
  by (simp add: rollback_slot_def Let_def)

lemma bind_rollback_registration:
  "Option.bind (rollback_registration f rec) rr_current = rr_current (rollback_registration_to_before rec f)"
  by (simp add: rollback_registration_def Let_def)

lemma slots_undone:
  assumes inv: "slots_inv p (ix_handle_slots ix)" and p: "p \<le> unat h"
  shows "Option.bind (Option.bind (handle_get (ix_handle_slots
      (project_handle_slots_from_logs sdk registry h logs parent_for ix)) k) (rollback_slot h)) hr_current =
    Option.bind (handle_get (ix_handle_slots ix) k) hr_current"
proof -
  let ?created = "concat (map (sdk_created_handle_slots sdk) logs)"
  let ?ss = "slots_for sdk registry h parent_for ?created k"
  let ?old = "slot_record_or_new (ix_handle_slots ix) k"
  let ?s = "ix_handle_slots (project_created sdk registry h parent_for ?created ix)"
  have ok: "handles_ok (ix_handle_slots ix)" using inv by (simp add: slots_inv_def)
  have old: "settled sh_confirmation_height p (handle_states.timeline ?old)"
    by (rule new_slot_settled [OF inv])
  have sorted: "sorted (map sh_confirmation_height (handle_states.timeline ?old))"
    and le: "\<forall>t \<in> set (handle_states.timeline ?old). sh_confirmation_height t \<le> h"
    using old settled_le [OF old, of h] p by (simp_all add: settled_def)
  have "hr_current (rollback_handle_to_before
      (foldl (\<lambda>r s. push_handle_replacement r s h) ?old ?ss) h) = last_opt (handle_states.timeline ?old)"
    unfolding handle_states.pushes_undone [OF sorted le slots_for_height] settled_below [OF old p] ..
  also have "\<dots> = hr_current ?old"
    using slots_invD [OF inv, of k]
    by (cases "handle_get (ix_handle_slots ix) k")
      (auto simp: slot_record_or_new_def handle_states.timeline_def slot_ok_def)
  finally have cur: "hr_current (rollback_handle_to_before (slot_record_or_new ?s k) h) = hr_current ?old"
    using project_created_get [OF ok, of sdk registry h parent_for ?created k] by simp
  have "Option.bind (Option.bind (handle_get ?s k) (rollback_slot h)) hr_current =
      hr_current (rollback_handle_to_before (slot_record_or_new ?s k) h)"
    by (cases "handle_get ?s k")
      (simp_all add: bind_rollback_slot slot_record_or_new_def rollback_handle_to_before_def rollback_by_def)
  with cur show ?thesis
    by (simp add: slot_current_or_new project_handle_slots_from_logs_def)
qed

lemma registrations_undone:
  assumes inv: "registrations_inv p s" and p: "p \<le> unat h"
  shows "Option.bind (Option.bind (registration_get
      (foldl (store_registration registry h) s (registered registry h logs)) k)
      (rollback_registration h)) rr_current = Option.bind (registration_get s k) rr_current"
proof -
  let ?ss = "filter (\<lambda>s. (registry, sr_handle_hash s) = k) (registered registry h logs)"
  let ?old = "registration_record_or_new s k"
  let ?s = "foldl (store_registration registry h) s (registered registry h logs)"
  have ok: "registrations_ok s" using inv by (simp add: registrations_inv_def)
  have old: "settled sr_confirmation_height p (registration_states.timeline ?old)"
    by (rule new_registration_settled [OF inv])
  have sorted: "sorted (map sr_confirmation_height (registration_states.timeline ?old))"
    and le: "\<forall>t \<in> set (registration_states.timeline ?old). sr_confirmation_height t \<le> h"
    using old settled_le [OF old, of h] p by (simp_all add: settled_def)
  have ss: "\<forall>s \<in> set ?ss. sr_confirmation_height s = h"
    using registered_height [of registry h logs] by auto
  have "rr_current (rollback_registration_to_before
      (foldl (\<lambda>r s. push_registration_replacement r s h) ?old ?ss) h) =
      last_opt (registration_states.timeline ?old)"
    unfolding registration_states.pushes_undone [OF sorted le ss] settled_below [OF old p] ..
  also have "\<dots> = rr_current ?old"
    using registrations_invD [OF inv, of k]
    by (cases "registration_get s k")
      (auto simp: registration_record_or_new_def registration_states.timeline_def registration_ok_def)
  finally have cur: "rr_current (rollback_registration_to_before (registration_record_or_new ?s k) h) =
      rr_current ?old"
    using store_registrations_get [OF ok, of registry h "registered registry h logs" k] by simp
  have "Option.bind (Option.bind (registration_get ?s k) (rollback_registration h)) rr_current =
      rr_current (rollback_registration_to_before (registration_record_or_new ?s k) h)"
    by (cases "registration_get ?s k")
      (simp_all add: bind_rollback_registration registration_record_or_new_def
        rollback_registration_to_before_def rollback_by_def)
  with cur show ?thesis by (simp add: registration_current_or_new)
qed

lemma total_undone:
  assumes inv: "registrations_inv p s" and p: "p \<le> unat h"
    and "length (registered registry h logs) \<le> 50"
    and "unat (st_total_registered (get_stats s registry)) + 50 < 2 ^ 64"
  shows "unat (st_total_registered (rollback_stats_to_before (get_stats
      (foldl (store_registration registry h) s (registered registry h logs)) registry) h)) =
    unat (st_total_registered (get_stats s registry))"
proof -
  let ?st = "get_stats s registry" and ?evs = "map event_of (registered registry h logs)"
  have ok: "registrations_ok s" and len: "length (st_events ?st) \<le> 50"
    and set: "settled ev_confirmation_height p (st_events ?st)"
    using inv by (simp_all add: registrations_inv_def)
  have old: "\<forall>ev \<in> set (st_events ?st). ev_confirmation_height ev < h"
    using set p by (auto simp: settled_def word_less_nat_alt)
  have new: "\<forall>ev \<in> set ?evs. h \<le> ev_confirmation_height ev"
    using registered_height [of registry h logs] by (auto simp: event_of_def)
  have "registers ?evs \<le> length ?evs" unfolding registers_def by (rule length_filter_le)
  then have "unat (st_total_registered ?st) + registers ?evs < 2 ^ 64"
    using assms(3,4) by simp
  then show ?thesis
    using rollback_stats_recorded [OF len old new] assms(3)
      store_registrations_get [OF ok, of registry h "registered registry h logs" "(0, 0)" registry]
    by (simp add: registers_def)
qed

lemma feed_undone:
  assumes inv: "registrations_inv p s" and p: "p \<le> unat h"
    and "unat (st_total_registered (get_stats s registry)) + registers (map event_of (registered registry h logs)) < 2 ^ 64"
  shows "st_events (rollback_stats_to_before (get_stats
      (foldl (store_registration registry h) s (registered registry h logs)) registry) h) =
    drop (length (st_events (get_stats s registry)) + length (registered registry h logs) - 50)
      (st_events (get_stats s registry))"
proof -
  let ?st = "get_stats s registry" and ?evs = "map event_of (registered registry h logs)"
  have ok: "registrations_ok s" and len: "length (st_events ?st) \<le> 50"
    and set: "settled ev_confirmation_height p (st_events ?st)"
    using inv by (simp_all add: registrations_inv_def)
  have old: "\<forall>ev \<in> set (st_events ?st). ev_confirmation_height ev < h"
    using set p by (auto simp: settled_def word_less_nat_alt)
  have new: "\<forall>ev \<in> set ?evs. h \<le> ev_confirmation_height ev"
    using registered_height [of registry h logs] by (auto simp: event_of_def)
  show ?thesis
    using rollback_stats_recorded [OF len old new assms(3)]
      store_registrations_get [OF ok, of registry h "registered registry h logs" "(0, 0)" registry]
    by simp
qed

section \<open>Pending updates\<close>

text \<open>What a rollback to \<open>h\<close> would show of a pending update.\<close>

definition pending_below :: "u32 \<Rightarrow> pending_update_record option \<Rightarrow> stored_pending_update option" where
  "pending_below h v =
     (case v of None \<Rightarrow> None
      | Some r \<Rightarrow> last_opt (below su_update_confirmation_height h (pending_states.timeline r)))"

lemma pending_below_simps [simp]:
  "pending_below h None = None"
  "pending_below h (Some r) = last_opt (below su_update_confirmation_height h (pending_states.timeline r))"
  by (simp_all add: pending_below_def)

lemma rollback_shows_below: "Option.bind (Option.bind v (rollback_pending h)) pr_current = pending_below h v"
  by (cases v) (simp_all add: rollback_pending_def Let_def pending_states.cur_rollback)

lemma pending_below_clear:
  assumes "pending_ok (Suc (unat h)) r"
  shows "pending_below h (Some (clear_pending_current r h)) = pending_below h (Some r)"
proof (cases "pr_current r")
  case None
  then show ?thesis by (simp add: clear_pending_current_def)
next
  case (Some u)
  then have "sorted (map su_update_confirmation_height (pr_history r @ [u]))"
    using assms by (simp add: pending_ok_def settled_def)
  from below_prune [OF this saturating_sub_le] Some show ?thesis
    by (simp add: pending_states.timeline_def clear_pending_fields prune_pending_history_def
        del: below_append)
qed

lemma pending_below_cleared:
  assumes inv: "pendings_inv (Suc (unat h)) (ix_pending_updates ix)"
  shows "pending_below h (pending_get (ix_pending_updates (clear_pending_for_handle registry hh h ix)) k) =
    pending_below h (pending_get (ix_pending_updates ix) k)"
proof (cases "pending_get (ix_pending_updates ix) (registry, hh)")
  case None
  then show ?thesis by (simp add: clear_pending_for_handle_def)
next
  case (Some r)
  have ok: "pendings_ok (ix_pending_updates ix)" using inv by (simp add: pendings_inv_def)
  have key: "pending_key (clear_pending_current r h) = (registry, hh)"
    using pendings.key_of_get [OF ok Some] by simp
  have view: "pending_below h (Some (clear_pending_current r h)) = pending_below h (Some r)"
    by (rule pending_below_clear [OF pendings_invD [OF inv Some]])
  show ?thesis
  proof (cases "pr_current r = None")
    case True
    with Some show ?thesis by (simp add: clear_pending_for_handle_def)
  next
    case False
    show ?thesis
    proof (cases "pr_history (clear_pending_current r h) = []")
      case True
      then have "pending_below h (Some (clear_pending_current r h)) = None"
        by (simp add: pending_states.timeline_def clear_pending_fields)
      with view Some False True ok show ?thesis
        by (simp add: clear_pending_for_handle_def clear_pending_fields pendings.get_remove)
    next
      case nonempty: False
      with view Some False ok key show ?thesis
        by (simp add: clear_pending_for_handle_def clear_pending_fields pendings.get_upsert Let_def)
    qed
  qed
qed

lemma pending_below_initiated:
  assumes inv: "pendings_inv (Suc (unat h)) (ix_pending_updates ix)"
  shows "pending_below h (pending_get (ix_pending_updates (initiate_pending registry h v ix)) k) =
    pending_below h (pending_get (ix_pending_updates ix) k)"
proof -
  let ?k = "(registry, uv_handle_hash v)"
  let ?old = "pending_record_or_new (ix_pending_updates ix) ?k"
  let ?new = "push_pending_replacement ?old (stored_pending registry h v) h"
  have ok: "pendings_ok (ix_pending_updates ix)" using inv by (simp add: pendings_inv_def)
  have old: "pending_ok (Suc (unat h)) ?old" and key: "pending_key ?old = ?k"
    and view: "pending_below h (Some ?old) = pending_below h (pending_get (ix_pending_updates ix) ?k)"
    using pendings_invD [OF inv, of ?k] pendings.key_of_get [OF ok, of ?k]
    by (cases "pending_get (ix_pending_updates ix) ?k";
        force simp: pending_record_or_new_def pending_ok_def pending_key_def pending_states.timeline_def)+
  have "settled su_update_confirmation_height (Suc (unat h)) (pending_states.timeline ?old)"
    using old by (simp add: pending_ok_def pending_states.timeline_def)
  then have "sorted (map su_update_confirmation_height (pending_states.timeline ?old))"
    and "\<forall>t \<in> set (pending_states.timeline ?old). su_update_confirmation_height t \<le> h"
    using settled_le [OF _ order_refl] by (simp_all only: settled_def) blast
  from pending_states.push_undone [OF this, of "stored_pending registry h v"]
  have "pending_below h (Some ?new) = pending_below h (Some ?old)" by (simp add: stored_pending_def)
  with view ok key show ?thesis
    by (auto simp: initiate_pending_def Let_def pendings.get_upsert simp del: pending_below_simps)
qed

lemma pending_below_projected:
  assumes "pendings_inv (Suc (unat h)) (ix_pending_updates ix)"
  shows "pending_below h (pending_get (ix_pending_updates
      (project_pending_updates_from_logs registry h logs ix)) k) =
    pending_below h (pending_get (ix_pending_updates ix) k)"
proof -
  have step: "pending_below h (pending_get (ix_pending_updates (project_pending_update registry h log ix)) k) =
        pending_below h (pending_get (ix_pending_updates ix) k) \<and>
      pendings_inv (Suc (unat h)) (ix_pending_updates (project_pending_update registry h log ix))"
    if "pendings_inv (Suc (unat h)) (ix_pending_updates ix)" for log ix
    using that
    by (cases log) (auto simp: pending_below_cleared pending_below_initiated pendings_inv_clear
        pendings_inv_initiate split: option.splits)
  show ?thesis
    using assms unfolding project_pending_updates_from_logs_def
    by (induction logs arbitrary: ix) (simp_all add: step)
qed

lemma pending_undone:
  assumes inv: "pendings_inv p (ix_pending_updates ix)" and p: "p \<le> unat h"
  shows "Option.bind (Option.bind (pending_get (ix_pending_updates
      (project_pending_updates_from_logs registry h logs ix)) k) (rollback_pending h)) pr_current =
    (case pending_get (ix_pending_updates ix) k of None \<Rightarrow> None
     | Some r \<Rightarrow> last_opt (pr_history r @ option_list (pr_current r)))"
proof (cases "pending_get (ix_pending_updates ix) k")
  case None
  have "pendings_inv (Suc (unat h)) (ix_pending_updates ix)"
    using pendings_inv_mono [OF inv] p by simp
  with None show ?thesis unfolding rollback_shows_below by (simp add: pending_below_projected)
next
  case (Some r)
  have "pendings_inv (Suc (unat h)) (ix_pending_updates ix)"
    using pendings_inv_mono [OF inv] p by simp
  moreover have "settled su_update_confirmation_height p (pr_history r @ option_list (pr_current r))"
    using pendings_invD [OF inv Some] by (simp add: pending_ok_def)
  ultimately show ?thesis
    using Some settled_below [OF _ p, of su_update_confirmation_height "pr_history r @ option_list (pr_current r)"]
    unfolding rollback_shows_below
    by (simp add: pending_below_projected pending_states.timeline_def del: below_append)
qed

section \<open>Followed singletons\<close>

text \<open>
  What the store shows of one launcher, \<open>Q\<close>, survives a block when every step of the indexer that can
  touch its record keeps it: counting a reference up or down, following the block, cleaning up, and
  a discovery for a launcher that is not followed.
\<close>

definition watched :: "('n, 'z) sdk_scheme \<Rightarrow> u32 \<Rightarrow> bytes32 \<Rightarrow> (followed_singleton option \<Rightarrow> bool) \<Rightarrow> bool" where
  "watched sdk h l Q \<longleftrightarrow>
     (\<forall>r. Q (Some r) \<longrightarrow> Q (Some (bumped r)) \<and> Q (Some (dropped h r))) \<and>
     (\<forall>spends r r'. Q (Some r) \<and> follow_record sdk h spends l r = Inr (Some r') \<longrightarrow> Q (Some r')) \<and>
     (\<forall>r. Q (Some r) \<and> finalized h r \<longrightarrow> Q None) \<and>
     (\<forall>v r. Q v \<and> \<not> is_followed v \<and> fs_discovery_height r = h \<longrightarrow> Q (Some r))"

lemma watchedD:
  assumes "watched sdk h l Q"
  shows "Q (Some rec) \<Longrightarrow> Q (Some (bumped rec))" and "Q (Some rec) \<Longrightarrow> Q (Some (dropped h rec))"
    and "Q (Some rec) \<Longrightarrow> follow_record sdk h spends l rec = Inr (Some rec') \<Longrightarrow> Q (Some rec')"
    and "Q (Some rec) \<Longrightarrow> finalized h rec \<Longrightarrow> Q None"
    and "Q v \<Longrightarrow> \<not> is_followed v \<Longrightarrow> fs_discovery_height rec = h \<Longrightarrow> Q (Some rec)"
  using assms unfolding watched_def by blast+

lemma watched_reference:
  assumes w: "watched sdk h l Q" and "Q (singleton_get s l)"
  shows "Q (singleton_get (bump_reference i s) l)" and "Q (singleton_get (drop_reference i h s) l)"
proof -
  have "Q (map_option bumped (singleton_get s l))" and "Q (map_option (dropped h) (singleton_get s l))"
    using assms(2) watchedD(1,2) [OF w] by (cases "singleton_get s l"; force)+
  then show "Q (singleton_get (bump_reference i s) l)" and "Q (singleton_get (drop_reference i h s) l)"
    using assms(2) by (cases "l = i"; simp add: get_bump_reference get_drop_reference)+
qed

lemma watched_track:
  assumes w: "watched sdk h l Q" and q: "Q (singleton_get (ix_store ix) l)"
  shows "Q (singleton_get (ix_store (track_slot_reference_changes h log ix)) l)"
proof -
  let ?I = "\<lambda>s. Q (singleton_get s l)"
  have rebump: "?I (rebump i s)" if "?I s" for i s
    using watched_reference(1) [OF w that, of i] that
    by (cases "singleton_get s i") (simp_all add: rebump_def)
  have "?I (track_pair h pr s)" if "?I s" for pr s
    unfolding track_pair_def Let_def
    using that
    by (cases pr) (simp add: foldl_keeps [where I = ?I] rebump watched_reference(2) [OF w])
  then show ?thesis
    using q by (simp add: track_slot_reference_changes_def foldl_keeps [where I = ?I])
qed

lemma watched_discover:
  assumes w: "watched sdk h l Q" and own: "singletons_owned (ix_store ix)"
    and q: "Q (singleton_get (ix_store ix) l)"
    and d: "discover_reference sdk h spends ref ix = (ix', r)"
  shows "Q (singleton_get (ix_store ix') l)"
proof (cases "is_followed (singleton_get (ix_store ix) (rf_launcher_id ref))")
  case True
  with d show ?thesis
    using watched_reference(1) [OF w q] by (auto simp: discover_reference_def Let_def)
next
  case False
  show ?thesis
  proof (cases "ix_store ix' = ix_store ix")
    case True
    with q show ?thesis by simp
  next
    case changed: False
    with False d obtain rec where rec: "ix_store ix' = singleton_upsert rec (ix_store ix)"
      "fs_launcher_id rec = rf_launcher_id ref" "fs_discovery_height rec = h"
      by (auto simp: discover_reference_def Let_def split: sum.splits prod.splits)
    then show ?thesis
      using False q own watchedD(5) [OF w, of "singleton_get (ix_store ix) l" rec]
      by (auto simp: singletons_owned_def singletons.get_upsert)
  qed
qed

lemma watched_transition:
  assumes w: "watched sdk h l Q" and "singletons_owned (ix_store ix)"
    and "Q (singleton_get (ix_store ix) l)"
    and "on_registry_transition sdk h spends logs ix = (ix', r)"
  shows "Q (singleton_get (ix_store ix') l)"
proof -
  have refs: "singletons_owned (ix_store ix') \<and> Q (singleton_get (ix_store ix') l)"
    if "singletons_owned (ix_store ix)" and "Q (singleton_get (ix_store ix) l)"
      and "discover_references sdk h spends refs ix = (ix', r)" for refs ix ix' r
    using that
  proof (induction refs arbitrary: ix)
    case (Cons ref refs)
    obtain ix1 r1 where d: "discover_reference sdk h spends ref ix = (ix1, r1)"
      by (cases "discover_reference sdk h spends ref ix")
    have "singletons_owned (ix_store ix1)" by (rule singletons_owned_discover [OF Cons.prems(1) d])
    moreover have "Q (singleton_get (ix_store ix1) l)"
      by (rule watched_discover [OF w Cons.prems(1,2) d])
    ultimately show ?case using Cons d by (cases r1) auto
  qed simp
  show ?thesis
    using assms(2-)
  proof (induction logs arbitrary: ix)
    case (Cons log logs)
    obtain ix1 r1 where d: "discover_references sdk h spends (references_from_action_log log) ix = (ix1, r1)"
      by (cases "discover_references sdk h spends (references_from_action_log log) ix")
    have ix1: "singletons_owned (ix_store ix1)" "Q (singleton_get (ix_store ix1) l)"
      using refs [OF Cons.prems(1,2) d] by simp_all
    show ?case
      using Cons.prems(3) d ix1(2)
        Cons.IH [OF singletons_owned_track [OF ix1(1)] watched_track [OF w ix1(2)], of log]
      by (cases r1) auto
  qed simp
qed

lemma watched_follow_all:
  assumes w: "watched sdk h l Q" and "singletons_owned s" and "Q (singleton_get s l)"
    and "follow_all sdk h spends ids s = (s', r)"
  shows "Q (singleton_get s' l)"
  using assms(2-)
proof (induction ids arbitrary: s)
  case (Cons i ids)
  show ?case
  proof (cases "singleton_get s i")
    case None
    with Cons show ?thesis by auto
  next
    case (Some rec)
    show ?thesis
    proof (cases "follow_record sdk h spends i rec")
      case (Inl e)
      with Some Cons show ?thesis by auto
    next
      case (Inr v)
      show ?thesis
      proof (cases v)
        case None
        with Some Inr Cons show ?thesis by auto
      next
        case v: (Some rec')
        have owned: "followed_owned i rec"
          using Cons.prems(1) Some by (auto simp: singletons_owned_def dest: holds_allD)
        have step: "follow_record sdk h spends i rec = Inr (Some rec')" using Inr v by simp
        have own': "followed_owned i rec'" by (rule followed_owned_step [OF owned step])
        have s': "singletons_owned (singleton_upsert rec' s)"
          using singletons_owned_upsert [OF Cons.prems(1), of rec'] own' by (simp add: followed_owned_def)
        have ok: "singletons_ok s" using Cons.prems(1) by (simp add: singletons_owned_def)
        have "Q (Some rec')" if "i = l"
          using watchedD(3) [OF w, of rec spends rec'] Cons.prems(2) Some step that by simp
        then have "Q (singleton_get (singleton_upsert rec' s) l)"
          using own' Cons.prems(2) by (simp add: singletons.get_upsert [OF ok] followed_owned_def)
        from Cons.IH [OF s' this] show ?thesis using Cons.prems(3) Some step by simp
      qed
    qed
  qed
qed simp

lemma watched_block:
  assumes w: "watched sdk h l Q" and own: "singletons_owned (ix_store ix)"
    and q: "Q (singleton_get (ix_store ix) l)" and b: "on_block sdk h spends ix = (ix', r)"
  shows "Q (singleton_get (ix_store ix') l)"
proof -
  obtain s r' where fa: "follow_all sdk h spends (all_launcher_ids (ix_store ix)) (ix_store ix) = (s, r')"
    by (cases "follow_all sdk h spends (all_launcher_ids (ix_store ix)) (ix_store ix)")
  have s: "Q (singleton_get s l)" by (rule watched_follow_all [OF w own q fa])
  have "singletons_ok s"
    using singletons_owned_follow_all [OF own fa] by (simp add: singletons_owned_def)
  then have "singleton_get (ix_store (cleanup_finalized h (ix\<lparr>ix_store := s\<rparr>))) l =
      Option.bind (singleton_get s l) (\<lambda>rec. if finalized h rec then None else Some rec)"
    using cleanup_get [of "ix\<lparr>ix_store := s\<rparr>" h l] by simp
  moreover have "Q (Option.bind (singleton_get s l) (\<lambda>rec. if finalized h rec then None else Some rec))"
    using s watchedD(4) [OF w] by (cases "singleton_get s l") auto
  ultimately show ?thesis
    using b fa s by (cases r') (auto simp: on_block_def)
qed

text \<open>
  A launcher the indexer has no record of: at most one discovered in this block appears, and the rollback
  removes it again.
\<close>

definition unknown_before :: "u32 \<Rightarrow> followed_singleton option \<Rightarrow> bool" where
  "unknown_before h v \<longleftrightarrow> (\<forall>r. v = Some r \<longrightarrow> fs_discovery_height r = h)"

lemma follow_record_discovery:
  "follow_record sdk h spends l r = Inr (Some r') \<Longrightarrow> fs_discovery_height r' = fs_discovery_height r"
proof -
  have "fs_discovery_height r' = fs_discovery_height r" if "retried sdk h r res = Some r'" for res
    using that by (cases res) auto
  then show "follow_record sdk h spends l r = Inr (Some r') \<Longrightarrow> ?thesis"
    by (auto simp: follow_record_def result_simps split: if_splits option.splits)
qed

lemma watched_unknown: "watched sdk h l (unknown_before h)"
  by (auto simp: watched_def unknown_before_def dest: follow_record_discovery)

text \<open>A followed launcher: what was current below \<open>h\<close> stays the newest state below \<open>h\<close>.\<close>

definition live_below :: "u32 \<Rightarrow> stored_singleton_state \<Rightarrow> followed_singleton \<Rightarrow> bool" where
  "live_below h cur r \<longleftrightarrow>
     fs_status r = FollowActive \<and> fs_current r \<noteq> None \<and> fs_discovery_height r < h \<and>
     sorted (map ss_confirmation_height (singleton_states.timeline r)) \<and>
     (\<forall>s \<in> set (singleton_states.timeline r). ss_confirmation_height s \<le> h) \<and>
     last_opt (below ss_confirmation_height h (singleton_states.timeline r)) = Some cur \<and>
     (\<forall>d. fs_dereference_height r = Some d \<longrightarrow> h < saturating_add d 32)"

definition shows_below :: "u32 \<Rightarrow> stored_singleton_state \<Rightarrow> followed_singleton option \<Rightarrow> bool" where
  "shows_below h cur v \<longleftrightarrow> (\<exists>r. v = Some r \<and> live_below h cur r)"

lemma timeline_reference [simp]:
  "singleton_states.timeline (bumped r) = singleton_states.timeline r"
  "singleton_states.timeline (dropped h r) = singleton_states.timeline r"
  by (simp_all add: singleton_states.timeline_def)

lemma live_below_follow:
  assumes "live_below h cur r" and "follow_record sdk h spends l r = Inr (Some r')"
  shows "live_below h cur r'"
proof -
  obtain res where r': "r' = push_replacement r (next_state sdk l h res) h"
    using assms by (auto simp: live_below_def follow_record_def result_simps split: if_splits option.splits)
  then show ?thesis
    using assms(1) singleton_states.push_undone [of r h "next_state sdk l h res"]
    by (simp add: live_below_def singleton_states.cur_push)
qed

lemma live_below_dropped:
  "unat h + 32 < 2 ^ 32 \<Longrightarrow> live_below h cur r \<Longrightarrow> live_below h cur (dropped h r)"
proof -
  assume h: "unat h + 32 < 2 ^ 32" and r: "live_below h cur r"
  have "h < saturating_add h 32" using h by (simp add: word_less_nat_alt)
  moreover have "fs_dereference_height (dropped h r) \<in> {Some h, fs_dereference_height r}"
    by (simp add: dropped_def Let_def)
  ultimately show ?thesis using r unfolding live_below_def by auto
qed

lemma watched_shows:
  assumes "unat h + 32 < 2 ^ 32"
  shows "watched sdk h l (shows_below h cur)"
  unfolding watched_def
proof (intro conjI allI impI)
  fix r :: followed_singleton assume "shows_below h cur (Some r)"
  then have r: "live_below h cur r" by (simp add: shows_below_def)
  then show "shows_below h cur (Some (bumped r))" by (simp add: shows_below_def live_below_def)
  show "shows_below h cur (Some (dropped h r))"
    using live_below_dropped [OF assms r] by (simp add: shows_below_def)
next
  fix spends and r r' :: followed_singleton assume "shows_below h cur (Some r) \<and> follow_record sdk h spends l r = Inr (Some r')"
  then show "shows_below h cur (Some r')" using live_below_follow by (auto simp: shows_below_def)
next
  fix r :: followed_singleton assume "shows_below h cur (Some r) \<and> finalized h r"
  then show "shows_below h cur None"
    by (auto simp: shows_below_def live_below_def finalized_def split: option.splits)
next
  fix v and r :: followed_singleton assume "shows_below h cur v \<and> \<not> is_followed v \<and> fs_discovery_height r = h"
  then show "shows_below h cur (Some r)" by (auto simp: shows_below_def live_below_def is_followed_def)
qed

section \<open>The block\<close>

lemma apply_transition_stores:
  assumes r: "reachable sdk ix p" and p: "p \<le> Suc (unat h)"
    and ix1: "ix1 = fst (on_block sdk h spends' (apply_registry_transition sdk registry h logs spends parents ix))"
  obtains ixa ixc where "reachable sdk ix1 (Suc (unat h))"
    and "ix_handle_slots ixa = ix_handle_slots ix"
    and "ix_handle_slots ix1 =
      ix_handle_slots (project_handle_slots_from_logs sdk registry h logs (hm_get parents) ixa)"
    and "ix_registrations ix1 =
      foldl (store_registration registry h) (ix_registrations ix) (registered registry h logs)"
    and "ix_pending_updates ixc = ix_pending_updates ix"
    and "ix_pending_updates ix1 = ix_pending_updates (project_pending_updates_from_logs registry h logs ixc)"
    and "\<And>l Q. watched sdk h l Q \<Longrightarrow> Q (singleton_get (ix_store ix) l) \<Longrightarrow> Q (singleton_get (ix_store ix1) l)"
proof -
  obtain ixa ra where a: "on_registry_transition sdk h spends logs ix = (ixa, ra)"
    by (cases "on_registry_transition sdk h spends logs ix")
  define ixb where "ixb = project_handle_slots_from_logs sdk registry h logs (hm_get parents) ixa"
  define ixc where "ixc = project_registrations_from_logs registry h logs ixb"
  define ixd where "ixd = project_pending_updates_from_logs registry h logs ixc"
  obtain ixe re where e: "on_block sdk h spends ixd = (ixe, re)" by (cases "on_block sdk h spends ixd")
  obtain rf where f: "on_block sdk h spends' ixe = (ix1, rf)"
    using ix1 by (cases "on_block sdk h spends' ixe")
      (simp add: apply_registry_transition_def a e Let_def flip: ixb_def ixc_def ixd_def)
  obtain sa sd se sf where frames: "ixa = ix\<lparr>ix_store := sa\<rparr>" "ixd = ixc\<lparr>ix_pending_updates := sd\<rparr>"
      "ixe = ixd\<lparr>ix_store := se\<rparr>" "ix1 = ixe\<lparr>ix_store := sf\<rparr>"
    using transition_frame [OF a] pending_frame [of registry h logs ixc] block_frame [OF e] block_frame [OF f]
    unfolding ixd_def by metis
  have reach_a: "reachable sdk ixa (Suc (unat h))" by (rule reachable.transition [OF r p a])
  have reach_b: "reachable sdk ixb (Suc (unat h))"
    unfolding ixb_def by (rule reachable.slots [OF reach_a order_refl])
  have reach_c: "reachable sdk ixc (Suc (unat h))"
    unfolding ixc_def by (rule reachable.registered [OF reach_b order_refl])
  have reach_d: "reachable sdk ixd (Suc (unat h))"
    unfolding ixd_def by (rule reachable.pending [OF reach_c order_refl])
  have reach_e: "reachable sdk ixe (Suc (unat h))" by (rule reachable.block [OF reach_d order_refl e])
  have reach: "reachable sdk ix1 (Suc (unat h))" by (rule reachable.block [OF reach_e order_refl f])
  have own: "singletons_owned (ix_store ix')" if "reachable sdk ix' q" for ix' q
    using reachable_owned [OF that] reachable_ok [OF that]
    by (simp add: indexer_owned_def indexer_ok_def singletons_owned_def)
  have watch: "Q (singleton_get (ix_store ix1) l)"
    if w: "watched sdk h l Q" and q: "Q (singleton_get (ix_store ix) l)" for l Q
  proof -
    have "Q (singleton_get (ix_store ixa) l)" by (rule watched_transition [OF w own [OF r] q a])
    moreover have "ix_store ixd = ix_store ixa" by (simp add: frames(2) ixc_def ixb_def)
    ultimately have "Q (singleton_get (ix_store ixd) l)" by simp
    from watched_block [OF w own [OF reach_e] watched_block [OF w own [OF reach_d] this e] f] show ?thesis .
  qed
  show ?thesis
  proof (rule that [of ixa ixc])
    show "ix_registrations ix1 =
        foldl (store_registration registry h) (ix_registrations ix) (registered registry h logs)"
      by (simp add: frames ixc_def ixb_def project_registrations_eq)
    show "ix_handle_slots ix1 =
        ix_handle_slots (project_handle_slots_from_logs sdk registry h logs (hm_get parents) ixa)"
      by (simp add: frames(2-4) ixc_def flip: ixb_def)
    show "ix_pending_updates ix1 =
        ix_pending_updates (project_pending_updates_from_logs registry h logs ixc)"
      by (simp add: frames(3,4) flip: ixd_def)
    show "ix_pending_updates ixc = ix_pending_updates ix"
      by (simp add: ixc_def ixb_def frames(1))
  qed (use reach watch frames(1) in simp_all)
qed

lemma followed_undone:
  assumes inv: "followed_inv p (ix_store ix)" and ok: "indexer_ok ix1" and p: "p \<le> unat h"
    and h: "unat h + 32 < 2 ^ 32"
    and watch: "\<And>Q. watched sdk h l Q \<Longrightarrow> Q (singleton_get (ix_store ix) l) \<Longrightarrow> Q (singleton_get (ix_store ix1) l)"
  shows "case singleton_get (ix_store ix) l of
      None \<Rightarrow> singleton_get (ix_store (rollback h ix1)) l = None
    | Some r \<Rightarrow> fs_status r = FollowActive \<and> fs_current r \<noteq> None \<and> \<not> finalized h r \<longrightarrow>
        (\<exists>r'. singleton_get (ix_store (rollback h ix1)) l = Some r' \<and>
           fs_status r' = FollowActive \<and> fs_current r' = fs_current r)"
proof (cases "singleton_get (ix_store ix) l")
  case None
  then have "unknown_before h (singleton_get (ix_store ix) l)" by (simp add: unknown_before_def)
  from watch [OF watched_unknown this]
  have "Option.bind (singleton_get (ix_store ix1) l) (rollback_followed h) = None"
    by (cases "singleton_get (ix_store ix1) l") (simp_all add: unknown_before_def rollback_followed_def)
  with None show ?thesis by (simp add: rollback_stores(1) [OF ok])
next
  case (Some r)
  have r: "followed_ok p r" using inv Some by (simp add: followed_inv_def)
  show ?thesis
  proof (cases "fs_status r = FollowActive \<and> fs_current r \<noteq> None \<and> \<not> finalized h r")
    case True
    then obtain cur where cur: "fs_current r = Some cur" by blast
    have tl: "settled ss_confirmation_height p (singleton_states.timeline r)"
      using r by (simp add: followed_ok_def singleton_states.timeline_def)
    have "\<forall>d. fs_dereference_height r = Some d \<longrightarrow> h < saturating_add d 32"
      using True r by (auto simp: finalized_def followed_ok_def not_le)
    then have "live_below h cur r"
      using True cur tl settled_le [OF tl, of h] settled_below [OF tl p] r p
      by (simp add: live_below_def followed_ok_def settled_def word_less_nat_alt del: below_append)
        (simp add: singleton_states.timeline_def)
    then have "shows_below h cur (singleton_get (ix_store ix) l)" using Some by (simp add: shows_below_def)
    from watch [OF watched_shows [OF h] this]
    obtain r1 where r1: "singleton_get (ix_store ix1) l = Some r1" "live_below h cur r1"
      by (auto simp: shows_below_def)
    then have "\<exists>r'. rollback_followed h r1 = Some r' \<and> fs_status r' = FollowActive \<and> fs_current r' = Some cur"
      by (auto simp: live_below_def rollback_followed_def Let_def singleton_states.cur_rollback
          split: option.splits)
    with r1(1) Some cur show ?thesis by (simp add: rollback_stores(1) [OF ok])
  next
    case False
    with Some show ?thesis by auto
  qed
qed

text \<open>
  C2. A rollback to a block's height undoes the block: from any reachable state below height \<open>h\<close>,
  applying a registry's transition at \<open>h\<close> (references, slots, registrations, pending updates, the followed
  singletons), following the block's spends again and rolling back to \<open>h\<close> shows what was current before:
  the slot and the registration of every handle, the pending update of every handle that has one (one
  without shows its last cleared update again), the state of every live singleton that is not due for
  removal, and no record of a launcher first discovered in the block. The feed loses only the events
  that the block's pushed out, and the count of registrations is restored unless the block registers more
  than 50 handles.
\<close>

theorem block_undone:
  assumes "reachable sdk ix p" and "p \<le> unat h" and "unat h + 32 < 2 ^ 32"
    and "ix' = rollback h (fst (on_block sdk h spends'
      (apply_registry_transition sdk registry h logs spends parents ix)))"
  shows "Option.bind (handle_get (ix_handle_slots ix') k) hr_current =
      Option.bind (handle_get (ix_handle_slots ix) k) hr_current \<and>
    Option.bind (registration_get (ix_registrations ix') k) rr_current =
      Option.bind (registration_get (ix_registrations ix) k) rr_current \<and>
    Option.bind (pending_get (ix_pending_updates ix') k) pr_current =
      (case pending_get (ix_pending_updates ix) k of None \<Rightarrow> None
       | Some r \<Rightarrow> (case pr_current r of None \<Rightarrow> last_opt (pr_history r) | Some u \<Rightarrow> Some u)) \<and>
    (case singleton_get (ix_store ix) l of None \<Rightarrow> singleton_get (ix_store ix') l = None
     | Some r \<Rightarrow> fs_status r = FollowActive \<and> fs_current r \<noteq> None \<and> \<not> finalized h r \<longrightarrow>
         (\<exists>r'. singleton_get (ix_store ix') l = Some r' \<and> fs_status r' = FollowActive \<and>
            fs_current r' = fs_current r)) \<and>
    (length (registered registry h logs) \<le> 50 \<and>
       unat (st_total_registered (get_stats (ix_registrations ix) registry)) + 50 < 2 ^ 64 \<longrightarrow>
     unat (st_total_registered (get_stats (ix_registrations ix') registry)) =
       unat (st_total_registered (get_stats (ix_registrations ix) registry)) \<and>
     st_events (get_stats (ix_registrations ix') registry) =
       drop (length (st_events (get_stats (ix_registrations ix) registry)) +
           length (registered registry h logs) - 50)
         (st_events (get_stats (ix_registrations ix) registry)))"
proof -
  define ix1 where "ix1 = fst (on_block sdk h spends'
      (apply_registry_transition sdk registry h logs spends parents ix))"
  have ix': "ix' = rollback h ix1" using assms(4) by (simp add: ix1_def)
  have inv: "followed_inv p (ix_store ix)" "slots_inv p (ix_handle_slots ix)"
    "registrations_inv p (ix_registrations ix)" "pendings_inv p (ix_pending_updates ix)"
    using reachable_inv [OF assms(1)] by (simp_all add: indexer_inv_def)
  have p: "p \<le> Suc (unat h)" using assms(2) by simp
  obtain ixa ixc where reach: "reachable sdk ix1 (Suc (unat h))"
    and slots: "ix_handle_slots ixa = ix_handle_slots ix"
      "ix_handle_slots ix1 = ix_handle_slots (project_handle_slots_from_logs sdk registry h logs (hm_get parents) ixa)"
    and regs: "ix_registrations ix1 =
      foldl (store_registration registry h) (ix_registrations ix) (registered registry h logs)"
    and pend: "ix_pending_updates ixc = ix_pending_updates ix"
      "ix_pending_updates ix1 = ix_pending_updates (project_pending_updates_from_logs registry h logs ixc)"
    and watch: "\<And>l Q. watched sdk h l Q \<Longrightarrow> Q (singleton_get (ix_store ix) l) \<Longrightarrow>
      Q (singleton_get (ix_store ix1) l)"
    using apply_transition_stores [OF assms(1) p ix1_def] by blast
  have ok: "indexer_ok ix1" by (rule reachable_ok [OF reach])
  note after = rollback_stores [OF ok, of h, folded ix']
  have "Option.bind (handle_get (ix_handle_slots ix') k) hr_current =
      Option.bind (handle_get (ix_handle_slots ix) k) hr_current"
    using slots_undone [of p ixa h sdk registry logs "hm_get parents" k] inv(2) assms(2)
    unfolding after slots by simp
  moreover have "Option.bind (registration_get (ix_registrations ix') k) rr_current =
      Option.bind (registration_get (ix_registrations ix) k) rr_current"
    using registrations_undone [OF inv(3) assms(2), of registry logs k] unfolding after regs by simp
  moreover have "Option.bind (pending_get (ix_pending_updates ix') k) pr_current =
      (case pending_get (ix_pending_updates ix) k of None \<Rightarrow> None
       | Some r \<Rightarrow> (case pr_current r of None \<Rightarrow> last_opt (pr_history r) | Some u \<Rightarrow> Some u))"
    using pending_undone [of p ixc h registry logs k] inv(4) assms(2)
    unfolding after pend by (simp split: option.splits)
  moreover have "case singleton_get (ix_store ix) l of None \<Rightarrow> singleton_get (ix_store ix') l = None
     | Some r \<Rightarrow> fs_status r = FollowActive \<and> fs_current r \<noteq> None \<and> \<not> finalized h r \<longrightarrow>
         (\<exists>r'. singleton_get (ix_store ix') l = Some r' \<and> fs_status r' = FollowActive \<and>
            fs_current r' = fs_current r)"
    unfolding ix' by (rule followed_undone [OF inv(1) ok assms(2,3)]) (rule watch)
  moreover have "unat (st_total_registered (get_stats (ix_registrations ix') registry)) =
       unat (st_total_registered (get_stats (ix_registrations ix) registry)) \<and>
     st_events (get_stats (ix_registrations ix') registry) =
       drop (length (st_events (get_stats (ix_registrations ix) registry)) +
           length (registered registry h logs) - 50)
         (st_events (get_stats (ix_registrations ix) registry))"
    if few: "length (registered registry h logs) \<le> 50"
      "unat (st_total_registered (get_stats (ix_registrations ix) registry)) + 50 < 2 ^ 64"
  proof -
    have "registers (map event_of (registered registry h logs)) \<le> 50"
      using few(1) by (simp add: registers_def) (meson length_filter_le length_map order_trans)
    then show ?thesis
      using total_undone [OF inv(3) assms(2) few] feed_undone [OF inv(3) assms(2), of registry logs] few(2)
      unfolding after regs by simp
  qed
  ultimately show ?thesis by blast
qed

lemma block_undone_witness:
  "\<exists>ix'. ix' = rollback 101 (fst (on_block fixture_sdk 101 [example_spend]
       (apply_registry_transition fixture_sdk 1 101 [Register example_register] [example_spend] [] example_after))) \<and>
     Option.bind (handle_get (ix_handle_slots ix') (1, 2)) hr_current =
       Option.bind (handle_get (ix_handle_slots example_after) (1, 2)) hr_current \<and>
     st_total_registered (get_stats (ix_registrations ix') 1) =
       st_total_registered (get_stats (ix_registrations example_after) 1)"
proof -
  define ix' where "ix' = rollback 101 (fst (on_block fixture_sdk 101 [example_spend]
       (apply_registry_transition fixture_sdk 1 101 [Register example_register] [example_spend] [] example_after)))"
  have "length (registered 1 101 [Register example_register]) \<le> 50"
    by (simp add: registered_def stored_registration_of_def)
  moreover have "unat (st_total_registered (get_stats (ix_registrations example_after) 1)) + 50 < 2 ^ 64"
    by (simp add: example_after_def example_start_def get_stats_def stats_default_def)
  ultimately show ?thesis
    using block_undone [OF example_after_reachable _ _ ix'_def, of "(1, 2)" 7] ix'_def
    by (simp add: word_unat_eq_iff)
qed

end
