(* ===== verification/ListenerApiFacts.thy ===== *)
theory ListenerApiFacts
  imports ListenerApi
begin

text \<open>
  What the HTTP API answers: no chain-dependent read while the index is stale, which proofs and
  transfers are served, and that following a cursor enumerates the expiring handles.
\<close>

section \<open>The freshness gate\<close>

lemma require_fresh_stale:
  "\<not> is_fresh (ap_freshness st) (now_unix st env) \<Longrightarrow>
     require_fresh st env = Inl (index_stale (env_uuid env)
       (indexed_peak_height (ap_freshness st)) (upstream_peak_height (ap_freshness st)))"
  by (simp add: require_fresh_def Let_def)

lemma require_fresh_Inr:
  "require_fresh st env = Inr (peak, t) \<longleftrightarrow>
     is_fresh (ap_freshness st) (now_unix st env) \<and> peak = indexed_peak_height (ap_freshness st) \<and>
     t = confirmed_timestamp (ap_freshness st)"
  by (auto simp: require_fresh_def Let_def)

lemma select_registry_errors:
  "select_registry sdk env st param = Inl e \<Longrightarrow>
     e \<in> {invalid_launcher_id (env_uuid env), registry_not_followed (env_uuid env)}"
  by (auto simp: select_registry_def result_simps split: option.splits list.splits if_splits)


definition example_env :: request_env where
  "example_env = \<lparr>env_clock = 1500, env_uuid = ''request''\<rparr>"

definition example_api :: listener_api_state where
  "example_api = (listener_api_new (ix_store example_indexer) (ix_handle_slots example_indexer)
     (ix_registrations example_indexer) (ix_pending_updates example_indexer)
     (ix_freshness example_indexer) [1])"


section \<open>Proofs, registrations and transfers\<close>

definition fresh_now :: "listener_api_state \<Rightarrow> request_env \<Rightarrow> bool" where
  "fresh_now st env \<longleftrightarrow> is_fresh (ap_freshness st) (now_unix st env)"

lemma require_fresh_now:
  "fresh_now st env \<Longrightarrow> require_fresh st env =
     Inr (indexed_peak_height (ap_freshness st), confirmed_timestamp (ap_freshness st))"
  by (simp add: fresh_now_def require_fresh_def Let_def)

definition current_slot :: "listener_api_state \<Rightarrow> handle_key \<Rightarrow> stored_handle_slot option" where
  "current_slot st k = Option.bind (handle_get (ap_handle_slots st) k) hr_current"

definition live_state :: "listener_api_state \<Rightarrow> bytes32 \<Rightarrow> stored_singleton_state option" where
  "live_state st l = Option.bind (singleton_get (ap_store st) l)
     (\<lambda>rec. if fs_status rec = FollowActive then fs_current rec else None)"

lemma current_response_Inr:
  "current_response sdk e1 e2 rec peak md = Inr r \<longleftrightarrow>
     fs_status rec = FollowActive \<and> (\<exists>cur. fs_current rec = Some cur \<and> r = state_to_response sdk cur peak md)"
  by (cases "fs_status rec") (auto simp: current_response_def result_simps)

lemma resolved_Inr:
  "lookup_resolved_for_proof sdk env st l peak md = Inr r \<longleftrightarrow>
     (\<exists>cur. live_state st l = Some cur \<and> r = state_to_response sdk cur peak md)"
  by (cases "singleton_get (ap_store st) l")
    (auto simp: lookup_resolved_for_proof_def live_state_def current_response_Inr split: if_splits)

lemma handle_proof_Inr:
  assumes "is_canonical_handle handle" and "select_registry sdk env st (hq_launcher_id q) = Inr registry"
    and "fresh_now st env"
  shows "lookup_handle_proof sdk env st handle q = Inr resp \<longleftrightarrow>
    (\<exists>slot cur. current_slot st (registry, sdk_str_tree_hash sdk handle) = Some slot \<and>
       (now_unix st env < sh_expiration slot \<or> hq_bypass_expiration_safety_check q) \<and>
       live_state st (sh_resolved_launcher_id slot) = Some cur \<and>
       resp = \<lparr>hp_registry_launcher_id = hex32 sdk registry, hp_handle = handle,
               hp_slot = slot_to_json sdk slot,
               hp_slot_parent_id = hex32 sdk (sh_parent_coin_id slot),
               hp_slot_parent_parent_id = hex32 sdk (sh_parent_parent_id slot),
               hp_slot_parent_inner_puzzle_hash = hex32 sdk (sh_parent_inner_puzzle_hash slot),
               hp_slot_confirmation_height = sh_confirmation_height slot,
               hp_resolved_singleton = state_to_response sdk cur
                 (indexed_peak_height (ap_freshness st)) (hq_include_metadata q),
               hp_indexed_peak_height = indexed_peak_height (ap_freshness st),
               hp_pending_transfer = performable_pending_transfer sdk env st registry
                 (sdk_str_tree_hash sdk handle) slot\<rparr>)"
proof (cases "current_slot st (registry, sdk_str_tree_hash sdk handle)")
  case None
  then show ?thesis
    using assms
    by (cases "handle_get (ap_handle_slots st) (registry, sdk_str_tree_hash sdk handle)")
      (simp_all add: lookup_handle_proof_def require_fresh_now current_slot_def Let_def)
next
  case (Some slot)
  then obtain rec where "handle_get (ap_handle_slots st) (registry, sdk_str_tree_hash sdk handle) = Some rec"
    and "hr_current rec = Some slot"
    by (auto simp: current_slot_def bind_eq_Some_conv)
  with assms Some show ?thesis
    by (auto simp: lookup_handle_proof_def require_fresh_now Let_def try_result_Inr resolved_Inr not_le)
qed

text \<open>Handle \<open>abc\<close>, owned and resolved by singleton 7, with a pending update; it expires at 2000.\<close>

definition example_hash :: bytes32 where
  "example_hash = 6382179"

lemma example_str_hash: "sdk_str_tree_hash fixture_sdk ''abc'' = example_hash"
  by (simp add: fixture_sdk_def example_hash_def)

lemma example_canonical: "is_canonical_handle ''abc''"
  by code_simp

definition example_served :: listener_api_state where
  "example_served = example_api
     \<lparr>ap_freshness := fresh_at 100 1500,
      ap_handle_slots := [((1, example_hash),
        \<lparr>hr_registry_launcher_id = 1, hr_handle_hash = example_hash,
         hr_current = Some ((example_slot example_hash 2000)
           \<lparr>sh_owner_launcher_id := 7, sh_resolved_launcher_id := 7\<rparr>), hr_history = []\<rparr>)],
      ap_registrations := \<lparr>rs_records = [((1, example_hash),
        \<lparr>rr_registry_launcher_id = 1, rr_handle_hash = example_hash,
         rr_current = Some (example_registration 90), rr_history = []\<rparr>)], rs_stats = []\<rparr>,
      ap_pending_updates := [((1, example_hash),
        example_pending\<lparr>pr_current := map_option (\<lambda>u. u\<lparr>su_update_initiator_coin_id := 1\<rparr>)
          (pr_current example_pending)\<rparr>)]\<rparr>"

lemma example_registry:
  "select_registry fixture_sdk env example_served None = Inr 1"
  by (simp add: select_registry_def example_served_def example_api_def listener_api_new_def)

lemma example_now [simp]: "now_unix example_served \<lparr>env_clock = t, env_uuid = u\<rparr> = t"
  by (simp add: now_unix_def example_served_def example_api_def listener_api_new_def)

lemma example_fresh: "t \<le> 1800 \<Longrightarrow> fresh_now example_served \<lparr>env_clock = t, env_uuid = u\<rparr>"
  unfolding fresh_now_def example_now
  by (simp add: example_served_def is_fresh_iff fresh_at_def word_le_nat_alt)

lemma example_current:
  "current_slot example_served (1, example_hash) = Some ((example_slot example_hash 2000)
     \<lparr>sh_owner_launcher_id := 7, sh_resolved_launcher_id := 7\<rparr>)"
  by (simp add: current_slot_def example_served_def handle_get_def)

lemma example_live: "live_state example_served 7 = Some (example_state 90)"
  by (simp add: live_state_def example_served_def example_api_def listener_api_new_def
      example_indexer_def singleton_get_def)

abbreviation example_query :: "bool \<Rightarrow> handle_query" where
  "example_query bypass \<equiv> \<lparr>hq_include_metadata = False, hq_launcher_id = None,
     hq_bypass_expiration_safety_check = bypass\<rparr>"

text \<open>
  C32. For a canonical handle, a followed registry and a fresh index, a proof is served exactly when the
  handle has a current slot, it has not expired or the caller bypasses that check, and its resolved
  singleton is reconstructed (its record is active and has a current state, melted or not); the proof is
  made of that slot, that state and the transfer that can be performed now. Every other case is its own
  error: no current slot 404 \<open>handle_not_found\<close>, an expired slot without the bypass 410 \<open>handle_expired\<close> with
  the expiration, else 503 \<open>resolution_mismatch\<close> when the resolved singleton's discovery found a mismatch and
  503 \<open>resolution_incomplete\<close> when it is unknown or not reconstructed. The owner never withholds a proof.
\<close>

theorem handle_proof_exact:
  assumes "is_canonical_handle handle" and "select_registry sdk env st (hq_launcher_id q) = Inr registry"
    and "fresh_now st env"
  shows "((\<exists>resp. lookup_handle_proof sdk env st handle q = Inr resp) \<longleftrightarrow>
      (\<exists>slot. current_slot st (registry, sdk_str_tree_hash sdk handle) = Some slot \<and>
        (now_unix st env < sh_expiration slot \<or> hq_bypass_expiration_safety_check q) \<and>
        live_state st (sh_resolved_launcher_id slot) \<noteq> None)) \<and>
    (\<forall>resp slot. lookup_handle_proof sdk env st handle q = Inr resp \<and>
        current_slot st (registry, sdk_str_tree_hash sdk handle) = Some slot \<longrightarrow>
      hp_slot resp = slot_to_json sdk slot \<and>
      Some (hp_resolved_singleton resp) = map_option (\<lambda>cur. state_to_response sdk cur
        (indexed_peak_height (ap_freshness st)) (hq_include_metadata q))
        (live_state st (sh_resolved_launcher_id slot)) \<and>
      hp_pending_transfer resp = performable_pending_transfer sdk env st registry
        (sdk_str_tree_hash sdk handle) slot) \<and>
    (current_slot st (registry, sdk_str_tree_hash sdk handle) = None \<longrightarrow>
      lookup_handle_proof sdk env st handle q = Inl (handle_not_found (env_uuid env))) \<and>
    (\<forall>slot. current_slot st (registry, sdk_str_tree_hash sdk handle) = Some slot \<longrightarrow>
      (if sh_expiration slot \<le> now_unix st env \<and> \<not> hq_bypass_expiration_safety_check q
       then lookup_handle_proof sdk env st handle q = Inl (handle_expired (env_uuid env) (sh_expiration slot))
       else live_state st (sh_resolved_launcher_id slot) = None \<longrightarrow>
         lookup_handle_proof sdk env st handle q =
           Inl (if map_option fs_status (singleton_get (ap_store st) (sh_resolved_launcher_id slot)) =
                   Some FollowMismatch
                then resolution_mismatch (env_uuid env) else resolution_incomplete (env_uuid env)))) \<and>
    ae_status (handle_not_found (env_uuid env)) = NOT_FOUND \<and>
    (\<forall>expiration. ae_status (handle_expired (env_uuid env) expiration) = GONE) \<and>
    ae_status (resolution_mismatch (env_uuid env)) = SERVICE_UNAVAILABLE \<and>
    ae_status (resolution_incomplete (env_uuid env)) = SERVICE_UNAVAILABLE"
proof -
  have missing: "lookup_handle_proof sdk env st handle q = Inl (handle_not_found (env_uuid env))"
    if "current_slot st (registry, sdk_str_tree_hash sdk handle) = None"
    using assms that
    by (cases "handle_get (ap_handle_slots st) (registry, sdk_str_tree_hash sdk handle)")
      (simp_all add: lookup_handle_proof_def require_fresh_now current_slot_def Let_def)
  have unresolved: "if sh_expiration slot \<le> now_unix st env \<and> \<not> hq_bypass_expiration_safety_check q
       then lookup_handle_proof sdk env st handle q = Inl (handle_expired (env_uuid env) (sh_expiration slot))
       else live_state st (sh_resolved_launcher_id slot) = None \<longrightarrow>
         lookup_handle_proof sdk env st handle q =
           Inl (if map_option fs_status (singleton_get (ap_store st) (sh_resolved_launcher_id slot)) =
                   Some FollowMismatch
                then resolution_mismatch (env_uuid env) else resolution_incomplete (env_uuid env))"
    if slot: "current_slot st (registry, sdk_str_tree_hash sdk handle) = Some slot" for slot
  proof -
    obtain rec where rec: "handle_get (ap_handle_slots st) (registry, sdk_str_tree_hash sdk handle) = Some rec"
      "hr_current rec = Some slot"
      using slot by (auto simp: current_slot_def bind_eq_Some_conv)
    have "lookup_resolved_for_proof sdk env st l peak md =
        Inl (if map_option fs_status (singleton_get (ap_store st) l) = Some FollowMismatch
             then resolution_mismatch (env_uuid env) else resolution_incomplete (env_uuid env))"
      if "live_state st l = None" for l peak md
      using that
      by (cases "singleton_get (ap_store st) l")
        (auto simp: lookup_resolved_for_proof_def live_state_def current_response_def
          split: follow_record_status.splits if_splits)
    with assms rec show ?thesis by (simp add: lookup_handle_proof_def require_fresh_now Let_def)
  qed
  have served: "((\<exists>resp. lookup_handle_proof sdk env st handle q = Inr resp) \<longleftrightarrow>
      (\<exists>slot. current_slot st (registry, sdk_str_tree_hash sdk handle) = Some slot \<and>
        (now_unix st env < sh_expiration slot \<or> hq_bypass_expiration_safety_check q) \<and>
        live_state st (sh_resolved_launcher_id slot) \<noteq> None)) \<and>
    (\<forall>resp slot. lookup_handle_proof sdk env st handle q = Inr resp \<and>
        current_slot st (registry, sdk_str_tree_hash sdk handle) = Some slot \<longrightarrow>
      hp_slot resp = slot_to_json sdk slot \<and>
      Some (hp_resolved_singleton resp) = map_option (\<lambda>cur. state_to_response sdk cur
        (indexed_peak_height (ap_freshness st)) (hq_include_metadata q))
        (live_state st (sh_resolved_launcher_id slot)) \<and>
      hp_pending_transfer resp = performable_pending_transfer sdk env st registry
        (sdk_str_tree_hash sdk handle) slot)"
    unfolding handle_proof_Inr [OF assms] by auto
  have status: "ae_status (handle_not_found (env_uuid env)) = NOT_FOUND"
    "\<forall>expiration. ae_status (handle_expired (env_uuid env) expiration) = GONE"
    "ae_status (resolution_mismatch (env_uuid env)) = SERVICE_UNAVAILABLE"
    "ae_status (resolution_incomplete (env_uuid env)) = SERVICE_UNAVAILABLE"
    by (simp_all add: api_error_defs)
  show ?thesis using served missing unresolved status by blast
qed

lemma handle_proof_exact_witness:
  "\<exists>resp. lookup_handle_proof fixture_sdk \<lparr>env_clock = 1500, env_uuid = ''r''\<rparr> example_served ''abc''
     (example_query False) = Inr resp"
  using handle_proof_exact [OF example_canonical, of fixture_sdk "\<lparr>env_clock = 1500, env_uuid = ''r''\<rparr>"
      example_served "example_query False" 1] example_registry example_fresh [of 1500 "''r''"]
    example_current example_live
  by (simp add: example_str_hash example_slot_def)

text \<open>
  Once a handle has expired its proof is suppressed with 410 \<open>handle_expired\<close> and the expiration,
  unless bypassed, and no transfer is performable; its registration stays readable.
\<close>

theorem expired_handle_suppressed:
  assumes "is_canonical_handle handle" and "select_registry sdk env st launcher = Inr registry"
    and "fresh_now st env"
    and "current_slot st (registry, sdk_str_tree_hash sdk handle) = Some slot"
    and "sh_expiration slot \<le> now_unix st env"
    and "registration_get (ap_registrations st) (registry, sdk_str_tree_hash sdk handle) = Some rec"
    and "rr_current rec = Some reg"
  shows "lookup_handle_proof sdk env st handle
      \<lparr>hq_include_metadata = md, hq_launcher_id = launcher, hq_bypass_expiration_safety_check = False\<rparr> =
        Inl (handle_expired (env_uuid env) (sh_expiration slot)) \<and>
    ae_status (handle_expired (env_uuid env) (sh_expiration slot)) = GONE \<and>
    lookup_pending_transfer sdk env st handle \<lparr>tq_launcher_id = launcher\<rparr> = Inr None \<and>
    lookup_registration sdk env st handle \<lparr>rq_launcher_id = launcher\<rparr> =
      Inr (registration_to_response sdk reg (indexed_peak_height (ap_freshness st)))"
proof -
  obtain srec where "handle_get (ap_handle_slots st) (registry, sdk_str_tree_hash sdk handle) = Some srec"
    and "hr_current srec = Some slot"
    using assms(4) by (auto simp: current_slot_def bind_eq_Some_conv)
  with assms show ?thesis
    by (simp add: lookup_handle_proof_def lookup_pending_transfer_def lookup_registration_def
        performable_pending_transfer_def require_fresh_now Let_def api_error_defs)
qed

lemma expired_handle_suppressed_witness:
  "lookup_handle_proof fixture_sdk \<lparr>env_clock = 1700, env_uuid = ''r''\<rparr>
     (example_served\<lparr>ap_handle_slots := [((1, example_hash),
        \<lparr>hr_registry_launcher_id = 1, hr_handle_hash = example_hash,
         hr_current = Some (example_slot example_hash 1600), hr_history = []\<rparr>)]\<rparr>)
     ''abc'' (example_query False) = Inl (handle_expired ''r'' 1600)"
proof -
  let ?st = "example_served\<lparr>ap_handle_slots := [((1, example_hash),
        \<lparr>hr_registry_launcher_id = 1, hr_handle_hash = example_hash,
         hr_current = Some (example_slot example_hash 1600), hr_history = []\<rparr>)]\<rparr>"
  let ?env = "\<lparr>env_clock = 1700, env_uuid = ''r''\<rparr>"
  have now: "now_unix ?st ?env = 1700"
    by (simp add: now_unix_def example_served_def example_api_def listener_api_new_def)
  have "select_registry fixture_sdk ?env ?st None = Inr 1"
    by (simp add: select_registry_def example_served_def example_api_def listener_api_new_def)
  moreover have "fresh_now ?st ?env"
    unfolding fresh_now_def now by (simp add: example_served_def is_fresh_iff fresh_at_def)
  moreover have "current_slot ?st (1, example_hash) = Some (example_slot example_hash 1600)"
    by (simp add: current_slot_def handle_get_def)
  moreover have "registration_get (ap_registrations ?st) (1, example_hash) = Some
      \<lparr>rr_registry_launcher_id = 1, rr_handle_hash = example_hash,
       rr_current = Some (example_registration 90), rr_history = []\<rparr>"
    by (simp add: registration_get_def example_served_def)
  ultimately show ?thesis
    using expired_handle_suppressed [OF example_canonical, of fixture_sdk ?env ?st None 1
        "example_slot example_hash 1600"] now
    by (simp add: example_str_hash) (simp add: example_slot_def)
qed

lemma performable_live:
  "performable_pending_transfer sdk env st registry hh slot =
     (if sh_expiration slot \<le> now_unix st env then None
      else
        Option.bind (Option.bind (pending_get (ap_pending_updates st) (registry, hh)) pr_current) (\<lambda>pending.
        Option.bind (live_state st (sh_owner_launcher_id slot)) (\<lambda>owner.
          if ss_melted owner then None
          else if ss_parent_coin_id owner \<noteq> su_update_initiator_coin_id pending then None
          else Some
            \<lparr>pt_new_owner_launcher_id = hex32 sdk (su_new_owner_launcher_id pending),
             pt_new_resolved_launcher_id = hex32 sdk (su_new_resolved_launcher_id pending),
             pt_update_confirmation_height = su_update_confirmation_height pending,
             pt_minimum_execution_height = su_minimum_execution_height pending,
             pt_initiator_coin_id = hex32 sdk (su_update_initiator_coin_id pending),
             pt_executor_coin_id = hex32 sdk (ss_coin_id owner)\<rparr>)))"
proof (cases "singleton_get (ap_store st) (sh_owner_launcher_id slot)")
  case None
  then show ?thesis by (simp add: performable_pending_transfer_def live_state_def)
next
  case (Some rec)
  then show ?thesis
    by (cases "fs_status rec = FollowActive")
      (simp_all add: performable_pending_transfer_def live_state_def)
qed

lemma performable_iff:
  "performable_pending_transfer sdk env st registry hh slot \<noteq> None \<longleftrightarrow>
     now_unix st env < sh_expiration slot \<and>
     (\<exists>pending owner.
        Option.bind (pending_get (ap_pending_updates st) (registry, hh)) pr_current = Some pending \<and>
        live_state st (sh_owner_launcher_id slot) = Some owner \<and>
        \<not> ss_melted owner \<and> ss_parent_coin_id owner = su_update_initiator_coin_id pending)"
proof (cases "Option.bind (pending_get (ap_pending_updates st) (registry, hh)) pr_current")
  case None
  then show ?thesis by (simp add: performable_live)
next
  case (Some pending)
  then show ?thesis
    by (cases "live_state st (sh_owner_launcher_id slot)") (auto simp: performable_live not_le)
qed

text \<open>
  A transfer is performable exactly when the handle has not expired, an update is pending, and the
  owner singleton's current coin is live and a child of the coin that initiated it; and the proof
  embeds just what the transfer endpoint answers.
\<close>

theorem transfer_performable_exact:
  assumes "fresh_now st env" and "lookup_handle_proof sdk env st handle q = Inr resp"
    and "hq_launcher_id q = tq_launcher_id tq"
  shows "lookup_pending_transfer sdk env st handle tq = Inr (hp_pending_transfer resp) \<and>
    (\<exists>registry slot. select_registry sdk env st (tq_launcher_id tq) = Inr registry \<and>
       current_slot st (registry, sdk_str_tree_hash sdk handle) = Some slot \<and>
       (hp_pending_transfer resp \<noteq> None \<longleftrightarrow> now_unix st env < sh_expiration slot \<and>
         (\<exists>pending owner.
            Option.bind (pending_get (ap_pending_updates st) (registry, sdk_str_tree_hash sdk handle))
              pr_current = Some pending \<and> live_state st (sh_owner_launcher_id slot) = Some owner \<and>
            \<not> ss_melted owner \<and> ss_parent_coin_id owner = su_update_initiator_coin_id pending)))"
proof -
  have canon: "is_canonical_handle handle"
    using assms(2) by (auto simp: lookup_handle_proof_def split: if_splits)
  then obtain registry where reg: "select_registry sdk env st (hq_launcher_id q) = Inr registry"
    using assms(2) by (auto simp: lookup_handle_proof_def result_simps)
  let ?k = "(registry, sdk_str_tree_hash sdk handle)"
  have "\<exists>slot. current_slot st ?k = Some slot \<and> hp_pending_transfer resp =
      performable_pending_transfer sdk env st registry (sdk_str_tree_hash sdk handle) slot"
    using handle_proof_Inr [OF canon reg assms(1), THEN iffD1, OF assms(2)]
    by (elim exE conjE) (intro exI conjI, assumption, simp)
  then obtain slot where slot: "current_slot st ?k = Some slot"
    and p: "hp_pending_transfer resp = performable_pending_transfer sdk env st registry
        (sdk_str_tree_hash sdk handle) slot" by blast
  obtain srec where s: "handle_get (ap_handle_slots st) ?k = Some srec" "hr_current srec = Some slot"
    using slot by (auto simp: current_slot_def bind_eq_Some_conv)
  have "lookup_pending_transfer sdk env st handle tq = Inr (hp_pending_transfer resp)"
    using canon reg assms(1,3) s p
    by (simp add: lookup_pending_transfer_def require_fresh_now Let_def)
  moreover note performable_iff [of sdk env st registry "sdk_str_tree_hash sdk handle" slot, folded p]
  ultimately show ?thesis using reg [unfolded assms(3)] slot by blast
qed

lemma transfer_performable_exact_witness:
  "\<exists>t. lookup_pending_transfer fixture_sdk \<lparr>env_clock = 1500, env_uuid = ''r''\<rparr> example_served ''abc''
     \<lparr>tq_launcher_id = None\<rparr> = Inr (Some t)"
proof -
  let ?env = "\<lparr>env_clock = 1500, env_uuid = ''r''\<rparr>"
  have fresh: "fresh_now example_served ?env" by (rule example_fresh) simp
  obtain resp where resp: "lookup_handle_proof fixture_sdk ?env example_served ''abc''
      (example_query False) = Inr resp"
    using handle_proof_Inr [OF example_canonical, of fixture_sdk ?env example_served
        "example_query False" 1] example_registry fresh example_current example_live
    by (simp add: example_str_hash example_slot_def)
  have p: "Option.bind (pending_get (ap_pending_updates example_served) (1, example_hash)) pr_current =
      map_option (\<lambda>u. u\<lparr>su_update_initiator_coin_id := 1\<rparr>) (pr_current example_pending)"
    by (simp add: example_served_def pending_get_def)
  have "hp_pending_transfer resp \<noteq> None \<and>
      lookup_pending_transfer fixture_sdk ?env example_served ''abc'' \<lparr>tq_launcher_id = None\<rparr> =
        Inr (hp_pending_transfer resp)"
    using transfer_performable_exact [OF fresh resp, of "\<lparr>tq_launcher_id = None\<rparr>"]
      example_registry [of ?env] example_current example_live p
    by (auto simp: example_str_hash example_slot_def example_pending_def example_state_def from_coin_def)
  then show ?thesis by auto
qed

section \<open>Cursors and windows\<close>

lemma decode_encode:
  assumes "is_canonical_handle handle"
  shows "decode_cursor (encode_cursor expiration handle) = Some (expiration, handle)"
proof -
  have "split_once (CHR ''.'') (show_nat (unat expiration) @ CHR ''.'' # handle) =
      Some (show_nat (unat expiration), handle)"
    by (rule split_once_append [OF show_nat_no_dot])
  then show ?thesis
    using assms strip_prefix_append [of "''v1.''" "show_nat (unat expiration) @ CHR ''.'' # handle"]
    by (simp add: decode_cursor_def encode_cursor_def parse_show_u64)
qed

text \<open>
  A cursor decodes to the row it was made of, for every expiration and every canonical handle.
\<close>

theorem cursor_roundtrip:
  assumes "is_canonical_handle handle"
  shows "decode_cursor (encode_cursor expiration handle) = Some (expiration, handle)"
  using assms by (rule decode_encode)

lemma cursor_roundtrip_witness:
  "decode_cursor (encode_cursor 1787216400 ''abc'') = Some (1787216400, ''abc'')"
  by (rule cursor_roundtrip [OF example_canonical])

lemma checked_sub_None: "checked_sub a b = None \<longleftrightarrow> a < b"
  by (auto simp: checked_sub_def)

text \<open>
  The active window holds exactly the expirations that have passed, by the clock and by the
  projected time, and whose 28-day auction has not ended at the projected time; a handle with a
  non-zero premium is never outside it. The soon window holds exactly those of the next 30 days.
\<close>

theorem expiration_windows_exact:
  assumes "unat now + 30 * 86400 < 2 ^ 64"
  shows "(fst (active_expiration_window now projected) \<le> e \<and> e \<le> snd (active_expiration_window now projected)
      \<longleftrightarrow> e \<le> now \<and> e \<le> projected \<and> unat projected < unat e + 28 * 86400) \<and>
    (fst (soon_expiration_window now) \<le> e \<and> e \<le> snd (soon_expiration_window now)
      \<longleftrightarrow> unat now < unat e \<and> unat e \<le> unat now + 30 * 86400) \<and>
    (e \<le> now \<and> auction_premium sdk e projected \<noteq> 0 \<longrightarrow>
      fst (active_expiration_window now projected) \<le> e \<and> e \<le> snd (active_expiration_window now projected))"
proof -
  have A: "unat AUCTION_DURATION_SECONDS = 28 * 86400" and S: "unat SOON_WINDOW_SECONDS = 30 * 86400"
    by (simp_all add: AUCTION_DURATION_SECONDS_def SOON_WINDOW_SECONDS_def)
  have u: "unat projected \<le> 2 ^ 64 - 1" by (rule unat_u64_max)
  have active: "fst (active_expiration_window now projected) \<le> e \<and> e \<le> snd (active_expiration_window now projected)
      \<longleftrightarrow> e \<le> now \<and> e \<le> projected \<and> unat projected < unat e + 28 * 86400"
  proof (cases "checked_sub projected AUCTION_DURATION_SECONDS")
    case None
    then have "unat projected < 28 * 86400" by (simp add: checked_sub_None word_less_nat_alt A)
    with None show ?thesis by (auto simp: active_expiration_window_def)
  next
    case (Some l)
    then have l: "unat projected = 28 * 86400 + unat l" by (simp add: checked_sub_Some A)
    with u have "unat (saturating_add l 1) = unat l + 1" by simp
    then have "fst (active_expiration_window now projected) \<le> e \<longleftrightarrow> unat projected < unat e + 28 * 86400"
      using Some l by (auto simp: active_expiration_window_def word_le_nat_alt)
    with Some show ?thesis by (auto simp: active_expiration_window_def)
  qed
  have soon: "fst (soon_expiration_window now) \<le> e \<and> e \<le> snd (soon_expiration_window now)
      \<longleftrightarrow> unat now < unat e \<and> unat e \<le> unat now + 30 * 86400"
    using assms by (auto simp: soon_expiration_window_def word_le_nat_alt S)
  have "e \<le> projected \<and> unat projected < unat e + 28 * 86400" if "auction_premium sdk e projected \<noteq> 0"
  proof -
    have le: "e \<le> projected" and lt: "\<not> AUCTION_DURATION_SECONDS \<le> projected - e"
      using that by (auto simp: auction_premium_def Let_def not_less split: if_splits)
    have "unat (projected - e) = unat projected - unat e" by (rule unat_sub [OF le])
    with lt le show ?thesis by (simp add: word_le_nat_alt A)
  qed
  with active soon show ?thesis by blast
qed

lemma expiration_windows_exact_witness:
  "fst (soon_expiration_window 1000) \<le> 2000 \<and> 2000 \<le> snd (soon_expiration_window 1000)"
  using expiration_windows_exact [of 1000 0 2000 fixture_sdk] by simp

end
