(* ===== verification/ListenerPaging.thy ===== *)
theory ListenerPaging
  imports ListenerApiFacts
begin

text \<open>
  Paging through the expiring handles: what the \<open>soon\<close> pages return and where their cursor leads, and
  the two ways in which a page of the listing goes wrong.
\<close>

section \<open>The rows behind a cursor\<close>

definition rows_after ::
  "listener_api_state \<Rightarrow> bytes32 \<Rightarrow> u64 \<times> u64 \<Rightarrow> cursor option \<Rightarrow> (string \<times> stored_handle_slot) list"
where
  "rows_after st registry window after =
     filter (\<lambda>row. after_cursor after (sh_expiration (snd row)) (fst row))
       (all_rows (ap_handle_slots st) registry (fst window) (snd window) (ap_registrations st))"

lemma listing_rows_after:
  "list_named_in_expiration_window (ap_handle_slots st) registry lo hi after limit (ap_registrations st) =
     take limit (rows_after st registry (lo, hi) after)"
  by (simp add: listing_all_rows rows_after_def)

lemma sorted_rows_after: "sorted (map row_key (rows_after st registry window after))"
  unfolding rows_after_def
  by (rule sorted_map_filter_key [OF sorted_all_rows])

lemma rows_after_resume:
  assumes "k < length (rows_after st registry window after)"
    and "distinct (map row_key (rows_after st registry window after))"
  shows "rows_after st registry window (Some (row_key (rows_after st registry window after ! k))) =
    drop (Suc k) (rows_after st registry window after)"
proof -
  let ?A = "all_rows (ap_handle_slots st) registry (fst window) (snd window) (ap_registrations st)"
  let ?R = "rows_after st registry window after"
  define key where "key = row_key (?R ! k)"
  have in_R: "?R ! k \<in> set ?R" using assms(1) by simp
  have below: "after_cursor after (sh_expiration (snd row)) (fst row)" if "key < row_key row" for row
  proof (cases after)
    case None
    then show ?thesis by (simp add: after_cursor_def)
  next
    case (Some c)
    have "after_cursor after (sh_expiration (snd (?R ! k))) (fst (?R ! k))"
      using in_R by (simp add: rows_after_def)
    then have "c < key" using Some by (simp only: after_cursor_less row_key_def key_def)
    then have "c < row_key row" using that by (rule less_trans)
    then show ?thesis using Some by (simp only: after_cursor_less row_key_def)
  qed
  have "rows_after st registry window (Some (row_key (?R ! k))) = filter (\<lambda>row. key < row_key row) ?A"
    unfolding key_def rows_after_def [of st registry window "Some _"] after_cursor_less row_key_def ..
  also have "\<dots> = filter (\<lambda>row. key < row_key row) ?R"
    unfolding rows_after_def [of st registry window after] filter_filter
    by (rule filter_cong) (use below in auto)
  also have "\<dots> = drop (Suc k) ?R"
    unfolding key_def by (rule filter_after_nth [OF sorted_rows_after assms(2,1)])
  finally show ?thesis .
qed

section \<open>Properties\<close>

text \<open>
  Following the cursors of the \<open>soon\<close> view enumerates it: a page of limit \<open>n\<close> holds the next \<open>n\<close> rows
  in order, there is a cursor exactly when rows remain, and, when names are canonical and no two rows
  share expiration and name, the rows behind that cursor are the remaining ones.
\<close>

theorem soon_pages_enumerate:
  assumes "lookup_expiring_soon sdk env st query = Returned (Inr resp)"
    and "select_registry sdk env st (eq_launcher_id query) = Inr registry"
    and "rows = rows_after st registry (soon_expiration_window (now_unix st env)) (query_cursor query)"
    and "0 < page_limit query"
  shows "map (\<lambda>i. (es_expiration i, es_handle i)) (eo_items resp) = map row_key (take (page_limit query) rows) \<and>
    (eo_next_cursor resp = None \<longleftrightarrow> length rows \<le> page_limit query) \<and>
    (\<forall>c. eo_next_cursor resp = Some c \<and> distinct (map row_key rows) \<and>
        list_all (\<lambda>row. is_canonical_handle (fst row)) rows \<longrightarrow>
      rows_after st registry (soon_expiration_window (now_unix st env)) (decode_cursor c) =
        drop (page_limit query) rows)"
proof -
  let ?w = "soon_expiration_window (now_unix st env)" and ?n = "page_limit query"
  obtain price peak t where fresh: "require_fresh st env = Inr (peak, t)"
    and price: "price = rg_base_price (unwrap_or (hm_get (ap_registry_pricing st) registry) registry_pricing_default)"
    using assms(1,2) by (cases "require_fresh st env") (auto simp: lookup_expiring_soon_def)
  let ?items = "map (soon_item sdk price) (take (?n + 1) rows)"
  have nc: "next_cursor_of (\<lambda>r. (es_expiration r, es_handle r)) ?items ?n = Returned (eo_next_cursor resp)"
    and items: "eo_items resp = take ?n ?items"
    using assms(1,2) fresh
    by (auto simp: lookup_expiring_soon_def Let_def listing_rows_after assms(3) price
        split: prod.splits outcome.splits)
  have key: "(es_expiration (soon_item sdk price row), es_handle (soon_item sdk price row)) = row_key row" for row
    by (simp add: soon_item_def row_key_def)
  have page: "map (\<lambda>i. (es_expiration i, es_handle i)) (eo_items resp) = map row_key (take ?n rows)"
    by (simp add: items take_map key)
  have none: "eo_next_cursor resp = None \<longleftrightarrow> length rows \<le> ?n"
    using nc by (cases "eo_next_cursor resp") (auto simp: next_cursor_of_def split: if_splits)
  have "rows_after st registry ?w (decode_cursor c) = drop ?n rows"
    if c: "eo_next_cursor resp = Some c" and dist: "distinct (map row_key rows)"
      and canon: "list_all (\<lambda>row. is_canonical_handle (fst row)) rows" for c
  proof -
    have lt: "?n < length rows" using none c by (simp add: not_le)
    then have "rows ! (?n - 1) \<in> set rows" by simp
    then have can: "is_canonical_handle (fst (rows ! (?n - 1)))"
      using canon by (simp add: list_all_iff)
    have "?items ! (?n - 1) = soon_item sdk price (rows ! (?n - 1))"
      using lt by simp
    moreover have "?n < length ?items" and "?n \<noteq> 0" using lt assms(4) by simp_all
    ultimately have "eo_next_cursor resp = Some (encode_cursor (fst (row_key (rows ! (?n - 1))))
        (snd (row_key (rows ! (?n - 1)))))"
      using nc by (simp only: next_cursor_of_def key Let_def if_True if_False simp_thms outcome.inject)
    then have "c = encode_cursor (fst (row_key (rows ! (?n - 1)))) (snd (row_key (rows ! (?n - 1))))"
      using c by simp
    then have "decode_cursor c = Some (row_key (rows ! (?n - 1)))"
      using decode_encode [OF can] by (simp add: row_key_def)
    then show ?thesis
      using rows_after_resume [of "?n - 1" st registry ?w "query_cursor query"] lt dist assms(3,4)
      by simp
  qed
  with page none show ?thesis by blast
qed

text \<open>Two handles expire soon, three are in auction; the first of those is in its last ten minutes.\<close>

fun example_rows :: "(bytes32 \<times> u64) list \<Rightarrow> handle_store" where
  "example_rows [] = []"
| "example_rows ((h, exp) # rows) =
     ((1, h), \<lparr>hr_registry_launcher_id = 1, hr_handle_hash = h,
               hr_current = Some (example_slot h exp), hr_history = []\<rparr>) # example_rows rows"

fun example_named :: "(bytes32 \<times> string) list \<Rightarrow> (handle_key, registration_record) hash_map" where
  "example_named [] = []"
| "example_named ((h, name) # names) =
     ((1, h), \<lparr>rr_registry_launcher_id = 1, rr_handle_hash = h,
               rr_current = Some ((example_registration 90)\<lparr>sr_handle := name, sr_handle_hash := h\<rparr>),
               rr_history = []\<rparr>) # example_named names"

definition example_directory :: "u64 \<Rightarrow> (bytes32 \<times> u64) list \<Rightarrow> listener_api_state" where
  "example_directory now rows =
     \<lparr>ap_store = [], ap_handle_slots = example_rows rows,
      ap_registrations = \<lparr>rs_records = example_named [(1, ''abc''), (2, ''bcd''), (3, ''cde'')], rs_stats = []\<rparr>,
      ap_pending_updates = [], ap_freshness = fresh_at 100 now, ap_registry_pricing = [],
      ap_price_schedule = [], ap_committed_base_price = [], ap_registry_launcher_ids = [1],
      ap_now_unix_override = Some now\<rparr>"

definition example_page :: "u32 \<Rightarrow> expiring_query" where
  "example_page limit = \<lparr>eq_view = None, eq_cursor = None, eq_limit = Some limit, eq_launcher_id = None\<rparr>"

lemma example_select: "select_registry sdk env (example_directory now rows) None = Inr 1"
  by (simp add: select_registry_def example_directory_def)

lemma example_directory_simps:
  "now_unix (example_directory now rows) env = now"
  "require_fresh (example_directory now rows) env = Inr (100, now)"
  "ap_handle_slots (example_directory now rows) = example_rows rows"
  "hm_get (ap_registry_pricing (example_directory now rows)) r = None"
  by (simp_all add: now_unix_def example_directory_def require_fresh_def is_fresh_def fresh_at_def Let_def)

lemma example_page_simps:
  "eq_launcher_id (example_page n) = None" "query_cursor (example_page n) = None"
  "n \<le> 50 \<Longrightarrow> page_limit (example_page n) = unat n"
  by (simp_all add: example_page_def query_cursor_def page_limit_def min_def)

lemma example_soon_window: "soon_expiration_window 1500 = (1501, 2593500)"
  by (simp add: soon_expiration_window_def saturating_add_def SOON_WINDOW_SECONDS_def)

lemma example_soon_all:
  "all_rows (example_rows [(2, 3000), (1, 2000)]) 1 1501 2593500
     (ap_registrations (example_directory 1500 [(2, 3000), (1, 2000)])) =
   [(''abc'', example_slot 1 2000), (''bcd'', example_slot 2 3000)]"
  unfolding example_directory_def listener_api_state.select_convs by code_simp

lemma example_soon_rows:
  "rows_after (example_directory 1500 [(2, 3000), (1, 2000)]) 1
     (soon_expiration_window (now_unix (example_directory 1500 [(2, 3000), (1, 2000)]) example_env))
     None = [(''abc'', example_slot 1 2000), (''bcd'', example_slot 2 3000)]"
  by (simp add: rows_after_def example_directory_simps example_soon_window example_soon_all after_cursor_def
      del: example_rows.simps)

lemma example_slot_exp [simp]: "sh_expiration (example_slot h e) = e"
  by (simp add: example_slot_def)

lemma example_soon_page:
  "\<exists>resp. lookup_expiring_soon fixture_sdk example_env (example_directory 1500 [(2, 3000), (1, 2000)])
      (example_page 1) = Returned (Inr resp) \<and> eo_next_cursor resp = Some (encode_cursor 2000 ''abc'')"
  by (simp add: lookup_expiring_soon_def example_page_simps example_select example_directory_simps Let_def
      example_soon_window listing_all_rows example_soon_all after_cursor_def next_cursor_of_def soon_item_def
      del: example_rows.simps)

lemma soon_pages_enumerate_witness:
  "rows_after (example_directory 1500 [(2, 3000), (1, 2000)]) 1
     (soon_expiration_window (now_unix (example_directory 1500 [(2, 3000), (1, 2000)]) example_env))
     (decode_cursor (encode_cursor 2000 ''abc'')) = [(''bcd'', example_slot 2 3000)]"
proof -
  have canon: "is_canonical_handle ''abc''" "is_canonical_handle ''bcd''" by code_simp+
  obtain resp where resp: "lookup_expiring_soon fixture_sdk example_env
      (example_directory 1500 [(2, 3000), (1, 2000)]) (example_page 1) = Returned (Inr resp)"
    and c: "eo_next_cursor resp = Some (encode_cursor 2000 ''abc'')"
    using example_soon_page by blast
  have sel: "select_registry fixture_sdk example_env (example_directory 1500 [(2, 3000), (1, 2000)])
      (eq_launcher_id (example_page 1)) = Inr 1"
    by (simp only: example_page_simps example_select)
  have rows: "[(''abc'', example_slot 1 2000), (''bcd'', example_slot 2 3000)] =
      rows_after (example_directory 1500 [(2, 3000), (1, 2000)]) 1
        (soon_expiration_window (now_unix (example_directory 1500 [(2, 3000), (1, 2000)]) example_env))
        (query_cursor (example_page 1))"
    by (simp only: example_soon_rows example_page_simps)
  have limit: "page_limit (example_page 1) = 1" by (simp add: example_page_simps)
  then show ?thesis
    using soon_pages_enumerate [OF resp sel rows] c canon
    by (simp add: row_key_def)
qed

definition active_rows ::
  "('n, 'z) sdk_scheme \<Rightarrow> listener_api_state \<Rightarrow> bytes32 \<Rightarrow> u64 \<Rightarrow> (string \<times> stored_handle_slot) list
    \<Rightarrow> expiring_active_item list"
where
  "active_rows sdk st registry projected rows =
     filter (\<lambda>item. ea_current_premium item \<noteq> 0) (map (active_item sdk
       (rg_base_price (unwrap_or (hm_get (ap_registry_pricing st) registry) registry_pricing_default))
       projected) rows)"

lemma lookup_expiring_active_eq:
  assumes "select_registry sdk env st (eq_launcher_id query) = Inr registry"
    and "require_fresh st env = Inr (peak, t)" and "projected = projected_pricing_timestamp t"
    and "rows = active_rows sdk st registry projected (take (page_limit query + 1)
      (rows_after st registry (active_expiration_window (now_unix st env) projected) (query_cursor query)))"
  shows "lookup_expiring_active sdk env st query =
      (case next_cursor_of (\<lambda>r. (ea_expiration r, ea_handle r)) rows (page_limit query) of
         Panicked \<Rightarrow> Panicked
       | Returned nc \<Rightarrow> Returned (Inr \<lparr>er_items = take (page_limit query) rows, er_next_cursor = nc,
           er_indexed_peak_height = peak, er_confirmed_timestamp = t\<rparr>))"
  using assms(1,2)
  by (simp add: lookup_expiring_active_def Let_def listing_rows_after assms(3,4) active_rows_def
      cong: outcome.case_cong split: prod.splits)

text \<open>
  The active view ends its paging early: when one of the rows fetched for a page has decayed to a
  zero premium (the last minutes of its auction), the page answers without a cursor, however many
  rows with a premium remain behind it.
\<close>

theorem active_page_loses_cursor:
  assumes "lookup_expiring_active sdk env st query = Returned (Inr resp)"
    and "select_registry sdk env st (eq_launcher_id query) = Inr registry"
    and "projected = projected_pricing_timestamp (er_confirmed_timestamp resp)"
    and "rows = rows_after st registry (active_expiration_window (now_unix st env) projected) (query_cursor query)"
    and "row \<in> set (take (page_limit query + 1) rows)"
    and "auction_premium sdk (sh_expiration (snd row)) projected = 0"
  shows "er_next_cursor resp = None"
proof -
  let ?n = "page_limit query"
  obtain peak t where fresh: "require_fresh st env = Inr (peak, t)"
    using assms(1,2) by (cases "require_fresh st env") (auto simp: lookup_expiring_active_def)
  have t: "er_confirmed_timestamp resp = t"
    using assms(1,2) fresh
    by (auto simp: lookup_expiring_active_def Let_def split: prod.splits outcome.splits)
  let ?rows = "active_rows sdk st registry projected (take (?n + 1) rows)"
  have "next_cursor_of (\<lambda>r. (ea_expiration r, ea_handle r)) ?rows ?n = Returned (er_next_cursor resp)"
    using assms(1) lookup_expiring_active_eq [OF assms(2) fresh, of projected ?rows] assms(3,4) t
    by (cases "next_cursor_of (\<lambda>r. (ea_expiration r, ea_handle r)) ?rows ?n") auto
  moreover have "length ?rows < length (take (?n + 1) rows)"
  proof -
    let ?items = "map (active_item sdk (rg_base_price (unwrap_or (hm_get (ap_registry_pricing st) registry)
      registry_pricing_default)) projected) (take (?n + 1) rows)"
    have "\<exists>item \<in> set ?items. \<not> ea_current_premium item \<noteq> 0"
      using assms(5,6) by (auto simp: active_item_def Let_def split: prod.splits intro!: bexI [of _ row])
    then have "length (filter (\<lambda>item. ea_current_premium item \<noteq> 0) ?items) < length ?items"
      by (elim bexE) (rule length_filter_less)
    then show ?thesis unfolding active_rows_def length_map .
  qed
  ultimately show ?thesis by (simp add: next_cursor_of_def split: if_splits)
qed

lemma example_active_window:
  "active_expiration_window 3000000 (projected_pricing_timestamp 3000000) = (581221, 3000000)"
  by (simp add: active_expiration_window_def projected_pricing_timestamp_def saturating_add_def
      PRICING_PROJECTION_OFFSET_SECONDS_def checked_sub_def AUCTION_DURATION_SECONDS_def)

lemma example_active_all:
  "all_rows (example_rows [(1, 581820), (2, 2900000), (3, 2950000)]) 1 581221 3000000
     (ap_registrations (example_directory 3000000 [(1, 581820), (2, 2900000), (3, 2950000)])) =
   [(''abc'', example_slot 1 581820), (''bcd'', example_slot 2 2900000), (''cde'', example_slot 3 2950000)]"
  unfolding example_directory_def listener_api_state.select_convs by code_simp

lemma example_premiums:
  "auction_premium fixture_sdk 581820 (projected_pricing_timestamp 3000000) = 0"
  "auction_premium fixture_sdk 2900000 (projected_pricing_timestamp 3000000) \<noteq> 0"
  "auction_premium fixture_sdk 2950000 (projected_pricing_timestamp 3000000) \<noteq> 0"
  by (simp_all add: auction_premium_def premium_after_elapsed_def Let_def AUCTION_DURATION_SECONDS_def
      HALVING_PERIOD_def SCALE_FACTOR_def fixture_bits_def saturating_sub_def
      projected_pricing_timestamp_def PRICING_PROJECTION_OFFSET_SECONDS_def saturating_add_def)

text \<open>Here the page of one row has no cursor, and \<open>cde\<close>, in auction at a positive premium, is never listed.\<close>

lemma active_page_loses_cursor_witness:
  "\<exists>resp. lookup_expiring_active fixture_sdk example_env
       (example_directory 3000000 [(1, 581820), (2, 2900000), (3, 2950000)]) (example_page 1) =
       Returned (Inr resp) \<and>
     er_next_cursor resp = None \<and> map ea_handle (er_items resp) = [''bcd'']"
proof -
  let ?st = "example_directory 3000000 [(1, 581820), (2, 2900000), (3, 2950000)]"
  let ?w = "active_expiration_window (now_unix ?st example_env) (projected_pricing_timestamp 3000000)"
  have rows: "[(''abc'', example_slot 1 581820), (''bcd'', example_slot 2 2900000), (''cde'', example_slot 3 2950000)] =
      rows_after ?st 1 ?w (query_cursor (example_page 1))"
    by (simp add: rows_after_def example_directory_simps example_active_window example_active_all
        after_cursor_def example_page_simps del: example_rows.simps)
  have sel: "select_registry fixture_sdk example_env ?st (eq_launcher_id (example_page 1)) = Inr 1"
    by (simp only: example_page_simps example_select)
  have limit: "page_limit (example_page 1) = 1" by (simp add: example_page_simps)
  let ?items = "active_rows fixture_sdk ?st 1 (projected_pricing_timestamp 3000000)
    (take (page_limit (example_page 1) + 1) (rows_after ?st 1 ?w (query_cursor (example_page 1))))"
  have items: "map ea_handle ?items = [''bcd'']"
    unfolding rows [symmetric] active_rows_def limit
    by (simp add: active_item_def example_premiums Let_def)
  then have "length ?items = 1" by (metis length_map length_Cons list.size(3) One_nat_def)
  then have eq: "lookup_expiring_active fixture_sdk example_env ?st (example_page 1) =
      Returned (Inr \<lparr>er_items = take 1 ?items, er_next_cursor = None, er_indexed_peak_height = 100,
        er_confirmed_timestamp = 3000000\<rparr>)"
    using lookup_expiring_active_eq [OF sel example_directory_simps(2) refl refl]
    by (simp add: next_cursor_of_def limit)
  obtain resp where resp: "lookup_expiring_active fixture_sdk example_env ?st (example_page 1) = Returned (Inr resp)"
    and items: "map ea_handle (er_items resp) = [''bcd'']" and t: "er_confirmed_timestamp resp = 3000000"
    using that [OF eq] items by (simp add: take_map [symmetric])
  have proj: "projected_pricing_timestamp 3000000 = projected_pricing_timestamp (er_confirmed_timestamp resp)"
    by (simp only: t)
  have zero: "auction_premium fixture_sdk (sh_expiration (snd (''abc'', example_slot 1 581820)))
      (projected_pricing_timestamp 3000000) = 0"
    by (simp only: snd_conv example_slot_exp example_premiums)
  have mem: "(''abc'', example_slot 1 581820) \<in> set (take (page_limit (example_page 1) + 1)
      [(''abc'', example_slot 1 581820), (''bcd'', example_slot 2 2900000), (''cde'', example_slot 3 2950000)])"
    by (simp only: limit one_add_one numeral_2_eq_2 take_Suc_Cons list.set insert_iff simp_thms)
  have "er_next_cursor resp = None"
    using resp sel proj rows mem zero by (rule active_page_loses_cursor)
  with resp items show ?thesis by (intro exI [of _ resp] conjI)
qed

text \<open>
  A page of limit 0 is not an empty page: as soon as one handle expires soon, the handler indexes
  in front of the first row and panics.
\<close>

theorem limit_zero_panics:
  assumes "select_registry sdk env st (eq_launcher_id query) = Inr registry" and "fresh_now st env"
    and "page_limit query = 0"
    and "rows_after st registry (soon_expiration_window (now_unix st env)) (query_cursor query) \<noteq> []"
  shows "lookup_expiring_soon sdk env st query = Panicked"
  using assms
  by (cases "rows_after st registry (soon_expiration_window (now_unix st env)) (query_cursor query)")
    (simp_all add: lookup_expiring_soon_def require_fresh_now Let_def listing_rows_after
      next_cursor_of_def split: prod.splits)

lemma limit_zero_panics_witness:
  "lookup_expiring_soon fixture_sdk example_env (example_directory 1500 [(2, 3000), (1, 2000)])
     (example_page 0) = Panicked"
proof -
  have "fresh_now (example_directory 1500 [(2, 3000), (1, 2000)]) example_env"
    unfolding fresh_now_def example_directory_simps
    by (simp add: example_directory_def is_fresh_def fresh_at_def)
  moreover have "rows_after (example_directory 1500 [(2, 3000), (1, 2000)]) 1
      (soon_expiration_window (now_unix (example_directory 1500 [(2, 3000), (1, 2000)]) example_env))
      (query_cursor (example_page 0)) \<noteq> []"
    unfolding example_page_simps example_soon_rows by simp
  moreover have "select_registry fixture_sdk example_env (example_directory 1500 [(2, 3000), (1, 2000)])
      (eq_launcher_id (example_page 0)) = Inr 1"
    by (simp only: example_page_simps example_select)
  moreover have "page_limit (example_page 0) = 0" by (simp add: example_page_simps)
  ultimately show ?thesis by (intro limit_zero_panics)
qed

end
