(* ===== verification/DatabaseFacts.thy ===== *)
theory DatabaseFacts
  imports Database
begin

text \<open>
  What the neighbour query finds, and the bookkeeping of singleton coins. BLOB order is the order of the
  256-bit numbers, so the query's nearest handles are the numerically nearest ones.
\<close>

section \<open>The order of BLOB columns\<close>

lemma snoc_less_snoc:
  "length xs = length ys \<Longrightarrow> (xs @ [a] < ys @ [b]) \<longleftrightarrow> xs < ys \<or> xs = ys \<and> a < (b :: 'a :: linorder)"
  by (induction xs ys rule: list_induct2) auto

lemma nat_to_be_inject:
  "m < 256 ^ k \<Longrightarrow> n < 256 ^ k \<Longrightarrow> nat_to_be k m = nat_to_be k n \<longleftrightarrow> m = n"
  by (metis be_to_nat_to_be mod_less)

lemma nat_to_be_less:
  "m < 256 ^ k \<Longrightarrow> n < 256 ^ k \<Longrightarrow> nat_to_be k m < nat_to_be k n \<longleftrightarrow> m < n"
proof (induction k arbitrary: m n)
  case (Suc k)
  have bounds: "m div 256 < 256 ^ k" "n div 256 < 256 ^ k"
    using Suc.prems by (simp_all add: less_mult_imp_div_less)
  have digit: "(word_of_nat (m mod 256) :: u8) < word_of_nat (n mod 256) \<longleftrightarrow> m mod 256 < n mod 256"
    by (simp add: word_less_nat_alt unat_of_nat)
  have split: "m < n \<longleftrightarrow> m div 256 < n div 256 \<or> m div 256 = n div 256 \<and> m mod 256 < n mod 256"
    using mult_div_mod_eq [of 256 m] mult_div_mod_eq [of 256 n] by linarith
  show ?case
    by (simp add: snoc_less_snoc Suc.IH [OF bounds] nat_to_be_inject [OF bounds] digit split)
qed simp

lemma to_bytes_less [simp]: "to_bytes a < to_bytes b \<longleftrightarrow> a < b"
proof -
  have "unat x < 256 ^ 32" for x :: bytes32 using unsigned_less [of x] by simp
  then show ?thesis by (simp add: to_bytes_def nat_to_be_less word_less_nat_alt del: power_numeral)
qed

section \<open>The nearest rows of an index\<close>

lemma last_opt_sorted:
  assumes "last_opt (sort_key f xs) = Some x"
  shows "x \<in> set xs \<and> (\<forall>y \<in> set xs. f y \<le> f x)"
proof -
  from assms obtain ys where ys: "sort_key f xs = ys @ [x]"
    by (auto simp: last_opt_def split: if_splits) (metis append_butlast_last_id)
  have "sorted (map f (sort_key f xs))" by simp
  then have "\<forall>y \<in> set (sort_key f xs). f y \<le> f x" unfolding ys by (auto simp: sorted_append)
  moreover have "x \<in> set (sort_key f xs)" unfolding ys by simp
  ultimately show ?thesis by simp
qed

lemma last_opt_sorted_None: "last_opt (sort_key f xs) = None \<longleftrightarrow> xs = []"
proof -
  have "sort_key f xs = [] \<longleftrightarrow> xs = []" by (metis length_0_conv length_sort)
  then show ?thesis by (simp add: last_opt_def)
qed

lemma hd_sorted:
  assumes "sort_key f xs = x # ys"
  shows "x \<in> set xs \<and> (\<forall>y \<in> set xs. f x \<le> f y)"
proof -
  have "sorted (map f (sort_key f xs))" by simp
  then have "\<forall>y \<in> set (sort_key f xs). f x \<le> f y" unfolding assms by auto
  moreover have "x \<in> set (sort_key f xs)" unfolding assms by simp
  ultimately show ?thesis by simp
qed

section \<open>Neighbours\<close>

text \<open>
  An index from keys to slot values is backed by the slots table when every indexed key has exactly one
  unspent slot, and the slot is its own.
\<close>

definition backed ::
  "'v slot_codec \<Rightarrow> ('v \<Rightarrow> bytes32) \<Rightarrow> bytes32 \<Rightarrow> u64 \<Rightarrow> (blob \<times> blob) list \<Rightarrow> db \<Rightarrow> bool"
where
  "backed codec key_of launcher_id nonce index db \<longleftrightarrow>
     \<not> db_failing db \<and>
     (\<forall>(key, value_hash) \<in> set index.
        \<exists>slot. key = to_bytes (key_of (slot_value slot)) \<and>
          map (row_to_slot codec) (unspent_rows launcher_id nonce (Some value_hash) db) = [Inr slot])"

definition indexed_keys :: "(blob \<times> blob) list \<Rightarrow> bytes32 set" where
  "indexed_keys index = {h. to_bytes h \<in> fst ` set index}"

definition index_backed :: "'v slot_codec \<Rightarrow> ('v \<Rightarrow> bytes32) \<Rightarrow> bytes32 \<Rightarrow> db \<Rightarrow> bool" where
  "index_backed codec handle_of launcher_id db \<longleftrightarrow>
     backed codec handle_of launcher_id (sc_nonce codec) (handle_index launcher_id db) db"

definition indexed_handles :: "bytes32 \<Rightarrow> db \<Rightarrow> bytes32 set" where
  "indexed_handles launcher_id db = indexed_keys (handle_index launcher_id db)"

lemma unspent_rows_None [simp]: "unspent_rows launcher_id nonce None db = []"
  by (simp add: unspent_rows_def)

lemma indexed_row:
  assumes "backed codec key_of launcher_id nonce index db" and "(k, v) \<in> set index"
  obtains slot where "k = to_bytes (key_of (slot_value slot))"
    and "collect_results (row_to_slot codec) (unspent_rows launcher_id nonce (Some v) db) = Inr [slot]"
    and "key_of (slot_value slot) \<in> indexed_keys index"
proof -
  from assms obtain slot where k: "k = to_bytes (key_of (slot_value slot))"
    and rows: "map (row_to_slot codec) (unspent_rows launcher_id nonce (Some v) db) = [Inr slot]"
    by (auto simp: backed_def)
  from rows obtain row where "unspent_rows launcher_id nonce (Some v) db = [row]"
    and "row_to_slot codec row = Inr slot" by auto
  with k show ?thesis
    using that assms(2) by (force simp: indexed_keys_def)
qed

lemma left_neighbour:
  assumes "backed codec key_of launcher_id nonce index db"
  shows "case indexed_before index (to_bytes h) of
      None \<Rightarrow> \<forall>b \<in> indexed_keys index. h \<le> b
    | Some v \<Rightarrow> \<exists>slot. collect_results (row_to_slot codec)
          (unspent_rows launcher_id nonce (Some v) db) = Inr [slot] \<and>
        (to_bytes (key_of (slot_value slot)), v) \<in> set index \<and>
        key_of (slot_value slot) \<in> indexed_keys index \<and> key_of (slot_value slot) < h \<and>
        (\<forall>b \<in> indexed_keys index. b < h \<longrightarrow> b \<le> key_of (slot_value slot))"
proof -
  let ?below = "filter (\<lambda>row. fst row < to_bytes h) index"
  show ?thesis
  proof (cases "last_opt (sort_key fst ?below)")
    case None
    then have "?below = []" by (simp only: last_opt_sorted_None)
    then have "\<forall>b \<in> indexed_keys index. h \<le> b"
      by (fastforce simp: filter_empty_conv indexed_keys_def)
    with None show ?thesis by (simp add: indexed_before_def)
  next
    case (Some row)
    obtain k v where row: "row = (k, v)" by (cases row)
    from last_opt_sorted [OF Some] have kv: "(k, v) \<in> set index" "k < to_bytes h"
      and top: "\<forall>y \<in> set ?below. fst y \<le> k" by (auto simp: row)
    from indexed_row [OF assms kv(1)] obtain slot where slot: "k = to_bytes (key_of (slot_value slot))"
      "collect_results (row_to_slot codec) (unspent_rows launcher_id nonce (Some v) db) = Inr [slot]"
      "key_of (slot_value slot) \<in> indexed_keys index" by blast
    have "b \<le> key_of (slot_value slot)" if "b \<in> indexed_keys index" "b < h" for b
    proof -
      from that obtain v' where "(to_bytes b, v') \<in> set ?below" by (auto simp: indexed_keys_def)
      with top have "to_bytes b \<le> k" by fastforce
      then show ?thesis unfolding slot(1) by (metis linorder_not_le to_bytes_less)
    qed
    with slot kv Some row show ?thesis by (auto simp: indexed_before_def)
  qed
qed

lemma right_neighbour:
  assumes "backed codec key_of launcher_id nonce index db"
  shows "case indexed_after index (to_bytes h) of
      None \<Rightarrow> \<forall>b \<in> indexed_keys index. b \<le> h
    | Some v \<Rightarrow> \<exists>slot. collect_results (row_to_slot codec)
          (unspent_rows launcher_id nonce (Some v) db) = Inr [slot] \<and>
        (to_bytes (key_of (slot_value slot)), v) \<in> set index \<and>
        key_of (slot_value slot) \<in> indexed_keys index \<and> h < key_of (slot_value slot) \<and>
        (\<forall>b \<in> indexed_keys index. h < b \<longrightarrow> key_of (slot_value slot) \<le> b)"
proof -
  let ?above = "filter (\<lambda>row. to_bytes h < fst row) index"
  show ?thesis
  proof (cases "sort_key fst ?above")
    case Nil
    then have "?above = []" by (metis length_0_conv length_sort)
    then have "\<forall>b \<in> indexed_keys index. b \<le> h"
      by (fastforce simp: filter_empty_conv indexed_keys_def)
    with Nil show ?thesis by (simp add: indexed_after_def)
  next
    case (Cons row rows)
    obtain k v where row: "row = (k, v)" by (cases row)
    from hd_sorted [OF Cons] have kv: "(k, v) \<in> set index" "to_bytes h < k"
      and bottom: "\<forall>y \<in> set ?above. k \<le> fst y" by (auto simp: row)
    from indexed_row [OF assms kv(1)] obtain slot where slot: "k = to_bytes (key_of (slot_value slot))"
      "collect_results (row_to_slot codec) (unspent_rows launcher_id nonce (Some v) db) = Inr [slot]"
      "key_of (slot_value slot) \<in> indexed_keys index" by blast
    have "key_of (slot_value slot) \<le> b" if "b \<in> indexed_keys index" "h < b" for b
    proof -
      from that obtain v' where "(to_bytes b, v') \<in> set ?above" by (auto simp: indexed_keys_def)
      with bottom have "k \<le> to_bytes b" by fastforce
      then show ?thesis unfolding slot(1) by (metis linorder_not_le to_bytes_less)
    qed
    with slot kv Cons row show ?thesis by (auto simp: indexed_after_def)
  qed
qed

text \<open>
  The neighbour query is exact: when every indexed handle of the registry has its one unspent slot,
  the slots returned are those of the greatest indexed handle below and the least one above the hash
  asked for; when one side is empty the answer is \<open>DbColumnNotFound\<close>, and there is no other error.
\<close>

theorem neighbors_exact:
  assumes "index_backed codec handle_of launcher_id db"
  shows "case get_xchandles_neighbors codec launcher_id h db of
      Inl e \<Rightarrow> e = DbColumnNotFound \<and>
        ((\<forall>b \<in> indexed_handles launcher_id db. h \<le> b) \<or> (\<forall>b \<in> indexed_handles launcher_id db. b \<le> h))
    | Inr (left, right) \<Rightarrow>
        (let l = handle_of (slot_value left); r = handle_of (slot_value right);
             indexed = indexed_handles launcher_id db
         in l \<in> indexed \<and> l < h \<and> (\<forall>b \<in> indexed. b < h \<longrightarrow> b \<le> l) \<and>
            r \<in> indexed \<and> h < r \<and> (\<forall>b \<in> indexed. h < b \<longrightarrow> r \<le> b))"
proof -
  note backed = assms [unfolded index_backed_def]
  have online: "\<not> db_failing db" using backed by (simp add: backed_def)
  show ?thesis
    using left_neighbour [OF backed, of h] right_neighbour [OF backed, of h]
    unfolding indexed_handles_def
    by (cases "indexed_before (handle_index launcher_id db) (to_bytes h)";
        cases "indexed_after (handle_index launcher_id db) (to_bytes h)")
      (auto simp: get_xchandles_neighbors_def neighbour_slots_def online)
qed

text \<open>A registry 1 with the handles 1, 5 and 9; a value is its own handle hash.\<close>

definition example_codec :: "bytes32 slot_codec" where
  "example_codec = \<lparr>sc_to_bytes = (\<lambda>v. Inr (to_bytes v)), sc_from_bytes = column_to_bytes32,
     sc_tree_hash = (\<lambda>v. v),
     sc_coin = (\<lambda>proof l n v. \<lparr>parent_coin_info = lp_parent_parent_coin_info proof, puzzle_hash = v, amount = 0\<rparr>),
     sc_nonce = 1\<rparr>"

definition example_proof :: lineage_proof where
  "example_proof = \<lparr>lp_parent_parent_coin_info = 3, lp_parent_inner_puzzle_hash = 4, lp_parent_amount = 1\<rparr>"

definition example_slot_row :: "bytes32 \<Rightarrow> slot_row" where
  "example_slot_row h = slot_to_row (slot_new example_codec example_proof 1 1 h) (to_bytes h) 0"

definition example_slots_db :: db where
  "example_slots_db = db_new\<lparr>
     db_slots := [example_slot_row 1, example_slot_row 9, example_slot_row 5],
     db_xchandles_indexed := [((to_bytes 1, to_bytes 1), to_bytes 1), ((to_bytes 1, to_bytes 9), to_bytes 9),
       ((to_bytes 1, to_bytes 5), to_bytes 5)]\<rparr>"

lemma example_row_slot: "row_to_slot example_codec (example_slot_row h) = Inr (slot_new example_codec example_proof 1 1 h)"
  by (simp add: row_to_slot_def example_slot_row_def slot_to_row_def slot_new_def example_codec_def example_proof_def)

lemma example_unspent:
  "unspent_rows 1 (sc_nonce example_codec) (Some (to_bytes h)) example_slots_db =
     filter (\<lambda>row. sl_slot_value_hash row = to_bytes h) [example_slot_row 1, example_slot_row 9, example_slot_row 5]"
  by (simp add: unspent_rows_def example_slots_db_def example_slot_row_def slot_to_row_def slot_new_def
      example_codec_def)

lemma example_value_hash: "sl_slot_value_hash (example_slot_row h) = to_bytes h"
  by (simp add: example_slot_row_def slot_to_row_def slot_new_def example_codec_def)

lemma neighbors_exact_witness:
  "\<exists>left right. get_xchandles_neighbors example_codec 1 6 example_slots_db = Inr (left, right) \<and>
     slot_value left = 5 \<and> slot_value right = 9"
proof -
  have index: "handle_index 1 example_slots_db =
      [(to_bytes 1, to_bytes 1), (to_bytes 9, to_bytes 9), (to_bytes 5, to_bytes 5)]"
    by (simp add: handle_index_def example_slots_db_def)
  then have handles: "indexed_handles 1 example_slots_db = {1, 9, 5}"
    by (auto simp: indexed_handles_def indexed_keys_def)
  have "\<not> db_failing example_slots_db" by (simp add: example_slots_db_def db_new_def)
  moreover have "slot_value (slot_new example_codec example_proof 1 1 h) = h" for h
    by (simp add: slot_new_def)
  ultimately have "index_backed example_codec (\<lambda>v. v) 1 example_slots_db"
    unfolding index_backed_def backed_def index
    by (simp add: example_unspent example_value_hash example_row_slot)
  from neighbors_exact [OF this, of 6] show ?thesis
    by (auto simp: handles Let_def word_le_nat_alt word_less_nat_alt split: sum.splits)
qed

end
