(* ===== verification/DbStores.thy ===== *)
theory DbStores
  imports Database Discovery SingletonStore HandleStore RegistrationStore PendingStore
begin

text \<open>
  The tables of \<open>database.rs\<close> that hold the listener's records as JSON text, and the stores over them
  (\<open>DbSingletonStore\<close>, \<open>DbHandleSlotStore\<close>, \<open>DbRegistrationStore\<close>, \<open>DbPendingUpdateStore\<close>) the
  production listener runs on. serde's text is a parameter, \<open>json_codec\<close>: what the stores rely on is
  that reading undoes writing (\<open>json_reads\<close>). Every store swallows the errors of the database: a failed read is an
  absent record, a failed write leaves the table as it was.
\<close>

record 'r json_codec =
  jc_to_string :: "'r \<Rightarrow> string option"
  jc_from_string :: "string \<Rightarrow> 'r option"

definition json_reads :: "'r json_codec \<Rightarrow> 'r \<Rightarrow> bool" where
  "json_reads codec r \<longleftrightarrow> (\<exists>text. jc_to_string codec r = Some text \<and> jc_from_string codec text = Some r)"

section \<open>The tables\<close>

subsection \<open>Followed singletons\<close>

definition get_followed_singleton_json :: "bytes32 \<Rightarrow> db \<Rightarrow> cli_error + string option" where
  "get_followed_singleton_json launcher_id db =
     db_query db (hm_get (db_followed_singletons db) (to_bytes launcher_id))"

definition upsert_followed_singleton_json :: "bytes32 \<Rightarrow> string \<Rightarrow> db \<Rightarrow> cli_error + db" where
  "upsert_followed_singleton_json launcher_id record_json db =
     db_query db (db\<lparr>db_followed_singletons :=
       hm_insert (to_bytes launcher_id) record_json (db_followed_singletons db)\<rparr>)"

definition delete_followed_singleton :: "bytes32 \<Rightarrow> db \<Rightarrow> cli_error + db" where
  "delete_followed_singleton launcher_id db =
     db_query db (db\<lparr>db_followed_singletons :=
       hm_remove (to_bytes launcher_id) (db_followed_singletons db)\<rparr>)"

definition all_followed_singleton_ids :: "db \<Rightarrow> cli_error + bytes32 list" where
  "all_followed_singleton_ids db =
     try_result (db_query db (hm_keys (db_followed_singletons db))) (collect_results column_to_bytes32)"

subsection \<open>Handle slots\<close>

definition key_columns :: "bytes32 \<times> bytes32 \<Rightarrow> blob \<times> blob" where
  "key_columns = (\<lambda>(registry_launcher_id, handle_hash). (to_bytes registry_launcher_id, to_bytes handle_hash))"

definition columns_to_key :: "blob \<times> blob \<Rightarrow> cli_error + bytes32 \<times> bytes32" where
  "columns_to_key = (\<lambda>(registry_launcher_id, handle_hash).
     try_result (column_to_bytes32 registry_launcher_id) (\<lambda>r.
     try_result (column_to_bytes32 handle_hash) (\<lambda>h. Inr (r, h))))"

definition get_handle_slot_record_json :: "bytes32 \<times> bytes32 \<Rightarrow> db \<Rightarrow> cli_error + string option" where
  "get_handle_slot_record_json k db =
     db_query db (map_option fst (hm_get (db_handle_slot_records db) (key_columns k)))"

definition upsert_handle_slot_record_json ::
  "bytes32 \<times> bytes32 \<Rightarrow> string \<Rightarrow> u64 \<Rightarrow> db \<Rightarrow> cli_error + db"
where
  "upsert_handle_slot_record_json k record_json expiration db =
     db_query db (db\<lparr>db_handle_slot_records :=
       hm_insert (key_columns k) (record_json, expiration) (db_handle_slot_records db)\<rparr>)"

definition delete_handle_slot_record :: "bytes32 \<times> bytes32 \<Rightarrow> db \<Rightarrow> cli_error + db" where
  "delete_handle_slot_record k db =
     db_query db (db\<lparr>db_handle_slot_records := hm_remove (key_columns k) (db_handle_slot_records db)\<rparr>)"

definition all_handle_slot_keys :: "db \<Rightarrow> cli_error + (bytes32 \<times> bytes32) list" where
  "all_handle_slot_keys db =
     try_result (db_query db (hm_keys (db_handle_slot_records db))) (collect_results columns_to_key)"

subsection \<open>Registrations\<close>

definition get_registration_record_json :: "bytes32 \<times> bytes32 \<Rightarrow> db \<Rightarrow> cli_error + string option" where
  "get_registration_record_json k db =
     db_query db (hm_get (db_registration_records db) (key_columns k))"

definition upsert_registration_record_json :: "bytes32 \<times> bytes32 \<Rightarrow> string \<Rightarrow> db \<Rightarrow> cli_error + db" where
  "upsert_registration_record_json k record_json db =
     db_query db (db\<lparr>db_registration_records :=
       hm_insert (key_columns k) record_json (db_registration_records db)\<rparr>)"

definition delete_registration_record :: "bytes32 \<times> bytes32 \<Rightarrow> db \<Rightarrow> cli_error + db" where
  "delete_registration_record k db =
     db_query db (db\<lparr>db_registration_records := hm_remove (key_columns k) (db_registration_records db)\<rparr>)"

definition all_registration_record_keys :: "db \<Rightarrow> cli_error + (bytes32 \<times> bytes32) list" where
  "all_registration_record_keys db =
     try_result (db_query db (hm_keys (db_registration_records db))) (collect_results columns_to_key)"

definition get_registration_stats_json :: "bytes32 \<Rightarrow> db \<Rightarrow> cli_error + string option" where
  "get_registration_stats_json registry db =
     db_query db (hm_get (db_registration_registry_stats db) (to_bytes registry))"

definition upsert_registration_stats_json :: "bytes32 \<Rightarrow> string \<Rightarrow> db \<Rightarrow> cli_error + db" where
  "upsert_registration_stats_json registry state_json db =
     db_query db (db\<lparr>db_registration_registry_stats :=
       hm_insert (to_bytes registry) state_json (db_registration_registry_stats db)\<rparr>)"

definition all_registration_stats_registry_ids :: "db \<Rightarrow> cli_error + bytes32 list" where
  "all_registration_stats_registry_ids db =
     try_result (db_query db (hm_keys (db_registration_registry_stats db))) (collect_results column_to_bytes32)"

subsection \<open>Pending updates\<close>

definition get_pending_update_record_json :: "bytes32 \<times> bytes32 \<Rightarrow> db \<Rightarrow> cli_error + string option" where
  "get_pending_update_record_json k db =
     db_query db (hm_get (db_pending_update_records db) (key_columns k))"

definition upsert_pending_update_record_json :: "bytes32 \<times> bytes32 \<Rightarrow> string \<Rightarrow> db \<Rightarrow> cli_error + db" where
  "upsert_pending_update_record_json k record_json db =
     db_query db (db\<lparr>db_pending_update_records :=
       hm_insert (key_columns k) record_json (db_pending_update_records db)\<rparr>)"

definition delete_pending_update_record :: "bytes32 \<times> bytes32 \<Rightarrow> db \<Rightarrow> cli_error + db" where
  "delete_pending_update_record k db =
     db_query db (db\<lparr>db_pending_update_records := hm_remove (key_columns k) (db_pending_update_records db)\<rparr>)"

definition all_pending_update_keys :: "db \<Rightarrow> cli_error + (bytes32 \<times> bytes32) list" where
  "all_pending_update_keys db =
     try_result (db_query db (hm_keys (db_pending_update_records db))) (collect_results columns_to_key)"

section \<open>The stores over the tables\<close>

text \<open>\<open>.ok()??\<close> with \<open>from_str\<close>, \<open>if let Err(e) = ...\<close> that only prints, \<open>unwrap_or_default\<close>.\<close>

definition read_json :: "'r json_codec \<Rightarrow> cli_error + string option \<Rightarrow> 'r option" where
  "read_json codec answer =
     (case answer of Inr (Some text) \<Rightarrow> jc_from_string codec text | _ \<Rightarrow> None)"

definition or_unchanged :: "db \<Rightarrow> cli_error + db \<Rightarrow> db" where
  "or_unchanged db answer = (case answer of Inl _ \<Rightarrow> db | Inr db' \<Rightarrow> db')"

definition write_json :: "'r json_codec \<Rightarrow> 'r \<Rightarrow> (string \<Rightarrow> db \<Rightarrow> cli_error + db) \<Rightarrow> db \<Rightarrow> db" where
  "write_json codec rec write db =
     (case jc_to_string codec rec of None \<Rightarrow> db | Some json \<Rightarrow> or_unchanged db (write json db))"

definition or_empty :: "cli_error + 'a list \<Rightarrow> 'a list" where
  "or_empty answer = (case answer of Inl _ \<Rightarrow> [] | Inr xs \<Rightarrow> xs)"

definition db_singleton_get :: "followed_singleton json_codec \<Rightarrow> db \<Rightarrow> bytes32 \<Rightarrow> followed_singleton option" where
  "db_singleton_get codec db launcher_id = read_json codec (get_followed_singleton_json launcher_id db)"

definition db_singleton_upsert :: "followed_singleton json_codec \<Rightarrow> followed_singleton \<Rightarrow> db \<Rightarrow> db" where
  "db_singleton_upsert codec rec =
     write_json codec rec (upsert_followed_singleton_json (fs_launcher_id rec))"

definition db_singleton_remove :: "bytes32 \<Rightarrow> db \<Rightarrow> db" where
  "db_singleton_remove launcher_id db = or_unchanged db (delete_followed_singleton launcher_id db)"

definition db_all_launcher_ids :: "db \<Rightarrow> bytes32 list" where
  "db_all_launcher_ids db = or_empty (all_followed_singleton_ids db)"

definition db_bump_reference :: "followed_singleton json_codec \<Rightarrow> bytes32 \<Rightarrow> db \<Rightarrow> db" where
  "db_bump_reference codec launcher_id db =
     (case db_singleton_get codec db launcher_id of
        None \<Rightarrow> db
      | Some rec \<Rightarrow> db_singleton_upsert codec (bumped rec) db)"

definition db_drop_reference :: "followed_singleton json_codec \<Rightarrow> bytes32 \<Rightarrow> u32 \<Rightarrow> db \<Rightarrow> db" where
  "db_drop_reference codec launcher_id at_height db =
     (case db_singleton_get codec db launcher_id of
        None \<Rightarrow> db
      | Some rec \<Rightarrow> db_singleton_upsert codec (dropped at_height rec) db)"

definition db_handle_get :: "handle_slot_record json_codec \<Rightarrow> db \<Rightarrow> handle_key \<Rightarrow> handle_slot_record option" where
  "db_handle_get codec db k = read_json codec (get_handle_slot_record_json k db)"

text \<open>The expiration column: the current slot's, or 0 without one.\<close>

definition expiration_column :: "handle_slot_record \<Rightarrow> u64" where
  "expiration_column rec = unwrap_or (map_option sh_expiration (hr_current rec)) 0"

definition db_handle_upsert :: "handle_slot_record json_codec \<Rightarrow> handle_slot_record \<Rightarrow> db \<Rightarrow> db" where
  "db_handle_upsert codec rec =
     write_json codec rec (\<lambda>json.
       upsert_handle_slot_record_json (hr_registry_launcher_id rec, hr_handle_hash rec) json
         (expiration_column rec))"

definition db_handle_remove :: "handle_key \<Rightarrow> db \<Rightarrow> db" where
  "db_handle_remove k db = or_unchanged db (delete_handle_slot_record k db)"

definition db_all_handle_keys :: "db \<Rightarrow> handle_key list" where
  "db_all_handle_keys db = or_empty (all_handle_slot_keys db)"

definition db_registration_get :: "registration_record json_codec \<Rightarrow> db \<Rightarrow> handle_key \<Rightarrow> registration_record option" where
  "db_registration_get codec db k = read_json codec (get_registration_record_json k db)"

definition db_registration_upsert :: "registration_record json_codec \<Rightarrow> registration_record \<Rightarrow> db \<Rightarrow> db" where
  "db_registration_upsert codec rec =
     write_json codec rec (upsert_registration_record_json (rr_registry_launcher_id rec, rr_handle_hash rec))"

definition db_registration_remove :: "handle_key \<Rightarrow> db \<Rightarrow> db" where
  "db_registration_remove k db = or_unchanged db (delete_registration_record k db)"

definition db_all_registration_keys :: "db \<Rightarrow> handle_key list" where
  "db_all_registration_keys db = or_empty (all_registration_record_keys db)"

definition db_get_stats :: "registry_registration_stats json_codec \<Rightarrow> bytes32 \<Rightarrow> db \<Rightarrow> registry_registration_stats" where
  "db_get_stats codec registry db =
     unwrap_or (read_json codec (get_registration_stats_json registry db)) stats_default"

definition db_set_stats ::
  "registry_registration_stats json_codec \<Rightarrow> bytes32 \<Rightarrow> registry_registration_stats \<Rightarrow> db \<Rightarrow> db"
where
  "db_set_stats codec registry stats = write_json codec stats (upsert_registration_stats_json registry)"

definition db_all_stats_registry_ids :: "db \<Rightarrow> bytes32 list" where
  "db_all_stats_registry_ids db = or_empty (all_registration_stats_registry_ids db)"

definition db_pending_get :: "pending_update_record json_codec \<Rightarrow> db \<Rightarrow> handle_key \<Rightarrow> pending_update_record option" where
  "db_pending_get codec db k = read_json codec (get_pending_update_record_json k db)"

definition db_pending_upsert :: "pending_update_record json_codec \<Rightarrow> pending_update_record \<Rightarrow> db \<Rightarrow> db" where
  "db_pending_upsert codec rec =
     write_json codec rec (upsert_pending_update_record_json (pr_registry_launcher_id rec, pr_handle_hash rec))"

definition db_pending_remove :: "handle_key \<Rightarrow> db \<Rightarrow> db" where
  "db_pending_remove k db = or_unchanged db (delete_pending_update_record k db)"

definition db_all_pending_keys :: "db \<Rightarrow> handle_key list" where
  "db_all_pending_keys db = or_empty (all_pending_update_keys db)"

section \<open>The listing of expiring handles\<close>

text \<open>
  The SQL joins the two tables on the key. \<open>handle_json\<close> is SQLite's
  \<open>json_extract(record_json, '$.current.handle')\<close>. Expirations are compared as \<open>i64\<close>; without a cursor
  the rows above \<open>(0, "")\<close> are asked for.
\<close>

definition sql_after :: "i64 \<Rightarrow> string \<Rightarrow> i64 \<Rightarrow> string \<Rightarrow> bool" where
  "sql_after after_expiration after_handle expiration handle \<longleftrightarrow>
     sint after_expiration < sint expiration \<or> expiration = after_expiration \<and> after_handle < handle"

fun joined_rows ::
  "(string \<Rightarrow> string option) \<Rightarrow> db \<Rightarrow> bytes32 \<Rightarrow> i64 \<Rightarrow> i64 \<Rightarrow> i64 \<times> string
    \<Rightarrow> ((blob \<times> blob) \<times> (string \<times> i64)) list \<Rightarrow> ((int \<times> string) \<times> string) list"
where
  "joined_rows handle_json db registry min_expiration max_expiration after [] = []"
| "joined_rows handle_json db registry min_expiration max_expiration after ((k, json, expiration) # rows) =
     (let rest = joined_rows handle_json db registry min_expiration max_expiration after rows
      in case hm_get (db_registration_records db) k of
           None \<Rightarrow> rest
         | Some registration_json \<Rightarrow>
             (case handle_json registration_json of
                None \<Rightarrow> rest
              | Some handle \<Rightarrow>
                  if fst k = to_bytes registry \<and>
                     sint min_expiration \<le> sint expiration \<and> sint expiration \<le> sint max_expiration \<and>
                     handle \<noteq> [] \<and> sql_after (fst after) (snd after) expiration handle
                  then ((sint expiration, handle), json) # rest else rest))"

definition list_named_handle_slots_in_expiration_window ::
  "(string \<Rightarrow> string option) \<Rightarrow> bytes32 \<Rightarrow> u64 \<Rightarrow> u64 \<Rightarrow> cursor option \<Rightarrow> nat \<Rightarrow> db
    \<Rightarrow> cli_error + (string \<times> string) list"
where
  "list_named_handle_slots_in_expiration_window handle_json registry min_expiration max_expiration after limit db =
     db_query db
       (map (\<lambda>((_, handle), json). (json, handle))
         (take limit
           (sort_key fst
             (joined_rows handle_json db registry min_expiration max_expiration (unwrap_or after (0, []))
               (db_handle_slot_records db)))))"

fun listed_slots :: "handle_slot_record json_codec \<Rightarrow> (string \<times> string) list \<Rightarrow> (string \<times> stored_handle_slot) list" where
  "listed_slots codec [] = []"
| "listed_slots codec ((json, handle) # rows) =
     (let rest = listed_slots codec rows
      in if handle = [] then rest
         else case jc_from_string codec json of
                None \<Rightarrow> rest
              | Some record \<Rightarrow>
                  (case hr_current record of None \<Rightarrow> rest | Some slot \<Rightarrow> (handle, slot) # rest))"

definition db_list_named_in_expiration_window ::
  "handle_slot_record json_codec \<Rightarrow> (string \<Rightarrow> string option) \<Rightarrow> bytes32 \<Rightarrow> u64 \<Rightarrow> u64 \<Rightarrow> cursor option
    \<Rightarrow> nat \<Rightarrow> db \<Rightarrow> (string \<times> stored_handle_slot) list"
where
  "db_list_named_in_expiration_window codec handle_json registry min_expiration max_expiration after limit db =
     listed_slots codec
       (or_empty (list_named_handle_slots_in_expiration_window handle_json registry
          min_expiration max_expiration after limit db))"

section \<open>The tables refine the hash maps\<close>

text \<open>
  A table whose text reads back to records under their own keys, and the hash map it stands for.
  \<open>json_of\<close> picks the text of a row.
\<close>

definition table_ok ::
  "('k \<Rightarrow> 'b) \<Rightarrow> ('r \<Rightarrow> 'k) \<Rightarrow> ('v \<Rightarrow> string) \<Rightarrow> 'r json_codec \<Rightarrow> ('b, 'v) hash_map \<Rightarrow> bool"
where
  "table_ok key_bytes key_of json_of codec t \<longleftrightarrow>
     hm_ok t \<and>
     (\<forall>(k, v) \<in> set t. \<exists>r. jc_from_string codec (json_of v) = Some r \<and> k = key_bytes (key_of r))"

definition table_map ::
  "('b \<Rightarrow> 'k) \<Rightarrow> ('v \<Rightarrow> string) \<Rightarrow> 'r json_codec \<Rightarrow> ('b, 'v) hash_map \<Rightarrow> ('k, 'r) hash_map"
where
  "table_map key_dec json_of codec t =
     map (\<lambda>(k, v). (key_dec k, the (jc_from_string codec (json_of v)))) t"

locale json_table =
  fixes key_bytes :: "'k \<Rightarrow> 'b"
    and key_dec :: "'b \<Rightarrow> 'k"
    and key_of :: "'r \<Rightarrow> 'k"
    and json_of :: "'v \<Rightarrow> string"
  assumes dec_bytes: "key_dec (key_bytes k) = k"
begin

lemma ok_Cons:
  "table_ok key_bytes key_of json_of codec ((k, v) # t) \<longleftrightarrow>
     table_ok key_bytes key_of json_of codec t \<and> k \<notin> fst ` set t \<and>
     (\<exists>r. jc_from_string codec (json_of v) = Some r \<and> k = key_bytes (key_of r))"
  by (auto simp: table_ok_def hm_ok_def)

lemma bytes_eq: "key_bytes a = key_bytes b \<longleftrightarrow> a = b"
  by (metis dec_bytes)

lemma map_get:
  "table_ok key_bytes key_of json_of codec t \<Longrightarrow>
     hm_get (table_map key_dec json_of codec t) k =
       Option.bind (hm_get t (key_bytes k)) (\<lambda>v. jc_from_string codec (json_of v))"
proof (induction t)
  case Nil
  then show ?case by (simp add: table_map_def)
next
  case (Cons row t)
  then show ?case
    by (cases row) (auto simp: ok_Cons table_map_def dec_bytes bytes_eq)
qed

lemma map_insert:
  assumes "jc_from_string codec (json_of v) = Some r"
  shows "table_ok key_bytes key_of json_of codec t \<Longrightarrow>
    table_map key_dec json_of codec (hm_insert (key_bytes (key_of r)) v t) =
      hm_insert (key_of r) r (table_map key_dec json_of codec t)"
proof (induction t)
  case Nil
  then show ?case using assms by (simp add: table_map_def dec_bytes)
next
  case (Cons row t)
  then show ?case using assms
    by (cases row) (auto simp: ok_Cons table_map_def dec_bytes bytes_eq)
qed

lemma map_remove:
  "table_ok key_bytes key_of json_of codec t \<Longrightarrow>
    table_map key_dec json_of codec (hm_remove (key_bytes k) t) =
      hm_remove k (table_map key_dec json_of codec t)"
proof (induction t)
  case Nil
  then show ?case by (simp add: table_map_def)
next
  case (Cons row t)
  then show ?case
    by (cases row) (auto simp: ok_Cons table_map_def dec_bytes bytes_eq)
qed

lemma map_keys: "hm_keys (table_map key_dec json_of codec t) = map key_dec (hm_keys t)"
  by (simp add: table_map_def case_prod_beta)

lemma ok_insert:
  assumes "table_ok key_bytes key_of json_of codec t" and "jc_from_string codec (json_of v) = Some r"
  shows "table_ok key_bytes key_of json_of codec (hm_insert (key_bytes (key_of r)) v t)"
proof -
  have "set (hm_insert (key_bytes (key_of r)) v t) \<subseteq> insert (key_bytes (key_of r), v) (set t)"
    by (induction t) auto
  with assms show ?thesis by (auto simp: table_ok_def)
qed

lemma ok_remove:
  "table_ok key_bytes key_of json_of codec t \<Longrightarrow> table_ok key_bytes key_of json_of codec (hm_remove k t)"
  unfolding AList.delete_eq table_ok_def hm_ok_def by (auto simp: distinct_map inj_on_def)

lemma map_keyed:
  assumes "table_ok key_bytes key_of json_of codec t"
  shows "keyed key_of (table_map key_dec json_of codec t)"
proof -
  have "key_bytes (key_dec k) = k" if "k \<in> set (hm_keys t)" for k
    using assms that by (auto simp: table_ok_def dec_bytes)
  then have "inj_on key_dec (set (hm_keys t))" by (metis inj_on_inverseI)
  then have "distinct (map key_dec (hm_keys t))"
    using assms by (simp only: distinct_map table_ok_def hm_ok_def simp_thms list.set_map)
  moreover have "\<forall>(k, r) \<in> set (table_map key_dec json_of codec t). key_of r = k"
    using assms by (auto simp: table_ok_def table_map_def dec_bytes)
  ultimately show ?thesis by (simp add: keyed_def hm_ok_def map_keys)
qed

lemma keys_decode:
  assumes "table_ok key_bytes key_of json_of codec t" and "\<And>k. dec (key_bytes k) = Inr k"
  shows "collect_results dec (hm_keys t) = Inr (map key_dec (hm_keys t))"
  using assms by (intro collect_results_all) (auto simp: table_ok_def dec_bytes)

end

definition key_decode :: "blob \<times> blob \<Rightarrow> bytes32 \<times> bytes32" where
  "key_decode = (\<lambda>(registry_launcher_id, handle_hash).
     (bytes32_new registry_launcher_id, bytes32_new handle_hash))"

lemma columns_to_key_columns [simp]: "columns_to_key (key_columns k) = Inr k"
  by (cases k) (simp add: columns_to_key_def key_columns_def)

interpretation singleton_table: json_table to_bytes bytes32_new fs_launcher_id "\<lambda>text. text"
  by unfold_locales simp

interpretation handle_table: json_table key_columns key_decode handle_slot_key "fst :: string \<times> i64 \<Rightarrow> string"
  by unfold_locales (auto simp: key_columns_def key_decode_def)

interpretation registration_table: json_table key_columns key_decode registration_key "\<lambda>text. text"
  by unfold_locales (auto simp: key_columns_def key_decode_def)

interpretation pending_table: json_table key_columns key_decode pending_key "\<lambda>text. text"
  by unfold_locales (auto simp: key_columns_def key_decode_def)

text \<open>What a store's table holds, and when it is readable.\<close>

definition db_singletons :: "followed_singleton json_codec \<Rightarrow> db \<Rightarrow> singleton_store" where
  "db_singletons codec db = table_map bytes32_new (\<lambda>text. text) codec (db_followed_singletons db)"

definition singletons_readable :: "followed_singleton json_codec \<Rightarrow> db \<Rightarrow> bool" where
  "singletons_readable codec db \<longleftrightarrow>
     \<not> db_failing db \<and> table_ok to_bytes fs_launcher_id (\<lambda>text. text) codec (db_followed_singletons db)"

definition db_handles :: "handle_slot_record json_codec \<Rightarrow> db \<Rightarrow> handle_store" where
  "db_handles codec db = table_map key_decode fst codec (db_handle_slot_records db)"

definition handles_readable :: "handle_slot_record json_codec \<Rightarrow> db \<Rightarrow> bool" where
  "handles_readable codec db \<longleftrightarrow>
     \<not> db_failing db \<and> table_ok key_columns handle_slot_key fst codec (db_handle_slot_records db) \<and>
     (\<forall>(_, json, expiration) \<in> set (db_handle_slot_records db).
        \<forall>r. jc_from_string codec json = Some r \<longrightarrow> expiration = expiration_column r)"

definition db_registrations ::
  "registration_record json_codec \<Rightarrow> registry_registration_stats json_codec \<Rightarrow> db \<Rightarrow> registration_store"
where
  "db_registrations codec stats_codec db =
     \<lparr>rs_records = table_map key_decode (\<lambda>text. text) codec (db_registration_records db),
      rs_stats = map (\<lambda>(k, v). (bytes32_new k, the (jc_from_string stats_codec v)))
                   (db_registration_registry_stats db)\<rparr>"

definition registrations_readable ::
  "registration_record json_codec \<Rightarrow> registry_registration_stats json_codec \<Rightarrow> db \<Rightarrow> bool"
where
  "registrations_readable codec stats_codec db \<longleftrightarrow>
     \<not> db_failing db \<and> table_ok key_columns registration_key (\<lambda>text. text) codec (db_registration_records db) \<and>
     (\<forall>(k, v) \<in> set (db_registration_registry_stats db).
        k \<in> range to_bytes \<and> jc_from_string stats_codec v \<noteq> None)"

definition db_pendings :: "pending_update_record json_codec \<Rightarrow> db \<Rightarrow> pending_store" where
  "db_pendings codec db = table_map key_decode (\<lambda>text. text) codec (db_pending_update_records db)"

definition pendings_readable :: "pending_update_record json_codec \<Rightarrow> db \<Rightarrow> bool" where
  "pendings_readable codec db \<longleftrightarrow>
     \<not> db_failing db \<and> table_ok key_columns pending_key (\<lambda>text. text) codec (db_pending_update_records db)"

lemma read_json_Inr [simp]: "read_json codec (Inr answer) = Option.bind answer (jc_from_string codec)"
  by (cases answer) (simp_all add: read_json_def)

lemma or_unchanged_Inr [simp]: "or_unchanged db (Inr db') = db'"
  by (simp add: or_unchanged_def)

lemma or_empty_Inr [simp]: "or_empty (Inr xs) = xs"
  by (simp add: or_empty_def)

lemmas db_store_defs =
  write_json_def db_singleton_get_def db_singleton_upsert_def db_singleton_remove_def
  db_all_launcher_ids_def get_followed_singleton_json_def upsert_followed_singleton_json_def
  delete_followed_singleton_def all_followed_singleton_ids_def
  db_handle_get_def db_handle_upsert_def db_handle_remove_def db_all_handle_keys_def
  get_handle_slot_record_json_def upsert_handle_slot_record_json_def delete_handle_slot_record_def
  all_handle_slot_keys_def
  db_registration_get_def db_registration_upsert_def db_registration_remove_def
  db_all_registration_keys_def get_registration_record_json_def upsert_registration_record_json_def
  delete_registration_record_def all_registration_record_keys_def
  db_pending_get_def db_pending_upsert_def db_pending_remove_def db_all_pending_keys_def
  get_pending_update_record_json_def upsert_pending_update_record_json_def
  delete_pending_update_record_def all_pending_update_keys_def

lemma db_singleton_get_refines:
  assumes "singletons_readable codec db"
  shows "db_singleton_get codec db l = singleton_get (db_singletons codec db) l"
  using assms singleton_table.map_get [of codec "db_followed_singletons db" l]
  by (simp add: db_store_defs singletons_readable_def singleton_get_def db_singletons_def)

lemma db_singleton_upsert_refines:
  assumes "json_reads codec r" and "singletons_readable codec db"
  shows "db_singletons codec (db_singleton_upsert codec r db) = singleton_upsert r (db_singletons codec db) \<and>
    singletons_readable codec (db_singleton_upsert codec r db)"
proof -
  obtain json where "jc_to_string codec r = Some json" "jc_from_string codec json = Some r"
    using assms(1) by (auto simp: json_reads_def)
  with assms(2) show ?thesis
    by (simp add: db_store_defs singletons_readable_def singleton_upsert_def db_singletons_def
        singleton_table.map_insert singleton_table.ok_insert)
qed

lemma db_singleton_remove_refines:
  assumes "singletons_readable codec db"
  shows "db_singletons codec (db_singleton_remove l db) = singleton_remove l (db_singletons codec db) \<and>
    singletons_readable codec (db_singleton_remove l db)"
  using assms
  by (simp add: db_store_defs singletons_readable_def singleton_remove_def db_singletons_def
      singleton_table.map_remove singleton_table.ok_remove)

lemma db_all_launcher_ids_refines:
  assumes "singletons_readable codec db"
  shows "db_all_launcher_ids db = all_launcher_ids (db_singletons codec db)"
  using assms singleton_table.keys_decode [of codec "db_followed_singletons db" column_to_bytes32]
  by (simp add: db_store_defs singletons_readable_def all_launcher_ids_def db_singletons_def
      singleton_table.map_keys del: list.map_comp)

lemma db_singletons_ok: "singletons_readable codec db \<Longrightarrow> singletons_ok (db_singletons codec db)"
  unfolding singletons_readable_def singletons_ok_def db_singletons_def
  by (intro singleton_table.map_keyed) simp

lemma hm_insert_all: "\<forall>row \<in> set t. P row \<Longrightarrow> P (k, v) \<Longrightarrow> \<forall>row \<in> set (hm_insert k v t). P row"
  by (induction t) auto

lemma db_handle_store_refines:
  assumes "json_reads codec r" and "handles_readable codec db"
  shows "db_handle_get codec db k = handle_get (db_handles codec db) k"
    and "db_all_handle_keys db = all_handle_keys (db_handles codec db)"
    and "db_handles codec (db_handle_upsert codec r db) = handle_upsert r (db_handles codec db)"
    and "db_handles codec (db_handle_remove k db) = handle_remove k (db_handles codec db)"
    and "handles_readable codec (db_handle_upsert codec r db)"
    and "handles_readable codec (db_handle_remove k db)"
proof -
  obtain json where json: "jc_to_string codec r = Some json" "jc_from_string codec json = Some r"
    using assms(1) by (auto simp: json_reads_def)
  have key: "(hr_registry_launcher_id r, hr_handle_hash r) = handle_slot_key r"
    by (simp add: handle_slot_key_def)
  have online: "\<not> db_failing db" and ok: "table_ok key_columns handle_slot_key fst codec (db_handle_slot_records db)"
    and column: "\<forall>(_, json, expiration) \<in> set (db_handle_slot_records db).
      \<forall>r. jc_from_string codec json = Some r \<longrightarrow> expiration = expiration_column r"
    using assms(2) by (auto simp: handles_readable_def)
  show "db_handle_get codec db k = handle_get (db_handles codec db) k"
    using online handle_table.map_get [OF ok, of k]
    by (simp add: db_store_defs handle_get_def db_handles_def bind_map_option comp_def)
  show "db_all_handle_keys db = all_handle_keys (db_handles codec db)"
    using online handle_table.keys_decode [OF ok columns_to_key_columns]
    by (simp add: db_store_defs all_handle_keys_def db_handles_def handle_table.map_keys del: list.map_comp)
  show "db_handles codec (db_handle_upsert codec r db) = handle_upsert r (db_handles codec db)"
    using online json handle_table.map_insert [OF _ ok, of "(json, expiration_column r)" r]
    by (simp add: db_store_defs handle_upsert_def db_handles_def key)
  show "db_handles codec (db_handle_remove k db) = handle_remove k (db_handles codec db)"
    using online handle_table.map_remove [OF ok, of k]
    by (simp add: db_store_defs handle_remove_def db_handles_def)
  show "handles_readable codec (db_handle_upsert codec r db)"
    using online json handle_table.ok_insert [OF ok, of "(json, expiration_column r)" r]
      hm_insert_all [OF column, of "key_columns (handle_slot_key r)" "(json, expiration_column r)"]
    by (simp add: db_store_defs handles_readable_def key)
  show "handles_readable codec (db_handle_remove k db)"
    using online column handle_table.ok_remove [OF ok]
    by (auto simp: db_store_defs handles_readable_def AList.delete_eq)
qed

lemma db_registration_store_refines:
  assumes "json_reads codec r" and "registrations_readable codec stats_codec db"
  shows "db_registration_get codec db k = registration_get (db_registrations codec stats_codec db) k"
    and "db_all_registration_keys db = all_registration_keys (db_registrations codec stats_codec db)"
    and "db_registrations codec stats_codec (db_registration_upsert codec r db) =
      registration_upsert r (db_registrations codec stats_codec db)"
    and "db_registrations codec stats_codec (db_registration_remove k db) =
      registration_remove k (db_registrations codec stats_codec db)"
    and "registrations_readable codec stats_codec (db_registration_upsert codec r db)"
    and "registrations_readable codec stats_codec (db_registration_remove k db)"
proof -
  obtain json where json: "jc_to_string codec r = Some json" "jc_from_string codec json = Some r"
    using assms(1) by (auto simp: json_reads_def)
  have key: "(rr_registry_launcher_id r, rr_handle_hash r) = registration_key r"
    by (simp add: registration_key_def)
  have online: "\<not> db_failing db"
    and ok: "table_ok key_columns registration_key (\<lambda>text. text) codec (db_registration_records db)"
    using assms(2) by (auto simp: registrations_readable_def)
  show "db_registration_get codec db k = registration_get (db_registrations codec stats_codec db) k"
    using online registration_table.map_get [OF ok, of k]
    by (simp add: db_store_defs registration_get_def db_registrations_def)
  show "db_all_registration_keys db = all_registration_keys (db_registrations codec stats_codec db)"
    using online registration_table.keys_decode [OF ok columns_to_key_columns]
    by (simp add: db_store_defs all_registration_keys_def db_registrations_def
        registration_table.map_keys del: list.map_comp)
  show "db_registrations codec stats_codec (db_registration_upsert codec r db) =
      registration_upsert r (db_registrations codec stats_codec db)"
    using online json registration_table.map_insert [OF _ ok, of json r]
    by (simp add: db_store_defs registration_upsert_def db_registrations_def key)
  show "db_registrations codec stats_codec (db_registration_remove k db) =
      registration_remove k (db_registrations codec stats_codec db)"
    using online registration_table.map_remove [OF ok, of k]
    by (simp add: db_store_defs registration_remove_def db_registrations_def)
  show "registrations_readable codec stats_codec (db_registration_upsert codec r db)"
    using assms(2) json registration_table.ok_insert [OF ok, of json r]
    by (simp add: db_store_defs registrations_readable_def key)
  show "registrations_readable codec stats_codec (db_registration_remove k db)"
    using assms(2) registration_table.ok_remove [OF ok]
    by (simp add: db_store_defs registrations_readable_def)
qed

lemma db_pending_store_refines:
  assumes "json_reads codec r" and "pendings_readable codec db"
  shows "db_pending_get codec db k = pending_get (db_pendings codec db) k"
    and "db_all_pending_keys db = all_pending_keys (db_pendings codec db)"
    and "db_pendings codec (db_pending_upsert codec r db) = pending_upsert r (db_pendings codec db)"
    and "db_pendings codec (db_pending_remove k db) = pending_remove k (db_pendings codec db)"
    and "pendings_readable codec (db_pending_upsert codec r db)"
    and "pendings_readable codec (db_pending_remove k db)"
proof -
  obtain json where json: "jc_to_string codec r = Some json" "jc_from_string codec json = Some r"
    using assms(1) by (auto simp: json_reads_def)
  have key: "(pr_registry_launcher_id r, pr_handle_hash r) = pending_key r"
    by (simp add: pending_key_def)
  have online: "\<not> db_failing db"
    and ok: "table_ok key_columns pending_key (\<lambda>text. text) codec (db_pending_update_records db)"
    using assms(2) by (auto simp: pendings_readable_def)
  show "db_pending_get codec db k = pending_get (db_pendings codec db) k"
    using online pending_table.map_get [OF ok, of k]
    by (simp add: db_store_defs pending_get_def db_pendings_def)
  show "db_all_pending_keys db = all_pending_keys (db_pendings codec db)"
    using online pending_table.keys_decode [OF ok columns_to_key_columns]
    by (simp add: db_store_defs all_pending_keys_def db_pendings_def pending_table.map_keys del: list.map_comp)
  show "db_pendings codec (db_pending_upsert codec r db) = pending_upsert r (db_pendings codec db)"
    using online json pending_table.map_insert [OF _ ok, of json r]
    by (simp add: db_store_defs pending_upsert_def db_pendings_def key)
  show "db_pendings codec (db_pending_remove k db) = pending_remove k (db_pendings codec db)"
    using online pending_table.map_remove [OF ok, of k]
    by (simp add: db_store_defs pending_remove_def db_pendings_def)
  show "pendings_readable codec (db_pending_upsert codec r db)"
    using assms(2) json pending_table.ok_insert [OF ok, of json r]
    by (simp add: db_store_defs pendings_readable_def key)
  show "pendings_readable codec (db_pending_remove k db)"
    using assms(2) pending_table.ok_remove [OF ok]
    by (simp add: db_store_defs pendings_readable_def)
qed

lemma stats_map_get:
  assumes "\<forall>(k, v) \<in> set t. k \<in> range to_bytes \<and> jc_from_string codec v \<noteq> None"
  shows "hm_get (map (\<lambda>(k, v). (bytes32_new k, the (jc_from_string codec v))) t) registry =
    Option.bind (hm_get t (to_bytes registry)) (jc_from_string codec)"
  using assms
proof (induction t)
  case (Cons row t)
  obtain k v where row: "row = (k, v)" by (cases row)
  with Cons.prems obtain b where k: "k = to_bytes b" by auto
  have "to_bytes b = to_bytes registry \<longleftrightarrow> b = registry" by (metis bytes32_roundtrip)
  with Cons row k show ?case by auto
qed simp

lemma db_stats_refine:
  assumes "registrations_readable codec stats_codec db"
  shows "db_get_stats stats_codec registry db = get_stats (db_registrations codec stats_codec db) registry"
  using assms stats_map_get [of "db_registration_registry_stats db" stats_codec registry]
  by (simp add: registrations_readable_def db_get_stats_def get_registration_stats_json_def get_stats_def
      db_registrations_def)

text \<open>
  C35. The production store of followed singletons, JSON text in a table, refines the in-memory one: read
  through the table's records, looking up, listing, writing, removing and the two reference counters
  do what the hash map does, and a write leaves every row readable. What it takes is a database that
  answers and text that reads back to the records written.
\<close>

theorem db_singleton_store_refines:
  assumes "singletons_readable codec db" and "json_reads codec r"
    and "singleton_get (db_singletons codec db) l = Some rec"
    and "json_reads codec (bumped rec)" and "json_reads codec (dropped h rec)"
  shows "db_singleton_get codec db k = singleton_get (db_singletons codec db) k \<and>
    db_all_launcher_ids db = all_launcher_ids (db_singletons codec db) \<and>
    db_singletons codec (db_singleton_upsert codec r db) = singleton_upsert r (db_singletons codec db) \<and>
    singletons_readable codec (db_singleton_upsert codec r db) \<and>
    db_singletons codec (db_singleton_remove k db) = singleton_remove k (db_singletons codec db) \<and>
    singletons_readable codec (db_singleton_remove k db) \<and>
    db_singletons codec (db_bump_reference codec l db) = bump_reference l (db_singletons codec db) \<and>
    db_singletons codec (db_drop_reference codec l h db) = drop_reference l h (db_singletons codec db)"
proof -
  note ok = db_singletons_ok [OF assms(1)]
  have "db_singletons codec (db_bump_reference codec l db) = bump_reference l (db_singletons codec db)"
    using assms(3) db_singleton_upsert_refines [OF assms(4,1)]
    by (simp add: db_bump_reference_def db_singleton_get_refines [OF assms(1)] bump_reference_upsert [OF ok])
  moreover have "db_singletons codec (db_drop_reference codec l h db) = drop_reference l h (db_singletons codec db)"
    using assms(3) db_singleton_upsert_refines [OF assms(5,1)]
    by (simp add: db_drop_reference_def db_singleton_get_refines [OF assms(1)] drop_reference_upsert [OF ok])
  ultimately show ?thesis
    using db_singleton_get_refines [OF assms(1)] db_all_launcher_ids_refines [OF assms(1)]
      db_singleton_upsert_refines [OF assms(2,1)] db_singleton_remove_refines [OF assms(1)]
    by simp
qed

definition example_json :: "followed_singleton json_codec" where
  "example_json =
     \<lparr>jc_to_string = (\<lambda>r. Some (if fs_reference_count r = 0 then ''none''
                               else if fs_reference_count r = 1 then ''one'' else ''two'')),
      jc_from_string = (\<lambda>text. if text = ''none'' then Some (dropped 90 example_singleton)
                              else if text = ''one'' then Some example_singleton
                              else if text = ''two'' then Some (bumped example_singleton) else None)\<rparr>"

definition example_singleton_db :: db where
  "example_singleton_db = db_new\<lparr>db_followed_singletons := [(to_bytes 7, ''one'')]\<rparr>"

lemma example_singleton_db_simps:
  "db_followed_singletons example_singleton_db = [(to_bytes 7, ''one'')]"
  "db_failing example_singleton_db = False"
  by (simp_all add: example_singleton_db_def db_new_def)

lemma example_json_simps:
  "json_reads example_json example_singleton"
  "json_reads example_json (bumped example_singleton)"
  "json_reads example_json (dropped 90 example_singleton)"
  "jc_from_string example_json ''one'' = Some example_singleton"
  by (simp_all add: json_reads_def example_json_def example_singleton_def bumped_def dropped_def
      saturating_add_def saturating_sub_def)

lemma db_singleton_store_refines_witness:
  "db_singletons example_json (db_bump_reference example_json 7 example_singleton_db) =
     bump_reference 7 [(7, example_singleton)] \<and>
   db_singletons example_json (db_singleton_remove 7 example_singleton_db) = []"
proof -
  have rows: "db_singletons example_json example_singleton_db = [(7, example_singleton)]"
    by (simp add: db_singletons_def table_map_def example_singleton_db_simps example_json_simps)
  have key: "fs_launcher_id example_singleton = 7" by (simp add: example_singleton_def)
  have "singletons_readable example_json example_singleton_db"
    by (simp add: singletons_readable_def table_ok_def hm_ok_def example_singleton_db_simps
        example_json_simps key)
  moreover have "singleton_get (db_singletons example_json example_singleton_db) 7 = Some example_singleton"
    by (simp add: rows singleton_get_def)
  ultimately show ?thesis
    using db_singleton_store_refines [of example_json example_singleton_db example_singleton 7 example_singleton 90 7]
    by (simp add: rows example_json_simps singleton_remove_def)
qed

section \<open>The two listings agree\<close>

lemma sort_key_cong_le:
  assumes "\<And>x y. x \<in> set xs \<Longrightarrow> y \<in> set xs \<Longrightarrow> f x \<le> f y \<longleftrightarrow> g x \<le> g y"
  shows "sort_key f xs = sort_key g xs"
  using assms
proof (induction xs)
  case (Cons x xs)
  have "insort_key f x ys = insort_key g x ys" if "set ys \<subseteq> set xs" for ys
    using that Cons.prems by (induction ys) auto
  moreover have "sort_key f xs = sort_key g xs" using Cons by simp
  moreover have "set (sort_key g xs) \<subseteq> set xs" by simp
  ultimately show ?case by (simp add: sort_key_simps)
qed simp

lemma map_insort_key: "map h (insort_key (\<lambda>x. k (h x)) x xs) = insort_key k (h x) (map h xs)"
  by (induction xs) auto

lemma map_sort_key: "map h (sort_key (\<lambda>x. k (h x)) xs) = sort_key k (map h xs)"
  by (induction xs) (simp_all add: map_insort_key sort_key_simps)

lemma sint_small:
  assumes "unat (w :: 64 word) < 2 ^ 63"
  shows "sint w = int (unat w)"
proof -
  have u: "uint w = int (unat w)" by simp
  have "int (unat w) < int (2 ^ 63)" using assms by (simp only: of_nat_less_iff)
  then have "uint w < 2 ^ 63" by (simp only: u of_nat_power of_nat_numeral)
  moreover have "0 \<le> uint w" by simp
  ultimately have "signed_take_bit 63 (uint w) = uint w"
    by (intro signed_take_bit_int_eq_self) linarith+
  then have "sint w = uint w" unfolding sint_uint by simp
  with u show ?thesis by simp
qed

text \<open>The row a joined row stands for.\<close>

definition joined_slot :: "handle_slot_record json_codec \<Rightarrow> (int \<times> string) \<times> string \<Rightarrow> string \<times> stored_handle_slot" where
  "joined_slot codec = (\<lambda>((_, handle), json). (handle, the (hr_current (the (jc_from_string codec json)))))"

text \<open>The rows the SQL can list: expirations an \<open>i64\<close> holds, and slots under their own handle.\<close>

definition listable :: "handle_slot_record json_codec \<Rightarrow> db \<Rightarrow> bool" where
  "listable codec db \<longleftrightarrow>
     (\<forall>(_, rec) \<in> set (db_handles codec db).
        case hr_current rec of
          None \<Rightarrow> True
        | Some slot \<Rightarrow> sh_handle_hash slot = hr_handle_hash rec \<and> unat (sh_expiration slot) < 2 ^ 63)"

definition json_extracts ::
  "registration_record json_codec \<Rightarrow> (string \<Rightarrow> string option) \<Rightarrow> db \<Rightarrow> bool"
where
  "json_extracts codec handle_json db \<longleftrightarrow>
     (\<forall>(_, json) \<in> set (db_registration_records db). \<forall>rec.
        jc_from_string codec json = Some rec \<longrightarrow> handle_json json = map_option sr_handle (rr_current rec))"

text \<open>One row: the join keeps it exactly when the two loops of the in-memory store do.\<close>

definition row_listable :: "handle_slot_record json_codec \<Rightarrow> (blob \<times> blob) \<times> (string \<times> i64) \<Rightarrow> bool" where
  "row_listable codec = (\<lambda>(k, json, expiration).
     \<exists>rec. jc_from_string codec json = Some rec \<and> k = key_columns (handle_slot_key rec) \<and>
       expiration = expiration_column rec \<and>
       (case hr_current rec of
          None \<Rightarrow> True
        | Some slot \<Rightarrow> sh_handle_hash slot = hr_handle_hash rec \<and> unat (sh_expiration slot) < 2 ^ 63))"

lemma listable_rows:
  assumes "handles_readable codec db" and "listable codec db" and "row \<in> set (db_handle_slot_records db)"
  shows "row_listable codec row"
proof -
  obtain k json expiration where row: "row = (k, json, expiration)" by (cases row)
  from assms(1,3) row obtain rec where rec: "jc_from_string codec json = Some rec"
      "k = key_columns (handle_slot_key rec)" "expiration = expiration_column rec"
    by (fastforce simp: handles_readable_def table_ok_def)
  moreover have "(key_decode k, rec) \<in> set (db_handles codec db)"
    using assms(3) row rec(1) by (force simp: db_handles_def table_map_def)
  ultimately show ?thesis
    using assms(2) by (auto simp: row row_listable_def listable_def)
qed

lemma joined_row_kept:
  assumes "row_listable codec (k, json, expiration)" and "jc_from_string codec json = Some rec"
    and "0 < unat mn" and "unat mn < 2 ^ 63" and "unat mx < 2 ^ 63"
    and "pred_option (\<lambda>c. unat (fst c) < 2 ^ 63) after"
  shows "(fst k = to_bytes registry \<and> sint mn \<le> sint expiration \<and> sint expiration \<le> sint mx \<and>
      sql_after (fst (unwrap_or after (0, []))) (snd (unwrap_or after (0, []))) expiration handle) \<longleftrightarrow>
    (\<exists>slot. hr_current rec = Some slot \<and> hr_registry_launcher_id rec = registry \<and>
      mn \<le> sh_expiration slot \<and> sh_expiration slot \<le> mx \<and>
      after_cursor after (sh_expiration slot) handle \<and> expiration = sh_expiration slot)"
proof -
  have column: "expiration = expiration_column rec" and key: "k = key_columns (handle_slot_key rec)"
    using assms(1,2) by (auto simp: row_listable_def)
  have registry: "fst k = to_bytes registry \<longleftrightarrow> hr_registry_launcher_id rec = registry"
    unfolding key handle_slot_key_def key_columns_def by (auto dest: arg_cong [where f = bytes32_new])
  have mn: "sint mn = int (unat mn)" and mx: "sint mx = int (unat mx)"
    using assms(4,5) by (simp_all only: sint_small)
  show ?thesis
  proof (cases "hr_current rec")
    case None
    then have "sint expiration = 0" by (simp add: column expiration_column_def)
    then have "\<not> sint mn \<le> sint expiration" using assms(3) unfolding mn by linarith
    with None show ?thesis by simp
  next
    case (Some slot)
    then have e: "expiration = sh_expiration slot" and "unat (sh_expiration slot) < 2 ^ 63"
      using assms(1,2) by (auto simp: column expiration_column_def row_listable_def)
    then have s: "sint expiration = int (unat (sh_expiration slot))" by (simp only: sint_small)
    have "sql_after (fst (unwrap_or after (0, []))) (snd (unwrap_or after (0, []))) expiration handle \<longleftrightarrow>
        after_cursor after (sh_expiration slot) handle" if "mn \<le> sh_expiration slot"
    proof (cases after)
      case None
      from that assms(3) have "0 < sint expiration" unfolding s word_le_nat_alt by linarith
      with None show ?thesis by (simp add: sql_after_def after_cursor_def)
    next
      case after: (Some a)
      then have a: "sint (fst a) = int (unat (fst a))" using assms(6) by (intro sint_small) simp
      have "sint (fst a) < sint expiration \<longleftrightarrow> fst a < sh_expiration slot"
        unfolding s a by (simp only: of_nat_less_iff word_less_nat_alt)
      with after show ?thesis
        by (cases a) (auto simp: sql_after_def after_cursor_def e)
    qed
    moreover have "sint mn \<le> sint expiration \<longleftrightarrow> mn \<le> sh_expiration slot"
      unfolding mn s by (simp only: of_nat_le_iff word_le_nat_alt)
    moreover have "sint expiration \<le> sint mx \<longleftrightarrow> sh_expiration slot \<le> mx"
      unfolding mx s by (simp only: of_nat_le_iff word_le_nat_alt)
    ultimately show ?thesis using Some e registry by auto
  qed
qed

lemma named_window_Cons:
  "named_candidates regs registry after (window_candidates registry mn mx (rec # recs)) =
    (let rest = named_candidates regs registry after (window_candidates registry mn mx recs)
     in case hr_current rec of
          None \<Rightarrow> rest
        | Some slot \<Rightarrow>
            (case Option.bind (registration_get regs (registry, sh_handle_hash slot)) rr_current of
               None \<Rightarrow> rest
             | Some reg \<Rightarrow>
                 if hr_registry_launcher_id rec = registry \<and> mn \<le> sh_expiration slot \<and> sh_expiration slot \<le> mx \<and>
                    sr_handle reg \<noteq> [] \<and> after_cursor after (sh_expiration slot) (sr_handle reg)
                 then (sr_handle reg, slot) # rest else rest))"
  by (auto simp: Let_def split: option.split)

text \<open>The registration a row joins with.\<close>

definition joined_registration ::
  "registration_record json_codec \<Rightarrow> db \<Rightarrow> blob \<times> blob \<Rightarrow> stored_registration option"
where
  "joined_registration rcodec db k =
     Option.bind (Option.bind (hm_get (db_registration_records db) k) (jc_from_string rcodec)) rr_current"

lemma joined_rows_Cons:
  assumes "registrations_readable rcodec stats_codec db" and "json_extracts rcodec handle_json db"
  shows "joined_rows handle_json db registry mn mx after ((k, json, expiration) # rows) =
    (let rest = joined_rows handle_json db registry mn mx after rows
     in case joined_registration rcodec db k of
          None \<Rightarrow> rest
        | Some reg \<Rightarrow>
            if sr_handle reg \<noteq> [] \<and>
               (fst k = to_bytes registry \<and> sint mn \<le> sint expiration \<and> sint expiration \<le> sint mx \<and>
                sql_after (fst after) (snd after) expiration (sr_handle reg))
            then ((sint expiration, sr_handle reg), json) # rest else rest)"
proof (cases "hm_get (db_registration_records db) k")
  case None
  then show ?thesis by (simp add: joined_registration_def Let_def)
next
  case (Some rjson)
  then have "(k, rjson) \<in> set (db_registration_records db)" by (rule map_of_SomeD)
  with assms obtain reg_rec where "jc_from_string rcodec rjson = Some reg_rec"
    "handle_json rjson = map_option sr_handle (rr_current reg_rec)"
    by (fastforce simp: registrations_readable_def table_ok_def json_extracts_def)
  with Some show ?thesis
    by (cases "rr_current reg_rec") (auto simp: joined_registration_def Let_def)
qed

lemma joined_rows_named:
  assumes "registrations_readable rcodec stats_codec db" and "json_extracts rcodec handle_json db"
    and "\<forall>row \<in> set rows. row_listable codec row"
    and "0 < unat mn" and "unat mn < 2 ^ 63" and "unat mx < 2 ^ 63"
    and "pred_option (\<lambda>c. unat (fst c) < 2 ^ 63) after"
  shows "map (joined_slot codec)
      (joined_rows handle_json db registry mn mx (unwrap_or after (0, [])) rows) =
    named_candidates (db_registrations rcodec stats_codec db) registry after
      (window_candidates registry mn mx (map snd (table_map key_decode fst codec rows)))"
  using assms(3)
proof (induction rows)
  case Nil
  then show ?case by (simp add: table_map_def)
next
  case (Cons row rows)
  obtain k json expiration where row: "row = (k, json, expiration)" by (cases row)
  with Cons.prems obtain rec where rec: "jc_from_string codec json = Some rec"
    and key: "k = key_columns (handle_slot_key rec)" and listable: "row_listable codec (k, json, expiration)"
    by (auto simp: row_listable_def)
  let ?regs = "db_registrations rcodec stats_codec db"
  define J where "J = joined_rows handle_json db registry mn mx (unwrap_or after (0, [])) rows"
  define N where "N = named_candidates ?regs registry after
    (window_candidates registry mn mx (map snd (table_map key_decode fst codec rows)))"
  have IH: "map (joined_slot codec) J = N" using Cons by (simp add: J_def N_def)
  have reg: "Option.bind (registration_get ?regs (handle_slot_key rec)) rr_current =
      joined_registration rcodec db k"
    using assms(1) registration_table.map_get [of rcodec "db_registration_records db"]
    by (simp add: registrations_readable_def registration_get_def db_registrations_def key joined_registration_def)
  have own: "(registry, sh_handle_hash slot) = handle_slot_key rec"
    if "hr_current rec = Some slot" and "hr_registry_launcher_id rec = registry" for slot
    using listable rec that by (auto simp: row_listable_def handle_slot_key_def)
  have recs: "map snd (table_map key_decode fst codec ((k, json, expiration) # rows)) =
      rec # map snd (table_map key_decode fst codec rows)"
    by (simp add: rec table_map_def)
  note sides = joined_rows_Cons [OF assms(1,2)] named_window_Cons recs row J_def [symmetric] N_def [symmetric] Let_def
  note kept = joined_row_kept [OF listable rec assms(4-7), of registry]
  show ?case
  proof (cases "joined_registration rcodec db k")
    case None
    then have "Option.bind (registration_get ?regs (registry, sh_handle_hash slot)) rr_current = None"
      if "hr_current rec = Some slot" and "hr_registry_launcher_id rec = registry" for slot
      using reg own [OF that] by simp
    with None IH show ?thesis unfolding sides by (auto split: option.split)
  next
    case (Some rg)
    show ?thesis
    proof (cases "\<exists>slot. hr_current rec = Some slot \<and> hr_registry_launcher_id rec = registry")
      case True
      then obtain slot where slot: "hr_current rec = Some slot" "hr_registry_launcher_id rec = registry" by blast
      then have "Option.bind (registration_get ?regs (registry, sh_handle_hash slot)) rr_current = Some rg"
        using reg own Some by simp
      moreover have "expiration = sh_expiration slot"
        using listable rec slot by (auto simp: row_listable_def expiration_column_def)
      ultimately show ?thesis
        using slot Some IH rec unfolding sides kept by (simp add: joined_slot_def)
    next
      case False
      with Some IH show ?thesis
        unfolding sides kept by (auto split: option.split)
    qed
  qed
qed

lemma listed_joined:
  assumes "\<forall>row \<in> set rows. snd (fst row) \<noteq> [] \<and>
    (\<exists>rec. jc_from_string codec (snd row) = Some rec \<and> hr_current rec \<noteq> None)"
  shows "listed_slots codec (map (\<lambda>((_, handle), json). (json, handle)) rows) = map (joined_slot codec) rows"
  using assms
proof (induction rows)
  case (Cons row rows)
  then show ?case by (cases row) (auto simp: joined_slot_def)
qed simp

lemma joined_rows_listed:
  assumes "registrations_readable rcodec stats_codec db" and "json_extracts rcodec handle_json db"
    and "\<forall>row \<in> set rows. row_listable codec row"
    and "0 < unat mn" and "unat mn < 2 ^ 63"
  shows "\<forall>row \<in> set (joined_rows handle_json db registry mn mx after rows).
    snd (fst row) \<noteq> [] \<and>
    (\<exists>rec slot. jc_from_string codec (snd row) = Some rec \<and> hr_current rec = Some slot \<and>
       fst (fst row) = uint (sh_expiration slot))"
  using assms(3)
proof (induction rows)
  case (Cons row rows)
  obtain k json expiration where row: "row = (k, json, expiration)" by (cases row)
  with Cons.prems obtain rec where rec: "jc_from_string codec json = Some rec"
    and column: "expiration = expiration_column rec" and listable: "row_listable codec (k, json, expiration)"
    by (auto simp: row_listable_def)
  have mn: "sint mn = int (unat mn)" using assms(5) by (rule sint_small)
  have current: "\<exists>slot. hr_current rec = Some slot \<and> sint expiration = uint (sh_expiration slot)"
    if "sint mn \<le> sint expiration"
  proof (cases "hr_current rec")
    case None
    then have "sint expiration = 0" by (simp add: column expiration_column_def)
    with that assms(4) show ?thesis unfolding mn by linarith
  next
    case (Some slot)
    with listable rec have "unat expiration < 2 ^ 63" "expiration = sh_expiration slot"
      by (auto simp: column expiration_column_def row_listable_def)
    with Some show ?thesis using sint_small [of expiration] by auto
  qed
  have rest: "\<forall>row \<in> set (joined_rows handle_json db registry mn mx after rows).
    snd (fst row) \<noteq> [] \<and>
    (\<exists>rec slot. jc_from_string codec (snd row) = Some rec \<and> hr_current rec = Some slot \<and>
       fst (fst row) = uint (sh_expiration slot))"
    using Cons by simp
  show ?case
    unfolding row joined_rows_Cons [OF assms(1,2)] Let_def
    using rest current rec by (auto split: option.split)
qed simp

text \<open>
  The production listing of expiring handles agrees with the in-memory one: on a readable database
  whose expirations an \<open>i64\<close> holds, and a window above 0, the SQL join returns the same page, row for
  row, as the two loops and the sort over the records the tables hold.
\<close>

theorem db_listing_agrees:
  assumes "handles_readable codec db" and "registrations_readable rcodec stats_codec db"
    and "listable codec db" and "json_extracts rcodec handle_json db"
    and "0 < unat mn" and "unat mn < 2 ^ 63" and "unat mx < 2 ^ 63"
    and "pred_option (\<lambda>c. unat (fst c) < 2 ^ 63) after"
  shows "db_list_named_in_expiration_window codec handle_json registry mn mx after limit db =
    list_named_in_expiration_window (db_handles codec db) registry mn mx after limit
      (db_registrations rcodec stats_codec db)"
proof -
  define J where "J = joined_rows handle_json db registry mn mx (unwrap_or after (0, [])) (db_handle_slot_records db)"
  have rows: "\<forall>row \<in> set (db_handle_slot_records db). row_listable codec row"
    using listable_rows [OF assms(1,3)] by blast
  note J_rows = joined_rows_listed [OF assms(2,4) rows assms(5,6), of registry mx "unwrap_or after (0, [])",
      folded J_def]
  have "sort_key fst J = sort_key (\<lambda>row. row_key (joined_slot codec row)) J"
  proof (rule sort_key_cong_le)
    fix x y
    assume "x \<in> set J" and "y \<in> set J"
    with J_rows obtain rx sx ry sy where
      "jc_from_string codec (snd x) = Some rx" "hr_current rx = Some sx" "fst (fst x) = uint (sh_expiration sx)"
      "jc_from_string codec (snd y) = Some ry" "hr_current ry = Some sy" "fst (fst y) = uint (sh_expiration sy)"
      by meson
    then show "fst x \<le> fst y \<longleftrightarrow> row_key (joined_slot codec x) \<le> row_key (joined_slot codec y)"
      by (cases x; cases y)
        (auto simp: joined_slot_def row_key_def less_eq_prod_def word_less_def word_le_def word_uint_eq_iff)
  qed
  then have sorted: "map (joined_slot codec) (sort_key fst J) = sort_rows (map (joined_slot codec) J)"
    by (simp add: map_sort_key sort_rows_def)
  have "\<forall>row \<in> set (take limit (sort_key fst J)). snd (fst row) \<noteq> [] \<and>
      (\<exists>rec. jc_from_string codec (snd row) = Some rec \<and> hr_current rec \<noteq> None)"
  proof
    fix row
    assume "row \<in> set (take limit (sort_key fst J))"
    then have "row \<in> set J" using in_set_takeD by fastforce
    with J_rows show "snd (fst row) \<noteq> [] \<and>
        (\<exists>rec. jc_from_string codec (snd row) = Some rec \<and> hr_current rec \<noteq> None)"
      by fast
  qed
  then have "db_list_named_in_expiration_window codec handle_json registry mn mx after limit db =
      map (joined_slot codec) (take limit (sort_key fst J))"
    using assms(1) listed_joined [of "take limit (sort_key fst J)" codec]
    by (simp add: db_list_named_in_expiration_window_def handles_readable_def
        list_named_handle_slots_in_expiration_window_def J_def)
  moreover have "list_named_in_expiration_window (db_handles codec db) registry mn mx after limit
      (db_registrations rcodec stats_codec db) = take limit (sort_rows (map (joined_slot codec) J))"
    using joined_rows_named [OF assms(2,4) rows assms(5-8), of registry, folded J_def]
    by (simp add: list_named_in_expiration_window_def Let_def db_handles_def)
  ultimately show ?thesis by (simp add: sorted [symmetric] take_map)
qed

text \<open>The example store of the listing, as tables.\<close>

definition example_listing_db :: db where
  "example_listing_db = db_new\<lparr>
     db_handle_slot_records :=
       [((to_bytes 1, to_bytes 3), (''c'', 30)), ((to_bytes 1, to_bytes 2), (''b'', 20)),
        ((to_bytes 1, to_bytes 1), (''a'', 10))],
     db_registration_records :=
       [((to_bytes 1, to_bytes 1), ''x''), ((to_bytes 1, to_bytes 2), ''y''), ((to_bytes 1, to_bytes 3), ''z'')]\<rparr>"

definition example_handle_json :: "handle_slot_record json_codec" where
  "example_handle_json = \<lparr>jc_to_string = (\<lambda>r. None),
     jc_from_string = hm_get (zip [''c'', ''b'', ''a''] (map snd example_slots))\<rparr>"

definition example_registration_json :: "registration_record json_codec" where
  "example_registration_json = \<lparr>jc_to_string = (\<lambda>r. None),
     jc_from_string = hm_get (zip [''x'', ''y'', ''z''] (map snd (rs_records example_names)))\<rparr>"

definition example_stats_json :: "registry_registration_stats json_codec" where
  "example_stats_json = \<lparr>jc_to_string = (\<lambda>r. None), jc_from_string = (\<lambda>text. None)\<rparr>"

definition example_extract :: "string \<Rightarrow> string option" where
  "example_extract = hm_get [(''x'', ''bob''), (''y'', ''alice''), (''z'', ''carol'')]"

lemma example_listing_db_simps:
  "db_failing example_listing_db = False"
  "db_handle_slot_records example_listing_db =
     [((to_bytes 1, to_bytes 3), (''c'', 30)), ((to_bytes 1, to_bytes 2), (''b'', 20)),
      ((to_bytes 1, to_bytes 1), (''a'', 10))]"
  "db_registration_records example_listing_db =
     [((to_bytes 1, to_bytes 1), ''x''), ((to_bytes 1, to_bytes 2), ''y''), ((to_bytes 1, to_bytes 3), ''z'')]"
  "db_registration_registry_stats example_listing_db = []"
  by (simp_all add: example_listing_db_def db_new_def)

lemma db_listing_agrees_witness:
  "db_list_named_in_expiration_window example_handle_json example_extract 1 10 30 None 2 example_listing_db =
     [(''bob'', example_slot 1 10), (''alice'', example_slot 2 20)]"
proof -
  have handles: "db_handles example_handle_json example_listing_db = example_slots"
    by (simp add: db_handles_def table_map_def example_listing_db_simps example_handle_json_def
        example_slots_def key_decode_def)
  have names: "db_registrations example_registration_json example_stats_json example_listing_db = example_names"
    by (simp add: db_registrations_def table_map_def example_listing_db_simps example_registration_json_def
        example_names_def key_decode_def)
  have "handles_readable example_handle_json example_listing_db"
    by (simp add: handles_readable_def table_ok_def hm_ok_def example_listing_db_simps example_handle_json_def
        example_slots_def key_columns_def handle_slot_key_def expiration_column_def example_slot_def)
  moreover have "registrations_readable example_registration_json example_stats_json example_listing_db"
    by (simp add: registrations_readable_def table_ok_def hm_ok_def example_listing_db_simps
        example_registration_json_def example_names_def key_columns_def registration_key_def)
  moreover have "listable example_handle_json example_listing_db"
    unfolding listable_def handles by (simp add: example_slots_def example_slot_def)
  moreover have "json_extracts example_registration_json example_extract example_listing_db"
    by (simp add: json_extracts_def example_listing_db_simps example_registration_json_def example_names_def
        example_extract_def)
  ultimately have "db_list_named_in_expiration_window example_handle_json example_extract 1 10 30 None 2
      example_listing_db = list_named_in_expiration_window example_slots 1 10 30 None 2 example_names"
    unfolding handles [symmetric] names [symmetric] by (intro db_listing_agrees) simp_all
  also have "\<dots> = [(''bob'', example_slot 1 10), (''alice'', example_slot 2 20)]" by code_simp
  finally show ?thesis .
qed

end
