(* ===== verification/XchSyncFacts.thy ===== *)
theory XchSyncFacts
  imports XchSync DatabaseFacts
begin

text \<open>
  The database after a synchronization: \<open>stored\<close> relates the tables to the chain's own state, the current
  slot of every handle, and a walk keeps the relation, so that the neighbour query answers for the chain.
\<close>

section \<open>The tables and the chain's slots\<close>

text \<open>
  \<open>cur\<close> is the current slot value of every handle, \<open>seen\<close> the hashes of all slots created so far. A slot's
  hash is never reused: its counter grows with every spend of the handle's slot.
\<close>

definition current_stored ::
  "handle_slot_value slot_codec \<Rightarrow> bytes32 \<Rightarrow> db \<Rightarrow> bytes32 \<Rightarrow> handle_slot_value \<Rightarrow> bool"
where
  "current_stored codec launcher_id db h val \<longleftrightarrow>
     hv_handle_hash val = h \<and>
     (\<exists>slot. slot_value slot = val \<and>
        map (row_to_slot codec)
          (unspent_rows launcher_id (sc_nonce codec) (Some (to_bytes (sc_tree_hash codec val))) db) = [Inr slot])"

definition stored ::
  "handle_slot_value slot_codec \<Rightarrow> bytes32 \<Rightarrow> (bytes32 \<rightharpoonup> handle_slot_value) \<Rightarrow> bytes32 set \<Rightarrow> db \<Rightarrow> bool"
where
  "stored codec launcher_id cur seen db \<longleftrightarrow>
     \<not> db_failing db \<and> hm_ok (db_xchandles_indexed db) \<and>
     (\<forall>k v. hm_get (db_xchandles_indexed db) (to_bytes launcher_id, k) = Some v \<longleftrightarrow>
        (\<exists>h val. k = to_bytes h \<and> cur h = Some val \<and> v = to_bytes (sc_tree_hash codec val))) \<and>
     (\<forall>h val. cur h = Some val \<longrightarrow> current_stored codec launcher_id db h val) \<and>
     (\<forall>row \<in> set (db_slots db). sl_singleton_launcher_id row = to_bytes launcher_id \<longrightarrow>
        sl_slot_value_hash row \<in> to_bytes ` seen)"

lemma stored_index:
  assumes "stored codec launcher_id cur seen db"
  shows "(k, v) \<in> set (handle_index launcher_id db) \<longleftrightarrow>
    (\<exists>h val. k = to_bytes h \<and> cur h = Some val \<and> v = to_bytes (sc_tree_hash codec val))"
proof -
  have ok: "hm_ok (db_xchandles_indexed db)" using assms by (simp add: stored_def)
  have "(k, v) \<in> set (handle_index launcher_id db) \<longleftrightarrow>
      ((to_bytes launcher_id, k), v) \<in> set (db_xchandles_indexed db)"
    by (force simp: handle_index_def)
  also have "\<dots> \<longleftrightarrow> hm_get (db_xchandles_indexed db) (to_bytes launcher_id, k) = Some v"
    using hm_get_in_set [OF ok] by simp
  finally show ?thesis using assms by (simp add: stored_def)
qed

lemma stored_backed:
  assumes "stored codec launcher_id cur seen db"
  shows "backed codec hv_handle_hash launcher_id (sc_nonce codec) (handle_index launcher_id db) db"
  using assms stored_index [OF assms]
  by (fastforce simp: backed_def stored_def current_stored_def)

lemma stored_handles:
  assumes "stored codec launcher_id cur seen db"
  shows "indexed_keys (handle_index launcher_id db) = dom cur"
  using stored_index [OF assms] by (force simp: indexed_keys_def image_iff)

lemma stored_found:
  assumes "stored codec launcher_id cur seen db"
    and "(to_bytes (hv_handle_hash (slot_value slot)), v) \<in> set (handle_index launcher_id db)"
    and "collect_results (row_to_slot codec) (unspent_rows launcher_id (sc_nonce codec) (Some v) db) = Inr [slot]"
  shows "cur (hv_handle_hash (slot_value slot)) = Some (slot_value slot)"
proof -
  from assms(1,2) obtain val where cur: "cur (hv_handle_hash (slot_value slot)) = Some val"
    and v: "v = to_bytes (sc_tree_hash codec val)" by (auto simp: stored_index)
  with assms(1) obtain slot' where "slot_value slot' = val"
    "map (row_to_slot codec) (unspent_rows launcher_id (sc_nonce codec) (Some v) db) = [Inr slot']"
    by (fastforce simp: stored_def current_stored_def)
  moreover from this(2) have "collect_results (row_to_slot codec)
      (unspent_rows launcher_id (sc_nonce codec) (Some v) db) = Inr [slot']" by auto
  ultimately show ?thesis using assms(3) cur by simp
qed

text \<open>What the neighbour query answers over such tables.\<close>

definition neighbours_in ::
  "(bytes32 \<rightharpoonup> handle_slot_value) \<Rightarrow> bytes32
    \<Rightarrow> cli_error + handle_slot_value slot \<times> handle_slot_value slot \<Rightarrow> bool"
where
  "neighbours_in cur h answer \<longleftrightarrow>
     (case answer of
        Inl e \<Rightarrow> e = DbColumnNotFound \<and> ((\<forall>b \<in> dom cur. h \<le> b) \<or> (\<forall>b \<in> dom cur. b \<le> h))
      | Inr (left, right) \<Rightarrow>
          (let l = hv_handle_hash (slot_value left); r = hv_handle_hash (slot_value right)
           in cur l = Some (slot_value left) \<and> l < h \<and> (\<forall>b \<in> dom cur. b < h \<longrightarrow> b \<le> l) \<and>
              cur r = Some (slot_value right) \<and> h < r \<and> (\<forall>b \<in> dom cur. h < b \<longrightarrow> r \<le> b)))"

lemma stored_neighbours:
  assumes "stored codec launcher_id cur seen db"
  shows "neighbours_in cur h (get_xchandles_neighbors codec launcher_id h db)"
proof -
  have online: "\<not> db_failing db" using assms by (simp add: stored_def)
  show ?thesis
    using left_neighbour [OF stored_backed [OF assms], of h] right_neighbour [OF stored_backed [OF assms], of h]
      stored_found [OF assms]
    by (cases "indexed_before (handle_index launcher_id db) (to_bytes h)";
        cases "indexed_after (handle_index launcher_id db) (to_bytes h)")
      (auto simp: get_xchandles_neighbors_def neighbour_slots_def online stored_handles [OF assms]
        neighbours_in_def)
qed

section \<open>Writing and marking slots\<close>

lemma insert_slot_row_new:
  "\<forall>r \<in> set rows. \<not> same_slot_key r row \<Longrightarrow> insert_slot_row row rows = rows @ [row]"
  by (induction rows) auto

lemma filter_map_same:
  "\<forall>x \<in> set xs. f x = x \<or> \<not> P x \<and> \<not> P (f x) \<Longrightarrow> filter P (map f xs) = filter P xs"
  by (induction xs) auto

lemma current_seen:
  assumes "stored codec launcher_id cur seen db" and "cur h = Some val"
  shows "sc_tree_hash codec val \<in> seen"
proof -
  from assms obtain row where "row \<in> set (unspent_rows launcher_id (sc_nonce codec)
      (Some (to_bytes (sc_tree_hash codec val))) db)"
    by (fastforce simp: stored_def current_stored_def)
  then have "row \<in> set (db_slots db)" "sl_singleton_launcher_id row = to_bytes launcher_id"
    "sl_slot_value_hash row = to_bytes (sc_tree_hash codec val)"
    by (auto simp: unspent_rows_def)
  with assms(1) show ?thesis by (fastforce simp: stored_def)
qed

lemma stored_coins:
  "stored codec launcher_id cur seen (db\<lparr>db_singleton_coins := coins\<rparr>) = stored codec launcher_id cur seen db"
  by (simp add: stored_def current_stored_def unspent_rows_def)

text \<open>What the SDK guarantees of the slot it makes of a created value, and the codec of that value.\<close>

definition slot_made :: "'c registry_sdk \<Rightarrow> bytes32 \<Rightarrow> 'c registry \<Rightarrow> handle_slot_value \<Rightarrow> bool" where
  "slot_made xs launcher_id spent val \<longleftrightarrow>
     (let slot = xs_created_slot xs spent val; codec = xs_slot_codec xs
      in slot_launcher_id slot = launcher_id \<and> slot_nonce slot = sc_nonce codec \<and> slot_value slot = val \<and>
         slot_value_hash slot = sc_tree_hash codec val \<and>
         (\<exists>bytes. sc_to_bytes codec val = Inr bytes \<and> sc_from_bytes codec bytes = Inr val))"

lemma stored_create:
  assumes "stored (xs_slot_codec xs) launcher_id cur seen db"
    and "sc_tree_hash (xs_slot_codec xs) val \<notin> seen"
    and "slot_made xs launcher_id spent val" and "xs_launcher_id xs (rg_constants spent) = launcher_id"
  shows "\<exists>db'. save_created_slot xs spent val db = (Inr (), db') \<and>
    db_singleton_coins db' = db_singleton_coins db \<and>
    stored (xs_slot_codec xs) launcher_id (cur(hv_handle_hash val \<mapsto> val))
      (insert (sc_tree_hash (xs_slot_codec xs) val) seen) db'"
proof -
  let ?codec = "xs_slot_codec xs" and ?slot = "xs_created_slot xs spent val"
  let ?hash = "sc_tree_hash ?codec val"
  from assms(3) obtain bytes where bytes: "sc_to_bytes ?codec val = Inr bytes" "sc_from_bytes ?codec bytes = Inr val"
    and slot: "slot_launcher_id ?slot = launcher_id" "slot_nonce ?slot = sc_nonce ?codec" "slot_value ?slot = val"
      "slot_value_hash ?slot = ?hash"
    by (auto simp: slot_made_def Let_def)
  define row where "row = slot_to_row ?slot bytes 0"
  have row: "sl_singleton_launcher_id row = to_bytes launcher_id" "sl_nonce row = sc_nonce ?codec"
    "sl_slot_value_hash row = to_bytes ?hash" "sl_spent_block_height row = 0"
    by (simp_all add: row_def slot_to_row_def slot)
  have read: "\<exists>s. row_to_slot ?codec row = Inr s \<and> slot_value s = val"
    by (simp add: row_to_slot_def row_def slot_to_row_def bytes slot_new_def)
  define db' where "db' = db\<lparr>
    db_xchandles_indexed := hm_insert (to_bytes launcher_id, to_bytes (hv_handle_hash val)) (to_bytes ?hash)
      (db_xchandles_indexed db),
    db_slots := db_slots db @ [row]\<rparr>"
  have new: "\<forall>r \<in> set (db_slots db). sl_singleton_launcher_id r = to_bytes launcher_id \<longrightarrow>
      sl_slot_value_hash r \<noteq> to_bytes ?hash"
    using assms(1,2) by (auto simp: stored_def)
  then have "\<forall>r \<in> set (db_slots db). \<not> same_slot_key r row"
    by (auto simp: same_slot_key_def row)
  then have saved: "save_created_slot xs spent val db = (Inr (), db')"
    using assms(1,4)
    by (simp add: save_created_slot_def db_write_def save_xchandles_indexed_slot_value_def save_slot_def
        stored_def slot bytes db'_def insert_slot_row_new row_def)
  have rows: "unspent_rows launcher_id (sc_nonce ?codec) (Some (to_bytes x)) db' =
      unspent_rows launcher_id (sc_nonce ?codec) (Some (to_bytes x)) db @ (if x = ?hash then [row] else [])" for x
    by (auto simp: unspent_rows_def db'_def row)
  have "unspent_rows launcher_id (sc_nonce ?codec) (Some (to_bytes ?hash)) db = []"
    using new by (auto simp: unspent_rows_def filter_empty_conv)
  then have "current_stored ?codec launcher_id db' (hv_handle_hash val) val"
    using read by (auto simp: current_stored_def rows)
  moreover have "current_stored ?codec launcher_id db' h v" if "cur h = Some v" for h v
    using that assms(1,2) current_seen [OF assms(1) that]
    by (auto simp: stored_def current_stored_def rows)
  moreover have "(hm_get (db_xchandles_indexed db') (to_bytes launcher_id, k) = Some v) \<longleftrightarrow>
      (\<exists>h w. k = to_bytes h \<and> (cur(hv_handle_hash val \<mapsto> val)) h = Some w \<and> v = to_bytes (sc_tree_hash ?codec w))" for k v
    using assms(1) by (auto simp: stored_def db'_def)
  ultimately have "stored ?codec launcher_id (cur(hv_handle_hash val \<mapsto> val)) (insert ?hash seen) db'"
    using assms(1) by (auto simp: stored_def [of _ _ _ "insert ?hash seen"]) (auto simp: stored_def db'_def row)
  with saved show ?thesis by (auto simp: db'_def)
qed

text \<open>The chain's current slots after the slots a spend creates, the last of a handle counting.\<close>

definition created_in ::
  "handle_slot_value list \<Rightarrow> (bytes32 \<rightharpoonup> handle_slot_value) \<Rightarrow> (bytes32 \<rightharpoonup> handle_slot_value)"
where
  "created_in vals cur = foldl (\<lambda>m val. m(hv_handle_hash val \<mapsto> val)) cur vals"

lemma created_in_simps [simp]:
  "created_in [] cur = cur"
  "created_in (val # vals) cur = created_in vals (cur(hv_handle_hash val \<mapsto> val))"
  by (simp_all add: created_in_def)

lemma stored_creates:
  assumes "stored (xs_slot_codec xs) launcher_id cur seen db"
    and "distinct (map (sc_tree_hash (xs_slot_codec xs)) vals)"
    and "sc_tree_hash (xs_slot_codec xs) ` set vals \<inter> seen = {}"
    and "\<forall>val \<in> set vals. slot_made xs launcher_id spent val"
    and "xs_launcher_id xs (rg_constants spent) = launcher_id"
  shows "\<exists>db'. db_each (save_created_slot xs spent) vals db = (Inr (), db') \<and>
    db_singleton_coins db' = db_singleton_coins db \<and>
    stored (xs_slot_codec xs) launcher_id (created_in vals cur) (seen \<union> sc_tree_hash (xs_slot_codec xs) ` set vals) db'"
  using assms(1-4)
proof (induction vals arbitrary: cur seen db)
  case (Cons val vals)
  let ?hash = "sc_tree_hash (xs_slot_codec xs)"
  obtain d where d: "save_created_slot xs spent val db = (Inr (), d)" "db_singleton_coins d = db_singleton_coins db"
    "stored (xs_slot_codec xs) launcher_id (cur(hv_handle_hash val \<mapsto> val)) (insert (?hash val) seen) d"
    using stored_create [OF Cons.prems(1) _ _ assms(5), of val] Cons.prems(3,4) by auto
  have "?hash ` set vals \<inter> insert (?hash val) seen = {}"
    using Cons.prems(2,3) by auto
  then have "\<exists>d'. db_each (save_created_slot xs spent) vals d = (Inr (), d') \<and>
      db_singleton_coins d' = db_singleton_coins d \<and>
      stored (xs_slot_codec xs) launcher_id (created_in vals (cur(hv_handle_hash val \<mapsto> val)))
        (insert (?hash val) seen \<union> ?hash ` set vals) d'"
    using Cons.prems(2,4) by (intro Cons.IH [OF d(3)]) simp_all
  with d show ?case by auto
qed auto

lemma stored_mark:
  assumes "stored (xs_slot_codec xs) launcher_id cur seen db"
    and "\<forall>h v. cur h = Some v \<longrightarrow> sc_tree_hash (xs_slot_codec xs) v \<noteq> sc_tree_hash (xs_slot_codec xs) val"
  shows "\<exists>db'. mark_spent_slot xs launcher_id height val db = (Inr (), db') \<and>
    db_singleton_coins db' = db_singleton_coins db \<and> stored (xs_slot_codec xs) launcher_id cur seen db'"
proof -
  let ?codec = "xs_slot_codec xs"
  let ?f = "\<lambda>row. if slot_key_matches launcher_id (sc_nonce ?codec) (sc_tree_hash ?codec val) row \<and>
      sl_spent_block_height row = 0 then row\<lparr>sl_spent_block_height := height\<rparr> else row"
  define db' where "db' = db\<lparr>db_slots := map ?f (db_slots db)\<rparr>"
  have marked: "mark_spent_slot xs launcher_id height val db = (Inr (), db')"
    using assms(1) by (simp add: mark_spent_slot_def mark_slot_as_spent_def db_write_def stored_def db'_def)
  have "unspent_rows launcher_id (sc_nonce ?codec) (Some (to_bytes x)) db' =
      unspent_rows launcher_id (sc_nonce ?codec) (Some (to_bytes x)) db" if "x \<noteq> sc_tree_hash ?codec val" for x
    using that by (auto simp: unspent_rows_def db'_def slot_key_matches_def intro!: filter_map_same split: if_splits)
  then have "current_stored ?codec launcher_id db' h v" if "cur h = Some v" for h v
    using that assms by (auto simp: stored_def current_stored_def)
  then have "stored ?codec launcher_id cur seen db'"
    using assms(1) by (auto simp: stored_def [of _ _ _ _ db']) (auto simp: stored_def db'_def)
  with marked show ?thesis by (auto simp: db'_def)
qed

lemma stored_marks:
  assumes "stored (xs_slot_codec xs) launcher_id cur seen db"
    and "\<forall>val \<in> set vals. \<forall>h v. cur h = Some v \<longrightarrow>
      sc_tree_hash (xs_slot_codec xs) v \<noteq> sc_tree_hash (xs_slot_codec xs) val"
  shows "\<exists>db'. db_each (mark_spent_slot xs launcher_id height) vals db = (Inr (), db') \<and>
    db_singleton_coins db' = db_singleton_coins db \<and> stored (xs_slot_codec xs) launcher_id cur seen db'"
  using assms
proof (induction vals arbitrary: db)
  case (Cons val vals)
  obtain d where d: "mark_spent_slot xs launcher_id height val db = (Inr (), d)"
    "db_singleton_coins d = db_singleton_coins db" "stored (xs_slot_codec xs) launcher_id cur seen d"
    using stored_mark [OF Cons.prems(1), of val] Cons.prems(2) by (meson list.set_intros(1))
  from Cons.IH [OF d(3)] Cons.prems(2) d show ?case by auto
qed simp

section \<open>A walk leaves the chain's slots\<close>

text \<open>
  The registry's spends from a coin to the unspent tip as the node shows them, with the chain's slots:
  every spend creates slots with hashes never used before, and spends none that is current after it.
\<close>

definition spend_consistent ::
  "'c registry_sdk \<Rightarrow> bytes32 \<Rightarrow> 'c registry \<Rightarrow> (bytes32 \<rightharpoonup> handle_slot_value) \<Rightarrow> bytes32 set \<Rightarrow> bool"
where
  "spend_consistent xs launcher_id spent cur seen \<longleftrightarrow>
     (let hash = sc_tree_hash (xs_slot_codec xs); created = rg_created_handle_slots spent
      in distinct (map hash created) \<and> hash ` set created \<inter> seen = {} \<and>
         (\<forall>val \<in> set created. slot_made xs launcher_id spent val) \<and>
         xs_launcher_id xs (rg_constants spent) = launcher_id \<and>
         (\<forall>val \<in> set (rg_spent_handle_slots spent). \<forall>h v. created_in created cur h = Some v \<longrightarrow> hash v \<noteq> hash val))"

inductive chain_path ::
  "('n, 'z) sdk_scheme \<Rightarrow> 'c registry_sdk \<Rightarrow> client \<Rightarrow> bytes32 \<Rightarrow> 'c registry
    \<Rightarrow> (bytes32 \<rightharpoonup> handle_slot_value) \<Rightarrow> bytes32 set \<Rightarrow> spent_transition list \<Rightarrow> 'c registry
    \<Rightarrow> (bytes32 \<rightharpoonup> handle_slot_value) \<Rightarrow> bool"
  for sdk xs client launcher_id
where
  chain_tip: "chain_path sdk xs client launcher_id registry cur seen [] registry cur"
  if "tip_shown sdk xs client launcher_id registry"
| chain_spend: "chain_path sdk xs client launcher_id registry cur seen (transition # transitions) tip cur'"
  if "spend_shown sdk xs client launcher_id registry spent transition"
    and "spend_consistent xs launcher_id spent cur seen"
    and "chain_path sdk xs client launcher_id (xs_child xs spent) (created_in (rg_created_handle_slots spent) cur)
           (seen \<union> sc_tree_hash (xs_slot_codec xs) ` set (rg_created_handle_slots spent)) transitions tip cur'"

lemma turn_tip_stored:
  assumes "tip_shown sdk xs client launcher_id registry"
    and "tip_recorded sdk launcher_id (rg_coin registry) skip db"
    and "stored codec launcher_id cur seen db"
  shows "\<exists>db'. sync_turn sdk xs client launcher_id registry skip db = (Inr Tip, db') \<and>
    stored codec launcher_id cur seen db'"
proof -
  obtain db' where turn: "sync_turn sdk xs client launcher_id registry skip db = (Inr Tip, db')"
    using turn_tip [OF assms(1,2)] by blast
  then have "db' = db \<or> (\<exists>coins. db' = db\<lparr>db_singleton_coins := coins\<rparr>)"
    by (cases skip) (auto simp: sync_turn_def Let_def db_then_def db_read_def db_write_def save_singleton_coin_def
        db_query_def split: sum.splits if_splits prod.splits)
  then show ?thesis using turn assms(3) stored_coins by metis
qed

lemma turn_spend_stored:
  assumes "spend_shown sdk xs client launcher_id registry spent transition"
    and "spend_consistent xs launcher_id spent cur seen"
    and "tip_recorded sdk launcher_id (rg_coin registry) skip db"
    and "stored (xs_slot_codec xs) launcher_id cur seen db"
  shows "\<exists>db'. sync_turn sdk xs client launcher_id registry skip db = (Inr (Walked (xs_child xs spent) transition), db') \<and>
    tip_recorded sdk launcher_id (rg_coin (xs_child xs spent)) False db' \<and>
    stored (xs_slot_codec xs) launcher_id (created_in (rg_created_handle_slots spent) cur)
      (seen \<union> sc_tree_hash (xs_slot_codec xs) ` set (rg_created_handle_slots spent)) db'"
proof (rule turn_spend [OF assms(1,3)])
  let ?cur = "created_in (rg_created_handle_slots spent) cur"
    and ?seen = "seen \<union> sc_tree_hash (xs_slot_codec xs) ` set (rg_created_handle_slots spent)"
  fix d assume "\<exists>coins. d = db\<lparr>db_singleton_coins := coins\<rparr>"
  with assms(4) have d: "stored (xs_slot_codec xs) launcher_id cur seen d" by (auto simp: stored_coins)
  note c = assms(2) [unfolded spend_consistent_def Let_def]
  obtain d1 where d1: "db_each (save_created_slot xs spent) (rg_created_handle_slots spent) d = (Inr (), d1)"
    "db_singleton_coins d1 = db_singleton_coins d" "stored (xs_slot_codec xs) launcher_id ?cur ?seen d1"
    using stored_creates [OF d, where vals = "rg_created_handle_slots spent" and spent = spent] c by blast
  obtain d2 where "db_each (mark_spent_slot xs launcher_id (xt_height transition)) (rg_spent_handle_slots spent) d1 =
      (Inr (), d2)" "db_singleton_coins d2 = db_singleton_coins d1" "stored (xs_slot_codec xs) launcher_id ?cur ?seen d2"
    using stored_marks [OF d1(3)] c by blast
  with d1 show "\<exists>d1 d2. db_each (save_created_slot xs spent) (rg_created_handle_slots spent) d = (Inr (), d1) \<and>
      db_each (mark_spent_slot xs launcher_id (xt_height transition)) (rg_spent_handle_slots spent) d1 = (Inr (), d2) \<and>
      \<not> db_failing d2 \<and> db_singleton_coins d2 = db_singleton_coins d \<and>
      stored (xs_slot_codec xs) launcher_id ?cur ?seen d2"
    by (auto simp: stored_def)
qed

lemma walk_stored:
  assumes "chain_path sdk xs client launcher_id registry cur seen transitions tip cur'"
    and "tip_recorded sdk launcher_id (rg_coin registry) skip db"
    and "stored (xs_slot_codec xs) launcher_id cur seen db" and "length transitions < fuel"
  shows "\<exists>db' seen'. sync_walk fuel sdk xs client launcher_id registry skip db = Some (Inr (tip, transitions), db') \<and>
    stored (xs_slot_codec xs) launcher_id cur' seen' db'"
  using assms
proof (induction registry cur seen transitions tip cur' arbitrary: db fuel skip rule: chain_path.induct)
  case (chain_tip registry cur seen)
  then obtain n where "fuel = Suc n" by (cases fuel) auto
  with turn_tip_stored [OF chain_tip(1,2,3)] show ?case by fastforce
next
  case (chain_spend registry spent transition cur seen transitions tip cur')
  then obtain n where fuel: "fuel = Suc n" and n: "length transitions < n" by (cases fuel) auto
  obtain db' where turn: "sync_turn sdk xs client launcher_id registry skip db =
      (Inr (Walked (xs_child xs spent) transition), db')"
    and "tip_recorded sdk launcher_id (rg_coin (xs_child xs spent)) False db'"
    and "stored (xs_slot_codec xs) launcher_id (created_in (rg_created_handle_slots spent) cur)
      (seen \<union> sc_tree_hash (xs_slot_codec xs) ` set (rg_created_handle_slots spent)) db'"
    using turn_spend_stored [OF chain_spend(1,2,5,6)] by blast
  from chain_spend(4) [OF this(2,3) n] show ?case by (auto simp: fuel turn)
qed

text \<open>
  C31. After a synchronization the neighbours endpoint answers for the chain: when the tables hold the
  chain's current slots, a walk over the registry's further spends ends with tables for which, for
  every hash asked, the neighbour query returns the chain's current slots of the nearest handle below
  and the nearest one above, and fails only when one side has no handle at all.
\<close>

theorem synced_neighbours_current:
  assumes "chain_path sdk xs client launcher_id registry cur seen transitions tip cur'"
    and "tip_recorded sdk launcher_id (rg_coin registry) skip db"
    and "stored (xs_slot_codec xs) launcher_id cur seen db" and "length transitions < fuel"
  shows "\<exists>db'. sync_walk fuel sdk xs client launcher_id registry skip db = Some (Inr (tip, transitions), db') \<and>
    (\<forall>h. neighbours_in cur' h (get_xchandles_neighbors (xs_slot_codec xs) launcher_id h db'))"
  using walk_stored [OF assms] stored_neighbours by blast

text \<open>
  Handles 1 and 9 are the two ends; the spend of coin 1021 registers handle 5 between them, so it
  replaces both neighbours. A value is its handle and its counter, and so are its hash and its bytes.
\<close>

definition chain_value :: "bytes32 \<Rightarrow> u64 \<Rightarrow> handle_slot_value" where
  "chain_value h counter = \<lparr>hv_counter = counter, hv_handle_hash = h, hv_left_value = 0, hv_right_value = 0,
     hv_expiration = 0, hv_owner_launcher_id = 0, hv_resolved_launcher_id = 0\<rparr>"

definition chain_codec :: "handle_slot_value slot_codec" where
  "chain_codec =
     \<lparr>sc_to_bytes = (\<lambda>v. Inr [ucast (hv_handle_hash v), ucast (hv_counter v)]),
      sc_from_bytes = (\<lambda>bs. case bs of [h, c] \<Rightarrow> Inr (chain_value (ucast h) (ucast c)) | _ \<Rightarrow> Inl DbColumnParse),
      sc_tree_hash = (\<lambda>v. hv_handle_hash v * 1000 + ucast (hv_counter v)),
      sc_coin = (\<lambda>_ _ _ _. example_tip_coin), sc_nonce = 1\<rparr>"

definition chain_spent :: "unit registry" where
  "chain_spent = (example_registry example_spent_coin)
     \<lparr>rg_created_handle_slots := [chain_value 1 1, chain_value 5 0, chain_value 9 1],
      rg_spent_handle_slots := [chain_value 1 0, chain_value 9 0]\<rparr>"

definition chain_sdk :: "unit registry_sdk" where
  "chain_sdk = example_registry_sdk
     \<lparr>xs_from_spend := (\<lambda>_ _. Inr (Some chain_spent)),
      xs_created_slot := (\<lambda>_. slot_new chain_codec example_proof 1 1),
      xs_slot_codec := chain_codec\<rparr>"

lemma chain_sdk_simps [simp]:
  "xs_launcher_id chain_sdk constants = 1" "xs_slot_codec chain_sdk = chain_codec"
  "xs_child chain_sdk r = example_registry example_tip_coin"
  "rg_coin chain_spent = example_spent_coin" "rg_logs chain_spent = [DelegatedState]"
  "rg_created_handle_slots chain_spent = [chain_value 1 1, chain_value 5 0, chain_value 9 1]"
  "rg_spent_handle_slots chain_spent = [chain_value 1 0, chain_value 9 0]"
  by (simp_all add: chain_sdk_def example_registry_sdk_def chain_spent_def)

lemma chain_value_simps [simp]:
  "hv_handle_hash (chain_value h c) = h" "hv_counter (chain_value h c) = c"
  "sc_tree_hash chain_codec (chain_value h c) = h * 1000 + ucast c"
  by (simp_all add: chain_value_def chain_codec_def)

lemma chain_slot_made:
  assumes "ucast (ucast h :: u8) = h" and "ucast (ucast c :: u8) = c"
  shows "slot_made chain_sdk 1 spent (chain_value h c)"
  using assms
  by (simp add: slot_made_def Let_def) (simp add: chain_sdk_def slot_new_def chain_codec_def chain_value_def)

lemma stored_new: "stored codec launcher_id Map.empty {} db_new"
  by (simp add: stored_def db_new_def)

lemma synced_neighbours_current_witness:
  "\<exists>db db' left right.
     db_each (save_created_slot chain_sdk chain_spent) [chain_value 1 0, chain_value 9 0] db_new = (Inr (), db) \<and>
     sync_walk 2 fixture_sdk chain_sdk example_client 1 (example_registry example_spent_coin) True db =
       Some (Inr (example_registry example_tip_coin, [\<lparr>xt_height = 20, xt_logs = [DelegatedState]\<rparr>]), db') \<and>
     get_xchandles_neighbors chain_codec 1 6 db' = Inr (left, right) \<and>
     slot_value left = chain_value 5 0 \<and> slot_value right = chain_value 9 1"
proof -
  let ?start = "created_in [chain_value 1 0, chain_value 9 0] Map.empty"
    and ?now = "created_in [chain_value 1 1, chain_value 5 0, chain_value 9 1] (created_in [chain_value 1 0, chain_value 9 0] Map.empty)"
  obtain db where db: "db_each (save_created_slot chain_sdk chain_spent) [chain_value 1 0, chain_value 9 0] db_new = (Inr (), db)"
    "db_singleton_coins db = []" and stored: "stored chain_codec 1 ?start {1000, 9000} db"
    using stored_creates [OF stored_new, where xs = chain_sdk and spent = chain_spent and launcher_id = 1
        and vals = "[chain_value 1 0, chain_value 9 0]"]
    by (auto simp: chain_slot_made db_new_def)
  have recorded: "tip_recorded fixture_sdk 1 (rg_coin (example_registry example_spent_coin)) True db"
    using stored db(2) by (simp add: tip_recorded_def unspent_coins_def stored_def)
  have "tip_shown fixture_sdk chain_sdk example_client 1 (example_registry example_tip_coin)"
    unfolding tip_shown_def by (simp add: example_client_def)
  moreover have "spend_shown fixture_sdk chain_sdk example_client 1 (example_registry example_spent_coin)
      chain_spent \<lparr>xt_height = 20, xt_logs = [DelegatedState]\<rparr>"
    unfolding spend_shown_def by (simp add: example_client_def example_tip_coin_def) (simp add: chain_sdk_def)
  moreover have "spend_consistent chain_sdk 1 chain_spent ?start {1000, 9000}"
    by (auto simp: spend_consistent_def Let_def chain_slot_made split: if_splits)
  ultimately have path: "chain_path fixture_sdk chain_sdk example_client 1 (example_registry example_spent_coin)
      ?start {1000, 9000} [\<lparr>xt_height = 20, xt_logs = [DelegatedState]\<rparr>] (example_registry example_tip_coin) ?now"
    by (intro chain_spend [where spent = chain_spent]) (simp_all, simp_all add: chain_tip)
  from synced_neighbours_current [OF path recorded, of 2] stored obtain db' where
    walk: "sync_walk 2 fixture_sdk chain_sdk example_client 1 (example_registry example_spent_coin) True db =
       Some (Inr (example_registry example_tip_coin, [\<lparr>xt_height = 20, xt_logs = [DelegatedState]\<rparr>]), db')"
    and "neighbours_in ?now 6 (get_xchandles_neighbors chain_codec 1 6 db')"
    by auto
  from this(2) have "\<exists>left right. get_xchandles_neighbors chain_codec 1 6 db' = Inr (left, right) \<and>
     slot_value left = chain_value 5 0 \<and> slot_value right = chain_value 9 1"
    by (auto simp: neighbours_in_def Let_def word_le_nat_alt word_less_nat_alt split: sum.splits if_splits)
  with db(1) walk show ?thesis by blast
qed

end
