(* ===== verification/ListenFacts.thy ===== *)
theory ListenFacts
  imports Listen "HOL-Library.Multiset"
begin

text \<open>
  Properties of the listening process: what counts as a reorganization, that a wrong answer of the node
  changes nothing, that blocks are followed in order, that the window of recent peaks stays sorted and
  bounded, and what a reorganization loses.
\<close>

section \<open>Detecting reorganizations\<close>

text \<open>The window holds heights in strictly increasing order, at most 32 of them.\<close>

definition peaks_ok :: "(u32 \<times> bytes32) list \<Rightarrow> bool" where
  "peaks_ok peaks \<longleftrightarrow> sorted_wrt (\<lambda>a b. fst a < fst b) peaks \<and> length peaks \<le> 32"

lemma first_mismatch_None:
  assumes "\<And>h x. (h, x) \<in> set stored \<Longrightarrow> hash_at h \<noteq> None"
  shows "first_mismatch hash_at stored = None \<longleftrightarrow> (\<forall>(h, x) \<in> set stored. hash_at h = Some x)"
  using assms
proof (induction stored)
  case (Cons p stored)
  obtain h x where p: "p = (h, x)" by (cases p)
  with Cons.prems obtain y where "hash_at h = Some y" by fastforce
  moreover have "first_mismatch hash_at stored = None \<longleftrightarrow> (\<forall>(h, x) \<in> set stored. hash_at h = Some x)"
    using Cons by fastforce
  ultimately show ?case by (auto simp: p)
qed simp

lemma first_mismatch_Some:
  "first_mismatch hash_at stored = Some f \<longleftrightarrow>
     (\<exists>before x after y. stored = before @ (f, x) # after \<and> hash_at f = Some y \<and> y \<noteq> x \<and>
        (\<forall>(h, z) \<in> set before. hash_at h = Some z))"
proof (induction stored)
  case (Cons p stored)
  obtain h x where p: "p = (h, x)" by (cases p)
  have hd: "(\<exists>before x' after y. p # stored = before @ (f, x') # after \<and> hash_at f = Some y \<and> y \<noteq> x' \<and>
        (\<forall>(h, z) \<in> set before. hash_at h = Some z)) \<longleftrightarrow>
      (f = h \<and> (\<exists>y. hash_at f = Some y \<and> y \<noteq> x)) \<or>
      (hash_at h = Some x \<and> (\<exists>before x' after y. stored = before @ (f, x') # after \<and> hash_at f = Some y \<and>
         y \<noteq> x' \<and> (\<forall>(h, z) \<in> set before. hash_at h = Some z)))" (is "?l \<longleftrightarrow> ?r")
  proof
    assume ?l
    then obtain before x' after y where split: "p # stored = before @ (f, x') # after" "hash_at f = Some y" "y \<noteq> x'"
      "\<forall>(h, z) \<in> set before. hash_at h = Some z" by blast
    then show ?r by (cases before) (auto simp: p)
  next
    assume ?r
    then show ?l
    proof
      assume "f = h \<and> (\<exists>y. hash_at f = Some y \<and> y \<noteq> x)"
      then obtain y where "f = h" "hash_at f = Some y" "y \<noteq> x" by blast
      then show ?l by (intro exI [of _ "[]"] exI [of _ x] exI [of _ stored] exI [of _ y]) (auto simp: p)
    next
      assume "hash_at h = Some x \<and> (\<exists>before x' after y. stored = before @ (f, x') # after \<and> hash_at f = Some y \<and>
         y \<noteq> x' \<and> (\<forall>(h, z) \<in> set before. hash_at h = Some z))"
      then obtain before x' after y where "hash_at h = Some x" "stored = before @ (f, x') # after" "hash_at f = Some y"
        "y \<noteq> x'" "\<forall>(h, z) \<in> set before. hash_at h = Some z" by blast
      then show ?l by (intro exI [of _ "p # before"] exI [of _ x'] exI [of _ after] exI [of _ y]) (auto simp: p)
    qed
  qed
  show ?case
    unfolding hd Cons.IH [symmetric] by (auto simp: p split: option.split)
qed simp

text \<open>
  In a window in height order the scan stops at the lowest remembered height whose hash changed.
\<close>

lemma first_mismatch_Min:
  assumes "sorted_wrt (\<lambda>a b. fst a < fst b) stored" and "\<forall>(h, x) \<in> set stored. hash_at h \<noteq> None"
    and "\<not> (\<forall>(h, x) \<in> set stored. hash_at h = Some x)"
  shows "first_mismatch hash_at stored = Some (Min {h. \<exists>x. (h, x) \<in> set stored \<and> hash_at h \<noteq> Some x})"
proof -
  let ?changed = "{h. \<exists>x. (h, x) \<in> set stored \<and> hash_at h \<noteq> Some x}"
  have "first_mismatch hash_at stored \<noteq> None"
    using first_mismatch_None [of stored hash_at] assms(2,3) by blast
  then obtain f where f: "first_mismatch hash_at stored = Some f" by blast
  then obtain before x after y where split: "stored = before @ (f, x) # after" "hash_at f = Some y" "y \<noteq> x"
    "\<forall>(h, z) \<in> set before. hash_at h = Some z"
    unfolding first_mismatch_Some by blast
  have "Min ?changed = f"
  proof (rule Min_eqI)
    have "?changed \<subseteq> fst ` set stored" by force
    then show "finite ?changed" by (rule finite_subset) simp
    show "f \<in> ?changed" using split(1-3) by auto
    fix h assume "h \<in> ?changed"
    then obtain z where z: "(h, z) \<in> set stored" "hash_at h \<noteq> Some z" by blast
    with split(1,4) have "(h, z) \<in> set ((f, x) # after)" by auto
    with assms(1) split(1) show "f \<le> h" by (auto simp: sorted_wrt_append intro: order_less_imp_le)
  qed
  with f show ?thesis by simp
qed

text \<open>
  C16. What counts as a reorganization, when the window of remembered blocks is in height order and the node
  knows all its heights. An empty window reports none. A tip below the last remembered block always is
  one, rolled back from right above the tip, whatever the hashes. A tip that extends the last remembered block
  (the next height, with its hash as the previous one) is none, also without a look at the older hashes. Any
  other tip is one exactly when a remembered hash has changed, rolled back from the lowest remembered height
  whose hash has.
\<close>

theorem reorg_rollback_from_exact:
  assumes "sorted_wrt (\<lambda>a b. fst a < fst b) stored" and "\<forall>(h, x) \<in> set stored. hash_at h \<noteq> None"
  shows "reorg_rollback_from stored new_height prev_hash hash_at =
    (if stored = [] then None
     else if new_height < fst (last stored) then Some (saturating_add new_height 1)
     else if new_height = saturating_add (fst (last stored)) 1 \<and> prev_hash = snd (last stored) then None
     else if \<forall>(h, x) \<in> set stored. hash_at h = Some x then None
     else Some (Min {h. \<exists>x. (h, x) \<in> set stored \<and> hash_at h \<noteq> Some x}))"
proof (cases "stored = []")
  case True
  then show ?thesis by (simp add: reorg_rollback_from_def)
next
  case False
  obtain lh lx where last: "last stored = (lh, lx)" by (cases "last stored")
  with False have opt: "last_opt stored = Some (lh, lx)" by (simp add: last_opt_def)
  have "first_mismatch hash_at stored =
      (if \<forall>(h, x) \<in> set stored. hash_at h = Some x then None
       else Some (Min {h. \<exists>x. (h, x) \<in> set stored \<and> hash_at h \<noteq> Some x}))"
  proof (cases "\<forall>(h, x) \<in> set stored. hash_at h = Some x")
    case True
    then show ?thesis using first_mismatch_None [of stored hash_at] assms(2) by auto
  next
    case False
    then show ?thesis unfolding if_not_P [OF False] by (rule first_mismatch_Min [OF assms])
  qed
  then show ?thesis using False by (simp add: reorg_rollback_from_def opt last)
qed

lemma reorg_rollback_from_exact_witness:
  "reorg_rollback_from [(10, 1), (11, 2)] 12 9 (\<lambda>h. if h = 10 then Some 1 else if h = 11 then Some 3 else None) = Some 11"
proof -
  let ?hash_at = "\<lambda>h. if h = 10 then Some 1 else if h = 11 then Some (3 :: bytes32) else None"
  let ?stored = "[(10 :: u32, 1 :: bytes32), (11, 2)]"
  have "sorted_wrt (\<lambda>a b. fst a < fst b) ?stored" by simp
  moreover have "\<forall>(h, x) \<in> set ?stored. ?hash_at h \<noteq> None" by simp
  ultimately have "reorg_rollback_from ?stored 12 9 ?hash_at =
      Some (Min {h. \<exists>x. (h, x) \<in> set ?stored \<and> ?hash_at h \<noteq> Some x})"
    by (subst reorg_rollback_from_exact) (simp_all add: saturating_add_def)
  moreover have "{h. \<exists>x. (h, x) \<in> set ?stored \<and> ?hash_at h \<noteq> Some x} = {11}" by auto
  ultimately show ?thesis by simp
qed

section \<open>The window of recent peaks\<close>

lemma peaks_ok_filter: "peaks_ok peaks \<Longrightarrow> peaks_ok (filter P peaks)"
  by (auto simp: peaks_ok_def sorted_wrt_filter intro: order_trans [OF length_filter_le])

lemma sorted_push_peak:
  "sorted_wrt (\<lambda>a b. fst a < fst b) peaks \<Longrightarrow> sorted_wrt (\<lambda>a b. fst a < fst b) (push_peak h x peaks)"
  by (auto simp: push_peak_def sorted_wrt_append sorted_wrt_filter)

lemma sorted_push_peaks:
  "sorted_wrt (\<lambda>a b. fst a < fst b) peaks \<Longrightarrow>
     sorted_wrt (\<lambda>a b. fst a < fst b) (foldl (\<lambda>ps (h, x). push_peak h x ps) peaks followed)"
  by (induction followed arbitrary: peaks) (auto simp: sorted_push_peak)

section \<open>Following blocks\<close>

text \<open>The blocks the node has among some heights, with their hashes and spends.\<close>

definition present_blocks ::
  "(u32 \<Rightarrow> cli_error + (bytes32 \<times> coin_spend list) option) \<Rightarrow> u32 list \<Rightarrow> (u32 \<times> bytes32 \<times> coin_spend list) list"
where
  "present_blocks source heights =
     concat (map (\<lambda>h. case source h of Inr (Some (x, spends)) \<Rightarrow> [(h, x, spends)] | _ \<Rightarrow> []) heights)"

definition apply_blocks ::
  "('n, 'z) sdk_scheme \<Rightarrow> (u32 \<times> bytes32 \<times> coin_spend list) list \<Rightarrow> singleton_indexer \<Rightarrow> singleton_indexer"
where
  "apply_blocks sdk blocks ix = foldl (\<lambda>ix (h, _, spends). fst (on_block sdk h spends ix)) ix blocks"

lemma present_blocks_simps [simp]:
  "present_blocks source [] = []"
  "present_blocks source (h # hs) =
     (case source h of Inr (Some (x, spends)) \<Rightarrow> [(h, x, spends)] | _ \<Rightarrow> []) @ present_blocks source hs"
  by (simp_all add: present_blocks_def)

lemma apply_blocks_simps [simp]:
  "apply_blocks sdk [] ix = ix"
  "apply_blocks sdk ((h, x, spends) # bs) ix = apply_blocks sdk bs (fst (on_block sdk h spends ix))"
  by (simp_all add: apply_blocks_def)

lemma follow_heights_eq:
  "follow_heights sdk source heights ix =
     (let answered = takeWhile (\<lambda>h. \<not> isl (source h)) heights
      in (apply_blocks sdk (present_blocks source answered) ix,
          if answered = heights then Inr (map (\<lambda>(h, x, _). (h, x)) (present_blocks source heights))
          else Inl (projl (source (heights ! length answered)))))"
proof (induction heights arbitrary: ix)
  case (Cons h heights)
  show ?case
  proof (cases "source h")
    case (Inr found)
    then show ?thesis
    proof (cases found)
      case None
      with Inr Cons show ?thesis by (simp add: Let_def)
    next
      case (Some b)
      then show ?thesis using Inr by (cases b) (simp add: Cons Let_def)
    qed
  qed simp
qed simp

lemma height_range_empty: "tip < start \<Longrightarrow> height_range start tip = []"
  by (simp add: height_range_def word_less_nat_alt)

lemma unat_u32_less: "unat (x :: u32) < 4294967296"
  using unsigned_less [of x] by simp

lemma height_range_unat: "map unat (height_range start tip) = [unat start..<Suc (unat tip)]"
proof -
  have "unat (word_of_nat n :: u32) = n" if "n \<in> set [unat start..<Suc (unat tip)]" for n
    using that unat_u32_less [of tip] by (auto simp: unat_of_nat)
  then show ?thesis unfolding height_range_def map_map by (intro map_idI) simp
qed

lemma set_height_range: "set (height_range start tip) = {start..tip}"
proof (rule set_eqI)
  fix h
  have "h \<in> set (height_range start tip) \<longleftrightarrow> unat h \<in> unat ` set (height_range start tip)"
    by (simp add: inj_image_mem_iff)
  also have "\<dots> \<longleftrightarrow> unat h \<in> {unat start..<Suc (unat tip)}"
    using arg_cong [OF height_range_unat, where f = set, of start tip]
    by (simp only: set_map set_upt)
  finally show "h \<in> set (height_range start tip) \<longleftrightarrow> h \<in> {start..tip}"
    by (auto simp: word_le_nat_alt)
qed

lemma sorted_height_range: "sorted_wrt (<) (height_range start tip)"
proof -
  have "sorted_wrt (<) (map unat (height_range start tip))"
    unfolding height_range_unat by (rule sorted_wrt_upt)
  then show ?thesis by (simp only: sorted_wrt_map word_less_nat_alt [symmetric])
qed

lemma sorted_present: "sorted_wrt (<) hs \<Longrightarrow> sorted_wrt (\<lambda>a b. fst a < fst b) (present_blocks source hs)"
proof (induction hs)
  case (Cons h hs)
  have "fst b \<in> set hs" if "b \<in> set (present_blocks source hs)" for b
    using that by (auto simp: present_blocks_def split: sum.splits option.splits prod.splits)
  with Cons show ?case by (auto simp: sorted_wrt_append split: sum.splits option.splits)
qed simp

lemma follow_blocks_eq:
  "follow_blocks_after sdk source a tip ix =
     follow_heights sdk source (height_range (saturating_add a 1) tip) ix"
  by (simp add: follow_blocks_after_def Let_def height_range_empty)

text \<open>
  Blocks are followed in the order of the chain: every height after the last followed one through
  the tip is asked for once, in increasing order, up to the first request that fails; the blocks the
  node has are applied to the index in that order, and the followed heights are reported with their
  hashes exactly when no request failed.
\<close>

theorem follow_blocks_in_order:
  "follow_blocks_after sdk source after_height tip ix =
     (let heights = height_range (saturating_add after_height 1) tip;
          answered = takeWhile (\<lambda>h. \<not> isl (source h)) heights
      in (apply_blocks sdk (present_blocks source answered) ix,
          if answered = heights then Inr (map (\<lambda>(h, x, _). (h, x)) (present_blocks source heights))
          else Inl (projl (source (heights ! length answered))))) \<and>
   set (height_range (saturating_add after_height 1) tip) = {saturating_add after_height 1..tip} \<and>
   sorted_wrt (<) (height_range (saturating_add after_height 1) tip)"
  by (intro conjI set_height_range sorted_height_range) (simp only: follow_blocks_eq follow_heights_eq Let_def)

lemma follow_blocks_agree:
  assumes "\<forall>h > a. source h = source' h" and "a \<noteq> (- 1 :: u32)"
  shows "follow_blocks_after sdk source a tip ix = follow_blocks_after sdk source' a tip ix"
proof -
  have "saturating_add a 1 > a"
    using assms(2) unat_u32_less [of a] by (auto simp: word_less_nat_alt word_unat_eq_iff)
  then have "\<forall>h \<in> set (height_range (saturating_add a 1) tip). source h = source' h"
    using assms(1) by (auto simp: set_height_range)
  then have "follow_heights sdk source hs ix = follow_heights sdk source' hs ix"
    if "set hs \<subseteq> set (height_range (saturating_add a 1) tip)" for hs
    using that by (induction hs arbitrary: ix) (auto split: sum.splits option.splits prod.splits)
  then show ?thesis by (simp add: follow_blocks_eq)
qed

text \<open>
  A block that is missing when its height is followed is never asked for again: once a later block
  of the same peak has been followed, the next peak starts above the tip, so whatever the node would
  answer for the missing height leaves the index as it is.
\<close>

theorem missing_block_never_retried:
  assumes "ls_last_followed_height st < missing" and "missing < tip" and "tip < - 1"
    and "\<forall>h \<in> {saturating_add (ls_last_followed_height st) 1..tip}. \<exists>b. block_at_height client h = Inr b"
    and "block_at_height client missing = Inr None"
    and "block_at_height client tip = Inr (Some b)"
    and "\<forall>h > tip. block_at_height later h = block_at_height later' h"
  shows "ls_last_followed_height (follow_to_tip sdk client tip st) = tip \<and>
    ls_indexer (follow_to_tip sdk later tip' (follow_to_tip sdk client tip st)) =
    ls_indexer (follow_to_tip sdk later' tip' (follow_to_tip sdk client tip st))"
proof -
  let ?source = "block_at_height client" and ?a = "saturating_add (ls_last_followed_height st) 1"
  obtain x spends where b: "?source tip = Inr (Some (x, spends))" using assms(6) by (cases b) auto
  have all: "takeWhile (\<lambda>h. \<not> isl (?source h)) (height_range ?a tip) = height_range ?a tip"
    using assms(4) by (fastforce simp: set_height_range)
  have le: "?a \<le> tip"
    using assms(1,2) by (simp add: word_le_nat_alt word_less_nat_alt)
  then have "height_range ?a tip = map word_of_nat [unat ?a..<unat tip] @ [tip]"
    by (simp add: height_range_def word_le_nat_alt)
  then have "present_blocks ?source (height_range ?a tip) =
      present_blocks ?source (map word_of_nat [unat ?a..<unat tip]) @ [(tip, x, spends)]"
    by (simp add: present_blocks_def b)
  then have last: "last_opt (map (\<lambda>(h, x, _). (h, x)) (present_blocks ?source (height_range ?a tip))) = Some (tip, x)"
    by simp
  then have tip: "ls_last_followed_height (follow_to_tip sdk client tip st) = tip"
    by (simp add: follow_to_tip_def follow_blocks_eq follow_heights_eq Let_def all record_followed_def
        split: prod.split)
  have agree: "follow_blocks_after sdk (block_at_height later) tip tip' ix =
      follow_blocks_after sdk (block_at_height later') tip tip' ix" for ix
    using assms(3,7) by (intro follow_blocks_agree) auto
  show ?thesis
    using tip by (simp add: follow_to_tip_def [of _ later] follow_to_tip_def [of _ later'] agree)
qed

text \<open>A node whose block \<open>h\<close> has the header hash \<open>hash h\<close>, except for the heights it has no record of.\<close>

definition chain_client :: "(u32 \<Rightarrow> bytes32 option) \<Rightarrow> client" where
  "chain_client hash = example_client\<lparr>
     cl_block_record := (\<lambda>h. Inr (map_option (\<lambda>x.
       \<lparr>br_header_hash = x, br_prev_hash = unwrap_or (hash (h - 1)) 0, br_timestamp = Some (ucast h)\<rparr>) (hash h)))\<rparr>"

definition example_listener :: "unit listener" where
  "example_listener = (listen_start example_indexer db_new [1] 0 True)
     \<lparr>ls_last_followed_height := 10, ls_recent_peaks := [(10, 110)]\<rparr>"

lemma chain_client_block [simp]:
  "block_at_height (chain_client hash) h = Inr (map_option (\<lambda>x. (x, [])) (hash h))"
  by (simp add: block_at_height_def chain_client_def example_client_def split: option.split)

lemma missing_block_never_retried_witness:
  "ls_indexer (follow_to_tip fixture_sdk (chain_client (\<lambda>h. Some (ucast h + 100))) 13
       (follow_to_tip fixture_sdk (chain_client (\<lambda>h. if h = 11 then None else Some (ucast h + 100))) 12 example_listener)) =
   ls_indexer (follow_to_tip fixture_sdk (chain_client (\<lambda>h. if h = 11 then None else Some (ucast h + 100))) 13
       (follow_to_tip fixture_sdk (chain_client (\<lambda>h. if h = 11 then None else Some (ucast h + 100))) 12 example_listener))"
  by (rule missing_block_never_retried [where missing = 11, THEN conjunct2])
    (auto simp: example_listener_def word_less_nat_alt)

section \<open>The window stays sorted and bounded\<close>

lemma peaks_ok_trim: "sorted_wrt (\<lambda>a b. fst a < fst b) peaks \<Longrightarrow> peaks_ok (trim_peaks peaks)"
  by (auto simp: peaks_ok_def trim_peaks_def sorted_wrt_drop)

lemma peaks_ok_remember: "peaks_ok (ls_recent_peaks st) \<Longrightarrow> peaks_ok (ls_recent_peaks (remember_tip tip rec st))"
  by (auto simp: remember_tip_def peaks_ok_def [of "ls_recent_peaks st"]
      intro!: peaks_ok_trim sorted_push_peak split: option.split)

text \<open>The parts of a run that leave the window alone.\<close>

definition keeps :: "('c listener \<Rightarrow> 'b) \<Rightarrow> ('c listener \<Rightarrow> ('c, 'a) run) \<Rightarrow> bool" where
  "keeps part f \<longleftrightarrow> (\<forall>st. case f st of None \<Rightarrow> True | Some (_, st') \<Rightarrow> part st' = part st)"

lemma keepsD: "keeps part f \<Longrightarrow> f st = Some (r, st') \<Longrightarrow> part st' = part st"
  by (auto simp: keeps_def split: option.splits prod.splits)

lemma keepsI: "(\<And>st r st'. f st = Some (r, st') \<Longrightarrow> part st' = part st) \<Longrightarrow> keeps part f"
  by (auto simp: keeps_def split: option.splits prod.splits)

lemma run_then_cases:
  assumes "run_then r k = Some (x, st')"
  obtains (stopped) e where "r = Some (Inl e, st')" "x = Inl e"
  | (went_on) y st where "r = Some (Inr y, st)" "k y st = Some (x, st')"
  using assms by (auto simp: run_then_def split: option.splits sum.splits prod.splits)

lemma keeps_then:
  assumes "keeps part f" and "\<And>x. keeps part (k x)"
  shows "keeps part (\<lambda>st. run_then (f st) k)"
proof (rule keepsI)
  fix st r st' assume "run_then (f st) k = Some (r, st')"
  then show "part st' = part st"
  proof (rule run_then_cases)
    fix e assume "f st = Some (Inl e, st')"
    then show ?thesis by (rule keepsD [OF assms(1)])
  next
    fix y st1 assume "f st = Some (Inr y, st1)" and k: "k y st1 = Some (r, st')"
    then have "part st1 = part st" by (intro keepsD [OF assms(1)])
    with keepsD [OF assms(2) k] show ?thesis by simp
  qed
qed

lemma keeps_read [simp]: "keeps part (\<lambda>st. Some (answer st, st))"
  by (simp add: keeps_def)

lemma keeps_db:
  assumes "\<And>st db. part (st\<lparr>ls_db := db\<rparr>) = part st"
  shows "keeps part (run_db f)"
  by (rule keepsI) (auto simp: run_db_def assms)

lemma keeps_run_db [simp]: "keeps ls_recent_peaks (run_db f)" "keeps ls_registries (run_db f)"
    "keeps ls_indexer (run_db f)" "keeps ls_last_followed_height (run_db f)"
  by (rule keeps_db, simp)+

lemma keeps_sync_registry:
  assumes "\<And>st db. part (st\<lparr>ls_db := db\<rparr>) = part st"
  shows "keeps part (sync_registry fuel sdk xs client launcher_id)"
  unfolding sync_registry_def run_read_simps by (intro keeps_then keeps_db assms keeps_read)

lemma keeps_sync_peaks: "keeps ls_recent_peaks (sync_registry fuel sdk xs client launcher_id)"
  by (rule keeps_sync_registry) simp

lemma keeps_process_registries:
  assumes "\<And>l. keeps ls_recent_peaks (source l)"
  shows "keeps ls_recent_peaks (process_registries sdk xs source m is)"
proof (rule keepsI)
  fix st r st' assume "process_registries sdk xs source m is st = Some (r, st')"
  then show "ls_recent_peaks st' = ls_recent_peaks st"
  proof (induction "is" arbitrary: st m)
    case (Cons i "is")
    then show ?case
      by (auto simp: Let_def split: option.splits if_splits elim!: run_then_cases dest!: keepsD [OF assms] Cons.IH)
  qed simp
qed

lemma keeps_process_spends: "keeps ls_recent_peaks (process_spends fuel sdk xs client)"
  unfolding process_spends_def process_spent_registry_records_def run_read_simps
  by (rule keepsI) (auto elim!: run_then_cases
      dest!: keepsD [OF keeps_process_registries [OF keeps_sync_peaks]])

lemma keeps_resync:
  assumes "\<And>l. keeps part (run_db (sync_xchandles fuel sdk xs client l))"
    and "\<And>st registries. part (st\<lparr>ls_registries := registries\<rparr>) = part st"
  shows "keeps part (resync_registries fuel sdk xs client ids)"
proof (rule keepsI)
  fix st r st' assume "resync_registries fuel sdk xs client ids st = Some (r, st')"
  then show "part st' = part st"
  proof (induction ids arbitrary: st)
    case (Cons id ids)
    then show ?case
      by (cases id) (auto simp: assms(2) elim!: run_then_cases dest!: keepsD [OF assms(1)] Cons.IH)
  qed simp
qed

lemma keeps_resync_peaks: "keeps ls_recent_peaks (resync_registries fuel sdk xs client ids)"
  by (rule keeps_resync) simp_all

lemma keeps_resync_indexer: "keeps ls_indexer (resync_registries fuel sdk xs client ids)"
  by (rule keeps_resync) simp_all

lemma peaks_ok_reorg:
  assumes "handle_reorg fuel sdk xs client launcher_ids tip rec st = Some (r, st')"
    and "peaks_ok (ls_recent_peaks st)"
  shows "peaks_ok (ls_recent_peaks st')"
  using assms
  by (auto simp: handle_reorg_def roll_back_listener_def Let_def peaks_ok_filter split: option.splits
      elim!: run_then_cases dest!: keepsD [OF keeps_resync_peaks])

lemma peaks_ok_tip:
  assumes "handle_tip fuel sdk xs client launcher_ids tip_height confirmed st = Some (r, st')"
    and "peaks_ok (ls_recent_peaks st)"
  shows "peaks_ok (ls_recent_peaks st')"
  using assms
  by (auto simp: handle_tip_def split: option.splits elim!: run_then_cases intro: peaks_ok_reorg)

lemma peaks_ok_follow:
  "peaks_ok (ls_recent_peaks st) \<Longrightarrow> peaks_ok (ls_recent_peaks (follow_to_tip sdk client tip st))"
  by (auto simp: follow_to_tip_def record_followed_def peaks_ok_def [of "ls_recent_peaks st"]
      intro!: peaks_ok_trim sorted_push_peaks split: prod.split sum.split)

text \<open>
  The window of recent peaks stays well formed: whatever the node answers, and also when handling
  a peak fails half-way, the remembered heights are strictly increasing (so the scan of a reorganization
  meets the lowest orphaned height first) and there are at most 32 of them.
\<close>

theorem peak_keeps_window:
  assumes "peaks_ok (ls_recent_peaks st)"
  shows "case handle_peak fuel sdk xs client launcher_ids schedule testnet11 clock clear_due st of
      None \<Rightarrow> True
    | Some (_, st') \<Rightarrow> peaks_ok (ls_recent_peaks st')"
proof -
  have spends: "peaks_ok (ls_recent_peaks t')"
    if "process_spends fuel sdk xs client t = Some (r', t')" "peaks_ok (ls_recent_peaks t)" for t t' r'
    using that keepsD [OF keeps_process_spends] by metis
  have "peaks_ok (ls_recent_peaks st')"
    if "handle_peak fuel sdk xs client launcher_ids schedule testnet11 clock clear_due st = Some (r, st')" for r st'
    using that assms
    by (auto simp: handle_peak_def Let_def set_schedule_pricing_def peaks_ok_remember peaks_ok_follow
        split: option.splits if_splits elim!: run_then_cases
        dest!: keepsD [OF keeps_run_db(1)] peaks_ok_tip spends)
  then show ?thesis by (auto split: option.split)
qed

text \<open>A full peak: the tip is 12, the window ends at 10.\<close>

definition example_peak_client :: client where
  "example_peak_client = (chain_client (\<lambda>h. Some (ucast h + 100)))
     \<lparr>cl_blockchain_state := Inr (Some \<lparr>bp_height = 12, bp_timestamp = None\<rparr>),
      cl_coin_records_by_names := (\<lambda>_. Inr (Some []))\<rparr>"

lemma peak_keeps_window_witness:
  "case handle_peak 5 fixture_sdk example_registry_sdk example_peak_client [1] [] True 50 False example_listener of
      None \<Rightarrow> True
    | Some (_, st') \<Rightarrow> peaks_ok (ls_recent_peaks st')"
  by (rule peak_keeps_window) (simp add: peaks_ok_def example_listener_def)

section \<open>What a reorganization loses\<close>

definition reorg_seen :: "client \<Rightarrow> u32 \<Rightarrow> block_record \<Rightarrow> (u32 \<times> bytes32) list \<Rightarrow> cli_error + u32 option" where
  "reorg_seen client tip rec peaks =
     try_result (if needs_hash_at peaks tip (br_prev_hash rec) then hash_cache client [] peaks else Inr [])
       (\<lambda>cache. Inr (reorg_rollback_from peaks tip (br_prev_hash rec) (hm_get cache)))"

lemma handle_reorg_eq:
  "handle_reorg fuel sdk xs client launcher_ids tip rec st =
     (case reorg_seen client tip rec (ls_recent_peaks st) of
        Inl e \<Rightarrow> Some (Inl e, st)
      | Inr None \<Rightarrow> Some (Inr (), st)
      | Inr (Some f) \<Rightarrow>
          resync_registries fuel sdk xs client (zip [0..<length launcher_ids] launcher_ids) (roll_back_listener f st))"
  by (auto simp: handle_reorg_def reorg_seen_def run_then_def split: sum.split option.split)

lemma process_registries_unspent:
  assumes "process_registries sdk xs source m is st = Some (r, st')"
    and "\<forall>(i, rec) \<in> set m. \<not> cr_spent rec"
  shows "st' = st"
  using assms
proof (induction "is" arbitrary: m)
  case (Cons i "is")
  obtain rec where rec: "hm_get m (sdk_coin_id sdk (rg_coin (ls_registries st ! i))) = Some rec"
    using Cons.prems(1) by (auto simp: Let_def split: option.splits)
  with Cons.prems(2) have "\<not> cr_spent rec" by (auto dest: map_of_SomeD)
  with Cons.prems(1) rec have "process_registries sdk xs source
      (hm_remove (sdk_coin_id sdk (rg_coin (ls_registries st ! i))) m) is st = Some (r, st')"
    by (simp add: Let_def)
  moreover have "\<forall>(i, rec) \<in> set (hm_remove (sdk_coin_id sdk (rg_coin (ls_registries st ! i))) m). \<not> cr_spent rec"
    using Cons.prems(2) by (auto simp: AList.delete_eq)
  ultimately show ?case by (rule Cons.IH)
qed simp

lemma records_by_coin_id_in:
  "records_by_coin_id sdk m records = Inr m' \<Longrightarrow> (i, rec) \<in> set m' \<Longrightarrow> hm_ok m \<Longrightarrow>
     (i, rec) \<in> set m \<or> rec \<in> set records"
proof (induction records arbitrary: m)
  case (Cons r records)
  then have "records_by_coin_id sdk (hm_insert (sdk_coin_id sdk (cr_coin r)) r m) records = Inr m'"
    by (simp add: Let_def split: if_splits)
  from Cons.IH [OF this Cons.prems(2)] Cons.prems(3) show ?case
    by (auto simp flip: hm_get_in_set split: if_splits)
qed simp

lemma process_spends_unspent:
  assumes "process_spends fuel sdk xs client st = Some (r, st')"
    and "cl_coin_records_by_names client (map (\<lambda>r. sdk_coin_id sdk (rg_coin r)) (ls_registries st)) = Inr (Some records)"
    and "\<forall>record \<in> set records. \<not> cr_spent record"
  shows "st' = st"
proof -
  have "\<forall>(i, rec) \<in> set m. \<not> cr_spent rec" if "checked_records sdk (ls_registries st) records = Inr m" for m
    using that assms(3) by (auto simp: checked_records_def result_simps split: if_splits dest!: records_by_coin_id_in)
  with assms(1,2) show ?thesis
    by (auto simp: process_spends_def process_spent_registry_records_def required_def
        elim!: run_then_cases dest: process_registries_unspent)
qed

text \<open>
  The synchronization of one launcher after the other over the database, each with the registry it
  reaches and the transitions of the spends it walks over.
\<close>

fun walked_all ::
  "nat \<Rightarrow> ('n, 'z) sdk_scheme \<Rightarrow> 'c registry_sdk \<Rightarrow> client \<Rightarrow> bytes32 list \<Rightarrow> db \<Rightarrow> 'c sync_result list \<Rightarrow> db \<Rightarrow> bool"
where
  "walked_all fuel sdk xs client [] db walks db' \<longleftrightarrow> walks = [] \<and> db' = db"
| "walked_all fuel sdk xs client (l # ls) db walks db' \<longleftrightarrow>
     (\<exists>walk rest db1. walks = walk # rest \<and>
        sync_xchandles_detailed fuel sdk xs client l db = Some (Inr walk, db1) \<and>
        walked_all fuel sdk xs client ls db1 rest db')"

lemma sync_xchandles_walk:
  "sync_xchandles fuel sdk xs client l db = Some (Inr registry, db') \<Longrightarrow>
     \<exists>walk. sync_xchandles_detailed fuel sdk xs client l db = Some (Inr walk, db') \<and> registry = xr_registry walk"
  by (auto simp: sync_xchandles_def result_simps)

lemma resync_walks:
  assumes "resync_registries fuel sdk xs client (zip [k..<k + length ls] ls) st = Some (Inr (), st')"
    and "k + length ls \<le> length (ls_registries st)"
  shows "\<exists>walks. walked_all fuel sdk xs client ls (ls_db st) walks (ls_db st') \<and>
    ls_registries st' = take k (ls_registries st) @ map xr_registry walks @ drop (k + length ls) (ls_registries st)"
  using assms
proof (induction ls arbitrary: k st)
  case Nil
  then show ?case by auto
next
  case (Cons l ls)
  have ids: "zip [k..<k + length (l # ls)] (l # ls) = (k, l) # zip [Suc k..<Suc k + length ls] ls"
    by (subst upt_conv_Cons) simp_all
  obtain registry db1 where sync: "sync_xchandles fuel sdk xs client l (ls_db st) = Some (Inr registry, db1)"
    and rest: "resync_registries fuel sdk xs client (zip [Suc k..<Suc k + length ls] ls)
      (st\<lparr>ls_db := db1, ls_registries := (ls_registries st)[k := registry]\<rparr>) = Some (Inr (), st')"
    using Cons.prems(1) unfolding ids by (auto simp: run_db_def elim!: run_then_cases)
  obtain walk where walk: "sync_xchandles_detailed fuel sdk xs client l (ls_db st) = Some (Inr walk, db1)"
      "registry = xr_registry walk"
    using sync_xchandles_walk [OF sync] by blast
  obtain walks where walks: "walked_all fuel sdk xs client ls db1 walks (ls_db st')"
      "ls_registries st' = take (Suc k) ((ls_registries st)[k := registry]) @ map xr_registry walks @
        drop (Suc k + length ls) ((ls_registries st)[k := registry])"
    using Cons.IH [OF rest] Cons.prems(2) by auto
  have "take (Suc k) ((ls_registries st)[k := registry]) = take k (ls_registries st) @ [registry]"
    using Cons.prems(2) by (simp add: take_Suc_conv_app_nth)
  with walk walks show ?case by (intro exI [of _ "walk # walks"]) auto
qed

text \<open>
  C14. A reorganization loses the registry spends of the new branch. Once handling a tip has seen one, the
  registries are synchronized again: each is now the one that a synchronization from the database
  returns, together with the transitions of the spends it walked over. None of these transitions reaches the
  index: it is only the old one rolled back, also after the registries' spends are handled, when the new
  tips are unspent; and as the registries now stand behind those spends, no later peak looks at them
  again.
\<close>

theorem reorg_drops_registry_spends:
  assumes "cl_block_record client tip = Inr (Some rec)"
    and "reorg_seen client tip rec (ls_recent_peaks st) = Inr (Some from_height)"
    and "handle_tip fuel sdk xs client launcher_ids (Some tip) confirmed st = Some (Inr x, st1)"
    and "process_spends fuel sdk xs client st1 = Some (r, st2)"
    and "cl_coin_records_by_names client (map (\<lambda>r. sdk_coin_id sdk (rg_coin r)) (ls_registries st1)) =
      Inr (Some records)"
    and "\<forall>record \<in> set records. \<not> cr_spent record"
    and "length (ls_registries st) = length launcher_ids"
  shows "(\<exists>walks. walked_all fuel sdk xs client launcher_ids (ls_db st) walks (ls_db st2) \<and>
      ls_registries st2 = map xr_registry walks) \<and>
    ls_indexer st2 = rollback from_height (ls_indexer st)"
proof -
  let ?rolled = "roll_back_listener from_height st"
  have resync: "resync_registries fuel sdk xs client (zip [0..<length launcher_ids] launcher_ids) ?rolled =
      Some (Inr (), st1)"
    using assms(1-3) by (auto simp: handle_tip_def handle_reorg_eq elim!: run_then_cases)
  have rolled: "ls_db ?rolled = ls_db st" "ls_registries ?rolled = ls_registries st"
    "ls_indexer ?rolled = rollback from_height (ls_indexer st)"
    by (simp_all add: roll_back_listener_def Let_def)
  have "\<exists>walks. walked_all fuel sdk xs client launcher_ids (ls_db st) walks (ls_db st1) \<and>
      ls_registries st1 = map xr_registry walks"
    using resync_walks [of fuel sdk xs client 0 launcher_ids ?rolled st1] resync assms(7)
    by (simp add: rolled)
  moreover have "ls_indexer st1 = rollback from_height (ls_indexer st)"
    using keepsD [OF keeps_resync_indexer resync] by (simp add: rolled)
  moreover have "st2 = st1" using assms(4-6) by (rule process_spends_unspent)
  ultimately show ?thesis by simp
qed

text \<open>
  A tip at height 21 replaces block 20, which spends the registry's coin 1021 with a \<open>Register\<close>. The
  database was last synchronized at that coin.
\<close>

definition reorg_registry_sdk :: "unit registry_sdk" where
  "reorg_registry_sdk = example_registry_sdk\<lparr>
     xs_from_spend := (\<lambda>_ _. Inr (Some ((example_registry example_spent_coin)\<lparr>rg_logs := [Register example_register]\<rparr>)))\<rparr>"

definition reorg_client :: client where
  "reorg_client = (chain_client (\<lambda>h. Some (ucast h + 100)))
     \<lparr>cl_coin_record_by_name := (\<lambda>i. if i = 1
        then Inr (Some \<lparr>cr_coin = example_spent_coin, cr_confirmed_block_index = 5,
          cr_spent_block_index = 10, cr_spent = True\<rparr>)
        else cl_coin_record_by_name example_client i),
      cl_puzzle_and_solution := (\<lambda>i h. if i = 1
        then Inr (Some \<lparr>spend_coin = example_spent_coin, puzzle_reveal = [], spend_solution = []\<rparr>)
        else cl_puzzle_and_solution example_client i h),
      cl_coin_records_by_names := (\<lambda>_. Inr (Some [\<lparr>cr_coin = example_tip_coin, cr_confirmed_block_index = 20,
          cr_spent_block_index = 0, cr_spent = False\<rparr>]))\<rparr>"

definition reorg_db :: db where
  "reorg_db = db_new\<lparr>
     db_singleton_coins := [\<lparr>sc_launcher_id = to_bytes 1, sc_coin_id = to_bytes 1021,
       sc_parent_coin_id = to_bytes 1, sc_spent_block_height = 0\<rparr>],
     db_xchandles_configurations := [(to_bytes 1, [1])]\<rparr>"

definition reorg_listener :: "unit listener" where
  "reorg_listener = (listen_start example_indexer reorg_db [1] 0 True)
     \<lparr>ls_registries := [example_registry example_tip_coin], ls_last_followed_height := 20,
      ls_recent_peaks := [(19, 119), (20, 7)]\<rparr>"

lemma reorg_example_start:
  "sync_start reorg_registry_sdk reorg_client 1 reorg_db = (Inr (example_registry example_spent_coin, False), reorg_db)"
  by (simp add: sync_start_def db_read_def resume_from_saved_tip_def resume_def
      required_def reorg_db_def reorg_client_def reorg_registry_sdk_def example_registry_sdk_def
      get_last_unspent_singleton_coin_def get_xchandles_configuration_def db_new_def db_query_def
      optional_constants_def)

definition reorg_spent_record :: coin_record where
  "reorg_spent_record = \<lparr>cr_coin = example_spent_coin, cr_confirmed_block_index = 10,
     cr_spent_block_index = 20, cr_spent = True\<rparr>"

definition reorg_tip_record :: coin_record where
  "reorg_tip_record = \<lparr>cr_coin = example_tip_coin, cr_confirmed_block_index = 20,
     cr_spent_block_index = 0, cr_spent = False\<rparr>"

lemma reorg_simps [simp]:
  "cl_coin_record_by_name reorg_client 1021 = Inr (Some reorg_spent_record)"
  "cl_coin_record_by_name reorg_client 1021031 = Inr (Some reorg_tip_record)"
  "cl_puzzle_and_solution reorg_client 1021 (Some 20) =
     Inr (Some \<lparr>spend_coin = example_spent_coin, puzzle_reveal = [], spend_solution = []\<rparr>)"
  "cl_coin_records_by_names reorg_client ids = Inr (Some [reorg_tip_record])"
  "xs_child reorg_registry_sdk r = example_registry example_tip_coin"
  "xs_launcher_id reorg_registry_sdk c = 1"
  "xs_from_spend reorg_registry_sdk spend c =
     Inr (Some ((example_registry example_spent_coin)\<lparr>rg_logs := [Register example_register]\<rparr>))"
  "cr_coin reorg_spent_record = example_spent_coin" "cr_coin reorg_tip_record = example_tip_coin"
  "cr_confirmed_block_index reorg_spent_record \<noteq> 0" "cr_confirmed_block_index reorg_tip_record \<noteq> 0"
  "cr_spent reorg_spent_record" "\<not> cr_spent reorg_tip_record" "cr_spent_block_index reorg_spent_record = 20"
  by (simp_all add: reorg_client_def example_client_def reorg_registry_sdk_def example_registry_sdk_def
      reorg_spent_record_def reorg_tip_record_def)

lemma reorg_example_walk:
  "\<exists>db'. sync_walk 3 fixture_sdk reorg_registry_sdk reorg_client 1 (example_registry example_spent_coin) False reorg_db =
     Some (Inr (example_registry example_tip_coin, [\<lparr>xt_height = 20, xt_logs = [Register example_register]\<rparr>]), db')"
proof -
  let ?spent = "(example_registry example_spent_coin)\<lparr>rg_logs := [Register example_register]\<rparr>"
    and ?t = "\<lparr>xt_height = 20, xt_logs = [Register example_register]\<rparr>"
  have spend: "spend_shown fixture_sdk reorg_registry_sdk reorg_client 1 (example_registry example_spent_coin) ?spent ?t"
    unfolding spend_shown_def by (simp add: example_tip_coin_def)
  have tip: "tip_shown fixture_sdk reorg_registry_sdk reorg_client 1 (xs_child reorg_registry_sdk ?spent)"
    by (simp add: tip_shown_def)
  have written: "slots_written reorg_registry_sdk ?spent"
    by (simp add: slots_written_def example_registry_def)
  have "tip_recorded fixture_sdk 1 (rg_coin (example_registry example_spent_coin)) False reorg_db"
    by (auto simp: tip_recorded_def reorg_db_def db_new_def unspent_coins_def)
  then obtain d1 where d1: "sync_turn fixture_sdk reorg_registry_sdk reorg_client 1
      (example_registry example_spent_coin) False reorg_db = (Inr (Walked (xs_child reorg_registry_sdk ?spent) ?t), d1)"
    and "tip_recorded fixture_sdk 1 (rg_coin (xs_child reorg_registry_sdk ?spent)) False d1"
    using turn_spend_recorded [OF spend written] by blast
  with turn_tip [OF tip this(2)] show ?thesis by (auto simp: numeral_3_eq_3)
qed

lemma reorg_example_synced:
  "\<exists>db'. sync_xchandles_detailed 3 fixture_sdk reorg_registry_sdk reorg_client 1 reorg_db =
     Some (Inr \<lparr>xr_registry = example_registry example_tip_coin,
       xr_spent_transitions = [\<lparr>xt_height = 20, xt_logs = [Register example_register]\<rparr>]\<rparr>, db')"
proof -
  have "mempool_tip fixture_sdk reorg_registry_sdk reorg_client r = Inr r" for r
    by (simp add: mempool_tip_def reorg_client_def chain_client_def example_client_def)
  with reorg_example_walk show ?thesis
    by (auto simp: sync_xchandles_detailed_def reorg_example_start)
qed

lemma reorg_drops_registry_spends_witness:
  "\<exists>x st1 r st2.
     handle_tip 3 fixture_sdk reorg_registry_sdk reorg_client [1] (Some 21) 0 reorg_listener = Some (Inr x, st1) \<and>
     process_spends 3 fixture_sdk reorg_registry_sdk reorg_client st1 = Some (r, st2) \<and>
     ls_indexer st2 = rollback 20 (ls_indexer reorg_listener) \<and>
     ls_registries st2 = [example_registry example_tip_coin] \<and>
     (\<exists>db'. sync_xchandles_detailed 3 fixture_sdk reorg_registry_sdk reorg_client 1 (ls_db reorg_listener) =
        Some (Inr \<lparr>xr_registry = example_registry example_tip_coin,
          xr_spent_transitions = [\<lparr>xt_height = 20, xt_logs = [Register example_register]\<rparr>]\<rparr>, db'))"
proof -
  let ?rec = "\<lparr>br_header_hash = 121, br_prev_hash = 120, br_timestamp = Some 21\<rparr>"
  have block: "cl_block_record reorg_client h = Inr (Some \<lparr>br_header_hash = ucast h + 100,
      br_prev_hash = ucast (h - 1) + 100, br_timestamp = Some (ucast h)\<rparr>)" for h
    by (simp add: reorg_client_def chain_client_def)
  then have tip: "cl_block_record reorg_client 21 = Inr (Some ?rec)" by simp
  have seen: "reorg_seen reorg_client 21 ?rec (ls_recent_peaks reorg_listener) = Inr (Some 20)"
    by (simp add: reorg_seen_def reorg_listener_def needs_hash_at_def last_opt_def saturating_add_def block
        reorg_rollback_from_def word_less_nat_alt)
  obtain db' where synced: "sync_xchandles 3 fixture_sdk reorg_registry_sdk reorg_client 1 reorg_db =
      Some (Inr (example_registry example_tip_coin), db')"
    using reorg_example_synced by (auto simp: sync_xchandles_def)
  define st1 where "st1 = (roll_back_listener 20 reorg_listener)
    \<lparr>ls_db := db', ls_registries := [example_registry example_tip_coin]\<rparr>"
  have rolled: "ls_db (roll_back_listener 20 reorg_listener) = reorg_db"
    "ls_registries (roll_back_listener 20 reorg_listener) = [example_registry example_tip_coin]"
    by (simp_all add: roll_back_listener_def reorg_listener_def Let_def listen_start_def)
  have handled: "handle_tip 3 fixture_sdk reorg_registry_sdk reorg_client [1] (Some 21) 0 reorg_listener =
      Some (Inr (Some ?rec, 21), st1)"
    using synced
    by (simp add: handle_tip_def tip peak_timestamp_def handle_reorg_eq seen run_db_def st1_def rolled)
  have processed: "process_spends 3 fixture_sdk reorg_registry_sdk reorg_client st1 = Some (Inr (), st1)"
    by (simp add: process_spends_def required_def process_spent_registry_records_def checked_records_def st1_def)
  have db: "ls_db reorg_listener = reorg_db" and registries: "length (ls_registries reorg_listener) = length [1 :: bytes32]"
    by (simp_all add: reorg_listener_def listen_start_def Let_def)
  have index: "ls_indexer st1 = rollback 20 (ls_indexer reorg_listener)"
    and walked: "\<exists>walks. walked_all 3 fixture_sdk reorg_registry_sdk reorg_client [1] (ls_db reorg_listener) walks (ls_db st1) \<and>
      ls_registries st1 = map xr_registry walks"
    using reorg_drops_registry_spends [OF tip seen handled processed _ _ registries, where records = "[reorg_tip_record]"]
    by simp_all
  from walked reorg_example_synced have "ls_registries st1 = [example_registry example_tip_coin]"
    by (auto simp: db)
  with handled processed index reorg_example_synced show ?thesis by (auto simp: db)
qed

section \<open>Spent registries\<close>

lemma update_new: "k \<notin> fst ` set m \<Longrightarrow> hm_insert k v m = m @ [(k, v)]"
  by (induction m) auto

lemma records_by_coin_id_eq:
  assumes "ids = map (\<lambda>rec. sdk_coin_id sdk (cr_coin rec)) records"
  shows "if distinct ids \<and> set ids \<inter> set (hm_keys m) = {}
    then records_by_coin_id sdk m records = Inr (m @ zip ids records)
    else \<exists>msg. records_by_coin_id sdk m records = Inl (Custom msg)"
  using assms
proof (induction records arbitrary: m ids)
  case (Cons rec records)
  let ?i = "sdk_coin_id sdk (cr_coin rec)" and ?ids = "map (\<lambda>rec. sdk_coin_id sdk (cr_coin rec)) records"
  show ?case
  proof (cases "hm_get m ?i")
    case None
    then have new: "?i \<notin> fst ` set m" by (simp add: map_of_eq_None_iff)
    have "records_by_coin_id sdk m (rec # records) = records_by_coin_id sdk (m @ [(?i, rec)]) records"
      by (simp add: None update_new [OF new])
    then show ?thesis
      using Cons.IH [OF refl, of "m @ [(?i, rec)]"] new Cons.prems by (auto split: if_splits)
  next
    case (Some r)
    then have "?i \<in> set (hm_keys m)" by (force dest: map_of_SomeD)
    with Some Cons.prems show ?thesis by auto
  qed
qed simp

lemma check_registry_coins_eq:
  "if (\<forall>r \<in> set registries. sdk_coin_id sdk (rg_coin r) \<in> set (hm_keys m))
   then check_registry_coins sdk m registries = Inr ()
   else \<exists>msg. check_registry_coins sdk m registries = Inl (Custom msg)"
proof (induction registries)
  case (Cons r registries)
  then show ?case
    unfolding list.set ball_simps check_registry_coins.simps Let_def hm_keys_iff by (auto split: if_splits)
qed simp

text \<open>
  The answer of the node is accepted exactly when, of registries with distinct coins, it names each coin
  once and no other.
\<close>

lemma checked_records_eq:
  assumes "distinct (map (\<lambda>r. sdk_coin_id sdk (rg_coin r)) registries)"
  shows "if mset (map (\<lambda>rec. sdk_coin_id sdk (cr_coin rec)) records) = mset (map (\<lambda>r. sdk_coin_id sdk (rg_coin r)) registries)
    then checked_records sdk registries records =
      Inr (zip (map (\<lambda>rec. sdk_coin_id sdk (cr_coin rec)) records) records)
    else \<exists>msg. checked_records sdk registries records = Inl (Custom msg)"
proof -
  let ?ids = "map (\<lambda>rec. sdk_coin_id sdk (cr_coin rec)) records"
    and ?coins = "map (\<lambda>r. sdk_coin_id sdk (rg_coin r)) registries"
  have "mset ?ids = mset ?coins \<longleftrightarrow> distinct ?ids \<and> set ?coins \<subseteq> set ?ids \<and> length records = length registries"
  proof
    assume eq: "mset ?ids = mset ?coins"
    then show "distinct ?ids \<and> set ?coins \<subseteq> set ?ids \<and> length records = length registries"
      using assms mset_eq_imp_distinct_iff [OF eq] mset_eq_setD [OF eq] mset_eq_length [OF eq] by simp
  next
    assume r: "distinct ?ids \<and> set ?coins \<subseteq> set ?ids \<and> length records = length registries"
    then have "card (set ?ids) = card (set ?coins)"
      using assms by (metis distinct_card length_map)
    with r have "set ?ids = set ?coins" by (metis card_subset_eq finite_set)
    with r assms show "mset ?ids = mset ?coins" using set_eq_iff_mset_eq_distinct by blast
  qed
  then show ?thesis
    using records_by_coin_id_eq [OF refl, of sdk records "[]"]
      check_registry_coins_eq [of registries sdk "zip ?ids records"]
    by (auto simp: checked_records_def image_subset_iff split: if_splits)
qed

lemma process_registries_ends:
  assumes "\<forall>l st. \<exists>r st'. source l st = Some (r, st') \<and> ls_registries st' = ls_registries st"
    and "distinct is" and "\<forall>i \<in> set is. i < length (ls_registries st)"
    and "distinct (map (\<lambda>i. sdk_coin_id sdk (rg_coin (ls_registries st ! i))) is)"
    and "\<forall>i \<in> set is. sdk_coin_id sdk (rg_coin (ls_registries st ! i)) \<in> set (hm_keys m)"
  shows "process_registries sdk xs source m is st \<noteq> None"
  using assms(2-)
proof (induction "is" arbitrary: m st)
  case (Cons i "is")
  let ?coin = "sdk_coin_id sdk (rg_coin (ls_registries st ! i))"
  obtain rec where rec: "hm_get m ?coin = Some rec"
    using Cons.prems(4) by (metis hm_keys_iff list.set_intros(1) not_None_eq)
  have keys: "\<forall>j \<in> set is. sdk_coin_id sdk (rg_coin (ls_registries st ! j)) \<in> set (hm_keys (hm_remove ?coin m))"
    using Cons.prems(3,4) by (auto simp: AList.delete_eq image_iff) force
  show ?case
  proof (cases "cr_spent rec")
    case False
    then show ?thesis using Cons.IH [OF _ _ _ keys] Cons.prems by (simp add: Let_def rec)
  next
    case True
    let ?l = "xs_launcher_id xs (rg_constants (ls_registries st ! i))"
    obtain r st1 where src: "source ?l st = Some (r, st1)" "ls_registries st1 = ls_registries st"
      using assms(1) by blast
    show ?thesis
    proof (cases r)
      case (Inr synced)
      define st2 where "st2 = (on_indexer (apply_batch sdk ?l (sb_transitions synced)) st1)
        \<lparr>ls_registries := (ls_registries st)[i := sb_registry synced]\<rparr>"
      have same: "ls_registries st2 ! j = ls_registries st ! j" if "j \<in> set is" for j
        using that Cons.prems(1) by (simp add: st2_def nth_list_update_neq) (metis nth_list_update_neq)
      have "process_registries sdk xs source (hm_remove ?coin m) is st2 \<noteq> None"
        using Cons.prems same keys by (intro Cons.IH) (simp_all add: st2_def cong: map_cong)
      then show ?thesis using True Inr src by (simp add: Let_def rec st2_def)
    qed (simp add: Let_def rec True src)
  qed
qed simp

text \<open>
  C15. Registry spends are only looked at under a consistent answer: when the registries' coins are distinct
  and a synchronization always ends and leaves the list of registries alone, handling the coin records
  never panics (every \<open>remove\<close> finds its record); and an answer that does not name each registry coin
  exactly once is refused with an error that leaves indexer, database and registries as they were.
\<close>

theorem registry_records_validated:
  assumes "distinct (map (\<lambda>r. sdk_coin_id sdk (rg_coin r)) (ls_registries st))"
    and "\<forall>l st. \<exists>r st'. source l st = Some (r, st') \<and> ls_registries st' = ls_registries st"
  shows "if mset (map (\<lambda>rec. sdk_coin_id sdk (cr_coin rec)) records) =
      mset (map (\<lambda>r. sdk_coin_id sdk (rg_coin r)) (ls_registries st))
    then process_spent_registry_records sdk xs source records st =
        process_registries sdk xs source (zip (map (\<lambda>rec. sdk_coin_id sdk (cr_coin rec)) records) records)
          [0..<length (ls_registries st)] st \<and>
      process_spent_registry_records sdk xs source records st \<noteq> None
    else \<exists>msg. process_spent_registry_records sdk xs source records st = Some (Inl (Custom msg), st)"
proof (cases "mset (map (\<lambda>rec. sdk_coin_id sdk (cr_coin rec)) records) =
      mset (map (\<lambda>r. sdk_coin_id sdk (rg_coin r)) (ls_registries st))")
  case True
  let ?m = "zip (map (\<lambda>rec. sdk_coin_id sdk (cr_coin rec)) records) records"
  have keys: "set (hm_keys ?m) = (\<lambda>r. sdk_coin_id sdk (rg_coin r)) ` set (ls_registries st)"
    using mset_eq_setD [OF True] by simp
  have "map (\<lambda>i. sdk_coin_id sdk (rg_coin (ls_registries st ! i))) [0..<length (ls_registries st)] =
      map (\<lambda>r. sdk_coin_id sdk (rg_coin r)) (ls_registries st)"
    by (intro nth_equalityI) simp_all
  then have "process_registries sdk xs source ?m [0..<length (ls_registries st)] st \<noteq> None"
    using assms by (intro process_registries_ends) (simp_all only: keys, auto)
  then show ?thesis
    using True checked_records_eq [OF assms(1), of records] by (simp add: process_spent_registry_records_def)
next
  case False
  then show ?thesis
    using checked_records_eq [OF assms(1), of records] by (auto simp: process_spent_registry_records_def)
qed

lemma registry_records_validated_witness:
  "\<exists>msg. process_spent_registry_records fixture_sdk example_registry_sdk
     (\<lambda>l st. Some (Inr \<lparr>sb_registry = example_registry example_tip_coin, sb_transitions = []\<rparr>, st))
     [reorg_tip_record, reorg_tip_record] reorg_listener = Some (Inl (Custom msg), reorg_listener)"
proof -
  have "ls_registries reorg_listener = [example_registry example_tip_coin]"
    by (simp add: reorg_listener_def)
  then show ?thesis
    using registry_records_validated [where sdk = fixture_sdk and st = reorg_listener
      and source = "\<lambda>l st. Some (Inr \<lparr>sb_registry = example_registry example_tip_coin, sb_transitions = []\<rparr>, st)"
      and records = "[reorg_tip_record, reorg_tip_record]" and xs = example_registry_sdk]
  by simp
qed

end
