(* ===== verification/PremineTiming.thy ===== *)
theory PremineTiming
  imports CliUtils PriceSchedule
begin

text \<open>
  \<open>xchandles/premine_timing.rs\<close>: from the expiration a premined handle shall have, the time it is bought
  at and for how many registration periods. The calendar of \<open>chrono\<close> is a parameter.
\<close>

text \<open>
  \<open>Utc.timestamp_opt(secs, 0).single()\<close> as year, month and day; the year and month of that time less one
  month; and the timestamp of midnight on the first of a month.
\<close>

record calendar =
  cal_date :: "u64 \<Rightarrow> (int \<times> nat \<times> nat) option"
  cal_previous_month :: "u64 \<Rightarrow> int \<times> nat"
  cal_first :: "int \<Rightarrow> nat \<Rightarrow> u64 option"

definition buy_time_past_reference :: "calendar \<Rightarrow> u64 \<Rightarrow> u64 outcome" where
  "buy_time_past_reference cal now_secs =
     (case cal_date cal now_secs of
        None \<Rightarrow> Panicked
      | Some (year, month, day) \<Rightarrow>
          (let (y, m) = if day = 1 then cal_previous_month cal now_secs else (year, month)
           in case cal_first cal y m of
                None \<Rightarrow> Panicked
              | Some ts \<Rightarrow> Returned ts))"

definition show_u64 :: "u64 \<Rightarrow> string" where
  "show_u64 n = show_nat (unat n)"

definition assert_intended_expiration :: "u64 \<Rightarrow> u64 \<Rightarrow> u64 \<Rightarrow> u64 \<Rightarrow> cli_error + unit" where
  "assert_intended_expiration buy_time n csv_expiration registration_period =
     try_result
       (ok_or (checked_mul n registration_period)
          (Custom (''registration-period span overflow for n='' @ show_u64 n @ '' period='' @
             show_u64 registration_period))) (\<lambda>span.
     try_result (ok_or (checked_add buy_time span) (Custom ''buy_time + n*period overflow'')) (\<lambda>reconstituted.
       if reconstituted \<noteq> csv_expiration
       then Inl (Custom (''buy_time invariant failed: '' @ show_u64 buy_time @ '' + '' @ show_u64 n @ ''*'' @
              show_u64 registration_period @ '' = '' @ show_u64 reconstituted @ '', expected '' @
              show_u64 csv_expiration))
       else Inr ()))"

text \<open>The loop over \<open>n\<close>. It ends because \<open>n\<close> grows and cannot pass the largest 64-bit number.\<close>

function premine_from :: "u64 \<Rightarrow> u64 \<Rightarrow> u64 \<Rightarrow> cli_error + u64 \<times> u64" where
  "premine_from reference expiration n =
     (case checked_mul n REGISTRATION_PERIOD of
        None \<Rightarrow> Inl (Custom (''registration-period span overflow for n='' @ show_u64 n @ '' expiration='' @
                  show_u64 expiration))
      | Some span \<Rightarrow>
          (case checked_sub expiration span of
             None \<Rightarrow> Inl (Custom (''expiration '' @ show_u64 expiration @
                       '' cannot yield buy_time before reference '' @ show_u64 reference))
           | Some buy_time \<Rightarrow>
               if buy_time < reference
               then try_result (assert_intended_expiration buy_time n expiration REGISTRATION_PERIOD)
                      (\<lambda>_. Inr (buy_time, n))
               else (case checked_add n 1 of
                       None \<Rightarrow> Inl (Custom (''n overflow while computing buy_time for expiration '' @
                                 show_u64 expiration))
                     | Some n' \<Rightarrow> premine_from reference expiration n')))"
  by pat_completeness auto
termination
  by (relation "measure (\<lambda>(_, _, n). 2 ^ 64 - unat n)")
    (use unsigned_less in \<open>auto simp: checked_add_def unat_word_ariths(1) split: if_splits\<close>)

declare premine_from.simps [simp del]

definition premine_buy_time :: "calendar \<Rightarrow> u64 \<Rightarrow> u64 \<Rightarrow> (cli_error + u64 \<times> u64) outcome" where
  "premine_buy_time cal expiration now_secs =
     (case buy_time_past_reference cal now_secs of
        Panicked \<Rightarrow> Panicked
      | Returned reference \<Rightarrow>
          Returned
            (if expiration < REGISTRATION_PERIOD
             then Inl (Custom (''expiration '' @ show_u64 expiration @ '' is below one registration period''))
             else premine_from reference expiration 1))"

text \<open>\<open>{e}\<close> of the one kind of error \<open>assert_intended_expiration\<close> returns, and the quote around a handle.\<close>

definition custom_error_text :: "cli_error \<Rightarrow> string" where
  "custom_error_text e = (case e of Custom m \<Rightarrow> ''custom error: '' @ m | _ \<Rightarrow> [])"

definition quote :: string where
  "quote = [CHR 0x27]"

fun assert_batch_csv_expirations ::
  "calendar \<Rightarrow> (string \<times> u64) list \<Rightarrow> u64 \<Rightarrow> u64 \<Rightarrow> (cli_error + (u64 \<times> u64) list) outcome"
where
  "assert_batch_csv_expirations cal [] now_secs registration_period = Returned (Inr [])"
| "assert_batch_csv_expirations cal ((handle, csv_expiration) # rows) now_secs registration_period =
     (case premine_buy_time cal csv_expiration now_secs of
        Panicked \<Rightarrow> Panicked
      | Returned (Inl e) \<Rightarrow> Returned (Inl e)
      | Returned (Inr (buy_time, n)) \<Rightarrow>
          (case assert_intended_expiration buy_time n csv_expiration registration_period of
             Inl e \<Rightarrow> Returned (Inl (Custom (''handle '' @ quote @ handle @ quote @
                   '' expiration assert failed before broadcast: '' @ custom_error_text e)))
           | Inr _ \<Rightarrow>
               (case assert_batch_csv_expirations cal rows now_secs registration_period of
                  Panicked \<Rightarrow> Panicked
                | Returned r \<Rightarrow> Returned (try_result r (\<lambda>timings. Inr ((buy_time, n) # timings))))))"

section \<open>The lowest number of periods\<close>

lemma period [simp]: "unat REGISTRATION_PERIOD = 31557600"
  by (simp add: REGISTRATION_PERIOD_def)

lemma unat_u64_less: "unat (w :: u64) < 18446744073709551616"
  using unsigned_less [of w] by simp

lemma intended_holds:
  assumes "checked_mul n period = Some span" and "checked_sub expiration span = Some buy_time"
  shows "assert_intended_expiration buy_time n expiration period = Inr ()"
proof -
  from assms(2) have "unat buy_time + unat span = unat expiration"
    by (auto simp: checked_sub_Some word_le_nat_alt)
  then have "checked_add buy_time span = Some expiration"
    using unsigned_less [of expiration] by (auto simp: checked_add_def word_unat_eq_iff unat_plus_no_overflow)
  with assms(1) show ?thesis by (simp add: assert_intended_expiration_def)
qed

text \<open>The periods that put the purchase strictly before the reference.\<close>

definition periods_ok :: "u64 \<Rightarrow> u64 \<Rightarrow> nat \<Rightarrow> bool" where
  "periods_ok reference expiration m \<longleftrightarrow>
     1 \<le> m \<and> m * 31557600 \<le> unat expiration \<and> unat expiration - m * 31557600 < unat reference"

lemma premine_from_exact:
  assumes "1 \<le> unat n"
  shows "case premine_from reference expiration n of
      Inl e \<Rightarrow> \<forall>m \<ge> unat n. \<not> periods_ok reference expiration m
    | Inr (buy_time, k) \<Rightarrow> unat n \<le> unat k \<and> periods_ok reference expiration (unat k) \<and>
        unat buy_time + unat k * 31557600 = unat expiration \<and>
        (\<forall>m. unat n \<le> m \<and> m < unat k \<longrightarrow> \<not> periods_ok reference expiration m)"
  using assms
proof (induction reference expiration n rule: premine_from.induct)
  case (1 reference expiration n)
  show ?case
  proof (cases "checked_mul n REGISTRATION_PERIOD")
    case None
    then have "2 ^ 64 \<le> unat n * 31557600" by (simp add: checked_mul_def split: if_splits)
    then have "unat expiration < m * 31557600" if "unat n \<le> m" for m
      using that unat_u64_less [of expiration] mult_le_mono1 [OF that, of 31557600] by simp
    then have "\<not> periods_ok reference expiration m" if "unat n \<le> m" for m
      using that by (fastforce simp: periods_ok_def)
    with None show ?thesis by (subst premine_from.simps) simp
  next
    case (Some span)
    then have span: "unat span = unat n * 31557600" by (auto simp: checked_mul_Some)
    show ?thesis
    proof (cases "checked_sub expiration span")
      case None
      then have "unat expiration < unat n * 31557600" by (simp add: checked_sub_def span word_le_nat_alt split: if_splits)
      then have "\<not> periods_ok reference expiration m" if "unat n \<le> m" for m
        using mult_le_mono1 [OF that, of 31557600] by (simp add: periods_ok_def)
      with None Some show ?thesis by (subst premine_from.simps) simp
    next
      case sub: (Some buy_time)
      then have buy: "unat buy_time = unat expiration - unat n * 31557600" "unat n * 31557600 \<le> unat expiration"
        by (auto simp: checked_sub_Some span word_le_nat_alt)
      show ?thesis
      proof (cases "buy_time < reference")
        case True
        then have "premine_from reference expiration n = Inr (buy_time, n)"
          by (subst premine_from.simps) (simp add: Some sub intended_holds [OF Some sub])
        with True buy "1.prems" show ?thesis by (simp add: periods_ok_def word_less_nat_alt)
      next
        case False
        then have not: "\<not> periods_ok reference expiration (unat n)"
          using buy by (simp add: periods_ok_def word_less_nat_alt)
        have "unat n < 2 ^ 63" using buy(2) unat_u64_less [of expiration] by simp
        then obtain n' where n': "checked_add n 1 = Some n'" "unat n' = unat n + 1"
          by (simp add: checked_add_def unat_plus_no_overflow)
        have eq: "premine_from reference expiration n = premine_from reference expiration n'"
          using False by (subst premine_from.simps) (simp add: Some sub n')
        have more: "m = unat n \<or> unat n' \<le> m" if "unat n \<le> m" for m
          using that n'(2) by linarith
        have "1 \<le> unat n'" using n'(2) by simp
        from "1.IH" [OF Some sub False n'(1) this] more not n'(2) show ?thesis
          unfolding eq by (auto split: sum.splits)
      qed
    qed
  qed
qed

text \<open>
  C36. The purchase time is the latest one allowed: for an expiration of at least one period, whenever the
  calendar gives a reference, the loop ends and returns the least number of periods that puts the purchase
  strictly before it, with the purchase that many periods before the expiration; it fails exactly when
  no number of periods does.
\<close>

theorem premine_lowest_periods:
  assumes "buy_time_past_reference cal now_secs = Returned reference" and "REGISTRATION_PERIOD \<le> expiration"
  shows "\<exists>r. premine_buy_time cal expiration now_secs = Returned r \<and>
    (case r of
       Inl e \<Rightarrow> unat reference \<le> unat expiration mod 31557600
     | Inr (buy_time, n) \<Rightarrow>
         unat buy_time + unat n * 31557600 = unat expiration \<and>
         periods_ok reference expiration (unat n) \<and>
         (\<forall>m < unat n. \<not> periods_ok reference expiration m))"
proof -
  have result: "premine_buy_time cal expiration now_secs = Returned (premine_from reference expiration 1)"
    using assms by (simp add: premine_buy_time_def word_le_nat_alt word_less_nat_alt)
  have "unat reference \<le> unat expiration mod 31557600"
    if none: "\<forall>m \<ge> 1. \<not> periods_ok reference expiration m"
  proof -
    have "1 \<le> unat expiration div 31557600"
      using assms(2) by (simp add: word_le_nat_alt)
    with none have "\<not> periods_ok reference expiration (unat expiration div 31557600)" by blast
    then show ?thesis
      using \<open>1 \<le> unat expiration div 31557600\<close>
      by (simp add: periods_ok_def minus_div_mult_eq_mod)
  qed
  moreover have "\<not> periods_ok reference expiration 0" by (simp add: periods_ok_def)
  ultimately show ?thesis
    unfolding result using premine_from_exact [of 1 reference expiration]
    by (auto split: sum.splits) (metis Suc_leI neq0_conv)
qed

text \<open>The Gregorian calendar in UTC, for the witness.\<close>

definition date_of_month :: "nat \<Rightarrow> nat \<Rightarrow> nat \<Rightarrow> int \<times> nat \<times> nat" where
  "date_of_month year doy mp =
     (if mp < 10 then (int year, mp + 3, doy - (153 * mp + 2) div 5 + 1)
      else (int year + 1, mp - 9, doy - (153 * mp + 2) div 5 + 1))"

definition date_of_day :: "nat \<Rightarrow> nat \<Rightarrow> int \<times> nat \<times> nat" where
  "date_of_day year doy = date_of_month year doy ((5 * doy + 2) div 153)"

definition date_of_year :: "nat \<Rightarrow> nat \<Rightarrow> nat \<Rightarrow> int \<times> nat \<times> nat" where
  "date_of_year era doe yoe = date_of_day (yoe + era * 400) (doe - (365 * yoe + yoe div 4 - yoe div 100))"

definition date_of_era :: "nat \<Rightarrow> nat \<Rightarrow> int \<times> nat \<times> nat" where
  "date_of_era era doe =
     date_of_year era doe ((doe - doe div 1460 + doe div 36524 - doe div 146096) div 365)"

definition date_of_days :: "nat \<Rightarrow> int \<times> nat \<times> nat" where
  "date_of_days z = date_of_era (z div 146097) (z mod 146097)"

definition gregorian_date :: "nat \<Rightarrow> int \<times> nat \<times> nat" where
  "gregorian_date secs = date_of_days (secs div 86400 + 719468)"

definition days_before_month :: "nat \<Rightarrow> nat \<Rightarrow> nat \<Rightarrow> nat" where
  "days_before_month era yoe mp =
     era * 146097 + (yoe * 365 + yoe div 4 - yoe div 100 + (153 * mp + 2) div 5)"

definition gregorian_first :: "int \<Rightarrow> nat \<Rightarrow> nat" where
  "gregorian_first year m =
     (if m \<le> 2
      then days_before_month ((nat year - 1) div 400) ((nat year - 1) mod 400) (m + 9) - 719468
      else days_before_month (nat year div 400) (nat year mod 400) (m - 3) - 719468) * 86400"

lemmas gregorian_defs = gregorian_date_def date_of_days_def date_of_era_def date_of_year_def date_of_day_def
  date_of_month_def gregorian_first_def days_before_month_def

definition gregorian :: calendar where
  "gregorian =
     \<lparr>cal_date = (\<lambda>s. Some (gregorian_date (unat s))),
      cal_previous_month = (\<lambda>s. case gregorian_date (unat s) of
         (y, m, d) \<Rightarrow> if m = 1 then (y - 1, 12) else (y, m - 1)),
      cal_first = (\<lambda>y m. Some (word_of_nat (gregorian_first y m)))\<rparr>"

text \<open>2 August 2026 refers to 1 August, and 1 August to 1 July.\<close>

lemma gregorian_dates:
  "gregorian_date 1785629000 = (2026, 8, 2)" "gregorian_date 1785542400 = (2026, 8, 1)"
  "gregorian_first 2026 8 = 1785542400" "gregorian_first 2026 7 = 1782864000"
  by (simp_all add: gregorian_defs)

lemma gregorian_reference:
  "buy_time_past_reference gregorian 1785629000 = Returned 1785542400"
  "buy_time_past_reference gregorian 1785542400 = Returned 1782864000"
  by (simp_all add: buy_time_past_reference_def gregorian_def gregorian_dates)

lemma premine_lowest_periods_witness:
  "\<exists>buy_time n. premine_buy_time gregorian 1818752400 1785629000 = Returned (Inr (buy_time, n)) \<and>
     unat n = 2 \<and> unat buy_time = 1755637200"
proof -
  have "REGISTRATION_PERIOD \<le> 1818752400" by (simp add: REGISTRATION_PERIOD_def word_le_nat_alt)
  from premine_lowest_periods [OF gregorian_reference(1) this] obtain buy_time n where
    result: "premine_buy_time gregorian 1818752400 1785629000 = Returned (Inr (buy_time, n))"
    and sum: "unat buy_time + unat n * 31557600 = 1818752400"
    and ok: "periods_ok 1785542400 1818752400 (unat n)"
    and least: "\<forall>m < unat n. \<not> periods_ok 1785542400 1818752400 m"
    by (auto split: sum.splits) (metis (no_types, lifting) old.sum.exhaust prod.exhaust)
  have "periods_ok 1785542400 1818752400 2" and "\<not> periods_ok 1785542400 1818752400 1"
    by (simp_all add: periods_ok_def)
  moreover have "1 \<le> unat n" using ok by (simp add: periods_ok_def)
  ultimately have "unat n = 2"
    using ok least by (cases "unat n = 1"; cases "2 < unat n") auto
  with result sum show ?thesis by auto
qed

text \<open>A batch passes only when every row's purchase time and periods give back its expiration.\<close>

lemma batch_fail_closed:
  "case assert_batch_csv_expirations cal rows now_secs registration_period of
     Returned (Inr timings) \<Rightarrow>
       list_all2 (\<lambda>(handle, e) (buy_time, n).
         premine_buy_time cal e now_secs = Returned (Inr (buy_time, n)) \<and>
         assert_intended_expiration buy_time n e registration_period = Inr ()) rows timings
   | _ \<Rightarrow> True"
proof (induction rows)
  case (Cons row rows)
  obtain handle e where "row = (handle, e)" by (cases row)
  with Cons show ?case by (auto split: outcome.splits sum.splits)
qed simp

end
