(* ===== verification/CsvFiles.thy ===== *)
theory CsvFiles
  imports Database PriceSchedule "HOL-Library.Monad_Syntax"
begin

text \<open>
  \<open>csv.rs\<close> and the configured mainnet records of \<open>xchandles/mainnet_launch.rs\<close>: what the deserializers
  make of the cells of a row, and the loaders over the rows of a file. The \<open>csv\<close> crate is a parameter:
  a file is what opening it gives, a row is what reading it gives, the cells by column name; so are the
  address and number decoders. Strings are ASCII.
\<close>

type_synonym csv_row = "string \<Rightarrow> string option"
type_synonym csv_file = "cli_error + csv_row option list"

record 'k csv_sdk =
  cv_address_decode :: "string \<Rightarrow> (string \<times> bytes32) option"
  cv_u64 :: "string \<Rightarrow> u64 option"
  cv_u8 :: "string \<Rightarrow> u8 option"
  cv_pubkey_from_bytes :: "u8 list \<Rightarrow> 'k option"

section \<open>Cells\<close>

definition decode_bech32m :: "'k csv_sdk \<Rightarrow> string \<Rightarrow> bytes32 option" where
  "decode_bech32m cv s =
     do { (prefix, puzzle_hash) \<leftarrow> cv_address_decode cv s;
          if prefix \<noteq> ''xch'' \<and> prefix \<noteq> ''txch'' then None else Some puzzle_hash }"

definition decode_nft_id :: "'k csv_sdk \<Rightarrow> string \<Rightarrow> bytes32 option" where
  "decode_nft_id cv s =
     do { (prefix, puzzle_hash) \<leftarrow> cv_address_decode cv s;
          if prefix \<noteq> ''nft'' then None else Some puzzle_hash }"

text \<open>\<open>trim_matches\<close> drops the characters of a set from both sides, \<open>trim\<close> white space.\<close>

definition trim_matches :: "char set \<Rightarrow> string \<Rightarrow> string" where
  "trim_matches chars s = rev (dropWhile (\<lambda>c. c \<in> chars) (rev (dropWhile (\<lambda>c. c \<in> chars) s)))"

definition white_space :: "char set" where
  "white_space = {CHR 0x09, CHR 0x0A, CHR 0x0B, CHR 0x0C, CHR 0x0D, CHR '' ''}"

fun split_on :: "char \<Rightarrow> string \<Rightarrow> string list" where
  "split_on sep [] = [[]]"
| "split_on sep (c # cs) =
     (if c = sep then [] # split_on sep cs
      else (case split_on sep cs of [] \<Rightarrow> [[c]] | part # parts \<Rightarrow> (c # part) # parts))"

definition quotes :: "char set" where
  "quotes = {CHR 0x27, CHR 0x22}"

definition brackets :: "char set" where
  "brackets = {CHR ''['', CHR '']''}"

definition deserialize_string_array :: "string \<Rightarrow> string list" where
  "deserialize_string_array s =
     map (\<lambda>part. trim_matches quotes (trim_matches white_space part))
       (split_on (CHR '','') (trim_matches brackets s))"

definition csv_hex_bytes :: "('n, 'z) sdk_scheme \<Rightarrow> string \<Rightarrow> u8 list option" where
  "csv_hex_bytes sdk s = sdk_hex_decode sdk (remove_0x s)"

definition csv_hex_bytes32 :: "('n, 'z) sdk_scheme \<Rightarrow> string \<Rightarrow> bytes32 option" where
  "csv_hex_bytes32 sdk s =
     do { bytes \<leftarrow> csv_hex_bytes sdk s;
          if length bytes = 32 then Some (bytes32_new bytes) else None }"

definition csv_hex_pubkey :: "('n, 'z) sdk_scheme \<Rightarrow> 'k csv_sdk \<Rightarrow> string \<Rightarrow> 'k option" where
  "csv_hex_pubkey sdk cv s =
     do { bytes \<leftarrow> csv_hex_bytes sdk s;
          if length bytes = 48 then cv_pubkey_from_bytes cv bytes else None }"

section \<open>Files\<close>

text \<open>Every loader stops at the first row it cannot read.\<close>

definition load_csv :: "(csv_row \<Rightarrow> 'r option) \<Rightarrow> csv_file \<Rightarrow> cli_error + 'r list" where
  "load_csv parse file =
     try_result file (collect_results (\<lambda>row. ok_or (Option.bind row parse) Csv))"

record catalog_premine_record =
  cp_asset_id :: bytes32
  cp_tail :: "u8 list"
  cp_owner :: bytes32
  cp_code :: string
  cp_name :: string
  cp_precision :: u8
  cp_image_uris :: "string list"
  cp_image_hash :: bytes32

definition load_catalog_premine_csv ::
  "('n, 'z) sdk_scheme \<Rightarrow> 'k csv_sdk \<Rightarrow> csv_file \<Rightarrow> cli_error + catalog_premine_record list"
where
  "load_catalog_premine_csv sdk cv = load_csv (\<lambda>row.
     do { asset_id \<leftarrow> row ''asset_id'' \<bind> csv_hex_bytes32 sdk;
          tail \<leftarrow> row ''tail'' \<bind> csv_hex_bytes sdk;
          owner \<leftarrow> row ''owner'' \<bind> decode_bech32m cv;
          code \<leftarrow> row ''code'';
          name \<leftarrow> row ''name'';
          precision \<leftarrow> row ''precision'' \<bind> cv_u8 cv;
          image_uris \<leftarrow> row ''image_uris'';
          image_hash \<leftarrow> row ''image_hash'' \<bind> csv_hex_bytes32 sdk;
          Some \<lparr>cp_asset_id = asset_id, cp_tail = tail, cp_owner = owner, cp_code = code, cp_name = name,
            cp_precision = precision, cp_image_uris = deserialize_string_array image_uris,
            cp_image_hash = image_hash\<rparr> })"

text \<open>A later row of the same key replaces the alias.\<close>

definition get_alias_map ::
  "('n, 'z) sdk_scheme \<Rightarrow> 'k csv_sdk \<Rightarrow> csv_file \<Rightarrow> cli_error + ('k, string) hash_map"
where
  "get_alias_map sdk cv file =
     try_result (load_csv (\<lambda>row.
         do { pubkey \<leftarrow> row ''pubkey'' \<bind> csv_hex_pubkey sdk cv;
              alias \<leftarrow> row ''alias'';
              Some (pubkey, alias) }) file)
       (\<lambda>records. Inr (foldl (\<lambda>m (pubkey, alias). hm_insert pubkey alias m) [] records))"

record catalog_state_schedule_record =
  cs_timestamp :: u64
  cs_asset_id :: bytes32
  cs_registration_price :: u64

definition load_catalog_state_schedule_csv ::
  "('n, 'z) sdk_scheme \<Rightarrow> 'k csv_sdk \<Rightarrow> csv_file \<Rightarrow> cli_error + catalog_state_schedule_record list"
where
  "load_catalog_state_schedule_csv sdk cv = load_csv (\<lambda>row.
     do { timestamp \<leftarrow> row ''timestamp'' \<bind> cv_u64 cv;
          asset_id \<leftarrow> row ''asset_id'' \<bind> csv_hex_bytes32 sdk;
          registration_price \<leftarrow> row ''registration_price'' \<bind> cv_u64 cv;
          Some \<lparr>cs_timestamp = timestamp, cs_asset_id = asset_id,
            cs_registration_price = registration_price\<rparr> })"

record xchandles_state_schedule_record =
  xr_timestamp :: u64
  xr_asset_id :: bytes32
  xr_registration_price :: u64
  xr_registration_period :: u64

definition load_xchandles_state_schedule_csv ::
  "('n, 'z) sdk_scheme \<Rightarrow> 'k csv_sdk \<Rightarrow> csv_file \<Rightarrow> cli_error + xchandles_state_schedule_record list"
where
  "load_xchandles_state_schedule_csv sdk cv = load_csv (\<lambda>row.
     do { timestamp \<leftarrow> row ''timestamp'' \<bind> cv_u64 cv;
          asset_id \<leftarrow> row ''asset_id'' \<bind> csv_hex_bytes32 sdk;
          registration_price \<leftarrow> row ''registration_price'' \<bind> cv_u64 cv;
          registration_period \<leftarrow> row ''registration_period'' \<bind> cv_u64 cv;
          Some \<lparr>xr_timestamp = timestamp, xr_asset_id = asset_id, xr_registration_price = registration_price,
            xr_registration_period = registration_period\<rparr> })"

record xchandles_launch_record =
  lr_handle :: string
  lr_recipient :: bytes32
  lr_expiration :: u64
  lr_image_uris :: "string list"
  lr_image_hash :: bytes32
  lr_metadata_uris :: "string list"
  lr_metadata_hash :: bytes32
  lr_license_uris :: "string list"
  lr_license_hash :: bytes32

definition load_xchandles_launch_csv ::
  "('n, 'z) sdk_scheme \<Rightarrow> 'k csv_sdk \<Rightarrow> csv_file \<Rightarrow> cli_error + xchandles_launch_record list"
where
  "load_xchandles_launch_csv sdk cv = load_csv (\<lambda>row.
     do { handle \<leftarrow> row ''handle'';
          recipient \<leftarrow> row ''recipient'' \<bind> decode_bech32m cv;
          expiration \<leftarrow> row ''expiration'' \<bind> cv_u64 cv;
          image_uris \<leftarrow> row ''image_uris'';
          image_hash \<leftarrow> row ''image_hash'' \<bind> csv_hex_bytes32 sdk;
          metadata_uris \<leftarrow> row ''metadata_uris'';
          metadata_hash \<leftarrow> row ''metadata_hash'' \<bind> csv_hex_bytes32 sdk;
          license_uris \<leftarrow> row ''license_uris'';
          license_hash \<leftarrow> row ''license_hash'' \<bind> csv_hex_bytes32 sdk;
          Some \<lparr>lr_handle = handle, lr_recipient = recipient, lr_expiration = expiration,
            lr_image_uris = deserialize_string_array image_uris, lr_image_hash = image_hash,
            lr_metadata_uris = deserialize_string_array metadata_uris, lr_metadata_hash = metadata_hash,
            lr_license_uris = deserialize_string_array license_uris, lr_license_hash = license_hash\<rparr> })"

record datastore_nft_record =
  dn_nft_id :: bytes32
  dn_weight :: u64

definition load_datastore_nft_csv :: "'k csv_sdk \<Rightarrow> csv_file \<Rightarrow> cli_error + datastore_nft_record list" where
  "load_datastore_nft_csv cv = load_csv (\<lambda>row.
     do { nft_id \<leftarrow> row ''nft_id'' \<bind> decode_nft_id cv;
          weight \<leftarrow> row ''weight'' \<bind> cv_u64 cv;
          Some \<lparr>dn_nft_id = nft_id, dn_weight = weight\<rparr> })"

section \<open>The configured mainnet schedule\<close>

definition WUSDC_B_ASSET_ID :: bytes32 where
  "WUSDC_B_ASSET_ID = 0xfa4a180ac326e67ea289b869e3448256f6af05721f7cf934cb9901baa6b7a99d"

definition LAUNCH_INSTANT :: u64 where
  "LAUNCH_INSTANT = 1787216400"

definition mainnet_price_schedule_records :: "xchandles_state_schedule_record list" where
  "mainnet_price_schedule_records =
     map (\<lambda>(timestamp, factor, registration_price).
         \<lparr>xr_timestamp = timestamp, xr_asset_id = WUSDC_B_ASSET_ID,
          xr_registration_price = registration_price, xr_registration_period = REGISTRATION_PERIOD\<rparr>)
       PRICE_SCHEDULE"

definition schedule_records_match_configured :: "xchandles_state_schedule_record list \<Rightarrow> bool" where
  "schedule_records_match_configured records \<longleftrightarrow> records = mainnet_price_schedule_records"

text \<open>The generations the listener reads are the prices and times of the configured records.\<close>

lemma configured_generations:
  "map (\<lambda>r. \<lparr>activation_timestamp = xr_timestamp r, base_price = xr_registration_price r\<rparr>)
     mainnet_price_schedule_records = mainnet_generations"
  by (simp add: mainnet_price_schedule_records_def mainnet_generations_def comp_def case_prod_unfold)

section \<open>String arrays round-trip\<close>

lemma split_on_nonempty: "split_on sep s \<noteq> []"
  by (induction s) (auto split: list.splits)

lemma split_on_append: "sep \<notin> set a \<Longrightarrow> split_on sep (a @ sep # b) = a # split_on sep b"
  by (induction a) (auto split: list.splits)

lemma split_on_none: "sep \<notin> set a \<Longrightarrow> split_on sep a = [a]"
  by (induction a) auto

text \<open>\<open>parts.join(",")\<close>\<close>

fun join :: "string list \<Rightarrow> string" where
  "join [] = []"
| "join [part] = part"
| "join (part # parts) = part @ CHR '','' # join parts"

lemma split_join:
  "parts \<noteq> [] \<Longrightarrow> \<forall>part \<in> set parts. CHR '','' \<notin> set part \<Longrightarrow> split_on (CHR '','') (join parts) = parts"
  by (induction parts rule: join.induct) (auto simp: split_on_append split_on_none)

lemma trim_matches_id:
  assumes "s \<noteq> [] \<longrightarrow> hd s \<notin> chars \<and> last s \<notin> chars"
  shows "trim_matches chars s = s"
proof (cases "s = []")
  case False
  then have "dropWhile (\<lambda>c. c \<in> chars) s = s" using assms by (cases s) auto
  moreover have "dropWhile (\<lambda>c. c \<in> chars) (rev s) = rev s"
    using assms False by (cases "rev s") (auto simp: hd_rev [symmetric])
  ultimately show ?thesis by (simp add: trim_matches_def)
qed (simp add: trim_matches_def)

lemma trim_matches_around:
  assumes "a \<in> chars" and "b \<in> chars" and "s \<noteq> [] \<longrightarrow> hd s \<notin> chars \<and> last s \<notin> chars"
  shows "trim_matches chars (a # s @ [b]) = s"
proof -
  have "dropWhile (\<lambda>c. c \<in> chars) (a # s @ [b]) = (if s = [] then [] else s @ [b])"
    using assms by (cases s) auto
  moreover have "dropWhile (\<lambda>c. c \<in> chars) (rev (s @ [b])) = rev s" if "s \<noteq> []"
    using assms that by (cases "rev s") (auto simp: hd_rev [symmetric])
  ultimately show ?thesis by (auto simp: trim_matches_def)
qed

text \<open>\<open>'part'\<close>, as the enriched CSV files write it.\<close>

definition quoted :: "string \<Rightarrow> string" where
  "quoted part = CHR 0x27 # part @ [CHR 0x27]"

lemma unquoted:
  assumes "part \<noteq> [] \<longrightarrow> hd part \<notin> quotes \<and> last part \<notin> quotes"
  shows "trim_matches quotes (trim_matches white_space (quoted part)) = part"
proof -
  have "trim_matches white_space (quoted part) = quoted part"
    by (rule trim_matches_id) (simp add: quoted_def white_space_def)
  then show ?thesis
    using assms by (simp add: quoted_def trim_matches_around quotes_def)
qed

lemma hd_last_join:
  "parts \<noteq> [] \<Longrightarrow> hd (join (map quoted parts)) = CHR 0x27 \<and> last (join (map quoted parts)) = CHR 0x27 \<and>
     join (map quoted parts) \<noteq> []"
  by (induction parts rule: join.induct) (auto simp: quoted_def)

text \<open>
  A list of URIs survives the CSV file: a non-empty list of strings written as \<open>['a','b']\<close> is read back as
  it was, for all strings without commas and without quotes at their ends, empty ones included.
\<close>

theorem string_array_roundtrip:
  assumes "uris \<noteq> []"
    and "\<forall>uri \<in> set uris. CHR '','' \<notin> set uri \<and> (uri = [] \<or> hd uri \<notin> quotes \<and> last uri \<notin> quotes)"
  shows "deserialize_string_array (CHR ''['' # join (map quoted uris) @ [CHR '']'']) = uris"
proof -
  have "trim_matches brackets (CHR ''['' # join (map quoted uris) @ [CHR '']'']) = join (map quoted uris)"
    using hd_last_join [OF assms(1)] by (intro trim_matches_around) (simp_all add: brackets_def)
  moreover have "split_on (CHR '','') (join (map quoted uris)) = map quoted uris"
    using assms by (intro split_join) (auto simp: quoted_def)
  moreover have "map (\<lambda>part. trim_matches quotes (trim_matches white_space part)) (map quoted uris) = uris"
    unfolding map_map using assms(2) by (intro map_idI) (auto intro!: unquoted)
  ultimately show ?thesis by (simp add: deserialize_string_array_def)
qed

lemma string_array_roundtrip_witness:
  "deserialize_string_array (CHR ''['' # join (map quoted [''ab'', ''cd'']) @ [CHR '']'']) = [''ab'', ''cd'']"
  by (rule string_array_roundtrip) (simp_all add: quotes_def)

text \<open>The empty list does not survive: \<open>[]\<close> is read as one empty string.\<close>

lemma empty_array_reads_one: "deserialize_string_array ''[]'' = ['''']"
  by (simp add: deserialize_string_array_def trim_matches_def brackets_def)

end
