(* ===== verification/Datastore.thy ===== *)
theory Datastore
  imports CsvFiles Coinset
begin

text \<open>
  \<open>datastore/merkle.rs\<close>, \<open>datastore/sync.rs\<close> and \<open>reward_distributor/helpers.rs\<close>: the whitelist of NFTs as
  a Merkle tree, finding a datastore and locked assets on chain, and the custody key of the wallet. The
  SDK's hashes, trees and parsers, and the wallet, are parameters.
\<close>

section \<open>Parameters\<close>

record merkle_proof =
  mp_path :: nat
  mp_proof :: "bytes32 list"

text \<open>
  A proof's path is read bit by bit, so its width does not matter. \<open>ms_leaf\<close> is the tree hash of \<open>(nft_id, weight)\<close>, \<open>ms_tree\<close> is \<open>MerkleTree::new\<close>; \<open>ms_nft_address\<close> is the
  bech32m encoding of an NFT id.
\<close>

record 't merkle_sdk =
  ms_leaf :: "bytes32 \<Rightarrow> u64 \<Rightarrow> bytes32"
  ms_tree :: "bytes32 list \<Rightarrow> 't"
  ms_root :: "'t \<Rightarrow> bytes32"
  ms_tree_proof :: "'t \<Rightarrow> bytes32 \<Rightarrow> merkle_proof option"
  ms_sha256 :: "u8 list \<Rightarrow> bytes32"
  ms_nft_address :: "bytes32 \<Rightarrow> string option"

datatype delegated_puzzle = OraclePuzzle bytes32 u64 | OtherDelegatedPuzzle

record datastore =
  ds_coin :: coin
  ds_launcher_id :: bytes32
  ds_root_hash :: bytes32

type_synonym datastore_parser = "coin_spend \<Rightarrow> delegated_puzzle list \<Rightarrow> driver_error + datastore option"

section \<open>Whitelists\<close>

definition records_from_entries :: "(bytes32 \<times> u64) list \<Rightarrow> datastore_nft_record list" where
  "records_from_entries entries = map (\<lambda>(nft_id, weight). \<lparr>dn_nft_id = nft_id, dn_weight = weight\<rparr>) entries"

fun reject_duplicates_from ::
  "'t merkle_sdk \<Rightarrow> bytes32 set \<Rightarrow> datastore_nft_record list \<Rightarrow> cli_error + unit"
where
  "reject_duplicates_from ms seen [] = Inr ()"
| "reject_duplicates_from ms seen (rec # records) =
     (if dn_nft_id rec \<in> seen
      then try_result (ok_or (ms_nft_address ms (dn_nft_id rec)) Address)
             (\<lambda>nft_id. Inl (Custom (''Duplicate nft_id in CSV: '' @ nft_id)))
      else reject_duplicates_from ms (insert (dn_nft_id rec) seen) records)"

definition reject_duplicates :: "'t merkle_sdk \<Rightarrow> datastore_nft_record list \<Rightarrow> cli_error + unit" where
  "reject_duplicates ms records = reject_duplicates_from ms {} records"

definition load_and_dedupe_csv ::
  "'t merkle_sdk \<Rightarrow> 'k csv_sdk \<Rightarrow> csv_file \<Rightarrow> cli_error + datastore_nft_record list"
where
  "load_and_dedupe_csv ms cv file =
     try_result (load_datastore_nft_csv cv file) (\<lambda>records.
     try_result (reject_duplicates ms records) (\<lambda>_. Inr records))"

definition leaf_hash :: "'t merkle_sdk \<Rightarrow> datastore_nft_record \<Rightarrow> bytes32" where
  "leaf_hash ms rec = ms_leaf ms (dn_nft_id rec) (dn_weight rec)"

definition build_merkle_tree :: "'t merkle_sdk \<Rightarrow> datastore_nft_record list \<Rightarrow> cli_error + 't" where
  "build_merkle_tree ms records =
     try_result (reject_duplicates ms records) (\<lambda>_.
       Inr (ms_tree ms (map (leaf_hash ms) (sort_key dn_nft_id records))))"

definition build_root_hash :: "'t merkle_sdk \<Rightarrow> datastore_nft_record list \<Rightarrow> cli_error + bytes32" where
  "build_root_hash ms records = try_result (build_merkle_tree ms records) (\<lambda>tree. Inr (ms_root ms tree))"

definition merkle_sha256 :: "'t merkle_sdk \<Rightarrow> u8 list list \<Rightarrow> bytes32" where
  "merkle_sha256 ms parts = ms_sha256 ms (concat parts)"

fun climb :: "'t merkle_sdk \<Rightarrow> nat \<Rightarrow> bytes32 list \<Rightarrow> bytes32 \<Rightarrow> bytes32" where
  "climb ms path [] computed = computed"
| "climb ms path (sibling # proof) computed =
     climb ms (path div 2) proof
       (if even path then merkle_sha256 ms [[2], to_bytes computed, to_bytes sibling]
        else merkle_sha256 ms [[2], to_bytes sibling, to_bytes computed])"

definition verify_merkle_proof ::
  "'t merkle_sdk \<Rightarrow> bytes32 \<Rightarrow> merkle_proof \<Rightarrow> bytes32 \<Rightarrow> bool"
where
  "verify_merkle_proof ms leaf proof root \<longleftrightarrow>
     climb ms (mp_path proof) (mp_proof proof) (merkle_sha256 ms [[1], to_bytes leaf]) = root"

fun missing_record ::
  "'t merkle_sdk \<Rightarrow> bytes32 set \<Rightarrow> datastore_nft_record list \<Rightarrow> cli_error + unit"
where
  "missing_record ms new_ids [] = Inr ()"
| "missing_record ms new_ids (old # olds) =
     (if dn_nft_id old \<notin> new_ids
      then try_result (ok_or (ms_nft_address ms (dn_nft_id old)) Address) (\<lambda>nft_id.
             Inl (Custom (nft_id @
               '' should have its weight updated to 0 instead of being removed from the list'')))
      else missing_record ms new_ids olds)"

definition validate_update_csvs ::
  "'t merkle_sdk \<Rightarrow> datastore_nft_record list \<Rightarrow> datastore_nft_record list \<Rightarrow> cli_error + unit"
where
  "validate_update_csvs ms old_records new_records =
     try_result (reject_duplicates ms old_records) (\<lambda>_.
     try_result (reject_duplicates ms new_records) (\<lambda>_.
       missing_record ms (set (map dn_nft_id new_records)) old_records))"

definition load_csv_matching_root ::
  "('n, 'z) sdk_scheme \<Rightarrow> 't merkle_sdk \<Rightarrow> 'k csv_sdk \<Rightarrow> csv_file \<Rightarrow> bytes32
    \<Rightarrow> cli_error + datastore_nft_record list"
where
  "load_csv_matching_root sdk ms cv file expected_root =
     try_result (load_and_dedupe_csv ms cv file) (\<lambda>records.
     try_result (build_root_hash ms records) (\<lambda>root.
       if root \<noteq> expected_root
       then Inl (Custom (''CSV root '' @ hex32 sdk root @ '' does not match on-chain whitelist root '' @
              hex32 sdk expected_root @ '' - run datastore update first or use the correct CSV''))
       else Inr records))"

text \<open>The weight of an NFT with its proof.\<close>

definition merkle_proof_for_nft ::
  "('n, 'z) sdk_scheme \<Rightarrow> 't merkle_sdk \<Rightarrow> datastore_nft_record list \<Rightarrow> bytes32
    \<Rightarrow> cli_error + (u64 \<times> merkle_proof)"
where
  "merkle_proof_for_nft sdk ms records nft_launcher_id =
     try_result (ok_or (find (\<lambda>r. dn_nft_id r = nft_launcher_id) records)
         (Custom (''NFT '' @ unwrap_or (ms_nft_address ms nft_launcher_id) (hex32 sdk nft_launcher_id) @
            '' is not in the whitelist CSV''))) (\<lambda>rec.
     try_result (build_merkle_tree ms records) (\<lambda>tree.
     try_result (ok_or (ms_tree_proof ms tree (leaf_hash ms rec)) (Custom ''Could not build merkle proof'')) (\<lambda>proof.
       Inr (dn_weight rec, proof))))"

section \<open>Finding a datastore on chain\<close>

definition oracle_delegated_puzzles :: "delegated_puzzle list" where
  "oracle_delegated_puzzles = [OraclePuzzle 0 0]"

text \<open>The first spend of the first pending bundle that parses to a datastore with this launcher and the record's coin.\<close>

definition mempool_candidate ::
  "('n, 'z) sdk_scheme \<Rightarrow> datastore_parser \<Rightarrow> delegated_puzzle list \<Rightarrow> bytes32 \<Rightarrow> coin \<Rightarrow> coin_spend list list
    \<Rightarrow> datastore option"
where
  "mempool_candidate sdk from_spend delegated launcher_id current items =
     (case items of
        [] \<Rightarrow> None
      | bundle # _ \<Rightarrow>
          map_option (\<lambda>cs. the (projr (from_spend cs delegated)))
            (find (\<lambda>cs. case from_spend cs delegated of
               Inr (Some candidate) \<Rightarrow>
                 ds_launcher_id candidate = launcher_id \<and>
                 sdk_coin_id sdk (ds_coin candidate) = sdk_coin_id sdk current
             | _ \<Rightarrow> False) bundle))"

fun find_datastore ::
  "('n, 'z) sdk_scheme \<Rightarrow> datastore_parser \<Rightarrow> client \<Rightarrow> bytes32 \<Rightarrow> delegated_puzzle list \<Rightarrow> coin_record list
    \<Rightarrow> cli_error + datastore"
where
  "find_datastore sdk from_spend client launcher_id delegated [] =
     try_result (required (cl_coin_record_by_name client launcher_id) (CoinNotFound launcher_id)) (\<lambda>launcher_record.
     try_result (required (cl_puzzle_and_solution client launcher_id (Some (cr_spent_block_index launcher_record)))
                   (CoinNotSpent launcher_id)) (\<lambda>launcher_spend.
       required (map_err Driver (from_spend launcher_spend delegated))
         (Custom ''Could not parse datastore launcher spend'')))"
| "find_datastore sdk from_spend client launcher_id delegated (coin_record # records) =
     (if cr_spent coin_record
      then find_datastore sdk from_spend client launcher_id delegated records
      else
        let parent = parent_coin_info (cr_coin coin_record)
        in try_result (required (cl_puzzle_and_solution client parent (Some (cr_confirmed_block_index coin_record)))
                         (CoinNotSpent parent)) (\<lambda>next_spend.
             case from_spend next_spend delegated of
               Inr (Some on_chain) \<Rightarrow>
                 if ds_launcher_id on_chain = launcher_id
                 then try_result (cl_mempool_items client (sdk_coin_id sdk (ds_coin on_chain))) (\<lambda>items.
                        Inr (unwrap_or (Option.bind items
                              (mempool_candidate sdk from_spend delegated launcher_id (cr_coin coin_record))) on_chain))
                 else find_datastore sdk from_spend client launcher_id delegated records
             | _ \<Rightarrow> find_datastore sdk from_spend client launcher_id delegated records))"

definition sync_datastore ::
  "('n, 'z) sdk_scheme \<Rightarrow> datastore_parser \<Rightarrow> client \<Rightarrow> bytes32 \<Rightarrow> delegated_puzzle list \<Rightarrow> cli_error + datastore"
where
  "sync_datastore sdk from_spend client launcher_id delegated =
     try_result (required (cl_coin_records_by_hint client launcher_id) (Custom ''No unspent coin records found''))
       (find_datastore sdk from_spend client launcher_id delegated)"

definition oracle_datastore_layer :: "delegated_puzzle list \<Rightarrow> (bytes32 \<Rightarrow> u64 \<Rightarrow> 'o option) \<Rightarrow> cli_error + 'o" where
  "oracle_datastore_layer delegated oracle_layer_new =
     (case delegated of
        OraclePuzzle oracle_hash fee # _ \<Rightarrow> ok_or (oracle_layer_new oracle_hash fee) (Custom ''Invalid oracle fee'')
      | _ \<Rightarrow> Inl (Custom ''Datastore must have an oracle delegated puzzle''))"

section \<open>The custody key\<close>

record derivation =
  dv_address :: string
  dv_public_key :: string

record sage =
  sg_check_address :: "string \<Rightarrow> cli_error + bool"
  sg_derivations :: "bool \<Rightarrow> u32 \<Rightarrow> u32 \<Rightarrow> cli_error + (derivation list \<times> u32)"

definition hex_string_to_pubkey ::
  "('n, 'z) sdk_scheme \<Rightarrow> 'k csv_sdk \<Rightarrow> string \<Rightarrow> cli_error + 'k"
where
  "hex_string_to_pubkey sdk cv hex =
     (case sdk_hex_decode sdk (remove_0x hex) of
        None \<Rightarrow> Inl ParseHex
      | Some bytes \<Rightarrow>
          if length bytes \<noteq> 48 then Inl ParseHex
          else ok_or (cv_pubkey_from_bytes cv bytes) InvalidPublicKey)"

text \<open>
  Pages of 100 derivations; the answer has the page and the total. The offset is a 32-bit number, whose
  addition panics or wraps with the build. \<open>None\<close>: the loop does not end.
\<close>

partial_function (option) find_public_key_from ::
  "bool \<Rightarrow> ('n, 'z) sdk_scheme \<Rightarrow> 'k csv_sdk \<Rightarrow> sage \<Rightarrow> string \<Rightarrow> u32 \<Rightarrow> (cli_error + 'k) outcome option"
where
  "find_public_key_from overflow_checks sdk cv sage address offset =
     (case sg_derivations sage False offset 100 of
        Inl e \<Rightarrow> Some (Returned (Inl e))
      | Inr (derivations, count) \<Rightarrow>
          (case find (\<lambda>d. dv_address d = address) derivations of
             Some derivation \<Rightarrow> Some (Returned (hex_string_to_pubkey sdk cv (dv_public_key derivation)))
           | None \<Rightarrow>
               if count < 100
               then Some (Returned (Inl (Custom
                      ''Could not find public key for custody address in wallet derivations'')))
               else if overflow_checks \<and> 2 ^ 32 \<le> unat offset + 100 then Some Panicked
               else find_public_key_from overflow_checks sdk cv sage address (offset + 100)))"

definition find_public_key_for_address ::
  "bool \<Rightarrow> ('n, 'z) sdk_scheme \<Rightarrow> 'k csv_sdk \<Rightarrow> sage \<Rightarrow> string \<Rightarrow> (cli_error + 'k) outcome option"
where
  "find_public_key_for_address overflow_checks sdk cv sage address =
     find_public_key_from overflow_checks sdk cv sage address 0"

text \<open>
  The bounded search of the utilities: pages of 500 below a limit. The offset panics (or wraps) when the
  limit is within 500 of \<open>2 ^ 32\<close>.
\<close>

partial_function (option) coin_public_key_from ::
  "bool \<Rightarrow> ('n, 'z) sdk_scheme \<Rightarrow> 'k csv_sdk \<Rightarrow> sage \<Rightarrow> string \<Rightarrow> u32 \<Rightarrow> u32 \<Rightarrow> (cli_error + 'k) outcome option"
where
  "coin_public_key_from overflow_checks sdk cv sage address address_limit offset =
     (if \<not> offset < address_limit
      then Some (Returned (Inl (Custom ''Could not find public key associated with provided puzzle hash'')))
      else
        (case sg_derivations sage False offset 500 of
           Inl e \<Rightarrow> Some (Returned (Inl e))
         | Inr (derivations, _) \<Rightarrow>
             (case find (\<lambda>d. dv_address d = address) derivations of
                Some derivation \<Rightarrow> Some (Returned (hex_string_to_pubkey sdk cv (dv_public_key derivation)))
              | None \<Rightarrow>
                  if overflow_checks \<and> 2 ^ 32 \<le> unat offset + 500 then Some Panicked
                  else coin_public_key_from overflow_checks sdk cv sage address address_limit (offset + 500))))"

definition get_coin_public_key ::
  "bool \<Rightarrow> ('n, 'z) sdk_scheme \<Rightarrow> 'k csv_sdk \<Rightarrow> sage \<Rightarrow> string \<Rightarrow> u32 \<Rightarrow> (cli_error + 'k) outcome option"
where
  "get_coin_public_key overflow_checks sdk cv sage address address_limit =
     coin_public_key_from overflow_checks sdk cv sage address address_limit 0"

record 'k custody_info =
  ci_puzzle_hash :: bytes32
  ci_public_key :: 'k
  ci_address :: string

definition custody_of ::
  "'k csv_sdk \<Rightarrow> ('k \<Rightarrow> bytes32) \<Rightarrow> string \<Rightarrow> 'k \<Rightarrow> cli_error + 'k custody_info"
where
  "custody_of cv standard_hash address public_key =
     try_result (ok_or (cv_address_decode cv address) Address) (\<lambda>(prefix, puzzle_hash).
       if standard_hash public_key \<noteq> puzzle_hash
       then Inl (Custom ''Custody puzzle hash does not match the retrieved public key'')
       else Inr \<lparr>ci_puzzle_hash = puzzle_hash, ci_public_key = public_key, ci_address = address\<rparr>)"

text \<open>Without an address the wallet's first derivation; \<open>derivations[0]\<close> panics on an empty page.\<close>

definition resolve_custody ::
  "bool \<Rightarrow> ('n, 'z) sdk_scheme \<Rightarrow> 'k csv_sdk \<Rightarrow> ('k \<Rightarrow> bytes32) \<Rightarrow> sage \<Rightarrow> string option
    \<Rightarrow> (cli_error + 'k custody_info) outcome option"
where
  "resolve_custody overflow_checks sdk cv standard_hash sage custody_address =
     (case custody_address of
        Some address \<Rightarrow>
          (case sg_check_address sage address of
             Inl e \<Rightarrow> Some (Returned (Inl e))
           | Inr False \<Rightarrow> Some (Returned (Inl (Custom ''Custody address is not owned by the active wallet'')))
           | Inr True \<Rightarrow>
               map_option (map_outcome (\<lambda>r. try_result r (custody_of cv standard_hash address)))
                 (find_public_key_for_address overflow_checks sdk cv sage address))
      | None \<Rightarrow>
          (case sg_derivations sage False 0 1 of
             Inl e \<Rightarrow> Some (Returned (Inl e))
           | Inr ([], _) \<Rightarrow> Some Panicked
           | Inr (derivation # _, _) \<Rightarrow>
               Some (Returned (try_result (hex_string_to_pubkey sdk cv (dv_public_key derivation))
                 (custody_of cv standard_hash (dv_address derivation))))))"

definition ensure_epoch_open :: "u64 \<Rightarrow> u64 \<Rightarrow> cli_error + unit" where
  "ensure_epoch_open epoch_end latest_timestamp =
     (if latest_timestamp > epoch_end
      then Inl (Custom ''The current epoch has already ended - start a new epoch first'') else Inr ())"

section \<open>Locked assets\<close>

text \<open>
  \<open>lk_nft_p2\<close> is the curried nonce wrapper's hash for a number of shares, \<open>lk_hint\<close> the hint of locked
  coins, \<open>'nft\<close> a parsed NFT; \<open>lk_cat_children\<close> is \<open>Cat::parse_children\<close>, the children as coin and asset id.
\<close>

record 'nft locked_sdk =
  lk_hint :: "bytes32 \<Rightarrow> bytes32 \<Rightarrow> bytes32"
  lk_nft_p2 :: "bytes32 \<Rightarrow> bytes32 \<Rightarrow> u64 \<Rightarrow> bytes32"
  lk_nft_child :: "coin_spend \<Rightarrow> driver_error + ('nft \<times> bytes32) option"
  lk_cat_children :: "coin_spend \<Rightarrow> driver_error + (coin \<times> bytes32) list option"
  lk_alloc :: "coin_spend \<Rightarrow> cli_error + unit"

text \<open>\<open>for shares in 0..=entry_shares.max(1)\<close>, the first that fits.\<close>

definition locked_shares :: "'nft locked_sdk \<Rightarrow> bytes32 \<Rightarrow> bytes32 \<Rightarrow> u64 \<Rightarrow> bytes32 \<Rightarrow> u64 option" where
  "locked_shares lk custody launcher_id entry_shares p2_puzzle_hash =
     find (\<lambda>shares. p2_puzzle_hash = lk_nft_p2 lk custody launcher_id shares)
       (map word_of_nat [0..<Suc (unat (max entry_shares 1))])"

fun locked_nfts_in ::
  "'nft locked_sdk \<Rightarrow> client \<Rightarrow> bytes32 \<Rightarrow> bytes32 \<Rightarrow> u64 \<Rightarrow> coin_record list \<Rightarrow> cli_error + ('nft \<times> u64) list"
where
  "locked_nfts_in lk client launcher_id custody entry_shares [] = Inr []"
| "locked_nfts_in lk client launcher_id custody entry_shares (coin_record # records) =
     (let parent = parent_coin_info (cr_coin coin_record)
      in try_result (required (cl_puzzle_and_solution client parent (Some (cr_confirmed_block_index coin_record)))
                       (CoinNotFound parent)) (\<lambda>parent_spend.
         try_result (lk_alloc lk parent_spend) (\<lambda>_.
         try_result (locked_nfts_in lk client launcher_id custody entry_shares records) (\<lambda>rest.
           Inr ((case lk_nft_child lk parent_spend of
                   Inr (Some (nft, p2_puzzle_hash)) \<Rightarrow>
                     (case locked_shares lk custody launcher_id entry_shares p2_puzzle_hash of
                        None \<Rightarrow> [] | Some shares \<Rightarrow> [(nft, shares)])
                 | _ \<Rightarrow> []) @ rest)))))"

definition find_locked_nfts ::
  "'nft locked_sdk \<Rightarrow> client \<Rightarrow> bytes32 \<Rightarrow> bytes32 \<Rightarrow> u64 \<Rightarrow> cli_error + ('nft \<times> u64) list"
where
  "find_locked_nfts lk client launcher_id custody entry_shares =
     try_result (cl_coin_records_by_hint client (lk_hint lk custody launcher_id)) (\<lambda>records.
       locked_nfts_in lk client launcher_id custody entry_shares (unwrap_or records []))"

fun locked_cats_in ::
  "'nft locked_sdk \<Rightarrow> client \<Rightarrow> bytes32 \<Rightarrow> coin_record list \<Rightarrow> cli_error + (coin \<times> u64) list"
where
  "locked_cats_in lk client asset_id [] = Inr []"
| "locked_cats_in lk client asset_id (coin_record # records) =
     (let parent = parent_coin_info (cr_coin coin_record)
      in try_result (required (cl_puzzle_and_solution client parent (Some (cr_confirmed_block_index coin_record)))
                       (CoinNotSpent parent)) (\<lambda>parent_spend.
         try_result (lk_alloc lk parent_spend) (\<lambda>_.
         try_result (map_err Driver (lk_cat_children lk parent_spend)) (\<lambda>children.
         try_result (locked_cats_in lk client asset_id records) (\<lambda>rest.
           Inr ((case Option.bind children (find (\<lambda>(c, a). c = cr_coin coin_record \<and> a = asset_id)) of
                   None \<Rightarrow> [] | Some (cat, _) \<Rightarrow> [(cat, amount (cr_coin coin_record))]) @ rest))))))"

definition find_locked_cats ::
  "'nft locked_sdk \<Rightarrow> client \<Rightarrow> bytes32 \<Rightarrow> bytes32 \<Rightarrow> bytes32 \<Rightarrow> cli_error + (coin \<times> u64) list"
where
  "find_locked_cats lk client launcher_id custody asset_id =
     try_result (cl_coin_records_by_hint client (lk_hint lk custody launcher_id)) (\<lambda>records.
       locked_cats_in lk client asset_id (unwrap_or records []))"

end
