(* ===== verification/DatastoreFacts.thy ===== *)
theory DatastoreFacts
  imports Datastore XchSync "HOL-Library.Multiset"
begin

text \<open>
  What a whitelist's root stands for, what its Merkle proofs prove, which updates are valid, and two
  loops over a remote answer: the search of the custody key and the datastore that is pending.
\<close>

section \<open>Whitelists\<close>

lemma reject_duplicates_from_Inr:
  "reject_duplicates_from ms seen records = Inr () \<longleftrightarrow>
     distinct (map dn_nft_id records) \<and> dn_nft_id ` set records \<inter> seen = {}"
  by (induction records arbitrary: seen) (auto simp: result_simps)

lemma reject_duplicates_Inr: "reject_duplicates ms records = Inr () \<longleftrightarrow> distinct (map dn_nft_id records)"
  by (simp add: reject_duplicates_def reject_duplicates_from_Inr)

lemma build_root_hash_Inr:
  "build_root_hash ms records = Inr root \<longleftrightarrow> distinct (map dn_nft_id records) \<and>
     root = ms_root ms (ms_tree ms (map (leaf_hash ms) (sort_key dn_nft_id records)))"
  by (auto simp: build_root_hash_def build_merkle_tree_def result_simps reject_duplicates_Inr)

text \<open>
  The root of a whitelist does not depend on the order of the CSV file's rows: two files with the same
  rows, in whatever order, have the same root, or are both refused.
\<close>

theorem root_ignores_order:
  assumes "mset records = mset records'"
  shows "case build_root_hash ms records of
      Inr root \<Rightarrow> build_root_hash ms records' = Inr root
    | Inl _ \<Rightarrow> isl (build_root_hash ms records')"
proof (cases "distinct (map dn_nft_id records)")
  case True
  have "mset (map dn_nft_id records) = mset (map dn_nft_id records')" using assms by simp
  with True have distinct': "distinct (map dn_nft_id records')" by (metis mset_eq_imp_distinct_iff)
  have "sort_key dn_nft_id records = sort_key dn_nft_id records'"
    using True assms by (intro sort_key_inj_key_eq) (auto simp: distinct_map)
  moreover have "reject_duplicates ms records = Inr ()" "reject_duplicates ms records' = Inr ()"
    using True distinct' by (simp_all add: reject_duplicates_Inr)
  ultimately show ?thesis by (simp add: build_root_hash_def build_merkle_tree_def)
next
  case False
  have "mset (map dn_nft_id records) = mset (map dn_nft_id records')" using assms by simp
  with False have "\<not> distinct (map dn_nft_id records')" by (metis mset_eq_imp_distinct_iff)
  then have "isl (build_root_hash ms records')"
    using build_root_hash_Inr [of ms records'] by (cases "build_root_hash ms records'") auto
  with False build_root_hash_Inr [of ms records] show ?thesis by (auto split: sum.split)
qed

text \<open>A toy hash and tree: a leaf is id plus weight, a tree its leaves, a root the digits of the leaves.\<close>

definition example_merkle :: "bytes32 list merkle_sdk" where
  "example_merkle =
     \<lparr>ms_leaf = (\<lambda>i w. i * 10 + ucast w), ms_tree = (\<lambda>leaves. leaves),
      ms_root = foldl (\<lambda>acc l. acc * 1000 + l) 0,
      ms_tree_proof = (\<lambda>_ _. None), ms_sha256 = (\<lambda>bytes. foldl (\<lambda>acc b. acc * 7 + ucast b) 0 bytes),
      ms_nft_address = (\<lambda>_. Some ''nft1'')\<rparr>"

lemma root_ignores_order_witness:
  "build_root_hash example_merkle (records_from_entries [(2, 5), (1, 7), (3, 9)]) = Inr 17025039"
proof -
  have "build_root_hash example_merkle (records_from_entries [(1, 7), (2, 5), (3, 9)]) = Inr 17025039"
    by (simp add: build_root_hash_def build_merkle_tree_def reject_duplicates_def records_from_entries_def
        example_merkle_def leaf_hash_def)
  with root_ignores_order [of "records_from_entries [(1, 7), (2, 5), (3, 9)]"
      "records_from_entries [(2, 5), (1, 7), (3, 9)]" example_merkle] show ?thesis
    by (simp add: records_from_entries_def)
qed

lemma missing_record_Inr: "missing_record ms new_ids olds = Inr () \<longleftrightarrow> dn_nft_id ` set olds \<subseteq> new_ids"
  by (induction olds) (auto simp: result_simps)

text \<open>An update is valid when neither file repeats an NFT and none of the old ones is left out.\<close>

lemma validate_update_exact:
  "validate_update_csvs ms old_records new_records = Inr () \<longleftrightarrow>
     distinct (map dn_nft_id old_records) \<and> distinct (map dn_nft_id new_records) \<and>
     dn_nft_id ` set old_records \<subseteq> dn_nft_id ` set new_records"
  by (auto simp: validate_update_csvs_def result_simps reject_duplicates_Inr missing_record_Inr)

section \<open>Merkle proofs\<close>

text \<open>The byte strings a verification hashes on its way up.\<close>

fun climb_inputs :: "'t merkle_sdk \<Rightarrow> nat \<Rightarrow> bytes32 list \<Rightarrow> bytes32 \<Rightarrow> u8 list list" where
  "climb_inputs ms path [] computed = []"
| "climb_inputs ms path (sibling # steps) computed =
     (let input = (if even path then 2 # to_bytes computed @ to_bytes sibling
                   else 2 # to_bytes sibling @ to_bytes computed)
      in input # climb_inputs ms (path div 2) steps (ms_sha256 ms input))"

definition hashed_inputs :: "'t merkle_sdk \<Rightarrow> bytes32 \<Rightarrow> merkle_proof \<Rightarrow> u8 list list" where
  "hashed_inputs ms leaf steps =
     (1 # to_bytes leaf) # climb_inputs ms (mp_path steps) (mp_proof steps) (ms_sha256 ms (1 # to_bytes leaf))"

definition collision :: "'t merkle_sdk \<Rightarrow> u8 list list \<Rightarrow> u8 list list \<Rightarrow> bool" where
  "collision ms inputs inputs' \<longleftrightarrow>
     (\<exists>x \<in> set inputs. \<exists>y \<in> set inputs'. x \<noteq> y \<and> ms_sha256 ms x = ms_sha256 ms y)"

lemma collision_Cons: "collision ms xs ys \<Longrightarrow> collision ms (x # xs) (y # ys)"
  by (auto simp: collision_def)

lemma climb_step:
  "climb ms path (sibling # steps) computed =
     climb ms (path div 2) steps (ms_sha256 ms
       (if even path then 2 # to_bytes computed @ to_bytes sibling else 2 # to_bytes sibling @ to_bytes computed))"
  by (simp add: merkle_sha256_def)

lemma climb_binding:
  assumes "length steps = length steps'" and "climb ms path steps computed = climb ms path steps' computed'"
  shows "computed = computed' \<and> steps = steps' \<or>
    collision ms (climb_inputs ms path steps computed) (climb_inputs ms path steps' computed')"
  using assms
proof (induction steps steps' arbitrary: path computed computed' rule: list_induct2)
  case (Cons sibling steps sibling' steps')
  define x where "x = (if even path then 2 # to_bytes computed @ to_bytes sibling
    else 2 # to_bytes sibling @ to_bytes computed)"
  define y where "y = (if even path then 2 # to_bytes computed' @ to_bytes sibling'
    else 2 # to_bytes sibling' @ to_bytes computed')"
  from Cons.prems have "climb ms (path div 2) steps (ms_sha256 ms x) = climb ms (path div 2) steps' (ms_sha256 ms y)"
    unfolding climb_step x_def y_def .
  from Cons.IH [OF this] show ?case
  proof
    assume same: "ms_sha256 ms x = ms_sha256 ms y \<and> steps = steps'"
    show ?thesis
    proof (cases "x = y")
      case True
      then have "computed = computed' \<and> sibling = sibling'"
        by (auto simp: x_def y_def append_eq_append_conv split: if_splits)
      with same show ?thesis by simp
    next
      case False
      with same show ?thesis
        by (auto simp: collision_def x_def [symmetric] y_def [symmetric] Let_def)
    qed
  next
    assume "collision ms (climb_inputs ms (path div 2) steps (ms_sha256 ms x))
      (climb_inputs ms (path div 2) steps' (ms_sha256 ms y))"
    from collision_Cons [OF this, of x y] show ?thesis by (simp add: x_def y_def Let_def)
  qed
qed simp

text \<open>
  C40. A Merkle proof binds its leaf: two proofs for the same position that both verify against the same root
  are the same proof of the same leaf, or else the byte strings hashed by the two verifications contain
  a collision of the hash function. The prefixes keep leaves and inner nodes apart.
\<close>

theorem merkle_proof_binding:
  assumes "verify_merkle_proof ms leaf steps root" and "verify_merkle_proof ms leaf' steps' root"
    and "mp_path steps = mp_path steps'" and "length (mp_proof steps) = length (mp_proof steps')"
  shows "leaf = leaf' \<and> mp_proof steps = mp_proof steps' \<or>
    collision ms (hashed_inputs ms leaf steps) (hashed_inputs ms leaf' steps')"
proof -
  let ?x = "1 # to_bytes leaf" and ?y = "1 # to_bytes leaf'"
  have "climb ms (mp_path steps) (mp_proof steps) (ms_sha256 ms ?x) =
      climb ms (mp_path steps) (mp_proof steps') (ms_sha256 ms ?y)"
    using assms(1-3) by (simp add: verify_merkle_proof_def merkle_sha256_def)
  from climb_binding [OF assms(4) this] show ?thesis
  proof
    assume same: "ms_sha256 ms ?x = ms_sha256 ms ?y \<and> mp_proof steps = mp_proof steps'"
    show ?thesis
    proof (cases "leaf = leaf'")
      case False
      then have "?x \<noteq> ?y" by simp
      with same show ?thesis by (auto simp: collision_def hashed_inputs_def)
    qed (use same in simp)
  next
    assume "collision ms (climb_inputs ms (mp_path steps) (mp_proof steps) (ms_sha256 ms ?x))
      (climb_inputs ms (mp_path steps) (mp_proof steps') (ms_sha256 ms ?y))"
    from collision_Cons [OF this, of ?x ?y] show ?thesis by (simp add: hashed_inputs_def assms(3))
  qed
qed

text \<open>Two leaves that verify at the same position under the toy hash: the collision is there.\<close>

lemma merkle_proof_binding_witness:
  "collision (example_merkle\<lparr>ms_sha256 := (\<lambda>_. 5)\<rparr>)
     (hashed_inputs (example_merkle\<lparr>ms_sha256 := (\<lambda>_. 5)\<rparr>) 1 \<lparr>mp_path = 1, mp_proof = [8]\<rparr>)
     (hashed_inputs (example_merkle\<lparr>ms_sha256 := (\<lambda>_. 5)\<rparr>) 2 \<lparr>mp_path = 1, mp_proof = [8]\<rparr>)"
proof -
  let ?ms = "example_merkle\<lparr>ms_sha256 := (\<lambda>_. 5)\<rparr>" and ?p = "\<lparr>mp_path = 1, mp_proof = [8]\<rparr>"
  have "verify_merkle_proof ?ms leaf ?p 5" for leaf
    by (simp add: verify_merkle_proof_def merkle_sha256_def)
  from merkle_proof_binding [OF this this refl refl, of 1 2] show ?thesis by simp
qed

section \<open>The search of the custody key\<close>

text \<open>
  The search of the custody key need not end: the loop leaves only when the wallet's total is below one
  page, so when the wallet reports 100 derivations or more and the address is on none of the pages, as
  for an address of a hardened key, the search returns nothing at all, neither a key nor the error.
\<close>

theorem custody_search_never_ends:
  fixes sdk :: "('n, 'z) sdk_scheme" and cv :: "'k csv_sdk"
  assumes "\<forall>offset. \<exists>page n. sg_derivations sage False offset 100 = Inr (page, n) \<and> 100 \<le> n \<and>
    (\<forall>d \<in> set page. dv_address d \<noteq> address)"
  shows "find_public_key_for_address False sdk cv sage address = None"
proof -
  have "\<not> (\<not> checks \<and> sg = sage \<and> addr = address)"
    if "find_public_key_from checks sdk cv sg addr offset = Some r"
    for checks :: bool and sdk :: "('n, 'z) sdk_scheme" and cv :: "'k csv_sdk" and sg addr offset r
  proof (rule find_public_key_from.raw_induct [OF _ that])
    fix search :: "bool \<Rightarrow> ('n, 'z) sdk_scheme \<Rightarrow> 'k csv_sdk \<Rightarrow> sage \<Rightarrow> string \<Rightarrow> u32 \<Rightarrow> (cli_error + 'k) outcome option"
      and checks sdk cv sg addr offset r
    assume search: "\<And>checks sdk cv sg addr offset r. search checks sdk cv sg addr offset = Some r \<Longrightarrow>
        \<not> (\<not> checks \<and> sg = sage \<and> addr = address)"
      and body: "(case sg_derivations sg False offset 100 of
          Inl e \<Rightarrow> Some (Returned (Inl e))
        | Inr (derivations, n) \<Rightarrow>
            (case find (\<lambda>d. dv_address d = addr) derivations of
               Some derivation \<Rightarrow> Some (Returned (hex_string_to_pubkey sdk cv (dv_public_key derivation)))
             | None \<Rightarrow>
                 if n < 100
                 then Some (Returned (Inl (Custom
                        ''Could not find public key for custody address in wallet derivations'')))
                 else if checks \<and> 2 ^ 32 \<le> unat offset + 100 then Some Panicked
                 else search checks sdk cv sg addr (offset + 100))) = Some r"
    show "\<not> (\<not> checks \<and> sg = sage \<and> addr = address)"
    proof
      assume here: "\<not> checks \<and> sg = sage \<and> addr = address"
      obtain page n where page: "sg_derivations sage False offset 100 = Inr (page, n)" "100 \<le> n"
        and "\<forall>d \<in> set page. dv_address d \<noteq> address" using assms by blast
      then have "find (\<lambda>d. dv_address d = address) page = None" by (simp add: find_None_iff)
      moreover have "\<not> n < 100" using page(2) by (simp add: not_less)
      ultimately have "search checks sdk cv sg addr (offset + 100) = Some r"
        using body here page(1) by simp
      with here search show False by blast
    qed
  qed
  then show ?thesis
    by (cases "find_public_key_for_address False sdk cv sage address")
      (fastforce simp: find_public_key_for_address_def)+
qed

definition example_sage :: sage where
  "example_sage = \<lparr>sg_check_address = (\<lambda>_. Inr True),
     sg_derivations = (\<lambda>hardened offset limit. Inr ([\<lparr>dv_address = ''xch1a'', dv_public_key = ''00''\<rparr>], 250))\<rparr>"

definition example_csv_sdk :: "nat csv_sdk" where
  "example_csv_sdk = \<lparr>cv_address_decode = (\<lambda>_. None), cv_u64 = (\<lambda>_. None), cv_u8 = (\<lambda>_. None),
     cv_pubkey_from_bytes = (\<lambda>_. None)\<rparr>"

lemma custody_search_never_ends_witness:
  "find_public_key_for_address False fixture_sdk example_csv_sdk example_sage ''xch1b'' = None"
  by (rule custody_search_never_ends) (simp add: example_sage_def word_le_nat_alt)

section \<open>The pending datastore\<close>

lemma mempool_candidate_None:
  assumes "\<forall>bundle \<in> set items. \<forall>cs \<in> set bundle. \<forall>d. from_spend cs delegated = Inr (Some d) \<longrightarrow>
      sdk_coin_id sdk (ds_coin d) \<noteq> sdk_coin_id sdk current"
  shows "mempool_candidate sdk from_spend delegated launcher_id current items = None"
  using assms
  by (auto simp: mempool_candidate_def find_None_iff split: list.split sum.splits option.splits)

text \<open>
  A pending spend of a datastore is never used: parsing a spend gives the coin it creates, whose parent
  is the spent coin, and the synchronization asks for a pending spend that gives the coin already on chain.
  As long as the ids of these coins tell different parents apart, and no pending spend spends the parent of the
  coin on chain (it is spent already), the result is the datastore on chain.
\<close>

theorem pending_datastore_ignored:
  assumes "cl_puzzle_and_solution client (parent_coin_info (cr_coin coin_record))
      (Some (cr_confirmed_block_index coin_record)) = Inr (Some parent_spend)"
    and "from_spend parent_spend delegated = Inr (Some on_chain)"
    and "\<not> cr_spent coin_record" and "ds_launcher_id on_chain = launcher_id"
    and "cl_mempool_items client (sdk_coin_id sdk (ds_coin on_chain)) = Inr items"
    and "\<forall>bundle \<in> set (unwrap_or items []). \<forall>cs \<in> set bundle. \<forall>d. from_spend cs delegated = Inr (Some d) \<longrightarrow>
      parent_coin_info (ds_coin d) = sdk_coin_id sdk (spend_coin cs)"
    and "\<forall>bundle \<in> set (unwrap_or items []). \<forall>cs \<in> set bundle.
      sdk_coin_id sdk (spend_coin cs) \<noteq> parent_coin_info (cr_coin coin_record)"
    and "\<forall>bundle \<in> set (unwrap_or items []). \<forall>cs \<in> set bundle. \<forall>d. from_spend cs delegated = Inr (Some d) \<longrightarrow>
      sdk_coin_id sdk (ds_coin d) = sdk_coin_id sdk (cr_coin coin_record) \<longrightarrow>
      parent_coin_info (ds_coin d) = parent_coin_info (cr_coin coin_record)"
  shows "find_datastore sdk from_spend client launcher_id delegated (coin_record # records) = Inr on_chain"
proof -
  have "mempool_candidate sdk from_spend delegated launcher_id (cr_coin coin_record) (unwrap_or items []) = None"
    using assms(6-8) by (intro mempool_candidate_None) metis
  then show ?thesis using assms(1-5) by (cases items) (auto simp: required_def Let_def)
qed

text \<open>The pending bundle spends the coin on chain; its child is not found.\<close>

definition datastore_at :: "coin \<Rightarrow> datastore" where
  "datastore_at c = \<lparr>ds_coin = c, ds_launcher_id = 1, ds_root_hash = 0\<rparr>"

definition plain_spend :: "coin \<Rightarrow> coin_spend" where
  "plain_spend c = \<lparr>spend_coin = c, puzzle_reveal = [], spend_solution = []\<rparr>"

definition example_from_spend :: datastore_parser where
  "example_from_spend cs delegated =
     Inr (Some (datastore_at \<lparr>parent_coin_info = sdk_coin_id fixture_sdk (spend_coin cs), puzzle_hash = 3, amount = 1\<rparr>))"

definition pending_client :: client where
  "pending_client = example_client\<lparr>cl_mempool_items := (\<lambda>_. Inr (Some [[plain_spend example_tip_coin]]))\<rparr>"

lemma pending_datastore_ignored_witness:
  "find_datastore fixture_sdk example_from_spend pending_client 1 oracle_delegated_puzzles
     [\<lparr>cr_coin = example_tip_coin, cr_confirmed_block_index = 20, cr_spent_block_index = 0, cr_spent = False\<rparr>] =
   Inr (datastore_at \<lparr>parent_coin_info = 1021, puzzle_hash = 3, amount = 1\<rparr>)"
  by (rule pending_datastore_ignored [where parent_spend = "plain_spend example_spent_coin"
        and items = "Some [[plain_spend example_tip_coin]]"])
    (simp_all add: pending_client_def example_client_def example_from_spend_def datastore_at_def plain_spend_def,
     simp_all add: example_tip_coin_def example_spent_coin_def fixture_sdk_def)

end
