(* ===== verification/ChainWalk.thy ===== *)
theory ChainWalk
  imports Prelude
begin

text \<open>
  The loop that follows a singleton from coin to coin until its tip (\<open>sync_catalog\<close>,
  \<open>sync_multisig_singleton\<close>): one turn either fails, finds the tip or moves on to the child, and the loop
  repeats it. Loops have fuel; \<open>None\<close> means still walking.
\<close>

text \<open>What a run of turns does: the coins visited, and the state at the end.\<close>

inductive turns ::
  "('r \<Rightarrow> bool \<Rightarrow> 's \<Rightarrow> ('e + 'r option) \<times> 's) \<Rightarrow> nat \<Rightarrow> 'r \<Rightarrow> bool \<Rightarrow> 's \<Rightarrow> 'e + 'r \<Rightarrow> 's \<Rightarrow> bool"
  for turn
where
  turns_fail: "turns turn 0 r skip s (Inl e) s'" if "turn r skip s = (Inl e, s')"
| turns_tip: "turns turn 0 r skip s (Inr r) s'" if "turn r skip s = (Inr None, s')"
| turns_step: "turns turn (Suc n) r skip s result s''"
  if "turn r skip s = (Inr (Some child), s')" and "turns turn n child False s' result s''"

inductive_cases turnsE: "turns turn n r skip s result s'"

locale chain_walk =
  fixes walk :: "nat \<Rightarrow> 'r \<Rightarrow> bool \<Rightarrow> 's \<Rightarrow> (('e + 'r) \<times> 's) option"
    and turn :: "'r \<Rightarrow> bool \<Rightarrow> 's \<Rightarrow> ('e + 'r option) \<times> 's"
  assumes walk_zero: "walk 0 r skip s = None"
    and walk_Suc: "walk (Suc n) r skip s =
      (case turn r skip s of
         (Inl e, s') \<Rightarrow> Some (Inl e, s')
       | (Inr None, s') \<Rightarrow> Some (Inr r, s')
       | (Inr (Some child), s') \<Rightarrow> walk n child False s')"
begin

lemma walk_turns:
  assumes "turns turn n r skip s result s'" and "n < fuel"
  shows "walk fuel r skip s = Some (result, s')"
  using assms
proof (induction arbitrary: fuel rule: turns.induct)
  case (turns_step r skip s child s' n result s'')
  then obtain f where "fuel = Suc f" "n < f" by (cases fuel) auto
  with turns_step show ?case by (simp add: walk_Suc)
qed (auto simp: walk_Suc elim: less_natE)

lemma walk_Some:
  assumes "walk fuel r skip s = Some (result, s')"
  shows "\<exists>n < fuel. turns turn n r skip s result s'"
  using assms
proof (induction fuel arbitrary: r skip s)
  case 0
  then show ?case by (simp add: walk_zero)
next
  case (Suc fuel)
  show ?case
  proof (cases "turn r skip s")
    case (Pair answer s1)
    with Suc show ?thesis
      by (cases answer; cases "projr answer")
        (fastforce simp: walk_Suc intro: turns.intros split: option.splits)+
  qed
qed

text \<open>More fuel changes nothing, so the fuel is only a bound on the time.\<close>

lemma walk_more_fuel:
  assumes "walk fuel r skip s = Some answer" and "fuel \<le> fuel'"
  shows "walk fuel' r skip s = Some answer"
proof -
  obtain result s' where answer: "answer = (result, s')" by (cases answer)
  with assms(1) obtain n where "n < fuel" "turns turn n r skip s result s'" by (blast dest: walk_Some)
  with assms(2) show ?thesis by (simp add: answer walk_turns)
qed

text \<open>An invariant of the turns holds of whatever the walk returns.\<close>

lemma turns_invariant:
  assumes "turns turn n r skip s result s'" and "P r skip s"
    and "\<And>r skip s child s'. P r skip s \<Longrightarrow> turn r skip s = (Inr (Some child), s') \<Longrightarrow> P child False s'"
  shows "\<exists>r' skip' s0. P r' skip' s0 \<and>
    (case result of
       Inl e \<Rightarrow> turn r' skip' s0 = (Inl e, s')
     | Inr tip \<Rightarrow> tip = r' \<and> turn r' skip' s0 = (Inr None, s'))"
  using assms(1,2)
proof (induction rule: turns.induct)
  case (turns_step r skip s child s' n result s'')
  then show ?case using assms(3) by blast
qed auto

lemma walk_invariant:
  assumes "walk fuel r skip s = Some (result, s')" and "P r skip s"
    and "\<And>r skip s child s'. P r skip s \<Longrightarrow> turn r skip s = (Inr (Some child), s') \<Longrightarrow> P child False s'"
  shows "\<exists>r' skip' s0. P r' skip' s0 \<and>
    (case result of
       Inl e \<Rightarrow> turn r' skip' s0 = (Inl e, s')
     | Inr tip \<Rightarrow> tip = r' \<and> turn r' skip' s0 = (Inr None, s'))"
proof -
  from walk_Some [OF assms(1)] obtain n where "turns turn n r skip s result s'" by blast
  then show ?thesis using assms(2,3) by (rule turns_invariant)
qed

end

end
