(* ===== verification/CatalogSync.thy ===== *)
theory CatalogSync
  imports XchSync ChainWalk
begin

text \<open>
  \<open>catalog/sync.rs\<close> and \<open>catalog/quick_sync.rs\<close>: following the CATalog registry from the saved tip, or
  from its eve coin, to the unspent tip, with its slots written and marked on the way; and finding the
  tip alone. Parsing spends is the SDK's (\<open>catalog_sdk\<close>); a \<open>NodePtr\<close> of memos is the type variable \<open>'m\<close>.
\<close>

section \<open>Data\<close>

record catalog_state =
  ct_cat_maker_puzzle_hash :: bytes32
  ct_registration_price :: u64

record catalog_constants =
  kc_launcher_id :: bytes32
  kc_royalty_address :: bytes32
  kc_royalty_basis_points :: u16
  kc_precommit_payout_puzzle_hash :: bytes32
  kc_relative_block_height :: u32
  kc_price_singleton_launcher_id :: bytes32

record catalog_slot_value =
  kv_asset_id :: bytes32
  kv_counter :: u64
  kv_left_value :: bytes32
  kv_right_value :: bytes32

text \<open>\<open>CatalogRegistry\<close> with the pending spend the parsed spend left in it.\<close>

record catalog =
  kg_coin :: coin
  kg_proof :: lineage_proof
  kg_state :: catalog_state
  kg_constants :: catalog_constants
  kg_created_slots :: "catalog_slot_value list"
  kg_spent_slots :: "catalog_slot_value list"
  kg_latest_state :: catalog_state

text \<open>A condition of a spend with its memos, and the singleton layer of a puzzle.\<close>

datatype 'm memo_condition = CreateCoinMemo bytes32 u64 "'m option" | NoCreateCoin

text \<open>
  \<open>ks_launcher_solution\<close> reads \<open>singleton_puzzle_hash\<close> of the launcher's solution, \<open>ks_eve_inner_hash\<close> is
  the tree hash of the inner puzzle when the puzzle is a singleton, \<open>ks_run\<close> runs a spend and extracts its
  conditions, \<open>ks_eve_memos\<close> extracts launcher id, asset id and initial state, and \<open>ks_new\<close> is
  \<open>CatalogRegistry::new\<close> of a \<open>CatalogRegistryInfo::new\<close>.
\<close>

record 'm catalog_sdk =
  ks_from_parent_spend :: "coin_spend \<Rightarrow> catalog_constants \<Rightarrow> driver_error + catalog option"
  ks_from_spend :: "coin_spend \<Rightarrow> catalog_constants \<Rightarrow> driver_error + catalog option"
  ks_from_mempool_item :: "coin_spend list \<Rightarrow> catalog_constants \<Rightarrow> driver_error + catalog option"
  ks_child :: "catalog \<Rightarrow> catalog_state \<Rightarrow> catalog"
  ks_new :: "coin \<Rightarrow> lineage_proof \<Rightarrow> catalog_state \<Rightarrow> catalog_constants \<Rightarrow> catalog"
  ks_created_slot :: "catalog \<Rightarrow> catalog_slot_value \<Rightarrow> catalog_slot_value slot"
  ks_launcher_solution :: "u8 list \<Rightarrow> cli_error + bytes32"
  ks_eve_inner_hash :: "u8 list \<Rightarrow> cli_error + bytes32 option"
  ks_run :: "coin_spend \<Rightarrow> cli_error + 'm memo_condition list"
  ks_eve_memos :: "'m \<Rightarrow> cli_error + (bytes32 \<times> bytes32 \<times> catalog_state)"
  ks_left_end :: catalog_slot_value
  ks_right_end :: catalog_slot_value
  ks_slot_codec :: "catalog_slot_value slot_codec"

section \<open>Starting\<close>

definition resume_catalog :: "'m catalog_sdk \<Rightarrow> client \<Rightarrow> catalog_constants \<Rightarrow> bytes32 \<Rightarrow> cli_error + catalog" where
  "resume_catalog ks client constants parent_coin_id =
     try_result (required (cl_coin_record_by_name client parent_coin_id) (CoinNotFound parent_coin_id))
       (\<lambda>parent_record.
     try_result (required (cl_puzzle_and_solution client parent_coin_id (Some (cr_spent_block_index parent_record)))
                   (CoinNotSpent parent_coin_id)) (\<lambda>parent_spend.
       required (map_err Driver (ks_from_parent_spend ks parent_spend constants))
         (Custom ''Could not parse latest spent CATalog registry'')))"

definition odd_create_coin :: "'m memo_condition \<Rightarrow> bool" where
  "odd_create_coin c = (case c of CreateCoinMemo _ a _ \<Rightarrow> odd (unat a) | NoCreateCoin \<Rightarrow> False)"

text \<open>The registry the eve coin creates, with the lineage proof its first slots share.\<close>

definition catalog_from_eve ::
  "('n, 'z) sdk_scheme \<Rightarrow> 'm catalog_sdk \<Rightarrow> catalog_constants \<Rightarrow> bytes32 \<Rightarrow> coin_spend
    \<Rightarrow> cli_error + catalog \<times> lineage_proof"
where
  "catalog_from_eve sdk ks constants eve_coin_id eve_coin_spend =
     try_result (required (ks_eve_inner_hash ks (puzzle_reveal eve_coin_spend))
                   (Driver (DriverCustom ''Could not parse eve CATalog coin puzzle''))) (\<lambda>eve_inner_puzzle_hash.
     try_result (ks_run ks eve_coin_spend) (\<lambda>eve_coin_output.
       case find odd_create_coin eve_coin_output of
         Some (CreateCoinMemo new_puzzle_hash new_amount memos) \<Rightarrow>
           (case memos of
              None \<Rightarrow> Inl (Driver (DriverOther ''missing hint''))
            | Some memos \<Rightarrow>
                try_result (ks_eve_memos ks memos) (\<lambda>(decoded_launcher_id, _, initial_state).
                  if decoded_launcher_id \<noteq> kc_launcher_id constants
                  then Inl (Custom ''CATalog launcher ID mismatch'')
                  else
                    let new_coin = \<lparr>parent_coin_info = eve_coin_id, puzzle_hash = new_puzzle_hash,
                          amount = new_amount\<rparr>;
                        proof = \<lparr>lp_parent_parent_coin_info = parent_coin_info (spend_coin eve_coin_spend),
                          lp_parent_inner_puzzle_hash = eve_inner_puzzle_hash,
                          lp_parent_amount = amount (spend_coin eve_coin_spend)\<rparr>
                    in Inr (ks_new ks new_coin proof initial_state constants, proof)))
       | _ \<Rightarrow> Inl (Custom ''Could not find odd create coin in CATalog eve coin'')))"

definition catalog_from_launcher ::
  "('n, 'z) sdk_scheme \<Rightarrow> 'm catalog_sdk \<Rightarrow> client \<Rightarrow> catalog_constants \<Rightarrow> cli_error + catalog \<times> lineage_proof"
where
  "catalog_from_launcher sdk ks client constants =
     (let launcher_id = kc_launcher_id constants
      in try_result (required (cl_coin_record_by_name client launcher_id) (CoinNotFound launcher_id))
           (\<lambda>launcher_record.
         try_result (required (cl_puzzle_and_solution client launcher_id (Some (cr_spent_block_index launcher_record)))
                       (CoinNotSpent launcher_id)) (\<lambda>launcher_spend.
         try_result (ks_launcher_solution ks (spend_solution launcher_spend)) (\<lambda>singleton_puzzle_hash.
           let eve_coin_id = sdk_coin_id sdk
                 \<lparr>parent_coin_info = launcher_id, puzzle_hash = singleton_puzzle_hash, amount = 1\<rparr>
           in try_result (required
                  (cl_puzzle_and_solution client eve_coin_id (Some (cr_confirmed_block_index launcher_record)))
                  (CoinNotSpent eve_coin_id))
                (catalog_from_eve sdk ks constants eve_coin_id)))))"

text \<open>Both end slots are saved and indexed; the eve coin itself is not.\<close>

definition save_end_slot ::
  "'m catalog_sdk \<Rightarrow> catalog_constants \<Rightarrow> lineage_proof \<Rightarrow> catalog_slot_value \<Rightarrow> db \<Rightarrow> unit db_result"
where
  "save_end_slot ks constants proof val db =
     db_then (db_write (save_slot (ks_slot_codec ks)
                (slot_new (ks_slot_codec ks) proof (kc_launcher_id constants) 0 val) 0) db) (\<lambda>_.
       db_write (save_catalog_indexed_slot_value (kv_asset_id val) (sc_tree_hash (ks_slot_codec ks) val)))"

definition start_catalog ::
  "('n, 'z) sdk_scheme \<Rightarrow> 'm catalog_sdk \<Rightarrow> client \<Rightarrow> catalog_constants \<Rightarrow> db \<Rightarrow> (catalog \<times> bool) db_result"
where
  "start_catalog sdk ks client constants db =
     db_then (db_read (get_last_unspent_singleton_coin (kc_launcher_id constants) db) db) (\<lambda>last_unspent db.
       case last_unspent of
         Some (_, parent_coin_id) \<Rightarrow>
           db_then (db_read (resume_catalog ks client constants parent_coin_id) db)
             (\<lambda>catalog db. (Inr (catalog, False), db))
       | None \<Rightarrow>
           db_then (db_read (catalog_from_launcher sdk ks client constants) db) (\<lambda>(catalog, proof) db.
           db_then (save_end_slot ks constants proof (ks_left_end ks) db) (\<lambda>_ db.
           db_then (save_end_slot ks constants proof (ks_right_end ks) db) (\<lambda>_ db.
             (Inr (catalog, True), db)))))"

section \<open>One spend of the registry\<close>

text \<open>A spent slot is found by its asset: the slot the index names for it is marked.\<close>

definition mark_spent_asset ::
  "catalog_constants \<Rightarrow> u32 \<Rightarrow> catalog_slot_value \<Rightarrow> db \<Rightarrow> unit db_result"
where
  "mark_spent_asset constants height val db =
     db_then (db_read (get_catalog_indexed_slot_value (kv_asset_id val) db) db) (\<lambda>previous db.
       case previous of
         None \<Rightarrow> (Inr (), db)
       | Some previous_value_hash \<Rightarrow>
           db_write (mark_slot_as_spent (kc_launcher_id constants) 0 previous_value_hash height) db)"

definition occurrences :: "'v \<Rightarrow> 'v list \<Rightarrow> nat" where
  "occurrences val vals = length (filter (\<lambda>v. v = val) vals)"

definition net_created :: "catalog \<Rightarrow> catalog_slot_value \<Rightarrow> bool" where
  "net_created spent val \<longleftrightarrow>
     \<not> occurrences val (kg_created_slots spent) \<le> occurrences val (kg_spent_slots spent)"

definition save_net_slot :: "'m catalog_sdk \<Rightarrow> catalog \<Rightarrow> catalog_slot_value \<Rightarrow> db \<Rightarrow> unit db_result" where
  "save_net_slot ks spent val db =
     db_then (db_write (save_catalog_indexed_slot_value (kv_asset_id val) (sc_tree_hash (ks_slot_codec ks) val)) db)
       (\<lambda>_. db_write (save_slot (ks_slot_codec ks) (ks_created_slot ks spent val) 0))"

text \<open>The loop over the created slots, \<open>processed\<close> the hashes already seen.\<close>

fun save_created ::
  "'m catalog_sdk \<Rightarrow> catalog \<Rightarrow> bytes32 set \<Rightarrow> catalog_slot_value list \<Rightarrow> db \<Rightarrow> unit db_result"
where
  "save_created ks spent processed [] db = (Inr (), db)"
| "save_created ks spent processed (val # vals) db =
     (let slot_value_hash = sc_tree_hash (ks_slot_codec ks) val
      in if slot_value_hash \<in> processed then save_created ks spent processed vals db
         else
           db_then (if net_created spent val then save_net_slot ks spent val db else (Inr (), db)) (\<lambda>_.
             save_created ks spent (insert slot_value_hash processed) vals))"

section \<open>Walking to the tip\<close>

definition catalog_turn ::
  "('n, 'z) sdk_scheme \<Rightarrow> 'm catalog_sdk \<Rightarrow> client \<Rightarrow> catalog_constants \<Rightarrow> catalog \<Rightarrow> bool \<Rightarrow> db
    \<Rightarrow> catalog option db_result"
where
  "catalog_turn sdk ks client constants catalog skip_save db =
     (let coin_id = sdk_coin_id sdk (kg_coin catalog)
      in db_then (db_read (required (cl_coin_record_by_name client coin_id) (CoinNotFound coin_id)) db)
           (\<lambda>coin_record db.
         db_then (if skip_save then (Inr (), db)
                  else db_write (save_singleton_coin sdk (kc_launcher_id constants) coin_record) db) (\<lambda>_ db.
         if \<not> cr_spent coin_record then (Inr None, db)
         else
           let spent_id = sdk_coin_id sdk (cr_coin coin_record)
           in db_then (db_read (required
                  (cl_puzzle_and_solution client spent_id (Some (cr_spent_block_index coin_record)))
                  (CoinNotSpent spent_id)) db) (\<lambda>coin_spend db.
              db_then (db_read (required (map_err Driver (ks_from_spend ks coin_spend constants))
                  (Custom ''Could not parse new CATalog registry spend'')) db) (\<lambda>spent db.
              db_then (db_each (mark_spent_asset constants (cr_spent_block_index coin_record))
                         (kg_spent_slots spent) db) (\<lambda>_ db.
              db_then (save_created ks spent {} (kg_created_slots spent) db) (\<lambda>_ db.
                (Inr (Some (ks_child ks spent (kg_latest_state spent))), db))))))))"

fun catalog_walk ::
  "nat \<Rightarrow> ('n, 'z) sdk_scheme \<Rightarrow> 'm catalog_sdk \<Rightarrow> client \<Rightarrow> catalog_constants \<Rightarrow> catalog \<Rightarrow> bool \<Rightarrow> db
    \<Rightarrow> catalog db_result option"
where
  "catalog_walk 0 sdk ks client constants catalog skip_save db = None"
| "catalog_walk (Suc fuel) sdk ks client constants catalog skip_save db =
     (case catalog_turn sdk ks client constants catalog skip_save db of
        (Inl e, db) \<Rightarrow> Some (Inl e, db)
      | (Inr None, db) \<Rightarrow> Some (Inr catalog, db)
      | (Inr (Some child), db) \<Rightarrow> catalog_walk fuel sdk ks client constants child False db)"

interpretation cw: chain_walk
  "\<lambda>fuel. catalog_walk fuel sdk ks client constants" "catalog_turn sdk ks client constants"
  for sdk ks client constants
  by unfold_locales simp_all

text \<open>A pending spend moves the registry one spend further.\<close>

definition pending_catalog ::
  "'m catalog_sdk \<Rightarrow> client \<Rightarrow> catalog_constants \<Rightarrow> bytes32 \<Rightarrow> cli_error + catalog option"
where
  "pending_catalog ks client constants coin_id =
     try_result (cl_mempool_items client coin_id) (\<lambda>items.
       case items of
         Some (spend_bundle # _) \<Rightarrow> map_err Driver (ks_from_mempool_item ks spend_bundle constants)
       | _ \<Rightarrow> Inr None)"

definition sync_catalog ::
  "nat \<Rightarrow> ('n, 'z) sdk_scheme \<Rightarrow> 'm catalog_sdk \<Rightarrow> client \<Rightarrow> catalog_constants \<Rightarrow> db \<Rightarrow> catalog db_result option"
where
  "sync_catalog fuel sdk ks client constants db =
     (case start_catalog sdk ks client constants db of
        (Inl e, db) \<Rightarrow> Some (Inl e, db)
      | (Inr (catalog, skip_save), db) \<Rightarrow>
          map_option (\<lambda>(r, db).
            (try_result r (\<lambda>tip.
               try_result (pending_catalog ks client constants (sdk_coin_id sdk (kg_coin tip))) (\<lambda>pending.
                 Inr (unwrap_or pending tip))), db))
            (catalog_walk fuel sdk ks client constants catalog skip_save db))"

section \<open>Finding the tip alone\<close>

fun first_catalog_spend ::
  "'m catalog_sdk \<Rightarrow> client \<Rightarrow> catalog_constants \<Rightarrow> coin_record list \<Rightarrow> cli_error + coin_spend option"
where
  "first_catalog_spend ks client constants [] = Inr None"
| "first_catalog_spend ks client constants (coin_record # records) =
     (if cr_spent_block_index coin_record > 0 then first_catalog_spend ks client constants records
      else
        let parent = parent_coin_info (cr_coin coin_record)
        in try_result (required (cl_puzzle_and_solution client parent (Some (cr_confirmed_block_index coin_record)))
                         (CoinNotSpent parent)) (\<lambda>next_spend.
           try_result (map_err Driver (ks_from_parent_spend ks next_spend constants)) (\<lambda>catalog_maybe.
             if catalog_maybe \<noteq> None then Inr (Some next_spend)
             else first_catalog_spend ks client constants records)))"

definition quick_sync_catalog ::
  "('n, 'z) sdk_scheme \<Rightarrow> 'm catalog_sdk \<Rightarrow> client \<Rightarrow> catalog_constants \<Rightarrow> cli_error + catalog"
where
  "quick_sync_catalog sdk ks client constants =
     try_result (required (cl_coin_records_by_hint client (kc_launcher_id constants))
                   (Custom ''No unspent CATalog records found'')) (\<lambda>records.
     try_result (required (first_catalog_spend ks client constants records)
                   (Custom ''Could not find CATalog coin'')) (\<lambda>coin_spend.
     try_result (pending_catalog ks client constants (sdk_coin_id sdk (spend_coin coin_spend))) (\<lambda>pending.
       case pending of
         Some new_catalog \<Rightarrow> Inr new_catalog
       | None \<Rightarrow>
           required (map_err Driver (ks_from_parent_spend ks coin_spend constants))
             (Custom ''Could not parse CATalog spend''))))"

end
