(* ===== verification/QuickSync.thy ===== *)
theory QuickSync
  imports CatalogSync DatabaseFacts
begin

text \<open>
  \<open>xchandles/quick_sync.rs\<close>, and what the quick synchronizations make of pending spends: they look for
  one of the coin whose spend created the tip, which is spent, and not of the tip.
\<close>

text \<open>The constants are cached in the database; else they are read from the launcher and saved.\<close>

definition registry_constants ::
  "'c registry_sdk \<Rightarrow> client \<Rightarrow> bytes32 \<Rightarrow> db \<Rightarrow> 'c db_result"
where
  "registry_constants xs client launcher_id db =
     db_then (db_read (get_xchandles_configuration (xs_constants_codec xs) launcher_id db) db) (\<lambda>saved db.
       case saved of
         Some c \<Rightarrow> (Inr c, db)
       | None \<Rightarrow>
           db_then (db_read (required (cl_coin_record_by_name client launcher_id) (CoinNotFound launcher_id)) db)
             (\<lambda>coin_record db.
           db_then (db_read (required
                (cl_puzzle_and_solution client launcher_id (Some (cr_spent_block_index coin_record)))
                (CoinNotSpent launcher_id)) db) (\<lambda>coin_spend db.
           db_then (db_read (required
                (map_err Driver (xs_from_launcher_solution xs (cr_coin coin_record) (spend_solution coin_spend)))
                (Custom ''Could not parse XCHandles launcher spend'')) db) (\<lambda>(eve_registry, _, _) db.
           db_then (db_write (save_xchandles_configuration (xs_constants_codec xs) (xs_launcher_id xs)
                (rg_constants eve_registry)) db) (\<lambda>_ db. (Inr (rg_constants eve_registry), db))))))"

text \<open>Here a spend that cannot be parsed is passed over, and so is one that is no registry's.\<close>

fun first_registry_spend ::
  "'c registry_sdk \<Rightarrow> client \<Rightarrow> 'c \<Rightarrow> coin_record list \<Rightarrow> cli_error + coin_spend option"
where
  "first_registry_spend xs client constants [] = Inr None"
| "first_registry_spend xs client constants (coin_record # records) =
     (if cr_spent_block_index coin_record > 0 then first_registry_spend xs client constants records
      else
        let parent = parent_coin_info (cr_coin coin_record)
        in try_result (required (cl_puzzle_and_solution client parent (Some (cr_confirmed_block_index coin_record)))
                         (CoinNotSpent parent)) (\<lambda>spend.
             case xs_from_parent_spend xs spend constants of
               Inr (Some _) \<Rightarrow> Inr (Some spend)
             | _ \<Rightarrow> first_registry_spend xs client constants records))"

definition pending_registry :: "'c registry_sdk \<Rightarrow> client \<Rightarrow> 'c \<Rightarrow> bytes32 \<Rightarrow> cli_error + 'c registry option" where
  "pending_registry xs client constants coin_id =
     try_result (cl_mempool_items client coin_id) (\<lambda>items.
       case items of
         Some (spend_bundle # _) \<Rightarrow> map_err Driver (xs_from_mempool_item xs spend_bundle constants)
       | _ \<Rightarrow> Inr None)"

definition quick_sync_tip ::
  "('n, 'z) sdk_scheme \<Rightarrow> 'c registry_sdk \<Rightarrow> client \<Rightarrow> bytes32 \<Rightarrow> 'c \<Rightarrow> cli_error + 'c registry"
where
  "quick_sync_tip sdk xs client launcher_id constants =
     try_result (required (cl_coin_records_by_hint client launcher_id)
                   (Custom ''No unspent XCHandles records found'')) (\<lambda>records.
     try_result (required (first_registry_spend xs client constants records)
                   (Custom ''Could not find XCHandles registry'')) (\<lambda>coin_spend.
     try_result (pending_registry xs client constants (sdk_coin_id sdk (spend_coin coin_spend))) (\<lambda>pending.
       case pending of
         Some new_registry \<Rightarrow> Inr new_registry
       | None \<Rightarrow>
           required (map_err Driver (xs_from_parent_spend xs coin_spend constants))
             (Custom ''Could not parse latest XCHandles registry''))))"

definition quick_sync_xchandles ::
  "('n, 'z) sdk_scheme \<Rightarrow> 'c registry_sdk \<Rightarrow> client \<Rightarrow> bytes32 \<Rightarrow> db \<Rightarrow> 'c registry db_result"
where
  "quick_sync_xchandles sdk xs client launcher_id db =
     db_then (registry_constants xs client launcher_id db) (\<lambda>constants.
       db_read (quick_sync_tip sdk xs client launcher_id constants))"

section \<open>Pending spends are never seen\<close>

text \<open>
  What the node guarantees: the spend it returns for a coin is that coin's, and no pending bundle spends a
  coin that is spent already.
\<close>

definition spent_coins_not_pending :: "('n, 'z) sdk_scheme \<Rightarrow> client \<Rightarrow> bool" where
  "spent_coins_not_pending sdk client \<longleftrightarrow>
     (\<forall>coin_id height coin_spend. cl_puzzle_and_solution client coin_id height = Inr (Some coin_spend) \<longrightarrow>
        sdk_coin_id sdk (spend_coin coin_spend) = coin_id \<and>
        (cl_mempool_items client coin_id = Inr None \<or> cl_mempool_items client coin_id = Inr (Some [])))"

definition without_mempool :: "client \<Rightarrow> client" where
  "without_mempool client = client\<lparr>cl_mempool_items := \<lambda>_. Inr None\<rparr>"

lemma without_mempool_simps [simp]:
  "cl_coin_record_by_name (without_mempool client) = cl_coin_record_by_name client"
  "cl_coin_records_by_hint (without_mempool client) = cl_coin_records_by_hint client"
  "cl_puzzle_and_solution (without_mempool client) = cl_puzzle_and_solution client"
  "cl_mempool_items (without_mempool client) i = Inr None"
  by (simp_all add: without_mempool_def)

lemma first_catalog_spend_mempool [simp]:
  "first_catalog_spend ks (without_mempool client) constants records = first_catalog_spend ks client constants records"
  by (induction records) (auto simp: Let_def intro!: try_result_cong)

lemma first_registry_spend_mempool [simp]:
  "first_registry_spend xs (without_mempool client) constants records =
     first_registry_spend xs client constants records"
  by (induction records) (auto simp: Let_def intro!: try_result_cong split: sum.splits option.splits)

lemma first_catalog_spend_spent:
  "first_catalog_spend ks client constants records = Inr (Some cs) \<Longrightarrow>
    \<exists>i h. cl_puzzle_and_solution client i h = Inr (Some cs)"
  by (induction records) (auto simp: Let_def result_simps split: if_splits)

lemma first_registry_spend_spent:
  "first_registry_spend xs client constants records = Inr (Some cs) \<Longrightarrow>
    \<exists>i h. cl_puzzle_and_solution client i h = Inr (Some cs)"
proof (induction records)
  case (Cons a records)
  show ?case
  proof (cases "0 < cr_spent_block_index a")
    case False
    with Cons.prems obtain spend where
      spend: "cl_puzzle_and_solution client (parent_coin_info (cr_coin a)) (Some (cr_confirmed_block_index a)) =
        Inr (Some spend)"
      and rest: "(case xs_from_parent_spend xs spend constants of
          Inr (Some _) \<Rightarrow> Inr (Some spend) | _ \<Rightarrow> first_registry_spend xs client constants records) = Inr (Some cs)"
      by (auto simp: Let_def try_result_Inr required_Inr)
    from rest have "spend = cs \<or> first_registry_spend xs client constants records = Inr (Some cs)"
      by (auto split: sum.splits option.splits)
    with Cons.IH spend show ?thesis by blast
  qed (use Cons in simp)
qed simp

lemma spent_not_pending:
  assumes "spent_coins_not_pending sdk client" and "\<exists>i h. cl_puzzle_and_solution client i h = Inr (Some cs)"
  shows "pending_catalog ks client constants (sdk_coin_id sdk (spend_coin cs)) = Inr None"
    and "pending_registry xs client c (sdk_coin_id sdk (spend_coin cs)) = Inr None"
proof -
  from assms have "cl_mempool_items client (sdk_coin_id sdk (spend_coin cs)) \<in> {Inr None, Inr (Some [])}"
    unfolding spent_coins_not_pending_def by blast
  then show "pending_catalog ks client constants (sdk_coin_id sdk (spend_coin cs)) = Inr None"
    and "pending_registry xs client c (sdk_coin_id sdk (spend_coin cs)) = Inr None"
    by (auto simp: pending_catalog_def pending_registry_def)
qed

lemma registry_constants_mempool [simp]:
  "registry_constants xs (without_mempool client) launcher_id db = registry_constants xs client launcher_id db"
  by (simp add: registry_constants_def cong: option.case_cong)

text \<open>
  The quick synchronizations never see a pending spend: over a node that lists no pending bundle for a
  coin already spent, both return what they return when the mempool is empty, whatever it holds.
\<close>

theorem quick_sync_ignores_pending:
  assumes "spent_coins_not_pending sdk client"
  shows "quick_sync_catalog sdk ks client constants = quick_sync_catalog sdk ks (without_mempool client) constants \<and>
    quick_sync_xchandles sdk xs client launcher_id db =
      quick_sync_xchandles sdk xs (without_mempool client) launcher_id db"
proof -
  have none: "pending_catalog ks (without_mempool client) k i = Inr None"
    "pending_registry xs (without_mempool client) c i = Inr None" for k c i
    by (simp_all add: pending_catalog_def pending_registry_def)
  have pending: "pending_catalog ks client constants (sdk_coin_id sdk (spend_coin cs)) = Inr None"
    if "first_catalog_spend ks client constants records = Inr (Some cs)" for records cs
    using spent_not_pending(1) [OF assms first_catalog_spend_spent [OF that]] .
  have pending': "pending_registry xs client c (sdk_coin_id sdk (spend_coin cs)) = Inr None"
    if "first_registry_spend xs client c records = Inr (Some cs)" for c records cs
    using spent_not_pending(2) [OF assms first_registry_spend_spent [OF that]] .
  have "quick_sync_catalog sdk ks client constants = quick_sync_catalog sdk ks (without_mempool client) constants"
    by (auto simp: quick_sync_catalog_def none required_Inr pending intro!: try_result_cong)
  moreover have "quick_sync_tip sdk xs client launcher_id c = quick_sync_tip sdk xs (without_mempool client) launcher_id c"
    for c
    by (auto simp: quick_sync_tip_def none required_Inr pending' intro!: try_result_cong)
  ultimately show ?thesis by (simp add: quick_sync_xchandles_def)
qed

text \<open>
  The registry's tip 1021031 with a pending spend of it, which the SDK would parse to another registry; and
  a CATalog of the same coins.
\<close>

definition example_state :: catalog_state where
  "example_state = \<lparr>ct_cat_maker_puzzle_hash = 5, ct_registration_price = 1\<rparr>"

definition example_constants :: catalog_constants where
  "example_constants = \<lparr>kc_launcher_id = 1, kc_royalty_address = 2, kc_royalty_basis_points = 300,
     kc_precommit_payout_puzzle_hash = 3, kc_relative_block_height = 32, kc_price_singleton_launcher_id = 4\<rparr>"

definition example_catalog :: "coin \<Rightarrow> catalog" where
  "example_catalog c = \<lparr>kg_coin = c, kg_proof = example_proof, kg_state = example_state,
     kg_constants = example_constants, kg_created_slots = [], kg_spent_slots = [], kg_latest_state = example_state\<rparr>"

definition catalog_value :: "bytes32 \<Rightarrow> u64 \<Rightarrow> catalog_slot_value" where
  "catalog_value asset counter = \<lparr>kv_asset_id = asset, kv_counter = counter, kv_left_value = 0, kv_right_value = 0\<rparr>"

definition catalog_codec :: "catalog_slot_value slot_codec" where
  "catalog_codec =
     \<lparr>sc_to_bytes = (\<lambda>v. Inr [ucast (kv_asset_id v), ucast (kv_counter v)]),
      sc_from_bytes = (\<lambda>bs. case bs of [h, c] \<Rightarrow> Inr (catalog_value (ucast h) (ucast c)) | _ \<Rightarrow> Inl DbColumnParse),
      sc_tree_hash = (\<lambda>v. kv_asset_id v * 1000 + ucast (kv_counter v)),
      sc_coin = (\<lambda>_ _ _ _. example_tip_coin), sc_nonce = 0\<rparr>"

definition example_catalog_sdk :: "unit catalog_sdk" where
  "example_catalog_sdk =
     \<lparr>ks_from_parent_spend = (\<lambda>_ _. Inr (Some (example_catalog example_tip_coin))),
      ks_from_spend = (\<lambda>_ _. Inr (Some (example_catalog example_spent_coin))),
      ks_from_mempool_item = (\<lambda>_ _. Inr (Some (example_catalog example_spent_coin))),
      ks_child = (\<lambda>_ _. example_catalog example_tip_coin),
      ks_new = (\<lambda>c _ _ _. example_catalog c),
      ks_created_slot = (\<lambda>_ v. slot_new catalog_codec example_proof 1 0 v),
      ks_launcher_solution = (\<lambda>_. Inr 2), ks_eve_inner_hash = (\<lambda>_. Inr (Some 6)),
      ks_run = (\<lambda>_. Inr []), ks_eve_memos = (\<lambda>_. Inr (1, 0, example_state)),
      ks_left_end = catalog_value 0 0, ks_right_end = catalog_value 255 0, ks_slot_codec = catalog_codec\<rparr>"

definition pending_client :: client where
  "pending_client = example_client
     \<lparr>cl_coin_records_by_hint := (\<lambda>_. Inr (Some [\<lparr>cr_coin = example_tip_coin, cr_confirmed_block_index = 20,
        cr_spent_block_index = 0, cr_spent = False\<rparr>])),
      cl_mempool_items := (\<lambda>i. if i = 1021031 then Inr (Some [[]]) else Inr None)\<rparr>"

definition pending_sdk :: "unit registry_sdk" where
  "pending_sdk = example_registry_sdk
     \<lparr>xs_from_parent_spend := (\<lambda>_ _. Inr (Some (example_registry example_tip_coin))),
      xs_from_mempool_item := (\<lambda>_ _. Inr (Some (example_registry example_spent_coin)))\<rparr>"

lemma pending_client_ok: "spent_coins_not_pending fixture_sdk pending_client"
  by (auto simp: spent_coins_not_pending_def pending_client_def example_client_def split: if_splits)

lemma quick_sync_ignores_pending_witness:
  "cl_mempool_items pending_client (sdk_coin_id fixture_sdk example_tip_coin) = Inr (Some [[]]) \<and>
   quick_sync_catalog fixture_sdk example_catalog_sdk pending_client example_constants =
     Inr (example_catalog example_tip_coin) \<and>
   fst (quick_sync_xchandles fixture_sdk pending_sdk pending_client 1
     (db_new\<lparr>db_xchandles_configurations := [(to_bytes 1, [1])]\<rparr>)) = Inr (example_registry example_tip_coin)"
proof -
  note quick_sync_ignores_pending [OF pending_client_ok, where xs = pending_sdk and ks = example_catalog_sdk
      and constants = example_constants and launcher_id = 1
      and db = "db_new\<lparr>db_xchandles_configurations := [(to_bytes 1, [1])]\<rparr>"]
  moreover have "quick_sync_catalog fixture_sdk example_catalog_sdk (without_mempool pending_client) example_constants =
      Inr (example_catalog example_tip_coin)"
    by (simp add: quick_sync_catalog_def required_def pending_catalog_def Let_def)
       (simp add: required_def pending_client_def example_client_def example_catalog_sdk_def example_tip_coin_def)
  moreover have "quick_sync_tip fixture_sdk pending_sdk (without_mempool pending_client) 1 () =
      Inr (example_registry example_tip_coin)"
    by (simp add: quick_sync_tip_def required_def pending_registry_def Let_def)
       (simp add: required_def pending_client_def example_client_def pending_sdk_def example_registry_sdk_def example_tip_coin_def)
  moreover have "registry_constants pending_sdk (without_mempool pending_client) 1
      (db_new\<lparr>db_xchandles_configurations := [(to_bytes 1, [1])]\<rparr>) =
      (Inr (), db_new\<lparr>db_xchandles_configurations := [(to_bytes 1, [1])]\<rparr>)"
    by (simp add: registry_constants_def db_read_def get_xchandles_configuration_def db_new_def
        optional_constants_def pending_sdk_def example_registry_sdk_def)
  ultimately show ?thesis
    by (simp add: quick_sync_xchandles_def db_read_def) (simp add: pending_client_def)
qed

end
