(* ===== verification/CatalogSyncFacts.thy ===== *)
theory CatalogSyncFacts
  imports QuickSync XchSyncFacts
begin

text \<open>
  The database after a synchronization of the CATalog: the tables hold the current slot of every asset on
  chain, so the neighbour query answers for the chain. While one spend is written, the slots it spends are
  out of date; \<open>dirty\<close> is the set of their assets.
\<close>

section \<open>The tables and the chain's slots\<close>

definition asset_stored ::
  "catalog_slot_value slot_codec \<Rightarrow> bytes32 \<Rightarrow> db \<Rightarrow> catalog_slot_value \<Rightarrow> bool"
where
  "asset_stored codec launcher_id db val \<longleftrightarrow>
     (\<exists>slot. slot_value slot = val \<and>
        map (row_to_slot codec)
          (unspent_rows launcher_id 0 (Some (to_bytes (sc_tree_hash codec val))) db) = [Inr slot])"

text \<open>The index of the whole table: the CATalog is the only registry in it.\<close>

definition catalog_stored ::
  "catalog_slot_value slot_codec \<Rightarrow> bytes32 \<Rightarrow> bytes32 set \<Rightarrow> (bytes32 \<rightharpoonup> catalog_slot_value) \<Rightarrow> bytes32 set \<Rightarrow> db \<Rightarrow> bool"
where
  "catalog_stored codec launcher_id dirty cur seen db \<longleftrightarrow>
     \<not> db_failing db \<and> hm_ok (db_catalog_indexed db) \<and>
     (\<forall>k v. hm_get (db_catalog_indexed db) k = Some v \<longleftrightarrow>
        (\<exists>a val. k = to_bytes a \<and> cur a = Some val \<and> v = to_bytes (sc_tree_hash codec val))) \<and>
     (\<forall>a val. cur a = Some val \<longrightarrow>
        kv_asset_id val = a \<and> sc_tree_hash codec val \<in> seen \<and>
        (a \<in> dirty \<or> asset_stored codec launcher_id db val)) \<and>
     inj_on (\<lambda>a. sc_tree_hash codec (the (cur a))) (dom cur) \<and>
     (\<forall>row \<in> set (db_slots db). sl_singleton_launcher_id row = to_bytes launcher_id \<longrightarrow>
        sl_slot_value_hash row \<in> to_bytes ` seen)"

lemma catalog_storedD:
  assumes "catalog_stored codec launcher_id dirty cur seen db"
  shows "\<not> db_failing db" and "hm_ok (db_catalog_indexed db)"
    and "cur a = Some val \<Longrightarrow> hm_get (db_catalog_indexed db) (to_bytes a) = Some (to_bytes (sc_tree_hash codec val))"
    and "cur a = None \<Longrightarrow> hm_get (db_catalog_indexed db) (to_bytes a) = None"
    and "cur a = Some val \<Longrightarrow> kv_asset_id val = a"
    and "cur a = Some val \<Longrightarrow> sc_tree_hash codec val \<in> seen"
    and "cur a = Some val \<Longrightarrow> a \<notin> dirty \<Longrightarrow> asset_stored codec launcher_id db val"
    and "cur a = Some val \<Longrightarrow> cur b = Some val' \<Longrightarrow> a \<noteq> b \<Longrightarrow> sc_tree_hash codec val \<noteq> sc_tree_hash codec val'"
    and "row \<in> set (db_slots db) \<Longrightarrow> sl_singleton_launcher_id row = to_bytes launcher_id \<Longrightarrow>
      sl_slot_value_hash row \<in> to_bytes ` seen"
proof -
  note stored = assms [unfolded catalog_stored_def]
  show "cur a = None \<Longrightarrow> hm_get (db_catalog_indexed db) (to_bytes a) = None"
    using stored by (cases "hm_get (db_catalog_indexed db) (to_bytes a)") auto
  show "cur a = Some val \<Longrightarrow> cur b = Some val' \<Longrightarrow> a \<noteq> b \<Longrightarrow> sc_tree_hash codec val \<noteq> sc_tree_hash codec val'"
    using stored by (fastforce simp: inj_on_def dom_def)
qed (use assms in \<open>auto simp: catalog_stored_def\<close>)

lemma catalog_stored_index:
  assumes "catalog_stored codec launcher_id dirty cur seen db"
  shows "(k, v) \<in> set (db_catalog_indexed db) \<longleftrightarrow>
    (\<exists>a val. k = to_bytes a \<and> cur a = Some val \<and> v = to_bytes (sc_tree_hash codec val))"
  using assms hm_get_in_set [of "db_catalog_indexed db" k v] by (simp add: catalog_stored_def)

lemma catalog_stored_backed:
  assumes "catalog_stored codec launcher_id {} cur seen db"
  shows "backed codec kv_asset_id launcher_id 0 (db_catalog_indexed db) db"
  using assms catalog_stored_index [OF assms]
  by (fastforce simp: backed_def catalog_stored_def asset_stored_def)

lemma catalog_stored_keys:
  assumes "catalog_stored codec launcher_id dirty cur seen db"
  shows "indexed_keys (db_catalog_indexed db) = dom cur"
  using catalog_stored_index [OF assms] by (force simp: indexed_keys_def image_iff)

lemma catalog_stored_found:
  assumes "catalog_stored codec launcher_id {} cur seen db"
    and "(to_bytes (kv_asset_id (slot_value slot)), v) \<in> set (db_catalog_indexed db)"
    and "collect_results (row_to_slot codec) (unspent_rows launcher_id 0 (Some v) db) = Inr [slot]"
  shows "cur (kv_asset_id (slot_value slot)) = Some (slot_value slot)"
proof -
  from assms(2) obtain val where cur: "cur (kv_asset_id (slot_value slot)) = Some val"
    and v: "v = to_bytes (sc_tree_hash codec val)" unfolding catalog_stored_index [OF assms(1)] by auto
  from catalog_storedD(7) [OF assms(1) cur] have "asset_stored codec launcher_id db val" by simp
  then obtain slot' where "slot_value slot' = val"
    and rows: "map (row_to_slot codec) (unspent_rows launcher_id 0 (Some v) db) = [Inr slot']"
    by (auto simp: asset_stored_def v)
  moreover from rows have "collect_results (row_to_slot codec) (unspent_rows launcher_id 0 (Some v) db) = Inr [slot']"
    by auto
  ultimately show ?thesis using assms(3) cur by simp
qed

definition assets_around ::
  "(bytes32 \<rightharpoonup> catalog_slot_value) \<Rightarrow> bytes32
    \<Rightarrow> cli_error + catalog_slot_value slot \<times> catalog_slot_value slot \<Rightarrow> bool"
where
  "assets_around cur a answer \<longleftrightarrow>
     (case answer of
        Inl e \<Rightarrow> e = DbColumnNotFound \<and> ((\<forall>b \<in> dom cur. a \<le> b) \<or> (\<forall>b \<in> dom cur. b \<le> a))
      | Inr (left, right) \<Rightarrow>
          (let l = kv_asset_id (slot_value left); r = kv_asset_id (slot_value right)
           in cur l = Some (slot_value left) \<and> l < a \<and> (\<forall>b \<in> dom cur. b < a \<longrightarrow> b \<le> l) \<and>
              cur r = Some (slot_value right) \<and> a < r \<and> (\<forall>b \<in> dom cur. a < b \<longrightarrow> r \<le> b)))"

lemma catalog_stored_neighbours:
  assumes "catalog_stored codec launcher_id {} cur seen db"
  shows "assets_around cur a (get_catalog_neighbors codec launcher_id a db)"
proof -
  have online: "\<not> db_failing db" using assms by (simp add: catalog_stored_def)
  show ?thesis
    using left_neighbour [OF catalog_stored_backed [OF assms], of a]
      right_neighbour [OF catalog_stored_backed [OF assms], of a] catalog_stored_found [OF assms]
    by (cases "indexed_before (db_catalog_indexed db) (to_bytes a)";
        cases "indexed_after (db_catalog_indexed db) (to_bytes a)")
      (auto simp: get_catalog_neighbors_def neighbour_slots_def online catalog_stored_keys [OF assms]
        assets_around_def)
qed

lemma catalog_stored_coins:
  "catalog_stored codec launcher_id dirty cur seen (db\<lparr>db_singleton_coins := coins\<rparr>) =
     catalog_stored codec launcher_id dirty cur seen db"
  by (simp add: catalog_stored_def asset_stored_def unspent_rows_def)

section \<open>Marking the slots a spend spends\<close>

lemma catalog_stored_mark:
  assumes "catalog_stored codec (kc_launcher_id constants) dirty cur seen db"
  shows "\<exists>db'. mark_spent_asset constants height val db = (Inr (), db') \<and>
    db_singleton_coins db' = db_singleton_coins db \<and>
    catalog_stored codec (kc_launcher_id constants) (insert (kv_asset_id val) dirty) cur seen db'"
proof (cases "cur (kv_asset_id val)")
  case None
  then have "mark_spent_asset constants height val db = (Inr (), db)"
    using catalog_storedD(1,4) [OF assms]
    by (simp add: mark_spent_asset_def db_read_def get_catalog_indexed_slot_value_def optional_bytes32_def)
  moreover have "catalog_stored codec (kc_launcher_id constants) (insert (kv_asset_id val) dirty) cur seen db"
    using assms unfolding catalog_stored_def by blast
  ultimately show ?thesis by blast
next
  case (Some w)
  let ?launcher = "kc_launcher_id constants" and ?hash = "sc_tree_hash codec"
  let ?f = "\<lambda>row. if slot_key_matches ?launcher 0 (?hash w) row \<and> sl_spent_block_height row = 0
      then row\<lparr>sl_spent_block_height := height\<rparr> else row"
  define db' where "db' = db\<lparr>db_slots := map ?f (db_slots db)\<rparr>"
  have marked: "mark_spent_asset constants height val db = (Inr (), db')"
    using catalog_storedD(1) [OF assms] catalog_storedD(3) [OF assms Some]
    by (simp add: mark_spent_asset_def db_read_def get_catalog_indexed_slot_value_def optional_bytes32_def
        mark_slot_as_spent_def db_write_def db'_def)
  have rows: "unspent_rows ?launcher 0 (Some (to_bytes x)) db' = unspent_rows ?launcher 0 (Some (to_bytes x)) db"
    if "x \<noteq> ?hash w" for x
    using that by (auto simp: unspent_rows_def db'_def slot_key_matches_def intro!: filter_map_same split: if_splits)
  have kept: "asset_stored codec ?launcher db' v" if "cur a = Some v" "a \<noteq> kv_asset_id val" "a \<notin> dirty" for a v
    using catalog_storedD(7) [OF assms that(1,3)] rows [OF catalog_storedD(8) [OF assms that(1) Some that(2)]]
    by (simp add: asset_stored_def)
  have "\<forall>row \<in> set (db_slots db'). sl_singleton_launcher_id row = to_bytes ?launcher \<longrightarrow>
      sl_slot_value_hash row \<in> to_bytes ` seen"
    using catalog_storedD(9) [OF assms] by (auto simp: db'_def)
  then have "catalog_stored codec ?launcher (insert (kv_asset_id val) dirty) cur seen db'"
    using assms kept unfolding catalog_stored_def by (auto simp: db'_def)
  with marked show ?thesis by (auto simp: db'_def)
qed

lemma catalog_stored_marks:
  assumes "catalog_stored codec (kc_launcher_id constants) dirty cur seen db"
  shows "\<exists>db'. db_each (mark_spent_asset constants height) vals db = (Inr (), db') \<and>
    db_singleton_coins db' = db_singleton_coins db \<and>
    catalog_stored codec (kc_launcher_id constants) (dirty \<union> kv_asset_id ` set vals) cur seen db'"
  using assms
proof (induction vals arbitrary: db dirty)
  case (Cons val vals)
  obtain d where d: "mark_spent_asset constants height val db = (Inr (), d)"
    "db_singleton_coins d = db_singleton_coins db"
    "catalog_stored codec (kc_launcher_id constants) (insert (kv_asset_id val) dirty) cur seen d"
    using catalog_stored_mark [OF Cons.prems] by blast
  from Cons.IH [OF d(3)] d show ?case by auto
qed simp

section \<open>Writing the slots a spend creates\<close>

text \<open>What the SDK guarantees of the slot it makes of a created value, and the codec of that value.\<close>

definition asset_slot_made :: "'m catalog_sdk \<Rightarrow> bytes32 \<Rightarrow> catalog \<Rightarrow> catalog_slot_value \<Rightarrow> bool" where
  "asset_slot_made ks launcher_id spent val \<longleftrightarrow>
     (let slot = ks_created_slot ks spent val; codec = ks_slot_codec ks
      in slot_launcher_id slot = launcher_id \<and> slot_nonce slot = 0 \<and> slot_value slot = val \<and>
         slot_value_hash slot = sc_tree_hash codec val \<and>
         (\<exists>bytes. sc_to_bytes codec val = Inr bytes \<and> sc_from_bytes codec bytes = Inr val))"

lemma catalog_stored_create:
  assumes stored: "catalog_stored (ks_slot_codec ks) launcher_id dirty cur seen db"
    and fresh: "sc_tree_hash (ks_slot_codec ks) val \<notin> seen"
    and made: "asset_slot_made ks launcher_id spent val"
  shows "\<exists>db'. save_net_slot ks spent val db = (Inr (), db') \<and>
    db_singleton_coins db' = db_singleton_coins db \<and>
    catalog_stored (ks_slot_codec ks) launcher_id (dirty - {kv_asset_id val}) (cur(kv_asset_id val \<mapsto> val))
      (insert (sc_tree_hash (ks_slot_codec ks) val) seen) db'"
proof -
  let ?codec = "ks_slot_codec ks" and ?slot = "ks_created_slot ks spent val"
  let ?hash = "sc_tree_hash ?codec val" and ?cur = "cur(kv_asset_id val \<mapsto> val)"
  from made obtain bytes where bytes: "sc_to_bytes ?codec val = Inr bytes" "sc_from_bytes ?codec bytes = Inr val"
    and slot: "slot_launcher_id ?slot = launcher_id" "slot_nonce ?slot = 0" "slot_value ?slot = val"
      "slot_value_hash ?slot = ?hash"
    by (auto simp: asset_slot_made_def Let_def)
  define row where "row = slot_to_row ?slot bytes 0"
  have row: "sl_singleton_launcher_id row = to_bytes launcher_id" "sl_nonce row = 0"
    "sl_slot_value_hash row = to_bytes ?hash" "sl_spent_block_height row = 0"
    by (simp_all add: row_def slot_to_row_def slot)
  have read: "\<exists>s. row_to_slot ?codec row = Inr s \<and> slot_value s = val"
    by (simp add: row_to_slot_def row_def slot_to_row_def bytes slot_new_def)
  define db' where "db' = db\<lparr>
    db_catalog_indexed := hm_insert (to_bytes (kv_asset_id val)) (to_bytes ?hash) (db_catalog_indexed db),
    db_slots := db_slots db @ [row]\<rparr>"
  have new: "sl_slot_value_hash r \<noteq> to_bytes ?hash"
    if "r \<in> set (db_slots db)" "sl_singleton_launcher_id r = to_bytes launcher_id" for r
    using catalog_storedD(9) [OF stored that] fresh by auto
  then have "\<forall>r \<in> set (db_slots db). \<not> same_slot_key r row"
    by (auto simp: same_slot_key_def row)
  then have saved: "save_net_slot ks spent val db = (Inr (), db')"
    using catalog_storedD(1) [OF stored]
    by (simp add: save_net_slot_def db_write_def save_catalog_indexed_slot_value_def save_slot_def
        slot bytes db'_def insert_slot_row_new row_def)
  have rows: "unspent_rows launcher_id 0 (Some (to_bytes x)) db' =
      unspent_rows launcher_id 0 (Some (to_bytes x)) db @ (if x = ?hash then [row] else [])" for x
    by (auto simp: unspent_rows_def db'_def row)
  have "unspent_rows launcher_id 0 (Some (to_bytes ?hash)) db = []"
    using new by (auto simp: unspent_rows_def filter_empty_conv)
  then have this_stored: "asset_stored ?codec launcher_id db' val"
    using read by (auto simp: asset_stored_def rows)
  have other: "sc_tree_hash ?codec v \<noteq> ?hash" if "cur a = Some v" for a v
    using catalog_storedD(6) [OF stored that] fresh by auto
  have kept: "asset_stored ?codec launcher_id db' v" if "cur a = Some v" "a \<notin> dirty" for a v
    using catalog_storedD(7) [OF stored that] other [OF that(1)] by (simp add: asset_stored_def rows)
  have index: "(hm_get (db_catalog_indexed db') k = Some v) \<longleftrightarrow>
      (\<exists>a w. k = to_bytes a \<and> ?cur a = Some w \<and> v = to_bytes (sc_tree_hash ?codec w))" for k v
    using stored by (auto simp: catalog_stored_def db'_def)
  have holds: "kv_asset_id v = a \<and> sc_tree_hash ?codec v \<in> insert ?hash seen \<and>
      (a \<in> dirty - {kv_asset_id val} \<or> asset_stored ?codec launcher_id db' v)" if "?cur a = Some v" for a v
  proof (cases "a = kv_asset_id val")
    case True
    with that this_stored show ?thesis by simp
  next
    case False
    with that have v: "cur a = Some v" by simp
    from kept [OF v] catalog_storedD(5,6) [OF stored v] False show ?thesis by blast
  qed
  have inj: "inj_on (\<lambda>a. sc_tree_hash ?codec (the (?cur a))) (dom ?cur)"
  proof (rule inj_onI)
    fix a b
    assume ab: "a \<in> dom ?cur" "b \<in> dom ?cur"
      and eq: "sc_tree_hash ?codec (the (?cur a)) = sc_tree_hash ?codec (the (?cur b))"
    show "a = b"
    proof (cases "a = kv_asset_id val"; cases "b = kv_asset_id val")
      assume "a \<noteq> kv_asset_id val" "b \<noteq> kv_asset_id val"
      with ab obtain v w where "cur a = Some v" "cur b = Some w" by auto
      with eq catalog_storedD(8) [OF stored this] \<open>a \<noteq> kv_asset_id val\<close> \<open>b \<noteq> kv_asset_id val\<close>
      show ?thesis by auto
    qed (use ab eq other in \<open>auto dest: sym\<close>)
  qed
  have all_seen: "\<forall>r \<in> set (db_slots db'). sl_singleton_launcher_id r = to_bytes launcher_id \<longrightarrow>
      sl_slot_value_hash r \<in> to_bytes ` insert ?hash seen"
    using catalog_storedD(9) [OF stored] by (auto simp: db'_def row)
  have "\<not> db_failing db'" "hm_ok (db_catalog_indexed db')"
    using catalog_storedD(1,2) [OF stored] by (simp_all add: db'_def)
  with index holds inj all_seen have "catalog_stored ?codec launcher_id (dirty - {kv_asset_id val}) ?cur (insert ?hash seen) db'"
    unfolding catalog_stored_def by blast
  with saved show ?thesis by (auto simp: db'_def)
qed

text \<open>The values the loop still has to write, and the chain's slots once it has.\<close>

definition left_to_write :: "'m catalog_sdk \<Rightarrow> catalog \<Rightarrow> bytes32 set \<Rightarrow> catalog_slot_value \<Rightarrow> bool" where
  "left_to_write ks spent processed v \<longleftrightarrow> net_created spent v \<and> sc_tree_hash (ks_slot_codec ks) v \<notin> processed"

definition slots_after ::
  "(catalog_slot_value \<Rightarrow> bool) \<Rightarrow> catalog_slot_value list \<Rightarrow> (bytes32 \<rightharpoonup> catalog_slot_value)
    \<Rightarrow> (bytes32 \<rightharpoonup> catalog_slot_value)"
where
  "slots_after written vals cur =
     (\<lambda>a. case find (\<lambda>v. written v \<and> kv_asset_id v = a) vals of Some v \<Rightarrow> Some v | None \<Rightarrow> cur a)"

lemma slots_after_skip: "\<not> written val \<Longrightarrow> slots_after written (val # vals) cur = slots_after written vals cur"
  by (simp add: slots_after_def)

lemma slots_after_cong:
  "(\<And>v. v \<in> set vals \<Longrightarrow> written v \<longleftrightarrow> written' v) \<Longrightarrow> slots_after written vals cur = slots_after written' vals cur"
  by (auto simp: slots_after_def fun_eq_iff cong: find_cong)

lemma slots_after_write:
  assumes "written val" and "\<And>v. v \<in> set vals \<Longrightarrow> written' v \<longleftrightarrow> written v \<and> v \<noteq> val"
    and "inj_on kv_asset_id {v \<in> set (val # vals). written v}"
  shows "slots_after written (val # vals) cur = slots_after written' vals (cur(kv_asset_id val \<mapsto> val))"
proof
  fix a
  show "slots_after written (val # vals) cur a = slots_after written' vals (cur(kv_asset_id val \<mapsto> val)) a"
  proof (cases "a = kv_asset_id val")
    case True
    have "find (\<lambda>v. written' v \<and> kv_asset_id v = a) vals = None"
      unfolding find_None_iff
    proof
      assume "\<exists>v. v \<in> set vals \<and> written' v \<and> kv_asset_id v = a"
      then obtain v where "v \<in> set vals" "written' v" "kv_asset_id v = kv_asset_id val" using True by blast
      with assms show False by (auto simp: inj_on_def)
    qed
    with True assms(1) show ?thesis by (simp add: slots_after_def)
  next
    case False
    then have "find (\<lambda>v. written v \<and> kv_asset_id v = a) vals = find (\<lambda>v. written' v \<and> kv_asset_id v = a) vals"
      using assms(2) by (intro find_cong) auto
    with False show ?thesis by (simp add: slots_after_def split: option.splits)
  qed
qed

text \<open>The loop writes the net created values, and each clears its asset.\<close>

lemma catalog_stored_creates:
  assumes "catalog_stored (ks_slot_codec ks) launcher_id dirty cur seen db"
    and "inj_on (sc_tree_hash (ks_slot_codec ks)) (set vals)"
    and "inj_on kv_asset_id {v \<in> set vals. left_to_write ks spent processed v}"
    and "\<forall>v \<in> set vals. left_to_write ks spent processed v \<longrightarrow>
      sc_tree_hash (ks_slot_codec ks) v \<notin> seen \<and> asset_slot_made ks launcher_id spent v"
  shows "\<exists>db'. save_created ks spent processed vals db = (Inr (), db') \<and>
    db_singleton_coins db' = db_singleton_coins db \<and>
    catalog_stored (ks_slot_codec ks) launcher_id
      (dirty - kv_asset_id ` {v \<in> set vals. left_to_write ks spent processed v})
      (slots_after (left_to_write ks spent processed) vals cur)
      (seen \<union> sc_tree_hash (ks_slot_codec ks) ` {v \<in> set vals. left_to_write ks spent processed v}) db'"
  using assms
proof (induction vals arbitrary: dirty cur seen db processed)
  case Nil
  then show ?case by (simp add: slots_after_def)
next
  case (Cons val vals)
  let ?hash = "sc_tree_hash (ks_slot_codec ks)"
  let ?processed = "insert (?hash val) processed"
  let ?left = "\<lambda>processed vs. {v \<in> set vs. left_to_write ks spent processed v}"
  have inj: "inj_on ?hash (set vals)" using Cons.prems(2) by simp
  have same: "left_to_write ks spent ?processed v \<longleftrightarrow> left_to_write ks spent processed v \<and> v \<noteq> val"
    if "v \<in> set vals" for v
    using that inj_onD [OF Cons.prems(2), of v val] by (auto simp: left_to_write_def)
  show ?case
  proof (cases "left_to_write ks spent processed val")
    case False
    define later where "later = (if ?hash val \<in> processed then processed else ?processed)"
    have eq: "left_to_write ks spent later v \<longleftrightarrow> left_to_write ks spent processed v" if "v \<in> set vals" for v
      using same [OF that] False by (auto simp: later_def)
    have sets: "?left processed (val # vals) = ?left later vals" "?left processed vals = ?left later vals"
      using False eq by auto
    have run: "save_created ks spent processed (val # vals) db = save_created ks spent later vals db"
      using False by (simp add: left_to_write_def later_def Let_def)
    have after: "slots_after (left_to_write ks spent processed) (val # vals) cur =
        slots_after (left_to_write ks spent later) vals cur"
      using False eq by (simp add: slots_after_skip cong: slots_after_cong)
    have "\<exists>db'. save_created ks spent later vals db = (Inr (), db') \<and>
        db_singleton_coins db' = db_singleton_coins db \<and>
        catalog_stored (ks_slot_codec ks) launcher_id (dirty - kv_asset_id ` ?left later vals)
          (slots_after (left_to_write ks spent later) vals cur) (seen \<union> ?hash ` ?left later vals) db'"
      using Cons.prems eq sets by (intro Cons.IH inj) auto
    then show ?thesis unfolding run after sets .
  next
    case True
    with Cons.prems(4) obtain d where d: "save_net_slot ks spent val db = (Inr (), d)"
      "db_singleton_coins d = db_singleton_coins db"
      "catalog_stored (ks_slot_codec ks) launcher_id (dirty - {kv_asset_id val}) (cur(kv_asset_id val \<mapsto> val))
        (insert (?hash val) seen) d"
      using catalog_stored_create [OF Cons.prems(1), of val] by auto
    have sets: "?left processed (val # vals) = insert val (?left ?processed vals)"
      using True same by auto
    have run: "save_created ks spent processed (val # vals) db = save_created ks spent ?processed vals d"
      using True d(1) by (simp add: left_to_write_def Let_def)
    have after: "slots_after (left_to_write ks spent processed) (val # vals) cur =
        slots_after (left_to_write ks spent ?processed) vals (cur(kv_asset_id val \<mapsto> val))"
      using True same Cons.prems(3) by (rule slots_after_write)
    have "inj_on kv_asset_id (?left ?processed vals)"
      using Cons.prems(3) unfolding sets by simp
    moreover have "\<forall>v \<in> set vals. left_to_write ks spent ?processed v \<longrightarrow>
        ?hash v \<notin> insert (?hash val) seen \<and> asset_slot_made ks launcher_id spent v"
      using Cons.prems(4) same by (auto simp: left_to_write_def)
    ultimately obtain d' where d': "save_created ks spent ?processed vals d = (Inr (), d')"
      "db_singleton_coins d' = db_singleton_coins d"
      "catalog_stored (ks_slot_codec ks) launcher_id (dirty - {kv_asset_id val} - kv_asset_id ` ?left ?processed vals)
        (slots_after (left_to_write ks spent ?processed) vals (cur(kv_asset_id val \<mapsto> val)))
        (insert (?hash val) seen \<union> ?hash ` ?left ?processed vals) d'"
      using Cons.IH [OF d(3) inj] by blast
    have "dirty - {kv_asset_id val} - kv_asset_id ` ?left ?processed vals =
        dirty - kv_asset_id ` ?left processed (val # vals)"
      and "insert (?hash val) seen \<union> ?hash ` ?left ?processed vals = seen \<union> ?hash ` ?left processed (val # vals)"
      unfolding sets by auto
    with d' d(2) show ?thesis unfolding run after by auto
  qed
qed

section \<open>One turn, and the walk\<close>

text \<open>What one spend of the registry does to the chain's slots.\<close>

definition created_net :: "catalog \<Rightarrow> catalog_slot_value set" where
  "created_net spent = {v \<in> set (kg_created_slots spent). net_created spent v}"

definition assets_after ::
  "catalog \<Rightarrow> (bytes32 \<rightharpoonup> catalog_slot_value) \<Rightarrow> (bytes32 \<rightharpoonup> catalog_slot_value)"
where
  "assets_after spent = slots_after (net_created spent) (kg_created_slots spent)"

text \<open>
  A spend as the chain makes them: a slot that is spent is created again for its asset with a fresh value
  (its counter grows), so every known asset with a spent slot has one net created value, and hashes differ.
\<close>

definition catalog_spend_ok ::
  "'m catalog_sdk \<Rightarrow> bytes32 \<Rightarrow> catalog \<Rightarrow> (bytes32 \<rightharpoonup> catalog_slot_value) \<Rightarrow> bytes32 set \<Rightarrow> bool"
where
  "catalog_spend_ok ks launcher_id spent cur seen \<longleftrightarrow>
     (let hash = sc_tree_hash (ks_slot_codec ks)
      in inj_on hash (set (kg_created_slots spent)) \<and> inj_on kv_asset_id (created_net spent) \<and>
         (\<forall>v \<in> created_net spent. hash v \<notin> seen \<and> asset_slot_made ks launcher_id spent v) \<and>
         kv_asset_id ` set (kg_spent_slots spent) \<inter> dom cur \<subseteq> kv_asset_id ` created_net spent)"

lemma slots_of_spend_stored:
  assumes "catalog_stored (ks_slot_codec ks) (kc_launcher_id constants) {} cur seen db"
    and "catalog_spend_ok ks (kc_launcher_id constants) spent cur seen"
  shows "\<exists>d1 d2. db_each (mark_spent_asset constants height) (kg_spent_slots spent) db = (Inr (), d1) \<and>
    save_created ks spent {} (kg_created_slots spent) d1 = (Inr (), d2) \<and>
    db_singleton_coins d2 = db_singleton_coins db \<and>
    catalog_stored (ks_slot_codec ks) (kc_launcher_id constants) {} (assets_after spent cur)
      (seen \<union> sc_tree_hash (ks_slot_codec ks) ` created_net spent) d2"
proof -
  let ?hash = "sc_tree_hash (ks_slot_codec ks)" and ?launcher = "kc_launcher_id constants"
  note ok = assms(2) [unfolded catalog_spend_ok_def Let_def]
  obtain d1 where d1: "db_each (mark_spent_asset constants height) (kg_spent_slots spent) db = (Inr (), d1)"
    "db_singleton_coins d1 = db_singleton_coins db"
    "catalog_stored (ks_slot_codec ks) ?launcher (kv_asset_id ` set (kg_spent_slots spent)) cur seen d1"
    using catalog_stored_marks [OF assms(1)] by auto
  let ?dirty = "kv_asset_id ` set (kg_spent_slots spent) \<inter> dom cur"
  have d1': "catalog_stored (ks_slot_codec ks) ?launcher ?dirty cur seen d1"
    using d1(3) unfolding catalog_stored_def by blast
  have left: "left_to_write ks spent {} = net_created spent" by (simp add: left_to_write_def fun_eq_iff)
  have net: "{v \<in> set (kg_created_slots spent). left_to_write ks spent {} v} = created_net spent"
    by (simp add: left created_net_def)
  obtain d2 where d2: "save_created ks spent {} (kg_created_slots spent) d1 = (Inr (), d2)"
    "db_singleton_coins d2 = db_singleton_coins d1"
    "catalog_stored (ks_slot_codec ks) ?launcher (?dirty - kv_asset_id ` created_net spent)
      (assets_after spent cur) (seen \<union> ?hash ` created_net spent) d2"
    using catalog_stored_creates [OF d1', of "kg_created_slots spent" spent "{}"] ok
    unfolding net assets_after_def left by (auto simp: created_net_def)
  have "?dirty - kv_asset_id ` created_net spent = {}" using ok by blast
  with d2 d1 show ?thesis by auto
qed

text \<open>What the node shows of a registry: that its coin is the unspent tip, or the spend that follows.\<close>

definition catalog_tip_shown :: "('n, 'z) sdk_scheme \<Rightarrow> client \<Rightarrow> catalog \<Rightarrow> bool" where
  "catalog_tip_shown sdk client catalog \<longleftrightarrow>
     (\<exists>coin_record.
        cl_coin_record_by_name client (sdk_coin_id sdk (kg_coin catalog)) = Inr (Some coin_record) \<and>
        \<not> cr_spent coin_record \<and> cr_coin coin_record = kg_coin catalog \<and> cr_confirmed_block_index coin_record \<noteq> 0)"

definition catalog_spend_shown ::
  "('n, 'z) sdk_scheme \<Rightarrow> 'm catalog_sdk \<Rightarrow> client \<Rightarrow> catalog_constants \<Rightarrow> catalog \<Rightarrow> catalog \<Rightarrow> bool"
where
  "catalog_spend_shown sdk ks client constants catalog spent \<longleftrightarrow>
     (\<exists>coin_record coin_spend.
        cl_coin_record_by_name client (sdk_coin_id sdk (kg_coin catalog)) = Inr (Some coin_record) \<and>
        cr_spent coin_record \<and> cr_coin coin_record = kg_coin catalog \<and> cr_confirmed_block_index coin_record \<noteq> 0 \<and>
        cl_puzzle_and_solution client (sdk_coin_id sdk (kg_coin catalog))
          (Some (cr_spent_block_index coin_record)) = Inr (Some coin_spend) \<and>
        ks_from_spend ks coin_spend constants = Inr (Some spent) \<and>
        parent_coin_info (kg_coin (ks_child ks spent (kg_latest_state spent))) = sdk_coin_id sdk (kg_coin catalog))"

text \<open>The registry's spends to the tip, with the chain's slots before and after.\<close>

inductive catalog_path ::
  "('n, 'z) sdk_scheme \<Rightarrow> 'm catalog_sdk \<Rightarrow> client \<Rightarrow> catalog_constants \<Rightarrow> nat \<Rightarrow> catalog
    \<Rightarrow> (bytes32 \<rightharpoonup> catalog_slot_value) \<Rightarrow> bytes32 set \<Rightarrow> catalog \<Rightarrow> (bytes32 \<rightharpoonup> catalog_slot_value) \<Rightarrow> bool"
  for sdk ks client constants
where
  catalog_tip: "catalog_path sdk ks client constants 0 catalog cur seen catalog cur"
  if "catalog_tip_shown sdk client catalog"
| catalog_spend: "catalog_path sdk ks client constants (Suc n) catalog cur seen tip cur'"
  if "catalog_spend_shown sdk ks client constants catalog spent"
    and "catalog_spend_ok ks (kc_launcher_id constants) spent cur seen"
    and "catalog_path sdk ks client constants n (ks_child ks spent (kg_latest_state spent)) (assets_after spent cur)
           (seen \<union> sc_tree_hash (ks_slot_codec ks) ` created_net spent) tip cur'"

lemma catalog_coin_saved:
  assumes "cr_coin coin_record = c" and "cr_confirmed_block_index coin_record \<noteq> 0"
    and "tip_recorded sdk launcher_id c skip db" and "catalog_stored codec launcher_id dirty cur seen db"
  shows "\<exists>db'. (if skip then (Inr (), db) else db_write (save_singleton_coin sdk launcher_id coin_record) db) =
      (Inr (), db') \<and> tip_recorded sdk launcher_id c True db' \<and> catalog_stored codec launcher_id dirty cur seen db'"
proof -
  obtain db' where db': "(if skip then (Inr (), db) else db_write (save_singleton_coin sdk launcher_id coin_record) db) =
      (Inr (), db')" "tip_recorded sdk launcher_id c True db'"
    using turn_saves [OF assms(1-3)] by blast
  then have "db' = db \<or> (\<exists>coins. db' = db\<lparr>db_singleton_coins := coins\<rparr>)"
    by (cases skip) (auto simp: db_write_def save_singleton_coin_def Let_def db_query_def split: if_splits)
  then have "catalog_stored codec launcher_id dirty cur seen db'"
    using assms(4) by (auto simp: catalog_stored_coins)
  with db' show ?thesis by blast
qed

lemma catalog_turn_tip:
  assumes "catalog_tip_shown sdk client catalog"
    and "tip_recorded sdk (kc_launcher_id constants) (kg_coin catalog) skip db"
    and "catalog_stored codec (kc_launcher_id constants) dirty cur seen db"
  shows "\<exists>db'. catalog_turn sdk ks client constants catalog skip db = (Inr None, db') \<and>
    tip_recorded sdk (kc_launcher_id constants) (kg_coin catalog) True db' \<and>
    catalog_stored codec (kc_launcher_id constants) dirty cur seen db'"
proof -
  from assms(1) obtain coin_record where shown:
    "cl_coin_record_by_name client (sdk_coin_id sdk (kg_coin catalog)) = Inr (Some coin_record)"
    "\<not> cr_spent coin_record" "cr_coin coin_record = kg_coin catalog" "cr_confirmed_block_index coin_record \<noteq> 0"
    by (auto simp: catalog_tip_shown_def)
  from catalog_coin_saved [OF shown(3,4) assms(2,3)] shown(1,2) show ?thesis
    by (cases skip) (auto simp: catalog_turn_def Let_def db_read_def required_def)
qed

lemma catalog_turn_spend:
  assumes "catalog_spend_shown sdk ks client constants catalog spent"
    and "catalog_spend_ok ks (kc_launcher_id constants) spent cur seen"
    and "tip_recorded sdk (kc_launcher_id constants) (kg_coin catalog) skip db"
    and "catalog_stored (ks_slot_codec ks) (kc_launcher_id constants) {} cur seen db"
  shows "\<exists>db'. catalog_turn sdk ks client constants catalog skip db =
      (Inr (Some (ks_child ks spent (kg_latest_state spent))), db') \<and>
    tip_recorded sdk (kc_launcher_id constants) (kg_coin (ks_child ks spent (kg_latest_state spent))) False db' \<and>
    catalog_stored (ks_slot_codec ks) (kc_launcher_id constants) {} (assets_after spent cur)
      (seen \<union> sc_tree_hash (ks_slot_codec ks) ` created_net spent) db'"
proof -
  let ?launcher = "kc_launcher_id constants" and ?id = "sdk_coin_id sdk (kg_coin catalog)"
  from assms(1) obtain coin_record coin_spend where shown:
    "cl_coin_record_by_name client ?id = Inr (Some coin_record)"
    "cr_spent coin_record" "cr_coin coin_record = kg_coin catalog" "cr_confirmed_block_index coin_record \<noteq> 0"
    "cl_puzzle_and_solution client ?id (Some (cr_spent_block_index coin_record)) = Inr (Some coin_spend)"
    "ks_from_spend ks coin_spend constants = Inr (Some spent)"
    "parent_coin_info (kg_coin (ks_child ks spent (kg_latest_state spent))) = ?id"
    unfolding catalog_spend_shown_def by blast
  obtain d where d: "(if skip then (Inr (), db) else db_write (save_singleton_coin sdk ?launcher coin_record) db) = (Inr (), d)"
    "tip_recorded sdk ?launcher (kg_coin catalog) True d"
    "catalog_stored (ks_slot_codec ks) ?launcher {} cur seen d"
    using catalog_coin_saved [OF shown(3,4) assms(3,4)] by blast
  obtain d1 d2 where slots: "db_each (mark_spent_asset constants (cr_spent_block_index coin_record)) (kg_spent_slots spent) d = (Inr (), d1)"
    "save_created ks spent {} (kg_created_slots spent) d1 = (Inr (), d2)"
    "db_singleton_coins d2 = db_singleton_coins d"
    "catalog_stored (ks_slot_codec ks) ?launcher {} (assets_after spent cur)
      (seen \<union> sc_tree_hash (ks_slot_codec ks) ` created_net spent) d2"
    using slots_of_spend_stored [OF d(3) assms(2)] by blast
  have "catalog_turn sdk ks client constants catalog skip db =
      (Inr (Some (ks_child ks spent (kg_latest_state spent))), d2)"
    using shown d(1) slots(1,2) by (cases skip) (simp_all add: catalog_turn_def Let_def db_read_def required_def)
  moreover have "tip_recorded sdk ?launcher (kg_coin (ks_child ks spent (kg_latest_state spent))) False d2"
    using d(2) slots(3) shown(7) catalog_storedD(1) [OF slots(4)] by (auto simp: tip_recorded_def)
  ultimately show ?thesis using slots(4) by blast
qed

lemma catalog_path_turns:
  assumes "catalog_path sdk ks client constants n catalog cur seen tip cur'"
    and "tip_recorded sdk (kc_launcher_id constants) (kg_coin catalog) skip db"
    and "catalog_stored (ks_slot_codec ks) (kc_launcher_id constants) {} cur seen db"
  shows "\<exists>db' seen'. turns (catalog_turn sdk ks client constants) n catalog skip db (Inr tip) db' \<and>
    tip_recorded sdk (kc_launcher_id constants) (kg_coin tip) True db' \<and>
    catalog_stored (ks_slot_codec ks) (kc_launcher_id constants) {} cur' seen' db'"
  using assms
proof (induction arbitrary: db skip rule: catalog_path.induct)
  case (catalog_tip catalog cur seen)
  from catalog_turn_tip [OF this, of ks] show ?case by (blast intro: turns_tip)
next
  case (catalog_spend catalog spent cur seen n tip cur')
  from catalog_turn_spend [OF catalog_spend(1,2,5,6)] catalog_spend(4) show ?case
    by (blast intro: turns_step)
qed

text \<open>
  C11. After a synchronization the CATalog's tables answer for the chain: when they hold the chain's current
  slots and nothing else is saved as unspent, a walk over the registry's further spends, with more turns
  than spends, returns the unspent tip, leaves only the tip unspent, and the neighbour query then returns,
  for every asset, the chain's current slots of the nearest asset below and above, and fails only when one
  side has none. Slots created and spent again inside one spend are neither saved nor indexed.
\<close>

theorem catalog_neighbours_current:
  assumes "catalog_path sdk ks client constants n catalog cur seen tip cur'"
    and "tip_recorded sdk (kc_launcher_id constants) (kg_coin catalog) skip db"
    and "catalog_stored (ks_slot_codec ks) (kc_launcher_id constants) {} cur seen db" and "n < fuel"
  shows "\<exists>db'. catalog_walk fuel sdk ks client constants catalog skip db = Some (Inr tip, db') \<and>
    tip_recorded sdk (kc_launcher_id constants) (kg_coin tip) True db' \<and>
    (\<forall>a. assets_around cur' a (get_catalog_neighbors (ks_slot_codec ks) (kc_launcher_id constants) a db'))"
  using catalog_path_turns [OF assms(1-3)] cw.walk_turns [OF _ assms(4)] catalog_stored_neighbours by blast

text \<open>
  The ends 1 and 9; the spend of coin 1021 registers 5 between them and then 6 between 5 and 9, so the
  first new slots of 5 and 9 are created and spent in it.
\<close>

definition two_registrations :: catalog where
  "two_registrations = (example_catalog example_spent_coin)
     \<lparr>kg_created_slots := [catalog_value 1 1, catalog_value 5 0, catalog_value 9 1,
        catalog_value 5 1, catalog_value 6 0, catalog_value 9 2],
      kg_spent_slots := [catalog_value 1 0, catalog_value 9 0, catalog_value 5 0, catalog_value 9 1]\<rparr>"

definition two_registrations_sdk :: "unit catalog_sdk" where
  "two_registrations_sdk = example_catalog_sdk\<lparr>ks_from_spend := (\<lambda>_ _. Inr (Some two_registrations))\<rparr>"

definition ends_only :: catalog where
  "ends_only = (example_catalog example_spent_coin)\<lparr>kg_created_slots := [catalog_value 1 0, catalog_value 9 0]\<rparr>"

lemma two_registrations_simps [simp]:
  "kg_created_slots two_registrations = [catalog_value 1 1, catalog_value 5 0, catalog_value 9 1,
     catalog_value 5 1, catalog_value 6 0, catalog_value 9 2]"
  "kg_spent_slots two_registrations = [catalog_value 1 0, catalog_value 9 0, catalog_value 5 0, catalog_value 9 1]"
  "kg_created_slots ends_only = [catalog_value 1 0, catalog_value 9 0]" "kg_spent_slots ends_only = []"
  "ks_slot_codec two_registrations_sdk = catalog_codec"
  "ks_child two_registrations_sdk r st = example_catalog example_tip_coin"
  "kg_coin (example_catalog c) = c" "kc_launcher_id example_constants = 1"
  by (simp_all add: two_registrations_def ends_only_def example_catalog_def two_registrations_sdk_def
      example_catalog_sdk_def example_constants_def)

lemma catalog_value_simps [simp]:
  "kv_asset_id (catalog_value a c) = a" "sc_tree_hash catalog_codec (catalog_value a c) = a * 1000 + ucast c"
  "catalog_value a c = catalog_value b d \<longleftrightarrow> a = b \<and> c = d"
  by (simp_all add: catalog_value_def catalog_codec_def)

lemma catalog_slot_made_example:
  assumes "ucast (ucast a :: u8) = a" and "ucast (ucast c :: u8) = c"
  shows "asset_slot_made two_registrations_sdk 1 spent (catalog_value a c)"
  using assms
  by (simp add: asset_slot_made_def Let_def)
    (simp add: two_registrations_sdk_def example_catalog_sdk_def slot_new_def catalog_codec_def catalog_value_def)

lemma net_two_registrations:
  "created_net two_registrations = {catalog_value 1 1, catalog_value 5 1, catalog_value 6 0, catalog_value 9 2}"
  "created_net ends_only = {catalog_value 1 0, catalog_value 9 0}"
  by (auto simp: created_net_def net_created_def occurrences_def)

lemma left_to_write_start: "left_to_write ks c {} = net_created c"
  by (simp add: left_to_write_def fun_eq_iff)

lemma catalog_neighbours_current_witness:
  "\<exists>db db' left right.
     save_created two_registrations_sdk ends_only {} [catalog_value 1 0, catalog_value 9 0] db_new = (Inr (), db) \<and>
     catalog_walk 2 fixture_sdk two_registrations_sdk example_client example_constants
       (example_catalog example_spent_coin) True db = Some (Inr (example_catalog example_tip_coin), db') \<and>
     get_catalog_neighbors catalog_codec 1 4 db' = Inr (left, right) \<and>
     slot_value left = catalog_value 1 1 \<and> slot_value right = catalog_value 5 1"
proof -
  let ?start = "assets_after ends_only Map.empty" and ?ks = two_registrations_sdk
  let ?now = "assets_after two_registrations ?start"
  let ?seen = "{1000, 9000} :: bytes32 set"
  have net: "{v \<in> set (kg_created_slots ends_only). left_to_write ?ks ends_only {} v} =
      {catalog_value 1 0, catalog_value 9 0}"
    unfolding left_to_write_start net_two_registrations(2) [symmetric] created_net_def by simp
  have empty: "catalog_stored (ks_slot_codec ?ks) 1 {} Map.empty {} db_new"
    by (simp add: catalog_stored_def db_new_def)
  have hashes: "inj_on (sc_tree_hash (ks_slot_codec ?ks)) (set (kg_created_slots ends_only))"
    by (auto simp: inj_on_def)
  have assets: "inj_on kv_asset_id {v \<in> set (kg_created_slots ends_only). left_to_write ?ks ends_only {} v}"
    unfolding net by (auto simp: inj_on_def)
  have made: "\<forall>v \<in> set (kg_created_slots ends_only). left_to_write ?ks ends_only {} v \<longrightarrow>
      sc_tree_hash (ks_slot_codec ?ks) v \<notin> {} \<and> asset_slot_made ?ks 1 ends_only v"
    by (simp add: catalog_slot_made_example)
  have seen: "{} \<union> sc_tree_hash (ks_slot_codec ?ks) ` {catalog_value 1 0, catalog_value 9 0} = ?seen" by auto
  from catalog_stored_creates [OF empty hashes assets made,
      unfolded net seen empty_Diff, unfolded left_to_write_start, folded assets_after_def]
  obtain db where db: "save_created ?ks ends_only {} (kg_created_slots ends_only) db_new = (Inr (), db)"
    "db_singleton_coins db = db_singleton_coins db_new"
    "catalog_stored (ks_slot_codec ?ks) 1 {} ?start ?seen db"
    by blast
  have recorded: "tip_recorded fixture_sdk (kc_launcher_id example_constants)
      (kg_coin (example_catalog example_spent_coin)) True db"
    using catalog_storedD(1) [OF db(3)] db(2) by (simp add: tip_recorded_def unspent_coins_def db_new_def)
  have "catalog_tip_shown fixture_sdk example_client (example_catalog example_tip_coin)"
    unfolding catalog_tip_shown_def by (simp add: example_client_def)
  moreover have "catalog_spend_shown fixture_sdk ?ks example_client example_constants
      (example_catalog example_spent_coin) two_registrations"
    unfolding catalog_spend_shown_def
    by (simp add: example_client_def example_tip_coin_def) (simp add: two_registrations_sdk_def)
  moreover have "catalog_spend_ok ?ks 1 two_registrations ?start ?seen"
    by (auto simp: catalog_spend_ok_def Let_def net_two_registrations catalog_slot_made_example inj_on_def
        assets_after_def slots_after_def net_created_def occurrences_def split: if_splits)
  ultimately have path: "catalog_path fixture_sdk ?ks example_client example_constants (Suc 0)
      (example_catalog example_spent_coin) ?start ?seen (example_catalog example_tip_coin) ?now"
    by (intro catalog_spend [where spent = two_registrations]) (simp_all add: catalog_tip)
  have stored: "catalog_stored (ks_slot_codec ?ks) (kc_launcher_id example_constants) {} ?start ?seen db"
    using db(3) by simp
  from catalog_neighbours_current [OF path recorded stored, of 2] obtain db' where
    walk: "catalog_walk 2 fixture_sdk ?ks example_client example_constants (example_catalog example_spent_coin) True db =
       Some (Inr (example_catalog example_tip_coin), db')"
    and around: "assets_around ?now 4 (get_catalog_neighbors catalog_codec 1 4 db')"
    by auto
  have now: "?now a = (if a = 1 then Some (catalog_value 1 1) else if a = 5 then Some (catalog_value 5 1)
      else if a = 6 then Some (catalog_value 6 0) else if a = 9 then Some (catalog_value 9 2) else None)" for a
    by (simp add: assets_after_def slots_after_def net_created_def occurrences_def)
  then have "dom ?now = {1, 5, 6, 9}" by (auto simp: dom_def split: if_splits)
  note around' = around [unfolded assets_around_def Let_def this]
  have "\<exists>left right. get_catalog_neighbors catalog_codec 1 4 db' = Inr (left, right) \<and>
     slot_value left = catalog_value 1 1 \<and> slot_value right = catalog_value 5 1"
  proof (cases "get_catalog_neighbors catalog_codec 1 4 db'")
    case (Inl e)
    with around' show ?thesis by (simp add: word_le_nat_alt)
  next
    case (Inr slots)
    obtain left right where slots: "slots = (left, right)" by (cases slots)
    let ?l = "kv_asset_id (slot_value left)" and ?r = "kv_asset_id (slot_value right)"
    from around' have l: "?now ?l = Some (slot_value left)" "?l < 4" and r: "?now ?r = Some (slot_value right)"
      "4 < ?r" "?r \<le> 5" by (simp_all add: Inr slots word_less_nat_alt)
    have "slot_value left = catalog_value 1 1"
      using l unfolding now by (auto simp: word_less_nat_alt split: if_splits)
    moreover have "slot_value right = catalog_value 5 1"
      using r unfolding now by (auto simp: word_le_nat_alt word_less_nat_alt split: if_splits)
    ultimately show ?thesis using Inr slots by blast
  qed
  with db(1) walk show ?thesis by auto
qed

end
