(* ===== verification/CatalogListen.thy ===== *)
theory CatalogListen
  imports CatalogSyncFacts
begin

text \<open>
  \<open>catalog/listen.rs\<close>: the neighbours endpoint over the database, and what the listening process does
  when it connects and for every peak the node announces. Routing, the websocket and printing are not
  modelled; the clock is an argument.
\<close>

section \<open>The neighbours endpoint\<close>

record catalog_neighbor_response =
  kn_asset_id :: string
  kn_left_asset_id :: string
  kn_right_asset_id :: string
  kn_left_counter :: u64
  kn_right_counter :: u64
  kn_left_left_asset_id :: string
  kn_right_right_asset_id :: string
  kn_left_parent_parent_info :: string
  kn_left_parent_inner_puzzle_hash :: string
  kn_left_parent_amount :: u64
  kn_right_parent_parent_info :: string
  kn_right_parent_inner_puzzle_hash :: string
  kn_right_parent_amount :: u64

definition catalog_get_neighbors ::
  "('n, 'z) sdk_scheme \<Rightarrow> 'm catalog_sdk \<Rightarrow> catalog_constants \<Rightarrow> db \<Rightarrow> string
    \<Rightarrow> cli_error + catalog_neighbor_response"
where
  "catalog_get_neighbors sdk ks constants db asset_id_param =
     try_result (hex_string_to_bytes32 sdk asset_id_param) (\<lambda>asset_id.
     try_result (get_catalog_neighbors (ks_slot_codec ks) (kc_launcher_id constants) asset_id db) (\<lambda>(left, right).
       let l = slot_value left; r = slot_value right
       in Inr
         \<lparr>kn_asset_id = asset_id_param,
          kn_left_asset_id = hex32 sdk (kv_asset_id l),
          kn_right_asset_id = hex32 sdk (kv_asset_id r),
          kn_left_counter = kv_counter l,
          kn_right_counter = kv_counter r,
          kn_left_left_asset_id = hex32 sdk (kv_left_value l),
          kn_right_right_asset_id = hex32 sdk (kv_right_value r),
          kn_left_parent_parent_info = hex32 sdk (lp_parent_parent_coin_info (slot_proof left)),
          kn_left_parent_inner_puzzle_hash = hex32 sdk (lp_parent_inner_puzzle_hash (slot_proof left)),
          kn_left_parent_amount = lp_parent_amount (slot_proof left),
          kn_right_parent_parent_info = hex32 sdk (lp_parent_parent_coin_info (slot_proof right)),
          kn_right_parent_inner_puzzle_hash = hex32 sdk (lp_parent_inner_puzzle_hash (slot_proof right)),
          kn_right_parent_amount = lp_parent_amount (slot_proof right)\<rparr>))"

text \<open>An error is a 500 with its text, which \<open>error_text\<close> renders.\<close>

definition catalog_error_response :: "(cli_error \<Rightarrow> string) \<Rightarrow> cli_error \<Rightarrow> nat \<times> string" where
  "catalog_error_response error_text e = (500, ''Error: '' @ error_text e)"

section \<open>Peaks\<close>

text \<open>
  Every half hour rows spent 128 blocks ago are deleted; \<open>height - 128\<close> panics below 128 with overflow
  checks and wraps without. The result says whether the clock was reset.
\<close>

definition catalog_clear_cache ::
  "bool \<Rightarrow> client \<Rightarrow> u64 option \<Rightarrow> db \<Rightarrow> (bool db_result) outcome"
where
  "catalog_clear_cache overflow_checks client elapsed db =
     (case elapsed of
        None \<Rightarrow> Panicked
      | Some seconds \<Rightarrow>
          if \<not> 60 * 30 < seconds then Returned (Inr False, db)
          else
            (case cl_blockchain_state client of
               Inl e \<Rightarrow> Returned (Inl e, db)
             | Inr None \<Rightarrow> Returned (Inr False, db)
             | Inr (Some peak) \<Rightarrow>
                 if overflow_checks \<and> bp_height peak < 128 then Panicked
                 else
                   let cutoff = bp_height peak - 128
                   in Returned (db_then (db_write (delete_slots_spent_before cutoff) db) (\<lambda>_ db.
                        db_then (db_write (delete_singleton_coins_spent_before cutoff) db) (\<lambda>_ db.
                          (Inr True, db))))))"

text \<open>A peak: the registry is synchronized again when its coin was spent. \<open>None\<close>: out of fuel.\<close>

definition catalog_resync ::
  "nat \<Rightarrow> ('n, 'z) sdk_scheme \<Rightarrow> 'm catalog_sdk \<Rightarrow> client \<Rightarrow> catalog_constants \<Rightarrow> catalog \<Rightarrow> db
    \<Rightarrow> catalog db_result option"
where
  "catalog_resync fuel sdk ks client constants catalog db =
     (case cl_coin_record_by_name client (sdk_coin_id sdk (kg_coin catalog)) of
        Inl e \<Rightarrow> Some (Inl e, db)
      | Inr None \<Rightarrow> Some (Inl (Custom ''Weird - coin record not found after peak update.''), db)
      | Inr (Some coin_record) \<Rightarrow>
          if cr_spent coin_record then sync_catalog fuel sdk ks client constants db
          else Some (Inr catalog, db))"

definition catalog_peak ::
  "bool \<Rightarrow> nat \<Rightarrow> ('n, 'z) sdk_scheme \<Rightarrow> 'm catalog_sdk \<Rightarrow> client \<Rightarrow> catalog_constants \<Rightarrow> u64 option
    \<Rightarrow> catalog \<Rightarrow> db \<Rightarrow> ((catalog \<times> bool) db_result) outcome option"
where
  "catalog_peak overflow_checks fuel sdk ks client constants elapsed catalog db =
     (case catalog_resync fuel sdk ks client constants catalog db of
        None \<Rightarrow> None
      | Some (Inl e, db) \<Rightarrow> Some (Returned (Inl e, db))
      | Some (Inr catalog, db) \<Rightarrow>
          (case catalog_clear_cache overflow_checks client elapsed db of
             Panicked \<Rightarrow> Some Panicked
           | Returned (Inl e, db) \<Rightarrow> Some (Returned (Inl e, db))
           | Returned (Inr cleared, db) \<Rightarrow> Some (Returned (Inr (catalog, cleared), db))))"

text \<open>
  Connecting synchronizes, then every message is a peak with the node's answers at its time; other
  messages change nothing. The connection ends with the first error, or when the messages do.
\<close>

fun catalog_peaks ::
  "bool \<Rightarrow> nat \<Rightarrow> ('n, 'z) sdk_scheme \<Rightarrow> 'm catalog_sdk \<Rightarrow> catalog_constants \<Rightarrow> (client \<times> u64 option) list
    \<Rightarrow> catalog \<Rightarrow> db \<Rightarrow> (catalog db_result) outcome option"
where
  "catalog_peaks overflow_checks fuel sdk ks constants [] catalog db = Some (Returned (Inr catalog, db))"
| "catalog_peaks overflow_checks fuel sdk ks constants ((client, elapsed) # peaks) catalog db =
     (case catalog_peak overflow_checks fuel sdk ks client constants elapsed catalog db of
        None \<Rightarrow> None
      | Some Panicked \<Rightarrow> Some Panicked
      | Some (Returned (Inl e, db)) \<Rightarrow> Some (Returned (Inl e, db))
      | Some (Returned (Inr (catalog, _), db)) \<Rightarrow>
          catalog_peaks overflow_checks fuel sdk ks constants peaks catalog db)"

definition catalog_connect ::
  "bool \<Rightarrow> nat \<Rightarrow> ('n, 'z) sdk_scheme \<Rightarrow> 'm catalog_sdk \<Rightarrow> client \<Rightarrow> catalog_constants
    \<Rightarrow> (client \<times> u64 option) list \<Rightarrow> db \<Rightarrow> (catalog db_result) outcome option"
where
  "catalog_connect overflow_checks fuel sdk ks client constants peaks db =
     (case sync_catalog fuel sdk ks client constants db of
        None \<Rightarrow> None
      | Some (Inl e, db) \<Rightarrow> Some (Returned (Inl e, db))
      | Some (Inr catalog, db) \<Rightarrow> catalog_peaks overflow_checks fuel sdk ks constants peaks catalog db)"

section \<open>A pending spend ends the connection\<close>

text \<open>
  While a spend of the registry is pending the listener cannot stay connected: the synchronization
  returns the registry the pending spend would create, whose coin the node does not know, so the next
  peak that does not confirm it ends the connection with an error; the database is as the
  synchronization left it.
\<close>

theorem pending_spend_ends_connection:
  assumes "start_catalog sdk ks client constants db = (Inr (catalog, skip), db1)"
    and "catalog_walk fuel sdk ks client constants catalog skip db1 = Some (Inr tip, db2)"
    and "pending_catalog ks client constants (sdk_coin_id sdk (kg_coin tip)) = Inr (Some new_catalog)"
    and "cl_coin_record_by_name later (sdk_coin_id sdk (kg_coin new_catalog)) = Inr None"
  shows "catalog_connect overflow_checks fuel sdk ks client constants ((later, elapsed) # peaks) db =
    Some (Returned (Inl (Custom ''Weird - coin record not found after peak update.''), db2))"
  using assms by (simp add: catalog_connect_def sync_catalog_def catalog_peak_def catalog_resync_def)

text \<open>A database whose saved tip is unspent at 1021031, and a pending spend of it.\<close>

definition pending_peak_db :: db where
  "pending_peak_db = db_new\<lparr>db_singleton_coins := [coin_to_row fixture_sdk 1
     \<lparr>cr_coin = example_tip_coin, cr_confirmed_block_index = 20, cr_spent_block_index = 0, cr_spent = False\<rparr>]\<rparr>"

definition pending_peak_sdk :: "unit catalog_sdk" where
  "pending_peak_sdk = example_catalog_sdk
     \<lparr>ks_from_mempool_item := (\<lambda>_ _. Inr (Some (example_catalog
        \<lparr>parent_coin_info = 1021031, puzzle_hash = 4, amount = 1\<rparr>)))\<rparr>"

lemma pending_spend_ends_connection_witness:
  "\<exists>db2. catalog_connect True 1 fixture_sdk pending_peak_sdk pending_client example_constants
      [(pending_client, Some 0)] pending_peak_db =
    Some (Returned (Inl (Custom ''Weird - coin record not found after peak update.''), db2))"
proof -
  have coin: "kg_coin (example_catalog c) = c" for c by (simp add: example_catalog_def)
  have start: "start_catalog fixture_sdk pending_peak_sdk pending_client example_constants pending_peak_db =
      (Inr (example_catalog example_tip_coin, False), pending_peak_db)"
    by (simp add: start_catalog_def db_read_def get_last_unspent_singleton_coin_def pending_peak_db_def db_new_def
        coin_to_row_def example_constants_def resume_catalog_def required_def)
      (simp add: pending_client_def example_client_def example_tip_coin_def pending_peak_sdk_def
        example_catalog_sdk_def)
  obtain db2 where walk: "catalog_walk 1 fixture_sdk pending_peak_sdk pending_client example_constants
      (example_catalog example_tip_coin) False pending_peak_db = Some (Inr (example_catalog example_tip_coin), db2)"
    by (simp add: catalog_turn_def Let_def coin db_read_def required_def db_write_def save_singleton_coin_def)
      (simp add: pending_client_def example_client_def pending_peak_db_def db_new_def)
  have pending: "pending_catalog pending_peak_sdk pending_client example_constants
      (sdk_coin_id fixture_sdk (kg_coin (example_catalog example_tip_coin))) =
      Inr (Some (example_catalog \<lparr>parent_coin_info = 1021031, puzzle_hash = 4, amount = 1\<rparr>))"
    by (simp add: pending_catalog_def coin pending_client_def pending_peak_sdk_def)
  have unknown: "cl_coin_record_by_name pending_client
      (sdk_coin_id fixture_sdk (kg_coin (example_catalog \<lparr>parent_coin_info = 1021031, puzzle_hash = 4, amount = 1\<rparr>))) =
      Inr None"
    by (simp add: coin pending_client_def example_client_def fixture_sdk_def)
  from pending_spend_ends_connection [OF start walk pending unknown] show ?thesis by blast
qed

end
