(* ===== verification/LaunchSteps.thy ===== *)
theory LaunchSteps
  imports Coinset
begin

text \<open>
  The steps that \<open>catalog/continue_launch.rs\<close> and \<open>xchandles/continue_launch.rs\<close> share: where in the
  launch file to go on, which rows the next spend takes, the coins that were committed to in advance, the
  height they can be spent at, and the lineage proofs of their parents. Both commands stop early with an
  error or, after a message, with \<open>Ok(())\<close>.
\<close>

datatype launch_stop = Failed cli_error | Aborted

type_synonym 'a step = "(launch_stop + 'a) outcome"

text \<open>\<open>f()?\<close>, and \<open>let Some(x) = f()? else { return Ok(()) }\<close>.\<close>

definition checked :: "cli_error + 'a \<Rightarrow> 'a step" where
  "checked r = Returned (map_err Failed r)"

definition or_abort :: "cli_error + 'a option \<Rightarrow> 'a step" where
  "or_abort r =
     Returned (try_result (map_err Failed r) (\<lambda>found. ok_or found Aborted))"

lemma checked_simps [simp]:
  "checked (Inl e) = Returned (Inl (Failed e))" "checked (Inr x) = Returned (Inr x)"
  by (simp_all add: checked_def)

lemma or_abort_simps [simp]:
  "or_abort (Inl e) = Returned (Inl (Failed e))" "or_abort (Inr None) = Returned (Inl Aborted)"
  "or_abort (Inr (Some x)) = Returned (Inr x)"
  by (simp_all add: or_abort_def)

lemma checked_Inr [result_simps]: "checked r = Returned (Inr x) \<longleftrightarrow> r = Inr x"
  by (auto simp: checked_def result_simps)

lemma or_abort_Inr [result_simps]: "or_abort r = Returned (Inr x) \<longleftrightarrow> r = Inr (Some x)"
  by (auto simp: or_abort_def result_simps)

section \<open>Where to go on\<close>

text \<open>
  Rows are looked up from the first on until one is not found; after the first row \<open>--skip\<close> rows are
  taken as found. The catalog's command has no such option (0).
\<close>

function launch_index :: "('r \<Rightarrow> cli_error + bool) \<Rightarrow> nat \<Rightarrow> 'r list \<Rightarrow> nat \<Rightarrow> cli_error + nat" where
  "launch_index found skip rows i =
     (if i < length rows
      then try_result (found (rows ! i)) (\<lambda>is_found.
             if \<not> is_found then Inr i
             else launch_index found skip rows (if i = 0 \<and> 1 < skip then skip else i + 1))
      else Inr i)"
  by pat_completeness auto
termination by (relation "measure (\<lambda>(_, _, rows, i). length rows - i)") auto

declare launch_index.simps [simp del]

text \<open>\<open>while i < rows.len() && batch.len() < per_spend\<close>\<close>

definition launch_batch :: "'r list \<Rightarrow> nat \<Rightarrow> nat \<Rightarrow> 'r list" where
  "launch_batch rows i per_spend = take per_spend (drop i rows)"

lemma launch_index_from:
  assumes "launch_index found skip rows i = Inr j" and "0 < i"
  shows "i \<le> j \<and> (\<forall>k. i \<le> k \<and> k < j \<longrightarrow> k < length rows \<and> found (rows ! k) = Inr True)
    \<and> (j < length rows \<longrightarrow> found (rows ! j) = Inr False) \<and> (i \<le> length rows \<longrightarrow> j \<le> length rows)"
  using assms
proof (induction found skip rows i rule: launch_index.induct)
  case (1 found skip rows i)
  show ?case
  proof (cases "i < length rows \<and> found (rows ! i) = Inr True")
    case True
    then have tail: "launch_index found skip rows (Suc i) = Inr j"
      using "1.prems" by (subst (asm) launch_index.simps) simp
    have later: "Suc i \<le> j"
      "\<And>k. Suc i \<le> k \<Longrightarrow> k < j \<Longrightarrow> k < length rows \<and> found (rows ! k) = Inr True"
      "j < length rows \<Longrightarrow> found (rows ! j) = Inr False" "Suc i \<le> length rows \<Longrightarrow> j \<le> length rows"
      using "1.IH" [of True] True "1.prems" tail by auto
    show ?thesis
    proof (intro conjI allI impI)
      fix k assume k: "i \<le> k \<and> k < j"
      show "k < length rows" using True later(2) [of k] k by (cases "k = i") auto
      show "found (rows ! k) = Inr True" using True later(2) [of k] k by (cases "k = i") auto
    qed (use True later(1,3,4) in simp_all)
  next
    case False
    with "1.prems" show ?thesis
      by (subst (asm) launch_index.simps) (auto simp: result_simps split: if_splits)
  qed
qed

text \<open>Every row before the index is registered, but for the rows skipped; the one at the index is not.\<close>

lemma launch_index_exact:
  assumes "launch_index found skip rows 0 = Inr j"
  shows "(\<forall>k < j. k = 0 \<or> skip \<le> k \<longrightarrow> k < length rows \<and> found (rows ! k) = Inr True)
    \<and> (j < length rows \<longrightarrow> found (rows ! j) = Inr False)
    \<and> (j = 0 \<or> j \<le> length rows \<or> j = skip)"
proof (cases "rows = [] \<or> found (rows ! 0) \<noteq> Inr True")
  case True
  with assms have "j = 0 \<and> (0 < length rows \<longrightarrow> found (rows ! 0) = Inr False)"
    by (subst (asm) launch_index.simps) (auto simp: result_simps split: if_splits)
  then show ?thesis by simp
next
  case False
  let ?next = "if 1 < skip then skip else 1"
  from False assms have rest: "launch_index found skip rows ?next = Inr j"
    by (subst (asm) launch_index.simps) (simp split: if_splits)
  have next_pos: "0 < ?next" by simp
  note bounds = launch_index_from [OF rest next_pos]
  show ?thesis
  proof (intro conjI allI impI)
    fix k assume "k < j" and "k = 0 \<or> skip \<le> k"
    then show "k < length rows" and "found (rows ! k) = Inr True"
      using bounds False by (cases "k = 0"; auto split: if_splits)+
  next
    assume "j < length rows" then show "found (rows ! j) = Inr False" using bounds by simp
  next
    have "j = skip" if "length rows < j"
    proof -
      have "length rows < ?next"
        using bounds that by (metis leD not_le)
      with rest show ?thesis using False
        by (subst (asm) launch_index.simps) (auto split: if_splits)
    qed
    then show "j = 0 \<or> j \<le> length rows \<or> j = skip" by linarith
  qed
qed

text \<open>A skip past the end is the index, and is not the length the commands compare it with.\<close>

lemma launch_index_skip_past_end:
  assumes "rows \<noteq> []" and "found (rows ! 0) = Inr True" and "length rows < skip"
  shows "launch_index found skip rows 0 = Inr skip"
proof -
  from assms have "launch_index found skip rows 0 = launch_index found skip rows skip"
    by (subst launch_index.simps) (cases rows, auto)
  also from assms(3) have "\<dots> = Inr skip" by (subst launch_index.simps) simp
  finally show ?thesis .
qed

section \<open>The committed coins\<close>

definition plain_u32_add :: "bool \<Rightarrow> u32 \<Rightarrow> u32 \<Rightarrow> ('e + u32) outcome" where
  "plain_u32_add overflow_checks a b =
     (if overflow_checks \<and> 2 ^ 32 \<le> unat a + unat b then Panicked else Returned (Inr (a + b)))"

lemma plain_u32_add_Inr [result_simps]:
  "plain_u32_add checks a b = Returned (Inr c) \<longleftrightarrow> c = a + b \<and> \<not> (checks \<and> 2 ^ 32 \<le> unat a + unat b)"
  by (auto simp: plain_u32_add_def)

definition last_confirmed :: "coin_record list \<Rightarrow> u32" where
  "last_confirmed records =
     (if records = [] then 0 else Max (set (map cr_confirmed_block_index records)))"

text \<open>\<open>max + relative_block_height + extra\<close>, with \<open>extra\<close> 7 for the catalog and a quarter for a registry.\<close>

definition target_block_height :: "bool \<Rightarrow> coin_record list \<Rightarrow> u32 \<Rightarrow> u32 \<Rightarrow> ('e + u32) outcome" where
  "target_block_height overflow_checks records relative_block_height extra =
     attempt (plain_u32_add overflow_checks (last_confirmed records) relative_block_height) (\<lambda>sum.
       plain_u32_add overflow_checks sum extra)"

text \<open>Polling for the height; the answers are a list, and \<open>None\<close> is still waiting after them.\<close>

fun wait_for_height ::
  "(cli_error + blockchain_peak option) list \<Rightarrow> u32 \<Rightarrow> unit step option"
where
  "wait_for_height [] target = None"
| "wait_for_height (answer # answers) target =
     (case or_abort answer of
        Returned (Inr peak) \<Rightarrow>
          if target \<le> bp_height peak then Some (Returned (Inr ())) else wait_for_height answers target
      | Returned (Inl stop) \<Rightarrow> Some (Returned (Inl stop))
      | Panicked \<Rightarrow> Some Panicked)"

text \<open>The unspent coins paid to the committed puzzle hashes; too few of them end the command.\<close>

definition committed_records :: "client \<Rightarrow> bytes32 list \<Rightarrow> coin_record list step" where
  "committed_records client puzzle_hashes =
     attempt (or_abort (cl_coin_records_by_puzzle_hashes client puzzle_hashes)) (\<lambda>records.
       if length records < length puzzle_hashes then Returned (Inl Aborted) else Returned (Inr records))"

text \<open>
  The lineage proofs of their parents, by coin id. \<open>cat_inner_hash\<close> is the tree hash of the inner puzzle of
  a puzzle that parses to a CAT.
\<close>

fun lineage_proofs ::
  "('n, 'z) sdk_scheme \<Rightarrow> (u8 list \<Rightarrow> cli_error + bytes32 option) \<Rightarrow> client
    \<Rightarrow> coin_record list \<Rightarrow> (bytes32, lineage_proof) hash_map \<Rightarrow> (bytes32, lineage_proof) hash_map step"
where
  "lineage_proofs sdk cat_inner_hash client [] proofs = Returned (Inr proofs)"
| "lineage_proofs sdk cat_inner_hash client (parent # parents) proofs =
     (let coin = cr_coin parent; coin_id = sdk_coin_id sdk coin
      in attempt (or_abort (cl_puzzle_and_solution client coin_id (Some (cr_spent_block_index parent))))
           (\<lambda>coin_spend.
         attempt (or_abort (cat_inner_hash (puzzle_reveal coin_spend))) (\<lambda>inner_puzzle_hash.
           lineage_proofs sdk cat_inner_hash client parents
             (hm_insert coin_id
                \<lparr>lp_parent_parent_coin_info = parent_coin_info coin,
                 lp_parent_inner_puzzle_hash = inner_puzzle_hash,
                 lp_parent_amount = amount coin\<rparr> proofs))))"

definition parent_ids :: "coin_record list \<Rightarrow> bytes32 list" where
  "parent_ids records = remdups (map (\<lambda>cr. parent_coin_info (cr_coin cr)) records)"

text \<open>\<open>hash_order\<close> is the order in which a hash set lists its elements.\<close>

definition parent_proofs ::
  "('n, 'z) sdk_scheme \<Rightarrow> (u8 list \<Rightarrow> cli_error + bytes32 option) \<Rightarrow> (bytes32 list \<Rightarrow> bytes32 list) \<Rightarrow> client
    \<Rightarrow> coin_record list \<Rightarrow> (bytes32, lineage_proof) hash_map step"
where
  "parent_proofs sdk cat_inner_hash hash_order client records =
     attempt (or_abort (cl_coin_records_by_names client (hash_order (parent_ids records)))) (\<lambda>parents.
       if length parents < length (parent_ids records) then Returned (Inl Aborted)
       else lineage_proofs sdk cat_inner_hash client parents [])"

text \<open>The first record with the puzzle hash and its parent's proof; both \<open>unwrap\<close>s can panic.\<close>

definition committed_coin ::
  "coin_record list \<Rightarrow> (bytes32, lineage_proof) hash_map \<Rightarrow> bytes32 \<Rightarrow> (coin_record \<times> lineage_proof) step"
where
  "committed_coin records proofs puzzle_hash' =
     attempt (unwrap (find (\<lambda>cr. puzzle_hash (cr_coin cr) = puzzle_hash') records)) (\<lambda>record.
     attempt (unwrap (hm_get proofs (parent_coin_info (cr_coin record)))) (\<lambda>lineage_proof.
       Returned (Inr (record, lineage_proof))))"

lemma committed_coin_hash:
  assumes "committed_coin records proofs h = Returned (Inr (found, lineage_proof))"
  shows "found \<in> set records \<and> puzzle_hash (cr_coin found) = h"
  using assms by (auto simp: committed_coin_def result_simps dest: find_SomeD)

section \<open>When matching them panics\<close>

text \<open>
  What the node's documentation promises of the two queries: only coins that were asked for, each once.
\<close>

definition puzzle_hash_query_ok :: "client \<Rightarrow> bool" where
  "puzzle_hash_query_ok client \<longleftrightarrow>
     (\<forall>hashes records. cl_coin_records_by_puzzle_hashes client hashes = Inr (Some records) \<longrightarrow>
        (\<forall>cr \<in> set records. puzzle_hash (cr_coin cr) \<in> set hashes))"

definition name_query_ok :: "('n, 'z) sdk_scheme \<Rightarrow> client \<Rightarrow> bool" where
  "name_query_ok sdk client \<longleftrightarrow>
     (\<forall>names records. cl_coin_records_by_names client names = Inr (Some records) \<longrightarrow>
        distinct (map (\<lambda>cr. sdk_coin_id sdk (cr_coin cr)) records) \<and>
        (\<forall>cr \<in> set records. sdk_coin_id sdk (cr_coin cr) \<in> set names))"

lemma lineage_proofs_keys:
  assumes "lineage_proofs sdk inner client parents proofs = Returned (Inr proofs')"
  shows "\<forall>k. hm_get proofs' k \<noteq> None \<longleftrightarrow>
    hm_get proofs k \<noteq> None \<or> k \<in> (\<lambda>cr. sdk_coin_id sdk (cr_coin cr)) ` set parents"
  using assms
proof (induction parents arbitrary: proofs)
  case (Cons parent parents)
  then obtain lp where rest: "lineage_proofs sdk inner client parents
      (hm_insert (sdk_coin_id sdk (cr_coin parent)) lp proofs) = Returned (Inr proofs')"
    by (auto simp: Let_def result_simps)
  from Cons.IH [OF rest] show ?case by (auto simp: hm_get_insert)
qed simp

lemma parent_proofs_found:
  assumes "parent_proofs sdk inner hash_order client records = Returned (Inr proofs)"
    and "name_query_ok sdk client" and "\<And>ids. set (hash_order ids) = set ids"
    and "cr \<in> set records"
  shows "hm_get proofs (parent_coin_info (cr_coin cr)) \<noteq> None"
proof -
  let ?ids = "parent_ids records"
  from assms(1) obtain parents where
    asked: "cl_coin_records_by_names client (hash_order ?ids) = Inr (Some parents)"
    and enough: "length ?ids \<le> length parents"
    and proofs: "lineage_proofs sdk inner client parents [] = Returned (Inr proofs)"
    by (auto simp: parent_proofs_def result_simps split: if_splits)
  let ?names = "map (\<lambda>cr. sdk_coin_id sdk (cr_coin cr)) parents"
  from assms(2) asked have "distinct ?names \<and> (\<forall>cr \<in> set parents. sdk_coin_id sdk (cr_coin cr) \<in> set (hash_order ?ids))"
    unfolding name_query_ok_def by blast
  then have "distinct ?names" and sub: "set ?names \<subseteq> set ?ids" by (auto simp: assms(3))
  then have "card (set ?names) = length parents" using distinct_card [of ?names] by simp
  moreover have "card (set ?ids) = length ?ids" by (rule distinct_card) (simp add: parent_ids_def)
  ultimately have "card (set ?ids) \<le> card (set ?names)" using enough by simp
  then have "set ?names = set ?ids" using sub by (simp add: card_seteq)
  moreover from assms(4) have "parent_coin_info (cr_coin cr) \<in> set ?ids" by (simp add: parent_ids_def)
  ultimately show ?thesis using lineage_proofs_keys [OF proofs] by auto
qed

text \<open>
  When every committed puzzle hash received exactly one coin none of the \<open>unwrap\<close>s panics: enough records
  of distinct hashes are all the hashes.
\<close>

lemma committed_coins_matched:
  assumes "committed_records client hashes = Returned (Inr records)"
    and "parent_proofs sdk inner hash_order client records = Returned (Inr proofs)"
    and "puzzle_hash_query_ok client" and "name_query_ok sdk client" and "\<And>ids. set (hash_order ids) = set ids"
    and "distinct (map (\<lambda>cr. puzzle_hash (cr_coin cr)) records)" and "h \<in> set hashes"
  shows "\<exists>record lineage_proof. committed_coin records proofs h = Returned (Inr (record, lineage_proof))
    \<and> record \<in> set records \<and> puzzle_hash (cr_coin record) = h"
proof -
  let ?found = "map (\<lambda>cr. puzzle_hash (cr_coin cr)) records"
  from assms(1) have enough: "length hashes \<le> length records"
    and asked: "cl_coin_records_by_puzzle_hashes client hashes = Inr (Some records)"
    by (auto simp: committed_records_def result_simps split: if_splits)
  from assms(3) asked have sub: "set ?found \<subseteq> set hashes" by (auto simp: puzzle_hash_query_ok_def)
  have "card (set hashes) \<le> card (set ?found)"
    using enough assms(6) card_length [of hashes] by (simp add: distinct_card del: set_map)
  then have "set ?found = set hashes" using sub by (simp add: card_seteq)
  with assms(7) have "h \<in> (\<lambda>cr. puzzle_hash (cr_coin cr)) ` set records" by simp
  then have "find (\<lambda>cr. puzzle_hash (cr_coin cr) = h) records \<noteq> None"
    by (auto simp: find_None_iff)
  then obtain rec where found: "find (\<lambda>cr. puzzle_hash (cr_coin cr) = h) records = Some rec" by blast
  note hit = find_SomeD [OF found]
  with parent_proofs_found [OF assms(2,4,5)] obtain lp where
    "hm_get proofs (parent_coin_info (cr_coin rec)) = Some lp" by fastforce
  with found hit show ?thesis by (auto simp: committed_coin_def)
qed

text \<open>
  Two coins at one committed puzzle hash and none at another are enough records, and the missing one panics.
\<close>

lemma committed_coin_missing_panics:
  assumes "\<forall>cr \<in> set records. puzzle_hash (cr_coin cr) \<noteq> h"
  shows "committed_coin records proofs h = Panicked"
proof -
  from assms have "find (\<lambda>cr. puzzle_hash (cr_coin cr) = h) records = None" by (auto simp: find_None_iff)
  then show ?thesis by (simp add: committed_coin_def)
qed

end
