(* ===== verification/CatalogLaunch.thy ===== *)
theory CatalogLaunch
  imports LaunchSteps CsvFiles CatalogSync
begin

text \<open>
  \<open>catalog/continue_launch.rs\<close>: one run of the command that launches the premined CATs: it commits a
  payment of one mojo for every CAT, batch by batch, and later runs register them. Modelled up to what it
  builds the spends from; the wallet's offer, the prompt, the signing and the push are not.
\<close>

section \<open>Data\<close>

record cat_nft_metadata =
  tm_ticker :: string
  tm_name :: string
  tm_description :: string
  tm_hidden_puzzle_hash :: "bytes32 option"
  tm_precision :: u8
  tm_image_uris :: "string list"
  tm_image_hash :: bytes32
  tm_metadata_uris :: "string list"
  tm_metadata_hash :: "bytes32 option"
  tm_license_uris :: "string list"
  tm_license_hash :: "bytes32 option"

text \<open>The arguments of \<open>CatalogPrecommitValue::with_default_cat_maker\<close>.\<close>

record cat_precommit =
  cw_payment_asset_id :: bytes32
  cw_initial_inner_puzzle_hash :: bytes32
  cw_tail :: "u8 list"

text \<open>
  \<open>ka_tail_hash\<close> is the tree hash of a serialized program, \<open>ka_initial_inner_hash\<close> that of the initial inner
  puzzle of a CAT's NFT, \<open>ka_precommit_inner_hash\<close> that of the precommit layer, \<open>ka_cat_puzzle_hash\<close> curries
  it into the payment CAT; \<open>ka_register\<close> is the catalog after one more register action of the same spend.
\<close>

record catalog_launch_sdk =
  ka_tail_hash :: "u8 list \<Rightarrow> cli_error + bytes32"
  ka_initial_inner_hash :: "bytes32 \<Rightarrow> cat_nft_metadata \<Rightarrow> driver_error + bytes32"
  ka_precommit_inner_hash :: "catalog_constants \<Rightarrow> cat_precommit \<Rightarrow> bytes32"
  ka_cat_puzzle_hash :: "bytes32 \<Rightarrow> bytes32 \<Rightarrow> bytes32"
  ka_cat_inner_hash :: "u8 list \<Rightarrow> cli_error + bytes32 option"
  ka_actual_neighbors :: "catalog \<Rightarrow> bytes32 \<Rightarrow> catalog_slot_value slot \<times> catalog_slot_value slot
    \<Rightarrow> catalog_slot_value slot \<times> catalog_slot_value slot"
  ka_register :: "catalog \<Rightarrow> bytes32 \<Rightarrow> catalog_slot_value slot \<times> catalog_slot_value slot \<Rightarrow> cat_precommit
    \<Rightarrow> bytes32 \<Rightarrow> driver_error + catalog"

definition initial_cat_inner_puzzle_hash :: "catalog_launch_sdk \<Rightarrow> catalog_premine_record \<Rightarrow> driver_error + bytes32" where
  "initial_cat_inner_puzzle_hash ka cat =
     ka_initial_inner_hash ka (cp_owner cat)
       \<lparr>tm_ticker = cp_code cat, tm_name = cp_name cat, tm_description = [], tm_hidden_puzzle_hash = None,
        tm_precision = cp_precision cat, tm_image_uris = cp_image_uris cat, tm_image_hash = cp_image_hash cat,
        tm_metadata_uris = [], tm_metadata_hash = None, tm_license_uris = [], tm_license_hash = None\<rparr>"

definition precommit_value_for_cat ::
  "catalog_launch_sdk \<Rightarrow> bytes32 \<Rightarrow> catalog_premine_record \<Rightarrow> cli_error + cat_precommit"
where
  "precommit_value_for_cat ka payment_asset_id cat =
     try_result (ka_tail_hash ka (cp_tail cat)) (\<lambda>tail_hash.
       if tail_hash \<noteq> cp_asset_id cat then Inl (Custom ''TAIL hash mismatch'')
       else try_result (map_err Driver (initial_cat_inner_puzzle_hash ka cat)) (\<lambda>inner.
         Inr \<lparr>cw_payment_asset_id = payment_asset_id, cw_initial_inner_puzzle_hash = inner,
              cw_tail = cp_tail cat\<rparr>))"

section \<open>The first phase: committing payments\<close>

definition precommit_inner_hashes ::
  "catalog_launch_sdk \<Rightarrow> catalog_constants \<Rightarrow> bytes32 \<Rightarrow> catalog_premine_record list \<Rightarrow> cli_error + bytes32 list"
where
  "precommit_inner_hashes ka constants payment_asset_id =
     collect_results (\<lambda>cat. try_result (precommit_value_for_cat ka payment_asset_id cat) (\<lambda>val.
       Inr (ka_precommit_inner_hash ka constants val)))"

text \<open>Whether any coin, spent or not, was paid to a committed puzzle hash.\<close>

definition cat_committed :: "catalog_launch_sdk \<Rightarrow> client \<Rightarrow> bytes32 \<Rightarrow> bytes32 \<Rightarrow> cli_error + bool" where
  "cat_committed ka client payment_asset_id precommit_inner_puzzle =
     try_result (cl_coin_records_by_puzzle_hash client (ka_cat_puzzle_hash ka payment_asset_id precommit_inner_puzzle)
                   True) (\<lambda>records. Inr (records \<noteq> None \<and> records \<noteq> Some []))"

section \<open>The second phase: registering\<close>

text \<open>A CAT with the value committed to and the puzzle hash of the payment.\<close>

record cat_order =
  co_cat :: catalog_premine_record
  co_value :: cat_precommit
  co_puzzle_hash :: bytes32

definition cat_order_of ::
  "catalog_launch_sdk \<Rightarrow> catalog_constants \<Rightarrow> bytes32 \<Rightarrow> catalog_premine_record \<Rightarrow> cli_error + cat_order"
where
  "cat_order_of ka constants payment_asset_id cat =
     try_result (precommit_value_for_cat ka payment_asset_id cat) (\<lambda>val.
       Inr \<lparr>co_cat = cat, co_value = val,
            co_puzzle_hash = ka_cat_puzzle_hash ka payment_asset_id (ka_precommit_inner_hash ka constants val)\<rparr>)"

record cat_registration =
  cn_order :: cat_order
  cn_record :: coin_record
  cn_lineage_proof :: lineage_proof
  cn_tail_hash :: bytes32
  cn_neighbors :: "catalog_slot_value slot \<times> catalog_slot_value slot"

fun register_cats ::
  "'m catalog_sdk \<Rightarrow> catalog_launch_sdk \<Rightarrow> db \<Rightarrow> catalog_constants \<Rightarrow> coin_record list
    \<Rightarrow> (bytes32, lineage_proof) hash_map \<Rightarrow> cat_order list \<Rightarrow> catalog \<Rightarrow> cat_registration list step"
where
  "register_cats ks ka db constants records proofs [] catalog = Returned (Inr [])"
| "register_cats ks ka db constants records proofs (order # orders) catalog =
     attempt (committed_coin records proofs (co_puzzle_hash order)) (\<lambda>(record, lineage_proof).
     attempt (checked (ka_tail_hash ka (cw_tail (co_value order)))) (\<lambda>tail_hash.
     attempt (checked (get_catalog_neighbors (ks_slot_codec ks) (kc_launcher_id constants) tail_hash db)) (\<lambda>neighbors.
       let neighbors = ka_actual_neighbors ka catalog tail_hash neighbors
       in attempt (checked (map_err Driver (initial_cat_inner_puzzle_hash ka (co_cat order)))) (\<lambda>inner.
          attempt (checked (map_err Driver (ka_register ka catalog tail_hash neighbors (co_value order) inner)))
            (\<lambda>catalog.
          attempt (register_cats ks ka db constants records proofs orders catalog) (\<lambda>registrations.
            Returned (Inr (\<lparr>cn_order = order, cn_record = record, cn_lineage_proof = lineage_proof,
              cn_tail_hash = tail_hash, cn_neighbors = neighbors\<rparr> # registrations))))))))"

definition register_cat_batch ::
  "bool \<Rightarrow> ('n, 'z) sdk_scheme \<Rightarrow> 'm catalog_sdk \<Rightarrow> catalog_launch_sdk \<Rightarrow> (bytes32 list \<Rightarrow> bytes32 list)
    \<Rightarrow> client \<Rightarrow> (cli_error + blockchain_peak option) list \<Rightarrow> catalog_constants \<Rightarrow> bytes32 \<Rightarrow> db
    \<Rightarrow> catalog_premine_record list \<Rightarrow> catalog \<Rightarrow> cat_registration list step option"
where
  "register_cat_batch overflow_checks sdk ks ka hash_order client polls constants payment_asset_id db cats catalog =
     then_try (Some (attempt (checked (collect_results (cat_order_of ka constants payment_asset_id) cats)) (\<lambda>orders.
         attempt (committed_records client (map co_puzzle_hash orders)) (\<lambda>records.
         attempt (target_block_height overflow_checks records (kc_relative_block_height constants) 7) (\<lambda>target.
           Returned (Inr (orders, records, target)))))))
       (\<lambda>(orders, records, target).
     then_try (wait_for_height polls target) (\<lambda>_.
       Some (attempt (parent_proofs sdk (ka_cat_inner_hash ka) hash_order client records) (\<lambda>proofs.
         register_cats ks ka db constants records proofs orders catalog))))"

section \<open>The command\<close>

datatype catalog_launch_plan =
  NoCatsLeft | CommitCats "bytes32 list" u64 | RegisterCats "cat_registration list"

definition cat_registered :: "db \<Rightarrow> catalog_premine_record \<Rightarrow> cli_error + bool" where
  "cat_registered db cat =
     try_result (get_catalog_indexed_slot_value (cp_asset_id cat) db) (\<lambda>slot. Inr (slot \<noteq> None))"

definition catalog_launch_phase ::
  "bool \<Rightarrow> ('n, 'z) sdk_scheme \<Rightarrow> 'm catalog_sdk \<Rightarrow> catalog_launch_sdk \<Rightarrow> (bytes32 list \<Rightarrow> bytes32 list)
    \<Rightarrow> client \<Rightarrow> (cli_error + blockchain_peak option) list \<Rightarrow> catalog_constants \<Rightarrow> string \<Rightarrow> (cli_error + unit)
    \<Rightarrow> string \<Rightarrow> nat \<Rightarrow> catalog_premine_record list \<Rightarrow> catalog \<Rightarrow> db \<Rightarrow> catalog_launch_plan step option"
where
  "catalog_launch_phase overflow_checks sdk ks ka hash_order client polls constants payment_asset_id_str wallet
       fee_str cats_per_spend cats_to_launch catalog db =
     then_try (Some (checked (launch_index (cat_registered db) 0 cats_to_launch 0))) (\<lambda>i.
     if i = length cats_to_launch then Some (Returned (Inr NoCatsLeft))
     else
       then_try (Some (attempt (checked (hex_string_to_bytes32 sdk payment_asset_id_str)) (\<lambda>payment_asset_id.
           attempt (checked wallet) (\<lambda>_.
           attempt (map_outcome (map_err Failed) (parse_amount overflow_checks fee_str False)) (\<lambda>fee.
           attempt (if i \<noteq> 0 then Returned (Inr ([], 0))
                    else attempt (checked (precommit_inner_hashes ka constants payment_asset_id cats_to_launch)) (\<lambda>hashes.
                         attempt (checked (launch_index (cat_committed ka client payment_asset_id) 0 hashes 0)) (\<lambda>committed.
                           Returned (Inr (hashes, committed))))) (\<lambda>(hashes, committed).
             Returned (Inr (payment_asset_id, hashes, committed))))))))
         (\<lambda>(payment_asset_id, hashes, committed).
       if i = 0 \<and> committed \<noteq> length cats_to_launch
       then let batch = launch_batch hashes committed cats_per_spend
            in Some (Returned (Inr (CommitCats batch (word_of_nat (length batch)))))
       else then_try (register_cat_batch overflow_checks sdk ks ka hash_order client polls constants
                         payment_asset_id db (launch_batch cats_to_launch i cats_per_spend) catalog)
              (\<lambda>registrations. Some (Returned (Inr (RegisterCats registrations))))))"

definition catalog_continue_launch ::
  "nat \<Rightarrow> bool \<Rightarrow> ('n, 'z) sdk_scheme \<Rightarrow> 'm catalog_sdk \<Rightarrow> catalog_launch_sdk \<Rightarrow> (bytes32 list \<Rightarrow> bytes32 list)
    \<Rightarrow> client \<Rightarrow> (cli_error + blockchain_peak option) list \<Rightarrow> catalog_constants \<Rightarrow> string \<Rightarrow> (cli_error + unit)
    \<Rightarrow> string \<Rightarrow> nat \<Rightarrow> (cli_error + catalog_premine_record list) \<Rightarrow> db \<Rightarrow> (catalog_launch_plan step \<times> db) option"
where
  "catalog_continue_launch fuel overflow_checks sdk ks ka hash_order client polls constants payment_asset_id_str
       wallet fee_str cats_per_spend premine db =
     (case premine of
        Inl e \<Rightarrow> Some (Returned (Inl (Failed e)), db)
      | Inr cats_to_launch \<Rightarrow>
          if kc_price_singleton_launcher_id constants = 0 \<or> kc_launcher_id constants = 0
          then Some (Returned (Inl (Failed ConstantsNotSet)), db)
          else
            (case sync_catalog fuel sdk ks client constants db of
               None \<Rightarrow> None
             | Some (Inl e, db) \<Rightarrow> Some (Returned (Inl (Failed e)), db)
             | Some (Inr catalog, db) \<Rightarrow>
                 map_option (\<lambda>plan. (plan, db))
                   (catalog_launch_phase overflow_checks sdk ks ka hash_order client polls constants
                      payment_asset_id_str wallet fee_str cats_per_spend cats_to_launch catalog db)))"

section \<open>What is registered\<close>

lemma precommit_value_tail:
  assumes "precommit_value_for_cat ka asset cat = Inr val"
  shows "ka_tail_hash ka (cw_tail val) = Inr (cp_asset_id cat) \<and> cw_payment_asset_id val = asset"
  using assms by (auto simp: precommit_value_for_cat_def result_simps split: if_splits)

lemma cat_orders_ok:
  assumes "collect_results (cat_order_of ka constants asset) cats = Inr orders"
  shows "map co_cat orders = cats \<and>
    (\<forall>order \<in> set orders. precommit_value_for_cat ka asset (co_cat order) = Inr (co_value order))"
  using assms
proof (induction cats arbitrary: orders)
  case (Cons cat cats)
  then obtain order orders' where order: "cat_order_of ka constants asset cat = Inr order"
    and rest: "collect_results (cat_order_of ka constants asset) cats = Inr orders'" and orders: "orders = order # orders'"
    by (auto simp: result_simps)
  from order have "co_cat order = cat \<and> precommit_value_for_cat ka asset cat = Inr (co_value order)"
    by (auto simp: cat_order_of_def result_simps)
  with Cons.IH [OF rest] show ?case by (simp add: orders)
qed simp

lemma register_cats_ok:
  assumes "register_cats ks ka db constants records proofs orders catalog = Returned (Inr registrations)"
  shows "map cn_order registrations = orders \<and>
    (\<forall>r \<in> set registrations. cn_record r \<in> set records \<and>
       puzzle_hash (cr_coin (cn_record r)) = co_puzzle_hash (cn_order r) \<and>
       ka_tail_hash ka (cw_tail (co_value (cn_order r))) = Inr (cn_tail_hash r))"
  using assms
proof (induction orders arbitrary: catalog registrations)
  case (Cons order orders)
  from Cons.prems show ?case
    by (auto simp: result_simps Let_def dest!: Cons.IH committed_coin_hash)
qed simp

text \<open>
  A batch registers the CATs of the file in order, each under the asset id the file gives, which is the
  tree hash of its TAIL, and with a coin at the puzzle hash committed to it.
\<close>

lemma register_cat_batch_ok:
  assumes "register_cat_batch checks sdk ks ka hash_order client polls constants asset db cats catalog =
    Some (Returned (Inr registrations))"
  shows "map (\<lambda>r. co_cat (cn_order r)) registrations = cats"
    and "r \<in> set registrations \<Longrightarrow> cn_tail_hash r = cp_asset_id (co_cat (cn_order r))"
    and "r \<in> set registrations \<Longrightarrow> puzzle_hash (cr_coin (cn_record r)) = co_puzzle_hash (cn_order r)"
proof -
  from assms obtain orders records proofs where
    orders: "collect_results (cat_order_of ka constants asset) cats = Inr orders"
    and regs: "register_cats ks ka db constants records proofs orders catalog = Returned (Inr registrations)"
    by (auto simp: register_cat_batch_def result_simps)
  note o = cat_orders_ok [OF orders] and r = register_cats_ok [OF regs]
  then have "map cn_order registrations = orders" by simp
  then have cats: "map (\<lambda>r. co_cat (cn_order r)) registrations = cats"
    using o by (metis (no_types, lifting) comp_apply map_eq_conv map_map)
  show "map (\<lambda>r. co_cat (cn_order r)) registrations = cats" by (rule cats)
  show "cn_tail_hash r = cp_asset_id (co_cat (cn_order r))" if "r \<in> set registrations"
  proof -
    have "precommit_value_for_cat ka asset (co_cat (cn_order r)) = Inr (co_value (cn_order r))"
      using that o r by auto
    from precommit_value_tail [OF this] r that show ?thesis by simp
  qed
  show "puzzle_hash (cr_coin (cn_record r)) = co_puzzle_hash (cn_order r)" if "r \<in> set registrations"
    using that r by blast
qed

end
