(* ===== verification/MultisigSync.thy ===== *)
theory MultisigSync
  imports QuickSync CsvFiles
begin

text \<open>
  \<open>multisig/sync.rs\<close>: following the singleton that controls a registry's price, a state scheduler that
  ends as a vault or a vault from the start, and the two price unrolls' checks of the schedule. Parsing is
  the SDK's (\<open>multisig_sdk\<close>); \<open>'s\<close> is the scheduled state, \<open>'k\<close> a public key, \<open>'l\<close> a parsed launcher
  solution and \<open>'h\<close> a vault hint. What is printed is not modelled, but printing can fail: the
  callback can, and so can reading the file of aliases.
\<close>

section \<open>Data\<close>

record 's scheduler_info =
  si_state_schedule :: "(u64 \<times> 's) list"
  si_generation :: nat
  si_final_puzzle_hash :: bytes32

record 's state_scheduler =
  ss_coin :: coin
  ss_info :: "'s scheduler_info"

record 'k vault_info =
  vi_launcher_id :: bytes32
  vi_m :: nat
  vi_public_key_list :: "'k list"

record 'k vault =
  va_coin :: coin
  va_proof :: lineage_proof
  va_info :: "'k vault_info"

datatype ('s, 'k) multisig_singleton = SchedulerPhase "'s state_scheduler" | VaultPhase "'k vault"

record ('s, 'k, 'l, 'h) multisig_sdk =
  mg_launcher_solution :: "u8 list \<Rightarrow> cli_error + 'l"
  mg_scheduler_info :: "'l \<Rightarrow> driver_error + ('s scheduler_info \<times> 'h) option"
  mg_vault_info :: "'h \<Rightarrow> 'k vault_info"
  mg_vault_inner_hash :: "'k vault_info \<Rightarrow> bytes32"
  mg_scheduler_inner_hash :: "'s scheduler_info \<Rightarrow> bytes32"
  mg_scheduler_from_launcher :: "coin_spend \<Rightarrow> driver_error + 's state_scheduler option"
  mg_scheduler_child :: "'s state_scheduler \<Rightarrow> 's state_scheduler option"
  mg_vault_from_launcher :: "coin_spend \<Rightarrow> driver_error + 'k vault option"
  mg_vault_from_parent :: "coin_spend \<Rightarrow> driver_error + 'k vault option"

text \<open>What can fail of printing: the callback, if there is one, and the aliases of the public keys.\<close>

record 's printing =
  pr_state_info :: "(u64 \<Rightarrow> 's \<Rightarrow> cli_error + unit) option"
  pr_aliases :: "cli_error + unit"

definition print_medieval_vault_configuration :: "'s printing \<Rightarrow> cli_error + unit" where
  "print_medieval_vault_configuration pr = pr_aliases pr"

definition print_schedule :: "'s printing \<Rightarrow> (u64 \<times> 's) list \<Rightarrow> cli_error + unit" where
  "print_schedule pr schedule =
     (case pr_state_info pr of
        None \<Rightarrow> Inr ()
      | Some f \<Rightarrow>
          try_result (collect_results (\<lambda>(timestamp, state). f timestamp state) schedule) (\<lambda>_.
            print_medieval_vault_configuration pr))"

section \<open>The scheduler phase\<close>

text \<open>
  The loop over the scheduler's coins; the flag says whether the phase is over, which is when a spent coin
  has no scheduler child.
\<close>

definition scheduler_turn ::
  "('n, 'z) sdk_scheme \<Rightarrow> ('s, 'k, 'l, 'h) multisig_sdk \<Rightarrow> client \<Rightarrow> 's state_scheduler \<Rightarrow> bool \<Rightarrow> bool
    \<Rightarrow> (cli_error + 's state_scheduler option) \<times> bool"
where
  "scheduler_turn sdk mg client scheduler skip finished =
     (let coin_id = sdk_coin_id sdk (ss_coin scheduler)
      in case required (cl_coin_record_by_name client coin_id) (CoinNotFound coin_id) of
           Inl e \<Rightarrow> (Inl e, finished)
         | Inr coin_record \<Rightarrow>
             if \<not> cr_spent coin_record then (Inr None, False)
             else (case mg_scheduler_child mg scheduler of
                     Some child \<Rightarrow> (Inr (Some child), finished)
                   | None \<Rightarrow> (Inr None, True)))"

fun scheduler_walk ::
  "nat \<Rightarrow> ('n, 'z) sdk_scheme \<Rightarrow> ('s, 'k, 'l, 'h) multisig_sdk \<Rightarrow> client \<Rightarrow> 's state_scheduler \<Rightarrow> bool \<Rightarrow> bool
    \<Rightarrow> ((cli_error + 's state_scheduler) \<times> bool) option"
where
  "scheduler_walk 0 sdk mg client scheduler skip finished = None"
| "scheduler_walk (Suc fuel) sdk mg client scheduler skip finished =
     (case scheduler_turn sdk mg client scheduler skip finished of
        (Inl e, finished) \<Rightarrow> Some (Inl e, finished)
      | (Inr None, finished) \<Rightarrow> Some (Inr scheduler, finished)
      | (Inr (Some child), finished) \<Rightarrow> scheduler_walk fuel sdk mg client child False finished)"

interpretation sw: chain_walk
  "\<lambda>fuel. scheduler_walk fuel sdk mg client" "scheduler_turn sdk mg client"
  for sdk mg client
  by unfold_locales simp_all

text \<open>The vault the last scheduler coin creates, by its hinted information.\<close>

definition vault_after_scheduler ::
  "('n, 'z) sdk_scheme \<Rightarrow> ('s, 'k, 'l, 'h) multisig_sdk \<Rightarrow> bytes32 \<Rightarrow> 's state_scheduler \<Rightarrow> 'k vault_info \<Rightarrow> 'k vault"
where
  "vault_after_scheduler sdk mg launcher_id scheduler target =
     \<lparr>va_coin = \<lparr>parent_coin_info = sdk_coin_id sdk (ss_coin scheduler),
        puzzle_hash = sdk_singleton_curry_hash sdk launcher_id (si_final_puzzle_hash (ss_info scheduler)),
        amount = amount (ss_coin scheduler)\<rparr>,
      va_proof = \<lparr>lp_parent_parent_coin_info = parent_coin_info (ss_coin scheduler),
        lp_parent_inner_puzzle_hash = mg_scheduler_inner_hash mg (ss_info scheduler),
        lp_parent_amount = amount (ss_coin scheduler)\<rparr>,
      va_info = target\<rparr>"

section \<open>The vault phase\<close>

text \<open>The first unspent coin hinted with the launcher whose parent spend parses to a vault.\<close>

fun find_vault ::
  "('s, 'k, 'l, 'h) multisig_sdk \<Rightarrow> client \<Rightarrow> coin_record list \<Rightarrow> cli_error + 'k vault option"
where
  "find_vault mg client [] = Inr None"
| "find_vault mg client (vault_record # records) =
     (if cr_spent vault_record then find_vault mg client records
      else
        let parent = parent_coin_info (cr_coin vault_record)
        in try_result (required (cl_puzzle_and_solution client parent (Some (cr_confirmed_block_index vault_record)))
                         (CoinNotSpent parent)) (\<lambda>parent_spend.
           try_result (map_err Driver (mg_vault_from_parent mg parent_spend)) (\<lambda>vault.
             case vault of
               Some vault \<Rightarrow> Inr (Some vault)
             | None \<Rightarrow> find_vault mg client records)))"

definition latest_vault ::
  "('s, 'k, 'l, 'h) multisig_sdk \<Rightarrow> client \<Rightarrow> bytes32 \<Rightarrow> 'k vault \<Rightarrow> cli_error + 'k vault"
where
  "latest_vault mg client launcher_id eve_vault =
     try_result (required (cl_coin_records_by_hint client launcher_id) (CoinNotFound launcher_id)) (\<lambda>records.
     try_result (find_vault mg client records) (\<lambda>vault. Inr (unwrap_or vault eve_vault)))"

section \<open>Following the singleton\<close>

type_synonym ('s, 'k) synced_multisig = "cli_error + ('s, 'k) multisig_singleton \<times> 's scheduler_info option"

definition vault_result ::
  "('s, 'k, 'l, 'h) multisig_sdk \<Rightarrow> client \<Rightarrow> bytes32 \<Rightarrow> 's scheduler_info option \<Rightarrow> 'k vault
    \<Rightarrow> ('s, 'k) synced_multisig"
where
  "vault_result mg client launcher_id info eve_vault =
     try_result (latest_vault mg client launcher_id eve_vault) (\<lambda>vault. Inr (VaultPhase vault, info))"

definition sync_as_scheduler ::
  "nat \<Rightarrow> ('n, 'z) sdk_scheme \<Rightarrow> ('s, 'k, 'l, 'h) multisig_sdk \<Rightarrow> 's printing \<Rightarrow> client \<Rightarrow> bytes32 \<Rightarrow> coin_spend
    \<Rightarrow> 's scheduler_info \<Rightarrow> 'h \<Rightarrow> ('s, 'k) synced_multisig option"
where
  "sync_as_scheduler fuel sdk mg pr client launcher_id launcher_spend info hint =
     (let target = mg_vault_info mg hint
      in if mg_vault_inner_hash mg target \<noteq> si_final_puzzle_hash info
         then Some (Inl (Custom ''Singleton hinted incorrectly''))
         else
           (case try_result (print_schedule pr (si_state_schedule info)) (\<lambda>_.
                   required (map_err Driver (mg_scheduler_from_launcher mg launcher_spend))
                     (Custom ''Failed to parse state scheduler'')) of
              Inl e \<Rightarrow> Some (Inl e)
            | Inr scheduler \<Rightarrow>
                map_option (\<lambda>(r, finished). try_result r (\<lambda>scheduler.
                    if finished
                    then vault_result mg client launcher_id (Some info)
                           (vault_after_scheduler sdk mg launcher_id scheduler target)
                    else Inr (SchedulerPhase scheduler, Some info)))
                  (scheduler_walk fuel sdk mg client scheduler False False)))"

definition sync_as_vault ::
  "('s, 'k, 'l, 'h) multisig_sdk \<Rightarrow> 's printing \<Rightarrow> client \<Rightarrow> bytes32 \<Rightarrow> coin_spend \<Rightarrow> ('s, 'k) synced_multisig"
where
  "sync_as_vault mg pr client launcher_id launcher_spend =
     try_result (required (map_err Driver (mg_vault_from_launcher mg launcher_spend))
                   (Custom ''Singleton not a state scheduler nor a vault'')) (\<lambda>eve_vault.
     try_result (if pr_state_info pr = None then Inr () else print_medieval_vault_configuration pr) (\<lambda>_.
       vault_result mg client launcher_id None eve_vault))"

definition sync_multisig_singleton ::
  "nat \<Rightarrow> ('n, 'z) sdk_scheme \<Rightarrow> ('s, 'k, 'l, 'h) multisig_sdk \<Rightarrow> 's printing \<Rightarrow> client \<Rightarrow> bytes32
    \<Rightarrow> ('s, 'k) synced_multisig option"
where
  "sync_multisig_singleton fuel sdk mg pr client launcher_id =
     (case try_result (required (cl_coin_record_by_name client launcher_id) (CoinNotFound launcher_id))
             (\<lambda>launcher_record.
             if \<not> cr_spent launcher_record then Inl (CoinNotSpent launcher_id)
             else
               try_result (required
                   (cl_puzzle_and_solution client launcher_id (Some (cr_spent_block_index launcher_record)))
                   (CoinNotSpent launcher_id)) (\<lambda>launcher_spend.
               try_result (mg_launcher_solution mg (spend_solution launcher_spend)) (\<lambda>launcher_solution.
                 Inr (launcher_spend, launcher_solution)))) of
        Inl e \<Rightarrow> Some (Inl e)
      | Inr (launcher_spend, launcher_solution) \<Rightarrow>
          (case mg_scheduler_info mg launcher_solution of
             Inr (Some (info, hint)) \<Rightarrow>
               sync_as_scheduler fuel sdk mg pr client launcher_id launcher_spend info hint
           | _ \<Rightarrow> Some (sync_as_vault mg pr client launcher_id launcher_spend)))"

section \<open>The walk ends, and what it guarantees\<close>

text \<open>What the SDK guarantees of a scheduler's child: the next generation of the same schedule.\<close>

definition generations_ok :: "('s, 'k, 'l, 'h) multisig_sdk \<Rightarrow> bool" where
  "generations_ok mg \<longleftrightarrow>
     (\<forall>scheduler child. mg_scheduler_child mg scheduler = Some child \<longrightarrow>
        si_state_schedule (ss_info child) = si_state_schedule (ss_info scheduler) \<and>
        si_generation (ss_info child) = Suc (si_generation (ss_info scheduler)) \<and>
        si_generation (ss_info child) \<le> length (si_state_schedule (ss_info scheduler)))"

lemma scheduler_walk_ends:
  assumes "generations_ok mg"
    and "length (si_state_schedule (ss_info scheduler)) < fuel + si_generation (ss_info scheduler)"
    and "si_generation (ss_info scheduler) \<le> length (si_state_schedule (ss_info scheduler))"
  shows "\<exists>answer. scheduler_walk fuel sdk mg client scheduler skip finished = Some answer"
  using assms(2,3)
proof (induction fuel arbitrary: scheduler skip finished)
  case (Suc fuel)
  show ?case
  proof (cases "\<exists>child. fst (scheduler_turn sdk mg client scheduler skip finished) = Inr (Some child)")
    case True
    then obtain child finished' where
      turn: "scheduler_turn sdk mg client scheduler skip finished = (Inr (Some child), finished')"
      by (metis prod.collapse)
    then have "mg_scheduler_child mg scheduler = Some child"
      by (auto simp: scheduler_turn_def Let_def split: sum.splits if_splits option.splits)
    with assms(1) have "si_state_schedule (ss_info child) = si_state_schedule (ss_info scheduler)"
      "si_generation (ss_info child) = Suc (si_generation (ss_info scheduler))"
      "si_generation (ss_info child) \<le> length (si_state_schedule (ss_info scheduler))"
      unfolding generations_ok_def by blast+
    with Suc.prems Suc.IH [of child False finished'] show ?thesis by (simp add: turn)
  next
    case False
    then show ?thesis
      by (auto split: prod.splits sum.splits option.splits)
  qed
qed simp

text \<open>
  Following the price singleton always ends: whatever the node answers, the loop over the scheduler's
  coins takes at most one turn for every entry of its schedule and one more.
\<close>

theorem multisig_sync_ends:
  assumes "generations_ok mg"
    and "\<And>cs scheduler. mg_scheduler_from_launcher mg cs = Inr (Some scheduler) \<Longrightarrow>
      si_generation (ss_info scheduler) = 0 \<and> length (si_state_schedule (ss_info scheduler)) < fuel"
  shows "\<exists>answer. sync_multisig_singleton fuel sdk mg pr client launcher_id = Some answer"
proof -
  have "\<exists>answer. sync_as_scheduler fuel sdk mg pr client launcher_id cs info hint = Some answer" for cs info hint
  proof (cases "try_result (print_schedule pr (si_state_schedule info)) (\<lambda>_.
      required (map_err Driver (mg_scheduler_from_launcher mg cs)) (Custom ''Failed to parse state scheduler''))")
    case (Inr scheduler)
    then have "mg_scheduler_from_launcher mg cs = Inr (Some scheduler)"
      by (auto simp: result_simps required_Inr)
    from assms(2) [OF this]
    have "\<exists>answer. scheduler_walk fuel sdk mg client scheduler False False = Some answer"
      by (intro scheduler_walk_ends [OF assms(1)]) simp_all
    then obtain answer where "scheduler_walk fuel sdk mg client scheduler False False = Some answer" ..
    then show ?thesis using Inr by (auto simp: sync_as_scheduler_def Let_def)
  qed (auto simp: sync_as_scheduler_def Let_def)
  then show ?thesis
    by (auto simp: sync_multisig_singleton_def split: sum.splits option.splits)
qed


text \<open>
  A price singleton that is a scheduler of one entry, one coin after its launch, and its launcher. Coin
  number 5 is a vault of launcher 99 that is hinted with launcher 1.
\<close>

definition example_info :: "nat \<Rightarrow> nat scheduler_info" where
  "example_info g = \<lparr>si_state_schedule = [(100, 7)], si_generation = g, si_final_puzzle_hash = 3\<rparr>"

definition example_scheduler :: "nat \<Rightarrow> nat state_scheduler" where
  "example_scheduler g =
     \<lparr>ss_coin = (if g = 0 then \<lparr>parent_coin_info = 1, puzzle_hash = 2, amount = 1\<rparr>
        else \<lparr>parent_coin_info = 1021, puzzle_hash = 3, amount = 1\<rparr>), ss_info = example_info g\<rparr>"

definition example_vault :: "bytes32 \<Rightarrow> nat vault" where
  "example_vault launcher = \<lparr>va_coin = \<lparr>parent_coin_info = 4, puzzle_hash = 4, amount = 1\<rparr>,
     va_proof = \<lparr>lp_parent_parent_coin_info = 0, lp_parent_inner_puzzle_hash = 0, lp_parent_amount = 1\<rparr>,
     va_info = \<lparr>vi_launcher_id = launcher, vi_m = 1, vi_public_key_list = [1]\<rparr>\<rparr>"

definition example_multisig_sdk :: "(nat, nat, unit, unit) multisig_sdk" where
  "example_multisig_sdk =
     \<lparr>mg_launcher_solution = (\<lambda>_. Inr ()), mg_scheduler_info = (\<lambda>_. Inr (Some (example_info 0, ()))),
      mg_vault_info = (\<lambda>_. va_info (example_vault 1)), mg_vault_inner_hash = (\<lambda>_. 3),
      mg_scheduler_inner_hash = (\<lambda>_. 8), mg_scheduler_from_launcher = (\<lambda>_. Inr (Some (example_scheduler 0))),
      mg_scheduler_child = (\<lambda>s. if s = example_scheduler 0 then Some (example_scheduler 1) else None),
      mg_vault_from_launcher = (\<lambda>_. Inr None),
      mg_vault_from_parent = (\<lambda>_. Inr (Some (example_vault 99)))\<rparr>"

definition quiet :: "'s printing" where
  "quiet = \<lparr>pr_state_info = None, pr_aliases = Inr ()\<rparr>"

definition unspent_record :: "coin \<Rightarrow> coin_record" where
  "unspent_record c = \<lparr>cr_coin = c, cr_confirmed_block_index = 20, cr_spent_block_index = 0, cr_spent = False\<rparr>"

definition multisig_client :: client where
  "multisig_client = example_client
     \<lparr>cl_coin_record_by_name := (\<lambda>i. Inr (Some \<lparr>cr_coin = example_tip_coin,
        cr_confirmed_block_index = 10, cr_spent_block_index = 20, cr_spent = True\<rparr>)),
      cl_puzzle_and_solution := (\<lambda>i h. Inr (Some \<lparr>spend_coin = example_tip_coin,
        puzzle_reveal = [1], spend_solution = [1]\<rparr>)),
      cl_coin_records_by_hint := (\<lambda>i. Inr (if i = 1 then Some [unspent_record (va_coin (example_vault 99))] else None))\<rparr>"

lemma generations_ok_example: "generations_ok example_multisig_sdk"
  by (auto simp: generations_ok_def example_multisig_sdk_def example_scheduler_def example_info_def split: if_splits)

lemma multisig_sync_ends_witness:
  "\<exists>answer. sync_multisig_singleton 2 fixture_sdk example_multisig_sdk quiet multisig_client 1 = Some answer"
  by (rule multisig_sync_ends [OF generations_ok_example])
     (auto simp: example_multisig_sdk_def example_scheduler_def example_info_def)

section \<open>Whose vault it is\<close>

lemma find_vault_first:
  assumes "\<not> cr_spent vault_record"
    and "cl_puzzle_and_solution client (parent_coin_info (cr_coin vault_record))
      (Some (cr_confirmed_block_index vault_record)) = Inr (Some parent_spend)"
    and "mg_vault_from_parent mg parent_spend = Inr (Some vault)"
  shows "find_vault mg client (vault_record # records) = Inr (Some vault)"
  using assms by (simp add: required_def)

text \<open>
  The current vault is the first unspent coin hinted with the price singleton's launcher whose parent
  parses to a vault: anybody can hint a coin, and nothing compares the parsed vault's launcher with the one
  asked for, so a coin of a vault of any other launcher that the node lists first is returned as the
  registry's price singleton.
\<close>

theorem foreign_vault_accepted:
  assumes "sync_multisig_singleton fuel sdk mg pr client launcher_id = Some (Inr (VaultPhase current, info))"
    and "\<not> cr_spent hinted"
    and "cl_puzzle_and_solution client (parent_coin_info (cr_coin hinted)) (Some (cr_confirmed_block_index hinted))
      = Inr (Some hinted_parent_spend)"
    and "mg_vault_from_parent mg hinted_parent_spend = Inr (Some foreign)"
    and "cl_coin_records_by_hint client launcher_id = Inr (Some (hinted # records))"
  shows "current = foreign"
proof -
  have "vault_result mg client launcher_id i v = Inr (VaultPhase foreign, i)" for i v
    using assms(5) find_vault_first [where records = records, OF assms(2-4)]
    by (simp add: vault_result_def latest_vault_def required_def del: find_vault.simps)
  with assms(1) show ?thesis
    by (auto simp: sync_multisig_singleton_def sync_as_scheduler_def sync_as_vault_def Let_def result_simps
        split: sum.splits option.splits prod.splits if_splits)
qed

lemma foreign_vault_accepted_witness:
  "sync_multisig_singleton 2 fixture_sdk example_multisig_sdk quiet multisig_client 1 =
     Some (Inr (VaultPhase (example_vault 99), Some (example_info 0))) \<and>
   vi_launcher_id (va_info (example_vault 99)) \<noteq> 1"
proof -
  obtain current where "sync_multisig_singleton 2 fixture_sdk example_multisig_sdk quiet multisig_client 1 =
      Some (Inr (VaultPhase current, Some (example_info 0)))"
    by (simp add: sync_multisig_singleton_def sync_as_scheduler_def required_def multisig_client_def
        example_multisig_sdk_def quiet_def print_schedule_def vault_result_def latest_vault_def Let_def
        scheduler_turn_def numeral_2_eq_2 example_scheduler_def example_info_def unspent_record_def)
  moreover from foreign_vault_accepted [OF this, where hinted = "unspent_record (va_coin (example_vault 99))"
      and foreign = "example_vault 99" and records = "[]"]
  have "current = example_vault 99"
    by (simp add: multisig_client_def unspent_record_def example_multisig_sdk_def)
  ultimately show ?thesis by (simp add: example_vault_def)
qed

section \<open>Unrolling the schedule\<close>

text \<open>
  What \<open>catalog_unroll_state_scheduler\<close> and \<open>xchandles_unroll_state_scheduler\<close> decide before they spend:
  the scheduled entry of the scheduler's generation (an index past the schedule panics), and whether its time
  has come on chain.
\<close>

definition scheduler_activation_reached :: "u64 \<Rightarrow> u64 \<Rightarrow> bool" where
  "scheduler_activation_reached latest_onchain_timestamp required_timestamp \<longleftrightarrow>
     required_timestamp \<le> latest_onchain_timestamp"

definition xchandles_activation_reached :: "u64 \<Rightarrow> u64 \<Rightarrow> bool" where
  "xchandles_activation_reached latest_onchain_timestamp required_timestamp \<longleftrightarrow>
     required_timestamp \<le> latest_onchain_timestamp"

definition scheduled_state ::
  "bool \<Rightarrow> client \<Rightarrow> 's state_scheduler \<Rightarrow> (cli_error + 's) outcome option"
where
  "scheduled_state overflow_checks client scheduler =
     (if length (si_state_schedule (ss_info scheduler)) \<le> si_generation (ss_info scheduler) then Some Panicked
      else
        let (required_timestamp, new_state) = si_state_schedule (ss_info scheduler) ! si_generation (ss_info scheduler)
        in map_option (map_outcome (\<lambda>r. try_result r (\<lambda>latest_onchain_timestamp.
             if scheduler_activation_reached latest_onchain_timestamp required_timestamp then Inr new_state
             else Inl (Custom (''Latest confirmed transaction-block timestamp is '' @ show_nat (unat latest_onchain_timestamp) @
                    '', but required timestamp for new state is '' @ show_nat (unat required_timestamp))))))
           (get_last_onchain_timestamp overflow_checks client))"

text \<open>What both commands do with what following the price singleton returned.\<close>

definition scheduler_of_singleton :: "('s, 'k) synced_multisig \<Rightarrow> cli_error + 's state_scheduler" where
  "scheduler_of_singleton synced =
     try_result synced (\<lambda>(singleton, _).
       case singleton of
         SchedulerPhase scheduler \<Rightarrow> Inr scheduler
       | VaultPhase _ \<Rightarrow> Inl (Custom ''Price singleton is not (or no longer) a state scheduler''))"

lemma scheduled_state_due:
  assumes "scheduled_state checks client scheduler = Some (Returned (Inr new_state))"
  shows "\<exists>required latest. si_state_schedule (ss_info scheduler) ! si_generation (ss_info scheduler) = (required, new_state)
    \<and> get_last_onchain_timestamp checks client = Some (Returned (Inr latest)) \<and> required \<le> latest
    \<and> si_generation (ss_info scheduler) < length (si_state_schedule (ss_info scheduler))"
  using assms
  by (auto simp: scheduled_state_def Let_def result_simps scheduler_activation_reached_def
      dest!: sym [of "Inr new_state"] split: prod.splits if_splits)

text \<open>A schedule compared entry for entry is the one computed from what is trusted.\<close>

lemma schedule_equal:
  assumes "\<And>r entry. ok (r, entry) \<longleftrightarrow> entry = f r"
  shows "(if length trusted \<noteq> length on_chain then False else list_all ok (zip trusted on_chain)) \<longleftrightarrow>
    on_chain = map f trusted"
  by (auto simp: list_all_length list_eq_iff_nth_eq assms)

end
