(* ===== verification/CatalogVerify.thy ===== *)
theory CatalogVerify
  imports CatalogLaunch MultisigSync
begin

text \<open>
  \<open>catalog/verify_deployment.rs\<close>: checking a launched CATalog against the launch files: its eve coin, that
  every premined CAT was registered in the order of the file and its NFT delivered, and the schedule the
  price singleton was launched with. The SDK's hashes and parsers are parameters.
\<close>

text \<open>
  \<open>vk_eve_layer\<close> parses a puzzle to a singleton and gives the tree hash of its inner puzzle with the
  conditions quoted in it; \<open>vk_cat_nft_hash\<close> is the puzzle hash of the eve NFT with a launcher id, the royalty
  and an inner puzzle.
\<close>

record 'm catalog_verify_sdk =
  vk_cat_maker_hash :: "bytes32 \<Rightarrow> bytes32"
  vk_eve_layer :: "u8 list \<Rightarrow> cli_error + (bytes32 \<times> (cli_error + 'm memo_condition list)) option"
  vk_slot_puzzle_hash :: "bytes32 \<Rightarrow> catalog_slot_value \<Rightarrow> bytes32"
  vk_catalog_inner_hash :: "catalog_state \<Rightarrow> catalog_constants \<Rightarrow> bytes32"
  vk_launcher_puzzle_hash :: bytes32
  vk_prelauncher_hash :: "bytes32 \<Rightarrow> bytes32"
  vk_cat_nft_hash :: "bytes32 \<Rightarrow> bytes32 \<Rightarrow> u16 \<Rightarrow> bytes32 \<Rightarrow> bytes32"

section \<open>The schedule\<close>

definition catalog_trusted_schedule_matches ::
  "'m catalog_verify_sdk \<Rightarrow> catalog_state_schedule_record list \<Rightarrow> (u64 \<times> catalog_state) list \<Rightarrow> bool"
where
  "catalog_trusted_schedule_matches vk trusted on_chain \<longleftrightarrow>
     (if length trusted \<noteq> length on_chain then False
      else list_all (\<lambda>(record, timestamp, state).
             \<not> (cs_timestamp record \<noteq> timestamp \<or>
                cs_registration_price record \<noteq> ct_registration_price state \<or>
                ct_cat_maker_puzzle_hash state \<noteq> vk_cat_maker_hash vk (cs_asset_id record)))
           (zip trusted on_chain))"

text \<open>The schedule matches exactly when it is, entry for entry, the one the file prescribes.\<close>

lemma catalog_schedule_exact:
  "catalog_trusted_schedule_matches vk trusted on_chain \<longleftrightarrow>
     on_chain = map (\<lambda>r. (cs_timestamp r, \<lparr>ct_cat_maker_puzzle_hash = vk_cat_maker_hash vk (cs_asset_id r),
       ct_registration_price = cs_registration_price r\<rparr>)) trusted"
  unfolding catalog_trusted_schedule_matches_def
  by (rule schedule_equal) (auto intro: catalog_state.equality)

section \<open>The eve coin\<close>

definition amount_one :: "'m memo_condition \<Rightarrow> bytes32 option" where
  "amount_one c = (case c of CreateCoinMemo ph a _ \<Rightarrow> if a = 1 then Some ph else None | NoCreateCoin \<Rightarrow> None)"

text \<open>The eve coin's three conditions: the two end slots and the registry with its memos.\<close>

definition eve_conditions :: "'m memo_condition list \<Rightarrow> cli_error + bytes32 \<times> bytes32 \<times> bytes32 \<times> u64 \<times> 'm option" where
  "eve_conditions conditions =
     (case conditions of
        [CreateCoinMemo left _ _, CreateCoinMemo right _ _, CreateCoinMemo ph a memos] \<Rightarrow>
          Inr (left, right, ph, a, memos)
      | _ \<Rightarrow> Inl (Custom ''Eve puzzle does not have the right conditions''))"

definition check_eve ::
  "('n, 'z) sdk_scheme \<Rightarrow> 'm catalog_sdk \<Rightarrow> 'm catalog_verify_sdk \<Rightarrow> catalog_constants \<Rightarrow> coin_record \<Rightarrow> coin
    \<Rightarrow> bytes32 \<Rightarrow> bytes32 \<times> bytes32 \<times> bytes32 \<times> u64 \<times> 'm option \<Rightarrow> cli_error + catalog"
where
  "check_eve sdk ks vk constants launcher_record eve_coin eve_inner_hash = (\<lambda>(left, right, ph, a, memos).
     if left \<noteq> vk_slot_puzzle_hash vk (kc_launcher_id constants) (ks_left_end ks) \<or>
        right \<noteq> vk_slot_puzzle_hash vk (kc_launcher_id constants) (ks_right_end ks)
     then Inl (Custom ''Left/right end slot puzzle hashes do not match expected values'')
     else
       try_result (ok_or memos (Driver (DriverOther ''missing hint''))) (\<lambda>memos.
       try_result (ks_eve_memos ks memos) (\<lambda>(hinted_launcher_id, initial_registration_asset_id, initial_state).
         let inner_hash = vk_catalog_inner_hash vk initial_state constants;
             catalog = ks_new ks
               \<lparr>parent_coin_info = sdk_coin_id sdk eve_coin,
                puzzle_hash = sdk_singleton_curry_hash sdk (kc_launcher_id constants) inner_hash, amount = 1\<rparr>
               \<lparr>lp_parent_parent_coin_info = parent_coin_info eve_coin,
                lp_parent_inner_puzzle_hash = eve_inner_hash, lp_parent_amount = 1\<rparr> initial_state constants
         in if hinted_launcher_id \<noteq> kc_launcher_id constants \<or> ct_registration_price initial_state \<noteq> 1 \<or>
               ct_cat_maker_puzzle_hash initial_state \<noteq> vk_cat_maker_hash vk initial_registration_asset_id \<or>
               puzzle_hash (cr_coin launcher_record) \<noteq> vk_launcher_puzzle_hash vk \<or>
               a \<noteq> 1 \<or> ph \<noteq> inner_hash
            then Inl (Custom ''Eve coin CATalog create_coin not ok'')
            else Inr catalog)))"

definition eve_catalog ::
  "('n, 'z) sdk_scheme \<Rightarrow> 'm catalog_sdk \<Rightarrow> 'm catalog_verify_sdk \<Rightarrow> client \<Rightarrow> catalog_constants
    \<Rightarrow> (cli_error + catalog) outcome"
where
  "eve_catalog sdk ks vk client constants =
     (let launcher_id = kc_launcher_id constants
      in attempt (Returned (required (cl_coin_record_by_name client launcher_id) (CoinNotFound launcher_id)))
           (\<lambda>launcher_record.
         attempt (Returned (required
             (cl_puzzle_and_solution client launcher_id (Some (cr_spent_block_index launcher_record)))
             (CoinNotSpent launcher_id))) (\<lambda>launcher_spend.
         attempt (Returned (ks_run ks launcher_spend)) (\<lambda>conditions.
         attempt (unwrap (find_map amount_one conditions)) (\<lambda>eve_puzzle_hash.
           let eve_coin = \<lparr>parent_coin_info = launcher_id, puzzle_hash = eve_puzzle_hash, amount = 1\<rparr>;
               eve_id = sdk_coin_id sdk eve_coin
           in attempt (Returned (required (cl_coin_record_by_name client eve_id) (CoinNotFound eve_id)))
                (\<lambda>eve_record.
              attempt (Returned (required (cl_puzzle_and_solution client eve_id (Some (cr_spent_block_index eve_record)))
                                   (CoinNotSpent eve_id))) (\<lambda>eve_spend.
              attempt (Returned (vk_eve_layer vk (puzzle_reveal eve_spend))) (\<lambda>layer.
              attempt (unwrap layer) (\<lambda>(inner_hash, conditions).
              attempt (Returned conditions) (\<lambda>conditions.
              attempt (Returned (eve_conditions conditions)) (\<lambda>outputs.
                Returned (check_eve sdk ks vk constants launcher_record eve_coin inner_hash outputs))))))))))))"

section \<open>The premine\<close>

text \<open>The coin a registered CAT's NFT starts in.\<close>

definition eve_cat_nft_coin ::
  "('n, 'z) sdk_scheme \<Rightarrow> 'm catalog_verify_sdk \<Rightarrow> catalog_constants \<Rightarrow> catalog \<Rightarrow> bytes32 \<Rightarrow> bytes32 \<Rightarrow> coin"
where
  "eve_cat_nft_coin sdk vk constants catalog asset_id eve_nft_inner_puzzle_hash =
     (let prelauncher = \<lparr>parent_coin_info = sdk_coin_id sdk (kg_coin catalog),
            puzzle_hash = vk_prelauncher_hash vk asset_id, amount = 0\<rparr>;
          launcher = \<lparr>parent_coin_info = sdk_coin_id sdk prelauncher,
            puzzle_hash = vk_launcher_puzzle_hash vk, amount = 1\<rparr>;
          launcher_id = sdk_coin_id sdk launcher
      in \<lparr>parent_coin_info = launcher_id,
          puzzle_hash = vk_cat_nft_hash vk launcher_id (kc_royalty_address constants)
            (kc_royalty_basis_points constants) eve_nft_inner_puzzle_hash, amount = 1\<rparr>)"

text \<open>
  The CATs of one spend, which are the next ones of the file: what is left of it. The index into the file is
  how much of it has been taken off.
\<close>

fun verify_created ::
  "('n, 'z) sdk_scheme \<Rightarrow> catalog_launch_sdk \<Rightarrow> 'm catalog_verify_sdk \<Rightarrow> client \<Rightarrow> catalog_constants \<Rightarrow> catalog
    \<Rightarrow> catalog_premine_record list \<Rightarrow> cli_error + catalog_premine_record list"
where
  "verify_created sdk ka vk client constants catalog [] = Inr []"
| "verify_created sdk ka vk client constants catalog (top_cat # cats) =
     (if \<not> (\<exists>val \<in> set (kg_created_slots catalog). kv_asset_id val = cp_asset_id top_cat) then Inr (top_cat # cats)
      else
        try_result (map_err Driver (initial_cat_inner_puzzle_hash ka top_cat)) (\<lambda>inner_hash.
          let nft_id = sdk_coin_id sdk (eve_cat_nft_coin sdk vk constants catalog (cp_asset_id top_cat) inner_hash)
          in try_result (required (cl_coin_record_by_name client nft_id) (CoinNotFound nft_id)) (\<lambda>nft_record.
             if \<not> cr_spent nft_record then Inl (CoinNotSpent nft_id)
             else verify_created sdk ka vk client constants catalog cats)))"

fun verify_premine ::
  "nat \<Rightarrow> ('n, 'z) sdk_scheme \<Rightarrow> 'm catalog_sdk \<Rightarrow> catalog_launch_sdk \<Rightarrow> 'm catalog_verify_sdk \<Rightarrow> client
    \<Rightarrow> catalog_constants \<Rightarrow> catalog \<Rightarrow> catalog_premine_record list
    \<Rightarrow> (cli_error + catalog_premine_record list) outcome option"
where
  "verify_premine 0 sdk ks ka vk client constants catalog cats = None"
| "verify_premine (Suc fuel) sdk ks ka vk client constants catalog cats =
     (let coin_id = sdk_coin_id sdk (kg_coin catalog)
      in if cats = [] then Some (Returned (Inr []))
         else
           (case required (cl_coin_record_by_name client coin_id) (CoinNotFound coin_id) of
              Inl e \<Rightarrow> Some (Returned (Inl e))
            | Inr coin_record \<Rightarrow>
                (case cl_puzzle_and_solution client coin_id (Some (cr_spent_block_index coin_record)) of
                   Inl e \<Rightarrow> Some (Returned (Inl e))
                 | Inr None \<Rightarrow> Some (Returned (Inr cats))
                 | Inr (Some coin_spend) \<Rightarrow>
                     (case map_err Driver (ks_from_spend ks coin_spend constants) of
                        Inl e \<Rightarrow> Some (Returned (Inl e))
                      | Inr None \<Rightarrow> Some Panicked
                      | Inr (Some spent) \<Rightarrow>
                          (case verify_created sdk ka vk client constants spent cats of
                             Inl e \<Rightarrow> Some (Returned (Inl e))
                           | Inr rest \<Rightarrow>
                               verify_premine fuel sdk ks ka vk client constants
                                 (ks_child ks spent (kg_latest_state spent)) rest)))))"

section \<open>The command\<close>

text \<open>The vault whose keys are reported.\<close>

definition verify_price_singleton ::
  "nat \<Rightarrow> ('n, 'z) sdk_scheme \<Rightarrow> 'm catalog_verify_sdk \<Rightarrow> (catalog_state, 'k, 'l, 'h) multisig_sdk
    \<Rightarrow> catalog_state printing \<Rightarrow> client \<Rightarrow> catalog_constants \<Rightarrow> (cli_error + catalog_state_schedule_record list)
    \<Rightarrow> (cli_error + 'k vault) option"
where
  "verify_price_singleton fuel sdk vk mg pr client constants price_schedule =
     map_option (\<lambda>synced. try_result synced (\<lambda>(singleton, info).
         case (singleton, info) of
           (VaultPhase my_vault, Some scheduler_info) \<Rightarrow>
             try_result price_schedule (\<lambda>price_schedule.
               if catalog_trusted_schedule_matches vk price_schedule (si_state_schedule scheduler_info)
               then try_result (print_medieval_vault_configuration pr) (\<lambda>_. Inr my_vault)
               else Inl (Custom ''Price schedule does not match the one defined in the csv.''))
         | _ \<Rightarrow> Inl (Custom ''Price singleton was not created correctly or is still in its state scheduler phase.'')))
       (sync_multisig_singleton fuel sdk mg (pr\<lparr>pr_state_info := None\<rparr>) client (kc_price_singleton_launcher_id constants))"

definition catalog_verify_deployment ::
  "nat \<Rightarrow> ('n, 'z) sdk_scheme \<Rightarrow> 'm catalog_sdk \<Rightarrow> catalog_launch_sdk \<Rightarrow> 'm catalog_verify_sdk
    \<Rightarrow> (catalog_state, 'k, 'l, 'h) multisig_sdk \<Rightarrow> catalog_state printing \<Rightarrow> client \<Rightarrow> catalog_constants
    \<Rightarrow> (cli_error + catalog_premine_record list) \<Rightarrow> (cli_error + catalog_state_schedule_record list)
    \<Rightarrow> (cli_error + 'k vault) outcome option"
where
  "catalog_verify_deployment fuel sdk ks ka vk mg pr client constants premine price_schedule =
     (case attempt (Returned premine) (\<lambda>cats_to_launch.
           attempt (eve_catalog sdk ks vk client constants) (\<lambda>catalog. Returned (Inr (cats_to_launch, catalog)))) of
        Panicked \<Rightarrow> Some Panicked
      | Returned (Inl e) \<Rightarrow> Some (Returned (Inl e))
      | Returned (Inr (cats_to_launch, catalog)) \<Rightarrow>
          (case verify_premine fuel sdk ks ka vk client constants catalog cats_to_launch of
             None \<Rightarrow> None
           | Some Panicked \<Rightarrow> Some Panicked
           | Some (Returned (Inl e)) \<Rightarrow> Some (Returned (Inl e))
           | Some (Returned (Inr rest)) \<Rightarrow>
               if rest \<noteq> [] then Some (Returned (Inl (Custom ''CATalog not completely unrolled'')))
               else map_option Returned
                      (verify_price_singleton fuel sdk vk mg pr client constants price_schedule)))"

section \<open>What a verified deployment is\<close>

definition catalog_spend_parsed ::
  "('n, 'z) sdk_scheme \<Rightarrow> 'm catalog_sdk \<Rightarrow> client \<Rightarrow> catalog_constants \<Rightarrow> catalog \<Rightarrow> catalog \<Rightarrow> bool"
where
  "catalog_spend_parsed sdk ks client constants catalog spent \<longleftrightarrow>
     (\<exists>coin_record coin_spend.
        cl_coin_record_by_name client (sdk_coin_id sdk (kg_coin catalog)) = Inr (Some coin_record) \<and>
        cl_puzzle_and_solution client (sdk_coin_id sdk (kg_coin catalog)) (Some (cr_spent_block_index coin_record))
          = Inr (Some coin_spend) \<and>
        ks_from_spend ks coin_spend constants = Inr (Some spent))"

text \<open>The catalogs the node's spends lead to.\<close>

inductive catalog_reaches ::
  "('n, 'z) sdk_scheme \<Rightarrow> 'm catalog_sdk \<Rightarrow> client \<Rightarrow> catalog_constants \<Rightarrow> catalog \<Rightarrow> catalog \<Rightarrow> bool"
  for sdk ks client constants
where
  reaches_start [intro!]: "catalog_reaches sdk ks client constants catalog catalog"
| reaches_spend: "catalog_reaches sdk ks client constants catalog tip"
  if "catalog_spend_parsed sdk ks client constants catalog spent"
    and "catalog_reaches sdk ks client constants (ks_child ks spent (kg_latest_state spent)) tip"

definition cat_delivered ::
  "('n, 'z) sdk_scheme \<Rightarrow> catalog_launch_sdk \<Rightarrow> 'm catalog_verify_sdk \<Rightarrow> client \<Rightarrow> catalog_constants \<Rightarrow> catalog
    \<Rightarrow> catalog_premine_record \<Rightarrow> bool"
where
  "cat_delivered sdk ka vk client constants spent cat \<longleftrightarrow>
     (\<exists>val \<in> set (kg_created_slots spent). kv_asset_id val = cp_asset_id cat) \<and>
     (\<exists>inner_hash nft_record. initial_cat_inner_puzzle_hash ka cat = Inr inner_hash \<and>
        cl_coin_record_by_name client
          (sdk_coin_id sdk (eve_cat_nft_coin sdk vk constants spent (cp_asset_id cat) inner_hash))
          = Inr (Some nft_record) \<and> cr_spent nft_record)"

lemma verify_created_ok:
  assumes "verify_created sdk ka vk client constants spent cats = Inr rest"
  shows "\<exists>taken. cats = taken @ rest \<and> list_all (cat_delivered sdk ka vk client constants spent) taken"
  using assms
proof (induction cats arbitrary: rest)
  case (Cons top_cat cats)
  show ?case
  proof (cases "rest = top_cat # cats")
    case False
    with Cons.prems have "cat_delivered sdk ka vk client constants spent top_cat"
      and "verify_created sdk ka vk client constants spent cats = Inr rest"
      by (auto simp: cat_delivered_def result_simps required_Inr Let_def split: if_splits)
    with Cons.IH obtain taken where "cats = taken @ rest"
      "list_all (cat_delivered sdk ka vk client constants spent) taken" by blast
    with \<open>cat_delivered sdk ka vk client constants spent top_cat\<close> show ?thesis
      by (intro exI [of _ "top_cat # taken"]) simp
  qed simp
qed simp

lemma verify_premine_ok:
  assumes "verify_premine fuel sdk ks ka vk client constants catalog cats = Some (Returned (Inr []))"
    and "cat \<in> set cats"
  shows "\<exists>tip spent. catalog_reaches sdk ks client constants catalog tip \<and>
    catalog_spend_parsed sdk ks client constants tip spent \<and> cat_delivered sdk ka vk client constants spent cat"
  using assms
proof (induction fuel arbitrary: catalog cats)
  case (Suc fuel)
  then obtain spent rest where spent: "catalog_spend_parsed sdk ks client constants catalog spent"
    and created: "verify_created sdk ka vk client constants spent cats = Inr rest"
    and walk: "verify_premine fuel sdk ks ka vk client constants
      (ks_child ks spent (kg_latest_state spent)) rest = Some (Returned (Inr []))"
    by (auto simp: Let_def catalog_spend_parsed_def required_Inr result_simps
        split: if_splits sum.splits option.splits)
  from verify_created_ok [OF created] obtain taken where taken: "cats = taken @ rest"
    "list_all (cat_delivered sdk ka vk client constants spent) taken" by blast
  show ?case
  proof (cases "cat \<in> set taken")
    case True
    with taken(2) spent show ?thesis by (auto simp: list_all_iff)
  next
    case False
    with taken(1) Suc.prems(2) have "cat \<in> set rest" by auto
    from Suc.IH [OF walk this] show ?thesis using reaches_spend [OF spent] by blast
  qed
qed simp

lemma verify_price_singleton_ok:
  assumes "verify_price_singleton fuel sdk vk mg pr client constants price_schedule = Some (Inr vault)"
  shows "\<exists>schedule info. price_schedule = Inr schedule \<and>
    sync_multisig_singleton fuel sdk mg (pr\<lparr>pr_state_info := None\<rparr>) client (kc_price_singleton_launcher_id constants) =
      Some (Inr (VaultPhase vault, Some info)) \<and>
    catalog_trusted_schedule_matches vk schedule (si_state_schedule info)"
proof -
  from assms obtain singleton info where synced:
    "sync_multisig_singleton fuel sdk mg (pr\<lparr>pr_state_info := None\<rparr>) client (kc_price_singleton_launcher_id constants) =
      Some (Inr (singleton, info))"
    by (auto simp: verify_price_singleton_def result_simps)
  with assms show ?thesis
    by (cases singleton; cases info)
      (auto simp: verify_price_singleton_def result_simps split: if_splits)
qed

text \<open>
  C10. A deployment passes only when the chain shows it: from the eve coin checked against the constants, the
  registry's spends lead to one that registers the CAT, for every CAT of the premine file, and the eve NFT
  with exactly the file's owner, metadata and the configured royalty exists and was spent on; and the
  price singleton was launched with exactly the schedule of the file, and is a vault now.
\<close>

theorem catalog_verification_sound:
  assumes "catalog_verify_deployment fuel sdk ks ka vk mg pr client constants premine price_schedule =
    Some (Returned (Inr vault))"
  shows "\<exists>cats eve schedule info. premine = Inr cats \<and> eve_catalog sdk ks vk client constants = Returned (Inr eve) \<and>
    (\<forall>cat \<in> set cats. \<exists>tip spent. catalog_reaches sdk ks client constants eve tip \<and>
       catalog_spend_parsed sdk ks client constants tip spent \<and>
       cat_delivered sdk ka vk client constants spent cat) \<and>
    price_schedule = Inr schedule \<and>
    sync_multisig_singleton fuel sdk mg (pr\<lparr>pr_state_info := None\<rparr>) client (kc_price_singleton_launcher_id constants) =
      Some (Inr (VaultPhase vault, Some info)) \<and>
    si_state_schedule info = map (\<lambda>r. (cs_timestamp r,
      \<lparr>ct_cat_maker_puzzle_hash = vk_cat_maker_hash vk (cs_asset_id r),
       ct_registration_price = cs_registration_price r\<rparr>)) schedule"
proof -
  from assms obtain cats eve where premine: "premine = Inr cats"
    and eve: "eve_catalog sdk ks vk client constants = Returned (Inr eve)"
    and walk: "verify_premine fuel sdk ks ka vk client constants eve cats = Some (Returned (Inr []))"
    and price: "verify_price_singleton fuel sdk vk mg pr client constants price_schedule = Some (Inr vault)"
    by (auto simp: catalog_verify_deployment_def result_simps
        split: outcome.splits sum.splits option.splits if_splits)
  from verify_price_singleton_ok [OF price] obtain schedule info where "price_schedule = Inr schedule"
    and "sync_multisig_singleton fuel sdk mg (pr\<lparr>pr_state_info := None\<rparr>) client (kc_price_singleton_launcher_id constants) =
      Some (Inr (VaultPhase vault, Some info))"
    and "catalog_trusted_schedule_matches vk schedule (si_state_schedule info)" by blast
  with premine eve verify_premine_ok [OF walk] show ?thesis
    unfolding catalog_schedule_exact by blast
qed

text \<open>A node that shows every coin as spent, a CAT 7 registered by the eve registry's spend, and its schedule.\<close>

definition spent_at_20 :: coin_record where
  "spent_at_20 = \<lparr>cr_coin = \<lparr>parent_coin_info = 0, puzzle_hash = 30, amount = 1\<rparr>, cr_confirmed_block_index = 10,
     cr_spent_block_index = 20, cr_spent = True\<rparr>"

definition verify_client :: client where
  "verify_client = example_client
     \<lparr>cl_coin_record_by_name := (\<lambda>_. Inr (Some spent_at_20)),
      cl_puzzle_and_solution := (\<lambda>_ _. Inr (Some \<lparr>spend_coin = example_tip_coin, puzzle_reveal = [], spend_solution = []\<rparr>)),
      cl_coin_records_by_hint := (\<lambda>_. Inr (Some []))\<rparr>"

definition verify_ks :: "unit catalog_sdk" where
  "verify_ks = example_catalog_sdk
     \<lparr>ks_from_spend := (\<lambda>_ _. Inr (Some ((example_catalog example_spent_coin)
        \<lparr>kg_created_slots := [catalog_value 7 1]\<rparr>))),
      ks_run := (\<lambda>_. Inr [CreateCoinMemo 9 1 None]),
      ks_eve_memos := (\<lambda>_. Inr (1, 8, example_state))\<rparr>"

definition verify_ka :: catalog_launch_sdk where
  "verify_ka = \<lparr>ka_tail_hash = (\<lambda>_. Inr 7), ka_initial_inner_hash = (\<lambda>_ _. Inr 6), ka_precommit_inner_hash = (\<lambda>_ _. 5),
     ka_cat_puzzle_hash = (\<lambda>_ h. h), ka_cat_inner_hash = (\<lambda>_. Inr (Some 5)), ka_actual_neighbors = (\<lambda>_ _ n. n),
     ka_register = (\<lambda>c _ _ _ _. Inr c)\<rparr>"

definition verify_vk :: "unit catalog_verify_sdk" where
  "verify_vk = \<lparr>vk_cat_maker_hash = (\<lambda>_. 5),
     vk_eve_layer = (\<lambda>_. Inr (Some (6, Inr [CreateCoinMemo 21 0 None, CreateCoinMemo 21 0 None, CreateCoinMemo 23 1 (Some ())]))),
     vk_slot_puzzle_hash = (\<lambda>_ _. 21), vk_catalog_inner_hash = (\<lambda>_ _. 23), vk_launcher_puzzle_hash = 30,
     vk_prelauncher_hash = (\<lambda>h. h), vk_cat_nft_hash = (\<lambda>_ _ _ h. h)\<rparr>"

definition verify_info :: "catalog_state scheduler_info" where
  "verify_info = \<lparr>si_state_schedule = [(100, example_state)], si_generation = 0, si_final_puzzle_hash = 3\<rparr>"

definition verify_scheduler :: "catalog_state state_scheduler" where
  "verify_scheduler = \<lparr>ss_coin = example_tip_coin, ss_info = verify_info\<rparr>"

definition verify_mg :: "(catalog_state, nat, unit, unit) multisig_sdk" where
  "verify_mg =
     \<lparr>mg_launcher_solution = (\<lambda>_. Inr ()), mg_scheduler_info = (\<lambda>_. Inr (Some (verify_info, ()))),
      mg_vault_info = (\<lambda>_. va_info (example_vault 4)), mg_vault_inner_hash = (\<lambda>_. 3),
      mg_scheduler_inner_hash = (\<lambda>_. 8), mg_scheduler_from_launcher = (\<lambda>_. Inr (Some verify_scheduler)),
      mg_scheduler_child = (\<lambda>_. None), mg_vault_from_launcher = (\<lambda>_. Inr None), mg_vault_from_parent = (\<lambda>_. Inr None)\<rparr>"

definition verify_cat :: catalog_premine_record where
  "verify_cat = \<lparr>cp_asset_id = 7, cp_tail = [], cp_owner = 1, cp_code = [], cp_name = [], cp_precision = 3,
     cp_image_uris = [], cp_image_hash = 0\<rparr>"

definition verify_schedule :: "catalog_state_schedule_record list" where
  "verify_schedule = [\<lparr>cs_timestamp = 100, cs_asset_id = 8, cs_registration_price = 1\<rparr>]"

lemmas verify_example_defs = verify_client_def verify_ks_def verify_ka_def verify_vk_def verify_mg_def
  verify_scheduler_def verify_info_def verify_cat_def spent_at_20_def example_constants_def example_state_def

lemma catalog_verification_sound_witness:
  "\<exists>vault tip spent. catalog_verify_deployment 2 fixture_sdk verify_ks verify_ka verify_vk verify_mg quiet verify_client
       example_constants (Inr [verify_cat]) (Inr verify_schedule) = Some (Returned (Inr vault)) \<and>
     catalog_spend_parsed fixture_sdk verify_ks verify_client example_constants tip spent \<and>
     cat_delivered fixture_sdk verify_ka verify_vk verify_client example_constants spent verify_cat"
proof -
  have eve: "\<exists>eve. eve_catalog fixture_sdk verify_ks verify_vk verify_client example_constants = Returned (Inr eve)"
    by (simp add: eve_catalog_def Let_def required_def amount_one_def eve_conditions_def check_eve_def
        verify_example_defs example_catalog_sdk_def)
  have walk: "verify_premine 2 fixture_sdk verify_ks verify_ka verify_vk verify_client example_constants eve [verify_cat] =
      Some (Returned (Inr []))" for eve
    by (simp add: numeral_2_eq_2 required_def initial_cat_inner_puzzle_hash_def catalog_value_def Let_def
        verify_example_defs)
  have "sync_multisig_singleton 2 fixture_sdk verify_mg quiet verify_client 4 =
      Some (Inr (VaultPhase (vault_after_scheduler fixture_sdk verify_mg 4 verify_scheduler (va_info (example_vault 4))),
        Some verify_info))"
    by (simp add: sync_multisig_singleton_def sync_as_scheduler_def required_def verify_client_def spent_at_20_def
        quiet_def print_schedule_def vault_result_def latest_vault_def Let_def scheduler_turn_def numeral_2_eq_2
        verify_mg_def verify_info_def)
  then have price: "\<exists>vault. verify_price_singleton 2 fixture_sdk verify_vk verify_mg quiet verify_client example_constants
      (Inr verify_schedule) = Some (Inr vault)"
    by (simp add: verify_price_singleton_def catalog_trusted_schedule_matches_def verify_schedule_def
        example_constants_def verify_info_def example_state_def verify_vk_def print_medieval_vault_configuration_def
        quiet_def)
  from eve walk price obtain vault where
    verified: "catalog_verify_deployment 2 fixture_sdk verify_ks verify_ka verify_vk verify_mg quiet verify_client
       example_constants (Inr [verify_cat]) (Inr verify_schedule) = Some (Returned (Inr vault))"
    by (auto simp: catalog_verify_deployment_def)
  from catalog_verification_sound [OF this] have
    "\<exists>tip spent. catalog_spend_parsed fixture_sdk verify_ks verify_client example_constants tip spent \<and>
      cat_delivered fixture_sdk verify_ka verify_vk verify_client example_constants spent verify_cat"
    by clarsimp (intro exI conjI, assumption+)
  with verified show ?thesis by blast
qed

end
