(* ===== verification/XchLaunch.thy ===== *)
theory XchLaunch
  imports LaunchSteps PremineTiming CsvFiles XchSync
begin

text \<open>
  \<open>xchandles/continue_launch.rs\<close>: one run of the command that launches the premined handles in batches.
  It first mints an NFT and commits a payment for every handle, batch by batch; later runs register the
  committed handles. Modelled up to what it builds the spends from; the wallet's offer, the confirmation
  prompt, the signing and the push are not. Parsing and hashing puzzles are the SDK's (\<open>launch_sdk\<close>).
\<close>

section \<open>Data\<close>

record handle_nft_metadata =
  nm_display_name :: "string option"
  nm_image_uris :: "string list"
  nm_image_hash :: "bytes32 option"
  nm_metadata_uris :: "string list"
  nm_metadata_hash :: "bytes32 option"
  nm_license_uris :: "string list"
  nm_license_hash :: "bytes32 option"

definition metadata_for_handle_nft :: "xchandles_launch_record \<Rightarrow> handle_nft_metadata" where
  "metadata_for_handle_nft handle_info =
     \<lparr>nm_display_name = Some (CHR ''@'' # lr_handle handle_info),
      nm_image_uris = lr_image_uris handle_info, nm_image_hash = Some (lr_image_hash handle_info),
      nm_metadata_uris = lr_metadata_uris handle_info, nm_metadata_hash = Some (lr_metadata_hash handle_info),
      nm_license_uris = lr_license_uris handle_info, nm_license_hash = Some (lr_license_hash handle_info)\<rparr>"

text \<open>\<open>NftInfo\<close> with the metadata updater and the owner the command fixes left out, and an eve NFT.\<close>

record nft_info =
  ni_launcher_id :: bytes32
  ni_metadata :: handle_nft_metadata
  ni_royalty_puzzle_hash :: bytes32
  ni_royalty_basis_points :: u16
  ni_p2_puzzle_hash :: bytes32

record eve_nft =
  en_coin :: coin
  en_parent_parent_coin_info :: bytes32
  en_info :: nft_info

text \<open>
  The arguments of \<open>XchandlesPrecommitValue::for_normal_registration\<close>: the payment asset, the base price
  and period of the pricing puzzle, the pricing solution, the handle, the secret and the two launcher ids.
\<close>

record precommit_value =
  pv_payment_asset_id :: bytes32
  pv_base_price :: u64
  pv_registration_period :: u64
  pv_buy_time :: u64
  pv_current_expiration :: u64
  pv_handle :: string
  pv_num_periods :: u64
  pv_secret :: bytes32
  pv_owner_launcher_id :: bytes32
  pv_resolved_launcher_id :: bytes32

definition precommit_value_for_handle ::
  "xchandles_launch_record \<Rightarrow> bytes32 \<Rightarrow> bytes32 \<Rightarrow> u64 \<Rightarrow> u64 \<Rightarrow> u64 \<Rightarrow> precommit_value"
where
  "precommit_value_for_handle handle handle_nft_launcher_id payment_asset_id buy_time num_periods
       registration_period =
     \<lparr>pv_payment_asset_id = payment_asset_id, pv_base_price = 1, pv_registration_period = registration_period,
      pv_buy_time = buy_time, pv_current_expiration = 0, pv_handle = lr_handle handle,
      pv_num_periods = num_periods, pv_secret = 0, pv_owner_launcher_id = handle_nft_launcher_id,
      pv_resolved_launcher_id = handle_nft_launcher_id\<rparr>"

text \<open>
  \<open>la_handle_hint\<close> is the tree hash of the pair of a launcher id and a handle's tree hash,
  \<open>la_prelauncher_puzzle_hash\<close> that of the constant prelauncher, \<open>la_precommit_puzzle_hash\<close> that of the CAT
  of the precommit layer, \<open>la_register\<close> the registry after one more register action of the same spend.
\<close>

record 'c launch_sdk =
  la_handle_hint :: "bytes32 \<Rightarrow> bytes32 \<Rightarrow> bytes32"
  la_prelauncher_puzzle_hash :: bytes32
  la_launcher_puzzle_hash :: bytes32
  la_nft_puzzle_hash :: "nft_info \<Rightarrow> bytes32"
  la_precommit_puzzle_hash :: "'c \<Rightarrow> bytes32 \<Rightarrow> precommit_value \<Rightarrow> bytes32"
  la_relative_block_height :: "'c \<Rightarrow> u32"
  la_address_puzzle_hash :: "string \<Rightarrow> cli_error + bytes32"
  la_cat_inner_hash :: "u8 list \<Rightarrow> cli_error + bytes32 option"
  la_actual_neighbors :: "'c registry \<Rightarrow> bytes32 \<Rightarrow> handle_slot_value slot \<times> handle_slot_value slot
    \<Rightarrow> handle_slot_value slot \<times> handle_slot_value slot"
  la_register :: "'c registry \<Rightarrow> handle_slot_value slot \<times> handle_slot_value slot \<Rightarrow> precommit_value
    \<Rightarrow> u64 \<Rightarrow> driver_error + 'c registry"

section \<open>The NFT minted for a handle\<close>

definition expected_nft ::
  "('n, 'z) sdk_scheme \<Rightarrow> 'c launch_sdk \<Rightarrow> xchandles_launch_record \<Rightarrow> bytes32 \<Rightarrow> u16 \<Rightarrow> bytes32
    \<Rightarrow> coin_record \<Rightarrow> nft_info \<times> coin"
where
  "expected_nft sdk la handle royalty_puzzle_hash royalty_basis_points eve_nft_temp_inner_ph launcher_record =
     (let launcher_id = sdk_coin_id sdk
            \<lparr>parent_coin_info = sdk_coin_id sdk (cr_coin launcher_record),
             puzzle_hash = la_launcher_puzzle_hash la, amount = 1\<rparr>;
          info = \<lparr>ni_launcher_id = launcher_id, ni_metadata = metadata_for_handle_nft handle,
             ni_royalty_puzzle_hash = royalty_puzzle_hash, ni_royalty_basis_points = royalty_basis_points,
             ni_p2_puzzle_hash = eve_nft_temp_inner_ph\<rparr>
      in (info, \<lparr>parent_coin_info = launcher_id, puzzle_hash = la_nft_puzzle_hash la info, amount = 1\<rparr>))"

text \<open>Which of the coins hinted for the handle are prelaunchers, and the first expected NFT that exists.\<close>

definition eve_nft_for_handle ::
  "('n, 'z) sdk_scheme \<Rightarrow> 'c launch_sdk \<Rightarrow> client \<Rightarrow> bytes32 \<Rightarrow> bytes32 \<Rightarrow> u16 \<Rightarrow> bytes32
    \<Rightarrow> xchandles_launch_record \<Rightarrow> cli_error + eve_nft option"
where
  "eve_nft_for_handle sdk la client registry_launcher_id royalty_puzzle_hash royalty_basis_points
       eve_nft_temp_inner_ph handle =
     try_result
       (required (cl_all_records_by_hint client
            (la_handle_hint la registry_launcher_id (sdk_str_tree_hash sdk (lr_handle handle))))
          (Custom ''Failed to get possible launchers - aborting...'')) (\<lambda>hinted.
       let possible = filter (\<lambda>cr. amount (cr_coin cr) mod 2 = 0 \<and>
              puzzle_hash (cr_coin cr) = la_prelauncher_puzzle_hash la) hinted;
           expected = map (expected_nft sdk la handle royalty_puzzle_hash royalty_basis_points
              eve_nft_temp_inner_ph) possible
       in try_result (cl_unspent_records_by_names client (map (\<lambda>e. sdk_coin_id sdk (snd e)) expected))
            (\<lambda>answer.
            case answer of
              Some (first # _) \<Rightarrow>
                Inr (map_option (\<lambda>(record, info, coin).
                       \<lparr>en_coin = cr_coin first, en_parent_parent_coin_info = sdk_coin_id sdk (cr_coin record),
                        en_info = info\<rparr>)
                  (find (\<lambda>(record, info, coin). coin = cr_coin first) (zip possible expected)))
            | _ \<Rightarrow> Inr None))"

section \<open>The first phase: committing payments\<close>

record precommit_order =
  po_handle :: xchandles_launch_record
  po_buy_time :: u64
  po_num_periods :: u64
  po_prelauncher_amount :: u64
  po_price :: u64

text \<open>\<open>total += price\<close> over a batch.\<close>

fun payments_total :: "bool \<Rightarrow> u64 \<Rightarrow> u64 list \<Rightarrow> u64 step" where
  "payments_total overflow_checks paid [] = Returned (Inr paid)"
| "payments_total overflow_checks paid (price # prices) =
     (if overflow_checks \<and> 2 ^ 64 \<le> unat paid + unat price then Panicked
      else payments_total overflow_checks (paid + price) prices)"

definition batch_timings ::
  "calendar \<Rightarrow> xchandles_launch_record list \<Rightarrow> u64 \<Rightarrow> u64 \<Rightarrow> (u64 \<times> u64) list step"
where
  "batch_timings cal handles now_secs registration_period =
     map_outcome (map_err Failed) (assert_batch_csv_expirations cal
       (map (\<lambda>h. (lr_handle h, lr_expiration h)) handles) now_secs registration_period)"

definition batch_prices ::
  "('n, 'z) sdk_scheme \<Rightarrow> xchandles_launch_record list \<Rightarrow> (u64 \<times> u64) list \<Rightarrow> u64 list"
where
  "batch_prices sdk handles timings =
     map (\<lambda>(handle, _, n). sdk_factor_price sdk 1 (lr_handle handle) n) (zip handles timings)"

definition precommit_orders ::
  "('n, 'z) sdk_scheme \<Rightarrow> xchandles_launch_record list \<Rightarrow> (u64 \<times> u64) list \<Rightarrow> precommit_order list"
where
  "precommit_orders sdk handles timings =
     map (\<lambda>(index, handle, buy_time, n).
         \<lparr>po_handle = handle, po_buy_time = buy_time, po_num_periods = n,
          po_prelauncher_amount = word_of_nat (index * 2),
          po_price = sdk_factor_price sdk 1 (lr_handle handle) n\<rparr>)
       (zip [0..<length handles] (zip handles timings))"

definition commit_batch ::
  "bool \<Rightarrow> calendar \<Rightarrow> ('n, 'z) sdk_scheme \<Rightarrow> u64 \<Rightarrow> u64 \<Rightarrow> xchandles_launch_record list
    \<Rightarrow> (precommit_order list \<times> u64) step"
where
  "commit_batch overflow_checks cal sdk now_secs registration_period handle_infos =
     attempt (batch_timings cal handle_infos now_secs registration_period) (\<lambda>timings.
     attempt (payments_total overflow_checks 0 (batch_prices sdk handle_infos timings)) (\<lambda>payment_total.
       Returned (Inr (precommit_orders sdk handle_infos timings, payment_total))))"

section \<open>The second phase: registering\<close>

fun eve_nfts_for ::
  "(xchandles_launch_record \<Rightarrow> cli_error + eve_nft option) \<Rightarrow> xchandles_launch_record list
    \<Rightarrow> cli_error + eve_nft list"
where
  "eve_nfts_for nft_of [] = Inr []"
| "eve_nfts_for nft_of (handle # handles) =
     try_result (required (nft_of handle)
         (Custom (''No valid eve NFT found for handle '' @ lr_handle handle @ '' - aborting...''))) (\<lambda>nft.
     try_result (eve_nfts_for nft_of handles) (\<lambda>nfts. Inr (nft # nfts)))"

text \<open>A handle with its NFT and timing, and with the puzzle hash its payment was committed to.\<close>

record handle_order =
  ho_handle :: xchandles_launch_record
  ho_nft :: eve_nft
  ho_buy_time :: u64
  ho_value :: precommit_value
  ho_puzzle_hash :: bytes32
  ho_amount :: u64

definition handle_order_of ::
  "('n, 'z) sdk_scheme \<Rightarrow> 'c launch_sdk \<Rightarrow> 'c \<Rightarrow> bytes32 \<Rightarrow> u64
    \<Rightarrow> xchandles_launch_record \<times> eve_nft \<times> u64 \<times> u64 \<Rightarrow> handle_order"
where
  "handle_order_of sdk la constants payment_asset_id registration_period = (\<lambda>(handle, nft, buy_time, n).
     let val = precommit_value_for_handle handle (ni_launcher_id (en_info nft)) payment_asset_id buy_time n
           registration_period
     in \<lparr>ho_handle = handle, ho_nft = nft, ho_buy_time = buy_time, ho_value = val,
         ho_puzzle_hash = la_precommit_puzzle_hash la constants payment_asset_id val,
         ho_amount = sdk_factor_price sdk 1 (lr_handle handle) n\<rparr>)"

definition handle_orders ::
  "calendar \<Rightarrow> ('n, 'z) sdk_scheme \<Rightarrow> 'c launch_sdk \<Rightarrow> (xchandles_launch_record \<Rightarrow> cli_error + eve_nft option)
    \<Rightarrow> 'c \<Rightarrow> bytes32 \<Rightarrow> u64 \<Rightarrow> u64 \<Rightarrow> xchandles_launch_record list \<Rightarrow> handle_order list step"
where
  "handle_orders cal sdk la nft_of constants payment_asset_id now_secs registration_period handles =
     attempt (batch_timings cal handles now_secs registration_period) (\<lambda>timings.
     attempt (checked (eve_nfts_for nft_of handles)) (\<lambda>nfts.
       Returned (Inr (map (handle_order_of sdk la constants payment_asset_id registration_period)
         (zip handles (zip nfts timings))))))"

record registration_plan =
  rn_order :: handle_order
  rn_record :: coin_record
  rn_lineage_proof :: lineage_proof
  rn_neighbors :: "handle_slot_value slot \<times> handle_slot_value slot"

text \<open>One register action after another; the database is read before each, the registry carries the rest.\<close>

fun register_orders ::
  "('n, 'z) sdk_scheme \<Rightarrow> 'c registry_sdk \<Rightarrow> 'c launch_sdk \<Rightarrow> db \<Rightarrow> u64 \<Rightarrow> coin_record list
    \<Rightarrow> (bytes32, lineage_proof) hash_map \<Rightarrow> handle_order list \<Rightarrow> 'c registry \<Rightarrow> registration_plan list step"
where
  "register_orders sdk xs la db registration_period records proofs [] registry = Returned (Inr [])"
| "register_orders sdk xs la db registration_period records proofs (order # orders) registry =
     attempt (committed_coin records proofs (ho_puzzle_hash order)) (\<lambda>(record, lineage_proof).
       let handle_hash = sdk_str_tree_hash sdk (pv_handle (ho_value order))
       in attempt (checked (get_xchandles_neighbors (xs_slot_codec xs)
                     (xs_launcher_id xs (rg_constants registry)) handle_hash db)) (\<lambda>neighbors.
          let neighbors = la_actual_neighbors la registry handle_hash neighbors
          in attempt (checked (map_err Driver (la_register la registry neighbors (ho_value order) registration_period)))
               (\<lambda>registry.
             attempt (register_orders sdk xs la db registration_period records proofs orders registry) (\<lambda>plans.
               Returned (Inr (\<lparr>rn_order = order, rn_record = record, rn_lineage_proof = lineage_proof,
                 rn_neighbors = neighbors\<rparr> # plans))))))"

definition register_batch ::
  "bool \<Rightarrow> calendar \<Rightarrow> ('n, 'z) sdk_scheme \<Rightarrow> 'c registry_sdk \<Rightarrow> 'c launch_sdk \<Rightarrow> (bytes32 list \<Rightarrow> bytes32 list)
    \<Rightarrow> client \<Rightarrow> (cli_error + blockchain_peak option) list
    \<Rightarrow> (xchandles_launch_record \<Rightarrow> cli_error + eve_nft option) \<Rightarrow> bytes32 \<Rightarrow> u64 \<Rightarrow> u64 \<Rightarrow> db
    \<Rightarrow> xchandles_launch_record list \<Rightarrow> 'c registry \<Rightarrow> registration_plan list step option"
where
  "register_batch overflow_checks cal sdk xs la hash_order client polls nft_of payment_asset_id now_secs
       registration_period db handles registry =
     then_try (Some (attempt (handle_orders cal sdk la nft_of (rg_constants registry) payment_asset_id now_secs
                        registration_period handles) (\<lambda>orders.
         attempt (committed_records client (map ho_puzzle_hash orders)) (\<lambda>records.
         attempt (target_block_height overflow_checks records (la_relative_block_height la (rg_constants registry))
                    (la_relative_block_height la (rg_constants registry) div 4)) (\<lambda>target.
           Returned (Inr (orders, records, target)))))))
       (\<lambda>(orders, records, target).
     then_try (wait_for_height polls target) (\<lambda>_.
       Some (attempt (parent_proofs sdk (la_cat_inner_hash la) hash_order client records) (\<lambda>proofs.
         register_orders sdk xs la db registration_period records proofs orders registry))))"

section \<open>The command\<close>

definition ROYALTY_ADDRESS :: string where
  "ROYALTY_ADDRESS = ''xch1xmdgcuuqzxla65w52uuh2s7g7ug29pvc7m97esqej556xkwwhjqssy7fzl''"

definition ROYALTY_PUZZLE_HASH :: bytes32 where
  "ROYALTY_PUZZLE_HASH = 0x36da8c738011bfdd51d457397543c8f710a28598f6cbecc0199529a359cebc81"

definition ROYALTY_BASIS_POINTS :: u16 where
  "ROYALTY_BASIS_POINTS = 500"

record launch_options =
  lo_launcher_id_str :: string
  lo_skip :: nat
  lo_payment_asset_id_str :: string
  lo_royalty_address :: string
  lo_royalty_basis_points :: u16
  lo_handles_per_spend :: nat
  lo_registration_period :: u64
  lo_testnet11 :: bool
  lo_fee_str :: string

text \<open>The launch file, the clock and the wallet's first derivations, as the command finds them.\<close>

record launch_env =
  le_rows :: "cli_error + xchandles_launch_record list"
  le_now :: "cli_error + u64"
  le_wallet :: "cli_error + unit"
  le_addresses :: "cli_error + string list"

datatype launch_plan =
  NothingToDo | CommitPayments "precommit_order list" u64 | RegisterHandles "registration_plan list"

definition mainnet_launch_check :: "launch_options \<Rightarrow> bytes32 \<Rightarrow> cli_error + unit" where
  "mainnet_launch_check opts royalty_puzzle_hash =
     (if lo_testnet11 opts then Inr ()
      else if royalty_puzzle_hash \<noteq> ROYALTY_PUZZLE_HASH \<or>
              lo_royalty_basis_points opts \<noteq> ROYALTY_BASIS_POINTS \<or> lo_royalty_address opts \<noteq> ROYALTY_ADDRESS
           then Inl (Custom ''Mainnet royalty must be the configured one'')
      else if lo_registration_period opts \<noteq> REGISTRATION_PERIOD
           then Inl (Custom ''Mainnet registration period must be exactly 31557600 seconds'')
      else Inr ())"

definition launch_config ::
  "('n, 'z) sdk_scheme \<Rightarrow> 'c launch_sdk \<Rightarrow> launch_options \<Rightarrow> launch_env
    \<Rightarrow> (bytes32 \<times> bytes32 \<times> xchandles_launch_record list) step"
where
  "launch_config sdk la opts env =
     attempt (checked (hex_string_to_bytes32 sdk (lo_launcher_id_str opts))) (\<lambda>launcher_id.
     attempt (checked (la_address_puzzle_hash la (lo_royalty_address opts))) (\<lambda>royalty_puzzle_hash.
     attempt (checked (mainnet_launch_check opts royalty_puzzle_hash)) (\<lambda>_.
     attempt (checked (le_rows env)) (\<lambda>rows.
       Returned (Inr (launcher_id, royalty_puzzle_hash, rows))))))"

text \<open>What is asked of the arguments, the wallet and the clock before the first unregistered handle is launched.\<close>

definition launch_inputs ::
  "bool \<Rightarrow> ('n, 'z) sdk_scheme \<Rightarrow> 'c launch_sdk \<Rightarrow> launch_options \<Rightarrow> launch_env \<Rightarrow> (bytes32 \<times> bytes32 \<times> u64) step"
where
  "launch_inputs overflow_checks sdk la opts env =
     attempt (checked (hex_string_to_bytes32 sdk (lo_payment_asset_id_str opts))) (\<lambda>payment_asset_id.
     attempt (checked (le_wallet env)) (\<lambda>_.
     attempt (map_outcome (map_err Failed) (parse_amount overflow_checks (lo_fee_str opts) False)) (\<lambda>fee.
     attempt (checked (le_addresses env)) (\<lambda>addresses.
     attempt (unwrap (nth_checked addresses 0)) (\<lambda>address.
     attempt (checked (la_address_puzzle_hash la address)) (\<lambda>eve_nft_temp_inner_ph.
     attempt (checked (le_now env)) (\<lambda>now_secs.
       Returned (Inr (payment_asset_id, eve_nft_temp_inner_ph, now_secs)))))))))"

definition handle_registered ::
  "('n, 'z) sdk_scheme \<Rightarrow> bytes32 \<Rightarrow> db \<Rightarrow> xchandles_launch_record \<Rightarrow> cli_error + bool"
where
  "handle_registered sdk launcher_id db handle =
     try_result (get_xchandles_indexed_slot_value launcher_id (sdk_str_tree_hash sdk (lr_handle handle)) db)
       (\<lambda>slot. Inr (slot \<noteq> None))"

definition launch_phase ::
  "bool \<Rightarrow> calendar \<Rightarrow> ('n, 'z) sdk_scheme \<Rightarrow> 'c registry_sdk \<Rightarrow> 'c launch_sdk \<Rightarrow> (bytes32 list \<Rightarrow> bytes32 list)
    \<Rightarrow> client \<Rightarrow> (cli_error + blockchain_peak option) list \<Rightarrow> launch_options \<Rightarrow> launch_env
    \<Rightarrow> bytes32 \<Rightarrow> bytes32 \<Rightarrow> xchandles_launch_record list \<Rightarrow> 'c registry \<Rightarrow> db \<Rightarrow> launch_plan step option"
where
  "launch_phase overflow_checks cal sdk xs la hash_order client polls opts env launcher_id
       royalty_puzzle_hash rows registry db =
     then_try (Some (checked (launch_index (handle_registered sdk launcher_id db) (lo_skip opts) rows 0))) (\<lambda>i.
     if i = length rows then Some (Returned (Inr NothingToDo))
     else
       then_try (Some (launch_inputs overflow_checks sdk la opts env))
         (\<lambda>(payment_asset_id, eve_nft_temp_inner_ph, now_secs).
       let nft_of = eve_nft_for_handle sdk la client (xs_launcher_id xs (rg_constants registry))
             royalty_puzzle_hash (lo_royalty_basis_points opts) eve_nft_temp_inner_ph
       in then_try
            (Some (if i \<noteq> 0 then Returned (Inr (length rows))
                   else checked (launch_index (\<lambda>h. try_result (nft_of h) (\<lambda>nft. Inr (nft \<noteq> None)))
                          (lo_skip opts) rows 0))) (\<lambda>committed.
          if committed \<noteq> length rows
          then then_try (Some (commit_batch overflow_checks cal sdk now_secs (lo_registration_period opts)
                                  (launch_batch rows committed (lo_handles_per_spend opts))))
                 (\<lambda>(orders, payment_total). Some (Returned (Inr (CommitPayments orders payment_total))))
          else then_try (register_batch overflow_checks cal sdk xs la hash_order client polls nft_of
                            payment_asset_id now_secs (lo_registration_period opts) db
                            (launch_batch rows i (lo_handles_per_spend opts)) registry)
                 (\<lambda>plans. Some (Returned (Inr (RegisterHandles plans)))))))"

definition xchandles_continue_launch ::
  "nat \<Rightarrow> bool \<Rightarrow> calendar \<Rightarrow> ('n, 'z) sdk_scheme \<Rightarrow> 'c registry_sdk \<Rightarrow> 'c launch_sdk
    \<Rightarrow> (bytes32 list \<Rightarrow> bytes32 list) \<Rightarrow> client \<Rightarrow> (cli_error + blockchain_peak option) list
    \<Rightarrow> launch_options \<Rightarrow> launch_env \<Rightarrow> db \<Rightarrow> (launch_plan step \<times> db) option"
where
  "xchandles_continue_launch fuel overflow_checks cal sdk xs la hash_order client polls opts env db =
     (case launch_config sdk la opts env of
        Panicked \<Rightarrow> Some (Panicked, db)
      | Returned (Inl stop) \<Rightarrow> Some (Returned (Inl stop), db)
      | Returned (Inr (launcher_id, royalty_puzzle_hash, rows)) \<Rightarrow>
          (case sync_xchandles fuel sdk xs client launcher_id db of
             None \<Rightarrow> None
           | Some (Inl e, db) \<Rightarrow> Some (Returned (Inl (Failed e)), db)
           | Some (Inr registry, db) \<Rightarrow>
               map_option (\<lambda>plan. (plan, db))
                 (launch_phase overflow_checks cal sdk xs la hash_order client polls opts env launcher_id
                    royalty_puzzle_hash rows registry db)))"

section \<open>What is committed and registered\<close>

lemma batch_timings_ok:
  assumes "batch_timings cal handles now_secs period = Returned (Inr timings)"
  shows "list_all2 (\<lambda>h (buy_time, n).
      premine_buy_time cal (lr_expiration h) now_secs = Returned (Inr (buy_time, n)) \<and>
      assert_intended_expiration buy_time n (lr_expiration h) period = Inr ()) handles timings"
proof -
  let ?rows = "map (\<lambda>h. (lr_handle h, lr_expiration h)) handles"
  from assms have "assert_batch_csv_expirations cal ?rows now_secs period = Returned (Inr timings)"
    by (auto simp: batch_timings_def result_simps dest!: sym [of "Inr timings"])
  with batch_fail_closed [where cal = cal and rows = ?rows and now_secs = now_secs and registration_period = period] show ?thesis
    by (simp add: list_all2_map1 case_prod_unfold)
qed

lemma intended_expiration:
  assumes "assert_intended_expiration buy_time n expiration period = Inr ()"
  shows "unat buy_time + unat n * unat period = unat expiration"
  using assms
  by (auto simp: assert_intended_expiration_def result_simps checked_mul_Some checked_add_Some split: if_splits)

lemma payments_total_exact:
  assumes "payments_total True paid prices = Returned (Inr t)"
  shows "unat t = unat paid + sum_list (map unat prices)"
  using assms
proof (induction prices arbitrary: paid)
  case (Cons price prices)
  then have "unat paid + unat price < 2 ^ 64"
    and "payments_total True (paid + price) prices = Returned (Inr t)"
    by (auto split: if_splits)
  with Cons.IH [of "paid + price"] show ?case by (simp add: unat_plus_no_overflow)
qed simp


lemma eve_nfts_all:
  "eve_nfts_for nft_of handles = Inr nfts \<Longrightarrow> list_all2 (\<lambda>h nft. nft_of h = Inr (Some nft)) handles nfts"
  by (induction handles arbitrary: nfts) (auto simp: result_simps)

text \<open>What every order of a batch carries.\<close>

definition order_ok ::
  "('n, 'z) sdk_scheme \<Rightarrow> 'c launch_sdk \<Rightarrow> (xchandles_launch_record \<Rightarrow> cli_error + eve_nft option)
    \<Rightarrow> 'c \<Rightarrow> bytes32 \<Rightarrow> u64 \<Rightarrow> handle_order \<Rightarrow> bool"
where
  "order_ok sdk la nft_of constants payment_asset_id registration_period order \<longleftrightarrow>
     nft_of (ho_handle order) = Inr (Some (ho_nft order)) \<and>
     pv_handle (ho_value order) = lr_handle (ho_handle order) \<and>
     pv_owner_launcher_id (ho_value order) = ni_launcher_id (en_info (ho_nft order)) \<and>
     ho_buy_time order = pv_buy_time (ho_value order) \<and>
     unat (pv_buy_time (ho_value order)) + unat (pv_num_periods (ho_value order)) * unat registration_period =
       unat (lr_expiration (ho_handle order)) \<and>
     ho_puzzle_hash order = la_precommit_puzzle_hash la constants payment_asset_id (ho_value order) \<and>
     ho_amount order = sdk_factor_price sdk 1 (lr_handle (ho_handle order)) (pv_num_periods (ho_value order))"

lemma handle_orders_ok:
  assumes "handle_orders cal sdk la nft_of constants asset now_secs period handles = Returned (Inr orders)"
  shows "map ho_handle orders = handles \<and> list_all (order_ok sdk la nft_of constants asset period) orders"
proof -
  from assms obtain timings nfts where timings: "batch_timings cal handles now_secs period = Returned (Inr timings)"
    and nfts: "eve_nfts_for nft_of handles = Inr nfts"
    and orders: "orders = map (handle_order_of sdk la constants asset period) (zip handles (zip nfts timings))"
    by (auto simp: handle_orders_def result_simps)
  note t = batch_timings_ok [OF timings] and n = eve_nfts_all [OF nfts]
  then have len: "length timings = length handles" "length nfts = length handles"
    by (auto dest: list_all2_lengthD)
  have "map ho_handle orders = map fst (zip handles (zip nfts timings))"
    by (simp add: orders handle_order_of_def Let_def case_prod_unfold)
  then have "map ho_handle orders = handles" using len by simp
  moreover have "order_ok sdk la nft_of constants asset period (orders ! i)" if i: "i < length orders" for i
  proof -
    from i have i: "i < length handles" by (simp add: orders len)
    obtain buy_time k where k: "timings ! i = (buy_time, k)" by fastforce
    from i t n len have "nft_of (handles ! i) = Inr (Some (nfts ! i))"
      and "assert_intended_expiration buy_time k (lr_expiration (handles ! i)) period = Inr ()"
      using k by (auto simp: list_all2_conv_all_nth)
    with i k len show ?thesis
      by (simp add: orders handle_order_of_def Let_def order_ok_def precommit_value_for_handle_def
          intended_expiration)
  qed
  ultimately show ?thesis by (simp add: list_all_length)
qed

lemma register_orders_ok:
  assumes "register_orders sdk xs la db period records proofs orders registry = Returned (Inr plans)"
  shows "map rn_order plans = orders \<and>
    (\<forall>plan \<in> set plans. rn_record plan \<in> set records \<and>
       puzzle_hash (cr_coin (rn_record plan)) = ho_puzzle_hash (rn_order plan))"
  using assms
proof (induction orders arbitrary: registry plans)
  case (Cons order orders)
  from Cons.prems show ?case
    by (auto simp: result_simps Let_def dest!: Cons.IH committed_coin_hash)
qed simp

lemma wait_for_height_reached:
  assumes "wait_for_height polls target = Some (Returned (Inr ()))"
  shows "\<exists>peak. Inr (Some peak) \<in> set polls \<and> target \<le> bp_height peak"
  using assms
proof (induction polls)
  case (Cons answer polls)
  then show ?case
    by (cases answer; cases "case answer of Inr v \<Rightarrow> v | Inl _ \<Rightarrow> None")
      (auto split: if_splits option.splits simp: or_abort_def)
qed simp

lemma last_confirmed_ge: "cr \<in> set records \<Longrightarrow> cr_confirmed_block_index cr \<le> last_confirmed records"
  by (auto simp: last_confirmed_def)

lemma target_reached:
  assumes "target_block_height True records rel extra = (Returned (Inr target) :: u32 step)" and "cr \<in> set records"
  shows "unat (cr_confirmed_block_index cr) + unat rel + unat extra \<le> unat target"
proof -
  from assms(1) have "unat (last_confirmed records) + unat rel < 2 ^ 32"
    and "unat (last_confirmed records + rel) + unat extra < 2 ^ 32"
    and "target = last_confirmed records + rel + extra"
    by (auto simp: target_block_height_def result_simps)
  moreover from last_confirmed_ge [OF assms(2)] have
    "unat (cr_confirmed_block_index cr) \<le> unat (last_confirmed records)"
    by (simp add: word_le_nat_alt)
  ultimately show ?thesis by (simp add: unat_plus_no_overflow)
qed

lemma register_batch_ok:
  assumes "register_batch True cal sdk xs la hash_order client polls nft_of asset now_secs period db handles
    registry = Some (Returned (Inr plans))"
  shows "map (\<lambda>plan. ho_handle (rn_order plan)) plans = handles"
    and "plan \<in> set plans \<Longrightarrow> order_ok sdk la nft_of (rg_constants registry) asset period (rn_order plan)"
    and "\<exists>records peak. cl_coin_records_by_puzzle_hashes client (map (\<lambda>plan. ho_puzzle_hash (rn_order plan)) plans)
          = Inr (Some records) \<and> Inr (Some peak) \<in> set polls \<and>
        (\<forall>plan \<in> set plans. rn_record plan \<in> set records \<and>
           puzzle_hash (cr_coin (rn_record plan)) = ho_puzzle_hash (rn_order plan) \<and>
           unat (cr_confirmed_block_index (rn_record plan)) +
             unat (la_relative_block_height la (rg_constants registry)) \<le> unat (bp_height peak))"
proof -
  from assms obtain orders records target proofs where
    orders: "handle_orders cal sdk la nft_of (rg_constants registry) asset now_secs period handles
      = Returned (Inr orders)"
    and records: "committed_records client (map ho_puzzle_hash orders) = Returned (Inr records)"
    and target: "target_block_height True records (la_relative_block_height la (rg_constants registry))
      (la_relative_block_height la (rg_constants registry) div 4) = (Returned (Inr target) :: u32 step)"
    and waited: "wait_for_height polls target = Some (Returned (Inr ()))"
    and plans: "register_orders sdk xs la db period records proofs orders registry = Returned (Inr plans)"
    by (auto simp: register_batch_def result_simps)
  note o = handle_orders_ok [OF orders] and p = register_orders_ok [OF plans]
  then have map_orders: "map rn_order plans = orders" by simp
  with o show "map (\<lambda>plan. ho_handle (rn_order plan)) plans = handles"
    by (metis (no_types, lifting) comp_apply map_eq_conv map_map)
  show "order_ok sdk la nft_of (rg_constants registry) asset period (rn_order plan)" if "plan \<in> set plans"
    using o that unfolding map_orders [symmetric] by (auto simp: list_all_iff)
  from wait_for_height_reached [OF waited] obtain peak where
    peak: "Inr (Some peak) \<in> set polls" "target \<le> bp_height peak" by blast
  have "map (\<lambda>plan. ho_puzzle_hash (rn_order plan)) plans = map ho_puzzle_hash orders"
    unfolding map_orders [symmetric] by (simp add: comp_def)
  moreover from records have "cl_coin_records_by_puzzle_hashes client (map ho_puzzle_hash orders) = Inr (Some records)"
    by (auto simp: committed_records_def result_simps split: if_splits)
  moreover have "unat (cr_confirmed_block_index (rn_record plan)) +
      unat (la_relative_block_height la (rg_constants registry)) \<le> unat (bp_height peak)"
    if "plan \<in> set plans" for plan
    using target_reached [OF target, of "rn_record plan"] p that peak(2) by (simp add: word_le_nat_alt)
  ultimately show "\<exists>records peak.
      cl_coin_records_by_puzzle_hashes client (map (\<lambda>plan. ho_puzzle_hash (rn_order plan)) plans)
          = Inr (Some records) \<and> Inr (Some peak) \<in> set polls \<and>
        (\<forall>plan \<in> set plans. rn_record plan \<in> set records \<and>
           puzzle_hash (cr_coin (rn_record plan)) = ho_puzzle_hash (rn_order plan) \<and>
           unat (cr_confirmed_block_index (rn_record plan)) +
             unat (la_relative_block_height la (rg_constants registry)) \<le> unat (bp_height peak))"
    using p peak(1) by auto
qed

end
