(* ===== verification/XchVerify.thy ===== *)
theory XchVerify
  imports XchLaunch MultisigSync Datastore
begin

text \<open>
  \<open>xchandles/verify_deployment.rs\<close> and the controller of \<open>xchandles/mainnet_launch.rs\<close>: checking a launched
  registry against the launch file: its base price, every premined handle (its expiration, its NFT, whom
  the NFT was sent to), the price schedule, the royalty and the keys that control the price. The SDK's
  parsers and hashes are parameters; \<open>'a\<close> is an action of a parsed registry spend.
\<close>

section \<open>Data\<close>

record registry_state =
  rt_cat_maker_puzzle_hash :: bytes32
  rt_pricing_puzzle_hash :: bytes32
  rt_expired_handle_pricing_puzzle_hash :: bytes32

text \<open>What is read of a register action's solution; the pricing solution is extracted later.\<close>

record register_solution =
  rs_handle_hash :: bytes32
  rs_owner_launcher_id :: bytes32
  rs_resolved_launcher_id :: bytes32
  rs_pricing :: "cli_error + (u64 \<times> u64)"

text \<open>The conditions of the NFT's inner spend: of memos and message data the tree hashes are kept.\<close>

datatype p2_condition =
  P2AggSigMe
| P2SendMessage u8 "u8 list" "bytes32 list"
| P2CreateCoin bytes32 u64 "bytes32 option"
| P2Other

record parsed_nft =
  pn_royalty_puzzle_hash :: bytes32
  pn_royalty_basis_points :: u16
  pn_metadata_hash :: bytes32
  pn_inner_puzzle_hash :: bytes32
  pn_p2_output :: "cli_error + p2_condition list"

text \<open>
  \<open>xv_launch_terms\<close> is the premine's asset and the base price of the launch that
  \<open>xs_from_launcher_solution\<close> parses; \<open>xv_action_spends\<close> parses a registry solution into its actions, and
  \<open>xv_parse_nft\<close> an eve NFT's coin, puzzle and solution.
\<close>

record ('c, 'a) registry_verify_sdk =
  xv_cat_maker_hash :: "bytes32 \<Rightarrow> bytes32"
  xv_expire_pricing_hash :: "u64 \<Rightarrow> u64 \<Rightarrow> bytes32"
  xv_launch_terms :: "coin \<Rightarrow> u8 list \<Rightarrow> bytes32 \<times> u64"
  xv_action_spends :: "u8 list \<Rightarrow> cli_error + 'a list"
  xv_register_solution :: "'a \<Rightarrow> cli_error + register_solution"
  xv_singleton_puzzle_hash :: "u8 list \<Rightarrow> cli_error + bytes32"
  xv_parse_nft :: "coin \<Rightarrow> u8 list \<Rightarrow> u8 list \<Rightarrow> cli_error + parsed_nft option"
  xv_metadata_hash :: "handle_nft_metadata \<Rightarrow> bytes32"
  xv_memos_hash :: "bytes32 \<Rightarrow> bytes32"
  xv_bytes32_hash :: "bytes32 \<Rightarrow> bytes32"
  xv_register_owner_prefix :: u8
  xv_price_singleton :: "'c \<Rightarrow> bytes32"

section \<open>The schedule\<close>

definition xchandles_trusted_schedule_matches ::
  "('n, 'z) sdk_scheme \<Rightarrow> ('c, 'a) registry_verify_sdk \<Rightarrow> xchandles_state_schedule_record list
    \<Rightarrow> (u64 \<times> registry_state) list \<Rightarrow> bool"
where
  "xchandles_trusted_schedule_matches sdk xv trusted on_chain \<longleftrightarrow>
     (if length trusted \<noteq> length on_chain then False
      else list_all (\<lambda>(record, timestamp, state).
             let pricing_puzzle_hash =
                   sdk_factor_pricing_hash sdk (xr_registration_price record) (xr_registration_period record);
                 expired_handle_pricing_puzzle_hash =
                   xv_expire_pricing_hash xv (xr_registration_price record) (xr_registration_period record);
                 cat_maker_puzzle_hash = xv_cat_maker_hash xv (xr_asset_id record)
             in \<not> (xr_timestamp record \<noteq> timestamp \<or> rt_pricing_puzzle_hash state \<noteq> pricing_puzzle_hash \<or>
                   rt_expired_handle_pricing_puzzle_hash state \<noteq> expired_handle_pricing_puzzle_hash \<or>
                   rt_cat_maker_puzzle_hash state \<noteq> cat_maker_puzzle_hash))
           (zip trusted on_chain))"

definition scheduled_state_of ::
  "('n, 'z) sdk_scheme \<Rightarrow> ('c, 'a) registry_verify_sdk \<Rightarrow> xchandles_state_schedule_record \<Rightarrow> u64 \<times> registry_state"
where
  "scheduled_state_of sdk xv r =
     (xr_timestamp r,
      \<lparr>rt_cat_maker_puzzle_hash = xv_cat_maker_hash xv (xr_asset_id r),
       rt_pricing_puzzle_hash = sdk_factor_pricing_hash sdk (xr_registration_price r) (xr_registration_period r),
       rt_expired_handle_pricing_puzzle_hash =
         xv_expire_pricing_hash xv (xr_registration_price r) (xr_registration_period r)\<rparr>)"

lemma xchandles_schedule_exact:
  "xchandles_trusted_schedule_matches sdk xv trusted on_chain \<longleftrightarrow>
     on_chain = map (scheduled_state_of sdk xv) trusted"
  unfolding xchandles_trusted_schedule_matches_def
  by (rule schedule_equal) (auto simp: scheduled_state_of_def intro: registry_state.equality)

section \<open>One premined handle\<close>

definition on_chain_expiration :: "u64 \<times> u64 \<Rightarrow> u64 option" where
  "on_chain_expiration = (\<lambda>(buy_time, num_periods).
     case checked_mul num_periods REGISTRATION_PERIOD of
       None \<Rightarrow> None
     | Some span \<Rightarrow> checked_add buy_time span)"

text \<open>The royalty and the temporary inner puzzle, deduced from the first NFT and the same for all.\<close>

record deduced =
  de_royalty_puzzle_hash :: "bytes32 option"
  de_royalty_basis_points :: "u16 option"
  de_eve_nft_temp_inner_ph :: "bytes32 option"

definition deduce :: "'v option \<Rightarrow> 'v \<Rightarrow> cli_error \<Rightarrow> cli_error + 'v option" where
  "deduce so_far v mismatch =
     (if so_far = None then Inr (Some v) else if so_far \<noteq> Some v then Inl mismatch else Inr so_far)"

definition deduce_from_nft :: "deduced \<Rightarrow> parsed_nft \<Rightarrow> cli_error + deduced" where
  "deduce_from_nft d nft =
     try_result (deduce (de_royalty_puzzle_hash d) (pn_royalty_puzzle_hash nft) (Custom ''Royalty puzzle hash mismatch''))
       (\<lambda>royalty_puzzle_hash.
     try_result (deduce (de_royalty_basis_points d) (pn_royalty_basis_points nft) (Custom ''Royalty basis points mismatch''))
       (\<lambda>royalty_basis_points.
     try_result (deduce (de_eve_nft_temp_inner_ph d) (pn_inner_puzzle_hash nft) (Custom ''Inner puzzle hash mismatch''))
       (\<lambda>inner_ph.
       Inr \<lparr>de_royalty_puzzle_hash = royalty_puzzle_hash, de_royalty_basis_points = royalty_basis_points,
            de_eve_nft_temp_inner_ph = inner_ph\<rparr>)))"

text \<open>The eve NFT of a launcher: its launcher's and its own spend, parsed.\<close>

definition eve_nft_of_launcher ::
  "('n, 'z) sdk_scheme \<Rightarrow> ('c, 'a) registry_verify_sdk \<Rightarrow> client \<Rightarrow> bytes32 \<Rightarrow> cli_error + parsed_nft"
where
  "eve_nft_of_launcher sdk xv client nft_launcher_id =
     try_result (required (cl_coin_record_by_name client nft_launcher_id)
                   (Custom ''Could not fetch record for launcher coin'')) (\<lambda>launcher_record.
     try_result (required (cl_puzzle_and_solution client nft_launcher_id (Some (cr_spent_block_index launcher_record)))
                   (Custom ''Could not fetch coin spend for launcher coin'')) (\<lambda>launcher_spend.
     try_result (xv_singleton_puzzle_hash xv (spend_solution launcher_spend)) (\<lambda>singleton_puzzle_hash.
       let eve_coin = \<lparr>parent_coin_info = nft_launcher_id, puzzle_hash = singleton_puzzle_hash, amount = 1\<rparr>;
           eve_id = sdk_coin_id sdk eve_coin
       in try_result (required (cl_coin_record_by_name client eve_id)
                        (Custom ''Could not fetch record for eve nft coin'')) (\<lambda>eve_record.
          try_result (required (cl_puzzle_and_solution client eve_id (Some (cr_spent_block_index eve_record)))
                        (Custom ''Could not fetch coin spend for eve nft coin'')) (\<lambda>eve_spend.
            required (xv_parse_nft xv eve_coin (puzzle_reveal eve_spend) (spend_solution eve_spend))
              (Custom ''Could not parse eve nft coin''))))))"

text \<open>
  The NFT's spend: a signature, the message to the registry and the coin for the recipient, in this order.
  An empty message of the right mode panics at \<open>message[0]\<close>.
\<close>

definition check_p2_output ::
  "('c, 'a) registry_verify_sdk \<Rightarrow> bytes32 \<Rightarrow> bytes32 \<Rightarrow> p2_condition list \<Rightarrow> (cli_error + unit) outcome"
where
  "check_p2_output xv registry_puzzle_hash target_ph p2_output =
     (case p2_output of
        [P2AggSigMe, P2SendMessage mode message data, P2CreateCoin ph a memos] \<Rightarrow>
          (case memos of
             None \<Rightarrow> Returned (Inl (Custom ''P2 output does not contain the correct memo''))
           | Some memos_hash \<Rightarrow>
               if ph \<noteq> target_ph \<or> a \<noteq> 1 \<or> memos_hash \<noteq> xv_memos_hash xv target_ph
               then Returned (Inl (Custom ''P2 output does not contain the correct recreation condition''))
               else if mode \<noteq> 18 then Returned (Inl (Custom ''P2 send message mode mismatch''))
               else attempt (unwrap (nth_checked message 0)) (\<lambda>prefix.
                 if prefix \<noteq> xv_register_owner_prefix xv \<or> length data \<noteq> 1 \<or>
                    hd data \<noteq> xv_bytes32_hash xv registry_puzzle_hash
                 then Returned (Inl (Custom ''P2 send message mode mismatch''))
                 else Returned (Inr ())))
      | _ \<Rightarrow>
          if length p2_output \<noteq> 3 then Returned (Inl (Custom ''P2 output contains too many or too few conditions''))
          else Returned (Inl (Custom ''P2 output does not contain the correct conditions'')))"

text \<open>\<open>handles_to_verify[handle_index]\<close> is read for every action and panics past the end.\<close>

definition verify_action ::
  "('n, 'z) sdk_scheme \<Rightarrow> ('c, 'a) registry_verify_sdk \<Rightarrow> client \<Rightarrow> xchandles_launch_record list \<Rightarrow> bytes32
    \<Rightarrow> 'a \<Rightarrow> nat \<times> deduced \<Rightarrow> (cli_error + nat \<times> deduced) outcome"
where
  "verify_action sdk xv client handles_to_verify registry_puzzle_hash action = (\<lambda>(i, d).
     attempt (Returned (xv_register_solution xv action)) (\<lambda>solution.
     attempt (unwrap (nth_checked handles_to_verify i)) (\<lambda>handle.
       if rs_handle_hash solution \<noteq> sdk_str_tree_hash sdk (lr_handle handle) \<or>
          rs_resolved_launcher_id solution \<noteq> rs_owner_launcher_id solution
       then Returned (Inl (Custom ''Wrong handle registered''))
       else
         attempt (Returned (rs_pricing solution)) (\<lambda>pricing.
         attempt (Returned (ok_or (on_chain_expiration pricing) (Custom ''expiration overflow''))) (\<lambda>expiration.
           if expiration \<noteq> lr_expiration handle then Returned (Inl (Custom ''Expiration mismatch''))
           else
             attempt (Returned (eve_nft_of_launcher sdk xv client (rs_owner_launcher_id solution))) (\<lambda>nft.
             attempt (Returned (deduce_from_nft d nft)) (\<lambda>d.
               if xv_metadata_hash xv (metadata_for_handle_nft handle) \<noteq> pn_metadata_hash nft
               then Returned (Inl (Custom ''Metadata hash mismatch''))
               else
                 attempt (Returned (pn_p2_output nft)) (\<lambda>p2_output.
                 attempt (check_p2_output xv registry_puzzle_hash (lr_recipient handle) p2_output) (\<lambda>_.
                   Returned (Inr (Suc i, d)))))))))))"

fun verify_actions ::
  "('n, 'z) sdk_scheme \<Rightarrow> ('c, 'a) registry_verify_sdk \<Rightarrow> client \<Rightarrow> xchandles_launch_record list \<Rightarrow> bytes32
    \<Rightarrow> 'a list \<Rightarrow> nat \<times> deduced \<Rightarrow> (cli_error + nat \<times> deduced) outcome"
where
  "verify_actions sdk xv client handles ph [] at = Returned (Inr at)"
| "verify_actions sdk xv client handles ph (action # actions) at =
     attempt (verify_action sdk xv client handles ph action at) (verify_actions sdk xv client handles ph actions)"

section \<open>The premine\<close>

fun verify_handles ::
  "nat \<Rightarrow> ('n, 'z) sdk_scheme \<Rightarrow> 'c registry_sdk \<Rightarrow> ('c, 'a) registry_verify_sdk \<Rightarrow> client
    \<Rightarrow> xchandles_launch_record list \<Rightarrow> 'c registry \<Rightarrow> nat \<times> deduced
    \<Rightarrow> (cli_error + nat \<times> deduced) outcome option"
where
  "verify_handles 0 sdk xs xv client handles registry at = None"
| "verify_handles (Suc fuel) sdk xs xv client handles registry at =
     (let coin_id = sdk_coin_id sdk (rg_coin registry)
      in if length handles \<le> fst at then Some (Returned (Inr at))
         else
           (case required (cl_coin_record_by_name client coin_id) (CoinNotFound coin_id) of
              Inl e \<Rightarrow> Some (Returned (Inl e))
            | Inr coin_record \<Rightarrow>
                (case cl_puzzle_and_solution client coin_id (Some (cr_spent_block_index coin_record)) of
                   Inl e \<Rightarrow> Some (Returned (Inl e))
                 | Inr None \<Rightarrow> Some (Returned (Inr at))
                 | Inr (Some coin_spend) \<Rightarrow>
                     (case attempt (Returned (xv_action_spends xv (spend_solution coin_spend))) (\<lambda>actions.
                             verify_actions sdk xv client handles (puzzle_hash (rg_coin registry)) actions at) of
                        Panicked \<Rightarrow> Some Panicked
                      | Returned (Inl e) \<Rightarrow> Some (Returned (Inl e))
                      | Returned (Inr at) \<Rightarrow>
                          verify_handles fuel sdk xs xv client handles (xs_child xs registry) at))))"

section \<open>The controller\<close>

definition PRICE_SINGLETON_M :: nat where
  "PRICE_SINGLETON_M = 6"

definition PRICE_SINGLETON_PUBLIC_KEYS :: "string list" where
  "PRICE_SINGLETON_PUBLIC_KEYS =
     [''b63871fbc72a7ff07d8f2419c8d3bbe1ac557d3cbf367761d08a1a1209dd285358124845151381da912751e33bd7ffa8'',
      ''8d5ca1a64a587c2fe7603a6933d335ad01a50f0187085981651d617ffaffce9d57ad25680813a030665fabef12075811'',
      ''aa5ea815c1c0e70882b532bb7462a2d8ba68817a4ccfb728214382217b671fd534e19b869ad404ecd5c7852520c6f0c0'',
      ''b2ee00a2e657ee8bb818999f56ec781c4b10a04919eb061904e44bc96f022e47a75454b1d63796ea6eff8fcf2932d8ca'',
      ''9322d4a1f8d078b81ea674947ba2420f4175f38483d7ac60dc3ff4de3d27cf33bb1c06cb7638467536ef766533a7ad79'',
      ''a7b9970795c085979ca94b54e5c1b8e4ee96104dac690c01175b138b327c85e2537e53dc97189ecca57b629d3283bdca'',
      ''813dcc8c4870df68416f14253a559aa0e088db84a46b9fe3e442eb6dbc2a1cb5381e2e862927a2743a1903889aadad1b'',
      ''b5bd04adb90273d97a458b5e42d4930ab35643203131c22d53ac312026da74fda64c71216fc6db263063262266c45727'',
      ''84b00e171a571b5904e48cdf456bf2861d37f01961c8b641a66974c70f49393fc55ba4b05543ca2894e8f6c7daad0719'',
      ''836324ba44d7e1f2290a1ccf4c3c2d064c5047619981198ec4059165d85c06a1fd214da2b1b58603254f9b48637a9db1'']"

definition price_singleton_public_keys :: "('n, 'z) sdk_scheme \<Rightarrow> 'k csv_sdk \<Rightarrow> cli_error + 'k list" where
  "price_singleton_public_keys sdk cv = collect_results (hex_string_to_pubkey sdk cv) PRICE_SINGLETON_PUBLIC_KEYS"

definition controller_matches_configured ::
  "('n, 'z) sdk_scheme \<Rightarrow> 'k csv_sdk \<Rightarrow> nat \<Rightarrow> 'k list \<Rightarrow> cli_error + bool"
where
  "controller_matches_configured sdk cv m pubkeys =
     try_result (price_singleton_public_keys sdk cv) (\<lambda>configured.
       Inr (m = PRICE_SINGLETON_M \<and> pubkeys = configured))"

definition mainnet_royalty_check :: "deduced \<Rightarrow> cli_error + unit" where
  "mainnet_royalty_check d =
     try_result (ok_or (de_royalty_puzzle_hash d)
         (Custom ''Could not determine royalty puzzle hash from premine NFTs'')) (\<lambda>royalty_ph.
     try_result (ok_or (de_royalty_basis_points d)
         (Custom ''Could not determine royalty basis points from premine NFTs'')) (\<lambda>royalty_bps.
       if royalty_ph \<noteq> ROYALTY_PUZZLE_HASH \<or> royalty_bps \<noteq> ROYALTY_BASIS_POINTS
       then Inl (Custom ''Mainnet royalty mismatch'') else Inr ()))"

definition committed_controller_check ::
  "('n, 'z) sdk_scheme \<Rightarrow> 'k csv_sdk \<Rightarrow> (registry_state, 'k, 'l, 'h) multisig_sdk \<Rightarrow> bytes32
    \<Rightarrow> registry_state scheduler_info \<Rightarrow> cli_error + unit"
where
  "committed_controller_check sdk cv mg price_singleton info =
     try_result (price_singleton_public_keys sdk cv) (\<lambda>keys.
       if mg_vault_inner_hash mg \<lparr>vi_launcher_id = price_singleton, vi_m = PRICE_SINGLETON_M,
            vi_public_key_list = keys\<rparr> \<noteq> si_final_puzzle_hash info
       then Inl (Custom ''Price singleton final controller puzzle hash does not match the ordered configured 6-of-10 validator key set'')
       else Inr ())"

definition live_controller_check ::
  "('n, 'z) sdk_scheme \<Rightarrow> 'k csv_sdk \<Rightarrow> registry_state printing \<Rightarrow> bool \<Rightarrow> (registry_state, 'k) multisig_singleton
    \<Rightarrow> cli_error + unit"
where
  "live_controller_check sdk cv pr testnet11 singleton =
     (case singleton of
        VaultPhase vault \<Rightarrow>
          try_result (print_medieval_vault_configuration pr) (\<lambda>_.
          try_result (if testnet11 then Inr True
                      else controller_matches_configured sdk cv (vi_m (va_info vault)) (vi_public_key_list (va_info vault)))
            (\<lambda>matches.
            if matches then Inr ()
            else Inl (Custom ''Live Price Singleton vault controller does not match the ordered configured 6-of-10 validator key set'')))
      | SchedulerPhase scheduler \<Rightarrow>
          if si_generation (ss_info scheduler) \<noteq> 0 then Inr ()
          else Inl (Custom ''Price singleton has not been unrolled even once.''))"

section \<open>The command\<close>

definition launched_registry ::
  "('n, 'z) sdk_scheme \<Rightarrow> 'c registry_sdk \<Rightarrow> ('c, 'a) registry_verify_sdk \<Rightarrow> client \<Rightarrow> bytes32 \<Rightarrow> cli_error + 'c registry"
where
  "launched_registry sdk xs xv client launcher_id =
     try_result (required (cl_coin_record_by_name client launcher_id) (CoinNotFound launcher_id)) (\<lambda>launcher_record.
     try_result (required (cl_puzzle_and_solution client launcher_id (Some (cr_spent_block_index launcher_record)))
                   (CoinNotSpent launcher_id)) (\<lambda>launcher_spend.
     try_result (required (map_err Driver
         (xs_from_launcher_solution xs (cr_coin launcher_record) (spend_solution launcher_spend)))
         (Custom ''XCHandles registry was not launched correctly.'')) (\<lambda>(registry, _).
       if snd (xv_launch_terms xv (cr_coin launcher_record) (spend_solution launcher_spend)) \<noteq> 1
       then Inl (Custom ''XCHandles registry was not launched with a base price of 1.'')
       else Inr registry)))"

text \<open>\<open>--expected-count\<close> keeps a prefix of the file.\<close>

definition handles_prefix :: "nat option \<Rightarrow> xchandles_launch_record list \<Rightarrow> cli_error + xchandles_launch_record list" where
  "handles_prefix expected_count handles_to_launch =
     (let verify_limit = unwrap_or expected_count (length handles_to_launch)
      in if length handles_to_launch < verify_limit then Inl (Custom ''--expected-count exceeds launch CSV length'')
         else Inr (take verify_limit handles_to_launch))"

definition verify_price ::
  "nat \<Rightarrow> ('n, 'z) sdk_scheme \<Rightarrow> ('c, 'a) registry_verify_sdk \<Rightarrow> 'k csv_sdk \<Rightarrow> (registry_state, 'k, 'l, 'h) multisig_sdk
    \<Rightarrow> registry_state printing \<Rightarrow> client \<Rightarrow> bool \<Rightarrow> (cli_error + xchandles_state_schedule_record list)
    \<Rightarrow> bytes32 \<Rightarrow> deduced \<Rightarrow> (cli_error + unit) option"
where
  "verify_price fuel sdk xv cv mg pr client testnet11 price_schedule price_singleton d =
     map_option (\<lambda>synced. try_result synced (\<lambda>(singleton, info).
         try_result (ok_or info (Custom ''Price singleton was not created correctly.'')) (\<lambda>scheduler_info.
         try_result price_schedule (\<lambda>price_schedule.
           if \<not> xchandles_trusted_schedule_matches sdk xv price_schedule (si_state_schedule scheduler_info)
           then Inl (Custom ''Price schedule does not match the one defined in the csv.'')
           else
             try_result (if testnet11 then Inr () else mainnet_royalty_check d) (\<lambda>_.
             try_result (if testnet11 then Inr ()
                         else committed_controller_check sdk cv mg price_singleton scheduler_info) (\<lambda>_.
               live_controller_check sdk cv pr testnet11 singleton))))))
       (sync_multisig_singleton fuel sdk mg (pr\<lparr>pr_state_info := None\<rparr>) client price_singleton)"

definition no_deductions :: deduced where
  "no_deductions = \<lparr>de_royalty_puzzle_hash = None, de_royalty_basis_points = None, de_eve_nft_temp_inner_ph = None\<rparr>"

definition xchandles_verify_deployment ::
  "nat \<Rightarrow> ('n, 'z) sdk_scheme \<Rightarrow> 'c registry_sdk \<Rightarrow> ('c, 'a) registry_verify_sdk \<Rightarrow> 'k csv_sdk
    \<Rightarrow> (registry_state, 'k, 'l, 'h) multisig_sdk \<Rightarrow> registry_state printing \<Rightarrow> client \<Rightarrow> string
    \<Rightarrow> (cli_error + xchandles_launch_record list) \<Rightarrow> nat option \<Rightarrow> bool
    \<Rightarrow> (cli_error + xchandles_state_schedule_record list) \<Rightarrow> (cli_error + unit) outcome option"
where
  "xchandles_verify_deployment fuel sdk xs xv cv mg pr client launcher_id_str premine expected_count testnet11
       price_schedule =
     (case try_result (hex_string_to_bytes32 sdk launcher_id_str) (\<lambda>launcher_id.
           try_result premine (\<lambda>handles_to_launch.
           try_result (handles_prefix expected_count handles_to_launch) (\<lambda>handles_to_verify.
           try_result (launched_registry sdk xs xv client launcher_id) (\<lambda>registry.
             Inr (handles_to_verify, registry))))) of
        Inl e \<Rightarrow> Some (Returned (Inl e))
      | Inr (handles_to_verify, registry) \<Rightarrow>
          (case verify_handles fuel sdk xs xv client handles_to_verify registry (0, no_deductions) of
             None \<Rightarrow> None
           | Some Panicked \<Rightarrow> Some Panicked
           | Some (Returned (Inl e)) \<Rightarrow> Some (Returned (Inl e))
           | Some (Returned (Inr (verified, d))) \<Rightarrow>
               if verified < length handles_to_verify
               then Some (Returned (Inl (Custom ''Not all expected premined handles were verified'')))
               else map_option Returned
                      (verify_price fuel sdk xv cv mg pr client testnet11 price_schedule
                         (xv_price_singleton xv (rg_constants registry)) d)))"

end
