(* ===== verification/XchLaunchFacts.thy ===== *)
theory XchLaunchFacts
  imports XchLaunch DatabaseFacts
begin

text \<open>
  What one run of the launch command commits to and registers (\<open>XchLaunch\<close>), and when a launch that was
  committed cannot be registered any more.
\<close>

section \<open>An example launch\<close>

text \<open>
  One handle, whose NFT's prelauncher is coin 5070, with the expiration the contribution premine is
  configured with; its payment is committed for two periods.
\<close>

definition launch_row :: xchandles_launch_record where
  "launch_row = \<lparr>lr_handle = ''A'', lr_recipient = 40, lr_expiration = 1818752400, lr_image_uris = [],
     lr_image_hash = 1, lr_metadata_uris = [], lr_metadata_hash = 2, lr_license_uris = [], lr_license_hash = 3\<rparr>"

definition launch_slot :: "bytes32 \<Rightarrow> handle_slot_value" where
  "launch_slot h = \<lparr>hv_counter = 1, hv_handle_hash = h, hv_left_value = 0, hv_right_value = 0, hv_expiration = 0,
     hv_owner_launcher_id = 0, hv_resolved_launcher_id = 0\<rparr>"

definition launch_codec :: "handle_slot_value slot_codec" where
  "launch_codec = \<lparr>sc_to_bytes = (\<lambda>v. Inr [ucast (hv_handle_hash v)]),
     sc_from_bytes = (\<lambda>bs. case bs of [b] \<Rightarrow> Inr (launch_slot (ucast b)) | _ \<Rightarrow> Inl DbColumnParse),
     sc_tree_hash = hv_handle_hash,
     sc_coin = (\<lambda>_ _ _ _. example_tip_coin), sc_nonce = 1\<rparr>"

definition launch_xs :: "unit registry_sdk" where
  "launch_xs = example_registry_sdk\<lparr>xs_slot_codec := launch_codec\<rparr>"

definition launch_lineage :: lineage_proof where
  "launch_lineage = \<lparr>lp_parent_parent_coin_info = 1, lp_parent_inner_puzzle_hash = 2, lp_parent_amount = 1\<rparr>"

definition launch_slot_row :: "bytes32 \<Rightarrow> slot_row" where
  "launch_slot_row h = slot_to_row (slot_new launch_codec launch_lineage 1 1 (launch_slot h)) [ucast h] 0"

definition launch_db :: db where
  "launch_db = db_new\<lparr>db_slots := [launch_slot_row 1, launch_slot_row 200],
     db_xchandles_indexed := [((to_bytes 1, to_bytes 1), to_bytes 1), ((to_bytes 1, to_bytes 200), to_bytes 200)]\<rparr>"

definition launch_la :: "unit launch_sdk" where
  "launch_la =
     \<lparr>la_handle_hint = (\<lambda>_ h. h), la_prelauncher_puzzle_hash = 7, la_launcher_puzzle_hash = 8,
      la_nft_puzzle_hash = (\<lambda>_. 9), la_precommit_puzzle_hash = (\<lambda>_ _ v. ucast (pv_num_periods v) + 100),
      la_relative_block_height = (\<lambda>_. 4), la_address_puzzle_hash = (\<lambda>_. Inr 11),
      la_cat_inner_hash = (\<lambda>_. Inr (Some 12)), la_actual_neighbors = (\<lambda>_ _ n. n),
      la_register = (\<lambda>r _ _ _. Inr r)\<rparr>"

definition at_height_20 :: "coin \<Rightarrow> coin_record" where
  "at_height_20 c = \<lparr>cr_coin = c, cr_confirmed_block_index = 20, cr_spent_block_index = 0, cr_spent = False\<rparr>"

definition paid_to :: "bytes32 \<Rightarrow> coin_record" where
  "paid_to h = at_height_20 \<lparr>parent_coin_info = 6, puzzle_hash = h, amount = 2\<rparr>"

definition launch_nft_coin :: coin where
  "launch_nft_coin = \<lparr>parent_coin_info = 5070081, puzzle_hash = 9, amount = 1\<rparr>"

definition launch_client :: client where
  "launch_client = example_client
     \<lparr>cl_coin_records_by_names := (\<lambda>_. Inr (Some [at_height_20 \<lparr>parent_coin_info = 0, puzzle_hash = 0, amount = 6\<rparr>])),
      cl_unspent_records_by_names := (\<lambda>_. Inr (Some [at_height_20 launch_nft_coin])),
      cl_all_records_by_hint := (\<lambda>_. Inr (Some [at_height_20 \<lparr>parent_coin_info = 5, puzzle_hash = 7, amount = 0\<rparr>])),
      cl_coin_records_by_puzzle_hashes := (\<lambda>hs. Inr (Some (map paid_to (filter (\<lambda>h. h \<in> {102}) hs)))),
      cl_puzzle_and_solution := (\<lambda>_ _. Inr (Some \<lparr>spend_coin = example_tip_coin, puzzle_reveal = [], spend_solution = []\<rparr>))\<rparr>"

definition launch_nft :: eve_nft where
  "launch_nft = \<lparr>en_coin = launch_nft_coin, en_parent_parent_coin_info = 5070,
     en_info = \<lparr>ni_launcher_id = 5070081, ni_metadata = metadata_for_handle_nft launch_row,
       ni_royalty_puzzle_hash = 11, ni_royalty_basis_points = 500, ni_p2_puzzle_hash = 11\<rparr>\<rparr>"

definition launch_opts :: launch_options where
  "launch_opts = \<lparr>lo_launcher_id_str = hex32 fixture_sdk 1, lo_skip = 0,
     lo_payment_asset_id_str = hex32 fixture_sdk 0, lo_royalty_address = [], lo_royalty_basis_points = 500,
     lo_handles_per_spend = 25, lo_registration_period = REGISTRATION_PERIOD, lo_testnet11 = True,
     lo_fee_str = ''0.0''\<rparr>"

definition launch_env_at :: "u64 \<Rightarrow> launch_env" where
  "launch_env_at now_secs = \<lparr>le_rows = Inr [launch_row], le_now = Inr now_secs, le_wallet = Inr (),
     le_addresses = Inr [[]]\<rparr>"

abbreviation launch_registry :: "unit registry" where
  "launch_registry \<equiv> example_registry example_tip_coin"

abbreviation "launch_nft_of \<equiv> eve_nft_for_handle fixture_sdk launch_la launch_client 1 11 500 11"

lemma launch_nft_found: "launch_nft_of launch_row = Inr (Some launch_nft)"
  by (simp add: eve_nft_for_handle_def launch_client_def launch_la_def required_def expected_nft_def Let_def
      at_height_20_def launch_nft_coin_def launch_nft_def fixture_sdk_def)

text \<open>31 August 2026 refers to 1 August and 2 September to 1 September: two periods, then one.\<close>

lemma gregorian_turn:
  "buy_time_past_reference gregorian 1788134400 = Returned 1785542400"
  "buy_time_past_reference gregorian 1788307200 = Returned 1788220800"
proof -
  have "gregorian_date 1788134400 = (2026, 8, 31)" "gregorian_date 1788307200 = (2026, 9, 2)"
    "gregorian_first 2026 8 = 1785542400" "gregorian_first 2026 9 = 1788220800"
    by (simp_all add: gregorian_defs)
  then show "buy_time_past_reference gregorian 1788134400 = Returned 1785542400"
    and "buy_time_past_reference gregorian 1788307200 = Returned 1788220800"
    by (simp_all add: buy_time_past_reference_def gregorian_def)
qed

lemma launch_timings:
  "batch_timings gregorian [launch_row] 1788134400 REGISTRATION_PERIOD = Returned (Inr [(1755637200, 2)])"
  "batch_timings gregorian [launch_row] 1788307200 REGISTRATION_PERIOD = Returned (Inr [(1787194800, 1)])"
proof -
  have span: "checked_mul 1 REGISTRATION_PERIOD = Some 31557600" "checked_mul 2 REGISTRATION_PERIOD = Some 63115200"
    "checked_add (1 :: u64) 1 = Some 2" "checked_sub (1818752400 :: u64) 31557600 = Some 1787194800"
    "checked_sub (1818752400 :: u64) 63115200 = Some 1755637200"
    "checked_add (1787194800 :: u64) 31557600 = Some 1818752400"
    "checked_add (1755637200 :: u64) 63115200 = Some 1818752400"
    by (simp_all add: checked_mul_Some checked_add_Some checked_sub_Some)
  have "premine_from 1785542400 1818752400 1 = Inr (1755637200, 2)"
    by (subst premine_from.simps) (simp add: span, subst premine_from.simps,
        simp add: span assert_intended_expiration_def word_less_nat_alt)
  moreover have "premine_from 1788220800 1818752400 1 = Inr (1787194800, 1)"
    by (subst premine_from.simps) (simp add: span assert_intended_expiration_def word_less_nat_alt)
  moreover have "\<not> 1818752400 < REGISTRATION_PERIOD" by (simp add: REGISTRATION_PERIOD_def word_less_nat_alt)
  ultimately show "batch_timings gregorian [launch_row] 1788134400 REGISTRATION_PERIOD = Returned (Inr [(1755637200, 2)])"
    and "batch_timings gregorian [launch_row] 1788307200 REGISTRATION_PERIOD = Returned (Inr [(1787194800, 1)])"
    by (simp_all add: batch_timings_def launch_row_def premine_buy_time_def gregorian_turn
        assert_intended_expiration_def span)
qed


section \<open>What a run registers\<close>

text \<open>
  C6. When a run of the launch command, its registry synchronized, gets as far as registering, what it
  registers is the next batch of the launch file: the first row and all rows from \<open>--skip\<close> on that stand before
  the batch are registered already (so without a skip, or with a skip of one row, every row before it),
  and its first row is not; a skip beyond the end of the file registers nothing. Every registration is of
  the file's row, with the NFT found on chain for it, a purchase time and a number of periods that give
  exactly the row's expiration, and a coin the node lists at the puzzle hash committed to those very values,
  which a polled peak shows as old enough to be spent.
\<close>

theorem launch_registers_next_batch:
  assumes "launch_phase True cal sdk xs la hash_order client polls opts env launcher_id royalty_puzzle_hash rows
      registry db = Some (Returned (Inr (RegisterHandles plans)))"
  shows "\<exists>i asset temp.
    (\<forall>k < i. k = 0 \<or> lo_skip opts \<le> k \<longrightarrow>
       k < length rows \<and> handle_registered sdk launcher_id db (rows ! k) = Inr True) \<and>
    (if i < length rows then handle_registered sdk launcher_id db (rows ! i) = Inr False
     else length rows < i \<and> i = lo_skip opts \<and> plans = []) \<and>
    map (\<lambda>plan. ho_handle (rn_order plan)) plans = take (lo_handles_per_spend opts) (drop i rows) \<and>
    (\<forall>plan \<in> set plans.
       order_ok sdk la
         (eve_nft_for_handle sdk la client (xs_launcher_id xs (rg_constants registry)) royalty_puzzle_hash
            (lo_royalty_basis_points opts) temp)
         (rg_constants registry) asset (lo_registration_period opts) (rn_order plan)) \<and>
    (\<exists>records peak. cl_coin_records_by_puzzle_hashes client (map (\<lambda>plan. ho_puzzle_hash (rn_order plan)) plans)
          = Inr (Some records) \<and> Inr (Some peak) \<in> set polls \<and>
        (\<forall>plan \<in> set plans. rn_record plan \<in> set records \<and>
           puzzle_hash (cr_coin (rn_record plan)) = ho_puzzle_hash (rn_order plan) \<and>
           unat (cr_confirmed_block_index (rn_record plan)) +
             unat (la_relative_block_height la (rg_constants registry)) \<le> unat (bp_height peak)))"
proof -
  from assms(1) obtain i asset temp now_secs where
    index: "launch_index (handle_registered sdk launcher_id db) (lo_skip opts) rows 0 = Inr i"
    and unfinished: "i \<noteq> length rows"
    and batch: "register_batch True cal sdk xs la hash_order client polls
      (eve_nft_for_handle sdk la client (xs_launcher_id xs (rg_constants registry)) royalty_puzzle_hash
         (lo_royalty_basis_points opts) temp)
      asset now_secs (lo_registration_period opts) db (launch_batch rows i (lo_handles_per_spend opts)) registry
      = Some (Returned (Inr plans))"
    by (auto simp: launch_phase_def result_simps Let_def split: if_splits)
  note exact = launch_index_exact [OF index]
  have beyond: "length rows < i \<and> i = lo_skip opts" if "\<not> i < length rows"
    using exact unfinished that by auto
  have batch_of: "map (\<lambda>plan. ho_handle (rn_order plan)) plans = take (lo_handles_per_spend opts) (drop i rows)"
    using register_batch_ok [OF batch] unfolding launch_batch_def by blast
  have "plans = []" if "\<not> i < length rows"
    using batch_of beyond [OF that] by simp
  then have first: "if i < length rows then handle_registered sdk launcher_id db (rows ! i) = Inr False
     else length rows < i \<and> i = lo_skip opts \<and> plans = []"
    using exact beyond by simp
  have before: "\<forall>k < i. k = 0 \<or> lo_skip opts \<le> k \<longrightarrow>
       k < length rows \<and> handle_registered sdk launcher_id db (rows ! k) = Inr True"
    using exact by blast
  show ?thesis
    using first before batch_of register_batch_ok [OF batch] unfolding launch_batch_def
    by (intro exI [of _ i] exI [of _ asset] exI [of _ temp] conjI) blast+
qed

lemma launch_neighbors:
  "get_xchandles_neighbors launch_codec 1 65 launch_db =
     Inr (slot_new launch_codec launch_lineage 1 1 (launch_slot 1),
          slot_new launch_codec launch_lineage 1 1 (launch_slot 200))"
proof -
  have rows: "unspent_rows 1 1 (Some (to_bytes h)) launch_db =
      filter (\<lambda>row. sl_slot_value_hash row = to_bytes h) [launch_slot_row 1, launch_slot_row 200]" for h
    by (simp add: unspent_rows_def launch_db_def launch_slot_row_def slot_to_row_def slot_new_def)
  have "sl_slot_value_hash (launch_slot_row h) = to_bytes h" for h
    by (simp add: launch_slot_row_def slot_to_row_def slot_new_def launch_codec_def launch_slot_def)
  moreover have "row_to_slot launch_codec (launch_slot_row h) =
      Inr (slot_new launch_codec launch_lineage 1 1 (launch_slot h))" if "h \<in> {1, 200}" for h
    using that
    by (auto simp: row_to_slot_def launch_slot_row_def slot_to_row_def slot_new_def launch_codec_def
        launch_slot_def launch_lineage_def)
  moreover have "handle_index 1 launch_db = [(to_bytes 1, to_bytes 1), (to_bytes 200, to_bytes 200)]"
    by (simp add: handle_index_def launch_db_def)
  moreover have "\<not> db_failing launch_db" "sc_nonce launch_codec = 1"
    by (simp_all add: launch_db_def db_new_def launch_codec_def)
  ultimately show ?thesis
    by (simp add: get_xchandles_neighbors_def indexed_before_def indexed_after_def rows neighbour_slots_def
        last_opt_def word_less_nat_alt)
qed

lemma launch_sdk_simps [simp]:
  "la_relative_block_height launch_la = (\<lambda>_. 4)" "la_cat_inner_hash launch_la = (\<lambda>_. Inr (Some 12))"
  "la_actual_neighbors launch_la = (\<lambda>_ _ n. n)" "la_register launch_la = (\<lambda>r _ _ _. Inr r)"
  "xs_launcher_id launch_xs = (\<lambda>_. 1)" "xs_slot_codec launch_xs = launch_codec"
  "sdk_str_tree_hash fixture_sdk ''A'' = 65" "rg_constants (example_registry c) = ()"
  by (simp_all add: launch_la_def launch_xs_def example_registry_sdk_def fixture_sdk_def)

definition launch_order_at :: "u64 \<Rightarrow> u64 \<Rightarrow> handle_order" where
  "launch_order_at buy_time n =
     handle_order_of fixture_sdk launch_la () 0 REGISTRATION_PERIOD (launch_row, launch_nft, buy_time, n)"

lemma launch_orders:
  "handle_orders gregorian fixture_sdk launch_la launch_nft_of () 0 1788134400 REGISTRATION_PERIOD [launch_row]
     = Returned (Inr [launch_order_at 1755637200 2])"
  "handle_orders gregorian fixture_sdk launch_la launch_nft_of () 0 1788307200 REGISTRATION_PERIOD [launch_row]
     = Returned (Inr [launch_order_at 1787194800 1])"
  by (simp_all add: handle_orders_def launch_timings launch_nft_found required_def launch_order_at_def)

lemma launch_order_simps:
  "ho_puzzle_hash (launch_order_at b n) = ucast n + 100" "ho_handle (launch_order_at b n) = launch_row"
  "pv_buy_time (ho_value (launch_order_at b n)) = b" "pv_num_periods (ho_value (launch_order_at b n)) = n"
  "pv_handle (ho_value (launch_order_at b n)) = ''A''"
  by (simp_all add: launch_order_at_def handle_order_of_def Let_def launch_la_def precommit_value_for_handle_def
      launch_row_def)

lemma launch_registers_next_batch_witness:
  "\<exists>plan. launch_phase True gregorian fixture_sdk launch_xs launch_la (\<lambda>ids. ids) launch_client
       [Inr (Some \<lparr>bp_height = 100, bp_timestamp = None\<rparr>)] launch_opts (launch_env_at 1788134400) 1 11 [launch_row]
       launch_registry launch_db = Some (Returned (Inr (RegisterHandles [plan]))) \<and>
     ho_handle (rn_order plan) = launch_row"
proof -
  let ?polls = "[Inr (Some \<lparr>bp_height = 100, bp_timestamp = None\<rparr>)]"
  have registered: "handle_registered fixture_sdk 1 launch_db launch_row = Inr False"
    by (simp add: handle_registered_def get_xchandles_indexed_slot_value_def launch_db_def db_new_def db_query_def
        optional_bytes32_def launch_row_def fixture_sdk_def)
  then have index: "launch_index (handle_registered fixture_sdk 1 launch_db) 0 [launch_row] 0 = Inr 0"
    by (subst launch_index.simps) simp
  have committed: "launch_index (\<lambda>h. try_result (launch_nft_of h) (\<lambda>nft. Inr (nft \<noteq> None))) 0 [launch_row] 0 = Inr 1"
    by (subst launch_index.simps) (simp add: launch_nft_found, subst launch_index.simps, simp)
  have inputs: "launch_inputs True fixture_sdk launch_la launch_opts (launch_env_at 1788134400) =
      Returned (Inr (0, 11, 1788134400))"
    by (simp add: launch_inputs_def launch_opts_def launch_env_at_def launch_la_def nth_checked_def
        hex_string_roundtrip [OF fixture_hex_codec_ok] zero_amount)
  have records: "committed_records launch_client [102] = (Returned (Inr [paid_to 102]) :: coin_record list step)"
    by (simp add: committed_records_def launch_client_def)
  have target: "target_block_height True [paid_to 102] 4 1 = (Returned (Inr 25) :: u32 step)"
    by (simp add: target_block_height_def last_confirmed_def paid_to_def at_height_20_def plain_u32_add_def)
  let ?proofs = "hm_insert 6 \<lparr>lp_parent_parent_coin_info = 0, lp_parent_inner_puzzle_hash = 12,
        lp_parent_amount = 6\<rparr> []"
  have proofs: "parent_proofs fixture_sdk (\<lambda>_. Inr (Some 12)) (\<lambda>ids. ids) launch_client [paid_to 102] =
      Returned (Inr ?proofs)"
    by (simp add: parent_proofs_def parent_ids_def paid_to_def at_height_20_def launch_client_def fixture_sdk_def)
  have coin: "\<exists>lp. committed_coin [paid_to 102] ?proofs 102 = Returned (Inr (paid_to 102, lp))"
    by (simp add: committed_coin_def paid_to_def at_height_20_def)
  have "\<exists>plan. register_orders fixture_sdk launch_xs launch_la launch_db REGISTRATION_PERIOD [paid_to 102] ?proofs
      [launch_order_at 1755637200 2] launch_registry = Returned (Inr [plan])"
    using coin launch_neighbors by (auto simp: launch_order_simps launch_sdk_simps simp del: store_simps)
  then have "\<exists>plan. register_batch True gregorian fixture_sdk launch_xs launch_la (\<lambda>ids. ids) launch_client
      ?polls launch_nft_of 0 1788134400 REGISTRATION_PERIOD launch_db [launch_row] launch_registry =
      Some (Returned (Inr [plan]))"
    by (simp add: register_batch_def launch_orders launch_order_simps launch_sdk_simps records target proofs)
  then obtain plan where "register_batch True gregorian fixture_sdk launch_xs launch_la (\<lambda>ids. ids) launch_client
      ?polls launch_nft_of 0 1788134400 REGISTRATION_PERIOD launch_db [launch_row] launch_registry =
      Some (Returned (Inr [plan]))" ..
  then have phase: "launch_phase True gregorian fixture_sdk launch_xs launch_la (\<lambda>ids. ids) launch_client ?polls
      launch_opts (launch_env_at 1788134400) 1 11 [launch_row] launch_registry launch_db =
      Some (Returned (Inr (RegisterHandles [plan])))"
    using index committed inputs
    by (simp add: launch_phase_def launch_opts_def launch_batch_def)
  from launch_registers_next_batch [OF phase] have "ho_handle (rn_order plan) = launch_row"
    by (auto simp: launch_opts_def split: if_splits)
  with phase show ?thesis by blast
qed

section \<open>When the month turns\<close>

text \<open>
  C37. The committed puzzle hash contains the purchase time, which every run computes anew from the month it
  runs in. When a batch was committed in one month and its purchase times come out differently in another,
  the coins are looked for where nothing was paid to: the run gives up with too few records, and every run
  that gets the new times does. (The expiration configured for the contribution premine changes its
  purchase time between the end of August and the second of September 2026, days after the launch.)
\<close>

theorem month_turn_strands_precommits:
  assumes "handle_orders cal sdk la nft_of (rg_constants registry) asset committed_secs period handles
      = Returned (Inr committed)"
    and "handle_orders cal sdk la nft_of (rg_constants registry) asset now_secs period handles
      = Returned (Inr orders)"
    and "map ho_value orders \<noteq> map ho_value committed" and "distinct (map lr_handle handles)"
    and "inj_on (la_precommit_puzzle_hash la (rg_constants registry) asset)
      (ho_value ` set (committed @ orders))"
    and "\<And>hs. cl_coin_records_by_puzzle_hashes client hs =
      Inr (Some (map paid (filter (\<lambda>h. h \<in> ho_puzzle_hash ` set committed) hs)))"
  shows "register_batch checks cal sdk xs la hash_order client polls nft_of asset now_secs period db handles
    registry = Some (Returned (Inl Aborted))"
proof -
  let ?hash = "la_precommit_puzzle_hash la (rg_constants registry) asset"
  note c = handle_orders_ok [OF assms(1)] and o = handle_orders_ok [OF assms(2)]
  then have len: "length committed = length handles" "length orders = length handles"
    by (metis length_map)+
  with assms(3) obtain i where i: "i < length handles" "ho_value (orders ! i) \<noteq> ho_value (committed ! i)"
    by (auto simp: list_eq_iff_nth_eq)
  have name: "pv_handle (ho_value (os ! j)) = lr_handle (handles ! j)"
    if "map ho_handle os = handles \<and> list_all (order_ok sdk la nft_of (rg_constants registry) asset period) os"
      and "j < length os" for os j
    using that by (auto simp: list_all_length order_ok_def)
  have hash: "ho_puzzle_hash order = ?hash (ho_value order)" if "order \<in> set committed \<union> set orders" for order
    using that c o by (auto simp: list_all_iff order_ok_def)
  have "ho_puzzle_hash (orders ! i) \<notin> ho_puzzle_hash ` set committed"
  proof
    assume "ho_puzzle_hash (orders ! i) \<in> ho_puzzle_hash ` set committed"
    then obtain j where j: "j < length committed" "ho_puzzle_hash (orders ! i) = ho_puzzle_hash (committed ! j)"
      by (auto simp: in_set_conv_nth)
    then have "?hash (ho_value (orders ! i)) = ?hash (ho_value (committed ! j))"
      using hash [of "orders ! i"] hash [of "committed ! j"] i len by simp
    with assms(5) have eq: "ho_value (orders ! i) = ho_value (committed ! j)"
      by (rule inj_onD) (use i j len in auto)
    with name [OF o, of i] name [OF c, of j] i j len have "lr_handle (handles ! i) = lr_handle (handles ! j)" by simp
    with nth_eq_iff_index_eq [OF assms(4), of i j] i j len have "i = j" by simp
    with eq i show False by simp
  qed
  then have "length (filter (\<lambda>h. h \<in> ho_puzzle_hash ` set committed) (map ho_puzzle_hash orders)) <
      length (map ho_puzzle_hash orders)"
    using i len by (intro length_filter_less [of "ho_puzzle_hash (orders ! i)"]) auto
  then have "(committed_records client (map ho_puzzle_hash orders) :: coin_record list step) = Returned (Inl Aborted)"
    by (simp add: committed_records_def assms(6))
  with assms(2) show ?thesis by (simp add: register_batch_def)
qed


lemma month_turn_strands_precommits_witness:
  "register_batch True gregorian fixture_sdk launch_xs launch_la (\<lambda>ids. ids) launch_client
     [Inr (Some \<lparr>bp_height = 100, bp_timestamp = None\<rparr>)] launch_nft_of 0 1788307200 REGISTRATION_PERIOD
     launch_db [launch_row] launch_registry = Some (Returned (Inl Aborted)) \<and>
   (\<exists>records. committed_records launch_client [ho_puzzle_hash (launch_order_at 1755637200 2)] =
     (Returned (Inr records) :: coin_record list step))"
proof
  show "\<exists>records. committed_records launch_client [ho_puzzle_hash (launch_order_at 1755637200 2)] =
     (Returned (Inr records) :: coin_record list step)"
    by (simp add: committed_records_def launch_client_def launch_order_simps)
  have constants: "rg_constants launch_registry = ()" by simp
  show "register_batch True gregorian fixture_sdk launch_xs launch_la (\<lambda>ids. ids) launch_client
     [Inr (Some \<lparr>bp_height = 100, bp_timestamp = None\<rparr>)] launch_nft_of 0 1788307200 REGISTRATION_PERIOD
     launch_db [launch_row] launch_registry = Some (Returned (Inl Aborted))"
  proof (rule month_turn_strands_precommits [where paid = paid_to,
        OF launch_orders(1) [folded constants] launch_orders(2) [folded constants]])
    have "pv_num_periods (ho_value (launch_order_at 1787194800 1)) \<noteq> pv_num_periods (ho_value (launch_order_at 1755637200 2))"
      by (simp add: launch_order_simps)
    then show "map ho_value [launch_order_at 1787194800 1] \<noteq> map ho_value [launch_order_at 1755637200 2]" by auto
    show "inj_on (la_precommit_puzzle_hash launch_la (rg_constants launch_registry) 0)
        (ho_value ` set ([launch_order_at 1755637200 2] @ [launch_order_at 1787194800 1]))"
      by (auto simp: launch_la_def launch_order_simps)
    show "cl_coin_records_by_puzzle_hashes launch_client hs = Inr (Some (map paid_to
        (filter (\<lambda>h. h \<in> ho_puzzle_hash ` set [launch_order_at 1755637200 2]) hs)))" for hs
      by (simp add: launch_client_def launch_order_simps)
  qed simp
qed

end
