(* ===== verification/XchVerifyFacts.thy ===== *)
theory XchVerifyFacts
  imports XchVerify XchLaunchFacts
begin

text \<open>What a verified registry deployment is (\<open>XchVerify\<close>), and when verifying a prefix of it panics.\<close>

section \<open>Handles as they were launched\<close>

text \<open>
  An action registers a handle as the launch file has it: its hash, its expiration, an NFT with its metadata,
  the common royalty and a spend that sends it to the recipient.
\<close>

definition handle_launched ::
  "('n, 'z) sdk_scheme \<Rightarrow> ('c, 'a) registry_verify_sdk \<Rightarrow> client \<Rightarrow> deduced \<Rightarrow> xchandles_launch_record \<Rightarrow> 'a \<Rightarrow> bool"
where
  "handle_launched sdk xv client d handle action \<longleftrightarrow>
     (\<exists>solution pricing nft p2_output.
        xv_register_solution xv action = Inr solution \<and>
        rs_handle_hash solution = sdk_str_tree_hash sdk (lr_handle handle) \<and>
        rs_pricing solution = Inr pricing \<and>
        unat (fst pricing) + unat (snd pricing) * 31557600 = unat (lr_expiration handle) \<and>
        eve_nft_of_launcher sdk xv client (rs_owner_launcher_id solution) = Inr nft \<and>
        pn_metadata_hash nft = xv_metadata_hash xv (metadata_for_handle_nft handle) \<and>
        de_royalty_puzzle_hash d = Some (pn_royalty_puzzle_hash nft) \<and>
        de_royalty_basis_points d = Some (pn_royalty_basis_points nft) \<and>
        pn_p2_output nft = Inr p2_output \<and>
        P2CreateCoin (lr_recipient handle) 1 (Some (xv_memos_hash xv (lr_recipient handle))) \<in> set p2_output)"

definition extends :: "deduced \<Rightarrow> deduced \<Rightarrow> bool" where
  "extends d d' \<longleftrightarrow>
     (\<forall>r. de_royalty_puzzle_hash d = Some r \<longrightarrow> de_royalty_puzzle_hash d' = Some r) \<and>
     (\<forall>r. de_royalty_basis_points d = Some r \<longrightarrow> de_royalty_basis_points d' = Some r)"

lemma extends_refl [simp]: "extends d d"
  by (simp add: extends_def)

lemma extends_trans: "extends d d' \<Longrightarrow> extends d' d'' \<Longrightarrow> extends d d''"
  by (simp add: extends_def)

lemma launched_extends:
  "handle_launched sdk xv client d handle action \<Longrightarrow> extends d d' \<Longrightarrow> handle_launched sdk xv client d' handle action"
  unfolding handle_launched_def extends_def by blast

lemma deduce_Inr [result_simps]: "deduce so_far v e = Inr r \<longleftrightarrow> r = Some v \<and> (so_far = None \<or> so_far = Some v)"
  by (auto simp: deduce_def)

lemma deduce_from_nft_ok:
  assumes "deduce_from_nft d nft = Inr d'"
  shows "extends d d' \<and> de_royalty_puzzle_hash d' = Some (pn_royalty_puzzle_hash nft) \<and>
    de_royalty_basis_points d' = Some (pn_royalty_basis_points nft)"
  using assms by (auto simp: deduce_from_nft_def result_simps extends_def)

lemma check_p2_output_ok:
  assumes "check_p2_output xv registry_ph target_ph p2_output = Returned (Inr ())"
  shows "P2CreateCoin target_ph 1 (Some (xv_memos_hash xv target_ph)) \<in> set p2_output"
  using assms
  by (auto simp: check_p2_output_def result_simps split: list.splits p2_condition.splits option.splits if_splits)

lemma on_chain_expiration_Some:
  "on_chain_expiration pricing = Some e \<longleftrightarrow> unat (fst pricing) + unat (snd pricing) * 31557600 = unat e"
proof (cases pricing)
  case (Pair buy_time n)
  have "unat n * 31557600 < 2 ^ 64" if "unat buy_time + unat n * 31557600 = unat e"
    using that unat_u64_less [of e] by simp
  then show ?thesis
    by (auto simp: Pair on_chain_expiration_def checked_mul_Some checked_add_Some checked_mul_def
        unat_times_no_overflow split: option.splits if_splits)
qed

lemma verify_action_ok:
  assumes "verify_action sdk xv client handles ph action (i, d) = Returned (Inr (j, d'))"
  shows "i < length handles \<and> j = Suc i \<and> extends d d' \<and> handle_launched sdk xv client d' (handles ! i) action"
proof -
  from assms obtain solution handle pricing nft p2_output where
    solution: "xv_register_solution xv action = Inr solution"
    and handle: "nth_checked handles i = Some handle"
    and hash: "rs_handle_hash solution = sdk_str_tree_hash sdk (lr_handle handle)"
    and pricing: "rs_pricing solution = Inr pricing" "on_chain_expiration pricing = Some (lr_expiration handle)"
    and nft: "eve_nft_of_launcher sdk xv client (rs_owner_launcher_id solution) = Inr nft"
    and d: "deduce_from_nft d nft = Inr d'"
    and metadata: "pn_metadata_hash nft = xv_metadata_hash xv (metadata_for_handle_nft handle)"
    and p2: "pn_p2_output nft = Inr p2_output" "check_p2_output xv ph (lr_recipient handle) p2_output = Returned (Inr ())"
    and j: "j = Suc i"
    by (auto simp: verify_action_def result_simps split: if_splits)
  from handle have i: "i < length handles" "handles ! i = handle" by (simp_all add: nth_checked_Some)
  from pricing(2) have "unat (fst pricing) + unat (snd pricing) * 31557600 = unat (lr_expiration handle)"
    by (simp only: on_chain_expiration_Some)
  moreover obtain buy_time n where "pricing = (buy_time, n)" by (cases pricing)
  ultimately show ?thesis using solution hash pricing(1) nft metadata p2(1) check_p2_output_ok [OF p2(2)] deduce_from_nft_ok [OF d] i j
    unfolding handle_launched_def by auto
qed

lemma verify_actions_ok:
  assumes "verify_actions sdk xv client handles ph actions (i, d) = Returned (Inr (j, d'))"
    and "i \<le> length handles"
  shows "j = i + length actions \<and> j \<le> length handles \<and> extends d d' \<and>
    list_all2 (handle_launched sdk xv client d') (take (length actions) (drop i handles)) actions"
  using assms
proof (induction actions arbitrary: i d)
  case (Cons action actions)
  then obtain i' d1 where one: "verify_action sdk xv client handles ph action (i, d) = Returned (Inr (i', d1))"
    and more: "verify_actions sdk xv client handles ph actions (i', d1) = Returned (Inr (j, d'))"
    by (auto simp: result_simps)
  note a = verify_action_ok [OF one]
  from a have "i' \<le> length handles" by simp
  note rest = Cons.IH [OF more this]
  have "drop i handles = handles ! i # drop i' handles" using a by (simp add: Cons_nth_drop_Suc)
  moreover from a have "handle_launched sdk xv client d1 (handles ! i) action" "extends d d1" by simp_all
  moreover from rest have "extends d1 d'" by simp
  ultimately have "handle_launched sdk xv client d' (handles ! i) action" "extends d d'"
    "drop i handles = handles ! i # drop i' handles"
    by (auto elim: launched_extends extends_trans)
  then show ?case using a rest by simp
qed simp

text \<open>The actions of the node's spends of the registry, from a registry on.\<close>

inductive action_path ::
  "('n, 'z) sdk_scheme \<Rightarrow> 'c registry_sdk \<Rightarrow> ('c, 'a) registry_verify_sdk \<Rightarrow> client \<Rightarrow> 'c registry \<Rightarrow> 'a list \<Rightarrow> bool"
  for sdk xs xv client
where
  path_nil: "action_path sdk xs xv client registry []"
| path_actions: "action_path sdk xs xv client registry (actions @ later)"
  if "cl_coin_record_by_name client (sdk_coin_id sdk (rg_coin registry)) = Inr (Some coin_record)"
    and "cl_puzzle_and_solution client (sdk_coin_id sdk (rg_coin registry)) (Some (cr_spent_block_index coin_record))
      = Inr (Some coin_spend)"
    and "xv_action_spends xv (spend_solution coin_spend) = Inr actions"
    and "action_path sdk xs xv client (xs_child xs registry) later"

lemma verify_handles_ok:
  assumes "verify_handles fuel sdk xs xv client handles registry (i, d) = Some (Returned (Inr (j, d')))"
    and "i \<le> length handles"
  shows "\<exists>actions. action_path sdk xs xv client registry actions \<and> j = i + length actions \<and> j \<le> length handles \<and>
    extends d d' \<and> list_all2 (handle_launched sdk xv client d') (take (length actions) (drop i handles)) actions"
  using assms
proof (induction fuel arbitrary: registry i d)
  case (Suc fuel)
  show ?case
  proof (cases "i = j \<and> d = d'")
    case True
    with Suc.prems(2) show ?thesis by (intro exI [of _ "[]"]) (simp add: path_nil)
  next
    case False
    with Suc.prems(1) obtain coin_record coin_spend actions i' d1 where
      step: "cl_coin_record_by_name client (sdk_coin_id sdk (rg_coin registry)) = Inr (Some coin_record)"
        "cl_puzzle_and_solution client (sdk_coin_id sdk (rg_coin registry)) (Some (cr_spent_block_index coin_record))
          = Inr (Some coin_spend)"
        "xv_action_spends xv (spend_solution coin_spend) = Inr actions"
      and batch: "verify_actions sdk xv client handles (puzzle_hash (rg_coin registry)) actions (i, d) =
        Returned (Inr (i', d1))"
      and walk: "verify_handles fuel sdk xs xv client handles (xs_child xs registry) (i', d1) =
        Some (Returned (Inr (j, d')))"
      by (auto simp: Let_def required_Inr result_simps
          split: if_splits sum.splits option.splits outcome.splits)
    note b = verify_actions_ok [OF batch Suc.prems(2)]
    then have i': "i' \<le> length handles" by simp
    from Suc.IH [OF walk i'] obtain later where later:
      "action_path sdk xs xv client (xs_child xs registry) later" "j = i' + length later" "j \<le> length handles"
      "extends d1 d'" "list_all2 (handle_launched sdk xv client d') (take (length later) (drop i' handles)) later"
      by blast
    have "action_path sdk xs xv client registry (actions @ later)"
      using path_actions [OF step later(1)] .
    moreover have "list_all2 (handle_launched sdk xv client d') (take (length actions) (drop i handles)) actions"
      using b later(4) by (auto elim!: list_all2_mono launched_extends)
    moreover have "take (length (actions @ later)) (drop i handles) =
        take (length actions) (drop i handles) @ take (length later) (drop i' handles)"
      using b by (simp add: take_add add.commute)
    ultimately show ?thesis
      using b later extends_trans [of d d1 d']
      by (intro exI [of _ "actions @ later"]) (auto intro: list_all2_appendI)
  qed
qed simp

section \<open>A verified deployment\<close>

text \<open>
  Who controls the price now: a scheduler that was spent at least once since its launch, or the vault it
  became, which on mainnet must be the configured one.
\<close>

definition live_controller_ok ::
  "('n, 'z) sdk_scheme \<Rightarrow> 'k csv_sdk \<Rightarrow> bool \<Rightarrow> (registry_state, 'k) multisig_singleton \<Rightarrow> bool"
where
  "live_controller_ok sdk cv testnet11 singleton \<longleftrightarrow>
     (case singleton of
        SchedulerPhase scheduler \<Rightarrow> si_generation (ss_info scheduler) \<noteq> 0
      | VaultPhase vault \<Rightarrow> testnet11 \<or>
          vi_m (va_info vault) = PRICE_SINGLETON_M \<and>
          price_singleton_public_keys sdk cv = Inr (vi_public_key_list (va_info vault)))"

lemma live_controller_check_ok:
  "live_controller_check sdk cv pr testnet11 singleton = Inr () \<Longrightarrow> live_controller_ok sdk cv testnet11 singleton"
  by (cases singleton)
    (auto simp: live_controller_check_def live_controller_ok_def controller_matches_configured_def result_simps
      split: if_splits)

lemma verify_price_ok:
  assumes "verify_price fuel sdk xv cv mg pr client testnet11 price_schedule price_singleton d = Some (Inr ())"
  shows "\<exists>schedule singleton info. price_schedule = Inr schedule \<and>
    sync_multisig_singleton fuel sdk mg (pr\<lparr>pr_state_info := None\<rparr>) client price_singleton =
      Some (Inr (singleton, Some info)) \<and>
    si_state_schedule info = map (scheduled_state_of sdk xv) schedule \<and>
    live_controller_ok sdk cv testnet11 singleton \<and>
    (\<not> testnet11 \<longrightarrow> mainnet_royalty_check d = Inr () \<and>
       committed_controller_check sdk cv mg price_singleton info = Inr ())"
proof -
  from assms obtain singleton info where synced:
    "sync_multisig_singleton fuel sdk mg (pr\<lparr>pr_state_info := None\<rparr>) client price_singleton =
      Some (Inr (singleton, info))"
    by (auto simp: verify_price_def result_simps)
  with assms have "live_controller_check sdk cv pr testnet11 singleton = Inr ()"
    by (cases info; cases testnet11) (auto simp: verify_price_def result_simps split: if_splits)
  then have "live_controller_ok sdk cv testnet11 singleton" by (rule live_controller_check_ok)
  with assms synced show ?thesis
    by (cases info; cases testnet11)
      (auto simp: verify_price_def result_simps xchandles_schedule_exact split: if_splits)
qed

lemma handles_prefix_ok:
  "handles_prefix expected_count rows = Inr handles \<Longrightarrow>
     unwrap_or expected_count (length rows) \<le> length rows \<and>
     handles = take (unwrap_or expected_count (length rows)) rows"
  by (auto simp: handles_prefix_def Let_def split: if_splits)

lemma mainnet_royalty_check_ok:
  "mainnet_royalty_check d = Inr () \<longleftrightarrow>
     de_royalty_puzzle_hash d = Some ROYALTY_PUZZLE_HASH \<and> de_royalty_basis_points d = Some ROYALTY_BASIS_POINTS"
  by (auto simp: mainnet_royalty_check_def result_simps split: if_splits)

text \<open>
  C5. A deployment passes only when the chain shows it: from the launched registry on, the actions of its first
  spends register exactly the handles of the launch file's first \<open>expected_count\<close> rows (all rows when no
  count is given; the file must have as many), in its order, each with the file's expiration to the
  second, an NFT with the file's metadata that was sent to the file's recipient, and one royalty for all; the
  price singleton was launched with exactly the schedule of the file; and it is controlled by a
  scheduler that has been spent at least once, or by a vault. On mainnet the royalty is the configured
  one, the vault the scheduler was committed to hand over to is that of the configured keys, and a live vault
  has exactly these keys and their threshold.
\<close>

theorem registry_verification_sound:
  assumes "xchandles_verify_deployment fuel sdk xs xv cv mg pr client launcher_id_str premine expected_count testnet11
    price_schedule = Some (Returned (Inr ()))"
  shows "\<exists>launcher_id rows count registry actions d schedule singleton info.
    hex_string_to_bytes32 sdk launcher_id_str = Inr launcher_id \<and> premine = Inr rows \<and>
    count = unwrap_or expected_count (length rows) \<and> count \<le> length rows \<and>
    launched_registry sdk xs xv client launcher_id = Inr registry \<and>
    action_path sdk xs xv client registry actions \<and>
    list_all2 (handle_launched sdk xv client d) (take count rows) actions \<and>
    price_schedule = Inr schedule \<and>
    sync_multisig_singleton fuel sdk mg (pr\<lparr>pr_state_info := None\<rparr>) client
      (xv_price_singleton xv (rg_constants registry)) = Some (Inr (singleton, Some info)) \<and>
    si_state_schedule info = map (scheduled_state_of sdk xv) schedule \<and>
    (case singleton of
       SchedulerPhase scheduler \<Rightarrow> si_generation (ss_info scheduler) \<noteq> 0
     | VaultPhase vault \<Rightarrow> testnet11 \<or>
         vi_m (va_info vault) = PRICE_SINGLETON_M \<and>
         price_singleton_public_keys sdk cv = Inr (vi_public_key_list (va_info vault))) \<and>
    (\<not> testnet11 \<longrightarrow>
       de_royalty_puzzle_hash d = Some ROYALTY_PUZZLE_HASH \<and> de_royalty_basis_points d = Some ROYALTY_BASIS_POINTS \<and>
       (\<exists>keys. price_singleton_public_keys sdk cv = Inr keys \<and>
          mg_vault_inner_hash mg \<lparr>vi_launcher_id = xv_price_singleton xv (rg_constants registry),
            vi_m = PRICE_SINGLETON_M, vi_public_key_list = keys\<rparr> = si_final_puzzle_hash info))"
proof -
  from assms obtain launcher_id rows handles registry j d where
    start: "hex_string_to_bytes32 sdk launcher_id_str = Inr launcher_id" "premine = Inr rows"
      "handles_prefix expected_count rows = Inr handles" "launched_registry sdk xs xv client launcher_id = Inr registry"
    and walk: "verify_handles fuel sdk xs xv client handles registry (0, no_deductions) = Some (Returned (Inr (j, d)))"
    and all_of: "\<not> j < length handles"
    and price: "verify_price fuel sdk xv cv mg pr client testnet11 price_schedule
      (xv_price_singleton xv (rg_constants registry)) d = Some (Inr ())"
    by (auto simp: xchandles_verify_deployment_def result_simps
        split: outcome.splits sum.splits option.splits prod.splits if_splits)
  from verify_handles_ok [OF walk] all_of obtain actions where
    actions: "action_path sdk xs xv client registry actions" "list_all2 (handle_launched sdk xv client d) handles actions"
    by auto
  from verify_price_ok [OF price] obtain schedule singleton info where
    price': "price_schedule = Inr schedule"
      "sync_multisig_singleton fuel sdk mg (pr\<lparr>pr_state_info := None\<rparr>) client
        (xv_price_singleton xv (rg_constants registry)) = Some (Inr (singleton, Some info))"
      "si_state_schedule info = map (scheduled_state_of sdk xv) schedule"
      "live_controller_ok sdk cv testnet11 singleton"
    and mainnet: "\<not> testnet11 \<longrightarrow> mainnet_royalty_check d = Inr () \<and>
      committed_controller_check sdk cv mg (xv_price_singleton xv (rg_constants registry)) info = Inr ()"
    by blast
  have "\<exists>keys. price_singleton_public_keys sdk cv = Inr keys \<and>
      mg_vault_inner_hash mg \<lparr>vi_launcher_id = xv_price_singleton xv (rg_constants registry),
        vi_m = PRICE_SINGLETON_M, vi_public_key_list = keys\<rparr> = si_final_puzzle_hash info" if "\<not> testnet11"
    using mainnet that by (auto simp: committed_controller_check_def result_simps split: if_splits)
  with start actions price' mainnet handles_prefix_ok [OF start(3)] show ?thesis
    unfolding mainnet_royalty_check_ok live_controller_ok_def by blast
qed

section \<open>A prefix that ends inside a batch\<close>

lemma verify_actions_append:
  "verify_actions sdk xv client handles ph (xs @ ys) at =
     attempt (verify_actions sdk xv client handles ph xs at) (verify_actions sdk xv client handles ph ys)"
proof (induction xs arbitrary: at)
  case (Cons x xs)
  show ?case
  proof (cases "verify_action sdk xv client handles ph x at")
    case (Returned r)
    then show ?thesis using Cons by (cases r) simp_all
  qed simp
qed simp

text \<open>
  The loop over the handles looks at the limit before each spend only. When the first spend registers more
  handles than \<open>--expected-count\<close> asks for, the action after the last one asked for is compared with a
  row past the prefix, and the command panics although everything it was asked to verify is right.
\<close>

theorem prefix_inside_batch_panics:
  assumes "hex_string_to_bytes32 sdk launcher_id_str = Inr launcher_id" and "premine = Inr rows"
    and "handles_prefix (Some count) rows = Inr handles" and "0 < count"
    and "launched_registry sdk xs xv client launcher_id = Inr registry"
    and "cl_coin_record_by_name client (sdk_coin_id sdk (rg_coin registry)) = Inr (Some coin_record)"
    and "cl_puzzle_and_solution client (sdk_coin_id sdk (rg_coin registry)) (Some (cr_spent_block_index coin_record))
      = Inr (Some coin_spend)"
    and "xv_action_spends xv (spend_solution coin_spend) = Inr (asked @ surplus # later)"
    and "verify_actions sdk xv client handles (puzzle_hash (rg_coin registry)) asked (0, no_deductions)
      = Returned (Inr (length handles, d))"
    and "xv_register_solution xv surplus = Inr solution"
  shows "xchandles_verify_deployment (Suc fuel) sdk xs xv cv mg pr client launcher_id_str premine (Some count) testnet11
    price_schedule = Some Panicked"
proof -
  have "verify_action sdk xv client handles ph surplus (length handles, d) = Panicked" for ph
    by (simp add: verify_action_def assms(10) nth_checked_def)
  then have panic: "verify_actions sdk xv client handles (puzzle_hash (rg_coin registry)) (asked @ surplus # later)
      (0, no_deductions) = Panicked"
    by (simp add: verify_actions_append assms(9))
  from assms(3,4) have "handles \<noteq> []"
    by (cases rows) (auto simp: handles_prefix_def Let_def split: if_splits)
  then have "verify_handles (Suc fuel) sdk xs xv client handles registry (0, no_deductions) = Some Panicked"
    using panic by (simp add: Let_def required_def assms(6,7,8))
  then show ?thesis by (simp add: xchandles_verify_deployment_def assms(1,2,3,5))
qed

text \<open>
  A registry whose first spend registers the handle of \<open>launch_row\<close>, twice: for the second one the file has
  no row.
\<close>

definition registry_client :: client where
  "registry_client = example_client
     \<lparr>cl_coin_record_by_name := (\<lambda>_. Inr (Some \<lparr>cr_coin = example_tip_coin, cr_confirmed_block_index = 10,
        cr_spent_block_index = 20, cr_spent = True\<rparr>)),
      cl_puzzle_and_solution := (\<lambda>_ _. Inr (Some \<lparr>spend_coin = example_tip_coin, puzzle_reveal = [], spend_solution = []\<rparr>)),
      cl_coin_records_by_hint := (\<lambda>_. Inr (Some []))\<rparr>"

definition registry_xs :: "unit registry_sdk" where
  "registry_xs = launch_xs
     \<lparr>xs_from_launcher_solution := (\<lambda>_ _. Inr (Some (launch_registry,
        slot_new launch_codec launch_lineage 1 1 (launch_slot 1), slot_new launch_codec launch_lineage 1 1 (launch_slot 200))))\<rparr>"

definition registry_nft :: parsed_nft where
  "registry_nft = \<lparr>pn_royalty_puzzle_hash = 11, pn_royalty_basis_points = 500, pn_metadata_hash = 12,
     pn_inner_puzzle_hash = 13,
     pn_p2_output = Inr [P2AggSigMe, P2SendMessage 18 [1] [3], P2CreateCoin 40 1 (Some 40)]\<rparr>"

definition registry_xv :: "nat \<Rightarrow> (unit, unit) registry_verify_sdk" where
  "registry_xv n =
     \<lparr>xv_cat_maker_hash = (\<lambda>_. 5), xv_expire_pricing_hash = (\<lambda>_ _. 6), xv_launch_terms = (\<lambda>_ _. (8, 1)),
      xv_action_spends = (\<lambda>_. Inr (replicate n ())),
      xv_register_solution = (\<lambda>_. Inr \<lparr>rs_handle_hash = 65, rs_owner_launcher_id = 50, rs_resolved_launcher_id = 50,
        rs_pricing = Inr (1755637200, 2)\<rparr>),
      xv_singleton_puzzle_hash = (\<lambda>_. Inr 9), xv_parse_nft = (\<lambda>_ _ _. Inr (Some registry_nft)),
      xv_metadata_hash = (\<lambda>_. 12), xv_memos_hash = (\<lambda>h. h), xv_bytes32_hash = (\<lambda>h. h),
      xv_register_owner_prefix = 1, xv_price_singleton = (\<lambda>_. 4)\<rparr>"

definition registry_info :: "registry_state scheduler_info" where
  "registry_info = \<lparr>si_state_schedule = [(100, \<lparr>rt_cat_maker_puzzle_hash = 5, rt_pricing_puzzle_hash = 1,
     rt_expired_handle_pricing_puzzle_hash = 6\<rparr>)], si_generation = 0, si_final_puzzle_hash = 3\<rparr>"

definition registry_mg :: "(registry_state, nat, unit, unit) multisig_sdk" where
  "registry_mg =
     \<lparr>mg_launcher_solution = (\<lambda>_. Inr ()), mg_scheduler_info = (\<lambda>_. Inr (Some (registry_info, ()))),
      mg_vault_info = (\<lambda>_. va_info (example_vault 4)), mg_vault_inner_hash = (\<lambda>_. 3),
      mg_scheduler_inner_hash = (\<lambda>_. 8),
      mg_scheduler_from_launcher = (\<lambda>_. Inr (Some \<lparr>ss_coin = example_tip_coin, ss_info = registry_info\<rparr>)),
      mg_scheduler_child = (\<lambda>_. None), mg_vault_from_launcher = (\<lambda>_. Inr None), mg_vault_from_parent = (\<lambda>_. Inr None)\<rparr>"

definition registry_schedule :: "xchandles_state_schedule_record list" where
  "registry_schedule = [\<lparr>xr_timestamp = 100, xr_asset_id = 8, xr_registration_price = 1, xr_registration_period = 31557600\<rparr>]"

definition no_keys :: "nat csv_sdk" where
  "no_keys = \<lparr>cv_address_decode = (\<lambda>_. None), cv_u64 = (\<lambda>_. None), cv_u8 = (\<lambda>_. None), cv_pubkey_from_bytes = (\<lambda>_. None)\<rparr>"

lemma registry_launched:
  "launched_registry fixture_sdk registry_xs (registry_xv n) registry_client 1 = Inr launch_registry"
  by (simp add: launched_registry_def required_def registry_client_def registry_xs_def registry_xv_def)

lemma registry_handle_verified:
  "verify_actions fixture_sdk (registry_xv n) registry_client [launch_row] 3 [()] (0, no_deductions) =
     Returned (Inr (1, \<lparr>de_royalty_puzzle_hash = Some 11, de_royalty_basis_points = Some 500,
       de_eve_nft_temp_inner_ph = Some 13\<rparr>))"
proof -
  have "on_chain_expiration (1755637200, 2) = Some 1818752400"
    by (simp add: on_chain_expiration_Some)
  moreover have "eve_nft_of_launcher fixture_sdk (registry_xv n) registry_client 50 = Inr registry_nft"
    by (simp add: eve_nft_of_launcher_def required_def registry_client_def registry_xv_def Let_def)
  moreover have "check_p2_output (registry_xv n) 3 40 [P2AggSigMe, P2SendMessage 18 [1] [3], P2CreateCoin 40 1 (Some 40)]
      = Returned (Inr ())"
    by (simp add: check_p2_output_def registry_xv_def nth_checked_def)
  ultimately show ?thesis
    by (simp add: verify_action_def registry_xv_def nth_checked_def launch_row_def deduce_from_nft_def deduce_def
        no_deductions_def registry_nft_def)
qed

lemma prefix_inside_batch_panics_witness:
  "xchandles_verify_deployment 1 fixture_sdk registry_xs (registry_xv 2) no_keys registry_mg quiet registry_client
     (hex32 fixture_sdk 1) (Inr [launch_row]) (Some 1) True (Inr registry_schedule) = Some Panicked"
  unfolding One_nat_def
proof (rule prefix_inside_batch_panics [OF _ refl, where asked = "[()]" and surplus = "()" and later = "[]"
      and handles = "[launch_row]"])
  show "hex_string_to_bytes32 fixture_sdk (hex32 fixture_sdk 1) = Inr 1"
    by (rule hex_string_roundtrip [OF fixture_hex_codec_ok])
  show "launched_registry fixture_sdk registry_xs (registry_xv 2) registry_client 1 = Inr launch_registry"
    by (rule registry_launched)
  show "verify_actions fixture_sdk (registry_xv 2) registry_client [launch_row] (puzzle_hash (rg_coin launch_registry)) [()]
      (0, no_deductions) = Returned (Inr (length [launch_row], \<lparr>de_royalty_puzzle_hash = Some 11,
        de_royalty_basis_points = Some 500, de_eve_nft_temp_inner_ph = Some 13\<rparr>))"
    using registry_handle_verified [of 2] by (simp add: example_tip_coin_def)
qed (simp_all add: handles_prefix_def registry_client_def registry_xv_def numeral_2_eq_2)

lemma registry_verification_sound_witness:
  "\<exists>d actions. xchandles_verify_deployment 2 fixture_sdk registry_xs (registry_xv 1) no_keys registry_mg quiet registry_client
     (hex32 fixture_sdk 1) (Inr [launch_row]) None True (Inr registry_schedule) = Some (Returned (Inr ())) \<and>
   list_all2 (handle_launched fixture_sdk (registry_xv 1) registry_client d) [launch_row] actions"
proof -
  have walk: "\<exists>d. verify_handles 2 fixture_sdk registry_xs (registry_xv 1) registry_client [launch_row] launch_registry
      (0, no_deductions) = Some (Returned (Inr (1, d)))"
    using registry_handle_verified [of 1]
    by (simp add: numeral_2_eq_2 required_def registry_client_def Let_def example_tip_coin_def)
       (simp add: registry_xv_def)
  have "sync_multisig_singleton 2 fixture_sdk registry_mg quiet registry_client 4 =
      Some (Inr (VaultPhase (vault_after_scheduler fixture_sdk registry_mg 4
        \<lparr>ss_coin = example_tip_coin, ss_info = registry_info\<rparr> (va_info (example_vault 4))), Some registry_info))"
    by (simp add: sync_multisig_singleton_def sync_as_scheduler_def required_def registry_client_def
        quiet_def print_schedule_def vault_result_def latest_vault_def Let_def scheduler_turn_def numeral_2_eq_2
        registry_mg_def registry_info_def)
  then have price: "verify_price 2 fixture_sdk (registry_xv 1) no_keys registry_mg quiet registry_client True
      (Inr registry_schedule) 4 d = Some (Inr ())" for d
    by (simp add: verify_price_def xchandles_trusted_schedule_matches_def registry_schedule_def registry_info_def
        registry_xv_def quiet_def live_controller_check_def print_medieval_vault_configuration_def)
  have verified: "xchandles_verify_deployment 2 fixture_sdk registry_xs (registry_xv 1) no_keys registry_mg quiet
      registry_client (hex32 fixture_sdk 1) (Inr [launch_row]) None True (Inr registry_schedule) = Some (Returned (Inr ()))"
    using walk price
    by (auto simp: xchandles_verify_deployment_def hex_string_roundtrip [OF fixture_hex_codec_ok] handles_prefix_def
        registry_launched) (simp add: registry_xv_def)
  from registry_verification_sound [OF this] have
    "\<exists>d actions. list_all2 (handle_launched fixture_sdk (registry_xv 1) registry_client d) [launch_row] actions"
    by (auto simp: handles_prefix_def)
  with verified show ?thesis by blast
qed

end
