(* ===== verification/DistributorSync.thy ===== *)
theory DistributorSync
  imports XchSync
begin

text \<open>
  \<open>reward_distributor/sync_distributor.rs\<close>: finding the current reward distributor, its reserve, the reward
  slot of an epoch, and the commitment and entry slots of an address. Parsing spends and computing slots is
  the SDK's (\<open>distributor_sdk\<close>); \<open>'t\<close> is the type of a distributor, \<open>'i\<close> its initial state.
\<close>

section \<open>Data\<close>

type_synonym u128 = "128 word"

record 't distributor_constants =
  rc_launcher_id :: bytes32
  rc_reserve_asset_id :: bytes32
  rc_epoch_seconds :: u64
  rc_type :: 't

record reward_slot_value =
  rw_counter :: u64
  rw_epoch_start :: u64
  rw_next_epoch_initialized :: bool
  rw_rewards :: u64

record commitment_slot_value =
  cm_epoch_start :: u64
  cm_clawback_ph :: bytes32
  cm_rewards :: u64

record entry_slot_value =
  ev_payout_puzzle_hash :: bytes32
  ev_initial_cumulative_payout :: u128
  ev_shares :: u64

text \<open>A distributor with its round times and what its pending spend creates.\<close>

record 't distributor =
  rd_coin :: coin
  rd_constants :: "'t distributor_constants"
  rd_last_update :: u64
  rd_epoch_end :: u64
  rd_created_reward_slots :: "reward_slot_value list"
  rd_created_commitment_slots :: "commitment_slot_value list"
  rd_created_entry_slots :: "entry_slot_value list"

record reserve =
  re_coin :: coin
  re_asset_id :: bytes32
  re_proof :: lineage_proof
  re_inner_puzzle_hash :: bytes32
  re_nonce :: u64

text \<open>
  \<open>ds_cat_inner_hash\<close> and \<open>ds_singleton_inner_hash\<close> are the tree hash of the inner puzzle of a puzzle that
  parses to a CAT or a singleton; \<open>ds_eve_reward_slot\<close> is \<open>Slot::new\<close> with the reward nonce, the next three
  \<open>created_slot_value_to_slot\<close>.
\<close>

record ('t, 'i) distributor_sdk =
  ds_from_parent_spend :: "coin_spend \<Rightarrow> 't distributor_constants \<Rightarrow> driver_error + 't distributor option"
  ds_from_spend :: "coin_spend \<Rightarrow> 't distributor_constants \<Rightarrow> driver_error + 't distributor option"
  ds_from_mempool_item :: "coin_spend list \<Rightarrow> 't distributor_constants \<Rightarrow> driver_error + 't distributor option"
  ds_from_launcher :: "coin \<Rightarrow> u8 list \<Rightarrow> driver_error + ('t distributor_constants \<times> 'i \<times> coin) option"
  ds_from_eve :: "'t distributor_constants \<Rightarrow> 'i \<Rightarrow> coin_spend \<Rightarrow> bytes32 \<Rightarrow> lineage_proof
    \<Rightarrow> driver_error + 't distributor option"
  ds_initial_epoch_end :: "'i \<Rightarrow> u64"
  ds_epoch_hint :: "u64 \<Rightarrow> bytes32"
  ds_reserve_inner_hash :: "bytes32 \<Rightarrow> u64 \<Rightarrow> bytes32"
  ds_cat_puzzle_hash :: "bytes32 \<Rightarrow> bytes32 \<Rightarrow> bytes32"
  ds_cat_inner_hash :: "u8 list \<Rightarrow> cli_error + bytes32 option"
  ds_singleton_inner_hash :: "u8 list \<Rightarrow> cli_error + bytes32 option"
  ds_eve_reward_slot :: "lineage_proof \<Rightarrow> bytes32 \<Rightarrow> reward_slot_value \<Rightarrow> reward_slot_value slot"
  ds_reward_slot :: "'t distributor \<Rightarrow> reward_slot_value \<Rightarrow> reward_slot_value slot"
  ds_commitment_slot :: "'t distributor \<Rightarrow> commitment_slot_value \<Rightarrow> commitment_slot_value slot"
  ds_entry_slot :: "'t distributor \<Rightarrow> entry_slot_value \<Rightarrow> entry_slot_value slot"
  ds_constants_codec :: "'t distributor_constants clvm_codec"

section \<open>The current distributor\<close>

definition distributor_launch ::
  "('t, 'i) distributor_sdk \<Rightarrow> client \<Rightarrow> bytes32 \<Rightarrow> cli_error + coin_record \<times> 't distributor_constants \<times> 'i \<times> coin"
where
  "distributor_launch ds client launcher_id =
     try_result (required (cl_coin_record_by_name client launcher_id) (CoinNotFound launcher_id)) (\<lambda>launcher_record.
     try_result (required (cl_puzzle_and_solution client launcher_id (Some (cr_spent_block_index launcher_record)))
                   (CoinNotSpent launcher_id)) (\<lambda>launcher_spend.
     try_result (required (map_err Driver (ds_from_launcher ds (spend_coin launcher_spend) (spend_solution launcher_spend)))
                   (Custom ''Could not parse launcher spend'')) (\<lambda>(constants, initial_state, eve_coin).
       Inr (launcher_record, constants, initial_state, eve_coin))))"

text \<open>From the database, or from the chain and then saved.\<close>

definition distributor_constants_of ::
  "('t, 'i) distributor_sdk \<Rightarrow> client \<Rightarrow> bytes32 \<Rightarrow> db \<Rightarrow> 't distributor_constants db_result"
where
  "distributor_constants_of ds client launcher_id db =
     db_then (db_read (get_reward_distributor_configuration (ds_constants_codec ds) launcher_id db) db)
       (\<lambda>cached db.
     case cached of
       Some cached_constants \<Rightarrow> (Inr cached_constants, db)
     | None \<Rightarrow>
         db_then (db_read (distributor_launch ds client launcher_id) db) (\<lambda>(_, constants, _, _) db.
         db_then (db_write (save_reward_distributor_configuration (ds_constants_codec ds) (rc_launcher_id constants)
                    constants) db) (\<lambda>_ db. (Inr constants, db))))"

text \<open>A pending spend of the tip itself moves the distributor one spend further.\<close>

definition pending_distributor ::
  "('n, 'z) sdk_scheme \<Rightarrow> ('t, 'i) distributor_sdk \<Rightarrow> client \<Rightarrow> 't distributor_constants \<Rightarrow> 't distributor
    \<Rightarrow> cli_error + 't distributor"
where
  "pending_distributor sdk ds client constants on_chain =
     try_result (cl_mempool_items client (sdk_coin_id sdk (rd_coin on_chain))) (\<lambda>items.
       case items of
         Some (spend_bundle # _) \<Rightarrow>
           try_result (map_err Driver (ds_from_mempool_item ds spend_bundle constants)) (\<lambda>pending.
             Inr (unwrap_or pending on_chain))
       | _ \<Rightarrow> Inr on_chain)"

text \<open>The first unspent coin hinted with the launcher whose parent spend parses; parse errors are ignored.\<close>

fun on_chain_distributor ::
  "('t, 'i) distributor_sdk \<Rightarrow> client \<Rightarrow> 't distributor_constants \<Rightarrow> coin_record list
    \<Rightarrow> cli_error + 't distributor option"
where
  "on_chain_distributor ds client constants [] = Inr None"
| "on_chain_distributor ds client constants (coin_record # records) =
     (if cr_spent coin_record then on_chain_distributor ds client constants records
      else
        let parent = parent_coin_info (cr_coin coin_record)
        in try_result (required (cl_puzzle_and_solution client parent (Some (cr_confirmed_block_index coin_record)))
                         (CoinNotSpent parent)) (\<lambda>next_spend.
           case ds_from_parent_spend ds next_spend constants of
             Inr (Some distributor) \<Rightarrow> Inr (Some distributor)
           | _ \<Rightarrow> on_chain_distributor ds client constants records))"

definition find_reserve ::
  "('t, 'i) distributor_sdk \<Rightarrow> client \<Rightarrow> bytes32 \<Rightarrow> bytes32 \<Rightarrow> u64 \<Rightarrow> u64 \<Rightarrow> bool \<Rightarrow> cli_error + reserve"
where
  "find_reserve ds client launcher_id asset_id nonce reserve_amount include_spent =
     (let inner_puzzle_hash = ds_reserve_inner_hash ds launcher_id nonce;
          reserve_ph = ds_cat_puzzle_hash ds asset_id inner_puzzle_hash
      in try_result (required (cl_coin_records_by_puzzle_hash client reserve_ph include_spent) (CoinNotFound reserve_ph))
           (\<lambda>records.
         try_result (ok_or (find (\<lambda>cr. amount (cr_coin cr) = reserve_amount \<and> puzzle_hash (cr_coin cr) = reserve_ph) records)
                       (CoinNotFound reserve_ph)) (\<lambda>reserve_record.
         let parent = parent_coin_info (cr_coin reserve_record)
         in try_result (required (cl_puzzle_and_solution client parent (Some (cr_confirmed_block_index reserve_record)))
                          (CoinNotSpent parent)) (\<lambda>parent_spend.
            try_result (required (ds_cat_inner_hash ds (puzzle_reveal parent_spend)) (Custom ''Parent is not a CAT''))
              (\<lambda>parent_inner_hash.
              Inr \<lparr>re_coin = cr_coin reserve_record, re_asset_id = asset_id,
                re_proof = \<lparr>lp_parent_parent_coin_info = parent_coin_info (spend_coin parent_spend),
                  lp_parent_inner_puzzle_hash = parent_inner_hash, lp_parent_amount = amount (spend_coin parent_spend)\<rparr>,
                re_inner_puzzle_hash = inner_puzzle_hash, re_nonce = nonce\<rparr>)))))"

text \<open>Just after the eve spend nothing is hinted yet.\<close>

definition eve_distributor ::
  "('n, 'z) sdk_scheme \<Rightarrow> ('t, 'i) distributor_sdk \<Rightarrow> client \<Rightarrow> bytes32 \<Rightarrow> cli_error + 't distributor"
where
  "eve_distributor sdk ds client launcher_id =
     try_result (distributor_launch ds client launcher_id) (\<lambda>(launcher_record, constants, initial_state, eve_coin).
       let eve_id = sdk_coin_id sdk eve_coin
       in try_result (required (cl_puzzle_and_solution client eve_id (Some (cr_spent_block_index launcher_record)))
                        (CoinNotSpent eve_id)) (\<lambda>eve_spend.
          try_result (find_reserve ds client launcher_id (rc_reserve_asset_id constants) 0 0 False) (\<lambda>reserve.
            required (map_err Driver (ds_from_eve ds constants initial_state eve_spend
                (parent_coin_info (re_coin reserve)) (re_proof reserve)))
              (Custom ''Could not parse eve coin spend''))))"

definition sync_distributor ::
  "('n, 'z) sdk_scheme \<Rightarrow> ('t, 'i) distributor_sdk \<Rightarrow> client \<Rightarrow> bytes32 \<Rightarrow> db \<Rightarrow> 't distributor db_result"
where
  "sync_distributor sdk ds client launcher_id db =
     db_then (distributor_constants_of ds client launcher_id db) (\<lambda>constants db.
     db_then (db_read (required (cl_coin_records_by_hint client (rc_launcher_id constants))
                         (Custom ''No unspent coin records found'')) db) (\<lambda>records db.
     db_then (db_read (on_chain_distributor ds client constants records) db) (\<lambda>found db.
       db_read (case found of
          Some on_chain \<Rightarrow> pending_distributor sdk ds client constants on_chain
        | None \<Rightarrow> eve_distributor sdk ds client launcher_id) db)))"

section \<open>The reward slot of an epoch\<close>

text \<open>
  The coins hinted with the epoch. A parent spend that is no distributor's is taken for the eve spend, whose
  puzzle must be a singleton: \<open>unwrap\<close> panics otherwise.
\<close>

definition eve_reward_slot ::
  "('t, 'i) distributor_sdk \<Rightarrow> 't distributor_constants \<Rightarrow> u64 \<Rightarrow> coin_spend \<Rightarrow> (cli_error + reward_slot_value slot) outcome"
where
  "eve_reward_slot ds constants epoch_start eve_spend =
     attempt (Returned (ds_singleton_inner_hash ds (puzzle_reveal eve_spend))) (\<lambda>layer.
     attempt (unwrap layer) (\<lambda>inner_puzzle_hash.
       Returned (Inr (ds_eve_reward_slot ds
         \<lparr>lp_parent_parent_coin_info = parent_coin_info (spend_coin eve_spend),
          lp_parent_inner_puzzle_hash = inner_puzzle_hash, lp_parent_amount = amount (spend_coin eve_spend)\<rparr>
         (rc_launcher_id constants)
         \<lparr>rw_counter = 0, rw_epoch_start = epoch_start, rw_next_epoch_initialized = False, rw_rewards = 0\<rparr>))))"

definition created_reward_slot ::
  "('t, 'i) distributor_sdk \<Rightarrow> 't distributor_constants \<Rightarrow> u64 \<Rightarrow> coin \<Rightarrow> 't distributor \<Rightarrow> reward_slot_value slot option"
where
  "created_reward_slot ds constants epoch_start c distributor =
     (if rc_launcher_id (rd_constants distributor) \<noteq> rc_launcher_id constants then None
      else find_map (\<lambda>val.
             if rw_epoch_start val = epoch_start
             then (let slot = ds_reward_slot ds distributor val in if slot_coin slot = c then Some slot else None)
             else None) (rd_created_reward_slots distributor))"

fun reward_slot_in ::
  "('t, 'i) distributor_sdk \<Rightarrow> client \<Rightarrow> 't distributor_constants \<Rightarrow> u64 \<Rightarrow> coin_record list
    \<Rightarrow> (cli_error + reward_slot_value slot option) outcome"
where
  "reward_slot_in ds client constants epoch_start [] = Returned (Inr None)"
| "reward_slot_in ds client constants epoch_start (coin_record # records) =
     (let parent = parent_coin_info (cr_coin coin_record);
          rest = reward_slot_in ds client constants epoch_start records
      in attempt (Returned (required
             (cl_puzzle_and_solution client parent (Some (cr_confirmed_block_index coin_record)))
             (CoinNotSpent parent))) (\<lambda>distributor_spent.
         attempt (Returned (map_err Driver (ds_from_spend ds distributor_spent constants))) (\<lambda>parsed.
           case parsed of
             None \<Rightarrow>
               attempt (eve_reward_slot ds constants epoch_start distributor_spent) (\<lambda>slot.
                 if slot_coin slot \<noteq> cr_coin coin_record then rest else Returned (Inr (Some slot)))
           | Some distributor \<Rightarrow>
               (case created_reward_slot ds constants epoch_start (cr_coin coin_record) distributor of
                  Some slot \<Rightarrow> Returned (Inr (Some slot))
                | None \<Rightarrow> rest))))"

definition reward_slot_at ::
  "('t, 'i) distributor_sdk \<Rightarrow> client \<Rightarrow> 't distributor_constants \<Rightarrow> u64 \<Rightarrow> (cli_error + reward_slot_value slot option) outcome"
where
  "reward_slot_at ds client constants epoch_start =
     attempt (Returned (required (cl_coin_records_by_hint client (ds_epoch_hint ds epoch_start))
                          (Driver (DriverOther ''missing hint''))))
       (reward_slot_in ds client constants epoch_start)"

text \<open>
  The epochs backwards, with no lower bound: \<open>epoch_start -= epoch_seconds\<close> panics below 0 with overflow
  checks and wraps without them.
\<close>

partial_function (option) find_reward_slot ::
  "bool \<Rightarrow> ('t, 'i) distributor_sdk \<Rightarrow> client \<Rightarrow> 't distributor_constants \<Rightarrow> u64
    \<Rightarrow> (cli_error + reward_slot_value slot) outcome option"
where
  "find_reward_slot overflow_checks ds client constants epoch_start =
     (case reward_slot_at ds client constants epoch_start of
        Panicked \<Rightarrow> Some Panicked
      | Returned (Inl e) \<Rightarrow> Some (Returned (Inl e))
      | Returned (Inr (Some slot)) \<Rightarrow> Some (Returned (Inr slot))
      | Returned (Inr None) \<Rightarrow>
          if overflow_checks \<and> epoch_start < rc_epoch_seconds constants then Some Panicked
          else find_reward_slot overflow_checks ds client constants (epoch_start - rc_epoch_seconds constants))"

section \<open>The slots of an address\<close>

text \<open>Both queries collect, of every hinted coin, the slot its parent spend created in it.\<close>

fun slots_in ::
  "('t, 'i) distributor_sdk \<Rightarrow> client \<Rightarrow> 't distributor_constants \<Rightarrow> ('t distributor \<Rightarrow> coin \<Rightarrow> 'v slot option)
    \<Rightarrow> coin_record list \<Rightarrow> cli_error + 'v slot list"
where
  "slots_in ds client constants slot_of [] = Inr []"
| "slots_in ds client constants slot_of (coin_record # records) =
     (let parent = parent_coin_info (cr_coin coin_record)
      in try_result (required (cl_puzzle_and_solution client parent (Some (cr_confirmed_block_index coin_record)))
                       (CoinNotSpent parent)) (\<lambda>distributor_spent.
         try_result (map_err Driver (ds_from_spend ds distributor_spent constants)) (\<lambda>parsed.
         try_result (slots_in ds client constants slot_of records) (\<lambda>slots.
           case parsed of
             None \<Rightarrow> Inr slots
           | Some distributor \<Rightarrow>
               if rc_launcher_id (rd_constants distributor) \<noteq> rc_launcher_id constants then Inr slots
               else Inr (option_list (slot_of distributor (cr_coin coin_record)) @ slots)))))"

definition wanted :: "'v option \<Rightarrow> 'v \<Rightarrow> bool" where
  "wanted filter_value v = (case filter_value of None \<Rightarrow> True | Some w \<Rightarrow> v = w)"

definition commitment_slot_of ::
  "('t, 'i) distributor_sdk \<Rightarrow> bytes32 \<Rightarrow> u64 option \<Rightarrow> u64 option \<Rightarrow> 't distributor \<Rightarrow> coin
    \<Rightarrow> commitment_slot_value slot option"
where
  "commitment_slot_of ds clawback_ph epoch_start rewards distributor c =
     find_map (\<lambda>val.
       if cm_clawback_ph val = clawback_ph \<and> wanted epoch_start (cm_epoch_start val) \<and> wanted rewards (cm_rewards val)
       then (let slot = ds_commitment_slot ds distributor val in if slot_coin slot = c then Some slot else None)
       else None) (rd_created_commitment_slots distributor)"

definition find_commitment_slots ::
  "('t, 'i) distributor_sdk \<Rightarrow> client \<Rightarrow> 't distributor_constants \<Rightarrow> bytes32 \<Rightarrow> u64 option \<Rightarrow> u64 option
    \<Rightarrow> cli_error + commitment_slot_value slot list"
where
  "find_commitment_slots ds client constants clawback_ph epoch_start rewards =
     try_result (required (cl_coin_records_by_hint client clawback_ph) (Driver (DriverOther ''missing hint'')))
       (slots_in ds client constants (commitment_slot_of ds clawback_ph epoch_start rewards))"

definition entry_slot_of ::
  "('t, 'i) distributor_sdk \<Rightarrow> bytes32 \<Rightarrow> u128 option \<Rightarrow> u64 option \<Rightarrow> 't distributor \<Rightarrow> coin \<Rightarrow> entry_slot_value slot option"
where
  "entry_slot_of ds payout_puzzle_hash initial_cumulative_payout shares distributor c =
     find_map (\<lambda>val.
       if wanted initial_cumulative_payout (ev_initial_cumulative_payout val) \<and> wanted shares (ev_shares val) \<and>
          ev_payout_puzzle_hash val = payout_puzzle_hash
       then (let slot = ds_entry_slot ds distributor val in if slot_coin slot = c then Some slot else None)
       else None) (rd_created_entry_slots distributor)"

definition find_entry_slots ::
  "('t, 'i) distributor_sdk \<Rightarrow> client \<Rightarrow> 't distributor_constants \<Rightarrow> bytes32 \<Rightarrow> u128 option \<Rightarrow> u64 option
    \<Rightarrow> cli_error + entry_slot_value slot list"
where
  "find_entry_slots ds client constants payout_puzzle_hash initial_cumulative_payout shares =
     try_result (required (cl_coin_records_by_hint client payout_puzzle_hash) (Driver (DriverOther ''missing hint'')))
       (slots_in ds client constants (entry_slot_of ds payout_puzzle_hash initial_cumulative_payout shares))"

end
