(* ===== verification/DistributorCommands.thy ===== *)
theory DistributorCommands
  imports DistributorSync Datastore
begin

text \<open>
  The commands of \<open>reward_distributor/\<close>, each up to what it hands to the SDK's actions and the wallet: whether
  the distributor is synchronized in the same spend and to when, which slots are used, which coins are
  committed, the changes of the locked shares, the proof that an NFT belongs to the collection, the asset
  that is unstaked. The wallet's offer, the prompts, building the actions and pushing are not modelled.
\<close>

text \<open>\<open>RewardDistributorType\<close>\<close>

datatype distributor_type =
    Managed bytes32
  | NftCollection bytes32
  | CuratedNft bytes32 bool
  | CatStake bytes32 "bytes32 option"

section \<open>Time\<close>

text \<open>
  \<open>last_update + 180 < latest\<close> in most commands, \<open>last_update < update_time - 180\<close> in two of them. The time
  the distributor is synchronized to in the same spend, if it is.
\<close>

definition also_sync :: "bool \<Rightarrow> u64 \<Rightarrow> u64 \<Rightarrow> (cli_error + u64 option) outcome" where
  "also_sync overflow_checks last_update latest_timestamp =
     (if overflow_checks \<and> 2 ^ 64 \<le> unat last_update + 180 then Panicked
      else Returned (Inr (if last_update + 180 < latest_timestamp then Some latest_timestamp else None)))"

definition also_sync_sub :: "bool \<Rightarrow> u64 \<Rightarrow> u64 \<Rightarrow> (cli_error + u64 option) outcome" where
  "also_sync_sub overflow_checks last_update update_time =
     (if overflow_checks \<and> update_time < 180 then Panicked
      else Returned (Inr (if last_update < update_time - 180 then Some update_time else None)))"

text \<open>\<open>reward_distributor_sync\<close>: the time asked for, at most the end of the epoch, and later than the last update.\<close>

definition sync_update_time :: "u64 \<Rightarrow> 't distributor \<Rightarrow> cli_error + u64" where
  "sync_update_time wanted_time distributor =
     (let update_time = if wanted_time > rd_epoch_end distributor then rd_epoch_end distributor else wanted_time
      in if update_time \<le> rd_last_update distributor
         then Inl (Custom (''Distributor last updated at '' @ show_nat (unat (rd_last_update distributor)) @
                ''; update time is '' @ show_nat (unat update_time) @ '' (you may need to start a new epoch instead)''))
         else Inr update_time)"

section \<open>Single commands\<close>

text \<open>What most commands parse first; the amounts are XCH (\<open>False\<close>) or CATs (\<open>True\<close>).\<close>

definition launcher_and_fee ::
  "bool \<Rightarrow> ('n, 'z) sdk_scheme \<Rightarrow> string \<Rightarrow> string \<Rightarrow> (cli_error + bytes32 \<times> u64) outcome"
where
  "launcher_and_fee overflow_checks sdk launcher_id_str fee_str =
     attempt (Returned (hex_string_to_bytes32 sdk launcher_id_str)) (\<lambda>launcher_id.
     attempt (parse_amount overflow_checks fee_str False) (\<lambda>fee. Returned (Inr (launcher_id, fee))))"

text \<open>A command over the synchronized distributor; the database is as the synchronization leaves it.\<close>

definition with_distributor ::
  "('n, 'z) sdk_scheme \<Rightarrow> (distributor_type, 'i) distributor_sdk \<Rightarrow> client \<Rightarrow> db
    \<Rightarrow> (cli_error + bytes32 \<times> 'x) outcome
    \<Rightarrow> (bytes32 \<Rightarrow> 'x \<Rightarrow> distributor_type distributor \<Rightarrow> (cli_error + 'a) outcome option)
    \<Rightarrow> (cli_error + 'a) outcome option \<times> db"
where
  "with_distributor sdk ds client db inputs k =
     (case inputs of
        Panicked \<Rightarrow> (Some Panicked, db)
      | Returned (Inl e) \<Rightarrow> (Some (Returned (Inl e)), db)
      | Returned (Inr (launcher_id, x)) \<Rightarrow>
          (case sync_distributor sdk ds client launcher_id db of
             (Inl e, db) \<Rightarrow> (Some (Returned (Inl e)), db)
           | (Inr distributor, db) \<Rightarrow> (k launcher_id x distributor, db)))"

text \<open>
  The clock is read before the synchronization here, and only without an update time; the other commands
  read it after.
\<close>

definition reward_distributor_sync ::
  "bool \<Rightarrow> ('n, 'z) sdk_scheme \<Rightarrow> (distributor_type, 'i) distributor_sdk \<Rightarrow> client \<Rightarrow> string \<Rightarrow> u64 option \<Rightarrow> string
    \<Rightarrow> db \<Rightarrow> (cli_error + u64) outcome option \<times> db"
where
  "reward_distributor_sync overflow_checks sdk ds client launcher_id_str update_time fee_str db =
     (case then_try (Some (launcher_and_fee overflow_checks sdk launcher_id_str fee_str)) (\<lambda>(launcher_id, fee).
             then_try (case update_time of
                         Some t \<Rightarrow> given (Inr t)
                       | None \<Rightarrow> get_last_onchain_timestamp overflow_checks client)
               (\<lambda>update_time. given (Inr (launcher_id, update_time)))) of
        None \<Rightarrow> (None, db)
      | Some inputs \<Rightarrow>
          with_distributor sdk ds client db inputs (\<lambda>_ update_time distributor.
            given (sync_update_time update_time distributor)))"

text \<open>The time the distributor is also synchronized to, and the reward slot of the next epoch.\<close>

definition reward_distributor_new_epoch ::
  "bool \<Rightarrow> ('n, 'z) sdk_scheme \<Rightarrow> (distributor_type, 'i) distributor_sdk \<Rightarrow> client \<Rightarrow> string \<Rightarrow> string \<Rightarrow> db
    \<Rightarrow> (cli_error + u64 option \<times> reward_slot_value slot) outcome option \<times> db"
where
  "reward_distributor_new_epoch overflow_checks sdk ds client launcher_id_str fee_str db =
     with_distributor sdk ds client db (launcher_and_fee overflow_checks sdk launcher_id_str fee_str)
       (\<lambda>_ fee distributor.
         let next_epoch_start = rd_epoch_end distributor;
             sync_to = if rd_last_update distributor < next_epoch_start then Some next_epoch_start else None
         in then_try (find_reward_slot overflow_checks ds client (rd_constants distributor) next_epoch_start)
              (\<lambda>slot. given (Inr (sync_to, slot))))"

definition open_epoch_sync ::
  "bool \<Rightarrow> client \<Rightarrow> 't distributor \<Rightarrow> (cli_error + u64 option) outcome option"
where
  "open_epoch_sync overflow_checks client distributor =
     then_try (get_last_onchain_timestamp overflow_checks client) (\<lambda>latest.
     then_try (given (ensure_epoch_open (rd_epoch_end distributor) latest)) (\<lambda>_.
       Some (also_sync overflow_checks (rd_last_update distributor) latest)))"

text \<open>The rewards are added to the current epoch.\<close>

definition reward_distributor_add_rewards ::
  "bool \<Rightarrow> ('n, 'z) sdk_scheme \<Rightarrow> (distributor_type, 'i) distributor_sdk \<Rightarrow> client \<Rightarrow> string \<Rightarrow> string \<Rightarrow> string \<Rightarrow> db
    \<Rightarrow> (cli_error + u64 option \<times> u64) outcome option \<times> db"
where
  "reward_distributor_add_rewards overflow_checks sdk ds client launcher_id_str reward_amount_str fee_str db =
     with_distributor sdk ds client db
       (attempt (Returned (hex_string_to_bytes32 sdk launcher_id_str)) (\<lambda>launcher_id.
        attempt (parse_amount overflow_checks reward_amount_str True) (\<lambda>reward_amount.
        attempt (parse_amount overflow_checks fee_str False) (\<lambda>fee. Returned (Inr (launcher_id, reward_amount))))))
       (\<lambda>_ reward_amount distributor.
         then_try (open_epoch_sync overflow_checks client distributor) (\<lambda>sync_to.
           given (Inr (sync_to, reward_amount))))"

definition first_entry_slot ::
  "(distributor_type, 'i) distributor_sdk \<Rightarrow> client \<Rightarrow> distributor_type distributor_constants \<Rightarrow> bytes32
    \<Rightarrow> cli_error + entry_slot_value slot option"
where
  "first_entry_slot ds client constants custody =
     try_result (find_entry_slots ds client constants custody None None) (\<lambda>slots.
       Inr (case slots of [] \<Rightarrow> None | slot # _ \<Rightarrow> Some slot))"

text \<open>The first commitment that fits, and the reward slot to withdraw it from.\<close>

definition clawback_slots ::
  "bool \<Rightarrow> (distributor_type, 'i) distributor_sdk \<Rightarrow> client \<Rightarrow> distributor_type distributor_constants
    \<Rightarrow> bytes32 \<Rightarrow> u64 option \<Rightarrow> u64 option \<Rightarrow> (cli_error + commitment_slot_value slot \<times> reward_slot_value slot) outcome option"
where
  "clawback_slots overflow_checks ds client constants clawback_ph epoch_start reward_amount =
     then_try (given (try_result (find_commitment_slots ds client constants clawback_ph epoch_start reward_amount)
         (\<lambda>slots. case slots of [] \<Rightarrow> Inl (SlotNotFound ''Commitment'') | slot # _ \<Rightarrow> Inr slot)))
       (\<lambda>commitment_slot.
     then_try (find_reward_slot overflow_checks ds client constants (cm_epoch_start (slot_value commitment_slot)))
       (\<lambda>reward_slot. given (Inr (commitment_slot, reward_slot))))"

text \<open>
  \<open>commit-rewards\<close> passes the epoch start it is given; \<open>clawback\<close> that of the commitment. Both end with what
  the action is built from.
\<close>

definition reward_distributor_commit_rewards ::
  "bool \<Rightarrow> ('n, 'z) sdk_scheme \<Rightarrow> 'k csv_sdk \<Rightarrow> (distributor_type, 'i) distributor_sdk \<Rightarrow> client \<Rightarrow> (cli_error + sage)
    \<Rightarrow> string \<Rightarrow> string \<Rightarrow> u64 \<Rightarrow> string \<Rightarrow> string \<Rightarrow> db
    \<Rightarrow> (cli_error + reward_slot_value slot \<times> bytes32 \<times> u64) outcome option \<times> db"
where
  "reward_distributor_commit_rewards overflow_checks sdk cv ds client wallet launcher_id_str reward_amount_str
       epoch_start clawback_address fee_str db =
     with_distributor sdk ds client db
       (attempt (Returned (hex_string_to_bytes32 sdk launcher_id_str)) (\<lambda>launcher_id.
        attempt (parse_amount overflow_checks reward_amount_str True) (\<lambda>reward_amount.
        attempt (parse_amount overflow_checks fee_str False) (\<lambda>fee. Returned (Inr (launcher_id, reward_amount))))))
       (\<lambda>_ reward_amount distributor.
         then_try (given wallet) (\<lambda>_.
         then_try (given (ok_or (cv_address_decode cv clawback_address) Address)) (\<lambda>(prefix, clawback_ph).
         then_try (find_reward_slot overflow_checks ds client (rd_constants distributor) epoch_start) (\<lambda>reward_slot.
           given (Inr (reward_slot, clawback_ph, reward_amount))))))"

definition reward_distributor_clawback_rewards ::
  "bool \<Rightarrow> ('n, 'z) sdk_scheme \<Rightarrow> 'k csv_sdk \<Rightarrow> (distributor_type, 'i) distributor_sdk \<Rightarrow> client
    \<Rightarrow> string \<Rightarrow> string \<Rightarrow> u64 option \<Rightarrow> string option \<Rightarrow> string \<Rightarrow> db
    \<Rightarrow> (cli_error + commitment_slot_value slot \<times> reward_slot_value slot) outcome option \<times> db"
where
  "reward_distributor_clawback_rewards overflow_checks sdk cv ds client launcher_id_str clawback_address
       epoch_start reward_amount_str fee_str db =
     with_distributor sdk ds client db
       (attempt (Returned (hex_string_to_bytes32 sdk launcher_id_str)) (\<lambda>launcher_id.
        attempt (case reward_amount_str of
                   None \<Rightarrow> Returned (Inr None)
                 | Some amount_str \<Rightarrow> map_outcome (\<lambda>r. try_result r (\<lambda>a. Inr (Some a)))
                     (parse_amount overflow_checks amount_str True)) (\<lambda>reward_amount.
        attempt (parse_amount overflow_checks fee_str False) (\<lambda>fee. Returned (Inr (launcher_id, reward_amount))))))
       (\<lambda>_ reward_amount distributor.
         then_try (given (ok_or (cv_address_decode cv clawback_address) Address)) (\<lambda>(prefix, clawback_ph).
           clawback_slots overflow_checks ds client (rd_constants distributor) clawback_ph epoch_start reward_amount))"

section \<open>Committing what lies at the deposit address\<close>

text \<open>
  \<open>dc_deposit_hash\<close> is the inner puzzle hash of the deposit address, \<open>dc_clawback_hash\<close> the nonce wrapper's,
  \<open>dc_cat_layer\<close> the asset id and inner puzzle hash of a CAT's puzzle; \<open>dc_singleton_layer\<close> the launcher id and
  inner puzzle hash of a singleton's, where an error is a program that cannot be read and a puzzle that does not
  parse to a singleton, with an error or without, is \<open>None\<close>; \<open>dc_nft_launcher\<close> a parsed NFT's launcher.
\<close>

record 'nft commands_sdk =
  dc_deposit_hash :: "bytes32 \<Rightarrow> bytes32 \<Rightarrow> u64 \<Rightarrow> u64 \<Rightarrow> bytes32"
  dc_clawback_hash :: "bytes32 \<Rightarrow> bytes32 \<Rightarrow> bytes32"
  dc_cat_layer :: "u8 list \<Rightarrow> cli_error + (bytes32 \<times> bytes32) option"
  dc_singleton_layer :: "u8 list \<Rightarrow> cli_error + (bytes32 \<times> bytes32) option"
  dc_nft_launcher :: "'nft \<Rightarrow> bytes32"

text \<open>The unspent coins of the deposit address, in the order of their ids, at most \<open>max_coins\<close>.\<close>

definition available_coins :: "('n, 'z) sdk_scheme \<Rightarrow> bytes32 \<Rightarrow> nat \<Rightarrow> coin_record list \<Rightarrow> coin_record list" where
  "available_coins sdk full_puzzle_hash max_coins records =
     take max_coins (sort_key (\<lambda>r. sdk_coin_id sdk (cr_coin r))
       (filter (\<lambda>r. \<not> cr_spent r \<and> puzzle_hash (cr_coin r) = full_puzzle_hash) records))"

fun checked_total :: "u64 \<Rightarrow> coin_record list \<Rightarrow> cli_error + u64" where
  "checked_total paid [] = Inr paid"
| "checked_total paid (record1 # records) =
     try_result (ok_or (checked_add paid (amount (cr_coin record1))) (Custom ''Available Reward CAT total exceeds u64''))
       (\<lambda>paid. checked_total paid records)"

record committed_cat =
  cc_coin :: coin
  cc_proof :: lineage_proof
  cc_clawback_hash :: bytes32

fun committed_cats ::
  "('n, 'z) sdk_scheme \<Rightarrow> 'nft commands_sdk \<Rightarrow> client \<Rightarrow> bytes32 \<Rightarrow> bytes32 \<Rightarrow> coin_record list
    \<Rightarrow> cli_error + committed_cat list"
where
  "committed_cats sdk dc client reward_asset_id clawback_inner_puzzle_hash [] = Inr []"
| "committed_cats sdk dc client reward_asset_id clawback_inner_puzzle_hash (record1 # records) =
     (let parent = parent_coin_info (cr_coin record1)
      in try_result (required (cl_puzzle_and_solution client parent (Some (cr_confirmed_block_index record1)))
                       (CoinNotSpent parent)) (\<lambda>parent_spend.
         try_result (required (dc_cat_layer dc (puzzle_reveal parent_spend)) (Custom (''Parent of coin '' @ hex32 sdk (sdk_coin_id sdk (cr_coin record1)) @ '' is not a CAT'')))
           (\<lambda>(asset_id, inner_hash).
           if asset_id \<noteq> reward_asset_id then Inl (Custom (''Coin '' @ hex32 sdk (sdk_coin_id sdk (cr_coin record1)) @
                  '' is not the distributor Reward CAT''))
           else
             try_result (committed_cats sdk dc client reward_asset_id clawback_inner_puzzle_hash records) (\<lambda>cats.
               Inr (\<lparr>cc_coin = cr_coin record1,
                   cc_proof = \<lparr>lp_parent_parent_coin_info = parent_coin_info (spend_coin parent_spend),
                     lp_parent_inner_puzzle_hash = inner_hash, lp_parent_amount = amount (spend_coin parent_spend)\<rparr>,
                   cc_clawback_hash = dc_clawback_hash dc (sdk_coin_id sdk (cr_coin record1)) clawback_inner_puzzle_hash\<rparr>
                 # cats)))))"

definition available_rewards ::
  "bool \<Rightarrow> ('n, 'z) sdk_scheme \<Rightarrow> (distributor_type, 'i) distributor_sdk \<Rightarrow> 'nft commands_sdk \<Rightarrow> client
    \<Rightarrow> distributor_type distributor_constants \<Rightarrow> 'i \<Rightarrow> bytes32 \<Rightarrow> nat \<Rightarrow> distributor_type distributor
    \<Rightarrow> (cli_error + reward_slot_value slot \<times> u64 \<times> committed_cat list) outcome option"
where
  "available_rewards overflow_checks sdk ds dc client constants initial_state clawback_inner_puzzle_hash max_coins
       distributor =
     (let p2_inner_puzzle_hash = dc_deposit_hash dc clawback_inner_puzzle_hash (rc_launcher_id constants)
            (ds_initial_epoch_end ds initial_state) (rc_epoch_seconds constants);
          full_puzzle_hash = ds_cat_puzzle_hash ds (rc_reserve_asset_id constants) p2_inner_puzzle_hash
      in then_try (given (cl_coin_records_by_puzzle_hash client full_puzzle_hash False)) (\<lambda>answer.
         let records = available_coins sdk full_puzzle_hash max_coins (unwrap_or answer [])
         in if records = [] then given (Inl (Custom ''No unspent Reward CAT coins are available to commit''))
            else
              then_try (find_reward_slot overflow_checks ds client constants (rd_epoch_end distributor)) (\<lambda>reward_slot.
              then_try (given (checked_total 0 records)) (\<lambda>total_rewards.
              then_try (given (committed_cats sdk dc client (rc_reserve_asset_id constants)
                                 clawback_inner_puzzle_hash records)) (\<lambda>cats.
                given (Inr (reward_slot, total_rewards, cats)))))))"

definition launched_constants ::
  "(distributor_type, 'i) distributor_sdk \<Rightarrow> client \<Rightarrow> bytes32
    \<Rightarrow> cli_error + distributor_type distributor_constants \<times> 'i"
where
  "launched_constants ds client launcher_id =
     try_result (required (cl_coin_record_by_name client launcher_id) (CoinNotFound launcher_id)) (\<lambda>launcher_record.
     try_result (required (cl_puzzle_and_solution client launcher_id (Some (cr_spent_block_index launcher_record)))
                   (CoinNotSpent launcher_id)) (\<lambda>launcher_spend.
     try_result (required (map_err Driver (ds_from_launcher ds (spend_coin launcher_spend) (spend_solution launcher_spend)))
                   (Custom ''Could not parse reward distributor launcher spend'')) (\<lambda>(constants, initial_state, eve_coin).
       Inr (constants, initial_state))))"

definition reward_distributor_commit_available_rewards ::
  "bool \<Rightarrow> ('n, 'z) sdk_scheme \<Rightarrow> 'k csv_sdk \<Rightarrow> (distributor_type, 'i) distributor_sdk \<Rightarrow> 'nft commands_sdk \<Rightarrow> client
    \<Rightarrow> string \<Rightarrow> string option \<Rightarrow> nat \<Rightarrow> string \<Rightarrow> db
    \<Rightarrow> (cli_error + reward_slot_value slot \<times> u64 \<times> committed_cat list) outcome option \<times> db"
where
  "reward_distributor_commit_available_rewards overflow_checks sdk cv ds dc client launcher_id_str clawback_address
       max_coins fee_str db =
     (if max_coins = 0 \<or> 32 < max_coins then (given (Inl (Custom ''max-coins must be between 1 and 32'')), db)
      else
        with_distributor sdk ds client db
          (attempt (Returned (hex_string_to_bytes32 sdk launcher_id_str)) (\<lambda>launcher_id.
           attempt (Returned (case clawback_address of
                      None \<Rightarrow> Inr 0
                    | Some address \<Rightarrow> try_result (ok_or (cv_address_decode cv address) Address) (\<lambda>(prefix, ph). Inr ph))) (\<lambda>clawback_ph.
           attempt (parse_amount overflow_checks fee_str False) (\<lambda>fee.
           attempt (Returned (launched_constants ds client launcher_id)) (\<lambda>(constants, initial_state).
             Returned (Inr (launcher_id, clawback_ph, constants, initial_state)))))))
          (\<lambda>_ (clawback_ph, constants, initial_state) distributor.
            available_rewards overflow_checks sdk ds dc client constants initial_state clawback_ph max_coins distributor))"

section \<open>Paying out\<close>

definition reward_distributor_initiate_payout ::
  "bool \<Rightarrow> ('n, 'z) sdk_scheme \<Rightarrow> 'k csv_sdk \<Rightarrow> ('k \<Rightarrow> bytes32) \<Rightarrow> (distributor_type, 'i) distributor_sdk
    \<Rightarrow> client \<Rightarrow> (cli_error + sage) \<Rightarrow> string \<Rightarrow> string option \<Rightarrow> string \<Rightarrow> db
    \<Rightarrow> (cli_error + u64 option \<times> entry_slot_value slot) outcome option \<times> db"
where
  "reward_distributor_initiate_payout overflow_checks sdk cv standard_hash ds client wallet launcher_id_str
       custody_address fee_str db =
     with_distributor sdk ds client db (launcher_and_fee overflow_checks sdk launcher_id_str fee_str)
       (\<lambda>_ fee distributor.
         then_try (get_last_onchain_timestamp overflow_checks client) (\<lambda>update_time.
         then_try (given (ensure_epoch_open (rd_epoch_end distributor) update_time)) (\<lambda>_.
         then_try (Some (also_sync_sub overflow_checks (rd_last_update distributor) update_time)) (\<lambda>sync_to.
         then_try (given wallet) (\<lambda>sage.
         then_try (resolve_custody overflow_checks sdk cv standard_hash sage custody_address) (\<lambda>custody.
         then_try (given (required (first_entry_slot ds client (rd_constants distributor) (ci_puzzle_hash custody))
                            (SlotNotFound ''Entry''))) (\<lambda>slot.
           given (Inr (sync_to, slot)))))))))"

section \<open>Refreshing the shares of locked NFTs\<close>

text \<open>A delta is a signed 64-bit number, read with \<open>sint\<close>; \<open>i64::try_from\<close> fails from \<open>2 ^ 63\<close> on.\<close>

definition try_i64 :: "u64 \<Rightarrow> cli_error \<Rightarrow> cli_error + u64" where
  "try_i64 x e = (if unat x < 2 ^ 63 then Inr x else Inl e)"

record 'nft share_change =
  sh_nft :: 'nft
  sh_delta :: u64
  sh_new_shares :: u64
  sh_proof :: merkle_proof

fun share_changes ::
  "('nft \<Rightarrow> cli_error + u64 \<times> merkle_proof) \<Rightarrow> ('nft \<times> u64) list \<Rightarrow> cli_error + 'nft share_change list"
where
  "share_changes merkle_entry [] = Inr []"
| "share_changes merkle_entry ((nft, old_shares) # locked_nfts) =
     try_result (merkle_entry nft) (\<lambda>(weight, proof1).
     try_result (try_i64 weight (Custom ''CSV weight is too large'')) (\<lambda>w.
     try_result (try_i64 old_shares (Custom ''Locked share count is too large'')) (\<lambda>old.
     try_result (share_changes merkle_entry locked_nfts) (\<lambda>changes.
       let delta = w - old
       in if delta = 0 then Inr changes
          else Inr (\<lparr>sh_nft = nft, sh_delta = delta, sh_new_shares = weight, sh_proof = proof1\<rparr> # changes)))))"

definition refresh_store :: "distributor_type \<Rightarrow> cli_error + bytes32" where
  "refresh_store t =
     (case t of
        CuratedNft store_launcher_id True \<Rightarrow> Inr store_launcher_id
      | CuratedNft _ False \<Rightarrow> Inl (Custom ''This reward distributor is not refreshable'')
      | _ \<Rightarrow> Inl (Custom ''Refresh is only supported for refreshable curated NFT reward distributors''))"

text \<open>The whitelist of a datastore: the CSV file must have the root the chain has.\<close>

definition whitelist ::
  "('n, 'z) sdk_scheme \<Rightarrow> 't merkle_sdk \<Rightarrow> 'k csv_sdk \<Rightarrow> datastore_parser \<Rightarrow> client \<Rightarrow> csv_file \<Rightarrow> bytes32
    \<Rightarrow> cli_error + datastore_nft_record list"
where
  "whitelist sdk ms cv from_spend client file store_launcher_id =
     try_result (sync_datastore sdk from_spend client store_launcher_id oracle_delegated_puzzles) (\<lambda>datastore.
       load_csv_matching_root sdk ms cv file (ds_root_hash datastore))"

definition reward_distributor_refresh ::
  "bool \<Rightarrow> ('n, 'z) sdk_scheme \<Rightarrow> 't merkle_sdk \<Rightarrow> 'k csv_sdk \<Rightarrow> ('k \<Rightarrow> bytes32) \<Rightarrow> datastore_parser
    \<Rightarrow> (distributor_type, 'i) distributor_sdk \<Rightarrow> 'nft locked_sdk \<Rightarrow> 'nft commands_sdk \<Rightarrow> client \<Rightarrow> (cli_error + sage)
    \<Rightarrow> string \<Rightarrow> csv_file \<Rightarrow> string option \<Rightarrow> string \<Rightarrow> db
    \<Rightarrow> (cli_error + u64 option \<times> entry_slot_value slot \<times> 'nft share_change list) outcome option \<times> db"
where
  "reward_distributor_refresh overflow_checks sdk ms cv standard_hash from_spend ds lk dc client wallet
       launcher_id_str file custody_address fee_str db =
     with_distributor sdk ds client db (launcher_and_fee overflow_checks sdk launcher_id_str fee_str)
       (\<lambda>launcher_id fee distributor.
         then_try (given (refresh_store (rc_type (rd_constants distributor)))) (\<lambda>store_launcher_id.
         then_try (open_epoch_sync overflow_checks client distributor) (\<lambda>sync_to.
         then_try (given (whitelist sdk ms cv from_spend client file store_launcher_id)) (\<lambda>records.
         then_try (given wallet) (\<lambda>sage.
         then_try (resolve_custody overflow_checks sdk cv standard_hash sage custody_address) (\<lambda>custody.
         then_try (given (required (first_entry_slot ds client (rd_constants distributor) (ci_puzzle_hash custody))
                            (SlotNotFound ''Entry''))) (\<lambda>entry_slot.
         then_try (given (find_locked_nfts lk client launcher_id (ci_puzzle_hash custody)
                            (ev_shares (slot_value entry_slot)))) (\<lambda>locked_nfts.
           if locked_nfts = [] then given (Inl (Custom ''No locked NFTs found for refresh at this custody address''))
           else
             then_try (given (share_changes (\<lambda>nft. merkle_proof_for_nft sdk ms records (dc_nft_launcher dc nft))
                                locked_nfts)) (\<lambda>changes.
               if changes = []
               then given (Inl (Custom ''No locked NFTs need refreshing - CSV weights match current locked shares''))
               else given (Inr (sync_to, entry_slot, changes)))))))))))"

section \<open>Staking\<close>

text \<open>
  The proof that an NFT belongs to the collection: its ancestors from the launcher up to the first singleton,
  which must be the collection's DID. A spend whose puzzle does not parse to a singleton is passed over, and
  so is a coin of an even amount.
\<close>

definition did_of ::
  "'nft commands_sdk \<Rightarrow> client \<Rightarrow> bytes32 \<Rightarrow> bytes32 \<Rightarrow> coin \<Rightarrow> u32 \<Rightarrow> cli_error + lineage_proof option"
where
  "did_of dc client collection_did_launcher_id coin_id c spent_block_index =
     (if amount c mod 2 \<noteq> 1 then Inr None
      else
        try_result (required (cl_puzzle_and_solution client coin_id (Some spent_block_index)) (CoinNotSpent coin_id))
          (\<lambda>coin_spend.
        try_result (dc_singleton_layer dc (puzzle_reveal coin_spend)) (\<lambda>layer.
          case layer of
            Some (launcher_id, inner_hash) \<Rightarrow>
              if launcher_id \<noteq> collection_did_launcher_id
              then Inl (Custom (''The DID launcher ID does not match the reward distributor'' @ [CHR 0x27] @
                     ''s configuration - '' @
                     ''does the NFT belong to the right collection?''))
              else Inr (Some \<lparr>lp_parent_parent_coin_info = parent_coin_info c,
                     lp_parent_inner_puzzle_hash = inner_hash, lp_parent_amount = amount c\<rparr>)
          | None \<Rightarrow> Inr None)))"

text \<open>The intermediary coins as puzzle hash and amount, the one nearest to the DID first.\<close>

partial_function (option) nft_launcher_proof_from ::
  "'nft commands_sdk \<Rightarrow> client \<Rightarrow> bytes32 \<Rightarrow> bytes32 \<Rightarrow> (bytes32 \<times> u64) list
    \<Rightarrow> (cli_error + lineage_proof \<times> (bytes32 \<times> u64) list) option"
where
  "nft_launcher_proof_from dc client collection_did_launcher_id latest_coin_id coins =
     (case required (cl_coin_record_by_name client latest_coin_id) (CoinNotFound latest_coin_id) of
        Inl e \<Rightarrow> Some (Inl e)
      | Inr coin_record \<Rightarrow>
          (case did_of dc client collection_did_launcher_id latest_coin_id (cr_coin coin_record)
                  (cr_spent_block_index coin_record) of
             Inl e \<Rightarrow> Some (Inl e)
           | Inr (Some did_proof) \<Rightarrow> Some (Inr (did_proof, coins))
           | Inr None \<Rightarrow>
               nft_launcher_proof_from dc client collection_did_launcher_id (parent_coin_info (cr_coin coin_record))
                 ((puzzle_hash (cr_coin coin_record), amount (cr_coin coin_record)) # coins)))"

definition nft_launcher_proof ::
  "'nft commands_sdk \<Rightarrow> client \<Rightarrow> bytes32 \<Rightarrow> bytes32 \<Rightarrow> (cli_error + lineage_proof \<times> (bytes32 \<times> u64) list) option"
where
  "nft_launcher_proof dc client collection_did_launcher_id nft_launcher_id =
     nft_launcher_proof_from dc client collection_did_launcher_id nft_launcher_id []"

datatype stake_asset =
    StakeCollectionNft bytes32 lineage_proof "(bytes32 \<times> u64) list"
  | StakeCuratedNft bytes32 u64 merkle_proof
  | StakeCat bytes32 u64

record stake_options =
  so_launcher_id_str :: string
  so_nft_id_str :: "string option"
  so_csv :: "csv_file option"
  so_stake_amount_str :: "string option"
  so_custody_address :: "string option"
  so_fee_str :: string

definition stake_asset_of ::
  "bool \<Rightarrow> ('n, 'z) sdk_scheme \<Rightarrow> 't merkle_sdk \<Rightarrow> 'k csv_sdk \<Rightarrow> datastore_parser \<Rightarrow> 'nft commands_sdk \<Rightarrow> client
    \<Rightarrow> stake_options \<Rightarrow> distributor_type \<Rightarrow> (cli_error + stake_asset) outcome option"
where
  "stake_asset_of overflow_checks sdk ms cv from_spend dc client opts distributor_type =
     (case distributor_type of
        NftCollection collection_did_launcher_id \<Rightarrow>
          then_try (given (ok_or (so_nft_id_str opts)
              (Custom ''NFT id (--nft) is required for NFT collection distributors''))) (\<lambda>nft_id_str.
          then_try (given (ok_or (cv_address_decode cv nft_id_str) Address)) (\<lambda>(prefix, nft_launcher_id).
          then_try (map_option Returned (nft_launcher_proof dc client collection_did_launcher_id nft_launcher_id))
            (\<lambda>(did_proof, coins). given (Inr (StakeCollectionNft nft_launcher_id did_proof coins)))))
      | CuratedNft store_launcher_id _ \<Rightarrow>
          then_try (given (ok_or (so_nft_id_str opts)
              (Custom ''NFT id (--nft) is required for curated NFT distributors''))) (\<lambda>nft_id_str.
          then_try (given (ok_or (so_csv opts)
              (Custom ''Whitelist CSV (--csv) is required for curated NFT distributors''))) (\<lambda>file.
          then_try (given (ok_or (cv_address_decode cv nft_id_str) Address)) (\<lambda>(prefix, nft_launcher_id).
          then_try (given (whitelist sdk ms cv from_spend client file store_launcher_id)) (\<lambda>records.
          then_try (given (merkle_proof_for_nft sdk ms records nft_launcher_id)) (\<lambda>(weight, proof1).
            given (Inr (StakeCuratedNft nft_launcher_id weight proof1)))))))
      | CatStake asset_id _ \<Rightarrow>
          then_try (given (ok_or (so_stake_amount_str opts)
              (Custom ''Stake amount (--stake-amount) is required for CAT distributors''))) (\<lambda>amount_str.
          then_try (Some (parse_amount overflow_checks amount_str True)) (\<lambda>stake_amount.
            given (Inr (StakeCat asset_id stake_amount))))
      | Managed _ \<Rightarrow> Some Panicked)"

definition is_managed :: "distributor_type \<Rightarrow> bool" where
  "is_managed t = (case t of Managed _ \<Rightarrow> True | _ \<Rightarrow> False)"

definition reward_distributor_stake ::
  "bool \<Rightarrow> ('n, 'z) sdk_scheme \<Rightarrow> 't merkle_sdk \<Rightarrow> 'k csv_sdk \<Rightarrow> ('k \<Rightarrow> bytes32) \<Rightarrow> datastore_parser
    \<Rightarrow> (distributor_type, 'i) distributor_sdk \<Rightarrow> 'nft commands_sdk \<Rightarrow> client \<Rightarrow> (cli_error + sage)
    \<Rightarrow> stake_options \<Rightarrow> db
    \<Rightarrow> (cli_error + u64 option \<times> entry_slot_value slot option \<times> stake_asset) outcome option \<times> db"
where
  "reward_distributor_stake overflow_checks sdk ms cv standard_hash from_spend ds dc client wallet opts db =
     with_distributor sdk ds client db (launcher_and_fee overflow_checks sdk (so_launcher_id_str opts) (so_fee_str opts))
       (\<lambda>_ fee distributor.
         let distributor_type = rc_type (rd_constants distributor)
         in if is_managed distributor_type
            then given (Inl (Custom ''Managed distributors use sign-entry-update / broadcast-entry-update, not stake''))
            else
              then_try (open_epoch_sync overflow_checks client distributor) (\<lambda>sync_to.
              then_try (given wallet) (\<lambda>sage.
              then_try (resolve_custody overflow_checks sdk cv standard_hash sage (so_custody_address opts)) (\<lambda>custody.
              then_try (given (first_entry_slot ds client (rd_constants distributor) (ci_puzzle_hash custody)))
                (\<lambda>existing_slot.
              then_try (stake_asset_of overflow_checks sdk ms cv from_spend dc client opts distributor_type) (\<lambda>asset.
                given (Inr (sync_to, existing_slot, asset))))))))"

section \<open>Unstaking\<close>

text \<open>The total printed, a \<open>u64\<close> sum; the answer of the prompt when there are several; \<open>[0]\<close> panics on none.\<close>

fun shares_total :: "bool \<Rightarrow> u64 \<Rightarrow> u64 list \<Rightarrow> (cli_error + u64) outcome" where
  "shares_total overflow_checks summed [] = Returned (Inr summed)"
| "shares_total overflow_checks summed (shares # rest) =
     (if overflow_checks \<and> 2 ^ 64 \<le> unat summed + unat shares then Panicked
      else shares_total overflow_checks (summed + shares) rest)"

definition chosen ::
  "(cli_error + string) \<Rightarrow> cli_error \<Rightarrow> ('asset \<times> u64) list \<Rightarrow> (cli_error + 'asset \<times> u64) outcome"
where
  "chosen answer invalid_index locked =
     attempt (unwrap (nth_checked locked 0)) (\<lambda>first.
       if length locked > 1
       then attempt (Returned answer) (\<lambda>typed.
            attempt (Returned (ok_or (parse_u64 typed) ParseInt)) (\<lambda>i.
              if length locked \<le> unat i then Returned (Inl invalid_index) else unwrap (nth_checked locked (unat i))))
       else Returned (Inr first))"

definition unstaked_cat ::
  "bool \<Rightarrow> 'nft locked_sdk \<Rightarrow> client \<Rightarrow> (cli_error + string) \<Rightarrow> bytes32 \<Rightarrow> bytes32 \<Rightarrow> bytes32
    \<Rightarrow> (cli_error + coin \<times> u64) outcome"
where
  "unstaked_cat overflow_checks lk client answer launcher_id custody asset_id =
     attempt (Returned (find_locked_cats lk client launcher_id custody asset_id)) (\<lambda>locked_cats.
     attempt (shares_total overflow_checks 0 (map snd locked_cats)) (\<lambda>found.
       chosen answer (Custom ''Invalid CAT index'') locked_cats))"

definition unstaked_nft ::
  "'nft locked_sdk \<Rightarrow> client \<Rightarrow> (cli_error + string) \<Rightarrow> bytes32 \<Rightarrow> bytes32 \<Rightarrow> u64 \<Rightarrow> (cli_error + 'nft \<times> u64) outcome"
where
  "unstaked_nft lk client answer launcher_id custody entry_shares =
     attempt (Returned (find_locked_nfts lk client launcher_id custody entry_shares)) (\<lambda>locked_nfts.
       if locked_nfts = []
       then Returned (Inl (Custom ''No locked NFTs found - you may be using the wrong custody address/puzzle hash''))
       else chosen answer (Custom ''Invalid NFT index'') locked_nfts)"

datatype 'nft locked_asset = LockedNft 'nft u64 | LockedCat coin u64

definition locked_asset_of ::
  "bool \<Rightarrow> 'nft locked_sdk \<Rightarrow> client \<Rightarrow> (cli_error + string) \<Rightarrow> bytes32 \<Rightarrow> bytes32 \<Rightarrow> u64 \<Rightarrow> distributor_type
    \<Rightarrow> (cli_error + 'nft locked_asset) outcome"
where
  "locked_asset_of overflow_checks lk client answer launcher_id custody entry_shares distributor_type =
     (case distributor_type of
        CatStake asset_id _ \<Rightarrow>
          attempt (unstaked_cat overflow_checks lk client answer launcher_id custody asset_id) (\<lambda>(cat, shares).
            Returned (Inr (LockedCat cat shares)))
      | Managed _ \<Rightarrow> Panicked
      | _ \<Rightarrow>
          attempt (unstaked_nft lk client answer launcher_id custody entry_shares) (\<lambda>(nft, shares).
            Returned (Inr (LockedNft nft shares))))"

definition reward_distributor_unstake ::
  "bool \<Rightarrow> ('n, 'z) sdk_scheme \<Rightarrow> 'k csv_sdk \<Rightarrow> ('k \<Rightarrow> bytes32) \<Rightarrow> (distributor_type, 'i) distributor_sdk
    \<Rightarrow> 'nft locked_sdk \<Rightarrow> client \<Rightarrow> (cli_error + sage) \<Rightarrow> (cli_error + string) \<Rightarrow> string \<Rightarrow> string option \<Rightarrow> string \<Rightarrow> db
    \<Rightarrow> (cli_error + u64 option \<times> entry_slot_value slot \<times> 'nft locked_asset) outcome option \<times> db"
where
  "reward_distributor_unstake overflow_checks sdk cv standard_hash ds lk client wallet answer launcher_id_str
       custody_address fee_str db =
     with_distributor sdk ds client db (launcher_and_fee overflow_checks sdk launcher_id_str fee_str)
       (\<lambda>launcher_id fee distributor.
         let distributor_type = rc_type (rd_constants distributor)
         in if is_managed distributor_type
            then given (Inl (Custom ''Managed distributors use remove-entry / broadcast-entry-update, not unstake''))
            else
              then_try (open_epoch_sync overflow_checks client distributor) (\<lambda>sync_to.
              then_try (given wallet) (\<lambda>sage.
              then_try (resolve_custody overflow_checks sdk cv standard_hash sage custody_address) (\<lambda>custody.
              then_try (given (required (first_entry_slot ds client (rd_constants distributor) (ci_puzzle_hash custody))
                                 (SlotNotFound ''Entry''))) (\<lambda>entry_slot.
              then_try (Some (locked_asset_of overflow_checks lk client answer launcher_id (ci_puzzle_hash custody)
                                (ev_shares (slot_value entry_slot)) distributor_type)) (\<lambda>asset.
                given (Inr (sync_to, entry_slot, asset))))))))"

section \<open>Managed distributors\<close>

text \<open>
  Both entry commands read the constants of the database only, and the manager's vault from them. The
  broadcast looks at the epoch's end only when it has to synchronize.
\<close>

definition entry_update_manager ::
  "(distributor_type, 'i) distributor_sdk \<Rightarrow> bytes32 \<Rightarrow> db \<Rightarrow> cli_error + bytes32"
where
  "entry_update_manager ds launcher_id db =
     try_result (required (get_reward_distributor_configuration (ds_constants_codec ds) launcher_id db)
         (Custom ''Could not get reward distributor constants - try running another command to sync it first''))
       (\<lambda>constants.
       case rc_type constants of
         Managed manager_singleton_launcher_id \<Rightarrow> Inr manager_singleton_launcher_id
       | _ \<Rightarrow> Inl (Custom ''Entry updates require a managed reward distributor''))"

definition entry_update_sync :: "bool \<Rightarrow> 't distributor \<Rightarrow> u64 \<Rightarrow> (cli_error + u64 option) outcome" where
  "entry_update_sync overflow_checks distributor update_time =
     attempt (also_sync_sub overflow_checks (rd_last_update distributor) update_time) (\<lambda>sync_to.
       if sync_to \<noteq> None \<and> update_time > rd_epoch_end distributor
       then Returned (Inl (Custom ''You need to start a new epoch before you can broadcast an entry update''))
       else Returned (Inr sync_to))"

section \<open>Launching\<close>

definition launch_type ::
  "('n, 'z) sdk_scheme \<Rightarrow> 'k csv_sdk \<Rightarrow> string option \<Rightarrow> string option \<Rightarrow> string option \<Rightarrow> bool \<Rightarrow> string option
    \<Rightarrow> cli_error + distributor_type"
where
  "launch_type sdk cv manager_launcher_id_str collection_did_str store_launcher_id_str refreshable stake_asset_id_str =
     (case manager_launcher_id_str of
        Some s \<Rightarrow> try_result (hex_string_to_bytes32 sdk s) (\<lambda>manager. Inr (Managed manager))
      | None \<Rightarrow>
     (case collection_did_str of
        Some s \<Rightarrow> try_result (ok_or (cv_address_decode cv s) Address) (\<lambda>(prefix, did). Inr (NftCollection did))
      | None \<Rightarrow>
     (case store_launcher_id_str of
        Some s \<Rightarrow> try_result (hex_string_to_bytes32 sdk s) (\<lambda>store. Inr (CuratedNft store refreshable))
      | None \<Rightarrow>
     (case stake_asset_id_str of
        Some s \<Rightarrow> try_result (hex_string_to_bytes32 sdk s) (\<lambda>asset. Inr (CatStake asset None))
      | None \<Rightarrow>
          Inl (Custom ''One of manager_launcher_id, collection_did, store_launcher_id, or stake_asset_id must be provided'')))))"

definition fee_check :: "u64 \<Rightarrow> u64 \<Rightarrow> cli_error + unit" where
  "fee_check fee_bps withdrawal_share_bps =
     (if fee_bps > 2500 \<or> withdrawal_share_bps < 7500 then Inl (Custom ''Really?! That big of a fee?!'') else Inr ())"

text \<open>What a launch takes from its arguments: the type, the fee payout address, the reserve asset, the fee and the payout threshold.\<close>

record distributor_launch_options =
  dl_manager_launcher_id_str :: "string option"
  dl_collection_did_str :: "string option"
  dl_store_launcher_id_str :: "string option"
  dl_refreshable :: bool
  dl_stake_asset_id_str :: "string option"
  dl_fee_payout_address_str :: string
  dl_reserve_asset_id_str :: string
  dl_fee_str :: string
  dl_payout_threshold_str :: string
  dl_fee_bps :: u64
  dl_withdrawal_share_bps :: u64

definition distributor_launch_terms ::
  "bool \<Rightarrow> ('n, 'z) sdk_scheme \<Rightarrow> 'k csv_sdk \<Rightarrow> distributor_launch_options
    \<Rightarrow> (cli_error + distributor_type \<times> bytes32 \<times> bytes32 \<times> u64 \<times> u64) outcome"
where
  "distributor_launch_terms overflow_checks sdk cv opts =
     attempt (Returned (launch_type sdk cv (dl_manager_launcher_id_str opts) (dl_collection_did_str opts)
       (dl_store_launcher_id_str opts) (dl_refreshable opts) (dl_stake_asset_id_str opts))) (\<lambda>distributor_type.
     attempt (Returned (ok_or (cv_address_decode cv (dl_fee_payout_address_str opts)) Address)) (\<lambda>(prefix, fee_payout_puzzle_hash).
     attempt (Returned (hex_string_to_bytes32 sdk (dl_reserve_asset_id_str opts))) (\<lambda>reserve_asset_id.
     attempt (parse_amount overflow_checks (dl_fee_str opts) False) (\<lambda>fee.
     attempt (parse_amount overflow_checks (dl_payout_threshold_str opts) True) (\<lambda>payout_threshold.
     attempt (Returned (fee_check (dl_fee_bps opts) (dl_withdrawal_share_bps opts))) (\<lambda>_.
       Returned (Inr (distributor_type, fee_payout_puzzle_hash, reserve_asset_id, fee, payout_threshold))))))))"

end
