(* ===== verification/DistributorFacts.thy ===== *)
theory DistributorFacts
  imports DistributorSync
begin

text \<open>
  What the searches of \<open>reward_distributor/sync_distributor.rs\<close> find: the reward slot of the latest epoch that
  has one, whether looking for it ends, and the commitment and entry slots of an address.
\<close>

section \<open>One epoch\<close>

text \<open>A reward slot of the epoch sits in the coin of one of its hinted records.\<close>

definition reward_slot_from ::
  "('t, 'i) distributor_sdk \<Rightarrow> client \<Rightarrow> 't distributor_constants \<Rightarrow> u64 \<Rightarrow> coin_record \<Rightarrow> reward_slot_value slot \<Rightarrow> bool"
where
  "reward_slot_from ds client constants epoch_start record slot \<longleftrightarrow>
     slot_coin slot = cr_coin record \<and>
     (\<exists>spent. cl_puzzle_and_solution client (parent_coin_info (cr_coin record)) (Some (cr_confirmed_block_index record))
          = Inr (Some spent) \<and>
        (ds_from_spend ds spent constants = Inr None \<and> eve_reward_slot ds constants epoch_start spent = Returned (Inr slot) \<or>
         (\<exists>distributor val. ds_from_spend ds spent constants = Inr (Some distributor) \<and>
            rc_launcher_id (rd_constants distributor) = rc_launcher_id constants \<and>
            val \<in> set (rd_created_reward_slots distributor) \<and> rw_epoch_start val = epoch_start \<and>
            slot = ds_reward_slot ds distributor val)))"

lemma created_reward_slot_Some:
  assumes "created_reward_slot ds constants epoch_start c distributor = Some slot"
  shows "slot_coin slot = c \<and> rc_launcher_id (rd_constants distributor) = rc_launcher_id constants \<and>
    (\<exists>val \<in> set (rd_created_reward_slots distributor). rw_epoch_start val = epoch_start \<and>
      slot = ds_reward_slot ds distributor val)"
  using assms
  by (auto simp: created_reward_slot_def Let_def split: if_splits dest!: find_map_Some)

lemma reward_slot_in_Some:
  "reward_slot_in ds client constants epoch_start records = Returned (Inr (Some slot)) \<Longrightarrow>
     \<exists>record \<in> set records. reward_slot_from ds client constants epoch_start record slot"
proof (induction records)
  case (Cons coin_record records)
  then show ?case
    by (fastforce simp: Let_def result_simps required_def reward_slot_from_def
        dest: created_reward_slot_Some split: option.splits if_splits)
qed simp

section \<open>Epoch after epoch\<close>

text \<open>The search as a walk through the finitely many epochs not before time 0.\<close>

fun search_epochs :: "(u64 \<Rightarrow> (cli_error + 'a option) outcome) \<Rightarrow> u64 list \<Rightarrow> (cli_error + 'a) outcome" where
  "search_epochs slot_at [] = Panicked"
| "search_epochs slot_at (e # es) =
     attempt (slot_at e) (\<lambda>found. case found of Some slot \<Rightarrow> Returned (Inr slot) | None \<Rightarrow> search_epochs slot_at es)"

definition epochs_back :: "u64 \<Rightarrow> u64 \<Rightarrow> u64 list" where
  "epochs_back start seconds = map (\<lambda>j. start - of_nat j * seconds) [0..<Suc (unat start div unat seconds)]"

lemma epochs_back_first: "start < seconds \<Longrightarrow> epochs_back start seconds = [start]"
  by (simp add: epochs_back_def word_less_nat_alt)

lemma epochs_back_next:
  assumes "seconds \<le> start" and "seconds \<noteq> 0"
  shows "epochs_back start seconds = start # epochs_back (start - seconds) seconds"
proof -
  have "0 < unat seconds" using assms(2) by (simp add: unat_gt_0)
  moreover have "unat (start - seconds) = unat start - unat seconds" using assms(1) by (rule unat_sub)
  ultimately have "unat start div unat seconds = Suc (unat (start - seconds) div unat seconds)"
    using assms(1) by (simp add: word_le_nat_alt le_div_geq)
  then show ?thesis
    by (simp add: epochs_back_def upt_conv_Cons map_Suc_upt [symmetric] algebra_simps comp_def del: upt_Suc)
qed

lemma find_reward_slot_epochs:
  assumes "rc_epoch_seconds constants \<noteq> 0"
  shows "find_reward_slot True ds client constants start =
    Some (search_epochs (reward_slot_at ds client constants) (epochs_back start (rc_epoch_seconds constants)))"
proof (induction "unat start" arbitrary: start rule: less_induct)
  case less
  let ?seconds = "rc_epoch_seconds constants"
  show ?case
  proof (cases "start < ?seconds")
    case True
    then show ?thesis
      by (subst find_reward_slot.simps)
        (auto simp: epochs_back_first split: outcome.split sum.split option.split)
  next
    case False
    then have le: "?seconds \<le> start" by simp
    have "0 < unat ?seconds" using assms by (simp add: unat_gt_0)
    with le have "unat (start - ?seconds) < unat start"
      by (simp add: unat_sub [OF le] word_le_nat_alt)
    note IH = less [OF this]
    show ?thesis
      using False by (subst find_reward_slot.simps)
        (auto simp: epochs_back_next [OF le assms] IH split: outcome.split sum.split option.split)
  qed
qed

lemma search_epochs_found:
  "search_epochs slot_at es = Returned (Inr slot) \<longleftrightarrow>
     (\<exists>j < length es. slot_at (es ! j) = Returned (Inr (Some slot)) \<and> (\<forall>i < j. slot_at (es ! i) = Returned (Inr None)))"
proof (induction es)
  case (Cons e es)
  show ?case
    by (auto simp: result_simps Cons.IH Ex_less_Suc2 All_less_Suc2 split: option.splits)
qed simp

lemma epochs_back_nth [simp]:
  "length (epochs_back start seconds) = Suc (unat start div unat seconds)"
  "j \<le> unat start div unat seconds \<Longrightarrow> epochs_back start seconds ! j = start - of_nat j * seconds"
  by (simp_all add: epochs_back_def del: upt_Suc)

lemma reward_slot_at_Some:
  assumes "reward_slot_at ds client constants epoch_start = Returned (Inr (Some slot))"
  shows "\<exists>records record. cl_coin_records_by_hint client (ds_epoch_hint ds epoch_start) = Inr (Some records) \<and>
    record \<in> set records \<and> reward_slot_from ds client constants epoch_start record slot"
  using assms reward_slot_in_Some by (fastforce simp: reward_slot_at_def result_simps required_def)

section \<open>The reward slot found\<close>

text \<open>The \<open>j\<close>-th epoch before the one asked for, and how many are not before time 0.\<close>

definition epoch_before :: "u64 \<Rightarrow> 't distributor_constants \<Rightarrow> nat \<Rightarrow> u64" where
  "epoch_before start constants j = start - of_nat j * rc_epoch_seconds constants"

definition epochs_until_zero :: "u64 \<Rightarrow> 't distributor_constants \<Rightarrow> nat" where
  "epochs_until_zero start constants = unat start div unat (rc_epoch_seconds constants)"

text \<open>
  C18. With overflow checks looking for a reward slot always ends. It finds a slot exactly when one of the epochs
  not before time 0, counted back from the one asked for, has one: the slot of the latest such epoch, which
  lies in an unspent coin hinted with that epoch, created as a reward slot of the epoch by the distributor (or,
  as the empty first slot, by its eve spend). When no epoch has one the subtraction panics.
\<close>

theorem reward_slot_of_latest_epoch:
  assumes "rc_epoch_seconds constants \<noteq> 0"
  shows "\<exists>r. find_reward_slot True ds client constants start = Some r \<and>
    (\<forall>slot. r = Returned (Inr slot) \<longleftrightarrow> (\<exists>j \<le> epochs_until_zero start constants.
       reward_slot_at ds client constants (epoch_before start constants j) = Returned (Inr (Some slot)) \<and>
       (\<forall>i < j. reward_slot_at ds client constants (epoch_before start constants i) = Returned (Inr None)))) \<and>
    (\<forall>slot. r = Returned (Inr slot) \<longrightarrow> (\<exists>j \<le> epochs_until_zero start constants. \<exists>records record.
       cl_coin_records_by_hint client (ds_epoch_hint ds (epoch_before start constants j)) = Inr (Some records) \<and>
       record \<in> set records \<and>
       reward_slot_from ds client constants (epoch_before start constants j) record slot)) \<and>
    ((\<forall>j \<le> epochs_until_zero start constants.
        reward_slot_at ds client constants (epoch_before start constants j) = Returned (Inr None)) \<longrightarrow> r = Panicked)"
proof -
  let ?at = "\<lambda>j. reward_slot_at ds client constants (epoch_before start constants j)"
  let ?es = "epochs_back start (rc_epoch_seconds constants)"
  let ?r = "search_epochs (reward_slot_at ds client constants) ?es"
  have found: "?r = Returned (Inr slot) \<longleftrightarrow> (\<exists>j \<le> epochs_until_zero start constants.
      ?at j = Returned (Inr (Some slot)) \<and> (\<forall>i < j. ?at i = Returned (Inr None)))" for slot
    unfolding search_epochs_found epoch_before_def epochs_until_zero_def
    by (auto simp: less_Suc_eq_le)
  have panics: "?r = Panicked" if "\<forall>j \<le> epochs_until_zero start constants. ?at j = Returned (Inr None)"
  proof -
    have "search_epochs slot_at es = Panicked" if "\<forall>e \<in> set es. slot_at e = Returned (Inr None)"
      for es and slot_at :: "u64 \<Rightarrow> (cli_error + reward_slot_value slot option) outcome"
      using that by (induction es) simp_all
    with that show ?thesis
      by (auto simp: epochs_back_def epoch_before_def epochs_until_zero_def less_Suc_eq_le simp del: upt_Suc)
  qed
  have from_record: "\<exists>j \<le> epochs_until_zero start constants. \<exists>records record.
       cl_coin_records_by_hint client (ds_epoch_hint ds (epoch_before start constants j)) = Inr (Some records) \<and>
       record \<in> set records \<and> reward_slot_from ds client constants (epoch_before start constants j) record slot"
    if "?r = Returned (Inr slot)" for slot
    using that reward_slot_at_Some [where ds = ds and client = client and constants = constants and slot = slot]
    unfolding found by blast
  show ?thesis
    by (rule exI [of _ ?r], intro conjI allI impI found find_reward_slot_epochs [OF assms])
      (use from_record panics in blast)+
qed

definition example_constants :: "unit distributor_constants" where
  "example_constants = \<lparr>rc_launcher_id = 1, rc_reserve_asset_id = 8, rc_epoch_seconds = 10, rc_type = ()\<rparr>"

definition example_reward_value :: "u64 \<Rightarrow> reward_slot_value" where
  "example_reward_value e =
     \<lparr>rw_counter = 0, rw_epoch_start = e, rw_next_epoch_initialized = False, rw_rewards = 0\<rparr>"

definition example_distributor :: "unit distributor" where
  "example_distributor =
     \<lparr>rd_coin = example_tip_coin, rd_constants = example_constants, rd_last_update = 20, rd_epoch_end = 30,
      rd_created_reward_slots = [example_reward_value 15], rd_created_commitment_slots = [],
      rd_created_entry_slots =
        [\<lparr>ev_payout_puzzle_hash = 5, ev_initial_cumulative_payout = 0, ev_shares = 2\<rparr>]\<rparr>"

definition example_slot :: "'v \<Rightarrow> 'v slot" where
  "example_slot v = \<lparr>slot_coin = example_tip_coin,
     slot_proof = \<lparr>lp_parent_parent_coin_info = 0, lp_parent_inner_puzzle_hash = 0, lp_parent_amount = 1\<rparr>,
     slot_launcher_id = 1, slot_nonce = 1, slot_value = v, slot_value_hash = 0\<rparr>"

text \<open>A spend with an empty solution is a wallet's, any other one the distributor's; a puzzle's first byte tells singletons.\<close>

definition example_distributor_sdk :: "(unit, unit) distributor_sdk" where
  "example_distributor_sdk =
     \<lparr>ds_from_parent_spend = (\<lambda>_ _. Inr (Some example_distributor)),
      ds_from_spend = (\<lambda>cs _. Inr (if spend_solution cs = [] then None else Some example_distributor)),
      ds_from_mempool_item = (\<lambda>_ _. Inr None),
      ds_from_launcher = (\<lambda>_ _. Inr None), ds_from_eve = (\<lambda>_ _ _ _ _. Inr None), ds_initial_epoch_end = (\<lambda>_. 30),
      ds_epoch_hint = (\<lambda>e. ucast e), ds_reserve_inner_hash = (\<lambda>_ _. 0), ds_cat_puzzle_hash = (\<lambda>_ h. h),
      ds_cat_inner_hash = (\<lambda>_. Inr (Some 5)),
      ds_singleton_inner_hash = (\<lambda>p. Inr (case p of [] \<Rightarrow> None | b # _ \<Rightarrow> Some (ucast b))),
      ds_eve_reward_slot = (\<lambda>_ _. example_slot), ds_reward_slot = (\<lambda>_. example_slot),
      ds_commitment_slot = (\<lambda>_. example_slot), ds_entry_slot = (\<lambda>_. example_slot),
      ds_constants_codec = \<lparr>cc_to_bytes = (\<lambda>_. Inr []), cc_from_bytes = (\<lambda>_. Inr example_constants)\<rparr>\<rparr>"

definition distributor_client :: "(bytes32 \<Rightarrow> coin_record list) \<Rightarrow> u8 list \<Rightarrow> client" where
  "distributor_client hinted solution = example_client
     \<lparr>cl_coin_records_by_hint := (\<lambda>h. Inr (Some (hinted h))),
      cl_puzzle_and_solution :=
        (\<lambda>_ _. Inr (Some \<lparr>spend_coin = example_spent_coin, puzzle_reveal = [], spend_solution = solution\<rparr>))\<rparr>"

definition example_record :: coin_record where
  "example_record = \<lparr>cr_coin = example_tip_coin, cr_confirmed_block_index = 20, cr_spent_block_index = 0,
     cr_spent = False\<rparr>"

lemmas distributor_examples = example_constants_def example_reward_value_def example_distributor_def
  example_slot_def example_distributor_sdk_def distributor_client_def example_record_def

lemma example_slot_at:
  "reward_slot_at example_distributor_sdk (distributor_client (\<lambda>h. if h = 15 then [example_record] else []) [1])
     example_constants (epoch_before 25 example_constants 1) = Returned (Inr (Some (example_slot (example_reward_value 15))))"
  "reward_slot_at example_distributor_sdk (distributor_client (\<lambda>h. if h = 15 then [example_record] else []) [1])
     example_constants (epoch_before 25 example_constants 0) = Returned (Inr None)"
  by (simp_all add: reward_slot_at_def epoch_before_def distributor_examples required_def created_reward_slot_def Let_def)

lemma reward_slot_of_latest_epoch_witness:
  "find_reward_slot True example_distributor_sdk
     (distributor_client (\<lambda>h. if h = 15 then [example_record] else []) [1]) example_constants 25
     = Some (Returned (Inr (example_slot (example_reward_value 15))))"
proof -
  let ?client = "distributor_client (\<lambda>h. if h = 15 then [example_record] else []) [1]"
  have "rc_epoch_seconds example_constants \<noteq> 0" by (simp add: example_constants_def)
  from reward_slot_of_latest_epoch [OF this, where ds = example_distributor_sdk and client = ?client and start = 25]
  obtain r where r: "find_reward_slot True example_distributor_sdk ?client example_constants 25 = Some r"
    and found: "\<And>slot. r = Returned (Inr slot) \<longleftrightarrow> (\<exists>j \<le> epochs_until_zero 25 example_constants.
       reward_slot_at example_distributor_sdk ?client example_constants (epoch_before 25 example_constants j)
         = Returned (Inr (Some slot)) \<and>
       (\<forall>i < j. reward_slot_at example_distributor_sdk ?client example_constants (epoch_before 25 example_constants i)
         = Returned (Inr None)))" by blast
  have "r = Returned (Inr (example_slot (example_reward_value 15)))"
    unfolding found
    by (rule exI [of _ 1])
      (use example_slot_at in \<open>simp add: epochs_until_zero_def example_constants_def\<close>)
  with r show ?thesis by simp
qed

text \<open>
  C20. Any coin can deny the reward slot of an epoch: the coins looked at are all those hinted with the tree hash
  of the epoch's start, and one whose parent is neither a distributor nor a singleton (a payment from an
  ordinary wallet with that hint) is taken for the eve spend's, where parsing the singleton is unwrapped. As
  soon as such a coin is listed before the slot's the search panics.
\<close>

theorem stray_hint_denies_reward_slot:
  assumes "cl_coin_records_by_hint client (ds_epoch_hint ds epoch_start) = Inr (Some (earlier @ stray # later))"
    and "reward_slot_in ds client constants epoch_start earlier = Returned (Inr None)"
    and "cl_puzzle_and_solution client (parent_coin_info (cr_coin stray)) (Some (cr_confirmed_block_index stray))
      = Inr (Some payment)"
    and "ds_from_spend ds payment constants = Inr None"
    and "ds_singleton_inner_hash ds (puzzle_reveal payment) = Inr None"
  shows "find_reward_slot overflow_checks ds client constants epoch_start = Some Panicked"
proof -
  have "reward_slot_in ds client constants epoch_start (earlier @ stray # later) = Panicked"
    using assms(2)
  proof (induction earlier)
    case Nil
    then show ?case using assms(3-5) by (simp add: required_def eve_reward_slot_def Let_def)
  next
    case (Cons first earlier)
    then show ?case
      by (auto simp: Let_def result_simps required_def split: option.splits if_splits)
  qed
  then have "reward_slot_at ds client constants epoch_start = Panicked"
    using assms(1) by (simp add: reward_slot_at_def required_def)
  then show ?thesis by (subst find_reward_slot.simps) simp
qed

lemma stray_hint_denies_reward_slot_witness:
  "find_reward_slot False example_distributor_sdk (distributor_client (\<lambda>h. [example_record]) []) example_constants 25
     = Some Panicked"
  by (rule stray_hint_denies_reward_slot [where earlier = "[]" and stray = example_record and later = "[]"
        and payment = "\<lparr>spend_coin = example_spent_coin, puzzle_reveal = [], spend_solution = []\<rparr>"])
    (simp_all add: distributor_examples)

text \<open>
  When none of the epochs counted back from the one asked for (around \<open>2 ^ 64\<close>, once below 0) has a reward slot,
  every subtraction is followed by another round.
\<close>

lemma search_past_empty_epochs:
  fixes ds :: "('t, 'i) distributor_sdk"
  assumes "\<forall>j. reward_slot_at ds client constants (epoch_before start constants j) = Returned (Inr None)"
  shows "find_reward_slot False ds client constants start = None"
proof -
  let ?here = "\<lambda>checks sdk cl con epoch_start. \<not> checks \<and> sdk = ds \<and> cl = client \<and> con = constants \<and>
      (\<exists>j. epoch_start = epoch_before start constants j)"
  have step: "epoch_before start constants j - rc_epoch_seconds constants = epoch_before start constants (Suc j)" for j
    by (simp add: epoch_before_def algebra_simps)
  have never: "\<not> ?here checks sdk cl con epoch_start"
    if "find_reward_slot checks sdk cl con epoch_start = Some r"
    for checks :: bool and sdk :: "('t, 'i) distributor_sdk" and cl con epoch_start r
  proof (rule find_reward_slot.raw_induct [OF _ that])
    fix search :: "bool \<Rightarrow> ('t, 'i) distributor_sdk \<Rightarrow> client \<Rightarrow> 't distributor_constants \<Rightarrow> u64
      \<Rightarrow> (cli_error + reward_slot_value slot) outcome option"
      and checks sdk cl con epoch_start r
    assume search: "\<And>checks sdk cl con epoch_start r. search checks sdk cl con epoch_start = Some r \<Longrightarrow>
        \<not> ?here checks sdk cl con epoch_start"
      and body: "(case reward_slot_at sdk cl con epoch_start of
          Panicked \<Rightarrow> Some Panicked
        | Returned (Inl e) \<Rightarrow> Some (Returned (Inl e))
        | Returned (Inr None) \<Rightarrow>
            if checks \<and> epoch_start < rc_epoch_seconds con then Some Panicked
            else search checks sdk cl con (epoch_start - rc_epoch_seconds con)
        | Returned (Inr (Some slot)) \<Rightarrow> Some (Returned (Inr slot))) = Some r"
    show "\<not> ?here checks sdk cl con epoch_start"
    proof
      assume here: "?here checks sdk cl con epoch_start"
      then obtain j where j: "epoch_start = epoch_before start constants j" by blast
      then have "search checks sdk cl con (epoch_before start constants (Suc j)) = Some r"
        using body here assms by (simp add: step)
      with here search show False by blast
    qed
  qed
  have "start = epoch_before start constants 0" by (simp add: epoch_before_def)
  with never [of False ds client constants start] show ?thesis
    by (cases "find_reward_slot False ds client constants start") blast+
qed

lemma unat_minus_mod:
  fixes x e :: u64
  assumes "2 ^ k dvd unat e" and "k \<le> 64"
  shows "unat (x - e) mod 2 ^ k = unat x mod 2 ^ k"
proof -
  have "unat x = unat ((x - e) + e)" by simp
  also have "\<dots> = (unat (x - e) + unat e) mod 2 ^ 64" by (simp only: unat_word_ariths(1)) simp
  finally have "unat x mod 2 ^ k = (unat (x - e) + unat e) mod 2 ^ k"
    using mod_mod_cancel [OF le_imp_power_dvd [OF assms(2)]] by metis
  also have "\<dots> = unat (x - e) mod 2 ^ k" using assms(1) by (auto simp: dvd_def)
  finally show ?thesis by simp
qed

lemma epoch_before_mod:
  assumes "2 ^ k dvd unat (rc_epoch_seconds constants)" and "k \<le> 64"
  shows "unat (epoch_before start constants j) mod 2 ^ k = unat start mod 2 ^ k"
proof (induction j)
  case (Suc j)
  have "epoch_before start constants (Suc j) = epoch_before start constants j - rc_epoch_seconds constants"
    by (simp add: epoch_before_def algebra_simps)
  with Suc unat_minus_mod [OF assms] show ?case by simp
qed (simp add: epoch_before_def)

text \<open>
  C19. Without overflow checks the search for an epoch off the distributor's grid never ends, neither with a
  slot nor with an error, when it is off the grid in its low bits: when \<open>2 ^ k\<close> divides the length of an
  epoch, every epoch start that answers anything but no slot leaves the same rest modulo \<open>2 ^ k\<close>, and the one
  asked for leaves another. Below 0 the count back wraps around at \<open>2 ^ 64\<close>, which keeps the rest, so it
  never meets the grid. \<open>commit-rewards\<close> passes the epoch start it is given.
\<close>

theorem reward_search_never_ends:
  fixes ds :: "('t, 'i) distributor_sdk"
  assumes "2 ^ k dvd unat (rc_epoch_seconds constants)" and "k \<le> 64"
    and "\<forall>epoch. reward_slot_at ds client constants epoch \<noteq> Returned (Inr None) \<longrightarrow> unat epoch mod 2 ^ k = grid"
    and "unat start mod 2 ^ k \<noteq> grid"
  shows "find_reward_slot False ds client constants start = None"
proof (rule search_past_empty_epochs, intro allI)
  fix j
  have "unat (epoch_before start constants j) mod 2 ^ k \<noteq> grid"
    using epoch_before_mod [OF assms(1,2)] assms(4) by simp
  then show "reward_slot_at ds client constants (epoch_before start constants j) = Returned (Inr None)"
    using assms(3) by blast
qed

text \<open>Epochs of 10 seconds, a reward slot of the odd start 15, and the even start 22.\<close>

lemma reward_search_never_ends_witness:
  "find_reward_slot False example_distributor_sdk (distributor_client (\<lambda>h. if h = 15 then [example_record] else []) [1])
     example_constants 22 = None"
proof (rule reward_search_never_ends [where k = 1 and grid = 1])
  let ?client = "distributor_client (\<lambda>h. if h = 15 then [example_record] else []) [1]"
  have "unat epoch mod 2 = 1" if "(ucast epoch :: bytes32) = 15" for epoch :: u64
  proof -
    have "unat epoch < 2 ^ 64" using unsigned_less [of epoch] by simp
    then have "unat (ucast epoch :: bytes32) = unat epoch"
      by (simp add: unsigned_ucast_eq take_bit_nat_eq_self_iff)
    with that have "unat epoch = 15" by simp
    then show ?thesis by simp
  qed
  moreover have "reward_slot_at example_distributor_sdk ?client example_constants epoch = Returned (Inr None)"
    if "(ucast epoch :: bytes32) \<noteq> 15" for epoch :: u64
    using that by (simp add: reward_slot_at_def distributor_examples required_def)
  ultimately show "\<forall>epoch. reward_slot_at example_distributor_sdk ?client example_constants epoch \<noteq> Returned (Inr None)
      \<longrightarrow> unat epoch mod 2 ^ 1 = 1"
    by auto
qed (simp_all add: example_constants_def)

section \<open>The current distributor\<close>

text \<open>
  The distributor as its first unspent hinted coin shows it: the one the spend of that coin's parent, as the node
  answers it, parses to; no unspent coin listed before it has such a parent.
\<close>

definition parsed_from_parent ::
  "('t, 'i) distributor_sdk \<Rightarrow> client \<Rightarrow> 't distributor_constants \<Rightarrow> coin_record \<Rightarrow> 't distributor \<Rightarrow> bool"
where
  "parsed_from_parent ds client constants record d \<longleftrightarrow> \<not> cr_spent record \<and>
     (\<exists>spend. cl_puzzle_and_solution client (parent_coin_info (cr_coin record)) (Some (cr_confirmed_block_index record))
          = Inr (Some spend) \<and> ds_from_parent_spend ds spend constants = Inr (Some d))"

definition shown_on_chain ::
  "('t, 'i) distributor_sdk \<Rightarrow> client \<Rightarrow> 't distributor_constants \<Rightarrow> 't distributor \<Rightarrow> bool"
where
  "shown_on_chain ds client constants d \<longleftrightarrow>
     (\<exists>before record1 after. cl_coin_records_by_hint client (rc_launcher_id constants) = Inr (Some (before @ record1 # after)) \<and>
        parsed_from_parent ds client constants record1 d \<and>
        (\<forall>r \<in> set before. \<nexists>d'. parsed_from_parent ds client constants r d'))"

text \<open>What the first pending bundle that spends the tip makes of it, when it makes a distributor of it at all.\<close>

definition after_pending ::
  "('n, 'z) sdk_scheme \<Rightarrow> ('t, 'i) distributor_sdk \<Rightarrow> client \<Rightarrow> 't distributor_constants \<Rightarrow> 't distributor \<Rightarrow> 't distributor"
where
  "after_pending sdk ds client constants tip =
     (case cl_mempool_items client (sdk_coin_id sdk (rd_coin tip)) of
        Inr (Some (bundle # _)) \<Rightarrow>
          (case ds_from_mempool_item ds bundle constants of Inr (Some d) \<Rightarrow> d | _ \<Rightarrow> tip)
      | _ \<Rightarrow> tip)"

lemma on_chain_distributor_Inr:
  "on_chain_distributor ds client constants records = Inr (Some d) \<Longrightarrow>
     \<exists>before record1 after. records = before @ record1 # after \<and> parsed_from_parent ds client constants record1 d \<and>
       (\<forall>r \<in> set before. \<nexists>d'. parsed_from_parent ds client constants r d')"
  "on_chain_distributor ds client constants records = Inr None \<Longrightarrow>
     \<forall>r \<in> set records. \<nexists>d'. parsed_from_parent ds client constants r d'"
proof (induction records)
  case (Cons r records)
  have step: "on_chain_distributor ds client constants records = Inr found"
    if "on_chain_distributor ds client constants (r # records) = Inr found"
      "\<nexists>d'. parsed_from_parent ds client constants r d'" for found
  proof (cases "cr_spent r")
    case False
    with that(1) obtain spend where spend: "cl_puzzle_and_solution client (parent_coin_info (cr_coin r))
        (Some (cr_confirmed_block_index r)) = Inr (Some spend)"
      by (auto simp: Let_def required_def result_simps)
    with False that(2) have "\<nexists>d'. ds_from_parent_spend ds spend constants = Inr (Some d')"
      by (auto simp: parsed_from_parent_def)
    with False that(1) spend show ?thesis by (auto simp: Let_def required_def split: sum.splits option.splits)
  qed (use that(1) in simp)
  have found: "on_chain_distributor ds client constants (r # records) = Inr (Some d')"
    if "parsed_from_parent ds client constants r d'" for d'
    using that by (auto simp: parsed_from_parent_def Let_def required_def)
  {
    case 1
    show ?case
    proof (cases "\<exists>d'. parsed_from_parent ds client constants r d'")
      case True
      then obtain d' where d': "parsed_from_parent ds client constants r d'" by blast
      with found 1 have "d' = d" by simp
      with d' show ?thesis by (intro exI [of _ "[]"] exI [of _ r] exI [of _ records]) simp
    next
      case False
      from Cons.IH(1) [OF step [OF 1 False]] obtain before record1 after where "records = before @ record1 # after"
        and "parsed_from_parent ds client constants record1 d"
        and "\<forall>r \<in> set before. \<nexists>d'. parsed_from_parent ds client constants r d'"
        by blast
      with False show ?thesis by (intro exI [of _ "r # before"] exI [of _ record1] exI [of _ after]) simp
    qed
  next
    case 2
    then have none: "\<nexists>d'. parsed_from_parent ds client constants r d'" using found by fastforce
    with Cons.IH(2) [OF step [OF 2 none]] show ?case by simp
  }
qed simp_all

lemma pending_distributor_Inr:
  "pending_distributor sdk ds client constants tip = Inr d \<Longrightarrow> d = after_pending sdk ds client constants tip"
  unfolding pending_distributor_def after_pending_def
  by (cases "cl_mempool_items client (sdk_coin_id sdk (rd_coin tip))")
    (auto simp: result_simps split: option.splits list.splits sum.splits)

lemma sync_distributor_source:
  assumes "sync_distributor sdk ds client launcher_id db = (Inr d, db')"
  shows "\<exists>constants. fst (distributor_constants_of ds client launcher_id db) = Inr constants \<and>
    ((\<exists>tip. shown_on_chain ds client constants tip \<and> d = after_pending sdk ds client constants tip) \<or>
     (\<nexists>tip. shown_on_chain ds client constants tip) \<and> eve_distributor sdk ds client launcher_id = Inr d)"
proof -
  from assms obtain constants db1 records found where
    constants: "distributor_constants_of ds client launcher_id db = (Inr constants, db1)"
    and records: "cl_coin_records_by_hint client (rc_launcher_id constants) = Inr (Some records)"
    and found: "on_chain_distributor ds client constants records = Inr found"
    and d: "(case found of Some tip \<Rightarrow> pending_distributor sdk ds client constants tip
        | None \<Rightarrow> eve_distributor sdk ds client launcher_id) = Inr d"
    by (auto simp: sync_distributor_def db_read_def db_then_def required_def result_simps split: prod.splits sum.splits)
  show ?thesis
  proof (cases found)
    case None
    with found have "\<forall>r \<in> set records. \<nexists>d'. parsed_from_parent ds client constants r d'"
      by (blast dest: on_chain_distributor_Inr(2))
    with records have "\<nexists>tip. shown_on_chain ds client constants tip" by (auto simp: shown_on_chain_def)
    with constants d None show ?thesis by auto
  next
    case (Some tip)
    with on_chain_distributor_Inr(1) found have "\<exists>before record1 after. records = before @ record1 # after \<and>
        parsed_from_parent ds client constants record1 tip \<and>
        (\<forall>r \<in> set before. \<nexists>d'. parsed_from_parent ds client constants r d')" by blast
    with records have "shown_on_chain ds client constants tip" unfolding shown_on_chain_def by auto
    with constants d Some pending_distributor_Inr [of sdk ds client constants tip d] show ?thesis by auto
  qed
qed

section \<open>The slots of an address\<close>

text \<open>The spend a record was created by, when it is one of the distributor, and the slot it created there.\<close>

definition distributor_spend_of ::
  "('t, 'i) distributor_sdk \<Rightarrow> client \<Rightarrow> 't distributor_constants \<Rightarrow> coin_record \<Rightarrow> 't distributor option"
where
  "distributor_spend_of ds client constants record =
     (case cl_puzzle_and_solution client (parent_coin_info (cr_coin record)) (Some (cr_confirmed_block_index record)) of
        Inr (Some spent) \<Rightarrow>
          (case ds_from_spend ds spent constants of
             Inr (Some distributor) \<Rightarrow>
               if rc_launcher_id (rd_constants distributor) = rc_launcher_id constants then Some distributor else None
           | _ \<Rightarrow> None)
      | _ \<Rightarrow> None)"

definition recorded_slot ::
  "('t, 'i) distributor_sdk \<Rightarrow> client \<Rightarrow> 't distributor_constants \<Rightarrow> ('t distributor \<Rightarrow> coin \<Rightarrow> 'v slot option)
    \<Rightarrow> coin_record \<Rightarrow> 'v slot option"
where
  "recorded_slot ds client constants slot_of record =
     Option.bind (distributor_spend_of ds client constants record) (\<lambda>d. slot_of d (cr_coin record))"

lemma slots_in_Inr:
  "slots_in ds client constants slot_of records = Inr slots \<Longrightarrow>
     slots = List.map_filter (recorded_slot ds client constants slot_of) records"
proof (induction records arbitrary: slots)
  case (Cons coin_record records)
  from Cons.prems show ?case
    by (auto simp: Let_def result_simps required_def recorded_slot_def distributor_spend_of_def List.map_filter_simps
        dest!: Cons.IH split: option.splits if_splits)
qed (simp add: List.map_filter_simps)

lemma find_map_None: "find_map f xs = None \<longleftrightarrow> (\<forall>x \<in> set xs. f x = None)"
  by (induction xs) (auto split: option.splits)

lemma slots_in_exact:
  assumes "slots_in ds client constants slot_of records = Inr slots"
    and "\<And>d c slot. slot_of d c = Some slot \<Longrightarrow> slot_coin slot = c"
  shows "map slot_coin slots = map cr_coin (filter (\<lambda>r. \<exists>d.
    distributor_spend_of ds client constants r = Some d \<and> slot_of d (cr_coin r) \<noteq> None) records)"
proof -
  have "map slot_coin (List.map_filter (recorded_slot ds client constants slot_of) records) =
      map cr_coin (filter (\<lambda>r. \<exists>d. distributor_spend_of ds client constants r = Some d \<and> slot_of d (cr_coin r) \<noteq> None)
        records)"
    by (induction records)
      (auto simp: List.map_filter_simps recorded_slot_def assms(2) split: option.splits bind_splits)
  with slots_in_Inr [OF assms(1)] show ?thesis by simp
qed

lemma entry_slot_of_coin:
  "entry_slot_of ds ph initial shares d c = Some slot \<Longrightarrow> slot_coin slot = c"
  "commitment_slot_of ds clawback_ph epoch_start rewards d c = Some commitment \<Longrightarrow> slot_coin commitment = c"
  by (auto simp: entry_slot_of_def commitment_slot_of_def Let_def split: if_splits dest!: find_map_Some)

lemma entry_slot_of_found:
  "entry_slot_of ds ph initial shares d c \<noteq> None \<longleftrightarrow> (\<exists>val \<in> set (rd_created_entry_slots d).
     ev_payout_puzzle_hash val = ph \<and> wanted initial (ev_initial_cumulative_payout val) \<and>
     wanted shares (ev_shares val) \<and> slot_coin (ds_entry_slot ds d val) = c)"
  unfolding entry_slot_of_def not_None_eq [symmetric] find_map_None by (auto simp: Let_def)

lemma commitment_slot_of_found:
  "commitment_slot_of ds clawback_ph epoch_start rewards d c \<noteq> None \<longleftrightarrow>
    (\<exists>val \<in> set (rd_created_commitment_slots d).
     cm_clawback_ph val = clawback_ph \<and> wanted epoch_start (cm_epoch_start val) \<and>
     wanted rewards (cm_rewards val) \<and> slot_coin (ds_commitment_slot ds d val) = c)"
  unfolding commitment_slot_of_def find_map_None by (auto simp: Let_def)

text \<open>What an entry slot of an address is, and where the ones found come from.\<close>

definition created_entry_slot ::
  "('t, 'i) distributor_sdk \<Rightarrow> client \<Rightarrow> 't distributor_constants \<Rightarrow> bytes32 \<Rightarrow> coin_record \<Rightarrow> entry_slot_value slot \<Rightarrow> bool"
where
  "created_entry_slot ds client constants ph record slot \<longleftrightarrow> slot_coin slot = cr_coin record \<and>
     (\<exists>d val. distributor_spend_of ds client constants record = Some d \<and> val \<in> set (rd_created_entry_slots d) \<and>
        ev_payout_puzzle_hash val = ph \<and> slot = ds_entry_slot ds d val)"

lemma find_entry_slots_Inr:
  assumes "find_entry_slots ds client constants ph initial shares = Inr slots"
  obtains records where "cl_coin_records_by_hint client ph = Inr (Some records)"
    and "slots_in ds client constants (entry_slot_of ds ph initial shares) records = Inr slots"
  using assms by (auto simp: find_entry_slots_def result_simps required_def)

lemma entry_slot_of_created:
  "entry_slot_of ds ph initial shares d c = Some slot \<Longrightarrow>
     \<exists>val \<in> set (rd_created_entry_slots d). ev_payout_puzzle_hash val = ph \<and> slot = ds_entry_slot ds d val \<and> slot_coin slot = c"
  by (auto simp: entry_slot_of_def Let_def split: if_splits dest!: find_map_Some)

lemma wanted_None [simp]: "wanted None v"
  by (simp add: wanted_def)

lemma recorded_entry_slot:
  "recorded_slot ds client constants (entry_slot_of ds ph None None) record = Some slot \<Longrightarrow>
     created_entry_slot ds client constants ph record slot"
  "recorded_slot ds client constants (entry_slot_of ds ph None None) record = None \<Longrightarrow>
     \<not> created_entry_slot ds client constants ph record slot"
  by (auto simp: recorded_slot_def created_entry_slot_def bind_eq_Some_conv bind_eq_None_conv wanted_def
      dest!: entry_slot_of_created)
    (metis entry_slot_of_found option.discI wanted_None)+

text \<open>The first slot found is the one of the first coin listed that has one.\<close>

lemma first_recorded:
  "(case List.map_filter f xs of [] \<Rightarrow> None | y # _ \<Rightarrow> Some y) = None \<Longrightarrow> \<forall>x \<in> set xs. f x = None"
  "(case List.map_filter f xs of [] \<Rightarrow> None | y # _ \<Rightarrow> Some y) = Some y \<Longrightarrow>
     \<exists>before x after. xs = before @ x # after \<and> (\<forall>z \<in> set before. f z = None) \<and> f x = Some y"
proof (induction xs)
  case (Cons x xs)
  {
    case 1
    with Cons.IH(1) show ?case by (auto simp: List.map_filter_simps split: option.splits)
  next
    case 2
    show ?case
    proof (cases "f x")
      case None
      with 2 Cons.IH(2) obtain before z after where "xs = before @ z # after" "\<forall>z \<in> set before. f z = None" "f z = Some y"
        by (auto simp: List.map_filter_simps)
      with None show ?thesis by (intro exI [of _ "x # before"] exI [of _ z] exI [of _ after]) simp
    next
      case (Some z)
      with 2 show ?thesis by (intro exI [of _ "[]"] exI [of _ x] exI [of _ xs]) (simp add: List.map_filter_simps)
    qed
  }
qed (simp_all add: List.map_filter_simps)

text \<open>
  C21. The entry slots found for a payout address are, in the order the node lists the coins hinted with it,
  exactly those of the coins that a spend of this distributor created as an entry slot of that address with the
  shares and the initial payout asked for.
\<close>

theorem entry_slots_exact:
  assumes "find_entry_slots ds client constants ph initial shares = Inr slots"
  shows "\<exists>records. cl_coin_records_by_hint client ph = Inr (Some records) \<and>
    map slot_coin slots = map cr_coin (filter (\<lambda>r. \<exists>d.
      distributor_spend_of ds client constants r = Some d \<and>
      (\<exists>val \<in> set (rd_created_entry_slots d). ev_payout_puzzle_hash val = ph \<and>
        wanted initial (ev_initial_cumulative_payout val) \<and> wanted shares (ev_shares val) \<and>
        slot_coin (ds_entry_slot ds d val) = cr_coin r)) records)"
proof -
  from assms obtain records where "cl_coin_records_by_hint client ph = Inr (Some records)"
    and "slots_in ds client constants (entry_slot_of ds ph initial shares) records = Inr slots"
    by (rule find_entry_slots_Inr)
  moreover from this(2) have "map slot_coin slots = map cr_coin (filter (\<lambda>r. \<exists>d.
      distributor_spend_of ds client constants r = Some d \<and>
      entry_slot_of ds ph initial shares d (cr_coin r) \<noteq> None) records)"
    by (rule slots_in_exact) (rule entry_slot_of_coin(1))
  ultimately show ?thesis unfolding entry_slot_of_found by blast
qed

lemma entry_slots_exact_witness:
  "\<exists>records. cl_coin_records_by_hint (distributor_client (\<lambda>_. [example_record]) [1]) 5 = Inr (Some records) \<and>
    map slot_coin [example_slot (hd (rd_created_entry_slots example_distributor))] = map cr_coin (filter (\<lambda>r. \<exists>d.
      distributor_spend_of example_distributor_sdk (distributor_client (\<lambda>_. [example_record]) [1]) example_constants r
        = Some d \<and>
      (\<exists>val \<in> set (rd_created_entry_slots d). ev_payout_puzzle_hash val = 5 \<and>
        wanted None (ev_initial_cumulative_payout val) \<and> wanted (Some 2) (ev_shares val) \<and>
        slot_coin (ds_entry_slot example_distributor_sdk d val) = cr_coin r)) records)"
  by (rule entry_slots_exact)
    (simp add: find_entry_slots_def distributor_examples required_def entry_slot_of_def wanted_def Let_def)

text \<open>Clawing back finds the commitment slots of an address in the same way.\<close>

lemma commitment_slots_exact:
  assumes "find_commitment_slots ds client constants clawback_ph epoch_start rewards = Inr slots"
  shows "\<exists>records. cl_coin_records_by_hint client clawback_ph = Inr (Some records) \<and>
    map slot_coin slots = map cr_coin (filter (\<lambda>r. \<exists>d.
      distributor_spend_of ds client constants r = Some d \<and>
      (\<exists>val \<in> set (rd_created_commitment_slots d). cm_clawback_ph val = clawback_ph \<and>
        wanted epoch_start (cm_epoch_start val) \<and> wanted rewards (cm_rewards val) \<and>
        slot_coin (ds_commitment_slot ds d val) = cr_coin r)) records)"
proof -
  from assms obtain records where "cl_coin_records_by_hint client clawback_ph = Inr (Some records)"
    and "slots_in ds client constants (commitment_slot_of ds clawback_ph epoch_start rewards) records = Inr slots"
    by (auto simp: find_commitment_slots_def result_simps required_def)
  moreover from this(2) have "map slot_coin slots = map cr_coin (filter (\<lambda>r. \<exists>d.
      distributor_spend_of ds client constants r = Some d \<and>
      commitment_slot_of ds clawback_ph epoch_start rewards d (cr_coin r) \<noteq> None) records)"
    by (rule slots_in_exact) (rule entry_slot_of_coin(2))
  ultimately show ?thesis unfolding commitment_slot_of_found by blast
qed

end
