(* ===== verification/DistributorCommandFacts.thy ===== *)
theory DistributorCommandFacts
  imports DistributorCommands DistributorFacts DatastoreFacts
begin

text \<open>
  What the distributor's commands decide: the time they synchronize to, the coins committed, the changes
  of the shares, the proof of an NFT's collection, the asset unstaked.
\<close>

section \<open>Time\<close>

lemma also_sync_between:
  "also_sync True last_update latest = Returned (Inr (Some t)) \<Longrightarrow> last_update < t \<and> t = latest"
  "also_sync_sub True last_update latest = Returned (Inr (Some t)) \<Longrightarrow> last_update < t \<and> t = latest"
  by (auto simp: also_sync_def also_sync_sub_def word_less_nat_alt word_le_nat_alt unat_plus_no_overflow unat_sub
      split: if_splits)

lemma ensure_epoch_open_Inr [result_simps]: "ensure_epoch_open epoch_end latest = Inr u \<longleftrightarrow> latest \<le> epoch_end"
  by (auto simp: ensure_epoch_open_def)

lemma open_epoch_sync_between:
  assumes "open_epoch_sync True client distributor = Some (Returned (Inr (Some t)))"
  shows "rd_last_update distributor < t \<and> t \<le> rd_epoch_end distributor"
  using assms also_sync_between by (fastforce simp: open_epoch_sync_def result_simps)

section \<open>The shares\<close>

lemma int_bounds:
  "x < 2 ^ 63 \<Longrightarrow> y < 2 ^ 63 \<Longrightarrow> - (2 ^ 63) \<le> int x - int y \<and> int x - int y < 2 ^ 63" for x y :: nat
  by simp

lemma sint_difference:
  assumes "unat a < 2 ^ 63" and "unat b < 2 ^ 63"
  shows "sint (a - b :: u64) = int (unat a) - int (unat b)"
proof -
  let ?k = "int (unat a) - int (unat b)"
  have "a - b = word_of_int ?k" by simp
  then have "sint (a - b) = signed_take_bit 63 ?k" using sint_sbintrunc' [where 'a = 64, of ?k] by simp
  also have "\<dots> = ?k"
    using signed_take_bit_int_eq_self [of 63 ?k] int_bounds [OF assms] by simp
  finally show ?thesis .
qed

definition csv_weight :: "('nft \<Rightarrow> cli_error + u64 \<times> merkle_proof) \<Rightarrow> 'nft \<Rightarrow> u64" where
  "csv_weight merkle_entry nft = (case merkle_entry nft of Inr (weight, _) \<Rightarrow> weight | Inl _ \<Rightarrow> 0)"

lemma try_i64_Inr [result_simps]: "try_i64 x e = Inr y \<longleftrightarrow> unat x < 2 ^ 63 \<and> y = x"
  by (auto simp: try_i64_def)

lemma share_changes_Inr:
  "share_changes merkle_entry locked = Inr changes \<Longrightarrow>
     (\<forall>(nft, old) \<in> set locked. merkle_entry nft = Inr (csv_weight merkle_entry nft, snd (projr (merkle_entry nft))) \<and>
        unat (csv_weight merkle_entry nft) < 2 ^ 63 \<and> unat old < 2 ^ 63) \<and>
     map (\<lambda>c. (sh_nft c, sh_new_shares c, sint (sh_delta c))) changes =
       map (\<lambda>(nft, old). (nft, csv_weight merkle_entry nft,
           int (unat (csv_weight merkle_entry nft)) - int (unat old)))
         (filter (\<lambda>(nft, old). csv_weight merkle_entry nft \<noteq> old) locked)"
proof (induction locked arbitrary: changes)
  case (Cons asset locked)
  obtain nft old where asset: "asset = (nft, old)" by fastforce
  from Cons.prems obtain weight p rest where entry: "merkle_entry nft = Inr (weight, p)"
    and small: "unat weight < 2 ^ 63" "unat old < 2 ^ 63"
    and rest: "share_changes merkle_entry locked = Inr rest"
    and changes: "changes = (if weight - old = 0 then rest else
        \<lparr>sh_nft = nft, sh_delta = weight - old, sh_new_shares = weight, sh_proof = p\<rparr> # rest)"
    by (auto simp: asset result_simps Let_def split: if_splits)
  have "csv_weight merkle_entry nft = weight" by (simp add: csv_weight_def entry)
  with Cons.IH [OF rest] entry small show ?case
    by (simp add: asset changes sint_difference del: of_nat_unat)
qed simp

section \<open>The collection of an NFT\<close>

text \<open>A coin's ancestors up to the collection's DID, and the coin a puzzle hash and an amount stand for below another.\<close>

fun nft_ancestry ::
  "'nft commands_sdk \<Rightarrow> client \<Rightarrow> bytes32 \<Rightarrow> bytes32 \<Rightarrow> coin_record list \<Rightarrow> lineage_proof \<Rightarrow> bool"
where
  "nft_ancestry dc client did coin_id [] did_proof \<longleftrightarrow> False"
| "nft_ancestry dc client did coin_id (r # rs) did_proof \<longleftrightarrow>
     cl_coin_record_by_name client coin_id = Inr (Some r) \<and>
     (if rs = [] then did_of dc client did coin_id (cr_coin r) (cr_spent_block_index r) = Inr (Some did_proof)
      else did_of dc client did coin_id (cr_coin r) (cr_spent_block_index r) = Inr None \<and>
        nft_ancestry dc client did (parent_coin_info (cr_coin r)) rs did_proof)"

definition coin_step :: "coin_record \<Rightarrow> bytes32 \<times> u64" where
  "coin_step r = (puzzle_hash (cr_coin r), amount (cr_coin r))"

definition child_id :: "('n, 'z) sdk_scheme \<Rightarrow> bytes32 \<Rightarrow> bytes32 \<times> u64 \<Rightarrow> bytes32" where
  "child_id sdk parent = (\<lambda>(ph, a). sdk_coin_id sdk \<lparr>parent_coin_info = parent, puzzle_hash = ph, amount = a\<rparr>)"

lemma nft_proof_from_ancestry:
  "nft_ancestry dc client did coin_id rs p \<Longrightarrow>
     nft_launcher_proof_from dc client did coin_id coins = Some (Inr (p, rev (map coin_step (butlast rs)) @ coins))"
proof (induction rs arbitrary: coin_id coins)
  case (Cons r rs)
  then show ?case
    by (subst nft_launcher_proof_from.simps) (auto simp: required_def coin_step_def split: if_splits)
qed simp

lemma nft_ancestry_of_proof:
  fixes dc :: "'nft commands_sdk"
  assumes "nft_launcher_proof_from dc client did coin_id coins = Some (Inr (p, cs))"
  shows "\<exists>rs. nft_ancestry dc client did coin_id rs p \<and> cs = rev (map coin_step (butlast rs)) @ coins"
proof -
  let ?found = "\<lambda>dc cl did coin_id coins r. \<forall>p cs. r = Inr (p, cs) \<longrightarrow>
      (\<exists>rs. nft_ancestry dc cl did coin_id rs p \<and> cs = rev (map coin_step (butlast rs)) @ coins)"
  have found: "?found dc cl did coin_id coins r"
    if "nft_launcher_proof_from dc cl did coin_id coins = Some r" for dc :: "'nft commands_sdk" and cl did coin_id coins r
  proof (rule nft_launcher_proof_from.raw_induct [OF _ that])
    fix walk :: "'nft commands_sdk \<Rightarrow> client \<Rightarrow> bytes32 \<Rightarrow> bytes32 \<Rightarrow> (bytes32 \<times> u64) list
        \<Rightarrow> (cli_error + lineage_proof \<times> (bytes32 \<times> u64) list) option"
      and dc cl did coin_id coins r
    assume walk: "\<And>dc cl did coin_id coins r. walk dc cl did coin_id coins = Some r \<Longrightarrow> ?found dc cl did coin_id coins r"
      and body: "(case required (cl_coin_record_by_name cl coin_id) (CoinNotFound coin_id) of
          Inl e \<Rightarrow> Some (Inl e)
        | Inr coin_record \<Rightarrow>
            (case did_of dc cl did coin_id (cr_coin coin_record) (cr_spent_block_index coin_record) of
               Inl e \<Rightarrow> Some (Inl e)
             | Inr None \<Rightarrow> walk dc cl did (parent_coin_info (cr_coin coin_record))
                 ((puzzle_hash (cr_coin coin_record), amount (cr_coin coin_record)) # coins)
             | Inr (Some did_proof) \<Rightarrow> Some (Inr (did_proof, coins)))) = Some r"
    show "?found dc cl did coin_id coins r"
    proof (intro allI impI)
      fix p cs assume r: "r = Inr (p, cs)"
      with body obtain rec where rec: "cl_coin_record_by_name cl coin_id = Inr (Some rec)"
        by (auto simp: required_def result_simps split: sum.splits option.splits)
      let ?did = "did_of dc cl did coin_id (cr_coin rec) (cr_spent_block_index rec)"
      show "\<exists>rs. nft_ancestry dc cl did coin_id rs p \<and> cs = rev (map coin_step (butlast rs)) @ coins"
      proof (cases "?did = Inr None")
        case True
        with body rec have "walk dc cl did (parent_coin_info (cr_coin rec)) (coin_step rec # coins) = Some r"
          by (simp add: required_def coin_step_def)
        from walk [OF this] r obtain rs where
          "nft_ancestry dc cl did (parent_coin_info (cr_coin rec)) rs p"
          "cs = rev (map coin_step (butlast rs)) @ coin_step rec # coins" by blast
        with True rec show ?thesis
          by (intro exI [of _ "rec # rs"]) (cases rs, auto)
      next
        case False
        with body rec r have "?did = Inr (Some p)" "cs = coins"
          by (auto simp: required_def split: sum.splits option.splits)
        with rec show ?thesis by (intro exI [of _ "[rec]"]) simp
      qed
    qed
  qed
  from found [OF assms] show ?thesis by blast
qed

lemma ancestry_leads_back:
  assumes honest: "\<And>i r. cl_coin_record_by_name client i = Inr (Some r) \<Longrightarrow> sdk_coin_id sdk (cr_coin r) = i"
  shows "nft_ancestry dc client did coin_id rs p \<Longrightarrow>
    foldl (child_id sdk) (sdk_coin_id sdk (cr_coin (last rs))) (rev (map coin_step (butlast rs))) = coin_id"
proof (induction rs arbitrary: coin_id)
  case (Cons r rs)
  then have "sdk_coin_id sdk (cr_coin r) = coin_id" by (auto dest: honest)
  moreover have "child_id sdk (parent_coin_info (cr_coin r)) (coin_step r) = sdk_coin_id sdk (cr_coin r)"
    by (cases "cr_coin r") (simp add: child_id_def coin_step_def)
  ultimately show ?case using Cons by (auto split: if_splits)
qed simp

lemma did_of_Some:
  assumes "did_of dc client did coin_id c height = Inr (Some p)"
  shows "\<exists>spend inner_hash. cl_puzzle_and_solution client coin_id (Some height) = Inr (Some spend) \<and>
    dc_singleton_layer dc (puzzle_reveal spend) = Inr (Some (did, inner_hash)) \<and>
    p = \<lparr>lp_parent_parent_coin_info = parent_coin_info c, lp_parent_inner_puzzle_hash = inner_hash,
         lp_parent_amount = amount c\<rparr>"
proof -
  from assms obtain spend where spend: "cl_puzzle_and_solution client coin_id (Some height) = Inr (Some spend)"
    by (auto simp: did_of_def result_simps required_def split: if_splits)
  with assms show ?thesis
    by (auto simp: did_of_def required_def result_simps split: if_splits sum.splits option.splits)
qed

lemma nft_ancestry_last:
  "nft_ancestry dc client did coin_id rs p \<Longrightarrow>
     \<exists>i. cl_coin_record_by_name client i = Inr (Some (last rs)) \<and>
       did_of dc client did i (cr_coin (last rs)) (cr_spent_block_index (last rs)) = Inr (Some p)"
  by (induction rs arbitrary: coin_id) (auto split: if_splits)

section \<open>Staking\<close>

lemma with_distributor_Inr:
  assumes "with_distributor sdk ds client db inputs k = (Some (Returned (Inr x)), db')"
  shows "\<exists>launcher_id y d. inputs = Returned (Inr (launcher_id, y)) \<and>
    sync_distributor sdk ds client launcher_id db = (Inr d, db') \<and> k launcher_id y d = Some (Returned (Inr x))"
  using assms by (auto simp: with_distributor_def split: outcome.splits sum.splits prod.splits)

lemma launcher_and_fee_Inr:
  "launcher_and_fee checks sdk launcher_str fee_str = Returned (Inr (launcher_id, fee)) \<Longrightarrow>
     hex_string_to_bytes32 sdk launcher_str = Inr launcher_id"
  by (auto simp: launcher_and_fee_def result_simps)

lemma whitelist_Inr:
  assumes "whitelist sdk ms cv from_spend client file store = Inr records"
  shows "\<exists>datastore. sync_datastore sdk from_spend client store oracle_delegated_puzzles = Inr datastore \<and>
    load_and_dedupe_csv ms cv file = Inr records \<and> build_root_hash ms records = Inr (ds_root_hash datastore)"
  using assms by (auto simp: whitelist_def load_csv_matching_root_def result_simps split: if_splits)

lemma merkle_proof_for_nft_Inr:
  assumes "merkle_proof_for_nft sdk ms records nft = Inr (weight, p)"
  shows "\<lparr>dn_nft_id = nft, dn_weight = weight\<rparr> \<in> set records"
proof -
  from assms obtain r where "find (\<lambda>r. dn_nft_id r = nft) records = Some r" "weight = dn_weight r"
    by (auto simp: merkle_proof_for_nft_def result_simps)
  then have "r \<in> set records" "dn_nft_id r = nft" by (auto simp: find_Some_iff)
  with \<open>weight = dn_weight r\<close> show ?thesis by (cases r) simp
qed

text \<open>
  What a staked asset must be for a distributor and the options of the command: the NFT asked for, with the coins
  that lead from a spent coin of the collection's DID to its launcher, or with its weight in the file given, whose
  root is the datastore's; or the CAT staked there, in the amount asked for.
\<close>

fun asset_fits ::
  "('n, 'z) sdk_scheme \<Rightarrow> 't merkle_sdk \<Rightarrow> 'k csv_sdk \<Rightarrow> datastore_parser \<Rightarrow> 'nft commands_sdk \<Rightarrow> client
    \<Rightarrow> stake_options \<Rightarrow> distributor_type \<Rightarrow> stake_asset \<Rightarrow> bool"
where
  "asset_fits sdk ms cv from_spend dc client opts (NftCollection did) (StakeCollectionNft nft did_proof coins) \<longleftrightarrow>
     (\<exists>nft_id_str prefix. so_nft_id_str opts = Some nft_id_str \<and> cv_address_decode cv nft_id_str = Some (prefix, nft)) \<and>
     (\<exists>did_coin spend inner_hash height.
        cl_puzzle_and_solution client (sdk_coin_id sdk did_coin) (Some height) = Inr (Some spend) \<and>
        dc_singleton_layer dc (puzzle_reveal spend) = Inr (Some (did, inner_hash)) \<and>
        did_proof = \<lparr>lp_parent_parent_coin_info = parent_coin_info did_coin,
          lp_parent_inner_puzzle_hash = inner_hash, lp_parent_amount = amount did_coin\<rparr> \<and>
        foldl (child_id sdk) (sdk_coin_id sdk did_coin) coins = nft)"
| "asset_fits sdk ms cv from_spend dc client opts (CuratedNft store refreshable) (StakeCuratedNft nft weight p) \<longleftrightarrow>
     (\<exists>nft_id_str prefix. so_nft_id_str opts = Some nft_id_str \<and> cv_address_decode cv nft_id_str = Some (prefix, nft)) \<and>
     (\<exists>file datastore records. so_csv opts = Some file \<and> load_and_dedupe_csv ms cv file = Inr records \<and>
        sync_datastore sdk from_spend client store oracle_delegated_puzzles = Inr datastore \<and>
        build_root_hash ms records = Inr (ds_root_hash datastore) \<and>
        \<lparr>dn_nft_id = nft, dn_weight = weight\<rparr> \<in> set records)"
| "asset_fits sdk ms cv from_spend dc client opts (CatStake asset hidden) (StakeCat staked amount_staked) \<longleftrightarrow>
     staked = asset \<and>
     (\<exists>amount_str. so_stake_amount_str opts = Some amount_str \<and>
        parse_amount True amount_str True = Returned (Inr amount_staked))"
| "asset_fits sdk ms cv from_spend dc client opts _ _ \<longleftrightarrow> False"

lemma collection_asset_fits:
  assumes honest: "\<And>i r. cl_coin_record_by_name client i = Inr (Some r) \<Longrightarrow> sdk_coin_id sdk (cr_coin r) = i"
    and asked: "so_nft_id_str opts = Some nft_id_str" "cv_address_decode cv nft_id_str = Some (prefix, nft)"
    and "nft_launcher_proof dc client did nft = Some (Inr (p, coins))"
  shows "asset_fits sdk ms cv from_spend dc client opts (NftCollection did) (StakeCollectionNft nft p coins)"
proof -
  from nft_ancestry_of_proof assms(4) obtain rs where rs: "nft_ancestry dc client did nft rs p"
      "coins = rev (map coin_step (butlast rs))"
    by (force simp: nft_launcher_proof_def)
  from nft_ancestry_last [OF rs(1)] obtain i where i: "cl_coin_record_by_name client i = Inr (Some (last rs))"
    and did: "did_of dc client did i (cr_coin (last rs)) (cr_spent_block_index (last rs)) = Inr (Some p)" by blast
  from did_of_Some [OF did] honest [OF i] ancestry_leads_back [OF honest rs(1)] rs(2) asked show ?thesis
    by (auto intro!: exI [of _ "cr_coin (last rs)"])
qed

lemma stake_asset_of_fits:
  assumes "\<And>i r. cl_coin_record_by_name client i = Inr (Some r) \<Longrightarrow> sdk_coin_id sdk (cr_coin r) = i"
    and "stake_asset_of True sdk ms cv from_spend dc client opts t = Some (Returned (Inr asset))"
  shows "asset_fits sdk ms cv from_spend dc client opts t asset"
proof (cases t)
  case (NftCollection did)
  with assms(2) show ?thesis
    by (auto simp: stake_asset_of_def result_simps intro!: collection_asset_fits [OF assms(1)]
        simp del: asset_fits.simps)
next
  case (CuratedNft store refreshable)
  with assms(2) show ?thesis
    by (auto simp: stake_asset_of_def result_simps dest!: whitelist_Inr merkle_proof_for_nft_Inr)
qed (use assms(2) in \<open>auto simp: stake_asset_of_def result_simps\<close>)

text \<open>The custody address's entry slot: that of the first coin listed that has one.\<close>

lemma first_entry_slot_Inr:
  assumes "first_entry_slot ds client constants ph = Inr existing_slot"
  shows "\<exists>records. cl_coin_records_by_hint client ph = Inr (Some records) \<and>
    (case existing_slot of
       None \<Rightarrow> \<forall>r \<in> set records. \<nexists>slot. created_entry_slot ds client constants ph r slot
     | Some slot \<Rightarrow> \<exists>before r after. records = before @ r # after \<and> created_entry_slot ds client constants ph r slot \<and>
         (\<forall>r \<in> set before. \<nexists>slot. created_entry_slot ds client constants ph r slot))"
proof -
  let ?recorded = "recorded_slot ds client constants (entry_slot_of ds ph None None)"
  from assms obtain slots where slots: "find_entry_slots ds client constants ph None None = Inr slots"
    and first: "existing_slot = (case slots of [] \<Rightarrow> None | slot # _ \<Rightarrow> Some slot)"
    by (auto simp: first_entry_slot_def result_simps)
  from slots obtain records where records: "cl_coin_records_by_hint client ph = Inr (Some records)"
    and "slots_in ds client constants (entry_slot_of ds ph None None) records = Inr slots"
    by (rule find_entry_slots_Inr)
  from slots_in_Inr [OF this(2)] first have found:
    "(case List.map_filter ?recorded records of [] \<Rightarrow> None | slot # _ \<Rightarrow> Some slot) = existing_slot" by simp
  show ?thesis
  proof (cases existing_slot)
    case None
    with first_recorded(1) [of ?recorded records] found have "\<forall>r \<in> set records. ?recorded r = None" by simp
    then have "\<forall>r \<in> set records. \<nexists>slot. created_entry_slot ds client constants ph r slot"
      by (blast dest: recorded_entry_slot(2))
    with records None show ?thesis by simp
  next
    case (Some slot)
    from first_recorded(2) [OF found [unfolded Some]] obtain before r after where place: "records = before @ r # after"
      and none: "\<forall>z \<in> set before. ?recorded z = None" and first: "?recorded r = Some slot"
      by blast
    from none have "\<forall>r \<in> set before. \<nexists>slot. created_entry_slot ds client constants ph r slot"
      by (blast dest: recorded_entry_slot(2))
    moreover note recorded_entry_slot(1) [OF first]
    ultimately show ?thesis using records Some place by auto
  qed
qed

text \<open>
  C22. What \<open>stake\<close> hands on is sound. It is about the distributor of the launcher asked for as the first unspent
  hinted coin whose parent's spend parses shows it, one step further when the mempool holds a spend of that tip that
  parses, and about the eve distributor when no hinted coin shows one; its type is not managed. When the distributor is
  also synchronized, then to a time after its last update and inside its epoch. The entry slot that is consolidated is
  one a spend of this distributor created for the custody address, that of the first coin listed for the address that has one;
  none is consolidated only when no coin listed has one. And over a node that answers for a coin id with that coin,
  the asset fits the distributor and the options: the NFT asked for, in a collection with the coins that lead from a
  spent coin of the collection's DID down to its launcher, in a whitelist with its weight in the file given, whose root
  is the datastore's; or the CAT staked there in the amount asked for.
\<close>

theorem stake_sound:
  assumes "\<And>i r. cl_coin_record_by_name client i = Inr (Some r) \<Longrightarrow> sdk_coin_id sdk (cr_coin r) = i"
    and "reward_distributor_stake True sdk ms cv standard_hash from_spend ds dc client wallet opts db
      = (Some (Returned (Inr (sync_to, existing_slot, asset))), db')"
  shows "\<exists>launcher_id constants d sage custody records.
    hex_string_to_bytes32 sdk (so_launcher_id_str opts) = Inr launcher_id \<and>
    sync_distributor sdk ds client launcher_id db = (Inr d, db') \<and>
    fst (distributor_constants_of ds client launcher_id db) = Inr constants \<and>
    ((\<exists>tip. shown_on_chain ds client constants tip \<and> d = after_pending sdk ds client constants tip) \<or>
     (\<nexists>tip. shown_on_chain ds client constants tip) \<and> eve_distributor sdk ds client launcher_id = Inr d) \<and>
    \<not> is_managed (rc_type (rd_constants d)) \<and>
    (case sync_to of None \<Rightarrow> True | Some t \<Rightarrow> rd_last_update d < t \<and> t \<le> rd_epoch_end d) \<and>
    wallet = Inr sage \<and>
    resolve_custody True sdk cv standard_hash sage (so_custody_address opts) = Some (Returned (Inr custody)) \<and>
    cl_coin_records_by_hint client (ci_puzzle_hash custody) = Inr (Some records) \<and>
    (case existing_slot of
       None \<Rightarrow> \<forall>r \<in> set records. \<nexists>slot. created_entry_slot ds client (rd_constants d) (ci_puzzle_hash custody) r slot
     | Some slot \<Rightarrow> \<exists>before r after. records = before @ r # after \<and>
         created_entry_slot ds client (rd_constants d) (ci_puzzle_hash custody) r slot \<and>
         (\<forall>r \<in> set before. \<nexists>slot. created_entry_slot ds client (rd_constants d) (ci_puzzle_hash custody) r slot)) \<and>
    asset_fits sdk ms cv from_spend dc client opts (rc_type (rd_constants d)) asset"
proof -
  from with_distributor_Inr [OF assms(2) [unfolded reward_distributor_stake_def]] obtain launcher_id fee d where
    launcher: "launcher_and_fee True sdk (so_launcher_id_str opts) (so_fee_str opts) = Returned (Inr (launcher_id, fee))"
    and synced: "sync_distributor sdk ds client launcher_id db = (Inr d, db')"
    and rest: "(let distributor_type = rc_type (rd_constants d)
         in if is_managed distributor_type
            then given (Inl (Custom ''Managed distributors use sign-entry-update / broadcast-entry-update, not stake''))
            else
              then_try (open_epoch_sync True client d) (\<lambda>sync_to.
              then_try (given wallet) (\<lambda>sage.
              then_try (resolve_custody True sdk cv standard_hash sage (so_custody_address opts)) (\<lambda>custody.
              then_try (given (first_entry_slot ds client (rd_constants d) (ci_puzzle_hash custody)))
                (\<lambda>existing_slot.
              then_try (stake_asset_of True sdk ms cv from_spend dc client opts distributor_type) (\<lambda>asset.
                given (Inr (sync_to, existing_slot, asset)))))))) = Some (Returned (Inr (sync_to, existing_slot, asset)))"
    by blast
  from rest obtain sage custody where unmanaged: "\<not> is_managed (rc_type (rd_constants d))"
    and sync: "open_epoch_sync True client d = Some (Returned (Inr sync_to))"
    and wallet: "wallet = Inr sage"
    and custody: "resolve_custody True sdk cv standard_hash sage (so_custody_address opts) = Some (Returned (Inr custody))"
    and slot: "first_entry_slot ds client (rd_constants d) (ci_puzzle_hash custody) = Inr existing_slot"
    and asset: "stake_asset_of True sdk ms cv from_spend dc client opts (rc_type (rd_constants d))
      = Some (Returned (Inr asset))"
    by (auto simp: Let_def result_simps split: if_splits)
  have time: "case sync_to of None \<Rightarrow> True | Some t \<Rightarrow> rd_last_update d < t \<and> t \<le> rd_epoch_end d"
    using sync open_epoch_sync_between by (auto split: option.split)
  note source = sync_distributor_source [OF synced] and entry = first_entry_slot_Inr [OF slot]
    and fits = stake_asset_of_fits [OF assms(1) asset]
  from source obtain constants where "fst (distributor_constants_of ds client launcher_id db) = Inr constants"
    and "(\<exists>tip. shown_on_chain ds client constants tip \<and> d = after_pending sdk ds client constants tip) \<or>
     (\<nexists>tip. shown_on_chain ds client constants tip) \<and> eve_distributor sdk ds client launcher_id = Inr d"
    by (elim exE conjE)
  moreover from entry obtain records where "cl_coin_records_by_hint client (ci_puzzle_hash custody) = Inr (Some records)"
    and "case existing_slot of
       None \<Rightarrow> \<forall>r \<in> set records. \<nexists>slot. created_entry_slot ds client (rd_constants d) (ci_puzzle_hash custody) r slot
     | Some slot \<Rightarrow> \<exists>before r after. records = before @ r # after \<and>
         created_entry_slot ds client (rd_constants d) (ci_puzzle_hash custody) r slot \<and>
         (\<forall>r \<in> set before. \<nexists>slot. created_entry_slot ds client (rd_constants d) (ci_puzzle_hash custody) r slot)"
    by (elim exE conjE)
  ultimately show ?thesis
    using launcher_and_fee_Inr [OF launcher] synced wallet custody unmanaged time fits by (intro exI conjI)
qed

text \<open>
  A distributor that the chain shows in the coin with id 1021031, for the witnesses: its launcher is 1, the file
  and every hint give the coin \<open>example_record\<close>, and the custody key's puzzle hash is 77. The collection's DID is 7, its coin
  has the id 51 and the NFT's launcher, created by it, the id 51031.
\<close>

definition shown_constants :: "distributor_type \<Rightarrow> distributor_type distributor_constants" where
  "shown_constants t = \<lparr>rc_launcher_id = 1, rc_reserve_asset_id = 8, rc_epoch_seconds = 10, rc_type = t\<rparr>"

definition shown_entry :: entry_slot_value where
  "shown_entry = \<lparr>ev_payout_puzzle_hash = 77, ev_initial_cumulative_payout = 0, ev_shares = 2\<rparr>"

definition shown_distributor :: "distributor_type \<Rightarrow> distributor_type distributor" where
  "shown_distributor t =
     \<lparr>rd_coin = example_tip_coin, rd_constants = shown_constants t, rd_last_update = 20, rd_epoch_end = 1000,
      rd_created_reward_slots = [example_reward_value 1000], rd_created_commitment_slots = [],
      rd_created_entry_slots = [shown_entry]\<rparr>"

definition shown_ds :: "distributor_type \<Rightarrow> (distributor_type, unit) distributor_sdk" where
  "shown_ds t =
     \<lparr>ds_from_parent_spend = (\<lambda>_ _. Inr (Some (shown_distributor t))),
      ds_from_spend = (\<lambda>_ _. Inr (Some (shown_distributor t))), ds_from_mempool_item = (\<lambda>_ _. Inr None),
      ds_from_launcher = (\<lambda>c _. Inr (Some (shown_constants t, (), c))), ds_from_eve = (\<lambda>_ _ _ _ _. Inr None),
      ds_initial_epoch_end = (\<lambda>_. 1000), ds_epoch_hint = (\<lambda>e. ucast e), ds_reserve_inner_hash = (\<lambda>_ _. 0),
      ds_cat_puzzle_hash = (\<lambda>_ h. h), ds_cat_inner_hash = (\<lambda>_. Inr (Some 5)),
      ds_singleton_inner_hash = (\<lambda>_. Inr None), ds_eve_reward_slot = (\<lambda>_ _. example_slot),
      ds_reward_slot = (\<lambda>_. example_slot), ds_commitment_slot = (\<lambda>_. example_slot),
      ds_entry_slot = (\<lambda>_. example_slot),
      ds_constants_codec = \<lparr>cc_to_bytes = (\<lambda>_. Inr []), cc_from_bytes = (\<lambda>_. Inr (shown_constants t))\<rparr>\<rparr>"

definition launcher_coin :: coin where
  "launcher_coin = \<lparr>parent_coin_info = 0, puzzle_hash = 0, amount = 1\<rparr>"

definition did_coin :: coin where
  "did_coin = \<lparr>parent_coin_info = 0, puzzle_hash = 5, amount = 1\<rparr>"

definition nft_coin :: coin where
  "nft_coin = \<lparr>parent_coin_info = 51, puzzle_hash = 3, amount = 1\<rparr>"

definition spent_record :: "coin \<Rightarrow> coin_record" where
  "spent_record c = \<lparr>cr_coin = c, cr_confirmed_block_index = 5, cr_spent_block_index = 6, cr_spent = True\<rparr>"

definition shown_client :: client where
  "shown_client = example_client
     \<lparr>cl_coin_record_by_name := (\<lambda>i. Inr (if i = 51 then Some (spent_record did_coin)
        else if i = 51031 then Some (spent_record nft_coin)
        else if i = 1 then Some (spent_record launcher_coin) else None)),
      cl_coin_records_by_hint := (\<lambda>_. Inr (Some [example_record])),
      cl_coin_records_by_puzzle_hash := (\<lambda>_ _. Inr (Some [example_record])),
      cl_puzzle_and_solution := (\<lambda>i _. Inr (Some
        \<lparr>spend_coin = example_spent_coin, puzzle_reveal = (if i = 51 then [7] else []), spend_solution = []\<rparr>)),
      cl_blockchain_state := Inr (Some \<lparr>bp_height = 100, bp_timestamp = Some 500\<rparr>)\<rparr>"

definition shown_db :: db where
  "shown_db = db_new\<lparr>db_reward_distributor_configurations := [(to_bytes (1 :: bytes32), [])]\<rparr>"

definition shown_cv :: "nat csv_sdk" where
  "shown_cv = \<lparr>cv_address_decode = (\<lambda>s. Some (if s = ''nft1'' then (''nft'', 51031) else (''xch'', 77))),
     cv_u64 = (\<lambda>_. Some 6), cv_u8 = (\<lambda>_. None), cv_pubkey_from_bytes = (\<lambda>_. Some 1)\<rparr>"

definition shown_sage :: sage where
  "shown_sage = \<lparr>sg_check_address = (\<lambda>_. Inr True), sg_derivations = (\<lambda>hardened offset limit.
     Inr ([\<lparr>dv_address = ''xch1'', dv_public_key = hex_encode (replicate 48 0)\<rparr>], 1))\<rparr>"

definition shown_commands :: "bytes32 commands_sdk" where
  "shown_commands =
     \<lparr>dc_deposit_hash = (\<lambda>_ _ _ _. 3), dc_clawback_hash = (\<lambda>i h. i + h),
      dc_cat_layer = (\<lambda>_. Inr (Some (8, 12))),
      dc_singleton_layer = (\<lambda>p. Inr (case p of [] \<Rightarrow> None | b # _ \<Rightarrow> Some (ucast b, 9))),
      dc_nft_launcher = (\<lambda>nft. nft)\<rparr>"

lemmas shown_simps = shown_constants_def shown_entry_def shown_distributor_def shown_ds_def shown_client_def
  shown_cv_def shown_sage_def shown_commands_def spent_record_def example_record_def example_client_def
  example_reward_value_def example_slot_def

lemma shown_synced:
  "sync_distributor fixture_sdk (shown_ds t) shown_client 1 shown_db = (Inr (shown_distributor t), shown_db)"
proof -
  have "distributor_constants_of (shown_ds t) shown_client 1 shown_db = (Inr (shown_constants t), shown_db)"
    by (simp add: distributor_constants_of_def get_reward_distributor_configuration_def shown_db_def db_new_def
        db_query_def db_read_def shown_ds_def optional_constants_def)
  then show ?thesis
    by (simp add: sync_distributor_def required_def db_read_def shown_simps pending_distributor_def)
qed

lemma shown_launcher:
  "launcher_and_fee True fixture_sdk (hex32 fixture_sdk 1) ''0.0'' = Returned (Inr (1, 0))"
  by (simp add: launcher_and_fee_def hex_string_roundtrip [OF fixture_hex_codec_ok] zero_amount)

lemma shown_custody:
  "resolve_custody True fixture_sdk shown_cv (\<lambda>_. 77) shown_sage None =
     Some (Returned (Inr \<lparr>ci_puzzle_hash = 77, ci_public_key = 1, ci_address = ''xch1''\<rparr>))"
proof -
  have "CHR ''x'' \<notin> set (hex_encode (replicate 48 0))"
    using hex_encode_laws [of "replicate 48 0"] by (auto simp: hex_digits_def)
  then have "remove_0x (hex_encode (replicate 48 0)) = hex_encode (replicate 48 0)" by (rule remove_0x_id)
  then have "hex_string_to_pubkey fixture_sdk shown_cv (hex_encode (replicate 48 0)) = Inr 1"
    using hex_encode_laws [of "replicate 48 0"]
    by (simp add: hex_string_to_pubkey_def shown_cv_def del: hex_encode.simps replicate.simps replicate_Suc)
  then show ?thesis
    by (simp add: resolve_custody_def shown_sage_def custody_of_def shown_cv_def
        del: hex_encode.simps replicate.simps replicate_Suc)
qed

lemma shown_entry_slot:
  "first_entry_slot (shown_ds t) shown_client (shown_constants t) 77 = Inr (Some (example_slot shown_entry))"
  by (simp add: first_entry_slot_def find_entry_slots_def required_def shown_simps entry_slot_of_def wanted_def Let_def)

lemma shown_epoch: "open_epoch_sync True shown_client (shown_distributor t) = Some (Returned (Inr (Some 500)))"
  by (simp add: open_epoch_sync_def get_last_onchain_timestamp_def required_def shown_simps ensure_epoch_open_def
      also_sync_def)

definition shown_stake :: stake_options where
  "shown_stake = \<lparr>so_launcher_id_str = hex32 fixture_sdk 1, so_nft_id_str = Some ''nft1'', so_csv = None,
     so_stake_amount_str = None, so_custody_address = None, so_fee_str = ''0.0''\<rparr>"

lemma shown_nft_proof:
  "nft_launcher_proof shown_commands shown_client 7 51031 = Some (Inr
     (\<lparr>lp_parent_parent_coin_info = 0, lp_parent_inner_puzzle_hash = 9, lp_parent_amount = 1\<rparr>, [(3, 1)]))"
proof -
  have "nft_ancestry shown_commands shown_client 7 51031 [spent_record nft_coin, spent_record did_coin]
      \<lparr>lp_parent_parent_coin_info = 0, lp_parent_inner_puzzle_hash = 9, lp_parent_amount = 1\<rparr>"
    by (simp add: shown_simps did_of_def required_def nft_coin_def did_coin_def)
  from nft_proof_from_ancestry [OF this] show ?thesis
    by (simp add: nft_launcher_proof_def coin_step_def spent_record_def nft_coin_def)
qed

lemma stake_sound_witness:
  "\<exists>coins. reward_distributor_stake True fixture_sdk example_merkle shown_cv (\<lambda>_. 77) (\<lambda>_ _. Inr None)
       (shown_ds (NftCollection 7)) shown_commands shown_client (Inr shown_sage) shown_stake shown_db =
     (Some (Returned (Inr (Some 500, Some (example_slot shown_entry), StakeCollectionNft 51031
        \<lparr>lp_parent_parent_coin_info = 0, lp_parent_inner_puzzle_hash = 9, lp_parent_amount = 1\<rparr> coins))), shown_db) \<and>
     (\<exists>did_coin. parent_coin_info did_coin = 0 \<and> foldl (child_id fixture_sdk) (sdk_coin_id fixture_sdk did_coin) coins = 51031)"
proof -
  have asset: "stake_asset_of True fixture_sdk example_merkle shown_cv (\<lambda>_ _. Inr None) shown_commands shown_client shown_stake
      (NftCollection 7) = Some (Returned (Inr (StakeCollectionNft 51031
        \<lparr>lp_parent_parent_coin_info = 0, lp_parent_inner_puzzle_hash = 9, lp_parent_amount = 1\<rparr> [(3, 1)])))"
    by (simp add: stake_asset_of_def shown_stake_def shown_cv_def shown_nft_proof)
  have run: "reward_distributor_stake True fixture_sdk example_merkle shown_cv (\<lambda>_. 77) (\<lambda>_ _. Inr None)
       (shown_ds (NftCollection 7)) shown_commands shown_client (Inr shown_sage) shown_stake shown_db =
     (Some (Returned (Inr (Some 500, Some (example_slot shown_entry), StakeCollectionNft 51031
        \<lparr>lp_parent_parent_coin_info = 0, lp_parent_inner_puzzle_hash = 9, lp_parent_amount = 1\<rparr> [(3, 1)]))), shown_db)"
    using asset shown_launcher shown_custody shown_entry_slot shown_epoch
    by (simp add: reward_distributor_stake_def with_distributor_def shown_synced shown_stake_def Let_def is_managed_def
        shown_distributor_def shown_constants_def)
  have honest: "sdk_coin_id fixture_sdk (cr_coin r) = i" if "cl_coin_record_by_name shown_client i = Inr (Some r)" for i r
    using that by (auto simp: shown_client_def spent_record_def did_coin_def nft_coin_def launcher_coin_def fixture_sdk_def split: if_splits)
  have "hex_string_to_bytes32 fixture_sdk (so_launcher_id_str shown_stake) = Inr 1"
    by (simp add: shown_stake_def hex_string_roundtrip [OF fixture_hex_codec_ok])
  with stake_sound [OF honest run] have "asset_fits fixture_sdk example_merkle shown_cv (\<lambda>_ _. Inr None) shown_commands
      shown_client shown_stake (NftCollection 7) (StakeCollectionNft 51031
        \<lparr>lp_parent_parent_coin_info = 0, lp_parent_inner_puzzle_hash = 9, lp_parent_amount = 1\<rparr> [(3, 1)])"
    by (auto simp: shown_synced shown_distributor_def shown_constants_def simp del: asset_fits.simps)
  with run show ?thesis by (intro exI [of _ "[(3, 1)]"] conjI) auto
qed

section \<open>Refreshing\<close>

text \<open>
  C23. What \<open>refresh\<close> hands on is sound: the distributor is a refreshable one of a whitelist, the file's root is the
  one of its datastore, and the changes are, in the order the locked NFTs are listed, exactly those of the NFTs
  whose weight in the file differs from the shares they are locked with. Each carries the file's weight and
  the difference as a signed number: both are below \<open>2 ^ 63\<close>, so the subtraction is exact. There is
  at least one change; an NFT that is not in the file makes the command fail.
\<close>

theorem refresh_sound:
  assumes "reward_distributor_refresh True sdk ms cv standard_hash from_spend ds lk dc client wallet launcher_id_str
      file custody_address fee_str db = (Some (Returned (Inr (sync_to, entry_slot, changes))), db')"
  shows "\<exists>launcher_id d store datastore records custody locked weight.
    sync_distributor sdk ds client launcher_id db = (Inr d, db') \<and>
    rc_type (rd_constants d) = CuratedNft store True \<and>
    (case sync_to of None \<Rightarrow> True | Some t \<Rightarrow> rd_last_update d < t \<and> t \<le> rd_epoch_end d) \<and>
    sync_datastore sdk from_spend client store oracle_delegated_puzzles = Inr datastore \<and>
    load_and_dedupe_csv ms cv file = Inr records \<and> build_root_hash ms records = Inr (ds_root_hash datastore) \<and>
    find_locked_nfts lk client launcher_id custody (ev_shares (slot_value entry_slot)) = Inr locked \<and>
    (\<forall>(nft, old) \<in> set locked. \<lparr>dn_nft_id = dc_nft_launcher dc nft, dn_weight = weight nft\<rparr> \<in> set records) \<and>
    map (\<lambda>c. (sh_nft c, sh_new_shares c, sint (sh_delta c))) changes =
      map (\<lambda>(nft, old). (nft, weight nft, int (unat (weight nft)) - int (unat old)))
        (filter (\<lambda>(nft, old). weight nft \<noteq> old) locked) \<and>
    changes \<noteq> []"
proof -
  from with_distributor_Inr [OF assms [unfolded reward_distributor_refresh_def]] obtain launcher_id fee d where
    synced: "sync_distributor sdk ds client launcher_id db = (Inr d, db')"
    and rest: "then_try (given (refresh_store (rc_type (rd_constants d)))) (\<lambda>store_launcher_id.
         then_try (open_epoch_sync True client d) (\<lambda>sync_to.
         then_try (given (whitelist sdk ms cv from_spend client file store_launcher_id)) (\<lambda>records.
         then_try (given wallet) (\<lambda>sage.
         then_try (resolve_custody True sdk cv standard_hash sage custody_address) (\<lambda>custody.
         then_try (given (required (first_entry_slot ds client (rd_constants d) (ci_puzzle_hash custody))
                            (SlotNotFound ''Entry''))) (\<lambda>entry_slot.
         then_try (given (find_locked_nfts lk client launcher_id (ci_puzzle_hash custody)
                            (ev_shares (slot_value entry_slot)))) (\<lambda>locked_nfts.
           if locked_nfts = [] then given (Inl (Custom ''No locked NFTs found for refresh at this custody address''))
           else
             then_try (given (share_changes (\<lambda>nft. merkle_proof_for_nft sdk ms records (dc_nft_launcher dc nft))
                                locked_nfts)) (\<lambda>changes.
               if changes = []
               then given (Inl (Custom ''No locked NFTs need refreshing - CSV weights match current locked shares''))
               else given (Inr (sync_to, entry_slot, changes)))))))))) = Some (Returned (Inr (sync_to, entry_slot, changes)))"
    by blast
  then obtain store records custody locked where
    store: "refresh_store (rc_type (rd_constants d)) = Inr store"
    and sync: "open_epoch_sync True client d = Some (Returned (Inr sync_to))"
    and records: "whitelist sdk ms cv from_spend client file store = Inr records"
    and locked: "find_locked_nfts lk client launcher_id custody (ev_shares (slot_value entry_slot)) = Inr locked"
    and changes: "share_changes (\<lambda>nft. merkle_proof_for_nft sdk ms records (dc_nft_launcher dc nft)) locked = Inr changes"
    and some: "changes \<noteq> []"
    by (auto simp: result_simps split: if_splits)
  let ?entry = "\<lambda>nft. merkle_proof_for_nft sdk ms records (dc_nft_launcher dc nft)"
  from store have "rc_type (rd_constants d) = CuratedNft store True"
    by (auto simp: refresh_store_def split: distributor_type.splits bool.splits)
  moreover have "case sync_to of None \<Rightarrow> True | Some t \<Rightarrow> rd_last_update d < t \<and> t \<le> rd_epoch_end d"
    using sync open_epoch_sync_between by (auto split: option.split)
  moreover from share_changes_Inr [OF changes] have
    "\<forall>(nft, old) \<in> set locked. \<lparr>dn_nft_id = dc_nft_launcher dc nft, dn_weight = csv_weight ?entry nft\<rparr> \<in> set records"
    by (auto dest!: merkle_proof_for_nft_Inr)
  moreover note whitelist_Inr [OF records] share_changes_Inr [OF changes, THEN conjunct2]
  ultimately show ?thesis using synced locked some by blast
qed

text \<open>A whitelist of the NFT 51031 with the weight 6, locked with two shares.\<close>

definition shown_file :: csv_file where
  "shown_file = Inr [Some (\<lambda>column. Some ''nft1'')]"

definition shown_merkle :: "bytes32 list merkle_sdk" where
  "shown_merkle = example_merkle\<lparr>ms_tree_proof := (\<lambda>_ _. Some \<lparr>mp_path = 0, mp_proof = []\<rparr>)\<rparr>"

definition shown_store :: datastore_parser where
  "shown_store = (\<lambda>_ _. Inr (Some \<lparr>ds_coin = example_tip_coin, ds_launcher_id = 3, ds_root_hash = 510316\<rparr>))"

definition shown_locked :: "bytes32 locked_sdk" where
  "shown_locked = \<lparr>lk_hint = (\<lambda>_ _. 4), lk_nft_p2 = (\<lambda>_ _ shares. ucast shares),
     lk_nft_child = (\<lambda>_. Inr (Some (51031, 2))), lk_cat_children = (\<lambda>_. Inr None), lk_alloc = (\<lambda>_. Inr ())\<rparr>"

lemma shown_whitelist:
  "whitelist fixture_sdk shown_merkle shown_cv shown_store shown_client shown_file 3 =
     Inr [\<lparr>dn_nft_id = 51031, dn_weight = 6\<rparr>]"
proof -
  have "load_and_dedupe_csv shown_merkle shown_cv shown_file = Inr [\<lparr>dn_nft_id = 51031, dn_weight = 6\<rparr>]"
    by (simp add: load_and_dedupe_csv_def load_datastore_nft_csv_def load_csv_def shown_file_def shown_cv_def
        decode_nft_id_def reject_duplicates_def)
  moreover have "build_root_hash shown_merkle [\<lparr>dn_nft_id = 51031, dn_weight = 6\<rparr>] = Inr 510316"
    by (simp add: build_root_hash_def build_merkle_tree_def reject_duplicates_def shown_merkle_def example_merkle_def
        leaf_hash_def)
  moreover have "sync_datastore fixture_sdk shown_store shown_client 3 oracle_delegated_puzzles =
      Inr \<lparr>ds_coin = example_tip_coin, ds_launcher_id = 3, ds_root_hash = 510316\<rparr>"
    by (simp add: sync_datastore_def required_def shown_client_def example_record_def shown_store_def example_client_def)
  ultimately show ?thesis by (simp add: whitelist_def load_csv_matching_root_def)
qed

lemma refresh_sound_witness:
  "\<exists>p. reward_distributor_refresh True fixture_sdk shown_merkle shown_cv (\<lambda>_. 77) shown_store
       (shown_ds (CuratedNft 3 True)) shown_locked shown_commands shown_client (Inr shown_sage)
       (hex32 fixture_sdk 1) shown_file None ''0.0'' shown_db =
     (Some (Returned (Inr (Some 500, example_slot shown_entry,
        [\<lparr>sh_nft = 51031, sh_delta = 4, sh_new_shares = 6, sh_proof = p\<rparr>]))), shown_db) \<and>
     sint (4 :: u64) = 4"
proof -
  let ?p = "\<lparr>mp_path = 0, mp_proof = []\<rparr>"
  let ?changes = "[\<lparr>sh_nft = 51031 :: bytes32, sh_delta = 4, sh_new_shares = 6, sh_proof = ?p\<rparr>]"
  have "locked_shares shown_locked 77 1 2 2 = Some 2"
    by (simp add: locked_shares_def shown_locked_def upt_conv_Cons)
  then have locked: "find_locked_nfts shown_locked shown_client 1 77 2 = Inr [(51031, 2)]"
    by (simp add: find_locked_nfts_def shown_client_def shown_locked_def required_def Let_def)
  have changes: "share_changes (\<lambda>nft. merkle_proof_for_nft fixture_sdk shown_merkle
      [\<lparr>dn_nft_id = 51031, dn_weight = 6\<rparr>] (dc_nft_launcher shown_commands nft)) [(51031, 2)] = Inr ?changes"
    by (simp add: shown_commands_def merkle_proof_for_nft_def build_merkle_tree_def reject_duplicates_def shown_merkle_def try_i64_def
        Let_def)
  have run: "reward_distributor_refresh True fixture_sdk shown_merkle shown_cv (\<lambda>_. 77) shown_store
       (shown_ds (CuratedNft 3 True)) shown_locked shown_commands shown_client (Inr shown_sage)
       (hex32 fixture_sdk 1) shown_file None ''0.0'' shown_db =
     (Some (Returned (Inr (Some 500, example_slot shown_entry, ?changes))), shown_db)"
    using shown_epoch [of "CuratedNft 3 True"] shown_entry_slot [of "CuratedNft 3 True"]
    by (simp add: reward_distributor_refresh_def with_distributor_def shown_synced shown_launcher refresh_store_def
        shown_distributor_def shown_constants_def shown_custody shown_whitelist required_def
        example_slot_def shown_entry_def locked changes del: share_changes.simps)
  from refresh_sound [OF run] have "map (\<lambda>c. sint (sh_delta c)) ?changes = [4]"
    by (auto simp: shown_synced shown_distributor_def shown_constants_def example_slot_def shown_entry_def)
  with run show ?thesis by auto
qed

section \<open>Committing what lies at the deposit address\<close>

lemma checked_total_Inr:
  "checked_total paid records = Inr total_paid \<Longrightarrow>
     unat total_paid = unat paid + (\<Sum>r \<leftarrow> records. unat (amount (cr_coin r)))"
  by (induction records arbitrary: paid) (auto simp: result_simps checked_add_Some)

lemma committed_cats_coins:
  "committed_cats sdk dc client asset clawback records = Inr cats \<Longrightarrow> map cc_coin cats = map cr_coin records"
proof (induction records arbitrary: cats)
  case (Cons r records)
  from Cons.prems show ?case
    by (auto simp: Let_def result_simps split: if_splits dest!: Cons.IH)
qed simp

lemma available_coins_lowest:
  assumes "taken = available_coins sdk ph n records"
  shows "length taken \<le> n" and "sorted (map (\<lambda>r. sdk_coin_id sdk (cr_coin r)) taken)"
    and "r \<in> set taken \<Longrightarrow> r \<in> set records \<and> \<not> cr_spent r \<and> puzzle_hash (cr_coin r) = ph"
    and "r \<in> set records \<Longrightarrow> \<not> cr_spent r \<Longrightarrow> puzzle_hash (cr_coin r) = ph \<Longrightarrow>
      r \<in> set taken \<or> length taken = n \<and>
        (\<forall>t \<in> set taken. sdk_coin_id sdk (cr_coin t) \<le> sdk_coin_id sdk (cr_coin r))"
proof -
  let ?id = "\<lambda>r. sdk_coin_id sdk (cr_coin r)"
  let ?all = "sort_key ?id (filter (\<lambda>r. \<not> cr_spent r \<and> puzzle_hash (cr_coin r) = ph) records)"
  have taken: "taken = take n ?all" using assms by (simp add: available_coins_def)
  have "sorted (map ?id (take n ?all @ drop n ?all))" by simp
  then have order: "sorted (map ?id (take n ?all))"
    "\<forall>t \<in> set (take n ?all). \<forall>r \<in> set (drop n ?all). ?id t \<le> ?id r"
    unfolding map_append sorted_append by auto
  show "length taken \<le> n" "sorted (map ?id taken)" using order(1) by (simp_all add: taken)
  show "r \<in> set records \<and> \<not> cr_spent r \<and> puzzle_hash (cr_coin r) = ph" if "r \<in> set taken"
    using in_set_takeD [OF that [unfolded taken]] by simp
  show "r \<in> set taken \<or> length taken = n \<and> (\<forall>t \<in> set taken. ?id t \<le> ?id r)"
    if "r \<in> set records" "\<not> cr_spent r" "puzzle_hash (cr_coin r) = ph"
  proof (cases "r \<in> set (drop n ?all)")
    case True
    then have "n < length ?all" by (cases "n < length ?all") auto
    with True order(2) show ?thesis unfolding taken by simp
  next
    case False
    from that have "r \<in> set (take n ?all @ drop n ?all)" unfolding append_take_drop_id by simp
    with False show ?thesis unfolding taken set_append by blast
  qed
qed

text \<open>The deposit address of a distributor, for the clawback address of the depositor, and where its coins may go back to.\<close>

definition deposit_address ::
  "(distributor_type, 'i) distributor_sdk \<Rightarrow> 'nft commands_sdk \<Rightarrow> distributor_type distributor_constants \<Rightarrow> 'i \<Rightarrow> bytes32
    \<Rightarrow> bytes32"
where
  "deposit_address ds dc constants initial_state clawback_ph =
     ds_cat_puzzle_hash ds (rc_reserve_asset_id constants)
       (dc_deposit_hash dc clawback_ph (rc_launcher_id constants) (ds_initial_epoch_end ds initial_state)
         (rc_epoch_seconds constants))"

lemma committed_cats_clawback:
  "committed_cats sdk dc client asset clawback records = Inr cats \<Longrightarrow>
     \<forall>c \<in> set cats. cc_clawback_hash c = dc_clawback_hash dc (sdk_coin_id sdk (cc_coin c)) clawback"
proof (induction records arbitrary: cats)
  case (Cons r records)
  from Cons.prems show ?case
    by (auto simp: Let_def result_simps split: if_splits dest!: Cons.IH)
qed simp

text \<open>
  C24. What \<open>commit-available-rewards\<close> commits: at least one and at most \<open>max_coins\<close> (itself at most 32) unspent coins
  of the deposit address, the ones with the lowest ids, in the order of their ids: a coin of the address is
  left out only when \<open>max_coins\<close> coins with lower ids are taken, so that repeating the command reaches
  every coin. The deposit address is the one of the distributor launched by the launcher asked for, with its reserve's asset, and of
  the clawback address given, 0 when none is; every coin can be clawed back to that address alone. The total is
  the exact sum of the amounts, and they are committed from the reward slot found for the epoch that is open.
\<close>

theorem commit_available_sound:
  assumes "reward_distributor_commit_available_rewards checks sdk cv ds dc client launcher_id_str clawback_address
      max_coins fee_str db = (Some (Returned (Inr (reward_slot, total_rewards, cats))), db')"
  shows "\<exists>launcher_id clawback_ph constants initial_state d answer.
    hex_string_to_bytes32 sdk launcher_id_str = Inr launcher_id \<and>
    (case clawback_address of None \<Rightarrow> clawback_ph = 0
     | Some address \<Rightarrow> \<exists>prefix. cv_address_decode cv address = Some (prefix, clawback_ph)) \<and>
    launched_constants ds client launcher_id = Inr (constants, initial_state) \<and>
    sync_distributor sdk ds client launcher_id db = (Inr d, db') \<and>
    find_reward_slot checks ds client constants (rd_epoch_end d) = Some (Returned (Inr reward_slot)) \<and>
    cl_coin_records_by_puzzle_hash client (deposit_address ds dc constants initial_state clawback_ph) False = Inr answer \<and>
    cats \<noteq> [] \<and> length cats \<le> max_coins \<and> max_coins \<le> 32 \<and>
    sorted (map (\<lambda>c. sdk_coin_id sdk (cc_coin c)) cats) \<and>
    unat total_rewards = (\<Sum>c \<leftarrow> cats. unat (amount (cc_coin c))) \<and>
    (\<forall>c \<in> set cats. cc_clawback_hash c = dc_clawback_hash dc (sdk_coin_id sdk (cc_coin c)) clawback_ph) \<and>
    (\<forall>c \<in> set cats. \<exists>r \<in> set (unwrap_or answer []). \<not> cr_spent r \<and> cr_coin r = cc_coin c \<and>
       puzzle_hash (cr_coin r) = deposit_address ds dc constants initial_state clawback_ph) \<and>
    (\<forall>r \<in> set (unwrap_or answer []).
       \<not> cr_spent r \<and> puzzle_hash (cr_coin r) = deposit_address ds dc constants initial_state clawback_ph \<longrightarrow>
       cr_coin r \<in> set (map cc_coin cats) \<or>
       length cats = max_coins \<and> (\<forall>c \<in> set cats. sdk_coin_id sdk (cc_coin c) \<le> sdk_coin_id sdk (cr_coin r)))"
proof -
  from assms have bounded: "max_coins \<le> 32"
    by (auto simp: reward_distributor_commit_available_rewards_def split: if_splits)
  from assms obtain launcher_id clawback_ph constants initial_state d where
    inputs: "hex_string_to_bytes32 sdk launcher_id_str = Inr launcher_id"
      "case clawback_address of None \<Rightarrow> clawback_ph = 0
       | Some address \<Rightarrow> \<exists>prefix. cv_address_decode cv address = Some (prefix, clawback_ph)"
      "launched_constants ds client launcher_id = Inr (constants, initial_state)"
    and synced: "sync_distributor sdk ds client launcher_id db = (Inr d, db')"
    and rest: "available_rewards checks sdk ds dc client constants initial_state clawback_ph max_coins d
      = Some (Returned (Inr (reward_slot, total_rewards, cats)))"
    by (auto simp: reward_distributor_commit_available_rewards_def result_simps split: if_splits prod.splits option.splits
        dest!: with_distributor_Inr)
  let ?ph = "deposit_address ds dc constants initial_state clawback_ph"
  from rest obtain answer records where answer: "cl_coin_records_by_puzzle_hash client ?ph False = Inr answer"
    and records: "records = available_coins sdk ?ph max_coins (unwrap_or answer [])" and some: "records \<noteq> []"
    and slot: "find_reward_slot checks ds client constants (rd_epoch_end d) = Some (Returned (Inr reward_slot))"
    and paid: "checked_total 0 records = Inr total_rewards"
    and cats: "committed_cats sdk dc client (rc_reserve_asset_id constants) clawback_ph records = Inr cats"
    by (auto simp: available_rewards_def deposit_address_def Let_def result_simps split: if_splits)
  note lowest = available_coins_lowest [OF records] and coins = committed_cats_coins [OF cats]
  have len: "length cats = length records" using arg_cong [OF coins, of length] by simp
  have ids: "map (\<lambda>c. sdk_coin_id sdk (cc_coin c)) cats = map (\<lambda>r. sdk_coin_id sdk (cr_coin r)) records"
    using arg_cong [OF coins, of "map (sdk_coin_id sdk)"] by (simp add: comp_def)
  have amounts: "map (\<lambda>c. unat (amount (cc_coin c))) cats = map (\<lambda>r. unat (amount (cr_coin r))) records"
    using arg_cong [OF coins, of "map (\<lambda>c. unat (amount c))"] by (simp add: comp_def)
  have sets: "cc_coin ` set cats = cr_coin ` set records" using arg_cong [OF coins, of set] by simp
  have "cats \<noteq> []" using some len by auto
  moreover have "length cats \<le> max_coins" using lowest(1) len by simp
  moreover have "sorted (map (\<lambda>c. sdk_coin_id sdk (cc_coin c)) cats)" using lowest(2) ids by simp
  moreover have "unat total_rewards = (\<Sum>c \<leftarrow> cats. unat (amount (cc_coin c)))"
    using checked_total_Inr [OF paid] amounts by simp
  moreover have "\<exists>r \<in> set (unwrap_or answer []). \<not> cr_spent r \<and> cr_coin r = cc_coin c \<and> puzzle_hash (cr_coin r) = ?ph"
    if "c \<in> set cats" for c
  proof -
    from that sets obtain r where "r \<in> set records" "cr_coin r = cc_coin c" by (metis image_iff)
    with lowest(3) show ?thesis by blast
  qed
  moreover have "cr_coin r \<in> set (map cc_coin cats) \<or>
      length cats = max_coins \<and> (\<forall>c \<in> set cats. sdk_coin_id sdk (cc_coin c) \<le> sdk_coin_id sdk (cr_coin r))"
    if "r \<in> set (unwrap_or answer [])" "\<not> cr_spent r \<and> puzzle_hash (cr_coin r) = ?ph" for r
  proof (cases "r \<in> set records")
    case True
    then show ?thesis using sets by auto
  next
    case False
    with lowest(4) that have "length records = max_coins"
      and le: "\<forall>t \<in> set records. sdk_coin_id sdk (cr_coin t) \<le> sdk_coin_id sdk (cr_coin r)" by blast+
    moreover have "sdk_coin_id sdk (cc_coin c) \<le> sdk_coin_id sdk (cr_coin r)" if "c \<in> set cats" for c
    proof -
      from that sets obtain t where "t \<in> set records" "cr_coin t = cc_coin c" by (metis image_iff)
      with le show ?thesis by metis
    qed
    ultimately show ?thesis using len by simp
  qed
  moreover note committed_cats_clawback [OF cats]
  ultimately show ?thesis using synced answer bounded inputs slot by blast
qed

lemma commit_available_sound_witness:
  "\<exists>reward_slot cats. reward_distributor_commit_available_rewards True fixture_sdk shown_cv
      (shown_ds (CatStake 2 None)) shown_commands shown_client (hex32 fixture_sdk 1) (Some ''xch1'') 5 ''0.0'' shown_db =
     (Some (Returned (Inr (reward_slot, 1, cats))), shown_db) \<and> (\<Sum>c \<leftarrow> cats. unat (amount (cc_coin c))) = 1"
proof -
  let ?cats = "[\<lparr>cc_coin = example_tip_coin,
     cc_proof = \<lparr>lp_parent_parent_coin_info = parent_coin_info example_spent_coin, lp_parent_inner_puzzle_hash = 12,
       lp_parent_amount = amount example_spent_coin\<rparr>, cc_clawback_hash = 1021108\<rparr>]"
  let ?slot = "example_slot (example_reward_value 1000)"
  let ?ds = "shown_ds (CatStake 2 None)"
  have launch: "launched_constants ?ds shown_client 1 = Inr (shown_constants (CatStake 2 None), ())"
    by (simp add: launched_constants_def required_def shown_client_def shown_ds_def)
  have slot: "find_reward_slot True ?ds shown_client (shown_constants (CatStake 2 None)) 1000 = Some (Returned (Inr ?slot))"
    by (subst find_reward_slot.simps)
      (simp add: reward_slot_at_def required_def shown_simps created_reward_slot_def Let_def)
  have coins: "available_coins fixture_sdk 3 5 [example_record] = [example_record]"
    by (simp add: available_coins_def example_record_def example_tip_coin_def)
  have cats: "committed_cats fixture_sdk shown_commands shown_client 8 77 [example_record] = Inr ?cats"
    by (simp add: required_def shown_client_def shown_commands_def example_record_def Let_def)
  have rewards: "checked_total 0 [example_record] = Inr 1"
    by (simp add: example_record_def example_tip_coin_def checked_add_def)
  have "available_rewards True fixture_sdk ?ds shown_commands shown_client (shown_constants (CatStake 2 None)) () 77 5
      (shown_distributor (CatStake 2 None)) = Some (Returned (Inr (?slot, 1, ?cats)))"
    using slot coins cats rewards
    by (simp add: available_rewards_def shown_commands_def shown_ds_def shown_client_def shown_constants_def
        shown_distributor_def Let_def)
  then have run: "reward_distributor_commit_available_rewards True fixture_sdk shown_cv ?ds shown_commands shown_client
      (hex32 fixture_sdk 1) (Some ''xch1'') 5 ''0.0'' shown_db = (Some (Returned (Inr (?slot, 1, ?cats))), shown_db)"
    by (simp add: reward_distributor_commit_available_rewards_def with_distributor_def shown_synced zero_amount
        hex_string_roundtrip [OF fixture_hex_codec_ok] launch) (simp add: shown_cv_def shown_synced)
  from commit_available_sound [OF run] have "(\<Sum>c \<leftarrow> ?cats. unat (amount (cc_coin c))) = 1" by fastforce
  with run show ?thesis by blast
qed

section \<open>Unstaking\<close>

text \<open>With no locked CAT the first one is indexed before anything is said about it.\<close>

lemma unstake_without_cats_panics:
  assumes "find_locked_cats lk client launcher_id custody asset_id = Inr []"
  shows "locked_asset_of checks lk client answer launcher_id custody shares (CatStake asset_id hidden) = Panicked"
  by (simp add: locked_asset_of_def unstaked_cat_def assms chosen_def nth_checked_def)

lemma chosen_among:
  assumes "chosen answer invalid locked = Returned (Inr asset)"
  shows "asset \<in> set locked"
proof -
  from assms obtain i where "nth_checked locked i = Some asset"
    by (auto simp: chosen_def result_simps split: if_splits)
  then show ?thesis by (auto simp: nth_checked_def split: if_splits)
qed

end
