(* ===== verification/ApiClients.thy ===== *)
theory ApiClients
  imports Listen CatalogListen XchSyncFacts
begin

text \<open>
  \<open>xchandles/xchandles_api_client.rs\<close> and \<open>catalog/catalog_api_client.rs\<close>: the slots of a registry as a listener's
  API has them. A server is what it answers to a query for neighbours, after the transport and the JSON: a
  failed request or an answer that does not parse is an error. Below it is related to the listeners
  of this repository.
\<close>

section \<open>XCHandles\<close>

type_synonym neighbors_server = "string \<Rightarrow> string \<Rightarrow> cli_error + neighbors_response"

definition hash_left_value :: "('n, 'z) sdk_scheme \<Rightarrow> neighbors_response \<Rightarrow> bytes32 \<Rightarrow> bytes32 \<Rightarrow> cli_error + handle_slot_value" where
  "hash_left_value sdk resp left_handle_hash right_handle_hash =
     try_result (hex_string_to_bytes32 sdk (nr_left_left_handle_hash resp)) (\<lambda>left_left_handle_hash.
     try_result (hex_string_to_bytes32 sdk (nr_left_owner_launcher_id resp)) (\<lambda>owner.
     try_result (hex_string_to_bytes32 sdk (nr_left_resolved_launcher_id resp)) (\<lambda>resolved.
       Inr \<lparr>hv_counter = nr_left_counter resp, hv_handle_hash = left_handle_hash,
         hv_left_value = left_left_handle_hash, hv_right_value = right_handle_hash,
         hv_expiration = nr_left_expiration resp, hv_owner_launcher_id = owner, hv_resolved_launcher_id = resolved\<rparr>)))"

definition hash_right_value :: "('n, 'z) sdk_scheme \<Rightarrow> neighbors_response \<Rightarrow> bytes32 \<Rightarrow> bytes32 \<Rightarrow> cli_error + handle_slot_value" where
  "hash_right_value sdk resp left_handle_hash right_handle_hash =
     try_result (hex_string_to_bytes32 sdk (nr_right_right_handle_hash resp)) (\<lambda>right_right_handle_hash.
     try_result (hex_string_to_bytes32 sdk (nr_right_owner_launcher_id resp)) (\<lambda>owner.
     try_result (hex_string_to_bytes32 sdk (nr_right_resolved_launcher_id resp)) (\<lambda>resolved.
       Inr \<lparr>hv_counter = nr_right_counter resp, hv_handle_hash = right_handle_hash,
         hv_left_value = left_handle_hash, hv_right_value = right_right_handle_hash,
         hv_expiration = nr_right_expiration resp, hv_owner_launcher_id = owner, hv_resolved_launcher_id = resolved\<rparr>)))"

text \<open>The amounts are not sent: a registry's coins have amount 1.\<close>

definition api_proof :: "('n, 'z) sdk_scheme \<Rightarrow> string \<Rightarrow> string \<Rightarrow> u64 \<Rightarrow> cli_error + lineage_proof" where
  "api_proof sdk parent_parent inner_puzzle_hash parent_amount =
     try_result (hex_string_to_bytes32 sdk parent_parent) (\<lambda>pp.
     try_result (hex_string_to_bytes32 sdk inner_puzzle_hash) (\<lambda>ph.
       Inr \<lparr>lp_parent_parent_coin_info = pp, lp_parent_inner_puzzle_hash = ph, lp_parent_amount = parent_amount\<rparr>))"

definition api_get_neighbors ::
  "('n, 'z) sdk_scheme \<Rightarrow> handle_slot_value slot_codec \<Rightarrow> neighbors_server \<Rightarrow> bytes32 \<Rightarrow> bytes32
    \<Rightarrow> cli_error + handle_slot_value slot \<times> handle_slot_value slot"
where
  "api_get_neighbors sdk codec server launcher_id handle_hash =
     try_result (server (hex32 sdk launcher_id) (hex32 sdk handle_hash)) (\<lambda>resp.
     try_result (hex_string_to_bytes32 sdk (nr_left_handle_hash resp)) (\<lambda>left_handle_hash.
     try_result (hex_string_to_bytes32 sdk (nr_right_handle_hash resp)) (\<lambda>right_handle_hash.
     try_result (hash_left_value sdk resp left_handle_hash right_handle_hash) (\<lambda>left_value.
     try_result (hash_right_value sdk resp left_handle_hash right_handle_hash) (\<lambda>right_value.
     try_result (api_proof sdk (nr_left_parent_parent_id resp) (nr_left_parent_inner_puzzle_hash resp) 1) (\<lambda>left_proof.
     try_result (api_proof sdk (nr_right_parent_parent_id resp) (nr_right_parent_inner_puzzle_hash resp) 1) (\<lambda>right_proof.
       Inr (slot_new codec left_proof launcher_id (sc_nonce codec) left_value,
            slot_new codec right_proof launcher_id (sc_nonce codec) right_value))))))))"

text \<open>
  The last byte that is not 0 is decreased, and the ones behind it are left at 0: nothing is borrowed. On 32
  zeros the index underflows or ends up out of bounds, which panics either way. The bytes are taken from the
  last one on.
\<close>

fun decrease_last :: "u8 list \<Rightarrow> u8 list option" where
  "decrease_last [] = None"
| "decrease_last (b # bytes) = (if b = 0 then map_option ((#) b) (decrease_last bytes) else Some ((b - 1) # bytes))"

definition hash_minus_one :: "bytes32 \<Rightarrow> bytes32 outcome" where
  "hash_minus_one hash =
     (case decrease_last (rev (to_bytes hash)) of
        None \<Rightarrow> Panicked
      | Some bytes \<Rightarrow> Returned (bytes32_new (rev bytes)))"

definition api_get_slot_value ::
  "('n, 'z) sdk_scheme \<Rightarrow> handle_slot_value slot_codec \<Rightarrow> neighbors_server \<Rightarrow> bytes32 \<Rightarrow> bytes32
    \<Rightarrow> (cli_error + handle_slot_value slot) outcome"
where
  "api_get_slot_value sdk codec server launcher_id handle_hash =
     (case hash_minus_one handle_hash of
        Panicked \<Rightarrow> Panicked
      | Returned handle_hash_minus_one \<Rightarrow>
          Returned (try_result (api_get_neighbors sdk codec server launcher_id handle_hash_minus_one)
            (\<lambda>(left, right). Inr right)))"

section \<open>The CATalog\<close>

type_synonym catalog_server = "string \<Rightarrow> cli_error + catalog_neighbor_response"

definition catalog_api_get_neighbors ::
  "('n, 'z) sdk_scheme \<Rightarrow> catalog_slot_value slot_codec \<Rightarrow> catalog_server \<Rightarrow> bytes32 \<Rightarrow> bytes32
    \<Rightarrow> cli_error + catalog_slot_value slot \<times> catalog_slot_value slot"
where
  "catalog_api_get_neighbors sdk codec server launcher_id asset_id =
     try_result (server (hex32 sdk asset_id)) (\<lambda>resp.
     try_result (hex_string_to_bytes32 sdk (kn_left_asset_id resp)) (\<lambda>left_asset_id.
     try_result (hex_string_to_bytes32 sdk (kn_right_asset_id resp)) (\<lambda>right_asset_id.
     try_result (hex_string_to_bytes32 sdk (kn_left_left_asset_id resp)) (\<lambda>left_left_asset_id.
     try_result (hex_string_to_bytes32 sdk (kn_right_right_asset_id resp)) (\<lambda>right_right_asset_id.
     try_result (api_proof sdk (kn_left_parent_parent_info resp) (kn_left_parent_inner_puzzle_hash resp)
                   (kn_left_parent_amount resp)) (\<lambda>left_proof.
     try_result (api_proof sdk (kn_right_parent_parent_info resp) (kn_right_parent_inner_puzzle_hash resp)
                   (kn_right_parent_amount resp)) (\<lambda>right_proof.
       Inr (slot_new codec left_proof launcher_id 0
              \<lparr>kv_asset_id = left_asset_id, kv_counter = kn_left_counter resp,
               kv_left_value = left_left_asset_id, kv_right_value = right_asset_id\<rparr>,
            slot_new codec right_proof launcher_id 0
              \<lparr>kv_asset_id = right_asset_id, kv_counter = kn_right_counter resp,
               kv_left_value = left_asset_id, kv_right_value = right_right_asset_id\<rparr>))))))))"

section \<open>Client and listener\<close>

text \<open>What a listener of this repository answers over its database; any error of it does not parse at the client.\<close>

definition served :: "('n, 'z) sdk_scheme \<Rightarrow> handle_slot_value slot_codec \<Rightarrow> db \<Rightarrow> neighbors_server" where
  "served sdk codec db launcher handle_hash = map_err (\<lambda>_. Reqwest) (get_neighbors sdk codec db launcher handle_hash)"

definition catalog_served ::
  "('n, 'z) sdk_scheme \<Rightarrow> 'm catalog_sdk \<Rightarrow> catalog_constants \<Rightarrow> db \<Rightarrow> catalog_server"
where
  "catalog_served sdk ks constants db asset_id = map_err (\<lambda>_. Reqwest) (catalog_get_neighbors sdk ks constants db asset_id)"

lemma row_to_slot_new:
  assumes "row_to_slot codec row = Inr slot" and "row \<in> set (unspent_rows launcher_id nonce v db)"
  shows "slot = slot_new codec (slot_proof slot) launcher_id nonce (slot_value slot) \<and>
    lp_parent_amount (slot_proof slot) = sl_parent_amount row"
  using assms by (auto simp: row_to_slot_def result_simps slot_new_def unspent_rows_def)

lemma collected: "collect_results f xs = Inr ys \<Longrightarrow> y \<in> set ys \<Longrightarrow> \<exists>x \<in> set xs. f x = Inr y"
  by (induction xs arbitrary: ys) (auto simp: result_simps)

lemma neighbour_slots_new:
  assumes "neighbour_slots codec (unspent_rows launcher_id nonce v db) (unspent_rows launcher_id nonce w db) =
      Inr (left, right)"
    and "slot \<in> {left, right}"
  shows "slot = slot_new codec (slot_proof slot) launcher_id nonce (slot_value slot) \<and>
    (\<exists>row \<in> set (db_slots db). sl_singleton_launcher_id row = to_bytes launcher_id \<and>
       lp_parent_amount (slot_proof slot) = sl_parent_amount row)"
proof -
  from assms(1) obtain lefts rights where
    lefts: "collect_results (row_to_slot codec) (unspent_rows launcher_id nonce v db) = Inr lefts" "lefts \<noteq> []" "left = hd lefts"
    and rights: "collect_results (row_to_slot codec) (unspent_rows launcher_id nonce w db) = Inr rights" "rights \<noteq> []"
      "right = hd rights"
    by (auto simp: neighbour_slots_def result_simps split: if_splits)
  with assms(2) obtain u row where row: "row \<in> set (unspent_rows launcher_id nonce u db)" "row_to_slot codec row = Inr slot"
    by (metis collected hd_in_set insertE singletonD)
  with row_to_slot_new [OF row(2,1)] show ?thesis by (auto simp: unspent_rows_def)
qed

lemma api_proof_roundtrip:
  assumes "hex_codec_ok sdk"
  shows "api_proof sdk (hex32 sdk (lp_parent_parent_coin_info p)) (hex32 sdk (lp_parent_inner_puzzle_hash p))
     (lp_parent_amount p) = Inr p"
  by (cases p) (simp add: api_proof_def hex_string_roundtrip [OF assms])

text \<open>
  The CATalog's client rebuilds the listener's slots: when the listener's query finds two slots that name each
  other as neighbours, the client gets the very slots, values, lineage proofs and coins.
\<close>

theorem catalog_api_roundtrip:
  assumes "hex_codec_ok sdk"
    and "get_catalog_neighbors (ks_slot_codec ks) (kc_launcher_id constants) asset_id db = Inr (left, right)"
    and "kv_right_value (slot_value left) = kv_asset_id (slot_value right)"
    and "kv_left_value (slot_value right) = kv_asset_id (slot_value left)"
  shows "catalog_api_get_neighbors sdk (ks_slot_codec ks) (catalog_served sdk ks constants db) (kc_launcher_id constants)
      asset_id = Inr (left, right)"
proof -
  let ?codec = "ks_slot_codec ks" and ?launcher = "kc_launcher_id constants"
  from assms(2) have found: "neighbour_slots ?codec
      (unspent_rows ?launcher 0 (indexed_before (db_catalog_indexed db) (to_bytes asset_id)) db)
      (unspent_rows ?launcher 0 (indexed_after (db_catalog_indexed db) (to_bytes asset_id)) db) = Inr (left, right)"
    by (auto simp: get_catalog_neighbors_def result_simps)
  have "slot_new ?codec (slot_proof left) ?launcher 0 (slot_value left) = left"
    "slot_new ?codec (slot_proof right) ?launcher 0 (slot_value right) = right"
    using neighbour_slots_new [OF found, of left] neighbour_slots_new [OF found, of right] by auto
  moreover have "\<lparr>kv_asset_id = kv_asset_id (slot_value left), kv_counter = kv_counter (slot_value left),
      kv_left_value = kv_left_value (slot_value left), kv_right_value = kv_asset_id (slot_value right)\<rparr>
      = slot_value left"
    "\<lparr>kv_asset_id = kv_asset_id (slot_value right), kv_counter = kv_counter (slot_value right),
      kv_left_value = kv_asset_id (slot_value left), kv_right_value = kv_right_value (slot_value right)\<rparr>
      = slot_value right"
    using assms(3,4) by simp_all
  ultimately show ?thesis
    by (simp add: catalog_api_get_neighbors_def catalog_served_def catalog_get_neighbors_def assms(2) Let_def
        hex_string_roundtrip [OF assms(1)] api_proof_roundtrip [OF assms(1)])
qed

lemma found_slots_new:
  assumes "get_xchandles_neighbors codec launcher_id handle_hash db = Inr (left, right)" and "slot \<in> {left, right}"
  shows "slot = slot_new codec (slot_proof slot) launcher_id (sc_nonce codec) (slot_value slot) \<and>
    (\<exists>row \<in> set (db_slots db). sl_singleton_launcher_id row = to_bytes launcher_id \<and>
       lp_parent_amount (slot_proof slot) = sl_parent_amount row)"
proof -
  from assms(1) have "neighbour_slots codec
      (unspent_rows launcher_id (sc_nonce codec) (indexed_before (handle_index launcher_id db) (to_bytes handle_hash)) db)
      (unspent_rows launcher_id (sc_nonce codec) (indexed_after (handle_index launcher_id db) (to_bytes handle_hash)) db)
      = Inr (left, right)"
    by (auto simp: get_xchandles_neighbors_def result_simps)
  from neighbour_slots_new [OF this assms(2)] show ?thesis .
qed

lemma api_get_neighbors_served:
  assumes "hex_codec_ok sdk"
    and found: "get_xchandles_neighbors codec launcher_id handle_hash db = Inr (left, right)"
    and "hv_right_value (slot_value left) = hv_handle_hash (slot_value right)"
    and "hv_left_value (slot_value right) = hv_handle_hash (slot_value left)"
    and amounts: "\<forall>row \<in> set (db_slots db). sl_singleton_launcher_id row = to_bytes launcher_id \<longrightarrow> sl_parent_amount row = 1"
  shows "api_get_neighbors sdk codec (served sdk codec db) launcher_id handle_hash = Inr (left, right)"
proof -
  have new: "slot_new codec (slot_proof left) launcher_id (sc_nonce codec) (slot_value left) = left"
    "slot_new codec (slot_proof right) launcher_id (sc_nonce codec) (slot_value right) = right"
    and one: "lp_parent_amount (slot_proof left) = 1" "lp_parent_amount (slot_proof right) = 1"
    using found_slots_new [OF found, of left] found_slots_new [OF found, of right] amounts by auto
  have "hash_left_value sdk (neighbors_json sdk left right) (hv_handle_hash (slot_value left))
      (hv_handle_hash (slot_value right)) = Inr (slot_value left)"
    "hash_right_value sdk (neighbors_json sdk left right) (hv_handle_hash (slot_value left))
      (hv_handle_hash (slot_value right)) = Inr (slot_value right)"
    using assms(3,4)
    by (auto simp: hash_left_value_def hash_right_value_def neighbors_json_def Let_def hex_string_roundtrip [OF assms(1)])
  moreover have "api_proof sdk (nr_left_parent_parent_id (neighbors_json sdk left right))
      (nr_left_parent_inner_puzzle_hash (neighbors_json sdk left right)) 1 = Inr (slot_proof left)"
    "api_proof sdk (nr_right_parent_parent_id (neighbors_json sdk left right))
      (nr_right_parent_inner_puzzle_hash (neighbors_json sdk left right)) 1 = Inr (slot_proof right)"
    using api_proof_roundtrip [OF assms(1), of "slot_proof left"] api_proof_roundtrip [OF assms(1), of "slot_proof right"] one
    by (simp_all add: neighbors_json_def Let_def)
  moreover have "hex_string_to_bytes32 sdk (nr_left_handle_hash (neighbors_json sdk left right)) =
      Inr (hv_handle_hash (slot_value left))"
    "hex_string_to_bytes32 sdk (nr_right_handle_hash (neighbors_json sdk left right)) = Inr (hv_handle_hash (slot_value right))"
    by (simp_all add: neighbors_json_def Let_def hex_string_roundtrip [OF assms(1)])
  ultimately show ?thesis
    using new
    by (simp add: api_get_neighbors_def served_def get_neighbors_def found hex_string_roundtrip [OF assms(1)])
qed

section \<open>The slot of one handle\<close>

fun le_value :: "u8 list \<Rightarrow> nat" where
  "le_value [] = 0"
| "le_value (b # bytes) = unat b + 256 * le_value bytes"

lemma le_value_append: "le_value (xs @ [b]) = le_value xs + 256 ^ length xs * unat b"
  by (induction xs) (simp_all add: algebra_simps)

lemma be_to_nat_cons: "be_to_nat (b # bs) = unat b * 256 ^ length bs + be_to_nat bs"
proof (induction bs rule: rev_induct)
  case Nil
  show ?case by (simp add: be_to_nat_def)
next
  case (snoc c bs)
  have "be_to_nat (b # bs @ [c]) = be_to_nat (b # bs) * 256 + unat c" using be_to_nat_snoc [of "b # bs" c] by simp
  with snoc show ?case by (simp add: be_to_nat_snoc algebra_simps)
qed

lemma be_to_nat_rev: "be_to_nat (rev bs) = le_value bs"
  by (induction bs) (simp_all add: be_to_nat_snoc, simp add: be_to_nat_def)

definition trailing_zeros :: "bytes32 \<Rightarrow> nat" where
  "trailing_zeros hash = length (takeWhile (\<lambda>b. b = 0) (rev (to_bytes hash)))"

lemma last_byte: "to_bytes hash = nat_to_be 31 (unat hash div 256) @ [word_of_nat (unat hash mod 256)]"
  using nat_to_be.simps(2) [of 31 "unat hash"] by (simp add: to_bytes_def del: nat_to_be.simps)

lemma trailing_zeros_none: "unat hash mod 256 \<noteq> 0 \<Longrightarrow> trailing_zeros hash = 0"
  by (auto simp: trailing_zeros_def last_byte unat_of_nat word_unat_eq_iff)

lemma decrease_last_None: "decrease_last bs = None \<longleftrightarrow> le_value bs = 0"
  by (induction bs) (auto simp: unat_eq_0)

lemma decrease_last_Some:
  "decrease_last bs = Some bs' \<Longrightarrow> le_value bs' + 256 ^ length (takeWhile (\<lambda>b. b = 0) bs) = le_value bs"
proof (induction bs arbitrary: bs')
  case (Cons b bs)
  show ?case
  proof (cases "b = 0")
    case True
    with Cons.prems obtain cs where "decrease_last bs = Some cs" "bs' = b # cs" by auto
    with Cons.IH [of cs] True show ?thesis by simp
  next
    case False
    then have "0 < unat b" by (simp add: unat_gt_0)
    moreover from this have "1 \<le> b" by (simp add: word_le_nat_alt)
    then have "unat (b - 1) = unat b - 1" by (simp add: unat_sub)
    ultimately show ?thesis using False Cons.prems by auto
  qed
qed simp

lemma be_value: "be_to_nat (to_bytes hash) = unat hash"
proof -
  have "unat hash < 256 ^ 32" using unsigned_less [of hash] by simp
  then show ?thesis by (simp add: to_bytes_def be_to_nat_to_be del: power_numeral)
qed

text \<open>What is subtracted is the weight of the last byte that is not 0.\<close>

lemma hash_minus_one_eq:
  "hash_minus_one hash =
     (if hash = 0 then Panicked else Returned (hash - 256 ^ trailing_zeros hash))"
  "hash \<noteq> 0 \<Longrightarrow> 256 ^ trailing_zeros hash \<le> unat hash"
  "hash \<noteq> 0 \<Longrightarrow> unat (hash - 256 ^ trailing_zeros hash) = unat hash - 256 ^ trailing_zeros hash"
proof -
  let ?bytes = "rev (to_bytes hash)" and ?z = "trailing_zeros hash"
  have total: "le_value ?bytes = unat hash" using be_to_nat_rev [of ?bytes] be_value [of hash] by simp
  have z: "length (takeWhile (\<lambda>b. b = 0) ?bytes) = ?z" by (simp add: trailing_zeros_def)
  show le: "256 ^ ?z \<le> unat hash" if "hash \<noteq> 0"
  proof -
    have "le_value ?bytes \<noteq> 0" using that by (simp add: total unat_eq_0)
    then obtain bs' where "decrease_last ?bytes = Some bs'" using decrease_last_None [of ?bytes] by auto
    from decrease_last_Some [OF this] have "le_value bs' + 256 ^ ?z = unat hash" by (simp add: z total)
    then show ?thesis by simp
  qed
  have power: "(256 :: bytes32) ^ ?z = word_of_nat (256 ^ ?z)" by simp
  have less: "(256 :: nat) ^ ?z < 2 ^ 256" if "hash \<noteq> 0"
  proof -
    have "unat hash < 2 ^ 256" using unsigned_less [of hash] by simp
    with le [OF that] show ?thesis by (rule le_less_trans)
  qed
  have unat_power: "unat ((256 :: bytes32) ^ ?z) = 256 ^ ?z" if "hash \<noteq> 0"
  proof -
    have "unat (word_of_nat n :: bytes32) = n" if "n < 2 ^ 256" for n using that by (simp add: unat_of_nat)
    from this [OF less [OF that]] show ?thesis unfolding power .
  qed
  show sub: "unat (hash - 256 ^ ?z) = unat hash - 256 ^ ?z" if "hash \<noteq> 0"
    using le [OF that] unat_power [OF that] by (subst unat_sub) (simp_all add: word_le_nat_alt)
  show "hash_minus_one hash = (if hash = 0 then Panicked else Returned (hash - 256 ^ ?z))"
  proof (cases "hash = 0")
    case True
    then have "decrease_last ?bytes = None" using total by (simp add: decrease_last_None)
    with True show ?thesis by (simp add: hash_minus_one_def)
  next
    case False
    then have "le_value ?bytes \<noteq> 0" by (simp add: total unat_eq_0)
    then obtain bs' where bs': "decrease_last ?bytes = Some bs'" using decrease_last_None [of ?bytes] by auto
    from decrease_last_Some [OF bs'] have "le_value bs' = unat hash - 256 ^ ?z" by (simp add: z total)
    then have "be_to_nat (rev bs') = unat (hash - 256 ^ ?z)" by (simp add: be_to_nat_rev sub [OF False])
    then have "bytes32_new (rev bs') = hash - 256 ^ ?z" by (simp add: bytes32_new_def)
    with bs' False show ?thesis by (simp add: hash_minus_one_def)
  qed
qed

text \<open>The chain keeps every slot's links to the slots next to it.\<close>

definition linked :: "(bytes32 \<rightharpoonup> handle_slot_value) \<Rightarrow> bool" where
  "linked cur \<longleftrightarrow>
     (\<forall>l r vl vr. cur l = Some vl \<and> cur r = Some vr \<and> l < r \<and> (\<forall>b \<in> dom cur. b \<le> l \<or> r \<le> b) \<longrightarrow>
        hv_right_value vl = r \<and> hv_left_value vr = l)"

definition queried_hash :: "bytes32 \<Rightarrow> bytes32" where
  "queried_hash hash = hash - 256 ^ trailing_zeros hash"

lemma queried_hash_less: "hash \<noteq> 0 \<Longrightarrow> queried_hash hash < hash"
proof -
  assume nz: "hash \<noteq> 0"
  have "(0 :: nat) < 256 ^ trailing_zeros hash" by simp
  with hash_minus_one_eq(2,3) [OF nz] have "unat (queried_hash hash) < unat hash"
    unfolding queried_hash_def by linarith
  then show ?thesis by (simp add: word_less_nat_alt)
qed

lemma neighbours_in_linked:
  assumes "neighbours_in cur h (Inr (left, right))" and "linked cur" and "cur h = None"
  shows "hv_right_value (slot_value left) = hv_handle_hash (slot_value right) \<and>
    hv_left_value (slot_value right) = hv_handle_hash (slot_value left)"
proof -
  let ?l = "hv_handle_hash (slot_value left)" and ?r = "hv_handle_hash (slot_value right)"
  have sides: "cur ?l = Some (slot_value left)" "?l < h" "\<forall>b \<in> dom cur. b < h \<longrightarrow> b \<le> ?l"
    "cur ?r = Some (slot_value right)" "h < ?r" "\<forall>b \<in> dom cur. h < b \<longrightarrow> ?r \<le> b"
    using assms(1) by (auto simp: neighbours_in_def Let_def)
  have "\<forall>b \<in> dom cur. b \<le> ?l \<or> ?r \<le> b"
  proof
    fix b assume "b \<in> dom cur"
    moreover from this assms(3) have "b \<noteq> h" by auto
    ultimately show "b \<le> ?l \<or> ?r \<le> b" using sides(3,6) by (meson neqE)
  qed
  with assms(2) sides(1,4) less_trans [OF sides(2,5)] show ?thesis unfolding linked_def by blast
qed

text \<open>
  C29. Which slot the client gets for a handle, over a listener whose tables hold the chain's current slots: the one of
  the first handle above the hash that is asked for, which is the handle's hash less the weight of its last byte that
  is not 0. For a registered handle that is its own slot, unless another handle lies in between (which
  needs a hash that ends in a zero byte, where nothing is borrowed). For a handle that is not registered it is the slot
  of another one, and nothing tells the caller: \<open>extend\<close>, \<open>expire\<close> and the updates go on with it.
\<close>

theorem remote_slot_nearest:
  assumes "hex_codec_ok sdk" and stored: "stored codec launcher_id cur seen db" and "linked cur"
    and amounts: "\<forall>row \<in> set (db_slots db). sl_singleton_launcher_id row = to_bytes launcher_id \<longrightarrow> sl_parent_amount row = 1"
    and "hash \<noteq> 0" and free: "cur (queried_hash hash) = None"
    and below: "b \<in> dom cur" "b < queried_hash hash" and above: "a \<in> dom cur" "queried_hash hash < a"
  shows "\<exists>slot next. api_get_slot_value sdk codec (served sdk codec db) launcher_id hash = Returned (Inr slot) \<and>
    cur next = Some (slot_value slot) \<and> hv_handle_hash (slot_value slot) = next \<and>
    queried_hash hash < next \<and> (\<forall>b \<in> dom cur. queried_hash hash < b \<longrightarrow> next \<le> b) \<and>
    (cur hash \<noteq> None \<longrightarrow> next = hash \<or> next < hash) \<and> (cur hash = None \<longrightarrow> next \<noteq> hash)"
proof -
  let ?q = "queried_hash hash"
  have answer: "neighbours_in cur ?q (get_xchandles_neighbors codec launcher_id ?q db)"
    using stored by (rule stored_neighbours)
  have "\<not> (\<forall>b \<in> dom cur. ?q \<le> b)" "\<not> (\<forall>b \<in> dom cur. b \<le> ?q)"
    using leD below above by blast+
  moreover have "(\<forall>b \<in> dom cur. ?q \<le> b) \<or> (\<forall>b \<in> dom cur. b \<le> ?q)"
    if "get_xchandles_neighbors codec launcher_id ?q db = Inl e" for e
    using answer that by (simp add: neighbours_in_def)
  ultimately have "get_xchandles_neighbors codec launcher_id ?q db \<noteq> Inl e" for e by blast
  then obtain left right where found: "get_xchandles_neighbors codec launcher_id ?q db = Inr (left, right)"
    by (cases "get_xchandles_neighbors codec launcher_id ?q db") auto
  note sides = answer [unfolded found]
  have "api_get_neighbors sdk codec (served sdk codec db) launcher_id ?q = Inr (left, right)"
    using neighbours_in_linked [OF sides \<open>linked cur\<close> free] amounts
    by (intro api_get_neighbors_served [OF assms(1) found]) auto
  moreover have "hash_minus_one hash = Returned ?q"
    using hash_minus_one_eq(1) \<open>hash \<noteq> 0\<close> by (simp add: queried_hash_def)
  ultimately have slot: "api_get_slot_value sdk codec (served sdk codec db) launcher_id hash = Returned (Inr right)"
    by (simp add: api_get_slot_value_def)
  let ?next = "hv_handle_hash (slot_value right)"
  have right: "cur ?next = Some (slot_value right)" "?q < ?next" "\<forall>b \<in> dom cur. ?q < b \<longrightarrow> ?next \<le> b"
    using sides by (auto simp: neighbours_in_def Let_def)
  moreover have "?next \<le> hash" if "cur hash \<noteq> None"
    using right(3) that queried_hash_less [OF \<open>hash \<noteq> 0\<close>] by auto
  moreover have "?next \<noteq> hash" if "cur hash = None" using right(1) that by auto
  ultimately show ?thesis using slot by (intro exI [of _ right] exI [of _ ?next]) (auto simp: order.order_iff_strict)
qed

text \<open>The handles 1, 5 and 9, linked: the slot of 5 is found, and asking for 7, which is not registered, gives the one of 9.\<close>

definition linked_value :: "bytes32 \<Rightarrow> handle_slot_value" where
  "linked_value h = (chain_value h 0)
     \<lparr>hv_left_value := (if h = 9 then 5 else if h = 5 then 1 else 0),
      hv_right_value := (if h = 1 then 5 else if h = 5 then 9 else 20)\<rparr>"

definition linked_codec :: "handle_slot_value slot_codec" where
  "linked_codec =
     \<lparr>sc_to_bytes = (\<lambda>v. Inr [ucast (hv_handle_hash v)]),
      sc_from_bytes = (\<lambda>bs. case bs of [h] \<Rightarrow> Inr (linked_value (ucast h)) | _ \<Rightarrow> Inl DbColumnParse),
      sc_tree_hash = hv_handle_hash, sc_coin = (\<lambda>_ _ _ _. example_tip_coin), sc_nonce = 1\<rparr>"

definition linked_row :: "bytes32 \<Rightarrow> slot_row" where
  "linked_row h = slot_to_row (slot_new linked_codec
      \<lparr>lp_parent_parent_coin_info = 0, lp_parent_inner_puzzle_hash = 0, lp_parent_amount = 1\<rparr> 1 1 (linked_value h)) [ucast h] 0"

definition linked_db :: db where
  "linked_db = db_new\<lparr>db_slots := map linked_row [1, 5, 9],
     db_xchandles_indexed := map (\<lambda>h. ((to_bytes (1 :: bytes32), to_bytes h), to_bytes h)) [1, 5, 9]\<rparr>"

definition linked_slots :: "bytes32 \<rightharpoonup> handle_slot_value" where
  "linked_slots = [1 \<mapsto> linked_value 1, 5 \<mapsto> linked_value 5, 9 \<mapsto> linked_value 9]"

lemma linked_value_simps [simp]: "hv_handle_hash (linked_value h) = h" "sc_tree_hash linked_codec = hv_handle_hash"
  "sc_nonce linked_codec = 1"
  by (simp_all add: linked_value_def chain_value_def linked_codec_def)

lemma linked_slots_Some: "linked_slots h = Some v \<longleftrightarrow> h \<in> {1, 5, 9} \<and> v = linked_value h"
  by (auto simp: linked_slots_def split: if_splits)

lemma linked_rows:
  assumes "h \<in> {1, 5, 9}"
  shows "map (row_to_slot linked_codec) (unspent_rows 1 1 (Some (to_bytes h)) linked_db) =
    [Inr (slot_new linked_codec \<lparr>lp_parent_parent_coin_info = 0, lp_parent_inner_puzzle_hash = 0, lp_parent_amount = 1\<rparr>
      1 1 (linked_value h))]"
proof -
  have "unspent_rows 1 1 (Some (to_bytes h)) linked_db = [linked_row h]"
    using assms by (auto simp: unspent_rows_def linked_db_def linked_row_def slot_to_row_def slot_new_def)
  moreover have "row_to_slot linked_codec (linked_row h) =
      Inr (slot_new linked_codec \<lparr>lp_parent_parent_coin_info = 0, lp_parent_inner_puzzle_hash = 0, lp_parent_amount = 1\<rparr>
        1 1 (linked_value h))"
    using assms by (auto simp: row_to_slot_def linked_row_def slot_to_row_def slot_new_def linked_codec_def)
  ultimately show ?thesis by simp
qed

lemma linked_stored: "stored linked_codec 1 linked_slots {1, 5, 9} linked_db"
proof -
  have "current_stored linked_codec 1 linked_db h v" if "linked_slots h = Some v" for h v
    using that linked_rows [of h]
    by (auto simp: linked_slots_Some current_stored_def slot_new_def
        intro!: exI [of _ "slot_new linked_codec
          \<lparr>lp_parent_parent_coin_info = 0, lp_parent_inner_puzzle_hash = 0, lp_parent_amount = 1\<rparr> 1 1 (linked_value h)"])
  moreover have "\<not> db_failing linked_db" "hm_ok (db_xchandles_indexed linked_db)"
    by (simp_all add: linked_db_def db_new_def hm_ok_def)
  moreover have "hm_get (db_xchandles_indexed linked_db) (to_bytes 1, k) = Some v \<longleftrightarrow>
      (\<exists>h val. k = to_bytes h \<and> linked_slots h = Some val \<and> v = to_bytes (sc_tree_hash linked_codec val))" for k v
    by (auto simp: linked_db_def linked_slots_Some)
  moreover have "\<forall>row \<in> set (db_slots linked_db). sl_slot_value_hash row \<in> to_bytes ` {1, 5, 9}"
    by (simp add: linked_db_def linked_row_def slot_to_row_def slot_new_def)
  ultimately show ?thesis by (auto simp: stored_def)
qed

lemma remote_slot_nearest_witness:
  "\<exists>slot. api_get_slot_value fixture_sdk linked_codec (served fixture_sdk linked_codec linked_db) 1 7 = Returned (Inr slot) \<and>
     hv_handle_hash (slot_value slot) = 9"
proof -
  have linked: "linked linked_slots"
    by (auto simp: linked_def linked_slots_Some linked_value_def) (auto simp: linked_slots_def word_le_nat_alt)
  have amounts: "\<forall>row \<in> set (db_slots linked_db). sl_singleton_launcher_id row = to_bytes 1 \<longrightarrow> sl_parent_amount row = 1"
    by (simp add: linked_db_def linked_row_def slot_to_row_def slot_new_def)
  have q: "queried_hash 7 = 6"
    by (simp add: queried_hash_def trailing_zeros_none)
  from remote_slot_nearest [OF fixture_hex_codec_ok linked_stored linked amounts, of 7 1 9]
  show ?thesis by (auto simp: q linked_slots_def split: if_splits)
qed

end
