(* ===== verification/Precommit.thy ===== *)
theory Precommit
  imports XchLaunch Datastore
begin

text \<open>
  What \<open>catalog/register.rs\<close>, \<open>xchandles/register.rs\<close> and \<open>xchandles/expire.rs\<close> share: the coin paid to a precommitment, found
  by its hint, when it may be spent, and paying it when there is none.
\<close>

text \<open>
  \<open>pq_cat_puzzle_hash\<close> is the hash of a CAT around an inner puzzle, \<open>pq_cat_inner_hash\<close> the tree hash of the inner puzzle of a
  puzzle that parses to a CAT.
\<close>

record precommit_sdk =
  pq_cat_puzzle_hash :: "bytes32 \<Rightarrow> bytes32 \<Rightarrow> bytes32"
  pq_cat_inner_hash :: "u8 list \<Rightarrow> cli_error + bytes32 option"

section \<open>Addresses\<close>

text \<open>\<open>f()?\<close> of an operation that may panic.\<close>

definition fallible :: "(cli_error + 'a) outcome \<Rightarrow> 'a step" where
  "fallible r = map_outcome (map_err Failed) r"

lemma fallible_Inr [result_simps]: "fallible r = Returned (Inr x) \<longleftrightarrow> r = Returned (Inr x)"
  by (cases r) (auto simp: fallible_def result_simps)

lemma fallible_simps [simp]: "fallible (Returned (Inr x)) = Returned (Inr x)" "fallible Panicked = Panicked"
  "fallible (Returned (Inl e)) = Returned (Inl (Failed e))"
  by (simp_all add: fallible_def)

lemma map_fallible_Inr [result_simps]:
  "map_option fallible r = Some (Returned (Inr x)) \<longleftrightarrow> r = Some (Returned (Inr x))"
  by (cases r) (auto simp: fallible_Inr)

text \<open>The first derivation when no address is given; \<open>derivations[0]\<close> panics on an empty page.\<close>

definition first_address :: "sage \<Rightarrow> (cli_error + string) outcome" where
  "first_address sage =
     attempt (Returned (sg_derivations sage False 0 1)) (\<lambda>(derivations, count).
     attempt (unwrap (nth_checked derivations 0)) (\<lambda>derivation. Returned (Inr (dv_address derivation))))"

definition refund_address_of :: "sage \<Rightarrow> string option \<Rightarrow> (cli_error + string) outcome" where
  "refund_address_of sage refund_address =
     (case refund_address of Some address \<Rightarrow> Returned (Inr address) | None \<Rightarrow> first_address sage)"

definition address_puzzle_hash :: "'k csv_sdk \<Rightarrow> string \<Rightarrow> cli_error + bytes32" where
  "address_puzzle_hash cv address = try_result (ok_or (cv_address_decode cv address) Address) (\<lambda>(prefix, ph). Inr ph)"

lemma address_puzzle_hash_Inr [result_simps]:
  "address_puzzle_hash cv address = Inr ph \<longleftrightarrow> (\<exists>prefix. cv_address_decode cv address = Some (prefix, ph))"
  by (auto simp: address_puzzle_hash_def result_simps split: option.splits)

section \<open>The coin\<close>

text \<open>
  The coin paid to the precommitment: of the unspent ones hinted with its inner puzzle hash the first with the full
  puzzle hash and the price; any amount will do for a price of 0.
\<close>

definition find_precommit ::
  "'z precommit_sdk_scheme \<Rightarrow> client \<Rightarrow> bytes32 \<Rightarrow> bytes32 \<Rightarrow> (u64 \<Rightarrow> bool) \<Rightarrow> cli_error + coin_record option"
where
  "find_precommit pq client payment_asset_id inner_puzzle_hash fits =
     try_result (required (cl_coin_records_by_hint client inner_puzzle_hash)
                   (Custom ''Could not check whether precommit coin exists'')) (\<lambda>records.
       Inr (find (\<lambda>cr. puzzle_hash (cr_coin cr) = pq_cat_puzzle_hash pq payment_asset_id inner_puzzle_hash \<and>
                       fits (amount (cr_coin cr))) records))"

text \<open>Waiting until it can be spent, and the proof of its parent.\<close>

definition spendable_precommit ::
  "bool \<Rightarrow> 'z precommit_sdk_scheme \<Rightarrow> client \<Rightarrow> (cli_error + blockchain_peak option) list \<Rightarrow> u32 \<Rightarrow> u32
    \<Rightarrow> coin_record \<Rightarrow> lineage_proof step option"
where
  "spendable_precommit overflow_checks pq client polls relative_block_height extra record1 =
     then_try (Some (attempt (plain_u32_add overflow_checks (cr_confirmed_block_index record1) relative_block_height)
         (\<lambda>sum. plain_u32_add overflow_checks sum extra))) (\<lambda>target.
     then_try (wait_for_height polls target) (\<lambda>_.
     let parent = parent_coin_info (cr_coin record1)
     in then_try (Some (checked (required
            (cl_puzzle_and_solution client parent (Some (cr_confirmed_block_index record1))) (CoinNotSpent parent))))
          (\<lambda>parent_coin_spend.
        then_try (Some (or_abort (pq_cat_inner_hash pq (puzzle_reveal parent_coin_spend)))) (\<lambda>inner_hash.
          Some (Returned (Inr \<lparr>lp_parent_parent_coin_info = parent_coin_info (spend_coin parent_coin_spend),
            lp_parent_inner_puzzle_hash = inner_hash, lp_parent_amount = amount (spend_coin parent_coin_spend)\<rparr>))))))"

text \<open>
  A coin that is found is spent; with none found the wallet is asked to pay, which \<open>payment\<close> stands for, and a refund
  ends with an error.
\<close>

definition precommit_or_pay ::
  "'z precommit_sdk_scheme \<Rightarrow> client \<Rightarrow> cli_error + unit \<Rightarrow> bool \<Rightarrow> bytes32 \<Rightarrow> bytes32 \<Rightarrow> (u64 \<Rightarrow> bool) \<Rightarrow> 'p
    \<Rightarrow> (coin_record \<Rightarrow> 'p step option) \<Rightarrow> 'p step option"
where
  "precommit_or_pay pq client answer refund payment_asset_id inner_puzzle_hash fits payment k =
     then_try (Some (checked (find_precommit pq client payment_asset_id inner_puzzle_hash fits))) (\<lambda>found.
       case found of
         Some record1 \<Rightarrow> k record1
       | None \<Rightarrow>
           if refund
           then Some (checked (Inl (Custom ''Precommitment coin not found but --refund was provided'')))
           else then_try (Some (checked answer)) (\<lambda>_. Some (Returned (Inr payment))))"

section \<open>What was found and waited for\<close>

lemma find_precommit_Inr:
  "find_precommit pq client asset inner fits = Inr found \<longleftrightarrow>
     (\<exists>records. cl_coin_records_by_hint client inner = Inr (Some records) \<and>
        found = find (\<lambda>cr. puzzle_hash (cr_coin cr) = pq_cat_puzzle_hash pq asset inner \<and>
                           fits (amount (cr_coin cr))) records)"
  by (auto simp: find_precommit_def result_simps)

lemma precommit_or_pay_Inr:
  assumes "precommit_or_pay pq client answer refund asset inner fits payment k = Some (Returned (Inr plan))"
  shows "\<exists>records. cl_coin_records_by_hint client inner = Inr (Some records) \<and>
    (case find (\<lambda>cr. puzzle_hash (cr_coin cr) = pq_cat_puzzle_hash pq asset inner \<and> fits (amount (cr_coin cr))) records of
       Some record1 \<Rightarrow> k record1 = Some (Returned (Inr plan))
     | None \<Rightarrow> \<not> refund \<and> answer = Inr () \<and> plan = payment)"
proof -
  from assms obtain found where found: "find_precommit pq client asset inner fits = Inr found"
    and plan: "(case found of Some record1 \<Rightarrow> k record1
      | None \<Rightarrow> if refund
           then Some (checked (Inl (Custom ''Precommitment coin not found but --refund was provided'')))
           else then_try (Some (checked answer)) (\<lambda>_. Some (Returned (Inr payment)))) = Some (Returned (Inr plan))"
    by (auto simp: precommit_or_pay_def result_simps)
  then show ?thesis by (auto simp: find_precommit_Inr result_simps split: option.splits if_splits)
qed

lemma spendable_waited:
  assumes "spendable_precommit True pq client polls relative extra record1 = Some (Returned (Inr lineage))"
  shows "\<exists>peak. Inr (Some peak) \<in> set polls \<and>
    unat (cr_confirmed_block_index record1) + unat relative + unat extra \<le> unat (bp_height peak)"
proof -
  from assms obtain target where
    target: "target = cr_confirmed_block_index record1 + relative + extra"
      "unat (cr_confirmed_block_index record1) + unat relative < 2 ^ 32"
      "unat (cr_confirmed_block_index record1 + relative) + unat extra < 2 ^ 32"
    and wait: "wait_for_height polls target = Some (Returned (Inr ()))"
    by (auto simp: spendable_precommit_def result_simps not_le)
  then have "unat target = unat (cr_confirmed_block_index record1) + unat relative + unat extra"
    by (simp add: unat_plus_no_overflow)
  with wait_for_height_reached [OF wait] show ?thesis by (auto simp: word_le_nat_alt)
qed

end
