(* ===== verification/XchCommands.thy ===== *)
theory XchCommands
  imports XchVerify ApiClients Precommit
begin

text \<open>
  The commands of \<open>xchandles/\<close> on one handle: registering (in two runs, the first pays and the second registers or
  takes the refund), re-registering an expired one, extending, and moving it to another NFT (in two runs too).
  Each is modelled from its arguments to what it hands to the SDK's action or asks the wallet to pay.
  Building the spend, the wallet's offer and pushing are not modelled; the answer to a question is \<open>ask\<close>.
\<close>

section \<open>Parameters\<close>

text \<open>
  The arguments of \<open>XchandlesPrecommitValue::for_normal_registration\<close>, with the pricing puzzle by its hash.
\<close>

record precommit_terms =
  pt_payment_asset_id :: bytes32
  pt_pricing_puzzle_hash :: bytes32
  pt_buy_time :: u64
  pt_current_expiration :: u64
  pt_handle :: string
  pt_num_periods :: u64
  pt_secret :: bytes32
  pt_owner_launcher_id :: bytes32
  pt_resolved_launcher_id :: bytes32

text \<open>
  \<open>xc_precommit_inner_hash\<close> is the hash of the precommit layer of a registry (its launcher, height and payout) for a
  refund puzzle hash and a value, \<open>xc_expire_price\<close> what the pricing puzzle
  of expired handles charges for a handle, its expiration, the time and the number of periods. \<open>xc_nft_child\<close> is
  \<open>Nft::parse_child\<close>; an NFT has its coin and its p2 puzzle hash, and
  \<open>xc_nft_address\<close> is the address of a launcher id.
\<close>

record ('c, 'nft) xch_commands_sdk = precommit_sdk +
  xc_state :: "'c registry \<Rightarrow> registry_state"
  xc_relative_block_height :: "'c \<Rightarrow> u32"
  xc_cat_maker_hash :: "bytes32 \<Rightarrow> bytes32"
  xc_expire_pricing_hash :: "u64 \<Rightarrow> u64 \<Rightarrow> bytes32"
  xc_expire_price :: "u64 \<Rightarrow> u64 \<Rightarrow> string \<Rightarrow> u64 \<Rightarrow> u64 \<Rightarrow> u64 \<Rightarrow> driver_error + 128 word"
  xc_precommit_inner_hash :: "'c \<Rightarrow> bytes32 \<Rightarrow> bytes32 \<Rightarrow> precommit_terms \<Rightarrow> bytes32"
  xc_nft_child :: "coin_spend \<Rightarrow> cli_error + 'nft option"
  xc_nft_coin :: "'nft \<Rightarrow> coin"
  xc_nft_p2 :: "'nft \<Rightarrow> bytes32"
  xc_nft_address :: "bytes32 \<Rightarrow> cli_error + string"

text \<open>What the wallet says of an NFT, and a fresh secret.\<close>

record wallet_nft =
  wn_coin_id :: string
  wn_address :: string

record wallet =
  wa_sage :: sage
  wa_get_nft :: "string \<Rightarrow> cli_error + wallet_nft option"
  wa_secret :: "cli_error + bytes32"

section \<open>The wallet's NFT\<close>

text \<open>
  The key of the NFT's address is searched in pages of 100 like the custody key, with the same test for the
  end: the total number of derivations and not the page. \<open>None\<close> is a search that goes on for ever.
\<close>

partial_function (option) nft_public_key_from ::
  "bool \<Rightarrow> sage \<Rightarrow> string \<Rightarrow> u32 \<Rightarrow> (cli_error + string option) outcome option"
where
  "nft_public_key_from overflow_checks sage address offset =
     (case sg_derivations sage False offset 100 of
        Inl e \<Rightarrow> Some (Returned (Inl e))
      | Inr (derivations, count) \<Rightarrow>
          (case find (\<lambda>d. dv_address d = address) derivations of
             Some key \<Rightarrow> Some (Returned (Inr (Some (dv_public_key key))))
           | None \<Rightarrow>
               if count < 100 then Some (Returned (Inr None))
               else if overflow_checks \<and> 2 ^ 32 \<le> unat offset + 100 then Some Panicked
               else nft_public_key_from overflow_checks sage address (offset + 100)))"

definition on_chain_nft ::
  "('n, 'z) sdk_scheme \<Rightarrow> ('c, 'nft) xch_commands_sdk \<Rightarrow> client \<Rightarrow> wallet_nft \<Rightarrow> cli_error + 'nft"
where
  "on_chain_nft sdk xc client nft_info =
     try_result (hex_string_to_bytes32 sdk (wn_coin_id nft_info)) (\<lambda>nft_coin_id.
     try_result (required (cl_coin_record_by_name client nft_coin_id) (CoinNotFound nft_coin_id)) (\<lambda>nft_coin_record.
     let parent = parent_coin_info (cr_coin nft_coin_record)
     in try_result (required
            (cl_puzzle_and_solution client parent (Some (cr_confirmed_block_index nft_coin_record)))
            (CoinNotSpent parent)) (\<lambda>parent_coin_spend.
          required (xc_nft_child xc parent_coin_spend) (Custom ''Failed to parse NFT from on-chain data''))))"

text \<open>Both \<open>assert_eq!\<close>s panic: the address must be the NFT's, and the key that of the address.\<close>

definition fetch_nft_from_wallet ::
  "bool \<Rightarrow> ('n, 'z) sdk_scheme \<Rightarrow> 'k csv_sdk \<Rightarrow> ('k \<Rightarrow> bytes32) \<Rightarrow> ('c, 'nft) xch_commands_sdk \<Rightarrow> wallet \<Rightarrow> client
    \<Rightarrow> string \<Rightarrow> (cli_error + 'nft \<times> 'k) outcome option"
where
  "fetch_nft_from_wallet overflow_checks sdk cv standard_hash xc wallet client nft =
     then_try (given (required (wa_get_nft wallet nft)
         (Custom ''Failed to fetch NFT info from your wallet - do you own the NFT?''))) (\<lambda>nft_info.
     then_try (given (on_chain_nft sdk xc client nft_info)) (\<lambda>nft.
     then_try (given (ok_or (cv_address_decode cv (wn_address nft_info)) Address)) (\<lambda>(prefix, address_ph).
     if xc_nft_p2 xc nft \<noteq> address_ph then Some Panicked
     else
       then_try (given (sg_check_address (wa_sage wallet) (wn_address nft_info))) (\<lambda>valid.
       if \<not> valid then given (Inl (Custom ''NFT p2 is not in this wallet.''))
       else
         then_try (nft_public_key_from overflow_checks (wa_sage wallet) (wn_address nft_info) 0) (\<lambda>pubkey.
         then_try (given (ok_or pubkey (Custom ''Could not find public key for NFT p2 puzzle.''))) (\<lambda>pubkey.
         then_try (given (hex_string_to_pubkey sdk cv pubkey)) (\<lambda>pubkey.
           if standard_hash pubkey \<noteq> xc_nft_p2 xc nft then Some Panicked
           else given (Inr (nft, pubkey)))))))))"

section \<open>The registry and the slot\<close>

definition synced_registry ::
  "nat \<Rightarrow> ('n, 'z) sdk_scheme \<Rightarrow> 'c registry_sdk \<Rightarrow> client \<Rightarrow> bool \<Rightarrow> bytes32 \<Rightarrow> db \<Rightarrow> 'c registry db_result option"
where
  "synced_registry fuel sdk xs client local launcher_id db =
     (if local then sync_xchandles fuel sdk xs client launcher_id db
      else Some (quick_sync_xchandles sdk xs client launcher_id db))"

text \<open>A command over the synchronized registry; the database is as the synchronization leaves it.\<close>

definition with_registry ::
  "nat \<Rightarrow> ('n, 'z) sdk_scheme \<Rightarrow> 'c registry_sdk \<Rightarrow> client \<Rightarrow> bool \<Rightarrow> db \<Rightarrow> (bytes32 \<times> 'x) step
    \<Rightarrow> (bytes32 \<Rightarrow> 'x \<Rightarrow> 'c registry \<Rightarrow> db \<Rightarrow> 'a step option) \<Rightarrow> 'a step option \<times> db"
where
  "with_registry fuel sdk xs client local db inputs k =
     (case inputs of
        Panicked \<Rightarrow> (Some Panicked, db)
      | Returned (Inl stop) \<Rightarrow> (Some (Returned (Inl stop)), db)
      | Returned (Inr (launcher_id, x)) \<Rightarrow>
          (case synced_registry fuel sdk xs client local launcher_id db of
             None \<Rightarrow> (None, db)
           | Some (Inl e, db) \<Rightarrow> (Some (Returned (Inl (Failed e))), db)
           | Some (Inr registry, db) \<Rightarrow> (k launcher_id x registry db, db)))"

definition fetch_handle_slot ::
  "('n, 'z) sdk_scheme \<Rightarrow> 'c registry_sdk \<Rightarrow> neighbors_server \<Rightarrow> bool \<Rightarrow> db \<Rightarrow> bytes32 \<Rightarrow> bytes32
    \<Rightarrow> (cli_error + handle_slot_value slot) outcome"
where
  "fetch_handle_slot sdk xs server local db launcher_id handle_hash =
     (if local
      then Returned (
        try_result (required (get_xchandles_indexed_slot_value launcher_id handle_hash db) (SlotNotFound ''Handle''))
          (\<lambda>slot_value_hash.
        required (get_slot (xs_slot_codec xs) launcher_id (sc_nonce (xs_slot_codec xs)) slot_value_hash 0 db)
          (SlotNotFound ''Handle'')))
      else api_get_slot_value sdk (xs_slot_codec xs) server launcher_id handle_hash)"

text \<open>The time a registration counts from: 18 seconds for every block of the precommitment after the last one.\<close>

definition time_ahead :: "bool \<Rightarrow> client \<Rightarrow> u32 \<Rightarrow> u64 option \<Rightarrow> (cli_error + u64) outcome option" where
  "time_ahead overflow_checks client relative_block_height given_time =
     (case given_time of
        Some t \<Rightarrow> Some (Returned (Inr t))
      | None \<Rightarrow>
          then_try (get_last_onchain_timestamp overflow_checks client) (\<lambda>latest.
            if overflow_checks \<and> 2 ^ 64 \<le> unat latest + unat relative_block_height * 18 then Some Panicked
            else Some (Returned (Inr (latest + ucast relative_block_height * 18)))))"

definition secret_of :: "('n, 'z) sdk_scheme \<Rightarrow> wallet \<Rightarrow> string option \<Rightarrow> cli_error + bytes32" where
  "secret_of sdk wallet secret =
     (case secret of Some s \<Rightarrow> hex_string_to_bytes32 sdk s | None \<Rightarrow> wa_secret wallet)"

section \<open>The terms\<close>

text \<open>Whether the registry still sells for the terms paid: all three puzzle hashes of its state.\<close>

definition terms_current ::
  "('n, 'z) sdk_scheme \<Rightarrow> ('c, 'nft) xch_commands_sdk \<Rightarrow> 'c registry \<Rightarrow> bytes32 \<Rightarrow> u64 \<Rightarrow> u64 \<Rightarrow> bool"
where
  "terms_current sdk xc registry payment_asset_id base period \<longleftrightarrow>
     xc_cat_maker_hash xc payment_asset_id = rt_cat_maker_puzzle_hash (xc_state xc registry) \<and>
     rt_pricing_puzzle_hash (xc_state xc registry) = sdk_factor_pricing_hash sdk base period \<and>
     rt_expired_handle_pricing_puzzle_hash (xc_state xc registry) = xc_expire_pricing_hash xc base period"

section \<open>Arguments and plans\<close>

record handle_options =
  hc_launcher_id_str :: string
  hc_handle_name :: string
  hc_nft :: string
  hc_num_periods :: u64
  hc_refund_address :: "string option"
  hc_secret :: "string option"
  hc_time :: "u64 option"
  hc_refund :: bool
  hc_payment_asset_id_str :: string
  hc_base_price_str :: string
  hc_period :: u64
  hc_committed_expiration :: "u64 option"
  hc_min_height :: "u32 option"
  hc_local :: bool
  hc_fee_str :: string

text \<open>The precommitment's coin with what the SDK needs to spend it.\<close>

record paid_precommit =
  pp_coin_record :: coin_record
  pp_lineage :: lineage_proof
  pp_terms :: precommit_terms
  pp_refund_puzzle_hash :: bytes32
  pp_amount :: u64

text \<open>What the wallet is asked to pay to which inner puzzle hash, or the action on the coin that was paid.\<close>

datatype 'nft handle_plan =
    PayPrecommit bytes32 u64 precommit_terms
  | RegisterHandle paid_precommit "handle_slot_value slot \<times> handle_slot_value slot" 'nft
  | ExpireHandle paid_precommit "handle_slot_value slot" 'nft
  | RefundPrecommit paid_precommit "handle_slot_value slot option"

text \<open>The questions, by what they are about.\<close>

datatype handle_question = PricesDiffer | SpendOffer | SendPayment

record handle_inputs =
  hi_nft_launcher_id :: bytes32
  hi_payment_asset_id :: bytes32
  hi_base_price :: u64
  hi_fee :: u64

definition handle_terms ::
  "handle_options \<Rightarrow> handle_inputs \<Rightarrow> bytes32 \<Rightarrow> u64 \<Rightarrow> u64 \<Rightarrow> bytes32 \<Rightarrow> precommit_terms"
where
  "handle_terms opts inputs pricing_puzzle_hash buy_time current_expiration secret =
     \<lparr>pt_payment_asset_id = hi_payment_asset_id inputs, pt_pricing_puzzle_hash = pricing_puzzle_hash,
      pt_buy_time = buy_time, pt_current_expiration = current_expiration, pt_handle = hc_handle_name opts,
      pt_num_periods = hc_num_periods opts, pt_secret = secret, pt_owner_launcher_id = hi_nft_launcher_id inputs,
      pt_resolved_launcher_id = hi_nft_launcher_id inputs\<rparr>"

section \<open>Before an action\<close>

text \<open>
  Before an action the coin must be spendable, with a quarter of the registry's height on top, and the NFT in the
  wallet, unless the precommitment is refunded.
\<close>

definition prepared_action ::
  "bool \<Rightarrow> ('n, 'z) sdk_scheme \<Rightarrow> 'k csv_sdk \<Rightarrow> ('k \<Rightarrow> bytes32) \<Rightarrow> ('c, 'nft) xch_commands_sdk \<Rightarrow> client
    \<Rightarrow> (cli_error + blockchain_peak option) list \<Rightarrow> (handle_question \<Rightarrow> cli_error + unit) \<Rightarrow> wallet \<Rightarrow> handle_options
    \<Rightarrow> u32 \<Rightarrow> coin_record \<Rightarrow> (lineage_proof \<times> 'nft option) step option"
where
  "prepared_action overflow_checks sdk cv standard_hash xc client polls ask wallet opts relative_block_height record1 =
     then_try (spendable_precommit overflow_checks xc client polls relative_block_height
         (relative_block_height div 4) record1) (\<lambda>lineage_proof.
     then_try (if hc_refund opts then Some (Returned (Inr None))
               else then_try (map_option fallible
                   (fetch_nft_from_wallet overflow_checks sdk cv standard_hash xc wallet client (hc_nft opts)))
                 (\<lambda>(nft, key). Some (Returned (Inr (Some nft))))) (\<lambda>nft.
     then_try (Some (checked (ask SpendOffer))) (\<lambda>_.
       Some (Returned (Inr (lineage_proof, nft))))))"

section \<open>Registering\<close>

definition register_inputs ::
  "bool \<Rightarrow> ('n, 'z) sdk_scheme \<Rightarrow> 'k csv_sdk \<Rightarrow> (cli_error + wallet) \<Rightarrow> handle_options
    \<Rightarrow> (cli_error + bytes32 \<times> wallet \<times> handle_inputs) outcome"
where
  "register_inputs overflow_checks sdk cv wallet opts =
     attempt (Returned (hex_string_to_bytes32 sdk (hc_launcher_id_str opts))) (\<lambda>launcher_id.
     attempt (Returned (address_puzzle_hash cv (hc_nft opts))) (\<lambda>nft_launcher_id.
     attempt (parse_amount overflow_checks (hc_base_price_str opts) True) (\<lambda>payment_cat_base_price.
     attempt (Returned wallet) (\<lambda>wallet.
     attempt (parse_amount overflow_checks (hc_fee_str opts) False) (\<lambda>fee.
     attempt (Returned (hex_string_to_bytes32 sdk (hc_payment_asset_id_str opts))) (\<lambda>payment_asset_id.
       Returned (Inr (launcher_id, wallet,
         \<lparr>hi_nft_launcher_id = nft_launcher_id, hi_payment_asset_id = payment_asset_id,
          hi_base_price = payment_cat_base_price, hi_fee = fee\<rparr>))))))))"

text \<open>
  The slot a refund needs: only while the registry still sells for these terms, for then the refund's reason is that the
  handle is registered. \<open>None\<close> when it does not; the stored slot is unwrapped.
\<close>

definition register_refund_slot ::
  "('n, 'z) sdk_scheme \<Rightarrow> 'c registry_sdk \<Rightarrow> ('c, 'nft) xch_commands_sdk \<Rightarrow> neighbors_server \<Rightarrow> handle_options
    \<Rightarrow> handle_inputs \<Rightarrow> bytes32 \<Rightarrow> 'c registry \<Rightarrow> db \<Rightarrow> (cli_error + handle_slot_value slot option) outcome"
where
  "register_refund_slot sdk xs xc server opts inputs launcher_id registry db =
     (let handle_hash = sdk_str_tree_hash sdk (hc_handle_name opts)
      in if \<not> terms_current sdk xc registry (hi_payment_asset_id inputs) (hi_base_price inputs) (hc_period opts)
         then Returned (Inr None)
         else if hc_local opts
         then
           attempt (Returned (required (get_xchandles_indexed_slot_value launcher_id handle_hash db)
               (Custom ''Refund not available - precommit uses right CAT & amount & tries to register a new CAT'')))
             (\<lambda>slot_value_hash.
           attempt (Returned (get_slot (xs_slot_codec xs) launcher_id (sc_nonce (xs_slot_codec xs)) slot_value_hash 0 db))
             (\<lambda>slot. attempt (unwrap slot) (\<lambda>slot. Returned (Inr (Some slot)))))
         else attempt (api_get_slot_value sdk (xs_slot_codec xs) server launcher_id handle_hash) (\<lambda>slot.
           Returned (Inr (Some slot))))"

definition registration_neighbors ::
  "('n, 'z) sdk_scheme \<Rightarrow> 'c registry_sdk \<Rightarrow> neighbors_server \<Rightarrow> bool \<Rightarrow> db \<Rightarrow> bytes32 \<Rightarrow> bytes32
    \<Rightarrow> cli_error + handle_slot_value slot \<times> handle_slot_value slot"
where
  "registration_neighbors sdk xs server local db launcher_id handle_hash =
     (if local then get_xchandles_neighbors (xs_slot_codec xs) launcher_id handle_hash db
      else api_get_neighbors sdk (xs_slot_codec xs) server launcher_id handle_hash)"

definition register_action ::
  "('n, 'z) sdk_scheme \<Rightarrow> 'c registry_sdk \<Rightarrow> ('c, 'nft) xch_commands_sdk \<Rightarrow> neighbors_server \<Rightarrow> handle_options
    \<Rightarrow> handle_inputs \<Rightarrow> bytes32 \<Rightarrow> 'c registry \<Rightarrow> db \<Rightarrow> paid_precommit \<Rightarrow> 'nft option \<Rightarrow> 'nft handle_plan step"
where
  "register_action sdk xs xc server opts inputs launcher_id registry db precommit nft =
     (case nft of
        None \<Rightarrow>
          attempt (fallible (register_refund_slot sdk xs xc server opts inputs launcher_id registry db)) (\<lambda>slot.
            Returned (Inr (RefundPrecommit precommit slot)))
      | Some nft \<Rightarrow>
          attempt (checked (registration_neighbors sdk xs server (hc_local opts) db launcher_id
                     (sdk_str_tree_hash sdk (hc_handle_name opts)))) (\<lambda>neighbors.
            Returned (Inr (RegisterHandle precommit neighbors nft))))"

definition xchandles_register ::
  "nat \<Rightarrow> bool \<Rightarrow> ('n, 'z) sdk_scheme \<Rightarrow> 'k csv_sdk \<Rightarrow> ('k \<Rightarrow> bytes32) \<Rightarrow> 'c registry_sdk \<Rightarrow> ('c, 'nft) xch_commands_sdk
    \<Rightarrow> client \<Rightarrow> (cli_error + blockchain_peak option) list \<Rightarrow> neighbors_server \<Rightarrow> (handle_question \<Rightarrow> cli_error + unit)
    \<Rightarrow> (cli_error + wallet) \<Rightarrow> handle_options \<Rightarrow> db \<Rightarrow> 'nft handle_plan step option \<times> db"
where
  "xchandles_register fuel overflow_checks sdk cv standard_hash xs xc client polls server ask wallet opts db =
     with_registry fuel sdk xs client (hc_local opts) db (fallible (register_inputs overflow_checks sdk cv wallet opts))
       (\<lambda>launcher_id (wallet, inputs) registry db.
         let relative = xc_relative_block_height xc (rg_constants registry)
         in then_try (Some (fallible (refund_address_of (wa_sage wallet) (hc_refund_address opts)))) (\<lambda>refund_address.
            then_try (Some (if \<not> hc_refund opts \<and>
                 \<not> terms_current sdk xc registry (hi_payment_asset_id inputs) (hi_base_price inputs) (hc_period opts)
               then checked (ask PricesDiffer) else Returned (Inr ()))) (\<lambda>_.
            let price = sdk_factor_price sdk (hi_base_price inputs) (hc_handle_name opts) (hc_num_periods opts)
            in then_try (Some (checked (address_puzzle_hash cv refund_address))) (\<lambda>refund_ph.
            then_try (map_option fallible (time_ahead overflow_checks client relative (hc_time opts))) (\<lambda>start_time.
            then_try (Some (checked (secret_of sdk wallet (hc_secret opts)))) (\<lambda>secret.
            let terms = handle_terms opts inputs
                  (sdk_factor_pricing_hash sdk (hi_base_price inputs) (hc_period opts)) start_time 0 secret;
                inner = xc_precommit_inner_hash xc (rg_constants registry) launcher_id refund_ph terms
            in precommit_or_pay xc client (ask SendPayment) (hc_refund opts) (pt_payment_asset_id terms) inner
                 (\<lambda>a. a = price) (PayPrecommit inner price terms) (\<lambda>record1.
                 then_try (prepared_action overflow_checks sdk cv standard_hash xc client polls ask wallet opts relative
                     record1) (\<lambda>(lineage, nft).
                   Some (register_action sdk xs xc server opts inputs launcher_id registry db
                     \<lparr>pp_coin_record = record1, pp_lineage = lineage, pp_terms = terms,
                      pp_refund_puzzle_hash = refund_ph, pp_amount = price\<rparr> nft)))))))))"

section \<open>Registering an expired handle again\<close>

definition expire_inputs ::
  "bool \<Rightarrow> ('n, 'z) sdk_scheme \<Rightarrow> 'k csv_sdk \<Rightarrow> (cli_error + wallet) \<Rightarrow> handle_options
    \<Rightarrow> (cli_error + bytes32 \<times> wallet \<times> handle_inputs) outcome"
where
  "expire_inputs overflow_checks sdk cv wallet opts =
     attempt (Returned (hex_string_to_bytes32 sdk (hc_launcher_id_str opts))) (\<lambda>launcher_id.
     attempt (Returned (address_puzzle_hash cv (hc_nft opts))) (\<lambda>nft_launcher_id.
     attempt (Returned (hex_string_to_bytes32 sdk (hc_payment_asset_id_str opts))) (\<lambda>payment_asset_id.
     attempt (parse_amount overflow_checks (hc_base_price_str opts) True) (\<lambda>payment_cat_base_price.
     attempt (parse_amount overflow_checks (hc_fee_str opts) False) (\<lambda>fee.
     attempt (Returned wallet) (\<lambda>wallet.
       Returned (Inr (launcher_id, wallet,
         \<lparr>hi_nft_launcher_id = nft_launcher_id, hi_payment_asset_id = payment_asset_id,
          hi_base_price = payment_cat_base_price, hi_fee = fee\<rparr>))))))))"

text \<open>
  No price is computed for a refund of a handle that is not expired at the given time: somebody else renewed it. Else it is
  the low 64 bits of the price the puzzle computes.
\<close>

definition expire_payment ::
  "('c, 'nft) xch_commands_sdk \<Rightarrow> handle_options \<Rightarrow> handle_inputs \<Rightarrow> u64 \<Rightarrow> u64 \<Rightarrow> cli_error + u64"
where
  "expire_payment xc opts inputs expiration expire_time =
     (if hc_refund opts \<and> expire_time < expiration then Inr 0
      else try_result (map_err Driver (xc_expire_price xc (hi_base_price inputs) (hc_period opts) (hc_handle_name opts)
               expiration expire_time (hc_num_periods opts))) (\<lambda>price. Inr (ucast price)))"

definition expire_action ::
  "('n, 'z) sdk_scheme \<Rightarrow> ('c, 'nft) xch_commands_sdk \<Rightarrow> handle_options \<Rightarrow> handle_inputs \<Rightarrow> 'c registry
    \<Rightarrow> handle_slot_value slot \<Rightarrow> paid_precommit \<Rightarrow> 'nft option \<Rightarrow> 'nft handle_plan"
where
  "expire_action sdk xc opts inputs registry slot precommit nft =
     (case nft of
        None \<Rightarrow> RefundPrecommit precommit
          (if terms_current sdk xc registry (hi_payment_asset_id inputs) (hi_base_price inputs) (hc_period opts)
           then Some slot else None)
      | Some nft \<Rightarrow> ExpireHandle precommit slot nft)"

text \<open>Whether the question about the prices is asked; here of a refund too.\<close>

definition expire_terms_current ::
  "('c, 'nft) xch_commands_sdk \<Rightarrow> 'c registry \<Rightarrow> handle_inputs \<Rightarrow> u64 \<Rightarrow> bool"
where
  "expire_terms_current xc registry inputs period \<longleftrightarrow>
     xc_cat_maker_hash xc (hi_payment_asset_id inputs) = rt_cat_maker_puzzle_hash (xc_state xc registry) \<and>
     rt_expired_handle_pricing_puzzle_hash (xc_state xc registry) = xc_expire_pricing_hash xc (hi_base_price inputs) period"

definition xchandles_expire ::
  "nat \<Rightarrow> bool \<Rightarrow> ('n, 'z) sdk_scheme \<Rightarrow> 'k csv_sdk \<Rightarrow> ('k \<Rightarrow> bytes32) \<Rightarrow> 'c registry_sdk \<Rightarrow> ('c, 'nft) xch_commands_sdk
    \<Rightarrow> client \<Rightarrow> (cli_error + blockchain_peak option) list \<Rightarrow> neighbors_server \<Rightarrow> (handle_question \<Rightarrow> cli_error + unit)
    \<Rightarrow> (cli_error + wallet) \<Rightarrow> handle_options \<Rightarrow> db \<Rightarrow> 'nft handle_plan step option \<times> db"
where
  "xchandles_expire fuel overflow_checks sdk cv standard_hash xs xc client polls server ask wallet opts db =
     with_registry fuel sdk xs client (hc_local opts) db (fallible (expire_inputs overflow_checks sdk cv wallet opts))
       (\<lambda>launcher_id (wallet, inputs) registry db.
         let relative = xc_relative_block_height xc (rg_constants registry)
         in then_try (Some (if \<not> expire_terms_current xc registry inputs (hc_period opts)
              then checked (ask PricesDiffer) else Returned (Inr ()))) (\<lambda>_.
            then_try (Some (fallible (fetch_handle_slot sdk xs server (hc_local opts) db launcher_id
              (sdk_str_tree_hash sdk (hc_handle_name opts))))) (\<lambda>slot.
            let expiration = hv_expiration (slot_value slot)
            in then_try (map_option fallible (time_ahead overflow_checks client relative (hc_time opts))) (\<lambda>expire_time.
            then_try (Some (checked (expire_payment xc opts inputs expiration expire_time))) (\<lambda>price.
            then_try (Some (checked (secret_of sdk wallet (hc_secret opts)))) (\<lambda>secret.
            let committed_expiration =
                  (case hc_committed_expiration opts of Some e \<Rightarrow> e | None \<Rightarrow> expiration);
                terms = handle_terms opts inputs
                  (xc_expire_pricing_hash xc (hi_base_price inputs) (hc_period opts)) expire_time committed_expiration secret
            in then_try (Some (fallible (refund_address_of (wa_sage wallet) (hc_refund_address opts)))) (\<lambda>refund_address.
            then_try (Some (checked (address_puzzle_hash cv refund_address))) (\<lambda>refund_ph.
            let inner = xc_precommit_inner_hash xc (rg_constants registry) (xs_launcher_id xs (rg_constants registry))
                  refund_ph terms
            in precommit_or_pay xc client (ask SendPayment) (hc_refund opts) (pt_payment_asset_id terms) inner
              (\<lambda>a. price = 0 \<or> a = price) (PayPrecommit inner price terms) (\<lambda>record1.
              then_try (prepared_action overflow_checks sdk cv standard_hash xc client polls ask wallet opts relative record1)
                (\<lambda>(lineage, nft).
                Some (Returned (Inr (expire_action sdk xc opts inputs registry slot
                  \<lparr>pp_coin_record = record1, pp_lineage = lineage, pp_terms = terms, pp_refund_puzzle_hash = refund_ph,
                   pp_amount = (if price = 0 then amount (cr_coin record1) else price)\<rparr> nft)))))))))))))"

section \<open>Extending\<close>

record extension =
  ex_slot :: "handle_slot_value slot"
  ex_payment_asset_id :: bytes32
  ex_base_price :: u64
  ex_buy_time :: u64
  ex_price :: u64

definition extend_inputs ::
  "bool \<Rightarrow> ('n, 'z) sdk_scheme \<Rightarrow> (cli_error + wallet) \<Rightarrow> handle_options
    \<Rightarrow> (cli_error + bytes32 \<times> bytes32 \<times> u64) outcome"
where
  "extend_inputs overflow_checks sdk wallet opts =
     attempt (Returned (hex_string_to_bytes32 sdk (hc_launcher_id_str opts))) (\<lambda>launcher_id.
     attempt (Returned (hex_string_to_bytes32 sdk (hc_payment_asset_id_str opts))) (\<lambda>payment_asset_id.
     attempt (parse_amount overflow_checks (hc_base_price_str opts) True) (\<lambda>payment_cat_base_price.
     attempt (parse_amount overflow_checks (hc_fee_str opts) False) (\<lambda>fee.
     attempt (Returned wallet) (\<lambda>wallet.
       Returned (Inr (launcher_id, payment_asset_id, payment_cat_base_price)))))))"

text \<open>The time of the purchase is the second before the last timestamp.\<close>

definition second_before :: "bool \<Rightarrow> u64 \<Rightarrow> (cli_error + u64) outcome" where
  "second_before overflow_checks t = (if overflow_checks \<and> t = 0 then Panicked else Returned (Inr (t - 1)))"

definition xchandles_extend ::
  "nat \<Rightarrow> bool \<Rightarrow> ('n, 'z) sdk_scheme \<Rightarrow> 'c registry_sdk \<Rightarrow> ('c, 'nft) xch_commands_sdk \<Rightarrow> client \<Rightarrow> neighbors_server
    \<Rightarrow> (cli_error + wallet) \<Rightarrow> handle_options \<Rightarrow> db \<Rightarrow> extension step option \<times> db"
where
  "xchandles_extend fuel overflow_checks sdk xs xc client server wallet opts db =
     with_registry fuel sdk xs client (hc_local opts) db (fallible (extend_inputs overflow_checks sdk wallet opts))
       (\<lambda>launcher_id (payment_asset_id, base) registry db.
         if xc_cat_maker_hash xc payment_asset_id \<noteq> rt_cat_maker_puzzle_hash (xc_state xc registry) \<or>
            rt_pricing_puzzle_hash (xc_state xc registry) \<noteq> sdk_factor_pricing_hash sdk base (hc_period opts)
         then Some (checked (Inl (Custom
           ''Given payment asset id & base price do not match the current registry's state.'')))
         else
           let price = sdk_factor_price sdk base (hc_handle_name opts) (hc_num_periods opts)
           in then_try (Some (fallible (fetch_handle_slot sdk xs server (hc_local opts) db launcher_id
                (sdk_str_tree_hash sdk (hc_handle_name opts))))) (\<lambda>slot.
              then_try (map_option fallible (then_try (get_last_onchain_timestamp overflow_checks client) (\<lambda>latest.
                Some (second_before overflow_checks latest)))) (\<lambda>buy_time.
              Some (Returned (Inr \<lparr>ex_slot = slot, ex_payment_asset_id = payment_asset_id, ex_base_price = base,
                ex_buy_time = buy_time, ex_price = price\<rparr>)))))"

section \<open>Moving a handle to another NFT\<close>

definition update_inputs ::
  "bool \<Rightarrow> ('n, 'z) sdk_scheme \<Rightarrow> 'k csv_sdk \<Rightarrow> (cli_error + wallet) \<Rightarrow> handle_options
    \<Rightarrow> (cli_error + bytes32 \<times> wallet \<times> bytes32) outcome"
where
  "update_inputs overflow_checks sdk cv wallet opts =
     attempt (Returned (hex_string_to_bytes32 sdk (hc_launcher_id_str opts))) (\<lambda>launcher_id.
     attempt (Returned (address_puzzle_hash cv (hc_nft opts))) (\<lambda>new_nft_launcher_id.
     attempt (parse_amount overflow_checks (hc_fee_str opts) False) (\<lambda>fee.
     attempt (Returned wallet) (\<lambda>wallet. Returned (Inr (launcher_id, wallet, new_nft_launcher_id))))))"

record 'nft update_plan =
  up_slot :: "handle_slot_value slot"
  up_new_launcher_id :: bytes32
  up_owner_nft :: 'nft
  up_min_height :: u32

text \<open>\<open>peak_height + 8\<close> is computed also when a height is given.\<close>

definition xchandles_initiate_update ::
  "nat \<Rightarrow> bool \<Rightarrow> ('n, 'z) sdk_scheme \<Rightarrow> 'k csv_sdk \<Rightarrow> ('k \<Rightarrow> bytes32) \<Rightarrow> 'c registry_sdk \<Rightarrow> ('c, 'nft) xch_commands_sdk
    \<Rightarrow> client \<Rightarrow> neighbors_server \<Rightarrow> (handle_question \<Rightarrow> cli_error + unit)
    \<Rightarrow> (cli_error + wallet) \<Rightarrow> handle_options \<Rightarrow> db \<Rightarrow> 'nft update_plan step option \<times> db"
where
  "xchandles_initiate_update fuel overflow_checks sdk cv standard_hash xs xc client server ask wallet opts db =
     with_registry fuel sdk xs client (hc_local opts) db (fallible (update_inputs overflow_checks sdk cv wallet opts))
       (\<lambda>launcher_id (wallet, new_nft_launcher_id) registry db.
         then_try (Some (fallible (fetch_handle_slot sdk xs server (hc_local opts) db launcher_id
           (sdk_str_tree_hash sdk (hc_handle_name opts))))) (\<lambda>slot.
         then_try (Some (fallible (first_address (wa_sage wallet)))) (\<lambda>return_address.
         then_try (Some (checked (required (cl_blockchain_state client)
           (Custom ''Could not fetch blockchain state'')))) (\<lambda>peak.
         then_try (Some (plain_u32_add overflow_checks (bp_height peak) 8)) (\<lambda>ahead.
         let min_height = (case hc_min_height opts of Some h \<Rightarrow> h | None \<Rightarrow> ahead)
         in then_try (Some (checked (xc_nft_address xc (hv_owner_launcher_id (slot_value slot))))) (\<lambda>current_owner_nft.
            then_try (Some (checked (xc_nft_address xc (hv_resolved_launcher_id (slot_value slot))))) (\<lambda>_.
            then_try (map_option fallible
              (fetch_nft_from_wallet overflow_checks sdk cv standard_hash xc wallet client current_owner_nft))
              (\<lambda>(nft, key).
            then_try (Some (checked (ask SpendOffer))) (\<lambda>_.
            Some (Returned (Inr \<lparr>up_slot = slot, up_new_launcher_id = new_nft_launcher_id, up_owner_nft = nft,
              up_min_height = min_height\<rparr>)))))))))))"

record 'nft executed_update =
  eu_slot :: "handle_slot_value slot"
  eu_update_slot :: "update_slot_value slot"
  eu_new_launcher_id :: bytes32
  eu_owner_nft :: 'nft
  eu_new_nft :: 'nft

definition xchandles_execute_update ::
  "nat \<Rightarrow> bool \<Rightarrow> ('n, 'z) sdk_scheme \<Rightarrow> 'k csv_sdk \<Rightarrow> ('k \<Rightarrow> bytes32) \<Rightarrow> 'c registry_sdk \<Rightarrow> ('c, 'nft) xch_commands_sdk
    \<Rightarrow> client \<Rightarrow> (cli_error + blockchain_peak option) list \<Rightarrow> neighbors_server \<Rightarrow> (handle_question \<Rightarrow> cli_error + unit)
    \<Rightarrow> (cli_error + wallet) \<Rightarrow> handle_options \<Rightarrow> db \<Rightarrow> 'nft executed_update step option \<times> db"
where
  "xchandles_execute_update fuel overflow_checks sdk cv standard_hash xs xc client polls server ask wallet opts db =
     with_registry fuel sdk xs client (hc_local opts) db (fallible (update_inputs overflow_checks sdk cv wallet opts))
       (\<lambda>launcher_id (wallet, new_nft_launcher_id) registry db.
         let handle_hash = sdk_str_tree_hash sdk (hc_handle_name opts);
             fetch = (\<lambda>nft. map_option fallible
               (fetch_nft_from_wallet overflow_checks sdk cv standard_hash xc wallet client nft))
         in then_try (Some (fallible (fetch_handle_slot sdk xs server (hc_local opts) db launcher_id handle_hash)))
              (\<lambda>handle_slot.
            then_try (Some (checked (xc_nft_address xc (hv_owner_launcher_id (slot_value handle_slot)))))
              (\<lambda>current_owner_nft.
            then_try (fetch current_owner_nft) (\<lambda>(current_owner_nft, current_key).
            then_try (fetch (hc_nft opts)) (\<lambda>(new_owner_nft, new_key).
            then_try (Some (checked (find_xchandles_update_slot xs client (rg_constants registry)
                (parent_coin_info (xc_nft_coin xc current_owner_nft)) handle_hash))) (\<lambda>update_slot.
            then_try (wait_for_height polls (uv_min_height (slot_value update_slot))) (\<lambda>_.
            then_try (Some (checked (ask SpendOffer))) (\<lambda>_.
            Some (Returned (Inr \<lparr>eu_slot = handle_slot, eu_update_slot = update_slot,
              eu_new_launcher_id = new_nft_launcher_id, eu_owner_nft = current_owner_nft,
              eu_new_nft = new_owner_nft\<rparr>))))))))))"

section \<open>What the state sells for\<close>

text \<open>\<open>print_registry_state\<close> checks the hints it is given; a price and a period are checked together or not at all.\<close>

definition check_state_hints ::
  "bool \<Rightarrow> ('n, 'z) sdk_scheme \<Rightarrow> ('c, 'nft) xch_commands_sdk \<Rightarrow> registry_state \<Rightarrow> string option \<Rightarrow> string option
    \<Rightarrow> u64 option \<Rightarrow> (cli_error + u64 option) outcome"
where
  "check_state_hints overflow_checks sdk xc state payment_asset_id_hint base_price_hint period_hint =
     attempt (Returned (case payment_asset_id_hint of
         None \<Rightarrow> Inr ()
       | Some payment_asset_id \<Rightarrow>
           try_result (hex_string_to_bytes32 sdk payment_asset_id) (\<lambda>payment_asset_id.
             if rt_cat_maker_puzzle_hash state = xc_cat_maker_hash xc payment_asset_id then Inr ()
             else Inl (Custom ''Payment asset id hint is wrong'')))) (\<lambda>_.
       case (base_price_hint, period_hint) of
         (Some price_str, Some period) \<Rightarrow>
           attempt (parse_amount overflow_checks price_str True) (\<lambda>price.
             if rt_pricing_puzzle_hash state = sdk_factor_pricing_hash sdk price period \<and>
                rt_expired_handle_pricing_puzzle_hash state = xc_expire_pricing_hash xc price period
             then Returned (Inr (Some price))
             else Returned (Inl (Custom ''Payment CAT base price hint is wrong'')))
       | _ \<Rightarrow> Returned (Inr None))"

end
