(* ===== verification/XchCommandFacts.thy ===== *)
theory XchCommandFacts
  imports XchCommands QuickSync DatastoreFacts
begin

text \<open>
  What the registration commands decide: which coin a second run spends, what it waited for and whose NFT it uses; and that
  running a command again never pays twice.
\<close>

section \<open>Decomposing a run\<close>

lemma with_registry_Inr:
  "with_registry fuel sdk xs client local db inputs k = (Some (Returned (Inr y)), db') \<longleftrightarrow>
     (\<exists>launcher_id x registry. inputs = Returned (Inr (launcher_id, x)) \<and>
        synced_registry fuel sdk xs client local launcher_id db = Some (Inr registry, db') \<and>
        k launcher_id x registry db' = Some (Returned (Inr y)))"
  by (auto simp: with_registry_def split: outcome.splits sum.splits option.splits)

fun plan_precommit :: "'nft handle_plan \<Rightarrow> paid_precommit option" where
  "plan_precommit (PayPrecommit inner_puzzle_hash price terms) = None"
| "plan_precommit (RegisterHandle precommit neighbors nft) = Some precommit"
| "plan_precommit (ExpireHandle precommit slot nft) = Some precommit"
| "plan_precommit (RefundPrecommit precommit slot) = Some precommit"

lemma prepared_action_Inr:
  assumes "prepared_action checks sdk cv standard_hash xc client polls ask wallet opts relative record1 =
      Some (Returned (Inr (lineage, nft)))"
  shows "spendable_precommit checks xc client polls relative (relative div 4) record1 = Some (Returned (Inr lineage)) \<and>
    ask SpendOffer = Inr () \<and>
    (case nft of
       None \<Rightarrow> hc_refund opts
     | Some n \<Rightarrow> \<not> hc_refund opts \<and> (\<exists>key.
         fetch_nft_from_wallet checks sdk cv standard_hash xc wallet client (hc_nft opts) = Some (Returned (Inr (n, key)))))"
  using assms by (auto simp: prepared_action_def result_simps split: if_splits)

lemma fetched_nft_owned:
  assumes "fetch_nft_from_wallet checks sdk cv standard_hash xc wallet client nft = Some (Returned (Inr (n, key)))"
  shows "standard_hash key = xc_nft_p2 xc n \<and>
    (\<exists>info prefix. wa_get_nft wallet nft = Inr (Some info) \<and> on_chain_nft sdk xc client info = Inr n \<and>
       cv_address_decode cv (wn_address info) = Some (prefix, xc_nft_p2 xc n) \<and>
       sg_check_address (wa_sage wallet) (wn_address info) = Inr True)"
  using assms by (auto simp: fetch_nft_from_wallet_def result_simps split: if_splits)

section \<open>A run of the registration\<close>

lemma register_inputs_Inr:
  "register_inputs checks sdk cv wallet opts = Returned (Inr (launcher_id, w, inputs)) \<Longrightarrow>
     hex_string_to_bytes32 sdk (hc_launcher_id_str opts) = Inr launcher_id \<and> wallet = Inr w \<and>
     hex_string_to_bytes32 sdk (hc_payment_asset_id_str opts) = Inr (hi_payment_asset_id inputs) \<and>
     address_puzzle_hash cv (hc_nft opts) = Inr (hi_nft_launcher_id inputs) \<and>
     parse_amount checks (hc_base_price_str opts) True = Returned (Inr (hi_base_price inputs))"
  by (auto simp: register_inputs_def result_simps)

lemma expire_inputs_Inr:
  "expire_inputs checks sdk cv wallet opts = Returned (Inr (launcher_id, w, inputs)) \<Longrightarrow>
     hex_string_to_bytes32 sdk (hc_launcher_id_str opts) = Inr launcher_id \<and> wallet = Inr w \<and>
     hex_string_to_bytes32 sdk (hc_payment_asset_id_str opts) = Inr (hi_payment_asset_id inputs) \<and>
     address_puzzle_hash cv (hc_nft opts) = Inr (hi_nft_launcher_id inputs) \<and>
     parse_amount checks (hc_base_price_str opts) True = Returned (Inr (hi_base_price inputs))"
  by (auto simp: expire_inputs_def result_simps)

definition factor_terms ::
  "('n, 'z) sdk_scheme \<Rightarrow> handle_options \<Rightarrow> handle_inputs \<Rightarrow> u64 \<Rightarrow> bytes32 \<Rightarrow> precommit_terms"
where
  "factor_terms sdk opts inputs start_time secret =
     handle_terms opts inputs (sdk_factor_pricing_hash sdk (hi_base_price inputs) (hc_period opts)) start_time 0 secret"

lemma register_Inr:
  assumes "xchandles_register fuel checks sdk cv standard_hash xs xc client polls server ask wallet opts db =
      (Some (Returned (Inr plan)), db')"
  obtains launcher_id w inputs registry refund_address refund_ph start_time secret where
    "register_inputs checks sdk cv wallet opts = Returned (Inr (launcher_id, w, inputs))"
    "synced_registry fuel sdk xs client (hc_local opts) launcher_id db = Some (Inr registry, db')"
    "refund_address_of (wa_sage w) (hc_refund_address opts) = Returned (Inr refund_address)"
    "address_puzzle_hash cv refund_address = Inr refund_ph"
    "time_ahead checks client (xc_relative_block_height xc (rg_constants registry)) (hc_time opts) =
      Some (Returned (Inr start_time))"
    "secret_of sdk w (hc_secret opts) = Inr secret"
    "precommit_or_pay xc client (ask SendPayment) (hc_refund opts) (pt_payment_asset_id (factor_terms sdk opts inputs start_time secret))
       (xc_precommit_inner_hash xc (rg_constants registry) launcher_id refund_ph (factor_terms sdk opts inputs start_time secret))
       (\<lambda>a. a = sdk_factor_price sdk (hi_base_price inputs) (hc_handle_name opts) (hc_num_periods opts))
       (PayPrecommit
          (xc_precommit_inner_hash xc (rg_constants registry) launcher_id refund_ph (factor_terms sdk opts inputs start_time secret))
          (sdk_factor_price sdk (hi_base_price inputs) (hc_handle_name opts) (hc_num_periods opts))
          (factor_terms sdk opts inputs start_time secret)) (\<lambda>record1.
         then_try (prepared_action checks sdk cv standard_hash xc client polls ask w opts
             (xc_relative_block_height xc (rg_constants registry)) record1) (\<lambda>(lineage, nft).
           Some (register_action sdk xs xc server opts inputs launcher_id registry db'
             \<lparr>pp_coin_record = record1, pp_lineage = lineage, pp_terms = factor_terms sdk opts inputs start_time secret,
              pp_refund_puzzle_hash = refund_ph,
              pp_amount = sdk_factor_price sdk (hi_base_price inputs) (hc_handle_name opts) (hc_num_periods opts)\<rparr> nft)))
     = Some (Returned (Inr plan))"
  using assms
  by (auto simp: xchandles_register_def with_registry_Inr result_simps Let_def factor_terms_def)

lemma register_action_precommit:
  "register_action sdk xs xc server opts inputs launcher_id registry db precommit nft = Returned (Inr plan) \<Longrightarrow>
     plan_precommit plan = Some precommit"
  by (auto simp: register_action_def result_simps split: option.splits)

lemma register_paid:
  assumes "then_try (prepared_action checks sdk cv standard_hash xc client polls ask w opts relative record1)
      (\<lambda>(lineage, nft). Some (register_action sdk xs xc server opts inputs launcher_id registry db
         \<lparr>pp_coin_record = record1, pp_lineage = lineage, pp_terms = terms, pp_refund_puzzle_hash = refund_ph,
          pp_amount = price\<rparr> nft)) = Some (Returned (Inr plan))"
  shows "\<exists>precommit. plan_precommit plan = Some precommit \<and> pp_coin_record precommit = record1 \<and>
    pp_terms precommit = terms \<and> pp_amount precommit = price \<and> pp_refund_puzzle_hash precommit = refund_ph"
  using assms by (fastforce simp: result_simps dest: register_action_precommit)

text \<open>What a run decided, whichever way it went.\<close>

definition run_outcome ::
  "('c, 'nft) xch_commands_sdk \<Rightarrow> client \<Rightarrow> bytes32 \<Rightarrow> precommit_terms \<Rightarrow> u64 \<Rightarrow> (u64 \<Rightarrow> bool) \<Rightarrow> 'nft handle_plan \<Rightarrow> bool"
where
  "run_outcome xc client inner terms price fits plan \<longleftrightarrow>
     (\<exists>records. cl_coin_records_by_hint client inner = Inr (Some records) \<and>
        (case plan_precommit plan of
           None \<Rightarrow> plan = PayPrecommit inner price terms \<and>
             (\<forall>cr \<in> set records. \<not> (puzzle_hash (cr_coin cr) = pq_cat_puzzle_hash xc (pt_payment_asset_id terms) inner \<and>
                fits (amount (cr_coin cr))))
         | Some precommit \<Rightarrow> pp_terms precommit = terms \<and> pp_coin_record precommit \<in> set records \<and>
             puzzle_hash (cr_coin (pp_coin_record precommit)) = pq_cat_puzzle_hash xc (pt_payment_asset_id terms) inner \<and>
             fits (amount (cr_coin (pp_coin_record precommit)))))"

lemma run_outcomeI:
  assumes "precommit_or_pay xc client answer refund (pt_payment_asset_id terms) inner fits (PayPrecommit inner price terms) k =
      Some (Returned (Inr plan))"
    and "\<And>record1. k record1 = Some (Returned (Inr plan)) \<Longrightarrow>
      \<exists>precommit. plan_precommit plan = Some precommit \<and> pp_coin_record precommit = record1 \<and> pp_terms precommit = terms"
  shows "run_outcome xc client inner terms price fits plan"
proof -
  let ?paid = "\<lambda>cr. puzzle_hash (cr_coin cr) = pq_cat_puzzle_hash xc (pt_payment_asset_id terms) inner \<and>
      fits (amount (cr_coin cr))"
  from precommit_or_pay_Inr [OF assms(1)] obtain records where
    records: "cl_coin_records_by_hint client inner = Inr (Some records)"
    and found: "case find ?paid records of Some record1 \<Rightarrow> k record1 = Some (Returned (Inr plan))
      | None \<Rightarrow> \<not> refund \<and> answer = Inr () \<and> plan = PayPrecommit inner price terms"
    by blast
  show ?thesis
  proof (cases "find ?paid records")
    case None
    with found have "plan = PayPrecommit inner price terms" by simp
    with records None show ?thesis by (auto simp: run_outcome_def find_None_iff)
  next
    case (Some record1)
    with found have "k record1 = Some (Returned (Inr plan))" by simp
    from assms(2) [OF this] records find_SomeD [OF Some] show ?thesis by (auto simp: run_outcome_def)
  qed
qed

lemma run_outcome_paid:
  assumes "run_outcome xc client inner terms price fits plan"
    and "cl_coin_records_by_hint client inner = Inr (Some records)" and "paid \<in> set records"
    and "puzzle_hash (cr_coin paid) = pq_cat_puzzle_hash xc (pt_payment_asset_id terms) inner" and "fits (amount (cr_coin paid))"
  obtains precommit where "plan_precommit plan = Some precommit" "pp_terms precommit = terms"
    "pp_coin_record precommit \<in> set records" "fits (amount (cr_coin (pp_coin_record precommit)))"
    "puzzle_hash (cr_coin (pp_coin_record precommit)) = pq_cat_puzzle_hash xc (pt_payment_asset_id terms) inner"
  using assms by (auto simp: run_outcome_def split: option.splits)

lemma run_outcome_unpaid:
  "run_outcome xc client inner terms price fits (PayPrecommit i p t) \<Longrightarrow> i = inner \<and> p = price \<and> t = terms"
  by (auto simp: run_outcome_def)

lemma register_outcome:
  assumes "xchandles_register fuel checks sdk cv standard_hash xs xc client polls server ask wallet opts db =
      (Some (Returned (Inr plan)), db')"
  obtains launcher_id w inputs registry refund_address refund_ph start_time secret terms inner price where
    "register_inputs checks sdk cv wallet opts = Returned (Inr (launcher_id, w, inputs))"
    "synced_registry fuel sdk xs client (hc_local opts) launcher_id db = Some (Inr registry, db')"
    "refund_address_of (wa_sage w) (hc_refund_address opts) = Returned (Inr refund_address)"
    "address_puzzle_hash cv refund_address = Inr refund_ph"
    "time_ahead checks client (xc_relative_block_height xc (rg_constants registry)) (hc_time opts) =
      Some (Returned (Inr start_time))"
    "secret_of sdk w (hc_secret opts) = Inr secret"
    "terms = factor_terms sdk opts inputs start_time secret"
    "inner = xc_precommit_inner_hash xc (rg_constants registry) launcher_id refund_ph terms"
    "price = sdk_factor_price sdk (hi_base_price inputs) (hc_handle_name opts) (hc_num_periods opts)"
    "run_outcome xc client inner terms price (\<lambda>a. a = price) plan"
    "\<forall>precommit. plan_precommit plan = Some precommit \<longrightarrow> pp_amount precommit = price"
proof (rule register_Inr [OF assms], goal_cases)
  case (1 launcher_id w inputs registry refund_address refund_ph start_time secret)
  have "run_outcome xc client
      (xc_precommit_inner_hash xc (rg_constants registry) launcher_id refund_ph (factor_terms sdk opts inputs start_time secret))
      (factor_terms sdk opts inputs start_time secret)
      (sdk_factor_price sdk (hi_base_price inputs) (hc_handle_name opts) (hc_num_periods opts))
      (\<lambda>a. a = sdk_factor_price sdk (hi_base_price inputs) (hc_handle_name opts) (hc_num_periods opts)) plan"
    using 1(8) by (rule run_outcomeI) (blast dest: register_paid)
  moreover have "\<forall>precommit. plan_precommit plan = Some precommit \<longrightarrow>
      pp_amount precommit = sdk_factor_price sdk (hi_base_price inputs) (hc_handle_name opts) (hc_num_periods opts)"
    using precommit_or_pay_Inr [OF 1(8)] by (auto split: option.splits dest!: register_paid)
  ultimately show ?thesis by (rule that [OF 1(2-7) refl refl refl])
qed

lemma secret_given: "hex_codec_ok sdk \<Longrightarrow> secret_of sdk w (Some (hex32 sdk s)) = Inr s"
  by (simp add: secret_of_def hex_string_roundtrip)

lemma time_given: "time_ahead checks client relative (Some t) = Some (Returned (Inr t))"
  by (simp add: time_ahead_def)

text \<open>
  C25. Registering takes two runs of one command, and the second finds what the first paid: run again with the
  secret and the start time that the first run printed, over a registry with the same constants, it asks for the very
  same precommitment, so once the node lists the coin under the hint the command never pays a second time, whatever became
  of the registry's prices and with \<open>--refund\<close> or without: what it goes on to spend is a coin of that
  list, at the puzzle hash and with the amount that were paid.
\<close>

theorem register_follow_up:
  assumes "hex_codec_ok sdk"
    and first: "xchandles_register fuel checks sdk cv standard_hash xs xc client polls server ask wallet opts db =
      (Some (Returned (Inr (PayPrecommit inner_puzzle_hash price terms))), db1)"
    and second: "xchandles_register fuel2 checks sdk cv standard_hash xs xc client2 polls2 server2 ask2 wallet
      (opts\<lparr>hc_secret := Some (hex32 sdk (pt_secret terms)), hc_time := Some (pt_buy_time terms), hc_refund := refund\<rparr>) db2 =
      (Some (Returned (Inr plan)), db3)"
    and launcher: "hex_string_to_bytes32 sdk (hc_launcher_id_str opts) = Inr launcher_id"
    and registry: "synced_registry fuel sdk xs client (hc_local opts) launcher_id db = Some (Inr registry, db1)"
    and registry2: "synced_registry fuel2 sdk xs client2 (hc_local opts) launcher_id db2 = Some (Inr registry2, db3)"
    and same: "rg_constants registry2 = rg_constants registry"
    and listed: "cl_coin_records_by_hint client2 inner_puzzle_hash = Inr (Some records)" "paid \<in> set records"
      "puzzle_hash (cr_coin paid) = pq_cat_puzzle_hash xc (pt_payment_asset_id terms) inner_puzzle_hash"
      "amount (cr_coin paid) = price"
  shows "\<exists>precommit. plan_precommit plan = Some precommit \<and> pp_terms precommit = terms \<and> pp_amount precommit = price \<and>
    pp_coin_record precommit \<in> set records \<and> amount (cr_coin (pp_coin_record precommit)) = price \<and>
    puzzle_hash (cr_coin (pp_coin_record precommit)) =
      pq_cat_puzzle_hash xc (pt_payment_asset_id terms) inner_puzzle_hash"
proof -
  let ?opts = "opts\<lparr>hc_secret := Some (hex32 sdk (pt_secret terms)), hc_time := Some (pt_buy_time terms), hc_refund := refund\<rparr>"
  have inputs_eq: "register_inputs checks sdk cv wallet ?opts = register_inputs checks sdk cv wallet opts"
    by (simp add: register_inputs_def)
  have terms_eq: "factor_terms sdk ?opts = factor_terms sdk opts"
    by (intro ext) (simp add: factor_terms_def handle_terms_def)
  from first obtain launcher1 w inputs registry1 refund_address refund_ph start_time secret where
    inputs: "register_inputs checks sdk cv wallet opts = Returned (Inr (launcher1, w, inputs))"
    and synced: "synced_registry fuel sdk xs client (hc_local opts) launcher1 db = Some (Inr registry1, db1)"
    and refund: "refund_address_of (wa_sage w) (hc_refund_address opts) = Returned (Inr refund_address)"
      "address_puzzle_hash cv refund_address = Inr refund_ph"
    and pay: "terms = factor_terms sdk opts inputs start_time secret"
      "inner_puzzle_hash = xc_precommit_inner_hash xc (rg_constants registry1) launcher1 refund_ph terms"
      "price = sdk_factor_price sdk (hi_base_price inputs) (hc_handle_name opts) (hc_num_periods opts)"
    by (rule register_outcome) (auto dest: run_outcome_unpaid)
  have launcher1: "launcher1 = launcher_id" using register_inputs_Inr [OF inputs] launcher by simp
  with synced registry have registry1: "registry1 = registry" by simp
  have given: "start_time = pt_buy_time terms" "secret = pt_secret terms"
    by (simp_all add: pay(1) factor_terms_def handle_terms_def)
  have "run_outcome xc client2 inner_puzzle_hash terms price (\<lambda>a. a = price) plan \<and>
      (\<forall>precommit. plan_precommit plan = Some precommit \<longrightarrow> pp_amount precommit = price)"
    using second
  proof (rule register_outcome, goal_cases)
    case (1 launcher2 w2 inputs2 registry' refund_address2 refund_ph2 start2 secret2 terms2 inner2 price2)
    have i: "launcher2 = launcher_id" "w2 = w" "inputs2 = inputs"
      using 1(1) inputs launcher1 by (simp_all add: inputs_eq)
    have r: "registry' = registry2" using 1(2) registry2 i(1) by simp
    have p: "refund_ph2 = refund_ph" using 1(3,4) refund i(2) by simp
    have t: "terms2 = terms"
    proof -
      have "start2 = pt_buy_time terms" using 1(5) by (simp add: time_given)
      moreover have "secret2 = pt_secret terms" using 1(6) by (simp add: secret_given [OF assms(1)])
      ultimately have "terms2 = factor_terms sdk opts inputs start_time secret"
        unfolding 1(7) given i(3) terms_eq by simp
      also have "\<dots> = terms" by (rule pay(1) [symmetric])
      finally show ?thesis .
    qed
    have inner: "inner2 = inner_puzzle_hash"
      unfolding 1(8) pay(2) launcher1 registry1 i(1) r p t same by (rule refl)
    have price: "price2 = price" unfolding 1(9) pay(3) i(3) by simp
    show ?case using 1(10,11) unfolding inner price t by blast
  qed
  then have outcome: "run_outcome xc client2 inner_puzzle_hash terms price (\<lambda>a. a = price) plan"
    and amounts: "\<And>precommit. plan_precommit plan = Some precommit \<Longrightarrow> pp_amount precommit = price" by auto
  show ?thesis
  proof (rule run_outcome_paid [OF outcome listed(1,2,3) listed(4)], goal_cases)
    case (1 precommit)
    with amounts [OF 1(1)] show ?case by blast
  qed
qed

text \<open>
  C26. What a registration spends is sound: a coin that the node lists unspent under the precommitment's hint, at its
  puzzle hash and with exactly the price of the handle for the periods asked, whose terms name the handle, the periods and the
  NFT of the command; before it is spent the node showed a peak a registry's height and a quarter above its
  confirmation, no sum wrapping; and the NFT is the one on chain that the wallet owns, at an address it has the key of.
\<close>

theorem registration_sound:
  assumes run: "xchandles_register fuel True sdk cv standard_hash xs xc client polls server ask wallet opts db =
      (Some (Returned (Inr (RegisterHandle precommit neighbors nft))), db')"
  shows "\<exists>launcher_id w registry inner records peak key info prefix1 prefix2.
    synced_registry fuel sdk xs client (hc_local opts) launcher_id db = Some (Inr registry, db') \<and> wallet = Inr w \<and>
    inner = xc_precommit_inner_hash xc (rg_constants registry) launcher_id (pp_refund_puzzle_hash precommit) (pp_terms precommit) \<and>
    cl_coin_records_by_hint client inner = Inr (Some records) \<and> pp_coin_record precommit \<in> set records \<and>
    puzzle_hash (cr_coin (pp_coin_record precommit)) = pq_cat_puzzle_hash xc (pt_payment_asset_id (pp_terms precommit)) inner \<and>
    amount (cr_coin (pp_coin_record precommit)) = pp_amount precommit \<and>
    pt_handle (pp_terms precommit) = hc_handle_name opts \<and> pt_num_periods (pp_terms precommit) = hc_num_periods opts \<and>
    cv_address_decode cv (hc_nft opts) = Some (prefix1, pt_owner_launcher_id (pp_terms precommit)) \<and>
    (\<exists>base. parse_amount True (hc_base_price_str opts) True = Returned (Inr base) \<and>
       pp_amount precommit = sdk_factor_price sdk base (hc_handle_name opts) (hc_num_periods opts) \<and>
       pt_pricing_puzzle_hash (pp_terms precommit) = sdk_factor_pricing_hash sdk base (hc_period opts)) \<and>
    Inr (Some peak) \<in> set polls \<and>
    unat (cr_confirmed_block_index (pp_coin_record precommit)) + unat (xc_relative_block_height xc (rg_constants registry)) +
      unat (xc_relative_block_height xc (rg_constants registry)) div 4 \<le> unat (bp_height peak) \<and>
    wa_get_nft w (hc_nft opts) = Inr (Some info) \<and> on_chain_nft sdk xc client info = Inr nft \<and>
    cv_address_decode cv (wn_address info) = Some (prefix2, xc_nft_p2 xc nft) \<and> standard_hash key = xc_nft_p2 xc nft \<and>
    registration_neighbors sdk xs server (hc_local opts) db' launcher_id (sdk_str_tree_hash sdk (hc_handle_name opts)) =
      Inr neighbors"
proof (rule register_Inr [OF run], goal_cases)
  case (1 launcher_id w inputs registry refund_address refund_ph start_time secret)
  let ?relative = "xc_relative_block_height xc (rg_constants registry)"
  let ?price = "sdk_factor_price sdk (hi_base_price inputs) (hc_handle_name opts) (hc_num_periods opts)"
  let ?terms = "factor_terms sdk opts inputs start_time secret"
  let ?inner = "xc_precommit_inner_hash xc (rg_constants registry) launcher_id refund_ph ?terms"
  let ?fits = "\<lambda>cr. puzzle_hash (cr_coin cr) = pq_cat_puzzle_hash xc (pt_payment_asset_id ?terms) ?inner \<and>
      amount (cr_coin cr) = ?price"
  from precommit_or_pay_Inr [OF 1(7)] obtain records record1 where
    records: "cl_coin_records_by_hint client ?inner = Inr (Some records)" "find ?fits records = Some record1"
    and act: "then_try (prepared_action True sdk cv standard_hash xc client polls ask w opts ?relative record1)
      (\<lambda>(lineage, nft). Some (register_action sdk xs xc server opts inputs launcher_id registry db'
         \<lparr>pp_coin_record = record1, pp_lineage = lineage, pp_terms = ?terms, pp_refund_puzzle_hash = refund_ph,
          pp_amount = ?price\<rparr> nft)) = Some (Returned (Inr (RegisterHandle precommit neighbors nft)))"
    by (auto split: option.splits)
  from act obtain lineage found where
    prepared: "prepared_action True sdk cv standard_hash xc client polls ask w opts ?relative record1 =
        Some (Returned (Inr (lineage, found)))"
    and action: "register_action sdk xs xc server opts inputs launcher_id registry db'
        \<lparr>pp_coin_record = record1, pp_lineage = lineage, pp_terms = ?terms, pp_refund_puzzle_hash = refund_ph,
          pp_amount = ?price\<rparr> found = Returned (Inr (RegisterHandle precommit neighbors nft))"
    by (auto simp: result_simps)
  have found: "found = Some nft" and neighbors: "registration_neighbors sdk xs server (hc_local opts) db' launcher_id
      (sdk_str_tree_hash sdk (hc_handle_name opts)) = Inr neighbors"
    and precommit: "precommit = \<lparr>pp_coin_record = record1, pp_lineage = lineage, pp_terms = ?terms,
      pp_refund_puzzle_hash = refund_ph, pp_amount = ?price\<rparr>"
    using action by (auto simp: register_action_def result_simps split: option.splits)
  from prepared_action_Inr [OF prepared] found obtain key where
    spendable: "spendable_precommit True xc client polls ?relative (?relative div 4) record1 = Some (Returned (Inr lineage))"
    and fetched: "fetch_nft_from_wallet True sdk cv standard_hash xc w client (hc_nft opts) = Some (Returned (Inr (nft, key)))"
    by auto
  note inputs = register_inputs_Inr [OF 1(1)]
  from spendable_waited [OF spendable] obtain peak where peak: "Inr (Some peak) \<in> set polls"
    "unat (cr_confirmed_block_index record1) + unat ?relative + unat ?relative div 4 \<le> unat (bp_height peak)"
    by (auto simp: unat_div)
  from fetched_nft_owned [OF fetched] obtain info prefix2 where owned: "standard_hash key = xc_nft_p2 xc nft"
    "wa_get_nft w (hc_nft opts) = Inr (Some info)" "on_chain_nft sdk xc client info = Inr nft"
    "cv_address_decode cv (wn_address info) = Some (prefix2, xc_nft_p2 xc nft)" by blast
  from inputs obtain prefix1 where prefix1: "cv_address_decode cv (hc_nft opts) = Some (prefix1, hi_nft_launcher_id inputs)"
    by (auto simp: result_simps)
  have price: "\<exists>base. parse_amount True (hc_base_price_str opts) True = Returned (Inr base) \<and>
      ?price = sdk_factor_price sdk base (hc_handle_name opts) (hc_num_periods opts) \<and>
      pt_pricing_puzzle_hash ?terms = sdk_factor_pricing_hash sdk base (hc_period opts)"
    using inputs by (auto simp: factor_terms_def handle_terms_def)
  have fields: "pt_handle ?terms = hc_handle_name opts" "pt_num_periods ?terms = hc_num_periods opts"
    "pt_owner_launcher_id ?terms = hi_nft_launcher_id inputs"
    by (simp_all add: factor_terms_def handle_terms_def)
  show ?case
    using 1(2) inputs records(1) find_SomeD [OF records(2)] prefix1 price peak owned neighbors
    by (intro exI [of _ launcher_id] exI [of _ w] exI [of _ registry] exI [of _ ?inner] exI [of _ records] exI [of _ peak]
        exI [of _ key] exI [of _ info] exI [of _ prefix1] exI [of _ prefix2]) (simp add: precommit fields)
qed

section \<open>A run of the re-registration\<close>

definition expire_terms ::
  "('c, 'nft) xch_commands_sdk \<Rightarrow> handle_options \<Rightarrow> handle_inputs \<Rightarrow> u64 \<Rightarrow> u64 \<Rightarrow> bytes32 \<Rightarrow> precommit_terms"
where
  "expire_terms xc opts inputs expiration expire_time secret =
     handle_terms opts inputs (xc_expire_pricing_hash xc (hi_base_price inputs) (hc_period opts)) expire_time
       (case hc_committed_expiration opts of Some e \<Rightarrow> e | None \<Rightarrow> expiration) secret"

lemma expire_Inr:
  assumes "xchandles_expire fuel checks sdk cv standard_hash xs xc client polls server ask wallet opts db =
      (Some (Returned (Inr plan)), db')"
  obtains launcher_id w inputs registry slot expire_time price secret refund_address refund_ph where
    "expire_inputs checks sdk cv wallet opts = Returned (Inr (launcher_id, w, inputs))"
    "synced_registry fuel sdk xs client (hc_local opts) launcher_id db = Some (Inr registry, db')"
    "fetch_handle_slot sdk xs server (hc_local opts) db' launcher_id (sdk_str_tree_hash sdk (hc_handle_name opts)) =
      Returned (Inr slot)"
    "time_ahead checks client (xc_relative_block_height xc (rg_constants registry)) (hc_time opts) =
      Some (Returned (Inr expire_time))"
    "expire_payment xc opts inputs (hv_expiration (slot_value slot)) expire_time = Inr price"
    "secret_of sdk w (hc_secret opts) = Inr secret"
    "refund_address_of (wa_sage w) (hc_refund_address opts) = Returned (Inr refund_address)"
    "address_puzzle_hash cv refund_address = Inr refund_ph"
    "precommit_or_pay xc client (ask SendPayment) (hc_refund opts) (pt_payment_asset_id
          (expire_terms xc opts inputs (hv_expiration (slot_value slot)) expire_time secret))
       (xc_precommit_inner_hash xc (rg_constants registry) (xs_launcher_id xs (rg_constants registry)) refund_ph
          (expire_terms xc opts inputs (hv_expiration (slot_value slot)) expire_time secret))
       (\<lambda>a. price = 0 \<or> a = price)
       (PayPrecommit
          (xc_precommit_inner_hash xc (rg_constants registry) (xs_launcher_id xs (rg_constants registry)) refund_ph
          (expire_terms xc opts inputs (hv_expiration (slot_value slot)) expire_time secret))
          price (expire_terms xc opts inputs (hv_expiration (slot_value slot)) expire_time secret)) (\<lambda>record1.
         then_try (prepared_action checks sdk cv standard_hash xc client polls ask w opts
             (xc_relative_block_height xc (rg_constants registry)) record1) (\<lambda>(lineage, nft).
           Some (Returned (Inr (expire_action sdk xc opts inputs registry slot
             \<lparr>pp_coin_record = record1, pp_lineage = lineage,
              pp_terms = expire_terms xc opts inputs (hv_expiration (slot_value slot)) expire_time secret,
              pp_refund_puzzle_hash = refund_ph,
              pp_amount = (if price = 0 then amount (cr_coin record1) else price)\<rparr> nft)))))
     = Some (Returned (Inr plan))"
  using assms
  by (auto simp: xchandles_expire_def with_registry_Inr result_simps Let_def expire_terms_def split: option.splits)

lemma expire_paid:
  assumes "then_try (prepared_action checks sdk cv standard_hash xc client polls ask w opts relative record1)
      (\<lambda>(lineage, nft). Some (Returned (Inr (expire_action sdk xc opts inputs registry slot
         \<lparr>pp_coin_record = record1, pp_lineage = lineage, pp_terms = terms, pp_refund_puzzle_hash = refund_ph,
          pp_amount = a\<rparr> nft)))) = Some (Returned (Inr plan))"
  shows "\<exists>precommit. plan_precommit plan = Some precommit \<and> pp_coin_record precommit = record1 \<and>
    pp_terms precommit = terms \<and> pp_amount precommit = a \<and>
    (hc_refund opts \<longrightarrow> (\<exists>s. plan = RefundPrecommit precommit s))"
  using assms
  by (auto simp: result_simps expire_action_def split: option.splits dest!: prepared_action_Inr)

lemma expire_pays:
  assumes "xchandles_expire fuel checks sdk cv standard_hash xs xc client polls server ask wallet opts db =
      (Some (Returned (Inr (PayPrecommit inner_puzzle_hash price terms))), db')"
  shows "\<exists>launcher_id w inputs registry refund_address refund_ph expiration start_time secret.
      expire_inputs checks sdk cv wallet opts = Returned (Inr (launcher_id, w, inputs)) \<and>
      synced_registry fuel sdk xs client (hc_local opts) launcher_id db = Some (Inr registry, db') \<and>
      refund_address_of (wa_sage w) (hc_refund_address opts) = Returned (Inr refund_address) \<and>
      address_puzzle_hash cv refund_address = Inr refund_ph \<and>
      terms = expire_terms xc opts inputs expiration start_time secret \<and>
      inner_puzzle_hash = xc_precommit_inner_hash xc (rg_constants registry) (xs_launcher_id xs (rg_constants registry))
        refund_ph terms"
proof (rule expire_Inr [OF assms], goal_cases)
  case (1 launcher_id w inputs registry slot expire_time price1 secret refund_address refund_ph)
  have "run_outcome xc client
      (xc_precommit_inner_hash xc (rg_constants registry) (xs_launcher_id xs (rg_constants registry)) refund_ph
        (expire_terms xc opts inputs (hv_expiration (slot_value slot)) expire_time secret))
      (expire_terms xc opts inputs (hv_expiration (slot_value slot)) expire_time secret) price1
      (\<lambda>a. price1 = 0 \<or> a = price1) (PayPrecommit inner_puzzle_hash price terms)"
    using 1(9) by (rule run_outcomeI) (blast dest: expire_paid)
  note paid = run_outcome_unpaid [OF this]
  have terms: "terms = expire_terms xc opts inputs (hv_expiration (slot_value slot)) expire_time secret"
    using paid by blast
  moreover have "inner_puzzle_hash = xc_precommit_inner_hash xc (rg_constants registry)
      (xs_launcher_id xs (rg_constants registry)) refund_ph terms"
    using paid by simp
  ultimately show ?case using 1(1,2,7,8) by blast
qed

text \<open>What a run comes to once everything before the search for the payment is there.\<close>

lemma expire_run:
  assumes "expire_inputs checks sdk cv wallet opts = Returned (Inr (launcher_id, w, inputs))"
    and "synced_registry fuel sdk xs client (hc_local opts) launcher_id db = Some (Inr registry, db')"
    and "\<And>q. ask q = Inr ()"
    and "fetch_handle_slot sdk xs server (hc_local opts) db' launcher_id (sdk_str_tree_hash sdk (hc_handle_name opts)) =
      Returned (Inr slot)"
    and "time_ahead checks client (xc_relative_block_height xc (rg_constants registry)) (hc_time opts) =
      Some (Returned (Inr expire_time))"
    and "expire_payment xc opts inputs (hv_expiration (slot_value slot)) expire_time = Inr price"
    and "secret_of sdk w (hc_secret opts) = Inr secret"
    and "refund_address_of (wa_sage w) (hc_refund_address opts) = Returned (Inr refund_address)"
    and "address_puzzle_hash cv refund_address = Inr refund_ph"
    and terms: "terms = expire_terms xc opts inputs (hv_expiration (slot_value slot)) expire_time secret"
    and inner: "inner_puzzle_hash = xc_precommit_inner_hash xc (rg_constants registry) (xs_launcher_id xs (rg_constants registry))
      refund_ph terms"
  shows "xchandles_expire fuel checks sdk cv standard_hash xs xc client polls server ask wallet opts db =
    (precommit_or_pay xc client (Inr ()) (hc_refund opts) (pt_payment_asset_id terms) inner_puzzle_hash
       (\<lambda>a. price = 0 \<or> a = price) (PayPrecommit inner_puzzle_hash price terms) (\<lambda>record1.
         then_try (prepared_action checks sdk cv standard_hash xc client polls ask w opts
             (xc_relative_block_height xc (rg_constants registry)) record1) (\<lambda>(lineage, nft).
           Some (Returned (Inr (expire_action sdk xc opts inputs registry slot
             \<lparr>pp_coin_record = record1, pp_lineage = lineage, pp_terms = terms, pp_refund_puzzle_hash = refund_ph,
              pp_amount = (if price = 0 then amount (cr_coin record1) else price)\<rparr> nft))))), db')"
proof -
  have "expire_terms xc opts inputs (hv_expiration (slot_value slot)) expire_time secret =
      handle_terms opts inputs (xc_expire_pricing_hash xc (hi_base_price inputs) (hc_period opts)) expire_time
       (case hc_committed_expiration opts of Some e \<Rightarrow> e | None \<Rightarrow> hv_expiration (slot_value slot)) secret"
    by (simp add: expire_terms_def)
  note unfolded = terms [unfolded this]
  show ?thesis
    unfolding inner unfolded using assms(1-9)
    by (simp add: xchandles_expire_def with_registry_def Let_def)
qed

text \<open>When any amount will do, the first coin listed at the puzzle hash is taken; a refund needs no NFT.\<close>

lemma any_amount_taken:
  assumes "cl_coin_records_by_hint client inner_puzzle_hash = Inr (Some records)"
    and "find (\<lambda>cr. puzzle_hash (cr_coin cr) = pq_cat_puzzle_hash xc asset inner_puzzle_hash) records = Some paid"
  shows "precommit_or_pay xc client answer refund asset inner_puzzle_hash (\<lambda>a. True) payment k = k paid"
  using assms by (simp add: precommit_or_pay_def find_precommit_def required_def)

lemma refund_prepared:
  assumes "spendable_precommit checks xc client polls relative (relative div 4) paid = Some (Returned (Inr lineage))"
    and "\<And>q. ask q = Inr ()" and "hc_refund opts"
  shows "prepared_action checks sdk cv standard_hash xc client polls ask w opts relative paid =
    Some (Returned (Inr (lineage, None)))"
  using assms by (simp add: prepared_action_def)

text \<open>
  C27. A re-registration that lost the race is refunded: when somebody else renewed the handle after the command paid, so
  that it expires after the time the payment was made for, the command run again with what it printed and
  with \<open>--refund\<close>, over a registry with the same constants and with its questions answered, succeeds. It refunds the first coin
  the node lists at the puzzle hash that was paid to, once that coin is spendable, with the coin's own amount and the terms and the
  refund address of the payment. Nothing is said of the price by then: it may be another one than was
  paid, or the pricing may fail.
\<close>

theorem lost_race_refundable:
  assumes "hex_codec_ok sdk"
    and first: "xchandles_expire fuel checks sdk cv standard_hash xs xc client polls server ask wallet opts db =
      (Some (Returned (Inr (PayPrecommit inner_puzzle_hash price terms))), db1)"
    and launcher: "hex_string_to_bytes32 sdk (hc_launcher_id_str opts) = Inr launcher_id"
    and registry: "synced_registry fuel sdk xs client (hc_local opts) launcher_id db = Some (Inr registry, db1)"
    and registry2: "synced_registry fuel2 sdk xs client2 (hc_local opts) launcher_id db2 = Some (Inr registry2, db3)"
    and same: "rg_constants registry2 = rg_constants registry"
    and renewed: "fetch_handle_slot sdk xs server2 (hc_local opts) db3 launcher_id
        (sdk_str_tree_hash sdk (hc_handle_name opts)) = Returned (Inr slot)"
      "pt_buy_time terms < hv_expiration (slot_value slot)"
    and listed: "cl_coin_records_by_hint client2 inner_puzzle_hash = Inr (Some records)"
      "find (\<lambda>cr. puzzle_hash (cr_coin cr) = pq_cat_puzzle_hash xc (pt_payment_asset_id terms) inner_puzzle_hash) records =
        Some paid"
    and spendable: "spendable_precommit checks xc client2 polls2 (xc_relative_block_height xc (rg_constants registry))
        (xc_relative_block_height xc (rg_constants registry) div 4) paid = Some (Returned (Inr lineage))"
    and agreed: "\<And>q. ask2 q = Inr ()"
  shows "\<exists>refund_ph s.
    xchandles_expire fuel2 checks sdk cv standard_hash xs xc client2 polls2 server2 ask2 wallet
      (opts\<lparr>hc_secret := Some (hex32 sdk (pt_secret terms)), hc_time := Some (pt_buy_time terms),
        hc_committed_expiration := Some (pt_current_expiration terms), hc_refund := True\<rparr>) db2 =
      (Some (Returned (Inr (RefundPrecommit
        \<lparr>pp_coin_record = paid, pp_lineage = lineage, pp_terms = terms, pp_refund_puzzle_hash = refund_ph,
         pp_amount = amount (cr_coin paid)\<rparr> s))), db3) \<and>
    inner_puzzle_hash = xc_precommit_inner_hash xc (rg_constants registry) (xs_launcher_id xs (rg_constants registry))
      refund_ph terms"
proof -
  let ?opts = "opts\<lparr>hc_secret := Some (hex32 sdk (pt_secret terms)), hc_time := Some (pt_buy_time terms),
      hc_committed_expiration := Some (pt_current_expiration terms), hc_refund := True\<rparr>"
  from expire_pays [OF first] obtain launcher1 w inputs registry1 refund_address refund_ph expiration1 start_time secret where
    inputs: "expire_inputs checks sdk cv wallet opts = Returned (Inr (launcher1, w, inputs))"
    and synced: "synced_registry fuel sdk xs client (hc_local opts) launcher1 db = Some (Inr registry1, db1)"
    and refund: "refund_address_of (wa_sage w) (hc_refund_address opts) = Returned (Inr refund_address)"
      "address_puzzle_hash cv refund_address = Inr refund_ph"
    and terms: "terms = expire_terms xc opts inputs expiration1 start_time secret"
    and inner: "inner_puzzle_hash = xc_precommit_inner_hash xc (rg_constants registry1)
        (xs_launcher_id xs (rg_constants registry1)) refund_ph terms"
    by blast
  have launcher1: "launcher1 = launcher_id" using expire_inputs_Inr [OF inputs] launcher by simp
  with synced registry have registry1: "registry1 = registry" by simp
  have again: "expire_terms xc ?opts inputs e (pt_buy_time terms) (pt_secret terms) = terms" for e
    by (simp add: terms expire_terms_def handle_terms_def)
  have inputs2: "expire_inputs checks sdk cv wallet ?opts = Returned (Inr (launcher_id, w, inputs))"
    using inputs launcher1 by (simp add: expire_inputs_def)
  have free: "expire_payment xc ?opts inputs (hv_expiration (slot_value slot)) (pt_buy_time terms) = Inr 0"
    using renewed(2) by (simp add: expire_payment_def)
  note run = expire_run [where opts = ?opts and ask = ask2 and terms = terms and refund_ph = refund_ph
      and refund_address = refund_address and secret = "pt_secret terms", OF inputs2 _ agreed _ _ free, where db' = db3
      and inner_puzzle_hash = inner_puzzle_hash and registry = registry2 and fuel = fuel2 and xs = xs and db = db2
      and client = client2 and server = server2 and polls = polls2 and standard_hash = standard_hash]
  have "xchandles_expire fuel2 checks sdk cv standard_hash xs xc client2 polls2 server2 ask2 wallet ?opts db2 =
      (precommit_or_pay xc client2 (Inr ()) True (pt_payment_asset_id terms) inner_puzzle_hash (\<lambda>a. True)
         (PayPrecommit inner_puzzle_hash 0 terms) (\<lambda>record1.
           then_try (prepared_action checks sdk cv standard_hash xc client2 polls2 ask2 w ?opts
               (xc_relative_block_height xc (rg_constants registry)) record1) (\<lambda>(lineage, nft).
             Some (Returned (Inr (expire_action sdk xc ?opts inputs registry2 slot
               \<lparr>pp_coin_record = record1, pp_lineage = lineage, pp_terms = terms, pp_refund_puzzle_hash = refund_ph,
                pp_amount = amount (cr_coin record1)\<rparr> nft))))), db3)"
    using run registry2 renewed(1) refund same inner registry1 again
    by (simp add: time_given secret_given [OF assms(1)])
  also have "\<dots> = (Some (Returned (Inr (expire_action sdk xc ?opts inputs registry2 slot
      \<lparr>pp_coin_record = paid, pp_lineage = lineage, pp_terms = terms, pp_refund_puzzle_hash = refund_ph,
       pp_amount = amount (cr_coin paid)\<rparr> None))), db3)"
    by (simp add: any_amount_taken [OF listed] refund_prepared [OF spendable agreed])
  finally have "\<exists>s. xchandles_expire fuel2 checks sdk cv standard_hash xs xc client2 polls2 server2 ask2 wallet ?opts db2 =
      (Some (Returned (Inr (RefundPrecommit
        \<lparr>pp_coin_record = paid, pp_lineage = lineage, pp_terms = terms, pp_refund_puzzle_hash = refund_ph,
         pp_amount = amount (cr_coin paid)\<rparr> s))), db3)"
    by (simp add: expire_action_def)
  with inner registry1 show ?thesis by blast
qed

section \<open>Executing an update\<close>

text \<open>An update slot of the registry: created by a spend of it, whose parent it names, and unspent among the coins listed.\<close>

definition created_update ::
  "'c registry_sdk \<Rightarrow> client \<Rightarrow> 'c \<Rightarrow> bytes32 \<Rightarrow> bytes32 \<Rightarrow> coin_record list \<Rightarrow> update_slot_value slot \<Rightarrow> bool"
where
  "created_update xs client constants initiator handle_hash records slot \<longleftrightarrow>
     (\<exists>coin_record registry_spent registry val. coin_record \<in> set records \<and> slot_coin slot = cr_coin coin_record \<and>
        cl_puzzle_and_solution client (parent_coin_info (cr_coin coin_record)) (Some (cr_confirmed_block_index coin_record))
          = Inr (Some registry_spent) \<and>
        xs_from_spend xs registry_spent constants = Inr (Some registry) \<and> val \<in> set (rg_created_update_slots registry) \<and>
        uv_handle_hash val = handle_hash \<and> uv_update_initiator_coin_id val = initiator \<and>
        slot = xs_created_update_slot xs registry val)"

lemma created_update_Cons:
  "created_update xs client constants initiator handle_hash records slot \<Longrightarrow>
     created_update xs client constants initiator handle_hash (r # records) slot"
  unfolding created_update_def by (elim ex_forward) auto

lemma find_update_slot_created:
  "find_update_slot_in xs client constants initiator handle_hash records = Inr slot \<Longrightarrow>
     created_update xs client constants initiator handle_hash records slot"
proof (induction records)
  case (Cons coin_record records)
  let ?parent = "parent_coin_info (cr_coin coin_record)"
  let ?slot_of = "\<lambda>registry val.
      if uv_handle_hash val \<noteq> handle_hash \<or> uv_update_initiator_coin_id val \<noteq> initiator then None
      else let slot = xs_created_update_slot xs registry val
           in if slot_coin slot = cr_coin coin_record then Some slot else None"
  from Cons.prems consider "find_update_slot_in xs client constants initiator handle_hash records = Inr slot"
    | registry_spent registry where
      "cl_puzzle_and_solution client ?parent (Some (cr_confirmed_block_index coin_record)) = Inr (Some registry_spent)"
      "xs_from_spend xs registry_spent constants = Inr (Some registry)"
      "find_map (?slot_of registry) (rg_created_update_slots registry) = Some slot"
    by (auto simp: result_simps Let_def split: option.splits)
  then show ?case
  proof cases
    case 1
    then show ?thesis by (intro created_update_Cons Cons.IH)
  next
    case (2 registry_spent registry)
    from find_map_Some [OF 2(3)] obtain val where "val \<in> set (rg_created_update_slots registry)"
      "uv_handle_hash val = handle_hash" "uv_update_initiator_coin_id val = initiator"
      "slot = xs_created_update_slot xs registry val" "slot_coin slot = cr_coin coin_record"
      by (auto simp: Let_def split: if_splits)
    with 2(1,2) show ?thesis unfolding created_update_def by (metis list.set_intros(1))
  qed
qed simp

text \<open>
  C28. What an execution of an update spends: an update slot that a spend of this registry created for the
  handle's hash on behalf of the coin which the owner's NFT comes from, listed under that coin's hint; the node has shown a peak
  at the slot's minimal height; and both NFTs, the one that owns the handle's slot and the new one, are the wallet's own.
\<close>

theorem update_execution_sound:
  assumes "xchandles_execute_update fuel checks sdk cv standard_hash xs xc client polls server ask wallet opts db =
      (Some (Returned (Inr update)), db')"
  shows "\<exists>launcher_id w registry records peak owner prefix.
    synced_registry fuel sdk xs client (hc_local opts) launcher_id db = Some (Inr registry, db') \<and> wallet = Inr w \<and>
    fetch_handle_slot sdk xs server (hc_local opts) db' launcher_id (sdk_str_tree_hash sdk (hc_handle_name opts)) =
      Returned (Inr (eu_slot update)) \<and>
    cl_coin_records_by_hint client (parent_coin_info (xc_nft_coin xc (eu_owner_nft update))) = Inr (Some records) \<and>
    created_update xs client (rg_constants registry) (parent_coin_info (xc_nft_coin xc (eu_owner_nft update)))
      (sdk_str_tree_hash sdk (hc_handle_name opts)) records (eu_update_slot update) \<and>
    Inr (Some peak) \<in> set polls \<and> uv_min_height (slot_value (eu_update_slot update)) \<le> bp_height peak \<and>
    xc_nft_address xc (hv_owner_launcher_id (slot_value (eu_slot update))) = Inr owner \<and>
    (\<exists>info. wa_get_nft w owner = Inr (Some info) \<and> on_chain_nft sdk xc client info = Inr (eu_owner_nft update)) \<and>
    (\<exists>info. wa_get_nft w (hc_nft opts) = Inr (Some info) \<and> on_chain_nft sdk xc client info = Inr (eu_new_nft update)) \<and>
    cv_address_decode cv (hc_nft opts) = Some (prefix, eu_new_launcher_id update)"
proof -
  let ?hash = "sdk_str_tree_hash sdk (hc_handle_name opts)"
  from assms obtain launcher_id w new_launcher registry slot owner nft1 key1 nft2 key2 update_slot where
    inputs: "update_inputs checks sdk cv wallet opts = Returned (Inr (launcher_id, w, new_launcher))"
    and synced: "synced_registry fuel sdk xs client (hc_local opts) launcher_id db = Some (Inr registry, db')"
    and slot: "fetch_handle_slot sdk xs server (hc_local opts) db' launcher_id ?hash = Returned (Inr slot)"
    and owner: "xc_nft_address xc (hv_owner_launcher_id (slot_value slot)) = Inr owner"
    and nft1: "fetch_nft_from_wallet checks sdk cv standard_hash xc w client owner = Some (Returned (Inr (nft1, key1)))"
    and nft2: "fetch_nft_from_wallet checks sdk cv standard_hash xc w client (hc_nft opts) = Some (Returned (Inr (nft2, key2)))"
    and found: "find_xchandles_update_slot xs client (rg_constants registry)
      (parent_coin_info (xc_nft_coin xc nft1)) ?hash = Inr update_slot"
    and wait: "wait_for_height polls (uv_min_height (slot_value update_slot)) = Some (Returned (Inr ()))"
    and update: "update = \<lparr>eu_slot = slot, eu_update_slot = update_slot, eu_new_launcher_id = new_launcher,
      eu_owner_nft = nft1, eu_new_nft = nft2\<rparr>"
    by (auto simp: xchandles_execute_update_def with_registry_Inr result_simps Let_def)
  from found obtain records where records:
    "cl_coin_records_by_hint client (parent_coin_info (xc_nft_coin xc nft1)) = Inr (Some records)"
    "find_update_slot_in xs client (rg_constants registry) (parent_coin_info (xc_nft_coin xc nft1)) ?hash records = Inr update_slot"
    by (auto simp: find_xchandles_update_slot_def result_simps)
  from inputs obtain prefix where "wallet = Inr w" "cv_address_decode cv (hc_nft opts) = Some (prefix, new_launcher)"
    by (auto simp: update_inputs_def result_simps)
  with synced slot owner records(1) find_update_slot_created [OF records(2)] wait_for_height_reached [OF wait]
    fetched_nft_owned [OF nft1] fetched_nft_owned [OF nft2]
  show ?thesis unfolding update by (simp, blast)
qed

section \<open>A registry to shop in\<close>

text \<open>
  For the witnesses: the registry of the quick synchronization, with launcher 1, a height of 4 and the price of 1 for a period, a
  node that lists \<open>records\<close> under any other hint, and a wallet that owns every NFT at the puzzle hash 77.
\<close>

definition shop_update :: update_slot_value where
  "shop_update = \<lparr>uv_handle_hash = 97, uv_new_owner_launcher_id = 77, uv_new_resolved_launcher_id = 77,
     uv_min_height = 40, uv_update_initiator_coin_id = 50\<rparr>"

definition shop_sdk :: "unit registry_sdk" where
  "shop_sdk = pending_sdk
     \<lparr>xs_from_spend := \<lambda>_ _. Inr (Some (example_registry example_spent_coin\<lparr>rg_created_update_slots := [shop_update]\<rparr>))\<rparr>"

definition shop_value :: "bytes32 \<Rightarrow> u64 \<Rightarrow> handle_slot_value" where
  "shop_value h e = \<lparr>hv_counter = 0, hv_handle_hash = h, hv_left_value = (if h = 1 then 0 else 1),
     hv_right_value = (if h = 1 then 100 else 200), hv_expiration = e, hv_owner_launcher_id = 51,
     hv_resolved_launcher_id = 51\<rparr>"

definition shop_slot :: "bytes32 \<Rightarrow> u64 \<Rightarrow> handle_slot_value slot" where
  "shop_slot h e = slot_new (xs_slot_codec shop_sdk)
     \<lparr>lp_parent_parent_coin_info = 0, lp_parent_inner_puzzle_hash = 0, lp_parent_amount = 1\<rparr> 1 1 (shop_value h e)"

definition shop_server :: "u64 \<Rightarrow> neighbors_server" where
  "shop_server e = (\<lambda>_ _. Inr (neighbors_json fixture_sdk (shop_slot 1 e) (shop_slot 100 e)))"

definition shop_nft :: coin where
  "shop_nft = \<lparr>parent_coin_info = 50, puzzle_hash = 77, amount = 1\<rparr>"

definition shop_commands :: "(unit, coin) xch_commands_sdk" where
  "shop_commands =
     \<lparr>pq_cat_puzzle_hash = (\<lambda>asset h. asset + h), pq_cat_inner_hash = (\<lambda>_. Inr (Some 12)),
      xc_state = (\<lambda>_. \<lparr>rt_cat_maker_puzzle_hash = 8, rt_pricing_puzzle_hash = 1, rt_expired_handle_pricing_puzzle_hash = 9\<rparr>),
      xc_relative_block_height = (\<lambda>_. 4), xc_cat_maker_hash = (\<lambda>a. a), xc_expire_pricing_hash = (\<lambda>_ _. 9),
      xc_expire_price = (\<lambda>base period handle expiration t n.
        Inr (if t < expiration then 3 else ucast base * ucast n)),
      xc_precommit_inner_hash = (\<lambda>_ launcher refund_ph terms. 1000 + refund_ph),
      xc_nft_child = (\<lambda>_. Inr (Some shop_nft)), xc_nft_coin = (\<lambda>c. c), xc_nft_p2 = puzzle_hash,
      xc_nft_address = (\<lambda>_. Inr ''nft1'')\<rparr>"

definition shop_paid :: coin_record where
  "shop_paid = \<lparr>cr_coin = \<lparr>parent_coin_info = 5, puzzle_hash = 1085, amount = 1\<rparr>, cr_confirmed_block_index = 30,
     cr_spent_block_index = 0, cr_spent = False\<rparr>"

definition shop_client :: "coin_record list \<Rightarrow> client" where
  "shop_client records = pending_client
     \<lparr>cl_coin_records_by_hint := (\<lambda>h. Inr (Some (if h = 1 then
        [\<lparr>cr_coin = example_tip_coin, cr_confirmed_block_index = 20, cr_spent_block_index = 0, cr_spent = False\<rparr>]
        else records))),
      cl_coin_record_by_name := (\<lambda>_. Inr (Some \<lparr>cr_coin = shop_nft, cr_confirmed_block_index = 7,
        cr_spent_block_index = 0, cr_spent = False\<rparr>)),
      cl_puzzle_and_solution := (\<lambda>_ _. Inr (Some
        \<lparr>spend_coin = example_spent_coin, puzzle_reveal = [], spend_solution = []\<rparr>)),
      cl_mempool_items := (\<lambda>_. Inr None)\<rparr>"

definition shop_cv :: "nat csv_sdk" where
  "shop_cv = \<lparr>cv_address_decode = (\<lambda>s. Some (''xch'', 77)), cv_u64 = (\<lambda>_. None), cv_u8 = (\<lambda>_. None),
     cv_pubkey_from_bytes = (\<lambda>_. Some 1)\<rparr>"

definition shop_wallet :: wallet where
  "shop_wallet =
     \<lparr>wa_sage = \<lparr>sg_check_address = (\<lambda>_. Inr True), sg_derivations = (\<lambda>hardened offset limit.
        Inr ([\<lparr>dv_address = ''xch1'', dv_public_key = hex_encode (replicate 48 0)\<rparr>], 1))\<rparr>,
      wa_get_nft = (\<lambda>_. Inr (Some \<lparr>wn_coin_id = hex32 fixture_sdk 3, wn_address = ''xch1''\<rparr>)), wa_secret = Inr 7\<rparr>"

definition shop_options :: handle_options where
  "shop_options =
     \<lparr>hc_launcher_id_str = hex32 fixture_sdk 1, hc_handle_name = ''a'', hc_nft = ''nft1'', hc_num_periods = 1,
      hc_refund_address = None, hc_secret = None, hc_time = Some 500, hc_refund = False,
      hc_payment_asset_id_str = hex32 fixture_sdk 8, hc_base_price_str = ''0.001'', hc_period = 1,
      hc_committed_expiration = None, hc_min_height = None, hc_local = False, hc_fee_str = ''0.0''\<rparr>"

definition shop_db :: db where
  "shop_db = db_new\<lparr>db_xchandles_configurations := [(to_bytes (1 :: bytes32), [1])]\<rparr>"

definition shop_polls :: "(cli_error + blockchain_peak option) list" where
  "shop_polls = [Inr (Some \<lparr>bp_height = 40, bp_timestamp = None\<rparr>)]"

lemma unit_amount: "parse_amount True ''0.001'' True = Returned (Inr 1)"
proof -
  have "all_digits ''0''" "all_digits ''001''" by (simp_all add: all_digits_def)
  moreover have "digits_value ''0'' = 0" "digits_value ''001'' = 1" by (simp_all add: digits_value_def)
  ultimately have "parse_u64 ''0'' = Some 0" and "parse_u64 ''001'' = Some 1"
    using parse_u64_digits [of "''0''"] parse_u64_digits [of "''001''"] by simp_all
  then show ?thesis by (simp add: parse_amount_def amount_digits_def pad_zeros_def mojos_of_eq)
qed

lemma shop_synced:
  "synced_registry fuel fixture_sdk shop_sdk (shop_client records) False 1 shop_db =
     Some (Inr (example_registry example_tip_coin), shop_db)"
proof -
  have "registry_constants shop_sdk (shop_client records) 1 shop_db = (Inr (), shop_db)"
    by (simp add: registry_constants_def db_read_def get_xchandles_configuration_def shop_db_def db_new_def
        optional_constants_def shop_sdk_def pending_sdk_def example_registry_sdk_def)
  moreover have "quick_sync_tip fixture_sdk shop_sdk (shop_client records) 1 () = Inr (example_registry example_tip_coin)"
    by (simp add: quick_sync_tip_def required_def pending_registry_def shop_client_def Let_def)
      (simp add: required_def shop_sdk_def pending_sdk_def example_registry_sdk_def)
  ultimately show ?thesis
    by (simp add: synced_registry_def quick_sync_xchandles_def db_read_def)
qed

lemma shop_neighbors:
  "api_get_neighbors fixture_sdk (xs_slot_codec shop_sdk) (shop_server e) 1 h = Inr (shop_slot 1 e, shop_slot 100 e)"
  by (simp add: api_get_neighbors_def shop_server_def hash_left_value_def hash_right_value_def api_proof_def
      neighbors_json_def shop_slot_def slot_new_def shop_value_def Let_def hex_string_roundtrip [OF fixture_hex_codec_ok]
      shop_sdk_def pending_sdk_def example_registry_sdk_def)

lemma shop_handle_slot:
  "fetch_handle_slot fixture_sdk shop_sdk (shop_server e) False db 1 (sdk_str_tree_hash fixture_sdk ''a'') =
     Returned (Inr (shop_slot 100 e))"
proof -
  have "sdk_str_tree_hash fixture_sdk ''a'' = 97" by (simp add: fixture_sdk_def)
  moreover have "hash_minus_one 97 = Returned 96" by (simp add: hash_minus_one_eq trailing_zeros_none)
  ultimately show ?thesis by (simp add: fetch_handle_slot_def api_get_slot_value_def shop_neighbors)
qed

lemma shop_fetched:
  "fetch_nft_from_wallet True fixture_sdk shop_cv (\<lambda>_. 77) shop_commands shop_wallet (shop_client records) nft =
     Some (Returned (Inr (shop_nft, 1)))"
proof -
  have "CHR ''x'' \<notin> set (hex_encode (replicate 48 0))"
    using hex_encode_laws [of "replicate 48 0"] by (auto simp: hex_digits_def)
  then have "remove_0x (hex_encode (replicate 48 0)) = hex_encode (replicate 48 0)" by (rule remove_0x_id)
  then have "hex_string_to_pubkey fixture_sdk shop_cv (hex_encode (replicate 48 0)) = Inr 1"
    using hex_encode_laws [of "replicate 48 0"]
    by (simp add: hex_string_to_pubkey_def shop_cv_def del: hex_encode.simps replicate.simps replicate_Suc)
  moreover have "nft_public_key_from True (wa_sage shop_wallet) ''xch1'' 0 =
      Some (Returned (Inr (Some (hex_encode (replicate 48 0)))))"
    by (subst nft_public_key_from.simps) (simp add: shop_wallet_def del: hex_encode.simps replicate.simps replicate_Suc)
  ultimately show ?thesis
    by (simp add: fetch_nft_from_wallet_def required_def on_chain_nft_def shop_wallet_def shop_client_def shop_commands_def
        shop_cv_def shop_nft_def hex_string_roundtrip [OF fixture_hex_codec_ok] Let_def
        del: hex_encode.simps replicate.simps replicate_Suc)
qed

definition shop_inputs :: handle_inputs where
  "shop_inputs = \<lparr>hi_nft_launcher_id = 77, hi_payment_asset_id = 8, hi_base_price = 1, hi_fee = 0\<rparr>"

definition shop_terms :: "bytes32 \<Rightarrow> u64 \<Rightarrow> precommit_terms" where
  "shop_terms pricing expiration =
     \<lparr>pt_payment_asset_id = 8, pt_pricing_puzzle_hash = pricing, pt_buy_time = 500, pt_current_expiration = expiration,
      pt_handle = ''a'', pt_num_periods = 1, pt_secret = 7, pt_owner_launcher_id = 77, pt_resolved_launcher_id = 77\<rparr>"

text \<open>The options of a first run and of the one that follows it.\<close>

definition shop_again :: "u64 option \<Rightarrow> bool \<Rightarrow> handle_options" where
  "shop_again expiration refund = shop_options\<lparr>hc_secret := Some (hex32 fixture_sdk 7), hc_time := Some 500,
     hc_committed_expiration := expiration, hc_refund := refund\<rparr>"

lemma shop_inputs_of:
  assumes "opts \<in> {shop_options, shop_again e refund}"
  shows "register_inputs True fixture_sdk shop_cv (Inr shop_wallet) opts = Returned (Inr (1, shop_wallet, shop_inputs))"
    "expire_inputs True fixture_sdk shop_cv (Inr shop_wallet) opts = Returned (Inr (1, shop_wallet, shop_inputs))"
  using assms
  by (auto simp: register_inputs_def expire_inputs_def shop_options_def shop_again_def shop_inputs_def zero_amount
      unit_amount hex_string_roundtrip [OF fixture_hex_codec_ok] address_puzzle_hash_def shop_cv_def)

lemma shop_option_simps [simp]:
  "hc_launcher_id_str shop_options = hex32 fixture_sdk 1" "hc_launcher_id_str (shop_again e refund) = hex32 fixture_sdk 1"
  "hc_handle_name shop_options = ''a''" "hc_handle_name (shop_again e refund) = ''a''"
  "hc_num_periods shop_options = 1" "hc_num_periods (shop_again e refund) = 1"
  "hc_refund_address shop_options = None" "hc_refund_address (shop_again e refund) = None"
  "hc_time shop_options = Some 500" "hc_time (shop_again e refund) = Some 500"
  "hc_period shop_options = 1" "hc_period (shop_again e refund) = 1"
  "hc_local shop_options = False" "hc_local (shop_again e refund) = False"
  "hc_nft shop_options = ''nft1''" "hc_nft (shop_again e refund) = ''nft1''"
  "hc_secret shop_options = None" "hc_secret (shop_again e refund) = Some (hex32 fixture_sdk 7)"
  "hc_refund shop_options = False" "hc_refund (shop_again e refund) = refund"
  "hc_committed_expiration shop_options = None" "hc_committed_expiration (shop_again e refund) = e"
  by (simp_all add: shop_options_def shop_again_def)

lemma shop_input_simps [simp]:
  "hi_nft_launcher_id shop_inputs = 77" "hi_payment_asset_id shop_inputs = 8" "hi_base_price shop_inputs = 1"
  by (simp_all add: shop_inputs_def)

lemma shop_command_simps [simp]:
  "xc_relative_block_height shop_commands c = 4" "xc_precommit_inner_hash shop_commands c l refund_ph terms = 1000 + refund_ph"
  "pq_cat_puzzle_hash shop_commands asset h = asset + h" "xc_expire_pricing_hash shop_commands base period = 9"
  by (simp_all add: shop_commands_def)

lemma shop_listed: "cl_coin_records_by_hint (shop_client records) 1077 = Inr (Some records)"
  by (simp add: shop_client_def)

lemma shop_paid_simps [simp]: "puzzle_hash (cr_coin shop_paid) = 1085" "amount (cr_coin shop_paid) = 1"
  by (simp_all add: shop_paid_def)

lemma shop_precommit_or_pay:
  "precommit_or_pay shop_commands (shop_client records) (Inr ()) refund (pt_payment_asset_id (shop_terms pricing expiration))
     1077 fits payment k =
     (case find (\<lambda>cr. puzzle_hash (cr_coin cr) = 1085 \<and> fits (amount (cr_coin cr))) records of
        Some record1 \<Rightarrow> k record1
      | None \<Rightarrow>
          if refund
          then Some (checked (Inl (Custom ''Precommitment coin not found but --refund was provided'')))
          else Some (Returned (Inr payment)))"
  by (simp add: precommit_or_pay_def find_precommit_def required_def shop_listed shop_terms_def split: option.split)

lemma shop_factor [simp]: "sdk_factor_price fixture_sdk 1 handle 1 = 1" "sdk_factor_pricing_hash fixture_sdk 1 1 = 1"
  by (simp_all add: fixture_sdk_def)

lemma shop_refund_address:
  "refund_address_of (wa_sage shop_wallet) None = Returned (Inr ''xch1'')"
  "address_puzzle_hash shop_cv ''xch1'' = Inr 77"
  by (simp_all add: refund_address_of_def first_address_def shop_wallet_def nth_checked_def address_puzzle_hash_def shop_cv_def
      del: hex_encode.simps replicate.simps replicate_Suc)

lemma shop_secrets:
  "secret_of fixture_sdk shop_wallet None = Inr 7"
  "secret_of fixture_sdk shop_wallet (Some (hex32 fixture_sdk 7)) = Inr 7"
  by (simp_all add: secret_of_def shop_wallet_def hex_string_roundtrip [OF fixture_hex_codec_ok])

lemma shop_current: "terms_current fixture_sdk shop_commands registry 8 1 1"
  "expire_terms_current shop_commands registry shop_inputs 1"
  by (simp_all add: terms_current_def expire_terms_current_def shop_commands_def shop_inputs_def fixture_sdk_def)

lemma shop_spendable:
  "spendable_precommit True shop_commands (shop_client records) shop_polls 4 1 shop_paid = Some (Returned (Inr
     \<lparr>lp_parent_parent_coin_info = 1, lp_parent_inner_puzzle_hash = 12, lp_parent_amount = 1\<rparr>))"
  by (simp add: spendable_precommit_def shop_paid_def shop_polls_def plain_u32_add_def required_def shop_client_def
      shop_commands_def example_spent_coin_def or_abort_def)

definition shop_precommit :: "precommit_terms \<Rightarrow> paid_precommit" where
  "shop_precommit terms = \<lparr>pp_coin_record = shop_paid,
     pp_lineage = \<lparr>lp_parent_parent_coin_info = 1, lp_parent_inner_puzzle_hash = 12, lp_parent_amount = 1\<rparr>,
     pp_terms = terms, pp_refund_puzzle_hash = 77, pp_amount = 1\<rparr>"

lemma shop_prepared:
  "prepared_action True fixture_sdk shop_cv (\<lambda>_. 77) shop_commands (shop_client records) shop_polls (\<lambda>_. Inr ())
     shop_wallet (shop_again e refund) 4 shop_paid =
     Some (Returned (Inr (\<lparr>lp_parent_parent_coin_info = 1, lp_parent_inner_puzzle_hash = 12, lp_parent_amount = 1\<rparr>,
       if refund then None else Some shop_nft)))"
  by (simp add: prepared_action_def shop_spendable shop_fetched shop_again_def)

lemma shop_handle_terms:
  "handle_terms shop_options shop_inputs pricing 500 expiration 7 = shop_terms pricing expiration"
  "handle_terms (shop_again e refund) shop_inputs pricing 500 expiration 7 = shop_terms pricing expiration"
  by (simp_all add: handle_terms_def shop_terms_def)

lemma shop_register:
  assumes "opts \<in> {shop_options, shop_again e refund}"
  shows "xchandles_register 0 True fixture_sdk shop_cv (\<lambda>_. 77) shop_sdk shop_commands (shop_client records) polls
     (shop_server 0) (\<lambda>_. Inr ()) (Inr shop_wallet) opts shop_db =
     (precommit_or_pay shop_commands (shop_client records) (Inr ()) (hc_refund opts) (pt_payment_asset_id (shop_terms 1 0)) 1077
       (\<lambda>a. a = 1) (PayPrecommit 1077 1 (shop_terms 1 0)) (\<lambda>record1.
        then_try (prepared_action True fixture_sdk shop_cv (\<lambda>_. 77) shop_commands (shop_client records) polls
            (\<lambda>_. Inr ()) shop_wallet opts 4 record1) (\<lambda>(lineage, nft).
          Some (register_action fixture_sdk shop_sdk shop_commands (shop_server 0) opts shop_inputs 1
            (example_registry example_tip_coin) shop_db
            \<lparr>pp_coin_record = record1, pp_lineage = lineage, pp_terms = shop_terms 1 0, pp_refund_puzzle_hash = 77,
             pp_amount = 1\<rparr> nft))), shop_db)"
  using assms
  by (auto simp: xchandles_register_def with_registry_def shop_inputs_of [OF assms] shop_synced Let_def shop_refund_address
      shop_current time_given shop_secrets shop_handle_terms)

lemma shop_first_run:
  "xchandles_register 0 True fixture_sdk shop_cv (\<lambda>_. 77) shop_sdk shop_commands (shop_client []) [] (shop_server 0)
     (\<lambda>_. Inr ()) (Inr shop_wallet) shop_options shop_db = (Some (Returned (Inr (PayPrecommit 1077 1 (shop_terms 1 0)))), shop_db)"
  by (simp add: shop_register [where e = None and refund = False] shop_precommit_or_pay)

lemma shop_second_run:
  "xchandles_register 0 True fixture_sdk shop_cv (\<lambda>_. 77) shop_sdk shop_commands (shop_client [shop_paid]) shop_polls
     (shop_server 0) (\<lambda>_. Inr ()) (Inr shop_wallet) (shop_again None False) shop_db =
     (Some (Returned (Inr (RegisterHandle (shop_precommit (shop_terms 1 0)) (shop_slot 1 0, shop_slot 100 0) shop_nft))), shop_db)"
  by (simp add: shop_register [where e = None and refund = False] shop_precommit_or_pay shop_prepared register_action_def
      registration_neighbors_def shop_neighbors shop_precommit_def)

lemma registration_sound_witness:
  "xchandles_register 0 True fixture_sdk shop_cv (\<lambda>_. 77) shop_sdk shop_commands (shop_client [shop_paid]) shop_polls
     (shop_server 0) (\<lambda>_. Inr ()) (Inr shop_wallet) (shop_again None False) shop_db =
     (Some (Returned (Inr (RegisterHandle (shop_precommit (shop_terms 1 0)) (shop_slot 1 0, shop_slot 100 0) shop_nft))), shop_db) \<and>
   (\<exists>records. cl_coin_records_by_hint (shop_client [shop_paid]) 1077 = Inr (Some records) \<and> shop_paid \<in> set records)"
  using shop_second_run registration_sound [OF shop_second_run]
  by (auto simp: shop_precommit_def shop_listed)

lemma register_follow_up_witness:
  "xchandles_register 0 True fixture_sdk shop_cv (\<lambda>_. 77) shop_sdk shop_commands (shop_client []) [] (shop_server 0)
     (\<lambda>_. Inr ()) (Inr shop_wallet) shop_options shop_db = (Some (Returned (Inr (PayPrecommit 1077 1 (shop_terms 1 0)))), shop_db) \<and>
   (\<exists>plan precommit. xchandles_register 0 True fixture_sdk shop_cv (\<lambda>_. 77) shop_sdk shop_commands
      (shop_client [shop_paid]) shop_polls (shop_server 0) (\<lambda>_. Inr ()) (Inr shop_wallet) (shop_again None False) shop_db =
      (Some (Returned (Inr plan)), shop_db) \<and> plan_precommit plan = Some precommit \<and>
      pp_terms precommit = shop_terms 1 0 \<and> pp_amount precommit = 1)"
proof -
  have again: "shop_options\<lparr>hc_secret := Some (hex32 fixture_sdk (pt_secret (shop_terms 1 0))),
      hc_time := Some (pt_buy_time (shop_terms 1 0)), hc_refund := False\<rparr> = shop_again None False"
    by (simp add: shop_again_def shop_terms_def shop_options_def)
  note register_follow_up [OF fixture_hex_codec_ok shop_first_run shop_second_run [folded again],
      where registry = "example_registry example_tip_coin" and ?registry2.0 = "example_registry example_tip_coin"
      and launcher_id = 1 and records = "[shop_paid]" and paid = shop_paid]
  then show ?thesis
    using shop_first_run shop_second_run
    by (auto simp: hex_string_roundtrip [OF fixture_hex_codec_ok] shop_synced shop_listed shop_terms_def)
qed

lemma shop_expiration [simp]: "hv_expiration (slot_value (shop_slot h e)) = e"
  by (simp add: shop_slot_def slot_new_def shop_value_def)

lemma shop_expire:
  assumes "opts \<in> {shop_options, shop_again e refund}"
  shows "xchandles_expire 0 True fixture_sdk shop_cv (\<lambda>_. 77) shop_sdk shop_commands (shop_client records) polls
     (shop_server expiration) (\<lambda>_. Inr ()) (Inr shop_wallet) opts shop_db =
     (let price = (if 500 < expiration then if hc_refund opts then 0 else 3 else 1);
          terms = shop_terms 9 (case hc_committed_expiration opts of Some x \<Rightarrow> x | None \<Rightarrow> expiration)
      in precommit_or_pay shop_commands (shop_client records) (Inr ()) (hc_refund opts) (pt_payment_asset_id terms) 1077
       (\<lambda>a. price = 0 \<or> a = price) (PayPrecommit 1077 price terms)
       (\<lambda>record1.
        then_try (prepared_action True fixture_sdk shop_cv (\<lambda>_. 77) shop_commands (shop_client records) polls
            (\<lambda>_. Inr ()) shop_wallet opts 4 record1) (\<lambda>(lineage, nft).
          Some (Returned (Inr (expire_action fixture_sdk shop_commands opts shop_inputs
            (example_registry example_tip_coin) (shop_slot 100 expiration)
            \<lparr>pp_coin_record = record1, pp_lineage = lineage, pp_terms = terms, pp_refund_puzzle_hash = 77,
             pp_amount = (if price = 0 then amount (cr_coin record1) else price)\<rparr> nft))))), shop_db)"
proof -
  have "expire_payment shop_commands opts shop_inputs x 500 = 
      Inr (if 500 < x then if hc_refund opts then 0 else 3 else 1)" for x
    using assms by (auto simp: expire_payment_def shop_commands_def)
  then show ?thesis
    using assms
    by (auto simp: xchandles_expire_def with_registry_def shop_inputs_of [OF assms] shop_synced Let_def shop_refund_address
        shop_current time_given shop_secrets shop_handle_terms shop_handle_slot
        cong: option.case_cong)
qed

lemma shop_expire_first:
  "xchandles_expire 0 True fixture_sdk shop_cv (\<lambda>_. 77) shop_sdk shop_commands (shop_client []) [] (shop_server 400)
     (\<lambda>_. Inr ()) (Inr shop_wallet) shop_options shop_db = (Some (Returned (Inr (PayPrecommit 1077 1 (shop_terms 9 400)))), shop_db)"
  by (simp add: shop_expire [where e = None and refund = False] shop_precommit_or_pay)

lemma shop_expire_refund:
  "\<exists>s. xchandles_expire 0 True fixture_sdk shop_cv (\<lambda>_. 77) shop_sdk shop_commands (shop_client [shop_paid]) shop_polls
     (shop_server 900) (\<lambda>_. Inr ()) (Inr shop_wallet) (shop_again (Some 400) True) shop_db =
     (Some (Returned (Inr (RefundPrecommit (shop_precommit (shop_terms 9 400)) s))), shop_db)"
  by (simp add: shop_expire [where e = "Some 400" and refund = True] shop_precommit_or_pay shop_prepared expire_action_def
      shop_precommit_def)

lemma lost_race_refundable_witness:
  "xchandles_expire 0 True fixture_sdk shop_cv (\<lambda>_. 77) shop_sdk shop_commands (shop_client []) [] (shop_server 400)
     (\<lambda>_. Inr ()) (Inr shop_wallet) shop_options shop_db = (Some (Returned (Inr (PayPrecommit 1077 1 (shop_terms 9 400)))), shop_db) \<and>
   xc_expire_price shop_commands 1 1 ''a'' 900 500 1 = Inr 3 \<and>
   (\<exists>precommit s. xchandles_expire 0 True fixture_sdk shop_cv (\<lambda>_. 77) shop_sdk shop_commands (shop_client [shop_paid])
      shop_polls (shop_server 900) (\<lambda>_. Inr ()) (Inr shop_wallet) (shop_again (Some 400) True) shop_db =
      (Some (Returned (Inr (RefundPrecommit precommit s))), shop_db) \<and> pp_coin_record precommit = shop_paid \<and>
      pp_terms precommit = shop_terms 9 400 \<and> pp_amount precommit = 1)"
proof -
  have again: "shop_options\<lparr>hc_secret := Some (hex32 fixture_sdk (pt_secret (shop_terms 9 400))),
      hc_time := Some (pt_buy_time (shop_terms 9 400)),
      hc_committed_expiration := Some (pt_current_expiration (shop_terms 9 400)), hc_refund := True\<rparr> =
      shop_again (Some 400) True"
    by (simp add: shop_again_def shop_terms_def shop_options_def)
  have later: "pt_buy_time (shop_terms 9 400) < hv_expiration (slot_value (shop_slot 100 900))"
    by (simp add: shop_terms_def)
  note lost_race_refundable [OF fixture_hex_codec_ok shop_expire_first,
      where registry = "example_registry example_tip_coin" and ?registry2.0 = "example_registry example_tip_coin"
      and launcher_id = 1 and records = "[shop_paid]" and paid = shop_paid and slot = "shop_slot 100 900"
      and ?fuel2.0 = 0 and ?client2.0 = "shop_client [shop_paid]" and ?server2.0 = "shop_server 900" and ?db2.0 = shop_db
      and ?db3.0 = shop_db and ?ask2.0 = "\<lambda>_. Inr ()" and ?polls2.0 = shop_polls, unfolded again]
  then have "\<exists>refund_ph s. xchandles_expire 0 True fixture_sdk shop_cv (\<lambda>_. 77) shop_sdk shop_commands
      (shop_client [shop_paid]) shop_polls (shop_server 900) (\<lambda>_. Inr ()) (Inr shop_wallet) (shop_again (Some 400) True) shop_db =
      (Some (Returned (Inr (RefundPrecommit
        \<lparr>pp_coin_record = shop_paid,
         pp_lineage = \<lparr>lp_parent_parent_coin_info = 1, lp_parent_inner_puzzle_hash = 12, lp_parent_amount = 1\<rparr>,
         pp_terms = shop_terms 9 400, pp_refund_puzzle_hash = refund_ph, pp_amount = amount (cr_coin shop_paid)\<rparr> s))), shop_db)"
    using later
    by (simp add: hex_string_roundtrip [OF fixture_hex_codec_ok] shop_synced shop_listed shop_handle_slot shop_spendable)
      (auto simp: shop_terms_def)
  then show ?thesis using shop_expire_first by (fastforce simp: shop_commands_def)
qed

definition shop_tip_record :: coin_record where
  "shop_tip_record = \<lparr>cr_coin = example_tip_coin, cr_confirmed_block_index = 20, cr_spent_block_index = 0, cr_spent = False\<rparr>"

lemma update_execution_sound_witness:
  "\<exists>update. xchandles_execute_update 0 True fixture_sdk shop_cv (\<lambda>_. 77) shop_sdk shop_commands
       (shop_client [shop_tip_record]) shop_polls (shop_server 0) (\<lambda>_. Inr ()) (Inr shop_wallet) shop_options shop_db =
       (Some (Returned (Inr update)), shop_db) \<and>
     slot_value (eu_update_slot update) = shop_update \<and>
     (\<exists>peak. Inr (Some peak) \<in> set shop_polls \<and> uv_min_height shop_update \<le> bp_height peak)"
proof -
  let ?slot = "xs_created_update_slot shop_sdk
      (example_registry example_spent_coin\<lparr>rg_created_update_slots := [shop_update]\<rparr>) shop_update"
  let ?update = "\<lparr>eu_slot = shop_slot 100 0, eu_update_slot = ?slot, eu_new_launcher_id = 77, eu_owner_nft = shop_nft,
      eu_new_nft = shop_nft\<rparr>"
  have inputs: "update_inputs True fixture_sdk shop_cv (Inr shop_wallet) shop_options = Returned (Inr (1, shop_wallet, 77))"
    by (simp add: update_inputs_def shop_options_def zero_amount hex_string_roundtrip [OF fixture_hex_codec_ok]
        address_puzzle_hash_def shop_cv_def)
  have slot: "slot_coin ?slot = example_tip_coin" "slot_value ?slot = shop_update"
    by (simp_all add: shop_sdk_def pending_sdk_def example_registry_sdk_def)
  have found: "find_xchandles_update_slot shop_sdk (shop_client [shop_tip_record]) () 50 97 = Inr ?slot"
    using slot(1)
    by (simp add: find_xchandles_update_slot_def required_def shop_client_def shop_tip_record_def Let_def)
      (simp add: shop_sdk_def shop_update_def)
  have hash: "sdk_str_tree_hash fixture_sdk ''a'' = 97" by (simp add: fixture_sdk_def)
  have run: "xchandles_execute_update 0 True fixture_sdk shop_cv (\<lambda>_. 77) shop_sdk shop_commands
       (shop_client [shop_tip_record]) shop_polls (shop_server 0) (\<lambda>_. Inr ()) (Inr shop_wallet) shop_options shop_db =
       (Some (Returned (Inr ?update)), shop_db)"
    using found shop_handle_slot [unfolded hash] slot(2)
    by (simp add: xchandles_execute_update_def with_registry_def inputs shop_synced hash shop_fetched Let_def)
      (simp add: shop_commands_def shop_nft_def shop_polls_def shop_update_def or_abort_def)
  from update_execution_sound [OF run] slot(2) have
    "\<exists>peak. Inr (Some peak) \<in> set shop_polls \<and> uv_min_height shop_update \<le> bp_height peak"
    by auto
  with run slot(2) show ?thesis by (intro exI [of _ ?update]) simp
qed

end
