(* ===== verification/CatalogCommands.thy ===== *)
theory CatalogCommands
  imports CatalogLaunch ApiClients Precommit
begin

text \<open>
  \<open>catalog/register.rs\<close>: registering a CAT in two runs of one command, the first of which pays the registration and the second
  registers the CAT or takes the refund; up to the payment or to what is handed to the SDK's action.
\<close>

section \<open>Data\<close>

record catalog_commands_sdk = precommit_sdk +
  kq_tail_hash :: "u8 list \<Rightarrow> cli_error + bytes32"
  kq_initial_inner_hash :: "bytes32 \<Rightarrow> cat_nft_metadata \<Rightarrow> driver_error + bytes32"
  kq_precommit_inner_hash :: "catalog_constants \<Rightarrow> bytes32 \<Rightarrow> cat_precommit \<Rightarrow> bytes32"
  kq_cat_maker_hash :: "bytes32 \<Rightarrow> bytes32"

record catalog_options =
  co_tail_reveal_str :: string
  co_ticker :: string
  co_name :: string
  co_description :: string
  co_precision :: u8
  co_image_uris_str :: string
  co_image_hash_str :: string
  co_metadata_uris_str :: string
  co_metadata_hash_str :: "string option"
  co_license_uris_str :: string
  co_license_hash_str :: "string option"
  co_recipient_address :: "string option"
  co_refund :: bool
  co_local :: bool
  co_payment_asset_id_str :: string
  co_payment_cat_amount_str :: "string option"
  co_fee_str :: string

datatype catalog_question = MakerDiffers | AmountDiffers | CatalogOffer | CatalogPayment

text \<open>What is ordered: the CAT, its price, who gets the NFT or the refund, the precommitment's value and its inner hash.\<close>

record catalog_order =
  cd_asset_id :: bytes32
  cd_price :: u64
  cd_recipient :: bytes32
  cd_value :: cat_precommit
  cd_inner_puzzle_hash :: bytes32

datatype catalog_plan =
    PayRegistration catalog_order
  | RegisterCat catalog_order coin_record lineage_proof "catalog_slot_value slot \<times> catalog_slot_value slot"
  | RefundCat catalog_order coin_record lineage_proof "catalog_slot_value slot option"

section \<open>Arguments\<close>

definition optional_hash :: "('n, 'z) sdk_scheme \<Rightarrow> string option \<Rightarrow> cli_error + bytes32 option" where
  "optional_hash sdk s =
     (case s of None \<Rightarrow> Inr None | Some hex \<Rightarrow> try_result (hex_string_to_bytes32 sdk hex) (\<lambda>h. Inr (Some h)))"

definition initial_metadata_from_arguments ::
  "('n, 'z) sdk_scheme \<Rightarrow> catalog_options \<Rightarrow> cli_error + cat_nft_metadata"
where
  "initial_metadata_from_arguments sdk opts =
     try_result (hex_string_to_bytes32 sdk (co_image_hash_str opts)) (\<lambda>image_hash.
     try_result (optional_hash sdk (co_metadata_hash_str opts)) (\<lambda>metadata_hash.
     try_result (optional_hash sdk (co_license_hash_str opts)) (\<lambda>license_hash.
       Inr \<lparr>tm_ticker = co_ticker opts, tm_name = co_name opts, tm_description = co_description opts,
         tm_hidden_puzzle_hash = None, tm_precision = co_precision opts,
         tm_image_uris = split_on (CHR '','') (co_image_uris_str opts), tm_image_hash = image_hash,
         tm_metadata_uris = split_on (CHR '','') (co_metadata_uris_str opts), tm_metadata_hash = metadata_hash,
         tm_license_uris = split_on (CHR '','') (co_license_uris_str opts), tm_license_hash = license_hash\<rparr>)))"

definition catalog_inputs ::
  "bool \<Rightarrow> ('n, 'z) sdk_scheme \<Rightarrow> (cli_error + sage) \<Rightarrow> catalog_options
    \<Rightarrow> (cli_error + sage \<times> cat_nft_metadata \<times> bytes32) outcome"
where
  "catalog_inputs overflow_checks sdk sage opts =
     attempt (Returned sage) (\<lambda>sage.
     attempt (parse_amount overflow_checks (co_fee_str opts) False) (\<lambda>fee.
     attempt (Returned (initial_metadata_from_arguments sdk opts)) (\<lambda>metadata.
     attempt (Returned (hex_string_to_bytes32 sdk (co_payment_asset_id_str opts))) (\<lambda>payment_asset_id.
       Returned (Inr (sage, metadata, payment_asset_id))))))"

definition synced_catalog ::
  "nat \<Rightarrow> ('n, 'z) sdk_scheme \<Rightarrow> 'm catalog_sdk \<Rightarrow> client \<Rightarrow> bool \<Rightarrow> catalog_constants \<Rightarrow> db \<Rightarrow> catalog db_result option"
where
  "synced_catalog fuel sdk ks client local constants db =
     (if local then sync_catalog fuel sdk ks client constants db
      else Some (quick_sync_catalog sdk ks client constants, db))"

section \<open>The order\<close>

text \<open>A price that is given is paid instead of the registry's, after a question unless for a refund.\<close>

definition catalog_price ::
  "bool \<Rightarrow> (catalog_question \<Rightarrow> cli_error + unit) \<Rightarrow> catalog_options \<Rightarrow> catalog \<Rightarrow> (cli_error + u64) outcome"
where
  "catalog_price overflow_checks ask opts catalog =
     (case co_payment_cat_amount_str opts of
        None \<Rightarrow> Returned (Inr (ct_registration_price (kg_state catalog)))
      | Some amount_str \<Rightarrow>
          attempt (parse_amount overflow_checks amount_str True) (\<lambda>parsed.
            if parsed \<noteq> ct_registration_price (kg_state catalog) \<and> \<not> co_refund opts
            then attempt (Returned (ask AmountDiffers)) (\<lambda>_. Returned (Inr parsed))
            else Returned (Inr parsed)))"

definition catalog_order_of ::
  "bool \<Rightarrow> ('n, 'z) sdk_scheme \<Rightarrow> 'k csv_sdk \<Rightarrow> catalog_commands_sdk \<Rightarrow> (catalog_question \<Rightarrow> cli_error + unit)
    \<Rightarrow> sage \<Rightarrow> catalog_options \<Rightarrow> cat_nft_metadata \<Rightarrow> bytes32 \<Rightarrow> catalog_constants \<Rightarrow> catalog
    \<Rightarrow> (cli_error + catalog_order) outcome"
where
  "catalog_order_of overflow_checks sdk cv kq ask sage opts metadata payment_asset_id constants catalog =
     attempt (refund_address_of sage (co_recipient_address opts)) (\<lambda>recipient_address.
     attempt (Returned (hex_string_to_bytes sdk (co_tail_reveal_str opts))) (\<lambda>tail.
     attempt (Returned (kq_tail_hash kq tail)) (\<lambda>registered_asset_id.
     attempt (Returned (if \<not> co_refund opts \<and>
            kq_cat_maker_hash kq payment_asset_id \<noteq> ct_cat_maker_puzzle_hash (kg_state catalog)
          then ask MakerDiffers else Inr ())) (\<lambda>_.
     attempt (catalog_price overflow_checks ask opts catalog) (\<lambda>price.
     attempt (Returned (address_puzzle_hash cv recipient_address)) (\<lambda>recipient_puzzle_hash.
     attempt (Returned (map_err Driver (kq_initial_inner_hash kq recipient_puzzle_hash metadata))) (\<lambda>initial_inner_hash.
     let precommit = \<lparr>cw_payment_asset_id = payment_asset_id, cw_initial_inner_puzzle_hash = initial_inner_hash,
           cw_tail = tail\<rparr>
     in Returned (Inr \<lparr>cd_asset_id = registered_asset_id, cd_price = price, cd_recipient = recipient_puzzle_hash,
          cd_value = precommit,
          cd_inner_puzzle_hash = kq_precommit_inner_hash kq constants recipient_puzzle_hash precommit\<rparr>))))))))"

section \<open>The action\<close>

text \<open>
  The slot of the CAT that makes a refund necessary. The answer of the API is compared with the asset id here, unlike
  that of a registry of handles.
\<close>

definition catalog_refund_slot ::
  "('n, 'z) sdk_scheme \<Rightarrow> 'm catalog_sdk \<Rightarrow> catalog_commands_sdk \<Rightarrow> catalog_server \<Rightarrow> catalog_constants \<Rightarrow> bool
    \<Rightarrow> catalog \<Rightarrow> db \<Rightarrow> catalog_order \<Rightarrow> (cli_error + catalog_slot_value slot option) outcome"
where
  "catalog_refund_slot sdk ks kq server constants local catalog db order =
     (let registered_asset_id = cd_asset_id order
      in if kq_cat_maker_hash kq (cw_payment_asset_id (cd_value order)) \<noteq> ct_cat_maker_puzzle_hash (kg_state catalog) \<or>
            cd_price order \<noteq> ct_registration_price (kg_state catalog)
         then Returned (Inr None)
         else if local
         then
           attempt (Returned (required (get_catalog_indexed_slot_value registered_asset_id db)
               (Custom ''Refund not available - precommit uses right CAT & amount & tries to register a new CAT'')))
             (\<lambda>slot_value_hash.
           attempt (Returned (get_slot (ks_slot_codec ks) (kc_launcher_id constants) 0 slot_value_hash 0 db)) (\<lambda>slot.
           attempt (unwrap slot) (\<lambda>slot. Returned (Inr (Some slot)))))
         else
           (case hash_minus_one registered_asset_id of
              Panicked \<Rightarrow> Panicked
            | Returned registered_asset_id_minus_one \<Rightarrow>
                Returned (try_result (catalog_api_get_neighbors sdk (ks_slot_codec ks) server (kc_launcher_id constants)
                    registered_asset_id_minus_one) (\<lambda>(left, right).
                  Inr (if kv_asset_id (slot_value right) = registered_asset_id then Some right else None)))))"

definition catalog_registration_neighbors ::
  "('n, 'z) sdk_scheme \<Rightarrow> 'm catalog_sdk \<Rightarrow> catalog_server \<Rightarrow> catalog_constants \<Rightarrow> bool \<Rightarrow> db \<Rightarrow> bytes32
    \<Rightarrow> cli_error + catalog_slot_value slot \<times> catalog_slot_value slot"
where
  "catalog_registration_neighbors sdk ks server constants local db asset_id =
     (if local then get_catalog_neighbors (ks_slot_codec ks) (kc_launcher_id constants) asset_id db
      else catalog_api_get_neighbors sdk (ks_slot_codec ks) server (kc_launcher_id constants) asset_id)"

text \<open>The coin is waited for seven blocks more than the catalog asks for.\<close>

definition catalog_action ::
  "bool \<Rightarrow> ('n, 'z) sdk_scheme \<Rightarrow> 'm catalog_sdk \<Rightarrow> catalog_commands_sdk \<Rightarrow> client
    \<Rightarrow> (cli_error + blockchain_peak option) list \<Rightarrow> catalog_server \<Rightarrow> (catalog_question \<Rightarrow> cli_error + unit)
    \<Rightarrow> catalog_options \<Rightarrow> catalog_constants \<Rightarrow> catalog \<Rightarrow> db \<Rightarrow> catalog_order \<Rightarrow> coin_record \<Rightarrow> catalog_plan step option"
where
  "catalog_action overflow_checks sdk ks kq client polls server ask opts constants catalog db order record1 =
     then_try (spendable_precommit overflow_checks kq client polls (kc_relative_block_height constants) 7 record1)
       (\<lambda>lineage_proof.
     then_try (Some (checked (ask CatalogOffer))) (\<lambda>_.
       if co_refund opts
       then then_try (Some (fallible (catalog_refund_slot sdk ks kq server constants (co_local opts) catalog db order)))
              (\<lambda>slot. Some (Returned (Inr (RefundCat order record1 lineage_proof slot))))
       else then_try (Some (checked (catalog_registration_neighbors sdk ks server constants (co_local opts) db
                (cd_asset_id order))))
              (\<lambda>neighbors. Some (Returned (Inr (RegisterCat order record1 lineage_proof neighbors))))))"

definition catalog_register ::
  "nat \<Rightarrow> bool \<Rightarrow> ('n, 'z) sdk_scheme \<Rightarrow> 'k csv_sdk \<Rightarrow> 'm catalog_sdk \<Rightarrow> catalog_commands_sdk \<Rightarrow> client
    \<Rightarrow> (cli_error + blockchain_peak option) list \<Rightarrow> catalog_server \<Rightarrow> (catalog_question \<Rightarrow> cli_error + unit)
    \<Rightarrow> (cli_error + sage) \<Rightarrow> catalog_constants \<Rightarrow> catalog_options \<Rightarrow> db \<Rightarrow> catalog_plan step option \<times> db"
where
  "catalog_register fuel overflow_checks sdk cv ks kq client polls server ask sage constants opts db =
     (case fallible (catalog_inputs overflow_checks sdk sage opts) of
        Panicked \<Rightarrow> (Some Panicked, db)
      | Returned (Inl stop) \<Rightarrow> (Some (Returned (Inl stop)), db)
      | Returned (Inr (sage, metadata, payment_asset_id)) \<Rightarrow>
          (case synced_catalog fuel sdk ks client (co_local opts) constants db of
             None \<Rightarrow> (None, db)
           | Some (Inl e, db) \<Rightarrow> (Some (Returned (Inl (Failed e))), db)
           | Some (Inr catalog, db) \<Rightarrow>
               (then_try (Some (fallible (catalog_order_of overflow_checks sdk cv kq ask sage opts metadata payment_asset_id
                   constants catalog))) (\<lambda>order.
                  precommit_or_pay kq client (ask CatalogPayment) (co_refund opts) payment_asset_id
                    (cd_inner_puzzle_hash order) (\<lambda>a. a = cd_price order) (PayRegistration order)
                    (catalog_action overflow_checks sdk ks kq client polls server ask opts constants catalog db order)), db)))"

end
