(* ===== verification/CatalogCommandFacts.thy ===== *)
theory CatalogCommandFacts
  imports CatalogCommands QuickSync DatastoreFacts
begin

text \<open>
  The registration of a CAT: the second run of the command finds what the first one paid as long as the price is the same, and
  pays again when the registry's price has changed and none was given.
\<close>

section \<open>Decomposing a run\<close>

lemma catalog_register_Inr:
  assumes "catalog_register fuel checks sdk cv ks kq client polls server ask sage constants opts db =
      (Some (Returned (Inr plan)), db')"
  obtains w metadata asset catalog order where
    "catalog_inputs checks sdk sage opts = Returned (Inr (w, metadata, asset))"
    "synced_catalog fuel sdk ks client (co_local opts) constants db = Some (Inr catalog, db')"
    "catalog_order_of checks sdk cv kq ask w opts metadata asset constants catalog = Returned (Inr order)"
    "precommit_or_pay kq client (ask CatalogPayment) (co_refund opts) asset (cd_inner_puzzle_hash order)
       (\<lambda>a. a = cd_price order) (PayRegistration order)
       (catalog_action checks sdk ks kq client polls server ask opts constants catalog db' order) = Some (Returned (Inr plan))"
proof -
  from assms obtain w metadata asset where inputs: "catalog_inputs checks sdk sage opts = Returned (Inr (w, metadata, asset))"
    unfolding catalog_register_def
    by (cases "fallible (catalog_inputs checks sdk sage opts)") (auto simp: result_simps split: sum.splits)
  with assms obtain catalog db1 where synced:
      "synced_catalog fuel sdk ks client (co_local opts) constants db = Some (Inr catalog, db1)"
    by (auto simp: catalog_register_def split: option.splits sum.splits)
  from inputs synced assms have db1: "db1 = db'" by (simp add: catalog_register_def)
  from inputs synced assms obtain order where
    "catalog_order_of checks sdk cv kq ask w opts metadata asset constants catalog = Returned (Inr order)"
    "precommit_or_pay kq client (ask CatalogPayment) (co_refund opts) asset (cd_inner_puzzle_hash order)
       (\<lambda>a. a = cd_price order) (PayRegistration order)
       (catalog_action checks sdk ks kq client polls server ask opts constants catalog db' order) = Some (Returned (Inr plan))"
    unfolding db1 by (auto simp: catalog_register_def result_simps)
  then show thesis using inputs synced unfolding db1 by (rule that [rotated 2])
qed

lemma catalog_price_Inr:
  "catalog_price checks ask opts catalog = Returned (Inr p) \<Longrightarrow>
     (case co_payment_cat_amount_str opts of
        None \<Rightarrow> p = ct_registration_price (kg_state catalog)
      | Some s \<Rightarrow> parse_amount checks s True = Returned (Inr p))"
  by (auto simp: catalog_price_def result_simps split: option.splits if_splits)

lemma catalog_order_Inr:
  assumes "catalog_order_of checks sdk cv kq ask w opts metadata asset constants catalog = Returned (Inr order)"
  shows "catalog_price checks ask opts catalog = Returned (Inr (cd_price order)) \<and> cw_payment_asset_id (cd_value order) = asset"
  using assms by (auto simp: catalog_order_of_def result_simps Let_def)

lemma catalog_order_again:
  assumes "catalog_order_of checks sdk cv kq ask w opts metadata asset constants catalog = Returned (Inr order)"
    and "catalog_order_of checks sdk cv kq ask2 w (opts\<lparr>co_refund := refund\<rparr>) metadata asset constants catalog2 =
      Returned (Inr order2)"
  shows "order2 = order\<lparr>cd_price := cd_price order2\<rparr>"
  using assms by (auto simp: catalog_order_of_def result_simps Let_def)

lemma catalog_inputs_again: "catalog_inputs checks sdk sage (opts\<lparr>co_refund := refund\<rparr>) = catalog_inputs checks sdk sage opts"
  by (simp add: catalog_inputs_def initial_metadata_from_arguments_def)

fun plan_order :: "catalog_plan \<Rightarrow> catalog_order \<times> coin_record option" where
  "plan_order (PayRegistration order) = (order, None)"
| "plan_order (RegisterCat order record1 lineage neighbors) = (order, Some record1)"
| "plan_order (RefundCat order record1 lineage slot) = (order, Some record1)"

lemma catalog_action_order:
  "catalog_action checks sdk ks kq client polls server ask opts constants catalog db order record1 =
     Some (Returned (Inr plan)) \<Longrightarrow> plan_order plan = (order, Some record1)"
  by (auto simp: catalog_action_def result_simps split: if_splits)

lemma catalog_paid:
  assumes "precommit_or_pay kq client answer refund asset (cd_inner_puzzle_hash order) (\<lambda>a. a = cd_price order)
      (PayRegistration order) (catalog_action checks sdk ks kq client polls server ask opts constants catalog db order) =
      Some (Returned (Inr plan))"
    and "cl_coin_records_by_hint client (cd_inner_puzzle_hash order) = Inr (Some records)"
  shows "(\<exists>record1 \<in> set records. plan_order plan = (order, Some record1) \<and> amount (cr_coin record1) = cd_price order \<and>
      puzzle_hash (cr_coin record1) = pq_cat_puzzle_hash kq asset (cd_inner_puzzle_hash order)) \<or>
    (\<not> refund \<and> plan = PayRegistration order \<and>
      (\<forall>cr \<in> set records. \<not> (puzzle_hash (cr_coin cr) = pq_cat_puzzle_hash kq asset (cd_inner_puzzle_hash order) \<and>
         amount (cr_coin cr) = cd_price order)))"
  using precommit_or_pay_Inr [OF assms(1)] assms(2)
  by (auto simp: find_None_iff dest!: catalog_action_order find_SomeD split: option.splits)

lemma catalog_first_order:
  assumes "catalog_register fuel checks sdk cv ks kq client polls server ask sage constants opts db =
      (Some (Returned (Inr (PayRegistration order))), db1)"
  obtains w metadata asset catalog where
    "catalog_inputs checks sdk sage opts = Returned (Inr (w, metadata, asset))"
    "synced_catalog fuel sdk ks client (co_local opts) constants db = Some (Inr catalog, db1)"
    "catalog_order_of checks sdk cv kq ask w opts metadata asset constants catalog = Returned (Inr order)"
proof (rule catalog_register_Inr [OF assms], goal_cases)
  case (1 w metadata asset catalog order1)
  have "order1 = order"
    using precommit_or_pay_Inr [OF 1(5)] by (auto split: option.splits dest!: catalog_action_order)
  with 1 show ?case by blast
qed

text \<open>What two runs of the command have in common: the order, but for the price.\<close>

definition repriced :: "catalog_options \<Rightarrow> catalog \<Rightarrow> catalog_order \<Rightarrow> catalog_order" where
  "repriced opts catalog order =
     (case co_payment_cat_amount_str opts of
        None \<Rightarrow> order\<lparr>cd_price := ct_registration_price (kg_state catalog)\<rparr>
      | Some _ \<Rightarrow> order)"

lemma repriced_simps [simp]:
  "cd_inner_puzzle_hash (repriced opts catalog order) = cd_inner_puzzle_hash order"
  "cd_value (repriced opts catalog order) = cd_value order"
  by (simp_all add: repriced_def split: option.split)

lemma catalog_second_order:
  assumes first: "catalog_register fuel checks sdk cv ks kq client polls server ask sage constants opts db =
      (Some (Returned (Inr (PayRegistration order))), db1)"
    and second: "catalog_register fuel2 checks sdk cv ks kq client2 polls2 server2 ask2 sage constants
      (opts\<lparr>co_refund := refund\<rparr>) db2 = (Some (Returned (Inr plan)), db3)"
    and synced: "synced_catalog fuel2 sdk ks client2 (co_local opts) constants db2 = Some (Inr catalog2, db3)"
  shows "precommit_or_pay kq client2 (ask2 CatalogPayment) refund (cw_payment_asset_id (cd_value order))
     (cd_inner_puzzle_hash (repriced opts catalog2 order)) (\<lambda>a. a = cd_price (repriced opts catalog2 order))
     (PayRegistration (repriced opts catalog2 order))
     (catalog_action checks sdk ks kq client2 polls2 server2 ask2 (opts\<lparr>co_refund := refund\<rparr>) constants catalog2 db3
        (repriced opts catalog2 order)) = Some (Returned (Inr plan))"
  using first
proof (rule catalog_first_order)
  fix w metadata asset catalog
  assume inputs: "catalog_inputs checks sdk sage opts = Returned (Inr (w, metadata, asset))"
    and order: "catalog_order_of checks sdk cv kq ask w opts metadata asset constants catalog = Returned (Inr order)"
  note price = catalog_price_Inr [OF conjunct1 [OF catalog_order_Inr [OF order]]]
  show ?thesis using second
  proof (rule catalog_register_Inr, goal_cases)
    case (1 w2 metadata2 asset2 catalog' order2)
    have same: "w2 = w" "metadata2 = metadata" "asset2 = asset" "catalog' = catalog2"
      using 1(1,2) inputs synced by (simp_all add: catalog_inputs_again)
    note price2 = catalog_price_Inr [OF conjunct1 [OF catalog_order_Inr [OF 1(3)]]]
    from catalog_order_again [OF order 1(3) [unfolded same]] price price2 same(4)
    have "order2 = repriced opts catalog2 order"
      by (cases order; cases order2) (auto simp: repriced_def split: option.splits)
    moreover have "asset = cw_payment_asset_id (cd_value order)" using catalog_order_Inr [OF order] by simp
    ultimately show ?thesis using 1(4) same by simp
  qed
qed

text \<open>
  Registering a CAT takes two runs of the same command, and the second finds what the first one paid when the price
  is the same: it was given, or the registry's has not changed. Once the node lists the coin the command never
  pays a second time, with \<open>--refund\<close> or without: it goes on with the very order and a coin of that list, at
  the puzzle hash and with the amount that were paid.
\<close>

theorem catalog_follow_up:
  assumes first: "catalog_register fuel checks sdk cv ks kq client polls server ask sage constants opts db =
      (Some (Returned (Inr (PayRegistration order))), db1)"
    and second: "catalog_register fuel2 checks sdk cv ks kq client2 polls2 server2 ask2 sage constants
      (opts\<lparr>co_refund := refund\<rparr>) db2 = (Some (Returned (Inr plan)), db3)"
    and synced: "synced_catalog fuel2 sdk ks client2 (co_local opts) constants db2 = Some (Inr catalog2, db3)"
    and price: "co_payment_cat_amount_str opts \<noteq> None \<or> ct_registration_price (kg_state catalog2) = cd_price order"
    and listed: "cl_coin_records_by_hint client2 (cd_inner_puzzle_hash order) = Inr (Some records)" "paid \<in> set records"
      "puzzle_hash (cr_coin paid) =
         pq_cat_puzzle_hash kq (cw_payment_asset_id (cd_value order)) (cd_inner_puzzle_hash order)"
      "amount (cr_coin paid) = cd_price order"
  shows "\<exists>record1 \<in> set records. plan_order plan = (order, Some record1) \<and> amount (cr_coin record1) = cd_price order \<and>
    puzzle_hash (cr_coin record1) =
      pq_cat_puzzle_hash kq (cw_payment_asset_id (cd_value order)) (cd_inner_puzzle_hash order)"
proof -
  have same: "repriced opts catalog2 order = order"
    using price by (cases order) (auto simp: repriced_def split: option.split)
  from catalog_paid [OF catalog_second_order [OF first second synced, unfolded same] listed(1)] listed(2-4)
  show ?thesis by blast
qed

text \<open>
  C30. When no price is given and the registry's has changed since, the command run again as it asks for does not find
  the payment: it pays the new price to the same precommitment, and with \<open>--refund\<close> it gives up; the coin at the old price is
  out of its reach until the old price is given explicitly.
\<close>

theorem price_change_pays_again:
  assumes first: "catalog_register fuel checks sdk cv ks kq client polls server ask sage constants opts db =
      (Some (Returned (Inr (PayRegistration order))), db1)"
    and second: "catalog_register fuel2 checks sdk cv ks kq client2 polls2 server2 ask2 sage constants
      (opts\<lparr>co_refund := refund\<rparr>) db2 = (Some (Returned (Inr plan)), db3)"
    and synced: "synced_catalog fuel2 sdk ks client2 (co_local opts) constants db2 = Some (Inr catalog2, db3)"
    and none: "co_payment_cat_amount_str opts = None" "ct_registration_price (kg_state catalog2) \<noteq> cd_price order"
    and listed: "cl_coin_records_by_hint client2 (cd_inner_puzzle_hash order) = Inr (Some records)"
      "\<forall>cr \<in> set records. amount (cr_coin cr) = cd_price order"
  shows "\<not> refund \<and> plan = PayRegistration (order\<lparr>cd_price := ct_registration_price (kg_state catalog2)\<rparr>)"
proof -
  have repriced: "repriced opts catalog2 order = order\<lparr>cd_price := ct_registration_price (kg_state catalog2)\<rparr>"
    using none(1) by (simp add: repriced_def)
  have "cl_coin_records_by_hint client2 (cd_inner_puzzle_hash (repriced opts catalog2 order)) = Inr (Some records)"
    using listed(1) by simp
  from catalog_paid [OF catalog_second_order [OF first second synced] this] none(2) listed(2)
  show ?thesis unfolding repriced by auto
qed

section \<open>A catalog to shop in\<close>

text \<open>
  For the witnesses: the catalog of the quick synchronization, whose price is 1, or 2 when the spend shown has a solution; a node
  that lists \<open>records\<close> under any other hint.
\<close>

definition store_sdk :: "unit catalog_sdk" where
  "store_sdk = example_catalog_sdk\<lparr>ks_from_parent_spend := (\<lambda>spend _. Inr (Some (example_catalog example_tip_coin
     \<lparr>kg_state := \<lparr>ct_cat_maker_puzzle_hash = 5, ct_registration_price = (if spend_solution spend = [] then 1 else 2)\<rparr>\<rparr>)))\<rparr>"

definition store_commands :: catalog_commands_sdk where
  "store_commands =
     \<lparr>pq_cat_puzzle_hash = (\<lambda>asset h. asset + h), pq_cat_inner_hash = (\<lambda>_. Inr (Some 12)),
      kq_tail_hash = (\<lambda>_. Inr 97), kq_initial_inner_hash = (\<lambda>_ _. Inr 6),
      kq_precommit_inner_hash = (\<lambda>_ ph _. 1000 + ph), kq_cat_maker_hash = (\<lambda>_. 5)\<rparr>"

definition store_paid :: coin_record where
  "store_paid = \<lparr>cr_coin = \<lparr>parent_coin_info = 5, puzzle_hash = 1085, amount = 1\<rparr>, cr_confirmed_block_index = 30,
     cr_spent_block_index = 0, cr_spent = False\<rparr>"

definition store_client :: "u8 list \<Rightarrow> coin_record list \<Rightarrow> client" where
  "store_client solution records = pending_client
     \<lparr>cl_coin_records_by_hint := (\<lambda>h. Inr (Some (if h = 1 then
        [\<lparr>cr_coin = example_tip_coin, cr_confirmed_block_index = 20, cr_spent_block_index = 0, cr_spent = False\<rparr>]
        else records))),
      cl_puzzle_and_solution := (\<lambda>_ _. Inr (Some
        \<lparr>spend_coin = example_spent_coin, puzzle_reveal = [], spend_solution = solution\<rparr>)),
      cl_mempool_items := (\<lambda>_. Inr None)\<rparr>"

definition store_cv :: "nat csv_sdk" where
  "store_cv = \<lparr>cv_address_decode = (\<lambda>_. Some (''xch'', 77)), cv_u64 = (\<lambda>_. None), cv_u8 = (\<lambda>_. None),
     cv_pubkey_from_bytes = (\<lambda>_. None)\<rparr>"

definition store_sage :: sage where
  "store_sage = \<lparr>sg_check_address = (\<lambda>_. Inr True), sg_derivations = (\<lambda>_ _ _. Inr ([], 0))\<rparr>"

definition store_options :: "bool \<Rightarrow> catalog_options" where
  "store_options refund =
     \<lparr>co_tail_reveal_str = [], co_ticker = ''TCK'', co_name = ''n'', co_description = [], co_precision = 3,
      co_image_uris_str = ''a,b'', co_image_hash_str = hex32 fixture_sdk 3, co_metadata_uris_str = [],
      co_metadata_hash_str = None, co_license_uris_str = [], co_license_hash_str = None,
      co_recipient_address = Some ''xch1'', co_refund = refund, co_local = False,
      co_payment_asset_id_str = hex32 fixture_sdk 8, co_payment_cat_amount_str = None, co_fee_str = ''0.0''\<rparr>"

definition store_order :: "u64 \<Rightarrow> catalog_order" where
  "store_order price = \<lparr>cd_asset_id = 97, cd_price = price, cd_recipient = 77,
     cd_value = \<lparr>cw_payment_asset_id = 8, cw_initial_inner_puzzle_hash = 6, cw_tail = []\<rparr>,
     cd_inner_puzzle_hash = 1077\<rparr>"

definition store_server :: catalog_server where
  "store_server = (\<lambda>s. Inr \<lparr>kn_asset_id = s, kn_left_asset_id = hex32 fixture_sdk 1, kn_right_asset_id = hex32 fixture_sdk 200,
     kn_left_counter = 0, kn_right_counter = 0, kn_left_left_asset_id = hex32 fixture_sdk 0,
     kn_right_right_asset_id = hex32 fixture_sdk 255, kn_left_parent_parent_info = hex32 fixture_sdk 4,
     kn_left_parent_inner_puzzle_hash = hex32 fixture_sdk 4, kn_left_parent_amount = 1,
     kn_right_parent_parent_info = hex32 fixture_sdk 4, kn_right_parent_inner_puzzle_hash = hex32 fixture_sdk 4,
     kn_right_parent_amount = 1\<rparr>)"

definition store_catalog :: "u64 \<Rightarrow> catalog" where
  "store_catalog price = example_catalog example_tip_coin
     \<lparr>kg_state := \<lparr>ct_cat_maker_puzzle_hash = 5, ct_registration_price = price\<rparr>\<rparr>"

lemma store_synced:
  "synced_catalog fuel fixture_sdk store_sdk (store_client solution records) False example_constants db =
     Some (Inr (store_catalog (if solution = [] then 1 else 2)), db)"
proof -
  have "quick_sync_catalog fixture_sdk store_sdk (store_client solution records) example_constants =
      Inr (store_catalog (if solution = [] then 1 else 2))"
    by (simp add: quick_sync_catalog_def required_def pending_catalog_def store_client_def example_constants_def Let_def)
      (simp add: required_def store_sdk_def store_catalog_def)
  then show ?thesis by (simp add: synced_catalog_def)
qed

lemma store_option_simps [simp]:
  "co_refund (store_options r) = r" "co_local (store_options r) = False" "co_tail_reveal_str (store_options r) = []"
  "co_payment_cat_amount_str (store_options r) = None" "co_recipient_address (store_options r) = Some ''xch1''"
  "(store_options r)\<lparr>co_refund := r'\<rparr> = store_options r'"
  by (simp_all add: store_options_def)

lemma store_inputs:
  "\<exists>metadata. catalog_inputs True fixture_sdk (Inr store_sage) (store_options refund) = Returned (Inr (store_sage, metadata, 8))"
  by (simp add: catalog_inputs_def store_options_def zero_amount initial_metadata_from_arguments_def optional_hash_def
      hex_string_roundtrip [OF fixture_hex_codec_ok])

lemma store_ordered:
  "catalog_order_of True fixture_sdk store_cv store_commands (\<lambda>_. Inr ()) store_sage (store_options refund) metadata 8
     example_constants (store_catalog price) = Returned (Inr (store_order price))"
proof -
  have "hex_string_to_bytes fixture_sdk [] = Inr []" by (simp add: hex_string_to_bytes_def fixture_sdk_def)
  then show ?thesis
    by (simp add: catalog_order_of_def refund_address_of_def catalog_price_def store_catalog_def Let_def)
      (simp add: store_commands_def store_order_def address_puzzle_hash_def store_cv_def)
qed

lemma store_spendable:
  "spendable_precommit True store_commands (store_client solution records) [Inr (Some \<lparr>bp_height = 80, bp_timestamp = None\<rparr>)]
     32 7 store_paid = Some (Returned (Inr
     \<lparr>lp_parent_parent_coin_info = 1, lp_parent_inner_puzzle_hash = 12, lp_parent_amount = 1\<rparr>))"
  by (simp add: spendable_precommit_def store_paid_def plain_u32_add_def required_def store_client_def
      store_commands_def example_spent_coin_def or_abort_def)

lemma store_neighbors: "\<exists>pair. catalog_api_get_neighbors fixture_sdk (ks_slot_codec store_sdk) store_server 1 97 = Inr pair"
  by (simp add: catalog_api_get_neighbors_def store_server_def api_proof_def hex_string_roundtrip [OF fixture_hex_codec_ok])

lemma store_register:
  assumes "records = [] \<or> records = [store_paid]"
  shows "catalog_register 0 True fixture_sdk store_cv store_sdk store_commands (store_client solution records)
     polls store_server (\<lambda>_. Inr ()) (Inr store_sage) example_constants (store_options refund) db_new =
     (case find (\<lambda>cr. amount (cr_coin cr) = (if solution = [] then 1 else 2)) records of
        Some record1 \<Rightarrow> catalog_action True fixture_sdk store_sdk store_commands (store_client solution records) polls
          store_server (\<lambda>_. Inr ()) (store_options refund) example_constants (store_catalog (if solution = [] then 1 else 2))
          db_new (store_order (if solution = [] then 1 else 2)) record1
      | None \<Rightarrow>
          if refund then Some (checked (Inl (Custom ''Precommitment coin not found but --refund was provided'')))
          else Some (Returned (Inr (PayRegistration (store_order (if solution = [] then 1 else 2))))), db_new)"
proof -
  obtain metadata where inputs:
    "catalog_inputs True fixture_sdk (Inr store_sage) (store_options refund) = Returned (Inr (store_sage, metadata, 8))"
    using store_inputs by blast
  have hint: "cl_coin_records_by_hint (store_client solution records) 1077 = Inr (Some records)"
    by (simp add: store_client_def)
  have order: "cd_inner_puzzle_hash (store_order p) = 1077" "cd_price (store_order p) = p" for p
    by (simp_all add: store_order_def)
  have hash: "pq_cat_puzzle_hash store_commands 8 1077 = 1085" by (simp add: store_commands_def)
  show ?thesis
    using assms
    by (auto simp: catalog_register_def inputs store_synced store_ordered precommit_or_pay_def find_precommit_def required_def
        hint order hash store_paid_def)
qed

lemma store_simps [simp]:
  "amount (cr_coin store_paid) = 1" "puzzle_hash (cr_coin store_paid) = 1085"
  "kc_relative_block_height example_constants = 32" "kc_launcher_id example_constants = 1"
  "cd_asset_id (store_order p) = 97" "cd_price (store_order p) = p" "cd_inner_puzzle_hash (store_order p) = 1077"
  "cw_payment_asset_id (cd_value (store_order p)) = 8" "ct_registration_price (kg_state (store_catalog p)) = p"
  "pq_cat_puzzle_hash store_commands 8 1077 = 1085" "cl_coin_records_by_hint (store_client solution records) 1077 = Inr (Some records)"
  by (simp_all add: store_paid_def example_constants_def store_order_def store_catalog_def store_commands_def store_client_def)

lemma store_first:
  "catalog_register 0 True fixture_sdk store_cv store_sdk store_commands (store_client [] []) [] store_server (\<lambda>_. Inr ())
     (Inr store_sage) example_constants (store_options False) db_new =
     (Some (Returned (Inr (PayRegistration (store_order 1)))), db_new)"
  by (simp add: store_register)

lemma catalog_follow_up_witness:
  "catalog_register 0 True fixture_sdk store_cv store_sdk store_commands (store_client [] []) [] store_server (\<lambda>_. Inr ())
     (Inr store_sage) example_constants (store_options False) db_new =
     (Some (Returned (Inr (PayRegistration (store_order 1)))), db_new) \<and>
   (\<exists>plan. fst (catalog_register 0 True fixture_sdk store_cv store_sdk store_commands (store_client [] [store_paid])
      [Inr (Some \<lparr>bp_height = 80, bp_timestamp = None\<rparr>)] store_server (\<lambda>_. Inr ()) (Inr store_sage) example_constants
      (store_options False) db_new) = Some (Returned (Inr plan)) \<and> plan_order plan = (store_order 1, Some store_paid))"
proof -
  obtain pair where "catalog_api_get_neighbors fixture_sdk (ks_slot_codec store_sdk) store_server 1 97 = Inr pair"
    using store_neighbors by blast
  then have second: "catalog_register 0 True fixture_sdk store_cv store_sdk store_commands (store_client [] [store_paid])
      [Inr (Some \<lparr>bp_height = 80, bp_timestamp = None\<rparr>)] store_server (\<lambda>_. Inr ()) (Inr store_sage) example_constants
      (store_options False) db_new = (Some (Returned (Inr (RegisterCat (store_order 1) store_paid
        \<lparr>lp_parent_parent_coin_info = 1, lp_parent_inner_puzzle_hash = 12, lp_parent_amount = 1\<rparr> pair))), db_new)"
    by (simp add: store_register catalog_action_def catalog_registration_neighbors_def store_spendable)
  from catalog_follow_up [OF store_first, where refund = False, unfolded store_option_simps, OF second,
      where ?catalog2.0 = "store_catalog 1" and records = "[store_paid]" and paid = store_paid]
  show ?thesis using store_first second by (auto simp: store_synced)
qed

lemma price_change_pays_again_witness:
  "catalog_register 0 True fixture_sdk store_cv store_sdk store_commands (store_client [] []) [] store_server (\<lambda>_. Inr ())
     (Inr store_sage) example_constants (store_options False) db_new =
     (Some (Returned (Inr (PayRegistration (store_order 1)))), db_new) \<and>
   (\<exists>plan. catalog_register 0 True fixture_sdk store_cv store_sdk store_commands (store_client [1] [store_paid])
      [] store_server (\<lambda>_. Inr ()) (Inr store_sage) example_constants (store_options False) db_new =
      (Some (Returned (Inr plan)), db_new) \<and> plan = PayRegistration ((store_order 1)\<lparr>cd_price := 2\<rparr>))"
proof -
  have second: "catalog_register 0 True fixture_sdk store_cv store_sdk store_commands (store_client [1] [store_paid])
      [] store_server (\<lambda>_. Inr ()) (Inr store_sage) example_constants (store_options False) db_new =
      (Some (Returned (Inr (PayRegistration (store_order 2)))), db_new)"
    by (simp add: store_register)
  from price_change_pays_again [OF store_first, where refund = False, unfolded store_option_simps, OF second,
      where ?catalog2.0 = "store_catalog 2" and records = "[store_paid]"]
  have "PayRegistration (store_order 2) = PayRegistration ((store_order 1)\<lparr>cd_price := 2\<rparr>)" by (auto simp: store_synced)
  with store_first second show ?thesis by metis
qed

end
