(* ===== verification/LaunchInitiation.thy ===== *)
theory LaunchInitiation
  imports XchVerify CatalogVerify Precommit
begin

text \<open>
  Both \<open>initiate_launch.rs\<close>: from the arguments and the files to what the SDK launches the registry and its price singleton
  with, and the rows of the new registry's two slots. The wallet's offer, the SDK's launch (\<open>launched\<close>), signing and pushing are
  not modelled. \<open>lw_make_offer\<close> is the wallet's answer to an offer of so many mojos with a fee.
\<close>

section \<open>Keys\<close>

text \<open>A key that is hexadecimal but not of 48 bytes panics here, unlike in \<open>hex_string_to_pubkey\<close>.\<close>

definition launch_pubkey :: "('n, 'z) sdk_scheme \<Rightarrow> 'k csv_sdk \<Rightarrow> string \<Rightarrow> (cli_error + 'k) outcome" where
  "launch_pubkey sdk cv s =
     (case sdk_hex_decode sdk (remove_0x (trim_matches white_space s)) of
        None \<Rightarrow> Returned (Inl ParseHex)
      | Some bytes \<Rightarrow>
          if length bytes \<noteq> 48 then Panicked
          else Returned (ok_or (cv_pubkey_from_bytes cv bytes) InvalidPublicKey))"

fun launch_pubkeys_of :: "('n, 'z) sdk_scheme \<Rightarrow> 'k csv_sdk \<Rightarrow> string list \<Rightarrow> (cli_error + 'k list) outcome" where
  "launch_pubkeys_of sdk cv [] = Returned (Inr [])"
| "launch_pubkeys_of sdk cv (s # ss) =
     attempt (launch_pubkey sdk cv s) (\<lambda>key.
     attempt (launch_pubkeys_of sdk cv ss) (\<lambda>keys. Returned (Inr (key # keys))))"

definition launch_pubkeys :: "('n, 'z) sdk_scheme \<Rightarrow> 'k csv_sdk \<Rightarrow> string \<Rightarrow> (cli_error + 'k list) outcome" where
  "launch_pubkeys sdk cv pubkeys_str = launch_pubkeys_of sdk cv (split_on (CHR '','') pubkeys_str)"

text \<open>The questions, and what the command finds around it: its files, the aliases of the keys, the clock, the wallet.\<close>

datatype launch_question = OverrideDeployment | DataCorrect | ConstantsCorrect | GenerateOffer | CommenceLaunch

record launch_world =
  lw_aliases :: "cli_error + unit"
  lw_schedule_file :: csv_file
  lw_premine_file :: csv_file
  lw_now_secs :: "cli_error + u64"
  lw_encode_address :: "bytes32 \<Rightarrow> cli_error + string"
  lw_sage :: "cli_error + sage"
  lw_make_offer :: "u64 \<Rightarrow> u64 \<Rightarrow> cli_error + unit"
  lw_ask :: "launch_question \<Rightarrow> cli_error + unit"

text \<open>The address of the wallet that receives the CATs of the premine.\<close>

definition premine_destination ::
  "'k csv_sdk \<Rightarrow> launch_world \<Rightarrow> (cli_error + string) outcome"
where
  "premine_destination cv world =
     attempt (Returned (lw_sage world)) (\<lambda>sage. first_address sage)"

section \<open>XCHandles\<close>

record xch_launch_options =
  xl_pubkeys_str :: string
  xl_m :: nat
  xl_payout_address :: string
  xl_relative_block_height :: u32
  xl_registration_period :: u64
  xl_testnet11 :: bool
  xl_fee_str :: string

text \<open>On mainnet the controller, the period and the schedule must be the configured ones.\<close>

definition mainnet_check :: "bool \<Rightarrow> cli_error + bool \<Rightarrow> string \<Rightarrow> cli_error + unit" where
  "mainnet_check testnet11 matches message =
     (if testnet11 then Inr () else try_result matches (\<lambda>ok. if ok then Inr () else Inl (Custom message)))"

definition xch_launch_configuration ::
  "bool \<Rightarrow> ('n, 'z) sdk_scheme \<Rightarrow> 'k csv_sdk \<Rightarrow> launch_world \<Rightarrow> xch_launch_options
    \<Rightarrow> (cli_error + (string \<times> bytes32) \<times> 'k list \<times> u64 \<times> xchandles_state_schedule_record list) outcome"
where
  "xch_launch_configuration overflow_checks sdk cv world opts =
     attempt (Returned (ok_or (cv_address_decode cv (xl_payout_address opts)) Address)) (\<lambda>payout_info.
     attempt (launch_pubkeys sdk cv (xl_pubkeys_str opts)) (\<lambda>pubkeys.
     attempt (Returned (mainnet_check (xl_testnet11 opts) (controller_matches_configured sdk cv (xl_m opts) pubkeys)
        ''Mainnet post-schedule controller must be the ordered configured 6-of-10 validator key set'')) (\<lambda>_.
     attempt (Returned (mainnet_check (xl_testnet11 opts) (Inr (xl_registration_period opts = REGISTRATION_PERIOD))
        (''Mainnet registration period must be exactly '' @ show_u64 REGISTRATION_PERIOD @ '' seconds''))) (\<lambda>_.
     attempt (parse_amount overflow_checks (xl_fee_str opts) False) (\<lambda>fee.
     attempt (Returned (lw_aliases world)) (\<lambda>_.
     attempt (Returned (load_xchandles_state_schedule_csv sdk cv (lw_schedule_file world))) (\<lambda>price_schedule.
     attempt (Returned (mainnet_check (xl_testnet11 opts) (Inr (schedule_records_match_configured price_schedule))
        ''Mainnet price schedule CSV does not match typed launch configuration'')) (\<lambda>_.
       Returned (Inr (payout_info, pubkeys, fee, price_schedule))))))))))"

text \<open>The first seven records are printed, which can fail.\<close>

fun print_premine ::
  "calendar \<Rightarrow> launch_world \<Rightarrow> u64 \<Rightarrow> xchandles_launch_record list \<Rightarrow> (cli_error + unit) outcome"
where
  "print_premine cal world now_secs [] = Returned (Inr ())"
| "print_premine cal world now_secs (handle # handles) =
     attempt (premine_buy_time cal (lr_expiration handle) now_secs) (\<lambda>_.
     attempt (Returned (lw_encode_address world (lr_recipient handle))) (\<lambda>_.
       print_premine cal world now_secs handles))"

text \<open>The CATs to mint: the prices of all handles.\<close>

fun value_needed_for_registration ::
  "bool \<Rightarrow> calendar \<Rightarrow> ('n, 'z) sdk_scheme \<Rightarrow> u64 \<Rightarrow> u64 \<Rightarrow> xchandles_launch_record list \<Rightarrow> (cli_error + u64) outcome"
where
  "value_needed_for_registration overflow_checks cal sdk now_secs needed [] = Returned (Inr needed)"
| "value_needed_for_registration overflow_checks cal sdk now_secs needed (handle # handles) =
     attempt (premine_buy_time cal (lr_expiration handle) now_secs) (\<lambda>(buy_time, n).
       let price = sdk_factor_price sdk 1 (lr_handle handle) n
       in if overflow_checks \<and> 2 ^ 64 \<le> unat needed + unat price then Panicked
          else value_needed_for_registration overflow_checks cal sdk now_secs (needed + price) handles)"

record 'k xch_launch_plan =
  xp_payout_puzzle_hash :: bytes32
  xp_relative_block_height :: u32
  xp_registration_period :: u64
  xp_schedule :: "xchandles_state_schedule_record list"
  xp_pubkeys :: "'k list"
  xp_m :: nat
  xp_cat_amount :: u64
  xp_destination :: bytes32
  xp_offered :: u64

definition xch_launch_plan_of ::
  "bool \<Rightarrow> calendar \<Rightarrow> ('n, 'z) sdk_scheme \<Rightarrow> 'k csv_sdk \<Rightarrow> launch_world \<Rightarrow> xch_launch_options
    \<Rightarrow> (cli_error + 'k xch_launch_plan) outcome"
where
  "xch_launch_plan_of overflow_checks cal sdk cv world opts =
     attempt (xch_launch_configuration overflow_checks sdk cv world opts) (\<lambda>((payout_prefix, payout_ph), pubkeys, fee, schedule).
     attempt (Returned (load_xchandles_launch_csv sdk cv (lw_premine_file world))) (\<lambda>handles_to_launch.
     attempt (Returned (lw_now_secs world)) (\<lambda>now_secs.
     attempt (print_premine cal world now_secs (take 7 handles_to_launch)) (\<lambda>_.
     attempt (Returned (lw_ask world DataCorrect)) (\<lambda>_.
     let prefix = get_prefix (xl_testnet11 opts)
     in if prefix \<noteq> payout_prefix
        then Returned (Inl (Custom (''Wrong prefix in payout address: expected '' @ prefix @ '', got '' @ payout_prefix)))
        else
     attempt (Returned (lw_encode_address world payout_ph)) (\<lambda>_.
     attempt (Returned (lw_ask world ConstantsCorrect)) (\<lambda>_.
     attempt (value_needed_for_registration overflow_checks cal sdk now_secs 0 handles_to_launch) (\<lambda>needed.
     if overflow_checks \<and> 2 ^ 64 \<le> 2 + unat needed then Panicked
     else
     attempt (premine_destination cv world) (\<lambda>address.
     attempt (Returned (lw_ask world GenerateOffer)) (\<lambda>_.
     attempt (Returned (lw_make_offer world (2 + needed) fee)) (\<lambda>_.
     attempt (Returned (address_puzzle_hash cv address)) (\<lambda>destination.
       Returned (Inr \<lparr>xp_payout_puzzle_hash = payout_ph, xp_relative_block_height = xl_relative_block_height opts,
         xp_registration_period = xl_registration_period opts, xp_schedule = schedule, xp_pubkeys = pubkeys,
         xp_m = xl_m opts, xp_cat_amount = needed, xp_destination = destination,
         xp_offered = 2 + needed\<rparr>)))))))))))))"

text \<open>The rows of the new registry: its constants and the index and slot of each end.\<close>

definition save_launched_registry ::
  "'c registry_sdk \<Rightarrow> 'c \<Rightarrow> handle_slot_value slot list \<Rightarrow> db \<Rightarrow> unit db_result"
where
  "save_launched_registry xs constants slots db =
     db_then (db_write (save_xchandles_configuration (xs_constants_codec xs) (xs_launcher_id xs) constants) db) (\<lambda>_ db.
       db_each (\<lambda>slot db.
         db_then (db_write (save_xchandles_indexed_slot_value (xs_launcher_id xs constants)
             (hv_handle_hash (slot_value slot)) (slot_value_hash slot)) db) (\<lambda>_ db.
           db_write (save_slot (xs_slot_codec xs) slot 0) db)) slots db)"

definition xchandles_initiate_launch ::
  "bool \<Rightarrow> calendar \<Rightarrow> ('n, 'z) sdk_scheme \<Rightarrow> 'k csv_sdk \<Rightarrow> 'c registry_sdk
    \<Rightarrow> ('k xch_launch_plan \<Rightarrow> cli_error + 'c \<times> handle_slot_value slot list) \<Rightarrow> launch_world \<Rightarrow> xch_launch_options \<Rightarrow> db
    \<Rightarrow> (cli_error + unit) outcome \<times> db"
where
  "xchandles_initiate_launch overflow_checks cal sdk cv xs launched world opts db =
     (case xch_launch_plan_of overflow_checks cal sdk cv world opts of
        Panicked \<Rightarrow> (Panicked, db)
      | Returned plan \<Rightarrow>
          (case try_result plan (\<lambda>plan. try_result (launched plan) (\<lambda>registry.
                  try_result (lw_ask world CommenceLaunch) (\<lambda>_. Inr registry))) of
             Inl e \<Rightarrow> (Returned (Inl e), db)
           | Inr (constants, slots) \<Rightarrow>
               (let (r, db) = save_launched_registry xs constants slots db in (Returned r, db))))"

section \<open>The CATalog\<close>

text \<open>The rows of an earlier deployment are deleted when one of its coins was stored, and the question is answered.\<close>

definition forget_deployment :: "(launch_question \<Rightarrow> cli_error + unit) \<Rightarrow> bytes32 \<Rightarrow> db \<Rightarrow> unit db_result" where
  "forget_deployment ask launcher_id db =
     db_then (db_read (get_last_unspent_singleton_coin launcher_id db) db) (\<lambda>singleton_coin_maybe db.
       if singleton_coin_maybe = None then (Inr (), db)
       else
         db_then (db_read (ask OverrideDeployment) db) (\<lambda>_ db.
         db_then (db_write (delete_all_slots_for_singleton launcher_id) db) (\<lambda>_ db.
         db_then (db_write delete_all_catalog_indexed_slot_values db) (\<lambda>_ db.
           db_write (delete_all_singleton_coins launcher_id) db))))"

record 'k catalog_launch_plan =
  kl_schedule :: "catalog_state_schedule_record list"
  kl_pubkeys :: "'k list"
  kl_m :: nat
  kl_cat_amount :: u64
  kl_destination :: bytes32
  kl_offered :: u64

definition catalog_launch_files ::
  "bool \<Rightarrow> ('n, 'z) sdk_scheme \<Rightarrow> 'k csv_sdk \<Rightarrow> launch_world \<Rightarrow> string \<Rightarrow> string
    \<Rightarrow> (cli_error + 'k list \<times> u64 \<times> catalog_state_schedule_record list \<times> catalog_premine_record list) outcome"
where
  "catalog_launch_files overflow_checks sdk cv world pubkeys_str fee_str =
     attempt (launch_pubkeys sdk cv pubkeys_str) (\<lambda>pubkeys.
     attempt (parse_amount overflow_checks fee_str False) (\<lambda>fee.
     attempt (Returned (lw_aliases world)) (\<lambda>_.
     attempt (Returned (load_catalog_state_schedule_csv sdk cv (lw_schedule_file world))) (\<lambda>price_schedule.
     attempt (Returned (load_catalog_premine_csv sdk cv (lw_premine_file world))) (\<lambda>cats_to_launch.
     attempt (Returned (lw_ask world DataCorrect)) (\<lambda>_.
       Returned (Inr (pubkeys, fee, price_schedule, cats_to_launch))))))))"

definition catalog_launch_plan_of ::
  "'k csv_sdk \<Rightarrow> launch_world \<Rightarrow> catalog_constants \<Rightarrow> nat
    \<Rightarrow> 'k list \<times> u64 \<times> catalog_state_schedule_record list \<times> catalog_premine_record list
    \<Rightarrow> (cli_error + 'k catalog_launch_plan) outcome"
where
  "catalog_launch_plan_of cv world constants m = (\<lambda>(pubkeys, fee, price_schedule, cats_to_launch).
     attempt (Returned (lw_encode_address world (kc_royalty_address constants))) (\<lambda>_.
     attempt (Returned (lw_encode_address world (kc_precommit_payout_puzzle_hash constants))) (\<lambda>_.
     attempt (Returned (lw_ask world ConstantsCorrect)) (\<lambda>_.
     attempt (premine_destination cv world) (\<lambda>address.
     attempt (Returned (lw_ask world GenerateOffer)) (\<lambda>_.
     attempt (Returned (lw_make_offer world (2 + word_of_nat (length cats_to_launch)) fee)) (\<lambda>_.
     attempt (Returned (address_puzzle_hash cv address)) (\<lambda>destination.
       Returned (Inr \<lparr>kl_schedule = price_schedule, kl_pubkeys = pubkeys, kl_m = m,
         kl_cat_amount = word_of_nat (length cats_to_launch), kl_destination = destination,
         kl_offered = 2 + word_of_nat (length cats_to_launch)\<rparr>)))))))))"

definition save_launched_catalog :: "'m catalog_sdk \<Rightarrow> catalog_slot_value slot list \<Rightarrow> db \<Rightarrow> unit db_result" where
  "save_launched_catalog ks =
     db_each (\<lambda>slot db.
       db_then (db_write (save_catalog_indexed_slot_value (kv_asset_id (slot_value slot)) (slot_value_hash slot)) db) (\<lambda>_ db.
         db_write (save_slot (ks_slot_codec ks) slot 0) db))"

definition catalog_initiate_launch ::
  "bool \<Rightarrow> ('n, 'z) sdk_scheme \<Rightarrow> 'k csv_sdk \<Rightarrow> 'm catalog_sdk
    \<Rightarrow> ('k catalog_launch_plan \<Rightarrow> cli_error + catalog_slot_value slot list) \<Rightarrow> launch_world \<Rightarrow> catalog_constants
    \<Rightarrow> string \<Rightarrow> nat \<Rightarrow> string \<Rightarrow> db \<Rightarrow> (cli_error + unit) outcome \<times> db"
where
  "catalog_initiate_launch overflow_checks sdk cv ks launched world constants pubkeys_str m fee_str db =
     (case catalog_launch_files overflow_checks sdk cv world pubkeys_str fee_str of
        Panicked \<Rightarrow> (Panicked, db)
      | Returned (Inl e) \<Rightarrow> (Returned (Inl e), db)
      | Returned (Inr files) \<Rightarrow>
          (case forget_deployment (lw_ask world) (kc_launcher_id constants) db of
             (Inl e, db) \<Rightarrow> (Returned (Inl e), db)
           | (Inr _, db) \<Rightarrow>
               (case catalog_launch_plan_of cv world constants m files of
                  Panicked \<Rightarrow> (Panicked, db)
                | Returned plan \<Rightarrow>
                    (case try_result plan (\<lambda>plan. try_result (launched plan) (\<lambda>slots.
                            try_result (lw_ask world CommenceLaunch) (\<lambda>_. Inr slots))) of
                       Inl e \<Rightarrow> (Returned (Inl e), db)
                     | Inr slots \<Rightarrow> (let (r, db) = save_launched_catalog ks slots db in (Returned r, db))))))"

end
