(* ===== verification/LaunchInitiationFacts.thy ===== *)
theory LaunchInitiationFacts
  imports LaunchInitiation XchLaunchFacts
begin

text \<open>
  What \<open>xchandles_initiate_launch\<close> mints is enough for the payments \<open>xchandles_continue_launch\<close> commits to in later months.
\<close>

section \<open>Later purchases are of fewer periods\<close>

lemma premine_buy_time_periods:
  assumes "premine_buy_time cal expiration now_secs = Returned (Inr (buy_time, n))"
  obtains reference where "buy_time_past_reference cal now_secs = Returned reference"
    and "periods_ok reference expiration (unat n)"
    and "\<And>m. 1 \<le> m \<Longrightarrow> m < unat n \<Longrightarrow> \<not> periods_ok reference expiration m"
proof -
  from assms obtain reference where reference: "buy_time_past_reference cal now_secs = Returned reference"
    and "premine_from reference expiration 1 = Inr (buy_time, n)"
    by (auto simp: premine_buy_time_def split: outcome.splits if_splits)
  with premine_from_exact [of 1 reference expiration]
  show ?thesis by (intro that [OF reference]) auto
qed

lemma later_purchase_fewer_periods:
  assumes "premine_buy_time cal expiration now1 = Returned (Inr (b1, n1))"
    and "premine_buy_time cal expiration now2 = Returned (Inr (b2, n2))"
    and "buy_time_past_reference cal now1 = Returned ref1" and "buy_time_past_reference cal now2 = Returned ref2"
    and "ref1 \<le> ref2"
  shows "unat n2 \<le> unat n1" and "unat n1 < 2 ^ 40"
proof -
  from assms(1,3) have ok: "periods_ok ref1 expiration (unat n1)"
    by (elim premine_buy_time_periods) simp
  then have "unat n1 * 31557600 \<le> unat expiration" by (simp add: periods_ok_def)
  with unat_u64_less [of expiration] show "unat n1 < 2 ^ 40" by simp
  show "unat n2 \<le> unat n1"
  proof (rule ccontr)
    assume "\<not> unat n2 \<le> unat n1"
    then have "unat n1 < unat n2" by simp
    moreover have "1 \<le> unat n1" using ok by (simp add: periods_ok_def)
    moreover have "periods_ok ref2 expiration (unat n1)"
      using ok assms(5) by (auto simp: periods_ok_def word_le_nat_alt)
    ultimately show False
      using assms(2,4) by (elim premine_buy_time_periods) auto
  qed
qed

section \<open>The sums\<close>

text \<open>The price of a handle bought at a time.\<close>

definition handle_price :: "calendar \<Rightarrow> ('n, 'z) sdk_scheme \<Rightarrow> u64 \<Rightarrow> xchandles_launch_record \<Rightarrow> nat" where
  "handle_price cal sdk now_secs h =
     (case premine_buy_time cal (lr_expiration h) now_secs of
        Returned (Inr (buy_time, n)) \<Rightarrow> unat (sdk_factor_price sdk 1 (lr_handle h) n)
      | _ \<Rightarrow> 0)"

definition priced :: "calendar \<Rightarrow> u64 \<Rightarrow> xchandles_launch_record \<Rightarrow> bool" where
  "priced cal now_secs h \<longleftrightarrow> (\<exists>p. premine_buy_time cal (lr_expiration h) now_secs = Returned (Inr p))"

lemma value_needed_exact:
  assumes "value_needed_for_registration True cal sdk now_secs needed handles = Returned (Inr v)"
  shows "unat v = unat needed + sum_list (map (handle_price cal sdk now_secs) handles)"
    and "\<forall>h \<in> set handles. priced cal now_secs h"
  using assms
proof (induction handles arbitrary: needed)
  case (Cons h handles)
  {
    case 1
    then show ?case
      using Cons.IH(1) by (auto simp: result_simps handle_price_def Let_def unat_plus_no_overflow split: if_splits)
  next
    case 2
    then show ?case
      using Cons.IH(2) by (auto simp: result_simps priced_def Let_def split: if_splits)
  }
qed auto

lemma commit_total_exact:
  assumes "commit_batch True cal sdk now_secs period batch = Returned (Inr (orders, t))"
  shows "unat t = sum_list (map (handle_price cal sdk now_secs) batch)" and "\<forall>h \<in> set batch. priced cal now_secs h"
proof -
  from assms obtain timings where timings: "batch_timings cal batch now_secs period = Returned (Inr timings)"
    and paid: "payments_total True 0 (batch_prices sdk batch timings) = Returned (Inr t)"
    by (auto simp: commit_batch_def result_simps)
  from batch_timings_ok [OF timings]
  have "map unat (batch_prices sdk batch timings) = map (handle_price cal sdk now_secs) batch \<and>
      (\<forall>h \<in> set batch. priced cal now_secs h)"
    by (induction rule: list_all2_induct) (auto simp: batch_prices_def handle_price_def priced_def)
  with payments_total_exact [OF paid]
  show "unat t = sum_list (map (handle_price cal sdk now_secs) batch)" and "\<forall>h \<in> set batch. priced cal now_secs h"
    by simp_all
qed

lemma later_price_lower:
  assumes "\<And>handle n n'. unat n \<le> unat n' \<Longrightarrow> unat n' < 2 ^ 40
      \<Longrightarrow> unat (sdk_factor_price sdk 1 handle n) \<le> unat (sdk_factor_price sdk 1 handle n')"
    and "priced cal now1 h" and "priced cal now2 h"
    and later: "\<And>ref1 ref2. buy_time_past_reference cal now1 = Returned ref1
      \<Longrightarrow> buy_time_past_reference cal now2 = Returned ref2 \<Longrightarrow> ref1 \<le> ref2"
  shows "handle_price cal sdk now2 h \<le> handle_price cal sdk now1 h"
proof -
  from assms(2,3) obtain b1 n1 b2 n2 where
    bought: "premine_buy_time cal (lr_expiration h) now1 = Returned (Inr (b1, n1))"
      "premine_buy_time cal (lr_expiration h) now2 = Returned (Inr (b2, n2))"
    by (auto simp: priced_def)
  from bought obtain ref1 ref2 where refs: "buy_time_past_reference cal now1 = Returned ref1"
      "buy_time_past_reference cal now2 = Returned ref2"
    by (meson premine_buy_time_periods)
  from later_purchase_fewer_periods [OF bought refs later [OF refs]] assms(1) show ?thesis
    by (simp add: handle_price_def bought)
qed

lemma plan_mints:
  assumes "xch_launch_plan_of True cal sdk cv world opts = Returned (Inr plan)"
  obtains handles now_secs where "load_xchandles_launch_csv sdk cv (lw_premine_file world) = Inr handles"
    and "lw_now_secs world = Inr now_secs"
    and "value_needed_for_registration True cal sdk now_secs 0 handles = Returned (Inr (xp_cat_amount plan))"
    and "unat (xp_offered plan) = unat (xp_cat_amount plan) + 2"
  using assms
  by (auto simp: xch_launch_plan_of_def result_simps Let_def unat_plus_no_overflow split: if_splits)

text \<open>
  C8. The premine coins minted at the start of the launch are enough for all of it: whatever batches of the launch file later runs
  commit to, in whatever months, as long as no run is in a month before the first, the payments of all of them together
  are at most the amount minted, since a later month never needs more registration periods; and the launch offers exactly
  the minted amount and the two singletons' mojos. The price is assumed not to fall with the number of periods.
\<close>

theorem launch_mint_suffices:
  assumes "xch_launch_plan_of True cal sdk cv world opts = Returned (Inr plan)"
    and "load_xchandles_launch_csv sdk cv (lw_premine_file world) = Inr (concat (map snd batches) @ uncommitted)"
    and "lw_now_secs world = Inr initiated_at"
    and price: "\<And>handle n n'. unat n \<le> unat n' \<Longrightarrow> unat n' < 2 ^ 40
      \<Longrightarrow> unat (sdk_factor_price sdk 1 handle n) \<le> unat (sdk_factor_price sdk 1 handle n')"
    and later: "\<And>committed_at batch ref1 ref2. (committed_at, batch) \<in> set batches \<Longrightarrow> buy_time_past_reference cal initiated_at = Returned ref1
      \<Longrightarrow> buy_time_past_reference cal committed_at = Returned ref2 \<Longrightarrow> ref1 \<le> ref2"
    and committed: "list_all2 (\<lambda>(committed_at, batch) (orders, paid).
      commit_batch True cal sdk committed_at period batch = Returned (Inr (orders, paid))) batches runs"
  shows "sum_list (map (unat \<circ> snd) runs) \<le> unat (xp_cat_amount plan) \<and>
    unat (xp_offered plan) = unat (xp_cat_amount plan) + 2"
proof -
  let ?rows = "concat (map snd batches)"
  from plan_mints [OF assms(1)] assms(2,3)
  have needed: "value_needed_for_registration True cal sdk initiated_at 0 (?rows @ uncommitted) = Returned (Inr (xp_cat_amount plan))"
    and offered: "unat (xp_offered plan) = unat (xp_cat_amount plan) + 2"
    by (metis sum.inject(2))+
  note minted = value_needed_exact [OF needed]
  have "\<forall>h \<in> set ?rows. priced cal initiated_at h" using minted(2) by simp
  with committed later
  have "sum_list (map (unat \<circ> snd) runs) \<le> sum_list (map (handle_price cal sdk initiated_at) ?rows)"
  proof (induction rule: list_all2_induct)
    case (Cons run runs batch_run batches)
    obtain committed_at batch where b: "run = (committed_at, batch)" by (cases run)
    obtain orders paid where r: "batch_run = (orders, paid)" by (cases batch_run)
    from Cons.hyps b r have commit: "commit_batch True cal sdk committed_at period batch = Returned (Inr (orders, paid))" by simp
    have "handle_price cal sdk committed_at h \<le> handle_price cal sdk initiated_at h" if "h \<in> set batch" for h
      using that Cons.prems b commit_total_exact(2) [OF commit]
      by (intro later_price_lower [OF price]) auto
    then have "unat paid \<le> sum_list (map (handle_price cal sdk initiated_at) batch)"
      using commit_total_exact(1) [OF commit] by (simp add: sum_list_mono)
    moreover have "sum_list (map (unat \<circ> snd) batches) \<le> sum_list (map (handle_price cal sdk initiated_at) (concat (map snd runs)))"
      using Cons.prems by (intro Cons.IH) auto
    ultimately show ?case by (simp add: b r comp_def)
  qed simp
  also have "\<dots> \<le> unat (xp_cat_amount plan)" using minted(1) by simp
  finally show ?thesis using offered by simp
qed

text \<open>
  The witness: two handles of one expiration; the launch is initiated and the first handle committed to on 31 August 2026, for two
  periods, the second on 2 September for one. Strings stand for zero bytes.
\<close>

definition mint_sdk :: "nat sdk" where
  "mint_sdk = fixture_sdk\<lparr>sdk_factor_price := \<lambda>base handle n. 5 * n,
     sdk_hex_decode := \<lambda>s. Some (replicate (if s = ''k'' then 48 else 32) 0)\<rparr>"

definition mint_cv :: "unit csv_sdk" where
  "mint_cv = \<lparr>cv_address_decode = (\<lambda>_. Some (''txch'', 77)), cv_u64 = (\<lambda>_. Some 1818752400), cv_u8 = (\<lambda>_. None),
     cv_pubkey_from_bytes = (\<lambda>_. Some ())\<rparr>"

definition mint_cells :: "string \<Rightarrow> csv_row" where
  "mint_cells handle = (\<lambda>column. Some (if column = ''handle'' then handle else ''a''))"

definition mint_sage :: sage where
  "mint_sage = \<lparr>sg_check_address = (\<lambda>_. Inr True),
     sg_derivations = (\<lambda>_ _ _. Inr ([\<lparr>dv_address = ''txch1'', dv_public_key = ''k''\<rparr>], 1))\<rparr>"

definition mint_world :: launch_world where
  "mint_world = \<lparr>lw_aliases = Inr (), lw_schedule_file = Inr [],
     lw_premine_file = Inr [Some (mint_cells ''A''), Some (mint_cells ''B'')], lw_now_secs = Inr 1788134400,
     lw_encode_address = (\<lambda>_. Inr ''txch1''), lw_sage = Inr mint_sage, lw_make_offer = (\<lambda>_ _. Inr ()),
     lw_ask = (\<lambda>_. Inr ())\<rparr>"

definition mint_options :: xch_launch_options where
  "mint_options = \<lparr>xl_pubkeys_str = ''k'', xl_m = 1, xl_payout_address = ''txch1'', xl_relative_block_height = 32,
     xl_registration_period = REGISTRATION_PERIOD, xl_testnet11 = True, xl_fee_str = ''0.0''\<rparr>"

definition mint_row :: "string \<Rightarrow> xchandles_launch_record" where
  "mint_row handle = \<lparr>lr_handle = handle, lr_recipient = 77, lr_expiration = 1818752400, lr_image_uris = [''a''],
     lr_image_hash = 0, lr_metadata_uris = [''a''], lr_metadata_hash = 0, lr_license_uris = [''a''], lr_license_hash = 0\<rparr>"

lemma mint_file: "load_xchandles_launch_csv mint_sdk mint_cv (lw_premine_file mint_world) = Inr [mint_row ''A'', mint_row ''B'']"
proof -
  have "deserialize_string_array ''a'' = [''a'']"
    by (simp add: deserialize_string_array_def trim_matches_def quotes_def white_space_def brackets_def)
  moreover have "bytes32_new (replicate 32 0) = 0" by (simp add: bytes32_new_def be_to_nat_def numeral_eq_Suc)
  ultimately show ?thesis
    by (simp add: load_xchandles_launch_csv_def load_csv_def mint_world_def mint_cells_def decode_bech32m_def mint_cv_def
        csv_hex_bytes32_def csv_hex_bytes_def mint_sdk_def mint_row_def)
qed

lemma mint_buy_times:
  "premine_buy_time gregorian 1818752400 1788134400 = Returned (Inr (1755637200, 2))"
  "premine_buy_time gregorian 1818752400 1788307200 = Returned (Inr (1787194800, 1))"
  using launch_timings
  by (auto simp: batch_timings_def launch_row_def result_simps split: outcome.splits sum.splits)

lemma mint_commits:
  "\<exists>orders. commit_batch True gregorian mint_sdk 1788134400 REGISTRATION_PERIOD [mint_row ''A''] = Returned (Inr (orders, 10))"
  "\<exists>orders. commit_batch True gregorian mint_sdk 1788307200 REGISTRATION_PERIOD [mint_row ''B''] = Returned (Inr (orders, 5))"
  using launch_timings
  by (auto simp: commit_batch_def batch_timings_def batch_prices_def mint_row_def mint_sdk_def launch_row_def result_simps
      split: outcome.splits sum.splits)

lemma mint_plan:
  "\<exists>plan. xch_launch_plan_of True gregorian mint_sdk mint_cv mint_world mint_options = Returned (Inr plan) \<and>
     xp_cat_amount plan = 20"
proof -
  have "launch_pubkeys mint_sdk mint_cv ''k'' = Returned (Inr [()])"
    by (simp add: launch_pubkeys_def launch_pubkey_def mint_sdk_def mint_cv_def trim_matches_def white_space_def)
  moreover have "parse_amount True ''0.0'' False = Returned (Inr 0)"
    by (rule zero_amount)
  ultimately have "xch_launch_configuration True mint_sdk mint_cv mint_world mint_options =
      Returned (Inr ((''txch'', 77), [()], 0, []))"
    by (simp add: xch_launch_configuration_def mint_options_def mint_world_def mint_cv_def mainnet_check_def
        load_xchandles_state_schedule_csv_def load_csv_def)
  moreover have "value_needed_for_registration True gregorian mint_sdk 1788134400 0 [mint_row ''A'', mint_row ''B'']
      = Returned (Inr 20)"
    by (simp add: mint_row_def mint_buy_times mint_sdk_def Let_def)
  moreover have "print_premine gregorian mint_world 1788134400 [mint_row ''A'', mint_row ''B''] = Returned (Inr ())"
    by (simp add: mint_row_def mint_buy_times mint_world_def)
  ultimately show ?thesis
    using mint_file
    by (simp add: xch_launch_plan_of_def mint_world_def mint_options_def get_prefix_def premine_destination_def
        first_address_def mint_sage_def address_puzzle_hash_def mint_cv_def nth_checked_def)
qed

lemma launch_mint_suffices_witness:
  "\<exists>plan (runs :: (precommit_order list \<times> u64) list). xch_launch_plan_of True gregorian mint_sdk mint_cv mint_world mint_options = Returned (Inr plan) \<and>
     map snd runs = [10, 5] \<and> sum_list (map (unat \<circ> snd) runs) \<le> unat (xp_cat_amount plan) \<and> unat (xp_offered plan) = 22"
proof -
  obtain plan where plan: "xch_launch_plan_of True gregorian mint_sdk mint_cv mint_world mint_options = Returned (Inr plan)"
    and minted: "xp_cat_amount plan = 20"
    using mint_plan by blast
  obtain orders1 orders2 where commits:
    "commit_batch True gregorian mint_sdk 1788134400 REGISTRATION_PERIOD [mint_row ''A''] = Returned (Inr (orders1, 10))"
    "commit_batch True gregorian mint_sdk 1788307200 REGISTRATION_PERIOD [mint_row ''B''] = Returned (Inr (orders2, 5))"
    using mint_commits by blast
  have price: "unat (sdk_factor_price mint_sdk 1 handle n) \<le> unat (sdk_factor_price mint_sdk 1 handle n')"
    if "unat n \<le> unat n'" "unat n' < 2 ^ 40" for handle n n'
    using that by (simp add: mint_sdk_def unat_word_ariths)
  have "sum_list (map (unat \<circ> snd) [(orders1, 10 :: u64), (orders2, 5)]) \<le> unat (xp_cat_amount plan) \<and>
      unat (xp_offered plan) = unat (xp_cat_amount plan) + 2"
  proof (rule launch_mint_suffices [OF plan,
        where batches = "[(1788134400, [mint_row ''A'']), (1788307200, [mint_row ''B''])]" and uncommitted = "[]"
          and initiated_at = 1788134400 and period = REGISTRATION_PERIOD])
    show "lw_now_secs mint_world = Inr 1788134400" by (simp add: mint_world_def)
  qed (use mint_file price commits in \<open>auto simp: gregorian_turn word_le_nat_alt\<close>)
  with plan minted show ?thesis by (intro exI [of _ plan] exI [of _ "[(orders1, 10), (orders2, 5)]"] conjI) simp_all
qed

end
