(* ===== verification/VaultCommands.thy ===== *)
theory VaultCommands
  imports LaunchInitiation XchCommands CatalogCommands MultisigSync
begin

text \<open>
  The commands on the vault that controls a registry: signing and broadcasting a new set of keys (\<open>multisig/sign_rekey.rs\<close>,
  \<open>multisig/broadcast_rekey.rs\<close>) or a new state of a registry (\<open>sign_state_update.rs\<close>, \<open>broadcast_state_update.rs\<close>
  of \<open>catalog/\<close> and \<open>xchandles/\<close>), what both share (\<open>multisig/sign_thing.rs\<close>, \<open>multisig/broadcast_thing.rs\<close>), verifying a
  signature, viewing and launching a vault. Building the spends, the wallet's offer and pushing are not modelled.
\<close>

section \<open>Keys and signatures\<close>

text \<open>
  Signatures (\<open>'g\<close>), secret keys (\<open>'x\<close>), delegated puzzles (\<open>'p\<close>) and conditions (\<open>'q\<close>) are the libraries'. \<open>vs_sign\<close>
  signs the message an unsafe signature condition of a key over a puzzle hash requires of a coin, on testnet or not;
  \<open>vs_message_puzzle\<close> sends a message from the vault's coin to a singleton; the messages are those of a new state.
\<close>

record ('k, 'g, 'x, 'p, 'q) vault_sdk =
  vs_signature_from_bytes :: "u8 list \<Rightarrow> 'g option"
  vs_signature_to_bytes :: "'g \<Rightarrow> u8 list"
  vs_no_signature :: 'g
  vs_add :: "'g \<Rightarrow> 'g \<Rightarrow> 'g"
  vs_secret_from_bytes :: "u8 list \<Rightarrow> 'x option"
  vs_public_key :: "'x \<Rightarrow> 'k"
  vs_sign :: "'x \<Rightarrow> 'k \<Rightarrow> bytes32 \<Rightarrow> coin \<Rightarrow> bool \<Rightarrow> 'g"
  vs_verify :: "'g \<Rightarrow> 'k \<Rightarrow> bytes32 \<Rightarrow> bool"
  vs_tree_hash :: "'p \<Rightarrow> bytes32"
  vs_message_puzzle :: "u8 list \<Rightarrow> bytes32 \<Rightarrow> coin \<Rightarrow> 'k vault_info \<Rightarrow> bool \<Rightarrow> driver_error + 'p"
  vs_catalog_message :: "catalog_state \<Rightarrow> u8 list"
  vs_registry_message :: "registry_state \<Rightarrow> u8 list"
  vs_rekey_puzzle :: "bytes32 \<Rightarrow> nat \<Rightarrow> 'k list \<Rightarrow> bytes32 \<Rightarrow> bool \<Rightarrow> driver_error + 'p"
  vs_rekey_conditions :: "bytes32 \<Rightarrow> nat \<Rightarrow> 'k list \<Rightarrow> driver_error + 'q"

text \<open>\<open>from_hex\<close> into an array: the text must have exactly its length.\<close>

definition hex_array :: "('n, 'z) sdk_scheme \<Rightarrow> nat \<Rightarrow> string \<Rightarrow> cli_error + u8 list" where
  "hex_array sdk len hex =
     (case sdk_hex_decode sdk (remove_0x hex) of
        None \<Rightarrow> Inl ParseHex
      | Some bytes \<Rightarrow> if length bytes \<noteq> len then Inl ParseHex else Inr bytes)"

definition hex_string_to_signature ::
  "('n, 'z) sdk_scheme \<Rightarrow> ('k, 'g, 'x, 'p, 'q) vault_sdk \<Rightarrow> string \<Rightarrow> cli_error + 'g"
where
  "hex_string_to_signature sdk vs hex =
     try_result (hex_array sdk 96 hex) (\<lambda>bytes. ok_or (vs_signature_from_bytes vs bytes) InvalidPublicKey)"

definition hex_string_to_secret_key ::
  "('n, 'z) sdk_scheme \<Rightarrow> ('k, 'g, 'x, 'p, 'q) vault_sdk \<Rightarrow> string \<Rightarrow> cli_error + 'x"
where
  "hex_string_to_secret_key sdk vs hex =
     try_result (hex_array sdk 32 hex) (\<lambda>bytes. ok_or (vs_secret_from_bytes vs bytes) InvalidPublicKey)"

text \<open>What a command meets around it: the file of aliases, the answers to a question and to the prompt for the secret key.\<close>

record vault_world =
  ww_aliases :: "cli_error + unit"
  ww_continue :: "cli_error + unit"
  ww_secret_key :: "cli_error + string"

section \<open>The vault\<close>

definition silent :: "'s printing" where
  "silent = \<lparr>pr_state_info = None, pr_aliases = Inr ()\<rparr>"

definition current_vault ::
  "nat \<Rightarrow> ('n, 'z) sdk_scheme \<Rightarrow> ('s, 'k, 'l, 'h) multisig_sdk \<Rightarrow> client \<Rightarrow> bytes32 \<Rightarrow> (cli_error + 'k vault) outcome option"
where
  "current_vault fuel sdk mg client launcher_id =
     map_option (\<lambda>synced. Returned (try_result synced (\<lambda>(singleton, info). case singleton of
         VaultPhase vault \<Rightarrow> Inr vault
       | SchedulerPhase _ \<Rightarrow> Inl (Custom (''Multisig not in '' @ quote @ ''medieval vault'' @ quote @ '' phase (not fully unrolled)'')))))
       (sync_multisig_singleton fuel sdk mg silent client launcher_id)"

section \<open>Signing\<close>

definition multisig_sign_thing_start ::
  "nat \<Rightarrow> ('n, 'z) sdk_scheme \<Rightarrow> 'k csv_sdk \<Rightarrow> ('s, 'k, 'l, 'h) multisig_sdk \<Rightarrow> vault_world \<Rightarrow> client \<Rightarrow> string \<Rightarrow> string
    \<Rightarrow> (cli_error + 'k \<times> 'k vault) outcome option"
where
  "multisig_sign_thing_start fuel sdk cv mg world client my_pubkey_str launcher_id_str =
     then_try (given (hex_string_to_pubkey sdk cv my_pubkey_str)) (\<lambda>my_pubkey.
     then_try (given (hex_string_to_bytes32 sdk launcher_id_str)) (\<lambda>launcher_id.
     then_try (current_vault fuel sdk mg client launcher_id) (\<lambda>vault.
     then_try (given (ww_aliases world)) (\<lambda>_. given (Inr (my_pubkey, vault))))))"

text \<open>
  The index shown and, in debug mode, the signature printed. A key the vault does not have makes \<open>position(..).unwrap()\<close> panic.
\<close>

definition key_position :: "'a \<Rightarrow> 'a list \<Rightarrow> nat option" where
  "key_position x xs = find (\<lambda>i. xs ! i = x) [0..<length xs]"

definition multisig_sign_thing_finish ::
  "('n, 'z) sdk_scheme \<Rightarrow> ('k, 'g, 'x, 'p, 'q) vault_sdk \<Rightarrow> vault_world \<Rightarrow> 'p \<Rightarrow> 'k vault \<Rightarrow> 'k \<Rightarrow> bool \<Rightarrow> bool
    \<Rightarrow> (cli_error + nat \<times> string option) outcome"
where
  "multisig_sign_thing_finish sdk vs world delegated_puzzle vault my_pubkey testnet11 debug =
     attempt (Returned (ww_continue world)) (\<lambda>_.
     attempt (unwrap (key_position my_pubkey (vi_public_key_list (va_info vault)))) (\<lambda>my_index.
     if \<not> debug then Returned (Inr (my_index, None))
     else
       attempt (Returned (try_result (ww_secret_key world) (hex_string_to_secret_key sdk vs))) (\<lambda>sk.
       if vs_public_key vs sk \<noteq> my_pubkey
       then Returned (Inl (Custom ''Public key does not match the provided secret key''))
       else
         let signature = vs_sign vs sk my_pubkey (vs_tree_hash vs delegated_puzzle) (va_coin vault) testnet11
         in Returned (Inr (my_index,
              Some (show_nat my_index @ ''-'' @ sdk_hex_encode sdk (vs_signature_to_bytes vs signature)))))))"

section \<open>Broadcasting\<close>

text \<open>One signature as it was printed. \<open>parts[1]\<close> and the index into the keys panic when out of range.\<close>

definition read_signature ::
  "('n, 'z) sdk_scheme \<Rightarrow> ('k, 'g, 'x, 'p, 'q) vault_sdk \<Rightarrow> 'k list \<Rightarrow> string \<Rightarrow> (cli_error + 'g \<times> 'k) outcome"
where
  "read_signature sdk vs public_key_list signature_str =
     (let parts = split_on (CHR ''-'') signature_str
      in attempt (Returned (ok_or (parse_u64 (hd parts)) ParseInt)) (\<lambda>index.
         attempt (unwrap (nth_checked parts 1)) (\<lambda>hex.
         attempt (Returned (hex_string_to_signature sdk vs hex)) (\<lambda>signature.
         attempt (unwrap (nth_checked public_key_list (unat index))) (\<lambda>key. Returned (Inr (signature, key)))))))"

fun read_signatures ::
  "('n, 'z) sdk_scheme \<Rightarrow> ('k, 'g, 'x, 'p, 'q) vault_sdk \<Rightarrow> 'k list \<Rightarrow> string list \<Rightarrow> (cli_error + ('g \<times> 'k) list) outcome"
where
  "read_signatures sdk vs public_key_list [] = Returned (Inr [])"
| "read_signatures sdk vs public_key_list (s # ss) =
     attempt (read_signature sdk vs public_key_list s) (\<lambda>signed.
     attempt (read_signatures sdk vs public_key_list ss) (\<lambda>rest. Returned (Inr (signed # rest))))"

definition multisig_broadcast_thing_start ::
  "nat \<Rightarrow> ('n, 'z) sdk_scheme \<Rightarrow> ('s, 'k, 'l, 'h) multisig_sdk \<Rightarrow> ('k, 'g, 'x, 'p, 'q) vault_sdk \<Rightarrow> vault_world \<Rightarrow> client
    \<Rightarrow> string \<Rightarrow> string \<Rightarrow> (cli_error + 'g \<times> 'k list \<times> 'k vault) outcome option"
where
  "multisig_broadcast_thing_start fuel sdk mg vs world client signatures_str launcher_id_str =
     then_try (given (hex_string_to_bytes32 sdk launcher_id_str)) (\<lambda>launcher_id.
     then_try (current_vault fuel sdk mg client launcher_id) (\<lambda>vault.
     then_try (Some (read_signatures sdk vs (vi_public_key_list (va_info vault)) (split_on (CHR '','') signatures_str)))
       (\<lambda>signed.
     then_try (given (ww_aliases world)) (\<lambda>_.
       if length signed \<noteq> vi_m (va_info vault)
       then given (Inl (Custom ''Number of signatures does not match the required number of signatures''))
       else given (Inr (foldl (vs_add vs) (vs_no_signature vs) (map fst signed), map snd signed, vault))))))"

text \<open>The fee is read last, after the vault's spend was built, and then the question is asked.\<close>

definition multisig_broadcast_thing_finish ::
  "bool \<Rightarrow> vault_world \<Rightarrow> string \<Rightarrow> (cli_error + u64) outcome"
where
  "multisig_broadcast_thing_finish overflow_checks world fee_str =
     attempt (parse_amount overflow_checks fee_str False) (\<lambda>fee.
     attempt (Returned (ww_continue world)) (\<lambda>_. Returned (Inr fee)))"

section \<open>New keys\<close>

definition new_configuration ::
  "('n, 'z) sdk_scheme \<Rightarrow> 'k csv_sdk \<Rightarrow> string \<Rightarrow> nat \<Rightarrow> cli_error + 'k list"
where
  "new_configuration sdk cv new_pubkeys_str new_m =
     try_result (collect_results (hex_string_to_pubkey sdk cv) (split_on (CHR '','') new_pubkeys_str)) (\<lambda>new_pubkeys.
       if length new_pubkeys < new_m
       then Inl (Custom ''New m is greater than the number of new pubkeys'') else Inr new_pubkeys)"

definition multisig_sign_rekey ::
  "nat \<Rightarrow> ('n, 'z) sdk_scheme \<Rightarrow> 'k csv_sdk \<Rightarrow> ('s, 'k, 'l, 'h) multisig_sdk \<Rightarrow> ('k, 'g, 'x, 'p, 'q) vault_sdk
    \<Rightarrow> vault_world \<Rightarrow> client \<Rightarrow> string \<Rightarrow> nat \<Rightarrow> string \<Rightarrow> string \<Rightarrow> bool \<Rightarrow> bool
    \<Rightarrow> (cli_error + nat \<times> string option) outcome option"
where
  "multisig_sign_rekey fuel sdk cv mg vs world client new_pubkeys_str new_m my_pubkey_str launcher_id_str testnet11 debug =
     then_try (given (new_configuration sdk cv new_pubkeys_str new_m)) (\<lambda>new_pubkeys.
     then_try (multisig_sign_thing_start fuel sdk cv mg world client my_pubkey_str launcher_id_str) (\<lambda>(my_pubkey, vault).
     then_try (given (ww_aliases world)) (\<lambda>_.
     then_try (given (map_err Driver (vs_rekey_puzzle vs (vi_launcher_id (va_info vault)) new_m new_pubkeys
         (sdk_coin_id sdk (va_coin vault)) testnet11))) (\<lambda>delegated_puzzle.
       Some (multisig_sign_thing_finish sdk vs world delegated_puzzle vault my_pubkey testnet11 debug)))))"

text \<open>What the vault is spent with: the signers' keys and signature, and the conditions or the delegated puzzle.\<close>

record ('k, 'g, 'a) vault_spend =
  vp_vault :: "'k vault"
  vp_signers :: "'k list"
  vp_signature :: 'g
  vp_action :: 'a
  vp_fee :: u64

definition multisig_broadcast_rekey ::
  "nat \<Rightarrow> bool \<Rightarrow> ('n, 'z) sdk_scheme \<Rightarrow> 'k csv_sdk \<Rightarrow> ('s, 'k, 'l, 'h) multisig_sdk \<Rightarrow> ('k, 'g, 'x, 'p, 'q) vault_sdk
    \<Rightarrow> vault_world \<Rightarrow> client \<Rightarrow> string \<Rightarrow> nat \<Rightarrow> string \<Rightarrow> string \<Rightarrow> string
    \<Rightarrow> (cli_error + ('k, 'g, 'q) vault_spend) outcome option"
where
  "multisig_broadcast_rekey fuel overflow_checks sdk cv mg vs world client new_pubkeys_str new_m signatures_str
       launcher_id_str fee_str =
     then_try (given (new_configuration sdk cv new_pubkeys_str new_m)) (\<lambda>new_pubkeys.
     then_try (multisig_broadcast_thing_start fuel sdk mg vs world client signatures_str launcher_id_str)
       (\<lambda>(signature, signers, vault).
     then_try (given (ww_aliases world)) (\<lambda>_.
     then_try (given (map_err Driver (vs_rekey_conditions vs (vi_launcher_id (va_info vault)) new_m new_pubkeys)))
       (\<lambda>conditions.
     then_try (Some (multisig_broadcast_thing_finish overflow_checks world fee_str)) (\<lambda>fee.
       given (Inr \<lparr>vp_vault = vault, vp_signers = signers, vp_signature = signature, vp_action = conditions,
         vp_fee = fee\<rparr>))))))"

section \<open>A new state of the CATalog\<close>

definition catalog_new_state ::
  "bool \<Rightarrow> ('n, 'z) sdk_scheme \<Rightarrow> catalog_commands_sdk \<Rightarrow> string \<Rightarrow> string \<Rightarrow> (cli_error + catalog_state) outcome"
where
  "catalog_new_state overflow_checks sdk kq new_payment_asset_id_str new_payment_asset_amount_str =
     attempt (Returned (hex_string_to_bytes32 sdk new_payment_asset_id_str)) (\<lambda>new_payment_asset_id.
     attempt (parse_amount overflow_checks new_payment_asset_amount_str True) (\<lambda>new_payment_asset_amount.
       Returned (Inr \<lparr>ct_cat_maker_puzzle_hash = kq_cat_maker_hash kq new_payment_asset_id,
         ct_registration_price = new_payment_asset_amount\<rparr>)))"

definition catalog_update_puzzle ::
  "('k, 'g, 'x, 'p, 'q) vault_sdk \<Rightarrow> catalog_constants \<Rightarrow> catalog_state \<Rightarrow> 'k vault \<Rightarrow> bool \<Rightarrow> cli_error + 'p"
where
  "catalog_update_puzzle vs constants new_state vault testnet11 =
     map_err Driver (vs_message_puzzle vs (vs_catalog_message vs new_state) (kc_launcher_id constants)
       (va_coin vault) (va_info vault) testnet11)"

definition catalog_sign_state_update ::
  "nat \<Rightarrow> bool \<Rightarrow> ('n, 'z) sdk_scheme \<Rightarrow> 'k csv_sdk \<Rightarrow> ('s, 'k, 'l, 'h) multisig_sdk \<Rightarrow> ('k, 'g, 'x, 'p, 'q) vault_sdk
    \<Rightarrow> 'm catalog_sdk \<Rightarrow> catalog_commands_sdk \<Rightarrow> catalog_constants \<Rightarrow> vault_world \<Rightarrow> client
    \<Rightarrow> string \<Rightarrow> string \<Rightarrow> string \<Rightarrow> string \<Rightarrow> bool \<Rightarrow> bool \<Rightarrow> (cli_error + nat \<times> string option) outcome option"
where
  "catalog_sign_state_update fuel overflow_checks sdk cv mg vs ks kq constants world client
       new_payment_asset_id_str new_payment_asset_amount_str my_pubkey_str launcher_id_str testnet11 debug =
     then_try (Some (catalog_new_state overflow_checks sdk kq new_payment_asset_id_str new_payment_asset_amount_str))
       (\<lambda>new_state.
     then_try (multisig_sign_thing_start fuel sdk cv mg world client my_pubkey_str launcher_id_str) (\<lambda>(my_pubkey, vault).
     then_try (given (quick_sync_catalog sdk ks client constants)) (\<lambda>catalog.
     then_try (given (catalog_update_puzzle vs constants new_state vault testnet11)) (\<lambda>delegated_puzzle.
       Some (multisig_sign_thing_finish sdk vs world delegated_puzzle vault my_pubkey testnet11 debug)))))"

text \<open>Broadcast: the vault's spend, and the registry with the state it is given.\<close>

definition catalog_broadcast_state_update ::
  "nat \<Rightarrow> bool \<Rightarrow> ('n, 'z) sdk_scheme \<Rightarrow> ('s, 'k, 'l, 'h) multisig_sdk \<Rightarrow> ('k, 'g, 'x, 'p, 'q) vault_sdk
    \<Rightarrow> 'm catalog_sdk \<Rightarrow> catalog_commands_sdk \<Rightarrow> catalog_constants \<Rightarrow> vault_world \<Rightarrow> client
    \<Rightarrow> string \<Rightarrow> string \<Rightarrow> string \<Rightarrow> string \<Rightarrow> bool \<Rightarrow> string
    \<Rightarrow> (cli_error + ('k, 'g, 'p) vault_spend \<times> catalog \<times> catalog_state) outcome option"
where
  "catalog_broadcast_state_update fuel overflow_checks sdk mg vs ks kq constants world client
       new_payment_asset_id_str new_payment_asset_amount_str launcher_id_str signatures_str testnet11 fee_str =
     then_try (Some (catalog_new_state overflow_checks sdk kq new_payment_asset_id_str new_payment_asset_amount_str))
       (\<lambda>new_state.
     then_try (multisig_broadcast_thing_start fuel sdk mg vs world client signatures_str launcher_id_str)
       (\<lambda>(signature, signers, vault).
     then_try (given (quick_sync_catalog sdk ks client constants)) (\<lambda>catalog.
     then_try (given (catalog_update_puzzle vs constants new_state vault testnet11)) (\<lambda>delegated_puzzle.
     then_try (Some (multisig_broadcast_thing_finish overflow_checks world fee_str)) (\<lambda>fee.
       given (Inr (\<lparr>vp_vault = vault, vp_signers = signers, vp_signature = signature, vp_action = delegated_puzzle,
         vp_fee = fee\<rparr>, catalog, new_state)))))))"

section \<open>A new state of an XCHandles registry\<close>

record registry_update =
  ru_registry_launcher_id_str :: string
  ru_new_payment_asset_id_str :: string
  ru_new_payment_cat_base_price_str :: string
  ru_new_registration_period :: u64
  ru_payment_asset_id_str :: "string option"
  ru_payment_cat_base_price_str :: "string option"
  ru_registration_period :: "u64 option"

definition registry_new_state ::
  "bool \<Rightarrow> ('n, 'z) sdk_scheme \<Rightarrow> ('c, 'nft) xch_commands_sdk \<Rightarrow> registry_update
    \<Rightarrow> (cli_error + bytes32 \<times> registry_state) outcome"
where
  "registry_new_state overflow_checks sdk xc update =
     attempt (Returned (hex_string_to_bytes32 sdk (ru_registry_launcher_id_str update))) (\<lambda>registry_launcher_id.
     attempt (Returned (hex_string_to_bytes32 sdk (ru_new_payment_asset_id_str update))) (\<lambda>new_payment_asset_id.
     attempt (parse_amount overflow_checks (ru_new_payment_cat_base_price_str update) True) (\<lambda>price.
       Returned (Inr (registry_launcher_id,
         \<lparr>rt_cat_maker_puzzle_hash = xc_cat_maker_hash xc new_payment_asset_id,
          rt_pricing_puzzle_hash = sdk_factor_pricing_hash sdk price (ru_new_registration_period update),
          rt_expired_handle_pricing_puzzle_hash = xc_expire_pricing_hash xc price (ru_new_registration_period update)\<rparr>)))))"

text \<open>The old state must be as hinted; the new one is shown against its own arguments.\<close>

definition show_registry_change ::
  "bool \<Rightarrow> ('n, 'z) sdk_scheme \<Rightarrow> ('c, 'nft) xch_commands_sdk \<Rightarrow> registry_update \<Rightarrow> registry_state \<Rightarrow> registry_state
    \<Rightarrow> (cli_error + unit) outcome"
where
  "show_registry_change overflow_checks sdk xc update old_state new_state =
     attempt (check_state_hints overflow_checks sdk xc old_state (ru_payment_asset_id_str update)
         (ru_payment_cat_base_price_str update) (ru_registration_period update)) (\<lambda>_.
     attempt (check_state_hints overflow_checks sdk xc new_state (Some (ru_new_payment_asset_id_str update))
         (Some (ru_new_payment_cat_base_price_str update)) (Some (ru_new_registration_period update))) (\<lambda>_.
       Returned (Inr ())))"

definition sync_show_changes_and_compute_new_state ::
  "bool \<Rightarrow> ('n, 'z) sdk_scheme \<Rightarrow> 'c registry_sdk \<Rightarrow> ('c, 'nft) xch_commands_sdk \<Rightarrow> client \<Rightarrow> registry_update \<Rightarrow> db
    \<Rightarrow> (cli_error + registry_state \<times> 'c registry) outcome \<times> db"
where
  "sync_show_changes_and_compute_new_state overflow_checks sdk xs xc client update db =
     (case registry_new_state overflow_checks sdk xc update of
        Panicked \<Rightarrow> (Panicked, db)
      | Returned (Inl e) \<Rightarrow> (Returned (Inl e), db)
      | Returned (Inr (registry_launcher_id, new_state)) \<Rightarrow>
          (let (synced, db) = quick_sync_xchandles sdk xs client registry_launcher_id db
           in (attempt (Returned synced) (\<lambda>registry.
               attempt (show_registry_change overflow_checks sdk xc update (xc_state xc registry) new_state) (\<lambda>_.
                 Returned (Inr (new_state, registry)))), db)))"

definition registry_update_puzzle ::
  "('k, 'g, 'x, 'p, 'q) vault_sdk \<Rightarrow> bytes32 \<Rightarrow> registry_state \<Rightarrow> 'k vault \<Rightarrow> bool \<Rightarrow> cli_error + 'p"
where
  "registry_update_puzzle vs registry_launcher_id new_state vault testnet11 =
     map_err Driver (vs_message_puzzle vs (vs_registry_message vs new_state) registry_launcher_id
       (va_coin vault) (va_info vault) testnet11)"

definition xchandles_sign_state_update ::
  "nat \<Rightarrow> bool \<Rightarrow> ('n, 'z) sdk_scheme \<Rightarrow> 'k csv_sdk \<Rightarrow> ('s, 'k, 'l, 'h) multisig_sdk \<Rightarrow> ('k, 'g, 'x, 'p, 'q) vault_sdk
    \<Rightarrow> 'c registry_sdk \<Rightarrow> ('c, 'nft) xch_commands_sdk \<Rightarrow> vault_world \<Rightarrow> client \<Rightarrow> registry_update
    \<Rightarrow> string \<Rightarrow> string \<Rightarrow> bool \<Rightarrow> bool \<Rightarrow> db \<Rightarrow> (cli_error + nat \<times> string option) outcome option \<times> db"
where
  "xchandles_sign_state_update fuel overflow_checks sdk cv mg vs xs xc world client update my_pubkey_str
       multisig_launcher_id_str testnet11 debug db =
     (case multisig_sign_thing_start fuel sdk cv mg world client my_pubkey_str multisig_launcher_id_str of
        Some (Returned (Inr (my_pubkey, vault))) \<Rightarrow>
          (let (computed, db) = sync_show_changes_and_compute_new_state overflow_checks sdk xs xc client update db
           in (Some (attempt computed (\<lambda>(new_state, registry).
                 attempt (Returned (registry_update_puzzle vs (xs_launcher_id xs (rg_constants registry)) new_state vault testnet11))
                   (\<lambda>delegated_puzzle.
                   multisig_sign_thing_finish sdk vs world delegated_puzzle vault my_pubkey testnet11 debug))), db))
      | other \<Rightarrow> (then_try other (\<lambda>_. None), db))"

definition xchandles_broadcast_state_update ::
  "nat \<Rightarrow> bool \<Rightarrow> ('n, 'z) sdk_scheme \<Rightarrow> ('s, 'k, 'l, 'h) multisig_sdk \<Rightarrow> ('k, 'g, 'x, 'p, 'q) vault_sdk
    \<Rightarrow> 'c registry_sdk \<Rightarrow> ('c, 'nft) xch_commands_sdk \<Rightarrow> vault_world \<Rightarrow> client \<Rightarrow> registry_update
    \<Rightarrow> string \<Rightarrow> string \<Rightarrow> bool \<Rightarrow> string \<Rightarrow> db
    \<Rightarrow> (cli_error + ('k, 'g, 'p) vault_spend \<times> 'c registry \<times> registry_state) outcome option \<times> db"
where
  "xchandles_broadcast_state_update fuel overflow_checks sdk mg vs xs xc world client update
       multisig_launcher_id_str signatures_str testnet11 fee_str db =
     (case multisig_broadcast_thing_start fuel sdk mg vs world client signatures_str multisig_launcher_id_str of
        Some (Returned (Inr (signature, signers, vault))) \<Rightarrow>
          (let (computed, db) = sync_show_changes_and_compute_new_state overflow_checks sdk xs xc client update db
           in (Some (attempt computed (\<lambda>(new_state, registry).
                 attempt (Returned (registry_update_puzzle vs (xs_launcher_id xs (rg_constants registry)) new_state vault testnet11))
                   (\<lambda>delegated_puzzle.
                 attempt (multisig_broadcast_thing_finish overflow_checks world fee_str) (\<lambda>fee.
                   Returned (Inr (\<lparr>vp_vault = vault, vp_signers = signers, vp_signature = signature,
                     vp_action = delegated_puzzle, vp_fee = fee\<rparr>, registry, new_state)))))), db))
      | other \<Rightarrow> (then_try other (\<lambda>_. None), db))"

section \<open>Verifying a signature, viewing and launching a vault\<close>

text \<open>The last part after a dash, unless the text is as long as a signature; a signature of another length panics.\<close>

definition multisig_verify_signature ::
  "('n, 'z) sdk_scheme \<Rightarrow> 'k csv_sdk \<Rightarrow> ('k, 'g, 'x, 'p, 'q) vault_sdk \<Rightarrow> string \<Rightarrow> string \<Rightarrow> string
    \<Rightarrow> (cli_error + unit) outcome"
where
  "multisig_verify_signature sdk cv vs raw_message_str pubkey_str signature_str =
     attempt (Returned (hex_string_to_bytes32 sdk raw_message_str)) (\<lambda>raw_message.
     attempt (Returned (hex_string_to_pubkey sdk cv pubkey_str)) (\<lambda>pubkey.
     attempt (Returned (hex_string_to_bytes sdk
         (if length signature_str \<noteq> 96 * 2 then last (split_on (CHR ''-'') signature_str) else signature_str))) (\<lambda>bytes.
     if length bytes \<noteq> 96 then Panicked
     else
       attempt (Returned (ok_or (vs_signature_from_bytes vs bytes) InvalidPublicKey)) (\<lambda>signature.
         if vs_verify vs signature pubkey raw_message then Returned (Inr ())
         else Returned (Inl (Custom ''Signature is invalid''))))))"

text \<open>The configuration shown; \<open>None\<close> while the scheduler's phase lasts. The states of a schedule are printed.\<close>

definition multisig_view ::
  "nat \<Rightarrow> ('n, 'z) sdk_scheme \<Rightarrow> ('s, 'k, 'l, 'h) multisig_sdk \<Rightarrow> vault_world \<Rightarrow> client \<Rightarrow> string
    \<Rightarrow> (cli_error + (nat \<times> 'k list) option) outcome option"
where
  "multisig_view fuel sdk mg world client launcher_id_str =
     then_try (given (hex_string_to_bytes32 sdk launcher_id_str)) (\<lambda>launcher_id.
     then_try (map_option Returned (sync_multisig_singleton fuel sdk mg
         \<lparr>pr_state_info = Some (\<lambda>timestamp state. Inr ()), pr_aliases = ww_aliases world\<rparr> client launcher_id))
       (\<lambda>(singleton, info). case singleton of
          VaultPhase vault \<Rightarrow>
            then_try (given (ww_aliases world)) (\<lambda>_.
              given (Inr (Some (vi_m (va_info vault), vi_public_key_list (va_info vault)))))
        | SchedulerPhase _ \<Rightarrow> given (Inr None)))"

text \<open>The keys and the threshold a new vault is launched with. The threshold is not compared with the number of keys.\<close>

definition multisig_launch ::
  "bool \<Rightarrow> ('n, 'z) sdk_scheme \<Rightarrow> 'k csv_sdk \<Rightarrow> vault_world \<Rightarrow> string \<Rightarrow> nat \<Rightarrow> string
    \<Rightarrow> (cli_error + 'k list \<times> nat \<times> u64) outcome"
where
  "multisig_launch overflow_checks sdk cv world pubkeys_str m fee_str =
     attempt (launch_pubkeys sdk cv pubkeys_str) (\<lambda>pubkeys.
     attempt (parse_amount overflow_checks fee_str False) (\<lambda>fee.
     attempt (Returned (ww_aliases world)) (\<lambda>_.
     attempt (Returned (ww_continue world)) (\<lambda>_. Returned (Inr (pubkeys, m, fee))))))"

end
