(* ===== verification/VaultCommandFacts.thy ===== *)
theory VaultCommandFacts
  imports VaultCommands CatalogCommandFacts XchCommandFacts
begin

text \<open>
  The signatures that the owners of a vault print one by one are what the broadcast reads: the signing and the broadcasting commands
  agree on the keys, on the delegated puzzle and on the text in between.
\<close>

section \<open>The text of a signature\<close>

definition signature_codec_ok :: "('k, 'g, 'x, 'p, 'q) vault_sdk \<Rightarrow> bool" where
  "signature_codec_ok vs \<longleftrightarrow>
     (\<forall>g. length (vs_signature_to_bytes vs g) = 96 \<and> vs_signature_from_bytes vs (vs_signature_to_bytes vs g) = Some g)"

lemma hex_without:
  assumes "hex_codec_ok sdk" and "c \<notin> set hex_digits"
  shows "c \<notin> set (sdk_hex_encode sdk bytes)"
  using assms by (auto simp: hex_codec_ok_def)

lemma hex_array_encode:
  assumes "hex_codec_ok sdk"
  shows "hex_array sdk (length bytes) (sdk_hex_encode sdk bytes) = Inr bytes"
proof -
  have "CHR ''x'' \<notin> set (sdk_hex_encode sdk bytes)" by (rule hex_without [OF assms]) (simp add: hex_digits_def)
  then show ?thesis by (simp add: hex_array_def remove_0x_id hex_laws(2) [OF assms])
qed

lemma hex_string_to_pubkey_array:
  "hex_string_to_pubkey sdk cv hex = try_result (hex_array sdk 48 hex) (\<lambda>bytes. ok_or (cv_pubkey_from_bytes cv bytes) InvalidPublicKey)"
  by (auto simp: hex_string_to_pubkey_def hex_array_def split: option.splits)

lemma signature_hex:
  assumes "hex_codec_ok sdk" and "signature_codec_ok vs"
  shows "hex_string_to_signature sdk vs (sdk_hex_encode sdk (vs_signature_to_bytes vs g)) = Inr g"
  using hex_array_encode [OF assms(1), of "vs_signature_to_bytes vs g"] assms(2)
  by (simp add: hex_string_to_signature_def signature_codec_ok_def result_simps)

lemma key_position_Some: "key_position x xs = Some i \<Longrightarrow> i < length xs \<and> xs ! i = x"
  unfolding key_position_def by (drule find_SomeD) auto

text \<open>Who signs: the secret key given to the prompt, and its public key.\<close>

definition secret_of_world ::
  "('n, 'z) sdk_scheme \<Rightarrow> ('k, 'g, 'x, 'p, 'q) vault_sdk \<Rightarrow> vault_world \<Rightarrow> cli_error + 'x"
where
  "secret_of_world sdk vs world = try_result (ww_secret_key world) (hex_string_to_secret_key sdk vs)"

definition signed_by ::
  "('k, 'g, 'x, 'p, 'q) vault_sdk \<Rightarrow> 'p \<Rightarrow> 'k vault \<Rightarrow> bool \<Rightarrow> 'x \<Rightarrow> 'g \<times> 'k"
where
  "signed_by vs delegated_puzzle vault testnet11 sk =
     (vs_sign vs sk (vs_public_key vs sk) (vs_tree_hash vs delegated_puzzle) (va_coin vault) testnet11, vs_public_key vs sk)"

lemma signature_read:
  assumes "hex_codec_ok sdk" and "signature_codec_ok vs" and "length (vi_public_key_list (va_info vault)) < 2 ^ 64"
    and "multisig_sign_thing_finish sdk vs world delegated_puzzle vault my_pubkey testnet11 True =
      Returned (Inr (my_index, Some printed))"
  obtains sk where "secret_of_world sdk vs world = Inr sk" and "vs_public_key vs sk = my_pubkey"
    and "my_pubkey \<in> set (vi_public_key_list (va_info vault))" and "CHR '','' \<notin> set printed"
    and "read_signature sdk vs (vi_public_key_list (va_info vault)) printed =
      Returned (Inr (signed_by vs delegated_puzzle vault testnet11 sk))"
proof -
  let ?keys = "vi_public_key_list (va_info vault)"
  from assms(4) obtain sk where position: "key_position my_pubkey ?keys = Some my_index"
    and sk: "secret_of_world sdk vs world = Inr sk" "vs_public_key vs sk = my_pubkey"
    and printed: "printed = show_nat my_index @ CHR ''-'' # sdk_hex_encode sdk
        (vs_signature_to_bytes vs (fst (signed_by vs delegated_puzzle vault testnet11 sk)))"
    by (auto simp: multisig_sign_thing_finish_def secret_of_world_def signed_by_def result_simps Let_def split: if_splits)
  from key_position_Some [OF position] have index: "my_index < length ?keys" "?keys ! my_index = my_pubkey" by auto
  then have unat: "unat (word_of_nat my_index :: u64) = my_index" using assms(3) by (simp add: unat_of_nat)
  have hex: "CHR '','' \<notin> set (sdk_hex_encode sdk bytes)" "CHR ''-'' \<notin> set (sdk_hex_encode sdk bytes)" for bytes
    by (rule hex_without [OF assms(1)], simp add: hex_digits_def)+
  have digits: "CHR '','' \<notin> set (show_nat my_index)" "CHR ''-'' \<notin> set (show_nat my_index)"
    using show_nat_digits [of my_index] by auto
  have "parse_u64 (show_nat my_index) = Some (word_of_nat my_index)"
    using parse_show_u64 [of "word_of_nat my_index"] unat by simp
  then have "read_signature sdk vs ?keys printed = Returned (Inr (signed_by vs delegated_puzzle vault testnet11 sk))"
    using index sk(2)
    by (simp add: read_signature_def printed split_on_append [OF digits(2)] split_on_none [OF hex(2)] nth_checked_def unat
        signature_hex [OF assms(1,2)] signed_by_def)
  then show ?thesis
    using that sk index nth_mem [OF index(1)] hex(1) digits(1) by (simp add: printed)
qed

lemma signatures_read:
  assumes "hex_codec_ok sdk" and "signature_codec_ok vs" and "length (vi_public_key_list (va_info vault)) < 2 ^ 64"
    and "list_all2 (\<lambda>(world, key) printed. \<exists>i.
      multisig_sign_thing_finish sdk vs world delegated_puzzle vault key testnet11 True = Returned (Inr (i, Some printed))) runs texts"
  shows "\<exists>secrets. list_all2 (\<lambda>(world, key) sk. secret_of_world sdk vs world = Inr sk \<and> vs_public_key vs sk = key \<and>
        key \<in> set (vi_public_key_list (va_info vault))) runs secrets \<and>
      (\<forall>printed \<in> set texts. CHR '','' \<notin> set printed) \<and>
      read_signatures sdk vs (vi_public_key_list (va_info vault)) texts =
        Returned (Inr (map (signed_by vs delegated_puzzle vault testnet11) secrets))"
  using assms(4)
proof (induction rule: list_all2_induct)
  case Nil
  show ?case by (intro exI [of _ "[]"]) simp
next
  case (Cons run runs printed texts)
  obtain world key where run: "run = (world, key)" by (cases run)
  with Cons.hyps obtain i where
    "multisig_sign_thing_finish sdk vs world delegated_puzzle vault key testnet11 True = Returned (Inr (i, Some printed))"
    by auto
  from signature_read [OF assms(1-3) this] obtain sk where
    "secret_of_world sdk vs world = Inr sk" "vs_public_key vs sk = key" "key \<in> set (vi_public_key_list (va_info vault))"
    "CHR '','' \<notin> set printed"
    "read_signature sdk vs (vi_public_key_list (va_info vault)) printed =
      Returned (Inr (signed_by vs delegated_puzzle vault testnet11 sk))" .
  moreover from Cons.IH obtain secrets where
    "list_all2 (\<lambda>(world, key) sk. secret_of_world sdk vs world = Inr sk \<and> vs_public_key vs sk = key \<and>
        key \<in> set (vi_public_key_list (va_info vault))) runs secrets"
    "\<forall>printed \<in> set texts. CHR '','' \<notin> set printed"
    "read_signatures sdk vs (vi_public_key_list (va_info vault)) texts =
        Returned (Inr (map (signed_by vs delegated_puzzle vault testnet11) secrets))"
    by blast
  ultimately show ?case by (intro exI [of _ "sk # secrets"]) (auto simp: run)
qed

section \<open>From signing to broadcasting\<close>

text \<open>Runs of the signing command of the CATalog by the owners of a vault: what each met, its key and the text it printed.\<close>

lemma catalog_sign_Inr:
  assumes "catalog_sign_state_update fuel overflow_checks sdk cv mg vs ks kq constants world client
      asset_str amount_str my_pubkey_str launcher_id_str testnet11 True = Some (Returned (Inr (i, Some printed)))"
    and "hex_string_to_bytes32 sdk launcher_id_str = Inr launcher_id"
    and "current_vault fuel sdk mg client launcher_id = Some (Returned (Inr vault))"
  obtains new_state key delegated_puzzle where
    "catalog_new_state overflow_checks sdk kq asset_str amount_str = Returned (Inr new_state)"
    and "hex_string_to_pubkey sdk cv my_pubkey_str = Inr key"
    and "catalog_update_puzzle vs constants new_state vault testnet11 = Inr delegated_puzzle"
    and "multisig_sign_thing_finish sdk vs world delegated_puzzle vault key testnet11 True = Returned (Inr (i, Some printed))"
  using assms by (auto simp: catalog_sign_state_update_def multisig_sign_thing_start_def result_simps)

text \<open>
  C7. The signatures collected from the owners are what the broadcast spends the vault with: when each owner runs the signing command
  for a new state of the CATalog while the vault's coin is the same, and the printed texts are joined by commas, then the broadcast of the same
  state reads back, in order, exactly the owners' keys and the sum of the signatures that their secret keys make over the very delegated
  puzzle it spends, if there are as many as the vault requires, and refuses any other number.
\<close>

theorem collected_signatures_broadcast:
  assumes codec: "hex_codec_ok sdk" "signature_codec_ok vs" "length (vi_public_key_list (va_info vault)) < 2 ^ 64"
    and launcher: "hex_string_to_bytes32 sdk launcher_id_str = Inr launcher_id"
    and signed: "runs \<noteq> []" "\<forall>(world', client', key_str, printed) \<in> set runs.
      current_vault fuel sdk mg client' launcher_id = Some (Returned (Inr vault)) \<and>
      (\<exists>i. catalog_sign_state_update fuel overflow_checks sdk cv mg vs ks kq constants world' client'
        asset_str amount_str key_str launcher_id_str testnet True = Some (Returned (Inr (i, Some printed))))"
    and vault: "current_vault fuel sdk mg client launcher_id = Some (Returned (Inr vault))"
    and broadcast: "ww_aliases world = Inr ()" "quick_sync_catalog sdk ks client constants = Inr catalog"
      "multisig_broadcast_thing_finish overflow_checks world fee_str = Returned (Inr fee)"
  shows "\<exists>secrets new_state delegated_puzzle.
    catalog_new_state overflow_checks sdk kq asset_str amount_str = Returned (Inr new_state) \<and>
    catalog_update_puzzle vs constants new_state vault testnet = Inr delegated_puzzle \<and>
    list_all2 (\<lambda>(world', client', key_str, printed) sk. secret_of_world sdk vs world' = Inr sk \<and>
      hex_string_to_pubkey sdk cv key_str = Inr (vs_public_key vs sk) \<and>
      vs_public_key vs sk \<in> set (vi_public_key_list (va_info vault))) runs secrets \<and>
    catalog_broadcast_state_update fuel overflow_checks sdk mg vs ks kq constants world client asset_str amount_str
        launcher_id_str (join (map (snd \<circ> snd \<circ> snd) runs)) testnet fee_str =
      Some (Returned (
        if length runs \<noteq> vi_m (va_info vault)
        then Inl (Custom ''Number of signatures does not match the required number of signatures'')
        else Inr (\<lparr>vp_vault = vault, vp_signers = map (vs_public_key vs) secrets,
            vp_signature = foldl (vs_add vs) (vs_no_signature vs)
              (map (\<lambda>sk. vs_sign vs sk (vs_public_key vs sk) (vs_tree_hash vs delegated_puzzle) (va_coin vault) testnet) secrets),
            vp_action = delegated_puzzle, vp_fee = fee\<rparr>, catalog, new_state)))"
proof -
  obtain world0 client0 key_str0 printed0 where first: "(world0, client0, key_str0, printed0) \<in> set runs"
    using signed(1) by (cases runs) auto
  with signed(2) obtain i where
    "catalog_sign_state_update fuel overflow_checks sdk cv mg vs ks kq constants world0 client0
        asset_str amount_str key_str0 launcher_id_str testnet True = Some (Returned (Inr (i, Some printed0)))"
    "current_vault fuel sdk mg client0 launcher_id = Some (Returned (Inr vault))" by fast
  from catalog_sign_Inr [OF this(1) launcher this(2)] obtain new_state delegated_puzzle where
    new_state: "catalog_new_state overflow_checks sdk kq asset_str amount_str = Returned (Inr new_state)"
    and puzzle: "catalog_update_puzzle vs constants new_state vault testnet = Inr delegated_puzzle" .
  define key_of where "key_of s = projr (hex_string_to_pubkey sdk cv s)" for s
  have each: "hex_string_to_pubkey sdk cv key_str = Inr (key_of key_str) \<and> (\<exists>i. multisig_sign_thing_finish sdk vs world'
      delegated_puzzle vault (key_of key_str) testnet True = Returned (Inr (i, Some printed)))"
    if member: "(world', client', key_str, printed) \<in> set runs" for world' client' key_str printed
  proof -
    from member signed(2) obtain i where
      "catalog_sign_state_update fuel overflow_checks sdk cv mg vs ks kq constants world' client'
        asset_str amount_str key_str launcher_id_str testnet True = Some (Returned (Inr (i, Some printed)))"
      "current_vault fuel sdk mg client' launcher_id = Some (Returned (Inr vault))" by fast
    from catalog_sign_Inr [OF this(1) launcher this(2)] obtain state' key puzzle' where
      "catalog_new_state overflow_checks sdk kq asset_str amount_str = Returned (Inr state')"
      "hex_string_to_pubkey sdk cv key_str = Inr key"
      "catalog_update_puzzle vs constants state' vault testnet = Inr puzzle'"
      and finish: "multisig_sign_thing_finish sdk vs world' puzzle' vault key testnet True = Returned (Inr (i, Some printed))" .
    moreover from this have "state' = new_state" and "key_of key_str = key" using new_state by (simp_all add: key_of_def)
    moreover from calculation have "puzzle' = delegated_puzzle" using puzzle by simp
    ultimately show ?thesis by blast
  qed
  let ?signers = "map (\<lambda>(world', client', key_str, printed). (world', key_of key_str)) runs"
  let ?texts = "map (snd \<circ> snd \<circ> snd) runs"
  have "list_all2 (\<lambda>(world, key) printed. \<exists>i.
      multisig_sign_thing_finish sdk vs world delegated_puzzle vault key testnet True = Returned (Inr (i, Some printed)))
      ?signers ?texts"
    using each by (auto simp: list_all2_map1 list_all2_map2 list_all2_same)
  from signatures_read [OF codec this] obtain secrets where
    owners: "list_all2 (\<lambda>(world, key) sk. secret_of_world sdk vs world = Inr sk \<and> vs_public_key vs sk = key \<and>
        key \<in> set (vi_public_key_list (va_info vault))) ?signers secrets"
    and commas: "\<forall>printed \<in> set ?texts. CHR '','' \<notin> set printed"
    and signatures: "read_signatures sdk vs (vi_public_key_list (va_info vault)) ?texts =
        Returned (Inr (map (signed_by vs delegated_puzzle vault testnet) secrets))" by blast
  have joined: "split_on (CHR '','') (join ?texts) = ?texts" using signed(1) commas by (intro split_join) auto
  have len: "length secrets = length runs" using list_all2_lengthD [OF owners] by simp
  have "list_all2 (\<lambda>(world', client', key_str, printed) sk. secret_of_world sdk vs world' = Inr sk \<and>
      hex_string_to_pubkey sdk cv key_str = Inr (vs_public_key vs sk) \<and>
      vs_public_key vs sk \<in> set (vi_public_key_list (va_info vault))) runs secrets"
    using owners [unfolded list_all2_map1] by (rule list.rel_mono_strong) (use each in fastforce)
  moreover have "catalog_broadcast_state_update fuel overflow_checks sdk mg vs ks kq constants world client asset_str amount_str
        launcher_id_str (join ?texts) testnet fee_str =
      Some (Returned (
        if length runs \<noteq> vi_m (va_info vault)
        then Inl (Custom ''Number of signatures does not match the required number of signatures'')
        else Inr (\<lparr>vp_vault = vault, vp_signers = map (vs_public_key vs) secrets,
            vp_signature = foldl (vs_add vs) (vs_no_signature vs)
              (map (\<lambda>sk. vs_sign vs sk (vs_public_key vs sk) (vs_tree_hash vs delegated_puzzle) (va_coin vault) testnet) secrets),
            vp_action = delegated_puzzle, vp_fee = fee\<rparr>, catalog, new_state)))"
  proof -
    have "multisig_broadcast_thing_start fuel sdk mg vs world client (join ?texts) launcher_id_str = Some (Returned (
        if length runs \<noteq> vi_m (va_info vault)
        then Inl (Custom ''Number of signatures does not match the required number of signatures'')
        else Inr (foldl (vs_add vs) (vs_no_signature vs) (map fst (map (signed_by vs delegated_puzzle vault testnet) secrets)),
          map snd (map (signed_by vs delegated_puzzle vault testnet) secrets), vault)))"
      using len by (simp add: multisig_broadcast_thing_start_def launcher vault signatures broadcast(1) given_def
          del: map_map add: joined)
    moreover have "map fst (map (signed_by vs delegated_puzzle vault testnet) secrets) =
        map (\<lambda>sk. vs_sign vs sk (vs_public_key vs sk) (vs_tree_hash vs delegated_puzzle) (va_coin vault) testnet) secrets"
      "map snd (map (signed_by vs delegated_puzzle vault testnet) secrets) = map (vs_public_key vs) secrets"
      by (simp_all add: signed_by_def)
    ultimately show ?thesis
      by (simp add: catalog_broadcast_state_update_def new_state broadcast(2,3) puzzle given_def del: map_map)
  qed
  ultimately show ?thesis using new_state puzzle by blast
qed

section \<open>A vault of three owners\<close>

text \<open>For the witness: two of three keys; a public key is its secret key, a signature one byte.\<close>

definition owners_vault :: "nat vault" where
  "owners_vault = \<lparr>va_coin = \<lparr>parent_coin_info = 4, puzzle_hash = 4, amount = 1\<rparr>,
     va_proof = \<lparr>lp_parent_parent_coin_info = 0, lp_parent_inner_puzzle_hash = 0, lp_parent_amount = 1\<rparr>,
     va_info = \<lparr>vi_launcher_id = 1, vi_m = 2, vi_public_key_list = [11, 12, 13]\<rparr>\<rparr>"

definition owners_mg :: "(nat, nat, unit, unit) multisig_sdk" where
  "owners_mg = example_multisig_sdk\<lparr>mg_vault_from_parent := \<lambda>_. Inr (Some owners_vault)\<rparr>"

definition owners_vs :: "(nat, u8, nat, nat, nat) vault_sdk" where
  "owners_vs =
     \<lparr>vs_signature_from_bytes = (\<lambda>bytes. Some (last bytes)), vs_signature_to_bytes = (\<lambda>g. replicate 95 0 @ [g]),
      vs_no_signature = 0, vs_add = (+), vs_secret_from_bytes = (\<lambda>bytes. Some (unat (last bytes))),
      vs_public_key = (\<lambda>sk. sk), vs_sign = (\<lambda>sk key hash coin testnet11. word_of_nat sk), vs_verify = (\<lambda>g key message. True),
      vs_tree_hash = word_of_nat, vs_message_puzzle = (\<lambda>message receiver coin info testnet11. Inr 7),
      vs_catalog_message = (\<lambda>state. [1]), vs_registry_message = (\<lambda>state. [2]),
      vs_rekey_puzzle = (\<lambda>launcher_id m keys coin_id testnet11. Inr 8), vs_rekey_conditions = (\<lambda>launcher_id m keys. Inr 9)\<rparr>"

definition owners_cv :: "nat csv_sdk" where
  "owners_cv = \<lparr>cv_address_decode = (\<lambda>_. None), cv_u64 = (\<lambda>_. None), cv_u8 = (\<lambda>_. None),
     cv_pubkey_from_bytes = (\<lambda>bytes. Some (unat (last bytes)))\<rparr>"

definition owners_client :: client where
  "owners_client = multisig_client
     \<lparr>cl_coin_records_by_hint := (\<lambda>i. Inr (Some [unspent_record example_tip_coin])), cl_mempool_items := (\<lambda>_. Inr None)\<rparr>"

definition owner_world :: "u8 \<Rightarrow> vault_world" where
  "owner_world sk = \<lparr>ww_aliases = Inr (), ww_continue = Inr (),
     ww_secret_key = Inr (sdk_hex_encode fixture_sdk (replicate 31 0 @ [sk]))\<rparr>"

definition owner_key :: "u8 \<Rightarrow> string" where
  "owner_key key = sdk_hex_encode fixture_sdk (replicate 47 0 @ [key])"

lemma owners_codec: "signature_codec_ok owners_vs"
  by (simp add: signature_codec_ok_def owners_vs_def)

lemma owners_current: "current_vault 2 fixture_sdk owners_mg owners_client 1 = Some (Returned (Inr owners_vault))"
proof -
  have "sync_multisig_singleton 2 fixture_sdk owners_mg silent owners_client 1 =
      Some (Inr (VaultPhase owners_vault, Some (example_info 0)))"
    by (simp add: sync_multisig_singleton_def sync_as_scheduler_def required_def multisig_client_def owners_client_def
        owners_mg_def example_multisig_sdk_def silent_def print_schedule_def vault_result_def latest_vault_def Let_def
        scheduler_turn_def numeral_2_eq_2 example_scheduler_def example_info_def unspent_record_def)
  then show ?thesis by (simp add: current_vault_def)
qed

lemma owners_catalog:
  "quick_sync_catalog fixture_sdk store_sdk owners_client example_constants = Inr (store_catalog 2)"
  by (simp add: quick_sync_catalog_def required_def pending_catalog_def owners_client_def multisig_client_def
      example_constants_def Let_def unspent_record_def store_sdk_def store_catalog_def)

lemma owner_signs:
  assumes "sk \<in> {11, 12, 13}"
  shows "\<exists>i printed. catalog_sign_state_update 2 True fixture_sdk owners_cv owners_mg owners_vs store_sdk store_commands
      example_constants (owner_world sk) owners_client (hex32 fixture_sdk 8) ''0.001'' (owner_key sk) (hex32 fixture_sdk 1)
      False True = Some (Returned (Inr (i, Some printed)))"
proof -
  note codec = fixture_hex_codec_ok
  have key: "hex_string_to_pubkey fixture_sdk owners_cv (owner_key sk) = Inr (unat sk)"
    using hex_array_encode [OF codec, of "replicate 47 0 @ [sk]"]
    by (simp add: hex_string_to_pubkey_array owner_key_def owners_cv_def)
  moreover have secret: "hex_string_to_secret_key fixture_sdk owners_vs (sdk_hex_encode fixture_sdk (replicate 31 0 @ [sk])) =
      Inr (unat sk)"
    using hex_array_encode [OF codec, of "replicate 31 0 @ [sk]"]
    by (simp add: hex_string_to_secret_key_def owners_vs_def)
  moreover obtain i where "key_position (unat sk) [11, 12, 13] = Some i"
    using assms by (auto simp: key_position_def upt_rec)
  ultimately show ?thesis
    by (simp add: catalog_sign_state_update_def catalog_new_state_def hex_string_roundtrip [OF codec] unit_amount
        multisig_sign_thing_start_def owners_current owners_catalog catalog_update_puzzle_def
        multisig_sign_thing_finish_def owner_world_def owners_vault_def)
      (simp add: owners_vs_def)
qed

lemma collected_signatures_broadcast_witness:
  "\<exists>signature1 signature2 spend state. catalog_broadcast_state_update 2 True fixture_sdk owners_mg owners_vs store_sdk store_commands
      example_constants (owner_world 12) owners_client (hex32 fixture_sdk 8) ''0.001'' (hex32 fixture_sdk 1)
      (join [signature1, signature2]) False ''0.0'' = Some (Returned (Inr (spend, store_catalog 2, state))) \<and>
    vp_signers spend = [13, 11] \<and> vp_signature spend = 24 \<and> vp_action spend = 7"
proof -
  from owner_signs [of 13] owner_signs [of 11] obtain i j signature1 signature2 where signed:
    "catalog_sign_state_update 2 True fixture_sdk owners_cv owners_mg owners_vs store_sdk store_commands
      example_constants (owner_world 13) owners_client (hex32 fixture_sdk 8) ''0.001'' (owner_key 13) (hex32 fixture_sdk 1)
      False True = Some (Returned (Inr (i, Some signature1)))"
    "catalog_sign_state_update 2 True fixture_sdk owners_cv owners_mg owners_vs store_sdk store_commands
      example_constants (owner_world 11) owners_client (hex32 fixture_sdk 8) ''0.001'' (owner_key 11) (hex32 fixture_sdk 1)
      False True = Some (Returned (Inr (j, Some signature2)))"
    by auto
  let ?runs = "[(owner_world 13, owners_client, owner_key 13, signature1), (owner_world 11, owners_client, owner_key 11, signature2)]"
  have "length (vi_public_key_list (va_info owners_vault)) < 2 ^ 64" by (simp add: owners_vault_def)
  moreover have "hex_string_to_bytes32 fixture_sdk (hex32 fixture_sdk 1) = Inr 1"
    by (rule hex_string_roundtrip [OF fixture_hex_codec_ok])
  moreover have "\<forall>(world', client', key_str, printed) \<in> set ?runs.
      current_vault 2 fixture_sdk owners_mg client' 1 = Some (Returned (Inr owners_vault)) \<and>
      (\<exists>i. catalog_sign_state_update 2 True fixture_sdk owners_cv owners_mg owners_vs store_sdk store_commands
        example_constants world' client' (hex32 fixture_sdk 8) ''0.001'' key_str (hex32 fixture_sdk 1) False True =
          Some (Returned (Inr (i, Some printed))))"
    using signed owners_current by simp
  moreover have "ww_aliases (owner_world 12) = Inr ()"
    "multisig_broadcast_thing_finish True (owner_world 12) ''0.0'' = Returned (Inr 0)"
    by (simp_all add: owner_world_def multisig_broadcast_thing_finish_def zero_amount)
  ultimately obtain secrets new_state delegated_puzzle where
    puzzle: "catalog_update_puzzle owners_vs example_constants new_state owners_vault False = Inr delegated_puzzle"
    and owners: "list_all2 (\<lambda>(world', client', key_str, printed) sk. secret_of_world fixture_sdk owners_vs world' = Inr sk \<and>
      hex_string_to_pubkey fixture_sdk owners_cv key_str = Inr (vs_public_key owners_vs sk) \<and>
      vs_public_key owners_vs sk \<in> set (vi_public_key_list (va_info owners_vault))) ?runs secrets"
    and broadcast: "catalog_broadcast_state_update 2 True fixture_sdk owners_mg owners_vs store_sdk store_commands
      example_constants (owner_world 12) owners_client (hex32 fixture_sdk 8) ''0.001'' (hex32 fixture_sdk 1)
      (join [signature1, signature2]) False ''0.0'' = Some (Returned (
        if length ?runs \<noteq> vi_m (va_info owners_vault)
        then Inl (Custom ''Number of signatures does not match the required number of signatures'')
        else Inr (\<lparr>vp_vault = owners_vault, vp_signers = map (vs_public_key owners_vs) secrets,
            vp_signature = foldl (vs_add owners_vs) (vs_no_signature owners_vs)
              (map (\<lambda>sk. vs_sign owners_vs sk (vs_public_key owners_vs sk) (vs_tree_hash owners_vs delegated_puzzle)
                (va_coin owners_vault) False) secrets),
            vp_action = delegated_puzzle, vp_fee = 0\<rparr>, store_catalog 2, new_state)))"
    using collected_signatures_broadcast [OF fixture_hex_codec_ok owners_codec, where runs = ?runs and vault = owners_vault
        and launcher_id_str = "hex32 fixture_sdk 1" and launcher_id = 1 and fuel = 2 and mg = owners_mg
        and overflow_checks = True and cv = owners_cv and ks = store_sdk and kq = store_commands
        and constants = example_constants and asset_str = "hex32 fixture_sdk 8" and amount_str = "''0.001''"
        and testnet = False and client = owners_client and world = "owner_world 12" and catalog = "store_catalog 2"
        and fee_str = "''0.0''" and fee = 0] owners_current owners_catalog
    by auto
  have "hex_string_to_pubkey fixture_sdk owners_cv (owner_key sk) = Inr (unat sk)" for sk
    using hex_array_encode [OF fixture_hex_codec_ok, of "replicate 47 0 @ [sk]"]
    by (simp add: hex_string_to_pubkey_array owner_key_def owners_cv_def)
  with owners have "secrets = [13, 11]"
    by (auto simp: owners_vs_def list_all2_Cons1)
  with broadcast puzzle show ?thesis
    by (intro exI [of _ signature1] exI [of _ signature2])
      (auto simp: owners_vault_def owners_vs_def catalog_update_puzzle_def)
qed

end
