(* ===== verification/SchedulerCommands.thy ===== *)
theory SchedulerCommands
  imports CatalogCommands XchCommands MultisigSync
begin

text \<open>
  \<open>unroll_state_scheduler.rs\<close> of \<open>xchandles/\<close> and \<open>catalog/\<close>: giving a registry the next state of its price singleton's schedule, and
  \<open>xchandles/view.rs\<close>. Both commands are modelled to the question before they spend; what they then spend is the registry, the scheduler and the
  state returned. \<open>price_singleton\<close> and \<open>payout_address\<close> read a registry's constants.
\<close>

definition unroll_printing :: "'s printing" where
  "unroll_printing = \<lparr>pr_state_info = None, pr_aliases = Inr ()\<rparr>"

definition current_scheduler ::
  "nat \<Rightarrow> ('n, 'z) sdk_scheme \<Rightarrow> ('s, 'k, 'l, 'h) multisig_sdk \<Rightarrow> client \<Rightarrow> bytes32 \<Rightarrow> (cli_error + 's state_scheduler) outcome option"
where
  "current_scheduler fuel sdk mg client price_singleton =
     map_option (\<lambda>synced. Returned (scheduler_of_singleton synced))
       (sync_multisig_singleton fuel sdk mg unroll_printing client price_singleton)"

text \<open>The state due, after the wallet and the fee.\<close>

definition state_due ::
  "bool \<Rightarrow> client \<Rightarrow> cli_error + sage \<Rightarrow> string \<Rightarrow> 's state_scheduler \<Rightarrow> (cli_error + 's \<times> u64) outcome option"
where
  "state_due overflow_checks client wallet fee_str scheduler =
     then_try (given wallet) (\<lambda>_.
     then_try (Some (parse_amount overflow_checks fee_str False)) (\<lambda>fee.
     then_try (scheduled_state overflow_checks client scheduler) (\<lambda>new_state. given (Inr (new_state, fee)))))"

text \<open>Whether a record of the schedule file explains the hashes. A state that none explains is only warned about.\<close>

definition state_explained ::
  "('n, 'z) sdk_scheme \<Rightarrow> ('c, 'nft) xch_commands_sdk \<Rightarrow> xchandles_state_schedule_record list \<Rightarrow> registry_state \<Rightarrow> bool"
where
  "state_explained sdk xc schedule new_state \<longleftrightarrow>
     (\<exists>record \<in> set schedule.
        xc_cat_maker_hash xc (xr_asset_id record) = rt_cat_maker_puzzle_hash new_state \<and>
        sdk_factor_pricing_hash sdk (xr_registration_price record) (xr_registration_period record) =
          rt_pricing_puzzle_hash new_state \<and>
        xc_expire_pricing_hash xc (xr_registration_price record) (xr_registration_period record) =
          rt_expired_handle_pricing_puzzle_hash new_state)"

record ('r, 's) unrolled =
  ur_registry :: 'r
  ur_scheduler :: "'s state_scheduler"
  ur_new_state :: 's
  ur_explained :: bool
  ur_fee :: u64

definition xchandles_unroll_state_scheduler ::
  "nat \<Rightarrow> bool \<Rightarrow> ('n, 'z) sdk_scheme \<Rightarrow> 'k csv_sdk \<Rightarrow> (registry_state, 'k, 'l, 'h) multisig_sdk \<Rightarrow> 'c registry_sdk
    \<Rightarrow> ('c, 'nft) xch_commands_sdk \<Rightarrow> ('c \<Rightarrow> bytes32) \<Rightarrow> client \<Rightarrow> cli_error + sage \<Rightarrow> csv_file \<Rightarrow> cli_error + unit
    \<Rightarrow> string \<Rightarrow> bool \<Rightarrow> string \<Rightarrow> db \<Rightarrow> (cli_error + ('c registry, registry_state) unrolled) outcome option \<times> db"
where
  "xchandles_unroll_state_scheduler fuel overflow_checks sdk cv mg xs xc price_singleton client wallet schedule_file
       proceed launcher_id_str local fee_str db =
     (case hex_string_to_bytes32 sdk launcher_id_str of
        Inl e \<Rightarrow> (Some (Returned (Inl e)), db)
      | Inr launcher_id \<Rightarrow>
          (case synced_registry fuel sdk xs client local launcher_id db of
             None \<Rightarrow> (None, db)
           | Some (Inl e, db) \<Rightarrow> (Some (Returned (Inl e)), db)
           | Some (Inr registry, db) \<Rightarrow>
               (then_try (current_scheduler fuel sdk mg client (price_singleton (rg_constants registry))) (\<lambda>scheduler.
                then_try (state_due overflow_checks client wallet fee_str scheduler) (\<lambda>(new_state, fee).
                then_try (given (load_xchandles_state_schedule_csv sdk cv schedule_file)) (\<lambda>schedule.
                then_try (given proceed) (\<lambda>_.
                  given (Inr \<lparr>ur_registry = registry, ur_scheduler = scheduler, ur_new_state = new_state,
                    ur_explained = state_explained sdk xc schedule new_state, ur_fee = fee\<rparr>))))), db)))"

text \<open>The CATalog's price singleton is followed first; nothing is looked up in a file.\<close>

definition catalog_unroll_state_scheduler ::
  "nat \<Rightarrow> bool \<Rightarrow> ('n, 'z) sdk_scheme \<Rightarrow> (catalog_state, 'k, 'l, 'h) multisig_sdk \<Rightarrow> 'm catalog_sdk \<Rightarrow> client
    \<Rightarrow> cli_error + sage \<Rightarrow> cli_error + unit \<Rightarrow> catalog_constants \<Rightarrow> string \<Rightarrow> db
    \<Rightarrow> (cli_error + (catalog, catalog_state) unrolled) outcome option \<times> db"
where
  "catalog_unroll_state_scheduler fuel overflow_checks sdk mg ks client wallet proceed constants fee_str db =
     (if kc_price_singleton_launcher_id constants = 0 \<or> kc_launcher_id constants = 0
      then (Some (Returned (Inl ConstantsNotSet)), db)
      else
        (case current_scheduler fuel sdk mg client (kc_price_singleton_launcher_id constants) of
           Some (Returned (Inr scheduler)) \<Rightarrow>
             (case sync_catalog fuel sdk ks client constants db of
                None \<Rightarrow> (None, db)
              | Some (Inl e, db) \<Rightarrow> (Some (Returned (Inl e)), db)
              | Some (Inr catalog, db) \<Rightarrow>
                  (then_try (state_due overflow_checks client wallet fee_str scheduler) (\<lambda>(new_state, fee).
                   then_try (given proceed) (\<lambda>_.
                     given (Inr \<lparr>ur_registry = catalog, ur_scheduler = scheduler, ur_new_state = new_state,
                       ur_explained = True, ur_fee = fee\<rparr>))), db))
         | other \<Rightarrow> (then_try other (\<lambda>_. None), db)))"

definition xchandles_view ::
  "bool \<Rightarrow> ('n, 'z) sdk_scheme \<Rightarrow> 'c registry_sdk \<Rightarrow> ('c, 'nft) xch_commands_sdk \<Rightarrow> ('c \<Rightarrow> cli_error + string) \<Rightarrow> client \<Rightarrow> string
    \<Rightarrow> string option \<Rightarrow> string option \<Rightarrow> u64 option \<Rightarrow> db \<Rightarrow> (cli_error + 'c registry \<times> string) outcome \<times> db"
where
  "xchandles_view overflow_checks sdk xs xc payout_address client launcher_id_str payment_asset_id_hint base_price_hint
       period_hint db =
     (case hex_string_to_bytes32 sdk launcher_id_str of
        Inl e \<Rightarrow> (Returned (Inl e), db)
      | Inr launcher_id \<Rightarrow>
          (let (synced, db) = quick_sync_xchandles sdk xs client launcher_id db
           in (attempt (Returned synced) (\<lambda>registry.
               attempt (check_state_hints overflow_checks sdk xc (xc_state xc registry) payment_asset_id_hint base_price_hint
                   period_hint) (\<lambda>_.
               attempt (Returned (payout_address (rg_constants registry))) (\<lambda>address.
                 Returned (Inr (registry, address))))), db)))"

section \<open>What an unroll gives the registry\<close>

text \<open>
  What an unroll hands on is the price singleton's own next state: the singleton that the registry's constants name is in its scheduler phase, the
  state is the entry of its generation, and the time of that entry is not after the last time on chain.
\<close>

lemma state_due_Inr:
  assumes "state_due overflow_checks client wallet fee_str scheduler = Some (Returned (Inr (new_state, fee)))"
  obtains required_timestamp latest where
    "si_state_schedule (ss_info scheduler) ! si_generation (ss_info scheduler) = (required_timestamp, new_state)"
    and "si_generation (ss_info scheduler) < length (si_state_schedule (ss_info scheduler))"
    and "get_last_onchain_timestamp overflow_checks client = Some (Returned (Inr latest))" and "required_timestamp \<le> latest"
proof -
  from assms have "scheduled_state overflow_checks client scheduler = Some (Returned (Inr new_state))"
    by (auto simp: state_due_def result_simps)
  from scheduled_state_due [OF this] show ?thesis using that by blast
qed

lemma current_scheduler_Inr:
  assumes "current_scheduler fuel sdk mg client price_singleton = Some (Returned (Inr scheduler))"
  obtains info where "sync_multisig_singleton fuel sdk mg unroll_printing client price_singleton = Some (Inr (SchedulerPhase scheduler, info))"
proof -
  from assms obtain singleton info where
    "sync_multisig_singleton fuel sdk mg unroll_printing client price_singleton = Some (Inr (singleton, info))"
    and "scheduler_of_singleton (Inr (singleton, info)) = Inr scheduler"
    by (auto simp: current_scheduler_def scheduler_of_singleton_def result_simps)
  then show ?thesis using that by (cases singleton) (auto simp: scheduler_of_singleton_def)
qed

lemma xchandles_unroll_sound:
  assumes "xchandles_unroll_state_scheduler fuel overflow_checks sdk cv mg xs xc price_singleton client wallet schedule_file
      proceed launcher_id_str local fee_str db = (Some (Returned (Inr u)), db')"
  obtains info launcher_id required_timestamp latest where
    "hex_string_to_bytes32 sdk launcher_id_str = Inr launcher_id"
    and "synced_registry fuel sdk xs client local launcher_id db = Some (Inr (ur_registry u), db')"
    and "sync_multisig_singleton fuel sdk mg unroll_printing client (price_singleton (rg_constants (ur_registry u))) =
      Some (Inr (SchedulerPhase (ur_scheduler u), info))"
    and "si_state_schedule (ss_info (ur_scheduler u)) ! si_generation (ss_info (ur_scheduler u)) = (required_timestamp, ur_new_state u)"
    and "get_last_onchain_timestamp overflow_checks client = Some (Returned (Inr latest))" and "required_timestamp \<le> latest"
proof -
  from assms obtain launcher_id scheduler new_state fee where
    "hex_string_to_bytes32 sdk launcher_id_str = Inr launcher_id"
    "synced_registry fuel sdk xs client local launcher_id db = Some (Inr (ur_registry u), db')"
    and current: "current_scheduler fuel sdk mg client (price_singleton (rg_constants (ur_registry u))) = Some (Returned (Inr scheduler))"
    and due: "state_due overflow_checks client wallet fee_str scheduler = Some (Returned (Inr (new_state, fee)))"
    and u: "ur_scheduler u = scheduler" "ur_new_state u = new_state"
    by (auto simp: xchandles_unroll_state_scheduler_def result_simps split: sum.splits option.splits prod.splits)
  moreover from current obtain info where
    "sync_multisig_singleton fuel sdk mg unroll_printing client (price_singleton (rg_constants (ur_registry u))) =
      Some (Inr (SchedulerPhase scheduler, info))" by (rule current_scheduler_Inr)
  moreover from due obtain required_timestamp latest where
    "si_state_schedule (ss_info scheduler) ! si_generation (ss_info scheduler) = (required_timestamp, new_state)"
    "get_last_onchain_timestamp overflow_checks client = Some (Returned (Inr latest))" "required_timestamp \<le> latest"
    by (rule state_due_Inr)
  ultimately show ?thesis using that by simp
qed

end
