(* ===== verification/DatastoreCommands.thy ===== *)
theory DatastoreCommands
  imports DatastoreFacts Precommit
begin

text \<open>
  The commands on a datastore: \<open>datastore/launch.rs\<close>, \<open>datastore/update.rs\<close> and \<open>datastore/view.rs\<close>, from the arguments, the files and the
  wallet to what the datastore is launched or spent with. The wallet's offer, building the spends, signing and pushing are not modelled.
\<close>

text \<open>The rest of a parsed datastore, and the puzzle hash of a key's standard puzzle.\<close>

record 'k datastore_commands_sdk =
  dw_owner_puzzle_hash :: "datastore \<Rightarrow> bytes32"
  dw_label :: "datastore \<Rightarrow> string option"
  dw_description :: "datastore \<Rightarrow> string option"
  dw_standard_hash :: "'k \<Rightarrow> bytes32"

record datastore_metadata =
  dm_root_hash :: bytes32
  dm_label :: "string option"
  dm_description :: "string option"

text \<open>The wallet's first derivation: its key, with \<open>derivations[0]\<close> panicking on an empty page.\<close>

definition active_key ::
  "('n, 'z) sdk_scheme \<Rightarrow> 'k csv_sdk \<Rightarrow> cli_error + sage \<Rightarrow> (cli_error + 'k) outcome"
where
  "active_key sdk cv wallet =
     attempt (Returned wallet) (\<lambda>sage.
     attempt (Returned (sg_derivations sage False 0 1)) (\<lambda>(derivations, count).
     attempt (unwrap (nth_checked derivations 0)) (\<lambda>derivation.
       Returned (hex_string_to_pubkey sdk cv (dv_public_key derivation)))))"

definition datastore_launch ::
  "bool \<Rightarrow> ('n, 'z) sdk_scheme \<Rightarrow> 't merkle_sdk \<Rightarrow> 'k csv_sdk \<Rightarrow> 'k datastore_commands_sdk \<Rightarrow> cli_error + sage
    \<Rightarrow> cli_error + unit \<Rightarrow> csv_file \<Rightarrow> string option \<Rightarrow> string option \<Rightarrow> string
    \<Rightarrow> (cli_error + datastore_metadata \<times> bytes32 \<times> u64) outcome"
where
  "datastore_launch overflow_checks sdk ms cv dw wallet proceed csv label description fee_str =
     attempt (Returned (load_and_dedupe_csv ms cv csv)) (\<lambda>records.
     attempt (Returned (build_root_hash ms records)) (\<lambda>root_hash.
     attempt (parse_amount overflow_checks fee_str False) (\<lambda>fee.
     attempt (active_key sdk cv wallet) (\<lambda>owner_pk.
     attempt (Returned proceed) (\<lambda>_.
       Returned (Inr (\<lparr>dm_root_hash = root_hash, dm_label = label, dm_description = description\<rparr>,
         dw_standard_hash dw owner_pk, fee)))))))"

definition checked_old_root ::
  "('n, 'z) sdk_scheme \<Rightarrow> 't merkle_sdk \<Rightarrow> datastore_nft_record list \<Rightarrow> datastore \<Rightarrow> cli_error + unit"
where
  "checked_old_root sdk ms old_records datastore =
     try_result (build_root_hash ms old_records) (\<lambda>old_root_hash.
       if old_root_hash \<noteq> ds_root_hash datastore
       then Inl (Custom (''Old CSV merkle root ('' @ hex32 sdk old_root_hash @ '') does not match on-chain root_hash ('' @
              hex32 sdk (ds_root_hash datastore) @ '')''))
       else Inr ())"

definition datastore_update ::
  "bool \<Rightarrow> ('n, 'z) sdk_scheme \<Rightarrow> 't merkle_sdk \<Rightarrow> 'k csv_sdk \<Rightarrow> 'k datastore_commands_sdk \<Rightarrow> datastore_parser \<Rightarrow> client
    \<Rightarrow> cli_error + sage \<Rightarrow> cli_error + unit \<Rightarrow> string \<Rightarrow> csv_file \<Rightarrow> csv_file \<Rightarrow> string option \<Rightarrow> string option \<Rightarrow> string
    \<Rightarrow> (cli_error + datastore \<times> 'k \<times> datastore_metadata \<times> u64) outcome"
where
  "datastore_update overflow_checks sdk ms cv dw from_spend client wallet proceed launcher_id_str old_csv new_csv
       label description fee_str =
     attempt (Returned (hex_string_to_bytes32 sdk launcher_id_str)) (\<lambda>launcher_id.
     attempt (Returned (load_and_dedupe_csv ms cv old_csv)) (\<lambda>old_records.
     attempt (Returned (load_and_dedupe_csv ms cv new_csv)) (\<lambda>new_records.
     attempt (Returned (validate_update_csvs ms old_records new_records)) (\<lambda>_.
     attempt (parse_amount overflow_checks fee_str False) (\<lambda>fee.
     attempt (Returned (sync_datastore sdk from_spend client launcher_id oracle_delegated_puzzles)) (\<lambda>datastore.
     attempt (Returned (checked_old_root sdk ms old_records datastore)) (\<lambda>_.
     attempt (active_key sdk cv wallet) (\<lambda>owner_pk.
     if dw_owner_puzzle_hash dw datastore \<noteq> dw_standard_hash dw owner_pk
     then Returned (Inl (Custom ''Active wallet is not the datastore owner''))
     else
       attempt (Returned (build_root_hash ms new_records)) (\<lambda>root_hash.
       attempt (Returned proceed) (\<lambda>_.
         Returned (Inr (datastore, owner_pk,
           \<lparr>dm_root_hash = root_hash,
            dm_label = (case label of Some l \<Rightarrow> Some l | None \<Rightarrow> dw_label dw datastore),
            dm_description = (case description of Some d \<Rightarrow> Some d | None \<Rightarrow> dw_description dw datastore)\<rparr>,
           fee))))))))))))"

definition datastore_view ::
  "('n, 'z) sdk_scheme \<Rightarrow> 'k datastore_commands_sdk \<Rightarrow> (bytes32 \<Rightarrow> cli_error + string) \<Rightarrow> datastore_parser \<Rightarrow> client \<Rightarrow> string
    \<Rightarrow> cli_error + datastore \<times> string"
where
  "datastore_view sdk dw encode_address from_spend client launcher_id_str =
     try_result (hex_string_to_bytes32 sdk launcher_id_str) (\<lambda>launcher_id.
     try_result (sync_datastore sdk from_spend client launcher_id oracle_delegated_puzzles) (\<lambda>datastore.
     try_result (encode_address (dw_owner_puzzle_hash dw datastore)) (\<lambda>owner_address. Inr (datastore, owner_address))))"

section \<open>What an update keeps\<close>

lemma load_and_dedupe_Inr:
  "load_and_dedupe_csv ms cv file = Inr records \<longleftrightarrow>
     load_datastore_nft_csv cv file = Inr records \<and> distinct (map dn_nft_id records)"
  by (auto simp: load_and_dedupe_csv_def result_simps reject_duplicates_Inr)

text \<open>
  An update goes on only from the whitelist that is on chain: the old file's root is the datastore's, the wallet's key owns it, and the
  new root is that of a whitelist without repetitions which still lists every NFT of the old one.
\<close>

lemma datastore_update_sound:
  assumes "datastore_update overflow_checks sdk ms cv dw from_spend client wallet proceed launcher_id_str old_csv new_csv
      label description fee_str = Returned (Inr (datastore, owner_pk, metadata, fee))"
  obtains old_records new_records launcher_id where
    "load_datastore_nft_csv cv old_csv = Inr old_records" and "load_datastore_nft_csv cv new_csv = Inr new_records"
    and "hex_string_to_bytes32 sdk launcher_id_str = Inr launcher_id"
    and "sync_datastore sdk from_spend client launcher_id oracle_delegated_puzzles = Inr datastore"
    and "build_root_hash ms old_records = Inr (ds_root_hash datastore)"
    and "build_root_hash ms new_records = Inr (dm_root_hash metadata)"
    and "distinct (map dn_nft_id new_records)" and "dn_nft_id ` set old_records \<subseteq> dn_nft_id ` set new_records"
    and "active_key sdk cv wallet = Returned (Inr owner_pk)"
    and "dw_owner_puzzle_hash dw datastore = dw_standard_hash dw owner_pk"
  using assms
  by (auto simp: datastore_update_def checked_old_root_def result_simps load_and_dedupe_Inr validate_update_exact split: if_splits)

text \<open>
  Runs of the command one after the other, each on the datastore the one before made: its root is the root of the metadata spent with. The
  runs are listed by the rows of their two files.
\<close>

type_synonym whitelist_runs = "(datastore_nft_record list \<times> datastore_nft_record list) list"

inductive datastore_history ::
  "('n, 'z) sdk_scheme \<Rightarrow> 't merkle_sdk \<Rightarrow> 'k csv_sdk \<Rightarrow> 'k datastore_commands_sdk \<Rightarrow> datastore_parser \<Rightarrow> bytes32
    \<Rightarrow> whitelist_runs \<Rightarrow> bool"
  for sdk ms cv dw from_spend
where
  no_update: "datastore_history sdk ms cv dw from_spend root []"
| update: "datastore_update overflow_checks sdk ms cv dw from_spend client wallet proceed launcher_id_str old_csv new_csv
      label description fee_str = Returned (Inr (datastore, owner_pk, metadata, fee))
    \<Longrightarrow> load_datastore_nft_csv cv old_csv = Inr old_records \<Longrightarrow> load_datastore_nft_csv cv new_csv = Inr new_records
    \<Longrightarrow> datastore_history sdk ms cv dw from_spend (dm_root_hash metadata) runs
    \<Longrightarrow> datastore_history sdk ms cv dw from_spend (ds_root_hash datastore) ((old_records, new_records) # runs)"

text \<open>A run whose old file is not the one the run before it put on chain, although the roots are the same.\<close>

definition root_collision :: "'t merkle_sdk \<Rightarrow> whitelist_runs \<Rightarrow> bool" where
  "root_collision ms runs \<longleftrightarrow> (\<exists>i. Suc i < length runs \<and> set (snd (runs ! i)) \<noteq> set (fst (runs ! Suc i)) \<and>
     build_root_hash ms (snd (runs ! i)) = build_root_hash ms (fst (runs ! Suc i)))"

lemma root_collision_Cons: "root_collision ms runs \<Longrightarrow> root_collision ms (run # runs)"
  by (auto simp: root_collision_def intro: exI [of _ "Suc i" for i])

lemma root_collision_first:
  assumes "build_root_hash ms new_records = build_root_hash ms old_records'" and "\<not> root_collision ms ((old_records, new_records) # (old_records', new') # runs)"
  shows "set new_records = set old_records'"
  using assms by (force simp: root_collision_def)

lemma history_first_root:
  "datastore_history sdk ms cv dw from_spend root ((old_records, new_records) # runs) \<Longrightarrow> build_root_hash ms old_records = Inr root"
  by (erule datastore_history.cases) (auto elim!: datastore_update_sound)

text \<open>
  C9. No whitelisted NFT is ever dropped: along any number of runs of the update command, each on the datastore the one before made, every NFT
  of the first file is listed in the last one, with its weight there, unless two of the files with different rows have the same Merkle root.
\<close>

theorem whitelist_never_shrinks:
  assumes "datastore_history sdk ms cv dw from_spend root runs" and "runs \<noteq> []" and "\<not> root_collision ms runs"
  shows "dn_nft_id ` set (fst (hd runs)) \<subseteq> dn_nft_id ` set (snd (last runs))"
  using assms
proof (induction rule: datastore_history.induct)
  case (update overflow_checks client wallet proceed launcher_id_str old_csv new_csv label description fee_str datastore
      owner_pk metadata fee old_records new_records runs)
  from update.hyps(1-3) have kept: "dn_nft_id ` set old_records \<subseteq> dn_nft_id ` set new_records"
    and root: "build_root_hash ms new_records = Inr (dm_root_hash metadata)"
    by (elim datastore_update_sound, simp)+
  show ?case
  proof (cases runs)
    case Nil
    then show ?thesis using kept by simp
  next
    case (Cons run rest)
    obtain old' new' where run: "run = (old', new')" by (cases run)
    have "build_root_hash ms old' = Inr (dm_root_hash metadata)"
      using update.hyps(4) unfolding Cons run by (rule history_first_root)
    then have "set new_records = set old'"
      using root_collision_first [of ms new_records old' old_records new' rest] root update.prems(2) by (simp add: Cons run)
    moreover have "dn_nft_id ` set (fst (hd runs)) \<subseteq> dn_nft_id ` set (snd (last runs))"
    proof -
      have "\<not> root_collision ms runs" using update.prems(2) root_collision_Cons by blast
      with update.IH show ?thesis by (simp add: Cons)
    qed
    ultimately show ?thesis using kept by (auto simp: Cons run)
  qed
qed simp

text \<open>
  For the witness: a cell is read by its length, a datastore has the root in its spend's solution, and the wallet owns all of them. First NFT 2
  is added, then the weight of NFT 1 is set to 0.
\<close>

definition listed_cv :: "unit csv_sdk" where
  "listed_cv = \<lparr>cv_address_decode = (\<lambda>s. Some (''nft'', word_of_nat (length s))), cv_u64 = (\<lambda>s. Some (word_of_nat (length s))),
     cv_u8 = (\<lambda>_. None), cv_pubkey_from_bytes = (\<lambda>_. Some ())\<rparr>"

definition listed_row :: "nat \<Rightarrow> nat \<Rightarrow> csv_row option" where
  "listed_row nft weight = Some (\<lambda>column. Some (replicate (if column = ''nft_id'' then nft else weight) CHR ''a''))"

definition listed_dw :: "unit datastore_commands_sdk" where
  "listed_dw = \<lparr>dw_owner_puzzle_hash = (\<lambda>_. 3), dw_label = (\<lambda>_. None), dw_description = (\<lambda>_. None), dw_standard_hash = (\<lambda>_. 3)\<rparr>"

definition listed_parser :: datastore_parser where
  "listed_parser = (\<lambda>cs _. Inr (Some \<lparr>ds_coin = spend_coin cs, ds_launcher_id = 1, ds_root_hash = bytes32_new (spend_solution cs)\<rparr>))"

definition listed_client :: "bytes32 \<Rightarrow> client" where
  "listed_client root = example_client
     \<lparr>cl_coin_records_by_hint := (\<lambda>_. Inr (Some [])),
      cl_coin_record_by_name := (\<lambda>_. Inr (Some \<lparr>cr_coin = example_spent_coin, cr_confirmed_block_index = 10,
          cr_spent_block_index = 20, cr_spent = True\<rparr>)),
      cl_puzzle_and_solution := (\<lambda>_ _. Inr (Some \<lparr>spend_coin = example_spent_coin, puzzle_reveal = [],
          spend_solution = to_bytes root\<rparr>))\<rparr>"

definition listed_sage :: sage where
  "listed_sage = \<lparr>sg_check_address = (\<lambda>_. Inr True),
     sg_derivations = (\<lambda>_ _ _. Inr ([\<lparr>dv_address = ''xch1'', dv_public_key = sdk_hex_encode fixture_sdk (replicate 48 0)\<rparr>], 1))\<rparr>"

abbreviation listed_records :: "(bytes32 \<times> u64) list \<Rightarrow> datastore_nft_record list" where
  "listed_records \<equiv> records_from_entries"

lemma listed_file:
  "load_datastore_nft_csv listed_cv (Inr (map (\<lambda>(nft, weight). listed_row nft weight) rows)) =
     Inr (listed_records (map (\<lambda>(nft, weight). (word_of_nat nft, word_of_nat weight)) rows))"
  by (induction rows) (auto simp: load_datastore_nft_csv_def load_csv_def listed_row_def decode_nft_id_def listed_cv_def records_from_entries_def)

lemma listed_update:
  assumes "validate_update_csvs example_merkle old_records new_records = Inr ()"
    and "build_root_hash example_merkle old_records = Inr root" and "build_root_hash example_merkle new_records = Inr root'"
    and "load_datastore_nft_csv listed_cv old_csv = Inr old_records" and "load_datastore_nft_csv listed_cv new_csv = Inr new_records"
    and "datastore_history fixture_sdk example_merkle listed_cv listed_dw listed_parser root' runs"
  shows "datastore_history fixture_sdk example_merkle listed_cv listed_dw listed_parser root ((old_records, new_records) # runs)"
proof -
  let ?datastore = "\<lparr>ds_coin = example_spent_coin, ds_launcher_id = 1, ds_root_hash = root\<rparr>"
  let ?metadata = "\<lparr>dm_root_hash = root', dm_label = None, dm_description = None\<rparr>"
  have "active_key fixture_sdk listed_cv (Inr listed_sage) = Returned (Inr ())"
  proof -
    have "CHR ''x'' \<notin> set (sdk_hex_encode fixture_sdk (replicate 48 0))"
      using fixture_hex_codec_ok by (auto simp: hex_codec_ok_def hex_digits_def)
    note plain = remove_0x_id [OF this]
    have "hex_string_to_pubkey fixture_sdk listed_cv (sdk_hex_encode fixture_sdk (replicate 48 0)) = Inr ()"
      unfolding hex_string_to_pubkey_def plain hex_laws(2) [OF fixture_hex_codec_ok] by (simp add: listed_cv_def)
    then show ?thesis by (simp add: active_key_def listed_sage_def nth_checked_def)
  qed
  moreover have "sync_datastore fixture_sdk listed_parser (listed_client root) 1 oracle_delegated_puzzles = Inr ?datastore"
    by (simp add: sync_datastore_def required_def listed_client_def listed_parser_def)
  ultimately have "datastore_update True fixture_sdk example_merkle listed_cv listed_dw listed_parser (listed_client root)
      (Inr listed_sage) (Inr ()) (hex32 fixture_sdk 1) old_csv new_csv None None ''0.0'' =
      Returned (Inr (?datastore, (), ?metadata, 0))"
    using assms(1-5)
    by (auto simp: datastore_update_def hex_string_roundtrip [OF fixture_hex_codec_ok] zero_amount checked_old_root_def
        listed_dw_def load_and_dedupe_csv_def validate_update_csvs_def result_simps)
  from update [OF this assms(4,5)] assms(6) show ?thesis by simp
qed

lemma whitelist_never_shrinks_witness:
  "\<exists>root. datastore_history fixture_sdk example_merkle listed_cv listed_dw listed_parser root
      [(listed_records [(1, 5)], listed_records [(1, 5), (2, 7)]), (listed_records [(1, 5), (2, 7)], listed_records [(1, 0), (2, 7)])] \<and>
    1 \<in> dn_nft_id ` set (listed_records [(1, 0), (2, 7)])"
proof -
  let ?a = "listed_records [(1, 5)]" and ?b = "listed_records [(1, 5), (2, 7)]" and ?c = "listed_records [(1, 0), (2, 7)]"
  have files: "load_datastore_nft_csv listed_cv (Inr [listed_row 1 5]) = Inr ?a"
    "load_datastore_nft_csv listed_cv (Inr [listed_row 1 5, listed_row 2 7]) = Inr ?b"
    "load_datastore_nft_csv listed_cv (Inr [listed_row 1 0, listed_row 2 7]) = Inr ?c"
    using listed_file [of "[(1, 5)]"] listed_file [of "[(1, 5), (2, 7)]"] listed_file [of "[(1, 0), (2, 7)]"] by simp_all
  obtain root root' root'' where roots: "build_root_hash example_merkle ?a = Inr root" "build_root_hash example_merkle ?b = Inr root'"
    "build_root_hash example_merkle ?c = Inr root''"
    by (simp add: build_root_hash_Inr records_from_entries_def)
  have "validate_update_csvs example_merkle ?a ?b = Inr ()" "validate_update_csvs example_merkle ?b ?c = Inr ()"
    by (auto simp: validate_update_exact records_from_entries_def)
  then have history: "datastore_history fixture_sdk example_merkle listed_cv listed_dw listed_parser root [(?a, ?b), (?b, ?c)]"
    using roots files no_update by (blast intro: listed_update)
  moreover have "\<not> root_collision example_merkle [(?a, ?b), (?b, ?c)]"
    by (auto simp: root_collision_def less_Suc_eq)
  ultimately have "dn_nft_id ` set (fst (hd [(?a, ?b), (?b, ?c)])) \<subseteq> dn_nft_id ` set (snd (last [(?a, ?b), (?b, ?c)]))"
    by (intro whitelist_never_shrinks) simp_all
  with history show ?thesis by (auto simp: records_from_entries_def)
qed

end
