(* ===== verification/Spec2Isabelle.thy ===== *)
theory Spec2Isabelle
  imports IndexerRollback IndexerFollow IndexerProjection IndexerReach IndexerUndo ListenerPaging
    DatabaseFacts DbStores XchSyncFacts ListenFacts PremineTiming DatastoreFacts
    CatalogListen CatalogVerify XchVerifyFacts DistributorCommandFacts XchCommandFacts
    CatalogCommandFacts LaunchInitiationFacts VaultCommandFacts SchedulerCommands DatastoreCommands
begin

text \<open>
  The verification development of slot-machine, the command line tool behind the CATalog, XCHandles and
  reward distributor singletons of the Chia blockchain. Paths below are under \<open>src/src/cli\<close>.

  \<^bold>\<open>The program.\<close> A registry is a singleton: a coin that every spend replaces by a child. Its spends run actions
  that consume and create \<^emph>\<open>slots\<close>, coins that hold one entry each and name their neighbours. The tool walks
  a registry from its launcher (or from the tip its SQLite database saved) to its unspent tip and keeps the
  slots in the database; the listeners go on with every new peak and serve the neighbours of an entry over HTTP.
  The XCHandles listener also indexes the singletons the handles point to, the registrations and the pending
  updates, rolls all of it back on a reorganization, and answers a larger HTTP API. Around this are the commands
  that launch the two registries and verify a launch, follow the price singleton, manage a distributor's slots
  and keep a whitelist.

  \<^bold>\<open>What is a parameter.\<close> Running CLVM, parsing puzzles and spends and computing tree hashes is the chia SDK's:
  records of functions (\<open>sdk_scheme\<close> in Chain, \<open>registry_sdk\<close> in XchSync, \<open>catalog_sdk\<close> in CatalogSync,
  \<open>multisig_sdk\<close>, \<open>launch_sdk\<close>, \<open>catalog_verify_sdk\<close>, \<open>registry_verify_sdk\<close>, \<open>csv_sdk\<close>, \<open>distributor_sdk\<close>).
  The full node is the record \<open>client\<close> (Coinset), the wallet \<open>sage\<close> (Datastore), the civil calendar
  \<open>calendar\<close> (PremineTiming). What a theorem relies on of them is its hypothesis, and its witness is an instance
  (Fixture and the \<open>example\<close> definitions). The order of a \<open>HashSet\<close> is a parameter \<open>hash_order\<close>.

  \<^bold>\<open>Conventions.\<close> Machine integers are words; \<open>overflow_checks\<close> tells builds that panic on overflow from those
  that wrap. \<open>cli_error + 'a\<close> is a \<open>Result\<close>, \<open>try_result\<close> its \<open>?\<close>; an \<open>outcome\<close> may be \<open>Panicked\<close>; \<open>None\<close> in a
  result \<open>option\<close> is a computation that has not ended: with \<open>fuel\<close>, that the turns given were too few, and for
  \<open>partial_function\<close>, that it never ends. A \<open>db_result\<close> also carries the database, so that what an early error
  leaves behind is part of the model.

  \<^bold>\<open>The theories, bottom up.\<close>
  \<^item> Prelude: results, outcomes, options, the collection \<open>result_simps\<close>. Chain: coins, singletons, slots, action
    logs. Decimal, History: decimal parsing and the bounded histories shared by the stores.
  \<^item> CliUtils (\<open>utils.rs\<close>), Database and DatabaseFacts (\<open>database.rs\<close>, every table a list of rows, the statements
    with their conflicts and orders), Coinset (the node), CsvFiles (\<open>csv.rs\<close>).
  \<^item> The XCHandles listener, \<open>xchandles/listener/\<close>: ListenerTypes, ApiError, Freshness, PriceSchedule,
    AuctionPricing, Discovery, SingletonStore, HandleStore, RegistrationStore, PendingStore (the in-memory
    stores), DbStores (the stores over the database, with the refinement between the two), Refs, Indexer
    (\<open>index.rs\<close>) with the facts about it in IndexerFollow, IndexerProjection, IndexerRollback, IndexerOwned (whose states
    a record holds), IndexerReach (the invariant of the reachable states) and IndexerUndo (a whole block undone),
    ListenerApi (\<open>api.rs\<close>) with ListenerApiFacts and ListenerPaging.
  \<^item> XchSync and XchSyncFacts (\<open>xchandles/sync.rs\<close>), Listen and ListenFacts (\<open>xchandles/listen.rs\<close>).
  \<^item> ChainWalk: the locale of a loop that follows a singleton (one turn, an end or a next state), its induction
    rules proved once; XchSync's, CatalogSync's and MultisigSync's loops are interpretations. CatalogSync and
    CatalogSyncFacts (\<open>catalog/sync.rs\<close>), QuickSync (both \<open>quick_sync.rs\<close>), CatalogListen (\<open>catalog/listen.rs\<close>),
    MultisigSync (\<open>multisig/sync.rs\<close>).
  \<^item> PremineTiming (\<open>xchandles/premine_timing.rs\<close>), LaunchSteps (what both \<open>continue_launch.rs\<close> share), XchLaunch and
    XchLaunchFacts, CatalogLaunch, CatalogVerify, XchVerify and XchVerifyFacts (both \<open>verify_deployment.rs\<close>).
  \<^item> Datastore and DatastoreFacts (\<open>datastore/\<close>, \<open>reward_distributor/helpers.rs\<close>), DistributorSync and
    DistributorFacts (\<open>reward_distributor/sync_distributor.rs\<close>), DistributorCommands and DistributorCommandFacts
    (the commands of \<open>reward_distributor/\<close> up to what they hand to the SDK's actions).
  \<^item> ApiClients (the clients of the listeners' HTTP API), Precommit (finding and paying a precommitment), CatalogCommands
    and CatalogCommandFacts (\<open>catalog/register.rs\<close>), XchCommands and XchCommandFacts (\<open>register.rs\<close>,
    \<open>expire.rs\<close>, \<open>extend.rs\<close> and the two updates of \<open>xchandles/\<close>, from the arguments to the payment or the action).
  \<^item> LaunchInitiation and LaunchInitiationFacts (both \<open>initiate_launch.rs\<close>), VaultCommands and VaultCommandFacts (signing and
    broadcasting in \<open>multisig/\<close>, the state updates of \<open>catalog/\<close> and \<open>xchandles/\<close>, verifying, viewing and launching a vault),
    SchedulerCommands (both \<open>unroll_state_scheduler.rs\<close>, \<open>xchandles/view.rs\<close>), DatastoreCommands (the commands of \<open>datastore/\<close>).

  \<^bold>\<open>What the lemmas show.\<close>
  \<^item> The index: an invariant of every reachable state, what a block changes in each store, that a rollback
    undoes a block and forgets everything orphaned, and where the bounded histories stop being enough.
  \<^item> The stores: the bounded history refines an unbounded log inside the 32-block window, the database stores
    refine the in-memory ones.
  \<^item> The API: no read of the chain is answered while the index is stale, proofs and transfers are served exactly when they can
    be used, the listings and their cursors enumerate, the premium is the puzzle's.
  \<^item> The walks: they end at the unspent tip given more turns than spends, and afterwards the tables answer for the
    chain's current slots, for XCHandles and for the CATalog. Two entry points that look for pending spends are
    shown never to see one.
  \<^item> The launch: a batch registered is the file's next one, and a deployment that verifies is the file's; what
    the start of the launch mints is enough for every batch committed later.
  \<^item> The vault and the datastore: the signatures printed one by one are what the broadcast reads and spends the vault with; updates of a
    whitelist never drop an NFT.
  \<^item> The distributor: the slot searches find what they should, and when they do not end; what
    staking, refreshing and committing rewards hand on is what the chain and the whitelist say.
  \<^item> The registration commands: the second run of a registration finds what the first one paid and never pays again, what
    it spends was paid for these terms and may be spent, a lost race is refunded whatever the price is by then; which slot a client of the API
    gets.

  \<^bold>\<open>Bounds and fuel.\<close> Walks take \<open>fuel\<close> turns. The theorems about them ask for more turns than the chain has
  spends (XchSync, CatalogSync) or show a bound that always suffices (\<open>multisig_sync_ends\<close>: one turn for every
  scheduled state and one more). Polling for a height takes the list of the node's answers. The histories hold
  32 blocks, the registration feed 50 events, the window of peaks 32, as the code has them.

  \<^bold>\<open>Not modelled.\<close> The clap definitions, printing and prompts, the websocket and HTTP transports, the JSON of
  the services, building, signing and pushing spends (the SDK's and the wallet's). Of the commands that ask the wallet
  for an offer and push SDK spends the model stops where the SDK's action begins: what it is given is
  part of the model, the coin spends it builds are not. The view of a distributor only prints.
\<close>

end
